(* ===== verification/Prelude.thy ===== *)
theory Prelude imports Main "HOL-Library.AList" "HOL-Library.Multiset" begin

text \<open>
  Shared foundations of the development: results of code that may throw, with the loops
  over them, and JavaScript maps as insertion-ordered association lists.
\<close>

named_theorems res_simps "reading results of throwing code"

section \<open>Throwing code\<close>

text \<open>
  An exception is a value of \<open>js_error\<close>; its constructor is the class thrown and its
  argument the message. The operators work for any type of errors.
\<close>

datatype js_error =
    ProjectionError string
  | ConfigError string
  | TypeError string
  | SyntaxError string

type_synonym 'a res = "js_error + 'a"

definition bindR :: "'e + 'a \<Rightarrow> ('a \<Rightarrow> 'e + 'b) \<Rightarrow> 'e + 'b" where
  "bindR m f = (case m of Inl e \<Rightarrow> Inl e | Inr x \<Rightarrow> f x)"

declare bindR_def [code_unfold]

lemma bindR_simps [simp]: "bindR (Inl e) f = Inl e" "bindR (Inr x) f = f x"
  by (simp_all add: bindR_def)

lemma bindR_Inr_iff [res_simps]:
  "bindR m f = Inr y \<longleftrightarrow> (\<exists>x. m = Inr x \<and> f x = Inr y)"
  by (cases m) auto

lemma bindR_Inl_iff:
  "bindR m f = Inl e \<longleftrightarrow> m = Inl e \<or> (\<exists>x. m = Inr x \<and> f x = Inl e)"
  by (cases m) auto

lemma bindR_cong [fundef_cong]:
  "m = m' \<Longrightarrow> (\<And>x. m' = Inr x \<Longrightarrow> f x = f' x) \<Longrightarrow> bindR m f = bindR m' f'"
  by (cases m') auto

text \<open>\<open>Array.prototype.map\<close> and a \<open>for\<close> loop whose body may throw.\<close>

fun mapR :: "('a \<Rightarrow> 'e + 'b) \<Rightarrow> 'a list \<Rightarrow> 'e + 'b list" where
  "mapR f [] = Inr []"
| "mapR f (x # xs) = bindR (f x) (\<lambda>y. bindR (mapR f xs) (\<lambda>ys. Inr (y # ys)))"

fun foldR :: "('s \<Rightarrow> 'a \<Rightarrow> 'e + 's) \<Rightarrow> 's \<Rightarrow> 'a list \<Rightarrow> 'e + 's" where
  "foldR f s [] = Inr s"
| "foldR f s (x # xs) = bindR (f s x) (\<lambda>s'. foldR f s' xs)"

lemma foldR_append: "foldR f s (xs @ ys) = bindR (foldR f s xs) (\<lambda>s'. foldR f s' ys)"
proof (induction xs arbitrary: s)
  case (Cons x xs)
  then show ?case by (cases "f s x") auto
qed simp

lemma foldR_invariant:
  assumes "foldR f s xs = Inr t" and "I s"
    and "\<And>s x s'. x \<in> set xs \<Longrightarrow> I s \<Longrightarrow> f s x = Inr s' \<Longrightarrow> I s'"
  shows "I t"
  using assms
proof (induction xs arbitrary: s)
  case (Cons x xs)
  from Cons.prems(1) obtain s' where step: "f s x = Inr s'" and rest: "foldR f s' xs = Inr t"
    by (auto simp: bindR_Inr_iff)
  have "I s'" using Cons.prems(2,3) step by auto
  with rest show ?case using Cons.IH Cons.prems(3) by (meson list.set_intros(2))
qed simp

section \<open>JavaScript maps\<close>

text \<open>
  A \<open>Map\<close>, and an object used as a dictionary with string keys that are not array
  indices, iterates in insertion order: \<open>set\<close> on a present key keeps its place, on an
  absent one appends. \<open>AList.update\<close> is that operation.
\<close>

type_synonym ('k, 'v) jsmap = "('k \<times> 'v) list"

abbreviation jget :: "('k, 'v) jsmap \<Rightarrow> 'k \<Rightarrow> 'v option" where
  "jget m k \<equiv> map_of m k"

abbreviation jset :: "'k \<Rightarrow> 'v \<Rightarrow> ('k, 'v) jsmap \<Rightarrow> ('k, 'v) jsmap" where
  "jset k v m \<equiv> AList.update k v m"

abbreviation jdelete :: "'k \<Rightarrow> ('k, 'v) jsmap \<Rightarrow> ('k, 'v) jsmap" where
  "jdelete k m \<equiv> AList.delete k m"

abbreviation jkeys :: "('k, 'v) jsmap \<Rightarrow> 'k list" where
  "jkeys m \<equiv> map fst m"

abbreviation jvalues :: "('k, 'v) jsmap \<Rightarrow> 'v list" where
  "jvalues m \<equiv> map snd m"

text \<open>In-place update of every value of a dictionary (\<open>for (const v of Object.values(m))\<close>).\<close>

definition jupdate_values :: "('v \<Rightarrow> 'v) \<Rightarrow> ('k, 'v) jsmap \<Rightarrow> ('k, 'v) jsmap" where
  "jupdate_values f m = map (\<lambda>(k, v). (k, f v)) m"

lemma jkeys_jupdate_values [simp]: "jkeys (jupdate_values f m) = jkeys m"
  by (auto simp: jupdate_values_def)

lemma jget_jupdate_values [simp]: "jget (jupdate_values f m) k = map_option f (jget m k)"
  by (induction m) (auto simp: jupdate_values_def)

lemma set_jupdate_values: "set (jupdate_values f m) = (\<lambda>(k, v). (k, f v)) ` set m"
  by (simp add: jupdate_values_def)

lemma jupdate_values_Nil [simp]: "jupdate_values f [] = []"
  by (simp add: jupdate_values_def)

lemma jget_jset [simp]: "jget (jset k v m) k' = (if k' = k then Some v else jget m k')"
  by (simp add: update_conv')

lemma jget_jdelete [simp]: "jget (jdelete k m) k' = (if k' = k then None else jget m k')"
  by (simp add: delete_conv')

lemma set_jset_distinct:
  "distinct (jkeys m) \<Longrightarrow> set (jset k v m) = insert (k, v) {p \<in> set m. fst p \<noteq> k}"
  by (induction m) force+

lemma set_jset_subset: "set (jset k v m) \<subseteq> insert (k, v) (set m)"
  by (induction m) auto

lemma set_jdelete [simp]: "set (jdelete k m) = {p \<in> set m. fst p \<noteq> k}"
  by (auto simp: AList.delete_eq)

lemma distinct_jset [intro, simp]: "distinct (jkeys m) \<Longrightarrow> distinct (jkeys (jset k v m))"
  by (rule distinct_update)

lemma distinct_jdelete [intro, simp]: "distinct (jkeys m) \<Longrightarrow> distinct (jkeys (jdelete k m))"
  by (rule distinct_delete)

lemma jget_Some_in: "jget m k = Some v \<Longrightarrow> (k, v) \<in> set m"
  by (rule map_of_SomeD)

lemma jget_in_iff: "distinct (jkeys m) \<Longrightarrow> jget m k = Some v \<longleftrightarrow> (k, v) \<in> set m"
  by simp

lemma jget_None_iff: "jget m k = None \<longleftrightarrow> k \<notin> set (jkeys m)"
  by (simp add: map_of_eq_None_iff)

end
