(* ===== verification/Strings.thy ===== *)
theory Strings imports Prelude begin

text \<open>
  Strings of the source as character lists: decimal printing and reading of numbers,
  \<open>toLowerCase\<close>, template keys joined with a colon, and \<open>localeCompare\<close>. The strings
  the services compare and key on are ASCII (hex words, decimal numbers, identifiers).
\<close>

section \<open>Decimal numbers\<close>

definition digit_char :: "nat \<Rightarrow> char" where
  "digit_char d = char_of (48 + d)"

definition is_digit :: "char \<Rightarrow> bool" where
  "is_digit c \<longleftrightarrow> 48 \<le> (of_char c :: nat) \<and> (of_char c :: nat) \<le> 57"

definition digit_value :: "char \<Rightarrow> nat" where
  "digit_value c = of_char c - 48"

fun dec_nat :: "nat \<Rightarrow> string" where
  "dec_nat n = (if n < 10 then [digit_char n] else dec_nat (n div 10) @ [digit_char (n mod 10)])"

declare dec_nat.simps [simp del]

text \<open>\<open>BigInt.prototype.toString\<close> and \<open>Number.prototype.toString\<close> of an integer.\<close>

definition dec_int :: "int \<Rightarrow> string" where
  "dec_int i = (if i < 0 then CHR ''-'' # dec_nat (nat (- i)) else dec_nat (nat i))"

definition parse_nat :: "string \<Rightarrow> nat" where
  "parse_nat s = foldl (\<lambda>n c. 10 * n + digit_value c) 0 s"

definition all_digits :: "string \<Rightarrow> bool" where
  "all_digits s \<longleftrightarrow> s \<noteq> [] \<and> list_all is_digit s"

lemma of_char_digit_char [simp]: "d < 10 \<Longrightarrow> (of_char (digit_char d) :: nat) = 48 + d"
  by (simp add: digit_char_def)

lemma digit_char_is_digit [simp]: "d < 10 \<Longrightarrow> is_digit (digit_char d)"
  by (simp add: is_digit_def)

lemma digit_value_digit_char [simp]: "d < 10 \<Longrightarrow> digit_value (digit_char d) = d"
  by (simp add: digit_value_def)

lemma parse_nat_append: "parse_nat (s @ [c]) = 10 * parse_nat s + digit_value c"
  by (simp add: parse_nat_def)

lemma parse_dec_nat [simp]: "parse_nat (dec_nat n) = n"
proof (induction n rule: dec_nat.induct)
  case (1 n)
  show ?case
  proof (cases "n < 10")
    case True
    then show ?thesis by (simp add: dec_nat.simps [of n] parse_nat_def)
  next
    case False
    with 1 show ?thesis by (simp add: dec_nat.simps [of n] parse_nat_append)
  qed
qed

lemma dec_nat_digits: "list_all is_digit (dec_nat n)"
proof (induction n rule: dec_nat.induct)
  case (1 n)
  then show ?case by (cases "n < 10") (simp_all add: dec_nat.simps [of n])
qed

lemma dec_nat_nonempty [simp]: "dec_nat n \<noteq> []"
  by (simp add: dec_nat.simps [of n])

lemma dec_nat_inj [simp]: "dec_nat m = dec_nat n \<longleftrightarrow> m = n"
  by (metis parse_dec_nat)

lemma minus_notin_dec_nat: "CHR ''-'' \<notin> set (dec_nat n)"
  using dec_nat_digits [of n] by (auto simp: list_all_iff is_digit_def)

lemma colon_notin_dec_nat: "CHR '':'' \<notin> set (dec_nat n)"
  using dec_nat_digits [of n] by (auto simp: list_all_iff is_digit_def)

lemma hd_dec_nat: "hd (dec_nat n) \<noteq> CHR ''-''"
  using minus_notin_dec_nat [of n] by (metis dec_nat_nonempty hd_in_set)

lemma dec_int_inj [simp]: "dec_int i = dec_int j \<longleftrightarrow> i = j"
proof
  assume eq: "dec_int i = dec_int j"
  have "i < 0 \<longleftrightarrow> j < 0"
    using eq hd_dec_nat by (auto simp: dec_int_def split: if_splits) (metis list.sel(1))+
  with eq show "i = j" by (auto simp: dec_int_def split: if_splits)
qed simp

lemma colon_notin_dec_int: "CHR '':'' \<notin> set (dec_int i)"
  by (simp add: dec_int_def colon_notin_dec_nat)

text \<open>
  \<open>BigInt(text)\<close> of a decimal string, the only form the projections hand it: an
  optional minus sign and digits.
\<close>

definition parse_bigint :: "string \<Rightarrow> int option" where
  "parse_bigint s =
     (case s of
        [] \<Rightarrow> Some 0
      | c # cs \<Rightarrow>
          if all_digits s then Some (int (parse_nat s))
          else if c = CHR ''-'' \<and> all_digits cs then Some (- int (parse_nat cs))
          else None)"

lemma all_digits_dec_nat [simp]: "all_digits (dec_nat n)"
  by (simp add: all_digits_def dec_nat_digits)

lemma parse_bigint_all_digits: "all_digits s \<Longrightarrow> parse_bigint s = Some (int (parse_nat s))"
  by (cases s) (simp_all add: parse_bigint_def all_digits_def)

lemma parse_bigint_dec_int [simp]: "parse_bigint (dec_int i) = Some i"
proof (cases "i < 0")
  case True
  then have "\<not> all_digits (dec_int i)"
    by (simp add: dec_int_def all_digits_def is_digit_def)
  with True show ?thesis by (simp add: parse_bigint_def dec_int_def)
next
  case False
  then show ?thesis by (simp add: dec_int_def parse_bigint_all_digits)
qed

section \<open>Lower casing\<close>

definition lower_char :: "char \<Rightarrow> char" where
  "lower_char c =
     (let n = (of_char c :: nat) in if 65 \<le> n \<and> n \<le> 90 then char_of (n + 32) else c)"

definition toLowerCase :: "string \<Rightarrow> string" where
  "toLowerCase s = map lower_char s"

lemma lower_char_idem [simp]: "lower_char (lower_char c) = lower_char c"
  by (simp add: lower_char_def Let_def)

lemma toLowerCase_idem [simp]: "toLowerCase (toLowerCase s) = toLowerCase s"
  by (simp add: toLowerCase_def)

lemma toLowerCase_Nil_iff [simp]: "toLowerCase s = [] \<longleftrightarrow> s = []"
  by (simp add: toLowerCase_def)

lemma lower_char_cases:
  "lower_char c = c \<or> (65 \<le> (of_char c :: nat) \<and> (of_char c :: nat) \<le> 90
     \<and> (of_char (lower_char c) :: nat) = of_char c + 32)"
  by (auto simp: lower_char_def Let_def)

lemma lower_char_colon [simp]: "lower_char c = CHR '':'' \<longleftrightarrow> c = CHR '':''"
proof
  assume eq: "lower_char c = CHR '':''"
  then have "(of_char (lower_char c) :: nat) = 58" by simp
  then have "lower_char c = c" using lower_char_cases [of c] by auto
  then show "c = CHR '':''" using eq by simp
qed (simp add: lower_char_def)

lemma colon_toLowerCase [simp]: "CHR '':'' \<in> set (toLowerCase s) \<longleftrightarrow> CHR '':'' \<in> set s"
  by (auto simp: toLowerCase_def image_iff) (metis lower_char_colon)+

section \<open>Composite keys\<close>

text \<open>
  \<open>[a, b, c].join(":")\<close> and the template \<open>`${a}:${b}:${c}`\<close>. Components without a
  colon can be read back, so a key identifies them.
\<close>

fun join_colon :: "string list \<Rightarrow> string" where
  "join_colon [] = []"
| "join_colon [x] = x"
| "join_colon (x # xs) = x @ CHR '':'' # join_colon xs"

definition colon_free :: "string \<Rightarrow> bool" where
  "colon_free s \<longleftrightarrow> CHR '':'' \<notin> set s"

lemma colon_free_dec_int [simp]: "colon_free (dec_int i)"
  by (simp add: colon_free_def colon_notin_dec_int)

lemma colon_free_toLowerCase [simp]: "colon_free (toLowerCase s) \<longleftrightarrow> colon_free s"
  by (simp add: colon_free_def)

lemma split_at_colon:
  assumes "x @ CHR '':'' # r = y @ CHR '':'' # s" and "colon_free x" and "colon_free y"
  shows "x = y \<and> r = s"
  using assms
proof (induction x arbitrary: y)
  case Nil
  then show ?case by (cases y) (auto simp: colon_free_def)
next
  case (Cons a x)
  then show ?case by (cases y) (auto simp: colon_free_def)
qed

lemma join_colon_inj:
  assumes "join_colon xs = join_colon ys" and "length xs = length ys"
    and "\<forall>x \<in> set xs. colon_free x" and "\<forall>y \<in> set ys. colon_free y"
  shows "xs = ys"
  using assms
proof (induction xs arbitrary: ys rule: join_colon.induct)
  case (3 x v va)
  then obtain y z zs where ys: "ys = y # z # zs"
    by (metis length_0_conv length_Cons list.exhaust nat.inject old.nat.distinct(2))
  from 3 ys have "x = y \<and> join_colon (v # va) = join_colon (z # zs)"
    by (auto dest: split_at_colon)
  moreover from this 3 ys have "v # va = z # zs" by auto
  ultimately show ?case using ys by simp
next
  case (2 x)
  then show ?case by (cases ys) auto
qed simp

section \<open>Collation\<close>

text \<open>
  \<open>localeCompare\<close> in the root collation on ASCII text: first the strings compare by the
  primary weights of their characters (punctuation in the collation's own order, then
  digits, then letters without regard to case), and a tie is broken by case, lower before
  upper. Characters outside the table follow in code point order.
\<close>

definition collation_punctuation :: string where
  "collation_punctuation =
     ''_-,;:!?.'' @ [CHR 0x27, CHR 0x22] @ ''()[]{}@*/'' @ [CHR 0x5C] @ ''&#%'' @ [CHR 0x60]
       @ ''^+<=>|~$''"

fun index_of :: "'a \<Rightarrow> 'a list \<Rightarrow> nat option" where
  "index_of x [] = None"
| "index_of x (y # ys) = (if x = y then Some 0 else map_option Suc (index_of x ys))"

definition primary_weight :: "char \<Rightarrow> nat" where
  "primary_weight c =
     (case index_of c collation_punctuation of
        Some i \<Rightarrow> i
      | None \<Rightarrow>
          let n = of_char (lower_char c) in
          if 48 \<le> n \<and> n \<le> 57 then 100 + n
          else if 97 \<le> n \<and> n \<le> 122 then 200 + n
          else 400 + n)"

definition tertiary_weight :: "char \<Rightarrow> nat" where
  "tertiary_weight c = (if lower_char c = c then 0 else 1)"

fun compare_lex :: "nat list \<Rightarrow> nat list \<Rightarrow> int" where
  "compare_lex [] [] = 0"
| "compare_lex [] (y # ys) = -1"
| "compare_lex (x # xs) [] = 1"
| "compare_lex (x # xs) (y # ys) = (if x < y then -1 else if y < x then 1 else compare_lex xs ys)"

definition localeCompare :: "string \<Rightarrow> string \<Rightarrow> int" where
  "localeCompare s t =
     (let p = compare_lex (map primary_weight s) (map primary_weight t) in
      if p \<noteq> 0 then p else compare_lex (map tertiary_weight s) (map tertiary_weight t))"

lemma compare_lex_0: "compare_lex xs ys = 0 \<longleftrightarrow> xs = ys"
  by (induction xs ys rule: compare_lex.induct) auto

lemma compare_lex_refl [simp]: "compare_lex xs xs = 0"
  by (simp add: compare_lex_0)

lemma compare_lex_swap: "compare_lex ys xs = - compare_lex xs ys"
  by (induction xs ys rule: compare_lex.induct) auto

lemma compare_lex_Nil [simp]: "compare_lex xs [] \<le> 0 \<longleftrightarrow> xs = []"
  by (cases xs) auto

lemma compare_lex_trans:
  "compare_lex xs ys \<le> 0 \<Longrightarrow> compare_lex ys zs \<le> 0 \<Longrightarrow> compare_lex xs zs \<le> 0"
proof (induction xs arbitrary: ys zs)
  case Nil
  then show ?case by (cases zs) auto
next
  case (Cons x xs)
  then obtain y ys' where ys: "ys = y # ys'" by (cases ys) auto
  with Cons.prems obtain z zs' where zs: "zs = z # zs'" by (cases zs) auto
  consider "x < z" | "z < x" | "x = z" by linarith
  then show ?case
  proof cases
    case 3
    with Cons.prems ys zs have "y = x \<and> compare_lex xs ys' \<le> 0 \<and> compare_lex ys' zs' \<le> 0"
      by (simp split: if_splits)
    with 3 zs Cons.IH [of ys' zs'] show ?thesis by simp
  qed (use Cons.prems ys zs in \<open>simp_all split: if_splits\<close>)
qed

lemma index_of_Some: "index_of x ys = Some i \<Longrightarrow> i < length ys \<and> ys ! i = x"
  by (induction ys arbitrary: i) (auto split: if_splits)

lemma index_of_punctuation_less: "index_of c collation_punctuation = Some i \<Longrightarrow> i < 100"
  by (drule index_of_Some) (simp add: collation_punctuation_def)

lemma same_weights_same_char:
  assumes p: "primary_weight c = primary_weight d" and t: "tertiary_weight c = tertiary_weight d"
  shows "c = d"
proof (cases "index_of c collation_punctuation")
  case None
  note c = None
  show ?thesis
  proof (cases "index_of d collation_punctuation")
    case None
    have lower: "(of_char (lower_char c) :: nat) = of_char (lower_char d)"
      using p c None by (auto simp: primary_weight_def Let_def split: if_splits)
    show ?thesis using lower t lower_char_cases [of c] lower_char_cases [of d]
      by (auto simp: tertiary_weight_def split: if_splits)
  next
    case (Some i)
    with index_of_punctuation_less [OF Some] c p show ?thesis
      by (simp add: primary_weight_def Let_def split: if_splits)
  qed
next
  case (Some i)
  note c = Some
  show ?thesis
  proof (cases "index_of d collation_punctuation")
    case None
    with index_of_punctuation_less [OF Some] c p show ?thesis
      by (simp add: primary_weight_def Let_def split: if_splits)
  next
    case (Some j)
    with c p have "i = j" by (simp add: primary_weight_def)
    with c Some show ?thesis by (auto dest!: index_of_Some)
  qed
qed

lemma map_weights_inj:
  "map primary_weight s = map primary_weight t \<Longrightarrow>
   map tertiary_weight s = map tertiary_weight t \<Longrightarrow> s = t"
proof (induction s arbitrary: t)
  case (Cons a s)
  then show ?case by (cases t) (auto dest: same_weights_same_char)
qed simp

lemma localeCompare_0 [simp]: "localeCompare s t = 0 \<longleftrightarrow> s = t"
  by (auto simp: localeCompare_def Let_def compare_lex_0 split: if_splits dest: map_weights_inj)

lemma localeCompare_swap: "localeCompare t s = - localeCompare s t"
  using compare_lex_swap [of "map primary_weight t" "map primary_weight s"]
    compare_lex_swap [of "map tertiary_weight t" "map tertiary_weight s"]
  by (auto simp: localeCompare_def Let_def)

lemma localeCompare_trans:
  assumes "localeCompare s t \<le> 0" and "localeCompare t u \<le> 0"
  shows "localeCompare s u \<le> 0"
proof -
  let ?p = "\<lambda>s. map primary_weight s" and ?t = "\<lambda>s. map tertiary_weight s"
  have p: "compare_lex (?p s) (?p t) \<le> 0" "compare_lex (?p t) (?p u) \<le> 0"
    using assms by (auto simp: localeCompare_def Let_def split: if_splits)
  note le = compare_lex_trans [OF p]
  show ?thesis
  proof (cases "compare_lex (?p s) (?p u) = 0")
    case True
    then have su: "?p s = ?p u" by (simp add: compare_lex_0)
    with p compare_lex_swap [of "?p t" "?p u"] have "compare_lex (?p s) (?p t) = 0" by simp
    then have "?p s = ?p t" by (simp add: compare_lex_0)
    with su assms show ?thesis
      by (auto simp: localeCompare_def Let_def split: if_splits intro: compare_lex_trans)
  next
    case False
    with le show ?thesis by (simp add: localeCompare_def Let_def)
  qed
qed

end
