(* ===== verification/JsValue.thy ===== *)
theory JsValue imports Strings begin

text \<open>
  Values of type \<open>unknown\<close> that the event source hands over as decoded event arguments,
  and the conversions of the language the projections apply to them: \<open>String\<close>,
  \<open>Number\<close> and \<open>JSON.stringify\<close>.
\<close>

section \<open>Values\<close>

text \<open>
  A number is \<open>JNum\<close> when it is an integer and \<open>JOtherNum\<close>, with its printed form,
  otherwise (fractions, \<open>NaN\<close>, the infinities).
\<close>

datatype jsval =
    JUndefined
  | JNull
  | JBool bool
  | JNum int
  | JOtherNum string
  | JBig int
  | JStr string
  | JArr "jsval list"
  | JObj "(string \<times> jsval) list"

definition jfield :: "(string, jsval) jsmap \<Rightarrow> string \<Rightarrow> jsval" where
  "jfield m k = (case jget m k of None \<Rightarrow> JUndefined | Some v \<Rightarrow> v)"

text \<open>The operator \<open>??\<close>.\<close>

definition nullish_or :: "jsval \<Rightarrow> jsval \<Rightarrow> jsval" where
  "nullish_or v w = (if v = JUndefined \<or> v = JNull then w else v)"

definition opt_or :: "'a option \<Rightarrow> 'a option \<Rightarrow> 'a option" where
  "opt_or v w = (case v of None \<Rightarrow> w | Some x \<Rightarrow> Some x)"

lemma opt_or_simps [simp]: "opt_or None w = w" "opt_or (Some x) w = Some x"
  by (simp_all add: opt_or_def)

text \<open>Truthiness of an optional string: \<open>undefined\<close> and the empty string are falsy.\<close>

definition truthy :: "string option \<Rightarrow> bool" where
  "truthy v = (case v of None \<Rightarrow> False | Some s \<Rightarrow> s \<noteq> [])"

lemma truthy_simps [simp]: "\<not> truthy None" "truthy (Some s) \<longleftrightarrow> s \<noteq> []"
  by (simp_all add: truthy_def)

text \<open>\<open>...(v ? { field: v } : {})\<close>: the field is present exactly when \<open>v\<close> is truthy.\<close>

definition keep_truthy :: "string option \<Rightarrow> string option" where
  "keep_truthy v = (if truthy v then v else None)"

lemma keep_truthy_simps [simp]:
  "keep_truthy None = None" "keep_truthy (Some s) = (if s = [] then None else Some s)"
  by (simp_all add: keep_truthy_def)

section \<open>String\<close>

fun intercalate :: "string \<Rightarrow> string list \<Rightarrow> string" where
  "intercalate sep [] = []"
| "intercalate sep [x] = x"
| "intercalate sep (x # xs) = x @ sep @ intercalate sep xs"

fun js_String :: "jsval \<Rightarrow> string" where
  "js_String JUndefined = ''undefined''"
| "js_String JNull = ''null''"
| "js_String (JBool b) = (if b then ''true'' else ''false'')"
| "js_String (JNum i) = dec_int i"
| "js_String (JOtherNum s) = s"
| "js_String (JBig i) = dec_int i"
| "js_String (JStr s) = s"
| "js_String (JArr vs) =
     intercalate '','' (map (\<lambda>v. if v = JUndefined \<or> v = JNull then [] else js_String v) vs)"
| "js_String (JObj fs) = ''[object Object]''"

section \<open>Number\<close>

text \<open>
  \<open>Number(text)\<close> where the result is an integer: surrounding white space is dropped, the
  empty text is 0, a prefix selects base 16, 8 or 2, and otherwise the text is an optional
  sign and decimal digits, with an optional fraction of zeros. \<open>None\<close> stands for every
  other result (\<open>NaN\<close>, a fraction); texts in exponent notation are not modelled and count
  as such.
\<close>

definition is_space :: "char \<Rightarrow> bool" where
  "is_space c \<longleftrightarrow> (of_char c :: nat) \<in> {9, 10, 11, 12, 13, 32}"

definition trim :: "string \<Rightarrow> string" where
  "trim s = rev (dropWhile is_space (rev (dropWhile is_space s)))"

definition base_digit :: "nat \<Rightarrow> char \<Rightarrow> nat option" where
  "base_digit b c =
     (let n = (of_char (lower_char c) :: nat);
          d = (if 48 \<le> n \<and> n \<le> 57 then n - 48 else if 97 \<le> n \<and> n \<le> 122 then n - 87 else b)
      in if d < b then Some d else None)"

fun parse_base :: "nat \<Rightarrow> nat \<Rightarrow> string \<Rightarrow> nat option" where
  "parse_base b acc [] = Some acc"
| "parse_base b acc (c # cs) =
     (case base_digit b c of None \<Rightarrow> None | Some d \<Rightarrow> parse_base b (b * acc + d) cs)"

definition parse_decimal :: "string \<Rightarrow> int option" where
  "parse_decimal s =
     (let whole = takeWhile (\<lambda>c. c \<noteq> CHR ''.'') s; frac = drop (Suc (length whole)) s in
      if list_all is_digit whole \<and> list_all (\<lambda>c. c = CHR ''0'') frac \<and> (whole \<noteq> [] \<or> frac \<noteq> [])
      then Some (int (parse_nat whole)) else None)"

definition js_number_of_string :: "string \<Rightarrow> int option" where
  "js_number_of_string text =
     (let s = trim text; p = toLowerCase (take 2 s); r = drop 2 s in
      if s = [] then Some 0
      else if p = ''0x'' then (if r = [] then None else map_option int (parse_base 16 0 r))
      else if p = ''0o'' then (if r = [] then None else map_option int (parse_base 8 0 r))
      else if p = ''0b'' then (if r = [] then None else map_option int (parse_base 2 0 r))
      else if hd s = CHR ''+'' then parse_decimal (tl s)
      else if hd s = CHR ''-'' then map_option uminus (parse_decimal (tl s))
      else parse_decimal s)"

definition js_Number :: "jsval \<Rightarrow> int option" where
  "js_Number v =
     (case v of
        JUndefined \<Rightarrow> None
      | JNull \<Rightarrow> Some 0
      | JBool b \<Rightarrow> Some (if b then 1 else 0)
      | JNum i \<Rightarrow> Some i
      | JOtherNum s \<Rightarrow> None
      | JBig i \<Rightarrow> Some i
      | JStr s \<Rightarrow> js_number_of_string s
      | JArr vs \<Rightarrow> js_number_of_string (js_String v)
      | JObj fs \<Rightarrow> None)"

section \<open>JSON.stringify\<close>

definition hex_char :: "nat \<Rightarrow> char" where
  "hex_char d = (if d < 10 then char_of (48 + d) else char_of (87 + d))"

definition json_escape :: "char \<Rightarrow> string" where
  "json_escape c =
     (let n = (of_char c :: nat); bs = CHR 0x5C in
      if n = 34 then [bs, c] else if n = 92 then [bs, c]
      else if n = 8 then bs # ''b'' else if n = 9 then bs # ''t''
      else if n = 10 then bs # ''n'' else if n = 12 then bs # ''f''
      else if n = 13 then bs # ''r''
      else if n < 32 then bs # ''u00'' @ [hex_char (n div 16), hex_char (n mod 16)]
      else [c])"

definition json_quote :: "string \<Rightarrow> string" where
  "json_quote s = CHR 0x22 # concat (map json_escape s) @ [CHR 0x22]"

lemma mapR_cong [fundef_cong]:
  "xs = ys \<Longrightarrow> (\<And>x. x \<in> set ys \<Longrightarrow> f x = g x) \<Longrightarrow> mapR f xs = mapR g ys"
proof (induction xs arbitrary: ys)
  case (Cons x xs)
  then show ?case by (auto intro!: bindR_cong)
qed simp

text \<open>
  The result is \<open>None\<close> for a value JSON leaves out (\<open>undefined\<close>); a \<open>bigint\<close> anywhere
  inside throws.
\<close>

fun json_stringify :: "jsval \<Rightarrow> string option res" where
  "json_stringify JUndefined = Inr None"
| "json_stringify JNull = Inr (Some ''null'')"
| "json_stringify (JBool b) = Inr (Some (if b then ''true'' else ''false''))"
| "json_stringify (JNum i) = Inr (Some (dec_int i))"
| "json_stringify (JOtherNum s) =
     Inr (Some (if s = ''NaN'' \<or> s = ''Infinity'' \<or> s = ''-Infinity'' then ''null'' else s))"
| "json_stringify (JBig i) = Inl (TypeError ''Do not know how to serialize a BigInt'')"
| "json_stringify (JStr s) = Inr (Some (json_quote s))"
| "json_stringify (JArr vs) =
     bindR (mapR json_stringify vs) (\<lambda>ts.
       Inr (Some (''['' @ intercalate '','' (map (\<lambda>t. case t of None \<Rightarrow> ''null'' | Some s \<Rightarrow> s) ts)
         @ '']'')))"
| "json_stringify (JObj fs) =
     bindR (mapR (\<lambda>f. json_stringify (snd f)) fs) (\<lambda>ts.
       Inr (Some (CHR ''{'' # intercalate '',''
         (concat (map (\<lambda>(k, t). case t of None \<Rightarrow> [] | Some s \<Rightarrow> [json_quote k @ CHR '':'' # s])
           (zip (map fst fs) ts))) @ [CHR ''}''])))"

lemma js_examples:
  "js_number_of_string '' 0x10 '' = Some 16" "js_number_of_string [] = Some 0"
  "js_number_of_string ''2.0'' = Some 2" "js_number_of_string ''2.5'' = None"
  "json_stringify (JArr [JNum 1, JUndefined, JStr ''a'']) =
     Inr (Some (''[1,null,'' @ [CHR 0x22] @ ''a'' @ [CHR 0x22] @ '']''))"
  by code_simp+

end
