(* ===== verification/Sorting.thy ===== *)
theory Sorting imports Strings begin

text \<open>
  \<open>Array.prototype.sort\<close> with a comparator, a stable sort, as insertion sort; the
  contract a comparator must meet for the result to be determined, as a locale over the
  values it is used on; and what the contract gives: the sorted list is a permutation in
  order, depends only on the elements when no two of them compare equal, keeps the order
  of equal ones and starts with a least one.
\<close>

section \<open>The sort\<close>

fun insert_by :: "('a \<Rightarrow> 'a \<Rightarrow> int) \<Rightarrow> 'a \<Rightarrow> 'a list \<Rightarrow> 'a list" where
  "insert_by cmp x [] = [x]"
| "insert_by cmp x (y # ys) = (if cmp x y \<le> 0 then x # y # ys else y # insert_by cmp x ys)"

definition js_sort :: "('a \<Rightarrow> 'a \<Rightarrow> int) \<Rightarrow> 'a list \<Rightarrow> 'a list" where
  "js_sort cmp xs = foldr (insert_by cmp) xs []"

lemma js_sort_simps [simp]:
  "js_sort cmp [] = []" "js_sort cmp (x # xs) = insert_by cmp x (js_sort cmp xs)"
  by (simp_all add: js_sort_def)

lemma mset_insert_by [simp]: "mset (insert_by cmp x xs) = add_mset x (mset xs)"
  by (induction xs) auto

lemma set_insert_by [simp]: "set (insert_by cmp x xs) = insert x (set xs)"
  by (induction xs) auto

lemma mset_js_sort [simp]: "mset (js_sort cmp xs) = mset xs"
  by (induction xs) auto

lemma set_js_sort [simp]: "set (js_sort cmp xs) = set xs"
  by (induction xs) auto

lemma length_js_sort [simp]: "length (js_sort cmp xs) = length xs"
  by (metis mset_js_sort size_mset)

lemma js_sort_Nil_iff [simp]: "js_sort cmp xs = [] \<longleftrightarrow> xs = []"
  by (metis length_0_conv length_js_sort)

lemma distinct_js_sort [simp]: "distinct (js_sort cmp xs) \<longleftrightarrow> distinct xs"
  by (metis mset_eq_imp_distinct_iff mset_js_sort)

lemma distinct_map_js_sort [simp]: "distinct (map f (js_sort cmp xs)) \<longleftrightarrow> distinct (map f xs)"
  by (metis mset_eq_imp_distinct_iff mset_js_sort mset_map)

section \<open>The comparator contract\<close>

locale js_comparator =
  fixes cmp :: "'a \<Rightarrow> 'a \<Rightarrow> int" and ok :: "'a \<Rightarrow> bool"
  assumes swap: "ok x \<Longrightarrow> ok y \<Longrightarrow> cmp x y < 0 \<longleftrightarrow> 0 < cmp y x"
    and trans: "ok x \<Longrightarrow> ok y \<Longrightarrow> ok z \<Longrightarrow> cmp x y \<le> 0 \<Longrightarrow> cmp y z \<le> 0 \<Longrightarrow> cmp x z \<le> 0"
begin

lemma refl: "ok x \<Longrightarrow> cmp x x = 0"
  using swap [of x x] by linarith

lemma total: "ok x \<Longrightarrow> ok y \<Longrightarrow> cmp x y \<le> 0 \<or> cmp y x \<le> 0"
  using swap [of x y] swap [of y x] by linarith

lemma not_le: "ok x \<Longrightarrow> ok y \<Longrightarrow> \<not> cmp x y \<le> 0 \<longleftrightarrow> cmp y x < 0"
  using swap [of y x] by linarith

lemma sorted_insert_by:
  assumes "sorted_wrt (\<lambda>x y. cmp x y \<le> 0) xs" and "ok x" and "\<forall>y \<in> set xs. ok y"
  shows "sorted_wrt (\<lambda>x y. cmp x y \<le> 0) (insert_by cmp x xs)"
  using assms
proof (induction xs)
  case (Cons y ys)
  show ?case
  proof (cases "cmp x y \<le> 0")
    case True
    with Cons.prems show ?thesis by (auto intro: trans [of x y])
  next
    case False
    with Cons.prems total [of x y] have "cmp y x \<le> 0" by auto
    with False Cons show ?thesis by auto
  qed
qed simp

lemma sorted_js_sort:
  "\<forall>x \<in> set xs. ok x \<Longrightarrow> sorted_wrt (\<lambda>x y. cmp x y \<le> 0) (js_sort cmp xs)"
  by (induction xs) (auto intro: sorted_insert_by)

lemma insert_by_least:
  "\<forall>y \<in> set xs. cmp x y \<le> 0 \<Longrightarrow> insert_by cmp x xs = x # xs"
  by (cases xs) auto

lemma js_sort_sorted:
  "sorted_wrt (\<lambda>x y. cmp x y \<le> 0) xs \<Longrightarrow> js_sort cmp xs = xs"
  by (induction xs) (auto simp: insert_by_least)

lemma js_sort_idem: "\<forall>x \<in> set xs. ok x \<Longrightarrow> js_sort cmp (js_sort cmp xs) = js_sort cmp xs"
  by (intro js_sort_sorted sorted_js_sort)

text \<open>Two sorted arrangements of the same elements agree when only equal elements tie.\<close>

lemma sorted_unique:
  assumes "mset xs = mset ys"
    and "sorted_wrt (\<lambda>x y. cmp x y \<le> 0) xs" and "sorted_wrt (\<lambda>x y. cmp x y \<le> 0) ys"
    and "\<forall>x \<in> set xs. ok x"
    and "\<And>x y. x \<in> set xs \<Longrightarrow> y \<in> set xs \<Longrightarrow> cmp x y = 0 \<Longrightarrow> x = y"
  shows "xs = ys"
  using assms
proof (induction xs arbitrary: ys)
  case (Cons x xs)
  then obtain y zs where ys: "ys = y # zs" by (cases ys) auto
  have elems: "set (x # xs) = set (y # zs)" using Cons.prems(1) ys by (metis mset_eq_setD)
  have "cmp x y \<le> 0" "cmp y x \<le> 0"
    using Cons.prems(2,3,4) elems ys refl [of x] refl [of y]
    by (metis insert_iff list.simps(15) order_refl sorted_wrt.simps(2))+
  moreover have "ok x" "ok y" using Cons.prems(4) elems by auto
  ultimately have "cmp x y = 0" using swap [of x y] swap [of y x] by linarith
  then have "x = y" using Cons.prems(5) elems by auto
  moreover have "xs = zs"
    using Cons.prems ys \<open>x = y\<close> by (intro Cons.IH) auto
  ultimately show ?case using ys by simp
qed simp

lemma js_sort_unique:
  assumes "mset xs = mset ys" and "\<forall>x \<in> set xs. ok x"
    and "\<And>x y. x \<in> set xs \<Longrightarrow> y \<in> set xs \<Longrightarrow> cmp x y = 0 \<Longrightarrow> x = y"
  shows "js_sort cmp xs = js_sort cmp ys"
proof (rule sorted_unique)
  have same: "set xs = set ys" using assms(1) by (rule mset_eq_setD)
  show "mset (js_sort cmp xs) = mset (js_sort cmp ys)" using assms(1) by simp
  show "sorted_wrt (\<lambda>x y. cmp x y \<le> 0) (js_sort cmp xs)" using assms(2) by (rule sorted_js_sort)
  show "sorted_wrt (\<lambda>x y. cmp x y \<le> 0) (js_sort cmp ys)"
    using assms(2) same by (intro sorted_js_sort) simp
qed (use assms in auto)

text \<open>Stability: elements that tie with each other keep their order.\<close>

lemma filter_insert_by:
  assumes "\<And>y. y \<in> set xs \<Longrightarrow> P y \<Longrightarrow> P x \<Longrightarrow> cmp x y \<le> 0"
  shows "filter P (insert_by cmp x xs) = (if P x then x # filter P xs else filter P xs)"
  using assms by (induction xs) auto

lemma js_sort_stable:
  assumes "\<And>x y. x \<in> set xs \<Longrightarrow> y \<in> set xs \<Longrightarrow> P x \<Longrightarrow> P y \<Longrightarrow> cmp x y \<le> 0"
  shows "filter P (js_sort cmp xs) = filter P xs"
  using assms
proof (induction xs)
  case (Cons x xs)
  have "filter P (insert_by cmp x (js_sort cmp xs)) =
      (if P x then x # filter P (js_sort cmp xs) else filter P (js_sort cmp xs))"
    by (rule filter_insert_by) (use Cons.prems in simp)
  moreover have "filter P (js_sort cmp xs) = filter P xs"
    by (rule Cons.IH) (use Cons.prems in auto)
  ultimately show ?case by simp
qed simp

lemma js_sort_head_least:
  assumes "\<forall>x \<in> set xs. ok x" and "js_sort cmp xs = y # ys" and "x \<in> set xs"
  shows "cmp y x \<le> 0"
proof -
  have "x \<in> set (y # ys)" using assms(2,3) by (metis set_js_sort)
  moreover have "sorted_wrt (\<lambda>x y. cmp x y \<le> 0) (y # ys)"
    using sorted_js_sort [OF assms(1)] assms(2) by simp
  moreover have "ok y" using assms(1,2) by (metis list.set_intros(1) set_js_sort)
  ultimately show ?thesis using refl [of y] by auto
qed

lemma filter_insert_by_sorted:
  assumes "sorted_wrt (\<lambda>x y. cmp x y \<le> 0) zs" and "\<forall>y \<in> set zs. ok y" and "ok x"
  shows "filter P (insert_by cmp x zs) =
    (if P x then insert_by cmp x (filter P zs) else filter P zs)"
  using assms
proof (induction zs)
  case (Cons z zs)
  show ?case
  proof (cases "cmp x z \<le> 0")
    case True
    have "\<forall>w \<in> set (filter P zs). cmp x w \<le> 0"
      using Cons.prems True by (auto intro: trans [of x z])
    with True show ?thesis by (simp add: insert_by_least)
  next
    case False
    with Cons show ?thesis by simp
  qed
qed simp

text \<open>Filtering commutes with sorting.\<close>

lemma js_sort_filter:
  "\<forall>x \<in> set xs. ok x \<Longrightarrow> filter P (js_sort cmp xs) = js_sort cmp (filter P xs)"
proof (induction xs)
  case (Cons x xs)
  then have "filter P (insert_by cmp x (js_sort cmp xs)) =
      (if P x then insert_by cmp x (filter P (js_sort cmp xs)) else filter P (js_sort cmp xs))"
    by (intro filter_insert_by_sorted sorted_js_sort) auto
  with Cons show ?case by simp
qed simp

end

section \<open>Building comparators\<close>

text \<open>
  The comparators of the source are built in four ways: on a projection of the values, by
  subtracting numbers, by reversing another, and by breaking the ties of one with a second
  (\<open>a || b\<close>). Each keeps the contract.
\<close>

lemma js_comparator_on:
  assumes "js_comparator c ok"
  shows "js_comparator (\<lambda>x y. c (f x) (f y)) (\<lambda>x. ok (f x))"
  using assms unfolding js_comparator_def by blast

lemma js_comparator_weaken:
  "js_comparator c ok \<Longrightarrow> (\<And>x. ok' x \<Longrightarrow> ok x) \<Longrightarrow> js_comparator c ok'"
  unfolding js_comparator_def by blast

lemma js_comparator_diff: "js_comparator (\<lambda>x y. f x - f y) ok"
  by unfold_locales auto

lemma js_comparator_reverse:
  assumes "js_comparator c ok"
  shows "js_comparator (\<lambda>x y. c y x) ok"
  using assms unfolding js_comparator_def by blast

lemma js_comparator_then:
  assumes c: "js_comparator c ok" and d: "js_comparator d ok"
  shows "js_comparator (\<lambda>x y. if c x y \<noteq> 0 then c x y else d x y) ok"
proof
  fix x y z
  assume xy: "ok x" "ok y"
  have sw: "c x y = 0 \<longleftrightarrow> c y x = 0" if "ok x" "ok y" for x y
    using js_comparator.swap [OF c that] js_comparator.swap [OF c that(2,1)] by linarith
  show "(if c x y \<noteq> 0 then c x y else d x y) < 0
      \<longleftrightarrow> 0 < (if c y x \<noteq> 0 then c y x else d y x)"
    using js_comparator.swap [OF c xy] js_comparator.swap [OF d xy] sw [OF xy] by auto
  assume z: "ok z"
  assume a: "(if c x y \<noteq> 0 then c x y else d x y) \<le> 0"
    and b: "(if c y z \<noteq> 0 then c y z else d y z) \<le> 0"
  then have le: "c x y \<le> 0" "c y z \<le> 0" by (auto split: if_splits)
  have xz: "c x z \<le> 0" using js_comparator.trans [OF c xy z le] .
  show "(if c x z \<noteq> 0 then c x z else d x z) \<le> 0"
  proof (cases "c x z = 0")
    case True
    then have zx: "c z x \<le> 0" using sw [OF xy(1) z] by simp
    have "c y x \<le> 0" using js_comparator.trans [OF c xy(2) z xy(1) le(2) zx] .
    then have "c x y = 0" using le(1) js_comparator.swap [OF c xy] by linarith
    moreover have "c z y \<le> 0" using js_comparator.trans [OF c z xy zx le(1)] .
    then have "c y z = 0" using le(2) js_comparator.swap [OF c xy(2) z] by linarith
    ultimately show ?thesis using a b True js_comparator.trans [OF d xy z] by simp
  qed (use xz in simp)
qed

interpretation locale_order: js_comparator localeCompare "\<lambda>_. True"
proof
  show "localeCompare x y < 0 \<longleftrightarrow> 0 < localeCompare y x" for x y
    using localeCompare_swap [of x y] by linarith
qed (rule localeCompare_trans)

end
