(* ===== verification/ProofFacts.thy ===== *)
theory ProofFacts imports ChainEvents begin

text \<open>
  Facts extracted from events (\<open>indexer/projections/proof.ts\<close>) and the normalisers of
  \<open>shared/types.ts\<close>: provenance, proof and timeline records, their order, and the readers
  of required and optional event arguments. The two canonical normalisers come from the
  package \<open>@uvp-eth/protocol-bindings\<close> and \<open>stringToHex\<close> from \<open>viem\<close>; they are the
  parameter \<open>B\<close>.
\<close>

section \<open>Normalisers\<close>

text \<open>
  A call takes the value and the field name and returns the normal form or throws: \<open>Inl\<close>
  with the message of the thrown \<open>Error\<close>, or \<open>Inl None\<close> for a thrown value of another kind.
\<close>

record bindings =
  normalizeAddressCanonical :: "string \<Rightarrow> string \<Rightarrow> string option + string"
  normalizeBytes32Canonical :: "string \<Rightarrow> string \<Rightarrow> string option + string"
  stringToHex :: "string \<Rightarrow> nat \<Rightarrow> string"

definition normalizeAddress :: "bindings \<Rightarrow> string \<Rightarrow> string \<Rightarrow> string res" where
  "normalizeAddress B v fieldName =
     (case normalizeAddressCanonical B v fieldName of
        Inr a \<Rightarrow> Inr a
      | Inl (Some msg) \<Rightarrow> Inl (ConfigError msg)
      | Inl None \<Rightarrow> Inl (ConfigError (fieldName @ '' must be a valid EVM address'')))"

definition normalizeBytes32 :: "bindings \<Rightarrow> string \<Rightarrow> string \<Rightarrow> string res" where
  "normalizeBytes32 B v fieldName =
     (case normalizeBytes32Canonical B v fieldName of
        Inr a \<Rightarrow> Inr a
      | Inl (Some msg) \<Rightarrow> Inl (ConfigError msg)
      | Inl None \<Rightarrow> Inl (ConfigError (fieldName @ '' must be a 32-byte hex value'')))"

text \<open>
  What the projections rely on of the package, as its contract in \<open>shared/types.ts\<close> states
  it: an accepted value is a hexadecimal word, returned in lower case. A normal form is
  thus non-empty, in lower case and free of colons.
\<close>

definition normal_word :: "string \<Rightarrow> bool" where
  "normal_word w \<longleftrightarrow> w \<noteq> [] \<and> toLowerCase w = w \<and> colon_free w"

definition bindings_ok :: "bindings \<Rightarrow> bool" where
  "bindings_ok B \<longleftrightarrow>
     (\<forall>v f w. normalizeAddressCanonical B v f = Inr w \<longrightarrow> normal_word w)
     \<and> (\<forall>v f w. normalizeBytes32Canonical B v f = Inr w \<longrightarrow> normal_word w)"

lemma normalizeBytes32_normal:
  "bindings_ok B \<Longrightarrow> normalizeBytes32 B v f = Inr w \<Longrightarrow> normal_word w"
  by (auto simp: bindings_ok_def normalizeBytes32_def split: sum.splits option.splits)

lemma normalizeAddress_normal:
  "bindings_ok B \<Longrightarrow> normalizeAddress B v f = Inr w \<Longrightarrow> normal_word w"
  by (auto simp: bindings_ok_def normalizeAddress_def split: sum.splits option.splits)

lemma normal_word_simps:
  "normal_word w \<Longrightarrow> toLowerCase w = w" "normal_word w \<Longrightarrow> colon_free w"
  "normal_word w \<Longrightarrow> w \<noteq> []"
  by (simp_all add: normal_word_def)

text \<open>
  Two instances that satisfy the contract: one that checks the exact width of the word, and
  one that accepts any non-empty word, on which examples with short identifiers run.
\<close>

definition hex_word :: "nat \<Rightarrow> string \<Rightarrow> bool" where
  "hex_word n v \<longleftrightarrow> length v = n + 2 \<and> take 2 v = ''0x''
     \<and> list_all (\<lambda>c. base_digit 16 c \<noteq> None) (drop 2 v)"

definition hex_byte :: "char \<Rightarrow> string" where
  "hex_byte c = (let n = (of_char c :: nat) in [hex_char (n div 16), hex_char (n mod 16)])"

definition padded_hex :: "string \<Rightarrow> nat \<Rightarrow> string" where
  "padded_hex s n =
     ''0x'' @ concat (map hex_byte s) @ replicate (2 * (n - length s)) (CHR ''0'')"

definition strict_bindings :: bindings where
  "strict_bindings =
     \<lparr>normalizeAddressCanonical =
        (\<lambda>v f. if hex_word 40 v then Inr (toLowerCase v) else Inl (Some f)),
      normalizeBytes32Canonical =
        (\<lambda>v f. if hex_word 64 v then Inr (toLowerCase v) else Inl (Some f)),
      stringToHex = padded_hex\<rparr>"

definition short_bindings :: bindings where
  "short_bindings =
     \<lparr>normalizeAddressCanonical =
        (\<lambda>v f. if v \<noteq> [] \<and> colon_free v then Inr (toLowerCase v) else Inl (Some f)),
      normalizeBytes32Canonical =
        (\<lambda>v f. if v \<noteq> [] \<and> colon_free v then Inr (toLowerCase v) else Inl (Some f)),
      stringToHex = padded_hex\<rparr>"

lemma short_bindings_ok: "bindings_ok short_bindings"
  by (auto simp: bindings_ok_def short_bindings_def normal_word_def split: if_splits)

lemma hex_word_colon_free: "hex_word n v \<Longrightarrow> colon_free v"
proof -
  assume h: "hex_word n v"
  have "base_digit 16 (CHR '':'') = None" by (simp add: base_digit_def lower_char_def)
  then have "CHR '':'' \<notin> set (drop 2 v)" using h by (auto simp: hex_word_def list_all_iff)
  moreover have "CHR '':'' \<notin> set (take 2 v)" using h by (simp add: hex_word_def)
  ultimately show ?thesis
    unfolding colon_free_def by (metis Un_iff append_take_drop_id set_append)
qed

lemma strict_bindings_ok: "bindings_ok strict_bindings"
  by (auto simp: bindings_ok_def strict_bindings_def normal_word_def hex_word_colon_free
    split: if_splits) (auto simp: hex_word_def)

definition ZERO_BYTES32 :: string where
  "ZERO_BYTES32 = ''0x'' @ replicate 64 (CHR ''0'')"

lemma normal_word_ZERO: "normal_word ZERO_BYTES32"
  by (simp add: ZERO_BYTES32_def normal_word_def toLowerCase_def lower_char_def colon_free_def)

section \<open>Provenance and proofs\<close>

definition provenanceOf :: "'a provenance_scheme \<Rightarrow> provenance" where
  "provenanceOf p =
     \<lparr>chainId = chainId p, contractAddress = contractAddress p, blockNumber = blockNumber p,
      transactionIndex = transactionIndex p, transactionHash = transactionHash p,
      logIndex = logIndex p\<rparr>"

lemma provenanceOf_truncate: "provenanceOf p = provenance.truncate p"
  by (simp add: provenanceOf_def provenance.truncate_def)

lemma provenanceOf_simps [simp]:
  "chainId (provenanceOf p) = chainId p" "contractAddress (provenanceOf p) = contractAddress p"
  "blockNumber (provenanceOf p) = blockNumber p"
  "transactionIndex (provenanceOf p) = transactionIndex p"
  "transactionHash (provenanceOf p) = transactionHash p" "logIndex (provenanceOf p) = logIndex p"
  by (simp_all add: provenanceOf_def)

datatype proof_arg = PStr string | PNum int | POtherNum string | PBool bool | PNull

record proof_proj = provenance +
  pf_eventId :: string
  pf_eventName :: string
  pf_args :: "(string, proof_arg) jsmap"
  pf_blockHash :: "string option"
  pf_orderId :: "string option"
  pf_planId :: "string option"
  pf_planHash :: "string option"
  pf_submitter :: "string option"

text \<open>The fields of \<open>StateMachineProofMetadata\<close> that \<open>proofOf\<close> and \<open>timelineOf\<close> read.\<close>

record proof_metadata =
  md_orderId :: "string option"
  md_planId :: "string option"
  md_planHash :: "string option"
  md_submitter :: "string option"

definition no_metadata :: proof_metadata where
  "no_metadata =
     \<lparr>md_orderId = None, md_planId = None, md_planHash = None, md_submitter = None\<rparr>"

definition normalizeProofArg :: "jsval \<Rightarrow> proof_arg res" where
  "normalizeProofArg v =
     (case v of
        JBig i \<Rightarrow> Inr (PStr (dec_int i))
      | JStr s \<Rightarrow> Inr (PStr s)
      | JNum i \<Rightarrow> Inr (PNum i)
      | JOtherNum s \<Rightarrow> Inr (POtherNum s)
      | JBool b \<Rightarrow> Inr (PBool b)
      | JNull \<Rightarrow> Inr PNull
      | JUndefined \<Rightarrow> Inr PNull
      | JArr vs \<Rightarrow> bindR (json_stringify v) (\<lambda>t. case t of Some s \<Rightarrow> Inr (PStr s) | None \<Rightarrow> Inr PNull)
      | JObj fs \<Rightarrow> bindR (json_stringify v) (\<lambda>t. case t of Some s \<Rightarrow> Inr (PStr s) | None \<Rightarrow> Inr PNull))"

definition normalizeProofArgs :: "(string, jsval) jsmap \<Rightarrow> (string, proof_arg) jsmap res" where
  "normalizeProofArgs as =
     mapR (\<lambda>(k, v). bindR (normalizeProofArg v) (\<lambda>a. Inr (k, a))) as"

definition proofOf :: "chain_event \<Rightarrow> proof_metadata \<Rightarrow> proof_proj res" where
  "proofOf e md =
     bindR (normalizeProofArgs (args e)) (\<lambda>as.
       Inr \<lparr>chainId = chainId e, contractAddress = contractAddress e,
            blockNumber = blockNumber e, transactionIndex = transactionIndex e,
            transactionHash = transactionHash e, logIndex = logIndex e,
            pf_eventId = chainEventKey e, pf_eventName = eventName e, pf_args = as,
            pf_blockHash = keep_truthy (blockHash e),
            pf_orderId = keep_truthy (md_orderId md), pf_planId = keep_truthy (md_planId md),
            pf_planHash = keep_truthy (md_planHash md),
            pf_submitter = keep_truthy (md_submitter md)\<rparr>)"

lemma proofOf_Inr:
  "proofOf e md = Inr p \<Longrightarrow>
     pf_eventId p = chainEventKey e \<and> pf_eventName p = eventName e
     \<and> provenanceOf p = provenanceOf e
     \<and> pf_orderId p = keep_truthy (md_orderId md)
     \<and> pf_planId p = keep_truthy (md_planId md)"
  by (auto simp: proofOf_def provenanceOf_def bindR_Inr_iff)

section \<open>Timeline\<close>

text \<open>The texts the timeline shows, one constructor per literal of the source.\<close>

datatype timeline_text =
    TextPlanRegistered | TextOrderCreated | TextOrderMaterialized | TextRelayerRecorded
  | TextOrderTriggered | TextOrderLinked | TextAuthorizationWritten | TextSignalWritten
  | TextDerivedSignal | TextStageStarted | TextExecutorUpdated | TextResourcesUpdated
  | TextExecutorActivated | TextSignalDelegated | TextHookWaiting | TextHookReady
  | TextHookCancelled | TextHookInit | TextHookChanged | TextTaskCreated | TextTimerPoked
  | TextDockOpened | TextDockChildCreated | TextDockInputDelivered | TextDockInputReceived
  | TextDockOutputReturned | TextDockOutputMapped | TextDockOutputEquivalent

record timeline_event =
  tl_timelineId :: string
  tl_orderId :: "string option"
  tl_planId :: "string option"
  tl_eventName :: string
  tl_text :: timeline_text
  tl_time :: string
  tl_proof :: proof_proj

definition timelineOf :: "timeline_text \<Rightarrow> proof_proj \<Rightarrow> proof_metadata \<Rightarrow> timeline_event" where
  "timelineOf text p md =
     \<lparr>tl_timelineId = pf_eventId p, tl_orderId = keep_truthy (md_orderId md),
      tl_planId = keep_truthy (md_planId md), tl_eventName = pf_eventName p, tl_text = text,
      tl_time = ''block '' @ dec_int (blockNumber p), tl_proof = p\<rparr>"

definition compareProofEvents :: "proof_proj \<Rightarrow> proof_proj \<Rightarrow> int" where
  "compareProofEvents l r =
     (let position = compareChainPointers l r in
      if position \<noteq> 0 then position else localeCompare (pf_eventId l) (pf_eventId r))"

definition compareTimelineEvents :: "timeline_event \<Rightarrow> timeline_event \<Rightarrow> int" where
  "compareTimelineEvents l r = compareProofEvents (tl_proof l) (tl_proof r)"

interpretation proof_order: js_comparator compareProofEvents indexed
proof -
  have eq: "compareProofEvents = (\<lambda>x y. if compareChainPointers x y \<noteq> 0
      then compareChainPointers x y else localeCompare (pf_eventId x) (pf_eventId y))"
    by (auto simp: compareProofEvents_def Let_def fun_eq_iff)
  show "js_comparator compareProofEvents (indexed :: proof_proj \<Rightarrow> bool)"
    unfolding eq
    by (intro js_comparator_then pointer_order.js_comparator_axioms
      js_comparator_weaken [OF js_comparator_on [OF locale_order.js_comparator_axioms]]) simp
qed

lemma compareProofEvents_0: "compareProofEvents p q = 0 \<Longrightarrow> pf_eventId p = pf_eventId q"
  by (auto simp: compareProofEvents_def Let_def split: if_splits)

interpretation timeline_order: js_comparator compareTimelineEvents "\<lambda>t. indexed (tl_proof t)"
  by unfold_locales
    (auto simp: compareTimelineEvents_def proof_order.swap intro: proof_order.trans)

section \<open>Reading event arguments\<close>

definition event_arg :: "chain_event \<Rightarrow> string \<Rightarrow> jsval" where
  "event_arg e name = jfield (args e) name"

definition arg_label :: "chain_event \<Rightarrow> string \<Rightarrow> string" where
  "arg_label e name = eventName e @ ''.'' @ name"

definition requiredStringArg :: "chain_event \<Rightarrow> string \<Rightarrow> string res" where
  "requiredStringArg e name =
     (case event_arg e name of
        JStr s \<Rightarrow> if s = [] then Inl (ProjectionError (arg_label e name @ '' must be a non-empty string''))
          else Inr s
      | _ \<Rightarrow> Inl (ProjectionError (arg_label e name @ '' must be a non-empty string'')))"

definition optionalStringArg :: "chain_event \<Rightarrow> string \<Rightarrow> string option" where
  "optionalStringArg e name =
     (case event_arg e name of JStr s \<Rightarrow> if s = [] then None else Some s | _ \<Rightarrow> None)"

definition requiredAddressArg :: "bindings \<Rightarrow> chain_event \<Rightarrow> string \<Rightarrow> string res" where
  "requiredAddressArg B e name =
     bindR (requiredStringArg e name) (\<lambda>v. normalizeAddress B v (arg_label e name))"

definition optionalAddressArg :: "bindings \<Rightarrow> chain_event \<Rightarrow> string \<Rightarrow> string option res" where
  "optionalAddressArg B e name =
     (case optionalStringArg e name of
        None \<Rightarrow> Inr None
      | Some v \<Rightarrow> bindR (normalizeAddress B v (arg_label e name)) (\<lambda>a. Inr (Some a)))"

definition requiredBytes32Arg :: "bindings \<Rightarrow> chain_event \<Rightarrow> string \<Rightarrow> string res" where
  "requiredBytes32Arg B e name =
     bindR (requiredStringArg e name) (\<lambda>v. normalizeBytes32 B v (arg_label e name))"

definition optionalBytes32Arg :: "bindings \<Rightarrow> chain_event \<Rightarrow> string \<Rightarrow> string option res" where
  "optionalBytes32Arg B e name =
     (case optionalStringArg e name of
        None \<Rightarrow> Inr None
      | Some v \<Rightarrow> bindR (normalizeBytes32 B v (arg_label e name)) (\<lambda>a. Inr (Some a)))"

definition optionalNonZeroBytes32Arg ::
    "bindings \<Rightarrow> chain_event \<Rightarrow> string \<Rightarrow> string option res" where
  "optionalNonZeroBytes32Arg B e name =
     bindR (optionalBytes32Arg B e name) (\<lambda>v.
       Inr (if truthy v \<and> v \<noteq> Some ZERO_BYTES32 then v else None))"

definition optionalUintArgAsString :: "chain_event \<Rightarrow> string \<Rightarrow> string option" where
  "optionalUintArgAsString e name =
     (case event_arg e name of
        JBig i \<Rightarrow> Some (dec_int i)
      | JNum i \<Rightarrow> if 0 \<le> i \<and> i \<le> 2 ^ 53 - 1 then Some (dec_int i) else None
      | JStr s \<Rightarrow> if all_digits s then Some s else None
      | _ \<Rightarrow> None)"

definition uintArgAsString :: "chain_event \<Rightarrow> string \<Rightarrow> string res" where
  "uintArgAsString e name =
     (case optionalUintArgAsString e name of
        Some s \<Rightarrow> if s = [] then Inl (ProjectionError (arg_label e name @ '' must be a uint value''))
          else Inr s
      | None \<Rightarrow> Inl (ProjectionError (arg_label e name @ '' must be a uint value'')))"

text \<open>What a successful read guarantees.\<close>

lemma requiredBytes32Arg_normal:
  "bindings_ok B \<Longrightarrow> requiredBytes32Arg B e n = Inr w \<Longrightarrow> normal_word w"
  by (auto simp: requiredBytes32Arg_def bindR_Inr_iff intro: normalizeBytes32_normal)

lemma requiredAddressArg_normal:
  "bindings_ok B \<Longrightarrow> requiredAddressArg B e n = Inr w \<Longrightarrow> normal_word w"
  by (auto simp: requiredAddressArg_def bindR_Inr_iff intro: normalizeAddress_normal)

lemma optionalBytes32Arg_normal:
  "bindings_ok B \<Longrightarrow> optionalBytes32Arg B e n = Inr (Some w) \<Longrightarrow> normal_word w"
  by (auto simp: optionalBytes32Arg_def bindR_Inr_iff intro: normalizeBytes32_normal
    split: option.splits)

text \<open>A number read as a decimal string can be read back by \<open>BigInt\<close>.\<close>

lemma optionalUintArgAsString_parse:
  "optionalUintArgAsString e n = Some s \<Longrightarrow> \<exists>i. parse_bigint s = Some i"
  by (auto simp: optionalUintArgAsString_def parse_bigint_all_digits split: jsval.splits if_splits)

lemma uintArgAsString_parse: "uintArgAsString e n = Inr s \<Longrightarrow> \<exists>i. parse_bigint s = Some i"
  by (auto simp: uintArgAsString_def split: option.splits if_splits
    intro: optionalUintArgAsString_parse)

end
