(* ===== verification/ProjectionState.thy ===== *)
theory ProjectionState imports ProofFacts begin

text \<open>
  The records the projections build (the interfaces of \<open>indexer/projections/\<close>) and the
  state one replay carries: the five maps and the diagnostic counters of
  \<open>rebuildOrderProjections\<close>.
\<close>

section \<open>Deployments and modules\<close>

datatype deployment_status =
  DepCandidate | DepCanary | DepActive | DepDeprecated | DepRetired | DepUnknown

record deployment_proj =
  dep_deploymentId :: string
  dep_stateMachineAddress :: string
  dep_artifactHash :: string
  dep_abiHash :: string
  dep_deploymentBlock :: string
  dep_activatedAtBlock :: "string option"
  dep_evidenceHash :: "string option"
  dep_metadataURI :: string
  dep_status :: deployment_status
  dep_registeredAt :: provenance
  dep_updatedAt :: provenance
  dep_proof :: proof_proj

record module_proj =
  mod_chainId :: int
  mod_stateMachineAddress :: string
  mod_moduleId :: string
  mod_previousModule :: string
  mod_moduleAddress :: string
  mod_updatedAt :: provenance
  mod_proof :: proof_proj

section \<open>Plans\<close>

datatype target_relation = RelCurrent | RelTriggerOrigin | RelUnknown

record selector_binding =
  sb_selectorStageIdentifier :: "string option"
  sb_targetStageIdentifier :: "string option"
  sb_selectorStageId :: string
  sb_targetStageId :: string
  sb_bindingHash :: "string option"

record signal_capability =
  cap_stageId :: string
  cap_targetSourceId :: string
  cap_signalId :: string
  cap_targetOrderRelation :: target_relation
  cap_registeredAt :: provenance
  cap_proof :: proof_proj

record plan_proj =
  pl_planId :: string
  pl_deploymentId :: "string option"
  pl_stateMachineAddress :: string
  pl_planHash :: string
  pl_hookCount :: string
  pl_publisher :: "string option"
  pl_hooksHash :: "string option"
  pl_metadataHash :: "string option"
  pl_dockRoutesRoot :: "string option"
  pl_dockInterfaceRoot :: "string option"
  pl_committedAt :: "provenance option"
  pl_finalizedAt :: "provenance option"
  pl_selectorBindings :: "selector_binding list"
  pl_signalCapabilities :: "signal_capability list"
  pl_registeredAt :: provenance
  pl_publisherRecordedAt :: "provenance option"
  pl_updatedAt :: provenance
  pl_proof :: proof_proj
  pl_publisherProof :: "proof_proj option"
  pl_commitProof :: "proof_proj option"
  pl_finalizationProof :: "proof_proj option"

section \<open>Signals\<close>

record signal_proj =
  sig_orderId :: string
  sig_sourceId :: string
  sig_signalId :: string
  sig_payloadHash :: string
  sig_idempotencyKey :: string
  sig_submitter :: string
  sig_submittedAt :: provenance
  sig_proof :: proof_proj

record authorization_proj =
  auth_orderId :: string
  auth_sourceId :: string
  auth_signalId :: string
  auth_submitter :: string
  auth_role :: string
  auth_metadataHash :: string
  auth_authorizedAt :: provenance
  auth_proof :: proof_proj

record delegation_proj =
  dlg_orderId :: string
  dlg_targetStageId :: string
  dlg_sourceId :: string
  dlg_signalId :: string
  dlg_executor :: string
  dlg_roleHash :: string
  dlg_metadataHash :: string
  dlg_patchNonce :: string
  dlg_delegatedAt :: provenance
  dlg_proof :: proof_proj

section \<open>Stages, hooks and tasks\<close>

datatype patch_mode = ModeAssign | ModeHandoff | ModeReplacement

record executor_overlay =
  eov_orderId :: string
  eov_selectorStageId :: string
  eov_targetStageId :: string
  eov_selectorWallet :: string
  eov_activeExecutorWallet :: string
  eov_mode :: patch_mode
  eov_modeHash :: "string option"
  eov_previousExecutor :: "string option"
  eov_approvalSourceId :: "string option"
  eov_approvalSignalId :: "string option"
  eov_roleHash :: string
  eov_executorMetadataHash :: string
  eov_patchHash :: string
  eov_patchNonce :: string
  eov_metadataURI :: string
  eov_updatedAt :: provenance
  eov_activatedAt :: "provenance option"
  eov_proof :: proof_proj
  eov_activationProof :: "proof_proj option"

record resource_overlay =
  rov_orderId :: string
  rov_selectorStageId :: string
  rov_targetStageId :: string
  rov_resourceKey :: string
  rov_selectorWallet :: string
  rov_manifestHash :: string
  rov_policyHash :: string
  rov_patchHash :: string
  rov_patchNonce :: string
  rov_manifestURI :: string
  rov_updatedAt :: provenance
  rov_proof :: proof_proj

datatype hook_status = HookInit | HookWaiting | HookReadyStatus | HookCancelled | HookUnknown

record hook_proj =
  hk_orderId :: string
  hk_hookId :: string
  hk_stageIdentifier :: "string option"
  hk_hookName :: "string option"
  hk_status :: hook_status
  hk_dueAt :: "string option"
  hk_updatedAt :: provenance
  hk_readyAt :: "provenance option"
  hk_proof :: proof_proj

datatype task_status = TaskReady | TaskSubmitted | TaskCancelled | TaskUnknown

datatype submit_source = FromPlanCapability | FromAuthorization

record submit_signal =
  ss_sourceId :: string
  ss_signalId :: string
  ss_source :: submit_source

text \<open>\<open>assigneeRole\<close> is a string with four values.\<close>

datatype assignee_role =
  RoleAuthorizedSubmitter | RoleStageOverlayExecutor | RoleDelegatedStageExecutor | RoleUnknown

record task_proj =
  tk_taskId :: string
  tk_orderId :: string
  tk_stateMachineAddress :: string
  tk_planId :: "string option"
  tk_deploymentId :: "string option"
  tk_hookId :: string
  tk_stageIdentifier :: string
  tk_hookName :: string
  tk_assigneeRole :: assignee_role
  tk_assigneeWallet :: "string option"
  tk_assigneeRoleHash :: "string option"
  tk_authorizationMetadataHash :: "string option"
  tk_status :: task_status
  tk_submitSignals :: "submit_signal list option"
  tk_createdAt :: provenance
  tk_updatedAt :: provenance
  tk_proof :: proof_proj

section \<open>Orders\<close>

datatype order_status = OrderRegisteredStatus | OrderUnknownStatus

record trigger_link =
  lk_triggeredOrderId :: string
  lk_triggerOriginOrderId :: string
  lk_triggerStageId :: string
  lk_originSourceId :: string
  lk_originSignalId :: string
  lk_linkedAt :: provenance
  lk_proof :: proof_proj

record order_proj =
  or_orderId :: string
  or_chainId :: int
  or_contractAddress :: string
  or_deploymentId :: "string option"
  or_planId :: string
  or_planHash :: "string option"
  or_status :: order_status
  or_currentStage :: "string option"
  or_relayer :: "string option"
  or_creator :: "string option"
  or_authorizations :: "(string, authorization_proj) jsmap"
  or_signals :: "(string, signal_proj) jsmap"
  or_signalDelegations :: "(string, delegation_proj) jsmap"
  or_stageExecutorOverlays :: "(string, executor_overlay) jsmap"
  or_stageResourceOverlays :: "(string, resource_overlay) jsmap"
  or_triggerLink :: "trigger_link option"
  or_hooks :: "(string, hook_proj) jsmap"
  or_tasks :: "(string, task_proj) jsmap"
  or_timeline :: "timeline_event list"
  or_proof :: "proof_proj list"
  or_registeredAt :: "provenance option"
  or_updatedAt :: provenance

section \<open>Docks\<close>

record input_delivery =
  di_inputBindingHash :: string
  di_localPlanId :: string
  di_localOrderId :: string
  di_targetPlanId :: string
  di_linkedOrderId :: string
  di_targetSignalId :: string
  di_payloadHash :: string
  di_submitter :: string
  di_deliveredAt :: provenance
  di_proof :: proof_proj

record output_delivery =
  dov_outputBindingHash :: string
  dov_localPlanId :: string
  dov_localOrderId :: string
  dov_targetPlanId :: string
  dov_linkedOrderId :: string
  dov_targetSignalId :: string
  dov_localSignalId :: string
  dov_payloadHash :: string
  dov_submitter :: string
  dov_deliveredAt :: provenance
  dov_proof :: proof_proj

text \<open>\<open>depth\<close> is the number \<open>Number\<close> gives, \<open>None\<close> when that is not an integer.\<close>

record dock_proj =
  dk_dockInstanceId :: string
  dk_chainId :: int
  dk_stateMachineAddress :: string
  dk_localPlanId :: string
  dk_localOrderId :: string
  dk_routeId :: string
  dk_routeHash :: string
  dk_interfaceNameId :: string
  dk_targetPlanId :: string
  dk_linkedOrderId :: string
  dk_depth :: "int option"
  dk_opener :: string
  dk_inputDeliveries :: "(string, input_delivery) jsmap"
  dk_outputDeliveries :: "(string, output_delivery) jsmap"
  dk_openedAt :: provenance
  dk_updatedAt :: provenance
  dk_proof :: proof_proj

section \<open>The state of a replay\<close>

record diagnostics =
  unresolvedModuleOrderEventCount :: nat
  unresolvedDockEventCount :: nat
  unresolvedStageActivationEventCount :: nat
  unresolvedDockTargetDeploymentCount :: nat

record replay_state =
  st_deployments :: "(string, deployment_proj) jsmap"
  st_modules :: "(string, module_proj) jsmap"
  st_plans :: "(string, plan_proj) jsmap"
  st_orders :: "(string, order_proj) jsmap"
  st_docks :: "(string, dock_proj) jsmap"
  st_diagnostics :: diagnostics

definition start_state :: replay_state where
  "start_state =
     \<lparr>st_deployments = [], st_modules = [], st_plans = [], st_orders = [], st_docks = [],
      st_diagnostics =
        \<lparr>unresolvedModuleOrderEventCount = 0, unresolvedDockEventCount = 0,
         unresolvedStageActivationEventCount = 0, unresolvedDockTargetDeploymentCount = 0\<rparr>\<rparr>"

record snapshot =
  sn_eventCount :: nat
  sn_activeStateMachineDeploymentId :: "string option"
  sn_stateMachineDeployments :: "(string, deployment_proj) jsmap"
  sn_stateMachineModules :: "(string, module_proj) jsmap"
  sn_stateMachinePlans :: "(string, plan_proj) jsmap"
  sn_stateMachineOrders :: "(string, order_proj) jsmap"
  sn_stateMachineDocks :: "(string, dock_proj) jsmap"
  sn_stateMachineTasks :: "(string, task_proj) jsmap"
  sn_diagnostics :: diagnostics
  sn_lastEvent :: "provenance option"

text \<open>\<open>createEmptyProjectionSnapshot\<close>.\<close>

definition createEmptyProjectionSnapshot :: snapshot where
  "createEmptyProjectionSnapshot =
     \<lparr>sn_eventCount = 0, sn_activeStateMachineDeploymentId = None,
      sn_stateMachineDeployments = [], sn_stateMachineModules = [], sn_stateMachinePlans = [],
      sn_stateMachineOrders = [], sn_stateMachineDocks = [], sn_stateMachineTasks = [],
      sn_diagnostics = st_diagnostics start_state, sn_lastEvent = None\<rparr>"

end
