(* ===== verification/Deployments.thy ===== *)
theory Deployments imports ProjectionState begin

text \<open>
  The deployment registry: selection of a deployment for a state machine
  (\<open>indexer/projections/snapshot.ts\<close>) and the registry event family
  (\<open>applyDeploymentRegistryEvent\<close> of \<open>indexer/replay.ts\<close>). The lemmas show which
  deployment selection returns; which deployments an activation touches is in \<open>Registry\<close>.
\<close>

section \<open>Selection\<close>

definition deploymentStatusPriority :: "deployment_status \<Rightarrow> int" where
  "deploymentStatusPriority s =
     (case s of DepActive \<Rightarrow> 0 | DepCanary \<Rightarrow> 1 | DepCandidate \<Rightarrow> 2 | DepDeprecated \<Rightarrow> 3
      | DepRetired \<Rightarrow> 4 | DepUnknown \<Rightarrow> 5)"

definition compareDeploymentSelection :: "deployment_proj \<Rightarrow> deployment_proj \<Rightarrow> int" where
  "compareDeploymentSelection l r =
     (let status = deploymentStatusPriority (dep_status l) - deploymentStatusPriority (dep_status r)
      in if status \<noteq> 0 then status
         else let position = compareChainPointers (dep_updatedAt r) (dep_updatedAt l) in
              if position \<noteq> 0 then position
              else localeCompare (dep_deploymentId l) (dep_deploymentId r))"

definition findDeploymentByStateMachine ::
    "(string, deployment_proj) jsmap \<Rightarrow> int \<Rightarrow> string \<Rightarrow> deployment_proj option" where
  "findDeploymentByStateMachine deployments chain stateMachineAddress =
     (case js_sort compareDeploymentSelection
        (filter (\<lambda>d. chainId (dep_registeredAt d) = chain
             \<and> toLowerCase (dep_stateMachineAddress d) = toLowerCase stateMachineAddress)
          (jvalues deployments)) of
        [] \<Rightarrow> None
      | d # _ \<Rightarrow> Some d)"

definition orderDeploymentIdFromPlanOrStateMachine ::
    "plan_proj option \<Rightarrow> (string, deployment_proj) jsmap \<Rightarrow> int \<Rightarrow> string \<Rightarrow> string option" where
  "orderDeploymentIdFromPlanOrStateMachine plan deployments chain stateMachineAddress =
     opt_or (Option.bind plan pl_deploymentId)
       (map_option dep_deploymentId
         (findDeploymentByStateMachine deployments chain stateMachineAddress))"

lemma compareDeploymentSelection_status:
  "deploymentStatusPriority (dep_status l) < deploymentStatusPriority (dep_status r) \<Longrightarrow>
   compareDeploymentSelection l r < 0"
  by (simp add: compareDeploymentSelection_def Let_def)

interpretation deployment_order:
  js_comparator compareDeploymentSelection "\<lambda>d. indexed (dep_updatedAt d)"
proof -
  let ?p = "\<lambda>x. deploymentStatusPriority (dep_status x)"
  let ?c = "\<lambda>x y. compareChainPointers (dep_updatedAt y) (dep_updatedAt x)"
  have eq: "compareDeploymentSelection = (\<lambda>x y. if ?p x - ?p y \<noteq> 0 then ?p x - ?p y
      else if ?c x y \<noteq> 0 then ?c x y else localeCompare (dep_deploymentId x) (dep_deploymentId y))"
    by (auto simp: compareDeploymentSelection_def Let_def fun_eq_iff)
  show "js_comparator compareDeploymentSelection (\<lambda>d. indexed (dep_updatedAt d))"
    unfolding eq
    by (intro js_comparator_then js_comparator_diff
      js_comparator_reverse [OF js_comparator_on [OF pointer_order.js_comparator_axioms]]
      js_comparator_weaken [OF js_comparator_on [OF locale_order.js_comparator_axioms]]) simp
qed

section \<open>Registry events\<close>

definition deploymentProjectionKey :: "int \<Rightarrow> string \<Rightarrow> string \<Rightarrow> string" where
  "deploymentProjectionKey chain registryAddress deploymentId =
     join_colon [dec_int chain, toLowerCase registryAddress, toLowerCase deploymentId]"

text \<open>
  \<open>findDeploymentById\<close> returns a reference into the map, through which the handlers write;
  here it is the entry, whose key says where to write.
\<close>

definition findDeploymentById ::
    "(string, deployment_proj) jsmap \<Rightarrow> string \<Rightarrow> (string \<times> deployment_proj) option" where
  "findDeploymentById deployments deploymentId =
     List.find (\<lambda>(k, d). toLowerCase (dep_deploymentId d) = toLowerCase deploymentId) deployments"

definition applyDeploymentRegistered ::
    "bindings \<Rightarrow> (string, deployment_proj) jsmap \<Rightarrow> chain_event
      \<Rightarrow> (string, deployment_proj) jsmap res" where
  "applyDeploymentRegistered B deployments e =
     bindR (requiredBytes32Arg B e ''deploymentId'') (\<lambda>deploymentId.
     bindR (proofOf e no_metadata) (\<lambda>proof.
     bindR (requiredAddressArg B e ''stateMachine'') (\<lambda>stateMachine.
     bindR (requiredBytes32Arg B e ''artifactHash'') (\<lambda>artifactHash.
     bindR (requiredBytes32Arg B e ''abiHash'') (\<lambda>abiHash.
     bindR (uintArgAsString e ''deploymentBlock'') (\<lambda>deploymentBlock.
       Inr (jset (deploymentProjectionKey (chainId e) (contractAddress e) deploymentId)
         \<lparr>dep_deploymentId = deploymentId, dep_stateMachineAddress = stateMachine,
          dep_artifactHash = artifactHash, dep_abiHash = abiHash,
          dep_deploymentBlock = deploymentBlock, dep_activatedAtBlock = None,
          dep_evidenceHash = None,
          dep_metadataURI = (case optionalStringArg e ''metadataURI'' of None \<Rightarrow> [] | Some u \<Rightarrow> u),
          dep_status = DepCandidate, dep_registeredAt = provenanceOf e,
          dep_updatedAt = provenanceOf e, dep_proof = proof\<rparr>
         deployments)))))))"

definition applyDeploymentCanaryMarked ::
    "bindings \<Rightarrow> (string, deployment_proj) jsmap \<Rightarrow> chain_event
      \<Rightarrow> (string, deployment_proj) jsmap res" where
  "applyDeploymentCanaryMarked B deployments e =
     bindR (requiredBytes32Arg B e ''deploymentId'') (\<lambda>deploymentId.
       case findDeploymentById deployments deploymentId of
         None \<Rightarrow> Inr deployments
       | Some (k, d) \<Rightarrow>
           bindR (requiredBytes32Arg B e ''evidenceHash'') (\<lambda>evidenceHash.
           bindR (proofOf e no_metadata) (\<lambda>proof.
             Inr (jset k (d\<lparr>dep_status := DepCanary, dep_evidenceHash := Some evidenceHash,
               dep_updatedAt := provenanceOf e, dep_proof := proof\<rparr>) deployments))))"

definition deprecatePrevious ::
    "(string, deployment_proj) jsmap \<Rightarrow> chain_event \<Rightarrow> string option
      \<Rightarrow> (string, deployment_proj) jsmap" where
  "deprecatePrevious deployments e previousDeploymentId =
     (case previousDeploymentId of
        None \<Rightarrow> deployments
      | Some p \<Rightarrow>
          if p = [] \<or> p = ZERO_BYTES32 then deployments
          else case findDeploymentById deployments p of
            None \<Rightarrow> deployments
          | Some (k, d) \<Rightarrow> jset k (d\<lparr>dep_status := DepDeprecated,
              dep_updatedAt := provenanceOf e\<rparr>) deployments)"

definition applyDeploymentActivated ::
    "bindings \<Rightarrow> (string, deployment_proj) jsmap \<Rightarrow> chain_event
      \<Rightarrow> ((string, deployment_proj) jsmap \<times> string option) res" where
  "applyDeploymentActivated B deployments e =
     bindR (optionalBytes32Arg B e ''previousDeploymentId'') (\<lambda>previousDeploymentId.
     bindR (requiredBytes32Arg B e ''newDeploymentId'') (\<lambda>newDeploymentId.
       let deps = deprecatePrevious deployments e previousDeploymentId in
       case findDeploymentById deps newDeploymentId of
         None \<Rightarrow> Inr (deps, Some newDeploymentId)
       | Some (k, d) \<Rightarrow>
           bindR (requiredBytes32Arg B e ''evidenceHash'') (\<lambda>evidenceHash.
           bindR (proofOf e no_metadata) (\<lambda>proof.
             Inr (jset k (d\<lparr>dep_status := DepActive,
                 dep_activatedAtBlock := Some (dec_int (blockNumber e)),
                 dep_evidenceHash := Some evidenceHash, dep_updatedAt := provenanceOf e,
                 dep_proof := proof\<rparr>) deps,
               Some newDeploymentId)))))"

text \<open>\<open>DeploymentDeprecated\<close> and \<open>DeploymentRetired\<close> differ in the status they write.\<close>

definition applyDeploymentEnded ::
    "bindings \<Rightarrow> deployment_status \<Rightarrow> (string, deployment_proj) jsmap \<Rightarrow> string option
      \<Rightarrow> chain_event \<Rightarrow> ((string, deployment_proj) jsmap \<times> string option) res" where
  "applyDeploymentEnded B status deployments activeDeploymentId e =
     bindR (requiredBytes32Arg B e ''deploymentId'') (\<lambda>deploymentId.
       let active = (if activeDeploymentId = Some deploymentId then None else activeDeploymentId) in
       case findDeploymentById deployments deploymentId of
         None \<Rightarrow> Inr (deployments, active)
       | Some (k, d) \<Rightarrow>
           bindR (proofOf e no_metadata) (\<lambda>proof.
             Inr (jset k (d\<lparr>dep_status := status, dep_updatedAt := provenanceOf e,
               dep_proof := proof\<rparr>) deployments, active)))"

definition applyDeploymentRegistryEvent ::
    "bindings \<Rightarrow> (string, deployment_proj) jsmap \<Rightarrow> string option \<Rightarrow> chain_event
      \<Rightarrow> ((string, deployment_proj) jsmap \<times> string option) res" where
  "applyDeploymentRegistryEvent B deployments activeDeploymentId e =
     (if eventName e = ''DeploymentRegistered'' then
        bindR (applyDeploymentRegistered B deployments e) (\<lambda>d. Inr (d, activeDeploymentId))
      else if eventName e = ''DeploymentCanaryMarked'' then
        bindR (applyDeploymentCanaryMarked B deployments e) (\<lambda>d. Inr (d, activeDeploymentId))
      else if eventName e = ''DeploymentActivated'' then applyDeploymentActivated B deployments e
      else if eventName e = ''DeploymentDeprecated'' then
        applyDeploymentEnded B DepDeprecated deployments activeDeploymentId e
      else if eventName e = ''DeploymentRetired'' then
        applyDeploymentEnded B DepRetired deployments activeDeploymentId e
      else Inr (deployments, activeDeploymentId))"

section \<open>What selection returns\<close>

lemma findDeploymentByStateMachine_Some:
  assumes idx: "\<forall>d \<in> set (jvalues deps). indexed (dep_updatedAt d)"
    and found: "findDeploymentByStateMachine deps c a = Some d"
  shows "d \<in> set (jvalues deps) \<and> chainId (dep_registeredAt d) = c
    \<and> toLowerCase (dep_stateMachineAddress d) = toLowerCase a
    \<and> (\<forall>d' \<in> set (jvalues deps). chainId (dep_registeredAt d') = c
         \<and> toLowerCase (dep_stateMachineAddress d') = toLowerCase a
         \<longrightarrow> compareDeploymentSelection d d' \<le> 0)"
proof -
  let ?P = "\<lambda>d. chainId (dep_registeredAt d) = c
      \<and> toLowerCase (dep_stateMachineAddress d) = toLowerCase a"
  let ?xs = "filter ?P (jvalues deps)"
  from found obtain ys where ys: "js_sort compareDeploymentSelection ?xs = d # ys"
    by (auto simp: findDeploymentByStateMachine_def split: list.splits)
  then have "d \<in> set ?xs" by (metis list.set_intros(1) set_js_sort)
  moreover have "compareDeploymentSelection d d' \<le> 0" if "d' \<in> set ?xs" for d'
    by (rule deployment_order.js_sort_head_least [OF _ ys that]) (use idx in auto)
  ultimately show ?thesis by auto
qed

lemma findDeploymentByStateMachine_None:
  "findDeploymentByStateMachine deps c a = None \<longleftrightarrow>
     (\<forall>d \<in> set (jvalues deps). \<not> (chainId (dep_registeredAt d) = c
        \<and> toLowerCase (dep_stateMachineAddress d) = toLowerCase a))"
proof -
  let ?xs = "filter (\<lambda>d. chainId (dep_registeredAt d) = c
      \<and> toLowerCase (dep_stateMachineAddress d) = toLowerCase a) (jvalues deps)"
  have "findDeploymentByStateMachine deps c a = None \<longleftrightarrow>
      js_sort compareDeploymentSelection ?xs = []"
    unfolding findDeploymentByStateMachine_def
    by (cases "js_sort compareDeploymentSelection ?xs") simp_all
  then show ?thesis by (simp only: js_sort_Nil_iff filter_empty_conv)
qed

end
