(* ===== verification/Orders.thy ===== *)
theory Orders imports Deployments begin

text \<open>
  The order family (\<open>indexer/projections/order.ts\<close>): composite keys, attribution of module
  events to their state machine, the get-or-create of an order bucket with its migration
  from the placeholder plan, the append-only proof and timeline lists, and the handlers of
  the order events. \<open>touchOrder\<close> is the pattern every handler follows: fetch the bucket,
  run the handler's body on the order, store it.
\<close>

section \<open>Keys\<close>

definition stateMachineOrderProjectionKey :: "int \<Rightarrow> string \<Rightarrow> string \<Rightarrow> string \<Rightarrow> string" where
  "stateMachineOrderProjectionKey chain stateMachineAddress planId orderId =
     join_colon [dec_int chain, toLowerCase stateMachineAddress, toLowerCase planId,
       toLowerCase orderId]"

definition stateMachineTaskProjectionKey ::
    "int \<Rightarrow> string \<Rightarrow> string \<Rightarrow> string \<Rightarrow> string \<Rightarrow> string" where
  "stateMachineTaskProjectionKey chain stateMachineAddress planId orderId hookId =
     join_colon [stateMachineOrderProjectionKey chain stateMachineAddress planId orderId,
       toLowerCase hookId]"

text \<open>The three-argument overload; the four-argument one is the order projection key.\<close>

definition stateMachineScopedKey :: "int \<Rightarrow> string \<Rightarrow> string \<Rightarrow> string" where
  "stateMachineScopedKey chain stateMachineAddress ident =
     join_colon [dec_int chain, toLowerCase stateMachineAddress, toLowerCase ident]"

section \<open>Modules\<close>

definition applyStateMachineModuleSet ::
    "bindings \<Rightarrow> replay_state \<Rightarrow> chain_event \<Rightarrow> replay_state res" where
  "applyStateMachineModuleSet B s e =
     bindR (requiredBytes32Arg B e ''moduleId'') (\<lambda>moduleId.
     bindR (requiredAddressArg B e ''previousModule'') (\<lambda>previousModule.
     bindR (requiredAddressArg B e ''newModule'') (\<lambda>moduleAddress.
     bindR (proofOf e no_metadata) (\<lambda>proof.
       Inr (s\<lparr>st_modules :=
         jset (stateMachineScopedKey (chainId e) (contractAddress e) moduleId)
           \<lparr>mod_chainId = chainId e, mod_stateMachineAddress = contractAddress e,
            mod_moduleId = moduleId, mod_previousModule = previousModule,
            mod_moduleAddress = moduleAddress, mod_updatedAt = provenanceOf e,
            mod_proof = proof\<rparr> (st_modules s)\<rparr>)))))"

definition resolveStateMachineAddressForModuleEvent ::
    "(string, module_proj) jsmap \<Rightarrow> chain_event \<Rightarrow> string \<times> bool" where
  "resolveStateMachineAddressForModuleEvent modules e =
     (case filter (\<lambda>m. mod_chainId m = chainId e
          \<and> toLowerCase (mod_moduleAddress m) = toLowerCase (contractAddress e)) (jvalues modules) of
        [m] \<Rightarrow> (mod_stateMachineAddress m, True)
      | _ \<Rightarrow> (contractAddress e, False))"

definition stateMachineAddressForOrderEvent ::
    "replay_state \<Rightarrow> chain_event \<Rightarrow> string \<times> replay_state" where
  "stateMachineAddressForOrderEvent s e =
     (case resolveStateMachineAddressForModuleEvent (st_modules s) e of
        (a, True) \<Rightarrow> (a, s)
      | (a, False) \<Rightarrow>
          (a, s\<lparr>st_diagnostics := (st_diagnostics s)\<lparr>unresolvedModuleOrderEventCount :=
            unresolvedModuleOrderEventCount (st_diagnostics s) + 1\<rparr>\<rparr>))"

section \<open>Proof and timeline lists\<close>

definition appendOrderProof :: "order_proj \<Rightarrow> proof_proj \<Rightarrow> order_proj" where
  "appendOrderProof order p =
     (if \<exists>item \<in> set (or_proof order). pf_eventId item = pf_eventId p then order
      else order\<lparr>or_proof := or_proof order @ [p]\<rparr>)"

definition appendOrderTimeline :: "order_proj \<Rightarrow> timeline_event \<Rightarrow> order_proj" where
  "appendOrderTimeline order t =
     (if \<exists>item \<in> set (or_timeline order). tl_timelineId item = tl_timelineId t then order
      else order\<lparr>or_timeline := or_timeline order @ [t]\<rparr>)"

text \<open>The two calls that end every order handler.\<close>

definition recordEvent ::
    "proof_proj \<Rightarrow> timeline_text \<Rightarrow> proof_metadata \<Rightarrow> order_proj \<Rightarrow> order_proj" where
  "recordEvent p text md order =
     appendOrderTimeline (appendOrderProof order p) (timelineOf text p md)"

definition order_metadata :: "string \<Rightarrow> string \<Rightarrow> proof_metadata" where
  "order_metadata orderId planId =
     \<lparr>md_orderId = Some orderId, md_planId = Some planId, md_planHash = None, md_submitter = None\<rparr>"

section \<open>Order buckets\<close>

text \<open>
  \<open>ensureStateMachineOrder\<close> returns a reference to the bucket's order; here it returns the
  bucket's key, the order and the map that holds it.
\<close>

definition newOrder ::
    "chain_event \<Rightarrow> string \<Rightarrow> string option \<Rightarrow> string option \<Rightarrow> string \<Rightarrow> order_proj" where
  "newOrder e orderId planId deploymentId address =
     \<lparr>or_orderId = orderId, or_chainId = chainId e, or_contractAddress = address,
      or_deploymentId = keep_truthy deploymentId,
      or_planId = (case planId of None \<Rightarrow> ZERO_BYTES32 | Some p \<Rightarrow> p), or_planHash = None,
      or_status = (if truthy planId then OrderRegisteredStatus else OrderUnknownStatus),
      or_currentStage = None, or_relayer = None, or_creator = None,
      or_authorizations = [], or_signals = [], or_signalDelegations = [],
      or_stageExecutorOverlays = [], or_stageResourceOverlays = [], or_triggerLink = None,
      or_hooks = [], or_tasks = [], or_timeline = [], or_proof = [],
      or_registeredAt = None, or_updatedAt = provenanceOf e\<rparr>"

definition orderCandidates ::
    "(string, order_proj) jsmap \<Rightarrow> int \<Rightarrow> string \<Rightarrow> string \<Rightarrow> (string, order_proj) jsmap" where
  "orderCandidates orders chain address orderId =
     filter (\<lambda>(k, c). or_chainId c = chain \<and> toLowerCase (or_contractAddress c) = address
        \<and> toLowerCase (or_orderId c) = toLowerCase orderId) orders"

text \<open>The bucket found before any is created, with the map after a possible migration.\<close>

definition findOrderBucket ::
    "(string, order_proj) jsmap \<Rightarrow> chain_event \<Rightarrow> string \<Rightarrow> string option \<Rightarrow> string
      \<Rightarrow> ((string \<times> order_proj) option \<times> (string, order_proj) jsmap) res" where
  "findOrderBucket orders e orderId planId address =
     (let candidates = orderCandidates orders (chainId e) address orderId in
      if truthy planId then
        let p = the planId;
            orderKey = stateMachineOrderProjectionKey (chainId e) address p orderId in
        case jget orders orderKey of
          Some order \<Rightarrow> Inr (Some (orderKey, order), orders)
        | None \<Rightarrow>
            let unknown = filter (\<lambda>(k, c). or_planId c = ZERO_BYTES32) candidates in
            if 1 < length unknown then
              Inl (ProjectionError (eventName e @ '' has multiple unknown projections for ''
                @ address @ '':'' @ orderId @ ''; planId is required''))
            else (case unknown of
                [] \<Rightarrow> Inr (None, orders)
              | (k, u) # _ \<Rightarrow>
                  let unknownKey = stateMachineOrderProjectionKey (chainId e) address
                        ZERO_BYTES32 orderId;
                      migrated = u\<lparr>or_planId := p\<rparr> in
                  Inr (Some (orderKey, migrated),
                    jset orderKey migrated (jdelete unknownKey orders)))
      else if 1 < length candidates then
        Inl (ProjectionError (eventName e @ '' has ambiguous order '' @ orderId
          @ ''; planId is required''))
      else (case candidates of [] \<Rightarrow> Inr (None, orders) | c # _ \<Rightarrow> Inr (Some c, orders)))"

definition ensureStateMachineOrder ::
    "(string, order_proj) jsmap \<Rightarrow> chain_event \<Rightarrow> string \<Rightarrow> string option \<Rightarrow> string option
      \<Rightarrow> string option \<Rightarrow> (string \<times> order_proj \<times> (string, order_proj) jsmap) res" where
  "ensureStateMachineOrder orders e orderId planId deploymentId bucketStateMachineAddress =
     (let address = (case bucketStateMachineAddress of None \<Rightarrow> contractAddress e | Some a \<Rightarrow> a);
          normalized = toLowerCase address in
      bindR (findOrderBucket orders e orderId planId normalized) (\<lambda>(existing, orders').
        case existing of
          Some (k, order) \<Rightarrow>
            if truthy planId \<and> planId \<noteq> Some (or_planId order) then
              Inl (ProjectionError (eventName e @ '' order '' @ orderId @ '' belongs to plan ''
                @ or_planId order @ '', not '' @ the planId))
            else
              let order' = order\<lparr>
                    or_deploymentId := (if truthy deploymentId \<and> \<not> truthy (or_deploymentId order)
                      then deploymentId else or_deploymentId order),
                    or_updatedAt := provenanceOf e\<rparr> in
              Inr (k, order', jset k order' orders')
        | None \<Rightarrow>
            let orderKey = stateMachineOrderProjectionKey (chainId e) normalized
                  (case planId of None \<Rightarrow> ZERO_BYTES32 | Some p \<Rightarrow> p) orderId;
                created = newOrder e orderId planId deploymentId address in
            Inr (orderKey, created, jset orderKey created orders')))"

definition touchOrder ::
    "(string, order_proj) jsmap \<Rightarrow> chain_event \<Rightarrow> string \<Rightarrow> string option \<Rightarrow> string option
      \<Rightarrow> string option \<Rightarrow> (order_proj \<Rightarrow> order_proj res) \<Rightarrow> (string, order_proj) jsmap res" where
  "touchOrder orders e orderId planId deploymentId bucket body =
     bindR (ensureStateMachineOrder orders e orderId planId deploymentId bucket)
       (\<lambda>(k, order, orders'). bindR (body order) (\<lambda>order'. Inr (jset k order' orders')))"

definition with_orders :: "replay_state \<Rightarrow> (string, order_proj) jsmap res \<Rightarrow> replay_state res" where
  "with_orders s r = bindR r (\<lambda>orders. Inr (s\<lparr>st_orders := orders\<rparr>))"

declare touchOrder_def [code_unfold] with_orders_def [code_unfold]

text \<open>\<open>ensureStateMachineOrderFromModuleEvent\<close> followed by the handler's body.\<close>

definition touchOrderFromModuleEvent ::
    "replay_state \<Rightarrow> chain_event \<Rightarrow> string \<Rightarrow> string option \<Rightarrow> string option
      \<Rightarrow> (order_proj \<Rightarrow> order_proj res) \<Rightarrow> replay_state res" where
  "touchOrderFromModuleEvent s e orderId planId deploymentId body =
     (case stateMachineAddressForOrderEvent s e of
        (a, s') \<Rightarrow> with_orders s'
          (touchOrder (st_orders s') e orderId planId deploymentId (Some a) body))"

section \<open>Order events\<close>

definition plan_at :: "replay_state \<Rightarrow> chain_event \<Rightarrow> string \<Rightarrow> plan_proj option" where
  "plan_at s e planId =
     jget (st_plans s) (stateMachineScopedKey (chainId e) (contractAddress e) planId)"

definition deployment_of :: "replay_state \<Rightarrow> chain_event \<Rightarrow> plan_proj option \<Rightarrow> string option" where
  "deployment_of s e plan =
     orderDeploymentIdFromPlanOrStateMachine plan (st_deployments s) (chainId e) (contractAddress e)"

definition applyOrderRegistered ::
    "bindings \<Rightarrow> replay_state \<Rightarrow> chain_event \<Rightarrow> replay_state res" where
  "applyOrderRegistered B s e =
     bindR (requiredBytes32Arg B e ''orderId'') (\<lambda>orderId.
     bindR (requiredBytes32Arg B e ''planId'') (\<lambda>planId.
     let plan = plan_at s e planId; md = order_metadata orderId planId in
     bindR (proofOf e (md\<lparr>md_planHash := map_option pl_planHash plan\<rparr>)) (\<lambda>proof.
     with_orders s (touchOrder (st_orders s) e orderId (Some planId) (deployment_of s e plan) None
       (\<lambda>order.
         let o1 = order\<lparr>or_status := OrderRegisteredStatus, or_planId := planId\<rparr>;
             o2 = (case plan of
                 None \<Rightarrow> o1
               | Some p \<Rightarrow> recordEvent (pl_proof p) TextPlanRegistered md
                   (o1\<lparr>or_planHash := Some (pl_planHash p)\<rparr>));
             o3 = o2\<lparr>or_registeredAt := Some (provenanceOf e), or_updatedAt := provenanceOf e\<rparr>
         in Inr (recordEvent proof TextOrderCreated md o3))))))"

definition applyOrderMaterialized ::
    "bindings \<Rightarrow> replay_state \<Rightarrow> chain_event \<Rightarrow> replay_state res" where
  "applyOrderMaterialized B s e =
     bindR (requiredBytes32Arg B e ''orderId'') (\<lambda>orderId.
     bindR (requiredBytes32Arg B e ''planId'') (\<lambda>planId.
     bindR (requiredBytes32Arg B e ''stageId'') (\<lambda>stageId.
     let plan = plan_at s e planId; md = order_metadata orderId planId in
     with_orders s (touchOrder (st_orders s) e orderId (Some planId) (deployment_of s e plan) None
       (\<lambda>order.
         bindR (proofOf e (md\<lparr>md_planHash :=
             opt_or (or_planHash order) (map_option pl_planHash plan)\<rparr>)) (\<lambda>proof.
           Inr (recordEvent proof TextOrderMaterialized md
             (order\<lparr>or_status := OrderRegisteredStatus, or_currentStage := Some stageId,
                or_planId := planId,
                or_planHash := (case plan of
                    Some p \<Rightarrow> if truthy (or_planHash order) then or_planHash order
                      else Some (pl_planHash p)
                  | None \<Rightarrow> or_planHash order),
                or_updatedAt := provenanceOf e\<rparr>))))))))"

definition applyOrderRelayerRecorded ::
    "bindings \<Rightarrow> replay_state \<Rightarrow> chain_event \<Rightarrow> replay_state res" where
  "applyOrderRelayerRecorded B s e =
     bindR (requiredBytes32Arg B e ''orderId'') (\<lambda>orderId.
     bindR (requiredBytes32Arg B e ''planId'') (\<lambda>planId.
     bindR (requiredAddressArg B e ''relayer'') (\<lambda>relayer.
     bindR (requiredAddressArg B e ''creator'') (\<lambda>creator.
     let plan = plan_at s e planId; md = order_metadata orderId planId in
     with_orders s (touchOrder (st_orders s) e orderId (Some planId) (deployment_of s e plan) None
       (\<lambda>order.
         bindR (proofOf e (md\<lparr>md_planHash := or_planHash order, md_submitter := Some relayer\<rparr>))
           (\<lambda>proof.
           Inr (recordEvent proof TextRelayerRecorded md
             (order\<lparr>or_relayer := Some relayer, or_creator := Some creator,
                or_updatedAt := provenanceOf e\<rparr>)))))))))"

definition applyOrderTriggered ::
    "bindings \<Rightarrow> replay_state \<Rightarrow> chain_event \<Rightarrow> replay_state res" where
  "applyOrderTriggered B s e =
     bindR (requiredBytes32Arg B e ''orderId'') (\<lambda>orderId.
     bindR (requiredBytes32Arg B e ''planId'') (\<lambda>planId.
     bindR (requiredBytes32Arg B e ''triggerStageId'') (\<lambda>triggerStageId.
     bindR (optionalBytes32Arg B e ''triggerHookId'') (\<lambda>triggerHookId.
     bindR (requiredBytes32Arg B e ''sourceId'') (\<lambda>sourceId.
     bindR (requiredBytes32Arg B e ''signalId'') (\<lambda>signalId.
     bindR (requiredAddressArg B e ''submitter'') (\<lambda>submitter.
     let plan = plan_at s e planId; md = order_metadata orderId planId in
     with_orders s (touchOrder (st_orders s) e orderId (Some planId) (deployment_of s e plan) None
       (\<lambda>order.
         let o1 = order\<lparr>or_planHash := (case plan of
               Some p \<Rightarrow> if truthy (or_planHash order) then or_planHash order
                 else Some (pl_planHash p)
             | None \<Rightarrow> or_planHash order)\<rparr> in
         bindR (proofOf e (md\<lparr>md_planHash := opt_or (or_planHash o1) (map_option pl_planHash plan),
             md_submitter := Some submitter\<rparr>)) (\<lambda>proof.
           Inr (recordEvent proof TextOrderTriggered md
             (o1\<lparr>or_currentStage := Some triggerStageId,
                or_status := (if or_status o1 = OrderUnknownStatus then OrderRegisteredStatus
                  else or_status o1),
                or_updatedAt := provenanceOf e\<rparr>))))))))))))"

definition applyOrderLinked ::
    "bindings \<Rightarrow> replay_state \<Rightarrow> chain_event \<Rightarrow> replay_state res" where
  "applyOrderLinked B s e =
     bindR (requiredBytes32Arg B e ''triggeredOrderId'') (\<lambda>triggeredOrderId.
     bindR (requiredBytes32Arg B e ''triggerOriginOrderId'') (\<lambda>triggerOriginOrderId.
     bindR (requiredBytes32Arg B e ''triggerStageId'') (\<lambda>triggerStageId.
     bindR (requiredBytes32Arg B e ''originSourceId'') (\<lambda>originSourceId.
     bindR (requiredBytes32Arg B e ''originSignalId'') (\<lambda>originSignalId.
     bindR (optionalBytes32Arg B e ''planId'') (\<lambda>planId.
     case stateMachineAddressForOrderEvent s e of (stateMachineAddress, s') \<Rightarrow>
     with_orders s' (touchOrder (st_orders s') e triggeredOrderId planId
       (map_option dep_deploymentId
         (findDeploymentByStateMachine (st_deployments s') (chainId e) stateMachineAddress))
       (Some stateMachineAddress)
       (\<lambda>childOrder.
         bindR (proofOf e \<lparr>md_orderId = Some triggeredOrderId, md_planId = Some (or_planId childOrder),
             md_planHash = or_planHash childOrder, md_submitter = None\<rparr>) (\<lambda>proof.
           Inr (recordEvent proof TextOrderLinked
             (no_metadata\<lparr>md_orderId := Some triggeredOrderId\<rparr>)
             (childOrder\<lparr>
                or_triggerLink := Some
                  \<lparr>lk_triggeredOrderId = triggeredOrderId,
                   lk_triggerOriginOrderId = triggerOriginOrderId,
                   lk_triggerStageId = triggerStageId, lk_originSourceId = originSourceId,
                   lk_originSignalId = originSignalId, lk_linkedAt = provenanceOf e,
                   lk_proof = proof\<rparr>,
                or_currentStage := Some triggerStageId,
                or_updatedAt := provenanceOf e\<rparr>)))))))))))"

end
