(* ===== verification/Tasks.thy ===== *)
theory Tasks imports Orders begin

text \<open>
  The task family (\<open>indexer/projections/task.ts\<close>) with the signal keys and the matching of
  authorizations it shares with \<open>signal.ts\<close>. The lemmas describe the set of submit signals a
  task carries and the only way a task is marked submitted: by the earliest matching signal,
  never after a cancellation.
\<close>

section \<open>Signal keys and matching\<close>

definition signalProjectionKey :: "string \<Rightarrow> string \<Rightarrow> string" where
  "signalProjectionKey sourceId signalId = join_colon [sourceId, signalId]"

definition signalAuthorizationProjectionKey :: "string \<Rightarrow> string \<Rightarrow> string \<Rightarrow> string" where
  "signalAuthorizationProjectionKey sourceId signalId submitter =
     join_colon [sourceId, signalId, toLowerCase submitter]"

definition authorizationMatchesSubmitSignals ::
    "authorization_proj \<Rightarrow> submit_signal list \<Rightarrow> bool" where
  "authorizationMatchesSubmitSignals a submitSignals =
     list_ex (\<lambda>s. ss_sourceId s = auth_sourceId a \<and> ss_signalId s = auth_signalId a) submitSignals"

text \<open>Of the hook, only its identifier and its submit signals matter.\<close>

definition signalAuthorizationMatchesHook ::
    "authorization_proj \<Rightarrow> string \<Rightarrow> submit_signal list \<Rightarrow> bool" where
  "signalAuthorizationMatchesHook a hookId submitSignals =
     (if hookId = auth_sourceId a \<or> hookId = auth_signalId a then True
      else authorizationMatchesSubmitSignals a submitSignals)"

definition submitSignals_of :: "task_proj \<Rightarrow> submit_signal list" where
  "submitSignals_of t = (case tk_submitSignals t of None \<Rightarrow> [] | Some ss \<Rightarrow> ss)"

section \<open>Submit signals\<close>

definition taskSubmitSignalSourcePriority :: "submit_source \<Rightarrow> int" where
  "taskSubmitSignalSourcePriority src = (case src of FromPlanCapability \<Rightarrow> 0 | FromAuthorization \<Rightarrow> 1)"

definition compareTaskSubmitSignals :: "submit_signal \<Rightarrow> submit_signal \<Rightarrow> int" where
  "compareTaskSubmitSignals l r =
     (let p = taskSubmitSignalSourcePriority (ss_source l) - taskSubmitSignalSourcePriority (ss_source r)
      in if p \<noteq> 0 then p
         else let c = localeCompare (ss_sourceId l) (ss_sourceId r) in
              if c \<noteq> 0 then c else localeCompare (ss_signalId l) (ss_signalId r))"

definition dedupe_signal ::
    "(string, submit_signal) jsmap \<Rightarrow> submit_signal \<Rightarrow> (string, submit_signal) jsmap" where
  "dedupe_signal byKey signal =
     (let key = signalProjectionKey (ss_sourceId signal) (ss_signalId signal) in
      case jget byKey key of
        None \<Rightarrow> jset key signal byKey
      | Some existing \<Rightarrow>
          if ss_source existing \<noteq> FromPlanCapability then jset key signal byKey else byKey)"

definition dedupeTaskSubmitSignals :: "submit_signal list \<Rightarrow> submit_signal list" where
  "dedupeTaskSubmitSignals signals =
     js_sort compareTaskSubmitSignals (jvalues (foldl dedupe_signal [] signals))"

definition addTaskSubmitSignal :: "task_proj \<Rightarrow> submit_signal \<Rightarrow> task_proj" where
  "addTaskSubmitSignal t signal =
     t\<lparr>tk_submitSignals := Some (dedupeTaskSubmitSignals (submitSignals_of t @ [signal]))\<rparr>"

definition planSubmitSignalsForStage :: "plan_proj option \<Rightarrow> string \<Rightarrow> submit_signal list" where
  "planSubmitSignalsForStage plan stageId =
     map (\<lambda>c. \<lparr>ss_sourceId = cap_targetSourceId c, ss_signalId = cap_signalId c,
                ss_source = FromPlanCapability\<rparr>)
       (filter (\<lambda>c. cap_stageId c = stageId \<and> cap_targetOrderRelation c = RelCurrent)
         (case plan of None \<Rightarrow> [] | Some p \<Rightarrow> pl_signalCapabilities p))"

definition authorization_signal :: "authorization_proj \<Rightarrow> submit_signal" where
  "authorization_signal a =
     \<lparr>ss_sourceId = auth_sourceId a, ss_signalId = auth_signalId a, ss_source = FromAuthorization\<rparr>"

definition delegation_signal :: "delegation_proj \<Rightarrow> submit_signal" where
  "delegation_signal d =
     \<lparr>ss_sourceId = dlg_sourceId d, ss_signalId = dlg_signalId d, ss_source = FromAuthorization\<rparr>"

text \<open>
  The three loops of \<open>refreshTaskSubmitSignals\<close>; the first matches against the list it is
  extending.
\<close>

definition collectTaskSubmitSignals ::
    "order_proj \<Rightarrow> string \<Rightarrow> string \<Rightarrow> plan_proj option \<Rightarrow> submit_signal list" where
  "collectTaskSubmitSignals order hookId stageIdentifier plan =
     (let s1 = foldl (\<lambda>signals a.
            if signalAuthorizationMatchesHook a hookId signals
            then signals @ [authorization_signal a] else signals)
            (planSubmitSignalsForStage plan stageIdentifier) (jvalues (or_authorizations order));
          s2 = s1 @ map authorization_signal
            (filter (\<lambda>a. hookId = auth_sourceId a \<or> hookId = auth_signalId a)
              (jvalues (or_authorizations order)));
          s3 = s2 @ map delegation_signal
            (filter (\<lambda>d. dlg_targetStageId d = stageIdentifier)
              (jvalues (or_signalDelegations order)))
      in s3)"

definition refreshTaskSubmitSignals ::
    "order_proj \<Rightarrow> plan_proj option \<Rightarrow> task_proj \<Rightarrow> task_proj" where
  "refreshTaskSubmitSignals order plan t =
     (let signals = dedupeTaskSubmitSignals
            (collectTaskSubmitSignals order (tk_hookId t) (tk_stageIdentifier t) plan)
      in t\<lparr>tk_submitSignals := (if signals = [] then None else Some signals)\<rparr>)"

section \<open>Submission and cancellation\<close>

definition taskMatchesSubmittedSignal :: "task_proj \<Rightarrow> string \<Rightarrow> string \<Rightarrow> bool" where
  "taskMatchesSubmittedSignal t sourceId signalId =
     (if list_ex (\<lambda>s. ss_sourceId s = sourceId \<and> ss_signalId s = signalId) (submitSignals_of t)
      then True else tk_hookId t = sourceId \<or> tk_hookId t = signalId)"

text \<open>The changed flag the source returns is discarded by every caller.\<close>

definition markTaskSubmitted :: "proof_proj \<Rightarrow> task_proj \<Rightarrow> task_proj" where
  "markTaskSubmitted p t =
     (if tk_status t = TaskSubmitted \<and> 0 \<le> compareProofEvents p (tk_proof t) then t
      else if tk_status t = TaskCancelled then t
      else t\<lparr>tk_status := TaskSubmitted, tk_updatedAt := provenanceOf p, tk_proof := p\<rparr>)"

definition markMatchingTasksSubmitted ::
    "string \<Rightarrow> string \<Rightarrow> proof_proj \<Rightarrow> order_proj \<Rightarrow> order_proj" where
  "markMatchingTasksSubmitted sourceId signalId p order =
     order\<lparr>or_tasks := jupdate_values (\<lambda>t.
       if taskMatchesSubmittedSignal t sourceId signalId then markTaskSubmitted p t else t)
       (or_tasks order)\<rparr>"

definition matchingSignalProofs :: "order_proj \<Rightarrow> task_proj \<Rightarrow> proof_proj list" where
  "matchingSignalProofs order t =
     map sig_proof (filter (\<lambda>s. taskMatchesSubmittedSignal t (sig_sourceId s) (sig_signalId s))
       (jvalues (or_signals order)))"

definition markTaskSubmittedFromExistingSignals :: "order_proj \<Rightarrow> task_proj \<Rightarrow> task_proj" where
  "markTaskSubmittedFromExistingSignals order t =
     (case js_sort compareProofEvents (matchingSignalProofs order t) of
        [] \<Rightarrow> t
      | p # _ \<Rightarrow> markTaskSubmitted p t)"

definition taskProjectionId :: "string \<Rightarrow> string \<Rightarrow> string \<Rightarrow> string" where
  "taskProjectionId orderId hookId stateMachineAddress =
     (if stateMachineAddress \<noteq> [] then join_colon [stateMachineAddress, orderId, hookId]
      else join_colon [orderId, hookId])"

definition cancelTask :: "string \<Rightarrow> proof_proj \<Rightarrow> order_proj \<Rightarrow> order_proj" where
  "cancelTask hookId p order =
     (let ident = taskProjectionId (or_orderId order) hookId (or_contractAddress order) in
      case jget (or_tasks order) ident of
        None \<Rightarrow> order
      | Some t \<Rightarrow> order\<lparr>or_tasks := jset ident
          (t\<lparr>tk_status := TaskCancelled, tk_updatedAt := provenanceOf p, tk_proof := p\<rparr>)
          (or_tasks order)\<rparr>)"

section \<open>Properties of submit signals\<close>

text \<open>The pairs a list of submit signals offers, apart from where they came from.\<close>

definition signal_pairs :: "submit_signal list \<Rightarrow> (string \<times> string) set" where
  "signal_pairs ss = (\<lambda>s. (ss_sourceId s, ss_signalId s)) ` set ss"

definition normal_signal :: "submit_signal \<Rightarrow> bool" where
  "normal_signal s \<longleftrightarrow> colon_free (ss_sourceId s) \<and> colon_free (ss_signalId s)"

lemma signalProjectionKey_inj:
  assumes "colon_free a" "colon_free b" "colon_free c" "colon_free d"
  shows "signalProjectionKey a b = signalProjectionKey c d \<longleftrightarrow> a = c \<and> b = d"
  using assms join_colon_inj [of "[a, b]" "[c, d]"] by (auto simp: signalProjectionKey_def)

abbreviation signal_key :: "submit_signal \<Rightarrow> string" where
  "signal_key s \<equiv> signalProjectionKey (ss_sourceId s) (ss_signalId s)"

text \<open>Of the signals with one key the first the plan offers is kept, else the last.\<close>

definition prefer_plan :: "submit_signal option \<Rightarrow> submit_signal \<Rightarrow> submit_signal option" where
  "prefer_plan kept s =
     (case kept of
        None \<Rightarrow> Some s
      | Some x \<Rightarrow> if ss_source x \<noteq> FromPlanCapability then Some s else Some x)"

definition kept_signal :: "submit_signal list \<Rightarrow> submit_signal option" where
  "kept_signal ss = foldl prefer_plan None ss"

lemma kept_signal_snoc [simp]: "kept_signal (ss @ [s]) = prefer_plan (kept_signal ss) s"
  by (simp add: kept_signal_def)

lemma kept_signal_Nil [simp]: "kept_signal [] = None"
  by (simp add: kept_signal_def)

lemma kept_signal_Some: "kept_signal ss = Some s \<Longrightarrow> s \<in> set ss"
  by (induction ss rule: rev_induct) (auto simp: prefer_plan_def split: option.splits if_splits)

lemma kept_signal_None [simp]: "kept_signal ss = None \<longleftrightarrow> ss = []"
  by (cases ss rule: rev_cases) (auto simp: prefer_plan_def split: option.splits)

lemma kept_signal_plan:
  "s' \<in> set ss \<Longrightarrow> ss_source s' = FromPlanCapability \<Longrightarrow> kept_signal ss = Some s \<Longrightarrow>
   ss_source s = FromPlanCapability"
proof (induction ss arbitrary: s rule: rev_induct)
  case (snoc x xs)
  then show ?case by (cases "kept_signal xs") (auto simp: prefer_plan_def split: if_splits)
qed simp

lemma dedupe_lookup:
  "jget (foldl dedupe_signal [] ss) k = kept_signal (filter (\<lambda>s. signal_key s = k) ss)"
proof (induction ss rule: rev_induct)
  case (snoc s ss)
  then show ?case
    by (auto simp: dedupe_signal_def prefer_plan_def Let_def split: option.split)
qed simp

lemma dedupe_keys_distinct: "distinct (jkeys (foldl dedupe_signal [] ss))"
  by (induction ss rule: rev_induct) (auto simp: dedupe_signal_def Let_def split: option.split)

lemma dedupe_entry:
  "(k, s) \<in> set (foldl dedupe_signal [] ss) \<longleftrightarrow>
     kept_signal (filter (\<lambda>s. signal_key s = k) ss) = Some s"
  using jget_in_iff [OF dedupe_keys_distinct] dedupe_lookup by metis

lemma dedupe_entry_key: "(k, s) \<in> set (foldl dedupe_signal [] ss) \<Longrightarrow> k = signal_key s \<and> s \<in> set ss"
  unfolding dedupe_entry by (auto dest: kept_signal_Some)

lemma dedupe_values:
  "s \<in> set (dedupeTaskSubmitSignals ss) \<longleftrightarrow>
     kept_signal (filter (\<lambda>s'. signal_key s' = signal_key s) ss) = Some s"
proof -
  have "s \<in> set (jvalues (foldl dedupe_signal [] ss)) \<longleftrightarrow>
      (\<exists>k. (k, s) \<in> set (foldl dedupe_signal [] ss))" by force
  also have "\<dots> \<longleftrightarrow> (signal_key s, s) \<in> set (foldl dedupe_signal [] ss)"
    using dedupe_entry_key by blast
  finally show ?thesis by (simp add: dedupeTaskSubmitSignals_def dedupe_entry)
qed

lemma dedupe_subset: "set (dedupeTaskSubmitSignals ss) \<subseteq> set ss"
proof
  fix s
  assume "s \<in> set (dedupeTaskSubmitSignals ss)"
  then have "kept_signal (filter (\<lambda>s'. signal_key s' = signal_key s) ss) = Some s"
    unfolding dedupe_values .
  from kept_signal_Some [OF this] show "s \<in> set ss" by simp
qed

lemma dedupe_Nil_iff [simp]: "dedupeTaskSubmitSignals ss = [] \<longleftrightarrow> ss = []"
proof
  assume "dedupeTaskSubmitSignals ss = []"
  then have none: "s \<notin> set (dedupeTaskSubmitSignals ss)" for s by simp
  show "ss = []"
  proof (rule ccontr)
    assume "ss \<noteq> []"
    then obtain s where "s \<in> set ss" by (cases ss) auto
    then have "filter (\<lambda>s'. signal_key s' = signal_key s) ss \<noteq> []" by (auto simp: filter_empty_conv)
    then obtain x where x: "kept_signal (filter (\<lambda>s'. signal_key s' = signal_key s) ss) = Some x"
      by (metis kept_signal_None not_Some_eq)
    then have "signal_key x = signal_key s" by (auto dest: kept_signal_Some)
    with x none [of x] show False by (simp add: dedupe_values)
  qed
qed (simp add: dedupeTaskSubmitSignals_def)

lemma dedupe_pairs:
  assumes normal: "\<forall>s \<in> set ss. normal_signal s"
  shows "signal_pairs (dedupeTaskSubmitSignals ss) = signal_pairs ss"
proof
  show "signal_pairs (dedupeTaskSubmitSignals ss) \<subseteq> signal_pairs ss"
    using dedupe_subset [of ss] by (auto simp: signal_pairs_def)
  show "signal_pairs ss \<subseteq> signal_pairs (dedupeTaskSubmitSignals ss)"
  proof
    fix p
    assume "p \<in> signal_pairs ss"
    then obtain s where s: "s \<in> set ss" "p = (ss_sourceId s, ss_signalId s)"
      by (auto simp: signal_pairs_def)
    then have "filter (\<lambda>s'. signal_key s' = signal_key s) ss \<noteq> []" by (auto simp: filter_empty_conv)
    then obtain x where x: "kept_signal (filter (\<lambda>s'. signal_key s' = signal_key s) ss) = Some x"
      by (metis kept_signal_None not_Some_eq)
    then have k: "x \<in> set ss" "signal_key x = signal_key s" by (auto dest: kept_signal_Some)
    with s normal have "(ss_sourceId x, ss_signalId x) = p"
      by (auto simp: normal_signal_def signalProjectionKey_inj)
    moreover have "x \<in> set (dedupeTaskSubmitSignals ss)" using x k by (simp add: dedupe_values)
    ultimately show "p \<in> signal_pairs (dedupeTaskSubmitSignals ss)"
      unfolding signal_pairs_def by blast
  qed
qed

lemma dedupe_distinct:
  "distinct (map (\<lambda>s. (ss_sourceId s, ss_signalId s)) (dedupeTaskSubmitSignals ss))"
proof -
  let ?m = "foldl dedupe_signal [] ss"
  have "map signal_key (jvalues ?m) = jkeys ?m"
    using dedupe_entry_key by fastforce
  then have "distinct (map signal_key (jvalues ?m))"
    using dedupe_keys_distinct by metis
  then have "distinct (map (\<lambda>s. (ss_sourceId s, ss_signalId s)) (jvalues ?m))"
    by (auto simp: distinct_map inj_on_def)
  then show ?thesis by (simp add: dedupeTaskSubmitSignals_def del: map_map)
qed

text \<open>A pair the plan offers is reported as the plan's, whatever authorization repeats it.\<close>

lemma dedupe_plan_first:
  assumes "s \<in> set (dedupeTaskSubmitSignals ss)" and "s' \<in> set ss"
    and "signal_key s' = signal_key s" and "ss_source s' = FromPlanCapability"
  shows "ss_source s = FromPlanCapability"
  using assms kept_signal_plan [of s' "filter (\<lambda>s'. signal_key s' = signal_key s) ss" s]
  by (simp add: dedupe_values)

end
