(* ===== verification/Plans.thy ===== *)
theory Plans imports Tasks begin

text \<open>
  The plan family (\<open>indexer/projections/plan.ts\<close>): the two-phase publication of a plan, the
  vocabulary of signal capabilities and selector bindings that the metadata module
  registers, the readers of both from event arguments, and the handlers. What registration keeps
  of the vocabulary, and which orders it touches, is in \<open>Registry\<close>.
\<close>

section \<open>Lookup\<close>

text \<open>
  The source returns a reference into the map of plans; here it is the entry, whose key
  says where an update goes.
\<close>

definition findPlanForEvent ::
    "(string, plan_proj) jsmap \<Rightarrow> (string, module_proj) jsmap \<Rightarrow> chain_event \<Rightarrow> string
      \<Rightarrow> (string \<times> plan_proj) option" where
  "findPlanForEvent plans modules e planId =
     (let (stateMachineAddress, _) = resolveStateMachineAddressForModuleEvent modules e;
          key = stateMachineScopedKey (chainId e) stateMachineAddress planId in
      case jget plans key of
        Some plan \<Rightarrow> Some (key, plan)
      | None \<Rightarrow>
          (case filter (\<lambda>(k, p). chainId (pl_registeredAt p) = chainId e \<and> pl_planId p = planId)
             plans of
             [m] \<Rightarrow> Some m
           | _ \<Rightarrow> None))"

definition findPlanForOrder :: "(string, plan_proj) jsmap \<Rightarrow> order_proj \<Rightarrow> plan_proj option" where
  "findPlanForOrder plans order =
     jget plans (stateMachineScopedKey (or_chainId order) (or_contractAddress order)
       (or_planId order))"

section \<open>Vocabulary in event arguments\<close>

text \<open>\<open>typeof v === "bigint" || typeof v === "string" ? Number(v) : v\<close>, as an integer.\<close>

definition numericArg :: "jsval \<Rightarrow> int option" where
  "numericArg v =
     (case v of JBig i \<Rightarrow> js_Number v | JStr s \<Rightarrow> js_Number v | JNum i \<Rightarrow> Some i | _ \<Rightarrow> None)"

definition signalTargetRelationFromArg :: "jsval \<Rightarrow> target_relation" where
  "signalTargetRelationFromArg v =
     (if v = JStr ''current'' then RelCurrent
      else if v = JStr ''triggerOrigin'' then RelTriggerOrigin
      else let relation = numericArg v in
        if relation = Some 0 then RelCurrent
        else if relation = Some 1 then RelTriggerOrigin else RelUnknown)"

definition relation_string :: "target_relation \<Rightarrow> string" where
  "relation_string r =
     (case r of RelCurrent \<Rightarrow> ''current'' | RelTriggerOrigin \<Rightarrow> ''triggerOrigin''
      | RelUnknown \<Rightarrow> ''unknown'')"

text \<open>\<open>value[i]\<close> on an array.\<close>

definition array_at :: "jsval list \<Rightarrow> nat \<Rightarrow> jsval" where
  "array_at vs i = (if i < length vs then vs ! i else JUndefined)"

definition array_word :: "bindings \<Rightarrow> jsval list \<Rightarrow> nat \<Rightarrow> string \<Rightarrow> string res" where
  "array_word B vs i field =
     normalizeBytes32 B (js_String (nullish_or (array_at vs i) (JStr []))) field"

definition item_label :: "chain_event \<Rightarrow> string \<Rightarrow> nat \<Rightarrow> string" where
  "item_label e list index = eventName e @ ''.'' @ list @ ''['' @ dec_nat index @ '']''"

definition bytes32RecordField ::
    "bindings \<Rightarrow> (string, jsval) jsmap \<Rightarrow> string \<Rightarrow> string \<Rightarrow> string res" where
  "bytes32RecordField B rec field ctx =
     (case jfield rec field of
        JStr s \<Rightarrow> normalizeBytes32 B s ctx
      | _ \<Rightarrow> Inl (ProjectionError (ctx @ '' must be a 32-byte hex string'')))"

definition bindingBytes32 ::
    "bindings \<Rightarrow> (string, jsval) jsmap \<Rightarrow> string \<Rightarrow> chain_event \<Rightarrow> nat \<Rightarrow> string res" where
  "bindingBytes32 B rec field e index =
     (case jfield rec field of
        JStr s \<Rightarrow> normalizeBytes32 B s (item_label e ''selectorBindings'' index @ ''.'' @ field)
      | _ \<Rightarrow> Inl (ProjectionError (item_label e ''selectorBindings'' index @ ''.'' @ field
          @ '' must be a 32-byte hex string'')))"

definition bindingOptionalBytes32 ::
    "bindings \<Rightarrow> (string, jsval) jsmap \<Rightarrow> string \<Rightarrow> chain_event \<Rightarrow> nat \<Rightarrow> string option res" where
  "bindingOptionalBytes32 B rec field e index =
     (let v = jfield rec field in
      if v = JUndefined \<or> v = JNull \<or> v = JStr [] then Inr None
      else case v of
        JStr s \<Rightarrow> bindR (normalizeBytes32 B s (item_label e ''selectorBindings'' index @ ''.'' @ field))
          (\<lambda>w. Inr (Some w))
      | _ \<Rightarrow> Inl (ProjectionError (item_label e ''selectorBindings'' index @ ''.'' @ field
          @ '' must be a 32-byte hex string'')))"

definition bindingString :: "(string, jsval) jsmap \<Rightarrow> string \<Rightarrow> string option" where
  "bindingString rec field =
     (case jfield rec field of JStr s \<Rightarrow> if s = [] then None else Some s | _ \<Rightarrow> None)"

definition selectorBindingArg ::
    "bindings \<Rightarrow> jsval \<Rightarrow> chain_event \<Rightarrow> nat \<Rightarrow> selector_binding res" where
  "selectorBindingArg B v e index =
     (let label = item_label e ''selectorBindings'' index in
      case v of
        JArr vs \<Rightarrow>
          bindR (array_word B vs 0 (label @ ''.selectorStageId'')) (\<lambda>selectorStageId.
          bindR (array_word B vs 1 (label @ ''.targetStageId'')) (\<lambda>targetStageId.
            Inr \<lparr>sb_selectorStageIdentifier = None, sb_targetStageIdentifier = None,
                 sb_selectorStageId = selectorStageId, sb_targetStageId = targetStageId,
                 sb_bindingHash = None\<rparr>))
      | JObj rec \<Rightarrow>
          bindR (bindingBytes32 B rec ''selectorStageId'' e index) (\<lambda>selectorStageId.
          bindR (bindingBytes32 B rec ''targetStageId'' e index) (\<lambda>targetStageId.
          bindR (bindingOptionalBytes32 B rec ''bindingHash'' e index) (\<lambda>bindingHash.
            Inr \<lparr>sb_selectorStageIdentifier = bindingString rec ''selectorStageIdentifier'',
                 sb_targetStageIdentifier = bindingString rec ''targetStageIdentifier'',
                 sb_selectorStageId = selectorStageId, sb_targetStageId = targetStageId,
                 sb_bindingHash = keep_truthy bindingHash\<rparr>)))
      | _ \<Rightarrow> Inl (ProjectionError (label @ '' must be an object'')))"

definition selectorBindingsArg :: "bindings \<Rightarrow> chain_event \<Rightarrow> selector_binding list res" where
  "selectorBindingsArg B e =
     (case event_arg e ''selectorBindings'' of
        JArr vs \<Rightarrow> mapR (\<lambda>(i, v). selectorBindingArg B v e i) (enumerate 0 vs)
      | _ \<Rightarrow> Inr [])"

definition signalCapabilityArg ::
    "bindings \<Rightarrow> jsval \<Rightarrow> chain_event \<Rightarrow> nat \<Rightarrow> signal_capability res" where
  "signalCapabilityArg B v e index =
     (let label = item_label e ''signalCapabilities'' index in
      case v of
        JArr vs \<Rightarrow>
          bindR (array_word B vs 0 (label @ ''.stageId'')) (\<lambda>stageId.
          bindR (array_word B vs 1 (label @ ''.targetSourceId'')) (\<lambda>targetSourceId.
          bindR (array_word B vs 2 (label @ ''.signalId'')) (\<lambda>signalId.
          bindR (proofOf e no_metadata) (\<lambda>proof.
            Inr \<lparr>cap_stageId = stageId, cap_targetSourceId = targetSourceId,
                 cap_signalId = signalId,
                 cap_targetOrderRelation = signalTargetRelationFromArg (array_at vs 3),
                 cap_registeredAt = provenanceOf e, cap_proof = proof\<rparr>))))
      | JObj rec \<Rightarrow>
          bindR (bytes32RecordField B rec ''stageId'' (label @ ''.stageId'')) (\<lambda>stageId.
          bindR (bytes32RecordField B rec ''targetSourceId'' (label @ ''.targetSourceId''))
            (\<lambda>targetSourceId.
          bindR (bytes32RecordField B rec ''signalId'' (label @ ''.signalId'')) (\<lambda>signalId.
          bindR (proofOf e no_metadata) (\<lambda>proof.
            Inr \<lparr>cap_stageId = stageId, cap_targetSourceId = targetSourceId,
                 cap_signalId = signalId,
                 cap_targetOrderRelation = signalTargetRelationFromArg
                   (nullish_or (jfield rec ''targetOrderRelation'') (jfield rec ''relation'')),
                 cap_registeredAt = provenanceOf e, cap_proof = proof\<rparr>))))
      | _ \<Rightarrow> Inl (ProjectionError (label @ '' must be an object'')))"

definition signalCapabilityFromEvent :: "bindings \<Rightarrow> chain_event \<Rightarrow> signal_capability res" where
  "signalCapabilityFromEvent B e =
     bindR (requiredBytes32Arg B e ''stageId'') (\<lambda>stageId.
     bindR (requiredBytes32Arg B e ''targetSourceId'') (\<lambda>targetSourceId.
     bindR (requiredBytes32Arg B e ''signalId'') (\<lambda>signalId.
     bindR (requiredBytes32Arg B e ''planId'') (\<lambda>planId.
     bindR (proofOf e (no_metadata\<lparr>md_planId := Some planId\<rparr>)) (\<lambda>proof.
       Inr \<lparr>cap_stageId = stageId, cap_targetSourceId = targetSourceId,
            cap_signalId = signalId,
            cap_targetOrderRelation = signalTargetRelationFromArg
              (nullish_or (event_arg e ''targetOrderRelation'') (event_arg e ''relation'')),
            cap_registeredAt = provenanceOf e, cap_proof = proof\<rparr>)))))"

section \<open>Merging\<close>

definition compareSignalCapabilities :: "signal_capability \<Rightarrow> signal_capability \<Rightarrow> int" where
  "compareSignalCapabilities l r =
     (let c1 = localeCompare (cap_stageId l) (cap_stageId r) in
      if c1 \<noteq> 0 then c1 else
      let c2 = localeCompare (cap_targetSourceId l) (cap_targetSourceId r) in
      if c2 \<noteq> 0 then c2 else
      let c3 = localeCompare (cap_signalId l) (cap_signalId r) in
      if c3 \<noteq> 0 then c3
      else localeCompare (relation_string (cap_targetOrderRelation l))
        (relation_string (cap_targetOrderRelation r)))"

definition signalCapabilitiesArg :: "bindings \<Rightarrow> chain_event \<Rightarrow> signal_capability list res" where
  "signalCapabilitiesArg B e =
     (case event_arg e ''signalCapabilities'' of
        JArr vs \<Rightarrow>
          bindR (mapR (\<lambda>(i, v). signalCapabilityArg B v e i) (enumerate 0 vs)) (\<lambda>cs.
            Inr (js_sort compareSignalCapabilities cs))
      | _ \<Rightarrow> Inr [])"

definition signalCapabilityEquals :: "signal_capability \<Rightarrow> signal_capability \<Rightarrow> bool" where
  "signalCapabilityEquals l r \<longleftrightarrow>
     cap_stageId l = cap_stageId r \<and> cap_targetSourceId l = cap_targetSourceId r
     \<and> cap_signalId l = cap_signalId r
     \<and> cap_targetOrderRelation l = cap_targetOrderRelation r"

text \<open>The loop both merges share: append what no present item equals.\<close>

definition add_new :: "('a \<Rightarrow> 'a \<Rightarrow> bool) \<Rightarrow> 'a list \<Rightarrow> 'a \<Rightarrow> 'a list" where
  "add_new eq merged x = (if list_ex (\<lambda>item. eq item x) merged then merged else merged @ [x])"

definition mergeSignalCapabilities ::
    "signal_capability list \<Rightarrow> signal_capability list \<Rightarrow> signal_capability list" where
  "mergeSignalCapabilities existing incoming =
     js_sort compareSignalCapabilities (foldl (add_new signalCapabilityEquals) existing incoming)"

definition selectorBindingEquals :: "selector_binding \<Rightarrow> selector_binding \<Rightarrow> bool" where
  "selectorBindingEquals l r \<longleftrightarrow>
     sb_selectorStageId l = sb_selectorStageId r \<and> sb_targetStageId l = sb_targetStageId r"

definition mergeSelectorBindings ::
    "selector_binding list \<Rightarrow> selector_binding list \<Rightarrow> selector_binding list" where
  "mergeSelectorBindings existing incoming = foldl (add_new selectorBindingEquals) existing incoming"

section \<open>Handlers\<close>

text \<open>The fields a newly created bucket has whichever event creates it.\<close>

definition newPlan ::
    "replay_state \<Rightarrow> chain_event \<Rightarrow> string \<Rightarrow> string \<Rightarrow> string \<Rightarrow> proof_proj \<Rightarrow> plan_proj" where
  "newPlan s e planId planHash hookCount proof =
     \<lparr>pl_planId = planId,
      pl_deploymentId = map_option dep_deploymentId
        (findDeploymentByStateMachine (st_deployments s) (chainId e) (contractAddress e)),
      pl_stateMachineAddress = contractAddress e, pl_planHash = planHash,
      pl_hookCount = hookCount, pl_publisher = None, pl_hooksHash = None,
      pl_metadataHash = None, pl_dockRoutesRoot = None, pl_dockInterfaceRoot = None,
      pl_committedAt = None, pl_finalizedAt = None, pl_selectorBindings = [],
      pl_signalCapabilities = [], pl_registeredAt = provenanceOf e,
      pl_publisherRecordedAt = None, pl_updatedAt = provenanceOf e, pl_proof = proof,
      pl_publisherProof = None, pl_commitProof = None, pl_finalizationProof = None\<rparr>"

definition set_plan :: "replay_state \<Rightarrow> string \<Rightarrow> plan_proj \<Rightarrow> replay_state" where
  "set_plan s key plan = s\<lparr>st_plans := jset key plan (st_plans s)\<rparr>"

definition plan_key :: "chain_event \<Rightarrow> string \<Rightarrow> string" where
  "plan_key e planId = stateMachineScopedKey (chainId e) (contractAddress e) planId"

definition applyPlanCommitted ::
    "bindings \<Rightarrow> replay_state \<Rightarrow> chain_event \<Rightarrow> replay_state res" where
  "applyPlanCommitted B s e =
     bindR (requiredBytes32Arg B e ''planId'') (\<lambda>planId.
     bindR (requiredBytes32Arg B e ''planHash'') (\<lambda>planHash.
     bindR (requiredAddressArg B e ''publisher'') (\<lambda>publisher.
     bindR (proofOf e \<lparr>md_orderId = None, md_planId = Some planId, md_planHash = Some planHash,
         md_submitter = Some publisher\<rparr>) (\<lambda>proof.
     case jget (st_plans s) (plan_key e planId) of
       Some existing \<Rightarrow> Inr s
     | None \<Rightarrow>
         bindR (uintArgAsString e ''hookCount'') (\<lambda>hookCount.
         bindR (requiredBytes32Arg B e ''hooksHash'') (\<lambda>hooksHash.
         bindR (requiredBytes32Arg B e ''metadataHash'') (\<lambda>metadataHash.
         bindR (requiredBytes32Arg B e ''dockRoutesRoot'') (\<lambda>dockRoutesRoot.
         bindR (requiredBytes32Arg B e ''dockInterfaceRoot'') (\<lambda>dockInterfaceRoot.
           Inr (set_plan s (plan_key e planId)
             ((newPlan s e planId planHash hookCount proof)
               \<lparr>pl_publisher := Some publisher, pl_hooksHash := Some hooksHash,
                pl_metadataHash := Some metadataHash, pl_dockRoutesRoot := Some dockRoutesRoot,
                pl_dockInterfaceRoot := Some dockInterfaceRoot,
                pl_committedAt := Some (provenanceOf e),
                pl_commitProof := Some proof\<rparr>)))))))))))"

definition applyPlanFinalized ::
    "bindings \<Rightarrow> replay_state \<Rightarrow> chain_event \<Rightarrow> replay_state res" where
  "applyPlanFinalized B s e =
     bindR (requiredBytes32Arg B e ''planId'') (\<lambda>planId.
     bindR (requiredBytes32Arg B e ''planHash'') (\<lambda>planHash.
     bindR (requiredBytes32Arg B e ''metadataHash'') (\<lambda>metadataHash.
     bindR (proofOf e (no_metadata\<lparr>md_planId := Some planId, md_planHash := Some planHash\<rparr>))
       (\<lambda>proof.
     case jget (st_plans s) (plan_key e planId) of
       Some existing \<Rightarrow>
         Inr (if pl_finalizedAt existing = None then
           set_plan s (plan_key e planId)
             (existing\<lparr>pl_finalizedAt := Some (provenanceOf e),
                pl_finalizationProof := Some proof, pl_metadataHash := Some metadataHash,
                pl_updatedAt := provenanceOf e\<rparr>)
           else s)
     | None \<Rightarrow>
         Inr (set_plan s (plan_key e planId)
           ((newPlan s e planId planHash ''0'' proof)
             \<lparr>pl_metadataHash := Some metadataHash, pl_committedAt := Some (provenanceOf e),
              pl_finalizedAt := Some (provenanceOf e), pl_finalizationProof := Some proof\<rparr>))))))"

text \<open>The loop over the orders of the plan.\<close>

definition registerPlanInOrder ::
    "chain_event \<Rightarrow> string \<Rightarrow> string \<Rightarrow> deployment_proj option \<Rightarrow> proof_proj \<Rightarrow> order_proj
      \<Rightarrow> order_proj" where
  "registerPlanInOrder e planId planHash deployment proof order =
     (if or_contractAddress order \<noteq> contractAddress e \<or> or_planId order \<noteq> planId then order
      else recordEvent proof TextPlanRegistered (order_metadata (or_orderId order) planId)
        (order\<lparr>or_planHash := Some planHash,
           or_deploymentId := (case deployment of
               Some d \<Rightarrow> if truthy (or_deploymentId order) then or_deploymentId order
                 else Some (dep_deploymentId d)
             | None \<Rightarrow> or_deploymentId order),
           or_updatedAt := provenanceOf e\<rparr>))"

definition applyPlanRegistered ::
    "bindings \<Rightarrow> replay_state \<Rightarrow> chain_event \<Rightarrow> replay_state res" where
  "applyPlanRegistered B s e =
     bindR (requiredBytes32Arg B e ''planId'') (\<lambda>planId.
     bindR (requiredBytes32Arg B e ''planHash'') (\<lambda>planHash.
     let deployment =
       findDeploymentByStateMachine (st_deployments s) (chainId e) (contractAddress e) in
     bindR (proofOf e (no_metadata\<lparr>md_planId := Some planId, md_planHash := Some planHash\<rparr>))
       (\<lambda>proof.
     let existing = jget (st_plans s) (plan_key e planId) in
     bindR (selectorBindingsArg B e) (\<lambda>selectorBindings.
     bindR (signalCapabilitiesArg B e) (\<lambda>signalCapabilities.
     bindR (uintArgAsString e ''hookCount'') (\<lambda>hookCount.
     let base = (case existing of
             Some p \<Rightarrow> p\<lparr>pl_planHash := planHash, pl_hookCount := hookCount,
               pl_registeredAt := provenanceOf e, pl_updatedAt := provenanceOf e,
               pl_proof := proof\<rparr>
           | None \<Rightarrow> newPlan s e planId planHash hookCount proof);
         plan = base\<lparr>
           pl_selectorBindings := mergeSelectorBindings
             (case existing of Some p \<Rightarrow> pl_selectorBindings p | None \<Rightarrow> []) selectorBindings,
           pl_signalCapabilities := mergeSignalCapabilities
             (case existing of Some p \<Rightarrow> pl_signalCapabilities p | None \<Rightarrow> [])
             signalCapabilities\<rparr>
     in Inr ((set_plan s (plan_key e planId) plan)
          \<lparr>st_orders := jupdate_values
             (registerPlanInOrder e planId planHash deployment proof) (st_orders s)\<rparr>)))))))"

definition unknownPlan :: "chain_event \<Rightarrow> string \<Rightarrow> js_error" where
  "unknownPlan e planId =
     ProjectionError (eventName e @ '' references unknown plan '' @ planId)"

definition applyPlanPublisherRecorded ::
    "bindings \<Rightarrow> replay_state \<Rightarrow> chain_event \<Rightarrow> replay_state res" where
  "applyPlanPublisherRecorded B s e =
     bindR (requiredBytes32Arg B e ''planId'') (\<lambda>planId.
     case findPlanForEvent (st_plans s) (st_modules s) e planId of
       None \<Rightarrow> Inl (unknownPlan e planId)
     | Some (key, plan) \<Rightarrow>
         bindR (requiredAddressArg B e ''publisher'') (\<lambda>publisher.
         bindR (proofOf e (no_metadata\<lparr>md_planId := Some planId, md_submitter := Some publisher\<rparr>))
           (\<lambda>proof.
           Inr (set_plan s key (plan\<lparr>pl_publisher := Some publisher,
             pl_publisherRecordedAt := Some (provenanceOf e), pl_publisherProof := Some proof,
             pl_updatedAt := provenanceOf e\<rparr>)))))"

definition applyStageSelectorBindingRegistered ::
    "bindings \<Rightarrow> replay_state \<Rightarrow> chain_event \<Rightarrow> replay_state res" where
  "applyStageSelectorBindingRegistered B s e =
     bindR (requiredBytes32Arg B e ''planId'') (\<lambda>planId.
     bindR (requiredBytes32Arg B e ''selectorStageId'') (\<lambda>selectorStageId.
     bindR (requiredBytes32Arg B e ''targetStageId'') (\<lambda>targetStageId.
     case findPlanForEvent (st_plans s) (st_modules s) e planId of
       None \<Rightarrow> Inl (unknownPlan e planId)
     | Some (key, plan) \<Rightarrow>
         Inr (set_plan s key (plan\<lparr>
           pl_selectorBindings := add_new selectorBindingEquals (pl_selectorBindings plan)
             \<lparr>sb_selectorStageIdentifier = None, sb_targetStageIdentifier = None,
              sb_selectorStageId = selectorStageId, sb_targetStageId = targetStageId,
              sb_bindingHash = None\<rparr>,
           pl_updatedAt := provenanceOf e\<rparr>)))))"

text \<open>The loops over the orders of the plan and over their tasks of the capability's stage.\<close>

definition refreshTasksForCapability ::
    "chain_event \<Rightarrow> string \<Rightarrow> signal_capability \<Rightarrow> plan_proj \<Rightarrow> order_proj \<Rightarrow> order_proj" where
  "refreshTasksForCapability e planId capability plan order =
     (if or_planId order \<noteq> planId \<or> or_chainId order \<noteq> chainId e
         \<or> or_contractAddress order \<noteq> pl_stateMachineAddress plan then order
      else order\<lparr>or_tasks := jupdate_values (\<lambda>t.
        if tk_stageIdentifier t \<noteq> cap_stageId capability then t
        else markTaskSubmittedFromExistingSignals order (refreshTaskSubmitSignals order (Some plan) t))
        (or_tasks order)\<rparr>)"

definition applySignalCapabilityRegistered ::
    "bindings \<Rightarrow> replay_state \<Rightarrow> chain_event \<Rightarrow> replay_state res" where
  "applySignalCapabilityRegistered B s e =
     bindR (requiredBytes32Arg B e ''planId'') (\<lambda>planId.
     bindR (signalCapabilityFromEvent B e) (\<lambda>capability.
     case findPlanForEvent (st_plans s) (st_modules s) e planId of
       None \<Rightarrow> Inl (unknownPlan e planId)
     | Some (key, plan) \<Rightarrow>
         let plan' = plan\<lparr>
               pl_signalCapabilities :=
                 (if list_ex (\<lambda>item. signalCapabilityEquals item capability)
                       (pl_signalCapabilities plan)
                  then pl_signalCapabilities plan
                  else js_sort compareSignalCapabilities
                    (pl_signalCapabilities plan @ [capability])),
               pl_updatedAt := provenanceOf e\<rparr>
         in Inr ((set_plan s key plan')\<lparr>st_orders := jupdate_values
              (refreshTasksForCapability e planId capability plan') (st_orders s)\<rparr>)))"

lemmas plan_handlers =
  applyPlanCommitted_def applyPlanFinalized_def applyPlanRegistered_def
  applyPlanPublisherRecorded_def applyStageSelectorBindingRegistered_def
  applySignalCapabilityRegistered_def

end
