(* ===== verification/Signals.thy ===== *)
theory Signals imports Plans begin

text \<open>
  The signal family (\<open>indexer/projections/signal.ts\<close>): authorizations of submitters, submitted
  signals and derived signals, the assignment of tasks an authorization reaches, and the
  choice of the authorization a new task is assigned by.
\<close>

section \<open>Assignments\<close>

text \<open>The executor overlay of a stage, by the lower-cased stage identifier.\<close>

definition findActiveStageOverlayForHook :: "order_proj \<Rightarrow> string \<Rightarrow> executor_overlay option" where
  "findActiveStageOverlayForHook order stageIdentifier =
     jget (or_stageExecutorOverlays order) (toLowerCase stageIdentifier)"

definition assignTask ::
    "assignee_role \<Rightarrow> string \<Rightarrow> string \<Rightarrow> string \<Rightarrow> provenance \<Rightarrow> task_proj \<Rightarrow> task_proj" where
  "assignTask role wallet roleHash metadataHash at t =
     t\<lparr>tk_assigneeRole := role, tk_assigneeWallet := Some wallet,
       tk_assigneeRoleHash := Some roleHash, tk_authorizationMetadataHash := Some metadataHash,
       tk_updatedAt := at\<rparr>"

definition assignFromAuthorization ::
    "order_proj \<Rightarrow> authorization_proj \<Rightarrow> task_proj \<Rightarrow> task_proj" where
  "assignFromAuthorization order a t =
     (if findActiveStageOverlayForHook order (tk_stageIdentifier t) \<noteq> None then t
      else if \<not> signalAuthorizationMatchesHook a (tk_hookId t) (submitSignals_of t) then t
      else markTaskSubmittedFromExistingSignals order
        (addTaskSubmitSignal
          (assignTask RoleAuthorizedSubmitter (auth_submitter a) (auth_role a)
            (auth_metadataHash a) (auth_authorizedAt a) t)
          (authorization_signal a)))"

definition markMatchingTasksAssigned :: "authorization_proj \<Rightarrow> order_proj \<Rightarrow> order_proj" where
  "markMatchingTasksAssigned a order =
     order\<lparr>or_tasks := jupdate_values (assignFromAuthorization order a) (or_tasks order)\<rparr>"

definition compareSignalAuthorizations :: "authorization_proj \<Rightarrow> authorization_proj \<Rightarrow> int" where
  "compareSignalAuthorizations l r = compareProofEvents (auth_proof l) (auth_proof r)"

interpretation authorization_order:
  js_comparator compareSignalAuthorizations "\<lambda>a. indexed (auth_proof a)"
  by unfold_locales
    (auto simp: compareSignalAuthorizations_def proof_order.swap intro: proof_order.trans)

definition findSignalAuthorizationForHook ::
    "order_proj \<Rightarrow> string \<Rightarrow> submit_signal list \<Rightarrow> authorization_proj option" where
  "findSignalAuthorizationForHook order hookId submitSignals =
     List.find (\<lambda>a. signalAuthorizationMatchesHook a hookId submitSignals)
       (js_sort compareSignalAuthorizations (jvalues (or_authorizations order)))"

section \<open>Handlers\<close>

definition full_metadata :: "string \<Rightarrow> order_proj \<Rightarrow> string option \<Rightarrow> proof_metadata" where
  "full_metadata orderId order submitter =
     \<lparr>md_orderId = Some orderId, md_planId = Some (or_planId order),
      md_planHash = or_planHash order, md_submitter = submitter\<rparr>"

definition applySignalSubmitterAuthorized ::
    "bindings \<Rightarrow> replay_state \<Rightarrow> chain_event \<Rightarrow> replay_state res" where
  "applySignalSubmitterAuthorized B s e =
     bindR (requiredBytes32Arg B e ''orderId'') (\<lambda>orderId.
     bindR (optionalBytes32Arg B e ''planId'') (\<lambda>planId.
     with_orders s (touchOrder (st_orders s) e orderId planId None None (\<lambda>order.
       bindR (requiredBytes32Arg B e ''sourceId'') (\<lambda>sourceId.
       bindR (requiredBytes32Arg B e ''signalId'') (\<lambda>signalId.
       bindR (requiredAddressArg B e ''submitter'') (\<lambda>submitter.
       bindR (requiredBytes32Arg B e ''role'') (\<lambda>role.
       bindR (requiredBytes32Arg B e ''metadataHash'') (\<lambda>metadataHash.
       bindR (proofOf e (full_metadata orderId order (Some submitter))) (\<lambda>proof.
       let authorization =
             \<lparr>auth_orderId = orderId, auth_sourceId = sourceId, auth_signalId = signalId,
              auth_submitter = submitter, auth_role = role, auth_metadataHash = metadataHash,
              auth_authorizedAt = provenanceOf e, auth_proof = proof\<rparr>;
           o1 = order\<lparr>
             or_authorizations := jset (signalAuthorizationProjectionKey sourceId signalId submitter)
               authorization (or_authorizations order),
             or_updatedAt := provenanceOf e\<rparr>
       in Inr (recordEvent proof TextAuthorizationWritten (order_metadata orderId (or_planId order))
            (markMatchingTasksAssigned authorization o1))))))))))))"

definition applySignalSubmitted ::
    "bindings \<Rightarrow> replay_state \<Rightarrow> chain_event \<Rightarrow> replay_state res" where
  "applySignalSubmitted B s e =
     bindR (requiredBytes32Arg B e ''orderId'') (\<lambda>orderId.
     bindR (optionalBytes32Arg B e ''planId'') (\<lambda>planId.
     with_orders s (touchOrder (st_orders s) e orderId planId None None (\<lambda>order.
       bindR (requiredBytes32Arg B e ''sourceId'') (\<lambda>sourceId.
       bindR (requiredBytes32Arg B e ''signalId'') (\<lambda>signalId.
       bindR (requiredAddressArg B e ''submitter'') (\<lambda>submitter.
       bindR (proofOf e (full_metadata orderId order (Some submitter))) (\<lambda>proof.
       bindR (requiredBytes32Arg B e ''payloadHash'') (\<lambda>payloadHash.
       bindR (requiredBytes32Arg B e ''idempotencyKey'') (\<lambda>idempotencyKey.
       let signal =
             \<lparr>sig_orderId = orderId, sig_sourceId = sourceId, sig_signalId = signalId,
              sig_payloadHash = payloadHash, sig_idempotencyKey = idempotencyKey,
              sig_submitter = submitter, sig_submittedAt = provenanceOf e, sig_proof = proof\<rparr>;
           o1 = order\<lparr>
             or_signals := jset (signalProjectionKey sourceId signalId) signal (or_signals order),
             or_status := OrderRegisteredStatus, or_updatedAt := provenanceOf e\<rparr>
       in Inr (recordEvent proof TextSignalWritten (order_metadata orderId (or_planId order))
            (markMatchingTasksSubmitted sourceId signalId proof o1))))))))))))"

definition applyDerivedSignalSubmitted ::
    "bindings \<Rightarrow> replay_state \<Rightarrow> chain_event \<Rightarrow> replay_state res" where
  "applyDerivedSignalSubmitted B s e =
     bindR (requiredBytes32Arg B e ''targetOrderId'') (\<lambda>targetOrderId.
     bindR (bindR (optionalBytes32Arg B e ''targetPlanId'') (\<lambda>p.
         case p of Some _ \<Rightarrow> Inr p | None \<Rightarrow> optionalBytes32Arg B e ''planId'')) (\<lambda>planId.
     touchOrderFromModuleEvent s e targetOrderId planId None (\<lambda>order.
       bindR (optionalAddressArg B e ''submitter'') (\<lambda>submitter.
       bindR (proofOf e (full_metadata targetOrderId order submitter)) (\<lambda>proof.
         Inr (recordEvent proof TextDerivedSignal (order_metadata targetOrderId (or_planId order))
           (order\<lparr>or_updatedAt := provenanceOf e\<rparr>)))))))"

lemmas signal_handlers =
  applySignalSubmitterAuthorized_def applySignalSubmitted_def applyDerivedSignalSubmitted_def

end
