(* ===== verification/Stages.thy ===== *)
theory Stages imports Signals begin

text \<open>
  The stage family (\<open>indexer/projections/stage.ts\<close>): stages, executor and resource patches
  ordered by their nonce, activation, delegation of signals, and the life cycle of hooks
  with the tasks they create and cancel.
\<close>

section \<open>Readers and keys\<close>

text \<open>
  The three modes are \<open>stringToHex(name, { size: 32 })\<close>, computed by the package \<open>viem\<close>.
\<close>

definition EXECUTOR_PATCH_MODE_ASSIGN :: "bindings \<Rightarrow> string" where
  "EXECUTOR_PATCH_MODE_ASSIGN B = stringToHex B ''assign'' 32"

definition EXECUTOR_PATCH_MODE_HANDOFF :: "bindings \<Rightarrow> string" where
  "EXECUTOR_PATCH_MODE_HANDOFF B = stringToHex B ''handoff'' 32"

definition EXECUTOR_PATCH_MODE_REPLACEMENT :: "bindings \<Rightarrow> string" where
  "EXECUTOR_PATCH_MODE_REPLACEMENT B = stringToHex B ''replacement'' 32"

definition executorPatchModeFromArg :: "bindings \<Rightarrow> string option \<Rightarrow> patch_mode res" where
  "executorPatchModeFromArg B modeHash =
     (if \<not> truthy modeHash then Inr ModeAssign
      else if modeHash = Some (EXECUTOR_PATCH_MODE_ASSIGN B) then Inr ModeAssign
      else if modeHash = Some (EXECUTOR_PATCH_MODE_HANDOFF B) then Inr ModeHandoff
      else if modeHash = Some (EXECUTOR_PATCH_MODE_REPLACEMENT B) then Inr ModeReplacement
      else Inl (ProjectionError
        ''StageExecutorPatchApplied.mode is not a supported executor patch mode''))"

definition hookStatusFromArg :: "jsval \<Rightarrow> hook_status" where
  "hookStatusFromArg v =
     (let status = numericArg v in
      if status = Some 0 then HookInit
      else if status = Some 1 then HookWaiting
      else if status = Some 2 then HookReadyStatus
      else if status = Some 3 then HookCancelled else HookUnknown)"

definition hookStatusTimelineText :: "hook_status \<Rightarrow> timeline_text" where
  "hookStatusTimelineText h =
     (case h of HookWaiting \<Rightarrow> TextHookWaiting | HookReadyStatus \<Rightarrow> TextHookReady
      | HookCancelled \<Rightarrow> TextHookCancelled | HookInit \<Rightarrow> TextHookInit
      | HookUnknown \<Rightarrow> TextHookChanged)"

text \<open>\<open>BigInt\<close> throws on a string that is not an integer literal.\<close>

definition bigint_of :: "string \<Rightarrow> int res" where
  "bigint_of s =
     (case parse_bigint s of
        Some i \<Rightarrow> Inr i
      | None \<Rightarrow> Inl (SyntaxError (''Cannot convert '' @ s @ '' to a BigInt'')))"

definition compareUintStrings :: "string \<Rightarrow> string \<Rightarrow> int res" where
  "compareUintStrings left right =
     bindR (bigint_of left) (\<lambda>l. bindR (bigint_of right) (\<lambda>r.
       Inr (if l = r then 0 else if l < r then - 1 else 1)))"

text \<open>\<open>!existing || compareUintStrings(patchNonce, existing.patchNonce) >= 0\<close>.\<close>

definition patch_accepted :: "string \<Rightarrow> string option \<Rightarrow> bool res" where
  "patch_accepted patchNonce existingNonce =
     (case existingNonce of
        None \<Rightarrow> Inr True
      | Some n \<Rightarrow> bindR (compareUintStrings patchNonce n) (\<lambda>c. Inr (0 \<le> c)))"

definition stageExecutorOverlayProjectionKey :: "string \<Rightarrow> string" where
  "stageExecutorOverlayProjectionKey targetStageId = toLowerCase targetStageId"

definition stageResourceOverlayProjectionKey :: "string \<Rightarrow> string \<Rightarrow> string" where
  "stageResourceOverlayProjectionKey targetStageId resourceKey =
     join_colon [toLowerCase targetStageId, toLowerCase resourceKey]"

section \<open>Task assignment\<close>

definition markTargetStageTasksAssignedFromOverlay ::
    "executor_overlay \<Rightarrow> order_proj \<Rightarrow> order_proj" where
  "markTargetStageTasksAssignedFromOverlay overlay order =
     order\<lparr>or_tasks := jupdate_values (\<lambda>t.
       if tk_stageIdentifier t \<noteq> eov_targetStageId overlay then t
       else assignTask RoleStageOverlayExecutor (eov_activeExecutorWallet overlay)
         (eov_roleHash overlay) (eov_executorMetadataHash overlay) (eov_updatedAt overlay) t)
       (or_tasks order)\<rparr>"

definition markTargetStageTasksAssignedFromDelegation ::
    "delegation_proj \<Rightarrow> order_proj \<Rightarrow> order_proj" where
  "markTargetStageTasksAssignedFromDelegation d order =
     order\<lparr>or_tasks := jupdate_values (\<lambda>t.
       if tk_stageIdentifier t \<noteq> dlg_targetStageId d then t
       else markTaskSubmittedFromExistingSignals order
         (addTaskSubmitSignal
           (assignTask RoleDelegatedStageExecutor (dlg_executor d) (dlg_roleHash d)
             (dlg_metadataHash d) (dlg_delegatedAt d) t)
           (delegation_signal d)))
       (or_tasks order)\<rparr>"

section \<open>Stages and patches\<close>

definition applyStageMaterialized ::
    "bindings \<Rightarrow> replay_state \<Rightarrow> chain_event \<Rightarrow> replay_state res" where
  "applyStageMaterialized B s e =
     bindR (requiredBytes32Arg B e ''orderId'') (\<lambda>orderId.
     bindR (optionalBytes32Arg B e ''planId'') (\<lambda>planId.
     with_orders s (touchOrder (st_orders s) e orderId planId None None (\<lambda>order.
       bindR (requiredBytes32Arg B e ''stageId'') (\<lambda>stageId.
       bindR (proofOf e (full_metadata orderId order None)) (\<lambda>proof.
         Inr (recordEvent proof TextStageStarted (order_metadata orderId (or_planId order))
           (order\<lparr>or_currentStage := Some stageId, or_status := OrderRegisteredStatus,
              or_updatedAt := provenanceOf e\<rparr>))))))))"

definition applyStageExecutorPatchApplied ::
    "bindings \<Rightarrow> replay_state \<Rightarrow> chain_event \<Rightarrow> replay_state res" where
  "applyStageExecutorPatchApplied B s e =
     bindR (requiredBytes32Arg B e ''orderId'') (\<lambda>orderId.
     bindR (optionalBytes32Arg B e ''planId'') (\<lambda>planId.
     touchOrderFromModuleEvent s e orderId planId None (\<lambda>order.
       bindR (requiredBytes32Arg B e ''selectorStageId'') (\<lambda>selectorStageId.
       bindR (requiredBytes32Arg B e ''targetStageId'') (\<lambda>targetStageId.
       bindR (requiredAddressArg B e ''selector'') (\<lambda>selectorWallet.
       bindR (uintArgAsString e ''patchNonce'') (\<lambda>patchNonce.
       bindR (optionalBytes32Arg B e ''mode'') (\<lambda>modeHash.
       bindR (executorPatchModeFromArg B modeHash) (\<lambda>mode.
       bindR (optionalAddressArg B e ''previousExecutor'') (\<lambda>previousExecutor.
       bindR (optionalNonZeroBytes32Arg B e ''approvalSourceId'') (\<lambda>approvalSourceId.
       bindR (optionalNonZeroBytes32Arg B e ''approvalSignalId'') (\<lambda>approvalSignalId.
       bindR (proofOf e (full_metadata orderId order (Some selectorWallet))) (\<lambda>proof.
       let key = stageExecutorOverlayProjectionKey targetStageId in
       bindR (patch_accepted patchNonce
           (map_option eov_patchNonce (jget (or_stageExecutorOverlays order) key))) (\<lambda>accepted.
       bindR (if accepted then
           bindR (requiredAddressArg B e ''executor'') (\<lambda>executor.
           bindR (requiredBytes32Arg B e ''role'') (\<lambda>roleHash.
           bindR (requiredBytes32Arg B e ''executorMetadataHash'') (\<lambda>executorMetadataHash.
           bindR (requiredBytes32Arg B e ''patchHash'') (\<lambda>patchHash.
           let overlay =
                 \<lparr>eov_orderId = orderId, eov_selectorStageId = selectorStageId,
                  eov_targetStageId = targetStageId, eov_selectorWallet = selectorWallet,
                  eov_activeExecutorWallet = executor, eov_mode = mode,
                  eov_modeHash = keep_truthy modeHash,
                  eov_previousExecutor = keep_truthy previousExecutor,
                  eov_approvalSourceId = keep_truthy approvalSourceId,
                  eov_approvalSignalId = keep_truthy approvalSignalId,
                  eov_roleHash = roleHash, eov_executorMetadataHash = executorMetadataHash,
                  eov_patchHash = patchHash, eov_patchNonce = patchNonce,
                  eov_metadataURI = (case optionalStringArg e ''metadataURI'' of
                    Some u \<Rightarrow> u | None \<Rightarrow> []),
                  eov_updatedAt = provenanceOf e, eov_activatedAt = None,
                  eov_proof = proof, eov_activationProof = None\<rparr>
           in Inr (markTargetStageTasksAssignedFromOverlay overlay
                (order\<lparr>or_stageExecutorOverlays :=
                   jset key overlay (or_stageExecutorOverlays order)\<rparr>))))))
         else Inr order) (\<lambda>o1.
         Inr (recordEvent proof TextExecutorUpdated (order_metadata orderId (or_planId order))
           (o1\<lparr>or_updatedAt := provenanceOf e\<rparr>)))))))))))))))))"

definition applyStageResourcePatchApplied ::
    "bindings \<Rightarrow> replay_state \<Rightarrow> chain_event \<Rightarrow> replay_state res" where
  "applyStageResourcePatchApplied B s e =
     bindR (requiredBytes32Arg B e ''orderId'') (\<lambda>orderId.
     bindR (optionalBytes32Arg B e ''planId'') (\<lambda>planId.
     touchOrderFromModuleEvent s e orderId planId None (\<lambda>order.
       bindR (requiredBytes32Arg B e ''selectorStageId'') (\<lambda>selectorStageId.
       bindR (requiredBytes32Arg B e ''targetStageId'') (\<lambda>targetStageId.
       bindR (requiredBytes32Arg B e ''resourceKey'') (\<lambda>resourceKey.
       bindR (requiredAddressArg B e ''selector'') (\<lambda>selectorWallet.
       bindR (uintArgAsString e ''patchNonce'') (\<lambda>patchNonce.
       bindR (proofOf e (full_metadata orderId order (Some selectorWallet))) (\<lambda>proof.
       let key = stageResourceOverlayProjectionKey targetStageId resourceKey in
       bindR (patch_accepted patchNonce
           (map_option rov_patchNonce (jget (or_stageResourceOverlays order) key))) (\<lambda>accepted.
       bindR (if accepted then
           bindR (requiredBytes32Arg B e ''manifestHash'') (\<lambda>manifestHash.
           bindR (requiredBytes32Arg B e ''policyHash'') (\<lambda>policyHash.
           bindR (requiredBytes32Arg B e ''patchHash'') (\<lambda>patchHash.
           Inr (order\<lparr>or_stageResourceOverlays := jset key
             \<lparr>rov_orderId = orderId, rov_selectorStageId = selectorStageId,
              rov_targetStageId = targetStageId, rov_resourceKey = resourceKey,
              rov_selectorWallet = selectorWallet, rov_manifestHash = manifestHash,
              rov_policyHash = policyHash, rov_patchHash = patchHash,
              rov_patchNonce = patchNonce,
              rov_manifestURI = (case optionalStringArg e ''manifestURI'' of
                Some u \<Rightarrow> u | None \<Rightarrow> []),
              rov_updatedAt = provenanceOf e, rov_proof = proof\<rparr>
             (or_stageResourceOverlays order)\<rparr>))))
         else Inr order) (\<lambda>o1.
         Inr (recordEvent proof TextResourcesUpdated (order_metadata orderId (or_planId order))
           (o1\<lparr>or_updatedAt := provenanceOf e\<rparr>)))))))))))))"

text \<open>
  An activation without an overlay is counted in the diagnostics; hence the handler is not
  of the shape of \<open>touchOrder\<close>.
\<close>

definition applyStageExecutorActivated ::
    "bindings \<Rightarrow> replay_state \<Rightarrow> chain_event \<Rightarrow> replay_state res" where
  "applyStageExecutorActivated B s e =
     bindR (requiredBytes32Arg B e ''orderId'') (\<lambda>orderId.
     bindR (optionalBytes32Arg B e ''planId'') (\<lambda>planId.
     bindR (ensureStateMachineOrder (st_orders s) e orderId planId None None)
       (\<lambda>(k, order, orders).
     bindR (requiredBytes32Arg B e ''targetStageId'') (\<lambda>targetStageId.
     bindR (requiredAddressArg B e ''executor'') (\<lambda>executor.
     bindR (uintArgAsString e ''patchNonce'') (\<lambda>patchNonce.
     bindR (proofOf e (full_metadata orderId order (Some executor))) (\<lambda>proof.
     let key = stageExecutorOverlayProjectionKey targetStageId;
         existing = jget (or_stageExecutorOverlays order) key;
         d = st_diagnostics s;
         d' = (if existing = None
           then d\<lparr>unresolvedStageActivationEventCount := unresolvedStageActivationEventCount d + 1\<rparr>
           else d) in
     bindR (case existing of
         None \<Rightarrow> Inr order
       | Some ex \<Rightarrow>
           bindR (patch_accepted patchNonce (Some (eov_patchNonce ex))) (\<lambda>accepted.
           if \<not> accepted then Inr order
           else bindR (requiredBytes32Arg B e ''role'') (\<lambda>roleHash.
             bindR (requiredBytes32Arg B e ''metadataHash'') (\<lambda>metadataHash.
             let overlay = ex\<lparr>eov_activeExecutorWallet := executor, eov_roleHash := roleHash,
                   eov_executorMetadataHash := metadataHash, eov_patchNonce := patchNonce,
                   eov_metadataURI := (case optionalStringArg e ''metadataURI'' of
                     Some u \<Rightarrow> u | None \<Rightarrow> eov_metadataURI ex),
                   eov_updatedAt := provenanceOf e, eov_activatedAt := Some (provenanceOf e),
                   eov_activationProof := Some proof\<rparr>
             in Inr (markTargetStageTasksAssignedFromOverlay overlay
                  (order\<lparr>or_stageExecutorOverlays :=
                     jset key overlay (or_stageExecutorOverlays order)\<rparr>)))))) (\<lambda>o1.
       Inr (s\<lparr>st_diagnostics := d',
         st_orders := jset k (recordEvent proof TextExecutorActivated
           (order_metadata orderId (or_planId order))
           (o1\<lparr>or_updatedAt := provenanceOf e\<rparr>)) orders\<rparr>)))))))))"

definition applyStageExecutorSignalDelegated ::
    "bindings \<Rightarrow> replay_state \<Rightarrow> chain_event \<Rightarrow> replay_state res" where
  "applyStageExecutorSignalDelegated B s e =
     bindR (requiredBytes32Arg B e ''orderId'') (\<lambda>orderId.
     bindR (optionalBytes32Arg B e ''planId'') (\<lambda>planId.
     with_orders s (touchOrder (st_orders s) e orderId planId None None (\<lambda>order.
       bindR (requiredBytes32Arg B e ''targetStageId'') (\<lambda>targetStageId.
       bindR (requiredBytes32Arg B e ''sourceId'') (\<lambda>sourceId.
       bindR (requiredBytes32Arg B e ''signalId'') (\<lambda>signalId.
       bindR (requiredAddressArg B e ''executor'') (\<lambda>executor.
       bindR (uintArgAsString e ''patchNonce'') (\<lambda>patchNonce.
       bindR (proofOf e (full_metadata orderId order (Some executor))) (\<lambda>proof.
       bindR (requiredBytes32Arg B e ''role'') (\<lambda>roleHash.
       bindR (requiredBytes32Arg B e ''metadataHash'') (\<lambda>metadataHash.
       let delegation =
             \<lparr>dlg_orderId = orderId, dlg_targetStageId = targetStageId,
              dlg_sourceId = sourceId, dlg_signalId = signalId, dlg_executor = executor,
              dlg_roleHash = roleHash, dlg_metadataHash = metadataHash,
              dlg_patchNonce = patchNonce, dlg_delegatedAt = provenanceOf e,
              dlg_proof = proof\<rparr>;
           key = signalProjectionKey sourceId signalId in
       bindR (patch_accepted patchNonce
           (map_option dlg_patchNonce (jget (or_signalDelegations order) key))) (\<lambda>accepted.
       let o1 = (if accepted then
             markTargetStageTasksAssignedFromDelegation delegation
               (order\<lparr>or_signalDelegations :=
                  jset key delegation (or_signalDelegations order)\<rparr>)
           else order)
       in Inr (recordEvent proof TextSignalDelegated (order_metadata orderId (or_planId order))
            (o1\<lparr>or_updatedAt := provenanceOf e\<rparr>)))))))))))))))"

section \<open>Hooks and tasks\<close>

text \<open>\<open>ensureStateMachineHook\<close>: the hook to write through, present or created.\<close>

definition ensureStateMachineHook ::
    "order_proj \<Rightarrow> chain_event \<Rightarrow> string \<Rightarrow> proof_proj \<Rightarrow> hook_proj" where
  "ensureStateMachineHook order e hookId proof =
     (case jget (or_hooks order) hookId of
        Some h \<Rightarrow> h
      | None \<Rightarrow>
          \<lparr>hk_orderId = or_orderId order, hk_hookId = hookId, hk_stageIdentifier = None,
           hk_hookName = None, hk_status = HookUnknown, hk_dueAt = None,
           hk_updatedAt = provenanceOf e, hk_readyAt = None, hk_proof = proof\<rparr>)"

definition due_present :: "string option \<Rightarrow> bool" where
  "due_present dueAt \<longleftrightarrow> truthy dueAt \<and> dueAt \<noteq> Some ''0''"

definition applyHookStatusChanged ::
    "bindings \<Rightarrow> replay_state \<Rightarrow> chain_event \<Rightarrow> replay_state res" where
  "applyHookStatusChanged B s e =
     bindR (requiredBytes32Arg B e ''orderId'') (\<lambda>orderId.
     bindR (optionalBytes32Arg B e ''planId'') (\<lambda>planId.
     with_orders s (touchOrder (st_orders s) e orderId planId None None (\<lambda>order.
       bindR (requiredBytes32Arg B e ''hookId'') (\<lambda>hookId.
       let hookStatus = hookStatusFromArg (event_arg e ''newStatus'');
           dueAt = optionalUintArgAsString e ''dueAt'' in
       bindR (proofOf e (full_metadata orderId order None)) (\<lambda>proof.
       let hook = (ensureStateMachineHook order e hookId proof)\<lparr>hk_status := hookStatus,
             hk_dueAt := (if due_present dueAt then dueAt else None),
             hk_updatedAt := provenanceOf e, hk_proof := proof\<rparr>;
           o1 = order\<lparr>or_hooks := jset hookId hook (or_hooks order),
             or_status := OrderRegisteredStatus, or_updatedAt := provenanceOf e\<rparr>;
           o2 = (if hookStatus = HookCancelled then cancelTask hookId proof o1 else o1)
       in Inr (recordEvent proof (hookStatusTimelineText hookStatus)
            (order_metadata orderId (or_planId order)) o2)))))))"

text \<open>The task a ready hook creates, before its submit signals are filled in.\<close>

definition readyTask ::
    "order_proj \<Rightarrow> chain_event \<Rightarrow> plan_proj option \<Rightarrow> string \<Rightarrow> string \<Rightarrow> string \<Rightarrow> string
      \<Rightarrow> proof_proj \<Rightarrow> task_proj" where
  "readyTask order e plan orderId hookId stageIdentifier hookName proof =
     (let overlay = findActiveStageOverlayForHook order stageIdentifier;
          authorization = findSignalAuthorizationForHook order hookId
            (planSubmitSignalsForStage plan stageIdentifier);
          blank = \<lparr>tk_taskId = taskProjectionId orderId hookId (or_contractAddress order),
            tk_orderId = orderId, tk_stateMachineAddress = or_contractAddress order,
            tk_planId = Some (or_planId order),
            tk_deploymentId = keep_truthy (or_deploymentId order), tk_hookId = hookId,
            tk_stageIdentifier = stageIdentifier, tk_hookName = hookName,
            tk_assigneeRole = RoleUnknown, tk_assigneeWallet = None,
            tk_assigneeRoleHash = None, tk_authorizationMetadataHash = None,
            tk_status = TaskReady, tk_submitSignals = None, tk_createdAt = provenanceOf e,
            tk_updatedAt = provenanceOf e, tk_proof = proof\<rparr>
      in case overlay of
           Some ov \<Rightarrow> assignTask RoleStageOverlayExecutor (eov_activeExecutorWallet ov)
             (eov_roleHash ov) (eov_executorMetadataHash ov) (provenanceOf e) blank
         | None \<Rightarrow>
             (case authorization of
                Some a \<Rightarrow> assignTask RoleAuthorizedSubmitter (auth_submitter a) (auth_role a)
                  (auth_metadataHash a) (provenanceOf e) blank
              | None \<Rightarrow> blank))"

text \<open>The order with the ready hook, and then with the task the hook creates.\<close>

definition withReadyHook ::
    "order_proj \<Rightarrow> chain_event \<Rightarrow> string \<Rightarrow> string \<Rightarrow> string \<Rightarrow> proof_proj \<Rightarrow> order_proj" where
  "withReadyHook order e hookId stageIdentifier hookName proof =
     order\<lparr>or_hooks := jset hookId
       ((ensureStateMachineHook order e hookId proof)
         \<lparr>hk_stageIdentifier := Some stageIdentifier, hk_hookName := Some hookName,
          hk_status := HookReadyStatus, hk_readyAt := Some (provenanceOf e),
          hk_updatedAt := provenanceOf e, hk_proof := proof\<rparr>) (or_hooks order)\<rparr>"

definition withReadyTask ::
    "order_proj \<Rightarrow> chain_event \<Rightarrow> plan_proj option \<Rightarrow> string \<Rightarrow> string \<Rightarrow> string \<Rightarrow> string
      \<Rightarrow> proof_proj \<Rightarrow> order_proj" where
  "withReadyTask order e plan orderId hookId stageIdentifier hookName proof =
     order\<lparr>
       or_tasks := jset (taskProjectionId orderId hookId (or_contractAddress order))
         (markTaskSubmittedFromExistingSignals order (refreshTaskSubmitSignals order plan
           (readyTask order e plan orderId hookId stageIdentifier hookName proof)))
         (or_tasks order),
       or_currentStage := Some stageIdentifier, or_status := OrderRegisteredStatus,
       or_updatedAt := provenanceOf e\<rparr>"

definition readyInOrder ::
    "(string, plan_proj) jsmap \<Rightarrow> order_proj \<Rightarrow> chain_event \<Rightarrow> string \<Rightarrow> string \<Rightarrow> string \<Rightarrow> string
      \<Rightarrow> proof_proj \<Rightarrow> order_proj" where
  "readyInOrder plans order e orderId hookId stageIdentifier hookName proof =
     withReadyTask order e (findPlanForOrder plans order) orderId hookId stageIdentifier hookName
       proof"

definition applyHookReady ::
    "bindings \<Rightarrow> replay_state \<Rightarrow> chain_event \<Rightarrow> replay_state res" where
  "applyHookReady B s e =
     bindR (requiredBytes32Arg B e ''orderId'') (\<lambda>orderId.
     bindR (optionalBytes32Arg B e ''planId'') (\<lambda>planId.
     with_orders s (touchOrder (st_orders s) e orderId planId None None (\<lambda>order.
       bindR (requiredBytes32Arg B e ''hookId'') (\<lambda>hookId.
       bindR (requiredBytes32Arg B e ''stageId'') (\<lambda>stageIdentifier.
       bindR (requiredBytes32Arg B e ''hookName'') (\<lambda>hookName.
       bindR (proofOf e (full_metadata orderId order None)) (\<lambda>proof.
         Inr (recordEvent proof TextTaskCreated (order_metadata orderId (or_planId order))
           (readyInOrder (st_plans s)
             (withReadyHook order e hookId stageIdentifier hookName proof)
             e orderId hookId stageIdentifier hookName proof))))))))))"

definition applyTimerPoked ::
    "bindings \<Rightarrow> replay_state \<Rightarrow> chain_event \<Rightarrow> replay_state res" where
  "applyTimerPoked B s e =
     bindR (requiredBytes32Arg B e ''orderId'') (\<lambda>orderId.
     bindR (optionalBytes32Arg B e ''planId'') (\<lambda>planId.
     with_orders s (touchOrder (st_orders s) e orderId planId None None (\<lambda>order.
       bindR (requiredBytes32Arg B e ''hookId'') (\<lambda>hookId.
       let dueAt = optionalUintArgAsString e ''dueAt'' in
       bindR (proofOf e (full_metadata orderId order None)) (\<lambda>proof.
       let h0 = ensureStateMachineHook order e hookId proof;
           hook = h0\<lparr>hk_dueAt := (if due_present dueAt then dueAt else hk_dueAt h0),
             hk_updatedAt := provenanceOf e, hk_proof := proof\<rparr>
       in Inr (recordEvent proof TextTimerPoked (order_metadata orderId (or_planId order))
            (order\<lparr>or_hooks := jset hookId hook (or_hooks order),
               or_updatedAt := provenanceOf e\<rparr>))))))))"

lemmas stage_handlers =
  applyStageMaterialized_def applyStageExecutorPatchApplied_def
  applyStageResourcePatchApplied_def applyStageExecutorSignalDelegated_def
  applyHookStatusChanged_def applyHookReady_def applyTimerPoked_def

end
