(* ===== verification/Docking.thy ===== *)
theory Docking imports Stages begin

text \<open>
  The docking family (\<open>indexer/projections/docking.ts\<close>): the delegation of an order to a child
  order through a named interface. A dock is opened once per event, collects input and
  output deliveries by their binding hash, and leaves its trail in the local (parent) and
  the linked (child) order. Events of a dock that is not open are only counted.
\<close>

definition dockProjectionKey :: "int \<Rightarrow> string \<Rightarrow> string \<Rightarrow> string" where
  "dockProjectionKey chain stateMachineAddress dockInstanceId =
     stateMachineScopedKey chain stateMachineAddress dockInstanceId"

definition findDockForEvent ::
    "replay_state \<Rightarrow> chain_event \<Rightarrow> string \<Rightarrow> (string \<times> dock_proj option) \<times> replay_state" where
  "findDockForEvent s e dockInstanceId =
     (case stateMachineAddressForOrderEvent s e of (a, s') \<Rightarrow>
        let key = dockProjectionKey (chainId e) a dockInstanceId in
        ((key, jget (st_docks s') key), s'))"

definition countUnresolvedDock :: "replay_state \<Rightarrow> replay_state" where
  "countUnresolvedDock s =
     s\<lparr>st_diagnostics := (st_diagnostics s)\<lparr>unresolvedDockEventCount :=
       unresolvedDockEventCount (st_diagnostics s) + 1\<rparr>\<rparr>"

text \<open>The trail every dock event leaves in one of its two orders.\<close>

definition noteInOrder ::
    "chain_event \<Rightarrow> string \<Rightarrow> string \<Rightarrow> string \<Rightarrow> proof_proj \<Rightarrow> timeline_text \<Rightarrow> replay_state
      \<Rightarrow> replay_state res" where
  "noteInOrder e stateMachineAddress orderId planId proof text s =
     with_orders s (touchOrder (st_orders s) e orderId (Some planId) None
       (Some stateMachineAddress) (\<lambda>order.
         Inr (recordEvent proof text (order_metadata orderId planId)
           (order\<lparr>or_updatedAt := provenanceOf e\<rparr>))))"

definition noteInLocalOrder ::
    "chain_event \<Rightarrow> dock_proj \<Rightarrow> proof_proj \<Rightarrow> timeline_text \<Rightarrow> replay_state \<Rightarrow> replay_state res" where
  "noteInLocalOrder e d p text =
     noteInOrder e (dk_stateMachineAddress d) (dk_localOrderId d) (dk_localPlanId d) p text"

definition noteInLinkedOrder ::
    "chain_event \<Rightarrow> dock_proj \<Rightarrow> proof_proj \<Rightarrow> timeline_text \<Rightarrow> replay_state \<Rightarrow> replay_state res" where
  "noteInLinkedOrder e d p text =
     noteInOrder e (dk_stateMachineAddress d) (dk_linkedOrderId d) (dk_targetPlanId d) p text"

definition set_dock :: "replay_state \<Rightarrow> string \<Rightarrow> dock_proj \<Rightarrow> replay_state" where
  "set_dock s key d = s\<lparr>st_docks := jset key d (st_docks s)\<rparr>"

definition countUnresolvedTarget :: "chain_event \<Rightarrow> string \<Rightarrow> string \<Rightarrow> replay_state \<Rightarrow> replay_state" where
  "countUnresolvedTarget e stateMachineAddress targetPlanId s =
     (if jget (st_plans s) (stateMachineScopedKey (chainId e) stateMachineAddress targetPlanId)
           = None
      then s\<lparr>st_diagnostics := (st_diagnostics s)\<lparr>unresolvedDockTargetDeploymentCount :=
        unresolvedDockTargetDeploymentCount (st_diagnostics s) + 1\<rparr>\<rparr>
      else s)"

definition applyDockOpened ::
    "bindings \<Rightarrow> replay_state \<Rightarrow> chain_event \<Rightarrow> replay_state res" where
  "applyDockOpened B s e =
     bindR (requiredBytes32Arg B e ''dockInstanceId'') (\<lambda>dockInstanceId.
     case stateMachineAddressForOrderEvent s e of (address, s1) \<Rightarrow>
     bindR (requiredBytes32Arg B e ''localPlanId'') (\<lambda>localPlanId.
     bindR (requiredBytes32Arg B e ''localOrderId'') (\<lambda>localOrderId.
     bindR (requiredBytes32Arg B e ''linkedOrderId'') (\<lambda>linkedOrderId.
     bindR (requiredBytes32Arg B e ''targetPlanId'') (\<lambda>targetPlanId.
     bindR (requiredAddressArg B e ''opener'') (\<lambda>opener.
     let depth = js_Number (nullish_or (event_arg e ''depth'') (JNum 0)) in
     bindR (proofOf e \<lparr>md_orderId = Some localOrderId, md_planId = Some localPlanId,
         md_planHash = None, md_submitter = Some opener\<rparr>) (\<lambda>proof.
     let s2 = countUnresolvedTarget e address targetPlanId s1 in
     bindR (noteInOrder e address localOrderId localPlanId proof TextDockOpened s2) (\<lambda>s3.
     bindR (noteInOrder e address linkedOrderId targetPlanId proof TextDockChildCreated s3) (\<lambda>s4.
     bindR (requiredBytes32Arg B e ''routeId'') (\<lambda>routeId.
     bindR (requiredBytes32Arg B e ''routeHash'') (\<lambda>routeHash.
     bindR (requiredBytes32Arg B e ''interfaceNameId'') (\<lambda>interfaceNameId.
       Inr (set_dock s4 (dockProjectionKey (chainId e) address dockInstanceId)
         \<lparr>dk_dockInstanceId = dockInstanceId, dk_chainId = chainId e,
          dk_stateMachineAddress = address, dk_localPlanId = localPlanId,
          dk_localOrderId = localOrderId, dk_routeId = routeId, dk_routeHash = routeHash,
          dk_interfaceNameId = interfaceNameId, dk_targetPlanId = targetPlanId,
          dk_linkedOrderId = linkedOrderId, dk_depth = depth, dk_opener = opener,
          dk_inputDeliveries = [], dk_outputDeliveries = [],
          dk_openedAt = provenanceOf e, dk_updatedAt = provenanceOf e,
          dk_proof = proof\<rparr>)))))))))))))"

text \<open>The metadata of the proof of a delivery.\<close>

definition dock_metadata :: "dock_proj \<Rightarrow> string \<Rightarrow> proof_metadata" where
  "dock_metadata d submitter =
     \<lparr>md_orderId = Some (dk_localOrderId d), md_planId = Some (dk_localPlanId d),
      md_planHash = None, md_submitter = Some submitter\<rparr>"

definition readInputDelivery ::
    "bindings \<Rightarrow> chain_event \<Rightarrow> string \<Rightarrow> string \<Rightarrow> proof_proj \<Rightarrow> input_delivery res" where
  "readInputDelivery B e inputBindingHash submitter proof =
     bindR (requiredBytes32Arg B e ''localPlanId'') (\<lambda>localPlanId.
     bindR (requiredBytes32Arg B e ''localOrderId'') (\<lambda>localOrderId.
     bindR (requiredBytes32Arg B e ''targetPlanId'') (\<lambda>targetPlanId.
     bindR (requiredBytes32Arg B e ''linkedOrderId'') (\<lambda>linkedOrderId.
     bindR (requiredBytes32Arg B e ''targetSignalId'') (\<lambda>targetSignalId.
     bindR (requiredBytes32Arg B e ''payloadHash'') (\<lambda>payloadHash.
       Inr \<lparr>di_inputBindingHash = inputBindingHash, di_localPlanId = localPlanId,
            di_localOrderId = localOrderId, di_targetPlanId = targetPlanId,
            di_linkedOrderId = linkedOrderId, di_targetSignalId = targetSignalId,
            di_payloadHash = payloadHash, di_submitter = submitter,
            di_deliveredAt = provenanceOf e, di_proof = proof\<rparr>))))))"

definition applyDockInputSubmitted ::
    "bindings \<Rightarrow> replay_state \<Rightarrow> chain_event \<Rightarrow> replay_state res" where
  "applyDockInputSubmitted B s e =
     bindR (requiredBytes32Arg B e ''dockInstanceId'') (\<lambda>dockInstanceId.
     case findDockForEvent s e dockInstanceId of
       ((key, None), s1) \<Rightarrow> Inr (countUnresolvedDock s1)
     | ((key, Some dock), s1) \<Rightarrow>
         bindR (requiredBytes32Arg B e ''inputBindingHash'') (\<lambda>inputBindingHash.
         bindR (requiredAddressArg B e ''submitter'') (\<lambda>submitter.
         bindR (proofOf e (dock_metadata dock submitter)) (\<lambda>proof.
         bindR (readInputDelivery B e inputBindingHash submitter proof) (\<lambda>delivery.
         let d' = dock\<lparr>dk_inputDeliveries :=
                 jset (toLowerCase inputBindingHash) delivery (dk_inputDeliveries dock),
               dk_updatedAt := provenanceOf e\<rparr> in
         bindR (noteInLocalOrder e d' proof TextDockInputDelivered (set_dock s1 key d')) (\<lambda>s2.
           noteInLinkedOrder e d' proof TextDockInputReceived s2))))))"

definition readOutputDelivery ::
    "bindings \<Rightarrow> chain_event \<Rightarrow> string \<Rightarrow> string \<Rightarrow> proof_proj \<Rightarrow> output_delivery res" where
  "readOutputDelivery B e outputBindingHash submitter proof =
     bindR (requiredBytes32Arg B e ''localPlanId'') (\<lambda>localPlanId.
     bindR (requiredBytes32Arg B e ''localOrderId'') (\<lambda>localOrderId.
     bindR (requiredBytes32Arg B e ''targetPlanId'') (\<lambda>targetPlanId.
     bindR (requiredBytes32Arg B e ''linkedOrderId'') (\<lambda>linkedOrderId.
     bindR (requiredBytes32Arg B e ''targetSignalId'') (\<lambda>targetSignalId.
     bindR (requiredBytes32Arg B e ''localSignalId'') (\<lambda>localSignalId.
     bindR (requiredBytes32Arg B e ''payloadHash'') (\<lambda>payloadHash.
       Inr \<lparr>dov_outputBindingHash = outputBindingHash, dov_localPlanId = localPlanId,
            dov_localOrderId = localOrderId, dov_targetPlanId = targetPlanId,
            dov_linkedOrderId = linkedOrderId, dov_targetSignalId = targetSignalId,
            dov_localSignalId = localSignalId, dov_payloadHash = payloadHash,
            dov_submitter = submitter, dov_deliveredAt = provenanceOf e,
            dov_proof = proof\<rparr>)))))))"

text \<open>
  What \<open>applyDockOutputSubmitted\<close> and \<open>applyDockOutputSatisfied\<close> have in common: everything up
  to the trail in the orders.
\<close>

definition deliverDockOutput ::
    "bindings \<Rightarrow> replay_state \<Rightarrow> chain_event
      \<Rightarrow> (dock_proj \<Rightarrow> proof_proj \<Rightarrow> replay_state \<Rightarrow> replay_state res) \<Rightarrow> replay_state res" where
  "deliverDockOutput B s e trail =
     bindR (requiredBytes32Arg B e ''dockInstanceId'') (\<lambda>dockInstanceId.
     case findDockForEvent s e dockInstanceId of
       ((key, None), s1) \<Rightarrow> Inr (countUnresolvedDock s1)
     | ((key, Some dock), s1) \<Rightarrow>
         bindR (requiredBytes32Arg B e ''outputBindingHash'') (\<lambda>outputBindingHash.
         bindR (requiredAddressArg B e ''submitter'') (\<lambda>submitter.
         bindR (proofOf e (dock_metadata dock submitter)) (\<lambda>proof.
         bindR (readOutputDelivery B e outputBindingHash submitter proof) (\<lambda>delivery.
         let d' = dock\<lparr>dk_outputDeliveries :=
                 jset (toLowerCase outputBindingHash) delivery (dk_outputDeliveries dock),
               dk_updatedAt := provenanceOf e\<rparr> in
         trail d' proof (set_dock s1 key d'))))))"

definition applyDockOutputSubmitted ::
    "bindings \<Rightarrow> replay_state \<Rightarrow> chain_event \<Rightarrow> replay_state res" where
  "applyDockOutputSubmitted B s e = deliverDockOutput B s e (\<lambda>d proof s1.
     bindR (noteInLinkedOrder e d proof TextDockOutputReturned s1) (\<lambda>s2.
       noteInLocalOrder e d proof TextDockOutputMapped s2))"

definition applyDockOutputSatisfied ::
    "bindings \<Rightarrow> replay_state \<Rightarrow> chain_event \<Rightarrow> replay_state res" where
  "applyDockOutputSatisfied B s e = deliverDockOutput B s e (\<lambda>d proof s1.
     noteInLocalOrder e d proof TextDockOutputEquivalent s1)"

end
