(* ===== verification/ActiveEvents.thy ===== *)
theory ActiveEvents imports ChainEvents begin

text \<open>
  What the active-event pass computes. A log position is named by the event key; the
  last delivery for a position decides whether it is active. The active list is the
  sorted list of those last deliveries that are not tombstones, so it depends on the
  stream through the last delivery of each position only. Reordering, redelivery, removal
  and resurrection are instances.
\<close>

section \<open>Well-formed streams\<close>

text \<open>
  A stream as the event source delivers it: lower-case addresses and hashes without a
  colon, a transaction index on every event, and one transaction index per log position.
\<close>

definition wf_event :: "chain_event \<Rightarrow> bool" where
  "wf_event e \<longleftrightarrow> indexed e
     \<and> colon_free (contractAddress e) \<and> toLowerCase (contractAddress e) = contractAddress e
     \<and> colon_free (transactionHash e) \<and> toLowerCase (transactionHash e) = transactionHash e"

definition same_position_index :: "chain_event list \<Rightarrow> bool" where
  "same_position_index es \<longleftrightarrow>
     (\<forall>d \<in> set es. \<forall>e \<in> set es.
        chainEventKey d = chainEventKey e \<longrightarrow> transactionIndex d = transactionIndex e)"

definition wf_stream :: "chain_event list \<Rightarrow> bool" where
  "wf_stream es \<longleftrightarrow> list_all wf_event es \<and> same_position_index es"

lemma wf_stream_event: "wf_stream es \<Longrightarrow> e \<in> set es \<Longrightarrow> wf_event e"
  by (auto simp: wf_stream_def list_all_iff)

lemma wf_stream_indexed: "wf_stream es \<Longrightarrow> \<forall>e \<in> set es. indexed e"
  by (auto simp: wf_stream_def list_all_iff wf_event_def)

lemma wf_stream_subset: "wf_stream es \<Longrightarrow> set ds \<subseteq> set es \<Longrightarrow> wf_stream ds"
  by (auto simp: wf_stream_def same_position_index_def list_all_iff)

text \<open>The key names the position: composite keys are injective on well-formed events.\<close>

lemma chainEventKey_inj:
  assumes "wf_event d" and "wf_event e"
  shows "chainEventKey d = chainEventKey e \<longleftrightarrow>
    chainId d = chainId e \<and> contractAddress d = contractAddress e
    \<and> blockNumber d = blockNumber e \<and> transactionHash d = transactionHash e
    \<and> logIndex d = logIndex e"
proof
  assume "chainEventKey d = chainEventKey e"
  then have "[dec_int (chainId d), toLowerCase (contractAddress d), dec_int (blockNumber d),
      toLowerCase (transactionHash d), dec_int (logIndex d)] =
    [dec_int (chainId e), toLowerCase (contractAddress e), dec_int (blockNumber e),
      toLowerCase (transactionHash e), dec_int (logIndex e)]"
    unfolding chainEventKey_def using assms
    by (intro join_colon_inj) (auto simp: wf_event_def)
  then show "chainId d = chainId e \<and> contractAddress d = contractAddress e
    \<and> blockNumber d = blockNumber e \<and> transactionHash d = transactionHash e
    \<and> logIndex d = logIndex e"
    using assms by (simp add: wf_event_def)
qed (simp add: chainEventKey_def)

lemma compareChainEvents_0_key:
  assumes "indexed d" and "indexed e" and "compareChainEvents d e = 0"
  shows "chainEventKey d = chainEventKey e"
proof -
  from assms(3) have "compareChainPointers d e = 0" "contractAddress d = contractAddress e"
    by (auto simp: compareChainEvents_def Let_def split: if_splits)
  with compareChainPointers_0 [OF assms(1,2)] show ?thesis
    by (simp add: chainEventKey_def)
qed

lemma same_key_compare_0:
  assumes "wf_stream es" and "d \<in> set es" and "e \<in> set es" and "chainEventKey d = chainEventKey e"
  shows "compareChainEvents d e = 0"
proof -
  have "wf_event d" "wf_event e" using assms(1-3) by (auto dest: wf_stream_event)
  from chainEventKey_inj [OF this] assms(4) have
    "chainId d = chainId e \<and> contractAddress d = contractAddress e
     \<and> blockNumber d = blockNumber e \<and> transactionHash d = transactionHash e
     \<and> logIndex d = logIndex e" by simp
  moreover have "transactionIndex d = transactionIndex e"
    using assms unfolding wf_stream_def same_position_index_def by blast
  ultimately have "compareChainPointers d e = 0" "contractAddress d = contractAddress e"
    by (simp_all add: compareChainPointers_def split: option.split)
  then show ?thesis by (simp add: compareChainEvents_def)
qed

section \<open>The last delivery of a position\<close>

definition deliveries :: "string \<Rightarrow> chain_event list \<Rightarrow> chain_event list" where
  "deliveries k es = filter (\<lambda>e. chainEventKey e = k) es"

definition last_delivery :: "string \<Rightarrow> chain_event list \<Rightarrow> chain_event option" where
  "last_delivery k es = (case rev (deliveries k es) of [] \<Rightarrow> None | e # _ \<Rightarrow> Some e)"

definition active_at :: "string \<Rightarrow> chain_event list \<Rightarrow> chain_event option" where
  "active_at k es =
     (case last_delivery k es of
        None \<Rightarrow> None | Some e \<Rightarrow> if removed e then None else Some e)"

lemma last_delivery_Nil [simp]: "last_delivery k [] = None"
  by (simp add: last_delivery_def deliveries_def)

lemma last_delivery_snoc:
  "last_delivery k (es @ [e]) = (if chainEventKey e = k then Some e else last_delivery k es)"
  by (simp add: last_delivery_def deliveries_def)

lemma last_delivery_append:
  "last_delivery k (xs @ ys) =
     (case last_delivery k ys of None \<Rightarrow> last_delivery k xs | Some e \<Rightarrow> Some e)"
  by (auto simp: last_delivery_def deliveries_def split: list.split)

lemma last_delivery_Some:
  "last_delivery k es = Some e \<Longrightarrow> e \<in> set es \<and> chainEventKey e = k"
proof (induction es rule: rev_induct)
  case (snoc x xs)
  then show ?case by (auto simp: last_delivery_snoc split: if_splits)
qed simp

lemma last_delivery_None: "last_delivery k es = None \<longleftrightarrow> (\<forall>e \<in> set es. chainEventKey e \<noteq> k)"
  by (induction es rule: rev_induct) (auto simp: last_delivery_snoc)

lemma active_at_Some:
  "active_at k es = Some e \<Longrightarrow> e \<in> set es \<and> chainEventKey e = k \<and> \<not> removed e"
  by (auto simp: active_at_def split: option.splits if_splits dest: last_delivery_Some)

text \<open>Sorting a well-formed stream keeps the deliveries of a position in order.\<close>

lemma deliveries_sorted:
  assumes "wf_stream es"
  shows "deliveries k (sortChainEvents es) = deliveries k es"
  unfolding deliveries_def sortChainEvents_def
proof (rule event_order.js_sort_stable)
  fix d e
  assume "d \<in> set es" "e \<in> set es" "chainEventKey d = k" "chainEventKey e = k"
  then show "compareChainEvents d e \<le> 0" using same_key_compare_0 [OF assms] by simp
qed

lemma last_delivery_sorted:
  "wf_stream es \<Longrightarrow> last_delivery k (sortChainEvents es) = last_delivery k es"
  by (simp add: last_delivery_def deliveries_sorted)

section \<open>What the scan keeps\<close>

lemma scan_fold:
  "jget (activeByEventId (foldl scan_event scan_start es)) k = active_at k es
   \<and> (k \<in> set (removedEventIds (foldl scan_event scan_start es)) \<longleftrightarrow>
        (\<exists>e. last_delivery k es = Some e \<and> removed e))"
proof (induction es arbitrary: k rule: rev_induct)
  case Nil
  then show ?case by (simp add: scan_start_def active_at_def)
next
  case (snoc e es)
  then show ?case
    by (auto simp: scan_event_def Let_def active_at_def last_delivery_snoc set_add_def
      split: if_splits)
qed

lemma scan_distinct: "distinct (jkeys (activeByEventId (foldl scan_event scan_start es)))"
  by (induction es rule: rev_induct) (auto simp: scan_start_def scan_event_def Let_def)

lemma scan_removedCount:
  "removedCount (foldl scan_event scan_start es) = length (filter removed es)"
  by (induction es rule: rev_induct) (auto simp: scan_start_def scan_event_def Let_def)

lemma scan_values:
  "set (jvalues (activeByEventId (foldl scan_event scan_start es))) =
     {e. active_at (chainEventKey e) es = Some e}"
proof (intro set_eqI iffI)
  fix e
  assume "e \<in> set (jvalues (activeByEventId (foldl scan_event scan_start es)))"
  then obtain k where "jget (activeByEventId (foldl scan_event scan_start es)) k = Some e"
    using jget_in_iff [OF scan_distinct] by force
  then have "active_at k es = Some e" using scan_fold by metis
  then show "e \<in> {e. active_at (chainEventKey e) es = Some e}"
    by (auto dest: active_at_Some)
next
  fix e
  assume "e \<in> {e. active_at (chainEventKey e) es = Some e}"
  then have "jget (activeByEventId (foldl scan_event scan_start es)) (chainEventKey e) = Some e"
    using scan_fold by simp
  then show "e \<in> set (jvalues (activeByEventId (foldl scan_event scan_start es)))"
    by (force dest: jget_Some_in)
qed

lemma scan_values_distinct:
  "distinct (map chainEventKey (jvalues (activeByEventId (foldl scan_event scan_start es))))"
proof -
  let ?m = "activeByEventId (foldl scan_event scan_start es)"
  have "chainEventKey v = k" if "(k, v) \<in> set ?m" for k v
    using that jget_in_iff [OF scan_distinct] scan_fold active_at_Some by metis
  then have "map chainEventKey (jvalues ?m) = jkeys ?m" by auto
  then show ?thesis using scan_distinct by metis
qed

lemma active_at_sorted: "wf_stream es \<Longrightarrow> active_at k (sortChainEvents es) = active_at k es"
  by (simp add: active_at_def last_delivery_sorted)

lemma set_filterActive:
  assumes "wf_stream es"
  shows "set (filterActiveChainEvents es) = {e. active_at (chainEventKey e) es = Some e}"
  by (simp add: filterActiveChainEvents_def buildActiveChainEventReplaySummary_def Let_def
    scan_events_def sortChainEvents_def)
    (metis (no_types, lifting) active_at_sorted [OF assms, unfolded sortChainEvents_def]
      Collect_cong list.set_map scan_values)

lemma distinct_filterActive: "distinct (map chainEventKey (filterActiveChainEvents es))"
  using scan_values_distinct [of "sortChainEvents es"]
  by (simp add: filterActiveChainEvents_def buildActiveChainEventReplaySummary_def Let_def
    scan_events_def sortChainEvents_def del: map_map)

lemma set_filterActive_subset: "set (filterActiveChainEvents es) \<subseteq> set es"
proof -
  have "set (filterActiveChainEvents es) =
      {e. active_at (chainEventKey e) (sortChainEvents es) = Some e}"
    using scan_values [of "sortChainEvents es"]
    by (simp add: filterActiveChainEvents_def buildActiveChainEventReplaySummary_def Let_def
      scan_events_def sortChainEvents_def)
  then show ?thesis by (auto dest!: active_at_Some simp: sortChainEvents_def)
qed

text \<open>
  The active list is determined by the last deliveries: the engine of every statement
  about redelivery, reordering and reorganisation.
\<close>

lemma active_events_determined:
  assumes xs: "wf_stream xs" and ys: "wf_stream ys" and same: "\<And>k. active_at k xs = active_at k ys"
  shows "filterActiveChainEvents xs = filterActiveChainEvents ys"
proof -
  let ?u = "\<lambda>es. jvalues (activeByEventId (foldl scan_event scan_start (sortChainEvents es)))"
  have vals: "set (?u es) = {e. active_at (chainEventKey e) es = Some e}" if "wf_stream es" for es
    using scan_values [of "sortChainEvents es"] active_at_sorted [OF that] by simp
  have eq: "set (?u xs) = set (?u ys)" using vals [OF xs] vals [OF ys] same by simp
  have dist: "distinct (?u es)" for es
    using scan_values_distinct distinct_map by blast
  have "mset (?u xs) = mset (?u ys)"
    using eq dist set_eq_iff_mset_eq_distinct by blast
  moreover have "\<forall>e \<in> set (?u xs). indexed e"
    using vals [OF xs] wf_stream_indexed [OF xs] by (auto dest: active_at_Some)
  moreover have "d = e" if "d \<in> set (?u xs)" "e \<in> set (?u xs)" "compareChainEvents d e = 0" for d e
    using that compareChainEvents_0_key vals [OF xs] wf_stream_indexed [OF xs]
    by (metis (mono_tags, lifting) active_at_Some mem_Collect_eq option.inject)
  ultimately have "js_sort compareChainEvents (?u xs) = js_sort compareChainEvents (?u ys)"
    by (rule event_order.js_sort_unique)
  then show ?thesis
    by (simp add: filterActiveChainEvents_def buildActiveChainEventReplaySummary_def Let_def
      scan_events_def sortChainEvents_def)
qed

lemma sorted_filterActive:
  assumes "wf_stream es"
  shows "sorted_wrt (\<lambda>d e. compareChainEvents d e \<le> 0) (filterActiveChainEvents es)"
proof -
  have "\<forall>e \<in> set (filterActiveChainEvents es). indexed e"
    using set_filterActive_subset wf_stream_indexed [OF assms] by blast
  then show ?thesis
    by (simp add: filterActiveChainEvents_def buildActiveChainEventReplaySummary_def Let_def
      sortChainEvents_def event_order.sorted_js_sort)
qed

lemma active_at_filterActive:
  assumes "wf_stream es"
  shows "active_at k (filterActiveChainEvents es) = active_at k es"
proof (cases "active_at k es")
  case None
  have "e \<notin> set (filterActiveChainEvents es)" if "chainEventKey e = k" for e
    using None that by (auto simp: set_filterActive [OF assms])
  then have "last_delivery k (filterActiveChainEvents es) = None"
    by (auto simp: last_delivery_None)
  with None show ?thesis by (simp add: active_at_def)
next
  case (Some e)
  then have e: "chainEventKey e = k" "\<not> removed e" by (auto dest: active_at_Some)
  with Some have "e \<in> set (filterActiveChainEvents es)" by (simp add: set_filterActive [OF assms])
  then obtain d where d: "last_delivery k (filterActiveChainEvents es) = Some d"
    using e last_delivery_None by (metis not_Some_eq)
  then have "d \<in> set (filterActiveChainEvents es)" "chainEventKey d = k"
    by (auto dest: last_delivery_Some)
  then have "d = e" using Some by (auto simp: set_filterActive [OF assms])
  with d e Some show ?thesis by (simp add: active_at_def)
qed

lemma wf_stream_filterActive: "wf_stream es \<Longrightarrow> wf_stream (filterActiveChainEvents es)"
  by (erule wf_stream_subset [OF _ set_filterActive_subset])

end
