(* ===== verification/Replay.thy ===== *)
theory Replay imports Docking ActiveEvents begin

text \<open>
  Orchestration (\<open>indexer/replay.ts\<close>): the dispatch of an event to its handler, the replay of
  a stream of events into a projection snapshot, and the counters of replay anomalies.
\<close>

section \<open>Dispatch\<close>

definition applyStateMachineEvent ::
    "bindings \<Rightarrow> replay_state \<Rightarrow> chain_event \<Rightarrow> replay_state res" where
  "applyStateMachineEvent B s e =
     (let n = eventName e in
      if n = ''StateMachineModuleSet'' then applyStateMachineModuleSet B s e
      else if n = ''PlanCommitted'' then applyPlanCommitted B s e
      else if n = ''PlanFinalized'' then applyPlanFinalized B s e
      else if n = ''PlanRegistered'' then applyPlanRegistered B s e
      else if n = ''PlanPublisherRecorded'' then applyPlanPublisherRecorded B s e
      else if n = ''OrderRegistered'' then applyOrderRegistered B s e
      else if n = ''OrderMaterialized'' then applyOrderMaterialized B s e
      else if n = ''OrderRelayerRecorded'' then applyOrderRelayerRecorded B s e
      else if n = ''SignalSubmitterAuthorized'' then applySignalSubmitterAuthorized B s e
      else if n = ''SignalSubmitted'' then applySignalSubmitted B s e
      else if n = ''StageMaterialized'' then applyStageMaterialized B s e
      else if n = ''OrderTriggered'' then applyOrderTriggered B s e
      else if n = ''OrderLinked'' then applyOrderLinked B s e
      else if n = ''SignalCapabilityRegistered'' then applySignalCapabilityRegistered B s e
      else if n = ''StageSelectorBindingRegistered'' then applyStageSelectorBindingRegistered B s e
      else if n = ''StageExecutorPatchApplied'' then applyStageExecutorPatchApplied B s e
      else if n = ''StageResourcePatchApplied'' then applyStageResourcePatchApplied B s e
      else if n = ''StageExecutorActivated'' then applyStageExecutorActivated B s e
      else if n = ''StageExecutorSignalDelegated'' then applyStageExecutorSignalDelegated B s e
      else if n = ''DockOpened'' then applyDockOpened B s e
      else if n = ''DockInputSubmitted'' then applyDockInputSubmitted B s e
      else if n = ''DockOutputSubmitted'' then applyDockOutputSubmitted B s e
      else if n = ''DockOutputSatisfied'' then applyDockOutputSatisfied B s e
      else if n = ''DerivedSignalSubmitted'' then applyDerivedSignalSubmitted B s e
      else if n = ''HookStatusChanged'' then applyHookStatusChanged B s e
      else if n = ''HookReady'' then applyHookReady B s e
      else if n = ''TimerPoked'' then applyTimerPoked B s e
      else Inr s)"

section \<open>The replay\<close>

text \<open>The loop's variables: the active deployment, the maps, and what the loop counts.\<close>

record replay_loop =
  rl_activeDeploymentId :: "string option"
  rl_state :: replay_state
  rl_eventCount :: nat
  rl_lastEvent :: "provenance option"

definition replay_start :: replay_loop where
  "replay_start = \<lparr>rl_activeDeploymentId = None, rl_state = start_state, rl_eventCount = 0,
     rl_lastEvent = None\<rparr>"

definition replay_step :: "bindings \<Rightarrow> replay_loop \<Rightarrow> chain_event \<Rightarrow> replay_loop res" where
  "replay_step B r e =
     bindR (applyDeploymentRegistryEvent B
         (st_deployments (rl_state r)) (rl_activeDeploymentId r) e) (\<lambda>(deployments, active).
     bindR (applyStateMachineEvent B ((rl_state r)\<lparr>st_deployments := deployments\<rparr>) e) (\<lambda>s.
       Inr \<lparr>rl_activeDeploymentId = active, rl_state = s, rl_eventCount = rl_eventCount r + 1,
            rl_lastEvent = Some (provenanceOf e)\<rparr>))"

definition order_task_key :: "order_proj \<Rightarrow> task_proj \<Rightarrow> string" where
  "order_task_key order t =
     stateMachineTaskProjectionKey (or_chainId order) (or_contractAddress order)
       (or_planId order) (or_orderId order) (tk_hookId t)"

definition flattenTasks :: "(string, order_proj) jsmap \<Rightarrow> (string, task_proj) jsmap" where
  "flattenTasks orders =
     foldl (\<lambda>m (key, order). foldl (\<lambda>m t. jset (order_task_key order t) t m) m
       (jvalues (or_tasks order))) [] orders"

definition readonlyOrder :: "order_proj \<Rightarrow> order_proj" where
  "readonlyOrder order =
     order\<lparr>or_timeline := js_sort compareTimelineEvents (or_timeline order),
       or_proof := js_sort compareProofEvents (or_proof order)\<rparr>"

definition snapshotOf :: "replay_loop \<Rightarrow> snapshot" where
  "snapshotOf r =
     (let s = rl_state r in
      \<lparr>sn_eventCount = rl_eventCount r,
       sn_activeStateMachineDeploymentId = keep_truthy (rl_activeDeploymentId r),
       sn_stateMachineDeployments = st_deployments s, sn_stateMachineModules = st_modules s,
       sn_stateMachinePlans = st_plans s,
       sn_stateMachineOrders = jupdate_values readonlyOrder (st_orders s),
       sn_stateMachineDocks = st_docks s, sn_stateMachineTasks = flattenTasks (st_orders s),
       sn_diagnostics = st_diagnostics s, sn_lastEvent = rl_lastEvent r\<rparr>)"

definition replay_events :: "bindings \<Rightarrow> chain_event list \<Rightarrow> replay_loop res" where
  "replay_events B es = foldR (replay_step B) replay_start es"

definition rebuildOrderProjections :: "bindings \<Rightarrow> chain_event list \<Rightarrow> snapshot res" where
  "rebuildOrderProjections B events =
     bindR (replay_events B (filterActiveChainEvents events)) (\<lambda>r. Inr (snapshotOf r))"

section \<open>Anomalies\<close>

fun count_duplicates :: "string set \<Rightarrow> chain_event list \<Rightarrow> nat" where
  "count_duplicates seen [] = 0"
| "count_duplicates seen (e # es) =
     (if removed e then count_duplicates seen es
      else (if chainEventKey e \<in> seen then 1 else 0)
        + count_duplicates (insert (chainEventKey e) seen) es)"

definition countDuplicateActiveEventAnomalies :: "chain_event list \<Rightarrow> nat" where
  "countDuplicateActiveEventAnomalies events = count_duplicates {} events"

definition countReplayAnomalies :: "bindings \<Rightarrow> chain_event list \<Rightarrow> nat" where
  "countReplayAnomalies B events =
     countDuplicateActiveEventAnomalies events
       + (case rebuildOrderProjections B events of Inl _ \<Rightarrow> 1 | Inr _ \<Rightarrow> 0)"

end
