(* ===== verification/Buckets.thy ===== *)
theory Buckets imports Orders begin

text \<open>
  Integrity of the map of orders. Every bucket sits under the composite key of the order it
  holds, so the keys are injective in chain, state machine, plan and order, and the
  get-or-create of a bucket never meets two placeholders nor an order of another plan.
\<close>

section \<open>Keys\<close>

definition order_key :: "order_proj \<Rightarrow> string" where
  "order_key o1 =
     stateMachineOrderProjectionKey (or_chainId o1) (or_contractAddress o1) (or_planId o1)
       (or_orderId o1)"

definition order_ids_ok :: "order_proj \<Rightarrow> bool" where
  "order_ids_ok o1 \<longleftrightarrow>
     colon_free (or_contractAddress o1) \<and> normal_word (or_planId o1) \<and> normal_word (or_orderId o1)"

definition orders_ok :: "(string, order_proj) jsmap \<Rightarrow> bool" where
  "orders_ok orders \<longleftrightarrow>
     distinct (jkeys orders) \<and> (\<forall>(k, o1) \<in> set orders. k = order_key o1 \<and> order_ids_ok o1)"

lemma projection_key_inj:
  assumes "colon_free a" "colon_free p" "colon_free i" "colon_free a'" "colon_free p'" "colon_free i'"
  shows "stateMachineOrderProjectionKey c a p i = stateMachineOrderProjectionKey c' a' p' i' \<longleftrightarrow>
    c = c' \<and> toLowerCase a = toLowerCase a' \<and> toLowerCase p = toLowerCase p'
    \<and> toLowerCase i = toLowerCase i'"
proof
  assume "stateMachineOrderProjectionKey c a p i = stateMachineOrderProjectionKey c' a' p' i'"
  then have "[dec_int c, toLowerCase a, toLowerCase p, toLowerCase i] =
      [dec_int c', toLowerCase a', toLowerCase p', toLowerCase i']"
    unfolding stateMachineOrderProjectionKey_def
    by (intro join_colon_inj) (use assms in auto)
  then show "c = c' \<and> toLowerCase a = toLowerCase a' \<and> toLowerCase p = toLowerCase p'
    \<and> toLowerCase i = toLowerCase i'" by simp
qed (simp add: stateMachineOrderProjectionKey_def)

lemma order_key_inj:
  assumes "order_ids_ok x" and "order_ids_ok y"
  shows "order_key x = order_key y \<longleftrightarrow>
    or_chainId x = or_chainId y
    \<and> toLowerCase (or_contractAddress x) = toLowerCase (or_contractAddress y)
    \<and> or_planId x = or_planId y \<and> or_orderId x = or_orderId y"
  unfolding order_key_def using assms
  by (subst projection_key_inj) (auto simp: order_ids_ok_def normal_word_def)

lemma orders_okD:
  assumes "orders_ok orders" and "(k, x) \<in> set orders"
  shows "k = order_key x" and "order_ids_ok x"
  using assms by (auto simp: orders_ok_def)

lemma orders_ok_get:
  assumes "orders_ok orders"
  shows "jget orders k = Some x \<longleftrightarrow> (k, x) \<in> set orders"
  using assms by (simp add: orders_ok_def)

lemma orders_ok_unique:
  assumes "orders_ok orders" and "(k, x) \<in> set orders" and "(k', y) \<in> set orders"
    and "order_key x = order_key y"
  shows "k = k' \<and> x = y"
  using assms orders_okD [OF assms(1)] orders_ok_get [OF assms(1)]
  by (metis option.inject)

lemma orders_ok_Nil [simp]: "orders_ok []"
  by (simp add: orders_ok_def)

lemma orders_ok_jset:
  assumes "orders_ok orders" and "k = order_key x" and "order_ids_ok x"
  shows "orders_ok (jset k x orders)"
proof -
  have "k' = order_key y \<and> order_ids_ok y" if "(k', y) \<in> set (jset k x orders)" for k' y
    using that set_jset_subset [of k x orders] assms orders_okD [OF assms(1)] by blast
  moreover have "distinct (jkeys (jset k x orders))"
    using assms(1) unfolding orders_ok_def by blast
  ultimately show ?thesis by (auto simp: orders_ok_def)
qed

lemma orders_ok_jdelete: "orders_ok orders \<Longrightarrow> orders_ok (jdelete k orders)"
  by (auto simp: orders_ok_def)

lemma orders_ok_jupdate_values:
  assumes "orders_ok orders" and "\<And>x. order_key (f x) = order_key x"
    and "\<And>x. order_ids_ok x \<Longrightarrow> order_ids_ok (f x)"
  shows "orders_ok (jupdate_values f orders)"
  using assms by (auto simp: orders_ok_def set_jupdate_values)

section \<open>Candidates\<close>

lemma candidate_iff:
  assumes ok: "orders_ok orders" and oid: "normal_word orderId"
  shows "(k, x) \<in> set (orderCandidates orders c (toLowerCase a) orderId) \<longleftrightarrow>
    (k, x) \<in> set orders \<and> or_chainId x = c
    \<and> toLowerCase (or_contractAddress x) = toLowerCase a \<and> or_orderId x = orderId"
proof -
  have "toLowerCase (or_orderId x) = or_orderId x" if "(k, x) \<in> set orders"
    using orders_okD(2) [OF ok that] by (simp add: order_ids_ok_def normal_word_def)
  then show ?thesis
    using oid by (auto simp: orderCandidates_def normal_word_def)
qed

lemma orders_distinct: "orders_ok orders \<Longrightarrow> distinct orders"
  unfolding orders_ok_def by (simp add: distinct_map)

lemma distinct_all_equal_length:
  assumes "distinct us" and "\<And>u v. u \<in> set us \<Longrightarrow> v \<in> set us \<Longrightarrow> u = v"
  shows "length us \<le> 1"
proof (cases us)
  case (Cons a as)
  show ?thesis
  proof (cases as)
    case (Cons b bs)
    with \<open>us = a # as\<close> assms(1) assms(2) [of a b] show ?thesis by simp
  qed (simp add: Cons)
qed simp

text \<open>At most one candidate holds a given plan: the placeholder bucket is unique.\<close>

lemma one_per_plan:
  assumes ok: "orders_ok orders" and oid: "normal_word orderId"
  shows "length (filter (\<lambda>(k, x). or_planId x = p)
    (orderCandidates orders c (toLowerCase a) orderId)) \<le> 1"
proof -
  let ?us = "filter (\<lambda>(k, x). or_planId x = p) (orderCandidates orders c (toLowerCase a) orderId)"
  have "distinct ?us"
    using orders_distinct [OF ok] by (simp add: orderCandidates_def)
  moreover have "u = v" if u: "u \<in> set ?us" and v: "v \<in> set ?us" for u v
  proof -
    obtain k x k' y where uv: "u = (k, x)" "v = (k', y)" by fastforce
    have x: "(k, x) \<in> set orders" and y: "(k', y) \<in> set orders"
      using u v uv by (auto simp: candidate_iff [OF ok oid])
    have "order_key x = order_key y"
      using u v uv by (simp add: order_key_inj orders_okD(2) [OF ok x] orders_okD(2) [OF ok y])
        (simp add: candidate_iff [OF ok oid])
    then show "u = v" using orders_ok_unique [OF ok x y] uv by simp
  qed
  ultimately show ?thesis by (rule distinct_all_equal_length)
qed

section \<open>Get or create\<close>

lemma findOrderBucket_ok:
  assumes ok: "orders_ok orders" and oid: "normal_word orderId"
    and pid: "\<And>p. planId = Some p \<Longrightarrow> normal_word p"
    and found: "findOrderBucket orders e orderId planId (toLowerCase a) = Inr (ex, orders')"
    and addr: "colon_free a"
  shows "orders_ok orders' \<and>
    (case ex of
       None \<Rightarrow> orders' = orders
         \<and> (planId = None \<longrightarrow> orderCandidates orders (chainId e) (toLowerCase a) orderId = [])
         \<and> (\<forall>p. planId = Some p \<longrightarrow>
         jget orders (stateMachineOrderProjectionKey (chainId e) (toLowerCase a) p orderId) = None)
     | Some (k, x) \<Rightarrow> (k, x) \<in> set orders' \<and> or_orderId x = orderId \<and> or_chainId x = chainId e
         \<and> toLowerCase (or_contractAddress x) = toLowerCase a
         \<and> (\<forall>p. planId = Some p \<longrightarrow> or_planId x = p)
         \<and> (orders' = orders \<or>
            (\<exists>k0 u. (k0, u) \<in> set orders \<and> or_planId u = ZERO_BYTES32 \<and> planId \<noteq> None
               \<and> x = u\<lparr>or_planId := the planId\<rparr> \<and> k \<notin> set (jkeys orders)
               \<and> orders' = jset k x (jdelete k0 orders))))"
proof (cases planId)
  case None
  with found have ex: "orders' = orders"
      "(case orderCandidates orders (chainId e) (toLowerCase a) orderId of
          [] \<Rightarrow> ex = None | c # _ \<Rightarrow> ex = Some c)"
    by (auto simp: findOrderBucket_def Let_def split: if_splits list.splits)
  show ?thesis
  proof (cases ex)
    case (Some kx)
    obtain k x where kx: "kx = (k, x)" by fastforce
    with ex(2) Some have "(k, x) \<in> set (orderCandidates orders (chainId e) (toLowerCase a) orderId)"
      by (auto split: list.splits)
    then have "(k, x) \<in> set orders \<and> or_chainId x = chainId e
        \<and> toLowerCase (or_contractAddress x) = toLowerCase a \<and> or_orderId x = orderId"
      using candidate_iff [OF ok oid] by blast
    then show ?thesis using ok None Some kx ex(1) by simp
  next
    case None
    with ex(2) have "orderCandidates orders (chainId e) (toLowerCase a) orderId = []"
      by (auto split: list.splits)
    then show ?thesis using ok ex(1) \<open>planId = None\<close> None by simp
  qed
next
  case (Some p)
  have p: "normal_word p" using pid Some by simp
  then have tr: "truthy planId" using Some by (simp add: normal_word_def)
  let ?k = "stateMachineOrderProjectionKey (chainId e) (toLowerCase a) p orderId"
  show ?thesis
  proof (cases "jget orders ?k")
    case (Some x)
    then have "(?k, x) \<in> set orders" by (rule jget_Some_in)
    from orders_okD [OF ok this] have x: "?k = order_key x" "order_ids_ok x" by auto
    then have "or_orderId x = orderId \<and> or_chainId x = chainId e
        \<and> toLowerCase (or_contractAddress x) = toLowerCase a \<and> or_planId x = p"
      unfolding order_key_def using p oid addr
      by (subst (asm) projection_key_inj) (auto simp: order_ids_ok_def normal_word_def)
    with found tr Some \<open>planId = Some p\<close> ok \<open>(?k, x) \<in> set orders\<close> show ?thesis
      by (auto simp: findOrderBucket_def Let_def)
  next
    case None
    let ?cs = "filter (\<lambda>(k, c). or_planId c = ZERO_BYTES32)
        (orderCandidates orders (chainId e) (toLowerCase a) orderId)"
    show ?thesis
    proof (cases ?cs)
      case Nil
      with found tr None \<open>planId = Some p\<close> ok show ?thesis
        by (simp add: findOrderBucket_def Let_def)
    next
      case (Cons ku rest)
      obtain k0 u where ku: "ku = (k0, u)" by fastforce
      have "(k0, u) \<in> set ?cs" using Cons ku by simp
      then have u: "(k0, u) \<in> set orders" "or_chainId u = chainId e"
        "toLowerCase (or_contractAddress u) = toLowerCase a" "or_orderId u = orderId"
        "or_planId u = ZERO_BYTES32"
        by (auto simp: candidate_iff [OF ok oid])
      have ids: "order_ids_ok u" "k0 = order_key u" using orders_okD [OF ok u(1)] by auto
      have "k0 = stateMachineOrderProjectionKey (chainId e) (toLowerCase a) ZERO_BYTES32 orderId"
        using u ids by (simp add: order_key_def stateMachineOrderProjectionKey_def)
      moreover have "\<not> 1 < length ?cs"
        using one_per_plan [OF ok oid] by (simp add: not_less)
      ultimately have res: "ex = Some (?k, u\<lparr>or_planId := p\<rparr>)"
          "orders' = jset ?k (u\<lparr>or_planId := p\<rparr>) (jdelete k0 orders)"
        using found tr None Cons ku \<open>planId = Some p\<close> by (auto simp: findOrderBucket_def Let_def)
      have "orders_ok orders'" unfolding res(2)
        using ids p u
        by (intro orders_ok_jset orders_ok_jdelete ok)
          (auto simp: order_key_def order_ids_ok_def stateMachineOrderProjectionKey_def)
      moreover have "(?k, u\<lparr>or_planId := p\<rparr>) \<in> set orders'"
        unfolding res(2) using jget_Some_in jget_jset by metis
      moreover have "?k \<notin> set (jkeys orders)" using None by (simp add: jget_None_iff)
      ultimately show ?thesis using res u \<open>planId = Some p\<close> by auto
    qed
  qed
qed

text \<open>
  The order before the handler's body runs: the order itself with its deployment filled in
  and its time stamp set, the placeholder moved to its plan, or a new order.
\<close>

definition touched_head :: "chain_event \<Rightarrow> string option \<Rightarrow> order_proj \<Rightarrow> order_proj" where
  "touched_head e deploymentId x =
     x\<lparr>or_deploymentId := (if truthy deploymentId \<and> \<not> truthy (or_deploymentId x)
         then deploymentId else or_deploymentId x),
       or_updatedAt := provenanceOf e\<rparr>"

definition bucket_source ::
    "(string, order_proj) jsmap \<Rightarrow> chain_event \<Rightarrow> string \<Rightarrow> string option \<Rightarrow> string option
      \<Rightarrow> string \<Rightarrow> string \<Rightarrow> order_proj \<Rightarrow> (string, order_proj) jsmap \<Rightarrow> bool" where
  "bucket_source orders e orderId planId deploymentId a k x orders' \<longleftrightarrow>
     (\<exists>x0. (k, x0) \<in> set orders \<and> x = touched_head e deploymentId x0 \<and> orders' = jset k x orders)
     \<or> (\<exists>k0 u. (k0, u) \<in> set orders \<and> or_planId u = ZERO_BYTES32 \<and> planId \<noteq> None
          \<and> x = touched_head e deploymentId (u\<lparr>or_planId := the planId\<rparr>)
          \<and> k \<notin> set (jkeys orders)
          \<and> orders' = jset k x (jdelete k0 orders))
     \<or> (x = newOrder e orderId planId deploymentId a \<and> k = order_key x
          \<and> k \<notin> set (jkeys orders) \<and> orders' = jset k x orders)"

lemma touched_head_simps [simp]:
  "or_orderId (touched_head e d x) = or_orderId x" "or_chainId (touched_head e d x) = or_chainId x"
  "or_contractAddress (touched_head e d x) = or_contractAddress x"
  "or_planId (touched_head e d x) = or_planId x"
  "order_key (touched_head e d x) = order_key x"
  "order_ids_ok (touched_head e d x) = order_ids_ok x"
  by (simp_all add: touched_head_def order_key_def order_ids_ok_def)

lemma ensure_ok:
  assumes ok: "orders_ok orders" and oid: "normal_word orderId"
    and pid: "\<And>p. planId = Some p \<Longrightarrow> normal_word p"
    and addr: "colon_free a" and bucket: "a = (case b of None \<Rightarrow> contractAddress e | Some a' \<Rightarrow> a')"
    and run: "ensureStateMachineOrder orders e orderId planId dep b = Inr (k, x, orders')"
  shows "orders_ok orders' \<and> (k, x) \<in> set orders' \<and> or_orderId x = orderId
    \<and> or_chainId x = chainId e \<and> toLowerCase (or_contractAddress x) = toLowerCase a
    \<and> (\<forall>p. planId = Some p \<longrightarrow> or_planId x = p)
    \<and> bucket_source orders e orderId planId dep a k x orders'"
proof -
  from run obtain ex os1 where
    found: "findOrderBucket orders e orderId planId (toLowerCase a) = Inr (ex, os1)"
    by (auto simp: ensureStateMachineOrder_def Let_def bucket [symmetric] bindR_Inr_iff)
  note f = findOrderBucket_ok [OF ok oid pid found addr]
  show ?thesis
  proof (cases ex)
    case None
    let ?new = "newOrder e orderId planId dep a"
    have res: "x = ?new"
        "k = stateMachineOrderProjectionKey (chainId e) (toLowerCase a)
          (case planId of None \<Rightarrow> ZERO_BYTES32 | Some p \<Rightarrow> p) orderId"
        "orders' = jset k x os1"
      using run found None
      by (auto simp: ensureStateMachineOrder_def Let_def bucket [symmetric])
    have k: "k = order_key x"
      by (simp add: res newOrder_def order_key_def stateMachineOrderProjectionKey_def)
    moreover have ids: "order_ids_ok x"
      using oid pid addr normal_word_ZERO
      by (auto simp: res newOrder_def order_ids_ok_def split: option.split)
    moreover have os1: "orders_ok os1" "os1 = orders" using f None by auto
    moreover have "k \<notin> set (jkeys orders)"
    proof (cases planId)
      case None
      show ?thesis
      proof
        assume "k \<in> set (jkeys orders)"
        then obtain z where z: "(k, z) \<in> set orders" by auto
        then have "order_key z = order_key x" "order_ids_ok z"
          using orders_okD [OF ok z] k by simp_all
        then have "(k, z) \<in> set (orderCandidates orders (chainId e) (toLowerCase a) orderId)"
          using z ids by (simp add: candidate_iff [OF ok oid] order_key_inj res(1) newOrder_def)
        then show False using f \<open>ex = None\<close> None by simp
      qed
    next
      case (Some p)
      then show ?thesis using f \<open>ex = None\<close> res(2)
        by (auto simp: jget_None_iff [symmetric] simp del: set_map)
    qed
    ultimately have "bucket_source orders e orderId planId dep a k x orders'"
      using res unfolding bucket_source_def by blast
    moreover have "orders_ok orders'" unfolding res(3) by (rule orders_ok_jset [OF os1(1) k ids])
    moreover have "(k, x) \<in> set orders'" unfolding res(3) using jget_Some_in jget_jset by metis
    ultimately show ?thesis using pid by (auto simp: res(1) newOrder_def)
  next
    case (Some ky)
    obtain k' y where ky: "ky = (k', y)" by fastforce
    have y: "orders_ok os1" "(k', y) \<in> set os1" "or_orderId y = orderId" "or_chainId y = chainId e"
        "toLowerCase (or_contractAddress y) = toLowerCase a" "\<forall>p. planId = Some p \<longrightarrow> or_planId y = p"
      using f Some ky by auto
    then have "\<not> (truthy planId \<and> planId \<noteq> Some (or_planId y))" by (cases planId) auto
    then have res: "k = k'" "x = touched_head e dep y" "orders' = jset k x os1"
      using run found Some ky
      by (auto simp: ensureStateMachineOrder_def Let_def bucket [symmetric] touched_head_def)
    have "k' = order_key y" "order_ids_ok y" using orders_okD [OF y(1,2)] by auto
    then have "orders_ok orders'" unfolding res by (intro orders_ok_jset y(1)) simp_all
    moreover have "(k, x) \<in> set orders'" unfolding res(3) using jget_Some_in jget_jset by metis
    moreover have "bucket_source orders e orderId planId dep a k x orders'"
    proof -
      from f Some ky consider "os1 = orders" "(k', y) \<in> set orders"
        | k0 u where "(k0, u) \<in> set orders" "or_planId u = ZERO_BYTES32" "planId \<noteq> None"
            "y = u\<lparr>or_planId := the planId\<rparr>" "k' \<notin> set (jkeys orders)"
            "os1 = jset k' y (jdelete k0 orders)"
        using y(2) by auto
      then show ?thesis
      proof cases
        case 1
        then show ?thesis unfolding bucket_source_def res by blast
      next
        case 2
        then have "orders' = jset k x (jdelete k0 orders)" by (simp add: res)
        with 2 show ?thesis unfolding bucket_source_def res by blast
      qed
    qed
    ultimately show ?thesis using y res by simp
  qed
qed

text \<open>
  The two internal inconsistencies the source guards against cannot arise: getting or
  creating a bucket fails only when an event without a plan names an order that several
  plans hold.
\<close>

lemma ensure_error:
  assumes ok: "orders_ok orders" and oid: "normal_word orderId"
    and pid: "\<And>p. planId = Some p \<Longrightarrow> normal_word p"
    and addr: "colon_free a" and bucket: "a = (case b of None \<Rightarrow> contractAddress e | Some a' \<Rightarrow> a')"
  shows "ensureStateMachineOrder orders e orderId planId dep b = Inl err \<longleftrightarrow>
    planId = None \<and> 1 < length (orderCandidates orders (chainId e) (toLowerCase a) orderId)
    \<and> err = ProjectionError (eventName e @ '' has ambiguous order '' @ orderId
          @ ''; planId is required'')"
proof (cases "findOrderBucket orders e orderId planId (toLowerCase a)")
  case (Inl err')
  then have "ensureStateMachineOrder orders e orderId planId dep b = Inl err'"
    by (simp add: ensureStateMachineOrder_def bucket [symmetric])
  moreover have "planId = None \<and> 1 < length (orderCandidates orders (chainId e) (toLowerCase a) orderId)
    \<and> err' = ProjectionError (eventName e @ '' has ambiguous order '' @ orderId
          @ ''; planId is required'')"
  proof (cases planId)
    case None
    with Inl show ?thesis by (auto simp: findOrderBucket_def Let_def split: if_splits list.splits)
  next
    case (Some p)
    with pid have "truthy planId" by (simp add: normal_word_def)
    with Inl Some one_per_plan [OF ok oid, of ZERO_BYTES32 "chainId e" a] show ?thesis
      by (auto simp: findOrderBucket_def Let_def split: if_splits list.splits option.splits)
  qed
  ultimately show ?thesis by auto
next
  case (Inr r)
  obtain ex os1 where r: "r = (ex, os1)" by fastforce
  note f = findOrderBucket_ok [OF ok oid pid Inr [unfolded r] addr]
  have "\<exists>v. ensureStateMachineOrder orders e orderId planId dep b = Inr v"
  proof (cases ex)
    case None
    with Inr r show ?thesis by (simp add: ensureStateMachineOrder_def bucket [symmetric] Let_def)
  next
    case (Some ky)
    obtain k' y where ky: "ky = (k', y)" by fastforce
    then have "\<forall>p. planId = Some p \<longrightarrow> or_planId y = p" using f Some by auto
    then have "\<not> (truthy planId \<and> planId \<noteq> Some (or_planId y))" by (cases planId) auto
    with Inr r Some ky show ?thesis
      by (auto simp: ensureStateMachineOrder_def bucket [symmetric] Let_def)
  qed
  moreover have "\<not> (planId = None
      \<and> 1 < length (orderCandidates orders (chainId e) (toLowerCase a) orderId))"
    using Inr by (auto simp: findOrderBucket_def Let_def split: if_splits)
  ultimately show ?thesis by auto
qed

end
