(* ===== verification/Steps.thy ===== *)
theory Steps imports Replay Buckets begin

text \<open>
  An abstract view of what one event may do to the orders. \<open>order_change\<close> lists the atomic
  changes of one order, \<open>orders_change\<close> the two ways a handler reaches orders: through the
  bucket it gets or creates, or by updating every order in place. The refinement lemma says
  that each of the handlers is a sequence of such changes; the invariants of the replay are
  then proved once, on the atomic changes.
\<close>

section \<open>Atomic changes of an order\<close>

text \<open>Everything but the descriptive head: status, stage, hashes, people, time stamps.\<close>

definition content where
  "content x = (or_orderId x, or_chainId x, or_contractAddress x, or_planId x,
     or_authorizations x, or_signals x, or_signalDelegations x, or_stageExecutorOverlays x,
     or_stageResourceOverlays x, or_hooks x, or_tasks x, or_timeline x, or_proof x)"

definition proof_of :: "chain_event \<Rightarrow> proof_proj \<Rightarrow> bool" where
  "proof_of e p \<longleftrightarrow> pf_eventId p = chainEventKey e \<and> pf_eventName p = eventName e
     \<and> provenanceOf p = provenanceOf e"

definition signal_of :: "bindings \<Rightarrow> chain_event \<Rightarrow> signal_proj \<Rightarrow> bool" where
  "signal_of B e s \<longleftrightarrow> eventName e = ''SignalSubmitted''
     \<and> requiredBytes32Arg B e ''orderId'' = Inr (sig_orderId s)
     \<and> requiredBytes32Arg B e ''sourceId'' = Inr (sig_sourceId s)
     \<and> requiredBytes32Arg B e ''signalId'' = Inr (sig_signalId s)
     \<and> requiredAddressArg B e ''submitter'' = Inr (sig_submitter s)
     \<and> requiredBytes32Arg B e ''payloadHash'' = Inr (sig_payloadHash s)
     \<and> requiredBytes32Arg B e ''idempotencyKey'' = Inr (sig_idempotencyKey s)
     \<and> sig_submittedAt s = provenanceOf e \<and> proof_of e (sig_proof s)"

definition fresh_task :: "chain_event \<Rightarrow> order_proj \<Rightarrow> task_proj \<Rightarrow> bool" where
  "fresh_task e x t \<longleftrightarrow> eventName e = ''HookReady'' \<and> tk_status t = TaskReady
     \<and> normal_word (tk_hookId t)
     \<and> tk_orderId t = or_orderId x \<and> tk_planId t = Some (or_planId x)
     \<and> tk_stateMachineAddress t = or_contractAddress x \<and> proof_of e (tk_proof t)
     \<and> tk_taskId t = taskProjectionId (or_orderId x) (tk_hookId t) (or_contractAddress x)"

definition nonce_ok :: "string \<Rightarrow> bool" where
  "nonce_ok n \<longleftrightarrow> parse_bigint n \<noteq> None"

inductive order_change ::
    "bindings \<Rightarrow> chain_event set \<Rightarrow> chain_event \<Rightarrow> order_proj \<Rightarrow> order_proj \<Rightarrow> bool"
  for B E e where
  change_head: "content y = content x \<Longrightarrow> order_change B E e x y"
| change_record: "d \<in> E \<Longrightarrow> proof_of d p \<Longrightarrow> content y = content x \<Longrightarrow>
    order_change B E e x (recordEvent p text md y)"
| change_authorize: "proof_of e (auth_proof a) \<Longrightarrow> auth_orderId a = or_orderId x \<Longrightarrow>
    content y = content (x\<lparr>or_authorizations := jset k a (or_authorizations x)\<rparr>) \<Longrightarrow>
    order_change B E e x (markMatchingTasksAssigned a y)"
| change_signal: "signal_of B e s \<Longrightarrow> sig_orderId s = or_orderId x \<Longrightarrow>
    content y = content (x\<lparr>or_signals :=
      jset (signalProjectionKey (sig_sourceId s) (sig_signalId s)) s (or_signals x)\<rparr>) \<Longrightarrow>
    order_change B E e x (markMatchingTasksSubmitted (sig_sourceId s) (sig_signalId s)
      (sig_proof s) y)"
| change_executor: "nonce_ok (eov_patchNonce ov) \<Longrightarrow>
    patch_accepted (eov_patchNonce ov)
      (map_option eov_patchNonce (jget (or_stageExecutorOverlays x) k)) = Inr True \<Longrightarrow>
    content y = content (x\<lparr>or_stageExecutorOverlays :=
      jset k ov (or_stageExecutorOverlays x)\<rparr>) \<Longrightarrow>
    order_change B E e x (markTargetStageTasksAssignedFromOverlay ov y)"
| change_resource: "nonce_ok (rov_patchNonce ov) \<Longrightarrow>
    patch_accepted (rov_patchNonce ov)
      (map_option rov_patchNonce (jget (or_stageResourceOverlays x) k)) = Inr True \<Longrightarrow>
    content y = content (x\<lparr>or_stageResourceOverlays :=
      jset k ov (or_stageResourceOverlays x)\<rparr>) \<Longrightarrow>
    order_change B E e x y"
| change_delegate: "nonce_ok (dlg_patchNonce d) \<Longrightarrow>
    patch_accepted (dlg_patchNonce d)
      (map_option dlg_patchNonce (jget (or_signalDelegations x) k)) = Inr True \<Longrightarrow>
    content y = content (x\<lparr>or_signalDelegations := jset k d (or_signalDelegations x)\<rparr>) \<Longrightarrow>
    order_change B E e x (markTargetStageTasksAssignedFromDelegation d y)"
| change_hook: "content y = content (x\<lparr>or_hooks := jset k h (or_hooks x)\<rparr>) \<Longrightarrow>
    order_change B E e x y"
| change_cancel: "proof_of e p \<Longrightarrow> eventName e = ''HookStatusChanged'' \<Longrightarrow>
    content y = content x \<Longrightarrow> order_change B E e x (cancelTask hookId p y)"
| change_ready: "fresh_task e x t \<Longrightarrow>
    content y = content (x\<lparr>or_tasks := jset (tk_taskId t)
      (markTaskSubmittedFromExistingSignals x (refreshTaskSubmitSignals x plan t))
      (or_tasks x)\<rparr>) \<Longrightarrow>
    order_change B E e x y"
| change_refresh: "content y = content (x\<lparr>or_tasks := jupdate_values (\<lambda>t. if P t
      then markTaskSubmittedFromExistingSignals x (refreshTaskSubmitSignals x plan t) else t)
      (or_tasks x)\<rparr>) \<Longrightarrow>
    order_change B E e x y"

abbreviation order_path ::
    "bindings \<Rightarrow> chain_event set \<Rightarrow> chain_event \<Rightarrow> order_proj \<Rightarrow> order_proj \<Rightarrow> bool" where
  "order_path B E e \<equiv> (order_change B E e)\<^sup>*\<^sup>*"

lemma path_record:
  "order_path B E e x y0 \<Longrightarrow> content y = content y0 \<Longrightarrow> d \<in> E \<Longrightarrow> proof_of d p \<Longrightarrow>
   order_path B E e x (recordEvent p text md y)"
  by (metis change_record rtranclp.rtrancl_into_rtrancl)

lemma path_step: "order_change B E e x y \<Longrightarrow> order_path B E e x y"
  by (rule r_into_rtranclp)

lemma proofOf_proof_of: "proofOf e md = Inr p \<Longrightarrow> proof_of e p"
  by (auto simp: proof_of_def dest: proofOf_Inr)

text \<open>A change keeps the identity of the order, so also its key.\<close>

lemma same_identity:
  "content y = content x \<Longrightarrow>
     or_orderId y = or_orderId x \<and> or_chainId y = or_chainId x
     \<and> or_contractAddress y = or_contractAddress x \<and> or_planId y = or_planId x"
  by (simp add: content_def)

lemma mark_identity [simp]:
  "or_orderId (recordEvent p text md y) = or_orderId y"
  "or_chainId (recordEvent p text md y) = or_chainId y"
  "or_contractAddress (recordEvent p text md y) = or_contractAddress y"
  "or_planId (recordEvent p text md y) = or_planId y"
  by (simp_all add: recordEvent_def appendOrderTimeline_def appendOrderProof_def)

lemma change_identity:
  "order_change B E e x y \<Longrightarrow>
     or_orderId y = or_orderId x \<and> or_chainId y = or_chainId x
     \<and> or_contractAddress y = or_contractAddress x \<and> or_planId y = or_planId x"
  by (erule order_change.cases)
    (auto simp: content_def cancelTask_def Let_def markMatchingTasksAssigned_def
      markMatchingTasksSubmitted_def markTargetStageTasksAssignedFromOverlay_def
      markTargetStageTasksAssignedFromDelegation_def split: option.split)

lemma path_identity:
  "order_path B E e x y \<Longrightarrow>
     or_orderId y = or_orderId x \<and> or_chainId y = or_chainId x
     \<and> or_contractAddress y = or_contractAddress x \<and> or_planId y = or_planId x"
  by (induction rule: rtranclp_induct) (auto dest: change_identity)

section \<open>Changes of the map of orders\<close>

definition opt_normal :: "string option \<Rightarrow> bool" where
  "opt_normal v \<longleftrightarrow> (\<forall>w. v = Some w \<longrightarrow> normal_word w)"

lemma opt_normal_simps [simp]: "opt_normal None" "opt_normal (Some w) \<longleftrightarrow> normal_word w"
  by (simp_all add: opt_normal_def)

inductive orders_change ::
    "bindings \<Rightarrow> chain_event set \<Rightarrow> chain_event \<Rightarrow> (string, order_proj) jsmap
      \<Rightarrow> (string, order_proj) jsmap \<Rightarrow> bool"
  for B E e where
  orders_touch: "normal_word orderId \<Longrightarrow> opt_normal planId \<Longrightarrow> colon_free a \<Longrightarrow>
    a = (case b of None \<Rightarrow> contractAddress e | Some a' \<Rightarrow> a') \<Longrightarrow>
    ensureStateMachineOrder orders e orderId planId dep b = Inr (k, x, orders') \<Longrightarrow>
    order_path B E e x y \<Longrightarrow> orders_change B E e orders (jset k y orders')"
| orders_each: "(\<And>x. order_path B E e x (f x)) \<Longrightarrow>
    orders_change B E e orders (jupdate_values f orders)"

abbreviation orders_path ::
    "bindings \<Rightarrow> chain_event set \<Rightarrow> chain_event \<Rightarrow> (string, order_proj) jsmap
      \<Rightarrow> (string, order_proj) jsmap \<Rightarrow> bool" where
  "orders_path B E e \<equiv> (orders_change B E e)\<^sup>*\<^sup>*"

lemma orders_change_ok:
  assumes "orders_change B E e orders orders'" and ok: "orders_ok orders"
  shows "orders_ok orders'"
  using assms(1)
proof cases
  case (orders_touch orderId planId a b dep k x os1 y)
  have pid: "\<And>p. planId = Some p \<Longrightarrow> normal_word p" using orders_touch by simp
  note en = ensure_ok [OF ok orders_touch(2) pid orders_touch(4,5,6)]
  then have "k = order_key x" "order_ids_ok x" using orders_okD by blast+
  moreover have "order_key y = order_key x" "order_ids_ok y = order_ids_ok x"
    using path_identity [OF orders_touch(7)] by (simp_all add: order_key_def order_ids_ok_def)
  ultimately show ?thesis unfolding orders_touch(1) using en by (intro orders_ok_jset) simp_all
next
  case (orders_each f)
  have "order_key (f x) = order_key x" "order_ids_ok (f x) = order_ids_ok x" for x
    using path_identity [OF orders_each(2) [of x]] by (simp_all add: order_key_def order_ids_ok_def)
  then show ?thesis unfolding orders_each(1) using ok by (intro orders_ok_jupdate_values) simp_all
qed

lemma orders_path_ok: "orders_path B E e orders orders' \<Longrightarrow> orders_ok orders \<Longrightarrow> orders_ok orders'"
  by (induction rule: rtranclp_induct) (auto dest: orders_change_ok)

lemma touch_path:
  assumes run: "touchOrder orders e orderId planId dep b body = Inr orders'"
    and ok: "orders_ok orders" and oid: "normal_word orderId" and pid: "opt_normal planId"
    and a: "colon_free (case b of None \<Rightarrow> contractAddress e | Some a' \<Rightarrow> a')"
    and body: "\<And>x y. or_orderId x = orderId \<Longrightarrow> (\<And>p. planId = Some p \<Longrightarrow> or_planId x = p) \<Longrightarrow>
      body x = Inr y \<Longrightarrow> order_path B E e x y"
  shows "orders_path B E e orders orders'"
proof -
  from run obtain k x os1 y where
    en: "ensureStateMachineOrder orders e orderId planId dep b = Inr (k, x, os1)"
    and y: "body x = Inr y" and res: "orders' = jset k y os1"
    by (auto simp: touchOrder_def bindR_Inr_iff)
  have "\<And>p. planId = Some p \<Longrightarrow> normal_word p" using pid by simp
  note f = ensure_ok [OF ok oid this a refl en]
  have "order_path B E e x y" using body [OF _ _ y] f by simp
  then show ?thesis unfolding res using orders_touch [OF oid pid a refl en] by blast
qed

lemma with_orders_Inr:
  "with_orders s r = Inr s' \<longleftrightarrow> (\<exists>os1. r = Inr os1 \<and> s' = s\<lparr>st_orders := os1\<rparr>)"
  by (auto simp: with_orders_def bindR_Inr_iff)

section \<open>The state the handlers rely on\<close>

text \<open>
  Addresses and identifiers kept for later events are well formed, and the proofs of plans,
  which an order event copies into its order, come from processed events.
\<close>

definition dock_ids_ok :: "dock_proj \<Rightarrow> bool" where
  "dock_ids_ok d \<longleftrightarrow> colon_free (dk_stateMachineAddress d) \<and> normal_word (dk_localOrderId d)
     \<and> normal_word (dk_localPlanId d) \<and> normal_word (dk_linkedOrderId d)
     \<and> normal_word (dk_targetPlanId d)"

definition refs_ok :: "chain_event set \<Rightarrow> replay_state \<Rightarrow> bool" where
  "refs_ok E s \<longleftrightarrow>
     (\<forall>m \<in> set (jvalues (st_modules s)). colon_free (mod_stateMachineAddress m))
     \<and> (\<forall>d \<in> set (jvalues (st_docks s)). dock_ids_ok d)
     \<and> (\<forall>p \<in> set (jvalues (st_plans s)). \<exists>d \<in> E. proof_of d (pl_proof p))"

definition state_ok :: "chain_event set \<Rightarrow> replay_state \<Rightarrow> bool" where
  "state_ok E s \<longleftrightarrow> refs_ok E s \<and> orders_ok (st_orders s)"

text \<open>What every handler establishes; \<open>e\<close> is the event it handles, one of \<open>E\<close>.\<close>

definition step_ok ::
    "bindings \<Rightarrow> chain_event set \<Rightarrow> chain_event \<Rightarrow> replay_state \<Rightarrow> replay_state \<Rightarrow> bool" where
  "step_ok B E e s s' \<longleftrightarrow> refs_ok E s' \<and> orders_path B E e (st_orders s) (st_orders s')"

definition event_ok :: "bindings \<Rightarrow> chain_event set \<Rightarrow> chain_event \<Rightarrow> bool" where
  "event_ok B E e \<longleftrightarrow> bindings_ok B \<and> e \<in> E \<and> colon_free (contractAddress e)"

lemma step_ok_state_ok: "step_ok B E e s s' \<Longrightarrow> state_ok E s \<Longrightarrow> state_ok E s'"
  by (auto simp: step_ok_def state_ok_def intro: orders_path_ok)

lemma refs_ok_orders [simp]: "refs_ok E (s\<lparr>st_orders := x\<rparr>) = refs_ok E s"
  by (simp add: refs_ok_def)

lemma refs_ok_diagnostics [simp]: "refs_ok E (s\<lparr>st_diagnostics := x\<rparr>) = refs_ok E s"
  by (simp add: refs_ok_def)

lemma jvalues_jset: "v \<in> set (jvalues (jset k w m)) \<Longrightarrow> v = w \<or> v \<in> set (jvalues m)"
  using set_jset_subset [of k w m] by auto

lemma jvalues_jget: "jget m k = Some v \<Longrightarrow> v \<in> set (jvalues m)"
  by (force dest: jget_Some_in)

text \<open>The address a module event is attributed to.\<close>

lemma moduleAddress_ok:
  assumes "state_ok E s" and "colon_free (contractAddress e)"
    and "stateMachineAddressForOrderEvent s e = (a, s')"
  shows "colon_free a \<and> st_orders s' = st_orders s \<and> st_modules s' = st_modules s
    \<and> st_docks s' = st_docks s \<and> st_plans s' = st_plans s \<and> st_deployments s' = st_deployments s"
proof -
  have "colon_free (mod_stateMachineAddress m)" if "filter P (jvalues (st_modules s)) = [m]" for m P
  proof -
    have "m \<in> set (filter P (jvalues (st_modules s)))" using that by simp
    then show ?thesis using assms(1) by (auto simp: state_ok_def refs_ok_def)
  qed
  then show ?thesis using assms(2,3)
    by (auto simp: stateMachineAddressForOrderEvent_def resolveStateMachineAddressForModuleEvent_def
      split: list.splits prod.splits bool.splits)
qed

section \<open>The handlers refine the abstract changes\<close>

lemma touch_step:
  assumes "touchOrder (st_orders s) e orderId planId dep None body = Inr os1"
    and "state_ok E s" and "event_ok B E e" and "normal_word orderId" and "opt_normal planId"
    and "\<And>x y. or_orderId x = orderId \<Longrightarrow> (\<And>p. planId = Some p \<Longrightarrow> or_planId x = p) \<Longrightarrow>
      body x = Inr y \<Longrightarrow> order_path B E e x y"
  shows "step_ok B E e s (s\<lparr>st_orders := os1\<rparr>)"
proof -
  have "orders_ok (st_orders s)" "colon_free (case None of None \<Rightarrow> contractAddress e | Some a' \<Rightarrow> a')"
    using assms(2,3) by (simp_all add: state_ok_def event_ok_def)
  then have "orders_path B E e (st_orders s) os1"
    by (rule touch_path [OF assms(1) _ assms(4,5)]) (rule assms(6))
  then show ?thesis using assms(2) by (simp add: step_ok_def state_ok_def)
qed

lemma event_word: "event_ok B E e \<Longrightarrow> requiredBytes32Arg B e n = Inr w \<Longrightarrow> normal_word w"
  by (auto simp: event_ok_def intro: requiredBytes32Arg_normal)

lemma event_opt_word: "event_ok B E e \<Longrightarrow> optionalBytes32Arg B e n = Inr v \<Longrightarrow> opt_normal v"
  by (auto simp: event_ok_def opt_normal_def intro: optionalBytes32Arg_normal)

lemma event_proof: "event_ok B E e \<Longrightarrow> proofOf e md = Inr p \<Longrightarrow> e \<in> E \<and> proof_of e p"
  by (auto simp: event_ok_def intro: proofOf_proof_of)

lemma content_head [simp]:
  "content (x\<lparr>or_status := a\<rparr>) = content x" "content (x\<lparr>or_updatedAt := b\<rparr>) = content x"
  "content (x\<lparr>or_deploymentId := c\<rparr>) = content x" "content (x\<lparr>or_planHash := c\<rparr>) = content x"
  "content (x\<lparr>or_currentStage := c\<rparr>) = content x" "content (x\<lparr>or_relayer := c\<rparr>) = content x"
  "content (x\<lparr>or_creator := c\<rparr>) = content x" "content (x\<lparr>or_triggerLink := d\<rparr>) = content x"
  "content (x\<lparr>or_registeredAt := g\<rparr>) = content x"
  "or_planId x = p \<Longrightarrow> content (x\<lparr>or_planId := p\<rparr>) = content x"
  by (simp_all add: content_def)

lemma path_head: "order_path B E e x y0 \<Longrightarrow> content y = content y0 \<Longrightarrow> order_path B E e x y"
  by (metis change_head rtranclp.rtrancl_into_rtrancl)

lemma touch_at_step:
  assumes a: "stateMachineAddressForOrderEvent s e = (a, s1)"
    and run: "touchOrder (st_orders s1) e orderId planId dep (Some a) body = Inr os1"
    and ok: "state_ok E s" "event_ok B E e" "normal_word orderId" "opt_normal planId"
    and body: "\<And>x y. or_orderId x = orderId \<Longrightarrow> (\<And>p. planId = Some p \<Longrightarrow> or_planId x = p) \<Longrightarrow>
      body x = Inr y \<Longrightarrow> order_path B E e x y"
  shows "step_ok B E e s (s1\<lparr>st_orders := os1\<rparr>)"
proof -
  have s1: "colon_free a" "st_orders s1 = st_orders s" "refs_ok E s1"
    using moduleAddress_ok [OF ok(1) _ a] ok(1,2)
    by (auto simp: event_ok_def state_ok_def refs_ok_def)
  have "orders_ok (st_orders s1)" using ok(1) s1(2) by (simp add: state_ok_def)
  moreover have "colon_free (case Some a of None \<Rightarrow> contractAddress e | Some a' \<Rightarrow> a')"
    using s1(1) by simp
  ultimately have "orders_path B E e (st_orders s1) os1"
    by (rule touch_path [OF run _ ok(3,4)]) (rule body)
  then show ?thesis using s1 by (simp add: step_ok_def)
qed

lemma touch_module_step:
  assumes run: "touchOrderFromModuleEvent s e orderId planId dep body = Inr s'"
    and ok: "state_ok E s" "event_ok B E e" "normal_word orderId" "opt_normal planId"
    and body: "\<And>x y. or_orderId x = orderId \<Longrightarrow> (\<And>p. planId = Some p \<Longrightarrow> or_planId x = p) \<Longrightarrow>
      body x = Inr y \<Longrightarrow> order_path B E e x y"
  shows "step_ok B E e s s'"
proof -
  obtain a s1 where a: "stateMachineAddressForOrderEvent s e = (a, s1)" by fastforce
  with run obtain os1 where
    t: "touchOrder (st_orders s1) e orderId planId dep (Some a) body = Inr os1"
    and s': "s' = s1\<lparr>st_orders := os1\<rparr>"
    by (auto simp: touchOrderFromModuleEvent_def with_orders_Inr)
  show ?thesis unfolding s' by (rule touch_at_step [OF a t ok]) (rule body)
qed

lemma plan_proof:
  assumes "state_ok E s" and "plan_at s e planId = Some p"
  shows "\<exists>d \<in> E. proof_of d (pl_proof p)"
  using assms jvalues_jget unfolding plan_at_def state_ok_def refs_ok_def by metis

lemmas path_record_head = path_record [OF rtranclp.rtrancl_refl]

text \<open>
  The handlers whose body only records the event and changes the head.
\<close>

lemma applyStageMaterialized_ok:
  assumes "state_ok E s" and ok: "event_ok B E e" and "applyStageMaterialized B s e = Inr s'"
  shows "step_ok B E e s s'"
  using assms(3)
  apply (clarsimp simp: applyStageMaterialized_def bindR_Inr_iff with_orders_Inr)
  apply (erule touch_step [OF _ assms(1,2)])
  apply (auto simp: bindR_Inr_iff dest: event_word [OF ok] event_opt_word [OF ok]
      event_proof [OF ok] intro!: path_record_head)
  done

lemma applyOrderMaterialized_ok:
  assumes "state_ok E s" and ok: "event_ok B E e" and "applyOrderMaterialized B s e = Inr s'"
  shows "step_ok B E e s s'"
  using assms(3)
  apply (clarsimp simp: applyOrderMaterialized_def bindR_Inr_iff with_orders_Inr Let_def)
  apply (erule touch_step [OF _ assms(1,2)])
  apply (auto simp: bindR_Inr_iff dest: event_word [OF ok] event_opt_word [OF ok]
      event_proof [OF ok] intro!: path_record_head)
  done

lemma applyOrderRelayerRecorded_ok:
  assumes "state_ok E s" and ok: "event_ok B E e" and "applyOrderRelayerRecorded B s e = Inr s'"
  shows "step_ok B E e s s'"
  using assms(3)
  apply (clarsimp simp: applyOrderRelayerRecorded_def bindR_Inr_iff with_orders_Inr Let_def)
  apply (erule touch_step [OF _ assms(1,2)])
  apply (auto simp: bindR_Inr_iff dest: event_word [OF ok] event_opt_word [OF ok]
      event_proof [OF ok] intro!: path_record_head)
  done

lemma applyOrderTriggered_ok:
  assumes "state_ok E s" and ok: "event_ok B E e" and "applyOrderTriggered B s e = Inr s'"
  shows "step_ok B E e s s'"
  using assms(3)
  apply (clarsimp simp: applyOrderTriggered_def bindR_Inr_iff with_orders_Inr Let_def)
  apply (erule touch_step [OF _ assms(1,2)])
  apply (auto simp: bindR_Inr_iff dest: event_word [OF ok] event_opt_word [OF ok]
      event_proof [OF ok] intro!: path_record_head)
  done

lemma derived_plan_normal:
  assumes ok: "event_ok B E e"
    and "bindR (optionalBytes32Arg B e n) (\<lambda>p. case p of Some _ \<Rightarrow> Inr p
        | None \<Rightarrow> optionalBytes32Arg B e m) = Inr v"
  shows "opt_normal v"
  using assms(2) event_opt_word [OF ok] by (auto simp: bindR_Inr_iff split: option.splits)

lemma applyDerivedSignalSubmitted_ok:
  assumes "state_ok E s" and ok: "event_ok B E e" and run: "applyDerivedSignalSubmitted B s e = Inr s'"
  shows "step_ok B E e s s'"
proof -
  from run obtain orderId planId where "requiredBytes32Arg B e ''targetOrderId'' = Inr orderId"
    and "bindR (optionalBytes32Arg B e ''targetPlanId'') (\<lambda>p. case p of Some _ \<Rightarrow> Inr p
        | None \<Rightarrow> optionalBytes32Arg B e ''planId'') = Inr planId"
    and t: "touchOrderFromModuleEvent s e orderId planId None (\<lambda>order.
       bindR (optionalAddressArg B e ''submitter'') (\<lambda>submitter.
       bindR (proofOf e (full_metadata orderId order submitter)) (\<lambda>proof.
         Inr (recordEvent proof TextDerivedSignal (order_metadata orderId (or_planId order))
           (order\<lparr>or_updatedAt := provenanceOf e\<rparr>))))) = Inr s'"
    unfolding applyDerivedSignalSubmitted_def by (subst (asm) bindR_Inr_iff, elim exE conjE,
      subst (asm) bindR_Inr_iff, elim exE conjE) blast
  then have "normal_word orderId" "opt_normal planId"
    using event_word [OF ok] derived_plan_normal [OF ok] by blast+
  then show ?thesis
    by (rule touch_module_step [OF t assms(1) ok])
      (auto simp: bindR_Inr_iff dest: event_proof [OF ok] intro!: path_record_head)
qed

lemma applyOrderLinked_ok:
  assumes "state_ok E s" and ok: "event_ok B E e" and "applyOrderLinked B s e = Inr s'"
  shows "step_ok B E e s s'"
proof -
  obtain a s1 where a: "stateMachineAddressForOrderEvent s e = (a, s1)" by fastforce
  show ?thesis
    using assms(3)
    apply (clarsimp simp: applyOrderLinked_def bindR_Inr_iff with_orders_Inr a)
    apply (erule touch_at_step [OF a _ assms(1,2)])
    apply (auto simp: bindR_Inr_iff dest: event_word [OF ok] event_opt_word [OF ok]
      event_proof [OF ok] intro!: path_record_head)
    done
qed

lemma applyOrderRegistered_ok:
  assumes st: "state_ok E s" and ok: "event_ok B E e" and "applyOrderRegistered B s e = Inr s'"
  shows "step_ok B E e s s'"
proof -
  have recorded: "order_path B E e x (case plan_at s e planId of
         None \<Rightarrow> x\<lparr>or_status := OrderRegisteredStatus, or_planId := planId\<rparr>
       | Some p \<Rightarrow> recordEvent (pl_proof p) TextPlanRegistered md
           (x\<lparr>or_status := OrderRegisteredStatus, or_planId := planId,
              or_planHash := Some (pl_planHash p)\<rparr>))"
    if "or_planId x = planId" for x planId md
  proof (cases "plan_at s e planId")
    case (Some p)
    from plan_proof [OF st this] obtain d where "d \<in> E" "proof_of d (pl_proof p)" by blast
    with Some that show ?thesis by (simp add: path_record_head)
  qed (simp add: that path_step [OF change_head])
  show ?thesis
    using assms(3)
    apply (clarsimp simp: applyOrderRegistered_def bindR_Inr_iff with_orders_Inr Let_def)
    apply (erule touch_step [OF _ assms(1,2)])
      apply (auto dest: event_word [OF ok])[2]
    apply clarsimp
    apply (rule path_record [OF recorded])
       apply (auto dest: event_proof [OF ok])
    done
qed

end
