(* ===== verification/Refinement.thy ===== *)
theory Refinement imports Steps begin

text \<open>
  The refinement of the abstract changes by the signal, stage, dock and plan handlers, and
  by the dispatch over all of them.
\<close>

section \<open>Signals\<close>

lemma applySignalSubmitterAuthorized_ok:
  assumes "state_ok E s" and ok: "event_ok B E e"
    and "applySignalSubmitterAuthorized B s e = Inr s'"
  shows "step_ok B E e s s'"
  using assms(3)
  apply (clarsimp simp: applySignalSubmitterAuthorized_def bindR_Inr_iff with_orders_Inr)
  apply (erule touch_step [OF _ assms(1,2)])
    apply (auto dest: event_word [OF ok] event_opt_word [OF ok])[2]
  apply (clarsimp simp: bindR_Inr_iff Let_def)
  apply (rule path_record [OF path_step [OF change_authorize] refl])
      apply (auto dest: event_proof [OF ok] simp: content_def)
  done

lemma path_signal:
  assumes "signal_of B e s" and "sig_orderId s = or_orderId x"
    and "sig_sourceId s = a" and "sig_signalId s = b" and "sig_proof s = p"
    and "content y = content (x\<lparr>or_signals := jset (signalProjectionKey a b) s (or_signals x)\<rparr>)"
  shows "order_path B E e x (markMatchingTasksSubmitted a b p y)"
  using change_signal [of B e s x y E] assms by (auto intro: path_step)

lemma applySignalSubmitted_ok:
  assumes "state_ok E s" and ok: "event_ok B E e" and "applySignalSubmitted B s e = Inr s'"
    and name: "eventName e = ''SignalSubmitted''"
  shows "step_ok B E e s s'"
  using assms(3)
  apply (clarsimp simp: applySignalSubmitted_def bindR_Inr_iff with_orders_Inr)
  apply (erule touch_step [OF _ assms(1,2)])
    apply (auto dest: event_word [OF ok] event_opt_word [OF ok])[2]
  apply (clarsimp simp: bindR_Inr_iff Let_def)
  apply (rule path_record [OF path_signal refl])
         prefer 6
         apply (simp add: content_def)
        apply (auto dest: event_proof [OF ok] simp: signal_of_def name)
  done

section \<open>Stages\<close>

lemma path_executor:
  assumes "nonce_ok (eov_patchNonce ov)"
    and "patch_accepted (eov_patchNonce ov)
      (map_option eov_patchNonce (jget (or_stageExecutorOverlays x) k)) = Inr True"
  shows "order_path B E e x (markTargetStageTasksAssignedFromOverlay ov
    (x\<lparr>or_stageExecutorOverlays := jset k ov (or_stageExecutorOverlays x)\<rparr>))"
  using change_executor [OF assms refl] by (rule path_step)

lemma if_Inr:
  "(if c then m else Inr x) = Inr y \<Longrightarrow> (c \<Longrightarrow> m = Inr y \<Longrightarrow> R) \<Longrightarrow> (\<not> c \<Longrightarrow> y = x \<Longrightarrow> R) \<Longrightarrow> R"
  by (auto split: if_splits)

lemma uint_nonce: "uintArgAsString e n = Inr v \<Longrightarrow> nonce_ok v"
  by (auto simp: nonce_ok_def dest: uintArgAsString_parse)

lemma applyStageExecutorPatchApplied_ok:
  assumes "state_ok E s" and ok: "event_ok B E e"
    and "applyStageExecutorPatchApplied B s e = Inr s'"
  shows "step_ok B E e s s'"
  using assms(3)
  apply (clarsimp simp: applyStageExecutorPatchApplied_def bindR_Inr_iff)
  apply (erule touch_module_step [OF _ assms(1,2)])
    apply (auto dest: event_word [OF ok] event_opt_word [OF ok])[2]
  apply (clarsimp simp: bindR_Inr_iff Let_def split del: if_split)
  apply (erule if_Inr)
   apply (clarsimp simp: bindR_Inr_iff Let_def)
   apply (rule path_record [OF path_executor])
       apply (auto dest: event_proof [OF ok] uint_nonce)[5]
  apply (rule path_record_head)
    apply (auto dest: event_proof [OF ok])
  done

lemma applyStageResourcePatchApplied_ok:
  assumes "state_ok E s" and ok: "event_ok B E e"
    and "applyStageResourcePatchApplied B s e = Inr s'"
  shows "step_ok B E e s s'"
  using assms(3)
  apply (clarsimp simp: applyStageResourcePatchApplied_def bindR_Inr_iff)
  apply (erule touch_module_step [OF _ assms(1,2)])
    apply (auto dest: event_word [OF ok] event_opt_word [OF ok])[2]
  apply (clarsimp simp: bindR_Inr_iff Let_def split del: if_split)
  apply (erule if_Inr)
   apply (clarsimp simp: bindR_Inr_iff Let_def)
   apply (rule path_record [OF path_step [OF change_resource]])
        prefer 3
        apply (rule refl)
       apply (auto dest: event_proof [OF ok] uint_nonce)[5]
  apply (rule path_record_head)
    apply (auto dest: event_proof [OF ok])
  done

lemma applyStageExecutorSignalDelegated_ok:
  assumes "state_ok E s" and ok: "event_ok B E e"
    and "applyStageExecutorSignalDelegated B s e = Inr s'"
  shows "step_ok B E e s s'"
  using assms(3)
  apply (clarsimp simp: applyStageExecutorSignalDelegated_def bindR_Inr_iff with_orders_Inr)
  apply (erule touch_step [OF _ assms(1,2)])
    apply (auto dest: event_word [OF ok] event_opt_word [OF ok])[2]
  apply (clarsimp simp: bindR_Inr_iff Let_def split del: if_split)
  apply (split if_split)
  apply (intro conjI impI)
   apply (rule path_record [OF path_step [OF change_delegate]])
        prefer 3
        apply (rule refl)
       apply (auto dest: event_proof [OF ok] uint_nonce)[5]
  apply (auto dest: event_proof [OF ok] intro!: path_record_head)
  done

section \<open>Hooks\<close>

lemma applyTimerPoked_ok:
  assumes "state_ok E s" and ok: "event_ok B E e" and "applyTimerPoked B s e = Inr s'"
  shows "step_ok B E e s s'"
  using assms(3)
  apply (clarsimp simp: applyTimerPoked_def bindR_Inr_iff with_orders_Inr)
  apply (erule touch_step [OF _ assms(1,2)])
    apply (auto dest: event_word [OF ok] event_opt_word [OF ok])[2]
  apply (clarsimp simp: bindR_Inr_iff Let_def split del: if_split)
  apply (rule path_record [OF path_step [OF change_hook]])
     apply (rule refl)
    apply (auto dest: event_proof [OF ok] simp: content_def)
  done

lemma applyHookStatusChanged_ok:
  assumes "state_ok E s" and ok: "event_ok B E e" and "applyHookStatusChanged B s e = Inr s'"
    and name: "eventName e = ''HookStatusChanged''"
  shows "step_ok B E e s s'"
proof -
  have cancelled: "order_path B E e x (if h = HookCancelled then cancelTask hookId p z else z)"
    if z: "content z = content (x\<lparr>or_hooks := jset hookId hook (or_hooks x)\<rparr>)" and p: "proof_of e p"
    for x h hookId p hook z
  proof -
    have "order_path B E e x z" using path_step [OF change_hook [OF z]] .
    moreover have "order_change B E e z (cancelTask hookId p z)"
      by (rule change_cancel [OF p name refl])
    ultimately show ?thesis by (auto intro: rtranclp.rtrancl_into_rtrancl)
  qed
  show ?thesis
    using assms(3)
    apply (clarsimp simp: applyHookStatusChanged_def bindR_Inr_iff with_orders_Inr)
    apply (erule touch_step [OF _ assms(1,2)])
      apply (auto dest: event_word [OF ok] event_opt_word [OF ok])[2]
    apply (clarsimp simp: bindR_Inr_iff Let_def split del: if_split)
    apply (rule path_record [OF cancelled])
        apply (simp add: content_def)
       apply (auto dest: event_proof [OF ok])
    done
qed

lemma fresh_readyTask:
  assumes "eventName e = ''HookReady''" and "proof_of e p" and "orderId = or_orderId x"
    and "normal_word hookId"
  shows "fresh_task e x (readyTask x e plan orderId hookId stage name p)"
  using assms
  by (simp add: fresh_task_def readyTask_def Let_def assignTask_def split: option.split)

lemma readyTask_simps [simp]:
  "tk_taskId (readyTask x e plan orderId hookId stage name p) =
     taskProjectionId orderId hookId (or_contractAddress x)"
  "tk_hookId (readyTask x e plan orderId hookId stage name p) = hookId"
  "tk_stageIdentifier (readyTask x e plan orderId hookId stage name p) = stage"
  by (simp_all add: readyTask_def Let_def assignTask_def split: option.split)

lemma applyHookReady_ok:
  assumes "state_ok E s" and ok: "event_ok B E e" and "applyHookReady B s e = Inr s'"
    and name: "eventName e = ''HookReady''"
  shows "step_ok B E e s s'"
proof -
  have readied: "order_path B E e x (readyInOrder plans
      (withReadyHook x e hookId stage nm p) e (or_orderId x) hookId stage nm p)"
    if p: "proof_of e p" and hookId: "normal_word hookId" for x hookId p plans stage nm
  proof -
    let ?z = "withReadyHook x e hookId stage nm p"
    let ?t = "readyTask ?z e (findPlanForOrder plans ?z) (or_orderId x) hookId stage nm p"
    have z: "or_orderId ?z = or_orderId x" by (simp add: withReadyHook_def)
    have "order_path B E e x ?z"
      by (rule path_step [OF change_hook]) (unfold withReadyHook_def, rule refl)
    moreover have fr: "fresh_task e ?z ?t" by (rule fresh_readyTask [OF name p _ hookId]) (simp add: z)
    moreover have "order_change B E e ?z (readyInOrder plans ?z e (or_orderId x) hookId stage nm p)"
      by (rule change_ready [OF fr, where plan = "findPlanForOrder plans ?z"])
        (simp add: readyInOrder_def withReadyTask_def)
    ultimately show ?thesis by (auto intro: rtranclp.rtrancl_into_rtrancl)
  qed
  show ?thesis
    using assms(3)
    apply (clarsimp simp: applyHookReady_def bindR_Inr_iff with_orders_Inr)
    apply (erule touch_step [OF _ assms(1,2)])
      apply (auto dest: event_word [OF ok] event_opt_word [OF ok])[2]
    apply (clarsimp simp: bindR_Inr_iff)
    apply (rule path_record [OF readied])
        apply (auto dest: event_proof [OF ok] event_word [OF ok])
    done
qed

section \<open>Activation\<close>

lemma if_not_Inr:
  "(if \<not> c then Inr x else m) = Inr y \<Longrightarrow> (c \<Longrightarrow> m = Inr y \<Longrightarrow> R) \<Longrightarrow> (\<not> c \<Longrightarrow> y = x \<Longrightarrow> R) \<Longrightarrow> R"
  by (auto split: if_splits)

lemma option_Inr:
  "(case v of None \<Rightarrow> a | Some x \<Rightarrow> f x) = Inr y \<Longrightarrow> (v = None \<Longrightarrow> a = Inr y \<Longrightarrow> R) \<Longrightarrow>
   (\<And>x. v = Some x \<Longrightarrow> f x = Inr y \<Longrightarrow> R) \<Longrightarrow> R"
  by (cases v) auto

lemma applyStageExecutorActivated_ok:
  assumes st: "state_ok E s" and ok: "event_ok B E e"
    and run: "applyStageExecutorActivated B s e = Inr s'"
  shows "step_ok B E e s s'"
proof -
  have "\<exists>orderId planId k x os1 y d. requiredBytes32Arg B e ''orderId'' = Inr orderId
    \<and> optionalBytes32Arg B e ''planId'' = Inr planId
    \<and> ensureStateMachineOrder (st_orders s) e orderId planId None None = Inr (k, x, os1)
    \<and> s' = s\<lparr>st_diagnostics := d, st_orders := jset k y os1\<rparr> \<and> order_path B E e x y"
    using run
    apply (clarsimp simp: applyStageExecutorActivated_def bindR_Inr_iff Let_def split del: if_split)
    apply (intro exI conjI)
     apply (rule refl)
    apply (erule option_Inr)
     apply (rule path_record_head)
       apply (auto dest: event_proof [OF ok])[3]
    apply (clarsimp simp: bindR_Inr_iff split del: if_split)
    apply (erule if_not_Inr)
     apply (clarsimp simp: bindR_Inr_iff Let_def)
     apply (rule path_record [OF path_executor])
         apply (auto dest: event_proof [OF ok] uint_nonce)[5]
    apply (rule path_record_head)
      apply (auto dest: event_proof [OF ok])
    done
  then obtain orderId planId k x os1 y d where
    ids: "requiredBytes32Arg B e ''orderId'' = Inr orderId"
      "optionalBytes32Arg B e ''planId'' = Inr planId"
    and en: "ensureStateMachineOrder (st_orders s) e orderId planId None None = Inr (k, x, os1)"
    and s': "s' = s\<lparr>st_diagnostics := d, st_orders := jset k y os1\<rparr>"
    and path: "order_path B E e x y"
    by blast
  have "orders_change B E e (st_orders s) (jset k y os1)"
    using ids event_word [OF ok] event_opt_word [OF ok] ok
    by (intro orders_touch [OF _ _ _ refl en path]) (auto simp: event_ok_def)
  then have "orders_path B E e (st_orders s) (jset k y os1)" by (rule r_into_rtranclp)
  with st show ?thesis by (simp add: s' step_ok_def state_ok_def)
qed

section \<open>Plans and modules\<close>

lemma refs_ok_set_plan:
  assumes "refs_ok E s" and "\<exists>d \<in> E. proof_of d (pl_proof p)"
  shows "refs_ok E (set_plan s k p)"
  using assms unfolding refs_ok_def set_plan_def by (auto dest!: jvalues_jset simp del: set_map)

lemma st_orders_set_plan [simp]: "st_orders (set_plan s k p) = st_orders s"
  by (simp add: set_plan_def)

lemma step_refl: "refs_ok E s' \<Longrightarrow> st_orders s' = st_orders s \<Longrightarrow> step_ok B E e s s'"
  by (simp add: step_ok_def)

lemma plan_from: "refs_ok E s \<Longrightarrow> jget (st_plans s) k = Some p \<Longrightarrow> \<exists>d \<in> E. proof_of d (pl_proof p)"
  using jvalues_jget unfolding refs_ok_def by metis

lemma findPlan_from:
  assumes "refs_ok E s" and "findPlanForEvent (st_plans s) ms e planId = Some (k, p)"
  shows "\<exists>d \<in> E. proof_of d (pl_proof p)"
proof -
  have "p \<in> set (jvalues (st_plans s))"
  proof -
    have "p \<in> set (jvalues (st_plans s))" if "filter P (st_plans s) = [(k, p)]" for P
    proof -
      have "(k, p) \<in> set (filter P (st_plans s))" using that by simp
      then show ?thesis by force
    qed
    then show ?thesis using assms(2)
      by (auto simp: findPlanForEvent_def Let_def simp del: set_map dest: jvalues_jget
        split: prod.splits option.splits list.splits)
  qed
  with assms(1) show ?thesis unfolding refs_ok_def by blast
qed

lemma pl_proof_newPlan [simp]: "pl_proof (newPlan s e planId h n p) = p"
  by (simp add: newPlan_def)

lemma event_proof_from: "event_ok B E e \<Longrightarrow> proofOf e md = Inr p \<Longrightarrow> \<exists>d \<in> E. proof_of d p"
  using event_proof by blast

lemma applyPlanCommitted_ok:
  assumes "state_ok E s" and ok: "event_ok B E e" and "applyPlanCommitted B s e = Inr s'"
  shows "step_ok B E e s s'"
  using assms
  by (intro step_refl)
    (auto simp: applyPlanCommitted_def bindR_Inr_iff state_ok_def dest: event_proof_from [OF ok]
      intro!: refs_ok_set_plan split: option.splits)

lemma plan_new_step:
  "state_ok E s \<Longrightarrow> \<exists>d \<in> E. proof_of d (pl_proof p) \<Longrightarrow> step_ok B E e s (set_plan s k p)"
  by (intro step_refl refs_ok_set_plan) (simp_all add: state_ok_def)

lemma applyPlanFinalized_ok:
  assumes st: "state_ok E s" and ok: "event_ok B E e" and run: "applyPlanFinalized B s e = Inr s'"
  shows "step_ok B E e s s'"
  using run
  apply (clarsimp simp: applyPlanFinalized_def bindR_Inr_iff)
  apply (drule event_proof_from [OF ok])
  apply (erule option_Inr)
   apply clarsimp
   apply (rule plan_new_step [OF st])
   apply force
  apply (drule plan_from [rotated])
   apply (use st in \<open>simp add: state_ok_def\<close>)
  apply (auto intro!: plan_new_step [OF st] step_refl split: if_splits)
   apply (use st in \<open>auto simp: state_ok_def\<close>)
  done

lemma plan_updated_step:
  assumes st: "state_ok E s" and found: "findPlanForEvent (st_plans s) (st_modules s) e' planId = Some (k, p)"
    and "pl_proof p' = pl_proof p"
  shows "step_ok B E e s (set_plan s k p')"
proof -
  have "refs_ok E s" using st by (simp add: state_ok_def)
  with found assms(3) show ?thesis
    by (intro step_refl refs_ok_set_plan) (simp_all add: findPlan_from)
qed

lemma applyPlanPublisherRecorded_ok:
  assumes st: "state_ok E s" and "applyPlanPublisherRecorded B s e = Inr s'"
  shows "step_ok B E e s s'"
proof -
  from assms(2) obtain planId where "(case findPlanForEvent (st_plans s) (st_modules s) e planId of
       None \<Rightarrow> Inl (unknownPlan e planId)
     | Some (key, plan) \<Rightarrow>
         bindR (requiredAddressArg B e ''publisher'') (\<lambda>publisher.
         bindR (proofOf e (no_metadata\<lparr>md_planId := Some planId, md_submitter := Some publisher\<rparr>))
           (\<lambda>proof.
           Inr (set_plan s key (plan\<lparr>pl_publisher := Some publisher,
             pl_publisherRecordedAt := Some (provenanceOf e), pl_publisherProof := Some proof,
             pl_updatedAt := provenanceOf e\<rparr>))))) = Inr s'"
    unfolding applyPlanPublisherRecorded_def by (subst (asm) bindR_Inr_iff) blast
  then show ?thesis
    by (rule option_Inr) (auto simp: bindR_Inr_iff elim!: plan_updated_step [OF st])
qed

lemma applyStageSelectorBindingRegistered_ok:
  assumes st: "state_ok E s" and "applyStageSelectorBindingRegistered B s e = Inr s'"
  shows "step_ok B E e s s'"
proof -
  from assms(2) obtain planId k p b where
    "findPlanForEvent (st_plans s) (st_modules s) e planId = Some (k, p)"
    "s' = set_plan s k (p\<lparr>pl_selectorBindings := b, pl_updatedAt := provenanceOf e\<rparr>)"
    by (fastforce simp: applyStageSelectorBindingRegistered_def bindR_Inr_iff elim!: option_Inr)
  then show ?thesis by (auto elim!: plan_updated_step [OF st])
qed

lemma path_registerPlan:
  assumes "d \<in> E" and "proof_of d p"
  shows "order_path B E e x (registerPlanInOrder e' planId h dep p x)"
  unfolding registerPlanInOrder_def using assms
  by (auto split: option.split intro!: path_record_head)

lemma plan_registered_step:
  assumes "state_ok E s" and p: "\<exists>d \<in> E. proof_of d p" and "pl_proof pl = p"
  shows "step_ok B E e s ((set_plan s k pl)\<lparr>st_orders :=
    jupdate_values (registerPlanInOrder e planId h dep p) (st_orders s)\<rparr>)"
proof -
  have "orders_change B E e (st_orders s)
      (jupdate_values (registerPlanInOrder e planId h dep p) (st_orders s))"
    using p path_registerPlan by (intro orders_each) blast
  moreover have "refs_ok E (set_plan s k pl)"
    using assms by (intro refs_ok_set_plan) (auto simp: state_ok_def)
  ultimately show ?thesis by (auto simp: step_ok_def)
qed

lemma applyPlanRegistered_ok:
  assumes st: "state_ok E s" and ok: "event_ok B E e" and run: "applyPlanRegistered B s e = Inr s'"
  shows "step_ok B E e s s'"
  using run
  apply (clarsimp simp: applyPlanRegistered_def bindR_Inr_iff Let_def)
  apply (rule plan_registered_step [OF st])
   apply (erule event_proof_from [OF ok])
  apply (simp split: option.split)
  done

lemma path_refreshTasks: "order_path B E e x (refreshTasksForCapability e' planId c plan x)"
proof -
  let ?f = "\<lambda>t. markTaskSubmittedFromExistingSignals x (refreshTaskSubmitSignals x (Some plan) t)"
  have same: "(\<lambda>t. if tk_stageIdentifier t \<noteq> cap_stageId c then t else ?f t) =
      (\<lambda>t. if tk_stageIdentifier t = cap_stageId c then ?f t else t)" by auto
  show ?thesis
    unfolding refreshTasksForCapability_def same
    by (cases "or_planId x \<noteq> planId \<or> or_chainId x \<noteq> chainId e'
         \<or> or_contractAddress x \<noteq> pl_stateMachineAddress plan")
      (simp_all add: path_step [OF change_refresh [OF refl]])
qed

lemma capability_step:
  assumes st: "state_ok E s" and found: "findPlanForEvent (st_plans s) (st_modules s) e' planId = Some (k, p)"
    and "pl_proof p' = pl_proof p"
  shows "step_ok B E e s ((set_plan s k p')\<lparr>st_orders :=
    jupdate_values (refreshTasksForCapability e planId c p') (st_orders s)\<rparr>)"
proof -
  have "orders_change B E e (st_orders s)
      (jupdate_values (refreshTasksForCapability e planId c p') (st_orders s))"
    by (intro orders_each path_refreshTasks)
  moreover have "refs_ok E (set_plan s k p')"
    using plan_updated_step [OF st found assms(3)] by (simp add: step_ok_def)
  ultimately show ?thesis by (auto simp: step_ok_def)
qed

lemma applySignalCapabilityRegistered_ok:
  assumes st: "state_ok E s" and run: "applySignalCapabilityRegistered B s e = Inr s'"
  shows "step_ok B E e s s'"
  using run
  apply (clarsimp simp: applySignalCapabilityRegistered_def bindR_Inr_iff)
  apply (erule option_Inr)
   apply simp
  apply (clarsimp simp: Let_def split del: if_split)
  apply (erule capability_step [OF st])
  apply simp
  done

lemma applyStateMachineModuleSet_ok:
  assumes "state_ok E s" and ok: "event_ok B E e" and "applyStateMachineModuleSet B s e = Inr s'"
  shows "step_ok B E e s s'"
  using assms
  by (intro step_refl)
    (auto simp: applyStateMachineModuleSet_def bindR_Inr_iff state_ok_def refs_ok_def event_ok_def
      simp del: set_map dest!: jvalues_jset)

section \<open>Docks\<close>

lemma step_trans: "step_ok B E e s s1 \<Longrightarrow> step_ok B E e s1 s' \<Longrightarrow> step_ok B E e s s'"
  by (auto simp: step_ok_def)

lemma noteInOrder_step:
  assumes run: "noteInOrder e a orderId planId p text s = Inr s'"
    and st: "state_ok E s" and "event_ok B E e" and p: "d \<in> E" "proof_of d p"
    and ids: "normal_word orderId" "normal_word planId" "colon_free a"
  shows "step_ok B E e s s'"
proof -
  from run obtain os1 where
    t: "touchOrder (st_orders s) e orderId (Some planId) None (Some a) (\<lambda>order.
         Inr (recordEvent p text (order_metadata orderId planId)
           (order\<lparr>or_updatedAt := provenanceOf e\<rparr>))) = Inr os1"
    and s': "s' = s\<lparr>st_orders := os1\<rparr>"
    by (auto simp: noteInOrder_def with_orders_Inr)
  have "orders_path B E e (st_orders s) os1"
    by (rule touch_path [OF t _ ids(1)])
      (use st ids p in \<open>auto simp: state_ok_def intro!: path_record_head\<close>)
  with st show ?thesis by (simp add: s' step_ok_def state_ok_def)
qed

lemma noteInOrder_docks:
  "noteInOrder e a orderId planId p text s = Inr s' \<Longrightarrow>
     st_docks s' = st_docks s \<and> st_plans s' = st_plans s \<and> st_modules s' = st_modules s"
  by (auto simp: noteInOrder_def with_orders_Inr)

lemma state_ok_set_dock: "state_ok E s \<Longrightarrow> dock_ids_ok d \<Longrightarrow> state_ok E (set_dock s k d)"
  unfolding state_ok_def refs_ok_def set_dock_def by (auto dest!: jvalues_jset simp del: set_map)

lemma step_set_dock:
  "step_ok B E e s s1 \<Longrightarrow> dock_ids_ok d \<Longrightarrow> step_ok B E e s (set_dock s1 k d)"
  unfolding step_ok_def refs_ok_def set_dock_def by (auto dest!: jvalues_jset simp del: set_map)

lemma refs_ok_counters [simp]:
  "refs_ok E (countUnresolvedDock s) = refs_ok E s"
  "refs_ok E (countUnresolvedTarget e a p s) = refs_ok E s"
  "st_orders (countUnresolvedDock s) = st_orders s"
  "st_orders (countUnresolvedTarget e a p s) = st_orders s"
  by (simp_all add: countUnresolvedDock_def countUnresolvedTarget_def)

lemma findDock_ok:
  assumes st: "state_ok E s" and ok: "event_ok B E e" and "findDockForEvent s e i = ((k, d), s1)"
  shows "state_ok E s1 \<and> step_ok B E e s s1 \<and> (\<forall>x. d = Some x \<longrightarrow> dock_ids_ok x)"
proof -
  obtain a where a: "stateMachineAddressForOrderEvent s e = (a, s1)"
    and d: "d = jget (st_docks s1) k"
    using assms(3) by (auto simp: findDockForEvent_def Let_def split: prod.splits)
  have s1: "colon_free a" "st_orders s1 = st_orders s" "st_docks s1 = st_docks s"
      "st_modules s1 = st_modules s" "st_plans s1 = st_plans s"
    using moduleAddress_ok [OF st _ a] ok by (auto simp: event_ok_def)
  then have ok1: "state_ok E s1" using st by (simp add: state_ok_def refs_ok_def)
  moreover have "dock_ids_ok x" if "d = Some x" for x
    using that d ok1 jvalues_jget [of "st_docks s1" k x] by (auto simp: state_ok_def refs_ok_def)
  ultimately show ?thesis using s1 by (auto simp: state_ok_def intro: step_refl)
qed

lemma dock_opened_step:
  assumes n1: "noteInOrder e a lo lp p t1 (countUnresolvedTarget e a tp s1) = Inr s3"
    and n2: "noteInOrder e a ln tp p t2 s3 = Inr s4"
    and a: "stateMachineAddressForOrderEvent s e = (a, s1)"
    and st: "state_ok E s" and ok: "event_ok B E e" and p: "e \<in> E \<and> proof_of e p"
    and ids: "normal_word lp" "normal_word lo" "normal_word ln" "normal_word tp"
    and d: "dk_stateMachineAddress d = a" "dk_localOrderId d = lo" "dk_localPlanId d = lp"
      "dk_linkedOrderId d = ln" "dk_targetPlanId d = tp"
  shows "step_ok B E e s (set_dock s4 k d)"
proof -
  have s1: "colon_free a" "st_orders s1 = st_orders s" "refs_ok E s1"
    using moduleAddress_ok [OF st _ a] ok st by (auto simp: event_ok_def state_ok_def refs_ok_def)
  let ?s2 = "countUnresolvedTarget e a tp s1"
  have ok2: "state_ok E ?s2" using st s1 by (simp add: state_ok_def)
  have step3: "step_ok B E e ?s2 s3" using noteInOrder_step [OF n1 ok2 ok] p ids s1(1) by blast
  have ok3: "state_ok E s3" using step_ok_state_ok [OF step3 ok2] .
  have step4: "step_ok B E e s3 s4" using noteInOrder_step [OF n2 ok3 ok] p ids s1(1) by blast
  have "step_ok B E e s ?s2" using s1 by (intro step_refl) simp_all
  then have "step_ok B E e s s4" using step_trans step3 step4 by metis
  then show ?thesis
    by (rule step_set_dock) (use ids s1(1) d in \<open>simp add: dock_ids_ok_def\<close>)
qed

lemma applyDockOpened_ok:
  assumes st: "state_ok E s" and ok: "event_ok B E e" and run: "applyDockOpened B s e = Inr s'"
  shows "step_ok B E e s s'"
proof -
  obtain a s1 where a: "stateMachineAddressForOrderEvent s e = (a, s1)" by fastforce
  show ?thesis
    using run
    apply (clarsimp simp: applyDockOpened_def bindR_Inr_iff Let_def a)
    apply (drule event_proof [OF ok])
    apply (erule (1) dock_opened_step [OF _ _ a st ok])
            apply (simp_all add: event_word [OF ok])
    done
qed

text \<open>The two trails of a delivery, in either order of the two orders.\<close>

lemma note_local_step:
  "noteInLocalOrder e d p text s = Inr s' \<Longrightarrow> state_ok E s \<Longrightarrow> event_ok B E e \<Longrightarrow>
   proof_of e p \<Longrightarrow> dock_ids_ok d \<Longrightarrow> step_ok B E e s s'"
  unfolding noteInLocalOrder_def by (rule noteInOrder_step) (auto simp: dock_ids_ok_def event_ok_def)

lemma note_linked_step:
  "noteInLinkedOrder e d p text s = Inr s' \<Longrightarrow> state_ok E s \<Longrightarrow> event_ok B E e \<Longrightarrow>
   proof_of e p \<Longrightarrow> dock_ids_ok d \<Longrightarrow> step_ok B E e s s'"
  unfolding noteInLinkedOrder_def by (rule noteInOrder_step) (auto simp: dock_ids_ok_def event_ok_def)

lemma dock_ids_ok_deliveries [simp]:
  "dock_ids_ok (d\<lparr>dk_inputDeliveries := x, dk_updatedAt := y\<rparr>) = dock_ids_ok d"
  "dock_ids_ok (d\<lparr>dk_outputDeliveries := z, dk_updatedAt := y\<rparr>) = dock_ids_ok d"
  by (simp_all add: dock_ids_ok_def)

lemma found_dock_cases:
  assumes "(case r of ((k, None), s1) \<Rightarrow> a s1 | ((k, Some d), s1) \<Rightarrow> f k d s1) = Inr y"
  obtains (missing) k s1 where "r = ((k, None), s1)" "a s1 = Inr y"
    | (found) k d s1 where "r = ((k, Some d), s1)" "f k d s1 = Inr y"
proof -
  obtain k d s1 where "r = ((k, d), s1)" by (metis surj_pair)
  with assms that show ?thesis by (cases d) simp_all
qed

lemma delivery_step:
  assumes found: "findDockForEvent s e i = ((k, Some dock), s1)"
    and st: "state_ok E s" and ok: "event_ok B E e"
    and d: "dock_ids_ok dock \<Longrightarrow> dock_ids_ok d"
    and trail: "state_ok E (set_dock s1 k d) \<Longrightarrow> dock_ids_ok d \<Longrightarrow>
      step_ok B E e (set_dock s1 k d) s'"
  shows "step_ok B E e s s'"
proof -
  have f: "state_ok E s1" "step_ok B E e s s1" "dock_ids_ok dock"
    using findDock_ok [OF st ok found] by auto
  then have "step_ok B E e s (set_dock s1 k d)" using d by (intro step_set_dock)
  moreover have "step_ok B E e (set_dock s1 k d) s'" using f d by (intro trail state_ok_set_dock)
  ultimately show ?thesis by (rule step_trans)
qed

lemma unresolved_step:
  assumes "findDockForEvent s e i = ((k, None), s1)" and "state_ok E s" and "event_ok B E e"
  shows "step_ok B E e s (countUnresolvedDock s1)"
  using findDock_ok [OF assms(2,3,1)] by (auto simp: step_ok_def)

lemma applyDockInputSubmitted_ok:
  assumes st: "state_ok E s" and ok: "event_ok B E e"
    and run: "applyDockInputSubmitted B s e = Inr s'"
  shows "step_ok B E e s s'"
  using run
  apply (clarsimp simp: applyDockInputSubmitted_def bindR_Inr_iff)
  apply (erule found_dock_cases)
   apply (auto intro: unresolved_step [OF _ st ok])[1]
  apply (clarsimp simp: bindR_Inr_iff Let_def)
  apply (drule event_proof [OF ok], erule conjE)
  apply (erule delivery_step [OF _ st ok])
   prefer 2
   apply (frule (3) note_local_step [OF _ _ ok])
   apply (rule step_trans, assumption)
   apply (erule (4) note_linked_step [OF _ step_ok_state_ok ok])
  apply simp
  done

lemma deliverDockOutput_ok:
  assumes st: "state_ok E s" and ok: "event_ok B E e"
    and run: "deliverDockOutput B s e trail = Inr s'"
    and trail: "\<And>d p s1 s2. trail d p s1 = Inr s2 \<Longrightarrow> state_ok E s1 \<Longrightarrow> proof_of e p \<Longrightarrow>
      dock_ids_ok d \<Longrightarrow> step_ok B E e s1 s2"
  shows "step_ok B E e s s'"
  using run
  apply (clarsimp simp: deliverDockOutput_def bindR_Inr_iff)
  apply (erule found_dock_cases)
   apply (auto intro: unresolved_step [OF _ st ok])[1]
  apply (clarsimp simp: bindR_Inr_iff Let_def)
  apply (drule event_proof [OF ok], erule conjE)
  apply (erule delivery_step [OF _ st ok])
   prefer 2
   apply (erule (3) trail)
  apply simp
  done

lemma applyDockOutputSatisfied_ok:
  assumes st: "state_ok E s" and ok: "event_ok B E e"
    and run: "applyDockOutputSatisfied B s e = Inr s'"
  shows "step_ok B E e s s'"
  using run unfolding applyDockOutputSatisfied_def
  by (rule deliverDockOutput_ok [OF st ok]) (rule note_local_step [OF _ _ ok])

lemma applyDockOutputSubmitted_ok:
  assumes st: "state_ok E s" and ok: "event_ok B E e"
    and run: "applyDockOutputSubmitted B s e = Inr s'"
  shows "step_ok B E e s s'"
  using run unfolding applyDockOutputSubmitted_def
  apply (rule deliverDockOutput_ok [OF st ok])
  apply (clarsimp simp: bindR_Inr_iff)
  apply (frule (3) note_linked_step [OF _ _ ok])
  apply (rule step_trans, assumption)
  apply (erule note_local_step [OF _ step_ok_state_ok ok])
     apply assumption+
  done

section \<open>The dispatch\<close>

lemma if_cases: "(if c then m else n) = r \<Longrightarrow> (c \<Longrightarrow> m = r \<Longrightarrow> R) \<Longrightarrow> (\<not> c \<Longrightarrow> n = r \<Longrightarrow> R) \<Longrightarrow> R"
  by (auto split: if_splits)

lemma applyStateMachineEvent_ok:
  assumes st: "state_ok E s" and ok: "event_ok B E e"
    and run: "applyStateMachineEvent B s e = Inr s'"
  shows "step_ok B E e s s'"
proof -
  have refl: "step_ok B E e s s" using st by (intro step_refl) (simp_all add: state_ok_def)
  note handlers = applyStateMachineModuleSet_ok applyPlanCommitted_ok applyPlanFinalized_ok
    applyPlanRegistered_ok applyOrderRegistered_ok applyOrderMaterialized_ok
    applyOrderRelayerRecorded_ok applySignalSubmitterAuthorized_ok applyStageMaterialized_ok
    applyOrderTriggered_ok applyOrderLinked_ok applyStageExecutorPatchApplied_ok
    applyStageResourcePatchApplied_ok applyStageExecutorActivated_ok
    applyStageExecutorSignalDelegated_ok applyDockOpened_ok applyDockInputSubmitted_ok
    applyDockOutputSubmitted_ok applyDockOutputSatisfied_ok applyDerivedSignalSubmitted_ok
    applyTimerPoked_ok
  note handlers2 = applyPlanPublisherRecorded_ok applySignalCapabilityRegistered_ok
    applyStageSelectorBindingRegistered_ok
  note named = applySignalSubmitted_ok applyHookStatusChanged_ok applyHookReady_ok
  show ?thesis
    using run unfolding applyStateMachineEvent_def Let_def
    by (elim if_cases)
      (assumption | erule handlers [OF st ok] | erule handlers2 [OF st]
        | erule (1) named [OF st ok] | use refl in \<open>simp\<close>)+
qed

end
