(* ===== verification/Invariants.thy ===== *)
theory Invariants imports Refinement begin

text \<open>
  From atomic changes to whole replays. The locale \<open>order_invariant\<close> is the contract of a
  property that every atomic change keeps; inside it the property is carried over buckets,
  handlers and the replay. The locale \<open>order_evolution\<close> does the same for a relation between
  the states of an order before and after an event: no order is ever lost, and each one
  evolves along the relation.
\<close>

section \<open>Replays\<close>

text \<open>The streams the statements are about: events with addresses that fit into keys.\<close>

definition stream_ok :: "bindings \<Rightarrow> chain_event list \<Rightarrow> bool" where
  "stream_ok B es \<longleftrightarrow> bindings_ok B \<and> (\<forall>e \<in> set es. colon_free (contractAddress e))"

lemma wf_stream_ok: "bindings_ok B \<Longrightarrow> wf_stream es \<Longrightarrow> stream_ok B es"
  by (auto simp: stream_ok_def dest: wf_stream_event simp: wf_event_def)

lemma stream_event_ok: "stream_ok B es \<Longrightarrow> e \<in> set es \<Longrightarrow> event_ok B (set es) e"
  by (simp add: stream_ok_def event_ok_def)

lemma state_ok_deployments [simp]: "state_ok E (s\<lparr>st_deployments := d\<rparr>) = state_ok E s"
  by (simp add: state_ok_def refs_ok_def)

lemma replay_step_orders:
  assumes "replay_step B r e = Inr r'" and "state_ok E (rl_state r)" and "event_ok B E e"
  shows "state_ok E (rl_state r')
    \<and> orders_path B E e (st_orders (rl_state r)) (st_orders (rl_state r'))"
proof -
  from assms(1) obtain d where
    "applyStateMachineEvent B ((rl_state r)\<lparr>st_deployments := d\<rparr>) e = Inr (rl_state r')"
    by (auto simp: replay_step_def bindR_Inr_iff)
  moreover have "state_ok E ((rl_state r)\<lparr>st_deployments := d\<rparr>)" using assms(2) by simp
  ultimately have "step_ok B E e ((rl_state r)\<lparr>st_deployments := d\<rparr>) (rl_state r')"
    using assms(3) by (blast intro: applyStateMachineEvent_ok)
  then show ?thesis using step_ok_state_ok assms(2) by (auto simp: step_ok_def)
qed

lemma state_ok_start: "state_ok E (rl_state replay_start)"
  by (simp add: state_ok_def refs_ok_def replay_start_def start_state_def)

lemma orders_path_invariant:
  assumes "orders_path B E e orders orders'" and "orders_ok orders" and "I orders"
    and "\<And>os1 os2. orders_ok os1 \<Longrightarrow> I os1 \<Longrightarrow> orders_change B E e os1 os2 \<Longrightarrow> I os2"
  shows "I orders' \<and> orders_ok orders'"
  using assms(1)
  by (induction rule: rtranclp_induct) (use assms(2-4) orders_change_ok in blast)+

lemma replay_state_ok:
  assumes "replay_events B es = Inr r" and ok: "stream_ok B es"
  shows "state_ok (set es) (rl_state r)"
  using assms(1) unfolding replay_events_def
  by (rule foldR_invariant [where I = "\<lambda>r. state_ok (set es) (rl_state r)"])
    (use state_ok_start replay_step_orders stream_event_ok [OF ok] in blast)+

lemma replay_orders_invariant:
  assumes run: "replay_events B es = Inr r" and ok: "stream_ok B es" and "I []"
    and step: "\<And>e os1 os2. e \<in> set es \<Longrightarrow> orders_ok os1 \<Longrightarrow> I os1 \<Longrightarrow>
      orders_change B (set es) e os1 os2 \<Longrightarrow> I os2"
  shows "I (st_orders (rl_state r))"
proof -
  have "state_ok (set es) (rl_state r) \<and> I (st_orders (rl_state r))"
    using run unfolding replay_events_def
  proof (rule foldR_invariant [where I = "\<lambda>r. state_ok (set es) (rl_state r) \<and> I (st_orders (rl_state r))"])
    show "state_ok (set es) (rl_state replay_start) \<and> I (st_orders (rl_state replay_start))"
      using state_ok_start assms(3) by (simp add: replay_start_def start_state_def)
    fix q e q'
    assume e: "e \<in> set es" and q: "state_ok (set es) (rl_state q) \<and> I (st_orders (rl_state q))"
      and s: "replay_step B q e = Inr q'"
    from replay_step_orders [OF s conjunct1 [OF q] stream_event_ok [OF ok e]]
    have st: "state_ok (set es) (rl_state q')"
      and path: "orders_path B (set es) e (st_orders (rl_state q)) (st_orders (rl_state q'))"
      by auto
    have "I (st_orders (rl_state q'))"
      using orders_path_invariant [OF path, where I = I] step [OF e] q
      unfolding state_ok_def by blast
    with st show "state_ok (set es) (rl_state q') \<and> I (st_orders (rl_state q'))" ..
  qed
  then show ?thesis ..
qed

lemma ensure_opt:
  assumes "orders_ok orders" and "normal_word orderId" and pid: "opt_normal planId"
    and "colon_free a" and "a = (case b of None \<Rightarrow> contractAddress e | Some a' \<Rightarrow> a')"
    and "ensureStateMachineOrder orders e orderId planId dep b = Inr (k, x, orders')"
  shows "orders_ok orders' \<and> (k, x) \<in> set orders' \<and> or_orderId x = orderId
    \<and> or_chainId x = chainId e \<and> toLowerCase (or_contractAddress x) = toLowerCase a
    \<and> (\<forall>p. planId = Some p \<longrightarrow> or_planId x = p)
    \<and> bucket_source orders e orderId planId dep a k x orders'"
  by (rule ensure_ok [OF assms(1,2) _ assms(4-6)]) (use pid in simp)

section \<open>Invariants of one order\<close>

locale order_invariant =
  fixes B :: bindings and E :: "chain_event set" and I :: "order_proj \<Rightarrow> bool"
  assumes change: "e \<in> E \<Longrightarrow> order_ids_ok x \<Longrightarrow> I x \<Longrightarrow> order_change B E e x y \<Longrightarrow> I y"
    and created: "e \<in> E \<Longrightarrow> I (newOrder e orderId planId dep a)"
    and planned: "I x \<Longrightarrow> or_planId x = ZERO_BYTES32 \<Longrightarrow> I (x\<lparr>or_planId := p\<rparr>)"
begin

lemma path: "order_path B E e x y \<Longrightarrow> e \<in> E \<Longrightarrow> order_ids_ok x \<Longrightarrow> I x \<Longrightarrow> I y \<and> order_ids_ok y"
proof (induction rule: rtranclp_induct)
  case (step y z)
  then have "order_ids_ok z" using change_identity by (simp add: order_ids_ok_def)
  with step show ?case using change by blast
qed simp

lemma head_kept: "e \<in> E \<Longrightarrow> order_ids_ok x \<Longrightarrow> I x \<Longrightarrow> content y = content x \<Longrightarrow> I y"
  using change change_head by blast

lemma touched_kept: "e \<in> E \<Longrightarrow> order_ids_ok x \<Longrightarrow> I x \<Longrightarrow> I (touched_head e d x)"
  by (erule (2) head_kept) (simp add: touched_head_def content_def)

lemma orders_kept:
  assumes ch: "orders_change B E e orders orders'" and e: "e \<in> E" and ok: "orders_ok orders"
    and inv: "\<forall>x \<in> set (jvalues orders). I x"
  shows "\<forall>x \<in> set (jvalues orders'). I x"
  using ch
proof cases
  case (orders_touch orderId planId a b dep k x os1 y)
  note en = ensure_opt [OF ok orders_touch(2-6)]
  have ids: "order_ids_ok x" using en orders_okD by blast
  have "I x \<and> (\<forall>z \<in> set (jvalues os1). I z)"
    using en unfolding bucket_source_def
  proof (elim conjE disjE exE)
    fix x0
    assume x0: "(k, x0) \<in> set orders" "x = touched_head e dep x0" "os1 = jset k x orders"
    then have "I x0" "order_ids_ok x0" using inv orders_okD [OF ok x0(1)] by force+
    then have "I x" using x0 touched_kept [OF e] by simp
    with x0 inv show ?thesis by (auto dest!: jvalues_jset simp del: set_map)
  next
    fix k0 u
    assume u: "(k0, u) \<in> set orders" "or_planId u = ZERO_BYTES32" "planId \<noteq> None"
      "x = touched_head e dep (u\<lparr>or_planId := the planId\<rparr>)" "os1 = jset k x (jdelete k0 orders)"
    then have "I (u\<lparr>or_planId := the planId\<rparr>)" using inv planned by force
    moreover have "order_ids_ok (u\<lparr>or_planId := the planId\<rparr>)" using ids u(4) by simp
    ultimately have x: "I x" using u(4) touched_kept [OF e] by blast
    moreover have "I z" if z: "z \<in> set (jvalues os1)" for z
    proof -
      have "z = x \<or> z \<in> set (jvalues (jdelete k0 orders))"
        using jvalues_jset z unfolding u(5) .
      then show ?thesis using x inv by auto
    qed
    ultimately show ?thesis by blast
  next
    assume n: "x = newOrder e orderId planId dep a" "os1 = jset k x orders"
    then have "I x" using created [OF e] by simp
    with n inv show ?thesis by (auto dest!: jvalues_jset simp del: set_map)
  qed
  moreover from this have "I y" using path [OF orders_touch(7) e ids] by blast
  ultimately show ?thesis unfolding orders_touch(1) by (blast dest: jvalues_jset)
next
  case (orders_each f)
  have "I (f x)" if "(k, x) \<in> set orders" for k x
    using path [OF orders_each(2) e] orders_okD [OF ok that] inv that by force
  then show ?thesis unfolding orders_each(1) by (auto simp: set_jupdate_values)
qed

lemma replay_kept:
  assumes "replay_events B es = Inr r" and "stream_ok B es" and "E = set es"
  shows "\<forall>x \<in> set (jvalues (st_orders (rl_state r))). I x"
  using assms(1,2)
  by (rule replay_orders_invariant [where I = "\<lambda>os1. \<forall>x \<in> set (jvalues os1). I x"])
    (use orders_kept assms(3) in \<open>simp_all del: set_map\<close>)

end

section \<open>Evolution of the orders\<close>

text \<open>
  The same order before and after an event: its plan may only change from the placeholder
  to the plan it turns out to belong to.
\<close>

definition same_order :: "order_proj \<Rightarrow> order_proj \<Rightarrow> bool" where
  "same_order x y \<longleftrightarrow> or_chainId y = or_chainId x
     \<and> or_contractAddress y = or_contractAddress x \<and> or_orderId y = or_orderId x
     \<and> (or_planId y = or_planId x \<or> or_planId x = ZERO_BYTES32)"

lemma same_order_refl [simp]: "same_order x x"
  by (simp add: same_order_def)

lemma same_order_trans: "same_order x y \<Longrightarrow> same_order y z \<Longrightarrow> same_order x z"
  by (auto simp: same_order_def)

definition evolved ::
    "(order_proj \<Rightarrow> order_proj \<Rightarrow> bool) \<Rightarrow> (string, order_proj) jsmap
      \<Rightarrow> (string, order_proj) jsmap \<Rightarrow> bool" where
  "evolved R orders orders' \<longleftrightarrow>
     (\<forall>x \<in> set (jvalues orders). \<exists>y \<in> set (jvalues orders'). same_order x y \<and> R x y)"

locale order_evolution =
  fixes B :: bindings and E :: "chain_event set" and e :: chain_event
    and R :: "order_proj \<Rightarrow> order_proj \<Rightarrow> bool"
  assumes R_refl: "R x x" and R_trans: "R x y \<Longrightarrow> R y z \<Longrightarrow> R x z"
    and R_change: "order_change B E e x y \<Longrightarrow> R x y"
    and R_planned: "or_planId x = ZERO_BYTES32 \<Longrightarrow> R x (x\<lparr>or_planId := p\<rparr>)"
begin

lemma R_path: "order_path B E e x y \<Longrightarrow> R x y"
  by (induction rule: rtranclp_induct) (blast intro: R_refl R_trans R_change)+

lemma R_touched: "R x (touched_head e d x)"
  by (rule R_change, rule change_head) (simp add: touched_head_def content_def)

lemma evolved_refl: "evolved R orders orders"
  unfolding evolved_def using R_refl by force

lemma evolved_trans: "evolved R a b \<Longrightarrow> evolved R b c \<Longrightarrow> evolved R a c"
  unfolding evolved_def using R_trans same_order_trans by blast

text \<open>Storing at a key the successor of what was stored there.\<close>

lemma evolved_jset:
  assumes "distinct (jkeys m)" and "(k, x) \<in> set m" and "same_order x y" and "R x y"
  shows "evolved R m (jset k y m)"
  unfolding evolved_def
proof
  fix z
  assume "z \<in> set (jvalues m)"
  then obtain k' where k': "(k', z) \<in> set m" by auto
  show "\<exists>y' \<in> set (jvalues (jset k y m)). same_order z y' \<and> R z y'"
  proof (cases "k' = k")
    case True
    then have "z = x" using assms(1,2) k' by (metis eq_key_imp_eq_value)
    with assms show ?thesis by (auto simp: set_jset_distinct)
  next
    case False
    then have "(k', z) \<in> set (jset k y m)" using k' assms(1) by (simp add: set_jset_distinct)
    then show ?thesis using R_refl by force
  qed
qed

lemma orders_evolved:
  assumes ch: "orders_change B E e orders orders'" and ok: "orders_ok orders"
  shows "evolved R orders orders'"
  using ch
proof cases
  case (orders_touch orderId planId a b dep k x os1 y)
  note en = ensure_opt [OF ok orders_touch(2-6)]
  have d: "distinct (jkeys orders)" "distinct (jkeys os1)" using ok en by (auto simp: orders_ok_def)
  have "same_order x y" using path_identity [OF orders_touch(7)] by (simp add: same_order_def)
  then have "evolved R os1 orders'"
    unfolding orders_touch(1) using en R_path [OF orders_touch(7)] d by (intro evolved_jset) auto
  moreover have "evolved R orders os1"
    using en unfolding bucket_source_def
  proof (elim conjE disjE exE)
    fix x0
    assume x0: "(k, x0) \<in> set orders" "x = touched_head e dep x0" "os1 = jset k x orders"
    show ?thesis unfolding x0(3)
      by (rule evolved_jset [OF d(1) x0(1)]) (simp_all add: x0 R_touched same_order_def)
  next
    fix k0 u
    assume u: "(k0, u) \<in> set orders" "or_planId u = ZERO_BYTES32"
      "x = touched_head e dep (u\<lparr>or_planId := the planId\<rparr>)"
      "k \<notin> set (jkeys orders)" "os1 = jset k x (jdelete k0 orders)"
    show ?thesis unfolding evolved_def
    proof
      fix z
      assume "z \<in> set (jvalues orders)"
      then obtain k' where k': "(k', z) \<in> set orders" by auto
      show "\<exists>y \<in> set (jvalues os1). same_order z y \<and> R z y"
      proof (cases "k' = k0")
        case True
        then have "z = u" using d(1) k' u(1) by (metis eq_key_imp_eq_value)
        moreover have "R u x" unfolding u(3) using R_trans R_planned [OF u(2)] R_touched by blast
        moreover have "same_order u x" using u(2,3) by (simp add: same_order_def)
        moreover have "x \<in> set (jvalues os1)" using en by force
        ultimately show ?thesis by blast
      next
        case False
        then have "(k', z) \<in> set (jdelete k0 orders)" using k' by simp
        moreover have "k' \<noteq> k" using u(4) k' by force
        moreover have "distinct (jkeys (jdelete k0 orders))" using d(1) by blast
        ultimately have "(k', z) \<in> set os1" unfolding u(5) by (simp add: set_jset_distinct)
        then show ?thesis using R_refl by force
      qed
    qed
  next
    assume n: "x = newOrder e orderId planId dep a" "k = order_key x" "os1 = jset k x orders"
      "k \<notin> set (jkeys orders)"
    show ?thesis unfolding evolved_def
    proof
      fix z
      assume "z \<in> set (jvalues orders)"
      then obtain k' where k': "(k', z) \<in> set orders" by auto
      moreover from this have "k' \<noteq> k" using n(4) by force
      ultimately have "(k', z) \<in> set os1" unfolding n(3) using d(1) by (simp add: set_jset_distinct)
      then show "\<exists>y \<in> set (jvalues os1). same_order z y \<and> R z y" using R_refl by force
    qed
  qed
  ultimately show ?thesis by (blast intro: evolved_trans)
next
  case (orders_each f)
  have "same_order x (f x) \<and> R x (f x)" for x
    using path_identity [OF orders_each(2)] R_path [OF orders_each(2)] by (simp add: same_order_def)
  then have "(k, f x) \<in> set orders' \<and> same_order x (f x) \<and> R x (f x)" if "(k, x) \<in> set orders" for k x
    unfolding orders_each(1) using that by (auto simp: set_jupdate_values)
  then show ?thesis unfolding evolved_def by force
qed

text \<open>One event, and the events between two moments of a replay.\<close>

lemma step_evolved:
  assumes "replay_step B r e = Inr r'" and "state_ok E (rl_state r)" and "event_ok B E e"
  shows "evolved R (st_orders (rl_state r)) (st_orders (rl_state r'))"
proof -
  have path: "orders_path B E e (st_orders (rl_state r)) (st_orders (rl_state r'))"
    and ok: "orders_ok (st_orders (rl_state r))"
    using replay_step_orders [OF assms] assms(2) by (auto simp: state_ok_def)
  show ?thesis
    using orders_path_invariant [OF path ok, where I = "evolved R (st_orders (rl_state r))"]
      orders_evolved evolved_trans evolved_refl by blast
qed

end

text \<open>A relation that every later event respects relates any two moments of a replay.\<close>

lemma replay_evolved:
  assumes evo: "\<And>e. e \<in> set ds \<Longrightarrow> order_evolution B (set (es @ ds)) e R"
    and ok: "stream_ok B (es @ ds)"
    and before: "replay_events B es = Inr r" and after: "replay_events B (es @ ds) = Inr r'"
    and x: "x \<in> set (jvalues (st_orders (rl_state r)))" and refl: "\<And>x. R x x"
    and trans: "\<And>x y z. R x y \<Longrightarrow> R y z \<Longrightarrow> R x z"
  shows "\<exists>y \<in> set (jvalues (st_orders (rl_state r'))). same_order x y \<and> R x y"
proof -
  let ?E = "set (es @ ds)"
  let ?ev = "\<lambda>q. state_ok ?E (rl_state q)
      \<and> (\<exists>y \<in> set (jvalues (st_orders (rl_state q))). same_order x y \<and> R x y)"
  have run: "foldR (replay_step B) r ds = Inr r'"
    using before after by (simp add: replay_events_def foldR_append)
  have eok: "event_ok B ?E e" if "e \<in> ?E" for e using stream_event_ok [OF ok that] .
  have "state_ok ?E (rl_state r)"
    using before unfolding replay_events_def
  proof (rule foldR_invariant [where I = "\<lambda>q. state_ok ?E (rl_state q)"])
    fix q e q'
    assume "e \<in> set es" "state_ok ?E (rl_state q)" "replay_step B q e = Inr q'"
    then show "state_ok ?E (rl_state q')" using replay_step_orders eok by (metis UnI1 set_append)
  qed (rule state_ok_start)
  then have start: "?ev r" using x refl same_order_refl by blast
  have "?ev r'"
    using run start
  proof (rule foldR_invariant [where I = ?ev])
    fix q e q'
    assume e: "e \<in> set ds" and q: "?ev q" and s: "replay_step B q e = Inr q'"
    then have ee: "e \<in> ?E" by simp
    have st: "state_ok ?E (rl_state q')" using replay_step_orders [OF s _ eok [OF ee]] q by blast
    have "order_evolution B ?E e R" by (rule evo [OF e])
    then have "evolved R (st_orders (rl_state q)) (st_orders (rl_state q'))"
      using order_evolution.step_evolved [OF _ s _ eok [OF ee]] q by blast
    with q st show "?ev q'" unfolding evolved_def using same_order_trans trans by blast
  qed
  then show ?thesis by blast
qed

end
