(* ===== verification/Trails.thy ===== *)
theory Trails imports Invariants begin

text \<open>
  The audit trail of an order: its proof and timeline lists hold each event once, hold only
  events of the replayed stream, and grow at the end.
\<close>

section \<open>What marking does not touch\<close>

lemma mark_lists [simp]:
  "or_proof (markMatchingTasksAssigned a y) = or_proof y"
  "or_timeline (markMatchingTasksAssigned a y) = or_timeline y"
  "or_proof (markMatchingTasksSubmitted i j p y) = or_proof y"
  "or_timeline (markMatchingTasksSubmitted i j p y) = or_timeline y"
  "or_proof (markTargetStageTasksAssignedFromOverlay ov y) = or_proof y"
  "or_timeline (markTargetStageTasksAssignedFromOverlay ov y) = or_timeline y"
  "or_proof (markTargetStageTasksAssignedFromDelegation d y) = or_proof y"
  "or_timeline (markTargetStageTasksAssignedFromDelegation d y) = or_timeline y"
  "or_proof (cancelTask h p y) = or_proof y" "or_timeline (cancelTask h p y) = or_timeline y"
  by (simp_all add: markMatchingTasksAssigned_def markMatchingTasksSubmitted_def
    markTargetStageTasksAssignedFromOverlay_def markTargetStageTasksAssignedFromDelegation_def
    cancelTask_def Let_def split: option.split)

lemma content_lists: "content y = content x \<Longrightarrow> or_proof y = or_proof x \<and> or_timeline y = or_timeline x"
  by (simp add: content_def)

text \<open>A change leaves the trail alone or records one event of the stream.\<close>

lemma change_lists:
  "order_change B E e x y \<Longrightarrow>
     or_proof y = or_proof x \<and> or_timeline y = or_timeline x
     \<or> (\<exists>d p text md z. d \<in> E \<and> proof_of d p \<and> y = recordEvent p text md z
          \<and> or_proof z = or_proof x \<and> or_timeline z = or_timeline x)"
  by (erule order_change.cases; drule content_lists) auto

lemma recordEvent_lists:
  "or_proof (recordEvent p text md z) =
     (if \<exists>q \<in> set (or_proof z). pf_eventId q = pf_eventId p then or_proof z else or_proof z @ [p])"
  "or_timeline (recordEvent p text md z) =
     (if \<exists>t \<in> set (or_timeline z). tl_timelineId t = pf_eventId p then or_timeline z
      else or_timeline z @ [timelineOf text p md])"
  by (auto simp: recordEvent_def appendOrderProof_def appendOrderTimeline_def timelineOf_def)

section \<open>The trail is duplicate-free and drawn from the stream\<close>

definition trail_ok :: "chain_event set \<Rightarrow> order_proj \<Rightarrow> bool" where
  "trail_ok E x \<longleftrightarrow>
     distinct (map pf_eventId (or_proof x)) \<and> distinct (map tl_timelineId (or_timeline x))
     \<and> (\<forall>p \<in> set (or_proof x). \<exists>d \<in> E. proof_of d p)
     \<and> (\<forall>t \<in> set (or_timeline x). tl_timelineId t = pf_eventId (tl_proof t)
          \<and> (\<exists>d \<in> E. proof_of d (tl_proof t)))"

lemma trail_ok_recordEvent:
  assumes "d \<in> E" and "proof_of d p" and "trail_ok E z"
  shows "trail_ok E (recordEvent p text md z)"
  using assms by (auto simp: trail_ok_def recordEvent_lists timelineOf_def)

lemma trail_ok_lists:
  "or_proof y = or_proof x \<Longrightarrow> or_timeline y = or_timeline x \<Longrightarrow> trail_ok E y = trail_ok E x"
  by (simp add: trail_ok_def)

interpretation order_trail: order_invariant B E "trail_ok E" for B E
proof
  show "trail_ok E y" if "trail_ok E x" "order_change B E e x y" for e x y
    using change_lists [OF that(2)] trail_ok_lists trail_ok_recordEvent that(1) by metis
qed (simp_all add: trail_ok_def newOrder_def)

section \<open>The trail only grows\<close>

definition trail_grows :: "order_proj \<Rightarrow> order_proj \<Rightarrow> bool" where
  "trail_grows x y \<longleftrightarrow>
     take (length (or_proof x)) (or_proof y) = or_proof x
     \<and> take (length (or_timeline x)) (or_timeline y) = or_timeline x"

lemma take_extends: "take (length xs) ys = xs \<longleftrightarrow> (\<exists>zs. ys = xs @ zs)"
  by (metis append_eq_conv_conj)

lemma trail_grows_recordEvent: "trail_grows z (recordEvent p text md z)"
  by (auto simp: trail_grows_def recordEvent_lists)

interpretation order_growth: order_evolution B E e trail_grows for B E e
proof
  show "trail_grows x z" if "trail_grows x y" "trail_grows y z" for x y z
    using that unfolding trail_grows_def take_extends by force
  show "trail_grows x y" if "order_change B E e x y" for x y
    using change_lists [OF that] trail_grows_recordEvent
    by (fastforce simp: trail_grows_def recordEvent_lists)
qed (simp_all add: trail_grows_def)

text \<open>What the snapshot shows of the trail.\<close>

lemma readonlyOrder_simps [simp]:
  "or_orderId (readonlyOrder x) = or_orderId x" "or_chainId (readonlyOrder x) = or_chainId x"
  "or_contractAddress (readonlyOrder x) = or_contractAddress x"
  "or_planId (readonlyOrder x) = or_planId x" "or_tasks (readonlyOrder x) = or_tasks x"
  "or_signals (readonlyOrder x) = or_signals x"
  "or_stageExecutorOverlays (readonlyOrder x) = or_stageExecutorOverlays x"
  "or_proof (readonlyOrder x) = js_sort compareProofEvents (or_proof x)"
  "or_timeline (readonlyOrder x) = js_sort compareTimelineEvents (or_timeline x)"
  by (simp_all add: readonlyOrder_def)

lemma proof_of_indexed: "proof_of d p \<Longrightarrow> indexed d \<Longrightarrow> indexed p"
  by (auto simp: proof_of_def indexed_def provenanceOf_def)

lemma snapshot_order:
  assumes "rebuildOrderProjections B es = Inr snap" and "(k, y) \<in> set (sn_stateMachineOrders snap)"
  obtains r x where "replay_events B (filterActiveChainEvents es) = Inr r" "snap = snapshotOf r"
    "(k, x) \<in> set (st_orders (rl_state r))" "y = readonlyOrder x"
  using assms
  by (auto simp: rebuildOrderProjections_def bindR_Inr_iff snapshotOf_def Let_def
    set_jupdate_values)

text \<open>The trail of an order in the snapshot, for any stream of indexed events.\<close>

lemma snapshot_trail:
  assumes run: "rebuildOrderProjections B es = Inr snap"
    and ok: "stream_ok B (filterActiveChainEvents es)"
    and idx: "\<forall>e \<in> set (filterActiveChainEvents es). indexed e"
    and y: "(k, y) \<in> set (sn_stateMachineOrders snap)"
  shows "trail_ok (set (filterActiveChainEvents es)) y
    \<and> sorted_wrt (\<lambda>p q. compareProofEvents p q \<le> 0) (or_proof y)
    \<and> sorted_wrt (\<lambda>t u. compareTimelineEvents t u \<le> 0) (or_timeline y)"
proof -
  let ?E = "set (filterActiveChainEvents es)"
  obtain r x where r: "replay_events B (filterActiveChainEvents es) = Inr r"
    and x: "(k, x) \<in> set (st_orders (rl_state r))" and yx: "y = readonlyOrder x"
    using snapshot_order [OF run y] .
  have tr: "trail_ok ?E x" using order_trail.replay_kept [OF r ok refl] x by force
  then have "\<forall>p \<in> set (or_proof x). indexed p" "\<forall>t \<in> set (or_timeline x). indexed (tl_proof t)"
    using idx proof_of_indexed unfolding trail_ok_def by metis+
  then show ?thesis
    using tr unfolding yx
    by (simp add: proof_order.sorted_js_sort timeline_order.sorted_js_sort trail_ok_def)
qed

end
