(* ===== verification/TaskFacts.thy ===== *)
theory TaskFacts imports Trails begin

text \<open>
  What a replay knows about tasks: every task sits under its own identifier in the order it
  belongs to; a submitted task is justified by a submitted signal of its order and a
  cancelled one by a hook event; a task that a recorded signal matches is never left ready
  (completeness), and a submitted task carries the earliest of the matching proofs.
\<close>

section \<open>One task against the recorded signals\<close>

definition settled_by :: "task_proj \<Rightarrow> signal_proj \<Rightarrow> bool" where
  "settled_by t s \<longleftrightarrow>
     (taskMatchesSubmittedSignal t (sig_sourceId s) (sig_signalId s) \<longrightarrow>
        tk_status t = TaskCancelled
        \<or> tk_status t = TaskSubmitted \<and> compareProofEvents (tk_proof t) (sig_proof s) \<le> 0)"

lemma markTaskSubmitted_simps [simp]:
  "tk_hookId (markTaskSubmitted p t) = tk_hookId t"
  "submitSignals_of (markTaskSubmitted p t) = submitSignals_of t"
  "tk_taskId (markTaskSubmitted p t) = tk_taskId t"
  "tk_orderId (markTaskSubmitted p t) = tk_orderId t"
  "tk_stateMachineAddress (markTaskSubmitted p t) = tk_stateMachineAddress t"
  "taskMatchesSubmittedSignal (markTaskSubmitted p t) i j = taskMatchesSubmittedSignal t i j"
  by (simp_all add: markTaskSubmitted_def submitSignals_of_def taskMatchesSubmittedSignal_def)

text \<open>Only the proof of a submitted task is compared.\<close>

definition proof_comparable :: "task_proj \<Rightarrow> bool" where
  "proof_comparable t \<longleftrightarrow> (tk_status t = TaskSubmitted \<longrightarrow> indexed (tk_proof t))"

lemma markTaskSubmitted_settled:
  assumes "indexed p" and "proof_comparable t" and "compareProofEvents p (sig_proof s) \<le> 0"
    and "indexed (sig_proof s)"
  shows "settled_by (markTaskSubmitted p t) s"
proof (cases "tk_status t = TaskSubmitted \<and> 0 \<le> compareProofEvents p (tk_proof t)")
  case True
  then have "indexed (tk_proof t)" using assms(2) by (simp add: proof_comparable_def)
  moreover have "compareProofEvents (tk_proof t) p \<le> 0"
    using True proof_order.swap [of p "tk_proof t"] by (meson calculation assms(1) not_le not_less)
  ultimately have "compareProofEvents (tk_proof t) (sig_proof s) \<le> 0"
    using proof_order.trans [of "tk_proof t" p "sig_proof s"] assms by blast
  then show ?thesis using True by (simp add: markTaskSubmitted_def settled_by_def)
next
  case False
  then show ?thesis using assms by (auto simp: markTaskSubmitted_def settled_by_def)
qed

lemma markTaskSubmitted_keeps_settled:
  assumes "settled_by t s" and "indexed p" and "proof_comparable t" and "indexed (sig_proof s)"
  shows "settled_by (markTaskSubmitted p t) s"
proof (cases "tk_status t = TaskSubmitted \<and> compareProofEvents p (tk_proof t) < 0
    \<and> taskMatchesSubmittedSignal t (sig_sourceId s) (sig_signalId s)")
  case True
  then have "compareProofEvents (tk_proof t) (sig_proof s) \<le> 0"
    using assms(1) by (auto simp: settled_by_def)
  then have "compareProofEvents p (sig_proof s) \<le> 0"
    using True assms proof_order.trans [of p "tk_proof t" "sig_proof s"]
    by (auto simp: proof_comparable_def)
  then show ?thesis by (rule markTaskSubmitted_settled [OF assms(2,3) _ assms(4)])
next
  case False
  then show ?thesis using assms(1)
    by (auto simp: settled_by_def markTaskSubmitted_def taskMatchesSubmittedSignal_def
      submitSignals_of_def)
qed

lemma markTaskSubmitted_comparable:
  "indexed p \<Longrightarrow> proof_comparable t \<Longrightarrow> proof_comparable (markTaskSubmitted p t)"
  by (simp add: markTaskSubmitted_def proof_comparable_def)

text \<open>Marking from the recorded signals settles the task against all of them.\<close>

lemma markExisting_settled:
  assumes idx: "\<forall>s \<in> set (jvalues (or_signals x)). indexed (sig_proof s)"
    and comp: "proof_comparable t" and s: "s \<in> set (jvalues (or_signals x))"
  shows "settled_by (markTaskSubmittedFromExistingSignals x t) s"
proof (cases "taskMatchesSubmittedSignal t (sig_sourceId s) (sig_signalId s)")
  case True
  let ?ps = "matchingSignalProofs x t"
  have "sig_proof s \<in> set ?ps" using True s by (auto simp: matchingSignalProofs_def)
  moreover have i: "\<forall>p \<in> set ?ps. indexed p" using idx by (auto simp: matchingSignalProofs_def)
  ultimately obtain p ps where p: "js_sort compareProofEvents ?ps = p # ps"
      "compareProofEvents p (sig_proof s) \<le> 0" "indexed p"
    using proof_order.js_sort_head_least [OF i]
    by (cases "js_sort compareProofEvents ?ps")
      (simp, metis list.set_intros(1) set_js_sort)
  then show ?thesis
    using markTaskSubmitted_settled [OF p(3) comp p(2)] idx s
    unfolding markTaskSubmittedFromExistingSignals_def by (simp del: set_map)
next
  case False
  then show ?thesis
    by (simp add: settled_by_def markTaskSubmittedFromExistingSignals_def split: list.split)
qed

text \<open>It changes the task only by one of the recorded proofs.\<close>

lemma markExisting_cases:
  "markTaskSubmittedFromExistingSignals x t = t
   \<or> (\<exists>s \<in> set (jvalues (or_signals x)).
        taskMatchesSubmittedSignal t (sig_sourceId s) (sig_signalId s)
        \<and> markTaskSubmittedFromExistingSignals x t = markTaskSubmitted (sig_proof s) t)"
proof (cases "js_sort compareProofEvents (matchingSignalProofs x t)")
  case (Cons p ps)
  then have "p \<in> set (matchingSignalProofs x t)" by (metis list.set_intros(1) set_js_sort)
  with Cons show ?thesis
    by (auto simp: markTaskSubmittedFromExistingSignals_def matchingSignalProofs_def)
qed (simp add: markTaskSubmittedFromExistingSignals_def)

section \<open>Where a status comes from\<close>

definition progress where
  "progress t = (tk_taskId t, tk_orderId t, tk_stateMachineAddress t, tk_hookId t, tk_status t,
     tk_proof t)"

lemma progress_simps [simp]:
  "progress (assignTask r w h m at t) = progress t"
  "progress (addTaskSubmitSignal t sg) = progress t"
  "progress (refreshTaskSubmitSignals x plan t) = progress t"
  by (simp_all add: progress_def assignTask_def addTaskSubmitSignal_def
    refreshTaskSubmitSignals_def Let_def)

definition status_from :: "bindings \<Rightarrow> chain_event set \<Rightarrow> order_proj \<Rightarrow> task_proj \<Rightarrow> bool" where
  "status_from B E x t \<longleftrightarrow>
     (case tk_status t of
        TaskReady \<Rightarrow> True
      | TaskSubmitted \<Rightarrow> \<exists>d \<in> E. \<exists>s. signal_of B d s \<and> sig_orderId s = or_orderId x
          \<and> tk_proof t = sig_proof s
      | TaskCancelled \<Rightarrow> \<exists>d \<in> E. eventName d = ''HookStatusChanged'' \<and> proof_of d (tk_proof t)
      | TaskUnknown \<Rightarrow> False)"

definition task_justified :: "bindings \<Rightarrow> chain_event set \<Rightarrow> order_proj \<Rightarrow> task_proj \<Rightarrow> bool" where
  "task_justified B E x t \<longleftrightarrow>
     tk_orderId t = or_orderId x \<and> tk_stateMachineAddress t = or_contractAddress x
     \<and> tk_taskId t = taskProjectionId (or_orderId x) (tk_hookId t) (or_contractAddress x)
     \<and> normal_word (tk_hookId t) \<and> status_from B E x t"

lemma justified_cong:
  "progress t' = progress t \<Longrightarrow> task_justified B E x t' = task_justified B E x t"
  by (cases "tk_status t") (simp_all add: progress_def task_justified_def status_from_def)

lemma justified_submitted:
  assumes "task_justified B E x t" and "d \<in> E" and "signal_of B d s" and "sig_orderId s = or_orderId x"
  shows "task_justified B E x (markTaskSubmitted (sig_proof s) t)"
  using assms by (auto simp: task_justified_def markTaskSubmitted_def status_from_def)

definition signals_ok :: "bindings \<Rightarrow> chain_event set \<Rightarrow> order_proj \<Rightarrow> bool" where
  "signals_ok B E x \<longleftrightarrow>
     (\<forall>s \<in> set (jvalues (or_signals x)).
        sig_orderId s = or_orderId x \<and> (\<exists>d \<in> E. signal_of B d s))"

lemma signals_ok_indexed:
  "signals_ok B E x \<Longrightarrow> \<forall>e \<in> E. indexed e \<Longrightarrow> s \<in> set (jvalues (or_signals x)) \<Longrightarrow>
   indexed (sig_proof s)"
  unfolding signals_ok_def signal_of_def using proof_of_indexed by blast

lemma justified_comparable:
  "task_justified B E x t \<Longrightarrow> \<forall>e \<in> E. indexed e \<Longrightarrow> proof_comparable t"
  by (cases "tk_status t")
    (auto simp: task_justified_def status_from_def proof_comparable_def signal_of_def
      intro: proof_of_indexed)

lemma justified_markExisting:
  assumes "task_justified B E x t" and "signals_ok B E x"
  shows "task_justified B E x (markTaskSubmittedFromExistingSignals x t)"
  using markExisting_cases [of x t] assms justified_submitted unfolding signals_ok_def by metis

section \<open>The invariant\<close>

definition settled :: "chain_event set \<Rightarrow> order_proj \<Rightarrow> task_proj \<Rightarrow> bool" where
  "settled E x t \<longleftrightarrow>
     ((\<forall>e \<in> E. indexed e) \<longrightarrow> (\<forall>s \<in> set (jvalues (or_signals x)). settled_by t s))"

definition task_ok :: "bindings \<Rightarrow> chain_event set \<Rightarrow> order_proj \<Rightarrow> task_proj \<Rightarrow> bool" where
  "task_ok B E x t \<longleftrightarrow> task_justified B E x t \<and> settled E x t"

definition tasks_ok :: "bindings \<Rightarrow> chain_event set \<Rightarrow> order_proj \<Rightarrow> bool" where
  "tasks_ok B E x \<longleftrightarrow> signals_ok B E x \<and> distinct (jkeys (or_tasks x))
     \<and> (\<forall>(k, t) \<in> set (or_tasks x). k = tk_taskId t \<and> task_ok B E x t)"

lemma settled_cong:
  "tk_status t' = tk_status t \<Longrightarrow> tk_proof t' = tk_proof t \<Longrightarrow> tk_hookId t' = tk_hookId t \<Longrightarrow>
   submitSignals_of t' = submitSignals_of t \<Longrightarrow> settled E x t' = settled E x t"
  by (simp add: settled_def settled_by_def taskMatchesSubmittedSignal_def)

lemma task_ok_assign: "task_ok B E x t \<Longrightarrow> task_ok B E x (assignTask r w h m at t)"
  unfolding task_ok_def justified_cong [OF progress_simps(1)]
  by (subst settled_cong [where t = t]) (simp_all add: assignTask_def submitSignals_of_def)

lemma task_ok_markExisting:
  assumes "task_justified B E x t" and "signals_ok B E x"
  shows "task_ok B E x (markTaskSubmittedFromExistingSignals x t)"
  unfolding task_ok_def settled_def
  using justified_markExisting [OF assms] markExisting_settled signals_ok_indexed [OF assms(2)]
    justified_comparable [OF assms(1)] by blast

lemma justified_order_cong:
  "or_orderId y = or_orderId x \<Longrightarrow> or_contractAddress y = or_contractAddress x \<Longrightarrow>
   task_justified B E y t = task_justified B E x t"
  by (cases "tk_status t") (simp_all add: task_justified_def status_from_def)

text \<open>The invariant reads only the identity, the signals and the tasks of an order.\<close>

lemma task_ok_cong:
  "or_orderId y = or_orderId x \<Longrightarrow> or_contractAddress y = or_contractAddress x \<Longrightarrow>
   or_signals y = or_signals x \<Longrightarrow> task_ok B E y t = task_ok B E x t"
  by (cases "tk_status t") (simp_all add: task_ok_def task_justified_def status_from_def settled_def)

lemma signals_ok_cong:
  "or_orderId y = or_orderId x \<Longrightarrow> or_signals y = or_signals x \<Longrightarrow> signals_ok B E y = signals_ok B E x"
  by (simp add: signals_ok_def)

lemma tasks_ok_update:
  assumes x: "tasks_ok B E x"
    and y: "or_orderId y = or_orderId x" "or_contractAddress y = or_contractAddress x"
      "or_signals y = or_signals x" "or_tasks y = jupdate_values f (or_tasks x)"
    and f: "\<And>t. task_ok B E x t \<Longrightarrow> task_ok B E x (f t) \<and> tk_taskId (f t) = tk_taskId t"
  shows "tasks_ok B E y"
  using x f by (auto simp: tasks_ok_def y set_jupdate_values signals_ok_cong [OF y(1,3)]
    task_ok_cong [OF y(1-3)])

text \<open>The atomic changes keep the invariant, one lemma per kind of change.\<close>

lemma tasks_ok_head:
  assumes "tasks_ok B E x" and "or_orderId y = or_orderId x"
    and "or_contractAddress y = or_contractAddress x" and "or_signals y = or_signals x"
    and "or_tasks y = or_tasks x"
  shows "tasks_ok B E y"
  by (rule tasks_ok_update [OF assms(1-4), where f = "\<lambda>t. t"])
    (simp_all add: assms(5) jupdate_values_def)

lemma markExisting_taskId [simp]:
  "tk_taskId (markTaskSubmittedFromExistingSignals x t) = tk_taskId t"
  by (simp add: markTaskSubmittedFromExistingSignals_def split: list.split)

lemma progress_taskId: "progress t' = progress t \<Longrightarrow> tk_taskId t' = tk_taskId t"
  by (simp add: progress_def)

lemma task_ok_remark:
  assumes "signals_ok B E x" and "task_ok B E x t" and "progress t' = progress t"
  shows "task_ok B E x (markTaskSubmittedFromExistingSignals x t')
    \<and> tk_taskId (markTaskSubmittedFromExistingSignals x t') = tk_taskId t"
  using task_ok_markExisting [OF _ assms(1)] assms(2) justified_cong [OF assms(3)]
    progress_taskId [OF assms(3)] by (simp add: task_ok_def)

text \<open>What the handlers that reassign or refresh tasks do to one task.\<close>

inductive remarked :: "order_proj \<Rightarrow> task_proj \<Rightarrow> task_proj \<Rightarrow> bool" for x t where
  remarked_same: "remarked x t t"
| remarked_assign: "remarked x t (assignTask r w h m at t)"
| remarked_mark: "or_orderId z = or_orderId x \<Longrightarrow> or_contractAddress z = or_contractAddress x \<Longrightarrow>
    or_signals z = or_signals x \<Longrightarrow> progress t' = progress t \<Longrightarrow>
    remarked x t (markTaskSubmittedFromExistingSignals z t')"

lemma tasks_ok_remark:
  assumes x: "tasks_ok B E x"
    and y: "or_orderId y = or_orderId x" "or_contractAddress y = or_contractAddress x"
      "or_signals y = or_signals x" "or_tasks y = jupdate_values f (or_tasks x)"
    and f: "\<And>t. remarked x t (f t)"
  shows "tasks_ok B E y"
proof (rule tasks_ok_update [OF x y])
  fix t
  assume t: "task_ok B E x t"
  have sg: "signals_ok B E x" using x by (simp add: tasks_ok_def)
  from f [of t] show "task_ok B E x (f t) \<and> tk_taskId (f t) = tk_taskId t"
  proof cases
    case (remarked_assign r w h m at)
    then show ?thesis using task_ok_assign [OF t] progress_taskId [OF progress_simps(1)] by simp
  next
    case (remarked_mark z t')
    have "signals_ok B E z" "task_ok B E z t"
      using sg t signals_ok_cong [OF remarked_mark(2,4)] task_ok_cong [OF remarked_mark(2-4)]
      by simp_all
    from task_ok_remark [OF this remarked_mark(5)] show ?thesis
      using task_ok_cong [OF remarked_mark(2-4)] remarked_mark(1) by simp
  qed (use t in simp)
qed

lemma tasks_ok_signal:
  assumes x: "tasks_ok B E x" and d: "d \<in> E" "signal_of B d s" "sig_orderId s = or_orderId x"
    and y: "content y = content (x\<lparr>or_signals := jset k s (or_signals x)\<rparr>)"
  shows "tasks_ok B E (markMatchingTasksSubmitted (sig_sourceId s) (sig_signalId s) (sig_proof s) y)"
proof -
  let ?z = "markMatchingTasksSubmitted (sig_sourceId s) (sig_signalId s) (sig_proof s) y"
  let ?f = "\<lambda>t. if taskMatchesSubmittedSignal t (sig_sourceId s) (sig_signalId s)
      then markTaskSubmitted (sig_proof s) t else t"
  have z: "or_orderId ?z = or_orderId x" "or_contractAddress ?z = or_contractAddress x"
      "or_signals ?z = jset k s (or_signals x)" "or_tasks ?z = jupdate_values ?f (or_tasks x)"
    using y by (simp_all add: content_def markMatchingTasksSubmitted_def)
  have sub: "v = s \<or> v \<in> set (jvalues (or_signals x))" if "v \<in> set (jvalues (or_signals ?z))" for v
    using that unfolding z(3) by (rule jvalues_jset)
  have sg: "signals_ok B E ?z"
    using x d sub unfolding tasks_ok_def signals_ok_def z(1) by blast
  have "task_ok B E ?z (?f t)" if t: "task_ok B E x t" for t
  proof -
    have j: "task_justified B E x t" using t by (simp add: task_ok_def)
    then have "task_justified B E x (?f t)" using justified_submitted d by auto
    then have jz: "task_justified B E ?z (?f t)" by (simp only: justified_order_cong [OF z(1,2)])
    moreover have "settled_by (?f t) v"
      if all: "\<forall>e \<in> E. indexed e" and v: "v \<in> set (jvalues (or_signals ?z))" for v
    proof -
      have i: "indexed (sig_proof v)" "indexed (sig_proof s)" "proof_comparable t"
        using signals_ok_indexed [OF sg all v] d all justified_comparable [OF j all]
        by (auto simp: signal_of_def intro: proof_of_indexed)
      show ?thesis
      proof (cases "v = s")
        case True
        then show ?thesis
          using markTaskSubmitted_settled [OF i(2,3) _ i(2)] proof_order.refl [OF i(2)]
          by (auto simp: settled_by_def)
      next
        case False
        then have "settled_by t v" using sub [OF v] t all unfolding task_ok_def settled_def by blast
        then show ?thesis using markTaskSubmitted_keeps_settled [OF _ i(2,3,1)] by simp
      qed
    qed
    ultimately show ?thesis unfolding task_ok_def settled_def by blast
  qed
  with x sg show ?thesis
    by (auto simp: tasks_ok_def z(4) set_jupdate_values)
qed

lemma tasks_ok_jset:
  assumes x: "tasks_ok B E x" and t: "task_ok B E x t" "tk_taskId t = k"
    and y: "or_orderId y = or_orderId x" "or_contractAddress y = or_contractAddress x"
      "or_signals y = or_signals x" "or_tasks y = jset k t (or_tasks x)"
  shows "tasks_ok B E y"
proof -
  have "p \<in> set (or_tasks x) \<or> p = (k, t)" if "p \<in> set (or_tasks y)" for p
    using that set_jset_subset [of k t "or_tasks x"] unfolding y(4) by blast
  moreover have "distinct (jkeys (or_tasks y))"
    using x unfolding y(4) tasks_ok_def by blast
  ultimately show ?thesis
    using x t unfolding tasks_ok_def signals_ok_cong [OF y(1,3)] task_ok_cong [OF y(1-3)] by blast
qed

lemma fresh_task_justified: "fresh_task e x t \<Longrightarrow> task_justified B E x t"
  by (simp add: fresh_task_def task_justified_def status_from_def)

lemma cancelled_ok:
  assumes "task_ok B E x t" and "e \<in> E" and "proof_of e p" and "eventName e = ''HookStatusChanged''"
  shows "task_ok B E x (t\<lparr>tk_status := TaskCancelled, tk_updatedAt := at, tk_proof := p\<rparr>)"
  using assms
  by (auto simp: task_ok_def task_justified_def status_from_def settled_def settled_by_def)

lemma content_eqs:
  "content y = content x \<Longrightarrow> or_orderId y = or_orderId x \<and> or_contractAddress y = or_contractAddress x
     \<and> or_signals y = or_signals x \<and> or_tasks y = or_tasks x"
  by (simp add: content_def)

lemma recordEvent_tasks [simp]:
  "or_signals (recordEvent p text md z) = or_signals z"
  "or_tasks (recordEvent p text md z) = or_tasks z"
  by (simp_all add: recordEvent_def appendOrderProof_def appendOrderTimeline_def)

lemma tasks_ok_change:
  assumes e: "e \<in> E" and x: "tasks_ok B E x" and ch: "order_change B E e x y"
  shows "tasks_ok B E y"
  using ch
proof cases
  case change_head
  then show ?thesis using tasks_ok_head [OF x] content_eqs by blast
next
  case (change_record d p z tx md)
  then show ?thesis using tasks_ok_head [OF x] content_eqs [OF change_record(4)] by simp
next
  case (change_authorize a z k)
  let ?x = "x\<lparr>or_authorizations := jset k a (or_authorizations x)\<rparr>"
  have "tasks_ok B E ?x" by (rule tasks_ok_head [OF x]) simp_all
  then show ?thesis
    by (rule tasks_ok_remark [where f = "assignFromAuthorization z a"])
      (use content_eqs [OF change_authorize(4)] in
        \<open>auto simp: change_authorize(1) markMatchingTasksAssigned_def assignFromAuthorization_def
          intro: remarked.intros\<close>)
next
  case (change_signal s z)
  then show ?thesis using tasks_ok_signal [OF x e] by blast
next
  case (change_executor ov k z)
  let ?x = "x\<lparr>or_stageExecutorOverlays := jset k ov (or_stageExecutorOverlays x)\<rparr>"
  have "tasks_ok B E ?x" by (rule tasks_ok_head [OF x]) simp_all
  then show ?thesis unfolding change_executor(1)
    by (rule tasks_ok_remark)
      (use content_eqs [OF change_executor(4)] in
        \<open>auto simp: markTargetStageTasksAssignedFromOverlay_def intro: remarked.intros\<close>)
next
  case (change_resource ov k)
  then show ?thesis using tasks_ok_head [OF x] content_eqs by fastforce
next
  case (change_delegate d k z)
  let ?x = "x\<lparr>or_signalDelegations := jset k d (or_signalDelegations x)\<rparr>"
  have "tasks_ok B E ?x" by (rule tasks_ok_head [OF x]) simp_all
  then show ?thesis unfolding change_delegate(1)
    by (rule tasks_ok_remark [where f = "\<lambda>t. if tk_stageIdentifier t \<noteq> dlg_targetStageId d then t
        else markTaskSubmittedFromExistingSignals z (addTaskSubmitSignal
          (assignTask RoleDelegatedStageExecutor (dlg_executor d) (dlg_roleHash d)
            (dlg_metadataHash d) (dlg_delegatedAt d) t) (delegation_signal d))"])
      (use content_eqs [OF change_delegate(4)] in
        \<open>auto simp: markTargetStageTasksAssignedFromDelegation_def intro: remarked.intros\<close>)
next
  case (change_hook k h)
  then show ?thesis using tasks_ok_head [OF x] content_eqs by fastforce
next
  case (change_cancel p z hookId)
  have z: "tasks_ok B E z" using tasks_ok_head [OF x] content_eqs [OF change_cancel(4)] by blast
  let ?k = "taskProjectionId (or_orderId z) hookId (or_contractAddress z)"
  show ?thesis
  proof (cases "jget (or_tasks z) ?k")
    case None
    then show ?thesis using z by (simp add: change_cancel(1) cancelTask_def)
  next
    case (Some t)
    then have t: "(?k, t) \<in> set (or_tasks z)" by (rule jget_Some_in)
    then have "task_ok B E z t" "tk_taskId t = ?k" using z by (auto simp: tasks_ok_def)
    then show ?thesis
      using tasks_ok_jset [OF z cancelled_ok [OF _ e change_cancel(2,3)]] Some
      by (simp add: change_cancel(1) cancelTask_def)
  qed
next
  case (change_ready t plan)
  have sg: "signals_ok B E x" using x by (simp add: tasks_ok_def)
  have "task_justified B E x (refreshTaskSubmitSignals x plan t)"
    using fresh_task_justified [OF change_ready(1)] justified_cong [OF progress_simps(3)] by metis
  from task_ok_markExisting [OF this sg] show ?thesis
    using tasks_ok_jset [OF x, where y = y] content_eqs [OF change_ready(2)]
      progress_taskId [OF progress_simps(3)] by simp
next
  case (change_refresh P plan)
  then show ?thesis
    by (intro tasks_ok_remark [OF x, where f = "\<lambda>t. if P t
        then markTaskSubmittedFromExistingSignals x (refreshTaskSubmitSignals x plan t) else t"])
      (use content_eqs [OF change_refresh] in \<open>auto intro: remarked.intros\<close>)
qed

interpretation order_tasks: order_invariant B E "tasks_ok B E" for B E
proof
  show "tasks_ok B E y" if "e \<in> E" "tasks_ok B E x" "order_change B E e x y" for e x y
    using tasks_ok_change that .
  show "tasks_ok B E (newOrder e orderId planId dep a)" for e orderId planId dep a
    by (simp add: tasks_ok_def signals_ok_def newOrder_def)
  show "tasks_ok B E (x\<lparr>or_planId := p\<rparr>)" if "tasks_ok B E x" for x p
    by (rule tasks_ok_head [OF that]) simp_all
qed

end
