(* ===== verification/Evolution.thy ===== *)
theory Evolution imports TaskFacts begin

text \<open>
  How orders evolve from event to event: no task disappears, a task is not reopened by
  anything but a new \<open>HookReady\<close>, and the patch nonces of overlays and delegations never
  decrease.
\<close>

section \<open>Tasks\<close>

definition task_advances :: "task_proj \<Rightarrow> task_proj \<Rightarrow> bool" where
  "task_advances t t' \<longleftrightarrow>
     tk_hookId t' = tk_hookId t \<and> tk_createdAt t' = tk_createdAt t
     \<and> (tk_status t = TaskCancelled \<longrightarrow> tk_status t' = TaskCancelled)
     \<and> (tk_status t = TaskSubmitted \<longrightarrow> tk_status t' = TaskSubmitted \<or> tk_status t' = TaskCancelled)"

definition tasks_advance :: "order_proj \<Rightarrow> order_proj \<Rightarrow> bool" where
  "tasks_advance x y \<longleftrightarrow>
     (\<forall>k t. jget (or_tasks x) k = Some t \<longrightarrow>
        (\<exists>t'. jget (or_tasks y) k = Some t' \<and> task_advances t t'))"

lemma task_advances_refl [simp]: "task_advances t t"
  by (simp add: task_advances_def)

lemma task_advances_trans: "task_advances t u \<Longrightarrow> task_advances u v \<Longrightarrow> task_advances t v"
  by (auto simp: task_advances_def)

lemma task_advances_mark: "task_advances t u \<Longrightarrow> task_advances t (markTaskSubmitted p u)"
  by (auto simp: task_advances_def markTaskSubmitted_def)

lemma task_advances_assign: "task_advances t u \<Longrightarrow> task_advances t (assignTask r w h m at u)"
  by (auto simp: task_advances_def assignTask_def)

lemma task_advances_signals:
  "task_advances t u \<Longrightarrow> task_advances t (addTaskSubmitSignal u sg)"
  "task_advances t u \<Longrightarrow> task_advances t (refreshTaskSubmitSignals x plan u)"
  by (auto simp: task_advances_def addTaskSubmitSignal_def refreshTaskSubmitSignals_def Let_def)

lemma task_advances_existing:
  "task_advances t u \<Longrightarrow> task_advances t (markTaskSubmittedFromExistingSignals x u)"
  by (auto simp: markTaskSubmittedFromExistingSignals_def task_advances_mark split: list.split)

lemmas task_advances_intros = task_advances_mark task_advances_assign task_advances_signals
  task_advances_existing

lemma tasks_advance_update:
  "or_tasks y = jupdate_values f (or_tasks x) \<Longrightarrow> (\<And>t. task_advances t (f t)) \<Longrightarrow> tasks_advance x y"
  by (auto simp: tasks_advance_def)

lemma tasks_advance_same: "or_tasks y = or_tasks x \<Longrightarrow> tasks_advance x y"
  by (simp add: tasks_advance_def)

lemma tasks_advance_change:
  assumes "eventName e \<noteq> ''HookReady''" and "order_change B E e x y"
  shows "tasks_advance x y"
  using assms(2)
proof cases
  case change_head
  then show ?thesis using content_eqs by (blast intro: tasks_advance_same)
next
  case (change_record d p z tx md)
  then show ?thesis using content_eqs [OF change_record(4)] by (simp add: tasks_advance_same)
next
  case (change_authorize a z k)
  then show ?thesis using content_eqs [OF change_authorize(4)]
    by (intro tasks_advance_update [where f = "assignFromAuthorization z a"])
      (simp_all add: markMatchingTasksAssigned_def assignFromAuthorization_def task_advances_intros)
next
  case (change_signal s z)
  then show ?thesis using content_eqs [OF change_signal(4)]
    by (intro tasks_advance_update [where f = "\<lambda>t. if taskMatchesSubmittedSignal t (sig_sourceId s)
        (sig_signalId s) then markTaskSubmitted (sig_proof s) t else t"])
      (simp_all add: markMatchingTasksSubmitted_def task_advances_intros)
next
  case (change_executor ov k z)
  then show ?thesis using content_eqs [OF change_executor(4)]
    by (intro tasks_advance_update [where f = "\<lambda>t.
       if tk_stageIdentifier t \<noteq> eov_targetStageId ov then t
       else assignTask RoleStageOverlayExecutor (eov_activeExecutorWallet ov)
         (eov_roleHash ov) (eov_executorMetadataHash ov) (eov_updatedAt ov) t"])
      (simp_all add: markTargetStageTasksAssignedFromOverlay_def task_advances_intros)
next
  case (change_resource ov k)
  then show ?thesis using content_eqs [OF change_resource(3)] by (simp add: tasks_advance_same)
next
  case (change_delegate d k z)
  then show ?thesis using content_eqs [OF change_delegate(4)]
    by (intro tasks_advance_update [where f = "\<lambda>t. if tk_stageIdentifier t \<noteq> dlg_targetStageId d then t
        else markTaskSubmittedFromExistingSignals z (addTaskSubmitSignal
          (assignTask RoleDelegatedStageExecutor (dlg_executor d) (dlg_roleHash d)
            (dlg_metadataHash d) (dlg_delegatedAt d) t) (delegation_signal d))"])
      (simp_all add: markTargetStageTasksAssignedFromDelegation_def task_advances_intros)
next
  case (change_hook k h)
  then show ?thesis using content_eqs [OF change_hook] by (simp add: tasks_advance_same)
next
  case (change_cancel p z hookId)
  then show ?thesis using content_eqs [OF change_cancel(4)]
    by (auto simp: tasks_advance_def cancelTask_def task_advances_def Let_def split: option.split)
next
  case (change_ready t plan)
  then show ?thesis using assms(1) by (simp add: fresh_task_def)
next
  case (change_refresh P plan)
  then show ?thesis using content_eqs [OF change_refresh]
    by (intro tasks_advance_update [where f = "\<lambda>t. if P t
        then markTaskSubmittedFromExistingSignals x (refreshTaskSubmitSignals x plan t) else t"])
      (simp_all add: task_advances_intros)
qed

lemma tasks_advance_trans: "tasks_advance x y \<Longrightarrow> tasks_advance y z \<Longrightarrow> tasks_advance x z"
  unfolding tasks_advance_def using task_advances_trans by blast

lemma tasks_evolution:
  "eventName e \<noteq> ''HookReady'' \<Longrightarrow> order_evolution B E e tasks_advance"
  by unfold_locales
    (auto intro: tasks_advance_same tasks_advance_change elim: tasks_advance_trans)

section \<open>Nonces\<close>

definition nonce_le :: "string \<Rightarrow> string \<Rightarrow> bool" where
  "nonce_le m n \<longleftrightarrow>
     m = n \<or> (\<exists>i j. parse_bigint m = Some i \<and> parse_bigint n = Some j \<and> i \<le> j)"

lemma nonce_le_refl [simp]: "nonce_le m m"
  by (simp add: nonce_le_def)

lemma nonce_le_trans: "nonce_le k m \<Longrightarrow> nonce_le m n \<Longrightarrow> nonce_le k n"
  unfolding nonce_le_def by force

lemma patch_accepted_le: "patch_accepted n (Some m) = Inr True \<Longrightarrow> nonce_le m n"
  by (auto simp: patch_accepted_def compareUintStrings_def bigint_of_def nonce_le_def bindR_Inr_iff
    split: option.splits if_splits)

text \<open>A dictionary of patches whose entries stay and whose nonces do not decrease.\<close>

definition nonces_grow ::
    "('v \<Rightarrow> string) \<Rightarrow> (string, 'v) jsmap \<Rightarrow> (string, 'v) jsmap \<Rightarrow> bool" where
  "nonces_grow f m m' \<longleftrightarrow>
     (\<forall>k v. jget m k = Some v \<longrightarrow> (\<exists>v'. jget m' k = Some v' \<and> nonce_le (f v) (f v')))"

lemma nonces_grow_refl [simp]: "nonces_grow f m m"
  by (simp add: nonces_grow_def)

lemma nonces_grow_trans: "nonces_grow f a b \<Longrightarrow> nonces_grow f b c \<Longrightarrow> nonces_grow f a c"
  unfolding nonces_grow_def using nonce_le_trans by blast

lemma nonces_grow_jset:
  "patch_accepted (f v) (map_option f (jget m k)) = Inr True \<Longrightarrow> nonces_grow f m (jset k v m)"
  by (auto simp: nonces_grow_def dest: patch_accepted_le)

definition patches_grow :: "order_proj \<Rightarrow> order_proj \<Rightarrow> bool" where
  "patches_grow x y \<longleftrightarrow>
     nonces_grow eov_patchNonce (or_stageExecutorOverlays x) (or_stageExecutorOverlays y)
     \<and> nonces_grow rov_patchNonce (or_stageResourceOverlays x) (or_stageResourceOverlays y)
     \<and> nonces_grow dlg_patchNonce (or_signalDelegations x) (or_signalDelegations y)"

lemma mark_patches [simp]:
  "or_stageExecutorOverlays (recordEvent p tx md y) = or_stageExecutorOverlays y"
  "or_stageResourceOverlays (recordEvent p tx md y) = or_stageResourceOverlays y"
  "or_signalDelegations (recordEvent p tx md y) = or_signalDelegations y"
  "or_stageExecutorOverlays (markMatchingTasksAssigned a y) = or_stageExecutorOverlays y"
  "or_stageResourceOverlays (markMatchingTasksAssigned a y) = or_stageResourceOverlays y"
  "or_signalDelegations (markMatchingTasksAssigned a y) = or_signalDelegations y"
  "or_stageExecutorOverlays (markMatchingTasksSubmitted i j p y) = or_stageExecutorOverlays y"
  "or_stageResourceOverlays (markMatchingTasksSubmitted i j p y) = or_stageResourceOverlays y"
  "or_signalDelegations (markMatchingTasksSubmitted i j p y) = or_signalDelegations y"
  "or_stageExecutorOverlays (markTargetStageTasksAssignedFromOverlay ov y) = or_stageExecutorOverlays y"
  "or_stageResourceOverlays (markTargetStageTasksAssignedFromOverlay ov y) = or_stageResourceOverlays y"
  "or_signalDelegations (markTargetStageTasksAssignedFromOverlay ov y) = or_signalDelegations y"
  "or_stageExecutorOverlays (markTargetStageTasksAssignedFromDelegation d y) = or_stageExecutorOverlays y"
  "or_stageResourceOverlays (markTargetStageTasksAssignedFromDelegation d y) = or_stageResourceOverlays y"
  "or_signalDelegations (markTargetStageTasksAssignedFromDelegation d y) = or_signalDelegations y"
  "or_stageExecutorOverlays (cancelTask h p y) = or_stageExecutorOverlays y"
  "or_stageResourceOverlays (cancelTask h p y) = or_stageResourceOverlays y"
  "or_signalDelegations (cancelTask h p y) = or_signalDelegations y"
  by (simp_all add: markMatchingTasksAssigned_def markMatchingTasksSubmitted_def
    markTargetStageTasksAssignedFromOverlay_def markTargetStageTasksAssignedFromDelegation_def
    cancelTask_def Let_def recordEvent_def appendOrderProof_def appendOrderTimeline_def
    split: option.split)

lemma content_patches:
  "content y = content x \<Longrightarrow> or_stageExecutorOverlays y = or_stageExecutorOverlays x
     \<and> or_stageResourceOverlays y = or_stageResourceOverlays x
     \<and> or_signalDelegations y = or_signalDelegations x"
  by (simp add: content_def)

lemma patches_grow_change: "order_change B E e x y \<Longrightarrow> patches_grow x y"
  by (erule order_change.cases; drule content_patches)
    (simp_all add: patches_grow_def nonces_grow_jset)

interpretation patch_growth: order_evolution B E e patches_grow for B E e
  by unfold_locales (auto simp: patches_grow_def dest: patches_grow_change [unfolded patches_grow_def]
    elim: nonces_grow_trans)

end
