(* ===== verification/Identity.thy ===== *)
theory Identity imports ProofFacts ActiveEvents begin

text \<open>
  The identity bindings (\<open>indexer/identity-projections.ts\<close>): the replay of registration and
  revocation events into a snapshot, and its query. The module declares its own copies of
  the argument readers and of \<open>provenanceOf\<close>; they are the ones of \<open>ProofFacts\<close>.
\<close>

datatype identity_status = IdActive | IdRevoked

record identity_binding =
  ib_registryAddress :: string
  ib_bindingId :: string
  ib_subjectId :: string
  ib_account :: string
  ib_descriptorHash :: string
  ib_descriptorURI :: string
  ib_registrar :: string
  ib_status :: identity_status
  ib_registeredAt :: provenance
  ib_updatedAt :: provenance
  ib_revokeReasonHash :: "string option"
  ib_revokeReasonURI :: "string option"
  ib_revokedAt :: "provenance option"

record identity_snapshot =
  is_eventCount :: nat
  is_bindings :: "(string, identity_binding) jsmap"
  is_lastEvent :: "provenance option"

record identity_query =
  iq_registryAddress :: "string option"
  iq_bindingId :: "string option"
  iq_subjectId :: "string option"
  iq_account :: "string option"
  iq_activeOnly :: bool

definition createEmptyIdentityProjectionSnapshot :: identity_snapshot where
  "createEmptyIdentityProjectionSnapshot =
     \<lparr>is_eventCount = 0, is_bindings = [], is_lastEvent = None\<rparr>"

definition identityKey :: "int \<Rightarrow> string \<Rightarrow> string \<Rightarrow> string" where
  "identityKey chain registryAddress bindingId =
     join_colon [dec_int chain, toLowerCase registryAddress, bindingId]"

definition applyIdentityBindingRegistered ::
    "bindings \<Rightarrow> (string, identity_binding) jsmap \<Rightarrow> chain_event
      \<Rightarrow> (string, identity_binding) jsmap res" where
  "applyIdentityBindingRegistered B m e =
     bindR (normalizeAddress B (contractAddress e) ''IdentityBindingRegistered.contractAddress'')
       (\<lambda>registryAddress.
     bindR (requiredBytes32Arg B e ''bindingId'') (\<lambda>bindingId.
     bindR (requiredBytes32Arg B e ''subjectId'') (\<lambda>subjectId.
     bindR (requiredAddressArg B e ''account'') (\<lambda>account.
     bindR (requiredBytes32Arg B e ''descriptorHash'') (\<lambda>descriptorHash.
     bindR (requiredAddressArg B e ''registrar'') (\<lambda>registrar.
       Inr (jset (identityKey (chainId e) registryAddress bindingId)
         \<lparr>ib_registryAddress = registryAddress, ib_bindingId = bindingId,
          ib_subjectId = subjectId, ib_account = account, ib_descriptorHash = descriptorHash,
          ib_descriptorURI = (case optionalStringArg e ''descriptorURI'' of
            Some u \<Rightarrow> u | None \<Rightarrow> []),
          ib_registrar = registrar, ib_status = IdActive,
          ib_registeredAt = provenanceOf e, ib_updatedAt = provenanceOf e,
          ib_revokeReasonHash = None, ib_revokeReasonURI = None, ib_revokedAt = None\<rparr> m)))))))"

definition applyIdentityBindingRevoked ::
    "bindings \<Rightarrow> (string, identity_binding) jsmap \<Rightarrow> chain_event
      \<Rightarrow> (string, identity_binding) jsmap res" where
  "applyIdentityBindingRevoked B m e =
     bindR (normalizeAddress B (contractAddress e) ''IdentityBindingRevoked.contractAddress'')
       (\<lambda>registryAddress.
     bindR (requiredBytes32Arg B e ''bindingId'') (\<lambda>bindingId.
     let key = identityKey (chainId e) registryAddress bindingId in
     case jget m key of
       None \<Rightarrow> Inr m
     | Some b \<Rightarrow>
         bindR (requiredBytes32Arg B e ''reasonHash'') (\<lambda>reasonHash.
           Inr (jset key (b\<lparr>ib_status := IdRevoked, ib_revokeReasonHash := Some reasonHash,
             ib_revokeReasonURI := Some (case optionalStringArg e ''reasonURI'' of
               Some u \<Rightarrow> u | None \<Rightarrow> []),
             ib_revokedAt := Some (provenanceOf e), ib_updatedAt := provenanceOf e\<rparr>) m))))"

definition identity_step :: "bindings \<Rightarrow> identity_snapshot \<Rightarrow> chain_event \<Rightarrow> identity_snapshot res" where
  "identity_step B s e =
     (let counted = (\<lambda>m. Inr \<lparr>is_eventCount = is_eventCount s + 1, is_bindings = m,
            is_lastEvent = Some (provenanceOf e)\<rparr>) in
      if eventName e = ''IdentityBindingRegistered'' then
        bindR (applyIdentityBindingRegistered B (is_bindings s) e) counted
      else if eventName e = ''IdentityBindingRevoked'' then
        bindR (applyIdentityBindingRevoked B (is_bindings s) e) counted
      else Inr s)"

definition rebuildIdentityProjections :: "bindings \<Rightarrow> chain_event list \<Rightarrow> identity_snapshot res" where
  "rebuildIdentityProjections B events =
     foldR (identity_step B) createEmptyIdentityProjectionSnapshot
       (filterActiveChainEvents events)"

text \<open>\<open>query.f ? normalize(query.f, name) : undefined\<close>.\<close>

definition normalized_filter ::
    "(string \<Rightarrow> string \<Rightarrow> string res) \<Rightarrow> string option \<Rightarrow> string \<Rightarrow> string option res" where
  "normalized_filter norm v fieldName =
     (if truthy v then bindR (norm (the v) fieldName) (\<lambda>w. Inr (Some w)) else Inr None)"

definition passes :: "string option \<Rightarrow> string \<Rightarrow> bool" where
  "passes wanted actual \<longleftrightarrow> \<not> truthy wanted \<or> wanted = Some actual"

definition filterIdentityBindings ::
    "bindings \<Rightarrow> identity_snapshot \<Rightarrow> identity_query \<Rightarrow> identity_binding list res" where
  "filterIdentityBindings B snap q =
     bindR (normalized_filter (normalizeAddress B) (iq_registryAddress q) ''registryAddress'')
       (\<lambda>registryAddress.
     bindR (normalized_filter (normalizeBytes32 B) (iq_bindingId q) ''bindingId'') (\<lambda>bindingId.
     bindR (normalized_filter (normalizeBytes32 B) (iq_subjectId q) ''subjectId'') (\<lambda>subjectId.
     bindR (normalized_filter (normalizeAddress B) (iq_account q) ''account'') (\<lambda>account.
       Inr (filter (\<lambda>b. passes registryAddress (ib_registryAddress b)
           \<and> passes bindingId (ib_bindingId b) \<and> passes subjectId (ib_subjectId b)
           \<and> passes account (ib_account b) \<and> (iq_activeOnly q \<longrightarrow> ib_status b = IdActive))
         (jvalues (is_bindings snap)))))))"

end
