(* ===== verification/Samples.thy ===== *)
theory Samples imports Evolution Identity begin

text \<open>
  Concrete events on which the theorems are applied: a state machine at \<open>a\<close>, an order with
  one hook, and the signal that completes the hook's task. The proofs of the two events are
  kept as constants, so that the states of the replay stay readable.
\<close>

definition sample_event :: "int \<Rightarrow> string \<Rightarrow> (string \<times> jsval) list \<Rightarrow> chain_event" where
  "sample_event n name as =
     \<lparr>chainId = 1, contractAddress = ''a'', blockNumber = n, transactionIndex = Some 0,
      transactionHash = ''t'', logIndex = 0, blockHash = None, eventName = name, args = as,
      removed = False\<rparr>"

definition ready_event :: chain_event where
  "ready_event = sample_event 1 ''HookReady''
     [(''orderId'', JStr ''o''), (''planId'', JStr ''p''), (''hookId'', JStr ''h''),
      (''stageId'', JStr ''s''), (''hookName'', JStr ''n'')]"

definition signal_event :: chain_event where
  "signal_event = sample_event 2 ''SignalSubmitted''
     [(''orderId'', JStr ''o''), (''planId'', JStr ''p''), (''sourceId'', JStr ''h''),
      (''signalId'', JStr ''g''), (''submitter'', JStr ''w''), (''payloadHash'', JStr ''d''),
      (''idempotencyKey'', JStr ''i'')]"

definition sample_stream :: "chain_event list" where
  "sample_stream = [ready_event, signal_event]"

definition sample_proof :: "chain_event \<Rightarrow> proof_metadata \<Rightarrow> proof_proj" where
  "sample_proof e md = projr (proofOf e md)"

lemma sample_proofOf:
  "proofOf ready_event md = Inr (sample_proof ready_event md)"
  "proofOf signal_event md = Inr (sample_proof signal_event md)"
  by (simp_all add: sample_proof_def proofOf_def normalizeProofArgs_def normalizeProofArg_def
    ready_event_def signal_event_def sample_event_def)

lemmas sample_event_defs = ready_event_def signal_event_def sample_event_def

lemma sample_fields [simp]:
  "chainId ready_event = 1" "contractAddress ready_event = ''a''" "eventName ready_event = ''HookReady''"
  "chainId signal_event = 1" "contractAddress signal_event = ''a''"
  "eventName signal_event = ''SignalSubmitted''" "\<not> removed ready_event" "\<not> removed signal_event"
  "transactionIndex ready_event = Some 0" "transactionIndex signal_event = Some 0"
  "transactionHash ready_event = ''t''" "transactionHash signal_event = ''t''"
  "blockNumber ready_event = 1" "blockNumber signal_event = 2"
  by (simp_all add: sample_event_defs)

lemma ready_args:
  "requiredBytes32Arg short_bindings ready_event ''orderId'' = Inr ''o''"
  "optionalBytes32Arg short_bindings ready_event ''planId'' = Inr (Some ''p'')"
  "requiredBytes32Arg short_bindings ready_event ''hookId'' = Inr ''h''"
  "requiredBytes32Arg short_bindings ready_event ''stageId'' = Inr ''s''"
  "requiredBytes32Arg short_bindings ready_event ''hookName'' = Inr ''n''"
  by code_simp+

lemma signal_args:
  "requiredBytes32Arg short_bindings signal_event ''orderId'' = Inr ''o''"
  "optionalBytes32Arg short_bindings signal_event ''planId'' = Inr (Some ''p'')"
  "requiredBytes32Arg short_bindings signal_event ''sourceId'' = Inr ''h''"
  "requiredBytes32Arg short_bindings signal_event ''signalId'' = Inr ''g''"
  "requiredAddressArg short_bindings signal_event ''submitter'' = Inr ''w''"
  "requiredBytes32Arg short_bindings signal_event ''payloadHash'' = Inr ''d''"
  "requiredBytes32Arg short_bindings signal_event ''idempotencyKey'' = Inr ''i''"
  by code_simp+

lemma sample_keys:
  "stateMachineOrderProjectionKey 1 ''a'' ''p'' ''o'' = ''1:a:p:o''"
  "taskProjectionId ''o'' ''h'' ''a'' = ''a:o:h''"
  "toLowerCase ''a'' = ''a''" "toLowerCase ''s'' = ''s''" "toLowerCase ''o'' = ''o''"
  "signalProjectionKey ''h'' ''g'' = ''h:g''"
  "''p'' \<noteq> ZERO_BYTES32"
  by code_simp+

lemma sample_ensure:
  "ensureStateMachineOrder [] ready_event ''o'' (Some ''p'') None None =
     Inr (''1:a:p:o'', newOrder ready_event ''o'' (Some ''p'') None ''a'',
       [(''1:a:p:o'', newOrder ready_event ''o'' (Some ''p'') None ''a'')])"
  by (simp add: ensureStateMachineOrder_def findOrderBucket_def orderCandidates_def sample_keys
    Let_def)

text \<open>The order after its hook is ready: one task, waiting for its signal.\<close>

definition sample_metadata :: proof_metadata where
  "sample_metadata = \<lparr>md_orderId = Some ''o'', md_planId = Some ''p'', md_planHash = None,
     md_submitter = None\<rparr>"

definition sample_task :: task_proj where
  "sample_task =
     \<lparr>tk_taskId = ''a:o:h'', tk_orderId = ''o'', tk_stateMachineAddress = ''a'',
      tk_planId = Some ''p'', tk_deploymentId = None, tk_hookId = ''h'',
      tk_stageIdentifier = ''s'', tk_hookName = ''n'', tk_assigneeRole = RoleUnknown,
      tk_assigneeWallet = None, tk_assigneeRoleHash = None, tk_authorizationMetadataHash = None,
      tk_status = TaskReady, tk_submitSignals = None,
      tk_createdAt = provenanceOf ready_event, tk_updatedAt = provenanceOf ready_event,
      tk_proof = sample_proof ready_event sample_metadata\<rparr>"

definition sample_hook :: hook_proj where
  "sample_hook =
     \<lparr>hk_orderId = ''o'', hk_hookId = ''h'', hk_stageIdentifier = Some ''s'',
      hk_hookName = Some ''n'', hk_status = HookReadyStatus, hk_dueAt = None,
      hk_updatedAt = provenanceOf ready_event, hk_readyAt = Some (provenanceOf ready_event),
      hk_proof = sample_proof ready_event sample_metadata\<rparr>"

definition ready_order :: order_proj where
  "ready_order = (newOrder ready_event ''o'' (Some ''p'') None ''a'')
     \<lparr>or_currentStage := Some ''s'', or_hooks := [(''h'', sample_hook)],
      or_tasks := [(''a:o:h'', sample_task)],
      or_timeline := [timelineOf TextTaskCreated (sample_proof ready_event sample_metadata)
        sample_metadata],
      or_proof := [sample_proof ready_event sample_metadata]\<rparr>"

definition after_ready :: replay_state where
  "after_ready = start_state\<lparr>st_orders := [(''1:a:p:o'', ready_order)]\<rparr>"

lemma apply_ready:
  "applyHookReady short_bindings start_state ready_event = Inr after_ready"
  by (simp add: applyHookReady_def ready_args sample_proofOf start_state_def touchOrder_def
    with_orders_def sample_ensure readyInOrder_def withReadyHook_def withReadyTask_def
    readyTask_def newOrder_def findPlanForOrder_def findActiveStageOverlayForHook_def
    findSignalAuthorizationForHook_def planSubmitSignalsForStage_def
    refreshTaskSubmitSignals_def collectTaskSubmitSignals_def ensureStateMachineHook_def
    markTaskSubmittedFromExistingSignals_def matchingSignalProofs_def sample_keys
    recordEvent_def appendOrderProof_def appendOrderTimeline_def full_metadata_def
    order_metadata_def after_ready_def ready_order_def sample_hook_def sample_task_def
    sample_metadata_def)

lemma step_ready:
  "replay_step short_bindings replay_start ready_event =
     Inr (replay_start\<lparr>rl_state := after_ready, rl_eventCount := 1,
       rl_lastEvent := Some (provenanceOf ready_event)\<rparr>)"
  by (simp add: replay_step_def replay_start_def applyDeploymentRegistryEvent_def
    applyStateMachineEvent_def apply_ready)

lemma signal_ensure:
  "ensureStateMachineOrder (st_orders after_ready) signal_event ''o'' (Some ''p'') None None =
     Inr (''1:a:p:o'', ready_order\<lparr>or_updatedAt := provenanceOf signal_event\<rparr>,
       [(''1:a:p:o'', ready_order\<lparr>or_updatedAt := provenanceOf signal_event\<rparr>)])"
  by (simp add: ensureStateMachineOrder_def findOrderBucket_def orderCandidates_def sample_keys
    Let_def after_ready_def ready_order_def newOrder_def)

lemma ready_order_fields [simp]:
  "or_planId ready_order = ''p''" "or_planHash ready_order = None" "or_signals ready_order = []"
  "or_tasks ready_order = [(''a:o:h'', sample_task)]"
  "or_status ready_order = OrderRegisteredStatus" "or_orderId ready_order = ''o''"
  "or_timeline ready_order =
     [timelineOf TextTaskCreated (sample_proof ready_event sample_metadata) sample_metadata]"
  "or_proof ready_order = [sample_proof ready_event sample_metadata]"
  by (simp_all add: ready_order_def newOrder_def)

text \<open>The order after the signal: the task is submitted, with the proof of the signal.\<close>

definition submit_metadata :: proof_metadata where
  "submit_metadata = sample_metadata\<lparr>md_submitter := Some ''w''\<rparr>"

definition submit_proof :: proof_proj where
  "submit_proof = sample_proof signal_event submit_metadata"

definition sample_signal :: signal_proj where
  "sample_signal =
     \<lparr>sig_orderId = ''o'', sig_sourceId = ''h'', sig_signalId = ''g'', sig_payloadHash = ''d'',
      sig_idempotencyKey = ''i'', sig_submitter = ''w'',
      sig_submittedAt = provenanceOf signal_event, sig_proof = submit_proof\<rparr>"

definition signalled_order :: order_proj where
  "signalled_order = ready_order
     \<lparr>or_signals := [(''h:g'', sample_signal)], or_status := OrderRegisteredStatus,
      or_updatedAt := provenanceOf signal_event,
      or_tasks := [(''a:o:h'', sample_task\<lparr>tk_status := TaskSubmitted,
        tk_updatedAt := provenanceOf submit_proof, tk_proof := submit_proof\<rparr>)],
      or_proof := or_proof ready_order @ [submit_proof],
      or_timeline := or_timeline ready_order
        @ [timelineOf TextSignalWritten submit_proof sample_metadata]\<rparr>"

definition after_signal :: replay_state where
  "after_signal = start_state\<lparr>st_orders := [(''1:a:p:o'', signalled_order)]\<rparr>"

lemma signal_marks:
  "taskMatchesSubmittedSignal sample_task ''h'' ''g''"
  "markTaskSubmitted p sample_task =
     sample_task\<lparr>tk_status := TaskSubmitted, tk_updatedAt := provenanceOf p, tk_proof := p\<rparr>"
  by (simp_all add: sample_task_def taskMatchesSubmittedSignal_def markTaskSubmitted_def)

lemma sample_event_ids:
  "pf_eventId (sample_proof ready_event md) \<noteq> pf_eventId (sample_proof signal_event md')"
  "tl_timelineId (timelineOf TextTaskCreated (sample_proof ready_event md) m) \<noteq>
   tl_timelineId (timelineOf TextSignalWritten (sample_proof signal_event md') m')"
  by code_simp+

lemma apply_signal:
  "applySignalSubmitted short_bindings after_ready signal_event = Inr after_signal"
proof -
  have md: "full_metadata ''o'' (ready_order\<lparr>or_updatedAt := provenanceOf signal_event\<rparr>) (Some ''w'')
      = submit_metadata"
    by (simp add: full_metadata_def submit_metadata_def sample_metadata_def)
  have om: "order_metadata ''o'' ''p'' = sample_metadata"
    by (simp add: order_metadata_def sample_metadata_def)
  have "applySignalSubmitted short_bindings after_ready signal_event =
      with_orders after_ready (Inr [(''1:a:p:o'', signalled_order)])"
    by (simp add: applySignalSubmitted_def signal_args touchOrder_def signal_ensure md
      sample_proofOf sample_keys om recordEvent_def markMatchingTasksSubmitted_def
      signal_marks appendOrderProof_def appendOrderTimeline_def
      signalled_order_def sample_signal_def submit_proof_def sample_event_ids Let_def
      jupdate_values_def)
  then show ?thesis by (simp add: with_orders_def after_signal_def after_ready_def)
qed

lemma sample_actives: "filterActiveChainEvents sample_stream = sample_stream"
  by code_simp

lemma sample_wf: "wf_stream sample_stream"
  by code_simp

lemma sample_replay:
  "replay_events short_bindings sample_stream =
     Inr \<lparr>rl_activeDeploymentId = None, rl_state = after_signal, rl_eventCount = 2,
       rl_lastEvent = Some (provenanceOf signal_event)\<rparr>"
proof -
  have "replay_step short_bindings (replay_start\<lparr>rl_state := after_ready, rl_eventCount := 1,
      rl_lastEvent := Some (provenanceOf ready_event)\<rparr>) signal_event =
    Inr \<lparr>rl_activeDeploymentId = None, rl_state = after_signal, rl_eventCount = 2,
       rl_lastEvent = Some (provenanceOf signal_event)\<rparr>"
    by (simp add: replay_step_def replay_start_def applyDeploymentRegistryEvent_def
      applyStateMachineEvent_def apply_signal)
  then show ?thesis by (simp add: replay_events_def sample_stream_def step_ready)
qed

definition sample_snapshot :: snapshot where
  "sample_snapshot = snapshotOf \<lparr>rl_activeDeploymentId = None, rl_state = after_signal,
     rl_eventCount = 2, rl_lastEvent = Some (provenanceOf signal_event)\<rparr>"

lemma sample_rebuild: "rebuildOrderProjections short_bindings sample_stream = Inr sample_snapshot"
  by (simp add: rebuildOrderProjections_def sample_actives sample_replay sample_snapshot_def)

end
