(* ===== verification/Streams.thy ===== *)
theory Streams imports Samples begin

text \<open>
  What holds of the delivered stream as a whole: the replay sees it through the last delivery
  of each log position only. The properties of event keys, ordering, tombstones, redelivery
  and reorganisations, and of the anomaly counters.
\<close>

section \<open>Rewriting a stream\<close>

lemma active_at_append:
  "active_at k (xs @ ys) = (if last_delivery k ys = None then active_at k xs else active_at k ys)"
  by (auto simp: active_at_def last_delivery_append split: option.split)

lemma wf_stream_append1: "wf_stream (xs @ ys) \<Longrightarrow> wf_stream xs"
  by (rule wf_stream_subset) auto

lemma rebuild_cong:
  "filterActiveChainEvents xs = filterActiveChainEvents ys \<Longrightarrow>
   rebuildOrderProjections B xs = rebuildOrderProjections B ys
   \<and> rebuildIdentityProjections B xs = rebuildIdentityProjections B ys"
  by (simp add: rebuildOrderProjections_def rebuildIdentityProjections_def)

text \<open>A tombstone: the same log, delivered as removed.\<close>

definition tombstone :: "chain_event \<Rightarrow> chain_event" where
  "tombstone e = e\<lparr>removed := True\<rparr>"

lemma tombstone_simps [simp]:
  "chainEventKey (tombstone e) = chainEventKey e" "wf_event (tombstone e) = wf_event e"
  "transactionIndex (tombstone e) = transactionIndex e" "removed (tombstone e)"
  by (simp_all add: tombstone_def chainEventKey_def wf_event_def indexed_def)

lemma wf_stream_images:
  assumes "wf_stream es"
    and "\<And>d. d \<in> set ds \<Longrightarrow> \<exists>e \<in> set es. chainEventKey d = chainEventKey e
      \<and> transactionIndex d = transactionIndex e \<and> wf_event d = wf_event e"
  shows "wf_stream ds"
proof -
  have wf: "wf_event d" if "d \<in> set ds" for d
    using assms(2) [OF that] wf_stream_event [OF assms(1)] by blast
  have "transactionIndex c = transactionIndex d"
    if c: "c \<in> set ds" and d: "d \<in> set ds" and k: "chainEventKey c = chainEventKey d" for c d
  proof -
    obtain c' d' where in': "c' \<in> set es" "d' \<in> set es"
      and eqs: "chainEventKey c = chainEventKey c'" "transactionIndex c = transactionIndex c'"
      "chainEventKey d = chainEventKey d'" "transactionIndex d = transactionIndex d'"
      using assms(2) [OF c] assms(2) [OF d] by blast
    then have "chainEventKey c' = chainEventKey d'" using k by simp
    with in' have "transactionIndex c' = transactionIndex d'"
      using assms(1) unfolding wf_stream_def same_position_index_def by blast
    with eqs show ?thesis by simp
  qed
  then have "same_position_index ds" unfolding same_position_index_def by blast
  moreover have "list_all wf_event ds" using wf by (simp add: list_all_iff)
  ultimately show ?thesis by (simp add: wf_stream_def)
qed

lemma wf_stream_tombstones:
  "wf_stream es \<Longrightarrow> set ds \<subseteq> set es \<Longrightarrow> wf_stream (es @ map tombstone ds)"
  by (erule wf_stream_images) auto

lemma last_delivery_tombstones:
  "last_delivery k (map tombstone ds) = map_option tombstone (last_delivery k ds)"
  by (induction ds rule: rev_induct) (simp_all add: last_delivery_snoc)

lemma active_at_tombstones [simp]: "active_at k (map tombstone ds) = None"
  by (simp add: active_at_def last_delivery_tombstones split: option.split)

lemma event_keys_differ: "chainEventKey signal_event \<noteq> chainEventKey ready_event"
  by code_simp

section \<open>Keys and order\<close>

text \<open>
  on well-formed events the event key names the log position: two events have one key
  exactly when they agree on chain, contract, block, transaction and log index.
\<close>
theorem event_key_names_position:
  assumes "wf_event d" and "wf_event e"
  shows "chainEventKey d = chainEventKey e \<longleftrightarrow>
    chainId d = chainId e \<and> contractAddress d = contractAddress e
    \<and> blockNumber d = blockNumber e \<and> transactionHash d = transactionHash e
    \<and> logIndex d = logIndex e"
  using assms by (rule chainEventKey_inj)

lemma sample_events_wf: "wf_event ready_event" "wf_event signal_event"
  by code_simp+

theorem event_key_names_position_witness:
  "chainEventKey ready_event \<noteq> chainEventKey signal_event"
  using event_key_names_position [OF sample_events_wf] by simp

text \<open>
  C7: the active events are the undisputed reduction of the stream: an event is active exactly
  when it is the last delivery of its log position and not a tombstone; no position occurs
  twice; and the list is in chain order.
\<close>
theorem active_events_spec:
  assumes "wf_stream es"
  shows "set (filterActiveChainEvents es)
      = {e. last_delivery (chainEventKey e) es = Some e \<and> \<not> removed e}
    \<and> distinct (map chainEventKey (filterActiveChainEvents es))
    \<and> sorted_wrt (\<lambda>d e. compareChainEvents d e \<le> 0) (filterActiveChainEvents es)"
  using set_filterActive [OF assms] distinct_filterActive sorted_filterActive [OF assms]
  by (auto simp: active_at_def split: option.splits if_splits)

text \<open>A stream that exercises the pass: a tombstone, a redelivery and events out of order.\<close>

definition messy_stream :: "chain_event list" where
  "messy_stream = [signal_event, ready_event, tombstone signal_event, ready_event]"

lemma messy_wf: "wf_stream messy_stream"
  by code_simp

theorem active_events_spec_witness:
  "ready_event \<in> set (filterActiveChainEvents messy_stream)
   \<and> signal_event \<notin> set (filterActiveChainEvents messy_stream)"
proof -
  have "last_delivery (chainEventKey ready_event) messy_stream = Some ready_event"
    "last_delivery (chainEventKey signal_event) messy_stream = Some (tombstone signal_event)"
    by code_simp+
  then have "last_delivery (chainEventKey signal_event) messy_stream \<noteq> Some signal_event"
    by (metis option.inject sample_fields(8) tombstone_simps(4))
  then show ?thesis
    using active_events_spec [OF messy_wf]
      \<open>last_delivery (chainEventKey ready_event) messy_stream = Some ready_event\<close> by simp
qed

section \<open>Redelivery, reordering, reorganisation\<close>

text \<open>
  C6: replays depend on the stream through the active delivery of each log position only: two
  streams that agree on it, in whatever order and however often they deliver, give the same
  order snapshot and the same identity snapshot (or fail with the same error).
\<close>
theorem replay_determined_by_last_deliveries:
  assumes "wf_stream xs" and "wf_stream ys"
    and "\<And>k. active_at k xs = active_at k ys"
  shows "rebuildOrderProjections B xs = rebuildOrderProjections B ys
    \<and> rebuildIdentityProjections B xs = rebuildIdentityProjections B ys"
  using rebuild_cong [OF active_events_determined [OF assms]] .

lemma sample_active_at:
  "active_at k [signal_event, ready_event, ready_event] = active_at k sample_stream"
proof -
  have "chainEventKey signal_event \<noteq> chainEventKey ready_event"
    using event_keys_differ .
  then show ?thesis
    by (auto simp: active_at_def last_delivery_def deliveries_def sample_stream_def)
qed

theorem replay_determined_by_last_deliveries_witness:
  "rebuildOrderProjections short_bindings [signal_event, ready_event, ready_event]
     = Inr sample_snapshot"
proof -
  have "wf_stream [signal_event, ready_event, ready_event]" by code_simp
  from replay_determined_by_last_deliveries [OF this sample_wf sample_active_at]
  show ?thesis by (simp add: sample_rebuild)
qed

text \<open>
  C14: a reorganisation leaves no trace: delivering the logs of a fork, then their tombstones in
  any order and any number of times, then the logs of the winning branch gives the snapshot of
  a stream in which the fork never happened, provided the fork's positions are not among the
  earlier ones.
\<close>
theorem reorganisation_leaves_no_trace:
  assumes "wf_stream (es @ fork @ branch)" and "set dead = set fork"
    and "\<forall>e \<in> set es. chainEventKey e \<notin> chainEventKey ` set fork"
  shows "rebuildOrderProjections B (es @ fork @ map tombstone dead @ branch)
    = rebuildOrderProjections B (es @ branch)"
proof -
  have "active_at k (es @ fork @ map tombstone dead @ branch) = active_at k (es @ branch)" for k
  proof (cases "k \<in> chainEventKey ` set fork")
    case True
    then have "last_delivery k (map tombstone dead) \<noteq> None"
      using assms(2) by (auto simp: last_delivery_None)
    moreover have "last_delivery k es = None" using True assms(3) by (auto simp: last_delivery_None)
    ultimately show ?thesis
      by (auto simp: active_at_append active_at_def last_delivery_append last_delivery_tombstones
        split: option.splits)
  next
    case False
    then have "last_delivery k fork = None" "last_delivery k (map tombstone dead) = None"
      using assms(2) by (auto simp: last_delivery_None)
    then show ?thesis
      by (cases "last_delivery k branch") (simp_all add: active_at_def last_delivery_append)
  qed
  moreover have "wf_stream (es @ fork @ map tombstone dead @ branch)"
    by (rule wf_stream_images [OF assms(1)]) (use assms(2) in auto)
  moreover have "wf_stream (es @ branch)" by (rule wf_stream_subset [OF assms(1)]) auto
  ultimately show ?thesis using rebuild_cong [OF active_events_determined] by blast
qed

text \<open>A competing signal, in the block after the one that wins.\<close>

definition fork_event :: chain_event where
  "fork_event = signal_event\<lparr>blockNumber := 3\<rparr>"

theorem reorganisation_leaves_no_trace_witness:
  "rebuildOrderProjections short_bindings
     ([ready_event] @ [fork_event] @ map tombstone [fork_event, fork_event] @ [signal_event])
   = Inr sample_snapshot"
proof -
  have "wf_stream ([ready_event] @ [fork_event] @ [signal_event])"
    "chainEventKey ready_event \<noteq> chainEventKey fork_event" by code_simp+
  then show ?thesis
    using reorganisation_leaves_no_trace
      [of "[ready_event]" "[fork_event]" "[signal_event]" "[fork_event, fork_event]" short_bindings]
    by (simp add: sample_rebuild [unfolded sample_stream_def])
qed

text \<open>
  The tombstone wins over the log that reappears when the log moved to a lower transaction
  index of the same block: the pass sorts by the index before it applies the tombstones, and
  the key does not contain it. The stream is the one the comment on resurrection describes.
\<close>

definition moved_event :: chain_event where
  "moved_event = ready_event\<lparr>transactionIndex := Some 1\<rparr>"

theorem reappeared_log_lost:
  "chainEventKey moved_event = chainEventKey ready_event
   \<and> filterActiveChainEvents [moved_event, tombstone moved_event, ready_event] = []"
  by code_simp

section \<open>The summary's counters\<close>

lemma summary_simps:
  "activeEvents (buildActiveChainEventReplaySummary es) = filterActiveChainEvents es"
  "activeEventCount (buildActiveChainEventReplaySummary es) = length (filterActiveChainEvents es)"
  "removedEventCount (buildActiveChainEventReplaySummary es) = length (filter removed es)"
  "removedLogsFiltered (buildActiveChainEventReplaySummary es) =
     (removedEventIds (scan_events es) \<noteq> [])"
proof -
  have "length (filter removed (sortChainEvents es)) = length (filter removed es)"
    by (metis mset_filter mset_js_sort size_mset sortChainEvents_def)
  then show "removedEventCount (buildActiveChainEventReplaySummary es) = length (filter removed es)"
    by (simp add: buildActiveChainEventReplaySummary_def Let_def scan_events_def scan_removedCount)
qed (simp_all add: buildActiveChainEventReplaySummary_def Let_def filterActiveChainEvents_def)

text \<open>
  The counters of the summary: the active events are counted, every tombstone delivery is
  counted, and \<open>removedLogsFiltered\<close> holds exactly when some log position was last delivered
  as a tombstone - also when its log was never delivered before.
\<close>
theorem replay_summary_counters:
  assumes "wf_stream es"
  shows "activeEventCount (buildActiveChainEventReplaySummary es)
      = length (activeEvents (buildActiveChainEventReplaySummary es))
    \<and> removedEventCount (buildActiveChainEventReplaySummary es) = length (filter removed es)
    \<and> (removedLogsFiltered (buildActiveChainEventReplaySummary es)
        \<longleftrightarrow> (\<exists>e \<in> set es. removed e \<and> last_delivery (chainEventKey e) es = Some e))"
proof -
  have "removedEventIds (scan_events es) \<noteq> [] \<longleftrightarrow> (\<exists>k. k \<in> set (removedEventIds (scan_events es)))"
    by (cases "removedEventIds (scan_events es)") auto
  also have "\<dots> \<longleftrightarrow> (\<exists>k e. last_delivery k es = Some e \<and> removed e)"
    unfolding scan_events_def using scan_fold last_delivery_sorted [OF assms] by metis
  also have "\<dots> \<longleftrightarrow> (\<exists>e \<in> set es. removed e \<and> last_delivery (chainEventKey e) es = Some e)"
    using last_delivery_Some by metis
  finally show ?thesis by (simp add: summary_simps)
qed

theorem replay_summary_counters_witness:
  "removedLogsFiltered (buildActiveChainEventReplaySummary [tombstone ready_event])
   \<and> activeEvents (buildActiveChainEventReplaySummary [tombstone ready_event]) = []"
proof -
  have "wf_stream [tombstone ready_event]" "filterActiveChainEvents [tombstone ready_event] = []"
    by code_simp+
  then show ?thesis
    using replay_summary_counters [of "[tombstone ready_event]"]
    by (simp add: summary_simps last_delivery_def deliveries_def)
qed

text \<open>
  So the metric is true although the active set lost nothing: the tombstone's log never was
  active.
\<close>
theorem filtered_without_loss:
  "removedLogsFiltered (buildActiveChainEventReplaySummary (ready_event # [tombstone signal_event]))
   \<and> filterActiveChainEvents (ready_event # [tombstone signal_event])
     = filterActiveChainEvents [ready_event]"
  by code_simp

section \<open>Catching up\<close>

lemma later_events_append:
  assumes wf: "wf_stream (es @ ds)"
    and later: "\<forall>e \<in> set es. \<forall>d \<in> set ds. compareChainEvents e d < 0"
  shows "filterActiveChainEvents (es @ ds) = filterActiveChainEvents es @ filterActiveChainEvents ds"
proof (rule event_order.sorted_unique)
  have wes: "wf_stream es" and wds: "wf_stream ds"
    by (rule wf_stream_subset [OF wf]; simp)+
  have apart: "chainEventKey e \<noteq> chainEventKey d" if "e \<in> set es" "d \<in> set ds" for e d
    using same_key_compare_0 [OF wf, of e d] later that by fastforce
  have act: "active_at k (es @ ds) = (case last_delivery k ds of None \<Rightarrow> active_at k es
      | Some _ \<Rightarrow> active_at k ds)" for k
    by (auto simp: active_at_append split: option.split)
  have keys: "last_delivery (chainEventKey e) ds = None" if "e \<in> set es" for e
    using apart [OF that] by (force simp: last_delivery_None)
  have keys': "last_delivery (chainEventKey d) ds \<noteq> None" if "d \<in> set ds" for d
    using that by (auto simp: last_delivery_None)
  have none: "active_at k ds \<noteq> Some e" if "last_delivery k ds = None" for k e
    using that by (simp add: active_at_def)
  have "set (filterActiveChainEvents (es @ ds)) =
      set (filterActiveChainEvents es) \<union> set (filterActiveChainEvents ds)"
    unfolding set_filterActive [OF wf] set_filterActive [OF wes] set_filterActive [OF wds]
    using keys keys' none by (auto simp: act split: option.splits dest: active_at_Some)
  moreover have "set (filterActiveChainEvents es) \<inter> set (filterActiveChainEvents ds) = {}"
    using set_filterActive_subset [of es] set_filterActive_subset [of ds] apart by blast
  moreover have "distinct (filterActiveChainEvents xs)" for xs
    using distinct_filterActive distinct_map by blast
  ultimately show "mset (filterActiveChainEvents (es @ ds)) =
      mset (filterActiveChainEvents es @ filterActiveChainEvents ds)"
    by (intro iffD1 [OF set_eq_iff_mset_eq_distinct]) auto
  show "sorted_wrt (\<lambda>x y. compareChainEvents x y \<le> 0) (filterActiveChainEvents (es @ ds))"
    by (rule sorted_filterActive [OF wf])
  have "compareChainEvents e d \<le> 0"
    if "e \<in> set (filterActiveChainEvents es)" "d \<in> set (filterActiveChainEvents ds)" for e d
    using that set_filterActive_subset [of es] set_filterActive_subset [of ds] later by fastforce
  then show "sorted_wrt (\<lambda>x y. compareChainEvents x y \<le> 0)
      (filterActiveChainEvents es @ filterActiveChainEvents ds)"
    by (simp add: sorted_wrt_append sorted_filterActive [OF wes] sorted_filterActive [OF wds])
  show "\<forall>e \<in> set (filterActiveChainEvents (es @ ds)). indexed e"
    using set_filterActive_subset wf_stream_indexed [OF wf] by blast
  show "x = y" if "x \<in> set (filterActiveChainEvents (es @ ds))"
    "y \<in> set (filterActiveChainEvents (es @ ds))" "compareChainEvents x y = 0" for x y
  proof -
    have "chainEventKey x = chainEventKey y"
      using compareChainEvents_0_key that(3) set_filterActive_subset wf_stream_indexed [OF wf] that(1,2)
      by blast
    then show ?thesis using that(1,2) unfolding set_filterActive [OF wf] by simp
  qed
qed

text \<open>
  Catching up: when a batch of events comes after everything delivered before, the replay of
  the whole stream is the replay of the old stream continued with the active events of the
  batch; nothing before the batch is replayed differently.
\<close>
theorem later_batches_continue_the_replay:
  assumes "wf_stream (es @ ds)"
    and "\<forall>e \<in> set es. \<forall>d \<in> set ds. compareChainEvents e d < 0"
  shows "rebuildOrderProjections B (es @ ds) =
    bindR (replay_events B (filterActiveChainEvents es)) (\<lambda>r.
    bindR (foldR (replay_step B) r (filterActiveChainEvents ds)) (\<lambda>r'. Inr (snapshotOf r')))"
  unfolding rebuildOrderProjections_def later_events_append [OF assms] replay_events_def foldR_append
  by (cases "foldR (replay_step B) replay_start (filterActiveChainEvents es)") simp_all

theorem later_batches_continue_the_replay_witness:
  "bindR (replay_events short_bindings (filterActiveChainEvents [ready_event])) (\<lambda>r.
     bindR (foldR (replay_step short_bindings) r (filterActiveChainEvents [signal_event]))
       (\<lambda>r'. Inr (snapshotOf r'))) = Inr sample_snapshot"
proof -
  have "compareChainEvents ready_event signal_event < 0" by code_simp
  then show ?thesis
    using later_batches_continue_the_replay [of "[ready_event]" "[signal_event]" short_bindings]
      sample_wf sample_rebuild by (simp add: sample_stream_def)
qed

section \<open>Anomalies\<close>

lemma count_duplicates_0:
  "count_duplicates seen es = 0 \<longleftrightarrow>
     distinct (map chainEventKey (filter (\<lambda>e. \<not> removed e) es))
     \<and> chainEventKey ` {e \<in> set es. \<not> removed e} \<inter> seen = {}"
proof (induction es arbitrary: seen)
  case (Cons e es)
  have "{d \<in> set (e # es). \<not> removed d} =
      (if removed e then {} else {e}) \<union> {d \<in> set es. \<not> removed d}" by auto
  with Cons show ?case by auto
qed simp

text \<open>
  A stream has no replay anomalies exactly when it delivers no event twice and replays
  without an error.
\<close>
theorem no_anomalies_iff:
  "countReplayAnomalies B es = 0 \<longleftrightarrow>
     distinct (map chainEventKey (filter (\<lambda>e. \<not> removed e) es))
     \<and> (\<exists>snap. rebuildOrderProjections B es = Inr snap)"
  by (cases "rebuildOrderProjections B es")
    (auto simp: countReplayAnomalies_def countDuplicateActiveEventAnomalies_def count_duplicates_0)

section \<open>Positions without an index\<close>

text \<open>
  Mixing events with and without a transaction index, the comparison of positions is not
  transitive: three events of one block can be in a cycle, so their order is not determined.
\<close>

definition at_position :: "int option \<Rightarrow> int \<Rightarrow> chain_event" where
  "at_position i n = ready_event\<lparr>transactionIndex := i, logIndex := n\<rparr>"

theorem positions_can_cycle:
  "compareChainPointers (at_position (Some 1) 5) (at_position (Some 2) 1) < 0
   \<and> compareChainPointers (at_position (Some 2) 1) (at_position None 3) < 0
   \<and> compareChainPointers (at_position None 3) (at_position (Some 1) 5) < 0"
  by code_simp

end
