(* ===== verification/Snapshots.thy ===== *)
theory Snapshots imports Streams begin

text \<open>
  What the snapshot of a replay promises to its readers: tasks are complete and justified by
  the signals of the stream, orders and tasks are named by their keys, proof and timeline
  lists are an ordered trail of the stream. All statements are about a well-formed stream
  that replays without an error.
\<close>

section \<open>From the snapshot to the replay\<close>

definition rebuilt :: "bindings \<Rightarrow> chain_event list \<Rightarrow> snapshot \<Rightarrow> bool" where
  "rebuilt B es snap \<longleftrightarrow>
     bindings_ok B \<and> wf_stream es \<and> rebuildOrderProjections B es = Inr snap"

abbreviation actives :: "chain_event list \<Rightarrow> chain_event set" where
  "actives es \<equiv> set (filterActiveChainEvents es)"

lemma rebuilt_stream_ok: "rebuilt B es snap \<Longrightarrow> stream_ok B (filterActiveChainEvents es)"
  using wf_stream_ok wf_stream_filterActive unfolding rebuilt_def by blast

lemma rebuilt_replay:
  assumes "rebuilt B es snap"
  obtains r where "replay_events B (filterActiveChainEvents es) = Inr r" "snap = snapshotOf r"
    "state_ok (actives es) (rl_state r)"
  using assms replay_state_ok [OF _ rebuilt_stream_ok [OF assms]]
  by (auto simp: rebuilt_def rebuildOrderProjections_def bindR_Inr_iff)

lemma snapshotOf_orders: "sn_stateMachineOrders (snapshotOf r) =
    jupdate_values readonlyOrder (st_orders (rl_state r))"
  by (simp add: snapshotOf_def Let_def)

lemma rebuilt_tasks_ok:
  assumes "rebuilt B es snap" and "(k, x) \<in> set (sn_stateMachineOrders snap)"
  shows "tasks_ok B (actives es) x"
proof -
  obtain r y where r: "replay_events B (filterActiveChainEvents es) = Inr r"
    and y: "(k, y) \<in> set (st_orders (rl_state r))" and x: "x = readonlyOrder y"
    using assms(1) by (auto simp: rebuilt_def elim: snapshot_order [OF _ assms(2)])
  have "tasks_ok B (actives es) y"
    using order_tasks.replay_kept [OF r rebuilt_stream_ok [OF assms(1)] refl] y by force
  then show ?thesis unfolding x by (rule tasks_ok_head) simp_all
qed

lemma rebuilt_indexed: "rebuilt B es snap \<Longrightarrow> \<forall>e \<in> actives es. indexed e"
  unfolding rebuilt_def using set_filterActive_subset wf_stream_indexed by blast

lemma sample_rebuilt: "rebuilt short_bindings sample_stream sample_snapshot"
  by (simp add: rebuilt_def short_bindings_ok sample_wf sample_rebuild)

lemma sample_order: "(''1:a:p:o'', readonlyOrder signalled_order) \<in> set (sn_stateMachineOrders sample_snapshot)"
  by (simp add: sample_snapshot_def snapshotOf_def Let_def after_signal_def jupdate_values_def)

section \<open>Tasks\<close>

text \<open>
  C1: tasks are complete: in the snapshot of every replay, whatever the order in which signals,
  authorizations, plan vocabularies, patches and hooks reached the chain, a task that a
  recorded signal of its order matches is submitted, with a proof that is not later than that
  signal's, unless its hook was cancelled. No matched task is left ready.
\<close>
theorem matched_tasks_are_settled:
  assumes "rebuilt B es snap" and "(k, x) \<in> set (sn_stateMachineOrders snap)"
    and "t \<in> set (jvalues (or_tasks x))" and "s \<in> set (jvalues (or_signals x))"
    and "taskMatchesSubmittedSignal t (sig_sourceId s) (sig_signalId s)"
  shows "tk_status t = TaskCancelled
    \<or> tk_status t = TaskSubmitted \<and> compareProofEvents (tk_proof t) (sig_proof s) \<le> 0"
proof -
  have "settled (actives es) x t"
    using rebuilt_tasks_ok [OF assms(1,2)] assms(3) by (auto simp: tasks_ok_def task_ok_def)
  then show ?thesis
    using rebuilt_indexed [OF assms(1)] assms(4,5) unfolding settled_def settled_by_def by blast
qed

definition submitted_task :: task_proj where
  "submitted_task = sample_task\<lparr>tk_status := TaskSubmitted,
     tk_updatedAt := provenanceOf submit_proof, tk_proof := submit_proof\<rparr>"

lemma sample_members:
  "submitted_task \<in> set (jvalues (or_tasks (readonlyOrder signalled_order)))"
  "sample_signal \<in> set (jvalues (or_signals (readonlyOrder signalled_order)))"
  "taskMatchesSubmittedSignal submitted_task (sig_sourceId sample_signal) (sig_signalId sample_signal)"
  by (simp_all add: signalled_order_def submitted_task_def sample_signal_def sample_task_def
    taskMatchesSubmittedSignal_def)

theorem matched_tasks_are_settled_witness:
  "tk_status submitted_task = TaskCancelled
   \<or> tk_status submitted_task = TaskSubmitted
     \<and> compareProofEvents (tk_proof submitted_task) (sig_proof sample_signal) \<le> 0"
  by (rule matched_tasks_are_settled [OF sample_rebuilt sample_order sample_members])

text \<open>
  C2: tasks are justified: a submitted task carries the proof of an active \<open>SignalSubmitted\<close>
  event of its own order, a cancelled task that of an active \<open>HookStatusChanged\<close> event; no task
  has another status than ready, submitted or cancelled; and every task belongs to the order
  and state machine it is listed under, at the key made of its own identifiers.
\<close>
theorem tasks_are_justified:
  assumes "rebuilt B es snap" and "(k, x) \<in> set (sn_stateMachineOrders snap)"
    and "(tid, t) \<in> set (or_tasks x)"
  shows "tk_orderId t = or_orderId x \<and> tk_stateMachineAddress t = or_contractAddress x
    \<and> tid = taskProjectionId (or_orderId x) (tk_hookId t) (or_contractAddress x)
    \<and> (case tk_status t of
         TaskReady \<Rightarrow> True
       | TaskSubmitted \<Rightarrow> \<exists>d \<in> actives es. \<exists>s. signal_of B d s
           \<and> sig_orderId s = or_orderId x \<and> tk_proof t = sig_proof s
       | TaskCancelled \<Rightarrow> \<exists>d \<in> actives es. eventName d = ''HookStatusChanged''
           \<and> proof_of d (tk_proof t)
       | TaskUnknown \<Rightarrow> False)"
proof -
  have "tid = tk_taskId t \<and> task_justified B (actives es) x t"
    using rebuilt_tasks_ok [OF assms(1,2)] assms(3) by (auto simp: tasks_ok_def task_ok_def)
  then show ?thesis by (simp add: task_justified_def status_from_def)
qed

theorem tasks_are_justified_witness:
  "\<exists>d \<in> actives sample_stream. \<exists>s. signal_of short_bindings d s \<and> sig_orderId s = ''o''
     \<and> submit_proof = sig_proof s"
proof -
  have "(''a:o:h'', submitted_task) \<in> set (or_tasks (readonlyOrder signalled_order))"
    "tk_status submitted_task = TaskSubmitted" "tk_proof submitted_task = submit_proof"
    "or_orderId (readonlyOrder signalled_order) = ''o''"
    by (simp_all add: signalled_order_def submitted_task_def ready_order_def newOrder_def)
  then show ?thesis using tasks_are_justified [OF sample_rebuilt sample_order] by fastforce
qed

section \<open>Keys of the snapshot\<close>

text \<open>
  C3: the snapshot's keys identify the orders: every order is stored under the composite key of
  its own chain, state machine, plan and order identifier, no key occurs twice, and two entries
  that agree on these four are the same entry.
\<close>
theorem orders_are_identified:
  assumes "rebuilt B es snap"
  shows "distinct (jkeys (sn_stateMachineOrders snap))
    \<and> (\<forall>(k, x) \<in> set (sn_stateMachineOrders snap).
        k = stateMachineOrderProjectionKey (or_chainId x) (or_contractAddress x) (or_planId x)
          (or_orderId x))
    \<and> (\<forall>(k, x) \<in> set (sn_stateMachineOrders snap). \<forall>(k', y) \<in> set (sn_stateMachineOrders snap).
        or_chainId x = or_chainId y
        \<and> toLowerCase (or_contractAddress x) = toLowerCase (or_contractAddress y)
        \<and> or_planId x = or_planId y \<and> or_orderId x = or_orderId y \<longrightarrow> k = k' \<and> x = y)"
proof -
  obtain r where r: "snap = snapshotOf r" and ok: "orders_ok (st_orders (rl_state r))"
    using rebuilt_replay [OF assms] by (auto simp: state_ok_def)
  have all: "orders_ok (sn_stateMachineOrders snap)"
    unfolding r snapshotOf_orders
    by (rule orders_ok_jupdate_values [OF ok]) (simp_all add: order_key_def order_ids_ok_def)
  have "k = k' \<and> x = y" if "(k, x) \<in> set (sn_stateMachineOrders snap)"
    "(k', y) \<in> set (sn_stateMachineOrders snap)" "or_chainId x = or_chainId y"
    "toLowerCase (or_contractAddress x) = toLowerCase (or_contractAddress y)"
    "or_planId x = or_planId y" "or_orderId x = or_orderId y" for k x k' y
  proof (rule orders_ok_unique [OF all that(1,2)])
    show "order_key x = order_key y"
      using that(3-6) by (simp add: order_key_def stateMachineOrderProjectionKey_def)
  qed
  moreover have "k = order_key x" if "(k, x) \<in> set (sn_stateMachineOrders snap)" for k x
    using orders_okD(1) [OF all that] .
  moreover have "distinct (jkeys (sn_stateMachineOrders snap))"
    using all by (simp add: orders_ok_def)
  ultimately show ?thesis unfolding order_key_def by blast
qed

theorem orders_are_identified_witness:
  "''1:a:p:o'' = stateMachineOrderProjectionKey 1 ''a'' ''p'' ''o''"
proof -
  have "or_chainId (readonlyOrder signalled_order) = 1"
    "or_contractAddress (readonlyOrder signalled_order) = ''a''"
    "or_planId (readonlyOrder signalled_order) = ''p''"
    "or_orderId (readonlyOrder signalled_order) = ''o''"
    by (simp_all add: signalled_order_def ready_order_def newOrder_def)
  then show ?thesis
    using orders_are_identified [OF sample_rebuilt] sample_order by fastforce
qed

text \<open>Flattening is a sequence of writes; where keys decide the value it is the set of writes.\<close>

definition write_all :: "('k \<times> 'v) list \<Rightarrow> ('k, 'v) jsmap" where
  "write_all kvs = foldl (\<lambda>m (k, v). jset k v m) [] kvs"

lemma write_all_snoc [simp]: "write_all (kvs @ [(k, v)]) = jset k v (write_all kvs)"
  by (simp add: write_all_def)

lemma write_all_last:
  "jget (write_all kvs) k = map_of (rev kvs) k"
  by (induction kvs rule: rev_induct) (auto simp: write_all_def)

lemma write_all_get:
  assumes "(k, v) \<in> set kvs" and "\<And>v'. (k, v') \<in> set kvs \<Longrightarrow> v' = v"
  shows "jget (write_all kvs) k = Some v"
proof -
  obtain w where "map_of (rev kvs) k = Some w"
    using assms(1) by (metis set_rev weak_map_of_SomeI)
  moreover from this have "w = v" using assms(2) map_of_SomeD by fastforce
  ultimately show ?thesis by (simp add: write_all_last)
qed

lemma write_all_in: "jget (write_all kvs) k = Some v \<Longrightarrow> (k, v) \<in> set kvs"
  unfolding write_all_last by (drule map_of_SomeD) simp

definition task_writes :: "(string, order_proj) jsmap \<Rightarrow> (string \<times> task_proj) list" where
  "task_writes orders =
     concat (map (\<lambda>(k, x). map (\<lambda>t. (order_task_key x t, t)) (jvalues (or_tasks x))) orders)"

lemma foldl_writes:
  "foldl (\<lambda>m t. jset (f t) t m) m ts = foldl (\<lambda>m (k, v). jset k v m) m (map (\<lambda>t. (f t, t)) ts)"
  by (induction ts arbitrary: m) auto

lemma foldl_concat: "foldl (\<lambda>m x. foldl g m (h x)) m xs = foldl g m (concat (map h xs))"
  by (induction xs arbitrary: m) auto

lemma flattenTasks_writes: "flattenTasks orders = write_all (task_writes orders)"
proof -
  let ?h = "\<lambda>(k, x). map (\<lambda>t. (order_task_key x t, t)) (jvalues (or_tasks x))"
  let ?g = "\<lambda>m (k, v). jset k v m"
  have "(\<lambda>m (key, order). foldl (\<lambda>m t. jset (order_task_key order t) t m) m
      (jvalues (or_tasks order))) = (\<lambda>m x. foldl ?g m (?h x))"
    by (auto simp: fun_eq_iff foldl_writes)
  then have "flattenTasks orders = foldl (\<lambda>m x. foldl ?g m (?h x)) [] orders"
    unfolding flattenTasks_def by (rule arg_cong)
  also have "\<dots> = foldl ?g [] (concat (map ?h orders))" by (rule foldl_concat)
  finally show ?thesis by (simp add: write_all_def task_writes_def)
qed

lemma task_writes_iff:
  "(j, t) \<in> set (task_writes orders) \<longleftrightarrow>
     (\<exists>k x. (k, x) \<in> set orders \<and> t \<in> set (jvalues (or_tasks x)) \<and> j = order_task_key x t)"
  by (auto simp: task_writes_def)

lemma order_task_key_flat:
  "order_task_key x t = join_colon [dec_int (or_chainId x), toLowerCase (or_contractAddress x),
     toLowerCase (or_planId x), toLowerCase (or_orderId x), toLowerCase (tk_hookId t)]"
  by (simp add: order_task_key_def stateMachineTaskProjectionKey_def
    stateMachineOrderProjectionKey_def)

lemma order_task_key_inj:
  assumes "order_ids_ok x" "order_ids_ok y" "normal_word (tk_hookId t)" "normal_word (tk_hookId u)"
    and "order_task_key x t = order_task_key y u"
  shows "order_key x = order_key y \<and> tk_hookId t = tk_hookId u"
proof -
  have "[dec_int (or_chainId x), toLowerCase (or_contractAddress x),
      toLowerCase (or_planId x), toLowerCase (or_orderId x), toLowerCase (tk_hookId t)] =
    [dec_int (or_chainId y), toLowerCase (or_contractAddress y),
      toLowerCase (or_planId y), toLowerCase (or_orderId y), toLowerCase (tk_hookId u)]"
    using assms unfolding order_task_key_flat
    by (intro join_colon_inj) (auto simp: order_ids_ok_def normal_word_def)
  then show ?thesis using assms(3,4)
    by (simp add: order_key_def stateMachineOrderProjectionKey_def normal_word_def)
qed

lemma tasks_ok_same_hook:
  assumes "tasks_ok B E x" and "t \<in> set (jvalues (or_tasks x))" "u \<in> set (jvalues (or_tasks x))"
    and "tk_hookId t = tk_hookId u"
  shows "t = u"
proof -
  have "(tk_taskId t, t) \<in> set (or_tasks x)" "(tk_taskId u, u) \<in> set (or_tasks x)"
    and "tk_taskId t = taskProjectionId (or_orderId x) (tk_hookId t) (or_contractAddress x)"
      "tk_taskId u = taskProjectionId (or_orderId x) (tk_hookId u) (or_contractAddress x)"
    using assms(1-3) by (auto simp: tasks_ok_def task_ok_def task_justified_def)
  moreover from this assms(4) have "tk_taskId t = tk_taskId u" by simp
  ultimately show ?thesis
    using assms(1) eq_key_imp_eq_value unfolding tasks_ok_def by metis
qed

text \<open>
  the flat dictionary of tasks is exact: every task of every order appears under its
  composite key, nothing else does, and no two tasks share a key.
\<close>
theorem tasks_are_flattened_exactly:
  assumes "rebuilt B es snap"
  shows "jget (sn_stateMachineTasks snap) j = Some t \<longleftrightarrow>
    (\<exists>k x. (k, x) \<in> set (sn_stateMachineOrders snap) \<and> t \<in> set (jvalues (or_tasks x))
      \<and> j = stateMachineTaskProjectionKey (or_chainId x) (or_contractAddress x) (or_planId x)
          (or_orderId x) (tk_hookId t))"
proof -
  obtain r where run: "replay_events B (filterActiveChainEvents es) = Inr r"
    and r: "snap = snapshotOf r" and ok: "orders_ok (st_orders (rl_state r))"
    using rebuilt_replay [OF assms] by (auto simp: state_ok_def)
  let ?os = "st_orders (rl_state r)"
  have tok: "tasks_ok B (actives es) x" if "(k, x) \<in> set ?os" for k x
    using order_tasks.replay_kept [OF run rebuilt_stream_ok [OF assms] HOL.refl] that by force
  have hook: "normal_word (tk_hookId t)" if "(k, x) \<in> set ?os" "t \<in> set (jvalues (or_tasks x))" for k x t
    using tok [OF that(1)] that(2) by (auto simp: tasks_ok_def task_ok_def task_justified_def)
  have "u = t" if w: "(j, t) \<in> set (task_writes ?os)" "(j, u) \<in> set (task_writes ?os)" for t u
  proof -
    obtain k x l y where x: "(k, x) \<in> set ?os" "t \<in> set (jvalues (or_tasks x))" "j = order_task_key x t"
      and y: "(l, y) \<in> set ?os" "u \<in> set (jvalues (or_tasks y))" "j = order_task_key y u"
      using w unfolding task_writes_iff by metis
    have "order_key x = order_key y \<and> tk_hookId t = tk_hookId u"
      using x y orders_okD(2) [OF ok] hook by (intro order_task_key_inj) metis+
    moreover from this have "x = y" using orders_ok_unique [OF ok x(1) y(1)] by blast
    ultimately show ?thesis using tasks_ok_same_hook [OF tok [OF x(1)]] x(2) y(2) by blast
  qed
  then have "jget (sn_stateMachineTasks snap) j = Some t \<longleftrightarrow> (j, t) \<in> set (task_writes ?os)"
    using write_all_get [of j t "task_writes ?os"] write_all_in [of "task_writes ?os" j t]
    by (auto simp: r snapshotOf_def Let_def flattenTasks_writes)
  also have "\<dots> \<longleftrightarrow> (\<exists>k x. (k, x) \<in> set (sn_stateMachineOrders snap) \<and> t \<in> set (jvalues (or_tasks x))
      \<and> j = order_task_key x t)"
    unfolding task_writes_iff r snapshotOf_orders set_jupdate_values
    by (force simp: order_task_key_def)
  finally show ?thesis unfolding order_task_key_def .
qed

theorem tasks_are_flattened_exactly_witness:
  "jget (sn_stateMachineTasks sample_snapshot) ''1:a:p:o:h'' = Some submitted_task"
proof -
  have "stateMachineTaskProjectionKey 1 ''a'' ''p'' ''o'' ''h'' = ''1:a:p:o:h''" by code_simp
  moreover have "or_chainId (readonlyOrder signalled_order) = 1"
    "or_contractAddress (readonlyOrder signalled_order) = ''a''"
    "or_planId (readonlyOrder signalled_order) = ''p''"
    "or_orderId (readonlyOrder signalled_order) = ''o''" "tk_hookId submitted_task = ''h''"
    by (simp_all add: signalled_order_def ready_order_def newOrder_def submitted_task_def
      sample_task_def)
  ultimately show ?thesis
    using tasks_are_flattened_exactly [OF sample_rebuilt, of "''1:a:p:o:h''" submitted_task]
      sample_order sample_members(1) by metis
qed

section \<open>Trails and totals\<close>

text \<open>
  C17: the audit trail of an order in the snapshot: its proof and timeline lists are in chain
  order, mention no event twice, and every entry is an active event of the stream, with the
  position and the name that event has there.
\<close>
theorem trail_is_ordered_and_factual:
  assumes "rebuilt B es snap" and "(k, x) \<in> set (sn_stateMachineOrders snap)"
  shows "sorted_wrt (\<lambda>p q. compareProofEvents p q \<le> 0) (or_proof x)
    \<and> sorted_wrt (\<lambda>t u. compareTimelineEvents t u \<le> 0) (or_timeline x)
    \<and> distinct (map pf_eventId (or_proof x)) \<and> distinct (map tl_timelineId (or_timeline x))
    \<and> (\<forall>p \<in> set (or_proof x) \<union> tl_proof ` set (or_timeline x). \<exists>d \<in> actives es.
         pf_eventId p = chainEventKey d \<and> pf_eventName p = eventName d
         \<and> provenanceOf p = provenanceOf d)"
proof -
  have "trail_ok (actives es) x
    \<and> sorted_wrt (\<lambda>p q. compareProofEvents p q \<le> 0) (or_proof x)
    \<and> sorted_wrt (\<lambda>t u. compareTimelineEvents t u \<le> 0) (or_timeline x)"
    using assms snapshot_trail [OF _ rebuilt_stream_ok rebuilt_indexed]
    unfolding rebuilt_def by blast
  then show ?thesis unfolding trail_ok_def proof_of_def by blast
qed

theorem trail_is_ordered_and_factual_witness:
  "\<exists>d \<in> actives sample_stream. pf_eventId submit_proof = chainEventKey d"
proof -
  have "submit_proof \<in> set (or_proof (readonlyOrder signalled_order))"
    by (simp add: signalled_order_def)
  then show ?thesis using trail_is_ordered_and_factual [OF sample_rebuilt sample_order] by blast
qed

text \<open>
  The totals of the snapshot: it counts every active event once, handled or not, and its
  last event is the last one in chain order.
\<close>
theorem snapshot_totals:
  assumes "rebuildOrderProjections B es = Inr snap"
  shows "sn_eventCount snap = length (filterActiveChainEvents es)
    \<and> sn_lastEvent snap = (if filterActiveChainEvents es = [] then None
        else Some (provenanceOf (last (filterActiveChainEvents es))))"
proof -
  have "rl_eventCount r = length ds \<and> rl_lastEvent r =
      (if ds = [] then None else Some (provenanceOf (last ds)))"
    if "replay_events B ds = Inr r" for ds r
    using that
    by (induction ds arbitrary: r rule: rev_induct)
      (auto simp: replay_events_def foldR_append bindR_Inr_iff replay_start_def replay_step_def)
  then show ?thesis
    using assms by (auto simp: rebuildOrderProjections_def bindR_Inr_iff snapshotOf_def Let_def)
qed

theorem snapshot_totals_witness:
  "sn_eventCount sample_snapshot = 2 \<and> sn_lastEvent sample_snapshot = Some (provenanceOf signal_event)"
  using snapshot_totals [OF sample_rebuild] unfolding sample_actives by (simp add: sample_stream_def)

end
