(* ===== verification/Histories.thy ===== *)
theory Histories imports Snapshots begin

text \<open>
  Replays over time: what one event may do to the orders, what two moments of a replay have in
  common, and how a replay continues when later blocks arrive.
\<close>

section \<open>One event\<close>

text \<open>
  The dispatcher refines the abstract steps: whatever the event, a successful handler acts
  on the orders by a sequence of the atomic changes of \<open>orders_change\<close> (get or create one
  bucket and change its order, or change orders in place), keeps every bucket at the key of the
  order it holds, and keeps the references of modules, docks and plans well-formed.
\<close>
theorem handlers_refine_atomic_changes:
  assumes "applyStateMachineEvent B s e = Inr s'" and "state_ok E s" and "bindings_ok B"
    and "e \<in> E" and "colon_free (contractAddress e)"
  shows "(orders_change B E e)\<^sup>*\<^sup>* (st_orders s) (st_orders s') \<and> state_ok E s'"
proof -
  have "step_ok B E e s s'"
    using applyStateMachineEvent_ok assms by (simp add: event_ok_def)
  then show ?thesis using step_ok_state_ok assms(2) by (auto simp: step_ok_def)
qed

lemma ready_dispatch: "applyStateMachineEvent short_bindings start_state ready_event = Inr after_ready"
  by (simp add: applyStateMachineEvent_def apply_ready)

theorem handlers_refine_atomic_changes_witness:
  "state_ok {ready_event} after_ready \<and> orders_ok (st_orders after_ready)"
proof -
  have "state_ok {ready_event} start_state" by (simp add: state_ok_def refs_ok_def start_state_def)
  moreover have "colon_free (contractAddress ready_event)" by code_simp
  ultimately show ?thesis
    using handlers_refine_atomic_changes [OF ready_dispatch _ short_bindings_ok, of "{ready_event}"]
    by (simp add: state_ok_def)
qed

lemma after_ready_orders_ok: "orders_ok (st_orders after_ready)"
proof -
  have "order_key ready_order = ''1:a:p:o''" "order_ids_ok ready_order"
    by (simp_all add: ready_order_def newOrder_def order_key_def sample_keys order_ids_ok_def
      normal_word_def colon_free_def toLowerCase_def lower_char_def)
  then show ?thesis by (simp add: after_ready_def orders_ok_def)
qed

text \<open>
  Getting or creating the bucket of an order fails in one case only: an event that does not
  name a plan refers to an order identifier that several plans of the state machine hold. The
  other two inconsistencies the code guards against (several placeholder buckets, a bucket of
  another plan) cannot arise.
\<close>
theorem bucket_error_only_when_ambiguous:
  assumes "orders_ok orders" and "normal_word orderId"
    and "\<And>p. planId = Some p \<Longrightarrow> normal_word p" and "colon_free (contractAddress e)"
  shows "ensureStateMachineOrder orders e orderId planId dep None = Inl err \<longleftrightarrow>
    planId = None
    \<and> 1 < length (orderCandidates orders (chainId e) (toLowerCase (contractAddress e)) orderId)
    \<and> err = ProjectionError (eventName e @ '' has ambiguous order '' @ orderId
          @ ''; planId is required'')"
proof -
  have "contractAddress e = (case None of None \<Rightarrow> contractAddress e | Some a' \<Rightarrow> a')" by simp
  from ensure_error [OF assms this] show ?thesis .
qed

theorem bucket_error_only_when_ambiguous_witness:
  "\<forall>m. ensureStateMachineOrder (st_orders after_ready) signal_event ''o'' None None None
     \<noteq> Inl (ProjectionError m)"
proof
  fix m
  have "length (orderCandidates (st_orders after_ready) 1 ''a'' ''o'') \<le> 1"
    by (simp add: orderCandidates_def after_ready_def)
  moreover have "normal_word ''o''" "colon_free (contractAddress signal_event)" by code_simp+
  moreover have "orders_ok (st_orders after_ready)"
    using after_ready_orders_ok .
  ultimately show "ensureStateMachineOrder (st_orders after_ready) signal_event ''o'' None None None
     \<noteq> Inl (ProjectionError m)"
    using bucket_error_only_when_ambiguous [of "st_orders after_ready" "''o''" None signal_event None
      "ProjectionError m"] by (simp add: sample_keys)
qed

section \<open>Two moments of a replay\<close>

text \<open>Relations of one order with its successor can be combined.\<close>

lemma order_evolution_both:
  assumes "order_evolution B E e Q" and "order_evolution B E e R"
  shows "order_evolution B E e (\<lambda>x y. Q x y \<and> R x y)"
  using assms unfolding order_evolution_def by blast

text \<open>
  C15: no order is ever lost and its history is append-only: for every order at one moment of a
  replay there is, at every later moment, the same order (same chain, state machine and
  identifier; its plan is the same, or was the placeholder), whose proof and timeline lists
  extend the earlier ones, and whose patch nonces have not decreased.
\<close>
theorem orders_persist_and_histories_grow:
  assumes "stream_ok B (es @ ds)"
    and "replay_events B es = Inr r" and "replay_events B (es @ ds) = Inr r'"
    and "x \<in> set (jvalues (st_orders (rl_state r)))"
  shows "\<exists>y \<in> set (jvalues (st_orders (rl_state r'))).
    same_order x y \<and> trail_grows x y \<and> patches_grow x y"
proof (rule replay_evolved [OF _ assms])
  show "order_evolution B (set (es @ ds)) e (\<lambda>x y. trail_grows x y \<and> patches_grow x y)" for e
    by (intro order_evolution_both order_growth.order_evolution_axioms
      patch_growth.order_evolution_axioms)
next
  show "trail_grows x x \<and> patches_grow x x" for x
    using order_growth.R_refl patch_growth.R_refl by blast
  show "trail_grows x z \<and> patches_grow x z"
    if "trail_grows x y \<and> patches_grow x y" "trail_grows y z \<and> patches_grow y z" for x y z
    using that order_growth.R_trans patch_growth.R_trans by blast
qed

lemma sample_parts:
  "replay_events short_bindings [ready_event] =
     Inr (replay_start\<lparr>rl_state := after_ready, rl_eventCount := 1,
       rl_lastEvent := Some (provenanceOf ready_event)\<rparr>)"
  "stream_ok short_bindings ([ready_event] @ [signal_event])"
  "ready_order \<in> set (jvalues (st_orders after_ready))"
  using sample_wf [unfolded sample_stream_def]
  by (simp_all add: replay_events_def step_ready after_ready_def wf_stream_ok short_bindings_ok)

theorem orders_persist_and_histories_grow_witness: "trail_grows ready_order signalled_order"
proof -
  have "replay_events short_bindings ([ready_event] @ [signal_event]) =
    Inr \<lparr>rl_activeDeploymentId = None, rl_state = after_signal, rl_eventCount = 2,
       rl_lastEvent = Some (provenanceOf signal_event)\<rparr>"
    using sample_replay by (simp add: sample_stream_def)
  from orders_persist_and_histories_grow [OF sample_parts(2,1) this, of ready_order]
  show ?thesis using sample_parts(3) by (auto simp: after_signal_def)
qed

text \<open>
  C16: tasks are not reopened: between two moments of a replay with no \<open>HookReady\<close> event in
  between, every task of an order is still there with its hook and creation, a cancelled task
  is still cancelled and a submitted one is submitted or cancelled.
\<close>
theorem tasks_reopen_only_by_hook_ready:
  assumes "stream_ok B (es @ ds)" and "\<forall>e \<in> set ds. eventName e \<noteq> ''HookReady''"
    and "replay_events B es = Inr r" and "replay_events B (es @ ds) = Inr r'"
    and "x \<in> set (jvalues (st_orders (rl_state r)))"
  shows "\<exists>y \<in> set (jvalues (st_orders (rl_state r'))). same_order x y \<and>
    (\<forall>k t. jget (or_tasks x) k = Some t \<longrightarrow>
      (\<exists>t'. jget (or_tasks y) k = Some t' \<and> tk_hookId t' = tk_hookId t
        \<and> tk_createdAt t' = tk_createdAt t
        \<and> (tk_status t = TaskCancelled \<longrightarrow> tk_status t' = TaskCancelled)
        \<and> (tk_status t = TaskSubmitted \<longrightarrow>
             tk_status t' = TaskSubmitted \<or> tk_status t' = TaskCancelled)))"
proof -
  have "\<exists>y \<in> set (jvalues (st_orders (rl_state r'))). same_order x y \<and> tasks_advance x y"
  proof (rule replay_evolved [OF _ assms(1,3-5)])
    show "order_evolution B (set (es @ ds)) e tasks_advance" if "e \<in> set ds" for e
      using assms(2) that by (blast intro: tasks_evolution)
  qed (auto intro: tasks_advance_same tasks_advance_trans)
  then show ?thesis unfolding tasks_advance_def task_advances_def .
qed

theorem tasks_reopen_only_by_hook_ready_witness:
  "\<exists>t'. jget (or_tasks signalled_order) ''a:o:h'' = Some t' \<and> tk_hookId t' = ''h''"
proof -
  have "replay_events short_bindings ([ready_event] @ [signal_event]) =
    Inr \<lparr>rl_activeDeploymentId = None, rl_state = after_signal, rl_eventCount = 2,
       rl_lastEvent = Some (provenanceOf signal_event)\<rparr>"
    using sample_replay by (simp add: sample_stream_def)
  moreover have "jget (or_tasks ready_order) ''a:o:h'' = Some sample_task" "tk_hookId sample_task = ''h''"
    by (simp_all add: sample_task_def)
  ultimately show ?thesis
    using tasks_reopen_only_by_hook_ready [OF sample_parts(2) _ sample_parts(1), of _ ready_order]
      sample_parts(3) by (fastforce simp: after_signal_def)
qed

end
