(* ===== verification/Registry.thy ===== *)
theory Registry imports Histories begin

text \<open>
  What the registries of the replay guarantee: the vocabulary of a plan survives its
  registration, a deployment is selected by status, an activation touches two deployments
  only, module events are attributed to one state machine, and events of docks that are not
  open are counted and have no other effect.
\<close>

section \<open>Plans\<close>

lemma add_new_step:
  "set xs \<subseteq> set (add_new eq xs y)" "set (add_new eq xs y) \<subseteq> insert y (set xs)"
  "eq y y \<Longrightarrow> \<exists>x \<in> set (add_new eq xs y). eq x y"
  by (auto simp: add_new_def list_ex_iff)

lemma add_new_keeps: "set xs \<subseteq> set (foldl (add_new eq) xs ys)"
  by (induction ys rule: rev_induct) (use add_new_step(1) in fastforce)+

lemma add_new_covers:
  "(\<And>y. eq y y) \<Longrightarrow> y \<in> set ys \<Longrightarrow> \<exists>x \<in> set (foldl (add_new eq) xs ys). eq x y"
proof (induction ys rule: rev_induct)
  case (snoc z zs)
  then show ?case
    using add_new_step(1) [of "foldl (add_new eq) xs zs" eq z]
      add_new_step(3) [of eq z "foldl (add_new eq) xs zs"] by auto
qed simp

text \<open>Pairwise different under an equivalence, as a list without repetitions.\<close>

definition unrepeated :: "('a \<Rightarrow> 'a \<Rightarrow> bool) \<Rightarrow> 'a list \<Rightarrow> bool" where
  "unrepeated eq xs \<longleftrightarrow> (\<forall>i < length xs. \<forall>j < length xs. eq (xs ! i) (xs ! j) \<longrightarrow> i = j)"

lemma unrepeated_by_key:
  "(\<And>x y. eq x y \<longleftrightarrow> f x = f y) \<Longrightarrow> unrepeated eq xs \<longleftrightarrow> distinct (map f xs)"
  by (auto simp: unrepeated_def distinct_conv_nth)

definition capability_key where
  "capability_key c = (cap_stageId c, cap_targetSourceId c, cap_signalId c, cap_targetOrderRelation c)"

lemma signalCapabilityEquals_key: "signalCapabilityEquals x y \<longleftrightarrow> capability_key x = capability_key y"
  by (auto simp: signalCapabilityEquals_def capability_key_def)

lemma add_new_keys:
  assumes "\<And>x y. eq x y \<longleftrightarrow> f x = f y" and "distinct (map f xs)"
  shows "distinct (map f (foldl (add_new eq) xs ys))"
  using assms(2) by (induction ys rule: rev_induct) (auto simp: add_new_def list_ex_iff assms(1))

text \<open>
  registering a plan keeps its vocabulary: the capabilities and selector bindings that the
  metadata module registered before \<open>PlanRegistered\<close> are still there afterwards, every
  capability among the event's arguments is present, and no capability occurs twice if none
  did before.
\<close>
theorem plan_registration_keeps_vocabulary:
  assumes "applyPlanRegistered B s e = Inr s'" and "requiredBytes32Arg B e ''planId'' = Inr planId"
    and "jget (st_plans s) (plan_key e planId) = Some p"
    and "signalCapabilitiesArg B e = Inr caps"
  shows "\<exists>p'. jget (st_plans s') (plan_key e planId) = Some p'
    \<and> set (pl_signalCapabilities p) \<subseteq> set (pl_signalCapabilities p')
    \<and> set (pl_selectorBindings p) \<subseteq> set (pl_selectorBindings p')
    \<and> (\<forall>c \<in> set caps. \<exists>c' \<in> set (pl_signalCapabilities p'). signalCapabilityEquals c' c)
    \<and> (unrepeated signalCapabilityEquals (pl_signalCapabilities p)
        \<longrightarrow> unrepeated signalCapabilityEquals (pl_signalCapabilities p'))"
proof -
  obtain p' sb where p': "jget (st_plans s') (plan_key e planId) = Some p'"
    "pl_signalCapabilities p' = mergeSignalCapabilities (pl_signalCapabilities p) caps"
    "pl_selectorBindings p' = mergeSelectorBindings (pl_selectorBindings p) sb"
    using assms by (auto simp: applyPlanRegistered_def bindR_Inr_iff Let_def set_plan_def)
  moreover have "set (pl_selectorBindings p) \<subseteq> set (mergeSelectorBindings (pl_selectorBindings p) sb)"
    unfolding mergeSelectorBindings_def by (rule add_new_keeps)
  moreover have "\<exists>c' \<in> set (mergeSignalCapabilities (pl_signalCapabilities p) caps).
      signalCapabilityEquals c' c" if "c \<in> set caps" for c
    using add_new_covers [of signalCapabilityEquals c caps "pl_signalCapabilities p"] that
    by (simp add: mergeSignalCapabilities_def signalCapabilityEquals_def)
  moreover have "set (pl_signalCapabilities p)
      \<subseteq> set (mergeSignalCapabilities (pl_signalCapabilities p) caps)"
    by (simp add: mergeSignalCapabilities_def add_new_keeps)
  moreover have "unrepeated signalCapabilityEquals (mergeSignalCapabilities (pl_signalCapabilities p) caps)"
    if "unrepeated signalCapabilityEquals (pl_signalCapabilities p)"
    using that add_new_keys [OF signalCapabilityEquals_key]
    by (simp add: unrepeated_by_key [OF signalCapabilityEquals_key] mergeSignalCapabilities_def)
  ultimately show ?thesis by auto
qed

definition plan_event :: chain_event where
  "plan_event = sample_event 3 ''PlanRegistered''
     [(''planId'', JStr ''p''), (''planHash'', JStr ''q''), (''hookCount'', JNum 1),
      (''signalCapabilities'', JArr [JArr [JStr ''s'', JStr ''h'', JStr ''g'', JNum 0]])]"

definition plan_bucket :: plan_proj where
  "plan_bucket = newPlan start_state plan_event ''p'' ''q'' ''0'' (sample_proof ready_event no_metadata)"

definition plan_state :: replay_state where
  "plan_state = start_state\<lparr>st_plans := [(''1:a:p'', plan_bucket)],
     st_orders := [(''2:a:p:o'', ready_order\<lparr>or_chainId := 2\<rparr>)]\<rparr>"

lemma plan_facts:
  "requiredBytes32Arg short_bindings plan_event ''planId'' = Inr ''p''"
  "requiredBytes32Arg short_bindings plan_event ''planHash'' = Inr ''q''"
  "uintArgAsString plan_event ''hookCount'' = Inr ''1''"
  "selectorBindingsArg short_bindings plan_event = Inr []"
  "plan_key plan_event ''p'' = ''1:a:p''" "chainId plan_event = 1" "contractAddress plan_event = ''a''"
  "\<exists>p. proofOf plan_event md = Inr p"
  "\<exists>c. signalCapabilitiesArg short_bindings plan_event = Inr [c]"
proof -
  show "\<exists>p. proofOf plan_event md = Inr p"
    by (simp add: proofOf_def plan_event_def sample_event_def normalizeProofArgs_def
      normalizeProofArg_def)
  have "case signalCapabilitiesArg short_bindings plan_event of Inl _ \<Rightarrow> False | Inr x \<Rightarrow> length x = 1"
    by code_simp
  then show "\<exists>c. signalCapabilitiesArg short_bindings plan_event = Inr [c]"
    by (auto simp: length_Suc_conv split: sum.splits)
qed (code_simp+)

theorem plan_registration_keeps_vocabulary_witness:
  "\<exists>s' p'. applyPlanRegistered short_bindings plan_state plan_event = Inr s'
     \<and> jget (st_plans s') ''1:a:p'' = Some p' \<and> pl_signalCapabilities p' \<noteq> []"
proof -
  obtain c where c: "signalCapabilitiesArg short_bindings plan_event = Inr [c]"
    using plan_facts(9) by blast
  have start: "jget (st_plans plan_state) (plan_key plan_event ''p'') = Some plan_bucket"
    by (simp add: plan_state_def plan_facts(5))
  obtain s' where s': "applyPlanRegistered short_bindings plan_state plan_event = Inr s'"
    using plan_facts(1-4) plan_facts(8) [of "no_metadata\<lparr>md_planId := Some ''p'', md_planHash := Some ''q''\<rparr>"] c
    by (auto simp: applyPlanRegistered_def Let_def)
  from plan_registration_keeps_vocabulary [OF s' plan_facts(1) start c]
  show ?thesis using s' plan_facts(5) by fastforce
qed

text \<open>
  The loop of \<open>PlanRegistered\<close> over the orders compares the state machine's address and the
  plan, not the chain: an order of another chain at the same address takes the plan's hash,
  its proof and the position of the event. (The loop of \<open>SignalCapabilityRegistered\<close> compares
  the chain.)
\<close>
theorem plan_registration_crosses_chains:
  "\<exists>s' y. applyPlanRegistered short_bindings plan_state plan_event = Inr s'
     \<and> st_orders s' = [(''2:a:p:o'', y)] \<and> or_chainId y = 2 \<and> chainId plan_event = 1
     \<and> or_planHash y = Some ''q'' \<and> or_updatedAt y = provenanceOf plan_event
     \<and> or_planHash (ready_order\<lparr>or_chainId := 2\<rparr>) = None"
proof -
  obtain c where c: "signalCapabilitiesArg short_bindings plan_event = Inr [c]"
    using plan_facts(9) by blast
  obtain p where p: "proofOf plan_event
      (no_metadata\<lparr>md_planId := Some ''p'', md_planHash := Some ''q''\<rparr>) = Inr p"
    using plan_facts(8) by blast
  have o1: "or_contractAddress ready_order = ''a''" "or_orderId ready_order = ''o''"
    by (simp_all add: ready_order_def newOrder_def)
  have keeps: "or_chainId (recordEvent p tx md x) = or_chainId x"
    "or_planHash (recordEvent p tx md x) = or_planHash x"
    "or_updatedAt (recordEvent p tx md x) = or_updatedAt x" for p tx md x
    by (simp_all add: recordEvent_def appendOrderProof_def appendOrderTimeline_def)
  show ?thesis
    using plan_facts(1-7) c p o1
    by (auto simp: applyPlanRegistered_def Let_def plan_state_def set_plan_def
      registerPlanInOrder_def jupdate_values_def keeps)
qed

section \<open>Deployments\<close>

text \<open>
  Selection of a deployment for a state machine returns a registered deployment of that
  chain and address with the best status (active before canary before candidate before
  deprecated before retired) and, among those, the most recently updated; it returns none only
  when the state machine has no deployment.
\<close>
theorem best_deployment_is_selected:
  assumes "\<forall>d \<in> set (jvalues deps). indexed (dep_updatedAt d)"
    and "d' \<in> set (jvalues deps)" and "chainId (dep_registeredAt d') = c"
    and "toLowerCase (dep_stateMachineAddress d') = toLowerCase a"
  shows "\<exists>d. findDeploymentByStateMachine deps c a = Some d \<and> d \<in> set (jvalues deps)
    \<and> chainId (dep_registeredAt d) = c
    \<and> toLowerCase (dep_stateMachineAddress d) = toLowerCase a
    \<and> deploymentStatusPriority (dep_status d) \<le> deploymentStatusPriority (dep_status d')
    \<and> (dep_status d = dep_status d' \<longrightarrow>
        compareChainPointers (dep_updatedAt d') (dep_updatedAt d) \<le> 0)"
proof -
  obtain d where d: "findDeploymentByStateMachine deps c a = Some d"
    using findDeploymentByStateMachine_None [of deps c a] assms(2-4) by blast
  have "compareDeploymentSelection d d' \<le> 0"
    using findDeploymentByStateMachine_Some [OF assms(1) d] assms(2-4) by blast
  then have "deploymentStatusPriority (dep_status d) \<le> deploymentStatusPriority (dep_status d')"
    "dep_status d = dep_status d' \<longrightarrow> compareChainPointers (dep_updatedAt d') (dep_updatedAt d) \<le> 0"
    by (auto simp: compareDeploymentSelection_def Let_def split: if_splits)
  then show ?thesis using findDeploymentByStateMachine_Some [OF assms(1) d] d by blast
qed

definition a_deployment :: "string \<Rightarrow> deployment_status \<Rightarrow> deployment_proj" where
  "a_deployment i st =
     \<lparr>dep_deploymentId = i, dep_stateMachineAddress = ''a'', dep_artifactHash = ''x'',
      dep_abiHash = ''y'', dep_deploymentBlock = ''1'', dep_activatedAtBlock = None,
      dep_evidenceHash = None, dep_metadataURI = [], dep_status = st,
      dep_registeredAt = provenanceOf ready_event, dep_updatedAt = provenanceOf ready_event,
      dep_proof = sample_proof ready_event no_metadata\<rparr>"

definition two_deployments :: "(string, deployment_proj) jsmap" where
  "two_deployments = [(''1:r:i'', a_deployment ''i'' DepCanary), (''1:r:j'', a_deployment ''j'' DepActive)]"

theorem best_deployment_is_selected_witness:
  "\<exists>d. findDeploymentByStateMachine two_deployments 1 ''a'' = Some d \<and> dep_status d = DepActive"
proof -
  have "\<forall>d \<in> set (jvalues two_deployments). indexed (dep_updatedAt d)"
    "a_deployment ''j'' DepActive \<in> set (jvalues two_deployments)"
    "chainId (dep_registeredAt (a_deployment ''j'' DepActive)) = 1"
    "toLowerCase (dep_stateMachineAddress (a_deployment ''j'' DepActive)) = toLowerCase ''a''"
    by (simp_all add: two_deployments_def a_deployment_def indexed_def)
  from best_deployment_is_selected [OF this] obtain d where
    "findDeploymentByStateMachine two_deployments 1 ''a'' = Some d"
    "deploymentStatusPriority (dep_status d) \<le> 0"
    by (auto simp: a_deployment_def deploymentStatusPriority_def)
  moreover from this have "dep_status d = DepActive"
    by (cases "dep_status d") (simp_all add: deploymentStatusPriority_def)
  ultimately show ?thesis by blast
qed

lemma findDeploymentById_Some:
  assumes "findDeploymentById deps i = Some (k, d)" and "distinct (jkeys deps)"
  shows "jget deps k = Some d \<and> toLowerCase (dep_deploymentId d) = toLowerCase i"
  using assms unfolding findDeploymentById_def
  by (auto simp: find_Some_iff jget_in_iff in_set_conv_nth)

lemma deprecatePrevious_get:
  assumes "distinct (jkeys deps)" and "jget deps k = Some d"
  shows "\<exists>d'. jget (deprecatePrevious deps e prev) k = Some d'
    \<and> dep_deploymentId d' = dep_deploymentId d
    \<and> (d' = d \<or> (\<exists>p. prev = Some p \<and> toLowerCase (dep_deploymentId d) = toLowerCase p)
        \<and> d' = d\<lparr>dep_status := DepDeprecated, dep_updatedAt := provenanceOf e\<rparr>)"
proof (cases "deprecatePrevious deps e prev = deps")
  case True
  then show ?thesis using assms(2) by simp
next
  case False
  then obtain p l c where p: "prev = Some p" "findDeploymentById deps p = Some (l, c)"
    "deprecatePrevious deps e prev =
       jset l (c\<lparr>dep_status := DepDeprecated, dep_updatedAt := provenanceOf e\<rparr>) deps"
    by (auto simp: deprecatePrevious_def split: option.splits if_splits)
  have c: "jget deps l = Some c" "toLowerCase (dep_deploymentId c) = toLowerCase p"
    using findDeploymentById_Some [OF p(2) assms(1)] by auto
  show ?thesis
  proof (cases "k = l")
    case True
    then have "c = d" using c(1) assms(2) by simp
    then show ?thesis using c p True by simp
  next
    case False
    then show ?thesis using assms(2) by (simp add: p(3))
  qed
qed

text \<open>
  Activating a deployment touches two deployments at most: every deployment other than the
  named predecessor and the new one is unchanged, the predecessor is unchanged or deprecated
  (unless it is the new one), and the active deployment is the new one.
\<close>
theorem activation_touches_two_deployments:
  assumes "applyDeploymentActivated B deps e = Inr (deps', active)" and "distinct (jkeys deps)"
    and "optionalBytes32Arg B e ''previousDeploymentId'' = Inr prev"
    and "requiredBytes32Arg B e ''newDeploymentId'' = Inr new"
    and "jget deps k = Some d" and "toLowerCase (dep_deploymentId d) \<noteq> toLowerCase new"
  shows "active = Some new \<and>
    (\<exists>d'. jget deps' k = Some d' \<and>
      (d' = d \<or> (\<exists>p. prev = Some p \<and> toLowerCase (dep_deploymentId d) = toLowerCase p)
        \<and> d' = d\<lparr>dep_status := DepDeprecated, dep_updatedAt := provenanceOf e\<rparr>))"
proof -
  let ?deps = "deprecatePrevious deps e prev"
  obtain d' where d': "jget ?deps k = Some d'" "dep_deploymentId d' = dep_deploymentId d"
    "d' = d \<or> (\<exists>p. prev = Some p \<and> toLowerCase (dep_deploymentId d) = toLowerCase p)
        \<and> d' = d\<lparr>dep_status := DepDeprecated, dep_updatedAt := provenanceOf e\<rparr>"
    using deprecatePrevious_get [OF assms(2,5)] by blast
  have dist: "distinct (jkeys ?deps)"
    using assms(2) by (auto simp: deprecatePrevious_def split: option.split)
  have "active = Some new \<and> (deps' = ?deps \<or> (\<exists>k' n n'. findDeploymentById ?deps new = Some (k', n)
      \<and> deps' = jset k' n' ?deps))"
    using assms(1,3,4)
    by (auto simp: applyDeploymentActivated_def bindR_Inr_iff Let_def split: option.splits)
  moreover have "k' \<noteq> k" if "findDeploymentById ?deps new = Some (k', n)" for k' n
    using findDeploymentById_Some [OF that dist] d'(1,2) assms(6) by auto
  ultimately have "active = Some new" "jget deps' k = Some d'" using d'(1) by auto
  with d'(3) show ?thesis by blast
qed

definition activation_event :: chain_event where
  "activation_event = sample_event 4 ''DeploymentActivated''
     [(''previousDeploymentId'', JStr ''j''), (''newDeploymentId'', JStr ''i''),
      (''evidenceHash'', JStr ''v'')]"

theorem activation_touches_two_deployments_witness:
  "\<exists>deps'. applyDeploymentActivated short_bindings two_deployments activation_event
      = Inr (deps', Some ''i'')"
proof -
  have args: "optionalBytes32Arg short_bindings activation_event ''previousDeploymentId'' = Inr (Some ''j'')"
    "requiredBytes32Arg short_bindings activation_event ''newDeploymentId'' = Inr ''i''"
    by code_simp+
  have "case applyDeploymentActivated short_bindings two_deployments activation_event of
      Inl _ \<Rightarrow> False | Inr _ \<Rightarrow> True" by code_simp
  then obtain deps' act where run:
    "applyDeploymentActivated short_bindings two_deployments activation_event = Inr (deps', act)"
    by (auto split: sum.splits)
  have "jget two_deployments ''1:r:j'' = Some (a_deployment ''j'' DepActive)"
    "distinct (jkeys two_deployments)"
    "toLowerCase (dep_deploymentId (a_deployment ''j'' DepActive)) \<noteq> toLowerCase ''i''"
    by (simp_all add: two_deployments_def a_deployment_def toLowerCase_def lower_char_def)
  then show ?thesis
    using activation_touches_two_deployments [OF run _ args, of "''1:r:j''" "a_deployment ''j'' DepActive"] run
    by simp
qed

section \<open>Modules and docks\<close>

lemma one_matches:
  assumes "distinct xs" and "m \<in> set xs" and "P m" and "\<And>n. n \<in> set xs \<Longrightarrow> P n \<Longrightarrow> n = m"
  shows "filter P xs = [m]"
proof -
  have all: "x = m" if "x \<in> set (filter P xs)" for x using that assms(4) by auto
  have "m \<in> set (filter P xs)" "distinct (filter P xs)" using assms(1-3) by auto
  then show ?thesis
  proof (cases "filter P xs")
    case (Cons a as)
    moreover have "as = []"
      using Cons all \<open>distinct (filter P xs)\<close> by (cases as) auto
    ultimately show ?thesis using all by simp
  qed auto
qed

definition emitted_by :: "chain_event \<Rightarrow> module_proj \<Rightarrow> bool" where
  "emitted_by e m \<longleftrightarrow> mod_chainId m = chainId e
     \<and> toLowerCase (mod_moduleAddress m) = toLowerCase (contractAddress e)"

definition only_module :: "replay_state \<Rightarrow> chain_event \<Rightarrow> module_proj \<Rightarrow> bool" where
  "only_module s e m \<longleftrightarrow> m \<in> set (jvalues (st_modules s)) \<and> emitted_by e m
     \<and> (\<forall>n \<in> set (jvalues (st_modules s)). emitted_by e n \<longrightarrow> n = m)"

text \<open>
  events of a module are attributed to the state machine that registered it: when exactly
  one registered module of the chain has the emitter's address, order events act on the bucket
  of its state machine and nothing is counted; otherwise they act on the bucket of the emitter
  and the unresolved counter grows by one. Nothing else of the state changes.
\<close>
theorem module_events_are_attributed:
  assumes "distinct (jvalues (st_modules s))"
  shows "(\<forall>m. only_module s e m \<longrightarrow>
      stateMachineAddressForOrderEvent s e = (mod_stateMachineAddress m, s))
    \<and> ((\<nexists>m. only_module s e m) \<longrightarrow>
      stateMachineAddressForOrderEvent s e =
        (contractAddress e, s\<lparr>st_diagnostics := (st_diagnostics s)
            \<lparr>unresolvedModuleOrderEventCount :=
               unresolvedModuleOrderEventCount (st_diagnostics s) + 1\<rparr>\<rparr>))"
proof -
  let ?ms = "filter (emitted_by e) (jvalues (st_modules s))"
  have res: "resolveStateMachineAddressForModuleEvent (st_modules s) e =
      (case ?ms of [m] \<Rightarrow> (mod_stateMachineAddress m, True) | _ \<Rightarrow> (contractAddress e, False))"
    by (simp only: resolveStateMachineAddressForModuleEvent_def emitted_by_def [abs_def])
  have one: "?ms = [m]" if "only_module s e m" for m
    using one_matches [OF assms, of m "emitted_by e"] that unfolding only_module_def by blast
  have "\<exists>m. only_module s e m" if "?ms = [m]" for m
  proof -
    have "set ?ms = {m}" using that by simp
    then have "only_module s e m" unfolding only_module_def set_filter by blast
    then show ?thesis ..
  qed
  then have "(\<nexists>m. only_module s e m) \<longrightarrow>
      resolveStateMachineAddressForModuleEvent (st_modules s) e = (contractAddress e, False)"
    unfolding res by (auto split: list.split)
  then show ?thesis
    by (auto simp: stateMachineAddressForOrderEvent_def res one simp del: set_map)
qed

theorem module_events_are_attributed_witness:
  "fst (stateMachineAddressForOrderEvent start_state ready_event) = ''a''"
  using module_events_are_attributed [of start_state ready_event]
  by (simp add: start_state_def only_module_def)

lemma attribution_frame:
  "\<exists>n. snd (stateMachineAddressForOrderEvent s e) =
     s\<lparr>st_diagnostics := (st_diagnostics s)\<lparr>unresolvedModuleOrderEventCount := n\<rparr>\<rparr>"
proof (cases "resolveStateMachineAddressForModuleEvent (st_modules s) e")
  case (Pair a b)
  then show ?thesis
    by (cases b)
      (simp_all add: stateMachineAddressForOrderEvent_def
        exI [of _ "unresolvedModuleOrderEventCount (st_diagnostics s)"], blast)
qed

text \<open>
  A delivery for a dock that is not open is counted and changes nothing but the
  diagnostics: no dock, order, plan or task appears or changes.
\<close>
theorem closed_docks_are_only_counted:
  assumes "requiredBytes32Arg B e ''dockInstanceId'' = Inr i"
    and "jget (st_docks s) (dockProjectionKey (chainId e)
          (fst (stateMachineAddressForOrderEvent s e)) i) = None"
    and "handler \<in> {applyDockInputSubmitted, applyDockOutputSubmitted, applyDockOutputSatisfied}"
  shows "\<exists>s'. handler B s e = Inr s'
    \<and> unresolvedDockEventCount (st_diagnostics s') = unresolvedDockEventCount (st_diagnostics s) + 1
    \<and> s'\<lparr>st_diagnostics := st_diagnostics s\<rparr> = s"
proof -
  obtain a s1 where a: "stateMachineAddressForOrderEvent s e = (a, s1)" by fastforce
  have s1: "unresolvedDockEventCount (st_diagnostics s1) = unresolvedDockEventCount (st_diagnostics s)"
    "s1\<lparr>st_diagnostics := st_diagnostics s\<rparr> = s" "st_docks s1 = st_docks s"
    using attribution_frame [of s e] a by auto
  have find: "findDockForEvent s e i = ((dockProjectionKey (chainId e) a i, None), s1)"
    using assms(2) by (simp add: findDockForEvent_def a s1)
  have "handler B s e = Inr (countUnresolvedDock s1)"
    using assms(1,3) find
    by (auto simp: applyDockInputSubmitted_def applyDockOutputSubmitted_def
      applyDockOutputSatisfied_def deliverDockOutput_def)
  then show ?thesis using s1 by (simp add: countUnresolvedDock_def)
qed

definition dock_event :: chain_event where
  "dock_event = sample_event 5 ''DockInputSubmitted'' [(''dockInstanceId'', JStr ''k'')]"

theorem closed_docks_are_only_counted_witness:
  "\<exists>s'. applyDockInputSubmitted short_bindings after_ready dock_event = Inr s'
     \<and> st_orders s' = st_orders after_ready"
proof -
  have "requiredBytes32Arg short_bindings dock_event ''dockInstanceId'' = Inr ''k''" by code_simp
  moreover have "st_docks after_ready = []" by (simp add: after_ready_def start_state_def)
  ultimately obtain s' where "applyDockInputSubmitted short_bindings after_ready dock_event = Inr s'"
    "s'\<lparr>st_diagnostics := st_diagnostics after_ready\<rparr> = after_ready"
    using closed_docks_are_only_counted [of short_bindings dock_event "''k''" after_ready
      applyDockInputSubmitted] by auto
  moreover from this(2) have "st_orders s' = st_orders after_ready"
    by (metis (mono_tags, lifting) replay_state.select_convs(4) replay_state.surjective
      replay_state.update_convs(6))
  ultimately show ?thesis by blast
qed

end
