(* ===== verification/Isolation.thy ===== *)
theory Isolation imports Registry begin

text \<open>
  Isolation of orders from each other's events, the submit signals a task offers, and the
  assignment of a task when its hook becomes ready.
\<close>

section \<open>Isolation\<close>

text \<open>
  An order event touches one order only: whatever it does to the order it names, every
  order with another identifier, of another state machine or of another chain is the same
  afterwards, at the same key.
\<close>
theorem order_events_leave_others_alone:
  assumes "touchOrder orders e orderId planId dep None body = Inr orders'"
    and "orders_ok orders" and "normal_word orderId"
    and "opt_normal planId" and "colon_free (contractAddress e)"
    and "(k', z) \<in> set orders"
    and "or_orderId z \<noteq> orderId \<or> or_chainId z \<noteq> chainId e
      \<or> toLowerCase (or_contractAddress z) \<noteq> toLowerCase (contractAddress e)"
  shows "(k', z) \<in> set orders'"
proof -
  obtain k x os1 y where en: "ensureStateMachineOrder orders e orderId planId dep None = Inr (k, x, os1)"
    and body: "body x = Inr y" and res: "orders' = jset k y os1"
    using assms(1) by (auto simp: touchOrder_def bindR_Inr_iff)
  have "contractAddress e = (case None of None \<Rightarrow> contractAddress e | Some a' \<Rightarrow> a')" by simp
  note ok = ensure_opt [OF assms(2,3) assms(4,5) this en]
  have dist: "distinct (jkeys orders)" "distinct (jkeys os1)"
    using assms(2) ok by (auto simp: orders_ok_def)
  have kx: "k = order_key x" "order_ids_ok x" using ok orders_okD by blast+
  have kz: "k' = order_key z" "order_ids_ok z" using orders_okD [OF assms(2,6)] by auto
  have other: "k' \<noteq> k"
    using order_key_inj [OF kz(2) kx(2)] kz(1) kx(1) ok assms(7) by auto
  have "(k', z) \<in> set os1"
    using ok unfolding bucket_source_def
  proof (elim conjE disjE exE)
    fix k0 u
    assume u: "(k0, u) \<in> set orders" "x = touched_head e dep (u\<lparr>or_planId := the planId\<rparr>)"
      "os1 = jset k x (jdelete k0 orders)"
    then have "z \<noteq> u" using ok assms(7) by auto
    then have "k' \<noteq> k0" using u(1) assms(6) dist(1) eq_key_imp_eq_value by metis
    then show ?thesis using assms(6) other dist(1) by (auto simp: u(3) set_jset_distinct)
  qed (use assms(6) other dist(1) in \<open>auto simp: set_jset_distinct\<close>)
  then show ?thesis using other dist(2) by (simp add: res set_jset_distinct)
qed

definition other_order :: order_proj where
  "other_order = ready_order\<lparr>or_orderId := ''oo''\<rparr>"

lemma other_key: "stateMachineOrderProjectionKey 1 ''a'' ''p'' ''oo'' = ''1:a:p:oo''"
  by code_simp

theorem order_events_leave_others_alone_witness:
  "\<exists>orders'. touchOrder [(''1:a:p:oo'', other_order)] ready_event ''o'' (Some ''p'') None None Inr
      = Inr orders' \<and> (''1:a:p:oo'', other_order) \<in> set orders'"
proof -
  let ?os = "[(''1:a:p:oo'', other_order)]"
  have ids: "order_key other_order = ''1:a:p:oo''" "order_ids_ok other_order"
    by (simp_all add: other_order_def ready_order_def newOrder_def order_key_def order_ids_ok_def
      sample_keys normal_word_def colon_free_def toLowerCase_def lower_char_def
      other_key)
  have "normal_word ''o''" "normal_word ''p''" "colon_free (contractAddress ready_event)" by code_simp+
  moreover from this have "opt_normal (Some ''p'')" by (simp add: opt_normal_def)
  moreover have "orders_ok ?os" using ids by (simp add: orders_ok_def)
  moreover have "or_orderId other_order \<noteq> ''o''" by (simp add: other_order_def)
  moreover have "\<exists>orders'. touchOrder ?os ready_event ''o'' (Some ''p'') None None Inr = Inr orders'"
    by (simp add: touchOrder_def ensureStateMachineOrder_def findOrderBucket_def
      orderCandidates_def Let_def other_order_def sample_keys toLowerCase_def)
  ultimately show ?thesis
    using order_events_leave_others_alone [of ?os ready_event "''o''" "Some ''p''" None Inr _
      "''1:a:p:oo''" other_order] by auto
qed

section \<open>Submit signals\<close>

text \<open>
  the submit signals of a task: recomputing them offers every source and signal pair that
  the plan's vocabulary, an authorization or a delegation contributes, each pair once, reported
  as the plan's when the plan offers it.
\<close>
theorem submit_signals_are_complete:
  assumes "\<forall>s \<in> set (collectTaskSubmitSignals x (tk_hookId t) (tk_stageIdentifier t) plan). normal_signal s"
  shows "signal_pairs (submitSignals_of (refreshTaskSubmitSignals x plan t)) =
      signal_pairs (collectTaskSubmitSignals x (tk_hookId t) (tk_stageIdentifier t) plan)
    \<and> distinct (map (\<lambda>s. (ss_sourceId s, ss_signalId s))
        (submitSignals_of (refreshTaskSubmitSignals x plan t)))
    \<and> (\<forall>s \<in> set (submitSignals_of (refreshTaskSubmitSignals x plan t)).
        (ss_sourceId s, ss_signalId s) \<in> signal_pairs (planSubmitSignalsForStage plan (tk_stageIdentifier t))
        \<longrightarrow> ss_source s = FromPlanCapability)"
proof -
  let ?c = "collectTaskSubmitSignals x (tk_hookId t) (tk_stageIdentifier t) plan"
  let ?p = "planSubmitSignalsForStage plan (tk_stageIdentifier t)"
  have out: "submitSignals_of (refreshTaskSubmitSignals x plan t) = dedupeTaskSubmitSignals ?c"
    by (simp add: refreshTaskSubmitSignals_def Let_def submitSignals_of_def dedupeTaskSubmitSignals_def)
  have grow: "set ss \<subseteq> set (foldl (\<lambda>signals a. if signalAuthorizationMatchesHook a h signals
      then signals @ [authorization_signal a] else signals) ss as)" for ss h as
    by (induction as arbitrary: ss) (simp, fastforce)
  have plan: "set ?p \<subseteq> set ?c"
    using grow unfolding collectTaskSubmitSignals_def Let_def by fastforce
  have src: "ss_source s = FromPlanCapability" if "s \<in> set ?p" for s
    using that by (auto simp: planSubmitSignalsForStage_def)
  have "ss_source s = FromPlanCapability"
    if s: "s \<in> set (dedupeTaskSubmitSignals ?c)"
      and pair: "(ss_sourceId s, ss_signalId s) \<in> signal_pairs ?p" for s
  proof -
    obtain s' where "s' \<in> set ?p" "ss_sourceId s' = ss_sourceId s" "ss_signalId s' = ss_signalId s"
      using pair by (auto simp: signal_pairs_def)
    then show ?thesis using dedupe_plan_first [OF s, of s'] plan src by auto
  qed
  then show ?thesis unfolding out using dedupe_pairs [OF assms] dedupe_distinct by blast
qed

theorem submit_signals_are_complete_witness:
  "signal_pairs (submitSignals_of (refreshTaskSubmitSignals
      (ready_order\<lparr>or_authorizations := [(''h:g:w'',
         \<lparr>auth_orderId = ''o'', auth_sourceId = ''h'', auth_signalId = ''g'', auth_submitter = ''w'',
          auth_role = ''r'', auth_metadataHash = ''m'', auth_authorizedAt = provenanceOf ready_event,
          auth_proof = sample_proof ready_event no_metadata\<rparr>)]\<rparr>) None sample_task))
   = {(''h'', ''g'')}"
proof -
  let ?x = "ready_order\<lparr>or_authorizations := [(''h:g:w'',
         \<lparr>auth_orderId = ''o'', auth_sourceId = ''h'', auth_signalId = ''g'', auth_submitter = ''w'',
          auth_role = ''r'', auth_metadataHash = ''m'', auth_authorizedAt = provenanceOf ready_event,
          auth_proof = sample_proof ready_event no_metadata\<rparr>)]\<rparr>"
  have "set (collectTaskSubmitSignals ?x (tk_hookId sample_task) (tk_stageIdentifier sample_task) None)
      = {\<lparr>ss_sourceId = ''h'', ss_signalId = ''g'', ss_source = FromAuthorization\<rparr>}"
    by (simp add: collectTaskSubmitSignals_def planSubmitSignalsForStage_def sample_task_def
      signalAuthorizationMatchesHook_def authorization_signal_def ready_order_def newOrder_def)
  then show ?thesis
    using submit_signals_are_complete [of ?x sample_task None]
    by (simp add: signal_pairs_def normal_signal_def colon_free_def)
qed

section \<open>Assignment\<close>

lemma refresh_assignment [simp]:
  "tk_assigneeRole (refreshTaskSubmitSignals x plan t) = tk_assigneeRole t"
  "tk_assigneeWallet (refreshTaskSubmitSignals x plan t) = tk_assigneeWallet t"
  "tk_assigneeRole (markTaskSubmitted p t) = tk_assigneeRole t"
  "tk_assigneeWallet (markTaskSubmitted p t) = tk_assigneeWallet t"
  by (simp_all add: refreshTaskSubmitSignals_def Let_def markTaskSubmitted_def)

lemma existing_assignment [simp]:
  "tk_assigneeRole (markTaskSubmittedFromExistingSignals x t) = tk_assigneeRole t"
  "tk_assigneeWallet (markTaskSubmittedFromExistingSignals x t) = tk_assigneeWallet t"
  by (simp_all add: markTaskSubmittedFromExistingSignals_def split: list.split)

lemma find_filter_head: "List.find P xs = (case filter P xs of [] \<Rightarrow> None | x # _ \<Rightarrow> Some x)"
  by (induction xs) auto

text \<open>
  who a new task is assigned to: the task of a hook that becomes ready goes to the executor of
  the stage's overlay when there is one; otherwise to the submitter of the earliest matching
  authorization of the order; otherwise to nobody, with the role unknown.
\<close>
theorem ready_task_assignee:
  assumes "\<forall>a \<in> set (jvalues (or_authorizations x)). indexed (auth_proof a)"
    and "jget (or_tasks (readyInOrder plans x e i h st n p))
      (taskProjectionId i h (or_contractAddress x)) = Some t"
  shows "case jget (or_stageExecutorOverlays x) (toLowerCase st) of
      Some ov \<Rightarrow> tk_assigneeRole t = RoleStageOverlayExecutor
        \<and> tk_assigneeWallet t = Some (eov_activeExecutorWallet ov)
    | None \<Rightarrow>
        let ms = {a \<in> set (jvalues (or_authorizations x)). signalAuthorizationMatchesHook a h
              (planSubmitSignalsForStage (findPlanForOrder plans x) st)} in
        if ms = {} then tk_assigneeRole t = RoleUnknown \<and> tk_assigneeWallet t = None
        else tk_assigneeRole t = RoleAuthorizedSubmitter
          \<and> (\<exists>a \<in> ms. tk_assigneeWallet t = Some (auth_submitter a)
                \<and> (\<forall>b \<in> ms. compareProofEvents (auth_proof a) (auth_proof b) \<le> 0))"
proof -
  let ?as = "jvalues (or_authorizations x)"
  let ?P = "\<lambda>a. signalAuthorizationMatchesHook a h
      (planSubmitSignalsForStage (findPlanForOrder plans x) st)"
  let ?r = "readyTask x e (findPlanForOrder plans x) i h st n p"
  have t: "tk_assigneeRole t = tk_assigneeRole ?r" "tk_assigneeWallet t = tk_assigneeWallet ?r"
    using assms(2) by (auto simp: readyInOrder_def withReadyTask_def)
  show ?thesis
  proof (cases "jget (or_stageExecutorOverlays x) (toLowerCase st)")
    case (Some ov)
    then show ?thesis
      by (simp add: t readyTask_def Let_def findActiveStageOverlayForHook_def assignTask_def)
  next
    case None
    note ov = this
    let ?s = "js_sort compareSignalAuthorizations (filter ?P ?as)"
    have idx: "\<forall>a \<in> set (filter ?P ?as). indexed (auth_proof a)" using assms(1) by auto
    have "filter ?P (js_sort compareSignalAuthorizations ?as) = ?s"
      by (rule authorization_order.js_sort_filter [OF assms(1)])
    then have found: "findSignalAuthorizationForHook x h
        (planSubmitSignalsForStage (findPlanForOrder plans x) st) =
        (case ?s of [] \<Rightarrow> None | a # _ \<Rightarrow> Some a)"
      unfolding findSignalAuthorizationForHook_def by (simp add: find_filter_head)
    show ?thesis
    proof (cases ?s)
      case Nil
      then have "{a \<in> set ?as. ?P a} = {}" by (auto simp: filter_empty_conv)
      then show ?thesis
        using ov found Nil
        by (simp add: t readyTask_def Let_def findActiveStageOverlayForHook_def)
    next
      case (Cons a as)
      then have "a \<in> set (filter ?P ?as)" by (metis list.set_intros(1) set_js_sort)
      moreover have "compareProofEvents (auth_proof a) (auth_proof b) \<le> 0"
        if "b \<in> set (filter ?P ?as)" for b
        using authorization_order.js_sort_head_least [OF idx Cons that]
        by (simp add: compareSignalAuthorizations_def)
      moreover have "tk_assigneeRole t = RoleAuthorizedSubmitter"
        "tk_assigneeWallet t = Some (auth_submitter a)"
        using ov found Cons
        by (simp_all add: t readyTask_def Let_def findActiveStageOverlayForHook_def assignTask_def)
      ultimately show ?thesis using ov by (auto simp: Let_def)
    qed
  qed
qed

definition waiting_order :: order_proj where
  "waiting_order = newOrder ready_event ''o'' (Some ''p'') None ''a''"

theorem ready_task_assignee_witness:
  "\<exists>t. jget (or_tasks (readyInOrder [] waiting_order ready_event ''o'' ''h'' ''s'' ''n''
       (sample_proof ready_event no_metadata))) ''a:o:h'' = Some t
     \<and> tk_assigneeRole t = RoleUnknown"
proof -
  let ?y = "readyInOrder [] waiting_order ready_event ''o'' ''h'' ''s'' ''n''
       (sample_proof ready_event no_metadata)"
  have w: "or_authorizations waiting_order = []" "or_stageExecutorOverlays waiting_order = []"
    "or_contractAddress waiting_order = ''a''"
    by (simp_all add: waiting_order_def newOrder_def)
  obtain t where t: "jget (or_tasks ?y) (taskProjectionId ''o'' ''h'' (or_contractAddress waiting_order)) = Some t"
    by (simp add: readyInOrder_def withReadyTask_def)
  from ready_task_assignee [OF _ t] t show ?thesis by (simp add: w sample_keys)
qed

text \<open>
  A delegation is not among the sources of the assignment of a new task: a signal delegated for
  the stage before its hook is ready leaves the task unassigned, while the same delegation
  assigns the task when it comes after. The submit signals do contain the delegated signal.
\<close>

definition early_delegation :: delegation_proj where
  "early_delegation =
     \<lparr>dlg_orderId = ''o'', dlg_targetStageId = ''s'', dlg_sourceId = ''u'',
      dlg_signalId = ''g'', dlg_executor = ''w'', dlg_roleHash = ''r'', dlg_metadataHash = ''m'', dlg_patchNonce = ''1'',
      dlg_delegatedAt = provenanceOf ready_event, dlg_proof = sample_proof ready_event no_metadata\<rparr>"

definition ready_in :: "order_proj \<Rightarrow> order_proj" where
  "ready_in x = readyInOrder [] x ready_event ''o'' ''h'' ''s'' ''n'' (sample_proof ready_event no_metadata)"

definition delegate_in :: "order_proj \<Rightarrow> order_proj" where
  "delegate_in x = markTargetStageTasksAssignedFromDelegation early_delegation
     (x\<lparr>or_signalDelegations := [(''k'', early_delegation)]\<rparr>)"

theorem delegation_before_ready_leaves_task_unassigned:
  "map_option tk_assigneeRole (jget (or_tasks (ready_in (delegate_in waiting_order))) ''a:o:h'')
     = Some RoleUnknown
   \<and> map_option tk_assigneeRole (jget (or_tasks (delegate_in (ready_in waiting_order))) ''a:o:h'')
     = Some RoleDelegatedStageExecutor
   \<and> map_option (\<lambda>t. map (\<lambda>sg. (ss_sourceId sg, ss_signalId sg)) (submitSignals_of t))
        (jget (or_tasks (ready_in (delegate_in waiting_order))) ''a:o:h'') = Some [(''u'', ''g'')]"
  by code_simp

text \<open>
  When an event names the plan of an order that so far sits in the placeholder bucket, the
  bucket moves to the plan, but the tasks it already holds keep the placeholder as their plan:
  the row that the flat dictionary shows under the plan's key names no plan to join it by.
\<close>

definition placeholder_order :: order_proj where
  "placeholder_order = ready_order\<lparr>or_planId := ZERO_BYTES32,
     or_tasks := [(''a:o:h'', sample_task\<lparr>tk_planId := Some ZERO_BYTES32\<rparr>)]\<rparr>"

lemma zero_key:
  "stateMachineOrderProjectionKey 1 ''a'' ZERO_BYTES32 ''o'' = ''1:a:'' @ ZERO_BYTES32 @ '':o''"
  by code_simp

theorem migrated_tasks_keep_the_placeholder:
  "\<exists>x. ensureStateMachineOrder [(''1:a:'' @ ZERO_BYTES32 @ '':o'', placeholder_order)]
       signal_event ''o'' (Some ''p'') None None = Inr (''1:a:p:o'', x, [(''1:a:p:o'', x)])
     \<and> or_planId x = ''p''
     \<and> map_option tk_planId (jget (or_tasks x) ''a:o:h'') = Some (Some ZERO_BYTES32)"
proof -
  have "jget [(''1:a:'' @ ZERO_BYTES32 @ '':o'', placeholder_order)] ''1:a:p:o'' = None"
    by (simp add: ZERO_BYTES32_def)
  then show ?thesis
    by (simp add: ensureStateMachineOrder_def findOrderBucket_def orderCandidates_def Let_def
      sample_keys zero_key placeholder_order_def ready_order_def newOrder_def
      sample_keys(7) [symmetric])
qed

end
