(* ===== verification/IdentityFacts.thy ===== *)
theory IdentityFacts imports Streams begin

text \<open>
  Identity bindings: the status of a binding is decided by the last of its events, a snapshot
  counts identity events only, and a query returns exactly the bindings that match it.
\<close>

text \<open>The key an event acts on.\<close>

definition identity_event_key :: "bindings \<Rightarrow> chain_event \<Rightarrow> string option" where
  "identity_event_key B e =
     (if eventName e \<noteq> ''IdentityBindingRegistered'' \<and> eventName e \<noteq> ''IdentityBindingRevoked''
      then None
      else case normalizeAddress B (contractAddress e) (eventName e @ ''.contractAddress'') of
          Inl _ \<Rightarrow> None
        | Inr a \<Rightarrow> (case requiredBytes32Arg B e ''bindingId'' of
            Inl _ \<Rightarrow> None | Inr i \<Rightarrow> Some (identityKey (chainId e) a i)))"

lemma registered_step:
  assumes "applyIdentityBindingRegistered B m e = Inr m'" and "eventName e = ''IdentityBindingRegistered''"
  shows "\<exists>k b. identity_event_key B e = Some k \<and> m' = jset k b m \<and> ib_status b = IdActive"
  using assms
  apply (clarsimp simp: applyIdentityBindingRegistered_def bindR_Inr_iff identity_event_key_def)
  apply (rule exI, rule conjI, rule HOL.refl)
  apply simp
  done

lemma revoked_step:
  assumes "applyIdentityBindingRevoked B m e = Inr m'" and "eventName e = ''IdentityBindingRevoked''"
  shows "\<exists>k. identity_event_key B e = Some k \<and>
    (jget m k = None \<and> m' = m
     \<or> (\<exists>b. jget m k \<noteq> None \<and> m' = jset k b m \<and> ib_status b = IdRevoked))"
proof -
  obtain a i where key: "identity_event_key B e = Some (identityKey (chainId e) a i)"
    and norm: "normalizeAddress B (contractAddress e) ''IdentityBindingRevoked.contractAddress'' = Inr a"
      "requiredBytes32Arg B e ''bindingId'' = Inr i"
    using assms by (auto simp: applyIdentityBindingRevoked_def bindR_Inr_iff identity_event_key_def Let_def)
  show ?thesis
  proof (cases "jget m (identityKey (chainId e) a i)")
    case None
    then show ?thesis using assms(1) key norm by (simp add: applyIdentityBindingRevoked_def Let_def)
  next
    case (Some b)
    then obtain r u where "m' = jset (identityKey (chainId e) a i)
        (b\<lparr>ib_status := IdRevoked, ib_revokeReasonHash := Some r, ib_revokeReasonURI := Some u,
           ib_revokedAt := Some (provenanceOf e), ib_updatedAt := provenanceOf e\<rparr>) m"
      using assms(1) norm
      by (auto simp: applyIdentityBindingRevoked_def Let_def bindR_Inr_iff)
    moreover have "ib_status (b\<lparr>ib_status := IdRevoked, ib_revokeReasonHash := Some r,
        ib_revokeReasonURI := Some u, ib_revokedAt := Some (provenanceOf e),
        ib_updatedAt := provenanceOf e\<rparr>) = IdRevoked" by simp
    ultimately show ?thesis using key Some by blast
  qed
qed

lemma identity_step_cases:
  assumes "identity_step B s e = Inr s'"
  shows "identity_event_key B e = None \<and> s' = s
    \<or> (\<exists>k. identity_event_key B e = Some k \<and> is_eventCount s' = is_eventCount s + 1
        \<and> (eventName e = ''IdentityBindingRegistered''
             \<and> (\<exists>b. is_bindings s' = jset k b (is_bindings s) \<and> ib_status b = IdActive)
           \<or> eventName e = ''IdentityBindingRevoked''
             \<and> (jget (is_bindings s) k = None \<and> is_bindings s' = is_bindings s
                \<or> (\<exists>b. jget (is_bindings s) k \<noteq> None
                     \<and> is_bindings s' = jset k b (is_bindings s) \<and> ib_status b = IdRevoked))))"
proof -
  consider "eventName e = ''IdentityBindingRegistered''" | "eventName e = ''IdentityBindingRevoked''"
    | "eventName e \<noteq> ''IdentityBindingRegistered''" "eventName e \<noteq> ''IdentityBindingRevoked''" by blast
  then show ?thesis
  proof cases
    case 1
    then obtain m' where "applyIdentityBindingRegistered B (is_bindings s) e = Inr m'"
      "is_bindings s' = m'" "is_eventCount s' = is_eventCount s + 1"
      using assms by (auto simp: identity_step_def bindR_Inr_iff)
    then show ?thesis using registered_step [of B "is_bindings s" e m'] 1 by auto
  next
    case 2
    then obtain m' where "applyIdentityBindingRevoked B (is_bindings s) e = Inr m'"
      "is_bindings s' = m'" "is_eventCount s' = is_eventCount s + 1"
      using assms by (auto simp: identity_step_def bindR_Inr_iff)
    then show ?thesis using revoked_step [of B "is_bindings s" e m'] 2 by fastforce
  next
    case 3
    then show ?thesis using assms by (auto simp: identity_step_def identity_event_key_def)
  qed
qed

definition binding_events :: "bindings \<Rightarrow> string \<Rightarrow> chain_event list \<Rightarrow> chain_event list" where
  "binding_events B k es = filter (\<lambda>e. identity_event_key B e = Some k) es"

lemma identity_replay:
  assumes "foldR (identity_step B) createEmptyIdentityProjectionSnapshot es = Inr s"
  shows "is_eventCount s = length (filter (\<lambda>e. identity_event_key B e \<noteq> None) es)
    \<and> (jget (is_bindings s) k \<noteq> None \<longleftrightarrow>
        (\<exists>e \<in> set (binding_events B k es). eventName e = ''IdentityBindingRegistered''))
    \<and> (\<forall>b. jget (is_bindings s) k = Some b \<longrightarrow> (ib_status b = IdActive \<longleftrightarrow>
        eventName (last (binding_events B k es)) = ''IdentityBindingRegistered''))"
  using assms
proof (induction es arbitrary: s rule: rev_induct)
  case Nil
  then show ?case by (auto simp: createEmptyIdentityProjectionSnapshot_def binding_events_def)
next
  case (snoc e es)
  then obtain s0 where s0: "foldR (identity_step B) createEmptyIdentityProjectionSnapshot es = Inr s0"
    and st: "identity_step B s0 e = Inr s"
    by (auto simp: foldR_append bindR_Inr_iff)
  note ih = snoc(1) [OF s0]
  have not: "''IdentityBindingRevoked'' \<noteq> ''IdentityBindingRegistered''" by simp
  show ?case
    using identity_step_cases [OF st]
  proof (elim disjE conjE exE)
    assume "identity_event_key B e = None" "s = s0"
    then show ?thesis using ih by (simp add: binding_events_def)
  qed (use ih in \<open>auto simp: binding_events_def split: if_splits\<close>)
qed

text \<open>
  C18: the last event of a binding decides its status: after a replay a binding exists exactly when
  it was registered by an active event, and it is active exactly when the last of its active
  registration and revocation events is a registration; the snapshot counts the identity events.
\<close>
theorem last_identity_event_decides:
  assumes "rebuildIdentityProjections B es = Inr s"
  shows "(jget (is_bindings s) k \<noteq> None \<longleftrightarrow>
      (\<exists>e \<in> set (binding_events B k (filterActiveChainEvents es)).
         eventName e = ''IdentityBindingRegistered''))
    \<and> (\<forall>b. jget (is_bindings s) k = Some b \<longrightarrow> (ib_status b = IdActive \<longleftrightarrow>
        eventName (last (binding_events B k (filterActiveChainEvents es)))
          = ''IdentityBindingRegistered''))
    \<and> is_eventCount s
      = length (filter (\<lambda>e. identity_event_key B e \<noteq> None) (filterActiveChainEvents es))"
  using identity_replay [OF assms [unfolded rebuildIdentityProjections_def]] by blast

definition identity_events :: "chain_event list" where
  "identity_events =
     [sample_event 1 ''IdentityBindingRegistered''
        [(''bindingId'', JStr ''b''), (''subjectId'', JStr ''s''), (''account'', JStr ''w''),
         (''descriptorHash'', JStr ''d''), (''registrar'', JStr ''r'')],
      sample_event 2 ''IdentityBindingRevoked''
        [(''bindingId'', JStr ''b''), (''reasonHash'', JStr ''x'')]]"

lemma identity_run:
  "case rebuildIdentityProjections short_bindings identity_events of
     Inl _ \<Rightarrow> False
   | Inr s \<Rightarrow> (case is_bindings s of [kb] \<Rightarrow> fst kb = ''1:a:b'' \<and> ib_status (snd kb) = IdRevoked | _ \<Rightarrow> False)"
  by code_simp

theorem last_identity_event_decides_witness:
  "eventName (last (binding_events short_bindings ''1:a:b''
     (filterActiveChainEvents identity_events))) \<noteq> ''IdentityBindingRegistered''"
proof -
  obtain s b where s: "rebuildIdentityProjections short_bindings identity_events = Inr s"
    "jget (is_bindings s) ''1:a:b'' = Some b" "ib_status b = IdRevoked"
    using identity_run by (auto split: sum.splits list.splits)
  then show ?thesis using last_identity_event_decides [OF s(1), of "''1:a:b''"] by auto
qed

text \<open>
  A query returns exactly the bindings that match it: every filter given with a non-empty text
  must equal, in its normal form, the binding's field, and \<open>activeOnly\<close> keeps active bindings.
\<close>
theorem identity_query_is_exact:
  assumes "bindings_ok B" and "filterIdentityBindings B snap q = Inr bs"
  shows "set bs = {b \<in> set (jvalues (is_bindings snap)).
    (\<forall>v. iq_registryAddress q = Some v \<and> v \<noteq> [] \<longrightarrow>
       normalizeAddress B v ''registryAddress'' = Inr (ib_registryAddress b))
    \<and> (\<forall>v. iq_bindingId q = Some v \<and> v \<noteq> [] \<longrightarrow>
       normalizeBytes32 B v ''bindingId'' = Inr (ib_bindingId b))
    \<and> (\<forall>v. iq_subjectId q = Some v \<and> v \<noteq> [] \<longrightarrow>
       normalizeBytes32 B v ''subjectId'' = Inr (ib_subjectId b))
    \<and> (\<forall>v. iq_account q = Some v \<and> v \<noteq> [] \<longrightarrow>
       normalizeAddress B v ''account'' = Inr (ib_account b))
    \<and> (iq_activeOnly q \<longrightarrow> ib_status b = IdActive)}"
proof -
  have nf: "passes w actual \<longleftrightarrow> (\<forall>x. v = Some x \<and> x \<noteq> [] \<longrightarrow> norm x f = Inr actual)"
    if "normalized_filter norm v f = Inr w" "\<And>x w. norm x f = Inr w \<Longrightarrow> w \<noteq> []"
    for norm v f w actual
    using that by (cases v) (auto simp: normalized_filter_def passes_def bindR_Inr_iff split: if_splits)
  have ne: "normalizeAddress B x f = Inr w \<Longrightarrow> w \<noteq> []" "normalizeBytes32 B x f = Inr w \<Longrightarrow> w \<noteq> []"
    for x f w
    using normalizeAddress_normal [OF assms(1)] normalizeBytes32_normal [OF assms(1)]
    unfolding normal_word_def by blast+
  from assms(2) obtain r i s a where
    r: "normalized_filter (normalizeAddress B) (iq_registryAddress q) ''registryAddress'' = Inr r"
    and i: "normalized_filter (normalizeBytes32 B) (iq_bindingId q) ''bindingId'' = Inr i"
    and s: "normalized_filter (normalizeBytes32 B) (iq_subjectId q) ''subjectId'' = Inr s"
    and a: "normalized_filter (normalizeAddress B) (iq_account q) ''account'' = Inr a"
    and bs: "bs = filter (\<lambda>b. passes r (ib_registryAddress b) \<and> passes i (ib_bindingId b)
       \<and> passes s (ib_subjectId b) \<and> passes a (ib_account b)
       \<and> (iq_activeOnly q \<longrightarrow> ib_status b = IdActive)) (jvalues (is_bindings snap))"
    by (auto simp: filterIdentityBindings_def bindR_Inr_iff)
  note filters = nf [OF r ne(1)] nf [OF i ne(2)] nf [OF s ne(2)] nf [OF a ne(1)]
  show ?thesis
    unfolding bs set_filter by (simp only: filters conj_assoc)
qed

definition identity_question :: identity_query where
  "identity_question = \<lparr>iq_registryAddress = None, iq_bindingId = Some ''b'', iq_subjectId = None,
     iq_account = None, iq_activeOnly = True\<rparr>"

theorem identity_query_is_exact_witness:
  "\<exists>s. rebuildIdentityProjections short_bindings identity_events = Inr s
     \<and> filterIdentityBindings short_bindings s identity_question = Inr []"
proof -
  obtain s k b where s: "rebuildIdentityProjections short_bindings identity_events = Inr s"
    "is_bindings s = [(k, b)]" "ib_status b = IdRevoked"
    using identity_run by (auto split: sum.splits list.splits)
  have "normalizeBytes32 short_bindings ''b'' ''bindingId'' = Inr ''b''" by code_simp
  then obtain bs where bs: "filterIdentityBindings short_bindings s identity_question = Inr bs"
    by (simp add: filterIdentityBindings_def normalized_filter_def identity_question_def)
  from identity_query_is_exact [OF short_bindings_ok bs]
  have "set bs = {}" using s by (auto simp: identity_question_def)
  then show ?thesis using s bs by simp
qed

end
