(* ===== verification/Effects.thy ===== *)
theory Effects imports Prelude begin

text \<open>
  Asynchronous code that changes state and may throw, run one operation at a time: an action
  takes the state to a result and the state it leaves, also when it throws. The equations of
  \<open>wp\<close> compute the condition under which an action ends as wanted, by value or by
  exception; loops are reasoned about with invariants.
\<close>

named_theorems wp_simps "weakest preconditions of actions"

section \<open>Actions\<close>

type_synonym ('s, 'e, 'a) action = "'s \<Rightarrow> ('e + 'a) \<times> 's"

definition returnA :: "'a \<Rightarrow> ('s, 'e, 'a) action" where
  "returnA x = (\<lambda>s. (Inr x, s))"

definition throwA :: "'e \<Rightarrow> ('s, 'e, 'a) action" where
  "throwA e = (\<lambda>s. (Inl e, s))"

definition bindA :: "('s, 'e, 'a) action \<Rightarrow> ('a \<Rightarrow> ('s, 'e, 'b) action) \<Rightarrow> ('s, 'e, 'b) action" where
  "bindA m f = (\<lambda>s. case m s of (Inl e, t) \<Rightarrow> (Inl e, t) | (Inr x, t) \<Rightarrow> f x t)"

text \<open>\<open>try { ... } catch (error) { ... }\<close>.\<close>

definition catchA :: "('s, 'e, 'a) action \<Rightarrow> ('e \<Rightarrow> ('s, 'e, 'a) action) \<Rightarrow> ('s, 'e, 'a) action" where
  "catchA m h = (\<lambda>s. case m s of (Inl e, t) \<Rightarrow> h e t | (Inr x, t) \<Rightarrow> (Inr x, t))"

definition getsA :: "('s \<Rightarrow> 'a) \<Rightarrow> ('s, 'e, 'a) action" where
  "getsA f = (\<lambda>s. (Inr (f s), s))"

definition modifyA :: "('s \<Rightarrow> 's) \<Rightarrow> ('s, 'e, unit) action" where
  "modifyA f = (\<lambda>s. (Inr (), f s))"

definition whenA :: "bool \<Rightarrow> ('s, 'e, unit) action \<Rightarrow> ('s, 'e, unit) action" where
  "whenA b m = (if b then m else returnA ())"

text \<open>\<open>for (const x of xs) { ... }\<close>.\<close>

fun eachA :: "('a \<Rightarrow> ('s, 'e, unit) action) \<Rightarrow> 'a list \<Rightarrow> ('s, 'e, unit) action" where
  "eachA f [] = returnA ()"
| "eachA f (x # xs) = bindA (f x) (\<lambda>_. eachA f xs)"

text \<open>A loop that returns from its body, as \<open>for ... { if (...) return y; }\<close>.\<close>

fun findA :: "('a \<Rightarrow> ('s, 'e, 'b option) action) \<Rightarrow> 'a list \<Rightarrow> ('s, 'e, 'b option) action" where
  "findA f [] = returnA None"
| "findA f (x # xs) =
     bindA (f x) (\<lambda>r. case r of Some y \<Rightarrow> returnA (Some y) | None \<Rightarrow> findA f xs)"

section \<open>Weakest preconditions\<close>

definition wp :: "('s, 'e, 'a) action \<Rightarrow> ('a \<Rightarrow> 's \<Rightarrow> bool) \<Rightarrow> ('e \<Rightarrow> 's \<Rightarrow> bool) \<Rightarrow> 's \<Rightarrow> bool" where
  "wp m Q E s = (case m s of (Inl e, t) \<Rightarrow> E e t | (Inr x, t) \<Rightarrow> Q x t)"

lemma wp_return [wp_simps]: "wp (returnA x) Q E s = Q x s"
  by (simp add: wp_def returnA_def)

lemma wp_return_fun: "wp (returnA x) Q E = Q x"
  by (rule ext) (rule wp_return)

lemma wp_throw [wp_simps]: "wp (throwA e) Q E s = E e s"
  by (simp add: wp_def throwA_def)

lemma wp_bind [wp_simps]: "wp (bindA m f) Q E s = wp m (\<lambda>x. wp (f x) Q E) E s"
  by (simp add: wp_def bindA_def split: prod.split sum.split)

lemma wp_bind_fun: "wp (bindA m f) Q E = wp m (\<lambda>x. wp (f x) Q E) E"
  by (rule ext) (rule wp_bind)

lemma wp_catch [wp_simps]: "wp (catchA m h) Q E s = wp m Q (\<lambda>e. wp (h e) Q E) s"
  by (simp add: wp_def catchA_def split: prod.split sum.split)

lemma wp_gets [wp_simps]: "wp (getsA f) Q E s = Q (f s) s"
  by (simp add: wp_def getsA_def)

lemma wp_modify [wp_simps]: "wp (modifyA f) Q E s = Q () (f s)"
  by (simp add: wp_def modifyA_def)

lemma wp_when [wp_simps]: "wp (whenA b m) Q E s = (if b then wp m Q E s else Q () s)"
  by (simp add: whenA_def wp_return)

lemma wp_if [wp_simps]: "wp (if b then m else n) Q E s = (if b then wp m Q E s else wp n Q E s)"
  by simp

lemma wp_let [wp_simps]: "wp (let x = t in m x) Q E s = wp (m t) Q E s"
  by simp

lemma wp_option [wp_simps]:
  "wp (case x of None \<Rightarrow> m | Some y \<Rightarrow> n y) Q E s
     = (case x of None \<Rightarrow> wp m Q E s | Some y \<Rightarrow> wp (n y) Q E s)"
  by (simp split: option.split)

lemma wp_mono:
  assumes "wp m Q E s" and "\<And>x t. Q x t \<Longrightarrow> Q' x t" and "\<And>e t. E e t \<Longrightarrow> E' e t"
  shows "wp m Q' E' s"
  using assms by (auto simp: wp_def split: prod.splits sum.splits)

lemma wp_conj: "wp m Q E s \<Longrightarrow> wp m Q' E' s \<Longrightarrow>
    wp m (\<lambda>x t. Q x t \<and> Q' x t) (\<lambda>e t. E e t \<and> E' e t) s"
  by (auto simp: wp_def split: prod.splits sum.splits)

lemma wp_result: "wp m Q E s \<longleftrightarrow> (case fst (m s) of Inl e \<Rightarrow> E e (snd (m s)) | Inr x \<Rightarrow> Q x (snd (m s)))"
  by (simp add: wp_def split: prod.split sum.split)

lemma wp_ends: "wp m Q (\<lambda>_ _. False) s \<Longrightarrow> \<exists>x t. m s = (Inr x, t) \<and> Q x t"
  by (auto simp: wp_def split: prod.splits sum.splits)

text \<open>An action that keeps an invariant keeps it however it ends.\<close>

definition keeps :: "('s \<Rightarrow> bool) \<Rightarrow> ('s, 'e, 'a) action \<Rightarrow> bool" where
  "keeps I m \<longleftrightarrow> (\<forall>s. I s \<longrightarrow> I (snd (m s)))"

lemma keeps_wp: "keeps I m \<longleftrightarrow> (\<forall>s. I s \<longrightarrow> wp m (\<lambda>_. I) (\<lambda>_. I) s)"
  by (auto simp: keeps_def wp_result split: sum.split)

lemma keepsD: "keeps I m \<Longrightarrow> I s \<Longrightarrow> wp m (\<lambda>_. I) (\<lambda>_. I) s"
  by (simp add: keeps_wp)

lemma keeps_return [intro]: "keeps I (returnA x)"
  by (simp add: keeps_def returnA_def)

lemma keeps_throw [intro]: "keeps I (throwA e)"
  by (simp add: keeps_def throwA_def)

lemma keeps_gets [intro]: "keeps I (getsA f)"
  by (simp add: keeps_def getsA_def)

lemma keeps_bind [intro]: "keeps I m \<Longrightarrow> (\<And>x. keeps I (f x)) \<Longrightarrow> keeps I (bindA m f)"
  unfolding keeps_wp by (auto simp: wp_bind intro: wp_mono)

lemma keeps_catch [intro]: "keeps I m \<Longrightarrow> (\<And>e. keeps I (h e)) \<Longrightarrow> keeps I (catchA m h)"
  unfolding keeps_wp by (auto simp: wp_catch intro: wp_mono)

lemma keeps_when [intro]: "keeps I m \<Longrightarrow> keeps I (whenA b m)"
  by (simp add: whenA_def keeps_return)

lemma keeps_each [intro]: "(\<And>x. x \<in> set xs \<Longrightarrow> keeps I (f x)) \<Longrightarrow> keeps I (eachA f xs)"
  by (induction xs) (auto intro!: keeps_bind)

lemma keeps_option [intro]:
  "keeps I m \<Longrightarrow> (\<And>y. keeps I (n y)) \<Longrightarrow> keeps I (case x of None \<Rightarrow> m | Some y \<Rightarrow> n y)"
  by (simp split: option.split)

lemma keeps_if [intro]: "keeps I m \<Longrightarrow> keeps I n \<Longrightarrow> keeps I (if b then m else n)"
  by simp

lemma keeps_find [intro]: "(\<And>x. x \<in> set xs \<Longrightarrow> keeps I (f x)) \<Longrightarrow> keeps I (findA f xs)"
  by (induction xs) (auto intro!: keeps_bind keeps_option)

lemma wp_each:
  assumes "I [] s"
    and "\<And>ys x zs t. xs = ys @ x # zs \<Longrightarrow> I ys t \<Longrightarrow> wp (f x) (\<lambda>_. I (ys @ [x])) E t"
  shows "wp (eachA f xs) (\<lambda>_. I xs) E s"
proof -
  have "wp (eachA f zs) (\<lambda>_. I xs) E t" if "xs = ys @ zs" and "I ys t" for ys zs t
    using that
  proof (induction zs arbitrary: ys t)
    case (Cons z zs)
    have rest: "wp (eachA f zs) (\<lambda>_. I xs) E u" if "I (ys @ [z]) u" for u
      using Cons.IH [of "ys @ [z]" u] Cons.prems(1) that by simp
    show ?case
      unfolding eachA.simps wp_bind
      by (rule wp_mono [OF assms(2) [OF Cons.prems]]) (rule rest)
  qed (simp add: wp_return)
  from this [of "[]" xs s] assms(1) show ?thesis by simp
qed

text \<open>Actions that catch whatever may be thrown in them.\<close>

definition never_throws :: "('s, 'e, 'a) action \<Rightarrow> bool" where
  "never_throws m \<longleftrightarrow> (\<forall>s. wp m (\<lambda>_ _. True) (\<lambda>_ _. False) s)"

lemma never_throws_return: "never_throws (returnA x)"
  by (simp add: never_throws_def wp_simps)

lemma never_throws_gets: "never_throws (getsA f)"
  by (simp add: never_throws_def wp_simps)

lemma never_throws_bind: "never_throws m \<Longrightarrow> (\<And>x. never_throws (f x)) \<Longrightarrow> never_throws (bindA m f)"
  unfolding never_throws_def wp_bind by (blast intro: wp_mono)

lemma never_throws_catch: "(\<And>e. never_throws (h e)) \<Longrightarrow> never_throws (catchA m h)"
  unfolding never_throws_def wp_catch by (auto simp: wp_def [of m] split: prod.split sum.split)

lemma never_throws_if: "never_throws m \<Longrightarrow> never_throws n \<Longrightarrow> never_throws (if b then m else n)"
  by simp

lemma never_throws_option:
  "never_throws m \<Longrightarrow> (\<And>y. never_throws (n y)) \<Longrightarrow> never_throws (case x of None \<Rightarrow> m | Some y \<Rightarrow> n y)"
  by (simp split: option.split)

lemmas never_throws_intros = never_throws_return never_throws_gets never_throws_bind
  never_throws_catch never_throws_if never_throws_option

end
