(* ===== verification/Dates.thy ===== *)
theory Dates imports Strings begin

text \<open>
  Time values and their text: \<open>Date.prototype.toISOString\<close> and the comparison of strings
  by code units (\<open><\<close> on strings), which the stores use to compare such texts. A time value
  is the number of milliseconds since 1970-01-01T00:00:00Z. The main fact is that, for the
  years 0 to 9999, the texts are ordered as the times are.
\<close>

section \<open>The order of code units\<close>

fun js_less :: "string \<Rightarrow> string \<Rightarrow> bool" where
  "js_less [] [] = False"
| "js_less [] (y # ys) = True"
| "js_less (x # xs) [] = False"
| "js_less (x # xs) (y # ys) =
     ((of_char x :: nat) < of_char y \<or> (x = y \<and> js_less xs ys))"

lemma js_less_irrefl [simp]: "\<not> js_less s s"
  by (induction s) auto

lemma js_less_linear: "js_less s t \<or> s = t \<or> js_less t s"
proof (induction s t rule: js_less.induct)
  case (4 x xs y ys)
  have "(of_char x :: nat) = of_char y \<longleftrightarrow> x = y" by simp
  then show ?case using 4 by fastforce
qed auto

lemma js_less_trans: "js_less s t \<Longrightarrow> js_less t u \<Longrightarrow> js_less s u"
proof (induction s t arbitrary: u rule: js_less.induct)
  case (4 x xs y ys)
  then show ?case by (cases u) auto
next
  case (2 y ys)
  then show ?case by (cases u) auto
qed auto

lemma js_less_asym: "js_less s t \<Longrightarrow> \<not> js_less t s"
  using js_less_trans [of s t s] by auto

lemma js_less_append_same [simp]: "js_less (p @ s) (p @ t) \<longleftrightarrow> js_less s t"
  by (induction p) auto

lemma js_less_append_left:
  "length p = length q \<Longrightarrow> js_less p q \<Longrightarrow> js_less (p @ s) (q @ t)"
proof (induction p arbitrary: q)
  case (Cons a p)
  then show ?case by (cases q) auto
qed simp

section \<open>Fixed-width decimals\<close>

fun padded_dec :: "nat \<Rightarrow> int \<Rightarrow> string" where
  "padded_dec 0 n = []"
| "padded_dec (Suc w) n = padded_dec w (n div 10) @ [digit_char (nat (n mod 10))]"

lemma length_padded_dec [simp]: "length (padded_dec w n) = w"
  by (induction w arbitrary: n) auto

lemma digit_char_less:
  "a < b \<Longrightarrow> b < 10 \<Longrightarrow> (of_char (digit_char a) :: nat) < of_char (digit_char b)"
  by (simp add: digit_char_def)

lemma padded_dec_less:
  "a < b \<Longrightarrow> b < 10 ^ w \<Longrightarrow> 0 \<le> a \<Longrightarrow> js_less (padded_dec w a) (padded_dec w b)"
proof (induction w arbitrary: a b)
  case (Suc w)
  show ?case
  proof (cases "a div 10 = b div 10")
    case True
    then have "a mod 10 < b mod 10" using Suc.prems(1) by presburger
    then have "(of_char (digit_char (nat (a mod 10))) :: nat) < of_char (digit_char (nat (b mod 10)))"
      by (intro digit_char_less) auto
    with True show ?thesis by simp
  next
    case False
    then have "a div 10 < b div 10" using Suc.prems(1) by presburger
    moreover have "b div 10 < 10 ^ w" using Suc.prems(2) by simp
    moreover have "0 \<le> a div 10" using Suc.prems(3) by simp
    ultimately have "js_less (padded_dec w (a div 10)) (padded_dec w (b div 10))" by (rule Suc.IH)
    then show ?thesis by (simp add: js_less_append_left)
  qed
qed simp

section \<open>The calendar\<close>

text \<open>
  Days since the start of year 0 of the proleptic Gregorian calendar; the year that holds a
  day is estimated by the mean length of a year and corrected by at most one.
\<close>

definition days_before_year :: "int \<Rightarrow> int" where
  "days_before_year y = 365 * y + (y + 3) div 4 - (y + 99) div 100 + (y + 399) div 400"

definition year_of_day :: "int \<Rightarrow> int" where
  "year_of_day d =
     (let y = (400 * d) div 146097 in
      if d < days_before_year y then y - 1
      else if days_before_year (y + 1) \<le> d then y + 1 else y)"

definition month_starts :: "bool \<Rightarrow> int list" where
  "month_starts leap =
     (let l = (if leap then 1 else 0) in
      [0, 31, 59 + l, 90 + l, 120 + l, 151 + l, 181 + l, 212 + l, 243 + l, 273 + l, 304 + l,
       334 + l])"

definition month_of_day :: "bool \<Rightarrow> int \<Rightarrow> int" where
  "month_of_day leap d = int (length (filter (\<lambda>s. s \<le> d) (month_starts leap)))"

record calendar =
  cal_year :: int
  cal_month :: int
  cal_day :: int

definition calendar_of :: "int \<Rightarrow> calendar" where
  "calendar_of d =
     (let y = year_of_day d; start = days_before_year y;
          leap = (days_before_year (y + 1) - start = 366);
          m = month_of_day leap (d - start) in
      \<lparr>cal_year = y, cal_month = m,
       cal_day = d - start - month_starts leap ! nat (m - 1) + 1\<rparr>)"

definition epoch_day :: int where "epoch_day = days_before_year 1970"

definition ms_per_day :: int where "ms_per_day = 86400000"

definition year_text :: "int \<Rightarrow> string" where
  "year_text y =
     (if 0 \<le> y \<and> y \<le> 9999 then padded_dec 4 y
      else (if y < 0 then CHR ''-'' else CHR ''+'') # padded_dec 6 \<bar>y\<bar>)"

definition toISOString :: "int \<Rightarrow> string" where
  "toISOString t =
     (let c = calendar_of (t div ms_per_day + epoch_day); r = t mod ms_per_day in
      year_text (cal_year c) @ ''-'' @ padded_dec 2 (cal_month c) @ ''-''
        @ padded_dec 2 (cal_day c) @ ''T''
        @ padded_dec 2 (r div 3600000) @ '':'' @ padded_dec 2 (r div 60000 mod 60) @ '':''
        @ padded_dec 2 (r div 1000 mod 60) @ ''.'' @ padded_dec 3 (r mod 1000) @ ''Z'')"

lemma toISOString_examples:
  "toISOString 0 = ''1970-01-01T00:00:00.000Z''"
  "toISOString 1709210096789 = ''2024-02-29T12:34:56.789Z''"
  "toISOString (-1) = ''1969-12-31T23:59:59.999Z''"
  by code_simp+

section \<open>Texts are ordered as times\<close>

lemma div_bounds: "k * (a div k) \<le> a" "a < k * (a div k) + k" if "0 < k" for k a :: int
proof -
  have "k * (a div k) + a mod k = a" by simp
  moreover have "0 \<le> a mod k" "a mod k < k" using that by simp_all
  ultimately show "k * (a div k) \<le> a" "a < k * (a div k) + k" by linarith+
qed

lemma days_before_year_bounds:
  "146097 * y - 400 \<le> 400 * days_before_year y" "400 * days_before_year y \<le> 146097 * y + 880"
proof -
  define a b c where abc: "a = (y + 3) div 4" "b = (y + 99) div 100" "c = (y + 399) div 400"
  have "y \<le> 4 * a" "4 * a \<le> y + 3" "y \<le> 100 * b" "100 * b \<le> y + 99"
    "y \<le> 400 * c" "400 * c \<le> y + 399"
    using div_bounds [of 4 "y + 3"] div_bounds [of 100 "y + 99"] div_bounds [of 400 "y + 399"]
    by (simp_all add: abc)
  then show "146097 * y - 400 \<le> 400 * days_before_year y"
    "400 * days_before_year y \<le> 146097 * y + 880"
    by (simp_all add: days_before_year_def abc [symmetric])
qed

lemma div_step: "a div k \<le> (a + 1) div k \<and> (a + 1) div k \<le> a div k + 1" if "0 < k" for a k :: int
proof -
  have "(a + 1) div k \<le> (a + k) div k" using that by (intro zdiv_mono1) auto
  also have "(a + k) div k = a div k + 1" using that by (intro div_add_self2) simp
  finally show ?thesis using that by (simp add: zdiv_mono1)
qed

lemma hundred_by_four: "(a + 99) div 100 = ((a + 3) div 4 + 24) div 25" for a :: int
proof -
  have "(a + 99) div 100 = (a + 99) div 4 div 25" by (simp add: zdiv_zmult2_eq [symmetric])
  moreover have "(a + 99) div 4 = (a + 3) div 4 + 24" by simp
  ultimately show ?thesis by simp
qed

lemma fourhundred_by_hundred: "(a + 399) div 400 = ((a + 99) div 100 + 3) div 4" for a :: int
proof -
  have "(a + 399) div 400 = (a + 399) div 100 div 4" by (simp add: zdiv_zmult2_eq [symmetric])
  moreover have "(a + 399) div 100 = (a + 99) div 100 + 3" by simp
  ultimately show ?thesis by simp
qed

text \<open>A year has 365 or 366 days: centuries and their fourfolds step with the leap years.\<close>

lemma div_step_or: "0 < k \<Longrightarrow> (a + 1) div k = a div k \<or> (a + 1) div k = a div k + 1" for a k :: int
  using div_step [of k a] by linarith

lemma nested_step:
  fixes q q' k j :: int
  assumes "q' = q \<or> q' = q + 1" and "0 < k"
  shows "(q + j) div k \<le> (q' + j) div k" "(q' + j) div k - (q + j) div k \<le> q' - q"
proof -
  have "q + 1 + j = q + j + 1" by (simp only: add.commute add.left_commute)
  then have "(q + j) div k \<le> (q + 1 + j) div k \<and> (q + 1 + j) div k \<le> (q + j) div k + 1"
    using div_step [of k "q + j"] assms(2) by (simp only:)
  then show "(q + j) div k \<le> (q' + j) div k" "(q' + j) div k - (q + j) div k \<le> q' - q"
    using assms(1) by auto
qed

lemma days_before_year_step:
  "365 \<le> days_before_year (y + 1) - days_before_year y
     \<and> days_before_year (y + 1) - days_before_year y \<le> 366"
proof -
  define a where "a = (y + 3) div 4"
  define a' where "a' = (y + 1 + 3) div 4"
  define b where "b = (a + 24) div 25"
  define b' where "b' = (a' + 24) div 25"
  define c where "c = (b + 3) div 4"
  define c' where "c' = (b' + 3) div 4"
  have eqs: "(y + 99) div 100 = b" "(y + 1 + 99) div 100 = b'"
    "(y + 399) div 400 = c" "(y + 1 + 399) div 400 = c'"
    unfolding a_def a'_def b_def b'_def c_def c'_def
    using hundred_by_four fourhundred_by_hundred by (simp_all only:)
  have "y + 1 + 3 = y + 3 + 1" by simp
  then have a: "a' = a \<or> a' = a + 1"
    using div_step_or [of 4 "y + 3"] unfolding a_def a'_def by (simp only:)
  have b: "b \<le> b'" "b' - b \<le> a' - a" using nested_step [OF a, of 25 24] by (simp_all add: b_def b'_def)
  then have "b' = b \<or> b' = b + 1" using a by linarith
  from nested_step [OF this, of 4 3] have c: "c \<le> c'" "c' - c \<le> b' - b" by (simp_all add: c_def c'_def)
  have "days_before_year (y + 1) - days_before_year y = 365 + (a' - a) - (b' - b) + (c' - c)"
    unfolding days_before_year_def eqs by (simp add: a_def a'_def)
  then show ?thesis using a b c by linarith
qed

lemma days_before_year_mono: "y \<le> z \<Longrightarrow> days_before_year y \<le> days_before_year z"
proof (induction z rule: int_ge_induct)
  case (step z)
  then show ?case using days_before_year_step [of z] by linarith
qed simp

lemma year_of_day_bounds:
  "days_before_year (year_of_day d) \<le> d" "d < days_before_year (year_of_day d + 1)"
proof -
  define y where "y = (400 * d) div 146097"
  have y: "146097 * y \<le> 400 * d" "400 * d < 146097 * (y + 1)"
    using div_bounds [of 146097 "400 * d"] by (simp_all add: y_def)
  have "400 * days_before_year (y - 1) \<le> 400 * d"
    using days_before_year_bounds(2) [of "y - 1"] y(1) by (simp add: right_diff_distrib)
  then have "days_before_year (y - 1) \<le> d" by simp
  moreover have "d < days_before_year (y + 1 + 1)"
    using days_before_year_bounds(1) [of "y + 1 + 1"] y by (simp add: algebra_simps)
  ultimately show "days_before_year (year_of_day d) \<le> d" "d < days_before_year (year_of_day d + 1)"
    by (auto simp: year_of_day_def y_def [symmetric] Let_def)
qed

lemma year_of_day_mono: "d \<le> d' \<Longrightarrow> year_of_day d \<le> year_of_day d'"
proof (rule ccontr)
  assume "d \<le> d'" and "\<not> year_of_day d \<le> year_of_day d'"
  then have "days_before_year (year_of_day d' + 1) \<le> days_before_year (year_of_day d)"
    by (intro days_before_year_mono) simp
  then show False using \<open>d \<le> d'\<close> year_of_day_bounds(1) [of d] year_of_day_bounds(2) [of d'] by linarith
qed

lemma month_of_day_mono: "d \<le> d' \<Longrightarrow> month_of_day leap d \<le> month_of_day leap d'"
  by (auto simp: month_of_day_def month_starts_def Let_def)

lemma month_of_day_bounds:
  "0 \<le> d \<Longrightarrow> 1 \<le> month_of_day leap d" "month_of_day leap d \<le> 12"
  by (auto simp: month_of_day_def month_starts_def Let_def)

lemma month_start_le:
  "0 \<le> d \<Longrightarrow> month_starts leap ! nat (month_of_day leap d - 1) \<le> d"
  by (auto simp: month_of_day_def month_starts_def Let_def split: if_splits)

lemma month_length:
  "0 \<le> d \<Longrightarrow> d < 366 \<Longrightarrow> d - month_starts leap ! nat (month_of_day leap d - 1) \<le> 31"
  by (auto simp: month_of_day_def month_starts_def Let_def split: if_splits)

text \<open>Calendar dates in lexicographic order, as days are.\<close>

lemma calendar_less:
  assumes "d < d'"
  defines "c \<equiv> calendar_of d" and "c' \<equiv> calendar_of d'"
  shows "cal_year c < cal_year c' \<or> (cal_year c = cal_year c' \<and>
    (cal_month c < cal_month c' \<or> (cal_month c = cal_month c' \<and> cal_day c < cal_day c')))"
proof (cases "year_of_day d = year_of_day d'")
  case True
  define s where "s = days_before_year (year_of_day d')"
  define leap where "leap = (days_before_year (year_of_day d' + 1) - s = 366)"
  have "month_of_day leap (d - s) \<le> month_of_day leap (d' - s)"
    using assms(1) by (intro month_of_day_mono) simp
  then show ?thesis
    using assms(1) True
    by (auto simp: c_def c'_def calendar_of_def Let_def s_def [symmetric] leap_def [symmetric])
next
  case False
  with year_of_day_mono [of d d'] assms(1) show ?thesis
    by (simp add: c_def c'_def calendar_of_def Let_def)
qed

lemma calendar_bounds:
  "1 \<le> cal_month (calendar_of d)" "cal_month (calendar_of d) \<le> 12"
  "1 \<le> cal_day (calendar_of d)" "cal_day (calendar_of d) \<le> 32"
proof -
  define e where "e = d - days_before_year (year_of_day d)"
  have e: "0 \<le> e" "e < 366"
    using year_of_day_bounds [of d] days_before_year_step [of "year_of_day d"]
    unfolding e_def by linarith+
  show "1 \<le> cal_month (calendar_of d)" "cal_month (calendar_of d) \<le> 12"
    "1 \<le> cal_day (calendar_of d)" "cal_day (calendar_of d) \<le> 32"
    using e month_of_day_bounds month_start_le [OF e(1)] month_length [OF e]
    by (simp_all add: calendar_of_def Let_def e_def [symmetric])
qed

text \<open>Three digits of milliseconds, two of each larger unit: the time of day in order.\<close>

definition day_text :: "int \<Rightarrow> string" where
  "day_text r = padded_dec 2 (r div 3600000) @ '':'' @ padded_dec 2 (r div 60000 mod 60) @ '':''
     @ padded_dec 2 (r div 1000 mod 60) @ ''.'' @ padded_dec 3 (r mod 1000) @ ''Z''"

lemma js_less_field:
  assumes "a < b \<or> (a = b \<and> js_less s t)" and "0 \<le> a" and "b < 10 ^ w"
  shows "js_less (padded_dec w a @ s) (padded_dec w b @ t)"
  using assms by (auto intro: js_less_append_left padded_dec_less)

lemma mixed_radix_less:
  fixes r r' k :: int
  assumes "r < r'" and "0 < k"
  shows "r div k < r' div k \<or> (r div k = r' div k \<and> r mod k < r' mod k)"
proof -
  have "r div k \<le> r' div k" using assms by (intro zdiv_mono1) auto
  moreover have "r mod k < r' mod k" if "r div k = r' div k"
    using assms(1) that by (simp add: minus_div_mult_eq_mod [symmetric])
  ultimately show ?thesis by linarith
qed

lemma day_text_less:
  assumes "r < r'" and "0 \<le> r" and "r' < ms_per_day"
  shows "js_less (day_text r) (day_text r')"
proof -
  define a b where "a = r div 1000" and "b = r' div 1000"
  define p q where "p = a div 60" and "q = b div 60"
  have hours: "x div 3600000 = x div 1000 div 60 div 60" "x div 60000 = x div 1000 div 60" for x :: int
    by (simp_all add: zdiv_zmult2_eq [symmetric])
  have "r' div 3600000 \<le> 86399999 div 3600000"
    using assms(3) unfolding ms_per_day_def by (intro zdiv_mono1) auto
  then have high: "q div 60 < 100" using hours(1) [of r'] unfolding q_def b_def by simp
  have low: "0 \<le> p div 60" using assms(2) by (simp add: p_def a_def)
  have "r div 1000 < r' div 1000 \<or> (r div 1000 = r' div 1000 \<and> r mod 1000 < r' mod 1000)"
    using assms(1) by (rule mixed_radix_less) simp
  then have last: "a < b \<or> (a = b \<and> r mod 1000 < r' mod 1000)" by (simp add: a_def b_def)
  have mid: "a < b \<Longrightarrow> p < q \<or> (p = q \<and> a mod 60 < b mod 60)"
    unfolding p_def q_def by (rule mixed_radix_less) auto
  have top: "p < q \<Longrightarrow> p div 60 < q div 60 \<or> (p div 60 = q div 60 \<and> p mod 60 < q mod 60)"
    by (rule mixed_radix_less) auto
  have split: "p div 60 < q div 60 \<or> (p div 60 = q div 60 \<and> (p mod 60 < q mod 60 \<or>
      (p mod 60 = q mod 60 \<and> (a mod 60 < b mod 60 \<or> (a mod 60 = b mod 60 \<and> r mod 1000 < r' mod 1000)))))"
  proof (cases "a = b")
    case True
    then show ?thesis using last by (simp add: p_def q_def)
  next
    case False
    then show ?thesis using last mid top by (cases "p = q") auto
  qed
  define f where "f = (\<lambda>m. padded_dec 3 m @ ''Z'')"
  define g where "g = (\<lambda>s m. padded_dec 2 s @ ''.'' @ f m)"
  define h where "h = (\<lambda>i s m. padded_dec 2 i @ '':'' @ g s m)"
  have text_eq: "day_text x = padded_dec 2 (x div 1000 div 60 div 60) @ '':''
      @ h (x div 1000 div 60 mod 60) (x div 1000 mod 60) (x mod 1000)" for x
    by (simp add: day_text_def hours f_def g_def h_def)
  have f_less: "js_less (f m) (f m')" if "m < m'" "0 \<le> m" "m' < 1000" for m m'
    unfolding f_def using that by (intro js_less_field) auto
  have g_less: "js_less (g (a mod 60) (r mod 1000)) (g (b mod 60) (r' mod 1000))"
    if "a mod 60 < b mod 60 \<or> (a mod 60 = b mod 60 \<and> r mod 1000 < r' mod 1000)"
    unfolding g_def
  proof (rule js_less_field)
    have "b mod 60 < 60" by simp
    also have "(60 :: int) < 10 ^ 2" by simp
    finally show "b mod 60 < 10 ^ 2" .
  qed (use that f_less in auto)
  have h_less: "js_less (h (p mod 60) (a mod 60) (r mod 1000)) (h (q mod 60) (b mod 60) (r' mod 1000))"
    if "p mod 60 < q mod 60 \<or> (p mod 60 = q mod 60 \<and> js_less (g (a mod 60) (r mod 1000)) (g (b mod 60) (r' mod 1000)))"
    unfolding h_def
  proof (rule js_less_field)
    have "q mod 60 < 60" by simp
    also have "(60 :: int) < 10 ^ 2" by simp
    finally show "q mod 60 < 10 ^ 2" .
  qed (use that in auto)
  show ?thesis
    unfolding text_eq a_def [symmetric] b_def [symmetric] p_def [symmetric] q_def [symmetric]
  proof (rule js_less_field)
    show "p div 60 < q div 60 \<or> p div 60 = q div 60
        \<and> js_less ('':'' @ h (p mod 60) (a mod 60) (r mod 1000)) ('':'' @ h (q mod 60) (b mod 60) (r' mod 1000))"
      using split h_less g_less by (simp only: js_less_append_same) blast
    show "0 \<le> p div 60" by (rule low)
    show "q div 60 < 10 ^ 2" using high by simp
  qed
qed

theorem toISOString_order:
  assumes "t < t'" and "0 \<le> cal_year (calendar_of (t div ms_per_day + epoch_day))"
    and "cal_year (calendar_of (t' div ms_per_day + epoch_day)) \<le> 9999"
  shows "js_less (toISOString t) (toISOString t')"
proof -
  define c where "c = calendar_of (t div ms_per_day + epoch_day)"
  define c' where "c' = calendar_of (t' div ms_per_day + epoch_day)"
  have text_eq: "toISOString u = year_text (cal_year (calendar_of (u div ms_per_day + epoch_day)))
      @ ''-'' @ padded_dec 2 (cal_month (calendar_of (u div ms_per_day + epoch_day)))
      @ ''-'' @ padded_dec 2 (cal_day (calendar_of (u div ms_per_day + epoch_day)))
      @ ''T'' @ day_text (u mod ms_per_day)" for u
    by (simp add: toISOString_def Let_def day_text_def)
  have order: "t div ms_per_day < t' div ms_per_day
      \<or> (t div ms_per_day = t' div ms_per_day \<and> t mod ms_per_day < t' mod ms_per_day)"
    using assms(1) by (rule mixed_radix_less) (simp add: ms_per_day_def)
  have dates: "cal_year c < cal_year c' \<or> (cal_year c = cal_year c' \<and>
      (cal_month c < cal_month c' \<or> (cal_month c = cal_month c' \<and> (cal_day c < cal_day c' \<or>
      (cal_day c = cal_day c' \<and> js_less (day_text (t mod ms_per_day)) (day_text (t' mod ms_per_day)))))))"
  proof (cases "t div ms_per_day = t' div ms_per_day")
    case True
    have "js_less (day_text (t mod ms_per_day)) (day_text (t' mod ms_per_day))"
      using True order by (intro day_text_less) (auto simp: ms_per_day_def)
    then show ?thesis using True by (simp add: c_def c'_def)
  next
    case False
    then have "t div ms_per_day + epoch_day < t' div ms_per_day + epoch_day" using order by simp
    from calendar_less [OF this] show ?thesis by (auto simp: c_def c'_def)
  qed
  have years: "year_text (cal_year c) = padded_dec 4 (cal_year c)"
    "year_text (cal_year c') = padded_dec 4 (cal_year c')"
    "0 \<le> cal_year c" "cal_year c' < 10 ^ 4"
    using assms(2,3) dates by (auto simp: year_text_def c_def c'_def)
  define T T' where "T = day_text (t mod ms_per_day)" and "T' = day_text (t' mod ms_per_day)"
  have small: "cal_month c' < 10 ^ 2" "cal_day c' < 10 ^ 2" "0 \<le> cal_month c" "0 \<le> cal_day c"
    using calendar_bounds [of "t div ms_per_day + epoch_day"]
      calendar_bounds [of "t' div ms_per_day + epoch_day"] by (simp_all add: c_def c'_def)
  have day: "js_less (padded_dec 2 (cal_day c) @ ''T'' @ T) (padded_dec 2 (cal_day c') @ ''T'' @ T')"
    if "cal_day c < cal_day c' \<or> (cal_day c = cal_day c' \<and> js_less T T')"
    using that small(2,4) by (intro js_less_field) (simp_all only: js_less_append_same)
  have month: "js_less (padded_dec 2 (cal_month c) @ ''-'' @ X) (padded_dec 2 (cal_month c') @ ''-'' @ X')"
    if "cal_month c < cal_month c' \<or> (cal_month c = cal_month c' \<and> js_less X X')" for X X'
    using that small(1,3) by (intro js_less_field) (simp_all only: js_less_append_same)
  have year: "js_less (padded_dec 4 (cal_year c) @ ''-'' @ X) (padded_dec 4 (cal_year c') @ ''-'' @ X')"
    if "cal_year c < cal_year c' \<or> (cal_year c = cal_year c' \<and> js_less X X')" for X X'
    using that years(3,4) by (intro js_less_field) (simp_all only: js_less_append_same)
  show ?thesis
    unfolding text_eq c_def [symmetric] c'_def [symmetric] years(1,2) T_def [symmetric] T'_def [symmetric]
    using dates unfolding T_def [symmetric] T'_def [symmetric]
    by (intro year) (blast intro: month day)
qed

text \<open>
  \<open>Date.parse\<close> on the format \<open>toISOString\<close> writes, and its round trip. The language leaves
  other formats to the implementation: they are a parameter.
\<close>

section \<open>Parsing\<close>

definition date_field :: "nat \<Rightarrow> nat \<Rightarrow> string \<Rightarrow> int" where
  "date_field i n s = int (parse_nat (take n (drop i s)))"

definition digits_at :: "nat \<Rightarrow> nat \<Rightarrow> string \<Rightarrow> bool" where
  "digits_at i n s \<longleftrightarrow> list_all is_digit (take n (drop i s))"

definition iso_shape :: "string \<Rightarrow> bool" where
  "iso_shape s \<longleftrightarrow> length s = 24
     \<and> list_all (\<lambda>(i, n). digits_at i n s) [(0, 4), (5, 2), (8, 2), (11, 2), (14, 2), (17, 2), (20, 3)]
     \<and> map (\<lambda>i. s ! i) [4, 7, 10, 13, 16, 19, 23] = ''--T::.Z''
     \<and> 1 \<le> date_field 5 2 s \<and> date_field 5 2 s \<le> 12
     \<and> 1 \<le> date_field 8 2 s \<and> date_field 8 2 s \<le> 31
     \<and> date_field 11 2 s \<le> 23 \<and> date_field 14 2 s \<le> 59 \<and> date_field 17 2 s \<le> 59"

definition day_number :: "int \<Rightarrow> int \<Rightarrow> int \<Rightarrow> int" where
  "day_number y m d =
     (let leap = (days_before_year (y + 1) - days_before_year y = 366) in
      days_before_year y + month_starts leap ! nat (m - 1) + d - 1 - epoch_day)"

definition Date_parse :: "(string \<Rightarrow> int option) \<Rightarrow> string \<Rightarrow> int option" where
  "Date_parse other s =
     (if iso_shape s then
        Some (day_number (date_field 0 4 s) (date_field 5 2 s) (date_field 8 2 s) * ms_per_day
          + date_field 11 2 s * 3600000 + date_field 14 2 s * 60000
          + date_field 17 2 s * 1000 + date_field 20 3 s)
      else other s)"

section \<open>Round trip\<close>

lemma parse_padded_dec: "0 \<le> n \<Longrightarrow> n < 10 ^ w \<Longrightarrow> int (parse_nat (padded_dec w n)) = n"
proof (induction w arbitrary: n)
  case (Suc w)
  have "0 \<le> n div 10" "n div 10 < 10 ^ w" using Suc.prems by auto
  then have "int (parse_nat (padded_dec w (n div 10))) = n div 10" by (rule Suc.IH)
  then show ?case using Suc.prems by (simp add: parse_nat_append)
qed (simp add: parse_nat_def)

lemma padded_dec_digits: "list_all is_digit (padded_dec w n)"
  by (induction w arbitrary: n) auto

lemma two_chars: "length s = 2 \<Longrightarrow> \<exists>a b. s = [a, b]"
  by (auto simp: numeral_2_eq_2 length_Suc_conv)

lemma three_chars: "length s = 3 \<Longrightarrow> \<exists>a b c. s = [a, b, c]"
  by (auto simp: numeral_3_eq_3 length_Suc_conv)

lemma four_chars: "length s = 4 \<Longrightarrow> \<exists>a b c d. s = [a, b, c, d]"
  by (auto simp: eval_nat_numeral length_Suc_conv)

lemma iso_parts:
  assumes "length y = 4" "length m = 2" "length d = 2" "length h = 2" "length i = 2"
    "length sec = 2" "length ms = 3"
  defines "s \<equiv> y @ ''-'' @ m @ ''-'' @ d @ ''T'' @ h @ '':'' @ i @ '':'' @ sec @ ''.'' @ ms @ ''Z''"
  shows "length s = 24" "map (\<lambda>i. s ! i) [4, 7, 10, 13, 16, 19, 23] = ''--T::.Z''"
    "take 4 (drop 0 s) = y" "take 2 (drop 5 s) = m" "take 2 (drop 8 s) = d" "take 2 (drop 11 s) = h"
    "take 2 (drop 14 s) = i" "take 2 (drop 17 s) = sec" "take 3 (drop 20 s) = ms"
proof -
  obtain y1 y2 y3 y4 where y: "y = [y1, y2, y3, y4]" using four_chars [OF assms(1)] by blast
  obtain m1 m2 where m: "m = [m1, m2]" using two_chars [OF assms(2)] by blast
  obtain d1 d2 where d: "d = [d1, d2]" using two_chars [OF assms(3)] by blast
  obtain h1 h2 where h: "h = [h1, h2]" using two_chars [OF assms(4)] by blast
  obtain i1 i2 where i: "i = [i1, i2]" using two_chars [OF assms(5)] by blast
  obtain s1 s2 where sec: "sec = [s1, s2]" using two_chars [OF assms(6)] by blast
  obtain t1 t2 t3 where ms: "ms = [t1, t2, t3]" using three_chars [OF assms(7)] by blast
  show "length s = 24" "map (\<lambda>i. s ! i) [4, 7, 10, 13, 16, 19, 23] = ''--T::.Z''"
    "take 4 (drop 0 s) = y" "take 2 (drop 5 s) = m" "take 2 (drop 8 s) = d" "take 2 (drop 11 s) = h"
    "take 2 (drop 14 s) = i" "take 2 (drop 17 s) = sec" "take 3 (drop 20 s) = ms"
    by (simp_all add: s_def y m d h i sec ms)
qed

lemma month_day_length:
  "0 \<le> d \<Longrightarrow> d < (if leap then 366 else 365) \<Longrightarrow>
     d - month_starts leap ! nat (month_of_day leap d - 1) \<le> 30"
  by (auto simp: month_of_day_def month_starts_def Let_def split: if_splits)

lemma calendar_day_31: "cal_day (calendar_of d) \<le> 31"
proof -
  define y where "y = year_of_day d"
  define leap where "leap = (days_before_year (y + 1) - days_before_year y = 366)"
  have "days_before_year y \<le> d" "d < days_before_year (y + 1)"
    unfolding y_def by (rule year_of_day_bounds)+
  then have "0 \<le> d - days_before_year y" "d - days_before_year y < (if leap then 366 else 365)"
    using days_before_year_step [of y] by (auto simp: leap_def)
  from month_day_length [OF this] show ?thesis
    by (simp add: calendar_of_def Let_def y_def [symmetric] leap_def [symmetric])
qed

lemma day_number_calendar:
  "day_number (cal_year (calendar_of d)) (cal_month (calendar_of d)) (cal_day (calendar_of d)) = d - epoch_day"
  by (simp add: day_number_def calendar_of_def Let_def)

lemma time_of_day:
  fixes r :: int
  shows "r div 3600000 * 3600000 + r div 60000 mod 60 * 60000 + r div 1000 mod 60 * 1000 + r mod 1000 = r"
proof -
  define q p w where "q = r div 1000" and "p = q div 60" and "w = p div 60"
  have "r div 60000 = p" "r div 3600000 = w"
    unfolding p_def q_def w_def by (simp_all add: zdiv_zmult2_eq [symmetric])
  moreover have "w * 60 + p mod 60 = p" "p * 60 + q mod 60 = q" "q * 1000 + r mod 1000 = r"
    unfolding w_def p_def q_def by (rule div_mult_mod_eq)+
  ultimately show ?thesis unfolding q_def [symmetric] by simp
qed

lemma Date_parse_toISOString:
  assumes "0 \<le> cal_year (calendar_of (t div ms_per_day + epoch_day))"
    and "cal_year (calendar_of (t div ms_per_day + epoch_day)) \<le> 9999"
  shows "Date_parse other (toISOString t) = Some t"
proof -
  define c where "c = calendar_of (t div ms_per_day + epoch_day)"
  define r where "r = t mod ms_per_day"
  let ?y = "padded_dec 4 (cal_year c)" and ?m = "padded_dec 2 (cal_month c)"
    and ?d = "padded_dec 2 (cal_day c)" and ?h = "padded_dec 2 (r div 3600000)"
    and ?i = "padded_dec 2 (r div 60000 mod 60)" and ?s = "padded_dec 2 (r div 1000 mod 60)"
    and ?ms = "padded_dec 3 (r mod 1000)"
  have written: "toISOString t = ?y @ ''-'' @ ?m @ ''-'' @ ?d @ ''T'' @ ?h @ '':'' @ ?i @ '':'' @ ?s @ ''.'' @ ?ms @ ''Z''"
    using assms by (simp add: toISOString_def Let_def year_text_def c_def r_def)
  have parts: "length (toISOString t) = 24"
    "map (\<lambda>i. toISOString t ! i) [4, 7, 10, 13, 16, 19, 23] = ''--T::.Z''"
    "take 4 (drop 0 (toISOString t)) = ?y" "take 2 (drop 5 (toISOString t)) = ?m"
    "take 2 (drop 8 (toISOString t)) = ?d" "take 2 (drop 11 (toISOString t)) = ?h"
    "take 2 (drop 14 (toISOString t)) = ?i" "take 2 (drop 17 (toISOString t)) = ?s"
    "take 3 (drop 20 (toISOString t)) = ?ms"
    unfolding written by (rule iso_parts; simp)+
  have r: "0 \<le> r" "r < 86400000" by (simp_all add: r_def ms_per_day_def)
  then have hour: "0 \<le> r div 3600000" "r div 3600000 \<le> 23" by auto
  have minute: "x mod 60 \<le> 59" for x :: int using pos_mod_bound [of 60 x] by simp
  have bounds: "1 \<le> cal_month c" "cal_month c \<le> 12" "1 \<le> cal_day c" "cal_day c \<le> 31"
    using calendar_bounds [of "t div ms_per_day + epoch_day"]
      calendar_day_31 [of "t div ms_per_day + epoch_day"] by (simp_all add: c_def)
  have fields: "date_field 0 4 (toISOString t) = cal_year c" "date_field 5 2 (toISOString t) = cal_month c"
    "date_field 8 2 (toISOString t) = cal_day c" "date_field 11 2 (toISOString t) = r div 3600000"
    "date_field 14 2 (toISOString t) = r div 60000 mod 60" "date_field 17 2 (toISOString t) = r div 1000 mod 60"
    "date_field 20 3 (toISOString t) = r mod 1000"
    unfolding date_field_def parts
    by (rule parse_padded_dec; use assms bounds hour in \<open>simp add: c_def\<close>)+
  have shape: "iso_shape (toISOString t)"
    unfolding iso_shape_def fields digits_at_def using parts bounds hour minute
    by (simp add: padded_dec_digits)
  have "t = t div ms_per_day * ms_per_day + r" by (simp add: r_def)
  then show ?thesis
    using time_of_day [of r] shape day_number_calendar [of "t div ms_per_day + epoch_day"]
    by (simp add: Date_parse_def fields) (simp add: c_def)
qed

end
