(* ===== verification/SubmissionTypes.thy ===== *)
theory SubmissionTypes imports Dates ProofFacts begin

text \<open>
  The data of product submissions (\<open>submissions/types.ts\<close> and the fields of
  \<open>evidence/types.ts\<close> that submissions read): evidence, prepared submissions, results of a
  broadcast and the archive records of submissions with their attempts. Fields of the
  package \<open>@uvp-eth/product-dto\<close> appear as far as the source reads or writes them.
\<close>

section \<open>Statuses\<close>

text \<open>The statuses of a submission are the cases of \<open>submissionStatusLabel\<close>.\<close>

datatype submission_status =
    SubPrepared | SubSignatureReceived | SubBroadcasting | SubSubmitted | SubIndexing
  | SubConfirmed | SubFailed | SubExpired | SubReplaced

fun submission_status_text :: "submission_status \<Rightarrow> string" where
  "submission_status_text SubPrepared = ''prepared''"
| "submission_status_text SubSignatureReceived = ''signature_received''"
| "submission_status_text SubBroadcasting = ''broadcasting''"
| "submission_status_text SubSubmitted = ''submitted''"
| "submission_status_text SubIndexing = ''indexing''"
| "submission_status_text SubConfirmed = ''confirmed''"
| "submission_status_text SubFailed = ''failed''"
| "submission_status_text SubExpired = ''expired''"
| "submission_status_text SubReplaced = ''replaced''"

datatype retry_state = RsRetryable | RsNotRetryable | RsDeadLetter | RsNotApplicable

datatype submit_intent = ConfirmStage | RejectStage | RaiseDispute | ResolveDispute

text \<open>
  Attempt statuses are strings of the package; the source writes \<open>submitted\<close>,
  \<open>confirmed\<close> and \<open>failed\<close>.
\<close>

section \<open>Evidence\<close>

datatype evidence_status =
    EvUploaded | EvBound | EvSuperseded | EvWithdrawn | EvMissingFile | EvMismatch

record evidence_record =
  ev_evidenceId :: string
  ev_orderId :: "string option"
  ev_taskId :: "string option"
  ev_stageIdentifier :: string
  ev_payloadHash :: string
  ev_payloadRef :: string
  ev_status :: evidence_status

record evidence_summary =
  es_evidenceId :: string
  es_payloadHash :: string
  es_payloadRef :: string
  es_verificationStatus :: string

section \<open>Prepared submissions\<close>

text \<open>
  The typed data to sign is built by the protocol package from the fields below;
  \<open>td_verifyingContract\<close> is the field of its domain that the source reads back.
\<close>

record typed_data_input =
  tdi_chainId :: int
  tdi_verifyingContract :: string
  tdi_planId :: string
  tdi_orderId :: string
  tdi_sourceId :: string
  tdi_signalId :: string
  tdi_payloadHash :: string
  tdi_idempotencyKey :: string
  tdi_submitter :: string
  tdi_deadline :: string

record typed_data =
  td_verifyingContract :: "string option"
  td_content :: jsval

record human_summary =
  hs_purpose :: string
  hs_orderId :: string
  hs_taskTitle :: string
  hs_stage :: string
  hs_action :: string
  hs_payloadHash :: string
  hs_payloadRef :: string
  hs_submitter :: string
  hs_validUntil :: string
  hs_chainId :: int
  hs_verifyingContract :: string

record prepared =
  pr_prepareId :: string
  pr_taskId :: string
  pr_orderId :: string
  pr_onchainOrderId :: string
  pr_planId :: string
  pr_stageIdentifier :: string
  pr_signalName :: string
  pr_sourceId :: string
  pr_signalId :: string
  pr_intent :: submit_intent
  pr_payloadHash :: string
  pr_payloadRef :: string
  pr_idempotencyKey :: string
  pr_submitter :: string
  pr_nonce :: string
  pr_deadline :: string
  pr_expiresAt :: string
  pr_humanSummary :: human_summary
  pr_typedData :: typed_data
  pr_evidence :: "evidence_summary list"
  pr_authorizationSource :: string

record prepared_record = prepared +
  pr_evidenceRecords :: "evidence_record list"
  pr_usedAt :: "string option"
  pr_submissionId :: "string option"

section \<open>Results of a broadcast\<close>

record broadcast_attempt =
  ba_status :: string
  ba_txHash :: "string option"
  ba_blockNumber :: "string option"
  ba_revertReason :: "string option"
  ba_gasPayer :: "string option"
  ba_attemptNumber :: "int option"
  ba_errorCode :: "string option"
  ba_errorLabel :: "string option"
  ba_errorMessage :: "string option"
  ba_retryable :: "bool option"
  ba_retryState :: "retry_state option"
  ba_deadLetter :: "bool option"
  ba_nextRetryAt :: "string option"

definition bare_attempt :: "string \<Rightarrow> broadcast_attempt" where
  "bare_attempt s =
     \<lparr>ba_status = s, ba_txHash = None, ba_blockNumber = None, ba_revertReason = None,
      ba_gasPayer = None, ba_attemptNumber = None, ba_errorCode = None, ba_errorLabel = None,
      ba_errorMessage = None, ba_retryable = None, ba_retryState = None, ba_deadLetter = None,
      ba_nextRetryAt = None\<rparr>"

record broadcast_failure =
  bf_txHash :: "string option"
  bf_blockNumber :: "string option"
  bf_errorCode :: string
  bf_errorLabel :: "string option"
  bf_message :: string
  bf_retryable :: bool
  bf_retryState :: "retry_state option"
  bf_deadLetter :: "bool option"
  bf_nextRetryAt :: "string option"
  bf_attempt :: "broadcast_attempt option"

text \<open>
  The union \<open>SubmissionBroadcastResult\<close>: transaction hash, block number and attempt of a
  result that is under way or done, code and reason of one that was not attempted.
\<close>

datatype broadcast_result =
    BrBroadcasting "string option" "broadcast_attempt option"
  | BrSubmitted string "string option" "broadcast_attempt option"
  | BrConfirmed string "string option" "broadcast_attempt option"
  | BrNotAttempted string string
  | BrFailed broadcast_failure

record broadcast_request =
  rq_prepared :: prepared
  rq_signature :: string
  rq_recoveredSubmitter :: string
  rq_evidence :: "evidence_record list"

section \<open>Submission records\<close>

datatype reconcile_status =
    RecBroadcasting | RecSubmitted | RecIndexing | RecConfirmed | RecFailed | RecStalePending

datatype receipt_status =
    RcNotChecked | RcMissing | RcUnknown | RcSuccess | RcFailed | RcTimeout

datatype projection_status = PjNotChecked | PjMissing | PjPresent

record submission_attempt =
  at_attemptId :: string
  at_submissionId :: string
  at_orderId :: string
  at_sourceId :: string
  at_signalId :: string
  at_submitter :: string
  at_status :: string
  at_txHash :: "string option"
  at_blockNumber :: "string option"
  at_errorCode :: "string option"
  at_errorLabel :: "string option"
  at_errorMessage :: "string option"
  at_revertReason :: "string option"
  at_gasPayer :: "string option"
  at_attemptNumber :: int
  at_retryable :: bool
  at_retryState :: retry_state
  at_deadLetter :: bool
  at_nextRetryAt :: "string option"
  at_createdAt :: string
  at_updatedAt :: string

text \<open>
  \<open>statusLabel\<close>, \<open>retryState\<close> and \<open>deadLetter\<close> may be absent from an old record and are
  filled in on every read; the reconcile fields are absent until they are first written. A
  status label is Chinese text, given by its code points.
\<close>

record submission =
  sm_submissionId :: string
  sm_prepareId :: string
  sm_taskId :: string
  sm_orderId :: string
  sm_onchainOrderId :: string
  sm_planId :: string
  sm_stageIdentifier :: string
  sm_signalName :: string
  sm_sourceId :: string
  sm_signalId :: string
  sm_intent :: submit_intent
  sm_payloadHash :: string
  sm_payloadRef :: string
  sm_idempotencyKey :: string
  sm_submitter :: string
  sm_nonce :: string
  sm_deadline :: string
  sm_signatureStatus :: string
  sm_signatureHash :: "string option"
  sm_recoveredSubmitter :: "string option"
  sm_evidenceIds :: "string list"
  sm_createdAt :: string
  sm_updatedAt :: string
  sm_status :: submission_status
  sm_statusLabel :: "int list option"
  sm_broadcastStatus :: string
  sm_txHash :: "string option"
  sm_blockNumber :: "string option"
  sm_errorCode :: "string option"
  sm_errorLabel :: "string option"
  sm_errorMessage :: "string option"
  sm_retryable :: "bool option"
  sm_retryState :: "retry_state option"
  sm_deadLetter :: "bool option"
  sm_nextRetryAt :: "string option"
  sm_attempts :: "submission_attempt list"
  sm_attemptCount :: nat
  sm_proofRows :: "(string \<times> string) list"
  sm_reconcileStatus :: "reconcile_status option"
  sm_lastCheckedAt :: "string option"
  sm_receiptStatus :: "receipt_status option"
  sm_projectionStatus :: "projection_status option"

end
