(* ===== verification/KeysetScan.thy ===== *)
theory KeysetScan imports Dates Sorting begin

text \<open>
  Paged scans by a key of two texts: a store hands out its rows page by page behind a cursor,
  a worker walks them to the end. The contract of the store's page is a locale; inside it the
  walk is shown to end and to give every row exactly once.
\<close>

section \<open>Keys\<close>

type_synonym scan_cursor = "string \<times> string"

definition after_key :: "scan_cursor option \<Rightarrow> scan_cursor \<Rightarrow> bool" where
  "after_key after k =
     (case after of
        None \<Rightarrow> True
      | Some (createdAt, name) \<Rightarrow>
          js_less createdAt (fst k) \<or> (fst k = createdAt \<and> js_less name (snd k)))"

definition compare_keys :: "scan_cursor \<Rightarrow> scan_cursor \<Rightarrow> int" where
  "compare_keys l r =
     (let c = localeCompare (fst l) (fst r) in if c \<noteq> 0 then c else localeCompare (snd l) (snd r))"

lemma after_key_None [simp]: "after_key None k"
  by (simp add: after_key_def)

lemma after_key_trans: "after_key after k \<Longrightarrow> after_key (Some k) k' \<Longrightarrow> after_key after k'"
  by (auto simp: after_key_def split: option.splits prod.splits intro: js_less_trans)

lemma after_own_key [simp]: "\<not> after_key (Some k) k"
  by (simp add: after_key_def split: prod.split)

lemma after_key_asym: "after_key (Some k) k' \<Longrightarrow> \<not> after_key (Some k') k"
  using after_key_trans [of "Some k" k' k] by auto

interpretation key_order: js_comparator compare_keys "\<lambda>_. True"
  using js_comparator_then [OF
    js_comparator_on [OF locale_order.js_comparator_axioms, of fst]
    js_comparator_on [OF locale_order.js_comparator_axioms, of snd]]
  unfolding compare_keys_def Let_def .

section \<open>Two orders of texts\<close>

text \<open>
  Pages are cut by code units and sorted by collation. The two orders agree on texts of one
  shape: equal characters, or a digit or lower-case letter against another, position by
  position; time texts and identifiers made of a prefix and a UUID are of one shape.
\<close>

definition plain_char :: "char \<Rightarrow> bool" where
  "plain_char c \<longleftrightarrow> (let n = (of_char c :: nat) in (48 \<le> n \<and> n \<le> 57) \<or> (97 \<le> n \<and> n \<le> 122))"

definition same_shape :: "string \<Rightarrow> string \<Rightarrow> bool" where
  "same_shape s t \<longleftrightarrow> list_all2 (\<lambda>c d. c = d \<or> (plain_char c \<and> plain_char d)) s t"

lemma plain_not_punctuation: "plain_char c \<Longrightarrow> index_of c collation_punctuation = None"
proof (rule ccontr)
  assume plain: "plain_char c" and "index_of c collation_punctuation \<noteq> None"
  then obtain i where "index_of c collation_punctuation = Some i" by auto
  then have "c \<in> set collation_punctuation" using index_of_Some nth_mem by metis
  moreover have "list_all (\<lambda>c. \<not> plain_char c) collation_punctuation" by code_simp
  ultimately show False using plain by (auto simp: list_all_iff)
qed

lemma plain_weights:
  assumes "plain_char c" and "plain_char d"
  shows "primary_weight c < primary_weight d \<longleftrightarrow> (of_char c :: nat) < of_char d"
    and "tertiary_weight c = 0"
proof -
  have lower: "lower_char x = x" if "plain_char x" for x
    using that by (auto simp: plain_char_def lower_char_def Let_def)
  show "primary_weight c < primary_weight d \<longleftrightarrow> (of_char c :: nat) < of_char d"
    using assms by (simp add: primary_weight_def plain_not_punctuation lower Let_def)
      (auto simp: plain_char_def Let_def)
  show "tertiary_weight c = 0" using assms lower by (simp add: tertiary_weight_def)
qed

lemma same_shape_compare:
  "same_shape s t \<Longrightarrow>
     (compare_lex (map primary_weight s) (map primary_weight t) < 0 \<longleftrightarrow> js_less s t)
     \<and> map tertiary_weight s = map tertiary_weight t"
  unfolding same_shape_def
proof (induction s t rule: list_all2_induct)
  case (Cons c s d t)
  show ?case
  proof (cases "c = d")
    case False
    then have plain: "plain_char c" "plain_char d" using Cons.hyps by auto
    have "(of_char c :: nat) \<noteq> of_char d" using False by simp
    then show ?thesis
      using plain_weights [OF plain] plain_weights [OF plain(2,1)] Cons.IH False by auto
  qed (use Cons.IH in simp)
qed simp

lemma same_shape_locale: "same_shape s t \<Longrightarrow> localeCompare s t < 0 \<longleftrightarrow> js_less s t"
  using same_shape_compare [of s t] by (auto simp: localeCompare_def Let_def)

lemma compare_after_key:
  assumes "same_shape (fst k) (fst k')" and "same_shape (snd k) (snd k')"
    and "compare_keys k k' \<le> 0" and "snd k \<noteq> snd k'"
  shows "after_key (Some k) k'"
proof (cases "fst k = fst k'")
  case True
  then have "localeCompare (snd k) (snd k') < 0"
    using assms(3,4) by (simp add: compare_keys_def order.strict_iff_order)
  then show ?thesis using True same_shape_locale [OF assms(2)] by (cases k) (simp add: after_key_def)
next
  case False
  then have "localeCompare (fst k) (fst k') < 0"
    using assms(3) by (simp add: compare_keys_def order.strict_iff_order)
  then show ?thesis using same_shape_locale [OF assms(1)] by (cases k) (simp add: after_key_def)
qed

lemma sorted_after_keys:
  assumes "distinct (map (snd \<circ> key) xs)" and "sorted_wrt (\<lambda>x y. compare_keys (key x) (key y) \<le> 0) xs"
    and "\<forall>x \<in> set xs. \<forall>y \<in> set xs. same_shape (fst (key x)) (fst (key y)) \<and> same_shape (snd (key x)) (snd (key y))"
  shows "sorted_wrt (\<lambda>x y. after_key (Some (key x)) (key y)) xs"
  using assms
proof (induction xs)
  case (Cons x xs)
  have "after_key (Some (key x)) (key y)" if "y \<in> set xs" for y
  proof (rule compare_after_key)
    show "snd (key x) \<noteq> snd (key y)" using Cons.prems(1) that by (force simp: image_iff)
  qed (use Cons.prems that in auto)
  with Cons show ?case by simp
qed simp

section \<open>Pages\<close>

locale paged_rows =
  fixes rows :: "'s \<Rightarrow> 'a list" and key :: "'a \<Rightarrow> scan_cursor"
    and page :: "scan_cursor option \<Rightarrow> int \<Rightarrow> 's \<Rightarrow> 'a list"
  assumes page: "page after limit s = take (nat (max limit 0)) (filter (\<lambda>x. after_key after (key x)) (rows s))"
begin

definition ahead :: "scan_cursor option \<Rightarrow> 's \<Rightarrow> 'a list" where
  "ahead after s = filter (\<lambda>x. after_key after (key x)) (rows s)"

lemma page_ahead: "page after limit s = take (nat (max limit 0)) (ahead after s)"
  by (simp add: page ahead_def)

lemma ahead_shrinks:
  assumes "x \<in> set (ahead after s)"
  shows "length (ahead (Some (key x)) s) < length (ahead after s)"
proof -
  have "after_key (Some (key x)) k \<Longrightarrow> after_key after k" for k
    using assms by (auto simp: ahead_def intro: after_key_trans [of after "key x" k])
  then have both: "(after_key after k \<and> after_key (Some (key x)) k) = after_key (Some (key x)) k" for k
    by blast
  have sub: "ahead (Some (key x)) s = filter (\<lambda>y. after_key (Some (key x)) (key y)) (ahead after s)"
    unfolding ahead_def by (simp add: both conj_commute)
  show ?thesis unfolding sub by (rule length_filter_less [OF assms]) simp
qed

lemma page_shrinks:
  assumes "page after limit s \<noteq> []"
  shows "length (ahead (Some (key (last (page after limit s)))) s) < length (ahead after s)"
proof -
  have "last (page after limit s) \<in> set (page after limit s)" using assms by (rule last_in_set)
  then have "last (page after limit s) \<in> set (ahead after s)"
    unfolding page_ahead by (rule in_set_takeD)
  then show ?thesis by (rule ahead_shrinks)
qed

lemma ahead_sorted:
  assumes "sorted_wrt (\<lambda>x y. after_key (Some (key x)) (key y)) (rows s)" and "rows s = xs @ x # ys"
  shows "ahead (Some (key x)) s = ys"
proof -
  have "filter (\<lambda>y. after_key (Some (key x)) (key y)) xs = []"
    using assms after_key_asym by (auto simp: sorted_wrt_append filter_empty_conv)
  moreover have "filter (\<lambda>y. after_key (Some (key x)) (key y)) ys = ys"
    using assms by (auto simp: sorted_wrt_append intro!: filter_True)
  ultimately show ?thesis using assms(2) by (simp add: ahead_def)
qed

text \<open>A walk that asks for the next page behind the last row of a full one gives all rows.\<close>

lemma walk_from:
  assumes walk: "\<And>after. walk after = (let p = page after limit s in
      if p = [] then [] else if int (length p) < limit then p else p @ walk (Some (key (last p))))"
    and sorted: "sorted_wrt (\<lambda>x y. after_key (Some (key x)) (key y)) (rows s)"
    and limit: "0 < limit" and start: "ahead after s = drop k (rows s)"
  shows "walk after = drop k (rows s)"
  using start
proof (induction "length (rows s) - k" arbitrary: k after rule: less_induct)
  case less
  define n where "n = nat limit"
  define rest where "rest = drop k (rows s)"
  have n: "0 < n" "limit = int n" using limit by (simp_all add: n_def)
  have got: "page after limit s = take n rest"
    using less.prems limit by (simp add: page_ahead n_def rest_def max_def)
  show ?case
  proof (cases "length rest < n")
    case True
    then have "int (length (take n rest)) < limit" "take n rest = rest" by (simp_all add: n(2))
    then show ?thesis
      by (subst walk) (simp add: got Let_def rest_def [symmetric])
  next
    case False
    define x where "x = rest ! (n - 1)"
    have rest: "rest = take (n - 1) rest @ x # drop n rest"
      using False n(1) id_take_nth_drop [of "n - 1" rest] by (simp add: x_def)
    have "take (Suc (n - 1)) rest = take (n - 1) rest @ [x]"
      using False n(1) unfolding x_def by (intro take_Suc_conv_app_nth) simp
    then have last: "last (take n rest) = x" using n(1) by simp
    have whole: "rows s = (take k (rows s) @ take (n - 1) rest) @ x # drop n rest"
      using rest by (metis append.assoc append_take_drop_id rest_def)
    have ahead: "ahead (Some (key x)) s = drop (k + n) (rows s)"
      using ahead_sorted [OF sorted whole] by (simp add: rest_def add.commute)
    have "k < length (rows s)" using False n(1) by (auto simp: rest_def)
    then have "length (rows s) - (k + n) < length (rows s) - k" using n(1) by linarith
    from less.hyps [OF this ahead]
    have next_page: "walk (Some (key x)) = drop n rest" by (simp add: rest_def add.commute)
    have full: "length (take n rest) = n" "take n rest \<noteq> []" using False n(1) by auto
    have "\<not> int (length (take n rest)) < limit" using full(1) n(2) by simp
    then have "walk after = take n rest @ drop n rest"
      by (subst walk)
        (simp add: got Let_def full(2) last next_page del: append_take_drop_id length_take take_eq_Nil)
    then show ?thesis by (simp only: append_take_drop_id rest_def)
  qed
qed

lemma walk_complete:
  assumes "\<And>after. walk after = (let p = page after limit s in
      if p = [] then [] else if int (length p) < limit then p else p @ walk (Some (key (last p))))"
    and "sorted_wrt (\<lambda>x y. after_key (Some (key x)) (key y)) (rows s)" and "0 < limit"
  shows "walk None = rows s"
  using walk_from [OF assms, of None 0] by (simp add: ahead_def)

end

text \<open>
  Walks over a paged scan by a worker that writes to the rows it scans. The contract says what
  its writes leave alone; inside it the walk is shown to end for any page size, and to work,
  on sorted rows, on exactly the rows of the state it started from.
\<close>

text \<open>
  \<open>process\<close> is the work on a row and \<open>view\<close> the scanned store in the state of the worker.
  Work on a known row changes no keys and nothing behind the row's own key.
\<close>

locale written_scan = paged_rows rows key page
  for rows :: "'s \<Rightarrow> 'a list" and key :: "'a \<Rightarrow> scan_cursor"
    and page :: "scan_cursor option \<Rightarrow> int \<Rightarrow> 's \<Rightarrow> 'a list" +
  fixes view :: "'w \<Rightarrow> 's" and process :: "'w \<Rightarrow> 'a \<Rightarrow> 'w"
    and good :: "'w \<Rightarrow> bool" and known :: "'w \<Rightarrow> 'a \<Rightarrow> bool"
    and keys :: "'s \<Rightarrow> scan_cursor set"
  assumes finite_keys: "finite (keys s)"
    and row_keys: "x \<in> set (rows s) \<Longrightarrow> key x \<in> keys s"
    and rows_known: "good w \<Longrightarrow> x \<in> set (rows (view w)) \<Longrightarrow> known w x"
    and good_kept: "good w \<Longrightarrow> known w x \<Longrightarrow> good (process w x)"
    and known_kept: "good w \<Longrightarrow> known w x \<Longrightarrow> known w y \<Longrightarrow> known (process w x) y"
    and keys_kept: "good w \<Longrightarrow> known w x \<Longrightarrow> keys (view (process w x)) = keys (view w)"
    and ahead_kept: "good w \<Longrightarrow> known w x \<Longrightarrow> \<not> after_key (Some k) (key x) \<Longrightarrow>
      ahead (Some k) (view (process w x)) = ahead (Some k) (view w)"
begin

lemma fold_kept:
  assumes "good w" and "\<forall>x \<in> set xs. known w x"
  shows "good (foldl process w xs) \<and> (\<forall>y. known w y \<longrightarrow> known (foldl process w xs) y)
    \<and> keys (view (foldl process w xs)) = keys (view w)
    \<and> ((\<forall>x \<in> set xs. \<not> after_key (Some k) (key x)) \<longrightarrow>
        ahead (Some k) (view (foldl process w xs)) = ahead (Some k) (view w))"
  using assms
proof (induction xs arbitrary: w)
  case (Cons x xs)
  have x: "known w x" using Cons.prems by simp
  have "good (process w x)" "\<forall>y \<in> set xs. known (process w x) y"
    using Cons.prems x good_kept known_kept by auto
  from Cons.IH [OF this] show ?case
    using Cons.prems(1) x known_kept keys_kept ahead_kept by auto
qed simp

lemma ahead_again:
  assumes "x \<in> set (ahead after s)"
  shows "ahead (Some (key x)) s = filter (\<lambda>y. after_key (Some (key x)) (key y)) (ahead after s)"
proof -
  have "after_key after (key x)" using assms by (simp add: ahead_def)
  then have "after_key (Some (key x)) k \<Longrightarrow> after_key after k" for k by (rule after_key_trans)
  then have "(after_key after k \<and> after_key (Some (key x)) k) = after_key (Some (key x)) k" for k by blast
  then show ?thesis by (simp add: ahead_def conj_commute)
qed

lemma page_known: "good w \<Longrightarrow> x \<in> set (page after limit (view w)) \<Longrightarrow> known w x"
  unfolding page_ahead ahead_def by (auto dest!: in_set_takeD intro: rows_known)

lemma page_after: "x \<in> set (page after limit s) \<Longrightarrow> after_key after (key x) \<and> key x \<in> keys s"
  unfolding page_ahead ahead_def by (auto dest!: in_set_takeD intro: row_keys)

text \<open>The cursor moves up through the keys, which stay the same, so the walk ends.\<close>

lemma walk_ends:
  assumes walk: "\<And>after w. walk after w = (let p = page after limit (view w); w' = foldl process w p in
      if p = [] then Some w else if int (length p) < limit then Some w'
      else walk (Some (key (last p))) w')"
    and "good w"
  shows "\<exists>w'. walk after w = Some w' \<and> good w'"
  using assms(2)
proof (induction "card {k \<in> keys (view w). after_key after k}" arbitrary: after w rule: less_induct)
  case less
  define p where "p = page after limit (view w)"
  define w' where "w' = foldl process w p"
  have "\<forall>x \<in> set p. known w x" using less.prems page_known by (auto simp: p_def)
  from fold_kept [OF less.prems this] have kept: "good w'" "keys (view w') = keys (view w)"
    by (simp_all add: w'_def)
  show ?case
  proof (cases "p = [] \<or> int (length p) < limit")
    case True
    then show ?thesis
      using less.prems kept(1) by (subst walk) (auto simp: Let_def p_def [symmetric] w'_def [symmetric])
  next
    case False
    define k where "k = key (last p)"
    have "last p \<in> set p" using False by simp
    then have k: "after_key after k" "k \<in> keys (view w)"
      using page_after by (simp_all add: p_def k_def)
    have "after_key after j" if "after_key (Some k) j" for j using k(1) that by (rule after_key_trans)
    then have "{j \<in> keys (view w). after_key (Some k) j} \<subseteq> {j \<in> keys (view w). after_key after j} - {k}"
      by auto
    then have "{j \<in> keys (view w). after_key (Some k) j} \<subset> {j \<in> keys (view w). after_key after j}"
      using k by auto
    then have "card {j \<in> keys (view w'). after_key (Some k) j} < card {j \<in> keys (view w). after_key after j}"
      unfolding kept(2) using finite_keys by (intro psubset_card_mono) auto
    from less.hyps [OF this kept(1)] show ?thesis
      using False by (subst walk) (simp add: Let_def p_def [symmetric] w'_def [symmetric] k_def [symmetric])
  qed
qed

text \<open>On sorted rows the walk works on the rows of the first state, in their order.\<close>

lemma walk_folds_from:
  assumes walk: "\<And>after w. walk after w = (let p = page after limit (view w); w' = foldl process w p in
      if p = [] then Some w else if int (length p) < limit then Some w'
      else walk (Some (key (last p))) w')"
    and limit: "0 < limit" and "good w"
    and "sorted_wrt (\<lambda>x y. after_key (Some (key x)) (key y)) (ahead after (view w))"
  shows "walk after w = Some (foldl process w (ahead after (view w)))"
  using assms(3,4)
proof (induction "length (ahead after (view w))" arbitrary: after w rule: less_induct)
  case less
  define rest where "rest = ahead after (view w)"
  define n where "n = nat limit"
  define w' where "w' = foldl process w (take n rest)"
  have n: "0 < n" "limit = int n" using limit by (simp_all add: n_def)
  have p: "page after limit (view w) = take n rest"
    using limit by (simp add: page_ahead n_def rest_def max_def)
  have known: "\<forall>x \<in> set (take n rest). known w x" using less.prems(1) page_known p by metis
  show ?case
  proof (cases "length rest < n")
    case True
    then have "take n rest = rest" "int (length rest) < limit" by (simp_all add: n(2))
    then show ?thesis by (subst walk) (simp add: p Let_def rest_def [symmetric])
  next
    case False
    define x where "x = last (take n rest)"
    have some: "take n rest \<noteq> []" "\<not> int (length (take n rest)) < limit" using False n by auto
    have split: "rest = butlast (take n rest) @ x # drop n rest"
      using some(1) append_butlast_last_id [of "take n rest"] append_take_drop_id [of n rest]
      unfolding x_def by (metis append.assoc append_Cons append_Nil)
    have sorted: "sorted_wrt (\<lambda>x y. after_key (Some (key x)) (key y)) (butlast (take n rest) @ x # drop n rest)"
      using less.prems(2) split by (simp add: rest_def)
    have before: "\<forall>y \<in> set (butlast (take n rest)). after_key (Some (key y)) (key x)"
      using sorted by (auto simp: sorted_wrt_append)
    have "take n rest = butlast (take n rest) @ [x]" using some(1) by (simp add: x_def)
    then have "set (take n rest) = set (butlast (take n rest)) \<union> {x}"
      by (metis list.set(1) list.simps(15) set_append)
    then have "\<forall>y \<in> set (take n rest). \<not> after_key (Some (key x)) (key y)"
      using before after_key_asym by auto
    with fold_kept [OF less.prems(1) known, of "key x"] have w': "good w'"
      "ahead (Some (key x)) (view w') = ahead (Some (key x)) (view w)" by (simp_all add: w'_def)
    have "x \<in> set rest" by (subst split) simp
    then have "ahead (Some (key x)) (view w) = filter (\<lambda>y. after_key (Some (key x)) (key y)) rest"
      by (simp add: rest_def ahead_again)
    also have "\<dots> = drop n rest"
    proof -
      have "filter (\<lambda>y. after_key (Some (key x)) (key y)) (butlast (take n rest)) = []"
        using before after_key_asym by (auto simp: filter_empty_conv)
      moreover have "filter (\<lambda>y. after_key (Some (key x)) (key y)) (drop n rest) = drop n rest"
        using sorted by (auto simp: sorted_wrt_append intro!: filter_True)
      ultimately show ?thesis by (subst split) simp
    qed
    finally have ahead: "ahead (Some (key x)) (view w') = drop n rest" by (simp add: w'(2))
    have "length (ahead (Some (key x)) (view w')) < length (ahead after (view w))"
      unfolding ahead rest_def [symmetric] using False n(1) by simp
    moreover have "sorted_wrt (\<lambda>x y. after_key (Some (key x)) (key y)) (ahead (Some (key x)) (view w'))"
      unfolding ahead using sorted by (simp add: sorted_wrt_append)
    ultimately have "walk (Some (key x)) w' = Some (foldl process w' (drop n rest))"
      using less.hyps [of "Some (key x)" w'] w'(1) by (simp add: ahead)
    then have "walk after w = Some (foldl process w' (drop n rest))"
      using some by (subst walk) (simp add: p Let_def w'_def [symmetric] x_def [symmetric])
    also have "foldl process w' (drop n rest) = foldl process w rest"
      unfolding w'_def by (simp only: foldl_append [symmetric] append_take_drop_id)
    finally show ?thesis by (simp add: rest_def)
  qed
qed

lemma walk_folds:
  assumes "\<And>after w. walk after w = (let p = page after limit (view w); w' = foldl process w p in
      if p = [] then Some w else if int (length p) < limit then Some w'
      else walk (Some (key (last p))) w')"
    and "0 < limit" and "good w"
    and "sorted_wrt (\<lambda>x y. after_key (Some (key x)) (key y)) (rows (view w))"
  shows "walk None w = Some (foldl process w (rows (view w)))"
  using walk_folds_from [OF assms(1-3), of None] assms(4) by (simp add: ahead_def)

end

end
