(* ===== verification/SubmissionStore.thy ===== *)
theory SubmissionStore imports SubmissionTypes KeysetScan begin

text \<open>
  The store of prepared submissions, submissions and reserved nonces
  (\<open>submissions/store.ts\<close>), the contract its nonce reservations keep, and the scan of the open
  submissions page by page (\<open>iterateOpenSubmissions\<close> of \<open>reconcile/worker.ts\<close>).
\<close>

section \<open>Operations\<close>

record submission_store =
  st_prepared :: "(string, prepared_record) jsmap"
  st_submissions :: "(string, submission) jsmap"
  st_nonces :: "(string, string) jsmap"

definition empty_submission_store :: submission_store where
  "empty_submission_store = \<lparr>st_prepared = [], st_submissions = [], st_nonces = []\<rparr>"

definition putPrepared :: "prepared_record \<Rightarrow> submission_store \<Rightarrow> submission_store" where
  "putPrepared p st = st\<lparr>st_prepared := jset (pr_prepareId p) p (st_prepared st)\<rparr>"

definition getPrepared :: "string \<Rightarrow> submission_store \<Rightarrow> prepared_record option" where
  "getPrepared prepareId st = jget (st_prepared st) prepareId"

definition markPreparedUsed ::
  "string \<Rightarrow> string \<Rightarrow> string \<Rightarrow> submission_store \<Rightarrow> submission_store" where
  "markPreparedUsed prepareId submissionId usedAt st =
     (case jget (st_prepared st) prepareId of
        None \<Rightarrow> st
      | Some p \<Rightarrow> st\<lparr>st_prepared := jset prepareId
          (p\<lparr>pr_usedAt := Some usedAt, pr_submissionId := Some submissionId\<rparr>) (st_prepared st)\<rparr>)"

text \<open>
  \<open>reservedAt\<close> is the time text of the store's own clock. A present reservation is taken over
  only when a threshold is given and it is older.
\<close>

definition reserveNonce ::
  "string \<Rightarrow> string option \<Rightarrow> string \<Rightarrow> submission_store \<Rightarrow> bool \<times> submission_store" where
  "reserveNonce key staleBefore reservedAt st =
     (let set = st\<lparr>st_nonces := jset key reservedAt (st_nonces st)\<rparr> in
      case jget (st_nonces st) key of
        Some existing \<Rightarrow>
          (case staleBefore of
             None \<Rightarrow> (False, st)
           | Some limit \<Rightarrow>
               if limit = [] \<or> \<not> js_less existing limit then (False, st) else (True, set))
      | None \<Rightarrow> (True, set))"

definition releaseNonce :: "string \<Rightarrow> submission_store \<Rightarrow> submission_store" where
  "releaseNonce key st = st\<lparr>st_nonces := jdelete key (st_nonces st)\<rparr>"

definition putSubmission :: "submission \<Rightarrow> submission_store \<Rightarrow> submission_store" where
  "putSubmission sm st = st\<lparr>st_submissions := jset (sm_submissionId sm) sm (st_submissions st)\<rparr>"

definition getSubmission_store :: "string \<Rightarrow> submission_store \<Rightarrow> submission option" where
  "getSubmission_store submissionId st = jget (st_submissions st) submissionId"

definition compareSubmissionCreatedAsc :: "submission \<Rightarrow> submission \<Rightarrow> int" where
  "compareSubmissionCreatedAsc l r =
     (let c = localeCompare (sm_createdAt l) (sm_createdAt r) in
      if c \<noteq> 0 then c else localeCompare (sm_submissionId l) (sm_submissionId r))"

definition listSubmissions :: "submission_store \<Rightarrow> submission list" where
  "listSubmissions st = js_sort compareSubmissionCreatedAsc (jvalues (st_submissions st))"

definition OPEN_SUBMISSION_STATUSES :: "submission_status list" where
  "OPEN_SUBMISSION_STATUSES = [SubBroadcasting, SubSubmitted, SubIndexing, SubFailed]"

definition is_open :: "submission \<Rightarrow> bool" where
  "is_open sm = List.member OPEN_SUBMISSION_STATUSES (sm_status sm)"

definition cursor_of :: "submission \<Rightarrow> scan_cursor" where
  "cursor_of sm = (sm_createdAt sm, sm_submissionId sm)"

definition after_cursor :: "scan_cursor option \<Rightarrow> submission \<Rightarrow> bool" where
  "after_cursor after sm =
     (case after of
        None \<Rightarrow> True
      | Some (createdAt, submissionId) \<Rightarrow>
          js_less createdAt (sm_createdAt sm)
          \<or> (sm_createdAt sm = createdAt \<and> js_less submissionId (sm_submissionId sm)))"

definition listOpenSubmissionsPage ::
  "scan_cursor option \<Rightarrow> int \<Rightarrow> submission_store \<Rightarrow> submission list" where
  "listOpenSubmissionsPage after limit st =
     take (nat (max limit 0)) (filter (after_cursor after) (filter is_open (listSubmissions st)))"

section \<open>The scan\<close>

definition open_rows :: "submission_store \<Rightarrow> submission list" where
  "open_rows st = filter is_open (listSubmissions st)"

lemma after_cursor_key: "after_cursor after sm = after_key after (cursor_of sm)"
  by (auto simp: after_cursor_def after_key_def cursor_of_def split: option.split)

interpretation submission_pages: paged_rows open_rows cursor_of listOpenSubmissionsPage
  by unfold_locales (simp add: listOpenSubmissionsPage_def open_rows_def after_cursor_key)

function iterateOpenSubmissions ::
  "submission_store \<Rightarrow> int \<Rightarrow> scan_cursor option \<Rightarrow> submission list" where
  "iterateOpenSubmissions st pageSize after =
     (let page = listOpenSubmissionsPage after pageSize st in
      if page = [] then []
      else if int (length page) < pageSize then page
      else page @ iterateOpenSubmissions st pageSize (Some (cursor_of (last page))))"
  by pat_completeness auto
termination
  by (relation "measure (\<lambda>(st, pageSize, after). length (submission_pages.ahead after st))")
    (simp_all add: submission_pages.page_shrinks)

declare iterateOpenSubmissions.simps [simp del]

section \<open>The contract of nonce reservations\<close>

text \<open>
  What the service relies on: a nonce is granted when it is free or when its reservation is
  older than the given limit, a grant sets its time, a release frees it, and other nonces are
  untouched.
\<close>

locale nonce_table =
  fixes held :: "'k \<Rightarrow> 's \<Rightarrow> 't option"
    and reserve :: "'k \<Rightarrow> 't option \<Rightarrow> 't \<Rightarrow> 's \<Rightarrow> bool \<times> 's"
    and release :: "'k \<Rightarrow> 's \<Rightarrow> 's"
    and older :: "'t \<Rightarrow> 't \<Rightarrow> bool"
  assumes granted: "fst (reserve k limit now s) \<longleftrightarrow>
      held k s = None \<or> (\<exists>t l. held k s = Some t \<and> limit = Some l \<and> older t l)"
    and held_reserve: "held k' (snd (reserve k limit now s)) =
      (if k' = k \<and> fst (reserve k limit now s) then Some now else held k' s)"
    and held_release: "held k' (release k s) = (if k' = k then None else held k' s)"
begin

text \<open>A grant that takes nothing over keeps the holders of nonces apart.\<close>

lemma grant_apart:
  assumes "distinct ks" and "\<forall>k \<in> set ks. held k s \<noteq> None" and "held n s = None"
  shows "distinct (n # ks) \<and> (\<forall>k \<in> set (n # ks). held k (snd (reserve n limit now s)) \<noteq> None)"
  using assms by (auto simp: held_reserve granted)

lemma refused_unchanged: "\<not> fst (reserve n limit now s) \<Longrightarrow> held k (snd (reserve n limit now s)) = held k s"
  by (simp add: held_reserve)

lemma grant_kept: "held k s \<noteq> None \<Longrightarrow> held k (snd (reserve n limit now s)) \<noteq> None"
  by (auto simp: held_reserve granted)

end

definition nonce_held :: "string \<Rightarrow> submission_store \<Rightarrow> string option" where
  "nonce_held k st = jget (st_nonces st) k"

lemma js_less_Nil [simp]: "\<not> js_less s []"
  by (cases s) auto

interpretation store_nonces: nonce_table nonce_held reserveNonce releaseNonce js_less
proof
  fix k k' :: string and limit now s
  show "fst (reserveNonce k limit now s) \<longleftrightarrow>
      nonce_held k s = None \<or> (\<exists>t l. nonce_held k s = Some t \<and> limit = Some l \<and> js_less t l)"
    by (auto simp: reserveNonce_def nonce_held_def Let_def split: option.splits)
  show "nonce_held k' (snd (reserveNonce k limit now s)) =
      (if k' = k \<and> fst (reserveNonce k limit now s) then Some now else nonce_held k' s)"
    by (auto simp: reserveNonce_def nonce_held_def Let_def split: option.splits)
  show "nonce_held k' (releaseNonce k s) = (if k' = k then None else nonce_held k' s)"
    by (simp add: releaseNonce_def nonce_held_def delete_conv')
qed

section \<open>Completeness of the scan\<close>

lemma compare_by_cursor: "compareSubmissionCreatedAsc x y = compare_keys (cursor_of x) (cursor_of y)"
  by (simp add: compareSubmissionCreatedAsc_def compare_keys_def cursor_of_def)

interpretation submission_order: js_comparator compareSubmissionCreatedAsc "\<lambda>_. True"
  using js_comparator_on [OF key_order.js_comparator_axioms, of cursor_of]
  unfolding compare_by_cursor [symmetric] .

lemma sorted_open_rows:
  assumes "distinct (jkeys (st_submissions st))"
    and "\<forall>(key, sm) \<in> set (st_submissions st). key = sm_submissionId sm"
    and "\<forall>x \<in> set (open_rows st). \<forall>y \<in> set (open_rows st).
      same_shape (sm_createdAt x) (sm_createdAt y) \<and> same_shape (sm_submissionId x) (sm_submissionId y)"
  shows "sorted_wrt (\<lambda>x y. after_key (Some (cursor_of x)) (cursor_of y)) (open_rows st)"
proof -
  have ids: "map sm_submissionId (jvalues (st_submissions st)) = jkeys (st_submissions st)"
    using assms(2) by (auto simp: comp_def)
  have "distinct (map sm_submissionId (open_rows st))"
    unfolding open_rows_def listSubmissions_def
    using assms(1) by (intro distinct_map_filter) (simp only: distinct_map_js_sort ids)
  moreover have "sorted_wrt (\<lambda>x y. compareSubmissionCreatedAsc x y \<le> 0) (open_rows st)"
    unfolding open_rows_def listSubmissions_def
    by (intro sorted_wrt_filter submission_order.sorted_js_sort) simp
  ultimately show ?thesis
    using assms(3) by (intro sorted_after_keys) (simp_all add: cursor_of_def comp_def compare_by_cursor)
qed

text \<open>C33: The scan of the open submissions returns every open one exactly once, in the order of
  the list, whatever the page size: the cursor neither skips nor repeats a row, for records
  whose times and identifiers are texts of one shape.\<close>

theorem open_scan_is_complete:
  assumes "0 < pageSize" and "distinct (jkeys (st_submissions st))"
    and "\<forall>(key, sm) \<in> set (st_submissions st). key = sm_submissionId sm"
    and "\<forall>x \<in> set (open_rows st). \<forall>y \<in> set (open_rows st).
      same_shape (sm_createdAt x) (sm_createdAt y) \<and> same_shape (sm_submissionId x) (sm_submissionId y)"
  shows "iterateOpenSubmissions st pageSize None = filter is_open (listSubmissions st)
    \<and> mset (iterateOpenSubmissions st pageSize None) = filter_mset is_open (mset (jvalues (st_submissions st)))"
proof -
  from submission_pages.walk_complete [OF _ sorted_open_rows [OF assms(2-4)] assms(1),
      of "iterateOpenSubmissions st pageSize"]
  have "iterateOpenSubmissions st pageSize None = filter is_open (listSubmissions st)"
    by (simp add: iterateOpenSubmissions.simps [of st pageSize] open_rows_def)
  then show ?thesis
    by (simp add: listSubmissions_def)
qed

end
