(* ===== verification/SecureBroadcast.thy ===== *)
theory SecureBroadcast imports SubmissionTypes begin

text \<open>
  The wrapper around a broadcast adapter (\<open>submissions/safe-broadcast-adapter.ts\<close>) and the
  store of its de-duplication state (\<open>broadcast-dedupe-sqlite-store.ts\<close>). The asynchronous
  \<open>broadcast\<close> is cut at its \<open>await\<close>s: a call is a request with the point where it waits, a
  step resumes one call with what it was waiting for, and calls interleave freely between
  their steps.
\<close>

section \<open>Configuration\<close>

record secure_options =
  so_maxInFlightPerOrder :: "int option"
  so_maxInFlightPerSubmitter :: "int option"
  so_maxRetry :: "int option"
  so_maxRetryAttempts :: "int option"
  so_retryBaseMs :: "int option"
  so_retryMaxMs :: "int option"

record secure_config =
  sc_maxInFlightPerOrder :: int
  sc_maxInFlightPerSubmitter :: int
  sc_maxRetry :: int
  sc_retryBaseMs :: int
  sc_retryMaxMs :: int

definition or_default :: "'a option \<Rightarrow> 'a \<Rightarrow> 'a" where
  "or_default v d = (case v of None \<Rightarrow> d | Some x \<Rightarrow> x)"

lemma or_default_simps [simp]: "or_default None d = d" "or_default (Some x) d = x"
  by (simp_all add: or_default_def)

definition secure_config_of :: "secure_options \<Rightarrow> secure_config" where
  "secure_config_of so =
     \<lparr>sc_maxInFlightPerOrder = or_default (so_maxInFlightPerOrder so) 1,
      sc_maxInFlightPerSubmitter = or_default (so_maxInFlightPerSubmitter so) 1,
      sc_maxRetry = or_default (opt_or (so_maxRetryAttempts so) (so_maxRetry so)) 3,
      sc_retryBaseMs = or_default (so_retryBaseMs so) 250,
      sc_retryMaxMs = or_default (so_retryMaxMs so) 5000\<rparr>"

section \<open>Failures and retries\<close>

definition retryStateFor_broadcast :: "bool \<Rightarrow> bool \<Rightarrow> retry_state" where
  "retryStateFor_broadcast retryable deadLetter =
     (if deadLetter then RsDeadLetter else if retryable then RsRetryable else RsNotRetryable)"

definition errorLabelForBroadcastError_safe :: "string \<Rightarrow> string" where
  "errorLabelForBroadcastError_safe errorCode =
     (if errorCode = ''broadcast_rate_limited'' then ''Broadcast is rate limited''
      else if errorCode = ''broadcast_retry_exhausted'' then ''Retry limit reached''
      else if errorCode = ''duplicate_tx_hash'' then ''Duplicate transaction hash''
      else if errorCode = ''invalid_signal_signature'' then ''Wallet signature is invalid''
      else if errorCode = ''rpc_timeout'' then ''RPC request timed out''
      else errorCode)"

text \<open>
  The next attempt doubles the delay up to the maximum; a non-positive base or maximum
  switches the schedule off. \<open>t\<close> is the time \<open>now()\<close> returns.
\<close>

definition retry_delay :: "secure_config \<Rightarrow> int \<Rightarrow> int" where
  "retry_delay cfg attempts =
     min (sc_retryMaxMs cfg) (sc_retryBaseMs cfg * 2 ^ nat (max (attempts - 1) 0))"

definition retrySchedule :: "secure_config \<Rightarrow> int \<Rightarrow> int \<Rightarrow> string option" where
  "retrySchedule cfg t attempts =
     (if sc_retryBaseMs cfg \<le> 0 \<or> sc_retryMaxMs cfg \<le> 0 then None
      else Some (toISOString (t + retry_delay cfg attempts)))"

definition failedBroadcastResult ::
  "string \<Rightarrow> string \<Rightarrow> bool \<Rightarrow> int \<Rightarrow> bool option \<Rightarrow> string option \<Rightarrow> broadcast_failure" where
  "failedBroadcastResult errorCode message retryable attempts deadLetterOption nextRetryAt =
     (let deadLetter = or_default deadLetterOption (\<not> retryable);
          retryState = retryStateFor_broadcast retryable deadLetter;
          label = errorLabelForBroadcastError_safe errorCode in
      \<lparr>bf_txHash = None, bf_blockNumber = None, bf_errorCode = errorCode,
       bf_errorLabel = Some label, bf_message = message, bf_retryable = retryable,
       bf_retryState = Some retryState, bf_deadLetter = Some deadLetter,
       bf_nextRetryAt = keep_truthy nextRetryAt,
       bf_attempt = Some ((bare_attempt ''failed'')\<lparr>ba_errorCode := Some errorCode,
         ba_errorLabel := Some label, ba_errorMessage := Some message,
         ba_attemptNumber := Some (attempts + 1), ba_retryable := Some retryable,
         ba_retryState := Some retryState, ba_deadLetter := Some deadLetter,
         ba_nextRetryAt := keep_truthy nextRetryAt\<rparr>)\<rparr>)"

definition with_failure_metadata ::
  "secure_config \<Rightarrow> int \<Rightarrow> broadcast_failure \<Rightarrow> int \<Rightarrow> broadcast_failure" where
  "with_failure_metadata cfg t f attemptNumber =
     (let deadLetter = or_default (bf_deadLetter f) (\<not> bf_retryable f);
          retryState = or_default (bf_retryState f)
            (retryStateFor_broadcast (bf_retryable f) deadLetter);
          schedule = (if truthy (bf_nextRetryAt f) then bf_nextRetryAt f
            else if bf_retryable f then retrySchedule cfg t attemptNumber else None);
          a = or_default (bf_attempt f) (bare_attempt ''failed'') in
      f\<lparr>bf_retryState := Some retryState, bf_deadLetter := Some deadLetter,
        bf_nextRetryAt := opt_or schedule (bf_nextRetryAt f),
        bf_attempt := Some (a\<lparr>ba_attemptNumber := opt_or (ba_attemptNumber a) (Some attemptNumber),
          ba_retryable := opt_or (ba_retryable a) (Some (bf_retryable f)),
          ba_retryState := opt_or (ba_retryState a) (Some retryState),
          ba_deadLetter := opt_or (ba_deadLetter a) (Some deadLetter),
          ba_nextRetryAt := (if truthy schedule then schedule else ba_nextRetryAt a)\<rparr>)\<rparr>)"

definition with_success_metadata :: "int \<Rightarrow> broadcast_attempt option \<Rightarrow> broadcast_attempt option" where
  "with_success_metadata attemptNumber a = map_option (\<lambda>a.
     a\<lparr>ba_attemptNumber := opt_or (ba_attemptNumber a) (Some attemptNumber),
       ba_retryable := opt_or (ba_retryable a) (Some False),
       ba_retryState := opt_or (ba_retryState a) (Some RsNotApplicable),
       ba_deadLetter := opt_or (ba_deadLetter a) (Some False)\<rparr>) a"

fun withAttemptMetadata ::
  "secure_config \<Rightarrow> int \<Rightarrow> broadcast_result \<Rightarrow> int \<Rightarrow> broadcast_result" where
  "withAttemptMetadata cfg t (BrFailed f) n = BrFailed (with_failure_metadata cfg t f n)"
| "withAttemptMetadata cfg t (BrBroadcasting h a) n = BrBroadcasting h (with_success_metadata n a)"
| "withAttemptMetadata cfg t (BrSubmitted h b a) n = BrSubmitted h b (with_success_metadata n a)"
| "withAttemptMetadata cfg t (BrConfirmed h b a) n = BrConfirmed h b (with_success_metadata n a)"
| "withAttemptMetadata cfg t (BrNotAttempted c r) n = BrNotAttempted c r"

section \<open>Recorded outcomes\<close>

record broadcast_state =
  bs_attempts :: int
  bs_lastResult :: broadcast_result

text \<open>
  The answer for a key that has an outcome already: a success or a failure that cannot be
  retried is replayed as it is, a failure with its retries used up becomes a final one.
\<close>

definition duplicateResult :: "broadcast_state option \<Rightarrow> int \<Rightarrow> broadcast_result option" where
  "duplicateResult st maxRetry =
     (case st of
        None \<Rightarrow> None
      | Some s \<Rightarrow>
          (case bs_lastResult s of
             BrFailed f \<Rightarrow>
               if \<not> bf_retryable f then Some (BrFailed f)
               else if maxRetry < bs_attempts s then
                 Some (BrFailed (failedBroadcastResult ''broadcast_retry_exhausted''
                   ''broadcast retry limit has been reached'' False (bs_attempts s) (Some True) None))
               else None
           | r \<Rightarrow> Some r))"

text \<open>The hash a result reports; of a failure, the one of its attempt.\<close>

fun result_txHash :: "broadcast_result \<Rightarrow> string option" where
  "result_txHash (BrBroadcasting h a) = keep_truthy h"
| "result_txHash (BrSubmitted h b a) = keep_truthy (Some h)"
| "result_txHash (BrConfirmed h b a) = keep_truthy (Some h)"
| "result_txHash (BrNotAttempted c r) = None"
| "result_txHash (BrFailed f) =
     keep_truthy (case bf_attempt f of None \<Rightarrow> None | Some a \<Rightarrow> ba_txHash a)"

definition claimed_hash :: "broadcast_result \<Rightarrow> string option" where
  "claimed_hash r = map_option toLowerCase (result_txHash r)"

definition duplicate_hash_failure :: "int \<Rightarrow> broadcast_result" where
  "duplicate_hash_failure attemptNumber =
     BrFailed (failedBroadcastResult ''duplicate_tx_hash''
       ''broadcast returned a txHash already recorded for another submission'' False attemptNumber
       (Some True) None)"

section \<open>The persistent store\<close>

text \<open>
  The two tables of the store, read and written by single statements. \<open>claimTxHash\<close>
  inserts the owner or keeps the present one, and names an owner other than the caller.
\<close>

record dedupe_store =
  dd_states :: "(string, broadcast_state) jsmap"
  dd_owners :: "(string, string) jsmap"

definition dedupe_load :: "dedupe_store \<Rightarrow> string \<Rightarrow> broadcast_state option" where
  "dedupe_load d key = jget (dd_states d) key"

definition dedupe_save :: "dedupe_store \<Rightarrow> string \<Rightarrow> broadcast_state \<Rightarrow> dedupe_store" where
  "dedupe_save d key st = d\<lparr>dd_states := jset key st (dd_states d)\<rparr>"

definition dedupe_claimTxHash ::
  "dedupe_store \<Rightarrow> string \<Rightarrow> string \<Rightarrow> dedupe_store \<times> string option" where
  "dedupe_claimTxHash d txHash key =
     (let h = toLowerCase txHash in
      case jget (dd_owners d) h of
        None \<Rightarrow> (d\<lparr>dd_owners := jset h key (dd_owners d)\<rparr>, None)
      | Some owner \<Rightarrow> (d, if owner \<noteq> key then Some owner else None))"

section \<open>A call, segment by segment\<close>

record secure_state =
  sb_states :: "(string, broadcast_state) jsmap"
  sb_inFlightByOrder :: "(string, int) jsmap"
  sb_inFlightBySubmitter :: "(string, int) jsmap"
  sb_txHashOwners :: "(string, string) jsmap"
  sb_dedupe :: "dedupe_store option"

definition fresh_secure_state :: "dedupe_store option \<Rightarrow> secure_state" where
  "fresh_secure_state d =
     \<lparr>sb_states = [], sb_inFlightByOrder = [], sb_inFlightBySubmitter = [],
      sb_txHashOwners = [], sb_dedupe = d\<rparr>"

text \<open>
  Where a call waits: for the store's \<open>load\<close>, for the answer of \<open>currentStateFor\<close>, for the
  audit of a duplicate, of a rate limit or of the request, for the adapter, for
  \<open>claimTxHash\<close> and its continuation, for the answer of \<open>duplicateTxHashResult\<close>, for \<open>save\<close>,
  for the audit of a failure. The last two
  are the ends of a call: its promise is resolved or rejected.
\<close>

datatype broadcast_pc =
    BcLoading
  | BcLoaded "broadcast_state option"
  | BcDuplicate broadcast_result
  | BcLimited broadcast_result
  | BcAnnounced int
  | BcCalling int
  | BcClaiming int broadcast_result string
  | BcClaimed int broadcast_result string "string option"
  | BcOwned int broadcast_result
  | BcSaving broadcast_state
  | BcReporting broadcast_result
  | BcReturned broadcast_result
  | BcRejected

text \<open>What an awaited call comes back with.\<close>

datatype broadcast_reply = BrpDone | BrpResult broadcast_result | BrpThrows

abbreviation rq_key :: "broadcast_request \<Rightarrow> string" where
  "rq_key rq \<equiv> pr_idempotencyKey (rq_prepared rq)"

abbreviation rq_order :: "broadcast_request \<Rightarrow> string" where
  "rq_order rq \<equiv> pr_onchainOrderId (rq_prepared rq)"

abbreviation rq_submitter :: "broadcast_request \<Rightarrow> string" where
  "rq_submitter rq \<equiv> pr_submitter (rq_prepared rq)"

definition acquireInFlight :: "(string, int) jsmap \<Rightarrow> string \<Rightarrow> (string, int) jsmap \<times> int" where
  "acquireInFlight counts key =
     (let n = or_default (jget counts key) 0 + 1 in (jset key n counts, n))"

definition releaseInFlight :: "(string, int) jsmap \<Rightarrow> string \<Rightarrow> (string, int) jsmap" where
  "releaseInFlight counts key =
     (let next = or_default (jget counts key) 1 - 1 in
      if next \<le> 0 then jdelete key counts else jset key next counts)"

definition releaseSlots :: "broadcast_request \<Rightarrow> secure_state \<Rightarrow> secure_state" where
  "releaseSlots rq s =
     s\<lparr>sb_inFlightByOrder := releaseInFlight (sb_inFlightByOrder s) (rq_order rq),
       sb_inFlightBySubmitter := releaseInFlight (sb_inFlightBySubmitter s) (rq_submitter rq)\<rparr>"

definition rate_limited :: "secure_config \<Rightarrow> int \<Rightarrow> string \<Rightarrow> int \<Rightarrow> broadcast_result" where
  "rate_limited cfg t message attempts =
     BrFailed (failedBroadcastResult ''broadcast_rate_limited'' message True attempts None
       (retrySchedule cfg t attempts))"

text \<open>The call itself: \<open>currentStateFor\<close> looks into memory and asks the store if need be.\<close>

definition broadcast_call :: "broadcast_request \<Rightarrow> secure_state \<Rightarrow> broadcast_pc" where
  "broadcast_call rq s =
     (case jget (sb_states s) (rq_key rq) of
        Some st \<Rightarrow> BcLoaded (Some st)
      | None \<Rightarrow> (case sb_dedupe s of None \<Rightarrow> BcLoaded None | Some d \<Rightarrow> BcLoading))"

text \<open>From the answer of \<open>currentStateFor\<close> to the first audit: slots are taken, then checked.\<close>

definition broadcast_admit ::
  "secure_config \<Rightarrow> int \<Rightarrow> broadcast_request \<Rightarrow> broadcast_state option \<Rightarrow> secure_state
     \<Rightarrow> broadcast_pc \<times> secure_state" where
  "broadcast_admit cfg t rq currentState s =
     (case duplicateResult currentState (sc_maxRetry cfg) of
        Some r \<Rightarrow> (BcDuplicate r, s)
      | None \<Rightarrow>
          (let attempts = (case currentState of None \<Rightarrow> 0 | Some st \<Rightarrow> bs_attempts st);
               (orders, acquiredOrder) = acquireInFlight (sb_inFlightByOrder s) (rq_order rq);
               (submitters, acquiredSubmitter) =
                 acquireInFlight (sb_inFlightBySubmitter s) (rq_submitter rq);
               s' = s\<lparr>sb_inFlightByOrder := orders, sb_inFlightBySubmitter := submitters\<rparr> in
           if sc_maxInFlightPerOrder cfg < acquiredOrder then
             (BcLimited (rate_limited cfg t
                ''another broadcast is already in flight for this order'' attempts), s')
           else if sc_maxInFlightPerSubmitter cfg < acquiredSubmitter then
             (BcLimited (rate_limited cfg t
                ''another broadcast is already in flight for this submitter'' attempts), s')
           else (BcAnnounced (attempts + 1), s')))"

text \<open>The outcome is recorded in memory; the write to the store is awaited.\<close>

definition broadcast_record ::
  "broadcast_request \<Rightarrow> int \<Rightarrow> broadcast_result \<Rightarrow> secure_state \<Rightarrow> broadcast_pc \<times> secure_state" where
  "broadcast_record rq n result s =
     (let st = \<lparr>bs_attempts = n, bs_lastResult = result\<rparr> in
      (BcSaving st, s\<lparr>sb_states := jset (rq_key rq) st (sb_states s)\<rparr>))"

text \<open>The end of \<open>duplicateTxHashResult\<close>, with the owner found in memory or in the store.\<close>

definition broadcast_owned ::
  "broadcast_request \<Rightarrow> int \<Rightarrow> broadcast_result \<Rightarrow> string \<Rightarrow> string option \<Rightarrow> secure_state
     \<Rightarrow> broadcast_pc \<times> secure_state" where
  "broadcast_owned rq n r h owner s =
     (if \<not> truthy owner then
        (BcOwned n r, s\<lparr>sb_txHashOwners := jset h (rq_key rq) (sb_txHashOwners s)\<rparr>)
      else if owner = Some (rq_key rq) then (BcOwned n r, s)
      else (BcOwned n (duplicate_hash_failure n), s))"

definition broadcast_claim ::
  "broadcast_request \<Rightarrow> int \<Rightarrow> broadcast_result \<Rightarrow> secure_state \<Rightarrow> broadcast_pc \<times> secure_state" where
  "broadcast_claim rq n r s =
     (case claimed_hash r of
        None \<Rightarrow> (BcOwned n r, s)
      | Some h \<Rightarrow>
          if \<not> truthy (jget (sb_txHashOwners s) h) \<and> sb_dedupe s \<noteq> None then (BcClaiming n r h, s)
          else broadcast_owned rq n r h (jget (sb_txHashOwners s) h) s)"

definition broadcast_throw :: "broadcast_request \<Rightarrow> secure_state \<Rightarrow> broadcast_pc \<times> secure_state" where
  "broadcast_throw rq s = (BcRejected, releaseSlots rq s)"

fun broadcast_advance ::
  "secure_config \<Rightarrow> int \<Rightarrow> broadcast_reply \<Rightarrow> broadcast_request \<Rightarrow> broadcast_pc \<Rightarrow> secure_state
     \<Rightarrow> broadcast_pc \<times> secure_state" where
  "broadcast_advance cfg t rep rq BcLoading s =
     (if rep = BrpThrows then (BcRejected, s)
      else (BcLoaded (case sb_dedupe s of None \<Rightarrow> None | Some d \<Rightarrow> dedupe_load d (rq_key rq)), s))"
| "broadcast_advance cfg t rep rq (BcLoaded currentState) s = broadcast_admit cfg t rq currentState s"
| "broadcast_advance cfg t rep rq (BcDuplicate r) s =
     (if rep = BrpThrows then (BcRejected, s) else (BcReturned r, s))"
| "broadcast_advance cfg t rep rq (BcLimited r) s =
     (if rep = BrpThrows then broadcast_throw rq s else (BcReturned r, releaseSlots rq s))"
| "broadcast_advance cfg t rep rq (BcAnnounced n) s =
     (if rep = BrpThrows then broadcast_throw rq s else (BcCalling n, s))"
| "broadcast_advance cfg t rep rq (BcCalling n) s =
     (case rep of
        BrpDone \<Rightarrow> (BcCalling n, s)
      | BrpResult r \<Rightarrow> broadcast_claim rq n (withAttemptMetadata cfg t r n) s
      | BrpThrows \<Rightarrow> broadcast_throw rq s)"
| "broadcast_advance cfg t rep rq (BcClaiming n r h) s =
     (case sb_dedupe s of
        None \<Rightarrow> (BcClaimed n r h None, s)
      | Some d \<Rightarrow>
          if rep = BrpThrows then broadcast_throw rq s
          else (let (d', owner) = dedupe_claimTxHash d h (rq_key rq) in
                (BcClaimed n r h owner, s\<lparr>sb_dedupe := Some d'\<rparr>)))"
| "broadcast_advance cfg t rep rq (BcClaimed n r h owner) s = broadcast_owned rq n r h owner s"
| "broadcast_advance cfg t rep rq (BcOwned n r) s = broadcast_record rq n r s"
| "broadcast_advance cfg t rep rq (BcSaving st) s =
     (if rep = BrpThrows then broadcast_throw rq s
      else (let s' = s\<lparr>sb_dedupe :=
              map_option (\<lambda>d. dedupe_save d (rq_key rq) st) (sb_dedupe s)\<rparr> in
            case bs_lastResult st of
              BrFailed f \<Rightarrow> (BcReporting (BrFailed f), s')
            | r \<Rightarrow> (BcReturned r, releaseSlots rq s')))"
| "broadcast_advance cfg t rep rq (BcReporting r) s =
     (if rep = BrpThrows then broadcast_throw rq s else (BcReturned r, releaseSlots rq s))"
| "broadcast_advance cfg t rep rq (BcReturned r) s = (BcReturned r, s)"
| "broadcast_advance cfg t rep rq BcRejected s = (BcRejected, s)"

section \<open>Interleaved calls\<close>

record secure_system =
  ss_state :: secure_state
  ss_calls :: "(broadcast_request \<times> broadcast_pc) list"

datatype secure_event =
    SeCall broadcast_request
  | SeAdvance nat int broadcast_reply

text \<open>\<open>SeAdvance i t reply\<close> resumes call number \<open>i\<close> at time \<open>t\<close>.\<close>

fun secure_event_step :: "secure_config \<Rightarrow> secure_system \<Rightarrow> secure_event \<Rightarrow> secure_system" where
  "secure_event_step cfg S (SeCall rq) =
     S\<lparr>ss_calls := ss_calls S @ [(rq, broadcast_call rq (ss_state S))]\<rparr>"
| "secure_event_step cfg S (SeAdvance i t rep) =
     (if i < length (ss_calls S) then
        (let (rq, pc) = ss_calls S ! i;
             (pc', s') = broadcast_advance cfg t rep rq pc (ss_state S) in
         \<lparr>ss_state = s', ss_calls = (ss_calls S)[i := (rq, pc')]\<rparr>)
      else S)"

definition secure_start :: "dedupe_store option \<Rightarrow> secure_system" where
  "secure_start d = \<lparr>ss_state = fresh_secure_state d, ss_calls = []\<rparr>"

definition secure_run ::
  "secure_config \<Rightarrow> dedupe_store option \<Rightarrow> secure_event list \<Rightarrow> secure_system" where
  "secure_run cfg d es = foldl (secure_event_step cfg) (secure_start d) es"

inductive secure_step :: "secure_config \<Rightarrow> secure_system \<Rightarrow> secure_system \<Rightarrow> bool" for cfg where
  call: "secure_step cfg S (S\<lparr>ss_calls := ss_calls S @ [(rq, broadcast_call rq (ss_state S))]\<rparr>)"
| advance: "i < length (ss_calls S) \<Longrightarrow> ss_calls S ! i = (rq, pc) \<Longrightarrow>
    broadcast_advance cfg t rep rq pc (ss_state S) = (pc', s') \<Longrightarrow>
    secure_step cfg S \<lparr>ss_state = s', ss_calls = (ss_calls S)[i := (rq, pc')]\<rparr>"

inductive secure_reaches :: "secure_config \<Rightarrow> dedupe_store option \<Rightarrow> secure_system \<Rightarrow> bool"
  for cfg d where
  start: "secure_reaches cfg d (secure_start d)"
| step: "secure_reaches cfg d S \<Longrightarrow> secure_step cfg S S' \<Longrightarrow> secure_reaches cfg d S'"

lemma secure_event_reaches:
  "secure_reaches cfg d S \<Longrightarrow> secure_reaches cfg d (secure_event_step cfg S e)"
proof (cases e)
  case (SeCall rq)
  assume "secure_reaches cfg d S"
  then show ?thesis unfolding SeCall by (auto intro: secure_reaches.step secure_step.call)
next
  case (SeAdvance i t rep)
  assume S: "secure_reaches cfg d S"
  obtain rq pc where c: "ss_calls S ! i = (rq, pc)" by (cases "ss_calls S ! i")
  obtain pc' s' where b: "broadcast_advance cfg t rep rq pc (ss_state S) = (pc', s')"
    by (cases "broadcast_advance cfg t rep rq pc (ss_state S)")
  show ?thesis
  proof (cases "i < length (ss_calls S)")
    case True
    from secure_reaches.step [OF S secure_step.advance [OF True c b]] True c b
    show ?thesis by (simp add: SeAdvance)
  qed (use S in \<open>simp add: SeAdvance\<close>)
qed

lemma secure_run_reaches: "secure_reaches cfg d (secure_run cfg d es)"
  unfolding secure_run_def
  by (induction es rule: rev_induct) (auto intro: secure_reaches.start secure_event_reaches)

end
