(* ===== verification/BroadcastAdapter.thy ===== *)
theory BroadcastAdapter imports SecureBroadcast Stages begin

text \<open>
  The adapter that sends a prepared submission to the state machine
  (\<open>submissions/broadcast-adapter.ts\<close>): the classification of errors, the failed results and
  the broadcast itself with its guards and its reading of the receipt. What the chain, the
  wallet and the shared broadcast kit (not part of the sources) answer is a parameter.
\<close>

section \<open>Errors\<close>

text \<open>What \<open>findErrorName\<close> and \<open>errorText\<close> of the kit read of a thrown value.\<close>

record thrown_error =
  te_name :: "string option"
  te_text :: string

fun starts_with :: "string \<Rightarrow> string \<Rightarrow> bool" where
  "starts_with s [] = True"
| "starts_with [] (p # ps) = False"
| "starts_with (c # s) (p # ps) = (c = p \<and> starts_with s ps)"

fun js_includes :: "string \<Rightarrow> string \<Rightarrow> bool" where
  "js_includes [] p = starts_with [] p"
| "js_includes (c # s) p = (starts_with (c # s) p \<or> js_includes s p)"

text \<open>A case-insensitive alternation of fixed words, given in lower case.\<close>

definition matches_any :: "string \<Rightarrow> string list \<Rightarrow> bool" where
  "matches_any s words = list_ex (js_includes (toLowerCase s)) words"

definition errorLabelForBroadcastError_adapter :: "string \<Rightarrow> string" where
  "errorLabelForBroadcastError_adapter errorCode =
     (if errorCode = ''unauthorized_signal_submitter'' then ''Submitter is not authorized''
      else if errorCode = ''signal_already_exists'' then ''Signal was already submitted''
      else if errorCode = ''unknown_order'' then ''Order is not registered yet''
      else if errorCode = ''expired_signal_signature'' then ''Wallet signature expired''
      else if errorCode = ''invalid_signal_signature'' then ''Wallet signature is invalid''
      else if errorCode = ''chain_id_mismatch'' then ''RPC chain does not match configuration''
      else if errorCode = ''duplicate_transaction'' then ''Duplicate transaction''
      else if errorCode = ''relayer_insufficient_funds'' then ''Relayer gas payer needs funds''
      else if errorCode = ''relayer_business_signer_reuse'' then ''Relayer key reused as participant''
      else if errorCode = ''rpc_timeout'' then ''RPC request timed out''
      else if errorCode = ''transaction_reverted'' then ''Transaction reverted''
      else if errorCode = ''transaction_receipt_unknown'' then ''Transaction receipt is unknown''
      else if errorCode = ''state_machine_broadcast_failed'' then ''Broadcast failed''
      else errorCode)"

definition deadLetterForBroadcastError :: "string \<Rightarrow> bool \<Rightarrow> bool" where
  "deadLetterForBroadcastError errorCode retryable \<longleftrightarrow>
     \<not> retryable \<and> List.member
       [''chain_id_mismatch'', ''duplicate_transaction'', ''expired_signal_signature'',
        ''invalid_signal_signature'', ''order_plan_unresolved'', ''relayer_business_signer_reuse'',
        ''signal_already_exists'', ''transaction_reverted'', ''unauthorized_signal_submitter'']
       errorCode"

record classified_error =
  ce_errorCode :: string
  ce_errorLabel :: string
  ce_message :: string
  ce_operatorDetail :: string
  ce_retryable :: bool
  ce_deadLetter :: bool
  ce_revertReason :: "string option"

definition classifiedBroadcastError ::
  "string \<Rightarrow> string \<Rightarrow> bool \<Rightarrow> string \<Rightarrow> string option \<Rightarrow> classified_error" where
  "classifiedBroadcastError errorCode message retryable operatorDetail revertReason =
     \<lparr>ce_errorCode = errorCode, ce_errorLabel = errorLabelForBroadcastError_adapter errorCode,
      ce_message = message,
      ce_operatorDetail = (if operatorDetail = [] then message else operatorDetail),
      ce_retryable = retryable, ce_deadLetter = deadLetterForBroadcastError errorCode retryable,
      ce_revertReason = keep_truthy revertReason\<rparr>"

definition classifyStateMachineBroadcastError :: "thrown_error \<Rightarrow> classified_error" where
  "classifyStateMachineBroadcastError e =
     (let name = te_name e; text = te_text e;
          haystack = or_default name [] @ '' '' @ text in
      if js_includes haystack ''UnauthorizedSignalSubmitter'' then
        classifiedBroadcastError ''unauthorized_signal_submitter''
          ''current wallet is not authorized to submit this signal'' False text
          (Some ''UnauthorizedSignalSubmitter'')
      else if js_includes haystack ''SignalAlreadyExists'' then
        classifiedBroadcastError ''signal_already_exists''
          ''this task signal has already been submitted'' False text (Some ''SignalAlreadyExists'')
      else if js_includes haystack ''UnknownOrder'' then
        classifiedBroadcastError ''unknown_order'' ''order is not registered on the state machine''
          True text (Some ''UnknownOrder'')
      else if js_includes haystack ''ExpiredSignalSignature'' then
        classifiedBroadcastError ''expired_signal_signature'' ''signature deadline has expired''
          False text (Some ''ExpiredSignalSignature'')
      else if js_includes haystack ''InvalidSignalSignature'' then
        classifiedBroadcastError ''invalid_signal_signature''
          ''wallet signature does not match the submitter payload'' False text
          (case name of
             Some n \<Rightarrow> if js_includes n ''InvalidSignalSignature'' then Some n
               else Some ''InvalidSignalSignature''
           | None \<Rightarrow> Some ''InvalidSignalSignature'')
      else if matches_any haystack
          [''nonce too low'', ''replacement transaction underpriced'', ''already known''] then
        classifiedBroadcastError ''duplicate_transaction''
          ''broadcaster reported a duplicate or already-used transaction nonce'' False text None
      else if matches_any haystack
          [''execution reverted'', ''transaction reverted'', ''reverted''] then
        classifiedBroadcastError ''transaction_reverted''
          ''state-machine transaction reverted before the signal was accepted'' False text None
      else if matches_any haystack [''insufficient funds''] then
        classifiedBroadcastError ''relayer_insufficient_funds''
          ''relayer gas payer has insufficient funds'' True text None
      else if matches_any haystack
          [''timeout'', ''timed out'', ''etimedout'', ''aborterror'', ''econnreset''] then
        classifiedBroadcastError ''rpc_timeout''
          ''RPC request timed out while broadcasting the signal'' True text None
      else classifiedBroadcastError ''state_machine_broadcast_failed''
          ''state-machine signal broadcast failed'' True
          (if text = [] then ''unknown broadcast failure'' else text) None)"

section \<open>The environment\<close>

text \<open>
  The common part of a failed result comes from the kit; what the adapter hands it is
  \<open>failure_core\<close>.
\<close>

record failure_core =
  fc_errorCode :: string
  fc_message :: string
  fc_retryable :: bool
  fc_gasPayer :: string
  fc_txHash :: "string option"
  fc_blockNumber :: "string option"

record signal_call =
  sg_stateMachineAddress :: string
  sg_chainId :: int
  sg_planId :: string
  sg_orderId :: string
  sg_sourceId :: string
  sg_signalId :: string
  sg_payloadHash :: string
  sg_idempotencyKey :: string
  sg_submitter :: string
  sg_deadline :: string
  sg_signature :: string

text \<open>How the kit's probe of a duplicate transaction is decided.\<close>

datatype duplicate_outcome =
    DupSubmitted string "string option"
  | DupReceiptFailed string "string option"
  | DupReceiptUnknown string
  | DupNonceRace

record receipt =
  rc_status :: "string option"
  rc_blockNumber :: "int option"

record chain_env =
  en_broadcastFailureCore :: "failure_core \<Rightarrow> broadcast_failure"
  en_getChainId :: "thrown_error + int option"
  en_writeContract :: "signal_call \<Rightarrow> thrown_error + string"
  en_resolveDuplicate :: "thrown_error \<Rightarrow> duplicate_outcome"
  en_waitForReceipt :: "string \<Rightarrow> thrown_error + receipt option"

record adapter_config =
  ac_stateMachineAddress :: string
  ac_chainId :: int
  ac_waitForReceipt :: bool
  ac_confirmOnReceipt :: bool
  ac_rejectGasPayerAsSubmitter :: bool
  ac_gasPayer :: string

section \<open>Results\<close>

definition failedResult ::
  "chain_env \<Rightarrow> string \<Rightarrow> string \<Rightarrow> bool \<Rightarrow> string \<Rightarrow> string option \<Rightarrow> string option \<Rightarrow> string option
     \<Rightarrow> broadcast_result" where
  "failedResult E errorCode message retryable gasPayer revertReason txHash block =
     (let deadLetter = deadLetterForBroadcastError errorCode retryable;
          errorLabel = errorLabelForBroadcastError_adapter errorCode;
          retryState = (if deadLetter then RsDeadLetter
            else if retryable then RsRetryable else RsNotRetryable);
          core = en_broadcastFailureCore E
            \<lparr>fc_errorCode = errorCode, fc_message = message, fc_retryable = retryable,
             fc_gasPayer = gasPayer, fc_txHash = keep_truthy txHash,
             fc_blockNumber = keep_truthy block\<rparr>;
          a = or_default (bf_attempt core) (bare_attempt ''failed'') in
      BrFailed (core\<lparr>bf_errorLabel := Some errorLabel, bf_retryState := Some retryState,
        bf_deadLetter := Some deadLetter,
        bf_attempt := Some (a\<lparr>ba_errorLabel := Some errorLabel,
          ba_revertReason := opt_or (keep_truthy revertReason) (ba_revertReason a),
          ba_retryState := Some retryState, ba_deadLetter := Some deadLetter\<rparr>)\<rparr>))"

definition done_attempt :: "string \<Rightarrow> string \<Rightarrow> string option \<Rightarrow> string \<Rightarrow> broadcast_attempt" where
  "done_attempt status txHash block gasPayer =
     (bare_attempt status)\<lparr>ba_txHash := Some txHash, ba_blockNumber := block,
       ba_gasPayer := Some gasPayer, ba_retryable := Some False,
       ba_retryState := Some RsNotApplicable, ba_deadLetter := Some False\<rparr>"

definition done_result :: "adapter_config \<Rightarrow> string \<Rightarrow> string option \<Rightarrow> broadcast_result" where
  "done_result cfg txHash block =
     (if ac_confirmOnReceipt cfg
      then BrConfirmed txHash block
        (Some (done_attempt ''confirmed'' txHash block (ac_gasPayer cfg)))
      else BrSubmitted txHash block
        (Some (done_attempt ''submitted'' txHash block (ac_gasPayer cfg))))"

definition is_bytes32 :: "string \<Rightarrow> bool" where
  "is_bytes32 v = hex_word 64 v"

definition normalizePlanId :: "string option \<Rightarrow> string option" where
  "normalizePlanId value =
     (case value of
        None \<Rightarrow> None
      | Some v \<Rightarrow>
          if \<not> is_bytes32 v then None
          else if toLowerCase v = ZERO_BYTES32 then None else Some (toLowerCase v))"

section \<open>The broadcast\<close>

definition failed_as_classified ::
  "chain_env \<Rightarrow> adapter_config \<Rightarrow> classified_error \<Rightarrow> string option \<Rightarrow> broadcast_result" where
  "failed_as_classified E cfg c txHash =
     failedResult E (ce_errorCode c) (ce_message c) (ce_retryable c) (ac_gasPayer cfg)
       (ce_revertReason c) txHash None"

text \<open>A transaction that could not be written: duplicates are decided by the probe.\<close>

definition adapter_write_failed :: "chain_env \<Rightarrow> adapter_config \<Rightarrow> thrown_error \<Rightarrow> broadcast_result" where
  "adapter_write_failed E cfg e =
     (let c = classifyStateMachineBroadcastError e in
      if ce_errorCode c = ''duplicate_transaction'' then
        (case en_resolveDuplicate E e of
           DupSubmitted h b \<Rightarrow> done_result cfg h b
         | DupReceiptFailed h b \<Rightarrow>
             failedResult E ''transaction_reverted''
               ''the duplicate transaction was mined and reverted on chain'' False (ac_gasPayer cfg)
               (Some ''transaction_reverted'') (Some h) b
         | DupReceiptUnknown h \<Rightarrow>
             failedResult E ''transaction_receipt_unknown''
               (''broadcaster reported a duplicate transaction but no receipt is available yet; ''
                 @ ''the candidate hash is retained for the next probe'') True (ac_gasPayer cfg)
               (Some ''transaction_receipt_unknown'') (Some h) None
         | DupNonceRace \<Rightarrow>
             failedResult E ''duplicate_transaction''
               (''broadcaster reported a nonce race without an attributable transaction hash; ''
                 @ ''the payload can be re-assembled with a fresh gas nonce'') True (ac_gasPayer cfg)
               None None None)
      else failed_as_classified E cfg c None)"

text \<open>A written transaction: the receipt counts only with a status the protocol knows.\<close>

definition receipt_block :: "receipt option \<Rightarrow> string option" where
  "receipt_block r = (case r of None \<Rightarrow> None | Some r \<Rightarrow> map_option dec_int (rc_blockNumber r))"

definition adapter_receipt :: "chain_env \<Rightarrow> adapter_config \<Rightarrow> string \<Rightarrow> broadcast_result" where
  "adapter_receipt E cfg txHash =
     (if \<not> ac_waitForReceipt cfg then
        BrSubmitted txHash None (Some (done_attempt ''submitted'' txHash None (ac_gasPayer cfg)))
      else
        (case en_waitForReceipt E txHash of
           Inl e \<Rightarrow> failed_as_classified E cfg (classifyStateMachineBroadcastError e) (Some txHash)
         | Inr r \<Rightarrow>
             (let status = (case r of None \<Rightarrow> None | Some r \<Rightarrow> rc_status r) in
              if status = Some ''reverted'' \<or> status = Some ''failed'' then
                failedResult E ''transaction_reverted'' ''transaction reverted'' False
                  (ac_gasPayer cfg) (Some ''transaction_reverted'') (Some txHash) (receipt_block r)
              else if status \<noteq> Some ''success'' then
                failedResult E ''transaction_receipt_unknown''
                  ''transaction receipt is missing or has an unknown status'' True
                  (ac_gasPayer cfg) (Some ''transaction_receipt_unknown'') (Some txHash)
                  (receipt_block r)
              else done_result cfg txHash (receipt_block r))))"

definition signal_call_of :: "adapter_config \<Rightarrow> string \<Rightarrow> broadcast_request \<Rightarrow> signal_call" where
  "signal_call_of cfg planId rq =
     (let p = rq_prepared rq in
      \<lparr>sg_stateMachineAddress =
         or_default (td_verifyingContract (pr_typedData p)) (ac_stateMachineAddress cfg),
       sg_chainId = ac_chainId cfg, sg_planId = planId, sg_orderId = pr_onchainOrderId p,
       sg_sourceId = pr_sourceId p, sg_signalId = pr_signalId p,
       sg_payloadHash = pr_payloadHash p, sg_idempotencyKey = pr_idempotencyKey p,
       sg_submitter = pr_submitter p, sg_deadline = pr_deadline p,
       sg_signature = rq_signature rq\<rparr>)"

definition adapter_send :: "chain_env \<Rightarrow> adapter_config \<Rightarrow> string \<Rightarrow> broadcast_request \<Rightarrow> broadcast_result" where
  "adapter_send E cfg planId rq =
     (case en_getChainId E of
        Inl e \<Rightarrow> failed_as_classified E cfg (classifyStateMachineBroadcastError e) None
      | Inr rpcChainId \<Rightarrow>
          if rpcChainId \<noteq> None \<and> rpcChainId \<noteq> Some (ac_chainId cfg) then
            failedResult E ''chain_id_mismatch''
              (''configured chainId '' @ dec_int (ac_chainId cfg) @ '' does not match RPC chainId ''
                @ dec_int (or_default rpcChainId 0)) False (ac_gasPayer cfg) None None None
          else
            (case en_writeContract E (signal_call_of cfg planId rq) of
               Inl e \<Rightarrow> adapter_write_failed E cfg e
             | Inr txHash \<Rightarrow> adapter_receipt E cfg txHash))"

text \<open>\<open>t\<close> is the time \<open>now()\<close> returns; a deadline that is no integer throws.\<close>

definition adapter_broadcast ::
  "chain_env \<Rightarrow> adapter_config \<Rightarrow> int \<Rightarrow> broadcast_request \<Rightarrow> broadcast_result res" where
  "adapter_broadcast E cfg t rq =
     (let p = rq_prepared rq in
      case normalizePlanId (Some (pr_planId p)) of
        None \<Rightarrow> Inr (failedResult E ''order_plan_unresolved''
          ''prepared submission has no non-zero planId for the plan-scoped submitSignalFor ABI''
          False (ac_gasPayer cfg) None None None)
      | Some planId \<Rightarrow>
          bindR (bigint_of (pr_deadline p)) (\<lambda>deadline.
            Inr (if deadline < t div 1000 then
              failedResult E ''expired_signal_signature'' ''signature deadline has expired'' False
                (ac_gasPayer cfg) None None None
            else if rq_recoveredSubmitter rq \<noteq> pr_submitter p then
              failedResult E ''invalid_signal_signature''
                ''wallet signature does not match the prepared submitter'' False (ac_gasPayer cfg)
                (Some ''RecoveredSubmitterMismatch'') None None
            else if ac_rejectGasPayerAsSubmitter cfg \<and> ac_gasPayer cfg = pr_submitter p then
              failedResult E ''relayer_business_signer_reuse''
                ''relayer gas payer must not be the participant business signer'' False
                (ac_gasPayer cfg) (Some ''RelayerBusinessSignerReuse'') None None
            else adapter_send E cfg planId rq)))"

end
