(* ===== verification/Submissions.thy ===== *)
theory Submissions imports Effects SubmissionStore BroadcastAdapter begin

text \<open>
  The submission service (\<open>submissions/service.ts\<close>): preparing a submission for signature,
  submitting the signed one and reading an archive record. What the service is given
  (tasks, evidence, authorization, the plan of an order, typed data, signature recovery,
  the canonical hash, the broadcast) is a parameter.
\<close>

section \<open>Errors and inputs\<close>

text \<open>
  Errors of the service carry status, code and message; other exceptions are those of the
  normalisers, or come from a collaborator.
\<close>

datatype svc_error =
    ProductSubmissionError int string string
  | ThrownError js_error
  | ThrownExternal thrown_error

definition thrown :: "'a res \<Rightarrow> svc_error + 'a" where
  "thrown m = (case m of Inl e \<Rightarrow> Inl (ThrownError e) | Inr x \<Rightarrow> Inr x)"

lemma thrown_simps [simp]: "thrown (Inl e) = Inl (ThrownError e)" "thrown (Inr x) = Inr x"
  by (simp_all add: thrown_def)

definition guardS :: "bool \<Rightarrow> svc_error \<Rightarrow> svc_error + unit" where
  "guardS b e = (if b then Inr () else Inl e)"

record chain_overlay =
  ov_targetStageId :: "string option"
  ov_activeExecutorWallet :: "string option"

record task_proof =
  tp_sourceId :: "string option"
  tp_signalId :: "string option"
  tp_stageIdentifier :: "string option"
  tp_targetStageId :: "string option"

record product_task =
  pt_taskId :: string
  pt_orderId :: string
  pt_status :: string
  pt_title :: string
  pt_stageId :: string
  pt_stageName :: "string option"
  pt_stateMachineAddress :: "string option"
  pt_proof :: "task_proof option"
  pt_stageExecutorOverlay :: "chain_overlay option"
  pt_executorOverlay :: "chain_overlay option"

record evidence_principal =
  ep_id :: "string option"
  ep_role :: string

record authorization_request =
  ar_orderId :: string
  ar_taskId :: string
  ar_stageIdentifier :: string
  ar_signalName :: string
  ar_onchainOrderId :: string
  ar_sourceId :: string
  ar_signalId :: string
  ar_intent :: submit_intent
  ar_submitter :: string

record authorization_result =
  az_authorized :: bool
  az_source :: string
  az_reason :: "string option"

text \<open>The projection names a plan or none, or throws: an ambiguous order, or something else.\<close>

datatype plan_lookup =
    PlanResolved "string option"
  | PlanAmbiguous string
  | PlanThrows thrown_error

record service_env =
  sv_bindings :: bindings
  sv_keccakCanonical :: "jsval \<Rightarrow> string"
  sv_getTask :: "string \<Rightarrow> product_task option"
  sv_getEvidence :: "string \<Rightarrow> evidence_principal \<Rightarrow> evidence_record option"
  sv_getProofStatus :: "string \<Rightarrow> evidence_principal \<Rightarrow> string option"
  sv_authorize :: "product_task \<Rightarrow> authorization_request \<Rightarrow> authorization_result"
  sv_resolveOrderPlanId :: "(string \<Rightarrow> plan_lookup) option"
  sv_buildTypedData :: "typed_data_input \<Rightarrow> typed_data"
  sv_recoverSigner :: "typed_data \<Rightarrow> string \<Rightarrow> string option + string"
  sv_chainId :: int
  sv_verifyingContract :: string
  sv_ttlSeconds :: int
  sv_attemptsBroadcast :: bool

definition DEFAULT_PREPARE_TTL_SECONDS :: int where
  "DEFAULT_PREPARE_TTL_SECONDS = 10 * 60"

definition hashCanonicalJson :: "service_env \<Rightarrow> jsval \<Rightarrow> string \<Rightarrow> string res" where
  "hashCanonicalJson E v fieldName =
     normalizeBytes32 (sv_bindings E) (sv_keccakCanonical E v) fieldName"

section \<open>Small conversions\<close>

fun signalNameForIntent :: "submit_intent \<Rightarrow> string" where
  "signalNameForIntent ConfirmStage = ''confirm_stage''"
| "signalNameForIntent RejectStage = ''reject_stage''"
| "signalNameForIntent RaiseDispute = ''raise_dispute''"
| "signalNameForIntent ResolveDispute = ''resolve_dispute''"

fun actionLabel :: "submit_intent \<Rightarrow> string" where
  "actionLabel ConfirmStage = ''confirm stage''"
| "actionLabel RejectStage = ''reject stage''"
| "actionLabel RaiseDispute = ''raise dispute''"
| "actionLabel ResolveDispute = ''resolve dispute''"

fun submissionStatusLabel :: "submission_status \<Rightarrow> int list" where
  "submissionStatusLabel SubPrepared = [0x5df2, 0x51c6, 0x5907]"
| "submissionStatusLabel SubSignatureReceived = [0x7b7e, 0x540d, 0x5df2, 0x63a5, 0x6536]"
| "submissionStatusLabel SubBroadcasting = [0x5e7f, 0x64ad, 0x4e2d]"
| "submissionStatusLabel SubSubmitted = [0x5df2, 0x63d0, 0x4ea4]"
| "submissionStatusLabel SubIndexing = [0x540c, 0x6b65, 0x4e2d]"
| "submissionStatusLabel SubConfirmed = [0x5df2, 0x786e, 0x8ba4]"
| "submissionStatusLabel SubFailed = [0x63d0, 0x4ea4, 0x5931, 0x8d25]"
| "submissionStatusLabel SubExpired = [0x5df2, 0x8fc7, 0x671f]"
| "submissionStatusLabel SubReplaced = [0x5df2, 0x66ff, 0x6362]"

definition retryStateFor :: "bool \<Rightarrow> bool \<Rightarrow> bool \<Rightarrow> retry_state" where
  "retryStateFor failedOrExpired retryable deadLetter =
     (if deadLetter then RsDeadLetter else if retryable then RsRetryable
      else if failedOrExpired then RsNotRetryable else RsNotApplicable)"

definition failed_or_expired :: "submission_status \<Rightarrow> bool" where
  "failed_or_expired s \<longleftrightarrow> s = SubFailed \<or> s = SubExpired"

definition errorLabelFor :: "string \<Rightarrow> string" where
  "errorLabelFor errorCode =
     (if errorCode = ''unauthorized_signal_submitter'' then ''Submitter is not authorized''
      else if errorCode = ''signal_already_exists'' then ''Signal was already submitted''
      else if errorCode = ''unknown_order'' then ''Order is not registered yet''
      else if errorCode = ''expired_signal_signature'' then ''Wallet signature expired''
      else if errorCode = ''invalid_signal_signature'' then ''Wallet signature is invalid''
      else if errorCode = ''chain_id_mismatch'' then ''RPC chain does not match configuration''
      else if errorCode = ''relayer_insufficient_funds'' then ''Relayer gas payer needs funds''
      else if errorCode = ''rpc_timeout'' then ''RPC request timed out''
      else if errorCode = ''transaction_reverted'' then ''Transaction reverted''
      else if errorCode = ''state_machine_broadcast_failed'' then ''Broadcast failed''
      else if errorCode = ''broadcast_disabled'' then ''Broadcast disabled''
      else if errorCode = ''broadcast_rate_limited'' then ''Broadcast is rate limited''
      else if errorCode = ''broadcast_retry_exhausted'' then ''Retry limit reached''
      else if errorCode = ''duplicate_tx_hash'' then ''Duplicate transaction hash''
      else errorCode)"

definition proofRows ::
  "submission_status \<Rightarrow> string \<Rightarrow> string \<Rightarrow> string option \<Rightarrow> string option \<Rightarrow> (string \<times> string) list" where
  "proofRows status submitter payloadHash txHash errorCode =
     [(''Submission status'', submission_status_text status), (''Signature submitter'', submitter),
      (''Payload hash'', payloadHash)]
     @ (case keep_truthy txHash of None \<Rightarrow> [] | Some h \<Rightarrow> [(''Transaction'', h)])
     @ (case keep_truthy errorCode of None \<Rightarrow> [] | Some c \<Rightarrow> [(''Relayer'', c)])"

definition assertHex :: "string \<Rightarrow> string \<Rightarrow> unit res" where
  "assertHex v fieldName =
     (if take 2 v = ''0x'' \<and> list_all (\<lambda>c. base_digit 16 c \<noteq> None) (drop 2 v) then Inr ()
      else Inl (ConfigError (fieldName @ '' must be a 0x-prefixed hex string'')))"

definition normalizeSignature :: "string \<Rightarrow> string res" where
  "normalizeSignature v = bindR (assertHex v ''signature'') (\<lambda>_. Inr (toLowerCase v))"

text \<open>\<open>/^(0|[1-9][0-9]*)$/\<close>, and the number read and printed again.\<close>

definition is_uint_text :: "string \<Rightarrow> bool" where
  "is_uint_text v \<longleftrightarrow> v = ''0'' \<or> (v \<noteq> [] \<and> hd v \<noteq> CHR ''0'' \<and> list_all is_digit v)"

definition normalizeNonce :: "string \<Rightarrow> svc_error + string" where
  "normalizeNonce v =
     (if \<not> is_uint_text v then
        Inl (ProductSubmissionError 500 ''invalid_nonce_factory''
          ''nonce factory must return a base-10 uint string'')
      else Inr (dec_nat (parse_nat v)))"

definition js_unique :: "'a list \<Rightarrow> 'a list" where
  "js_unique xs = rev (remdups (rev xs))"

definition uniqueNonEmpty :: "string list \<Rightarrow> string \<Rightarrow> svc_error + string list" where
  "uniqueNonEmpty values fieldName =
     (let normalized = filter (\<lambda>v. v \<noteq> []) (map trim values) in
      if length normalized \<noteq> length values then
        Inl (ProductSubmissionError 400 ''invalid_body''
          (fieldName @ '' must not contain empty strings''))
      else Inr (js_unique normalized))"

definition submissionNonceKey :: "prepared_record \<Rightarrow> string" where
  "submissionNonceKey p = toLowerCase (join_colon
     [pr_submitter p, pr_orderId p, pr_stageIdentifier p, pr_signalName p, pr_nonce p])"

definition authorizationKey :: "string \<Rightarrow> string \<Rightarrow> string \<Rightarrow> string \<Rightarrow> string" where
  "authorizationKey orderId stageIdentifier signalName submitter =
     toLowerCase (join_colon [orderId, stageIdentifier, signalName, submitter])"

section \<open>Authorization adapters\<close>

definition denyByDefaultSubmissionAuthorization :: authorization_result where
  "denyByDefaultSubmissionAuthorization =
     \<lparr>az_authorized = False, az_source = ''authorization_not_configured'',
      az_reason = Some ''submission authorization is not configured''\<rparr>"

definition permissiveProductProjectionAuthorization :: authorization_result where
  "permissiveProductProjectionAuthorization =
     \<lparr>az_authorized = True, az_source = ''product_projection_demo'', az_reason = None\<rparr>"

record allow_entry =
  al_orderId :: string
  al_stageIdentifier :: string
  al_signalName :: string
  al_submitter :: string

text \<open>The keys are made when the adapter is created, which throws on a malformed address.\<close>

definition allow_list_keys :: "bindings \<Rightarrow> allow_entry list \<Rightarrow> string list res" where
  "allow_list_keys B entries = mapR (\<lambda>e.
     bindR (normalizeAddress B (al_submitter e) ''submitter'') (\<lambda>a.
       Inr (authorizationKey (al_orderId e) (al_stageIdentifier e) (al_signalName e) a))) entries"

definition allowListedSubmissionAuthorization ::
  "string list \<Rightarrow> authorization_request \<Rightarrow> authorization_result" where
  "allowListedSubmissionAuthorization keys rq =
     (let authorized = List.member keys (authorizationKey (ar_orderId rq) (ar_stageIdentifier rq)
            (ar_signalName rq) (ar_submitter rq)) in
      \<lparr>az_authorized = authorized, az_source = ''allow_list'',
       az_reason = (if authorized then None
         else Some ''submitter is not present in the submission allow list'')\<rparr>)"

section \<open>The identity of the signal\<close>

definition firstBytes32 :: "bindings \<Rightarrow> string option list \<Rightarrow> string option res" where
  "firstBytes32 B values =
     (case filter (\<lambda>v. case v of None \<Rightarrow> False | Some s \<Rightarrow> is_bytes32 s) values of
        Some s # _ \<Rightarrow> bindR (normalizeBytes32 B s ''bytes32'') (\<lambda>w. Inr (Some w))
      | _ \<Rightarrow> Inr None)"

definition activeStageExecutorWalletForTask :: "product_task \<Rightarrow> string option" where
  "activeStageExecutorWalletForTask task =
     opt_or (Option.bind (pt_stageExecutorOverlay task) ov_activeExecutorWallet)
       (Option.bind (pt_executorOverlay task) ov_activeExecutorWallet)"

definition activeStageExecutorSourceIdForTask :: "bindings \<Rightarrow> product_task \<Rightarrow> string option res" where
  "activeStageExecutorSourceIdForTask B task =
     (if \<not> truthy (activeStageExecutorWalletForTask task) then Inr None
      else firstBytes32 B
        [Option.bind (pt_stageExecutorOverlay task) ov_targetStageId,
         Option.bind (pt_executorOverlay task) ov_targetStageId,
         Option.bind (pt_proof task) tp_targetStageId,
         Option.bind (pt_proof task) tp_stageIdentifier])"

record chain_signal =
  cs_orderId :: string
  cs_sourceId :: string
  cs_signalId :: string

definition order_plan_unresolved :: "string \<Rightarrow> svc_error" where
  "order_plan_unresolved message = ProductSubmissionError 409 ''order_plan_unresolved'' message"

definition chainSignalForTask :: "bindings \<Rightarrow> product_task \<Rightarrow> string \<Rightarrow> svc_error + chain_signal" where
  "chainSignalForTask B task signalName =
     bindR (thrown (firstBytes32 B [Option.bind (pt_proof task) tp_sourceId])) (\<lambda>direct.
     bindR (case direct of Some s \<Rightarrow> Inr (Some s)
            | None \<Rightarrow> thrown (activeStageExecutorSourceIdForTask B task)) (\<lambda>sourceId.
     case keep_truthy sourceId of
       None \<Rightarrow> Inl (order_plan_unresolved
         (''state-machine projection has no chain sourceId for this task's submit signal; ''
           @ ''refusing to fabricate one for a plan-scoped signal signature''))
     | Some source \<Rightarrow>
         bindR (thrown (firstBytes32 B [Option.bind (pt_proof task) tp_signalId])) (\<lambda>signalId.
         case keep_truthy signalId of
           None \<Rightarrow> Inl (order_plan_unresolved
             (''state-machine projection has no chain signalId for this task's '' @ signalName
               @ '' signal; refusing to fabricate one for a plan-scoped signal signature''))
         | Some signal \<Rightarrow>
             if \<not> is_bytes32 (pt_orderId task) then
               Inl (order_plan_unresolved
                 (''task does not carry an on-chain (bytes32) order id; ''
                   @ ''refusing to sign a locally-derived order identity''))
             else bindR (thrown (normalizeBytes32 B (pt_orderId task) ''orderId'')) (\<lambda>orderId.
               Inr \<lparr>cs_orderId = orderId, cs_sourceId = source, cs_signalId = signal\<rparr>))))"

definition normalizeResolvedPlanId :: "string option \<Rightarrow> string option" where
  "normalizeResolvedPlanId value =
     (case value of
        None \<Rightarrow> None
      | Some v \<Rightarrow>
          if \<not> is_bytes32 v then None
          else if toLowerCase v = ZERO_BYTES32 then None else Some (toLowerCase v))"

section \<open>Evidence\<close>

definition validateEvidenceRecord ::
  "evidence_record \<Rightarrow> string \<Rightarrow> string \<Rightarrow> string \<Rightarrow> svc_error + unit" where
  "validateEvidenceRecord ev orderId taskId stageIdentifier =
     (if ev_status ev \<noteq> EvUploaded \<and> ev_status ev \<noteq> EvBound then
        Inl (ProductSubmissionError 409 ''evidence_not_usable''
          ''evidence status is not usable for submit'')
      else if truthy (ev_orderId ev) \<and> ev_orderId ev \<noteq> Some orderId then
        Inl (ProductSubmissionError 409 ''evidence_order_mismatch''
          ''evidence belongs to a different order'')
      else if truthy (ev_taskId ev) \<and> ev_taskId ev \<noteq> Some taskId then
        Inl (ProductSubmissionError 409 ''evidence_task_mismatch''
          ''evidence belongs to a different task'')
      else if ev_stageIdentifier ev \<noteq> stageIdentifier then
        Inl (ProductSubmissionError 409 ''evidence_stage_mismatch''
          ''evidence belongs to a different stage'')
      else Inr ())"

definition resolve_one ::
  "service_env \<Rightarrow> evidence_principal \<Rightarrow> string \<Rightarrow> string \<Rightarrow> string \<Rightarrow> string
     \<Rightarrow> svc_error + evidence_record" where
  "resolve_one E reader orderId taskId stageIdentifier evidenceId =
     (case sv_getEvidence E evidenceId reader of
        None \<Rightarrow> Inl (ProductSubmissionError 404 ''evidence_not_found''
          (''evidence not found: '' @ evidenceId))
      | Some ev \<Rightarrow>
          bindR (validateEvidenceRecord ev orderId taskId stageIdentifier) (\<lambda>_.
          case sv_getProofStatus E evidenceId reader of
            None \<Rightarrow> Inl (ProductSubmissionError 404 ''evidence_not_found''
              (''evidence proof not found: '' @ evidenceId))
          | Some status \<Rightarrow>
              if status \<noteq> ''unbound'' \<and> status \<noteq> ''matched'' then
                Inl (ProductSubmissionError 409 ''evidence_not_usable''
                  ''evidence proof is not usable for submit'')
              else Inr ev))"

definition resolveEvidence ::
  "service_env \<Rightarrow> string list \<Rightarrow> evidence_principal \<Rightarrow> string \<Rightarrow> string \<Rightarrow> string
     \<Rightarrow> svc_error + evidence_record list" where
  "resolveEvidence E evidenceIds reader orderId taskId stageIdentifier =
     (if evidenceIds = [] then
        Inl (ProductSubmissionError 400 ''evidence_required'' ''at least one evidenceId is required'')
      else bindR (uniqueNonEmpty evidenceIds ''evidenceIds'') (\<lambda>ids.
        mapR (resolve_one E reader orderId taskId stageIdentifier) ids))"

definition evidence_document :: "evidence_record \<Rightarrow> jsval" where
  "evidence_document ev =
     JObj [(''evidenceId'', JStr (ev_evidenceId ev)), (''payloadHash'', JStr (ev_payloadHash ev)),
       (''payloadRef'', JStr (ev_payloadRef ev))]"

definition payloadForEvidence :: "service_env \<Rightarrow> evidence_record list \<Rightarrow> (string \<times> string) res" where
  "payloadForEvidence E records =
     (case records of
        [ev] \<Rightarrow> Inr (ev_payloadHash ev, ev_payloadRef ev)
      | _ \<Rightarrow>
          let documents = map evidence_document (js_sort
            (\<lambda>l r. localeCompare (ev_evidenceId l) (ev_evidenceId r)) records) in
          bindR (hashCanonicalJson E
            (JObj [(''kind'', JStr ''uvp.product.submission.evidenceBundle.v1''),
              (''evidence'', JArr documents)]) ''submission.payloadHash'') (\<lambda>payloadHash.
            Inr (payloadHash, ''uvp-evidence-bundle://product/'' @ drop 2 payloadHash)))"

definition evidenceSummary :: "evidence_record \<Rightarrow> evidence_summary" where
  "evidenceSummary ev =
     \<lparr>es_evidenceId = ev_evidenceId ev, es_payloadHash = ev_payloadHash ev,
      es_payloadRef = ev_payloadRef ev,
      es_verificationStatus = (if ev_status ev = EvBound then ''matched'' else ''unbound'')\<rparr>"

section \<open>Hashes\<close>

definition idempotencyKeyForPrepared ::
  "service_env \<Rightarrow> string \<Rightarrow> string \<Rightarrow> string \<Rightarrow> string \<Rightarrow> string \<Rightarrow> string \<Rightarrow> string \<Rightarrow> string res" where
  "idempotencyKeyForPrepared E orderId onchainOrderId taskId stageIdentifier signalName submitter nonce =
     hashCanonicalJson E
       (JObj [(''kind'', JStr ''uvp.product.submission.idempotency.v1''), (''orderId'', JStr orderId),
         (''onchainOrderId'', JStr onchainOrderId), (''taskId'', JStr taskId),
         (''stageIdentifier'', JStr stageIdentifier), (''signalName'', JStr signalName),
         (''submitter'', JStr submitter), (''nonce'', JStr nonce)]) ''submission.idempotencyKey''"

definition signatureHashFor :: "service_env \<Rightarrow> string \<Rightarrow> string res" where
  "signatureHashFor E signature =
     hashCanonicalJson E
       (JObj [(''kind'', JStr ''uvp.product.submission.signature.v1''), (''signature'', JStr signature)])
       ''submission.signatureHash''"

section \<open>Preparing\<close>

record prepare_input =
  pi_walletAddress :: string
  pi_intent :: submit_intent
  pi_evidenceIds :: "string list"

definition humanSummaryForPrepared ::
  "service_env \<Rightarrow> product_task \<Rightarrow> string \<Rightarrow> submit_intent \<Rightarrow> string \<times> string \<Rightarrow> string \<Rightarrow> string
     \<Rightarrow> human_summary" where
  "humanSummaryForPrepared E task verifyingContract intent payload submitter expiresAt =
     \<lparr>hs_purpose = ''UVP product task submission'', hs_orderId = pt_orderId task,
      hs_taskTitle = pt_title task,
      hs_stage = (if truthy (pt_stageName task) then or_default (pt_stageName task) []
        else pt_stageId task),
      hs_action = actionLabel intent, hs_payloadHash = fst payload, hs_payloadRef = snd payload,
      hs_submitter = submitter, hs_validUntil = expiresAt, hs_chainId = sv_chainId E,
      hs_verifyingContract = verifyingContract\<rparr>"

definition resolve_plan :: "service_env \<Rightarrow> string \<Rightarrow> svc_error + string" where
  "resolve_plan E orderId =
     bindR (case sv_resolveOrderPlanId E of
              None \<Rightarrow> Inr None
            | Some f \<Rightarrow>
                (case f orderId of
                   PlanResolved v \<Rightarrow> Inr v
                 | PlanAmbiguous message \<Rightarrow>
                     Inl (ProductSubmissionError 409 ''ambiguous_order_id'' message)
                 | PlanThrows e \<Rightarrow> Inl (ThrownExternal e))) (\<lambda>resolved.
     case normalizeResolvedPlanId resolved of
       None \<Rightarrow> Inl (order_plan_unresolved
         (''state-machine projection has no planId for this order; ''
           @ ''refusing to prepare a plan-scoped signal signature''))
     | Some planId \<Rightarrow> Inr planId)"

text \<open>
  The checks before anything is built: the task, the submitter, the identity of the signal,
  the evidence, the authorization and the plan, in this order.
\<close>

record prepare_checked =
  pc_task :: product_task
  pc_submitter :: string
  pc_verifyingContract :: string
  pc_signal :: chain_signal
  pc_evidence :: "evidence_record list"
  pc_payload :: "string \<times> string"
  pc_source :: string
  pc_planId :: string

definition prepare_checks ::
  "service_env \<Rightarrow> string \<Rightarrow> prepare_input \<Rightarrow> evidence_principal \<Rightarrow> svc_error + prepare_checked" where
  "prepare_checks E taskId inp reader =
     (case sv_getTask E taskId of
        None \<Rightarrow> Inl (ProductSubmissionError 404 ''product_task_not_found'' ''product task not found'')
      | Some task \<Rightarrow>
          if pt_status task \<noteq> ''open'' then
            Inl (ProductSubmissionError 409 ''task_not_submittable''
              ''product task is not open for submit'')
          else
            bindR (thrown (normalizeAddress (sv_bindings E) (pi_walletAddress inp) ''walletAddress''))
              (\<lambda>submitter.
            bindR (if truthy (pt_stateMachineAddress task) then
                thrown (normalizeAddress (sv_bindings E) (or_default (pt_stateMachineAddress task) [])
                  ''task.stateMachineAddress'')
              else Inr (sv_verifyingContract E)) (\<lambda>verifyingContract.
            let signalName = signalNameForIntent (pi_intent inp) in
            bindR (chainSignalForTask (sv_bindings E) task signalName) (\<lambda>signal.
            bindR (resolveEvidence E (pi_evidenceIds inp) reader (pt_orderId task) taskId
                (pt_stageId task)) (\<lambda>evidence.
            bindR (thrown (payloadForEvidence E evidence)) (\<lambda>payload.
            let auth = sv_authorize E task
              \<lparr>ar_orderId = pt_orderId task, ar_taskId = taskId, ar_stageIdentifier = pt_stageId task,
               ar_signalName = signalName, ar_onchainOrderId = cs_orderId signal,
               ar_sourceId = cs_sourceId signal, ar_signalId = cs_signalId signal,
               ar_intent = pi_intent inp, ar_submitter = submitter\<rparr> in
            if \<not> az_authorized auth then
              Inl (ProductSubmissionError 403 ''submitter_not_authorized''
                (or_default (az_reason auth) ''submitter is not authorized''))
            else
              bindR (resolve_plan E (cs_orderId signal)) (\<lambda>planId.
                Inr \<lparr>pc_task = task, pc_submitter = submitter, pc_verifyingContract = verifyingContract,
                  pc_signal = signal, pc_evidence = evidence, pc_payload = payload,
                  pc_source = az_source auth, pc_planId = planId\<rparr>)))))))"

text \<open>\<open>t\<close> is the time \<open>now()\<close> returns; the texts are what the two factories return.\<close>

definition prepare_build ::
  "service_env \<Rightarrow> int \<Rightarrow> string \<Rightarrow> string \<Rightarrow> string \<Rightarrow> prepare_input \<Rightarrow> prepare_checked
     \<Rightarrow> svc_error + prepared_record" where
  "prepare_build E t nonceText prepareId taskId inp c =
     (let task = pc_task c; deadlineSeconds = t div 1000 + sv_ttlSeconds E;
          signalName = signalNameForIntent (pi_intent inp); signal = pc_signal c;
          expiresAt = toISOString (deadlineSeconds * 1000) in
      bindR (normalizeNonce nonceText) (\<lambda>nonce.
      bindR (thrown (idempotencyKeyForPrepared E (pt_orderId task) (cs_orderId signal) taskId
          (pt_stageId task) signalName (pc_submitter c) nonce)) (\<lambda>idempotencyKey.
      Inr \<lparr>pr_prepareId = prepareId, pr_taskId = taskId, pr_orderId = pt_orderId task,
        pr_onchainOrderId = cs_orderId signal, pr_planId = pc_planId c,
        pr_stageIdentifier = pt_stageId task, pr_signalName = signalName,
        pr_sourceId = cs_sourceId signal, pr_signalId = cs_signalId signal,
        pr_intent = pi_intent inp, pr_payloadHash = fst (pc_payload c),
        pr_payloadRef = snd (pc_payload c), pr_idempotencyKey = idempotencyKey,
        pr_submitter = pc_submitter c, pr_nonce = nonce, pr_deadline = dec_int deadlineSeconds,
        pr_expiresAt = expiresAt,
        pr_humanSummary = humanSummaryForPrepared E task (pc_verifyingContract c) (pi_intent inp)
          (pc_payload c) (pc_submitter c) expiresAt,
        pr_typedData = sv_buildTypedData E
          \<lparr>tdi_chainId = sv_chainId E, tdi_verifyingContract = pc_verifyingContract c,
           tdi_planId = pc_planId c, tdi_orderId = cs_orderId signal,
           tdi_sourceId = cs_sourceId signal, tdi_signalId = cs_signalId signal,
           tdi_payloadHash = fst (pc_payload c), tdi_idempotencyKey = idempotencyKey,
           tdi_submitter = pc_submitter c, tdi_deadline = dec_int deadlineSeconds\<rparr>,
        pr_evidence = map evidenceSummary (pc_evidence c), pr_authorizationSource = pc_source c,
        pr_evidenceRecords = pc_evidence c, pr_usedAt = None, pr_submissionId = None\<rparr>)))"

definition dtoFromPreparedRecord :: "prepared_record \<Rightarrow> prepared" where
  "dtoFromPreparedRecord p = prepared.truncate p"

definition prepareSubmit ::
  "service_env \<Rightarrow> int \<Rightarrow> string \<Rightarrow> string \<Rightarrow> string \<Rightarrow> prepare_input \<Rightarrow> evidence_principal
     \<Rightarrow> submission_store \<Rightarrow> (svc_error + prepared) \<times> submission_store" where
  "prepareSubmit E t nonceText prepareId taskId inp reader st =
     (case bindR (prepare_checks E taskId inp reader) (prepare_build E t nonceText prepareId taskId inp) of
        Inl e \<Rightarrow> (Inl e, st)
      | Inr p \<Rightarrow> (Inr (dtoFromPreparedRecord p), putPrepared p st))"

section \<open>Archive records\<close>

text \<open>
  \<open>submissionCommon\<close> leaves out the fields that depend on the outcome; they hold neutral values
  here until a caller sets them.
\<close>

definition submissionCommon ::
  "prepared_record \<Rightarrow> string \<Rightarrow> string option \<Rightarrow> string option \<Rightarrow> string \<Rightarrow> submission" where
  "submissionCommon p submissionId recovered signatureHash createdAt =
     \<lparr>sm_submissionId = submissionId, sm_prepareId = pr_prepareId p, sm_taskId = pr_taskId p,
      sm_orderId = pr_orderId p, sm_onchainOrderId = pr_onchainOrderId p, sm_planId = pr_planId p,
      sm_stageIdentifier = pr_stageIdentifier p, sm_signalName = pr_signalName p,
      sm_sourceId = pr_sourceId p, sm_signalId = pr_signalId p, sm_intent = pr_intent p,
      sm_payloadHash = pr_payloadHash p, sm_payloadRef = pr_payloadRef p,
      sm_idempotencyKey = pr_idempotencyKey p, sm_submitter = pr_submitter p,
      sm_nonce = pr_nonce p, sm_deadline = pr_deadline p,
      sm_signatureStatus = (if truthy recovered then ''signature_verified'' else ''not_verified''),
      sm_signatureHash = keep_truthy signatureHash, sm_recoveredSubmitter = keep_truthy recovered,
      sm_evidenceIds = map es_evidenceId (pr_evidence p), sm_createdAt = createdAt,
      sm_updatedAt = createdAt, sm_status = SubPrepared, sm_statusLabel = None,
      sm_broadcastStatus = [], sm_txHash = None, sm_blockNumber = None, sm_errorCode = None,
      sm_errorLabel = None, sm_errorMessage = None, sm_retryable = None, sm_retryState = None,
      sm_deadLetter = None, sm_nextRetryAt = None, sm_attempts = [], sm_attemptCount = 0,
      sm_proofRows = [], sm_reconcileStatus = None, sm_lastCheckedAt = None,
      sm_receiptStatus = None, sm_projectionStatus = None\<rparr>"

definition attemptsFromBroadcast ::
  "prepared_record \<Rightarrow> string \<Rightarrow> string \<Rightarrow> broadcast_attempt option \<Rightarrow> bool \<Rightarrow> bool
     \<Rightarrow> submission_attempt list" where
  "attemptsFromBroadcast p submissionId timestamp attempt fallbackRetryable fallbackDeadLetter =
     (case attempt of
        None \<Rightarrow> []
      | Some a \<Rightarrow>
          let attemptNumber = or_default (ba_attemptNumber a) 1;
              retryable = or_default (ba_retryable a) fallbackRetryable;
              deadLetter = or_default (ba_deadLetter a) fallbackDeadLetter;
              retryState = or_default (ba_retryState a) (retryStateFor
                (ba_status a = ''failed'' \<or> ba_status a = ''expired'') retryable deadLetter);
              errorLabel = opt_or (ba_errorLabel a)
                (map_option errorLabelFor (keep_truthy (ba_errorCode a))) in
          [\<lparr>at_attemptId = submissionId @ '':'' @ dec_int attemptNumber,
            at_submissionId = submissionId, at_orderId = pr_onchainOrderId p,
            at_sourceId = pr_sourceId p, at_signalId = pr_signalId p,
            at_submitter = pr_submitter p, at_status = ba_status a,
            at_txHash = keep_truthy (ba_txHash a), at_blockNumber = keep_truthy (ba_blockNumber a),
            at_errorCode = keep_truthy (ba_errorCode a), at_errorLabel = keep_truthy errorLabel,
            at_errorMessage = keep_truthy (ba_errorMessage a),
            at_revertReason = keep_truthy (ba_revertReason a),
            at_gasPayer = keep_truthy (ba_gasPayer a), at_attemptNumber = attemptNumber,
            at_retryable = retryable, at_retryState = retryState, at_deadLetter = deadLetter,
            at_nextRetryAt = keep_truthy (ba_nextRetryAt a), at_createdAt = timestamp,
            at_updatedAt = timestamp\<rparr>])"

definition with_attempts :: "submission_attempt list \<Rightarrow> submission \<Rightarrow> submission" where
  "with_attempts attempts sm = sm\<lparr>sm_attempts := attempts, sm_attemptCount := length attempts\<rparr>"

definition record_done ::
  "prepared_record \<Rightarrow> submission \<Rightarrow> submission_status \<Rightarrow> string \<Rightarrow> string option
     \<Rightarrow> broadcast_attempt option \<Rightarrow> submission" where
  "record_done p common status txHash block attempt =
     with_attempts (attemptsFromBroadcast p (sm_submissionId common) (sm_createdAt common)
         (Some (or_default attempt ((bare_attempt (submission_status_text status))
           \<lparr>ba_txHash := keep_truthy (Some txHash), ba_blockNumber := keep_truthy block\<rparr>))) False False)
       (common\<lparr>sm_status := status, sm_statusLabel := Some (submissionStatusLabel status),
         sm_broadcastStatus := submission_status_text status, sm_txHash := Some txHash,
         sm_blockNumber := keep_truthy block, sm_retryable := Some False,
         sm_retryState := Some RsNotApplicable, sm_deadLetter := Some False,
         sm_proofRows := proofRows status (sm_submitter common) (sm_payloadHash common)
           (Some txHash) None\<rparr>)"

definition record_failed :: "prepared_record \<Rightarrow> submission \<Rightarrow> broadcast_failure \<Rightarrow> submission" where
  "record_failed p common f =
     (let retryable = bf_retryable f;
          deadLetter = or_default (bf_deadLetter f) (\<not> retryable);
          retryState = or_default (bf_retryState f) (retryStateFor True retryable deadLetter);
          txHash = opt_or (bf_txHash f) (Option.bind (bf_attempt f) ba_txHash);
          block = opt_or (bf_blockNumber f) (Option.bind (bf_attempt f) ba_blockNumber);
          errorLabel = or_default (bf_errorLabel f) (errorLabelFor (bf_errorCode f));
          attempt = or_default (bf_attempt f) ((bare_attempt ''failed'')
            \<lparr>ba_txHash := keep_truthy txHash, ba_blockNumber := keep_truthy block,
             ba_errorCode := Some (bf_errorCode f), ba_errorLabel := Some errorLabel,
             ba_errorMessage := Some (bf_message f), ba_retryable := Some retryable,
             ba_retryState := Some retryState, ba_deadLetter := Some deadLetter,
             ba_nextRetryAt := keep_truthy (bf_nextRetryAt f)\<rparr>) in
      with_attempts (attemptsFromBroadcast p (sm_submissionId common) (sm_createdAt common)
          (Some attempt) retryable deadLetter)
        (common\<lparr>sm_status := SubFailed, sm_statusLabel := Some (submissionStatusLabel SubFailed),
          sm_broadcastStatus := ''failed'', sm_txHash := keep_truthy txHash,
          sm_blockNumber := keep_truthy block, sm_errorCode := Some (bf_errorCode f),
          sm_errorLabel := Some errorLabel, sm_errorMessage := Some (bf_message f),
          sm_retryable := Some retryable, sm_retryState := Some retryState,
          sm_deadLetter := Some deadLetter, sm_nextRetryAt := keep_truthy (bf_nextRetryAt f),
          sm_proofRows := proofRows SubFailed (sm_submitter common) (sm_payloadHash common)
            (keep_truthy txHash) (Some (bf_errorCode f))\<rparr>))"

definition record_broadcasting ::
  "prepared_record \<Rightarrow> submission \<Rightarrow> string option \<Rightarrow> broadcast_attempt option \<Rightarrow> submission" where
  "record_broadcasting p common txHash attempt =
     with_attempts (attemptsFromBroadcast p (sm_submissionId common) (sm_createdAt common) attempt
         False False)
       (common\<lparr>sm_status := SubBroadcasting,
         sm_statusLabel := Some (submissionStatusLabel SubBroadcasting),
         sm_broadcastStatus := ''broadcasting'', sm_txHash := keep_truthy txHash,
         sm_retryable := Some False, sm_retryState := Some RsNotApplicable,
         sm_deadLetter := Some False,
         sm_proofRows := proofRows SubBroadcasting (sm_submitter common) (sm_payloadHash common)
           (keep_truthy txHash) None\<rparr>)"

definition record_unattempted :: "submission \<Rightarrow> string \<Rightarrow> string \<Rightarrow> submission" where
  "record_unattempted common errorCode reason =
     common\<lparr>sm_status := SubSignatureReceived,
       sm_statusLabel := Some (submissionStatusLabel SubSignatureReceived),
       sm_broadcastStatus := ''not_attempted'', sm_errorCode := Some errorCode,
       sm_errorMessage := Some reason, sm_retryable := Some False,
       sm_retryState := Some RsNotApplicable, sm_deadLetter := Some False,
       sm_proofRows := proofRows SubSignatureReceived (sm_submitter common) (sm_payloadHash common)
         None (Some errorCode)\<rparr>"

definition submissionFromBroadcast ::
  "prepared_record \<Rightarrow> string \<Rightarrow> string \<Rightarrow> string \<Rightarrow> string \<Rightarrow> broadcast_result \<Rightarrow> submission" where
  "submissionFromBroadcast p submissionId recovered signatureHash createdAt r =
     (let common = submissionCommon p submissionId (Some recovered) (Some signatureHash) createdAt in
      case r of
        BrBroadcasting h a \<Rightarrow> record_broadcasting p common h a
      | BrSubmitted h b a \<Rightarrow> record_done p common SubSubmitted h b a
      | BrConfirmed h b a \<Rightarrow> record_done p common SubConfirmed h b a
      | BrFailed f \<Rightarrow> record_failed p common f
      | BrNotAttempted c reason \<Rightarrow> record_unattempted common c reason)"

definition buildExpiredSubmission ::
  "prepared_record \<Rightarrow> string \<Rightarrow> string \<Rightarrow> string option \<Rightarrow> string option \<Rightarrow> submission" where
  "buildExpiredSubmission p submissionId timestamp recovered signatureHash =
     (submissionCommon p submissionId recovered signatureHash timestamp)
       \<lparr>sm_status := SubExpired, sm_statusLabel := Some (submissionStatusLabel SubExpired),
        sm_broadcastStatus := ''not_attempted'', sm_errorCode := Some ''submission_expired'',
        sm_errorLabel := Some (errorLabelFor ''expired_signal_signature''),
        sm_errorMessage := Some ''prepared submission deadline has expired'',
        sm_retryable := Some False, sm_retryState := Some RsNotRetryable,
        sm_deadLetter := Some False,
        sm_proofRows := proofRows SubExpired (pr_submitter p) (pr_payloadHash p) None
          (Some ''submission_expired'')\<rparr>"

record reconcile_fields =
  rf_reconcileStatus :: reconcile_status
  rf_receiptStatus :: receipt_status
  rf_projectionStatus :: projection_status

definition defaultSubmissionReconcileFields :: "submission \<Rightarrow> reconcile_fields" where
  "defaultSubmissionReconcileFields sm =
     (case sm_status sm of
        SubConfirmed \<Rightarrow>
          \<lparr>rf_reconcileStatus = RecConfirmed,
           rf_receiptStatus = (if truthy (sm_txHash sm) then RcSuccess else RcNotChecked),
           rf_projectionStatus = PjPresent\<rparr>
      | SubFailed \<Rightarrow>
          \<lparr>rf_reconcileStatus = RecFailed,
           rf_receiptStatus =
             (if sm_txHash sm \<noteq> None \<and> sm_errorCode sm = Some ''transaction_reverted'' then RcFailed
              else if truthy (sm_txHash sm) \<and> sm_errorCode sm = Some ''transaction_receipt_unknown''
              then RcUnknown else RcNotChecked),
           rf_projectionStatus = PjNotChecked\<rparr>
      | SubExpired \<Rightarrow>
          \<lparr>rf_reconcileStatus = RecFailed, rf_receiptStatus = RcTimeout,
           rf_projectionStatus = PjNotChecked\<rparr>
      | SubIndexing \<Rightarrow>
          \<lparr>rf_reconcileStatus = RecIndexing, rf_receiptStatus = RcSuccess,
           rf_projectionStatus = PjMissing\<rparr>
      | _ \<Rightarrow>
          \<lparr>rf_reconcileStatus = (if truthy (sm_txHash sm) then RecSubmitted else RecBroadcasting),
           rf_receiptStatus = RcNotChecked, rf_projectionStatus = PjNotChecked\<rparr>)"

definition withSubmissionReconcileDefaults :: "submission \<Rightarrow> submission" where
  "withSubmissionReconcileDefaults sm =
     (let deadLetter = or_default (sm_deadLetter sm) False;
          retryable = or_default (sm_retryable sm) False;
          d = defaultSubmissionReconcileFields sm in
      sm\<lparr>sm_reconcileStatus := opt_or (sm_reconcileStatus sm) (Some (rf_reconcileStatus d)),
        sm_receiptStatus := opt_or (sm_receiptStatus sm) (Some (rf_receiptStatus d)),
        sm_projectionStatus := opt_or (sm_projectionStatus sm) (Some (rf_projectionStatus d)),
        sm_statusLabel := opt_or (sm_statusLabel sm) (Some (submissionStatusLabel (sm_status sm))),
        sm_retryState := opt_or (sm_retryState sm)
          (Some (retryStateFor (failed_or_expired (sm_status sm)) retryable deadLetter)),
        sm_deadLetter := Some deadLetter\<rparr>)"

section \<open>Submitting\<close>

text \<open>
  \<open>submit\<close> is cut in two around its broadcast. \<open>clock k\<close> is what the \<open>k\<close>-th call of \<open>now()\<close>
  in a part returns and \<open>reservedAt\<close> the text of the store's clock. A transaction on the store
  either happens as a whole or throws and changes nothing, as given by a fault; audit records
  are left out.
\<close>

record submit_input =
  si_prepareId :: string
  si_walletAddress :: string
  si_signature :: string

record submit_context =
  sx_prepared :: prepared_record
  sx_signature :: string
  sx_recovered :: string

datatype submit_begun =
    SbArchived submission
  | SbUnattempted submit_context
  | SbReserved submit_context

definition recoverSignature :: "service_env \<Rightarrow> prepared_record \<Rightarrow> string \<Rightarrow> svc_error + string" where
  "recoverSignature E p signature =
     (case sv_recoverSigner E (pr_typedData p) signature of
        Inr a \<Rightarrow> Inr a
      | Inl (Some message) \<Rightarrow> Inl (ProductSubmissionError 400 ''invalid_signature'' message)
      | Inl None \<Rightarrow> Inl (ProductSubmissionError 400 ''invalid_signature'' ''invalid signature''))"

definition submit_checks ::
  "service_env \<Rightarrow> string \<Rightarrow> submit_input \<Rightarrow> submission_store \<Rightarrow> svc_error + submit_context" where
  "submit_checks E taskId inp st =
     (case getPrepared (si_prepareId inp) st of
        None \<Rightarrow> Inl (ProductSubmissionError 404 ''prepare_not_found'' ''prepared submission not found'')
      | Some p \<Rightarrow>
          if pr_taskId p \<noteq> taskId then
            Inl (ProductSubmissionError 409 ''prepare_task_mismatch''
              ''prepared submission belongs to a different task'')
          else if truthy (pr_usedAt p) \<or> truthy (pr_submissionId p) then
            Inl (ProductSubmissionError 409 ''prepare_already_used''
              ''prepared submission has already been used'')
          else
            bindR (thrown (normalizeAddress (sv_bindings E) (si_walletAddress inp) ''walletAddress''))
              (\<lambda>submitter.
            if submitter \<noteq> pr_submitter p then
              Inl (ProductSubmissionError 400 ''wallet_mismatch''
                ''walletAddress does not match prepared submitter'')
            else
              bindR (thrown (normalizeSignature (si_signature inp))) (\<lambda>signature.
              bindR (recoverSignature E p signature) (\<lambda>recovered.
              if recovered \<noteq> pr_submitter p then
                Inl (ProductSubmissionError 400 ''invalid_signature''
                  ''signature recovery did not match prepared submitter'')
              else Inr \<lparr>sx_prepared = p, sx_signature = signature, sx_recovered = recovered\<rparr>))))"

definition stale_threshold :: "service_env \<Rightarrow> int \<Rightarrow> string" where
  "stale_threshold E t = toISOString (t - sv_ttlSeconds E * 1000)"

text \<open>An expired preparation is consumed with its archive record in one transaction.\<close>

definition archive_expired ::
  "service_env \<Rightarrow> int \<Rightarrow> string \<Rightarrow> thrown_error option \<Rightarrow> submit_context \<Rightarrow> submission_store
     \<Rightarrow> (svc_error + submit_begun) \<times> submission_store" where
  "archive_expired E t submissionId fault x st =
     (case signatureHashFor E (sx_signature x) of
        Inl e \<Rightarrow> (Inl (ThrownError e), st)
      | Inr signatureHash \<Rightarrow>
          (let p = sx_prepared x;
               expired = withSubmissionReconcileDefaults (buildExpiredSubmission p submissionId
                 (toISOString t) (Some (sx_recovered x)) (Some signatureHash)) in
           case fault of
             Some e \<Rightarrow> (Inl (ThrownExternal e), st)
           | None \<Rightarrow> (Inr (SbArchived expired),
               markPreparedUsed (pr_prepareId p) submissionId (sm_updatedAt expired)
                 (putSubmission expired st))))"

definition submit_begin ::
  "service_env \<Rightarrow> (nat \<Rightarrow> int) \<Rightarrow> string \<Rightarrow> string \<Rightarrow> thrown_error option \<Rightarrow> string \<Rightarrow> submit_input
     \<Rightarrow> submission_store \<Rightarrow> (svc_error + submit_begun) \<times> submission_store" where
  "submit_begin E clock reservedAt submissionId fault taskId inp st =
     (case submit_checks E taskId inp st of
        Inl e \<Rightarrow> (Inl e, st)
      | Inr x \<Rightarrow>
          (case bigint_of (pr_deadline (sx_prepared x)) of
             Inl e \<Rightarrow> (Inl (ThrownError e), st)
           | Inr deadline \<Rightarrow>
               if deadline < clock 0 div 1000 then
                 archive_expired E (clock 1) submissionId fault x st
               else if \<not> sv_attemptsBroadcast E then (Inr (SbUnattempted x), st)
               else
                 (let (reserved, st') = reserveNonce (submissionNonceKey (sx_prepared x))
                    (Some (stale_threshold E (clock 1))) reservedAt st in
                  if reserved then (Inr (SbReserved x), st')
                  else (Inl (ProductSubmissionError 409 ''duplicate_submit''
                    ''submission nonce has already been used''), st'))))"

text \<open>What the adapter was given, and what came of it.\<close>

definition broadcast_request_of :: "submit_context \<Rightarrow> broadcast_request" where
  "broadcast_request_of x =
     \<lparr>rq_prepared = dtoFromPreparedRecord (sx_prepared x), rq_signature = sx_signature x,
      rq_recoveredSubmitter = sx_recovered x, rq_evidence = pr_evidenceRecords (sx_prepared x)\<rparr>"

datatype adapter_reply = ArResult broadcast_result | ArThrows thrown_error

definition submission_record ::
  "service_env \<Rightarrow> submit_context \<Rightarrow> string \<Rightarrow> int \<Rightarrow> broadcast_result \<Rightarrow> svc_error + submission" where
  "submission_record E x submissionId t r =
     bindR (thrown (signatureHashFor E (sx_signature x))) (\<lambda>signatureHash.
       Inr (withSubmissionReconcileDefaults (submissionFromBroadcast (sx_prepared x) submissionId
         (sx_recovered x) signatureHash (toISOString t) r)))"

text \<open>An adapter that cannot broadcast: the record is kept, nothing is consumed.\<close>

definition submit_unattempted ::
  "service_env \<Rightarrow> int \<Rightarrow> string \<Rightarrow> submit_context \<Rightarrow> adapter_reply \<Rightarrow> submission_store
     \<Rightarrow> (svc_error + submission) \<times> submission_store" where
  "submit_unattempted E t submissionId x reply st =
     (case reply of
        ArThrows e \<Rightarrow> (Inl (ThrownExternal e), st)
      | ArResult r \<Rightarrow>
          (case submission_record E x submissionId t r of
             Inl e \<Rightarrow> (Inl e, st)
           | Inr sm \<Rightarrow> (Inr sm, putSubmission sm st)))"

text \<open>
  The transactions after a broadcast may fail: the archive of its outcome, the fallback
  record when that had a transaction hash, and the record that releases the nonce.
\<close>

record submit_faults =
  fl_archive :: "thrown_error option"
  fl_fallback :: bool
  fl_release :: "thrown_error option"

definition persist_failed :: "string \<Rightarrow> broadcast_result" where
  "persist_failed txHash =
     BrFailed \<lparr>bf_txHash = Some txHash, bf_blockNumber = None, bf_errorCode = ''persist_failed'',
       bf_errorLabel = None,
       bf_message = ''broadcast succeeded but persisting the submission failed; ''
         @ ''the receipt is unknown and the nonce stays consumed'',
       bf_retryable = False, bf_retryState = None, bf_deadLetter = Some True,
       bf_nextRetryAt = None, bf_attempt = None\<rparr>"

definition classified_failure :: "classified_error \<Rightarrow> broadcast_result" where
  "classified_failure c =
     BrFailed \<lparr>bf_txHash = None, bf_blockNumber = None, bf_errorCode = ce_errorCode c,
       bf_errorLabel = None, bf_message = ce_message c, bf_retryable = ce_retryable c,
       bf_retryState = None, bf_deadLetter = None, bf_nextRetryAt = None, bf_attempt = None\<rparr>"

text \<open>Nothing reached the chain: a failure record is kept and the nonce released.\<close>

definition submit_thrown ::
  "service_env \<Rightarrow> int \<Rightarrow> string \<Rightarrow> submit_context \<Rightarrow> thrown_error \<Rightarrow> thrown_error option
     \<Rightarrow> submission_store \<Rightarrow> (svc_error + submission) \<times> submission_store" where
  "submit_thrown E t submissionId x e fault st =
     (case submission_record E x submissionId t
        (classified_failure (classifyStateMachineBroadcastError e)) of
        Inl e' \<Rightarrow> (Inl e', st)
      | Inr sm \<Rightarrow>
          (case fault of
             Some e' \<Rightarrow> (Inl (ThrownExternal e'), st)
           | None \<Rightarrow> (Inl (ThrownExternal e),
               releaseNonce (submissionNonceKey (sx_prepared x)) (putSubmission sm st))))"

definition keeps_prepare_reusable :: "broadcast_result \<Rightarrow> submission \<Rightarrow> bool" where
  "keeps_prepare_reusable r sm \<longleftrightarrow>
     (case r of BrFailed f \<Rightarrow> bf_retryable f \<and> \<not> truthy (sm_txHash sm) | _ \<Rightarrow> False)"

definition submit_finish ::
  "service_env \<Rightarrow> (nat \<Rightarrow> int) \<Rightarrow> string \<Rightarrow> string \<Rightarrow> submit_faults \<Rightarrow> submit_context \<Rightarrow> adapter_reply
     \<Rightarrow> submission_store \<Rightarrow> (svc_error + submission) \<times> submission_store" where
  "submit_finish E clock submissionId secondId faults x reply st =
     (case reply of
        ArThrows e \<Rightarrow> submit_thrown E (clock 1) secondId x e (fl_release faults) st
      | ArResult r \<Rightarrow>
          (case submission_record E x submissionId (clock 0) r of
             Inl e \<Rightarrow> (Inl e, st)
           | Inr sm \<Rightarrow>
               (case fl_archive faults of
                  None \<Rightarrow>
                    (Inr sm,
                     if keeps_prepare_reusable r sm
                     then releaseNonce (submissionNonceKey (sx_prepared x)) (putSubmission sm st)
                     else markPreparedUsed (pr_prepareId (sx_prepared x)) submissionId
                       (sm_updatedAt sm) (putSubmission sm st))
                | Some e \<Rightarrow>
                    (case sm_txHash sm of
                       Some h \<Rightarrow>
                         if h \<noteq> [] \<and> submissionId \<noteq> [] then
                           (Inl (ThrownExternal e),
                            if fl_fallback faults then st
                            else (case submission_record E x submissionId (clock 1) (persist_failed h) of
                                    Inl _ \<Rightarrow> st
                                  | Inr lost \<Rightarrow> putSubmission lost st))
                         else submit_thrown E (clock 1) secondId x e (fl_release faults) st
                     | None \<Rightarrow> submit_thrown E (clock 1) secondId x e (fl_release faults) st))))"

section \<open>Evidence binding and reading\<close>

record bind_request =
  bq_evidenceId :: string
  bq_submissionId :: string
  bq_txHash :: string
  bq_orderId :: string
  bq_onchainOrderId :: string
  bq_sourceId :: string
  bq_signalId :: string
  bq_boundAt :: string

definition isEvidenceBindingSubmission :: "submission \<Rightarrow> bool" where
  "isEvidenceBindingSubmission sm \<longleftrightarrow> sm_status sm = SubSubmitted \<or> sm_status sm = SubConfirmed"

text \<open>
  \<open>bindEvidence\<close> of the evidence service may be absent, and may throw. The pieces of the
  preparation are bound one after another; the first that fails ends the loop.
\<close>

type_synonym 'w evidence_binder = "(bind_request \<Rightarrow> evidence_principal \<Rightarrow> ('w, thrown_error, unit) action) option"

definition bind_request_of :: "prepared_record \<Rightarrow> submission \<Rightarrow> string \<Rightarrow> evidence_record \<Rightarrow> bind_request" where
  "bind_request_of p sm txHash ev =
     \<lparr>bq_evidenceId = ev_evidenceId ev, bq_submissionId = sm_submissionId sm, bq_txHash = txHash,
      bq_orderId = pr_orderId p, bq_onchainOrderId = pr_onchainOrderId p, bq_sourceId = pr_sourceId p,
      bq_signalId = pr_signalId p, bq_boundAt = sm_updatedAt sm\<rparr>"

definition bindSubmittedEvidence ::
  "'w evidence_binder \<Rightarrow> prepared_record \<Rightarrow> submission \<Rightarrow> ('w, thrown_error, unit) action" where
  "bindSubmittedEvidence binder p sm =
     (case (binder, keep_truthy (sm_txHash sm)) of
        (Some bind, Some h) \<Rightarrow>
          eachA (\<lambda>ev. bind (bind_request_of p sm h ev)
            \<lparr>ep_id = Some (toLowerCase (pr_submitter p)), ep_role = ''participant''\<rparr>) (pr_evidenceRecords p)
      | _ \<Rightarrow> returnA ())"

text \<open>What follows a submission that ended well; a failure is reported to the audit only.\<close>

definition bind_after_submit ::
  "'w evidence_binder \<Rightarrow> prepared_record \<Rightarrow> submission \<Rightarrow> ('w, thrown_error, unit) action" where
  "bind_after_submit binder p sm =
     whenA (isEvidenceBindingSubmission sm)
       (catchA (bindSubmittedEvidence binder p sm) (\<lambda>_. returnA ()))"

definition getSubmission ::
  "string \<Rightarrow> string \<Rightarrow> submission_store \<Rightarrow> svc_error + submission option" where
  "getSubmission submissionId readerWallet st =
     (case getSubmission_store submissionId st of
        None \<Rightarrow> Inr None
      | Some sm \<Rightarrow>
          if toLowerCase (sm_submitter sm) \<noteq> toLowerCase readerWallet then
            Inl (ProductSubmissionError 403 ''submission_access_forbidden''
              ''only the submitter of this submission may read its profile'')
          else Inr (Some (withSubmissionReconcileDefaults sm)))"

end
