(* ===== verification/ProjectionStore.thy ===== *)
theory ProjectionStore imports Replay Identity Dates begin

text \<open>
  The projection store the services read from (\<open>storage/projection-store.ts\<close>): the snapshots
  and the sync state that \<open>resetFromEvents\<close> writes, and the look-ups by full and by bare
  identifiers. Reads of snapshot values by key give each value once, since every key holds
  an object of its own.
\<close>

section \<open>State\<close>

record projection_scope =
  sc_chainId :: int
  sc_contractAddress :: string

record rebuild_metadata =
  rm_status :: string
  rm_startedAt :: "string option"
  rm_completedAt :: "string option"
  rm_deploymentBlock :: "int option"
  rm_fromBlock :: "int option"
  rm_toBlock :: "int option"
  rm_eventCount :: "int option"
  rm_activeEventCount :: "int option"
  rm_removedEventCount :: "int option"
  rm_removedLogsFiltered :: "bool option"
  rm_projectionRebuilt :: "bool option"
  rm_mismatchCount :: "int option"

record sync_base =
  sy_scope :: projection_scope
  sy_syncStatus :: string
  sy_latestIndexedBlock :: "int option"
  sy_finalizedBlock :: "int option"
  sy_confirmationDepth :: int
  sy_lastEventName :: "string option"
  sy_eventCount :: nat
  sy_rebuild :: "rebuild_metadata option"
  sy_degradedReason :: "string option"

record sync_state = sync_base +
  sy_updatedAt :: string

record rebuild_input =
  ri_deploymentBlock :: int
  ri_events :: "chain_event list"
  ri_scope :: "projection_scope option"
  ri_syncState :: "sync_base option"

record projection_store =
  ps_snapshot :: snapshot
  ps_identitySnapshot :: identity_snapshot
  ps_syncState :: "sync_state option"

definition empty_projection_store :: projection_store where
  "empty_projection_store =
     \<lparr>ps_snapshot = createEmptyProjectionSnapshot,
      ps_identitySnapshot = createEmptyIdentityProjectionSnapshot, ps_syncState = None\<rparr>"

definition projectionScopeContractAddress :: string where
  "projectionScopeContractAddress = ''0x0000000000000000000000000000000000000000''"

definition defaultProjectionScope :: "int \<Rightarrow> projection_scope" where
  "defaultProjectionScope chain =
     \<lparr>sc_chainId = chain, sc_contractAddress = projectionScopeContractAddress\<rparr>"

section \<open>Rebuilding\<close>

definition latestBlockNumber :: "chain_event list \<Rightarrow> int option" where
  "latestBlockNumber events =
     foldl (\<lambda>latest e. case latest of
         None \<Rightarrow> Some (blockNumber e)
       | Some b \<Rightarrow> if b < blockNumber e then Some (blockNumber e) else Some b) None events"

text \<open>\<open>events.at(-1)\<close>.\<close>

definition last_event :: "chain_event list \<Rightarrow> chain_event option" where
  "last_event events = (if events = [] then None else Some (last events))"

definition syncStateFromRebuildInput ::
  "rebuild_input \<Rightarrow> chain_event list \<Rightarrow> string \<Rightarrow> sync_state" where
  "syncStateFromRebuildInput inp events updatedAt =
     (let activeEvents = filterActiveChainEvents events;
          lastEvent = last_event (sortChainEvents activeEvents);
          base = ri_syncState inp;
          scope = (case ri_scope inp of
              Some s \<Rightarrow> s
            | None \<Rightarrow>
                \<lparr>sc_chainId = (case lastEvent of
                     Some e \<Rightarrow> chainId e
                   | None \<Rightarrow> (case base of Some b \<Rightarrow> sc_chainId (sy_scope b) | None \<Rightarrow> 0)),
                 sc_contractAddress = (case base of
                     Some b \<Rightarrow> sc_contractAddress (sy_scope b)
                   | None \<Rightarrow> projectionScopeContractAddress)\<rparr>) in
      \<lparr>sy_scope = scope,
       sy_syncStatus = (case base of Some b \<Rightarrow> sy_syncStatus b | None \<Rightarrow> ''indexed''),
       sy_latestIndexedBlock = latestBlockNumber activeEvents,
       sy_finalizedBlock = Option.bind base sy_finalizedBlock,
       sy_confirmationDepth = (case base of Some b \<Rightarrow> sy_confirmationDepth b | None \<Rightarrow> 0),
       sy_lastEventName = (case lastEvent of
           Some e \<Rightarrow> Some (eventName e)
         | None \<Rightarrow> keep_truthy (Option.bind base sy_lastEventName)),
       sy_eventCount = (case base of Some b \<Rightarrow> sy_eventCount b | None \<Rightarrow> length activeEvents),
       sy_rebuild = Option.bind base sy_rebuild,
       sy_degradedReason = keep_truthy (Option.bind base sy_degradedReason),
       sy_updatedAt = updatedAt\<rparr>)"

text \<open>
  The snapshot of the orders is assigned before the identities are replayed: an error of the
  second replay leaves the first assignment in place.
\<close>

definition resetFromEvents ::
  "bindings \<Rightarrow> rebuild_input \<Rightarrow> string \<Rightarrow> projection_store \<Rightarrow> snapshot res \<times> projection_store" where
  "resetFromEvents B inp updatedAt ps =
     (let events = filter (\<lambda>e. ri_deploymentBlock inp \<le> blockNumber e) (ri_events inp) in
      case rebuildOrderProjections B events of
        Inl e \<Rightarrow> (Inl e, ps)
      | Inr snap \<Rightarrow>
          (case rebuildIdentityProjections B events of
             Inl e \<Rightarrow> (Inl e, ps\<lparr>ps_snapshot := snap\<rparr>)
           | Inr identities \<Rightarrow>
               (Inr snap, \<lparr>ps_snapshot = snap, ps_identitySnapshot = identities,
                  ps_syncState = Some (syncStateFromRebuildInput inp events updatedAt)\<rparr>)))"

definition saveSyncState ::
  "sync_base \<Rightarrow> string \<Rightarrow> projection_store \<Rightarrow> sync_state \<times> projection_store" where
  "saveSyncState base updatedAt ps =
     (let s = sync_base.extend base \<lparr>sy_updatedAt = updatedAt\<rparr> in
      (s, ps\<lparr>ps_syncState := Some s\<rparr>))"

section \<open>Reading\<close>

definition listStateMachineOrders :: "projection_store \<Rightarrow> order_proj list" where
  "listStateMachineOrders ps = jvalues (sn_stateMachineOrders (ps_snapshot ps))"

definition sole :: "'a list \<Rightarrow> 'a option" where
  "sole xs = (case xs of [x] \<Rightarrow> Some x | _ \<Rightarrow> None)"

definition uniqueOrderByBareId :: "order_proj list \<Rightarrow> string \<Rightarrow> string option \<Rightarrow> order_proj option" where
  "uniqueOrderByBareId orders orderId planId =
     sole (filter (\<lambda>x. toLowerCase (or_orderId x) = toLowerCase orderId
       \<and> (case keep_truthy planId of
            None \<Rightarrow> True
          | Some p \<Rightarrow> toLowerCase (or_planId x) = toLowerCase p)) orders)"

definition getStateMachineOrder :: "string \<Rightarrow> string option \<Rightarrow> projection_store \<Rightarrow> order_proj option" where
  "getStateMachineOrder orderId planId ps =
     (let snap = sn_stateMachineOrders (ps_snapshot ps); orders = listStateMachineOrders ps in
      if truthy planId then uniqueOrderByBareId orders orderId planId
      else opt_or (opt_or (jget snap (toLowerCase orderId)) (jget snap orderId))
        (uniqueOrderByBareId orders orderId None))"

definition findStateMachineOrdersByOrderId :: "string \<Rightarrow> projection_store \<Rightarrow> order_proj list" where
  "findStateMachineOrdersByOrderId orderId ps =
     filter (\<lambda>x. toLowerCase (or_orderId x) = toLowerCase orderId) (listStateMachineOrders ps)"

definition listStateMachineTasks :: "projection_store \<Rightarrow> task_proj list" where
  "listStateMachineTasks ps = jvalues (sn_stateMachineTasks (ps_snapshot ps))"

definition uniqueTaskByBareId :: "task_proj list \<Rightarrow> string \<Rightarrow> task_proj option" where
  "uniqueTaskByBareId tasks taskId =
     sole (filter (\<lambda>t. toLowerCase (tk_taskId t) = toLowerCase taskId) tasks)"

definition getStateMachineTask :: "string \<Rightarrow> projection_store \<Rightarrow> task_proj option" where
  "getStateMachineTask taskId ps =
     (let snap = sn_stateMachineTasks (ps_snapshot ps) in
      opt_or (opt_or (jget snap (toLowerCase taskId)) (jget snap taskId))
        (uniqueTaskByBareId (listStateMachineTasks ps) taskId))"

definition listIdentityBindings ::
  "bindings \<Rightarrow> identity_query \<Rightarrow> projection_store \<Rightarrow> identity_binding list res" where
  "listIdentityBindings B q ps = filterIdentityBindings B (ps_identitySnapshot ps) q"

section \<open>Look-ups\<close>

lemma reset_not_atomic:
  assumes "rebuildOrderProjections B (filter (\<lambda>e. ri_deploymentBlock inp \<le> blockNumber e) (ri_events inp)) = Inr snap"
    and "rebuildIdentityProjections B (filter (\<lambda>e. ri_deploymentBlock inp \<le> blockNumber e) (ri_events inp)) = Inl e"
  shows "fst (resetFromEvents B inp t ps) = Inl e"
    and "ps_snapshot (snd (resetFromEvents B inp t ps)) = snap"
    and "ps_identitySnapshot (snd (resetFromEvents B inp t ps)) = ps_identitySnapshot ps"
    and "ps_syncState (snd (resetFromEvents B inp t ps)) = ps_syncState ps"
  using assms by (simp_all add: resetFromEvents_def)

lemma sole_Some: "sole xs = Some x \<longleftrightarrow> xs = [x]"
  by (auto simp: sole_def split: list.splits)

lemma uniqueOrderByBareId_Some:
  "uniqueOrderByBareId orders orderId (Some planId) = Some x \<Longrightarrow> planId \<noteq> [] \<Longrightarrow>
     x \<in> set orders \<and> toLowerCase (or_orderId x) = toLowerCase orderId
     \<and> toLowerCase (or_planId x) = toLowerCase planId"
proof -
  let ?P = "\<lambda>x. toLowerCase (or_orderId x) = toLowerCase orderId
    \<and> toLowerCase (or_planId x) = toLowerCase planId"
  assume h: "uniqueOrderByBareId orders orderId (Some planId) = Some x" "planId \<noteq> []"
  then have "filter ?P orders = [x]" by (simp add: uniqueOrderByBareId_def sole_Some)
  then have "x \<in> set (filter ?P orders)" by simp
  then show ?thesis by simp
qed

lemma getStateMachineOrder_Some:
  "getStateMachineOrder orderId (Some planId) ps = Some x \<Longrightarrow> planId \<noteq> [] \<Longrightarrow>
     x \<in> set (jvalues (sn_stateMachineOrders (ps_snapshot ps)))
     \<and> toLowerCase (or_orderId x) = toLowerCase orderId
     \<and> toLowerCase (or_planId x) = toLowerCase planId"
  by (auto simp: getStateMachineOrder_def listStateMachineOrders_def dest: uniqueOrderByBareId_Some)

lemma latestBlockNumber_snoc:
  "latestBlockNumber (es @ [e]) = (case latestBlockNumber es of
       None \<Rightarrow> Some (blockNumber e)
     | Some b \<Rightarrow> Some (max b (blockNumber e)))"
  by (auto simp: latestBlockNumber_def max_def split: option.splits)

lemma latestBlockNumber_Max:
  "latestBlockNumber es = (if es = [] then None else Some (Max (blockNumber ` set es)))"
proof (induction es rule: rev_induct)
  case (snoc e es)
  then show ?case
    by (cases "es = []") (simp_all add: latestBlockNumber_snoc max.commute, simp add: latestBlockNumber_def)
qed (simp add: latestBlockNumber_def)

end
