(* ===== verification/ProductStore.thy ===== *)
theory ProductStore imports SubmissionTypes Dates Sorting begin

text \<open>
  Drafts of orders, their participants and invites, and the triggers that register an order
  on the chain: the records of \<open>product/query/bff/types.ts\<close> and the store of
  \<open>product/query/bff/store.ts\<close>. A draft has at most one trigger, whatever is called.
\<close>

section \<open>Records\<close>

datatype draft_status =
    DrDraft | DrAwaitingParticipants | DrReadyToTrigger | DrTriggering | DrTriggered
  | DrFailed | DrCancelled

datatype participant_status = PaMissing | PaInvited | PaAccepted | PaRejected | PaReplaced

datatype invite_status = InActive | InAccepted | InRejected | InExpired | InRevoked

datatype trigger_status =
    TrPending | TrPrepared | TrSubmitted | TrIndexing | TrConfirmed | TrFailed | TrExpired

record order_draft =
  df_draftId :: string
  df_zhixuId :: string
  df_planId :: string
  df_planHash :: string
  df_title :: string
  df_businessType :: string
  df_goods :: "string list"
  df_totalAmount :: string
  df_currency :: string
  df_exportRegion :: "string option"
  df_destinationRegion :: "string option"
  df_expectedCompletionDate :: "string option"
  df_notes :: "string option"
  df_status :: draft_status
  df_createdBy :: "string option"
  df_createdAt :: string
  df_updatedAt :: string
  df_triggeredOrderId :: "string option"
  df_triggerTxHash :: "string option"

record draft_participant =
  pa_participantId :: string
  pa_draftId :: string
  pa_roleSlotId :: string
  pa_roleLabel :: string
  pa_displayName :: string
  pa_walletAddress :: "string option"
  pa_contact :: string
  pa_status :: participant_status
  pa_required :: bool
  pa_acceptedAt :: "string option"
  pa_rejectedAt :: "string option"

record product_invite =
  iv_inviteId :: string
  iv_draftId :: string
  iv_participantId :: string
  iv_roleSlotId :: string
  iv_tokenHash :: string
  iv_status :: invite_status
  iv_expiresAt :: string
  iv_createdAt :: string
  iv_acceptedWalletAddress :: "string option"

record evidence_spec =
  sp_key :: string
  sp_label :: string
  sp_inputKind :: "string option"
  sp_accept :: "string list option"
  sp_required :: "bool option"
  sp_description :: "string option"

record participant_permission =
  pp_permissionId :: string
  pp_orderId :: "string option"
  pp_draftId :: string
  pp_participantId :: string
  pp_roleSlotId :: string
  pp_stageIdentifier :: string
  pp_source :: string
  pp_signalName :: string
  pp_submitterAddress :: string
  pp_payloadPolicy :: string
  pp_evidenceSpec :: "evidence_spec list option"
  pp_deadlinePolicy :: "string option"

record signal_authorization =
  sa_sourceId :: string
  sa_signalId :: string
  sa_submitter :: string
  sa_role :: string
  sa_metadataHash :: string

record trigger_record =
  tr_triggerId :: string
  tr_prepareId :: "string option"
  tr_draftId :: string
  tr_orderId :: string
  tr_stateMachineAddress :: "string option"
  tr_deploymentId :: "string option"
  tr_planId :: string
  tr_planHash :: string
  tr_status :: trigger_status
  tr_txHash :: "string option"
  tr_blockNumber :: "string option"
  tr_submitter :: "string option"
  tr_sourceId :: "string option"
  tr_signalId :: "string option"
  tr_triggerHookId :: "string option"
  tr_triggerStageId :: "string option"
  tr_errorCode :: "string option"
  tr_errorMessage :: "string option"
  tr_retryable :: bool
  tr_createdAt :: string
  tr_updatedAt :: string
  tr_reconcileStatus :: "reconcile_status option"
  tr_lastCheckedAt :: "string option"
  tr_receiptStatus :: "receipt_status option"
  tr_projectionStatus :: "projection_status option"
  tr_creator :: string
  tr_payloadHash :: string
  tr_idempotencyKey :: string
  tr_deadline :: string
  tr_typedData :: typed_data
  tr_signature :: "string option"
  tr_authorizations :: "signal_authorization list"
  tr_permissions :: "participant_permission list"

section \<open>The store\<close>

record product_store =
  bf_drafts :: "(string, order_draft) jsmap"
  bf_participants :: "(string, draft_participant) jsmap"
  bf_invites :: "(string, product_invite) jsmap"
  bf_registrations :: "(string, trigger_record) jsmap"

definition empty_product_store :: product_store where
  "empty_product_store =
     \<lparr>bf_drafts = [], bf_participants = [], bf_invites = [], bf_registrations = []\<rparr>"

definition updateDraft :: "order_draft \<Rightarrow> product_store \<Rightarrow> product_store" where
  "updateDraft d st = st\<lparr>bf_drafts := jset (df_draftId d) d (bf_drafts st)\<rparr>"

definition updateParticipant :: "draft_participant \<Rightarrow> product_store \<Rightarrow> product_store" where
  "updateParticipant p st = st\<lparr>bf_participants := jset (pa_participantId p) p (bf_participants st)\<rparr>"

definition createDraft ::
  "order_draft \<Rightarrow> draft_participant list \<Rightarrow> product_store \<Rightarrow> product_store" where
  "createDraft d participants st = foldl (\<lambda>st p. updateParticipant p st) (updateDraft d st) participants"

definition getDraft :: "string \<Rightarrow> product_store \<Rightarrow> order_draft option" where
  "getDraft draftId st = jget (bf_drafts st) draftId"

definition listParticipants :: "string \<Rightarrow> product_store \<Rightarrow> draft_participant list" where
  "listParticipants draftId st = filter (\<lambda>p. pa_draftId p = draftId) (jvalues (bf_participants st))"

definition compareParticipantAcceptedAsc :: "draft_participant \<Rightarrow> draft_participant \<Rightarrow> int" where
  "compareParticipantAcceptedAsc l r =
     (let c = localeCompare (case pa_acceptedAt l of None \<Rightarrow> [] | Some a \<Rightarrow> a)
          (case pa_acceptedAt r of None \<Rightarrow> [] | Some a \<Rightarrow> a) in
      if c \<noteq> 0 then c else localeCompare (pa_participantId l) (pa_participantId r))"

definition listAcceptedParticipantsByWallet :: "string \<Rightarrow> product_store \<Rightarrow> draft_participant list" where
  "listAcceptedParticipantsByWallet walletAddress st =
     js_sort compareParticipantAcceptedAsc
       (filter (\<lambda>p. pa_status p = PaAccepted
           \<and> map_option toLowerCase (pa_walletAddress p) = Some (toLowerCase walletAddress))
         (jvalues (bf_participants st)))"

definition getParticipant :: "string \<Rightarrow> product_store \<Rightarrow> draft_participant option" where
  "getParticipant participantId st = jget (bf_participants st) participantId"

text \<open>\<open>Date.parse\<close> gives no number for a malformed text, and no comparison with it holds.\<close>

definition later_date :: "(string \<Rightarrow> int option) \<Rightarrow> string \<Rightarrow> string \<Rightarrow> bool" where
  "later_date other s t =
     (case (Date_parse other s, Date_parse other t) of (Some a, Some b) \<Rightarrow> b < a | _ \<Rightarrow> False)"

definition updateInvite :: "product_invite \<Rightarrow> product_store \<Rightarrow> product_store" where
  "updateInvite i st = st\<lparr>bf_invites := jset (iv_inviteId i) i (bf_invites st)\<rparr>"

definition createInviteIfNoneActive ::
  "(string \<Rightarrow> int option) \<Rightarrow> product_invite \<Rightarrow> string \<Rightarrow> product_store \<Rightarrow> bool \<times> product_store" where
  "createInviteIfNoneActive other invite nowIso st =
     (if list_ex (\<lambda>i. iv_participantId i = iv_participantId invite \<and> iv_status i = InActive
          \<and> later_date other (iv_expiresAt i) nowIso) (jvalues (bf_invites st))
      then (False, st) else (True, updateInvite invite st))"

definition getInvite :: "string \<Rightarrow> product_store \<Rightarrow> product_invite option" where
  "getInvite inviteId st = jget (bf_invites st) inviteId"

definition updateInviteIfActive :: "product_invite \<Rightarrow> product_store \<Rightarrow> bool \<times> product_store" where
  "updateInviteIfActive invite st =
     (case jget (bf_invites st) (iv_inviteId invite) of
        None \<Rightarrow> (False, st)
      | Some i \<Rightarrow> if iv_status i \<noteq> InActive then (False, st) else (True, updateInvite invite st))"

definition listInvitesByDraft :: "string \<Rightarrow> product_store \<Rightarrow> product_invite list" where
  "listInvitesByDraft draftId st = filter (\<lambda>i. iv_draftId i = draftId) (jvalues (bf_invites st))"

definition updateRegistration :: "trigger_record \<Rightarrow> product_store \<Rightarrow> product_store" where
  "updateRegistration r st = st\<lparr>bf_registrations := jset (tr_triggerId r) r (bf_registrations st)\<rparr>"

definition createRegistrationIfNoneForDraft :: "trigger_record \<Rightarrow> product_store \<Rightarrow> bool \<times> product_store" where
  "createRegistrationIfNoneForDraft r st =
     (if list_ex (\<lambda>x. tr_draftId x = tr_draftId r) (jvalues (bf_registrations st)) then (False, st)
      else (True, updateRegistration r st))"

definition getRegistration :: "string \<Rightarrow> product_store \<Rightarrow> trigger_record option" where
  "getRegistration triggerId st = jget (bf_registrations st) triggerId"

definition getRegistrationByDraft :: "string \<Rightarrow> product_store \<Rightarrow> trigger_record option" where
  "getRegistrationByDraft draftId st =
     List.find (\<lambda>r. tr_draftId r = draftId) (jvalues (bf_registrations st))"

definition compareRegistrationCreatedAsc :: "trigger_record \<Rightarrow> trigger_record \<Rightarrow> int" where
  "compareRegistrationCreatedAsc l r =
     (let c = localeCompare (tr_createdAt l) (tr_createdAt r) in
      if c \<noteq> 0 then c else localeCompare (tr_triggerId l) (tr_triggerId r))"

definition listRegistrations :: "product_store \<Rightarrow> trigger_record list" where
  "listRegistrations st = js_sort compareRegistrationCreatedAsc (jvalues (bf_registrations st))"

end
