(* ===== verification/GovernanceStore.thy ===== *)
theory GovernanceStore imports SubmissionTypes KeysetScan JsValue begin

text \<open>
  Reviews and the ledger of identity transactions (\<open>governance/types.ts\<close>,
  \<open>governance/store.ts\<close>), and the scan of the open ledger entries page by page
  (\<open>iterateOpenGovernanceLogs\<close> of \<open>reconcile/worker.ts\<close>), an instance of the paged scan.
\<close>

section \<open>Records\<close>

datatype governance_status = GvPending | GvBroadcasting | GvIndexing | GvConfirmed | GvFailed

datatype governance_broadcast = GbSimulated | GbBroadcasting | GbSubmitted | GbConfirmed | GbFailed

datatype governance_action = GaRegister | GaRevoke

record governance_review =
  gr_reviewId :: string
  gr_subjectType :: string
  gr_subjectId :: string
  gr_status :: string
  gr_riskLevel :: string
  gr_riskTags :: "string list"
  gr_publicSummary :: string
  gr_internalNotes :: string
  gr_policyHash :: string
  gr_metadataHash :: string
  gr_metadataURI :: string
  gr_reviewer :: string
  gr_createdAt :: string
  gr_updatedAt :: string
  gr_metadataDocument :: "jsval option"
  gr_policyDocument :: "jsval option"

datatype chain_request =
    RegisterIdentity (rq_subjectId: string) string string string "string option"
  | RevokeIdentity string (rq_subjectId: string) string string "string option"

record tx_log =
  tl_logId :: string
  tl_txLogId :: string
  tl_action :: governance_action
  tl_subjectId :: string
  tl_account :: "string option"
  tl_bindingId :: "string option"
  tl_descriptorHash :: "string option"
  tl_descriptorURI :: "string option"
  tl_reasonHash :: "string option"
  tl_reasonURI :: "string option"
  tl_txHash :: "string option"
  tl_blockNumber :: "string option"
  tl_signer :: "string option"
  tl_requester :: string
  tl_status :: governance_status
  tl_broadcastStatus :: governance_broadcast
  tl_executionMode :: "string option"
  tl_errorCode :: "string option"
  tl_errorMessage :: "string option"
  tl_retryable :: bool
  tl_request :: chain_request
  tl_createdAt :: string
  tl_updatedAt :: string
  tl_reconcileStatus :: "reconcile_status option"
  tl_lastCheckedAt :: "string option"
  tl_receiptStatus :: "receipt_status option"
  tl_projectionStatus :: "projection_status option"

section \<open>The store\<close>

record governance_store =
  gs_reviews :: "(string, governance_review) jsmap"
  gs_identityLogs :: "tx_log list"

definition empty_governance_store :: governance_store where
  "empty_governance_store = \<lparr>gs_reviews = [], gs_identityLogs = []\<rparr>"

record review_query =
  gq_subjectType :: "string option"
  gq_subjectId :: "string option"
  gq_status :: "string option"

definition query_passes :: "string option \<Rightarrow> string \<Rightarrow> bool" where
  "query_passes q v \<longleftrightarrow> \<not> truthy q \<or> q = Some v"

definition compareUpdatedDesc :: "governance_review \<Rightarrow> governance_review \<Rightarrow> int" where
  "compareUpdatedDesc l r =
     (let c = localeCompare (gr_updatedAt r) (gr_updatedAt l) in
      if c \<noteq> 0 then c else localeCompare (gr_reviewId r) (gr_reviewId l))"

definition listReviews :: "review_query \<Rightarrow> governance_store \<Rightarrow> governance_review list" where
  "listReviews q st =
     js_sort compareUpdatedDesc (filter (\<lambda>v. query_passes (gq_subjectType q) (gr_subjectType v)
       \<and> query_passes (gq_subjectId q) (gr_subjectId v)
       \<and> query_passes (gq_status q) (gr_status v)) (jvalues (gs_reviews st)))"

definition getReview :: "string \<Rightarrow> governance_store \<Rightarrow> governance_review option" where
  "getReview reviewId st = jget (gs_reviews st) reviewId"

definition putReview :: "governance_review \<Rightarrow> governance_store \<Rightarrow> governance_store" where
  "putReview v st = st\<lparr>gs_reviews := jset (gr_reviewId v) v (gs_reviews st)\<rparr>"

definition findLatestReview :: "string \<Rightarrow> string \<Rightarrow> governance_store \<Rightarrow> governance_review option" where
  "findLatestReview subjectType subjectId st =
     (case listReviews \<lparr>gq_subjectType = Some subjectType, gq_subjectId = Some subjectId,
          gq_status = None\<rparr> st of
        [] \<Rightarrow> None
      | v # _ \<Rightarrow> Some v)"

definition compareCreatedDesc :: "tx_log \<Rightarrow> tx_log \<Rightarrow> int" where
  "compareCreatedDesc l r =
     (let c = localeCompare (tl_createdAt r) (tl_createdAt l) in
      if c \<noteq> 0 then c else localeCompare (tl_logId r) (tl_logId l))"

definition listIdentityTxLogs :: "governance_store \<Rightarrow> tx_log list" where
  "listIdentityTxLogs st = js_sort compareCreatedDesc (gs_identityLogs st)"

definition OPEN_TX_LOG_STATUSES :: "governance_status list" where
  "OPEN_TX_LOG_STATUSES = [GvPending, GvBroadcasting, GvIndexing, GvFailed]"

definition is_open_log :: "tx_log \<Rightarrow> bool" where
  "is_open_log l = List.member OPEN_TX_LOG_STATUSES (tl_status l)"

definition log_cursor :: "tx_log \<Rightarrow> scan_cursor" where
  "log_cursor l = (tl_createdAt l, tl_logId l)"

definition open_logs :: "governance_store \<Rightarrow> tx_log list" where
  "open_logs st = js_sort (\<lambda>l r. let c = localeCompare (tl_createdAt l) (tl_createdAt r) in
       if c \<noteq> 0 then c else localeCompare (tl_logId l) (tl_logId r))
     (filter is_open_log (gs_identityLogs st))"

definition listOpenIdentityTxLogsPage ::
  "scan_cursor option \<Rightarrow> int \<Rightarrow> governance_store \<Rightarrow> tx_log list" where
  "listOpenIdentityTxLogsPage after limit st =
     take (nat (max limit 0)) (filter (\<lambda>l. case after of
         None \<Rightarrow> True
       | Some (createdAt, logId) \<Rightarrow> js_less createdAt (tl_createdAt l)
           \<or> (tl_createdAt l = createdAt \<and> js_less logId (tl_logId l))) (open_logs st))"

definition appendIdentityTxLog :: "tx_log \<Rightarrow> governance_store \<Rightarrow> governance_store" where
  "appendIdentityTxLog l st = st\<lparr>gs_identityLogs := gs_identityLogs st @ [l]\<rparr>"

definition getTxLog :: "string \<Rightarrow> governance_store \<Rightarrow> tx_log option" where
  "getTxLog txLogId st =
     List.find (\<lambda>l. tl_txLogId l = txLogId \<or> tl_logId l = txLogId) (gs_identityLogs st)"

fun replace_first :: "('a \<Rightarrow> bool) \<Rightarrow> 'a \<Rightarrow> 'a list \<Rightarrow> 'a list" where
  "replace_first P y [] = []"
| "replace_first P y (x # xs) = (if P x then y # xs else x # replace_first P y xs)"

definition updateTxLog :: "tx_log \<Rightarrow> governance_store \<Rightarrow> governance_store" where
  "updateTxLog l st = st\<lparr>gs_identityLogs := replace_first
     (\<lambda>x. tl_txLogId x = tl_txLogId l \<or> tl_logId x = tl_logId l) l (gs_identityLogs st)\<rparr>"

section \<open>The scan\<close>

interpretation governance_pages: paged_rows open_logs log_cursor listOpenIdentityTxLogsPage
proof
  fix after limit s
  have "(\<lambda>l. case after of None \<Rightarrow> True | Some (createdAt, logId) \<Rightarrow> js_less createdAt (tl_createdAt l)
      \<or> (tl_createdAt l = createdAt \<and> js_less logId (tl_logId l))) = (\<lambda>l. after_key after (log_cursor l))"
    by (auto simp: after_key_def log_cursor_def split: option.split)
  then show "listOpenIdentityTxLogsPage after limit s =
      take (nat (max limit 0)) (filter (\<lambda>x. after_key after (log_cursor x)) (open_logs s))"
    by (simp add: listOpenIdentityTxLogsPage_def)
qed

function iterateOpenGovernanceLogs ::
  "governance_store \<Rightarrow> int \<Rightarrow> scan_cursor option \<Rightarrow> tx_log list" where
  "iterateOpenGovernanceLogs st pageSize after =
     (let page = listOpenIdentityTxLogsPage after pageSize st in
      if page = [] then []
      else if int (length page) < pageSize then page
      else page @ iterateOpenGovernanceLogs st pageSize (Some (log_cursor (last page))))"
  by pat_completeness auto
termination
  by (relation "measure (\<lambda>(st, pageSize, after). length (governance_pages.ahead after st))")
    (simp_all add: governance_pages.page_shrinks)

declare iterateOpenGovernanceLogs.simps [simp del]

lemma compare_by_log_cursor:
  "(let c = localeCompare (tl_createdAt x) (tl_createdAt y) in
      if c \<noteq> 0 then c else localeCompare (tl_logId x) (tl_logId y)) = compare_keys (log_cursor x) (log_cursor y)"
  by (simp add: compare_keys_def log_cursor_def)

interpretation log_order: js_comparator "\<lambda>x y. compare_keys (log_cursor x) (log_cursor y)" "\<lambda>_. True"
  by (rule js_comparator_on [OF key_order.js_comparator_axioms])

lemma sorted_open_logs:
  assumes "distinct (map tl_logId (gs_identityLogs st))"
    and "\<forall>x \<in> set (open_logs st). \<forall>y \<in> set (open_logs st).
      same_shape (tl_createdAt x) (tl_createdAt y) \<and> same_shape (tl_logId x) (tl_logId y)"
  shows "sorted_wrt (\<lambda>x y. after_key (Some (log_cursor x)) (log_cursor y)) (open_logs st)"
proof (rule sorted_after_keys)
  have rows: "open_logs st = js_sort (\<lambda>x y. compare_keys (log_cursor x) (log_cursor y))
      (filter is_open_log (gs_identityLogs st))"
    unfolding open_logs_def compare_by_log_cursor ..
  show "sorted_wrt (\<lambda>x y. compare_keys (log_cursor x) (log_cursor y) \<le> 0) (open_logs st)"
    unfolding rows by (rule log_order.sorted_js_sort) simp
  show "distinct (map (snd \<circ> log_cursor) (open_logs st))"
    unfolding rows using assms(1)
    by (simp add: log_cursor_def comp_def distinct_map_js_sort distinct_map_filter)
qed (use assms(2) in \<open>simp add: log_cursor_def\<close>)

end
