(* ===== verification/Reconcile.thy ===== *)
theory Reconcile imports Submissions ProjectionStore ProductStore GovernanceStore begin

text \<open>
  The reconciliation of records that wait for the chain (\<open>reconcile/worker.ts\<close>): the outcome
  of a record from its receipt and the projections, what it does to the record of a
  submission, of the trigger of an order and of an identity transaction, the repair of
  evidence bindings, and a whole pass. The receipt client and the evidence service are
  parameters; the projections are read twice, before and after the receipt.
\<close>

section \<open>Receipts\<close>

datatype block_number = BnBigInt int | BnNumber int | BnText string

record reconcile_receipt =
  rp_status :: "string option"
  rp_blockNumber :: "block_number option"

definition normalizeBlockNumber :: "block_number option \<Rightarrow> string option" where
  "normalizeBlockNumber b =
     (case b of
        None \<Rightarrow> None
      | Some (BnBigInt n) \<Rightarrow> Some (dec_int n)
      | Some (BnNumber n) \<Rightarrow> Some (dec_int n)
      | Some (BnText s) \<Rightarrow> Some s)"

datatype reconcile_error = ReceiptThrows thrown_error | ProjectionThrows js_error | EvidenceThrows thrown_error

section \<open>Outcomes\<close>

datatype outcome_kind = OcPending | OcIndexing | OcConfirmed | OcFailed | OcStalePending

text \<open>
  \<open>registrationStatus\<close> is the status of the record itself while the outcome is pending; it is
  of the type of that record's statuses.
\<close>

record 's outcome =
  oc_kind :: outcome_kind
  oc_registrationStatus :: 's
  oc_checkedAt :: string
  oc_reconcileStatus :: reconcile_status
  oc_receiptStatus :: receipt_status
  oc_projectionStatus :: projection_status
  oc_blockNumber :: "string option"
  oc_errorCode :: "string option"
  oc_errorMessage :: "string option"
  oc_retryable :: bool

record confirmation =
  cf_transactionHash :: string
  cf_blockNumber :: string

text \<open>The part of a record \<open>resolveOutcome\<close> reads.\<close>

record 's tx_record =
  tx_txHash :: "string option"
  tx_createdAt :: string
  tx_status :: 's

record 's outcome_statuses =
  os_failed :: 's
  os_indexing :: 's
  os_confirmed :: 's

definition confirmedOutcome :: "'s outcome_statuses \<Rightarrow> string \<Rightarrow> string option \<Rightarrow> 's outcome" where
  "confirmedOutcome W checkedAt block =
     \<lparr>oc_kind = OcConfirmed, oc_registrationStatus = os_confirmed W, oc_checkedAt = checkedAt,
      oc_reconcileStatus = RecConfirmed, oc_receiptStatus = RcSuccess,
      oc_projectionStatus = PjPresent, oc_blockNumber = keep_truthy block, oc_errorCode = None,
      oc_errorMessage = None, oc_retryable = False\<rparr>"

definition staleOutcome :: "'s outcome_statuses \<Rightarrow> string \<Rightarrow> 's outcome" where
  "staleOutcome W checkedAt =
     \<lparr>oc_kind = OcStalePending, oc_registrationStatus = os_failed W, oc_checkedAt = checkedAt,
      oc_reconcileStatus = RecStalePending, oc_receiptStatus = RcTimeout,
      oc_projectionStatus = PjNotChecked, oc_blockNumber = None,
      oc_errorCode = Some ''tx_reconcile_timeout'',
      oc_errorMessage = Some ''transaction did not produce a receipt before the reconcile timeout'',
      oc_retryable = True\<rparr>"

definition pendingOutcome ::
  "'s \<Rightarrow> string \<Rightarrow> reconcile_status \<Rightarrow> receipt_status \<Rightarrow> string option \<Rightarrow> 's outcome" where
  "pendingOutcome status checkedAt rec rcpt block =
     \<lparr>oc_kind = OcPending, oc_registrationStatus = status, oc_checkedAt = checkedAt,
      oc_reconcileStatus = rec, oc_receiptStatus = rcpt, oc_projectionStatus = PjNotChecked,
      oc_blockNumber = keep_truthy block, oc_errorCode = None, oc_errorMessage = None,
      oc_retryable = True\<rparr>"

text \<open>A date that cannot be parsed never times out.\<close>

definition timedOut :: "(string \<Rightarrow> int option) \<Rightarrow> string \<Rightarrow> int \<Rightarrow> int \<Rightarrow> bool" where
  "timedOut other createdAt timeoutMs t \<longleftrightarrow>
     0 < timeoutMs \<and> (case Date_parse other createdAt of None \<Rightarrow> False | Some c \<Rightarrow> timeoutMs \<le> t - c)"

definition projectionConfirmationFromProvenance ::
  "provenance option \<Rightarrow> string option \<Rightarrow> confirmation option" where
  "projectionConfirmationFromProvenance p expectedTxHash =
     (case p of
        None \<Rightarrow> None
      | Some v \<Rightarrow>
          if truthy expectedTxHash \<and> Some (toLowerCase (transactionHash v)) \<noteq> map_option toLowerCase expectedTxHash
          then None
          else Some \<lparr>cf_transactionHash = transactionHash v, cf_blockNumber = dec_int (blockNumber v)\<rparr>)"

section \<open>The worker\<close>

record reconcile_env =
  rv_txTimeoutMs :: int
  rv_scanPageSize :: "int option"
  rv_parseOther :: "string \<Rightarrow> int option"
  rv_bindings :: bindings
  rv_getReceipt :: "string \<Rightarrow> thrown_error + reconcile_receipt option"
  rv_getProof :: "string \<Rightarrow> evidence_principal \<Rightarrow> thrown_error + string option"
  rv_bindEvidence :: "bind_request \<Rightarrow> evidence_principal \<Rightarrow> thrown_error option"

definition DEFAULT_RECONCILE_SCAN_PAGE_SIZE :: int where
  "DEFAULT_RECONCILE_SCAN_PAGE_SIZE = 200"

definition receipt_outcome ::
  "'s outcome_statuses \<Rightarrow> string \<Rightarrow> 's \<Rightarrow> reconcile_receipt
     \<Rightarrow> (reconcile_error + confirmation option) \<Rightarrow> reconcile_error + 's outcome" where
  "receipt_outcome W checkedAt status r after =
     (let block = normalizeBlockNumber (rp_blockNumber r) in
      if rp_status r = Some ''reverted'' \<or> rp_status r = Some ''failed'' then
        Inr \<lparr>oc_kind = OcFailed, oc_registrationStatus = os_failed W, oc_checkedAt = checkedAt,
          oc_reconcileStatus = RecFailed, oc_receiptStatus = RcFailed,
          oc_projectionStatus = PjNotChecked, oc_blockNumber = keep_truthy block,
          oc_errorCode = Some ''transaction_reverted'',
          oc_errorMessage = Some (''transaction receipt status '' @ or_default (rp_status r) ''failed''),
          oc_retryable = False\<rparr>
      else if rp_status r \<noteq> Some ''success'' then
        Inr (pendingOutcome status checkedAt RecSubmitted RcUnknown block)
      else
        bindR after (\<lambda>projected.
          case projected of
            None \<Rightarrow> Inr \<lparr>oc_kind = OcIndexing, oc_registrationStatus = os_indexing W,
              oc_checkedAt = checkedAt, oc_reconcileStatus = RecIndexing, oc_receiptStatus = RcSuccess,
              oc_projectionStatus = PjMissing, oc_blockNumber = keep_truthy block,
              oc_errorCode = None, oc_errorMessage = None, oc_retryable = False\<rparr>
          | Some c \<Rightarrow> Inr (confirmedOutcome W checkedAt (Some (cf_blockNumber c)))))"

text \<open>
  \<open>before\<close> and \<open>after\<close> are the confirmation read from the projections before the receipt is
  asked for and after it came; \<open>t\<close> and \<open>t'\<close> are the two readings of the clock.
\<close>

definition resolveOutcome ::
  "reconcile_env \<Rightarrow> 's outcome_statuses \<Rightarrow> int \<Rightarrow> int \<Rightarrow> 's tx_record
     \<Rightarrow> (reconcile_error + confirmation option) \<Rightarrow> (reconcile_error + confirmation option)
     \<Rightarrow> reconcile_error + 's outcome" where
  "resolveOutcome E W t t' x before after =
     (let checkedAt = toISOString t; late = timedOut (rv_parseOther E) (tx_createdAt x) (rv_txTimeoutMs E) t' in
      case keep_truthy (tx_txHash x) of
        None \<Rightarrow>
          Inr (if late then staleOutcome W checkedAt
            else pendingOutcome (tx_status x) checkedAt RecBroadcasting RcNotChecked None)
      | Some h \<Rightarrow>
          bindR before (\<lambda>projected.
            case projected of
              Some c \<Rightarrow> Inr (confirmedOutcome W checkedAt (Some (cf_blockNumber c)))
            | None \<Rightarrow>
                (case rv_getReceipt E h of
                   Inl e \<Rightarrow> Inl (ReceiptThrows e)
                 | Inr None \<Rightarrow>
                     Inr (if late then staleOutcome W checkedAt
                       else pendingOutcome (tx_status x) checkedAt RecSubmitted RcMissing None)
                 | Inr (Some r) \<Rightarrow> receipt_outcome W checkedAt (tx_status x) r after)))"

section \<open>Submissions\<close>

definition submission_statuses :: "submission_status outcome_statuses" where
  "submission_statuses = \<lparr>os_failed = SubFailed, os_indexing = SubIndexing, os_confirmed = SubConfirmed\<rparr>"

definition submission_tx :: "submission \<Rightarrow> submission_status tx_record" where
  "submission_tx sm = \<lparr>tx_txHash = sm_txHash sm, tx_createdAt = sm_createdAt sm, tx_status = sm_status sm\<rparr>"

definition isReconcileableSubmission :: "submission \<Rightarrow> bool" where
  "isReconcileableSubmission sm \<longleftrightarrow>
     (if sm_status sm = SubFailed then truthy (sm_txHash sm)
      else sm_status sm = SubBroadcasting \<or> sm_status sm = SubSubmitted \<or> sm_status sm = SubIndexing)"

definition signal_matches :: "signal_proj \<Rightarrow> submission \<Rightarrow> bool" where
  "signal_matches g sm \<longleftrightarrow> sig_orderId g = sm_onchainOrderId sm \<and> sig_sourceId g = sm_sourceId sm
     \<and> sig_signalId g = sm_signalId sm \<and> sig_submitter g = sm_submitter sm
     \<and> sig_payloadHash g = sm_payloadHash sm \<and> sig_idempotencyKey g = sm_idempotencyKey sm"

definition submissionProjectionConfirmation ::
  "projection_store \<Rightarrow> submission \<Rightarrow> confirmation option" where
  "submissionProjectionConfirmation ps sm =
     (case getStateMachineOrder (sm_onchainOrderId sm) (Some (sm_planId sm)) ps of
        None \<Rightarrow> None
      | Some x \<Rightarrow>
          (case jget (or_signals x) (sm_sourceId sm @ '':'' @ sm_signalId sm) of
             None \<Rightarrow> None
           | Some g \<Rightarrow>
               if signal_matches g sm
               then projectionConfirmationFromProvenance (Some (sig_submittedAt g)) (sm_txHash sm)
               else None))"

fun submissionStatusFromOutcome :: "outcome_kind \<Rightarrow> submission \<Rightarrow> submission_status" where
  "submissionStatusFromOutcome OcConfirmed sm = SubConfirmed"
| "submissionStatusFromOutcome OcFailed sm = SubFailed"
| "submissionStatusFromOutcome OcStalePending sm = SubFailed"
| "submissionStatusFromOutcome OcIndexing sm = SubIndexing"
| "submissionStatusFromOutcome OcPending sm =
     (if truthy (sm_txHash sm) then SubSubmitted else sm_status sm)"

definition submissionDeadLetterFromOutcome :: "'s outcome \<Rightarrow> submission_status \<Rightarrow> bool" where
  "submissionDeadLetterFromOutcome oc status \<longleftrightarrow> status = SubFailed \<and> \<not> oc_retryable oc"

definition submissionRetryStateFromOutcome ::
  "'s outcome \<Rightarrow> submission_status \<Rightarrow> bool \<Rightarrow> retry_state" where
  "submissionRetryStateFromOutcome oc status deadLetter =
     (if deadLetter then RsDeadLetter
      else if oc_retryable oc then RsRetryable
      else if status = SubFailed \<or> status = SubExpired then RsNotRetryable
      else RsNotApplicable)"

definition attemptRetryStateFromOutcome :: "string \<Rightarrow> bool \<Rightarrow> bool \<Rightarrow> retry_state" where
  "attemptRetryStateFromOutcome status retryable deadLetter =
     (if deadLetter then RsDeadLetter
      else if retryable then RsRetryable
      else if status = ''failed'' then RsNotRetryable
      else RsNotApplicable)"

definition outcome_attempt_status :: "outcome_kind \<Rightarrow> string" where
  "outcome_attempt_status k =
     (if k = OcConfirmed then ''confirmed''
      else if k = OcFailed \<or> k = OcStalePending then ''failed'' else ''submitted'')"

definition reconciled_attempt :: "'s outcome \<Rightarrow> submission_attempt \<Rightarrow> submission_attempt" where
  "reconciled_attempt oc a =
     (let status = outcome_attempt_status (oc_kind oc);
          deadLetter = (status = ''failed'' \<and> \<not> oc_retryable oc) in
      a\<lparr>at_status := status,
        at_blockNumber := opt_or (keep_truthy (oc_blockNumber oc)) (at_blockNumber a),
        at_errorCode := opt_or (keep_truthy (oc_errorCode oc)) (at_errorCode a),
        at_errorMessage := opt_or (keep_truthy (oc_errorMessage oc)) (at_errorMessage a),
        at_retryable := oc_retryable oc,
        at_retryState := attemptRetryStateFromOutcome status (oc_retryable oc) deadLetter,
        at_deadLetter := deadLetter, at_updatedAt := oc_checkedAt oc\<rparr>)"

definition updateSubmissionAttempts :: "submission \<Rightarrow> 's outcome \<Rightarrow> submission_attempt list" where
  "updateSubmissionAttempts sm oc =
     (if \<not> truthy (sm_txHash sm) then sm_attempts sm
      else map (\<lambda>a. if at_txHash a \<noteq> sm_txHash sm then a else reconciled_attempt oc a) (sm_attempts sm))"

definition reconciled_submission :: "submission \<Rightarrow> submission_status outcome \<Rightarrow> submission" where
  "reconciled_submission sm oc =
     (let status = submissionStatusFromOutcome (oc_kind oc) sm;
          deadLetter = submissionDeadLetterFromOutcome oc status in
      sm\<lparr>sm_status := status,
        sm_broadcastStatus := (if status = SubConfirmed then ''confirmed''
          else if status = SubFailed then ''failed'' else sm_broadcastStatus sm),
        sm_reconcileStatus := Some (oc_reconcileStatus oc),
        sm_lastCheckedAt := Some (oc_checkedAt oc),
        sm_receiptStatus := Some (oc_receiptStatus oc),
        sm_projectionStatus := Some (oc_projectionStatus oc),
        sm_blockNumber := opt_or (keep_truthy (oc_blockNumber oc)) (sm_blockNumber sm),
        sm_errorCode := opt_or (keep_truthy (oc_errorCode oc)) (sm_errorCode sm),
        sm_errorMessage := opt_or (keep_truthy (oc_errorMessage oc)) (sm_errorMessage sm),
        sm_retryable := Some (oc_retryable oc),
        sm_retryState := Some (submissionRetryStateFromOutcome oc status deadLetter),
        sm_deadLetter := Some deadLetter,
        sm_attempts := updateSubmissionAttempts sm oc,
        sm_updatedAt := oc_checkedAt oc\<rparr>)"

text \<open>
  The projections may change while the receipt is awaited: \<open>ps\<close> and \<open>ps'\<close> are the two states
  the worker reads.
\<close>

definition reconcileSubmission ::
  "reconcile_env \<Rightarrow> int \<Rightarrow> int \<Rightarrow> projection_store \<Rightarrow> projection_store \<Rightarrow> submission \<Rightarrow> submission_store
     \<Rightarrow> (reconcile_error + submission) \<times> submission_store" where
  "reconcileSubmission E t t' ps ps' sm st =
     (case resolveOutcome E submission_statuses t t' (submission_tx sm)
         (Inr (submissionProjectionConfirmation ps sm)) (Inr (submissionProjectionConfirmation ps' sm)) of
        Inl e \<Rightarrow> (Inl e, st)
      | Inr oc \<Rightarrow>
          (let updated = reconciled_submission sm oc in (Inr updated, putSubmission updated st)))"

section \<open>Triggers of orders\<close>

definition trigger_statuses :: "trigger_status outcome_statuses" where
  "trigger_statuses = \<lparr>os_failed = TrFailed, os_indexing = TrIndexing, os_confirmed = TrConfirmed\<rparr>"

definition trigger_tx :: "trigger_record \<Rightarrow> trigger_status tx_record" where
  "trigger_tx r = \<lparr>tx_txHash = tr_txHash r, tx_createdAt = tr_createdAt r, tx_status = tr_status r\<rparr>"

definition isReconcileableRegistration :: "trigger_record \<Rightarrow> bool" where
  "isReconcileableRegistration r \<longleftrightarrow>
     (if tr_status r = TrFailed then truthy (tr_txHash r)
      else tr_status r = TrSubmitted \<or> tr_status r = TrIndexing)"

definition registrationProjectionConfirmation ::
  "projection_store \<Rightarrow> trigger_record \<Rightarrow> confirmation option" where
  "registrationProjectionConfirmation ps r =
     (case getStateMachineOrder (tr_orderId r) (Some (tr_planId r)) ps of
        None \<Rightarrow> None
      | Some x \<Rightarrow>
          (case or_registeredAt x of
             None \<Rightarrow> None
           | Some v \<Rightarrow>
               if truthy (tr_stateMachineAddress r)
                 \<and> Some (toLowerCase (or_contractAddress x)) \<noteq> map_option toLowerCase (tr_stateMachineAddress r)
               then None
               else projectionConfirmationFromProvenance (Some v) (tr_txHash r)))"

definition reconciled_registration :: "trigger_record \<Rightarrow> trigger_status outcome \<Rightarrow> trigger_record" where
  "reconciled_registration r oc =
     r\<lparr>tr_status := oc_registrationStatus oc,
       tr_reconcileStatus := Some (oc_reconcileStatus oc),
       tr_lastCheckedAt := Some (oc_checkedAt oc),
       tr_receiptStatus := Some (oc_receiptStatus oc),
       tr_projectionStatus := Some (oc_projectionStatus oc),
       tr_blockNumber := opt_or (keep_truthy (oc_blockNumber oc)) (tr_blockNumber r),
       tr_errorCode := opt_or (keep_truthy (oc_errorCode oc)) (tr_errorCode r),
       tr_errorMessage := opt_or (keep_truthy (oc_errorMessage oc)) (tr_errorMessage r),
       tr_retryable := oc_retryable oc, tr_updatedAt := oc_checkedAt oc\<rparr>"

definition draftFromReconciledRegistration :: "order_draft \<Rightarrow> trigger_record \<Rightarrow> string \<Rightarrow> order_draft" where
  "draftFromReconciledRegistration d r updatedAt =
     (if tr_status r = TrConfirmed then
        d\<lparr>df_status := DrTriggered, df_triggeredOrderId := Some (tr_orderId r),
          df_triggerTxHash := opt_or (keep_truthy (tr_txHash r)) (df_triggerTxHash d),
          df_updatedAt := updatedAt\<rparr>
      else if tr_status r = TrFailed then d\<lparr>df_status := DrFailed, df_updatedAt := updatedAt\<rparr>
      else d\<lparr>df_status := DrTriggering, df_updatedAt := updatedAt\<rparr>)"

definition reconcileRegistration ::
  "reconcile_env \<Rightarrow> int \<Rightarrow> int \<Rightarrow> projection_store \<Rightarrow> projection_store \<Rightarrow> trigger_record \<Rightarrow> product_store
     \<Rightarrow> (reconcile_error + trigger_record) \<times> product_store" where
  "reconcileRegistration E t t' ps ps' r st =
     (case resolveOutcome E trigger_statuses t t' (trigger_tx r)
         (Inr (registrationProjectionConfirmation ps r)) (Inr (registrationProjectionConfirmation ps' r)) of
        Inl e \<Rightarrow> (Inl e, st)
      | Inr oc \<Rightarrow>
          (let updated = reconciled_registration r oc; st' = updateRegistration updated st in
           (Inr updated,
            case getDraft (tr_draftId r) st' of
              None \<Rightarrow> st'
            | Some d \<Rightarrow> updateDraft (draftFromReconciledRegistration d updated (oc_checkedAt oc)) st')))"

section \<open>Identity transactions\<close>

definition governance_statuses :: "governance_status outcome_statuses" where
  "governance_statuses = \<lparr>os_failed = GvFailed, os_indexing = GvIndexing, os_confirmed = GvConfirmed\<rparr>"

definition log_tx :: "tx_log \<Rightarrow> governance_status tx_record" where
  "log_tx l = \<lparr>tx_txHash = tl_txHash l, tx_createdAt = tl_createdAt l, tx_status = tl_status l\<rparr>"

definition isReconcileableGovernanceLog :: "tx_log \<Rightarrow> bool" where
  "isReconcileableGovernanceLog l \<longleftrightarrow>
     (if tl_status l = GvFailed then truthy (tl_txHash l)
      else tl_status l = GvPending \<or> tl_status l = GvBroadcasting \<or> tl_status l = GvIndexing)"

definition isSimulatedGovernanceLog :: "tx_log \<Rightarrow> bool" where
  "isSimulatedGovernanceLog l \<longleftrightarrow>
     tl_executionMode l = Some ''simulated'' \<or> tl_broadcastStatus l = GbSimulated"

text \<open>\<open>!wanted || value.toLowerCase() === wanted.toLowerCase()\<close>.\<close>

definition same_unless_absent :: "string option \<Rightarrow> string option \<Rightarrow> bool" where
  "same_unless_absent wanted v \<longleftrightarrow>
     \<not> truthy wanted \<or> map_option toLowerCase v = map_option toLowerCase wanted"

definition governanceProjectionConfirmation ::
  "bindings \<Rightarrow> projection_store \<Rightarrow> tx_log \<Rightarrow> reconcile_error + confirmation option" where
  "governanceProjectionConfirmation B ps l =
     (case listIdentityBindings B \<lparr>iq_registryAddress = None, iq_bindingId = keep_truthy (tl_bindingId l),
          iq_subjectId = Some (tl_subjectId l), iq_account = None, iq_activeOnly = False\<rparr> ps of
        Inl e \<Rightarrow> Inl (ProjectionThrows e)
      | Inr identities \<Rightarrow>
          Inr (if tl_action l = GaRegister then
            projectionConfirmationFromProvenance (map_option ib_registeredAt
              (List.find (\<lambda>b. ib_subjectId b = tl_subjectId l
                 \<and> same_unless_absent (tl_account l) (Some (ib_account b))
                 \<and> same_unless_absent (tl_txHash l) (Some (transactionHash (ib_registeredAt b)))) identities))
              (tl_txHash l)
          else
            projectionConfirmationFromProvenance (Option.bind
              (List.find (\<lambda>b. Some (ib_bindingId b) = tl_bindingId l \<and> ib_status b = IdRevoked
                 \<and> same_unless_absent (tl_txHash l) (map_option transactionHash (ib_revokedAt b))) identities)
              ib_revokedAt) (tl_txHash l)))"

fun governanceStatusFromOutcome :: "outcome_kind \<Rightarrow> governance_status" where
  "governanceStatusFromOutcome OcConfirmed = GvConfirmed"
| "governanceStatusFromOutcome OcFailed = GvFailed"
| "governanceStatusFromOutcome OcStalePending = GvFailed"
| "governanceStatusFromOutcome OcIndexing = GvIndexing"
| "governanceStatusFromOutcome OcPending = GvPending"

fun governanceBroadcastStatusFromOutcome :: "governance_broadcast \<Rightarrow> outcome_kind \<Rightarrow> governance_broadcast" where
  "governanceBroadcastStatusFromOutcome current OcConfirmed = GbConfirmed"
| "governanceBroadcastStatusFromOutcome current OcFailed = GbFailed"
| "governanceBroadcastStatusFromOutcome current OcStalePending = GbFailed"
| "governanceBroadcastStatusFromOutcome current k =
     (if current = GbBroadcasting then GbSubmitted else current)"

definition reconciled_log :: "tx_log \<Rightarrow> governance_status outcome \<Rightarrow> tx_log" where
  "reconciled_log l oc =
     l\<lparr>tl_status := governanceStatusFromOutcome (oc_kind oc),
       tl_broadcastStatus := governanceBroadcastStatusFromOutcome (tl_broadcastStatus l) (oc_kind oc),
       tl_reconcileStatus := Some (oc_reconcileStatus oc),
       tl_lastCheckedAt := Some (oc_checkedAt oc),
       tl_receiptStatus := Some (oc_receiptStatus oc),
       tl_projectionStatus := Some (oc_projectionStatus oc),
       tl_blockNumber := opt_or (keep_truthy (oc_blockNumber oc)) (tl_blockNumber l),
       tl_errorCode := opt_or (keep_truthy (oc_errorCode oc)) (tl_errorCode l),
       tl_errorMessage := opt_or (keep_truthy (oc_errorMessage oc)) (tl_errorMessage l),
       tl_retryable := oc_retryable oc, tl_updatedAt := oc_checkedAt oc\<rparr>"

text \<open>The second component tells whether a reverted revocation is reported to the audit.\<close>

definition reconcileGovernanceLog ::
  "reconcile_env \<Rightarrow> int \<Rightarrow> int \<Rightarrow> projection_store \<Rightarrow> projection_store \<Rightarrow> tx_log \<Rightarrow> governance_store
     \<Rightarrow> (reconcile_error + tx_log \<times> bool) \<times> governance_store" where
  "reconcileGovernanceLog E t t' ps ps' l st =
     (case resolveOutcome E governance_statuses t t' (log_tx l)
         (governanceProjectionConfirmation (rv_bindings E) ps l)
         (governanceProjectionConfirmation (rv_bindings E) ps' l) of
        Inl e \<Rightarrow> (Inl e, st)
      | Inr oc \<Rightarrow>
          (let updated = reconciled_log l oc in
           (Inr (updated, tl_action l = GaRevoke \<and> oc_kind oc = OcFailed \<and> tl_status l \<noteq> GvFailed),
            updateTxLog updated st)))"

section \<open>Evidence bindings\<close>

definition isEvidenceBindSweepable :: "submission \<Rightarrow> bool" where
  "isEvidenceBindSweepable sm \<longleftrightarrow> truthy (sm_txHash sm) \<and> sm_evidenceIds sm \<noteq> []
     \<and> (sm_status sm = SubBroadcasting \<or> sm_status sm = SubSubmitted \<or> sm_status sm = SubIndexing)"

definition rebind_request :: "submission \<Rightarrow> string \<Rightarrow> string \<Rightarrow> string \<Rightarrow> bind_request" where
  "rebind_request sm txHash boundAt evidenceId =
     \<lparr>bq_evidenceId = evidenceId, bq_submissionId = sm_submissionId sm, bq_txHash = txHash,
      bq_orderId = sm_orderId sm, bq_onchainOrderId = sm_onchainOrderId sm,
      bq_sourceId = sm_sourceId sm, bq_signalId = sm_signalId sm, bq_boundAt = boundAt\<rparr>"

text \<open>What was bound before an exception stays bound: the requests made are returned with it.\<close>

fun repair_each ::
  "reconcile_env \<Rightarrow> evidence_principal \<Rightarrow> (string \<Rightarrow> bind_request) \<Rightarrow> string list
     \<Rightarrow> (reconcile_error option) \<times> bind_request list" where
  "repair_each E binder request [] = (None, [])"
| "repair_each E binder request (i # rest) =
     (case rv_getProof E i binder of
        Inl e \<Rightarrow> (Some (EvidenceThrows e), [])
      | Inr status \<Rightarrow>
          if status \<noteq> Some ''unbound'' then repair_each E binder request rest
          else
            (case rv_bindEvidence E (request i) binder of
               Some e \<Rightarrow> (Some (EvidenceThrows e), [])
             | None \<Rightarrow>
                 (let (r, bound) = repair_each E binder request rest in (r, request i # bound))))"

definition repairSubmissionEvidenceBinds ::
  "reconcile_env \<Rightarrow> (string \<Rightarrow> int) \<Rightarrow> submission \<Rightarrow> (reconcile_error option) \<times> bind_request list" where
  "repairSubmissionEvidenceBinds E boundAt sm =
     (case keep_truthy (sm_txHash sm) of
        None \<Rightarrow> (None, [])
      | Some h \<Rightarrow>
          repair_each E \<lparr>ep_id = Some (toLowerCase (sm_submitter sm)), ep_role = ''participant''\<rparr>
            (\<lambda>i. rebind_request sm h (toISOString (boundAt i)) i) (sm_evidenceIds sm))"

section \<open>A pass\<close>

record run_summary =
  rs_registrationsChecked :: nat
  rs_submissionsChecked :: nat
  rs_governanceLogsChecked :: nat
  rs_evidenceBindsSwept :: nat
  rs_evidenceBindsRepaired :: nat
  rs_updated :: nat
  rs_failed :: nat

definition empty_summary :: run_summary where
  "empty_summary =
     \<lparr>rs_registrationsChecked = 0, rs_submissionsChecked = 0, rs_governanceLogsChecked = 0,
      rs_evidenceBindsSwept = 0, rs_evidenceBindsRepaired = 0, rs_updated = 0, rs_failed = 0\<rparr>"

record worker_stores =
  ws_product :: product_store
  ws_submissions :: submission_store
  ws_governance :: governance_store

text \<open>
  What the pass sees of the world when it comes to a record: the two readings of the clock and
  the two states of the projections. Nothing else writes to the stores meanwhile.
\<close>

record moment =
  mo_now :: int
  mo_later :: int
  mo_before :: projection_store
  mo_after :: projection_store

record pass_view =
  pv_registration :: "string \<Rightarrow> moment"
  pv_submission :: "string \<Rightarrow> moment"
  pv_log :: "string \<Rightarrow> moment"
  pv_boundAt :: "string \<Rightarrow> string \<Rightarrow> int"

type_synonym pass_state = "run_summary \<times> worker_stores"

text \<open>A record that throws counts as failed and does not stop the pass.\<close>

definition counted :: "bool \<Rightarrow> (reconcile_error + 'a) \<Rightarrow> run_summary \<Rightarrow> run_summary" where
  "counted now_failed res s =
     (case res of
        Inl _ \<Rightarrow> s\<lparr>rs_failed := rs_failed s + 1\<rparr>
      | Inr _ \<Rightarrow> s\<lparr>rs_updated := rs_updated s + 1, rs_failed := rs_failed s + (if now_failed then 1 else 0)\<rparr>)"

definition scan_page_size :: "reconcile_env \<Rightarrow> int" where
  "scan_page_size E = or_default (rv_scanPageSize E) DEFAULT_RECONCILE_SCAN_PAGE_SIZE"

definition sweep_one ::
  "reconcile_env \<Rightarrow> pass_view \<Rightarrow> run_summary \<times> bind_request list \<Rightarrow> submission
     \<Rightarrow> run_summary \<times> bind_request list" where
  "sweep_one E V sr sm =
     (let (s, bound) = sr in
      if \<not> isEvidenceBindSweepable sm then sr
      else
        (let (err, new) = repairSubmissionEvidenceBinds E (pv_boundAt V (sm_submissionId sm)) sm;
             s' = s\<lparr>rs_evidenceBindsSwept := rs_evidenceBindsSwept s + 1\<rparr> in
         (case err of
            None \<Rightarrow> s'\<lparr>rs_evidenceBindsRepaired := rs_evidenceBindsRepaired s' + length new\<rparr>
          | Some _ \<Rightarrow> s'\<lparr>rs_failed := rs_failed s' + 1\<rparr>, bound @ new)))"

text \<open>The sweep does not write to the store it scans, so its pages are those of one state.\<close>

definition sweepEvidenceBinds ::
  "reconcile_env \<Rightarrow> pass_view \<Rightarrow> submission_store \<Rightarrow> run_summary \<Rightarrow> run_summary \<times> bind_request list" where
  "sweepEvidenceBinds E V st s =
     foldl (sweep_one E V) (s, []) (iterateOpenSubmissions st (scan_page_size E) None)"

definition pass_registration ::
  "reconcile_env \<Rightarrow> pass_view \<Rightarrow> pass_state \<Rightarrow> trigger_record \<Rightarrow> pass_state" where
  "pass_registration E V sw r =
     (let (s, W) = sw; m = pv_registration V (tr_triggerId r);
          (res, st) = reconcileRegistration E (mo_now m) (mo_later m) (mo_before m) (mo_after m) r (ws_product W);
          s' = s\<lparr>rs_registrationsChecked := rs_registrationsChecked s + 1\<rparr> in
      (counted (case res of Inl _ \<Rightarrow> False | Inr x \<Rightarrow> tr_status x = TrFailed) res s', W\<lparr>ws_product := st\<rparr>))"

definition pass_submission ::
  "reconcile_env \<Rightarrow> pass_view \<Rightarrow> pass_state \<Rightarrow> submission \<Rightarrow> pass_state" where
  "pass_submission E V sw sm =
     (let (s, W) = sw; m = pv_submission V (sm_submissionId sm) in
      if \<not> isReconcileableSubmission sm then sw
      else
        (let (res, st) = reconcileSubmission E (mo_now m) (mo_later m) (mo_before m) (mo_after m) sm
               (ws_submissions W);
             s' = s\<lparr>rs_submissionsChecked := rs_submissionsChecked s + 1\<rparr> in
         (counted (case res of Inl _ \<Rightarrow> False | Inr x \<Rightarrow> sm_status x = SubFailed) res s',
          W\<lparr>ws_submissions := st\<rparr>)))"

definition pass_log ::
  "reconcile_env \<Rightarrow> pass_view \<Rightarrow> pass_state \<Rightarrow> tx_log \<Rightarrow> pass_state" where
  "pass_log E V sw l =
     (let (s, W) = sw; m = pv_log V (tl_logId l) in
      if \<not> isReconcileableGovernanceLog l \<or> isSimulatedGovernanceLog l then sw
      else
        (let (res, st) = reconcileGovernanceLog E (mo_now m) (mo_later m) (mo_before m) (mo_after m) l
               (ws_governance W);
             s' = s\<lparr>rs_governanceLogsChecked := rs_governanceLogsChecked s + 1\<rparr> in
         (counted (case res of Inl _ \<Rightarrow> False | Inr (x, _) \<Rightarrow> tl_status x = GvFailed) res s',
          W\<lparr>ws_governance := st\<rparr>)))"

text \<open>
  The two lanes that scan page by page write to the store they scan: each page is read from
  the state the pages before it left. Such a walk might not end, so it returns an option.
\<close>

partial_function (option) walk_submissions ::
  "reconcile_env \<Rightarrow> pass_view \<Rightarrow> scan_cursor option \<Rightarrow> pass_state \<Rightarrow> pass_state option" where
  "walk_submissions E V after sw =
     (let page = listOpenSubmissionsPage after (scan_page_size E) (ws_submissions (snd sw));
          sw' = foldl (pass_submission E V) sw page in
      if page = [] then Some sw
      else if int (length page) < scan_page_size E then Some sw'
      else walk_submissions E V (Some (cursor_of (last page))) sw')"

partial_function (option) walk_logs ::
  "reconcile_env \<Rightarrow> pass_view \<Rightarrow> scan_cursor option \<Rightarrow> pass_state \<Rightarrow> pass_state option" where
  "walk_logs E V after sw =
     (let page = listOpenIdentityTxLogsPage after (scan_page_size E) (ws_governance (snd sw));
          sw' = foldl (pass_log E V) sw page in
      if page = [] then Some sw
      else if int (length page) < scan_page_size E then Some sw'
      else walk_logs E V (Some (log_cursor (last page))) sw')"

definition runReconcilePass ::
  "reconcile_env \<Rightarrow> pass_view \<Rightarrow> worker_stores \<Rightarrow> (pass_state \<times> bind_request list) option" where
  "runReconcilePass E V W =
     (let (s0, bound) = sweepEvidenceBinds E V (ws_submissions W) empty_summary;
          sw1 = foldl (pass_registration E V) (s0, W)
            (filter isReconcileableRegistration (listRegistrations (ws_product W))) in
      Option.bind (walk_submissions E V None sw1) (\<lambda>sw2.
        map_option (\<lambda>sw3. (sw3, bound)) (walk_logs E V None sw2)))"

text \<open>\<open>runOnce\<close> answers with an empty summary while a pass is running.\<close>

definition runOnce ::
  "reconcile_env \<Rightarrow> pass_view \<Rightarrow> bool \<Rightarrow> worker_stores \<Rightarrow> (pass_state \<times> bind_request list) option" where
  "runOnce E V checking W =
     (if checking then Some ((empty_summary, W), []) else runReconcilePass E V W)"

end
