(* ===== verification/ReconcileScans.thy ===== *)
theory ReconcileScans imports Reconcile KeysetScan begin

text \<open>
  The two lanes of a reconcile pass that write to the store they scan
  (\<open>reconcile/worker.ts\<close>) keep the contract of such walks: an update keeps the identifiers and
  the creation time of its record, so it moves no row of the scan.
\<close>

section \<open>Updates keep the key of a record\<close>

lemma reconciled_submission_keeps [simp]:
  "sm_submissionId (reconciled_submission sm oc) = sm_submissionId sm"
  "sm_createdAt (reconciled_submission sm oc) = sm_createdAt sm"
  "sm_txHash (reconciled_submission sm oc) = sm_txHash sm"
  by (simp_all add: reconciled_submission_def Let_def)

lemma reconciled_log_keeps [simp]:
  "tl_logId (reconciled_log l oc) = tl_logId l" "tl_txLogId (reconciled_log l oc) = tl_txLogId l"
  "tl_createdAt (reconciled_log l oc) = tl_createdAt l" "tl_txHash (reconciled_log l oc) = tl_txHash l"
  by (simp_all add: reconciled_log_def)

lemma pass_submission_store:
  "ws_submissions (snd (pass_submission E V w x)) = ws_submissions (snd w)
   \<or> (\<exists>u. sm_submissionId u = sm_submissionId x \<and> sm_createdAt u = sm_createdAt x
        \<and> ws_submissions (snd (pass_submission E V w x)) = putSubmission u (ws_submissions (snd w)))"
  by (cases w)
    (auto simp: pass_submission_def reconcileSubmission_def Let_def split: sum.split prod.splits,
      metis reconciled_submission_keeps(1,2))

lemma pass_log_store:
  "ws_governance (snd (pass_log E V w x)) = ws_governance (snd w)
   \<or> (\<exists>u. tl_logId u = tl_logId x \<and> tl_txLogId u = tl_txLogId x \<and> tl_createdAt u = tl_createdAt x
        \<and> ws_governance (snd (pass_log E V w x)) = updateTxLog u (ws_governance (snd w)))"
  by (cases w)
    (auto simp: pass_log_def reconcileGovernanceLog_def Let_def split: sum.split prod.splits,
      metis reconciled_log_keeps(1-3))

lemma pass_other_stores [simp]:
  "ws_product (snd (pass_submission E V w x)) = ws_product (snd w)"
  "ws_governance (snd (pass_submission E V w x)) = ws_governance (snd w)"
  "ws_product (snd (pass_log E V w l)) = ws_product (snd w)"
  "ws_submissions (snd (pass_log E V w l)) = ws_submissions (snd w)"
  "ws_submissions (snd (pass_registration E V w r)) = ws_submissions (snd w)"
  "ws_governance (snd (pass_registration E V w r)) = ws_governance (snd w)"
  by (cases w; simp add: pass_submission_def pass_log_def pass_registration_def Let_def split: prod.split)+

section \<open>Submissions\<close>

definition keyed_by_id :: "submission_store \<Rightarrow> bool" where
  "keyed_by_id st \<longleftrightarrow> distinct (jkeys (st_submissions st))
     \<and> (\<forall>(key, sm) \<in> set (st_submissions st). key = sm_submissionId sm)"

definition has_row :: "submission_store \<Rightarrow> submission \<Rightarrow> bool" where
  "has_row st x \<longleftrightarrow> (\<exists>y. getSubmission_store (sm_submissionId x) st = Some y \<and> sm_createdAt y = sm_createdAt x)"

definition row_keys :: "submission_store \<Rightarrow> scan_cursor set" where
  "row_keys st = cursor_of ` set (jvalues (st_submissions st))"

lemma keyed_by_id_get:
  "keyed_by_id st \<Longrightarrow> y \<in> set (jvalues (st_submissions st)) \<longleftrightarrow>
     getSubmission_store (sm_submissionId y) st = Some y"
  by (force simp: keyed_by_id_def getSubmission_store_def)

lemma getSubmission_id:
  "keyed_by_id st \<Longrightarrow> getSubmission_store i st = Some y \<Longrightarrow> sm_submissionId y = i"
  by (auto simp: keyed_by_id_def getSubmission_store_def)

lemma keyed_by_id_put: "keyed_by_id st \<Longrightarrow> keyed_by_id (putSubmission u st)"
  by (auto simp: keyed_by_id_def putSubmission_def set_jset_distinct)

text \<open>An update in place leaves the rows of a dictionary that it does not concern where they are.\<close>

lemma filter_jset:
  assumes "distinct (jkeys m)" and "jget m k = Some old" and "\<not> P old" and "\<not> P new"
  shows "filter P (jvalues (jset k new m)) = filter P (jvalues m)"
  using assms
proof (induction m)
  case (Cons p m)
  show ?case
  proof (cases "fst p = k")
    case True
    then show ?thesis using Cons.prems by (cases p) auto
  next
    case False
    then show ?thesis using Cons by (cases p) auto
  qed
qed simp

lemma row_keys_put:
  assumes st: "keyed_by_id st" and row: "has_row st x"
    and u: "sm_submissionId u = sm_submissionId x" "sm_createdAt u = sm_createdAt x"
  shows "row_keys (putSubmission u st) = row_keys st"
proof -
  obtain y where y: "(sm_submissionId x, y) \<in> set (st_submissions st)" "sm_createdAt y = sm_createdAt x"
    using row by (auto simp: has_row_def getSubmission_store_def dest: map_of_SomeD)
  have id: "sm_submissionId y = sm_submissionId x" using st y(1) by (auto simp: keyed_by_id_def)
  have key: "cursor_of u = cursor_of y" using y(2) id u by (simp add: cursor_of_def)
  have others: "v = y" if "(sm_submissionId x, v) \<in> set (st_submissions st)" for v
    using st y(1) that unfolding keyed_by_id_def by (metis map_of_eq_Some_iff option.inject)
  have "set (st_submissions (putSubmission u st)) =
      insert (sm_submissionId x, u) (set (st_submissions st) - {(sm_submissionId x, y)})"
    using st others u(1) by (auto simp: keyed_by_id_def putSubmission_def set_jset_distinct)
  then have "set (jvalues (st_submissions (putSubmission u st))) =
      insert u (snd ` (set (st_submissions st) - {(sm_submissionId x, y)}))" by simp
  then have "row_keys (putSubmission u st) =
      insert (cursor_of y) (cursor_of ` snd ` (set (st_submissions st) - {(sm_submissionId x, y)}))"
    by (simp add: row_keys_def key)
  also have "\<dots> = cursor_of ` snd ` (insert (sm_submissionId x, y) (set (st_submissions st) - {(sm_submissionId x, y)}))"
    by (simp del: insert_Diff_single)
  also have "insert (sm_submissionId x, y) (set (st_submissions st) - {(sm_submissionId x, y)}) = set (st_submissions st)"
    using y(1) by blast
  also have "cursor_of ` snd ` set (st_submissions st) = row_keys st" by (simp add: row_keys_def)
  finally show ?thesis .
qed

lemma open_rows_filter:
  "filter P (open_rows st) = js_sort compareSubmissionCreatedAsc
     (filter (\<lambda>x. is_open x \<and> P x) (jvalues (st_submissions st)))"
  by (simp add: open_rows_def listSubmissions_def submission_order.js_sort_filter conj_commute)

lemma ahead_put:
  assumes st: "keyed_by_id st" and row: "has_row st x"
    and u: "sm_submissionId u = sm_submissionId x" "sm_createdAt u = sm_createdAt x"
    and behind: "\<not> after_key (Some k) (cursor_of x)"
  shows "submission_pages.ahead (Some k) (putSubmission u st) = submission_pages.ahead (Some k) st"
proof -
  obtain y where y: "jget (st_submissions st) (sm_submissionId u) = Some y" "sm_createdAt y = sm_createdAt x"
    using row by (auto simp: has_row_def getSubmission_store_def u(1))
  have "sm_submissionId y = sm_submissionId x"
    using st y(1) u(1) by (auto simp: keyed_by_id_def dest: map_of_SomeD)
  then have "cursor_of y = cursor_of x" "cursor_of u = cursor_of x" using y(2) u by (simp_all add: cursor_of_def)
  then have "filter (\<lambda>x. is_open x \<and> after_key (Some k) (cursor_of x)) (jvalues (st_submissions (putSubmission u st)))
      = filter (\<lambda>x. is_open x \<and> after_key (Some k) (cursor_of x)) (jvalues (st_submissions st))"
    unfolding putSubmission_def using st y(1) behind
    by (simp, intro filter_jset [where old = y]) (simp_all add: keyed_by_id_def)
  then show ?thesis by (simp only: submission_pages.ahead_def open_rows_filter)
qed

interpretation submission_walk: written_scan open_rows cursor_of listOpenSubmissionsPage
  "\<lambda>w. ws_submissions (snd w)" "pass_submission E V" "\<lambda>w. keyed_by_id (ws_submissions (snd w))"
  "\<lambda>w. has_row (ws_submissions (snd w))" row_keys for E V
proof
  fix s and x y :: submission and w :: pass_state and k
  show "finite (row_keys s)" by (simp add: row_keys_def)
  show "x \<in> set (open_rows s) \<Longrightarrow> cursor_of x \<in> row_keys s"
    by (auto simp: row_keys_def open_rows_def listSubmissions_def)
  show "has_row (ws_submissions (snd w)) x"
    if "keyed_by_id (ws_submissions (snd w))" and "x \<in> set (open_rows (ws_submissions (snd w)))"
    using that keyed_by_id_get by (auto simp: has_row_def open_rows_def listSubmissions_def)
  assume good: "keyed_by_id (ws_submissions (snd w))" and known: "has_row (ws_submissions (snd w)) x"
  show "keyed_by_id (ws_submissions (snd (pass_submission E V w x)))"
    using pass_submission_store [of E V w x] good keyed_by_id_put by auto
  show "row_keys (ws_submissions (snd (pass_submission E V w x))) = row_keys (ws_submissions (snd w))"
    using pass_submission_store [of E V w x] row_keys_put [OF good known] by auto
  show "has_row (ws_submissions (snd (pass_submission E V w x))) y" if "has_row (ws_submissions (snd w)) y"
    using pass_submission_store [of E V w x] known that
    by (auto simp: has_row_def getSubmission_store_def putSubmission_def)
  show "submission_pages.ahead (Some k) (ws_submissions (snd (pass_submission E V w x)))
      = submission_pages.ahead (Some k) (ws_submissions (snd w))"
    if "\<not> after_key (Some k) (cursor_of x)"
    using pass_submission_store [of E V w x] ahead_put [OF good known _ _ that] by auto
qed

lemma walk_submissions_page:
  "walk_submissions E V after w =
     (let p = listOpenSubmissionsPage after (scan_page_size E) (ws_submissions (snd w));
          w' = foldl (pass_submission E V) w p in
      if p = [] then Some w else if int (length p) < scan_page_size E then Some w'
      else walk_submissions E V (Some (cursor_of (last p))) w')"
  by (rule walk_submissions.simps)

lemmas walk_submissions_ends = submission_walk.walk_ends [OF walk_submissions_page]
lemmas walk_submissions_folds = submission_walk.walk_folds [OF walk_submissions_page]

section \<open>Identity transactions\<close>

text \<open>
  An entry is found by either of its two identifiers. The ledger is well formed when each
  entry has one identifier, in both fields, and no two entries share it.
\<close>

definition ledger_ok :: "governance_store \<Rightarrow> bool" where
  "ledger_ok st \<longleftrightarrow> distinct (map tl_logId (gs_identityLogs st))
     \<and> (\<forall>l \<in> set (gs_identityLogs st). tl_txLogId l = tl_logId l)"

definition has_log :: "governance_store \<Rightarrow> tx_log \<Rightarrow> bool" where
  "has_log st l \<longleftrightarrow> tl_txLogId l = tl_logId l \<and> log_cursor l \<in> log_cursor ` set (gs_identityLogs st)"

lemma replace_first_map:
  "distinct (map f xs) \<Longrightarrow> (\<forall>x \<in> set xs. P x \<longleftrightarrow> f x = f y) \<Longrightarrow>
     replace_first P y xs = map (\<lambda>x. if f x = f y then y else x) xs"
  by (induction xs) (auto intro!: map_idI [symmetric] simp: image_iff)

lemma updateTxLog_map:
  assumes "ledger_ok st" and "tl_txLogId u = tl_logId u"
  shows "gs_identityLogs (updateTxLog u st) =
    map (\<lambda>l. if tl_logId l = tl_logId u then u else l) (gs_identityLogs st)"
  using assms unfolding updateTxLog_def ledger_ok_def
  by (simp, intro replace_first_map) auto

lemma updated_cursors:
  assumes st: "ledger_ok st" and row: "has_log st x"
    and u: "tl_logId u = tl_logId x" "tl_txLogId u = tl_txLogId x" "tl_createdAt u = tl_createdAt x"
  shows "map log_cursor (gs_identityLogs (updateTxLog u st)) = map log_cursor (gs_identityLogs st)"
    and "l \<in> set (gs_identityLogs st) \<Longrightarrow> tl_logId l = tl_logId u \<Longrightarrow> log_cursor l = log_cursor u"
proof -
  have uid: "tl_txLogId u = tl_logId u" using row u by (simp add: has_log_def)
  obtain y where y: "y \<in> set (gs_identityLogs st)" "log_cursor y = log_cursor x"
    using row by (auto simp: has_log_def)
  show same: "log_cursor l = log_cursor u" if "l \<in> set (gs_identityLogs st)" "tl_logId l = tl_logId u" for l
  proof -
    have "tl_logId l = tl_logId y" using that(2) y(2) u(1) by (simp add: log_cursor_def)
    then have "l = y" using st that(1) y(1) by (auto simp: ledger_ok_def distinct_map dest: inj_onD)
    then show ?thesis using y(2) u by (simp add: log_cursor_def)
  qed
  show "map log_cursor (gs_identityLogs (updateTxLog u st)) = map log_cursor (gs_identityLogs st)"
    unfolding updateTxLog_map [OF st uid] using same by (auto simp: comp_def)
qed

lemma ledger_ok_update:
  assumes st: "ledger_ok st" and row: "has_log st x"
    and u: "tl_logId u = tl_logId x" "tl_txLogId u = tl_txLogId x" "tl_createdAt u = tl_createdAt x"
  shows "ledger_ok (updateTxLog u st)"
proof -
  have uid: "tl_txLogId u = tl_logId u" using row u by (simp add: has_log_def)
  have "map tl_logId (gs_identityLogs (updateTxLog u st)) = map tl_logId (gs_identityLogs st)"
    unfolding updateTxLog_map [OF st uid] by auto
  moreover have "\<forall>l \<in> set (gs_identityLogs (updateTxLog u st)). tl_txLogId l = tl_logId l"
    using st uid by (auto simp: ledger_ok_def updateTxLog_map [OF st uid])
  ultimately show ?thesis using st by (simp add: ledger_ok_def)
qed

lemma open_logs_filter:
  "filter P (open_logs st) = js_sort (\<lambda>x y. compare_keys (log_cursor x) (log_cursor y))
     (filter (\<lambda>l. is_open_log l \<and> P l) (gs_identityLogs st))"
  by (simp add: open_logs_def compare_by_log_cursor log_order.js_sort_filter conj_commute)

lemma ahead_update:
  assumes st: "ledger_ok st" and row: "has_log st x"
    and u: "tl_logId u = tl_logId x" "tl_txLogId u = tl_txLogId x" "tl_createdAt u = tl_createdAt x"
    and behind: "\<not> after_key (Some k) (log_cursor x)"
  shows "governance_pages.ahead (Some k) (updateTxLog u st) = governance_pages.ahead (Some k) st"
proof -
  have uid: "tl_txLogId u = tl_logId u" using row u by (simp add: has_log_def)
  have cu: "log_cursor u = log_cursor x" using u by (simp add: log_cursor_def)
  let ?P = "\<lambda>l. is_open_log l \<and> after_key (Some k) (log_cursor l)"
  have "filter ?P (map (\<lambda>l. if tl_logId l = tl_logId u then u else l) ls) = filter ?P ls"
    if "set ls \<subseteq> set (gs_identityLogs st)" for ls
    using that
  proof (induction ls)
    case (Cons l ls)
    have "tl_logId l = tl_logId u \<Longrightarrow> log_cursor l = log_cursor u"
      using updated_cursors(2) [OF st row u] Cons.prems by auto
    then show ?case using Cons behind cu by auto
  qed simp
  from this [OF subset_refl] have "filter ?P (gs_identityLogs (updateTxLog u st)) = filter ?P (gs_identityLogs st)"
    by (simp only: updateTxLog_map [OF st uid])
  then show ?thesis by (simp only: governance_pages.ahead_def open_logs_filter)
qed

interpretation governance_walk: written_scan open_logs log_cursor listOpenIdentityTxLogsPage
  "\<lambda>w. ws_governance (snd w)" "pass_log E V" "\<lambda>w. ledger_ok (ws_governance (snd w))"
  "\<lambda>w. has_log (ws_governance (snd w))" "\<lambda>st. log_cursor ` set (gs_identityLogs st)" for E V
proof
  fix s :: governance_store and x y :: tx_log and w :: pass_state and k
  show "finite (log_cursor ` set (gs_identityLogs s))" by simp
  show "x \<in> set (open_logs s) \<Longrightarrow> log_cursor x \<in> log_cursor ` set (gs_identityLogs s)"
    by (auto simp: open_logs_def)
  show "has_log (ws_governance (snd w)) x"
    if "ledger_ok (ws_governance (snd w))" and "x \<in> set (open_logs (ws_governance (snd w)))"
    using that by (auto simp: has_log_def ledger_ok_def open_logs_def)
  assume good: "ledger_ok (ws_governance (snd w))" and known: "has_log (ws_governance (snd w)) x"
  show "ledger_ok (ws_governance (snd (pass_log E V w x)))"
    using pass_log_store [of E V w x] good ledger_ok_update [OF good known] by auto
  have cursors: "log_cursor ` set (gs_identityLogs (ws_governance (snd (pass_log E V w x))))
      = log_cursor ` set (gs_identityLogs (ws_governance (snd w)))"
    using pass_log_store [of E V w x] updated_cursors(1) [OF good known]
    by (metis list.set_map)
  then show "log_cursor ` set (gs_identityLogs (ws_governance (snd (pass_log E V w x))))
      = log_cursor ` set (gs_identityLogs (ws_governance (snd w)))" .
  show "has_log (ws_governance (snd (pass_log E V w x))) y" if "has_log (ws_governance (snd w)) y"
    using that cursors by (simp add: has_log_def)
  show "governance_pages.ahead (Some k) (ws_governance (snd (pass_log E V w x)))
      = governance_pages.ahead (Some k) (ws_governance (snd w))"
    if "\<not> after_key (Some k) (log_cursor x)"
    using pass_log_store [of E V w x] ahead_update [OF good known _ _ _ that] by auto
qed

lemma walk_logs_page:
  "walk_logs E V after w =
     (let p = listOpenIdentityTxLogsPage after (scan_page_size E) (ws_governance (snd w));
          w' = foldl (pass_log E V) w p in
      if p = [] then Some w else if int (length p) < scan_page_size E then Some w'
      else walk_logs E V (Some (log_cursor (last p))) w')"
  by (rule walk_logs.simps)

lemmas walk_logs_ends = governance_walk.walk_ends [OF walk_logs_page]
lemmas walk_logs_folds = governance_walk.walk_folds [OF walk_logs_page]

end
