(* ===== verification/BroadcastSafety.thy ===== *)
theory BroadcastSafety imports SecureBroadcast begin

text \<open>
  Safety of interleaved broadcasts: the counters of calls in flight count exactly the calls
  that hold slots, at most the configured number of calls of an order or of a submitter is
  past the check at any moment, a transaction hash belongs to one idempotency key, the
  number of an attempt is bounded, and a recorded final outcome is replayed.
\<close>

section \<open>Slots\<close>

fun holds_slots :: "broadcast_pc \<Rightarrow> bool" where
  "holds_slots (BcLimited r) = True"
| "holds_slots (BcAnnounced n) = True"
| "holds_slots (BcCalling n) = True"
| "holds_slots (BcClaiming n r h) = True"
| "holds_slots (BcClaimed n r h ow) = True"
| "holds_slots (BcOwned n r) = True"
| "holds_slots (BcSaving st) = True"
| "holds_slots (BcReporting r) = True"
| "holds_slots pc = False"

definition admitted :: "broadcast_pc \<Rightarrow> bool" where
  "admitted pc \<longleftrightarrow> holds_slots pc \<and> (\<forall>r. pc \<noteq> BcLimited r)"

lemma admitted_simps [simp]:
  "\<not> admitted BcLoading" "\<not> admitted (BcLoaded cs)" "\<not> admitted (BcDuplicate r)"
  "\<not> admitted (BcLimited r)" "admitted (BcAnnounced n)" "admitted (BcCalling n)"
  "admitted (BcClaiming n r h)" "admitted (BcClaimed n r h ow)" "admitted (BcOwned n r)"
  "admitted (BcSaving st)" "admitted (BcReporting r)" "\<not> admitted (BcReturned r)"
  "\<not> admitted BcRejected"
  by (simp_all add: admitted_def)

lemma admitted_holds: "admitted pc \<Longrightarrow> holds_slots pc"
  by (simp add: admitted_def)

definition calls_where ::
  "(broadcast_pc \<Rightarrow> bool) \<Rightarrow> (broadcast_request \<Rightarrow> string) \<Rightarrow> string
     \<Rightarrow> (broadcast_request \<times> broadcast_pc) list \<Rightarrow> nat" where
  "calls_where P f k calls = length (filter (\<lambda>(rq, pc). f rq = k \<and> P pc) calls)"

abbreviation slots :: "(broadcast_request \<Rightarrow> string) \<Rightarrow> string
    \<Rightarrow> (broadcast_request \<times> broadcast_pc) list \<Rightarrow> nat" where
  "slots \<equiv> calls_where holds_slots"

lemma calls_where_append:
  "calls_where P f k (calls @ [(rq, pc)]) =
     calls_where P f k calls + (if f rq = k \<and> P pc then 1 else 0)"
  by (simp add: calls_where_def)

lemma calls_where_update:
  assumes "i < length calls" and "calls ! i = (rq, pc)"
  shows "int (calls_where P f k (calls[i := (rq, pc')])) =
    int (calls_where P f k calls) - (if f rq = k \<and> P pc then 1 else 0)
      + (if f rq = k \<and> P pc' then 1 else 0)"
  using assms
proof (induction calls arbitrary: i)
  case (Cons c calls)
  then show ?case by (cases i) (auto simp: calls_where_def)
qed simp

lemma calls_where_mono:
  "(\<And>pc. P pc \<Longrightarrow> Q pc) \<Longrightarrow> calls_where P f k calls \<le> calls_where Q f k calls"
  unfolding calls_where_def by (induction calls) auto

lemma calls_where_pos:
  "i < length calls \<Longrightarrow> calls ! i = (rq, pc) \<Longrightarrow> P pc \<Longrightarrow> 0 < calls_where P f (f rq) calls"
proof -
  assume "i < length calls" "calls ! i = (rq, pc)" "P pc"
  then have "(rq, pc) \<in> set (filter (\<lambda>(rq', pc). f rq' = f rq \<and> P pc) calls)"
    by (auto simp: in_set_conv_nth)
  then show ?thesis unfolding calls_where_def by (metis length_pos_if_in_set)
qed

text \<open>A counter holds the number of slots taken, and is absent when there are none.\<close>

definition counts_slots ::
  "(string, int) jsmap \<Rightarrow> (broadcast_request \<Rightarrow> string)
     \<Rightarrow> (broadcast_request \<times> broadcast_pc) list \<Rightarrow> bool" where
  "counts_slots m f calls \<longleftrightarrow>
     (\<forall>k. jget m k = (if slots f k calls = 0 then None else Some (int (slots f k calls))))"

text \<open>
  What a step does to the slots: it takes them, gives them back or leaves them, for the order
  and for the submitter alike.
\<close>

datatype slot_move = SmKeep | SmTake | SmRelease

definition moved :: "slot_move \<Rightarrow> (string, int) jsmap \<Rightarrow> string \<Rightarrow> (string, int) jsmap" where
  "moved mv m k =
     (case mv of SmKeep \<Rightarrow> m | SmTake \<Rightarrow> fst (acquireInFlight m k) | SmRelease \<Rightarrow> releaseInFlight m k)"

definition slot_move_of :: "broadcast_pc \<Rightarrow> broadcast_pc \<Rightarrow> slot_move" where
  "slot_move_of pc pc' =
     (if holds_slots pc = holds_slots pc' then SmKeep
      else if holds_slots pc then SmRelease else SmTake)"

lemmas broadcast_segments = broadcast_admit_def broadcast_record_def broadcast_owned_def
  broadcast_claim_def broadcast_throw_def releaseSlots_def

lemma broadcast_advance_slots:
  assumes "broadcast_advance cfg t rep rq pc s = (pc', s')"
  shows "sb_inFlightByOrder s' = moved (slot_move_of pc pc') (sb_inFlightByOrder s) (rq_order rq)"
    "sb_inFlightBySubmitter s' =
       moved (slot_move_of pc pc') (sb_inFlightBySubmitter s) (rq_submitter rq)"
  using assms
  by (cases pc; auto simp: broadcast_segments slot_move_of_def moved_def Let_def
      split: if_splits option.splits prod.splits broadcast_reply.splits broadcast_result.splits)+

lemma counts_slots_advance:
  assumes counts: "counts_slots m f calls" and i: "i < length calls" "calls ! i = (rq, pc)"
  shows "counts_slots (moved (slot_move_of pc pc') m (f rq)) f (calls[i := (rq, pc')])"
  unfolding counts_slots_def
proof
  fix k
  have up: "int (slots f k (calls[i := (rq, pc')])) = int (slots f k calls)
      - (if f rq = k \<and> holds_slots pc then 1 else 0) + (if f rq = k \<and> holds_slots pc' then 1 else 0)"
    by (rule calls_where_update [OF i])
  have m: "jget m k' = (if slots f k' calls = 0 then None else Some (int (slots f k' calls)))" for k'
    using counts by (simp add: counts_slots_def)
  have pos: "holds_slots pc \<Longrightarrow> 0 < slots f (f rq) calls" by (rule calls_where_pos [OF i])
  show "jget (moved (slot_move_of pc pc') m (f rq)) k =
      (if slots f k (calls[i := (rq, pc')]) = 0 then None
       else Some (int (slots f k (calls[i := (rq, pc')]))))"
    using up m [of k] m [of "f rq"] pos
    by (auto simp: moved_def slot_move_of_def acquireInFlight_def releaseInFlight_def Let_def
        or_default_def delete_conv' split: if_splits option.splits)
qed

lemma counts_slots_call:
  "counts_slots m f calls \<Longrightarrow> \<not> holds_slots pc \<Longrightarrow> counts_slots m f (calls @ [(rq, pc)])"
  by (simp add: counts_slots_def calls_where_append)

lemma broadcast_call_idle: "\<not> holds_slots (broadcast_call rq s)"
  by (simp add: broadcast_call_def split: option.splits)

definition slots_counted :: "secure_system \<Rightarrow> bool" where
  "slots_counted S \<longleftrightarrow>
     counts_slots (sb_inFlightByOrder (ss_state S)) rq_order (ss_calls S)
     \<and> counts_slots (sb_inFlightBySubmitter (ss_state S)) rq_submitter (ss_calls S)"

lemma slots_counted_step: "secure_step cfg S S' \<Longrightarrow> slots_counted S \<Longrightarrow> slots_counted S'"
proof (induction rule: secure_step.induct)
  case (call S rq)
  then show ?case by (simp add: slots_counted_def counts_slots_call broadcast_call_idle)
next
  case (advance i S rq pc t rep pc' s')
  then show ?case
    using counts_slots_advance [of "sb_inFlightByOrder (ss_state S)" rq_order]
      counts_slots_advance [of "sb_inFlightBySubmitter (ss_state S)" rq_submitter]
    by (simp add: slots_counted_def broadcast_advance_slots [OF advance(3)])
qed

lemma slots_counted_start: "slots_counted (secure_start d)"
  by (simp add: slots_counted_def secure_start_def fresh_secure_state_def counts_slots_def
    calls_where_def)

lemma slots_counted_reaches: "secure_reaches cfg d S \<Longrightarrow> slots_counted S"
  by (induction rule: secure_reaches.induct) (auto intro: slots_counted_start slots_counted_step)

section \<open>Calls past the check\<close>

lemma broadcast_admits:
  assumes "broadcast_advance cfg t rep rq pc s = (pc', s')" and "admitted pc'" and "\<not> admitted pc"
  shows "\<not> holds_slots pc"
    "or_default (jget (sb_inFlightByOrder s) (rq_order rq)) 0 + 1 \<le> sc_maxInFlightPerOrder cfg"
    "or_default (jget (sb_inFlightBySubmitter s) (rq_submitter rq)) 0 + 1
       \<le> sc_maxInFlightPerSubmitter cfg"
  using assms
  by (cases pc; auto simp: broadcast_segments acquireInFlight_def Let_def
      split: if_splits option.splits prod.splits broadcast_reply.splits broadcast_result.splits)+

definition at_most :: "int \<Rightarrow> nat \<Rightarrow> bool" where
  "at_most m n \<longleftrightarrow> n = 0 \<or> int n \<le> m"

definition within_limits :: "secure_config \<Rightarrow> secure_system \<Rightarrow> bool" where
  "within_limits cfg S \<longleftrightarrow>
     (\<forall>k. at_most (sc_maxInFlightPerOrder cfg) (calls_where admitted rq_order k (ss_calls S)))
     \<and> (\<forall>k. at_most (sc_maxInFlightPerSubmitter cfg) (calls_where admitted rq_submitter k (ss_calls S)))"

lemma at_most_advance:
  assumes counts: "counts_slots m f calls" and i: "i < length calls" "calls ! i = (rq, pc)"
    and all: "\<forall>k. at_most l (calls_where admitted f k calls)"
    and pass: "admitted pc' \<Longrightarrow> \<not> admitted pc \<Longrightarrow> or_default (jget m (f rq)) 0 + 1 \<le> l"
  shows "at_most l (calls_where admitted f k (calls[i := (rq, pc')]))"
proof -
  have up: "int (calls_where admitted f k (calls[i := (rq, pc')])) = int (calls_where admitted f k calls)
      - (if f rq = k \<and> admitted pc then 1 else 0) + (if f rq = k \<and> admitted pc' then 1 else 0)"
    by (rule calls_where_update [OF i])
  have le: "calls_where admitted f (f rq) calls \<le> slots f (f rq) calls"
    by (rule calls_where_mono) (rule admitted_holds)
  have "int (slots f (f rq) calls) = or_default (jget m (f rq)) 0"
    using counts by (simp add: counts_slots_def)
  then show ?thesis using up le pass all [rule_format, of k]
    by (auto simp: at_most_def split: if_splits)
qed

lemma within_limits_step:
  assumes "secure_step cfg S S'" and "slots_counted S" and "within_limits cfg S"
  shows "within_limits cfg S'"
  using assms
proof (induction rule: secure_step.induct)
  case (call S rq)
  have "\<not> admitted (broadcast_call rq s)" for s
    using admitted_holds broadcast_call_idle by blast
  with call show ?case by (simp add: within_limits_def calls_where_append)
next
  case (advance i S rq pc t rep pc' s')
  have "at_most (sc_maxInFlightPerOrder cfg) (calls_where admitted rq_order k ((ss_calls S)[i := (rq, pc')]))" for k
    using advance.prems broadcast_admits(2) [OF advance(3)]
    by (intro at_most_advance [OF _ advance(1,2)]) (auto simp: slots_counted_def within_limits_def)
  moreover have "at_most (sc_maxInFlightPerSubmitter cfg)
      (calls_where admitted rq_submitter k ((ss_calls S)[i := (rq, pc')]))" for k
    using advance.prems broadcast_admits(3) [OF advance(3)]
    by (intro at_most_advance [OF _ advance(1,2)]) (auto simp: slots_counted_def within_limits_def)
  ultimately show ?case by (simp add: within_limits_def)
qed

lemma within_limits_reaches: "secure_reaches cfg d S \<Longrightarrow> within_limits cfg S"
proof (induction rule: secure_reaches.induct)
  case start
  show ?case by (simp add: within_limits_def secure_start_def calls_where_def at_most_def)
next
  case (step S S')
  then show ?case using slots_counted_reaches within_limits_step by blast
qed

section \<open>Owners of transaction hashes\<close>

text \<open>
  The owner of record is the store's where there is one, the memory's otherwise. Every
  outcome a call carries, and every recorded one, is of the owner of its hash.
\<close>

definition owner_of :: "secure_state \<Rightarrow> string \<Rightarrow> string option" where
  "owner_of s h =
     (case sb_dedupe s of None \<Rightarrow> jget (sb_txHashOwners s) h | Some d \<Rightarrow> jget (dd_owners d) h)"

definition owned_by :: "secure_state \<Rightarrow> string \<Rightarrow> broadcast_result \<Rightarrow> bool" where
  "owned_by s key r \<longleftrightarrow> (\<forall>h. claimed_hash r = Some h \<longrightarrow> owner_of s h = Some key)"

fun carried :: "broadcast_pc \<Rightarrow> broadcast_result list" where
  "carried (BcLoaded (Some st)) = [bs_lastResult st]"
| "carried (BcDuplicate r) = [r]"
| "carried (BcLimited r) = [r]"
| "carried (BcClaimed n r h None) = [r]"
| "carried (BcOwned n r) = [r]"
| "carried (BcSaving st) = [bs_lastResult st]"
| "carried (BcReporting r) = [r]"
| "carried (BcReturned r) = [r]"
| "carried pc = []"

fun hash_noted :: "secure_state \<Rightarrow> string \<Rightarrow> broadcast_pc \<Rightarrow> bool" where
  "hash_noted s key (BcClaiming n r h) \<longleftrightarrow> claimed_hash r = Some h \<and> sb_dedupe s \<noteq> None"
| "hash_noted s key (BcClaimed n r h ow) \<longleftrightarrow>
     claimed_hash r = Some h \<and> sb_dedupe s \<noteq> None \<and> ow \<noteq> Some [] \<and> ow \<noteq> Some key"
| "hash_noted s key pc \<longleftrightarrow> True"

definition states_owned :: "secure_state \<Rightarrow> (string, broadcast_state) jsmap \<Rightarrow> bool" where
  "states_owned s m \<longleftrightarrow> (\<forall>key st. jget m key = Some st \<longrightarrow> owned_by s key (bs_lastResult st))"

definition owners_consistent :: "secure_state \<Rightarrow> bool" where
  "owners_consistent s \<longleftrightarrow>
     (\<forall>h k. jget (sb_txHashOwners s) h = Some k \<longrightarrow> k \<noteq> [] \<and> owner_of s h = Some k)
     \<and> (\<forall>h. owner_of s h \<noteq> Some [])
     \<and> states_owned s (sb_states s)
     \<and> (\<forall>d. sb_dedupe s = Some d \<longrightarrow> states_owned s (dd_states d))"

text \<open>Owners are never replaced.\<close>

definition owners_grow :: "secure_state \<Rightarrow> secure_state \<Rightarrow> bool" where
  "owners_grow s s' \<longleftrightarrow> (\<forall>h k. owner_of s h = Some k \<longrightarrow> owner_of s' h = Some k)
     \<and> (sb_dedupe s' = None) = (sb_dedupe s = None)"

lemma owned_by_grow: "owners_grow s s' \<Longrightarrow> owned_by s k r \<Longrightarrow> owned_by s' k r"
  by (auto simp: owners_grow_def owned_by_def)

lemma owners_grow_refl [simp]: "owners_grow s s"
  by (simp add: owners_grow_def)

lemma claimed_hash_failed [simp]:
  "claimed_hash (BrFailed (failedBroadcastResult c m rt n dl nx)) = None"
  by (simp add: claimed_hash_def failedBroadcastResult_def Let_def bare_attempt_def)

lemma owned_by_failed [simp]: "owned_by s k (BrFailed (failedBroadcastResult c m rt n dl nx))"
  by (simp add: owned_by_def)

text \<open>Steps that touch neither owners nor recorded outcomes.\<close>

definition same_owners :: "secure_state \<Rightarrow> secure_state \<Rightarrow> bool" where
  "same_owners s s' \<longleftrightarrow> sb_txHashOwners s' = sb_txHashOwners s \<and> sb_states s' = sb_states s
     \<and> sb_dedupe s' = sb_dedupe s"

lemma same_owners_owner_of: "same_owners s s' \<Longrightarrow> owner_of s' = owner_of s"
  by (auto simp: same_owners_def owner_of_def fun_eq_iff split: option.split)

lemma same_owners_consistent: "same_owners s s' \<Longrightarrow> owners_consistent s \<Longrightarrow> owners_consistent s'"
  using same_owners_owner_of [of s s']
  by (simp add: owners_consistent_def states_owned_def owned_by_def same_owners_def)

lemma same_owners_grow: "same_owners s s' \<Longrightarrow> owners_grow s s'"
  by (simp add: owners_grow_def same_owners_owner_of) (simp add: same_owners_def)

lemma hash_noted_grow: "owners_grow s s' \<Longrightarrow> hash_noted s k pc \<Longrightarrow> hash_noted s' k pc"
  by (cases pc) (auto simp: owners_grow_def)

lemma same_owners_release: "same_owners s (releaseSlots rq s)"
  by (simp add: same_owners_def releaseSlots_def)

lemma broadcast_admit_same: "broadcast_admit cfg t rq cs s = (pc', s') \<Longrightarrow> same_owners s s'"
  by (auto simp: broadcast_admit_def acquireInFlight_def Let_def same_owners_def
    split: option.splits if_splits)

lemma duplicateResult_owned:
  "duplicateResult (Some st) m = Some r \<Longrightarrow> owned_by s k (bs_lastResult st) \<Longrightarrow> owned_by s k r"
  by (auto simp: duplicateResult_def split: broadcast_result.splits if_splits)

lemma broadcast_admit_carried:
  assumes "broadcast_admit cfg t rq cs s = (pc', s')"
    and "\<And>st. cs = Some st \<Longrightarrow> owned_by s k (bs_lastResult st)" and "r \<in> set (carried pc')"
  shows "owned_by s k r"
proof (cases "duplicateResult cs (sc_maxRetry cfg)")
  case None
  with assms(1,3) show ?thesis
    by (auto simp: broadcast_admit_def Let_def acquireInFlight_def rate_limited_def split: if_splits)
next
  case (Some d)
  then obtain st where "cs = Some st" by (cases cs) (simp_all add: duplicateResult_def)
  with Some assms duplicateResult_owned [of st _ d s k] show ?thesis
    by (auto simp: broadcast_admit_def)
qed

lemma broadcast_admit_noted: "broadcast_admit cfg t rq cs s = (pc', s') \<Longrightarrow> hash_noted u k pc'"
  by (auto simp: broadcast_admit_def acquireInFlight_def Let_def split: option.splits if_splits)

text \<open>The consistency of one call.\<close>

definition call_consistent :: "secure_state \<Rightarrow> broadcast_request \<Rightarrow> broadcast_pc \<Rightarrow> bool" where
  "call_consistent s rq pc \<longleftrightarrow> hash_noted s (rq_key rq) pc \<and> (\<forall>r \<in> set (carried pc). owned_by s (rq_key rq) r)"

definition segment_ok :: "secure_state \<Rightarrow> broadcast_request \<Rightarrow> broadcast_pc \<times> secure_state \<Rightarrow> bool" where
  "segment_ok s rq res \<longleftrightarrow>
     owners_grow s (snd res) \<and> owners_consistent (snd res) \<and> call_consistent (snd res) rq (fst res)"

lemma segment_same:
  assumes "owners_consistent s" and "same_owners s s'" and "call_consistent s rq pc'"
  shows "segment_ok s rq (pc', s')"
  using assms same_owners_grow [OF assms(2)] same_owners_consistent [OF assms(2,1)]
  by (auto simp: segment_ok_def call_consistent_def intro: hash_noted_grow owned_by_grow)

lemma truthy_some: "truthy v \<Longrightarrow> \<exists>x. v = Some x \<and> x \<noteq> []"
  by (cases v) auto

lemma segment_owned:
  assumes ok: "owners_consistent s" and key: "rq_key rq \<noteq> []" and hash: "claimed_hash r = Some h"
    and ow: "truthy ow \<Longrightarrow> ow = Some (rq_key rq) \<Longrightarrow> owner_of s h = Some (rq_key rq)"
    and free: "\<not> truthy ow \<Longrightarrow>
      (case sb_dedupe s of None \<Rightarrow> owner_of s h = None | Some d \<Rightarrow> owner_of s h = Some (rq_key rq))"
  shows "segment_ok s rq (broadcast_owned rq n r h ow s)"
proof (cases "truthy ow")
  case True
  have "same_owners s s" by (simp add: same_owners_def)
  with True show ?thesis
    using ow hash ok
    by (auto simp: broadcast_owned_def duplicate_hash_failure_def call_consistent_def owned_by_def
      intro!: segment_same)
next
  case False
  define s' where "s' = s\<lparr>sb_txHashOwners := jset h (rq_key rq) (sb_txHashOwners s)\<rparr>"
  have owner: "owner_of s' h' = (if h' = h then Some (rq_key rq) else owner_of s h')" for h'
    using free [OF False] by (auto simp: s'_def owner_of_def split: option.splits)
  have "sb_dedupe s' = sb_dedupe s" by (simp add: s'_def)
  then have grow: "owners_grow s s'"
    using free [OF False] by (auto simp: owners_grow_def owner split: option.splits)
  have "owners_consistent s'"
    using ok key owned_by_grow [OF grow]
    by (auto simp: owners_consistent_def owner states_owned_def) (auto simp: s'_def owner split: if_splits)
  moreover have "owned_by s' (rq_key rq) r" using hash by (simp add: owned_by_def owner)
  ultimately show ?thesis
    using False grow by (simp add: broadcast_owned_def s'_def [symmetric] segment_ok_def call_consistent_def)
qed

lemma owners_consistent_memory:
  "owners_consistent s \<Longrightarrow> jget (sb_txHashOwners s) h = Some k \<Longrightarrow> k \<noteq> [] \<and> owner_of s h = Some k"
  by (auto simp: owners_consistent_def)

lemma segment_claim:
  assumes ok: "owners_consistent s" and key: "rq_key rq \<noteq> []"
  shows "segment_ok s rq (broadcast_claim rq n r s)"
proof (cases "claimed_hash r")
  case None
  then show ?thesis
    using ok by (auto simp: broadcast_claim_def call_consistent_def owned_by_def same_owners_def
      intro!: segment_same)
next
  case (Some h)
  let ?ow = "jget (sb_txHashOwners s) h"
  show ?thesis
  proof (cases "\<not> truthy ?ow \<and> sb_dedupe s \<noteq> None")
    case True
    then show ?thesis
      using ok Some by (auto simp: broadcast_claim_def call_consistent_def same_owners_def
        intro!: segment_same)
  next
    case False
    have "segment_ok s rq (broadcast_owned rq n r h ?ow s)"
    proof (rule segment_owned [OF ok key Some])
      show "owner_of s h = Some (rq_key rq)" if "?ow = Some (rq_key rq)"
        using owners_consistent_memory [OF ok that] by simp
      show "case sb_dedupe s of None \<Rightarrow> owner_of s h = None | Some d \<Rightarrow> owner_of s h = Some (rq_key rq)"
        if "\<not> truthy ?ow"
      proof -
        have none: "sb_dedupe s = None" using False that by auto
        have "?ow = None" using that owners_consistent_memory [OF ok] by (cases ?ow) auto
        with none show ?thesis by (simp add: owner_of_def)
      qed
    qed
    moreover have "broadcast_claim rq n r s = broadcast_owned rq n r h ?ow s"
      unfolding broadcast_claim_def Some option.case using False by (rule if_not_P)
    ultimately show ?thesis by simp
  qed
qed

lemma segment_store_claim:
  assumes ok: "owners_consistent s" and key: "rq_key rq \<noteq> []" and hash: "claimed_hash r = Some h"
    and d: "sb_dedupe s = Some d" and claim: "dedupe_claimTxHash d h (rq_key rq) = (d', ow)"
  shows "segment_ok s rq (BcClaimed n r h ow, s\<lparr>sb_dedupe := Some d'\<rparr>)"
proof -
  define s' where "s' = s\<lparr>sb_dedupe := Some d'\<rparr>"
  have lower: "toLowerCase h = h" using hash by (auto simp: claimed_hash_def)
  have old: "owner_of s x = jget (dd_owners d) x" for x using d by (simp add: owner_of_def)
  have new: "owner_of s' x = (if x = h \<and> owner_of s h = None then Some (rq_key rq) else owner_of s x)" for x
    using claim lower old by (auto simp: s'_def owner_of_def dedupe_claimTxHash_def Let_def split: option.splits)
  have ow: "ow = (if owner_of s' h = Some (rq_key rq) then None else owner_of s' h)"
    using claim lower old new [of h]
    by (auto simp: dedupe_claimTxHash_def Let_def split: option.splits if_splits)
  have "sb_dedupe s' \<noteq> None" by (simp add: s'_def)
  then have grow: "owners_grow s s'" using d by (simp add: owners_grow_def new)
  have states: "dd_states d' = dd_states d"
    using claim by (auto simp: dedupe_claimTxHash_def Let_def split: option.splits)
  have "owners_consistent s'"
    using ok key d owned_by_grow [OF grow]
    by (auto simp: owners_consistent_def new states_owned_def) (auto simp: s'_def states split: if_splits)
  moreover have "ow \<noteq> Some []"
    using ow \<open>owners_consistent s'\<close> by (simp add: owners_consistent_def split: if_splits)
  moreover have "ow \<noteq> Some (rq_key rq)" using ow by auto
  moreover have "owned_by s' (rq_key rq) r" if "ow = None"
    using that ow hash new [of h] by (auto simp: owned_by_def split: if_splits)
  ultimately show ?thesis
    using grow hash \<open>sb_dedupe s' \<noteq> None\<close>
    by (cases ow) (auto simp: segment_ok_def s'_def [symmetric] call_consistent_def)
qed

lemma segment_record:
  assumes ok: "owners_consistent s" and r: "owned_by s (rq_key rq) r"
  shows "segment_ok s rq (broadcast_record rq n r s)"
proof -
  define s' where "s' = s\<lparr>sb_states := jset (rq_key rq) \<lparr>bs_attempts = n, bs_lastResult = r\<rparr> (sb_states s)\<rparr>"
  have same: "owner_of s' = owner_of s" by (auto simp: s'_def owner_of_def fun_eq_iff split: option.split)
  have "sb_dedupe s' = sb_dedupe s" by (simp add: s'_def)
  moreover have "owners_consistent s'"
    using ok r by (auto simp: owners_consistent_def same states_owned_def owned_by_def) (auto simp: s'_def split: if_splits)
  ultimately show ?thesis
    using r by (auto simp: broadcast_record_def Let_def s'_def [symmetric] segment_ok_def
      owners_grow_def same call_consistent_def owned_by_def)
qed

lemma segment_save:
  assumes ok: "owners_consistent s" and r: "owned_by s (rq_key rq) (bs_lastResult st)"
    and s': "s' = s\<lparr>sb_dedupe := map_option (\<lambda>d. dedupe_save d (rq_key rq) st) (sb_dedupe s)\<rparr>"
  shows "owners_consistent s' \<and> owner_of s' = owner_of s"
proof -
  have same: "owner_of s' = owner_of s"
    by (auto simp: s' owner_of_def fun_eq_iff dedupe_save_def split: option.split)
  have "owners_consistent s'"
    using ok r by (auto simp: owners_consistent_def same states_owned_def owned_by_def)
      (auto simp: s' dedupe_save_def split: if_splits)
  with same show ?thesis by simp
qed

lemma broadcast_advance_owners:
  assumes step: "broadcast_advance cfg t rep rq pc s = (pc', s')"
    and ok: "owners_consistent s" and key: "rq_key rq \<noteq> []" and call: "call_consistent s rq pc"
  shows "segment_ok s rq (pc', s')"
proof -
  have here: "same_owners s s" by (simp add: same_owners_def)
  have out: "same_owners s (releaseSlots rq s)" by (rule same_owners_release)
  have thrown: "segment_ok s rq (broadcast_throw rq s)"
    unfolding broadcast_throw_def by (rule segment_same [OF ok out]) (simp add: call_consistent_def)
  have stay: "segment_ok s rq (pc'', s)" if "call_consistent s rq pc''" for pc''
    by (rule segment_same [OF ok here that])
  have leave: "segment_ok s rq (pc'', releaseSlots rq s)" if "call_consistent s rq pc''" for pc''
    by (rule segment_same [OF ok out that])
  have rejected: "segment_ok s rq (BcRejected, s)" by (rule stay) (simp add: call_consistent_def)
  show ?thesis
  proof (cases pc)
    case BcLoading
    have stored: "owned_by s (rq_key rq) (bs_lastResult st)"
      if "sb_dedupe s = Some d" "jget (dd_states d) (rq_key rq) = Some st" for d st
      using ok that by (auto simp: owners_consistent_def states_owned_def)
    have loaded: "call_consistent s rq (BcLoaded cs)"
      if "\<And>st. cs = Some st \<Longrightarrow> owned_by s (rq_key rq) (bs_lastResult st)" for cs
      using that by (cases cs) (simp_all add: call_consistent_def)
    have "call_consistent s rq pc'"
    proof (cases "sb_dedupe s")
      case None
      then show ?thesis using step loaded [of None]
        by (auto simp: BcLoading call_consistent_def split: if_splits)
    next
      case (Some d)
      then show ?thesis using step stored [OF Some] loaded [of "jget (dd_states d) (rq_key rq)"]
        by (auto simp: BcLoading call_consistent_def dedupe_load_def split: if_splits)
    qed
    moreover have "s' = s" using step by (simp add: BcLoading split: if_splits)
    ultimately show ?thesis using segment_same [OF ok here] by simp
  next
    case (BcLoaded cs)
    then have admit: "broadcast_admit cfg t rq cs s = (pc', s')" using step by simp
    have "call_consistent s rq pc'"
      using broadcast_admit_noted [OF admit] broadcast_admit_carried [OF admit] call
      by (auto simp: call_consistent_def BcLoaded)
    then show ?thesis by (rule segment_same [OF ok broadcast_admit_same [OF admit]])
  next
    case (BcDuplicate r)
    then show ?thesis
      using step call rejected stay [of "BcReturned r"]
      by (simp add: call_consistent_def split: if_splits)
  next
    case (BcLimited r)
    then show ?thesis
      using step call thrown leave [of "BcReturned r"]
      by (simp add: call_consistent_def split: if_splits)
  next
    case (BcAnnounced n)
    then show ?thesis
      using step thrown stay [of "BcCalling n"] by (simp add: call_consistent_def split: if_splits)
  next
    case (BcCalling n)
    have "(pc', s') = broadcast_advance cfg t rep rq (BcCalling n) s" using step by (simp only: BcCalling)
    also have "segment_ok s rq \<dots>"
      using thrown segment_claim [OF ok key, of n] stay [of "BcCalling n"]
      by (cases rep) (simp_all add: call_consistent_def)
    finally show ?thesis .
  next
    case (BcClaiming n r h)
    have hash: "claimed_hash r = Some h" using call by (simp add: BcClaiming call_consistent_def)
    show ?thesis
    proof (cases "sb_dedupe s")
      case None
      then show ?thesis using call by (simp add: BcClaiming call_consistent_def)
    next
      case (Some d)
      show ?thesis
        using step thrown segment_store_claim [OF ok key hash Some]
        by (cases "dedupe_claimTxHash d h (rq_key rq)") (auto simp: BcClaiming Some split: if_splits)
    qed
  next
    case (BcClaimed n r h ow)
    have call': "claimed_hash r = Some h" "sb_dedupe s \<noteq> None" "ow \<noteq> Some []" "ow \<noteq> Some (rq_key rq)"
      using call by (simp_all add: BcClaimed call_consistent_def)
    have "segment_ok s rq (broadcast_owned rq n r h ow s)"
    proof (rule segment_owned [OF ok key call'(1)])
      assume "\<not> truthy ow"
      then have "ow = None" using call'(3) by (cases ow) auto
      then have "owner_of s h = Some (rq_key rq)"
        using call call'(1) by (simp add: BcClaimed call_consistent_def owned_by_def)
      then show "case sb_dedupe s of None \<Rightarrow> owner_of s h = None | Some d \<Rightarrow> owner_of s h = Some (rq_key rq)"
        using call'(2) by (auto split: option.splits)
    qed (use call' in simp)
    then show ?thesis using step by (simp add: BcClaimed)
  next
    case (BcOwned n r)
    then show ?thesis using step call segment_record [OF ok, of rq r n] by (simp add: call_consistent_def)
  next
    case (BcSaving st)
    define u where "u = s\<lparr>sb_dedupe := map_option (\<lambda>d. dedupe_save d (rq_key rq) st) (sb_dedupe s)\<rparr>"
    have r: "owned_by s (rq_key rq) (bs_lastResult st)" using call by (simp add: BcSaving call_consistent_def)
    from segment_save [OF ok r u_def] have u: "owners_consistent u" "owner_of u = owner_of s" by simp_all
    have ru: "owned_by u (rq_key rq) (bs_lastResult st)" using r u(2) by (simp add: owned_by_def)
    have after: "segment_ok s rq (pc'', u')"
      if "same_owners u u'" "carried pc'' = [bs_lastResult st]" "hash_noted u (rq_key rq) pc''" for pc'' u'
    proof -
      have "segment_ok u rq (pc'', u')"
        using that ru by (intro segment_same [OF u(1)]) (simp_all add: call_consistent_def)
      moreover have "(sb_dedupe u = None) = (sb_dedupe s = None)" by (simp add: u_def)
      ultimately show ?thesis using u(2) by (simp add: segment_ok_def owners_grow_def)
    qed
    show ?thesis
      using step thrown
      by (auto simp: BcSaving u_def [symmetric] Let_def same_owners_def intro!: after
        same_owners_release split: if_splits broadcast_result.splits)
  next
    case (BcReporting r)
    then show ?thesis
      using step call thrown leave [of "BcReturned r"]
      by (simp add: call_consistent_def split: if_splits)
  qed (use step call stay in simp_all)
qed

lemma mem_list_update: "x \<in> set (xs[i := y]) \<Longrightarrow> x = y \<or> x \<in> set xs"
  using set_update_subset_insert [of xs i y] by auto

definition keyed :: "secure_system \<Rightarrow> bool" where
  "keyed S \<longleftrightarrow> (\<forall>(rq, pc) \<in> set (ss_calls S). rq_key rq \<noteq> [])"

definition consistent :: "secure_system \<Rightarrow> bool" where
  "consistent S \<longleftrightarrow> owners_consistent (ss_state S)
     \<and> (\<forall>(rq, pc) \<in> set (ss_calls S). call_consistent (ss_state S) rq pc)"

lemma call_consistent_call:
  "owners_consistent s \<Longrightarrow> call_consistent s rq (broadcast_call rq s)"
  by (auto simp: broadcast_call_def call_consistent_def owners_consistent_def states_owned_def
    split: option.splits)

lemma call_consistent_grow:
  "owners_grow s s' \<Longrightarrow> call_consistent s rq pc \<Longrightarrow> call_consistent s' rq pc"
  by (auto simp: call_consistent_def intro: hash_noted_grow owned_by_grow)

lemma keyed_step: "secure_step cfg S S' \<Longrightarrow> keyed S' \<Longrightarrow> keyed S"
proof (induction rule: secure_step.induct)
  case (advance i S rq pc t rep pc' s')
  have "(rq, pc') \<in> set ((ss_calls S)[i := (rq, pc')])" using advance(1) by (simp add: set_update_memI)
  then have here: "rq_key rq \<noteq> []" using advance.prems by (auto simp: keyed_def)
  have "rq_key (fst (ss_calls S ! j)) \<noteq> []" if "j < length (ss_calls S)" for j
  proof (cases "j = i")
    case False
    then have "ss_calls S ! j \<in> set ((ss_calls S)[i := (rq, pc')])"
      using that by (metis length_list_update nth_list_update_neq nth_mem)
    then show ?thesis using advance.prems by (auto simp: keyed_def)
  qed (use here advance(2) in simp)
  then show ?case by (auto simp: keyed_def in_set_conv_nth) (metis fst_conv)
qed (simp add: keyed_def)

lemma consistent_step:
  assumes "secure_step cfg S S'" and "keyed S" and "consistent S"
  shows "consistent S'"
  using assms
proof (induction rule: secure_step.induct)
  case (call S rq)
  then show ?case by (auto simp: consistent_def call_consistent_call)
next
  case (advance i S rq pc t rep pc' s')
  have mem: "(rq, pc) \<in> set (ss_calls S)" using advance(1,2) by (metis nth_mem)
  then have "segment_ok (ss_state S) rq (pc', s')"
    using advance.prems by (intro broadcast_advance_owners [OF advance(3)])
      (auto simp: consistent_def keyed_def)
  then have seg: "owners_grow (ss_state S) s'" "owners_consistent s'" "call_consistent s' rq pc'"
    by (simp_all add: segment_ok_def)
  have "call_consistent s' rq2 pc2" if "(rq2, pc2) \<in> set ((ss_calls S)[i := (rq, pc')])" for rq2 pc2
    using mem_list_update [OF that] seg advance.prems(2) call_consistent_grow [OF seg(1)]
    by (fastforce simp: consistent_def)
  then show ?case using seg(2) by (auto simp: consistent_def)
qed

definition store_consistent :: "dedupe_store option \<Rightarrow> bool" where
  "store_consistent d \<longleftrightarrow> owners_consistent (fresh_secure_state d)"

lemma consistent_reaches:
  "secure_reaches cfg d S \<Longrightarrow> store_consistent d \<Longrightarrow> keyed S \<Longrightarrow> consistent S"
proof (induction rule: secure_reaches.induct)
  case start
  then show ?case by (simp add: consistent_def secure_start_def store_consistent_def)
next
  case (step S S')
  then show ?case using keyed_step consistent_step by blast
qed

section \<open>Attempts\<close>

fun attempt_of :: "broadcast_pc \<Rightarrow> int option" where
  "attempt_of (BcAnnounced n) = Some n"
| "attempt_of (BcCalling n) = Some n"
| "attempt_of (BcClaiming n r h) = Some n"
| "attempt_of (BcClaimed n r h ow) = Some n"
| "attempt_of (BcOwned n r) = Some n"
| "attempt_of (BcSaving st) = Some (bs_attempts st)"
| "attempt_of pc = None"

lemma admitted_attempt:
  "duplicateResult cs m = None \<Longrightarrow> cs = Some st \<Longrightarrow> bs_attempts st \<le> m"
  by (auto simp: duplicateResult_def split: broadcast_result.splits if_splits)

lemma broadcast_advance_attempt:
  assumes "broadcast_advance cfg t rep rq pc s = (pc', s')" and "attempt_of pc' = Some n'"
  shows "(case attempt_of pc of Some n \<Rightarrow> n' = n | None \<Rightarrow> n' = 1 \<or> n' \<le> sc_maxRetry cfg + 1)"
proof (cases pc)
  case (BcLoaded cs)
  then show ?thesis
    using assms admitted_attempt [of cs]
    by (fastforce simp: broadcast_admit_def Let_def split: option.splits if_splits prod.splits)
qed (use assms in \<open>auto simp: broadcast_segments Let_def
      split: if_splits option.splits prod.splits broadcast_reply.splits broadcast_result.splits\<close>)

definition attempts_bounded :: "secure_config \<Rightarrow> secure_system \<Rightarrow> bool" where
  "attempts_bounded cfg S \<longleftrightarrow> (\<forall>(rq, pc) \<in> set (ss_calls S). \<forall>n. attempt_of pc = Some n \<longrightarrow>
     n = 1 \<or> n \<le> sc_maxRetry cfg + 1)"

lemma attempts_bounded_reaches: "secure_reaches cfg d S \<Longrightarrow> attempts_bounded cfg S"
proof (induction rule: secure_reaches.induct)
  case start
  show ?case by (simp add: attempts_bounded_def secure_start_def)
next
  case (step S S')
  from step(2,3) show ?case
  proof (induction rule: secure_step.induct)
    case (call S rq)
    have "attempt_of (broadcast_call rq s) = None" for s
      by (simp add: broadcast_call_def split: option.splits)
    with call show ?case by (auto simp: attempts_bounded_def)
  next
    case (advance i S rq pc t rep pc' s')
    have mem: "(rq, pc) \<in> set (ss_calls S)" using advance(1,2) by (metis nth_mem)
    have "n = 1 \<or> n \<le> sc_maxRetry cfg + 1" if "attempt_of pc' = Some n" for n
      using broadcast_advance_attempt [OF advance(3) that] mem advance.prems
      by (cases "attempt_of pc") (auto simp: attempts_bounded_def)
    then show ?case
      using advance.prems by (fastforce simp: attempts_bounded_def dest: mem_list_update)
  qed
qed

section \<open>Progress\<close>

fun rank :: "broadcast_pc \<Rightarrow> nat" where
  "rank BcLoading = 10"
| "rank (BcLoaded cs) = 9"
| "rank (BcDuplicate r) = 1"
| "rank (BcLimited r) = 1"
| "rank (BcAnnounced n) = 8"
| "rank (BcCalling n) = 7"
| "rank (BcClaiming n r h) = 6"
| "rank (BcClaimed n r h ow) = 5"
| "rank (BcOwned n r) = 4"
| "rank (BcSaving st) = 3"
| "rank (BcReporting r) = 2"
| "rank (BcReturned r) = 0"
| "rank BcRejected = 0"

definition finished :: "broadcast_pc \<Rightarrow> bool" where
  "finished pc \<longleftrightarrow> rank pc = 0"

lemma rank_advance:
  assumes "broadcast_advance cfg t rep rq pc s = (pc', s')" and "rep \<noteq> BrpDone"
  shows "rank pc' \<le> rank pc - 1"
  using assms
  by (cases pc; auto simp: broadcast_segments Let_def
      split: if_splits option.splits prod.splits broadcast_reply.splits broadcast_result.splits)

section \<open>Example requests\<close>

definition sample_prepared :: "string \<Rightarrow> string \<Rightarrow> string \<Rightarrow> prepared" where
  "sample_prepared key order submitter =
     \<lparr>pr_prepareId = ''prep_1'', pr_taskId = ''task_1'', pr_orderId = order,
      pr_onchainOrderId = order, pr_planId = ''0x0a'', pr_stageIdentifier = ''stage_1'',
      pr_signalName = ''confirm_stage'', pr_sourceId = ''0x0c'', pr_signalId = ''0x0d'',
      pr_intent = ConfirmStage, pr_payloadHash = ''0x0e'', pr_payloadRef = ''ref'',
      pr_idempotencyKey = key, pr_submitter = submitter, pr_nonce = ''7'',
      pr_deadline = ''600'', pr_expiresAt = ''1970-01-01T00:10:00.000Z'',
      pr_humanSummary = \<lparr>hs_purpose = ''UVP product task submission'', hs_orderId = order,
        hs_taskTitle = ''title'', hs_stage = ''stage_1'', hs_action = ''confirm stage'',
        hs_payloadHash = ''0x0e'', hs_payloadRef = ''ref'', hs_submitter = submitter,
        hs_validUntil = ''1970-01-01T00:10:00.000Z'', hs_chainId = 1,
        hs_verifyingContract = ''0x0f''\<rparr>,
      pr_typedData = \<lparr>td_verifyingContract = Some ''0x0f'', td_content = JNull\<rparr>,
      pr_evidence = [], pr_authorizationSource = ''allow_list''\<rparr>"

definition sample_request :: "string \<Rightarrow> string \<Rightarrow> string \<Rightarrow> broadcast_request" where
  "sample_request key order submitter =
     \<lparr>rq_prepared = sample_prepared key order submitter, rq_signature = ''0x01'',
      rq_recoveredSubmitter = submitter, rq_evidence = []\<rparr>"

definition default_config :: secure_config where
  "default_config = secure_config_of \<lparr>so_maxInFlightPerOrder = None,
     so_maxInFlightPerSubmitter = None, so_maxRetry = None, so_maxRetryAttempts = None,
     so_retryBaseMs = None, so_retryMaxMs = None\<rparr>"

definition empty_store :: dedupe_store where
  "empty_store = \<lparr>dd_states = [], dd_owners = []\<rparr>"

lemma empty_store_consistent: "store_consistent (Some empty_store)" "store_consistent None"
  by (simp_all add: store_consistent_def owners_consistent_def fresh_secure_state_def
    owner_of_def states_owned_def empty_store_def)

text \<open>One call from its start to its end, and two calls whose transactions have one hash.\<close>

definition whole_call :: "nat \<Rightarrow> broadcast_request \<Rightarrow> broadcast_result \<Rightarrow> secure_event list" where
  "whole_call i rq r =
     SeCall rq # map (\<lambda>rep. SeAdvance i 0 rep)
       [BrpDone, BrpDone, BrpDone, BrpResult r, BrpDone, BrpDone, BrpDone, BrpDone, BrpDone]"

definition same_hash_run :: secure_system where
  "same_hash_run = secure_run default_config (Some empty_store)
     (whole_call 0 (sample_request ''0x01'' ''0xaa'' ''0x55'') (BrSubmitted ''0xFF'' None None)
      @ whole_call 1 (sample_request ''0x02'' ''0xbb'' ''0x66'') (BrSubmitted ''0xff'' None None))"

lemma same_hash_run_calls:
  "map (\<lambda>(rq, pc). (rq_key rq, case pc of BcReturned (BrSubmitted h b a) \<Rightarrow> h
      | BcReturned (BrFailed f) \<Rightarrow> bf_errorCode f | _ \<Rightarrow> [])) (ss_calls same_hash_run) =
     [(''0x01'', ''0xFF''), (''0x02'', ''duplicate_tx_hash'')]"
  by code_simp

section \<open>Properties\<close>

text \<open>C30: Whatever the interleaving, at any moment at most the configured number of broadcasts
  of one order, and of one submitter, is past the admission check; with the default of one,
  the adapter never works for an order or a submitter twice at a time.\<close>

theorem broadcasts_within_limits:
  assumes "secure_reaches cfg d S"
  shows "at_most (sc_maxInFlightPerOrder cfg) (calls_where admitted rq_order k (ss_calls S))
    \<and> at_most (sc_maxInFlightPerSubmitter cfg) (calls_where admitted rq_submitter k (ss_calls S))"
  using within_limits_reaches [OF assms] by (simp_all add: within_limits_def)

definition two_calls_run :: secure_system where
  "two_calls_run = secure_run default_config None
     [SeCall (sample_request ''0x01'' ''0xaa'' ''0x55''), SeCall (sample_request ''0x02'' ''0xaa'' ''0x66''),
      SeAdvance 0 0 BrpDone, SeAdvance 1 0 BrpDone]"

lemma broadcasts_within_limits_witness:
  "at_most 1 (calls_where admitted rq_order ''0xaa'' (ss_calls two_calls_run))
     \<and> slots rq_order ''0xaa'' (ss_calls two_calls_run) = 2"
proof -
  have "secure_reaches default_config None two_calls_run"
    unfolding two_calls_run_def by (rule secure_run_reaches)
  from broadcasts_within_limits [OF this, THEN conjunct1, of "''0xaa''"]
  have "at_most 1 (calls_where admitted rq_order ''0xaa'' (ss_calls two_calls_run))"
    by (simp add: default_config_def secure_config_of_def)
  moreover have "slots rq_order ''0xaa'' (ss_calls two_calls_run) = 2" by code_simp
  ultimately show ?thesis ..
qed

text \<open>C31: Slots are given back on every path, errors included: a counter holds exactly the
  number of calls in progress that took a slot, so once every call has returned or thrown no
  counter is left.\<close>

theorem slots_are_returned:
  assumes "secure_reaches cfg d S" and "\<And>rq pc. (rq, pc) \<in> set (ss_calls S) \<Longrightarrow> finished pc"
  shows "jget (sb_inFlightByOrder (ss_state S)) k = None
    \<and> jget (sb_inFlightBySubmitter (ss_state S)) k = None"
proof -
  have idle: "\<not> holds_slots pc" if "(rq, pc) \<in> set (ss_calls S)" for rq pc
    using assms(2) [OF that] by (cases pc) (simp_all add: finished_def)
  then have "slots f k (ss_calls S) = 0" for f
    by (auto simp: calls_where_def filter_empty_conv)
  then show ?thesis
    using slots_counted_reaches [OF assms(1)] by (simp_all add: slots_counted_def counts_slots_def)
qed

lemma slots_are_returned_witness:
  "jget (sb_inFlightByOrder (ss_state same_hash_run)) ''0xaa'' = None"
proof (rule slots_are_returned [THEN conjunct1])
  show "secure_reaches default_config (Some empty_store) same_hash_run"
    unfolding same_hash_run_def by (rule secure_run_reaches)
  have "list_all (\<lambda>(rq, pc). finished pc) (ss_calls same_hash_run)" by code_simp
  then show "finished pc" if "(rq, pc) \<in> set (ss_calls same_hash_run)" for rq pc
    using that by (auto simp: list_all_iff)
qed

text \<open>C32: Two calls whose outcomes report the same transaction hash, whatever the case of its
  digits and however the calls interleave, are calls for the same idempotency key: the hash
  of one submission is never accepted for another.\<close>

theorem transaction_hash_has_one_owner:
  assumes "secure_reaches cfg d S" and "store_consistent d" and "keyed S"
    and "(rq1, BcReturned r1) \<in> set (ss_calls S)" and "(rq2, BcReturned r2) \<in> set (ss_calls S)"
    and "claimed_hash r1 = Some h" and "claimed_hash r2 = Some h"
  shows "rq_key rq1 = rq_key rq2"
proof -
  have "consistent S" using assms(1-3) by (rule consistent_reaches)
  then have "owned_by (ss_state S) (rq_key rq1) r1" "owned_by (ss_state S) (rq_key rq2) r2"
    using assms(4,5) by (auto simp: consistent_def call_consistent_def)
  with assms(6,7) show ?thesis by (simp add: owned_by_def)
qed

definition replay_run :: secure_system where
  "replay_run =
     (let rq = sample_request ''0x01'' ''0xaa'' ''0x55'' in
      secure_run default_config (Some empty_store)
        (whole_call 0 rq (BrSubmitted ''0xFF'' None None)
          @ [SeCall rq, SeAdvance 1 0 BrpDone, SeAdvance 1 0 BrpDone]))"

lemma transaction_hash_has_one_owner_witness:
  "rq_key (fst (ss_calls replay_run ! 0)) = rq_key (fst (ss_calls replay_run ! 1))"
proof -
  let ?rq = "sample_request ''0x01'' ''0xaa'' ''0x55''" and ?r = "BrSubmitted ''0xFF'' None None"
  have calls: "ss_calls replay_run = [(?rq, BcReturned ?r), (?rq, BcReturned ?r)]" by code_simp
  have keyed: "keyed replay_run" unfolding keyed_def calls by code_simp
  have reach: "secure_reaches default_config (Some empty_store) replay_run"
    unfolding replay_run_def Let_def by (rule secure_run_reaches)
  have hash: "claimed_hash ?r = Some ''0xff''" by code_simp
  have "(fst (ss_calls replay_run ! 0), BcReturned ?r) \<in> set (ss_calls replay_run)"
    "(fst (ss_calls replay_run ! 1), BcReturned ?r) \<in> set (ss_calls replay_run)"
    by (simp_all add: calls)
  from transaction_hash_has_one_owner [OF reach empty_store_consistent(1) keyed this hash hash]
  show ?thesis .
qed

text \<open>The number of an attempt that reaches the adapter is the first or at most one more than
  the configured number of retries, and the delay before the next one lies between the base
  and the maximum and never shrinks.\<close>

theorem attempts_and_delays_bounded:
  assumes "secure_reaches cfg d S" and "0 < sc_retryBaseMs cfg" and "0 < sc_retryMaxMs cfg"
  shows "((rq, BcCalling n) \<in> set (ss_calls S) \<longrightarrow> n \<le> max 1 (sc_maxRetry cfg + 1))
    \<and> min (sc_retryBaseMs cfg) (sc_retryMaxMs cfg) \<le> retry_delay cfg n
    \<and> retry_delay cfg n \<le> sc_retryMaxMs cfg
    \<and> (n \<le> n' \<longrightarrow> retry_delay cfg n \<le> retry_delay cfg n')"
proof -
  have attempt: "n \<le> max 1 (sc_maxRetry cfg + 1)" if "(rq, BcCalling n) \<in> set (ss_calls S)"
    using attempts_bounded_reaches [OF assms(1)] that by (fastforce simp: attempts_bounded_def)
  have "sc_retryBaseMs cfg * 1 \<le> sc_retryBaseMs cfg * 2 ^ nat (max (n - 1) 0)"
    using assms(2) by (intro mult_left_mono) auto
  then have low: "min (sc_retryBaseMs cfg) (sc_retryMaxMs cfg) \<le> retry_delay cfg n"
    by (auto simp: retry_delay_def)
  have high: "retry_delay cfg n \<le> sc_retryMaxMs cfg" by (simp add: retry_delay_def)
  have grows: "retry_delay cfg n \<le> retry_delay cfg n'" if "n \<le> n'"
  proof -
    have "(2 :: int) ^ nat (max (n - 1) 0) \<le> 2 ^ nat (max (n' - 1) 0)"
      using that by (intro power_increasing) auto
    then have "sc_retryBaseMs cfg * 2 ^ nat (max (n - 1) 0) \<le> sc_retryBaseMs cfg * 2 ^ nat (max (n' - 1) 0)"
      using assms(2) by (intro mult_left_mono) auto
    then show ?thesis by (auto simp: retry_delay_def)
  qed
  show ?thesis using attempt low high grows by blast
qed

lemma attempts_and_delays_bounded_witness:
  "retry_delay default_config 3 = 1000 \<and> retry_delay default_config 3 \<le> retry_delay default_config 9
     \<and> retry_delay default_config 9 = 5000"
proof -
  have reach: "secure_reaches default_config None two_calls_run"
    unfolding two_calls_run_def by (rule secure_run_reaches)
  have "0 < sc_retryBaseMs default_config" "0 < sc_retryMaxMs default_config"
    by (simp_all add: default_config_def secure_config_of_def)
  from attempts_and_delays_bounded [OF reach this, of undefined 3 9]
  have "retry_delay default_config 3 \<le> retry_delay default_config 9" by simp
  moreover have "retry_delay default_config 3 = 1000" "retry_delay default_config 9 = 5000"
    by (simp_all add: retry_delay_def default_config_def secure_config_of_def)
  ultimately show ?thesis by simp
qed

definition final_outcome :: "broadcast_result \<Rightarrow> bool" where
  "final_outcome r \<longleftrightarrow> (case r of BrFailed f \<Rightarrow> \<not> bf_retryable f | _ \<Rightarrow> True)"

text \<open>A call for a key whose outcome is recorded in memory and is a success, or a failure
  marked as not retryable, returns that outcome unchanged: it takes no slot, leaves the state
  as it is and never reaches the adapter.\<close>

theorem final_outcome_replayed:
  assumes "jget (sb_states s) (rq_key rq) = Some st" and "final_outcome (bs_lastResult st)"
  shows "broadcast_call rq s = BcLoaded (Some st)
    \<and> broadcast_advance cfg t rep rq (broadcast_call rq s) s' = (BcDuplicate (bs_lastResult st), s')
    \<and> (rep \<noteq> BrpThrows \<longrightarrow> broadcast_advance cfg t rep rq (BcDuplicate (bs_lastResult st)) s' =
      (BcReturned (bs_lastResult st), s'))"
  using assms
  by (auto simp: broadcast_call_def broadcast_admit_def duplicateResult_def final_outcome_def
    split: broadcast_result.splits)

lemma final_outcome_replayed_witness:
  "broadcast_call (sample_request ''0x01'' ''0xaa'' ''0x55'')
     (fresh_secure_state None\<lparr>sb_states :=
        [(''0x01'', \<lparr>bs_attempts = 1, bs_lastResult = BrSubmitted ''0xff'' None None\<rparr>)]\<rparr>)
   = BcLoaded (Some \<lparr>bs_attempts = 1, bs_lastResult = BrSubmitted ''0xff'' None None\<rparr>)"
  by (rule final_outcome_replayed [THEN conjunct1])
    (simp_all add: sample_request_def sample_prepared_def fresh_secure_state_def final_outcome_def)

definition resumed ::
  "secure_config \<Rightarrow> broadcast_request \<Rightarrow> broadcast_pc
     \<Rightarrow> (int \<times> broadcast_reply \<times> secure_state) list \<Rightarrow> broadcast_pc" where
  "resumed cfg rq pc xs =
     foldl (\<lambda>pc (t, rep, s). fst (broadcast_advance cfg t rep rq pc s)) pc xs"

lemma rank_resumed:
  "\<forall>(t, rep, s) \<in> set xs. rep \<noteq> BrpDone \<Longrightarrow> rank (resumed cfg rq pc xs) \<le> rank pc - length xs"
proof (induction xs arbitrary: pc)
  case (Cons x xs)
  obtain t rep s where x: "x = (t, rep, s)" by (cases x)
  have "rank (fst (broadcast_advance cfg t rep rq pc s)) \<le> rank pc - 1"
    using Cons.prems by (intro rank_advance [of cfg t rep rq pc s _ "snd (broadcast_advance cfg t rep rq pc s)"])
      (auto simp: x)
  then show ?case
    using Cons.IH [of "fst (broadcast_advance cfg t rep rq pc s)"] Cons.prems
    by (auto simp: resumed_def x)
qed (simp add: resumed_def)

text \<open>A call comes to its end: resumed ten times, each time with an answer or an exception
  of what it awaits, it has returned or thrown, whatever the other calls did to the shared
  state in between.\<close>

theorem broadcast_finishes:
  assumes "\<forall>(t, rep, s) \<in> set xs. rep \<noteq> BrpDone" and "10 \<le> length xs"
  shows "finished (resumed cfg rq (broadcast_call rq s) xs)"
proof -
  have "rank (broadcast_call rq s) \<le> 10" by (simp add: broadcast_call_def split: option.splits)
  then show ?thesis
    using rank_resumed [OF assms(1), of cfg rq "broadcast_call rq s"] assms(2)
    by (simp add: finished_def)
qed

lemma broadcast_finishes_witness:
  "finished (resumed default_config (sample_request ''0x01'' ''0xaa'' ''0x55'')
     (broadcast_call (sample_request ''0x01'' ''0xaa'' ''0x55'') (fresh_secure_state None))
     (replicate 10 (0, BrpResult (BrNotAttempted ''broadcast_disabled'' ''off''), fresh_secure_state None)))"
  by (rule broadcast_finishes) simp_all

text \<open>
  The check for duplicates is made before the slots are taken and not repeated after, and
  the store is read before it: a call that waits for the store's answer while another call
  for the same key runs to its end is admitted and reaches the adapter again.
\<close>

definition overtaken_run :: secure_system where
  "overtaken_run =
     (let rq = sample_request ''0x01'' ''0xaa'' ''0x55'' in
      secure_run default_config (Some empty_store)
        ([SeCall rq, SeCall rq, SeAdvance 1 0 BrpDone]
         @ map (\<lambda>rep. SeAdvance 0 0 rep)
             [BrpDone, BrpDone, BrpDone, BrpResult (BrSubmitted ''0xff'' None None), BrpDone,
              BrpDone, BrpDone, BrpDone]
         @ [SeAdvance 1 0 BrpDone, SeAdvance 1 0 BrpDone]))"

lemma second_broadcast_of_a_key:
  "map snd (ss_calls overtaken_run) = [BcReturned (BrSubmitted ''0xff'' None None), BcCalling 1]"
  by code_simp

end
