(* ===== verification/SubmissionFacts.thy ===== *)
theory SubmissionFacts imports Submissions BroadcastSafety begin

text \<open>
  Properties of the submission service: interleaved submissions never share a nonce, a nonce
  whose transaction may be on the chain stays reserved, only the signer consumes a
  preparation, and what is signed is what is stored.
\<close>

section \<open>Interleaved submissions\<close>

text \<open>
  A submission in progress holds its nonce between its two parts. A step begins one, ends
  one, prepares one or archives one; the flag tells whether a stale reservation was taken over.
\<close>

record submit_system =
  su_store :: submission_store
  su_active :: "submit_context list"

abbreviation nonce_key :: "submit_context \<Rightarrow> string" where
  "nonce_key x \<equiv> submissionNonceKey (sx_prepared x)"

inductive submit_step :: "service_env \<Rightarrow> bool \<Rightarrow> submit_system \<Rightarrow> submit_system \<Rightarrow> bool" for E where
  prepare: "prepareSubmit E t nonceText prepareId taskId inp reader (su_store S) = (res, st) \<Longrightarrow>
    submit_step E False S (S\<lparr>su_store := st\<rparr>)"
| begun: "submit_begin E clock reservedAt submissionId fault taskId inp (su_store S) =
      (Inr (SbReserved x), st) \<Longrightarrow>
    submit_step E (nonce_held (nonce_key x) (su_store S) \<noteq> None) S
      \<lparr>su_store = st, su_active = x # su_active S\<rparr>"
| archived: "submit_begin E clock reservedAt submissionId fault taskId inp (su_store S) =
      (Inr (SbArchived sm), st) \<Longrightarrow> submit_step E False S (S\<lparr>su_store := st\<rparr>)"
| refused: "submit_begin E clock reservedAt submissionId fault taskId inp (su_store S) =
      (Inl e, st) \<Longrightarrow> submit_step E False S (S\<lparr>su_store := st\<rparr>)"
| unattempted: "submit_begin E clock reservedAt submissionId fault taskId inp (su_store S) =
      (Inr (SbUnattempted x), st) \<Longrightarrow> submit_unattempted E t newId x reply st = (res, st') \<Longrightarrow>
    submit_step E False S (S\<lparr>su_store := st'\<rparr>)"
| finish: "su_active S = xs @ x # ys \<Longrightarrow>
    submit_finish E clock submissionId secondId faults x reply (su_store S) = (res, st) \<Longrightarrow>
    submit_step E False S \<lparr>su_store = st, su_active = xs @ ys\<rparr>"

inductive_cases submit_stepE: "submit_step E over S S'"

inductive submit_reaches :: "service_env \<Rightarrow> submit_system \<Rightarrow> submit_system \<Rightarrow> bool" for E where
  here: "submit_reaches E S S"
| step: "submit_reaches E S S' \<Longrightarrow> submit_step E False S' S'' \<Longrightarrow> submit_reaches E S S''"

section \<open>What the parts do to nonces\<close>

lemma nonce_held_simps [simp]:
  "nonce_held k (putSubmission sm st) = nonce_held k st"
  "nonce_held k (putPrepared p st) = nonce_held k st"
  by (simp_all add: nonce_held_def putSubmission_def putPrepared_def)

lemma nonce_held_markPreparedUsed [simp]: "nonce_held k (markPreparedUsed i s u st) = nonce_held k st"
  by (simp add: nonce_held_def markPreparedUsed_def split: option.splits)

lemma prepareSubmit_nonces:
  "prepareSubmit E t n i taskId inp reader st = (res, st') \<Longrightarrow> nonce_held k st' = nonce_held k st"
  by (auto simp: prepareSubmit_def split: sum.splits)

lemma archive_expired_nonces:
  "archive_expired E t i fault x st = (res, st') \<Longrightarrow> nonce_held k st' = nonce_held k st"
  by (auto simp: archive_expired_def Let_def split: sum.splits option.splits)

lemma submit_begin_reserved:
  assumes "submit_begin E clock reservedAt i fault taskId inp st = (Inr (SbReserved x), st')"
  shows "reserveNonce (nonce_key x) (Some (stale_threshold E (clock 1))) reservedAt st = (True, st')"
    and "submit_checks E taskId inp st = Inr x"
  using assms
  by (auto simp: submit_begin_def archive_expired_def Let_def
    split: sum.splits option.splits if_splits prod.splits)

lemma submit_begin_not_reserved:
  assumes "submit_begin E clock reservedAt i fault taskId inp st = (res, st')"
    and "\<And>x. res \<noteq> Inr (SbReserved x)"
  shows "nonce_held k st' = nonce_held k st"
proof -
  have refused: "\<not> fst (reserveNonce n l a st) \<Longrightarrow> nonce_held k (snd (reserveNonce n l a st)) = nonce_held k st"
    for n l a by (rule store_nonces.refused_unchanged)
  show ?thesis
    using assms refused [of _ "Some (stale_threshold E (clock 1))" reservedAt]
    by (auto simp: submit_begin_def split: sum.splits if_splits prod.splits dest: archive_expired_nonces)
      (metis fst_conv snd_conv)
qed

lemma submit_unattempted_nonces:
  "submit_unattempted E t i x reply st = (res, st') \<Longrightarrow> nonce_held k st' = nonce_held k st"
  by (auto simp: submit_unattempted_def split: sum.splits adapter_reply.splits)

lemma nonce_held_release:
  "nonce_held k' (releaseNonce k st) = (if k' = k then None else nonce_held k' st)"
  by (rule store_nonces.held_release)

lemma submit_finish_nonces:
  assumes "submit_finish E clock i j faults x reply st = (res, st')" and "k \<noteq> nonce_key x"
  shows "nonce_held k st' = nonce_held k st"
  using assms
  by (auto simp: submit_finish_def submit_thrown_def Let_def nonce_held_release
    split: sum.splits option.splits adapter_reply.splits if_splits)

section \<open>Exclusive nonces\<close>

definition nonces_apart :: "submit_system \<Rightarrow> bool" where
  "nonces_apart S \<longleftrightarrow> distinct (map nonce_key (su_active S))
     \<and> (\<forall>x \<in> set (su_active S). nonce_held (nonce_key x) (su_store S) \<noteq> None)"

lemma nonces_apart_step: "submit_step E False S S' \<Longrightarrow> nonces_apart S \<Longrightarrow> nonces_apart S'"
proof (induction "False" S S' rule: submit_step.induct)
  case (prepare t nonceText prepareId taskId inp reader S res st)
  then show ?case using prepareSubmit_nonces by (simp add: nonces_apart_def)
next
  case (begun clock reservedAt submissionId fault taskId inp S x st)
  have "reserveNonce (nonce_key x) (Some (stale_threshold E (clock 1))) reservedAt (su_store S) = (True, st)"
    using begun.hyps(1) by (rule submit_begin_reserved)
  then have "snd (reserveNonce (nonce_key x) (Some (stale_threshold E (clock 1))) reservedAt (su_store S)) = st"
    by simp
  moreover have "nonce_held (nonce_key x) (su_store S) = None" using begun.hyps(2) by simp
  ultimately show ?case
    using store_nonces.grant_apart [of "map nonce_key (su_active S)" "su_store S" "nonce_key x"
        "Some (stale_threshold E (clock 1))" reservedAt] begun.prems
    by (auto simp: nonces_apart_def)
next
  case (archived clock reservedAt submissionId fault taskId inp S sm st)
  then show ?case using submit_begin_not_reserved by (simp add: nonces_apart_def)
next
  case (refused clock reservedAt submissionId fault taskId inp S e st)
  then show ?case using submit_begin_not_reserved by (simp add: nonces_apart_def)
next
  case (unattempted clock reservedAt submissionId fault taskId inp S x st t newId reply res st')
  then show ?case
    using submit_begin_not_reserved submit_unattempted_nonces by (simp add: nonces_apart_def)
next
  case (finish S xs x ys clock submissionId secondId faults reply res st)
  have "nonce_held (nonce_key y) st = nonce_held (nonce_key y) (su_store S)"
    if "y \<in> set (xs @ ys)" for y
  proof (rule submit_finish_nonces [OF finish.hyps(2)])
    have "nonce_key x \<notin> nonce_key ` set (xs @ ys)" using finish by (simp add: nonces_apart_def image_Un)
    then show "nonce_key y \<noteq> nonce_key x" using that by (metis imageI)
  qed
  then show ?case using finish by (auto simp: nonces_apart_def)
qed

lemma nonces_apart_reaches: "submit_reaches E S S' \<Longrightarrow> nonces_apart S \<Longrightarrow> nonces_apart S'"
  by (induction rule: submit_reaches.induct) (auto intro: nonces_apart_step)

text \<open>A nonce that is held by no submission in progress stays so: nothing releases it.\<close>

definition spent :: "string \<Rightarrow> submit_system \<Rightarrow> bool" where
  "spent k S \<longleftrightarrow> nonce_held k (su_store S) \<noteq> None \<and> (\<forall>x \<in> set (su_active S). nonce_key x \<noteq> k)"

lemma spent_step: "submit_step E False S S' \<Longrightarrow> spent k S \<Longrightarrow> spent k S'"
proof (induction "False" S S' rule: submit_step.induct)
  case (prepare t nonceText prepareId taskId inp reader S res st)
  then show ?case using prepareSubmit_nonces by (simp add: spent_def)
next
  case (begun clock reservedAt submissionId fault taskId inp S x st)
  have "reserveNonce (nonce_key x) (Some (stale_threshold E (clock 1))) reservedAt (su_store S) = (True, st)"
    using begun.hyps(1) by (rule submit_begin_reserved)
  then have after: "snd (reserveNonce (nonce_key x) (Some (stale_threshold E (clock 1))) reservedAt (su_store S)) = st"
    by simp
  have "nonce_key x \<noteq> k" using begun.hyps(2) begun.prems by (auto simp: spent_def)
  then show ?case
    using begun.prems store_nonces.grant_kept [of k "su_store S" "nonce_key x"
        "Some (stale_threshold E (clock 1))" reservedAt] after by (simp add: spent_def)
next
  case (archived clock reservedAt submissionId fault taskId inp S sm st)
  then show ?case using submit_begin_not_reserved by (simp add: spent_def)
next
  case (refused clock reservedAt submissionId fault taskId inp S e st)
  then show ?case using submit_begin_not_reserved by (simp add: spent_def)
next
  case (unattempted clock reservedAt submissionId fault taskId inp S x st t newId reply res st')
  then show ?case
    using submit_begin_not_reserved submit_unattempted_nonces by (simp add: spent_def)
next
  case (finish S xs x ys clock submissionId secondId faults reply res st)
  have "nonce_held k st = nonce_held k (su_store S)"
    using finish.prems finish.hyps(1) by (intro submit_finish_nonces [OF finish.hyps(2)]) (auto simp: spent_def)
  then show ?case using finish by (simp add: spent_def)
qed

lemma spent_reaches: "submit_reaches E S S' \<Longrightarrow> spent k S \<Longrightarrow> spent k S'"
  by (induction rule: submit_reaches.induct) (auto intro: spent_step)

section \<open>The end of a submission\<close>

lemma submission_record_hash:
  "submission_record E x i t r = Inr sm \<Longrightarrow>
     (\<exists>h. sm = withSubmissionReconcileDefaults (submissionFromBroadcast (sx_prepared x) i
        (sx_recovered x) h (toISOString t) r))"
  by (auto simp: submission_record_def bindR_def thrown_def split: sum.splits)

lemma withSubmissionReconcileDefaults_keeps [simp]:
  "sm_submissionId (withSubmissionReconcileDefaults sm) = sm_submissionId sm"
  "sm_prepareId (withSubmissionReconcileDefaults sm) = sm_prepareId sm"
  "sm_status (withSubmissionReconcileDefaults sm) = sm_status sm"
  "sm_txHash (withSubmissionReconcileDefaults sm) = sm_txHash sm"
  "sm_errorCode (withSubmissionReconcileDefaults sm) = sm_errorCode sm"
  "sm_retryable (withSubmissionReconcileDefaults sm) = sm_retryable sm"
  "sm_submitter (withSubmissionReconcileDefaults sm) = sm_submitter sm"
  "sm_updatedAt (withSubmissionReconcileDefaults sm) = sm_updatedAt sm"
  "sm_createdAt (withSubmissionReconcileDefaults sm) = sm_createdAt sm"
  "sm_attempts (withSubmissionReconcileDefaults sm) = sm_attempts sm"
  "sm_attemptCount (withSubmissionReconcileDefaults sm) = sm_attemptCount sm"
  "sm_broadcastStatus (withSubmissionReconcileDefaults sm) = sm_broadcastStatus sm"
  "sm_evidenceIds (withSubmissionReconcileDefaults sm) = sm_evidenceIds sm"
  by (simp_all add: withSubmissionReconcileDefaults_def Let_def)

lemmas record_defs = submissionFromBroadcast_def record_done_def record_failed_def
  record_broadcasting_def record_unattempted_def with_attempts_def submissionCommon_def Let_def

lemma submissionFromBroadcast_common [simp]:
  "sm_submissionId (submissionFromBroadcast p i a h t r) = i"
  "sm_prepareId (submissionFromBroadcast p i a h t r) = pr_prepareId p"
  "sm_submitter (submissionFromBroadcast p i a h t r) = pr_submitter p"
  "sm_updatedAt (submissionFromBroadcast p i a h t r) = t"
  "sm_createdAt (submissionFromBroadcast p i a h t r) = t"
  by (cases r; simp add: record_defs)+

lemma getSubmission_store_put [simp]:
  "getSubmission_store i (putSubmission sm st) =
     (if i = sm_submissionId sm then Some sm else getSubmission_store i st)"
  by (simp add: getSubmission_store_def putSubmission_def)

lemma getSubmission_store_simps [simp]:
  "getSubmission_store i (releaseNonce k st) = getSubmission_store i st"
  "getSubmission_store i (markPreparedUsed p s u st) = getSubmission_store i st"
  by (simp_all add: getSubmission_store_def releaseNonce_def markPreparedUsed_def split: option.splits)

lemma getPrepared_simps [simp]:
  "getPrepared p (releaseNonce k st) = getPrepared p st"
  "getPrepared p (putSubmission sm st) = getPrepared p st"
  "getPrepared p (markPreparedUsed p s u st) =
     map_option (\<lambda>x. x\<lparr>pr_usedAt := Some u, pr_submissionId := Some s\<rparr>) (getPrepared p st)"
  by (simp_all add: getPrepared_def releaseNonce_def putSubmission_def markPreparedUsed_def
    split: option.splits)

lemma submission_record_some:
  "signatureHashFor E (sx_signature x) = Inr h \<Longrightarrow>
     submission_record E x i t r = Inr (withSubmissionReconcileDefaults
       (submissionFromBroadcast (sx_prepared x) i (sx_recovered x) h (toISOString t) r))"
  by (simp add: submission_record_def)

lemma failed_record:
  "sm_status (submissionFromBroadcast p i a h t (BrFailed f)) = SubFailed"
  "sm_errorCode (submissionFromBroadcast p i a h t (BrFailed f)) = Some (bf_errorCode f)"
  "sm_txHash (submissionFromBroadcast p i a h t (BrFailed f)) =
     keep_truthy (opt_or (bf_txHash f) (Option.bind (bf_attempt f) ba_txHash))"
  by (simp_all add: record_defs)

section \<open>Properties of submitting\<close>

text \<open>C19: However submissions, preparations and their ends interleave, and as long as no stale
  reservation is taken over, no two submissions in progress hold the same nonce: a preparation
  is never broadcast twice at a time.\<close>

theorem submissions_never_share_a_nonce:
  assumes "submit_reaches E \<lparr>su_store = st, su_active = []\<rparr> S"
  shows "distinct (map nonce_key (su_active S))
    \<and> (x \<in> set (su_active S) \<longrightarrow> nonce_held (nonce_key x) (su_store S) \<noteq> None)"
proof -
  have "nonces_apart \<lparr>su_store = st, su_active = []\<rparr>" by (simp add: nonces_apart_def)
  with assms have apart: "nonces_apart S" by (rule nonces_apart_reaches)
  have "distinct (map nonce_key (su_active S))" using apart by (simp add: nonces_apart_def)
  moreover have "nonce_held (nonce_key x) (su_store S) \<noteq> None" if "x \<in> set (su_active S)"
    using apart that unfolding nonces_apart_def by blast
  ultimately show ?thesis by blast
qed

text \<open>C20: A submission whose outcome carries a transaction hash keeps its nonce for good: its end
  leaves the nonce reserved, even when the archive cannot be written, and whatever follows no
  later submission is granted it unless the reservation has become older than the limit.\<close>

theorem transaction_keeps_its_nonce:
  assumes apart: "nonces_apart S" and active: "su_active S = xs @ x # ys"
    and finish: "submit_finish E clock i j faults x (ArResult r) (su_store S) = (res, st)"
    and archive: "submission_record E x i (clock 0) r = Inr sm" and hash: "truthy (sm_txHash sm)"
    and i: "i \<noteq> []" and later: "submit_reaches E \<lparr>su_store = st, su_active = xs @ ys\<rparr> S'"
  shows "nonce_held (nonce_key x) (su_store S') \<noteq> None
    \<and> (\<forall>y \<in> set (su_active S'). nonce_key y \<noteq> nonce_key x)
    \<and> (submit_begin E clock' reservedAt k fault taskId inp (su_store S') = (Inr (SbReserved y), st')
      \<and> nonce_key y = nonce_key x \<longrightarrow>
      (\<exists>t. nonce_held (nonce_key x) (su_store S') = Some t \<and> js_less t (stale_threshold E (clock' 1))))"
proof -
  obtain h where h: "sm_txHash sm = Some h" "h \<noteq> []" using truthy_some [OF hash] by auto
  have "nonce_held (nonce_key x) st = nonce_held (nonce_key x) (su_store S)"
    using finish archive h i
    by (auto simp: submit_finish_def keeps_prepare_reusable_def
      split: option.splits sum.splits if_splits broadcast_result.splits)
  moreover have "nonce_held (nonce_key x) (su_store S) \<noteq> None"
    using apart active unfolding nonces_apart_def by auto
  moreover have "\<forall>y \<in> set (xs @ ys). nonce_key y \<noteq> nonce_key x"
    using apart active by (auto simp: nonces_apart_def image_iff)
  ultimately have "spent (nonce_key x) \<lparr>su_store = st, su_active = xs @ ys\<rparr>"
    by (simp add: spent_def)
  with later have spent: "spent (nonce_key x) S'" by (rule spent_reaches)
  then have held: "nonce_held (nonce_key x) (su_store S') \<noteq> None"
    and others: "\<forall>y \<in> set (su_active S'). nonce_key y \<noteq> nonce_key x" by (simp_all add: spent_def)
  have "\<exists>t. nonce_held (nonce_key x) (su_store S') = Some t \<and> js_less t (stale_threshold E (clock' 1))"
    if begun: "submit_begin E clock' reservedAt k fault taskId inp (su_store S') = (Inr (SbReserved y), st')"
    and same: "nonce_key y = nonce_key x"
  proof -
    from submit_begin_reserved(1) [OF begun]
    have "fst (reserveNonce (nonce_key x) (Some (stale_threshold E (clock' 1))) reservedAt (su_store S'))"
      by (simp add: same)
    with held show ?thesis by (auto simp: store_nonces.granted)
  qed
  with held others show ?thesis by blast
qed

text \<open>
  The comparison of time texts decides by age: a reservation made at time \<open>r\<close> is taken over
  at time \<open>t\<close> exactly when it is older than the validity of a preparation.
\<close>

definition common_year :: "int \<Rightarrow> bool" where
  "common_year t \<longleftrightarrow> (let y = cal_year (calendar_of (t div ms_per_day + epoch_day)) in 0 \<le> y \<and> y \<le> 9999)"

lemma takeover_is_by_age:
  assumes "nonce_held k st = Some (toISOString r)"
    and "common_year r" and "common_year (t - sv_ttlSeconds E * 1000)"
  shows "fst (reserveNonce k (Some (stale_threshold E t)) reservedAt st) \<longleftrightarrow> r + sv_ttlSeconds E * 1000 < t"
proof -
  let ?l = "t - sv_ttlSeconds E * 1000"
  have "js_less (toISOString r) (toISOString ?l) \<longleftrightarrow> r < ?l"
  proof (cases "r < ?l")
    case True
    then show ?thesis using assms(2,3) by (auto simp: common_year_def Let_def intro: toISOString_order)
  next
    case False
    then consider "r = ?l" | "?l < r" by linarith
    then show ?thesis
    proof cases
      case 2
      then have "js_less (toISOString ?l) (toISOString r)"
        using assms(2,3) by (intro toISOString_order) (auto simp: common_year_def Let_def)
      then show ?thesis using False js_less_asym by blast
    qed simp
  qed
  then show ?thesis
    using assms(1) by (auto simp: store_nonces.granted stale_threshold_def algebra_simps)
qed

text \<open>C21: A reservation is taken over only when it is older than the validity of a preparation,
  although ages are compared as texts. A preparation that is still valid can lose its reservation to a takeover only in the
  last second of its validity: the deadline is checked first, and a reservation made after
  the preparation is older than the limit only when the deadline has come.\<close>

theorem takeover_needs_the_deadline:
  assumes begun: "submit_begin E (\<lambda>_. t) reservedAt i fault taskId inp st = (Inr (SbReserved x), st')"
    and held: "nonce_held (nonce_key x) st = Some (toISOString r)"
    and deadline: "pr_deadline (sx_prepared x) = dec_int (created div 1000 + sv_ttlSeconds E)"
    and order: "created \<le> r" and years: "common_year r" "common_year (t - sv_ttlSeconds E * 1000)"
  shows "r + sv_ttlSeconds E * 1000 < t
    \<and> t div 1000 = created div 1000 + sv_ttlSeconds E"
proof -
  have "reserveNonce (nonce_key x) (Some (stale_threshold E t)) reservedAt st = (True, st')"
    using submit_begin_reserved(1) [OF begun] by simp
  then have age: "r + sv_ttlSeconds E * 1000 < t"
    using takeover_is_by_age [OF held years, of reservedAt] by simp
  have "created + sv_ttlSeconds E * 1000 \<le> t" using age order by simp
  then have "(created + sv_ttlSeconds E * 1000) div 1000 \<le> t div 1000" by (rule zdiv_mono1) simp
  then have low: "created div 1000 + sv_ttlSeconds E \<le> t div 1000" by simp
  have "submit_checks E taskId inp st = Inr x" using begun by (rule submit_begin_reserved)
  then have "\<not> created div 1000 + sv_ttlSeconds E < t div 1000"
    using begun deadline
    by (auto simp: submit_begin_def bigint_of_def archive_expired_def Let_def
      split: sum.splits option.splits if_splits)
  with low age show ?thesis by simp
qed

text \<open>C22: The end of a submission decides about nonce and preparation as one. An archived outcome
  frees the nonce and leaves the preparation as it was exactly if it is a failure that may be
  retried and has no transaction hash; otherwise the nonce is kept and the preparation marked
  used by this submission. When the archive of an outcome cannot be written, it depends on the
  hash: with one, nonce and preparation stay, and the fallback record keeps the hash if it can
  be written; without one, as after an exception of the adapter, the nonce is freed, the
  preparation stays, and a failure without hash is recorded under a second identifier, or, if
  that cannot be written either, nothing changes.\<close>

theorem submission_end_decides_nonce:
  assumes hash: "signatureHashFor E (sx_signature x) = Inr h"
    and stored: "getPrepared (pr_prepareId (sx_prepared x)) st = Some p"
    and ended: "submit_finish E clock i j faults x reply st = (res, st')"
  defines "pid \<equiv> pr_prepareId (sx_prepared x)"
  shows "(\<forall>r. reply = ArResult r \<and> fl_archive faults = None \<longrightarrow>
      (\<exists>sm. res = Inr sm \<and> getSubmission_store i st' = Some sm \<and>
        (if keeps_prepare_reusable r sm
         then nonce_held (nonce_key x) st' = None \<and> getPrepared pid st' = Some p
         else nonce_held (nonce_key x) st' = nonce_held (nonce_key x) st
           \<and> getPrepared pid st' = Some (p\<lparr>pr_usedAt := Some (sm_updatedAt sm), pr_submissionId := Some i\<rparr>))))
    \<and> (\<forall>r e sm tx. reply = ArResult r \<and> fl_archive faults = Some e
        \<and> submission_record E x i (clock 0) r = Inr sm \<and> sm_txHash sm = Some tx \<and> tx \<noteq> [] \<and> i \<noteq> [] \<longrightarrow>
      res = Inl (ThrownExternal e) \<and> nonce_held (nonce_key x) st' = nonce_held (nonce_key x) st
      \<and> getPrepared pid st' = Some p
      \<and> (\<not> fl_fallback faults \<longrightarrow> (\<exists>lost. getSubmission_store i st' = Some lost \<and> sm_status lost = SubFailed
          \<and> sm_txHash lost = Some tx \<and> sm_errorCode lost = Some ''persist_failed'')))
    \<and> (\<forall>e. reply = ArThrows e \<or> (\<exists>r sm. reply = ArResult r \<and> fl_archive faults = Some e
        \<and> submission_record E x i (clock 0) r = Inr sm \<and> \<not> truthy (sm_txHash sm)) \<longrightarrow>
      (case fl_release faults of
         None \<Rightarrow> res = Inl (ThrownExternal e) \<and> nonce_held (nonce_key x) st' = None \<and> getPrepared pid st' = Some p
           \<and> (\<exists>sm. getSubmission_store j st' = Some sm \<and> sm_status sm = SubFailed \<and> sm_txHash sm = None)
       | Some e' \<Rightarrow> res = Inl (ThrownExternal e') \<and> st' = st))"
proof -
  have archived: "\<exists>sm. res = Inr sm \<and> getSubmission_store i st' = Some sm \<and>
        (if keeps_prepare_reusable r sm
         then nonce_held (nonce_key x) st' = None \<and> getPrepared pid st' = Some p
         else nonce_held (nonce_key x) st' = nonce_held (nonce_key x) st
           \<and> getPrepared pid st' = Some (p\<lparr>pr_usedAt := Some (sm_updatedAt sm), pr_submissionId := Some i\<rparr>))"
    if "reply = ArResult r" "fl_archive faults = None" for r
    using ended that stored
    by (auto simp: submit_finish_def submission_record_some [OF hash] nonce_held_release pid_def)
  have failed: "case fault of
         None \<Rightarrow> fst (submit_thrown E t j x e fault st) = Inl (ThrownExternal e)
           \<and> nonce_held (nonce_key x) (snd (submit_thrown E t j x e fault st)) = None
           \<and> getPrepared pid (snd (submit_thrown E t j x e fault st)) = Some p
           \<and> (\<exists>sm. getSubmission_store j (snd (submit_thrown E t j x e fault st)) = Some sm
                \<and> sm_status sm = SubFailed \<and> sm_txHash sm = None)
       | Some e' \<Rightarrow> submit_thrown E t j x e fault st = (Inl (ThrownExternal e'), st)" for t e fault
    using stored by (auto simp: submit_thrown_def submission_record_some [OF hash]
      nonce_held_release classified_failure_def failed_record pid_def split: option.split)
  have thrown: "case fl_release faults of
         None \<Rightarrow> res = Inl (ThrownExternal e) \<and> nonce_held (nonce_key x) st' = None \<and> getPrepared pid st' = Some p
           \<and> (\<exists>sm. getSubmission_store j st' = Some sm \<and> sm_status sm = SubFailed \<and> sm_txHash sm = None)
       | Some e' \<Rightarrow> res = Inl (ThrownExternal e') \<and> st' = st"
    if "submit_finish E clock i j faults x reply st = submit_thrown E (clock 1) j x e (fl_release faults) st" for e
  proof -
    from that ended have "submit_thrown E (clock 1) j x e (fl_release faults) st = (res, st')" by simp
    with failed [of "clock 1" e "fl_release faults"] show ?thesis by (simp split: option.splits)
  qed
  have falls: "submit_finish E clock i j faults x reply st = submit_thrown E (clock 1) j x e (fl_release faults) st"
    if "reply = ArThrows e \<or> (\<exists>r sm. reply = ArResult r \<and> fl_archive faults = Some e
        \<and> submission_record E x i (clock 0) r = Inr sm \<and> \<not> truthy (sm_txHash sm))" for e
    using that by (auto simp: submit_finish_def truthy_def split: option.split)
  have lost: "res = Inl (ThrownExternal e) \<and> nonce_held (nonce_key x) st' = nonce_held (nonce_key x) st
      \<and> getPrepared pid st' = Some p
      \<and> (\<not> fl_fallback faults \<longrightarrow> (\<exists>lost. getSubmission_store i st' = Some lost \<and> sm_status lost = SubFailed
          \<and> sm_txHash lost = Some tx \<and> sm_errorCode lost = Some ''persist_failed''))"
    if "reply = ArResult r" "fl_archive faults = Some e" "submission_record E x i (clock 0) r = Inr sm"
      "sm_txHash sm = Some tx" "tx \<noteq> []" "i \<noteq> []" for r e sm tx
    using ended that stored
    by (auto simp: submit_finish_def submission_record_some [OF hash, of i "clock (Suc 0)"] persist_failed_def
      failed_record pid_def split: if_splits)
  show ?thesis
  proof (intro conjI allI impI)
    show "case fl_release faults of
         None \<Rightarrow> res = Inl (ThrownExternal e) \<and> nonce_held (nonce_key x) st' = None \<and> getPrepared pid st' = Some p
           \<and> (\<exists>sm. getSubmission_store j st' = Some sm \<and> sm_status sm = SubFailed \<and> sm_txHash sm = None)
       | Some e' \<Rightarrow> res = Inl (ThrownExternal e') \<and> st' = st"
      if "reply = ArThrows e \<or> (\<exists>r sm. reply = ArResult r \<and> fl_archive faults = Some e
        \<and> submission_record E x i (clock 0) r = Inr sm \<and> \<not> truthy (sm_txHash sm))" for e
      by (rule thrown [OF falls [OF that]])
  qed (use archived lost in blast)+
qed

text \<open>C23: Beginning a submission changes the store only for the signer of the preparation: every
  error leaves it as it was, and an expired preparation is archived, or a nonce reserved, only
  after the address recovered from the signature was found to be the prepared submitter's and
  the preparation to be unused and of this task.\<close>

theorem only_the_signer_consumes:
  assumes "submit_begin E clock reservedAt i fault taskId inp st = (res, st')"
  shows "(res = Inl e \<longrightarrow> st' = st)
    \<and> (st' \<noteq> st \<longrightarrow>
      (\<exists>p. getPrepared (si_prepareId inp) st = Some p \<and> pr_taskId p = taskId
      \<and> \<not> truthy (pr_usedAt p) \<and> \<not> truthy (pr_submissionId p)
      \<and> normalizeAddress (sv_bindings E) (si_walletAddress inp) ''walletAddress'' = Inr (pr_submitter p)
      \<and> sv_recoverSigner E (pr_typedData p) (toLowerCase (si_signature inp)) = Inr (pr_submitter p)))"
proof -
  have refused: "snd (reserveNonce k l a st) = st" if "\<not> fst (reserveNonce k l a st)" for k l a
    using that by (auto simp: reserveNonce_def Let_def split: option.splits if_splits)
  have kept: "st' = st" if "res = Inl e"
    using assms that refused [of _ "Some (stale_threshold E (clock 1))" reservedAt]
    by (auto simp: submit_begin_def archive_expired_def Let_def
      split: sum.splits option.splits if_splits prod.splits) (metis fst_conv snd_conv)+
  have checked: "\<exists>p. getPrepared (si_prepareId inp) st = Some p \<and> pr_taskId p = taskId
      \<and> \<not> truthy (pr_usedAt p) \<and> \<not> truthy (pr_submissionId p)
      \<and> normalizeAddress (sv_bindings E) (si_walletAddress inp) ''walletAddress'' = Inr (pr_submitter p)
      \<and> sv_recoverSigner E (pr_typedData p) (toLowerCase (si_signature inp)) = Inr (pr_submitter p)"
    if changed: "st' \<noteq> st"
  proof -
  obtain x where x: "submit_checks E taskId inp st = Inr x"
    using assms changed by (auto simp: submit_begin_def split: sum.splits)
  then show ?thesis
    by (auto simp: submit_checks_def bindR_Inr_iff thrown_def recoverSignature_def normalizeSignature_def
      split: option.splits if_splits sum.splits)
  qed
  show ?thesis using kept checked by blast
qed

section \<open>Properties of preparing, of records and of reading\<close>








text \<open>Reading a submission answers only its submitter, up to the case of the address: for anyone
  else it is an error that hides the record, and what the submitter reads is the stored record
  with its label, retry state and reconcile fields filled in and everything else unchanged.\<close>

theorem only_the_submitter_reads:
  assumes "getSubmission_store i st = Some sm"
  shows "(toLowerCase wallet = toLowerCase (sm_submitter sm) \<longrightarrow>
      (\<exists>d. getSubmission i wallet st = Inr (Some d)
      \<and> sm_statusLabel d \<noteq> None \<and> sm_retryState d \<noteq> None \<and> sm_deadLetter d \<noteq> None
      \<and> sm_reconcileStatus d \<noteq> None \<and> sm_receiptStatus d \<noteq> None \<and> sm_projectionStatus d \<noteq> None
      \<and> d\<lparr>sm_statusLabel := sm_statusLabel sm, sm_retryState := sm_retryState sm,
          sm_deadLetter := sm_deadLetter sm, sm_reconcileStatus := sm_reconcileStatus sm,
          sm_receiptStatus := sm_receiptStatus sm, sm_projectionStatus := sm_projectionStatus sm\<rparr> = sm))
    \<and> (toLowerCase wallet \<noteq> toLowerCase (sm_submitter sm) \<longrightarrow>
      (\<exists>message. getSubmission i wallet st = Inl (ProductSubmissionError 403 ''submission_access_forbidden'' message)))"
proof -
  have some: "opt_or v (Some w) \<noteq> None" for v :: "'a option" and w by (cases v) auto
  show ?thesis
    using assms by (simp add: getSubmission_def withSubmissionReconcileDefaults_def Let_def some
      del: not_None_eq)
qed

end
