(* ===== verification/ReconcileFacts.thy ===== *)
theory ReconcileFacts imports ReconcileScans SubmissionFacts Snapshots begin

text \<open>
  What the reconcile worker promises (\<open>reconcile/worker.ts\<close>): a pass ends and treats exactly
  the records that were open when it began, nothing is confirmed without an event of the
  chain, a submission with a transaction hash is examined until it is confirmed, and the
  time limit is measured by age although ages are kept as texts.
\<close>

section \<open>A pass as folds over what was open\<close>

definition registrations_of :: "product_store \<Rightarrow> trigger_record list" where
  "registrations_of st = filter isReconcileableRegistration (listRegistrations st)"

text \<open>The reference: every record is treated once, from lists made before the pass.\<close>

definition eagerPass :: "reconcile_env \<Rightarrow> pass_view \<Rightarrow> worker_stores \<Rightarrow> pass_state \<times> bind_request list" where
  "eagerPass E V W =
     (let (s0, bound) = foldl (sweep_one E V) (empty_summary, []) (open_rows (ws_submissions W));
          sw1 = foldl (pass_registration E V) (s0, W) (registrations_of (ws_product W));
          sw2 = foldl (pass_submission E V) sw1 (open_rows (ws_submissions W));
          sw3 = foldl (pass_log E V) sw2 (open_logs (ws_governance W)) in
      (sw3, bound))"

definition rows_ordered :: "worker_stores \<Rightarrow> bool" where
  "rows_ordered W \<longleftrightarrow>
     sorted_wrt (\<lambda>x y. after_key (Some (cursor_of x)) (cursor_of y)) (open_rows (ws_submissions W))
     \<and> sorted_wrt (\<lambda>x y. after_key (Some (log_cursor x)) (log_cursor y)) (open_logs (ws_governance W))"

lemma foldl_registration_stores [simp]:
  "ws_submissions (snd (foldl (pass_registration E V) w rs)) = ws_submissions (snd w)"
  "ws_governance (snd (foldl (pass_registration E V) w rs)) = ws_governance (snd w)"
  by (induction rs arbitrary: w) simp_all

lemma foldl_submission_stores [simp]:
  "ws_governance (snd (foldl (pass_submission E V) w xs)) = ws_governance (snd w)"
  by (induction xs arbitrary: w) simp_all

lemma foldl_log_stores [simp]:
  "ws_submissions (snd (foldl (pass_log E V) w ls)) = ws_submissions (snd w)"
  by (induction ls arbitrary: w) simp_all

text \<open>The lane of submissions leaves the ledger as it is, also when it does not follow the fold.\<close>

lemma walk_submissions_governance:
  "walk_submissions E V after w = Some w' \<Longrightarrow> ws_governance (snd w') = ws_governance (snd w)"
proof (induction rule: walk_submissions.raw_induct [rotated, consumes 1, case_names step])
  case (step walk E V after w w')
  then show ?case by (auto simp: Let_def split: if_splits)
qed

lemma pass_ends:
  assumes "keyed_by_id (ws_submissions W)" and "ledger_ok (ws_governance W)"
  shows "\<exists>r. runReconcilePass E V W = Some r"
proof -
  obtain s0 bound where s0: "sweepEvidenceBinds E V (ws_submissions W) empty_summary = (s0, bound)" by force
  let ?w1 = "foldl (pass_registration E V) (s0, W) (filter isReconcileableRegistration (listRegistrations (ws_product W)))"
  obtain w2 where w2: "walk_submissions E V None ?w1 = Some w2"
    using walk_submissions_ends [of ?w1 E V None] assms(1) by auto
  have "ws_governance (snd w2) = ws_governance W" using walk_submissions_governance [OF w2] by simp
  then obtain w3 where "walk_logs E V None w2 = Some w3"
    using walk_logs_ends [of w2 E V None] assms(2) by auto
  then show ?thesis by (simp add: runReconcilePass_def s0 w2)
qed

lemma pass_eager:
  assumes "keyed_by_id (ws_submissions W)" and "ledger_ok (ws_governance W)"
    and "0 < scan_page_size E" and "rows_ordered W"
  shows "runReconcilePass E V W = Some (eagerPass E V W)"
proof -
  have sorted: "sorted_wrt (\<lambda>x y. after_key (Some (cursor_of x)) (cursor_of y)) (open_rows (ws_submissions W))"
    "sorted_wrt (\<lambda>x y. after_key (Some (log_cursor x)) (log_cursor y)) (open_logs (ws_governance W))"
    using assms(4) by (simp_all add: rows_ordered_def)
  have scan: "iterateOpenSubmissions (ws_submissions W) (scan_page_size E) None = open_rows (ws_submissions W)"
    by (rule submission_pages.walk_complete [OF iterateOpenSubmissions.simps sorted(1) assms(3)])
  show ?thesis
    using assms(1-3) sorted walk_submissions_folds [of E _ V] walk_logs_folds [of E _ V]
    by (simp add: runReconcilePass_def eagerPass_def sweepEvidenceBinds_def scan registrations_of_def
      split: prod.split)
qed

text \<open>C34: A reconcile pass ends, whatever the page size, although two of its lanes write to the
  stores they scan page by page; and on stores whose keys sort the same way by both orders it
  does exactly what a pass over lists made beforehand would do: no record is skipped and none
  is treated twice because of the pass's own writes.\<close>

theorem reconcile_pass_ends:
  assumes "keyed_by_id (ws_submissions W)" and "ledger_ok (ws_governance W)"
  shows "runReconcilePass E V W \<noteq> None
    \<and> (0 < scan_page_size E \<and> rows_ordered W \<longrightarrow> runReconcilePass E V W = Some (eagerPass E V W))"
  using pass_ends [OF assms] pass_eager [OF assms] by auto

section \<open>Confirmation\<close>

lemma resolveOutcome_confirmed:
  assumes "resolveOutcome E W t t' x before after = Inr oc" and "oc_kind oc = OcConfirmed"
  shows "truthy (tx_txHash x) \<and> (\<exists>c. (before = Inr (Some c) \<or> after = Inr (Some c))
    \<and> oc = confirmedOutcome W (toISOString t) (Some (cf_blockNumber c)))"
  using assms
  by (auto simp: resolveOutcome_def receipt_outcome_def Let_def bindR_Inr_iff staleOutcome_def
    pendingOutcome_def keep_truthy_def
    split: option.splits sum.splits if_splits)

lemma provenance_confirmation:
  "projectionConfirmationFromProvenance (Some v) h = Some c \<Longrightarrow> truthy h \<Longrightarrow>
     map_option toLowerCase h = Some (toLowerCase (transactionHash v)) \<and> cf_blockNumber c = dec_int (blockNumber v)"
  by (cases h) (auto simp: projectionConfirmationFromProvenance_def split: if_splits)

lemma confirmation_event:
  assumes rb: "rebuilt B es (ps_snapshot ps)" and plan: "sm_planId sm \<noteq> []"
    and hash: "truthy (sm_txHash sm)" and c: "submissionProjectionConfirmation ps sm = Some c"
  shows "\<exists>d \<in> actives es. \<exists>s. signal_of B d s \<and> signal_matches s sm
    \<and> map_option toLowerCase (sm_txHash sm) = Some (toLowerCase (transactionHash d))
    \<and> cf_blockNumber c = dec_int (blockNumber d)"
proof -
  from c obtain x g where x: "getStateMachineOrder (sm_onchainOrderId sm) (Some (sm_planId sm)) ps = Some x"
    and g: "jget (or_signals x) (sm_sourceId sm @ '':'' @ sm_signalId sm) = Some g" "signal_matches g sm"
    and cf: "projectionConfirmationFromProvenance (Some (sig_submittedAt g)) (sm_txHash sm) = Some c"
    by (auto simp: submissionProjectionConfirmation_def split: option.splits if_splits)
  obtain k where "(k, x) \<in> set (sn_stateMachineOrders (ps_snapshot ps))"
    using getStateMachineOrder_Some [OF x plan] by auto
  then have "signals_ok B (actives es) x" using rebuilt_tasks_ok [OF rb] by (simp add: tasks_ok_def)
  moreover have "g \<in> set (jvalues (or_signals x))" using g(1) by (force dest: map_of_SomeD)
  ultimately obtain d where d: "d \<in> actives es" "signal_of B d g" by (auto simp: signals_ok_def)
  then have "sig_submittedAt g = provenanceOf d" by (simp add: signal_of_def)
  with provenance_confirmation [OF cf hash] d g(2) show ?thesis by (auto simp: provenanceOf_def)
qed

lemma dec_nat_Nil [simp]: "dec_nat n \<noteq> []"
  by (subst dec_nat.simps) simp

lemma dec_int_Nil [simp]: "dec_int n \<noteq> []"
  by (simp add: dec_int_def)

text \<open>C35: Nothing is confirmed without the chain: when a submission becomes confirmed, one of the
  two projections the worker read has, among the active events it was built from, a
  \<open>SignalSubmitted\<close> event in a transaction of the submission's own hash with the submission's order,
  source, signal, submitter, payload and idempotency key, and its block is the recorded one.\<close>

theorem confirmed_needs_a_signal:
  assumes "rebuilt B es (ps_snapshot ps)" and "rebuilt B es' (ps_snapshot ps')"
    and "isReconcileableSubmission sm" and "sm_planId sm \<noteq> []"
    and "reconcileSubmission E t t' ps ps' sm st = (Inr u, st')" and "sm_status u = SubConfirmed"
  shows "getSubmission_store (sm_submissionId sm) st' = Some u
    \<and> (\<exists>d \<in> actives es \<union> actives es'. eventName d = ''SignalSubmitted''
        \<and> map_option toLowerCase (sm_txHash sm) = Some (toLowerCase (transactionHash d))
        \<and> sm_blockNumber u = Some (dec_int (blockNumber d))
        \<and> requiredBytes32Arg B d ''orderId'' = Inr (sm_onchainOrderId sm)
        \<and> requiredBytes32Arg B d ''sourceId'' = Inr (sm_sourceId sm)
        \<and> requiredBytes32Arg B d ''signalId'' = Inr (sm_signalId sm)
        \<and> requiredAddressArg B d ''submitter'' = Inr (sm_submitter sm)
        \<and> requiredBytes32Arg B d ''payloadHash'' = Inr (sm_payloadHash sm)
        \<and> requiredBytes32Arg B d ''idempotencyKey'' = Inr (sm_idempotencyKey sm))"
proof -
  obtain oc where oc: "resolveOutcome E submission_statuses t t' (submission_tx sm)
      (Inr (submissionProjectionConfirmation ps sm)) (Inr (submissionProjectionConfirmation ps' sm)) = Inr oc"
    and u: "u = reconciled_submission sm oc" "st' = putSubmission u st"
    using assms(5) by (auto simp: reconcileSubmission_def Let_def split: sum.splits)
  have "oc_kind oc = OcConfirmed"
    using assms(3,6) u(1)
    by (cases "oc_kind oc") (auto simp: reconciled_submission_def Let_def isReconcileableSubmission_def
      split: if_splits)
  from resolveOutcome_confirmed [OF oc this] obtain c where hash: "truthy (sm_txHash sm)"
    and c: "submissionProjectionConfirmation ps sm = Some c \<or> submissionProjectionConfirmation ps' sm = Some c"
    and oc': "oc = confirmedOutcome submission_statuses (toISOString t) (Some (cf_blockNumber c))"
    by (auto simp: submission_tx_def)
  obtain d s where d: "d \<in> actives es \<union> actives es'" "signal_of B d s" "signal_matches s sm"
    "map_option toLowerCase (sm_txHash sm) = Some (toLowerCase (transactionHash d))"
    "cf_blockNumber c = dec_int (blockNumber d)"
    using c confirmation_event [OF assms(1,4) hash] confirmation_event [OF assms(2,4) hash] by blast
  have "sm_blockNumber u = Some (dec_int (blockNumber d))"
    by (simp add: u(1) oc' reconciled_submission_def confirmedOutcome_def d(5) keep_truthy_def truthy_def
      opt_or_def Let_def)
  moreover have "getSubmission_store (sm_submissionId sm) st' = Some u"
    using u by (simp add: getSubmission_store_def putSubmission_def)
  ultimately show ?thesis using d by (auto simp: signal_of_def signal_matches_def)
qed

section \<open>No submission with a hash is given up\<close>

lemma reconciled_stays_open:
  assumes "isReconcileableSubmission sm" and "truthy (sm_txHash sm)"
  shows "sm_status (reconciled_submission sm oc) = SubConfirmed
    \<or> isReconcileableSubmission (reconciled_submission sm oc) \<and> is_open (reconciled_submission sm oc)"
  using assms
  by (cases "oc_kind oc") (auto simp: reconciled_submission_def isReconcileableSubmission_def is_open_def
    OPEN_SUBMISSION_STATUSES_def Let_def)

lemma foldl_other_row:
  "\<forall>y \<in> set xs. sm_submissionId y \<noteq> i \<Longrightarrow>
     getSubmission_store i (ws_submissions (snd (foldl (pass_submission E V) w xs)))
       = getSubmission_store i (ws_submissions (snd w))"
proof (induction xs arbitrary: w)
  case (Cons y ys)
  have "getSubmission_store i (ws_submissions (snd (pass_submission E V w y)))
      = getSubmission_store i (ws_submissions (snd w))"
    using pass_submission_store [of E V w y] Cons.prems
    by (auto simp: getSubmission_store_def putSubmission_def)
  with Cons show ?case by simp
qed simp

lemma distinct_open_rows:
  assumes "keyed_by_id st" shows "distinct (map sm_submissionId (open_rows st))"
proof -
  have "map sm_submissionId (jvalues (st_submissions st)) = jkeys (st_submissions st)"
    using assms by (auto simp: keyed_by_id_def comp_def)
  then show ?thesis
    using assms unfolding open_rows_def listSubmissions_def keyed_by_id_def
    by (intro distinct_map_filter) (simp only: distinct_map_js_sort)
qed

text \<open>A fold over the open rows leaves for each row what its own step wrote.\<close>

lemma foldl_own_row:
  assumes st: "keyed_by_id (ws_submissions (snd w))" and x: "x \<in> set (open_rows (ws_submissions (snd w)))"
    and r: "isReconcileableSubmission x"
    and oc: "resolveOutcome E submission_statuses (mo_now m) (mo_later m) (submission_tx x)
      (Inr (submissionProjectionConfirmation (mo_before m) x))
      (Inr (submissionProjectionConfirmation (mo_after m) x)) = Inr oc"
    and m: "m = pv_submission V (sm_submissionId x)"
  shows "getSubmission_store (sm_submissionId x)
    (ws_submissions (snd (foldl (pass_submission E V) w (open_rows (ws_submissions (snd w))))))
      = Some (reconciled_submission x oc)"
proof -
  from x obtain xs ys where split: "open_rows (ws_submissions (snd w)) = xs @ x # ys"
    by (auto dest: split_list)
  have others: "\<forall>y \<in> set ys. sm_submissionId y \<noteq> sm_submissionId x"
    using distinct_open_rows [OF st] unfolding split by (force simp: image_iff)
  define w1 where "w1 = foldl (pass_submission E V) w xs"
  have "getSubmission_store (sm_submissionId x) (ws_submissions (snd (pass_submission E V w1 x)))
      = Some (reconciled_submission x oc)"
    using r oc m
    by (cases w1) (simp add: pass_submission_def reconcileSubmission_def Let_def getSubmission_store_def
      putSubmission_def)
  then show ?thesis
    using foldl_other_row [OF others, of E V "pass_submission E V w1 x"] by (simp add: split w1_def)
qed

lemma resolveOutcome_before:
  "truthy (tx_txHash x) \<Longrightarrow> resolveOutcome E W t t' x (Inr (Some c)) after =
     Inr (confirmedOutcome W (toISOString t) (Some (cf_blockNumber c)))"
  by (auto simp: resolveOutcome_def keep_truthy_def truthy_def split: option.splits)

text \<open>The labels and, unless the outcome has an error of its own, the error survive the update.\<close>

lemma late_success_keeps_the_old_label:
  "sm_statusLabel (reconciled_submission sm oc) = sm_statusLabel sm"
  "sm_errorLabel (reconciled_submission sm oc) = sm_errorLabel sm"
  "oc_errorCode oc = None \<Longrightarrow> sm_errorCode (reconciled_submission sm oc) = sm_errorCode sm"
  "oc_errorMessage oc = None \<Longrightarrow> sm_errorMessage (reconciled_submission sm oc) = sm_errorMessage sm"
  by (simp_all add: reconciled_submission_def Let_def opt_or_def keep_truthy_def)

text \<open>C36: A submission with a transaction hash is never given up: whatever an examination finds,
  the record is confirmed or it is open and examined again, with the same hash; and the first
  pass that finds its signal in the projections confirms it, also after a failure, a timeout
  or a reverted receipt was recorded, and takes it out of the dead letters.\<close>

theorem late_success_is_confirmed:
  assumes "isReconcileableSubmission x" and "truthy (sm_txHash x)"
  shows "(reconcileSubmission E t t' ps ps' x st = (Inr u, st') \<longrightarrow>
      sm_txHash u = sm_txHash x
      \<and> (sm_status u = SubConfirmed \<or> isReconcileableSubmission u \<and> is_open u))
    \<and> (keyed_by_id (ws_submissions W) \<and> ledger_ok (ws_governance W) \<and> 0 < scan_page_size E
        \<and> rows_ordered W \<and> x \<in> set (open_rows (ws_submissions W))
        \<and> submissionProjectionConfirmation (mo_before (pv_submission V (sm_submissionId x))) x = Some c \<longrightarrow>
      (\<exists>s W' bound v. runReconcilePass E V W = Some ((s, W'), bound)
        \<and> getSubmission_store (sm_submissionId x) (ws_submissions W') = Some v
        \<and> sm_status v = SubConfirmed \<and> sm_txHash v = sm_txHash x
        \<and> sm_deadLetter v = Some False \<and> sm_retryState v = Some RsNotApplicable))"
proof -
  have single: "sm_txHash u = sm_txHash x
      \<and> (sm_status u = SubConfirmed \<or> isReconcileableSubmission u \<and> is_open u)"
    if "reconcileSubmission E t t' ps ps' x st = (Inr u, st')"
    using that reconciled_stays_open [OF assms]
    by (auto simp: reconcileSubmission_def Let_def split: sum.splits)
  have pass: "\<exists>s W' bound v. runReconcilePass E V W = Some ((s, W'), bound)
      \<and> getSubmission_store (sm_submissionId x) (ws_submissions W') = Some v
      \<and> sm_status v = SubConfirmed \<and> sm_txHash v = sm_txHash x
      \<and> sm_deadLetter v = Some False \<and> sm_retryState v = Some RsNotApplicable"
    if ok: "keyed_by_id (ws_submissions W)" "ledger_ok (ws_governance W)" "0 < scan_page_size E"
      "rows_ordered W" and x: "x \<in> set (open_rows (ws_submissions W))"
      and c: "submissionProjectionConfirmation (mo_before (pv_submission V (sm_submissionId x))) x = Some c"
  proof -
    let ?m = "pv_submission V (sm_submissionId x)"
    let ?oc = "confirmedOutcome submission_statuses (toISOString (mo_now ?m)) (Some (cf_blockNumber c))"
    have oc: "resolveOutcome E submission_statuses (mo_now ?m) (mo_later ?m) (submission_tx x)
        (Inr (submissionProjectionConfirmation (mo_before ?m) x))
        (Inr (submissionProjectionConfirmation (mo_after ?m) x)) = Inr ?oc"
      unfolding c by (rule resolveOutcome_before) (simp add: submission_tx_def assms(2))
    obtain s0 bound where s0: "foldl (sweep_one E V) (empty_summary, []) (open_rows (ws_submissions W)) = (s0, bound)"
      by force
    define w1 where "w1 = foldl (pass_registration E V) (s0, W) (registrations_of (ws_product W))"
    define w2 where "w2 = foldl (pass_submission E V) w1 (open_rows (ws_submissions W))"
    define w3 where "w3 = foldl (pass_log E V) w2 (open_logs (ws_governance W))"
    have w1: "ws_submissions (snd w1) = ws_submissions W" by (simp add: w1_def)
    have "getSubmission_store (sm_submissionId x) (ws_submissions (snd w2)) = Some (reconciled_submission x ?oc)"
      using foldl_own_row [of w1 x E ?m ?oc V] ok(1) x assms(1) oc unfolding w1 w2_def by simp
    moreover have "ws_submissions (snd w3) = ws_submissions (snd w2)" by (simp add: w3_def)
    moreover have "runReconcilePass E V W = Some (w3, bound)"
      using pass_eager [OF ok] by (simp add: eagerPass_def s0 Let_def w1_def w2_def w3_def)
    moreover have "sm_status (reconciled_submission x ?oc) = SubConfirmed"
      "sm_deadLetter (reconciled_submission x ?oc) = Some False"
      "sm_retryState (reconciled_submission x ?oc) = Some RsNotApplicable"
      by (simp_all add: reconciled_submission_def confirmedOutcome_def Let_def
        submissionDeadLetterFromOutcome_def submissionRetryStateFromOutcome_def)
    ultimately show ?thesis by (metis prod.collapse reconciled_submission_keeps(3))
  qed
  from single pass show ?thesis by blast
qed

section \<open>The time limit\<close>

text \<open>What may be tried again is not failed for good; only a reverted receipt fails for good.\<close>

lemma receipt_outcome_kinds:
  assumes "receipt_outcome W at status r after = Inr oc"
  shows "(oc_kind oc = OcPending \<or> oc_kind oc = OcStalePending \<longrightarrow> oc_retryable oc)
     \<and> (oc_kind oc = OcFailed \<longrightarrow> oc_errorCode oc = Some ''transaction_reverted'' \<and> oc_receiptStatus oc = RcFailed)"
proof (cases "rp_status r = Some ''success''")
  case True
  then show ?thesis using assms
    by (cases after) (auto simp: receipt_outcome_def Let_def confirmedOutcome_def split: option.splits)
next
  case False
  then show ?thesis using assms
    by (simp add: receipt_outcome_def pendingOutcome_def Let_def split: if_splits)
      (drule sym, simp)+
qed

lemma outcome_kinds:
  assumes "resolveOutcome E W t t' x before after = Inr oc"
  shows "(oc_kind oc = OcPending \<or> oc_kind oc = OcStalePending \<longrightarrow> oc_retryable oc)
     \<and> (oc_kind oc = OcFailed \<longrightarrow> oc_errorCode oc = Some ''transaction_reverted'' \<and> oc_receiptStatus oc = RcFailed)"
proof (cases "keep_truthy (tx_txHash x)")
  case None
  then show ?thesis using assms
    by (auto simp: resolveOutcome_def Let_def staleOutcome_def pendingOutcome_def split: if_splits)
next
  case (Some h)
  then show ?thesis using assms receipt_outcome_kinds [of W "toISOString t" "tx_status x" _ after oc]
    by (auto simp: resolveOutcome_def Let_def bindR_Inr_iff staleOutcome_def pendingOutcome_def
      confirmedOutcome_def split: option.splits sum.splits if_splits)
qed

text \<open>The time limit goes by age: a record whose creation time is the text of the instant \<open>c\<close> times
  out exactly from \<open>c\<close> plus the limit on, and never when the limit is not positive. A record
  without hash, or without receipt and projection, is given up as failed and retryable from
  then on and left pending and retryable before; a reverted receipt alone makes a dead letter.\<close>

theorem time_limit_is_by_age:
  assumes "common_year c"
  shows "(timedOut other (toISOString c) limit t \<longleftrightarrow> 0 < limit \<and> c + limit \<le> t)
    \<and> (isReconcileableSubmission sm \<and> sm_createdAt sm = toISOString c
        \<and> submissionProjectionConfirmation ps sm = None
        \<and> (truthy (sm_txHash sm) \<longrightarrow> rv_getReceipt E (the (sm_txHash sm)) = Inr None)
        \<and> reconcileSubmission E t t' ps ps' sm st = (Inr u, st') \<longrightarrow>
      sm_retryable u = Some True \<and> sm_deadLetter u = Some False
      \<and> (if 0 < rv_txTimeoutMs E \<and> c + rv_txTimeoutMs E \<le> t'
         then sm_status u = SubFailed \<and> sm_errorCode u = Some ''tx_reconcile_timeout''
         else sm_status u = (if truthy (sm_txHash sm) then SubSubmitted else sm_status sm)))
    \<and> (sm_deadLetter (reconciled_submission sm oc) = Some True \<and>
        resolveOutcome E submission_statuses t t' (submission_tx sm) before after = Inr oc \<longrightarrow>
      oc_errorCode oc = Some ''transaction_reverted'' \<and> oc_receiptStatus oc = RcFailed)"
proof -
  have late: "timedOut other (toISOString c) limit t \<longleftrightarrow> 0 < limit \<and> c + limit \<le> t" for other limit t
    using assms by (auto simp: timedOut_def common_year_def Let_def Date_parse_toISOString)
  have lane: "sm_retryable u = Some True \<and> sm_deadLetter u = Some False
      \<and> (if 0 < rv_txTimeoutMs E \<and> c + rv_txTimeoutMs E \<le> t'
         then sm_status u = SubFailed \<and> sm_errorCode u = Some ''tx_reconcile_timeout''
         else sm_status u = (if truthy (sm_txHash sm) then SubSubmitted else sm_status sm))"
    if at: "sm_createdAt sm = toISOString c" and none: "submissionProjectionConfirmation ps sm = None"
      and receipt: "truthy (sm_txHash sm) \<longrightarrow> rv_getReceipt E (the (sm_txHash sm)) = Inr None"
      and res: "reconcileSubmission E t t' ps ps' sm st = (Inr u, st')"
  proof -
    define oc where "oc = (if 0 < rv_txTimeoutMs E \<and> c + rv_txTimeoutMs E \<le> t'
      then staleOutcome submission_statuses (toISOString t)
      else if truthy (sm_txHash sm) then pendingOutcome (sm_status sm) (toISOString t) RecSubmitted RcMissing None
      else pendingOutcome (sm_status sm) (toISOString t) RecBroadcasting RcNotChecked None)"
    have "resolveOutcome E submission_statuses t t' (submission_tx sm)
        (Inr (submissionProjectionConfirmation ps sm)) (Inr (submissionProjectionConfirmation ps' sm)) = Inr oc"
      using receipt
      by (cases "sm_txHash sm") (auto simp: resolveOutcome_def submission_tx_def at none late oc_def
        keep_truthy_def truthy_def Let_def)
    then have "u = reconciled_submission sm oc" using res by (simp add: reconcileSubmission_def Let_def)
    then show ?thesis
      by (auto simp: oc_def reconciled_submission_def staleOutcome_def pendingOutcome_def Let_def
        submissionDeadLetterFromOutcome_def keep_truthy_def truthy_def opt_or_def)
  qed
  have dead: "oc_errorCode oc = Some ''transaction_reverted'' \<and> oc_receiptStatus oc = RcFailed"
    if "sm_deadLetter (reconciled_submission sm oc) = Some True"
      and "resolveOutcome E submission_statuses t t' (submission_tx sm) before after = Inr oc"
    using that outcome_kinds [OF that(2)]
    by (cases "oc_kind oc")
      (auto simp: reconciled_submission_def submissionDeadLetterFromOutcome_def Let_def split: if_splits)
  from late lane dead show ?thesis by blast
qed

end
