(* ===== verification/SubmissionSamples.thy ===== *)
theory SubmissionSamples imports SubmissionFacts begin

text \<open>
  A small service, a preparation and a store with its reservation, on which the properties
  of the submission service are applied.
\<close>

section \<open>An example service\<close>

definition word32 :: "char \<Rightarrow> string" where
  "word32 c = ''0x'' @ replicate 64 c"

definition sample_task :: product_task where
  "sample_task =
     \<lparr>pt_taskId = ''task_1'', pt_orderId = word32 (CHR ''b''), pt_status = ''open'',
      pt_title = ''title'', pt_stageId = ''stage_1'', pt_stageName = None,
      pt_stateMachineAddress = None,
      pt_proof = Some \<lparr>tp_sourceId = Some (word32 (CHR ''c'')), tp_signalId = Some (word32 (CHR ''d'')),
        tp_stageIdentifier = None, tp_targetStageId = None\<rparr>,
      pt_stageExecutorOverlay = None, pt_executorOverlay = None\<rparr>"

definition sample_evidence :: evidence_record where
  "sample_evidence =
     \<lparr>ev_evidenceId = ''ev_1'', ev_orderId = None, ev_taskId = None, ev_stageIdentifier = ''stage_1'',
      ev_payloadHash = ''0x0e'', ev_payloadRef = ''ref'', ev_status = EvUploaded\<rparr>"

definition sample_service :: service_env where
  "sample_service =
     \<lparr>sv_bindings = short_bindings, sv_keccakCanonical = (\<lambda>_. word32 (CHR ''e'')),
      sv_getTask = (\<lambda>i. if i = ''task_1'' then Some sample_task else None),
      sv_getEvidence = (\<lambda>i r. if i = ''ev_1'' then Some sample_evidence else None),
      sv_getProofStatus = (\<lambda>i r. Some ''unbound''),
      sv_authorize = (\<lambda>task rq. permissiveProductProjectionAuthorization),
      sv_resolveOrderPlanId = Some (\<lambda>i. PlanResolved (Some (word32 (CHR ''A'')))),
      sv_buildTypedData = (\<lambda>i. \<lparr>td_verifyingContract = Some (tdi_verifyingContract i),
        td_content = JStr (tdi_idempotencyKey i)\<rparr>),
      sv_recoverSigner = (\<lambda>d signature. Inr ''0x55''), sv_chainId = 1,
      sv_verifyingContract = ''0x0f'', sv_ttlSeconds = 6,
      sv_attemptsBroadcast = True\<rparr>"

definition sample_inputs :: "prepare_input \<times> submit_input" where
  "sample_inputs =
     (\<lparr>pi_walletAddress = ''0x55'', pi_intent = ConfirmStage, pi_evidenceIds = [''ev_1'']\<rparr>,
      \<lparr>si_prepareId = ''prep_1'', si_walletAddress = ''0x55'', si_signature = ''0x01''\<rparr>)"


definition stored_prepared :: prepared_record where
  "stored_prepared =
     (prepared.extend (sample_prepared ''0x01'' ''0xbb'' ''0x55'')
       \<lparr>pr_evidenceRecords = [sample_evidence], pr_usedAt = None, pr_submissionId = None\<rparr>)
     \<lparr>pr_deadline := ''6''\<rparr>"

definition prepared_store :: submission_store where
  "prepared_store = putPrepared stored_prepared empty_submission_store"

definition sample_begin :: "int \<Rightarrow> submission_store \<Rightarrow> (svc_error + submit_begun) \<times> submission_store" where
  "sample_begin t st = submit_begin sample_service (\<lambda>_. t) (toISOString t) ''sub_1'' None ''task_1''
     (snd sample_inputs) st"

definition sample_context :: submit_context where
  "sample_context =
     \<lparr>sx_prepared = stored_prepared, sx_signature = ''0x01'', sx_recovered = ''0x55''\<rparr>"

abbreviation sample_nonce :: string where
  "sample_nonce \<equiv> ''0x55:0xbb:stage_1:confirm_stage:7''"

definition reserved_store :: "int \<Rightarrow> submission_store" where
  "reserved_store t = prepared_store\<lparr>st_nonces := [(sample_nonce, toISOString t)]\<rparr>"

lemma sample_id: "pr_prepareId stored_prepared = ''prep_1''"
  by (simp add: stored_prepared_def prepared.defs sample_prepared_def)

lemma sample_stored [simp]:
  "getPrepared ''prep_1'' prepared_store = Some stored_prepared"
  "getPrepared ''prep_1'' (st\<lparr>st_nonces := n\<rparr>) = getPrepared ''prep_1'' st"
  by (simp_all add: getPrepared_def prepared_store_def putPrepared_def sample_id)

lemma sample_checks:
  assumes "getPrepared ''prep_1'' st = Some stored_prepared"
  shows "submit_checks sample_service ''task_1'' (snd sample_inputs) st = Inr sample_context"
  by (simp add: submit_checks_def assms sample_inputs_def
    stored_prepared_def prepared.defs sample_prepared_def
    sample_service_def normalizeAddress_def short_bindings_def colon_free_def toLowerCase_def
    lower_char_def normalizeSignature_def assertHex_def base_digit_def recoverSignature_def
    sample_context_def)

lemma sample_key: "nonce_key sample_context = sample_nonce"
  by (simp add: submissionNonceKey_def sample_context_def stored_prepared_def prepared.defs
    sample_prepared_def toLowerCase_def lower_char_def)

lemma sample_begins:
  assumes "getPrepared ''prep_1'' st = Some stored_prepared" and "t div 1000 \<le> 6"
    and "reserveNonce sample_nonce (Some (stale_threshold sample_service t)) (toISOString t) st = (True, st')"
  shows "sample_begin t st = (Inr (SbReserved sample_context), st')"
proof -
  have "bigint_of ''6'' = Inr 6" by code_simp
  moreover have "pr_deadline (sx_prepared sample_context) = ''6''"
    by (simp add: sample_context_def stored_prepared_def)
  moreover have "sv_attemptsBroadcast sample_service" by (simp add: sample_service_def)
  ultimately show ?thesis
    using assms by (simp add: sample_begin_def submit_begin_def sample_checks sample_key)
qed

lemma sample_reserved:
  "sample_begin 500 prepared_store = (Inr (SbReserved sample_context), reserved_store 500)"
  by (rule sample_begins, simp, simp)
    (simp add: reserveNonce_def reserved_store_def prepared_store_def putPrepared_def
      empty_submission_store_def)

lemma sample_free: "nonce_held sample_nonce prepared_store = None"
  by (simp add: nonce_held_def prepared_store_def putPrepared_def empty_submission_store_def)

lemma sample_held: "nonce_held sample_nonce (reserved_store t) = Some (toISOString t)"
  by (simp add: nonce_held_def reserved_store_def)

lemma sample_reaches:
  "submit_reaches sample_service \<lparr>su_store = prepared_store, su_active = []\<rparr>
     \<lparr>su_store = reserved_store 500, su_active = [sample_context]\<rparr>"
proof -
  have "submit_step sample_service (nonce_held (nonce_key sample_context) prepared_store \<noteq> None)
      \<lparr>su_store = prepared_store, su_active = []\<rparr>
      \<lparr>su_store = reserved_store 500, su_active = [sample_context]\<rparr>"
    using submit_step.begun [of sample_service "\<lambda>_. 500" "toISOString 500" "''sub_1''" None "''task_1''"
        "snd sample_inputs" "\<lparr>su_store = prepared_store, su_active = []\<rparr>" sample_context "reserved_store 500"]
      sample_reserved by (simp add: sample_begin_def)
  then show ?thesis by (auto simp: sample_key sample_free intro: submit_reaches.intros)
qed

lemma sample_words:
  assumes "c \<in> {CHR ''A'', CHR ''b'', CHR ''c'', CHR ''d'', CHR ''e''}"
  shows "is_bytes32 (word32 c)" and "toLowerCase (word32 c) = word32 (lower_char c)"
    and "normalizeBytes32 short_bindings (word32 c) f = Inr (word32 (lower_char c))"
proof -
  have "base_digit 16 c \<noteq> None"
    using assms by (auto simp: base_digit_def lower_char_def)
  then show ok: "is_bytes32 (word32 c)"
    by (simp add: is_bytes32_def hex_word_def word32_def list_all_iff)
  show lower: "toLowerCase (word32 c) = word32 (lower_char c)"
    by (simp add: word32_def toLowerCase_def lower_char_def)
  have "colon_free (word32 c)" using ok by (auto simp: is_bytes32_def dest: hex_word_colon_free)
  then show "normalizeBytes32 short_bindings (word32 c) f = Inr (word32 (lower_char c))"
    by (simp add: normalizeBytes32_def short_bindings_def lower) (simp add: word32_def)
qed

lemma sample_hash: "hashCanonicalJson sample_service v f = Inr (word32 (CHR ''e''))"
proof -
  have "sv_bindings sample_service = short_bindings"
    "sv_keccakCanonical sample_service v = word32 (CHR ''e'')"
    by (simp_all add: sample_service_def)
  then show ?thesis
    by (simp add: hashCanonicalJson_def sample_words(3)) (simp add: lower_char_def)
qed

lemma submissions_never_share_a_nonce_witness:
  "\<exists>S. submit_reaches sample_service \<lparr>su_store = prepared_store, su_active = []\<rparr> S
     \<and> su_active S = [sample_context] \<and> distinct (map nonce_key (su_active S))
     \<and> nonce_held (nonce_key sample_context) (su_store S) \<noteq> None"
  using submissions_never_share_a_nonce [OF sample_reaches] sample_reaches by fastforce

section \<open>Ends\<close>

text \<open>A transaction that was submitted, and a failure that may be retried.\<close>

definition sample_sent :: broadcast_result where
  "sample_sent = BrSubmitted ''0xAA'' None None"

definition sample_failure :: broadcast_result where
  "sample_failure = BrFailed (failedBroadcastResult ''broadcast_rate_limited'' ''busy'' True 0 None None)"

definition no_faults :: submit_faults where
  "no_faults = \<lparr>fl_archive = None, fl_fallback = False, fl_release = None\<rparr>"

abbreviation sample_finish :: "broadcast_result \<Rightarrow> (svc_error + submission) \<times> submission_store" where
  "sample_finish r \<equiv> submit_finish sample_service (\<lambda>_. 500) ''sub_1'' ''sub_2'' no_faults sample_context
     (ArResult r) (reserved_store 500)"

lemma sample_record:
  "submission_record sample_service sample_context i t r = Inr (withSubmissionReconcileDefaults
     (submissionFromBroadcast stored_prepared i ''0x55'' (word32 (CHR ''e'')) (toISOString t) r))"
  by (simp add: submission_record_def signatureHashFor_def sample_hash thrown_def) (simp add: sample_context_def)

lemma sample_apart:
  "nonces_apart \<lparr>su_store = reserved_store 500, su_active = [sample_context]\<rparr>"
  by (simp add: nonces_apart_def sample_key sample_held)

lemma transaction_keeps_its_nonce_witness:
  "\<exists>S. submit_reaches sample_service
       \<lparr>su_store = snd (sample_finish sample_sent), su_active = []\<rparr> S
     \<and> nonce_held (nonce_key sample_context) (su_store S) \<noteq> None
     \<and> (\<forall>y \<in> set (su_active S). nonce_key y \<noteq> nonce_key sample_context)"
proof -
  obtain res st where fin: "sample_finish sample_sent = (res, st)" by (cases "sample_finish sample_sent")
  obtain sm where rec: "submission_record sample_service sample_context ''sub_1'' 500 sample_sent = Inr sm"
    and hash: "truthy (sm_txHash sm)"
    by (simp add: sample_record sample_sent_def record_defs truthy_def)
  let ?E = "\<lparr>su_store = st, su_active = [] @ []\<rparr>"
  let ?S = "\<lparr>su_store = reserved_store 500, su_active = [sample_context]\<rparr>"
  have here: "submit_reaches sample_service ?E ?E" by (rule submit_reaches.here)
  have active: "su_active ?S = [] @ sample_context # []" by simp
  have finished: "submit_finish sample_service (\<lambda>_. 500) ''sub_1'' ''sub_2'' no_faults sample_context
      (ArResult sample_sent) (su_store ?S) = (res, st)" using fin by simp
  have name: "''sub_1'' \<noteq> []" by simp
  note facts = transaction_keeps_its_nonce [OF sample_apart active finished _ hash name here]
  have "nonce_held (nonce_key sample_context) (su_store ?E) \<noteq> None
      \<and> (\<forall>y \<in> set (su_active ?E). nonce_key y \<noteq> nonce_key sample_context)"
    using facts rec by simp
  then show ?thesis using here fin by auto
qed

lemma takeover_needs_the_deadline_witness:
  "fst (sample_begin 6700 (reserved_store 500)) = Inr (SbReserved sample_context)
     \<and> 500 + sv_ttlSeconds sample_service * 1000 < 6700
     \<and> 6700 div 1000 = 0 div 1000 + sv_ttlSeconds sample_service"
proof -
  have "js_less (toISOString 500) (toISOString 700)" "toISOString 700 \<noteq> []" by code_simp+
  then have "sample_begin 6700 (reserved_store 500) =
      (Inr (SbReserved sample_context), reserved_store 6700)"
    by (intro sample_begins, simp add: reserved_store_def, simp)
      (simp add: reserveNonce_def reserved_store_def stale_threshold_def sample_service_def js_less_asym)
  then have begun: "submit_begin sample_service (\<lambda>_. 6700) (toISOString 6700) ''sub_1'' None ''task_1''
      (snd sample_inputs) (reserved_store 500) = (Inr (SbReserved sample_context), reserved_store 6700)"
    by (simp add: sample_begin_def)
  have deadline: "pr_deadline (sx_prepared sample_context) = dec_int (0 div 1000 + sv_ttlSeconds sample_service)"
    by (simp add: sample_context_def stored_prepared_def sample_service_def dec_int_def) code_simp
  have "common_year 500" "common_year (6700 - sv_ttlSeconds sample_service * 1000)"
    by (simp_all add: sample_service_def) code_simp+
  note facts = takeover_needs_the_deadline [OF begun _ deadline _ this]
  show ?thesis using facts begun by (simp add: sample_key sample_held sample_begin_def)
qed

lemma sample_finishes:
  "fst (sample_finish r) = Inr (withSubmissionReconcileDefaults
     (submissionFromBroadcast stored_prepared ''sub_1'' ''0x55'' (word32 (CHR ''e'')) (toISOString 500) r))"
  by (simp add: submit_finish_def sample_record no_faults_def)

definition lost_archive :: submit_faults where
  "lost_archive = no_faults\<lparr>fl_archive := Some (\<lparr>te_name = None, te_text = ''down''\<rparr>)\<rparr>"

abbreviation lost_finish :: "broadcast_result \<Rightarrow> (svc_error + submission) \<times> submission_store" where
  "lost_finish r \<equiv> submit_finish sample_service (\<lambda>_. 500) ''sub_1'' ''sub_2'' lost_archive sample_context
     (ArResult r) (reserved_store 500)"

lemma submission_end_decides_nonce_witness:
  "nonce_held sample_nonce (snd (sample_finish sample_failure)) = None
     \<and> getPrepared ''prep_1'' (snd (sample_finish sample_failure)) = Some stored_prepared
     \<and> nonce_held sample_nonce (snd (sample_finish sample_sent)) = Some (toISOString 500)
     \<and> getPrepared ''prep_1'' (snd (sample_finish sample_sent)) =
       Some (stored_prepared\<lparr>pr_usedAt := Some (toISOString 500), pr_submissionId := Some ''sub_1''\<rparr>)
     \<and> nonce_held sample_nonce (snd (lost_finish sample_sent)) = Some (toISOString 500)
     \<and> getPrepared ''prep_1'' (snd (lost_finish sample_sent)) = Some stored_prepared
     \<and> nonce_held sample_nonce (snd (lost_finish sample_failure)) = None
     \<and> getPrepared ''prep_1'' (snd (lost_finish sample_failure)) = Some stored_prepared"
proof -
  have hash: "signatureHashFor sample_service (sx_signature sample_context) = Inr (word32 (CHR ''e''))"
    by (simp add: signatureHashFor_def sample_hash)
  have id: "pr_prepareId (sx_prepared sample_context) = ''prep_1''"
    by (simp add: sample_context_def sample_id)
  have stored: "getPrepared (pr_prepareId (sx_prepared sample_context)) (reserved_store 500) = Some stored_prepared"
    by (simp add: id reserved_store_def)
  have split: "sample_finish r = (fst (sample_finish r), snd (sample_finish r))"
    "lost_finish r = (fst (lost_finish r), snd (lost_finish r))" for r by simp_all
  note facts = submission_end_decides_nonce [OF hash stored split(1), THEN conjunct1, rule_format,
    unfolded id sample_key sample_held sample_finishes]
  note lost = submission_end_decides_nonce [OF hash stored split(2), THEN conjunct2, unfolded id sample_key sample_held]
  have failed: "keeps_prepare_reusable sample_failure (withSubmissionReconcileDefaults
      (submissionFromBroadcast stored_prepared i a h t sample_failure))" for i a h t
    by (simp add: keeps_prepare_reusable_def sample_failure_def failed_record)
      (simp add: failedBroadcastResult_def Let_def bare_attempt_def truthy_def)
  have sent: "\<not> keeps_prepare_reusable sample_sent sm" for sm
    by (simp add: keeps_prepare_reusable_def sample_sent_def)
  have hashes: "\<not> truthy (sm_txHash (withSubmissionReconcileDefaults (submissionFromBroadcast stored_prepared i a h t sample_failure)))"
    "sm_txHash (withSubmissionReconcileDefaults (submissionFromBroadcast stored_prepared i a h t sample_sent)) = Some ''0xAA''"
    for i a h t
    using failed by (simp_all add: keeps_prepare_reusable_def sample_failure_def sample_sent_def record_defs)
  have archive: "fl_archive lost_archive = Some (\<lparr>te_name = None, te_text = ''down''\<rparr>)" "fl_release lost_archive = None"
    by (simp_all add: lost_archive_def no_faults_def)
  have kept: "nonce_held sample_nonce (snd (lost_finish sample_sent)) = Some (toISOString 500)
      \<and> getPrepared ''prep_1'' (snd (lost_finish sample_sent)) = Some stored_prepared"
    using lost [of sample_sent, THEN conjunct1] archive sample_record hashes(2) by blast
  have freed: "nonce_held sample_nonce (snd (lost_finish sample_failure)) = None
      \<and> getPrepared ''prep_1'' (snd (lost_finish sample_failure)) = Some stored_prepared"
    using lost [of sample_failure, THEN conjunct2] archive sample_record hashes(1) by auto
  show ?thesis
    using facts [of sample_failure] facts [of sample_sent] failed sent kept freed
    by (auto simp: no_faults_def)
qed

lemma only_the_signer_consumes_witness:
  "snd (sample_begin 500 prepared_store) \<noteq> prepared_store \<and> pr_submitter stored_prepared = ''0x55''"
proof -
  have changed: "reserved_store 500 \<noteq> prepared_store"
    using sample_free sample_held [of 500] by auto
  have "submit_begin sample_service (\<lambda>_. 500) (toISOString 500) ''sub_1'' None ''task_1''
      (snd sample_inputs) prepared_store = (Inr (SbReserved sample_context), reserved_store 500)"
    using sample_reserved by (simp add: sample_begin_def)
  from only_the_signer_consumes [OF this, THEN conjunct2, rule_format, OF changed]
  have "normalizeAddress short_bindings ''0x55'' ''walletAddress'' = Inr (pr_submitter stored_prepared)"
    by (auto simp: sample_inputs_def sample_service_def)
  then show ?thesis
    using changed sample_reserved by (simp add: normalizeAddress_def short_bindings_def colon_free_def
      toLowerCase_def lower_char_def)
qed

lemma only_the_submitter_reads_witness:
  "\<exists>d m. getSubmission ''sub_1'' ''0X55'' (snd (sample_finish sample_sent)) = Inr (Some d)
     \<and> getSubmission ''sub_1'' ''0x56'' (snd (sample_finish sample_sent)) =
       Inl (ProductSubmissionError 403 ''submission_access_forbidden'' m)"
proof -
  obtain sm where stored: "getSubmission_store ''sub_1'' (snd (sample_finish sample_sent)) = Some sm"
    and submitter: "sm_submitter sm = ''0x55''"
    by (simp add: submit_finish_def sample_record no_faults_def stored_prepared_def
      prepared.defs sample_prepared_def)
  have "toLowerCase ''0X55'' = toLowerCase ''0x55''" "toLowerCase ''0x56'' \<noteq> toLowerCase ''0x55''"
    by code_simp+
  then have "toLowerCase ''0X55'' = toLowerCase (sm_submitter sm)"
    "toLowerCase ''0x56'' \<noteq> toLowerCase (sm_submitter sm)" by (simp_all add: submitter)
  from only_the_submitter_reads [OF stored] this show ?thesis by blast
qed

section \<open>A preparation\<close>







section \<open>Two open submissions\<close>

definition sample_row :: "string \<Rightarrow> int \<Rightarrow> submission" where
  "sample_row i t = submissionFromBroadcast stored_prepared i ''0x55'' ''0x01'' (toISOString t) sample_sent"

definition two_rows :: submission_store where
  "two_rows = putSubmission (sample_row ''sub_2'' 500) (putSubmission (sample_row ''sub_1'' 700) empty_submission_store)"

lemma open_scan_is_complete_witness:
  "iterateOpenSubmissions two_rows 1 None = filter is_open (listSubmissions two_rows)
     \<and> mset (iterateOpenSubmissions two_rows 1 None) = {#sample_row ''sub_1'' 700, sample_row ''sub_2'' 500#}"
proof -
  have rows: "st_submissions two_rows =
      [(''sub_1'', sample_row ''sub_1'' 700), (''sub_2'', sample_row ''sub_2'' 500)]"
    by (simp add: two_rows_def putSubmission_def sample_row_def empty_submission_store_def)
  have opened: "is_open (sample_row i t)" for i t
    by (simp add: sample_row_def sample_sent_def record_defs is_open_def OPEN_SUBMISSION_STATUSES_def)
  have shapes: "same_shape (toISOString 500) (toISOString 700)" "same_shape (toISOString 700) (toISOString 500)"
    "same_shape (toISOString 500) (toISOString 500)" "same_shape (toISOString 700) (toISOString 700)"
    "same_shape ''sub_1'' ''sub_2''" "same_shape ''sub_2'' ''sub_1''"
    "same_shape ''sub_1'' ''sub_1''" "same_shape ''sub_2'' ''sub_2''"
    by code_simp+
  have fields: "sm_createdAt (sample_row i t) = toISOString t" "sm_submissionId (sample_row i t) = i" for i t
    by (simp_all add: sample_row_def)
  have "set (open_rows two_rows) = {sample_row ''sub_1'' 700, sample_row ''sub_2'' 500}"
    by (auto simp: open_rows_def listSubmissions_def rows opened)
  then have "\<forall>x \<in> set (open_rows two_rows). \<forall>y \<in> set (open_rows two_rows).
      same_shape (sm_createdAt x) (sm_createdAt y) \<and> same_shape (sm_submissionId x) (sm_submissionId y)"
    using shapes by (simp add: fields)
  note facts = open_scan_is_complete [of 1, OF _ _ _ this]
  have "iterateOpenSubmissions two_rows 1 None = filter is_open (listSubmissions two_rows)"
    using facts by (simp add: rows opened fields)
  moreover have "mset (listSubmissions two_rows) = {#sample_row ''sub_1'' 700, sample_row ''sub_2'' 500#}"
    by (simp add: listSubmissions_def rows)
  ultimately show ?thesis by (simp add: opened)
qed

end
