(* ===== verification/ReconcileSamples.thy ===== *)
theory ReconcileSamples imports ReconcileFacts SubmissionSamples begin

text \<open>
  A submission whose timeout was recorded although its signal reached the chain, on which the
  properties of the reconcile worker are applied.
\<close>

definition late_submission :: submission where
  "late_submission = (sample_row ''sub_1'' 700)
     \<lparr>sm_onchainOrderId := ''o'', sm_planId := ''p'', sm_sourceId := ''h'', sm_signalId := ''g'',
      sm_submitter := ''w'', sm_payloadHash := ''d'', sm_idempotencyKey := ''i'',
      sm_txHash := Some ''t'', sm_status := SubFailed\<rparr>"

definition sample_projections :: projection_store where
  "sample_projections = empty_projection_store\<lparr>ps_snapshot := sample_snapshot\<rparr>"

definition sample_worker :: reconcile_env where
  "sample_worker =
     \<lparr>rv_txTimeoutMs = 1000, rv_scanPageSize = None, rv_parseOther = (\<lambda>_. None),
      rv_bindings = short_bindings, rv_getReceipt = (\<lambda>_. Inr None), rv_getProof = (\<lambda>_ _. Inr None),
      rv_bindEvidence = (\<lambda>_ _. None)\<rparr>"

definition sample_view :: pass_view where
  "sample_view =
     (let m = \<lparr>mo_now = 5000, mo_later = 5000, mo_before = sample_projections, mo_after = sample_projections\<rparr> in
      \<lparr>pv_registration = (\<lambda>_. m), pv_submission = (\<lambda>_. m), pv_log = (\<lambda>_. m), pv_boundAt = (\<lambda>_ _. 5000)\<rparr>)"

definition worker_stores_of :: "submission_store \<Rightarrow> worker_stores" where
  "worker_stores_of st =
     \<lparr>ws_product = empty_product_store, ws_submissions = st, ws_governance = empty_governance_store\<rparr>"

definition late_store :: submission_store where
  "late_store = putSubmission late_submission empty_submission_store"

lemma late_fields [simp]:
  "sm_onchainOrderId late_submission = ''o''" "sm_planId late_submission = ''p''"
  "sm_sourceId late_submission = ''h''" "sm_signalId late_submission = ''g''"
  "sm_submitter late_submission = ''w''" "sm_payloadHash late_submission = ''d''"
  "sm_idempotencyKey late_submission = ''i''" "sm_txHash late_submission = Some ''t''"
  "sm_status late_submission = SubFailed" "sm_submissionId late_submission = ''sub_1''"
  "sm_createdAt late_submission = toISOString 700"
  by (simp_all add: late_submission_def sample_row_def)

lemma late_reconcileable: "isReconcileableSubmission late_submission" "truthy (sm_txHash late_submission)"
  by (simp_all add: isReconcileableSubmission_def truthy_def)

lemma late_confirmation:
  "submissionProjectionConfirmation sample_projections late_submission =
     Some \<lparr>cf_transactionHash = ''t'', cf_blockNumber = dec_int 2\<rparr>"
proof -
  have orders: "listStateMachineOrders sample_projections = [readonlyOrder signalled_order]"
    by (simp add: listStateMachineOrders_def sample_projections_def sample_snapshot_def snapshotOf_def
      Let_def after_signal_def jupdate_values_def)
  have words: "toLowerCase ''o'' = ''o''" "toLowerCase ''p'' = ''p''" by code_simp+
  have fields: "or_orderId (readonlyOrder signalled_order) = ''o''" "or_planId (readonlyOrder signalled_order) = ''p''"
    "or_signals (readonlyOrder signalled_order) = [(''h:g'', Samples.sample_signal)]"
    by (simp_all add: signalled_order_def ready_order_def newOrder_def)
  have "getStateMachineOrder ''o'' (Some ''p'') sample_projections = Some (readonlyOrder signalled_order)"
    using fields
    by (simp add: getStateMachineOrder_def orders uniqueOrderByBareId_def sole_def words truthy_def keep_truthy_def)
  moreover have "signal_matches Samples.sample_signal late_submission"
    by (simp add: signal_matches_def Samples.sample_signal_def)
  moreover have "sig_submittedAt Samples.sample_signal = provenanceOf signal_event"
    by (simp add: Samples.sample_signal_def)
  ultimately show ?thesis
    using fields(3) by (simp add: submissionProjectionConfirmation_def projectionConfirmationFromProvenance_def truthy_def)
qed

lemma late_reconciled:
  "\<exists>u. reconcileSubmission sample_worker 5000 5000 sample_projections sample_projections late_submission
     late_store = (Inr u, putSubmission u late_store) \<and> sm_status u = SubConfirmed
     \<and> sm_blockNumber u = Some (dec_int 2)"
proof -
  have "resolveOutcome sample_worker submission_statuses 5000 5000 (submission_tx late_submission)
      (Inr (submissionProjectionConfirmation sample_projections late_submission))
      (Inr (submissionProjectionConfirmation sample_projections late_submission)) =
    Inr (confirmedOutcome submission_statuses (toISOString 5000) (Some (dec_int 2)))"
    unfolding late_confirmation
    by (subst resolveOutcome_before) (simp_all add: submission_tx_def truthy_def)
  then show ?thesis
    by (simp add: reconcileSubmission_def Let_def reconciled_submission_def confirmedOutcome_def
      keep_truthy_def truthy_def opt_or_def)
qed

lemma confirmed_needs_a_signal_witness:
  "\<exists>u. getSubmission_store ''sub_1'' (putSubmission u late_store) = Some u
     \<and> (\<exists>d \<in> actives sample_stream. eventName d = ''SignalSubmitted'' \<and> sm_blockNumber u = Some (dec_int (blockNumber d)))"
proof -
  obtain u where u: "reconcileSubmission sample_worker 5000 5000 sample_projections sample_projections late_submission
     late_store = (Inr u, putSubmission u late_store)" "sm_status u = SubConfirmed" using late_reconciled by blast
  have rb: "rebuilt short_bindings sample_stream (ps_snapshot sample_projections)"
    by (simp add: sample_projections_def sample_rebuilt)
  have "sm_planId late_submission \<noteq> []" by simp
  from confirmed_needs_a_signal [OF rb rb late_reconcileable(1) this u] show ?thesis by auto
qed

section \<open>A pass\<close>

lemma late_rows: "open_rows late_store = [late_submission]"
  by (simp add: open_rows_def listSubmissions_def late_store_def putSubmission_def empty_submission_store_def
    is_open_def OPEN_SUBMISSION_STATUSES_def)

lemma late_worker:
  "keyed_by_id (ws_submissions (worker_stores_of late_store))"
  "ledger_ok (ws_governance (worker_stores_of late_store))"
  "0 < scan_page_size sample_worker" "rows_ordered (worker_stores_of late_store)"
  "late_submission \<in> set (open_rows (ws_submissions (worker_stores_of late_store)))"
  by (simp_all add: worker_stores_of_def late_rows rows_ordered_def open_logs_def empty_governance_store_def
      ledger_ok_def scan_page_size_def sample_worker_def DEFAULT_RECONCILE_SCAN_PAGE_SIZE_def or_default_def)
    (simp add: keyed_by_id_def late_store_def putSubmission_def empty_submission_store_def)

lemma reconcile_pass_ends_witness:
  "runReconcilePass sample_worker sample_view (worker_stores_of late_store)
     = Some (eagerPass sample_worker sample_view (worker_stores_of late_store))"
  using reconcile_pass_ends [OF late_worker(1,2), of sample_worker sample_view] late_worker(3,4) by blast

lemma late_success_is_confirmed_witness:
  "\<exists>s W' bound v. runReconcilePass sample_worker sample_view (worker_stores_of late_store) = Some ((s, W'), bound)
     \<and> getSubmission_store ''sub_1'' (ws_submissions W') = Some v \<and> sm_status v = SubConfirmed"
proof -
  have "submissionProjectionConfirmation (mo_before (pv_submission sample_view (sm_submissionId late_submission)))
      late_submission = Some \<lparr>cf_transactionHash = ''t'', cf_blockNumber = dec_int 2\<rparr>"
    using late_confirmation by (simp add: sample_view_def Let_def)
  then show ?thesis
    using late_success_is_confirmed [OF late_reconcileable, THEN conjunct2, rule_format,
        of "worker_stores_of late_store" sample_worker sample_view] late_worker by fastforce
qed

section \<open>A timeout\<close>

lemma time_limit_is_by_age_witness:
  "\<not> timedOut (\<lambda>_. None) (toISOString 700) 1000 1699 \<and> timedOut (\<lambda>_. None) (toISOString 700) 1000 1700
   \<and> (\<exists>u st'. reconcileSubmission sample_worker 1700 1700 empty_projection_store empty_projection_store
        late_submission late_store = (Inr u, st')
      \<and> sm_retryable u = Some True \<and> sm_errorCode u = Some ''tx_reconcile_timeout'')"
proof -
  have year: "common_year 700" by code_simp
  have none: "submissionProjectionConfirmation empty_projection_store late_submission = None"
    by (simp add: submissionProjectionConfirmation_def getStateMachineOrder_def listStateMachineOrders_def
      empty_projection_store_def createEmptyProjectionSnapshot_def uniqueOrderByBareId_def sole_def truthy_def)
  obtain u st' where u: "reconcileSubmission sample_worker 1700 1700 empty_projection_store empty_projection_store
      late_submission late_store = (Inr u, st')"
    by (auto simp: reconcileSubmission_def resolveOutcome_def none submission_tx_def keep_truthy_def truthy_def
      sample_worker_def Let_def)
  note late = time_limit_is_by_age [OF year]
  have "sm_retryable u = Some True" "sm_errorCode u = Some ''tx_reconcile_timeout''"
    using late [THEN conjunct2, THEN conjunct1, of late_submission empty_projection_store sample_worker 1700 1700
        empty_projection_store late_store u st'] u none late_reconcileable
    by (simp_all add: sample_worker_def)
  then show ?thesis
    using u late [THEN conjunct1, of "\<lambda>_. None" 1000 1699] late [THEN conjunct1, of "\<lambda>_. None" 1000 1700] by auto
qed

end
