(* ===== verification/StorageJson.thy ===== *)
theory StorageJson imports Stages begin

text \<open>
  The JSON texts of the stores (\<open>storage/json.ts\<close>): \<open>bigint\<close> values travel as tagged
  objects. \<open>JSON.parse\<close> is a reader with a bound on its recursion, twice the length of the
  text. What was stored is read back, for values without \<open>undefined\<close>, fractions and
  objects that look like a tag.
\<close>

section \<open>JSON.parse\<close>

text \<open>
  A number with fraction or exponent keeps its text; characters above the code 255 do not
  occur. \<open>None\<close> stands for the \<open>SyntaxError\<close>.
\<close>

definition json_space :: "char \<Rightarrow> bool" where
  "json_space c \<longleftrightarrow> (of_char c :: nat) \<in> {9, 10, 13, 32}"

definition number_char :: "char \<Rightarrow> bool" where
  "number_char c \<longleftrightarrow> is_digit c \<or> c \<in> set ''+-.eE''"

definition integer_text :: "string \<Rightarrow> bool" where
  "integer_text s \<longleftrightarrow> all_digits s \<and> (hd s = CHR ''0'' \<longrightarrow> s = ''0'')"

definition signed_exponent :: "string \<Rightarrow> bool" where
  "signed_exponent s \<longleftrightarrow> (case s of [] \<Rightarrow> False | c # cs \<Rightarrow> all_digits (if c \<in> set ''+-'' then cs else s))"

definition fraction_text :: "string \<Rightarrow> bool" where
  "fraction_text s =
     (let whole = takeWhile is_digit s; r = drop (length whole) s;
          frac = (if r \<noteq> [] \<and> hd r = CHR ''.'' then takeWhile is_digit (tl r) else []);
          e = (if r \<noteq> [] \<and> hd r = CHR ''.'' then drop (length frac) (tl r) else r) in
      integer_text whole \<and> (r \<noteq> [] \<and> hd r = CHR ''.'' \<longrightarrow> frac \<noteq> [])
        \<and> (e = [] \<or> (hd e \<in> set ''eE'' \<and> signed_exponent (tl e))))"

definition json_number :: "string \<Rightarrow> jsval option" where
  "json_number s =
     (let body = (if s \<noteq> [] \<and> hd s = CHR ''-'' then tl s else s) in
      if integer_text body then map_option JNum (parse_bigint s)
      else if fraction_text body then Some (JOtherNum s)
      else None)"

definition json_unescape :: "char \<Rightarrow> char option" where
  "json_unescape c =
     (if c = CHR 0x22 \<or> c = CHR 0x5C \<or> c = CHR ''/'' then Some c
      else if c = CHR ''b'' then Some (CHR 0x08) else if c = CHR ''f'' then Some (CHR 0x0C)
      else if c = CHR ''n'' then Some (CHR 0x0A) else if c = CHR ''r'' then Some (CHR 0x0D)
      else if c = CHR ''t'' then Some (CHR 0x09) else None)"

fun json_string :: "string \<Rightarrow> (string \<times> string) option" where
  "json_string [] = None"
| "json_string (c # cs) =
     (if c = CHR 0x22 then Some ([], cs)
      else if (of_char c :: nat) < 32 then None
      else if c = CHR 0x5C then
        (case cs of
           [] \<Rightarrow> None
         | d # ds \<Rightarrow>
             if d = CHR ''u'' then
               (case parse_base 16 0 (take 4 ds) of
                  None \<Rightarrow> None
                | Some n \<Rightarrow>
                    if length ds < 4 \<or> 255 < n then None
                    else map_option (\<lambda>(s, r). (char_of n # s, r)) (json_string (drop 4 ds)))
             else
               (case json_unescape d of
                  None \<Rightarrow> None
                | Some x \<Rightarrow> map_option (\<lambda>(s, r). (x # s, r)) (json_string ds)))
      else map_option (\<lambda>(s, r). (c # s, r)) (json_string cs))"

definition json_skip :: "string \<Rightarrow> string" where
  "json_skip s = dropWhile json_space s"

fun json_value :: "nat \<Rightarrow> string \<Rightarrow> (jsval \<times> string) option"
  and json_items :: "nat \<Rightarrow> string \<Rightarrow> (jsval list \<times> string) option"
  and json_fields :: "nat \<Rightarrow> string \<Rightarrow> ((string \<times> jsval) list \<times> string) option" where
  "json_value 0 s = None"
| "json_value (Suc n) s =
     (case json_skip s of
        [] \<Rightarrow> None
      | c # cs \<Rightarrow>
          if c = CHR ''['' then
            (case json_skip cs of
               [] \<Rightarrow> None
             | d # ds \<Rightarrow>
                 if d = CHR '']'' then Some (JArr [], ds)
                 else map_option (\<lambda>(vs, r). (JArr vs, r)) (json_items n (d # ds)))
          else if c = CHR ''{'' then
            (case json_skip cs of
               [] \<Rightarrow> None
             | d # ds \<Rightarrow>
                 if d = CHR ''}'' then Some (JObj [], ds)
                 else map_option (\<lambda>(fs, r). (JObj (foldl (\<lambda>m (k, v). jset k v m) [] fs), r))
                   (json_fields n (d # ds)))
          else if c = CHR 0x22 then map_option (\<lambda>(t, r). (JStr t, r)) (json_string cs)
          else if take 4 (c # cs) = ''null'' then Some (JNull, drop 4 (c # cs))
          else if take 4 (c # cs) = ''true'' then Some (JBool True, drop 4 (c # cs))
          else if take 5 (c # cs) = ''false'' then Some (JBool False, drop 5 (c # cs))
          else
            (let t = takeWhile number_char (c # cs) in
             map_option (\<lambda>v. (v, drop (length t) (c # cs))) (json_number t)))"
| "json_items 0 s = None"
| "json_items (Suc n) s =
     (case json_value n s of
        None \<Rightarrow> None
      | Some (v, r) \<Rightarrow>
          (case json_skip r of
             [] \<Rightarrow> None
           | c # cs \<Rightarrow>
               if c = CHR '']'' then Some ([v], cs)
               else if c = CHR '','' then map_option (\<lambda>(vs, r). (v # vs, r)) (json_items n cs)
               else None))"
| "json_fields 0 s = None"
| "json_fields (Suc n) s =
     (case json_skip s of
        [] \<Rightarrow> None
      | q # qs \<Rightarrow>
          if q \<noteq> CHR 0x22 then None
          else
            (case json_string qs of
               None \<Rightarrow> None
             | Some (k, r) \<Rightarrow>
                 (case json_skip r of
                    [] \<Rightarrow> None
                  | c # cs \<Rightarrow>
                      if c \<noteq> CHR '':'' then None
                      else
                        (case json_value n cs of
                           None \<Rightarrow> None
                         | Some (v, r') \<Rightarrow>
                             (case json_skip r' of
                                [] \<Rightarrow> None
                              | d # ds \<Rightarrow>
                                  if d = CHR ''}'' then Some ([(k, v)], ds)
                                  else if d = CHR '','' then
                                    map_option (\<lambda>(fs, r). ((k, v) # fs, r)) (json_fields n ds)
                                  else None)))))"

definition json_parse :: "string \<Rightarrow> jsval option" where
  "json_parse s =
     (case json_value (2 * length s + 1) s of
        None \<Rightarrow> None
      | Some (v, r) \<Rightarrow> if json_skip r = [] then Some v else None)"

section \<open>Tagged big integers\<close>

definition BIGINT_TAG :: string where
  "BIGINT_TAG = ''__uvp_storage_bigint__''"

text \<open>The replacer: every \<open>bigint\<close> becomes an object with its decimal text.\<close>

fun tag_bigints :: "jsval \<Rightarrow> jsval" where
  "tag_bigints (JBig i) = JObj [(BIGINT_TAG, JStr (dec_int i))]"
| "tag_bigints (JArr vs) = JArr (map tag_bigints vs)"
| "tag_bigints (JObj fs) = JObj (map (\<lambda>f. (fst f, tag_bigints (snd f))) fs)"
| "tag_bigints v = v"

definition stringifyStorageJson :: "jsval \<Rightarrow> string option res" where
  "stringifyStorageJson v = json_stringify (tag_bigints v)"

definition isBigIntRecord :: "jsval \<Rightarrow> string option" where
  "isBigIntRecord v =
     (case v of
        JObj fs \<Rightarrow> (case jget fs BIGINT_TAG of Some (JStr s) \<Rightarrow> Some s | _ \<Rightarrow> None)
      | _ \<Rightarrow> None)"

definition revive_one :: "jsval \<Rightarrow> jsval res" where
  "revive_one v =
     (case isBigIntRecord v of
        None \<Rightarrow> Inr v
      | Some s \<Rightarrow> bindR (bigint_of s) (\<lambda>i. Inr (JBig i)))"

text \<open>The reviver runs on the parts of a value before the value itself.\<close>

fun revive :: "jsval \<Rightarrow> jsval res" where
  "revive (JArr vs) = bindR (mapR revive vs) (\<lambda>ws. revive_one (JArr ws))"
| "revive (JObj fs) =
     bindR (mapR (\<lambda>f. bindR (revive (snd f)) (\<lambda>w. Inr (fst f, w))) fs) (\<lambda>gs. revive_one (JObj gs))"
| "revive v = revive_one v"

definition parseStorageJson :: "string \<Rightarrow> jsval res" where
  "parseStorageJson raw =
     (case json_parse raw of
        None \<Rightarrow> Inl (SyntaxError ''invalid JSON'')
      | Some v \<Rightarrow> revive v)"

lemma json_examples:
  "json_parse ('' { '' @ CHR 0x22 # ''a'' @ CHR 0x22 # '' : [1, -2.5e3 , null] } '') =
     Some (JObj [(''a'', JArr [JNum 1, JOtherNum ''-2.5e3'', JNull])])"
  "json_parse ''01'' = None" "json_parse ''[1,]'' = None"
  by code_simp+

section \<open>Reading what was printed\<close>

lemma base_digit_hex_char:
  assumes "d < 16"
  shows "base_digit 16 (hex_char d) = Some d"
  using assms by (cases "d < 10") (simp_all add: base_digit_def hex_char_def lower_char_def Let_def)

lemma json_escape_hex:
  assumes "(of_char c :: nat) < 32" and "(of_char c :: nat) \<notin> {8, 9, 10, 12, 13}"
  shows "json_escape c = [CHR 0x5C, CHR ''u'', CHR ''0'', CHR ''0'',
    hex_char (of_char c div 16), hex_char (of_char c mod 16)]"
  using assms by (simp add: json_escape_def Let_def)

lemma quote_escape: "json_string (json_escape c @ rest) = map_option (\<lambda>(s, r). (c # s, r)) (json_string rest)"
proof -
  let ?n = "of_char c :: nat"
  have eq: "c = char_of ?n" by simp
  consider "?n \<in> {8, 9, 10, 12, 13, 34, 92}" | (hex) "?n < 32" "?n \<notin> {8, 9, 10, 12, 13}"
    | (plain) "32 \<le> ?n" "?n \<noteq> 34" "?n \<noteq> 92"
    by (cases "?n < 32") (simp_all, blast+)
  then show ?thesis
  proof cases
    case 1
    have codes: "char_of (8 :: nat) = CHR 0x08" "char_of (9 :: nat) = CHR 0x09" "char_of (10 :: nat) = CHR 0x0A"
      "char_of (12 :: nat) = CHR 0x0C" "char_of (13 :: nat) = CHR 0x0D" "char_of (34 :: nat) = CHR 0x22"
      "char_of (92 :: nat) = CHR 0x5C" by code_simp+
    have "c \<in> {CHR 0x08, CHR 0x09, CHR 0x0A, CHR 0x0C, CHR 0x0D, CHR 0x22, CHR 0x5C}"
      using 1 eq codes by (elim insertE emptyE) (metis insertCI)+
    then show ?thesis
      by (elim insertE emptyE) (simp_all add: json_escape_def json_unescape_def Let_def)
  next
    case hex
    have "parse_base 16 0 [CHR ''0'', CHR ''0'', hex_char (?n div 16), hex_char (?n mod 16)] = Some ?n"
    proof -
      have "base_digit 16 (CHR ''0'') = Some 0" by code_simp
      then show ?thesis using hex(1) by (simp add: base_digit_hex_char)
    qed
    then show ?thesis using hex(1) unfolding json_escape_hex [OF hex] by simp
  next
    case plain
    then have "c \<noteq> CHR 0x22" "c \<noteq> CHR 0x5C" by auto
    then show ?thesis using plain by (simp add: json_escape_def Let_def)
  qed
qed

lemma json_string_quoted:
  "json_string (concat (map json_escape s) @ CHR 0x22 # rest) = Some (s, rest)"
  by (induction s) (simp_all add: quote_escape)

text \<open>A value as it is after parsing: no \<open>undefined\<close>, big integer, fraction or repeated key.\<close>

fun plain_json :: "jsval \<Rightarrow> bool" where
  "plain_json (JArr vs) \<longleftrightarrow> (\<forall>v \<in> set vs. plain_json v)"
| "plain_json (JObj fs) \<longleftrightarrow> distinct (map fst fs) \<and> (\<forall>f \<in> set fs. plain_json (snd f))"
| "plain_json v \<longleftrightarrow> (case v of JUndefined \<Rightarrow> False | JOtherNum _ \<Rightarrow> False | JBig _ \<Rightarrow> False | _ \<Rightarrow> True)"

text \<open>What follows a value in a text: not a character a number could go on with.\<close>

definition value_ends :: "string \<Rightarrow> bool" where
  "value_ends r \<longleftrightarrow> r = [] \<or> \<not> number_char (hd r)"

definition reads_back :: "jsval \<Rightarrow> string \<Rightarrow> bool" where
  "reads_back v t \<longleftrightarrow> t \<noteq> [] \<and> \<not> json_space (hd t) \<and> hd t \<noteq> CHR '']''
     \<and> (\<forall>n r. 2 * length t \<le> n \<longrightarrow> value_ends r \<longrightarrow> json_value n (t @ r) = Some (v, r))"

lemma json_skip_id [simp]: "s \<noteq> [] \<Longrightarrow> \<not> json_space (hd s) \<Longrightarrow> json_skip s = s"
  by (cases s) (simp_all add: json_skip_def)

lemma digit_not_space: "is_digit c \<Longrightarrow> \<not> json_space c"
  by (auto simp: is_digit_def json_space_def)

lemma integer_text_dec_nat: "integer_text (dec_nat n)"
proof -
  have "hd (dec_nat n) = CHR ''0'' \<longrightarrow> dec_nat n = ''0''"
  proof (induction n rule: dec_nat.induct)
    case (1 n)
    show ?case
    proof (cases "n < 10")
      case True
      have "digit_char 0 = CHR ''0''" by code_simp
      moreover have "digit_char n = CHR ''0'' \<Longrightarrow> n = 0"
        using True of_char_digit_char [of n] by (cases n) auto
      ultimately show ?thesis using True by (subst (1 2) dec_nat.simps) auto
    next
      case False
      then have "hd (dec_nat n) = hd (dec_nat (n div 10))"
        by (subst dec_nat.simps) (simp add: dec_nat_nonempty)
      moreover have "dec_nat (n div 10) \<noteq> ''0''"
      proof
        assume "dec_nat (n div 10) = ''0''"
        moreover have "dec_nat 0 = ''0''" by code_simp
        ultimately have "dec_int (int (n div 10)) = dec_int 0" by (simp add: dec_int_def)
        then show False using False by simp
      qed
      ultimately show ?thesis using 1 False by auto
    qed
  qed
  then show ?thesis by (simp add: integer_text_def)
qed

lemma dec_int_chars: "list_all number_char (dec_int i)"
proof -
  have "list_all number_char (dec_nat n)" for n
    using dec_nat_digits [of n] by (auto simp: list_all_iff number_char_def)
  then show ?thesis by (simp add: dec_int_def number_char_def)
qed

lemma json_number_dec_int: "json_number (dec_int i) = Some (JNum i)"
  using integer_text_dec_nat [of "nat i"] integer_text_dec_nat [of "nat (- i)"] hd_dec_nat [of "nat i"]
  by (auto simp: json_number_def dec_int_def Let_def dec_nat_nonempty parse_bigint_dec_int [of i, unfolded dec_int_def])

lemma dec_int_start:
  "\<exists>c cs. dec_int i = c # cs \<and> (is_digit c \<or> c = CHR ''-'')"
proof (cases "i < 0")
  case False
  obtain c cs where c: "dec_nat (nat i) = c # cs" using dec_nat_nonempty by (cases "dec_nat (nat i)") auto
  then have "is_digit c" using dec_nat_digits [of "nat i"] by simp
  then show ?thesis using False c by (simp add: dec_int_def)
qed (simp add: dec_int_def)

lemma takeWhile_ends: "list_all P s \<Longrightarrow> r = [] \<or> \<not> P (hd r) \<Longrightarrow> takeWhile P (s @ r) = s"
  by (induction s) (cases r; auto)+

lemma reads_back_number: "reads_back (JNum i) (dec_int i)"
proof -
  obtain c cs where c: "dec_int i = c # cs" "is_digit c \<or> c = CHR ''-''" using dec_int_start by blast
  then have start: "c \<notin> set ''[]{ntf'' \<and> c \<noteq> CHR 0x22 \<and> \<not> json_space c"
    by (auto simp: is_digit_def json_space_def)
  have "json_value n (dec_int i @ r) = Some (JNum i, r)" if "2 * length (dec_int i) \<le> n" "value_ends r" for n r
  proof -
    have token: "takeWhile number_char (c # cs @ r) = c # cs"
      using takeWhile_ends [OF dec_int_chars [of i], of r] that(2) c(1) by (simp add: value_ends_def)
    have "0 < n" using that(1) unfolding c(1) by simp
    then obtain m where "n = Suc m" by (cases n) auto
    then show ?thesis
      using start token json_number_dec_int [of i] by (simp add: c(1) Let_def)
  qed
  then show ?thesis using start c(1) by (simp add: reads_back_def)
qed

lemma reads_back_string: "reads_back (JStr s) (json_quote s)"
proof -
  have "json_value n (json_quote s @ r) = Some (JStr s, r)" if "2 * length (json_quote s) \<le> n" for n r
    using that by (cases n) (simp_all add: json_quote_def json_string_quoted json_space_def)
  then show ?thesis by (simp add: reads_back_def json_quote_def json_space_def)
qed

lemma reads_back_word:
  "reads_back JNull ''null''" "reads_back (JBool True) ''true''" "reads_back (JBool False) ''false''"
proof -
  have "json_value n (''null'' @ r) = Some (JNull, r)" "json_value n (''true'' @ r) = Some (JBool True, r)"
    "json_value n (''false'' @ r) = Some (JBool False, r)" if "8 \<le> n" for n r
    using that by (cases n; simp add: json_space_def)+
  then show "reads_back JNull ''null''" "reads_back (JBool True) ''true''" "reads_back (JBool False) ''false''"
    by (auto simp: reads_back_def json_space_def)
qed

text \<open>Items and fields, read up to the closing bracket.\<close>

lemma reads_back_items:
  "vs \<noteq> [] \<Longrightarrow> list_all2 reads_back vs ts \<Longrightarrow> 2 * length (intercalate '','' ts) + 1 \<le> n \<Longrightarrow>
     json_items n (intercalate '','' ts @ CHR '']'' # r) = Some (vs, r)"
proof (induction vs arbitrary: ts n)
  case (Cons v vs)
  obtain t us where ts: "ts = t # us" "reads_back v t" "list_all2 reads_back vs us"
    using Cons.prems(2) by (auto simp: list_all2_Cons1)
  obtain m where n: "n = Suc m" using Cons.prems(3) by (cases n) auto
  have ends: "value_ends (CHR '']'' # r)" "value_ends (CHR '','' # r)" for r
    by (simp_all add: value_ends_def number_char_def is_digit_def)
  have skip: "json_skip (CHR '']'' # r) = CHR '']'' # r" "json_skip (CHR '','' # r) = CHR '','' # r" for r
    by (simp_all add: json_space_def)
  show ?case
  proof (cases us)
    case Nil
    then have "vs = []" using ts(3) by simp
    moreover have "json_value m (t @ CHR '']'' # r) = Some (v, CHR '']'' # r)"
      using ts(1,2) Nil Cons.prems(3) n ends(1) by (auto simp: reads_back_def)
    ultimately show ?thesis by (simp add: n ts(1) Nil skip)
  next
    case (Cons u us')
    then have vs: "vs \<noteq> []" using ts(3) by auto
    have printed: "intercalate '','' ts = t @ CHR '','' # intercalate '','' us" by (simp add: ts(1) Cons)
    have len: "2 * (length t + 1 + length (intercalate '','' us)) + 1 \<le> Suc m"
      using Cons.prems(3) by (simp add: n printed)
    have "json_value m (t @ CHR '','' # intercalate '','' us @ CHR '']'' # r) =
        Some (v, CHR '','' # intercalate '','' us @ CHR '']'' # r)"
      using ts(2) len ends(2) by (auto simp: reads_back_def)
    moreover have "json_items m (intercalate '','' us @ CHR '']'' # r) = Some (vs, r)"
      using Cons.IH [OF vs ts(3)] len by simp
    ultimately show ?thesis by (simp add: n printed skip)
  qed
qed simp

definition field_text :: "string \<times> string \<Rightarrow> string" where
  "field_text f = json_quote (fst f) @ CHR '':'' # snd f"

lemma reads_back_fields:
  "fs \<noteq> [] \<Longrightarrow> list_all2 (\<lambda>f t. reads_back (snd f) t) fs ts \<Longrightarrow>
     printed = intercalate '','' (map field_text (zip (map fst fs) ts)) \<Longrightarrow> 2 * length printed + 1 \<le> n \<Longrightarrow>
     json_fields n (printed @ CHR ''}'' # r) = Some (fs, r)"
proof (induction fs arbitrary: ts n printed)
  case (Cons f fs)
  obtain t us where ts: "ts = t # us" "reads_back (snd f) t" "list_all2 (\<lambda>f t. reads_back (snd f) t) fs us"
    using Cons.prems(2) by (auto simp: list_all2_Cons1)
  obtain m where n: "n = Suc m" using Cons.prems(4) by (cases n) auto
  have ends: "value_ends (CHR ''}'' # r)" "value_ends (CHR '','' # r)" for r
    by (simp_all add: value_ends_def number_char_def is_digit_def)
  have skip: "json_skip (c # r) = c # r" if "c \<in> set '':},'' \<or> c = CHR 0x22" for c r
    using that by (auto simp: json_space_def)
  have quoted: "json_quote k @ r = CHR 0x22 # concat (map json_escape k) @ CHR 0x22 # r" for k r
    by (simp add: json_quote_def)
  show ?case
  proof (cases us)
    case Nil
    then have fs: "fs = []" using ts(3) by simp
    have p: "printed = field_text (fst f, t)" using Cons.prems(3) by (simp add: fs ts(1) Nil)
    have "json_value m (t @ CHR ''}'' # r) = Some (snd f, CHR ''}'' # r)"
      using ts(2) Cons.prems(4) n ends(1) by (auto simp: reads_back_def p field_text_def)
    then show ?thesis
      by (simp add: n p field_text_def quoted skip json_string_quoted fs)
  next
    case (Cons u us')
    then obtain g fs' where fs: "fs = g # fs'" using ts(3) by (cases fs) auto
    define more where "more = intercalate '','' (map field_text (zip (map fst fs) us))"
    have p: "printed = field_text (fst f, t) @ CHR '','' # more"
      using Cons.prems(3) by (simp add: more_def ts(1) fs Cons)
    have len: "2 * (length (field_text (fst f, t)) + 1 + length more) + 1 \<le> Suc m"
      using Cons.prems(4) by (simp add: n p)
    have "json_value m (t @ CHR '','' # more @ CHR ''}'' # r) = Some (snd f, CHR '','' # more @ CHR ''}'' # r)"
      using ts(2) len ends(2) by (auto simp: reads_back_def field_text_def)
    moreover have "json_fields m (more @ CHR ''}'' # r) = Some (fs, r)"
      using Cons.IH [OF _ ts(3) more_def] len fs by simp
    ultimately show ?thesis
      by (simp add: n p field_text_def quoted skip json_string_quoted)
  qed
qed simp

lemma foldl_jset_new:
  "distinct (map fst m @ map fst fs) \<Longrightarrow> foldl (\<lambda>m (k, v). jset k v m) m fs = m @ fs"
proof (induction fs arbitrary: m)
  case (Cons f fs)
  obtain k v where f: "f = (k, v)" by force
  have "k \<notin> set (map fst m)" using Cons.prems f by simp
  then have "jset k v m = m @ [(k, v)]" by (induction m) auto
  then show ?case using Cons f by simp
qed simp

lemma reads_back_array:
  assumes "list_all2 reads_back vs ts"
  shows "reads_back (JArr vs) (''['' @ intercalate '','' ts @ '']'')"
proof -
  have skip: "json_skip (CHR ''['' # s) = CHR ''['' # s" "json_skip (CHR '']'' # s) = CHR '']'' # s" for s
    by (simp_all add: json_space_def)
  have "json_value n ((''['' @ intercalate '','' ts @ '']'') @ r) = Some (JArr vs, r)"
    if len: "2 * length (''['' @ intercalate '','' ts @ '']'') \<le> n" for n r
  proof (cases "vs = []")
    case True
    then show ?thesis using assms len by (cases n) (simp_all add: skip)
  next
    case False
    obtain m where n: "n = Suc m" using len by (cases n) auto
    have items: "json_items m (intercalate '','' ts @ CHR '']'' # r) = Some (vs, r)"
      using reads_back_items [OF False assms] len by (simp add: n)
    obtain t us where ts: "ts = t # us" "t \<noteq> []" "\<not> json_space (hd t)" "hd t \<noteq> CHR '']''"
      using assms False by (cases ts) (auto simp: list_all2_Cons2 reads_back_def)
    then obtain c cs where t: "t = c # cs" "\<not> json_space c" "c \<noteq> CHR '']''" by (cases t) auto
    obtain ds where ds: "intercalate '','' ts = c # ds" by (cases us) (simp_all add: ts(1) t(1))
    have "json_skip (c # ds @ CHR '']'' # r) = c # ds @ CHR '']'' # r" using t(2) by simp
    then show ?thesis using items t(3) by (simp add: n ds skip)
  qed
  then show ?thesis by (auto simp: reads_back_def json_space_def)
qed

lemma reads_back_object:
  assumes "distinct (map fst fs)" and "list_all2 (\<lambda>f t. reads_back (snd f) t) fs ts"
  shows "reads_back (JObj fs) (''{'' @ intercalate '','' (map field_text (zip (map fst fs) ts)) @ ''}'')"
proof -
  define printed where "printed = intercalate '','' (map field_text (zip (map fst fs) ts))"
  have skip: "json_skip (CHR ''{'' # s) = CHR ''{'' # s" "json_skip (CHR ''}'' # s) = CHR ''}'' # s"
    "json_skip (CHR 0x22 # s) = CHR 0x22 # s" for s
    by (simp_all add: json_space_def)
  have "json_value n ((''{'' @ printed @ ''}'') @ r) = Some (JObj fs, r)"
    if len: "2 * length (''{'' @ printed @ ''}'') \<le> n" for n r
  proof (cases fs)
    case Nil
    then show ?thesis using len by (cases n) (simp_all add: skip printed_def)
  next
    case (Cons f fs')
    obtain m where n: "n = Suc m" using len by (cases n) auto
    have fields: "json_fields m (printed @ CHR ''}'' # r) = Some (fs, r)"
      using reads_back_fields [OF _ assms(2) printed_def] len Cons by (simp add: n)
    obtain ds where ds: "printed = CHR 0x22 # ds"
      using assms(2) Cons by (cases "zip (map fst fs) ts" rule: remdups_adj.cases)
        (auto simp: printed_def list_all2_Cons1 field_text_def json_quote_def)
    have "foldl (\<lambda>m (k, v). jset k v m) [] fs = fs" using foldl_jset_new [of "[]" fs] assms(1) by simp
    then show ?thesis using fields by (simp add: n ds skip)
  qed
  then show ?thesis by (auto simp: reads_back_def json_space_def printed_def)
qed

lemma mapR_texts:
  assumes "\<And>x. x \<in> set xs \<Longrightarrow> \<exists>t. f x = Inr (Some t) \<and> P x t"
  shows "\<exists>ts. mapR f xs = Inr (map Some ts) \<and> list_all2 P xs ts"
  using assms
proof (induction xs)
  case (Cons x xs)
  obtain t where t: "f x = Inr (Some t)" "P x t" using Cons.prems [of x] by auto
  have "\<exists>ts. mapR f xs = Inr (map Some ts) \<and> list_all2 P xs ts"
    by (rule Cons.IH) (simp add: Cons.prems)
  then obtain ts where "mapR f xs = Inr (map Some ts)" "list_all2 P xs ts" by blast
  with t have "mapR f (x # xs) = Inr (map Some (t # ts))" "list_all2 P (x # xs) (t # ts)" by simp_all
  then show ?case by blast
qed simp

lemma printed_reads_back: "plain_json v \<Longrightarrow> \<exists>t. json_stringify v = Inr (Some t) \<and> reads_back v t"
proof (induction v rule: json_stringify.induct)
  case (8 vs)
  have "\<exists>ts. mapR json_stringify vs = Inr (map Some ts) \<and> list_all2 reads_back vs ts"
    using 8 by (intro mapR_texts) auto
  then obtain ts where ts: "mapR json_stringify vs = Inr (map Some ts)" "list_all2 reads_back vs ts" by blast
  have "map (\<lambda>t. case t of None \<Rightarrow> ''null'' | Some s \<Rightarrow> s) (map Some ts) = ts" by (simp add: comp_def)
  then show ?case using reads_back_array [OF ts(2)] ts(1) by (simp add: comp_def)
next
  case (9 fs)
  have "\<exists>ts. mapR (\<lambda>f. json_stringify (snd f)) fs = Inr (map Some ts)
      \<and> list_all2 (\<lambda>f t. reads_back (snd f) t) fs ts"
    using 9 by (intro mapR_texts) auto
  then obtain ts where ts: "mapR (\<lambda>f. json_stringify (snd f)) fs = Inr (map Some ts)"
    "list_all2 (\<lambda>f t. reads_back (snd f) t) fs ts" by blast
  have "concat (map (\<lambda>(k, t). case t of None \<Rightarrow> [] | Some s \<Rightarrow> [json_quote k @ CHR '':'' # s]) (zip ks (map Some us)))
      = map field_text (zip ks us)" for ks us
    by (induction ks us rule: list_induct2') (simp_all add: field_text_def)
  then show ?case using reads_back_object [OF _ ts(2)] ts(1) 9(2) by simp
qed (simp_all add: reads_back_number reads_back_string reads_back_word)

lemma json_parse_stringify:
  assumes "plain_json v"
  shows "\<exists>t. json_stringify v = Inr (Some t) \<and> json_parse t = Some v"
proof -
  obtain t where t: "json_stringify v = Inr (Some t)" "reads_back v t"
    using printed_reads_back [OF assms] by blast
  then have "json_value (2 * length t + 1) (t @ []) = Some (v, [])"
    unfolding reads_back_def by (metis le_add1 value_ends_def)
  then show ?thesis using t(1) by (simp add: json_parse_def json_skip_def)
qed

section \<open>The round trip\<close>

text \<open>What the stores can keep: objects that look like a tag are the exception.\<close>

fun storable :: "jsval \<Rightarrow> bool" where
  "storable (JArr vs) \<longleftrightarrow> (\<forall>v \<in> set vs. storable v)"
| "storable (JObj fs) \<longleftrightarrow> distinct (map fst fs) \<and> (\<forall>f \<in> set fs. storable (snd f))
     \<and> isBigIntRecord (JObj fs) = None"
| "storable v \<longleftrightarrow> (case v of JUndefined \<Rightarrow> False | JOtherNum _ \<Rightarrow> False | _ \<Rightarrow> True)"

lemma mapR_same: "(\<And>x. x \<in> set xs \<Longrightarrow> f (g x) = Inr x) \<Longrightarrow> mapR f (map g xs) = Inr xs"
  by (induction xs) simp_all

lemma revive_one_none: "isBigIntRecord v = None \<Longrightarrow> revive_one v = Inr v"
  by (simp add: revive_one_def)

lemma tagged_plain: "storable v \<Longrightarrow> plain_json (tag_bigints v)"
  by (induction v rule: tag_bigints.induct) (auto simp: comp_def)

lemma revive_tagged: "storable v \<Longrightarrow> revive (tag_bigints v) = Inr v"
proof (induction v rule: tag_bigints.induct)
  case (1 i)
  then show ?case by (simp add: revive_one_def isBigIntRecord_def bigint_of_def)
next
  case (2 vs)
  then have "mapR revive (map tag_bigints vs) = Inr vs" by (intro mapR_same) simp
  then show ?case by (simp add: revive_one_none isBigIntRecord_def)
next
  case (3 fs)
  have "mapR (\<lambda>f. bindR (revive (snd f)) (\<lambda>w. Inr (fst f, w)))
      (map (\<lambda>f. (fst f, tag_bigints (snd f))) fs) = Inr fs"
    using 3 by (intro mapR_same) simp
  then show ?case using 3(2) by (simp add: revive_one_none)
qed (simp_all add: revive_one_def isBigIntRecord_def)

lemma stored_value_read_back:
  assumes "storable v"
  shows "\<exists>t. stringifyStorageJson v = Inr (Some t) \<and> parseStorageJson t = Inr v"
  using json_parse_stringify [OF tagged_plain [OF assms]] revive_tagged [OF assms]
  by (auto simp: stringifyStorageJson_def parseStorageJson_def)

text \<open>C38: What is stored is read back: the JSON text of a value without \<open>undefined\<close>, fractions and
  objects that look like a tag, with big integers anywhere inside, is parsed to that value;
  and the text determines the value.\<close>

theorem storage_json_round_trip:
  assumes "storable v"
  shows "(\<exists>t. stringifyStorageJson v = Inr (Some t) \<and> parseStorageJson t = Inr v)
    \<and> (storable w \<and> stringifyStorageJson w = stringifyStorageJson v \<longrightarrow> w = v)"
proof -
  obtain t where t: "stringifyStorageJson v = Inr (Some t)" "parseStorageJson t = Inr v"
    using stored_value_read_back [OF assms] by blast
  moreover have "w = v" if "storable w" "stringifyStorageJson w = stringifyStorageJson v"
    using stored_value_read_back [OF that(1)] that(2) t by auto
  ultimately show ?thesis by blast
qed

definition sample_document :: jsval where
  "sample_document = JObj [(''amount'', JBig (- 12)), (''tags'', JArr [JStr [CHR 0x22, CHR 0x0A], JNull, JBool True]),
     (''n'', JNum 7)]"

theorem storage_json_round_trip_witness:
  "\<exists>t. stringifyStorageJson sample_document = Inr (Some t) \<and> parseStorageJson t = Inr sample_document"
proof -
  have "storable sample_document" by code_simp
  from storage_json_round_trip [OF this] show ?thesis by blast
qed

text \<open>
  A document that looks like a tag is stored without complaint and cannot be read again, or is
  read as a number.
\<close>

theorem tag_lookalike_is_poison:
  "\<exists>t. stringifyStorageJson (JObj [(BIGINT_TAG, JStr ''x'')]) = Inr (Some t)
     \<and> parseStorageJson t = Inl (SyntaxError ''Cannot convert x to a BigInt'')"
  "\<exists>t. stringifyStorageJson (JObj [(BIGINT_TAG, JStr ''5'')]) = Inr (Some t) \<and> parseStorageJson t = Inr (JBig 5)"
proof -
  have plain: "plain_json (JObj [(BIGINT_TAG, JStr s)])" for s by simp
  have same: "tag_bigints (JObj [(BIGINT_TAG, JStr s)]) = JObj [(BIGINT_TAG, JStr s)]" for s by simp
  have "revive (JObj [(BIGINT_TAG, JStr ''x'')]) = Inl (SyntaxError ''Cannot convert x to a BigInt'')"
    "revive (JObj [(BIGINT_TAG, JStr ''5'')]) = Inr (JBig 5)" by code_simp+
  then show "\<exists>t. stringifyStorageJson (JObj [(BIGINT_TAG, JStr ''x'')]) = Inr (Some t)
     \<and> parseStorageJson t = Inl (SyntaxError ''Cannot convert x to a BigInt'')"
    "\<exists>t. stringifyStorageJson (JObj [(BIGINT_TAG, JStr ''5'')]) = Inr (Some t) \<and> parseStorageJson t = Inr (JBig 5)"
    using json_parse_stringify [OF plain]
    by (auto simp: stringifyStorageJson_def parseStorageJson_def same simp del: tag_bigints.simps revive.simps)
qed

end
