(* ===== verification/EventLog.thy ===== *)
theory EventLog imports StorageJson ActiveEvents ProofFacts begin

text \<open>
  The table of chain events (\<open>storage/sqlite-projection-store.ts\<close>, \<open>chain_event_log\<close> of the
  migrations): a row per log position, written by \<open>appendEvent\<close> with tombstones in place,
  revived when the log reappears. Arguments are kept as JSON text. The table refines the
  delivered stream: reading it back and filtering gives the active events of the stream.
\<close>

section \<open>Rows\<close>

text \<open>The column \<open>created_at\<close> is never read.\<close>

record event_row =
  er_chainId :: int
  er_contractAddress :: string
  er_blockNumber :: int
  er_transactionHash :: string
  er_transactionIndex :: "int option"
  er_logIndex :: int
  er_eventId :: string
  er_eventName :: string
  er_argsJson :: string
  er_removed :: bool
  er_blockHash :: "string option"

type_synonym event_log = "event_row list"

definition row_position :: "event_row \<Rightarrow> int \<times> string \<times> int \<times> string \<times> int" where
  "row_position r =
     (er_chainId r, er_contractAddress r, er_blockNumber r, er_transactionHash r, er_logIndex r)"

text \<open>The text of the arguments; \<open>JSON.stringify\<close> of an object is never \<open>undefined\<close>.\<close>

definition args_json :: "chain_event \<Rightarrow> string res" where
  "args_json e = bindR (stringifyStorageJson (JObj (args e))) (\<lambda>t. Inr (case t of None \<Rightarrow> [] | Some s \<Rightarrow> s))"

definition insert_event_row :: "event_row \<Rightarrow> event_log \<Rightarrow> event_log" where
  "insert_event_row r rows =
     (if \<exists>x \<in> set rows. row_position x = row_position r
        \<or> (er_chainId x = er_chainId r \<and> er_contractAddress x = er_contractAddress r \<and> er_eventId x = er_eventId r)
      then rows else rows @ [r])"

definition new_event_row :: "string \<Rightarrow> string \<Rightarrow> chain_event \<Rightarrow> event_row" where
  "new_event_row contract argsText e =
     \<lparr>er_chainId = chainId e, er_contractAddress = contract, er_blockNumber = blockNumber e,
      er_transactionHash = toLowerCase (transactionHash e), er_transactionIndex = transactionIndex e,
      er_logIndex = logIndex e, er_eventId = chainEventKey (e\<lparr>contractAddress := contract\<rparr>),
      er_eventName = eventName e, er_argsJson = argsText, er_removed = removed e,
      er_blockHash = map_option toLowerCase (blockHash e)\<rparr>"

definition buried_by :: "string \<Rightarrow> chain_event \<Rightarrow> event_row \<Rightarrow> bool" where
  "buried_by contract e r \<longleftrightarrow> er_chainId r = chainId e \<and> er_contractAddress r = contract
     \<and> er_eventId r = chainEventKey (e\<lparr>contractAddress := contract\<rparr>)"

definition revived_by :: "string \<Rightarrow> chain_event \<Rightarrow> event_row \<Rightarrow> bool" where
  "revived_by contract e r \<longleftrightarrow> er_chainId r = chainId e \<and> er_contractAddress r = contract
     \<and> er_blockNumber r = blockNumber e \<and> er_transactionHash r = toLowerCase (transactionHash e)
     \<and> er_logIndex r = logIndex e \<and> er_removed r"

definition appendEvent :: "bindings \<Rightarrow> chain_event \<Rightarrow> event_log \<Rightarrow> event_log res" where
  "appendEvent B e rows =
     bindR (normalizeAddress B (contractAddress e) ''event.contractAddress'') (\<lambda>contract.
       if removed e \<and> (\<exists>r \<in> set rows. buried_by contract e r) then
         Inr (map (\<lambda>r. if buried_by contract e r
           then r\<lparr>er_removed := True, er_blockHash := opt_or (map_option toLowerCase (blockHash e)) (er_blockHash r)\<rparr>
           else r) rows)
       else
         bindR (args_json e) (\<lambda>argsText.
           if \<not> removed e \<and> (\<exists>r \<in> set rows. revived_by contract e r) then
             Inr (map (\<lambda>r. if revived_by contract e r
               then r\<lparr>er_removed := False, er_eventName := eventName e, er_argsJson := argsText,
                 er_blockHash := opt_or (map_option toLowerCase (blockHash e)) (er_blockHash r),
                 er_transactionIndex := opt_or (er_transactionIndex r) (transactionIndex e)\<rparr>
               else r) rows)
           else Inr (insert_event_row (new_event_row contract argsText e) rows)))"

definition appendEvents :: "bindings \<Rightarrow> event_log \<Rightarrow> chain_event list \<Rightarrow> event_log res" where
  "appendEvents B rows es = foldR (\<lambda>rs e. appendEvent B e rs) rows es"

text \<open>The number of rows deleted comes first. No caller restricts the contract.\<close>

definition deleteEventsAfterBlock :: "int \<Rightarrow> int \<Rightarrow> event_log \<Rightarrow> nat \<times> event_log" where
  "deleteEventsAfterBlock chain block rows =
     (let gone = (\<lambda>r. block < er_blockNumber r \<and> er_chainId r = chain) in
      (length (filter gone rows), filter (\<lambda>r. \<not> gone r) rows))"

definition eventRow :: "bindings \<Rightarrow> event_row \<Rightarrow> chain_event res" where
  "eventRow B r =
     bindR (normalizeAddress B (er_contractAddress r) ''event.contractAddress'') (\<lambda>contract.
     bindR (parseStorageJson (er_argsJson r)) (\<lambda>v.
       Inr \<lparr>chainId = er_chainId r, contractAddress = contract, blockNumber = er_blockNumber r,
         transactionIndex = er_transactionIndex r, transactionHash = er_transactionHash r,
         logIndex = er_logIndex r, blockHash = er_blockHash r, eventName = er_eventName r,
         args = (case v of JObj fs \<Rightarrow> fs | _ \<Rightarrow> []), removed = er_removed r\<rparr>))"

text \<open>\<open>ORDER BY\<close>: rows without a transaction index come last in their block.\<close>

definition compare_rows :: "event_row \<Rightarrow> event_row \<Rightarrow> int" where
  "compare_rows l r =
     (let n = (\<lambda>x. case er_transactionIndex x of None \<Rightarrow> (1, 0) | Some i \<Rightarrow> (0 :: int, i)) in
      if er_chainId l \<noteq> er_chainId r then er_chainId l - er_chainId r
      else if er_blockNumber l \<noteq> er_blockNumber r then er_blockNumber l - er_blockNumber r
      else if fst (n l) \<noteq> fst (n r) then fst (n l) - fst (n r)
      else if snd (n l) \<noteq> snd (n r) then snd (n l) - snd (n r)
      else er_logIndex l - er_logIndex r)"

definition listEvents :: "bindings \<Rightarrow> int \<Rightarrow> event_log \<Rightarrow> chain_event list res" where
  "listEvents B chain rows =
     bindR (mapR (eventRow B) (js_sort compare_rows (filter (\<lambda>r. er_chainId r = chain) rows)))
       (\<lambda>es. Inr (sortChainEvents es))"

end
