(* ===== verification/DurableStore.thy ===== *)
theory DurableStore imports EventLog ProjectionStore begin

text \<open>
  The durable projection store (\<open>storage/sqlite-projection-store.ts\<close>): the event log with the
  cursor, the snapshots, the sync state and the queue of pending steps after a commit. Every
  operation is one write of the database; one that throws leaves it as it was. Snapshots, sync
  states and event batches are kept as values where the database keeps their JSON text.
\<close>

section \<open>Tables\<close>

record cursor_input =
  cu_scope :: projection_scope
  cu_deploymentBlock :: int
  cu_nextBlock :: int
  cu_finalizedBlock :: "int option"
  cu_blockHash :: "string option"

record stored_cursor = cursor_input +
  cu_updatedAt :: string

record 'a stored_snapshot =
  ss_snapshot :: 'a
  ss_version :: nat
  ss_updatedAt :: string

datatype pending_kind = Signal_notification | Projection_automation

record pending_input =
  pe_stepId :: string
  pe_chainId :: int
  pe_kind :: pending_kind
  pe_events :: "chain_event list option"

record pending_step = pending_input +
  pe_attempts :: nat
  pe_lastError :: "string option"
  pe_createdAt :: string
  pe_updatedAt :: string

record durable_store =
  ds_events :: event_log
  ds_cursors :: "(projection_scope, stored_cursor) jsmap"
  ds_orders :: "(projection_scope, snapshot stored_snapshot) jsmap"
  ds_identities :: "(projection_scope, identity_snapshot stored_snapshot) jsmap"
  ds_syncStates :: "(projection_scope, sync_state) jsmap"
  ds_pending :: "pending_step list"
  ds_snapshotScope :: projection_scope

definition empty_durable_store :: "int \<Rightarrow> durable_store" where
  "empty_durable_store chain =
     \<lparr>ds_events = [], ds_cursors = [], ds_orders = [], ds_identities = [], ds_syncStates = [],
      ds_pending = [], ds_snapshotScope = defaultProjectionScope chain\<rparr>"

text \<open>
  The key of a row: the scope with its address normalised. A row is read with its key, whose
  address is normalised once more.
\<close>

definition scope_key :: "bindings \<Rightarrow> string \<Rightarrow> projection_scope \<Rightarrow> projection_scope res" where
  "scope_key B label sc =
     bindR (normalizeAddress B (sc_contractAddress sc) label)
       (\<lambda>a. Inr (sc\<lparr>sc_contractAddress := a\<rparr>))"

section \<open>Cursors\<close>

definition cursorResult :: "cursor_input \<Rightarrow> projection_scope \<Rightarrow> string \<Rightarrow> stored_cursor" where
  "cursorResult c key now =
     cursor_input.extend (c\<lparr>cu_scope := key\<rparr>) \<lparr>cu_updatedAt = now\<rparr>"

text \<open>The row holds the hash in lower case; the value returned holds it as given.\<close>

definition cursor_row :: "cursor_input \<Rightarrow> projection_scope \<Rightarrow> string \<Rightarrow> stored_cursor" where
  "cursor_row c key now =
     (cursorResult c key now)\<lparr>cu_blockHash := map_option toLowerCase (cu_blockHash c)\<rparr>"

text \<open>
  With an expected block the row is updated only where it stands there; a row that stands
  elsewhere refuses the write, an absent one is inserted.
\<close>

definition saveCursor ::
  "bindings \<Rightarrow> string \<Rightarrow> cursor_input \<Rightarrow> int option \<Rightarrow> durable_store
    \<Rightarrow> (stored_cursor option \<times> durable_store) res" where
  "saveCursor B now c expected d =
     bindR (scope_key B ''cursor.contractAddress'' (cu_scope c)) (\<lambda>key.
       if (case (expected, jget (ds_cursors d) key) of
             (Some n, Some old) \<Rightarrow> cu_nextBlock old \<noteq> n | _ \<Rightarrow> False)
       then Inr (None, d)
       else Inr (Some (cursorResult c key now),
         d\<lparr>ds_cursors := jset key (cursor_row c key now) (ds_cursors d)\<rparr>))"

definition getCursor :: "bindings \<Rightarrow> projection_scope \<Rightarrow> durable_store \<Rightarrow> stored_cursor option res" where
  "getCursor B sc d =
     bindR (scope_key B ''cursor.contractAddress'' sc) (\<lambda>key.
       case jget (ds_cursors d) key of
         None \<Rightarrow> Inr None
       | Some row \<Rightarrow>
           bindR (scope_key B ''cursor.contractAddress'' key)
             (\<lambda>key'. Inr (Some (row\<lparr>cu_scope := key'\<rparr>))))"

section \<open>Sync states and snapshots\<close>

definition saveSyncRow ::
  "bindings \<Rightarrow> string \<Rightarrow> sync_base \<Rightarrow> durable_store \<Rightarrow> (sync_state \<times> durable_store) res" where
  "saveSyncRow B now base d =
     bindR (scope_key B ''syncState.contractAddress'' (sy_scope base)) (\<lambda>key.
       let s = sync_base.extend (base\<lparr>sy_scope := key\<rparr>) \<lparr>sy_updatedAt = now\<rparr> in
       Inr (s, d\<lparr>ds_syncStates := jset key s (ds_syncStates d)\<rparr>))"

definition getSyncRow :: "bindings \<Rightarrow> projection_scope \<Rightarrow> durable_store \<Rightarrow> sync_state option res" where
  "getSyncRow B sc d =
     bindR (scope_key B ''syncState.contractAddress'' sc) (\<lambda>key.
       case jget (ds_syncStates d) key of
         None \<Rightarrow> Inr None
       | Some s \<Rightarrow>
           bindR (scope_key B ''syncState.contractAddress'' key)
             (\<lambda>key'. Inr (Some (s\<lparr>sy_scope := key'\<rparr>))))"

definition saveOrderSnapshot ::
  "bindings \<Rightarrow> string \<Rightarrow> projection_scope \<Rightarrow> snapshot \<Rightarrow> durable_store \<Rightarrow> (unit \<times> durable_store) res" where
  "saveOrderSnapshot B now sc snap d =
     bindR (scope_key B ''snapshot.contractAddress'' sc) (\<lambda>key.
       Inr ((), d\<lparr>ds_orders :=
         jset key \<lparr>ss_snapshot = snap, ss_version = 1, ss_updatedAt = now\<rparr> (ds_orders d)\<rparr>))"

definition saveIdentitySnapshot ::
  "bindings \<Rightarrow> string \<Rightarrow> projection_scope \<Rightarrow> identity_snapshot \<Rightarrow> durable_store
    \<Rightarrow> (unit \<times> durable_store) res" where
  "saveIdentitySnapshot B now sc snap d =
     bindR (scope_key B ''snapshot.contractAddress'' sc) (\<lambda>key.
       Inr ((), d\<lparr>ds_identities :=
         jset key \<lparr>ss_snapshot = snap, ss_version = 1, ss_updatedAt = now\<rparr> (ds_identities d)\<rparr>))"

definition getOrderSnapshot :: "bindings \<Rightarrow> durable_store \<Rightarrow> snapshot res" where
  "getOrderSnapshot B d =
     bindR (scope_key B ''snapshot.contractAddress'' (ds_snapshotScope d)) (\<lambda>key.
       Inr (case jget (ds_orders d) key of
         None \<Rightarrow> createEmptyProjectionSnapshot | Some row \<Rightarrow> ss_snapshot row))"

definition getIdentitySnapshot :: "bindings \<Rightarrow> durable_store \<Rightarrow> identity_snapshot res" where
  "getIdentitySnapshot B d =
     bindR (scope_key B ''snapshot.contractAddress'' (ds_snapshotScope d)) (\<lambda>key.
       Inr (case jget (ds_identities d) key of
         None \<Rightarrow> createEmptyIdentityProjectionSnapshot | Some row \<Rightarrow> ss_snapshot row))"

section \<open>Pending steps\<close>

definition savePendingPostCommitStep ::
  "string \<Rightarrow> pending_input \<Rightarrow> durable_store \<Rightarrow> durable_store" where
  "savePendingPostCommitStep now inp d =
     (if \<exists>p \<in> set (ds_pending d). pe_stepId p = pe_stepId inp then d
      else d\<lparr>ds_pending := ds_pending d @ [pending_input.extend inp
        \<lparr>pe_attempts = 0, pe_lastError = None, pe_createdAt = now, pe_updatedAt = now\<rparr>]\<rparr>)"

definition compare_pending :: "pending_step \<Rightarrow> pending_step \<Rightarrow> int" where
  "compare_pending l r =
     (if pe_createdAt l \<noteq> pe_createdAt r then (if js_less (pe_createdAt l) (pe_createdAt r) then -1 else 1)
      else if pe_stepId l \<noteq> pe_stepId r then (if js_less (pe_stepId l) (pe_stepId r) then -1 else 1)
      else 0)"

definition listPendingPostCommitSteps :: "int \<Rightarrow> durable_store \<Rightarrow> pending_step list" where
  "listPendingPostCommitSteps chain d =
     js_sort compare_pending (filter (\<lambda>p. pe_chainId p = chain) (ds_pending d))"

definition recordPendingPostCommitAttempt ::
  "string \<Rightarrow> string \<Rightarrow> string \<Rightarrow> durable_store \<Rightarrow> durable_store" where
  "recordPendingPostCommitAttempt now stepId err d =
     d\<lparr>ds_pending := map (\<lambda>p. if pe_stepId p = stepId
       then p\<lparr>pe_attempts := pe_attempts p + 1, pe_lastError := Some err, pe_updatedAt := now\<rparr>
       else p) (ds_pending d)\<rparr>"

definition deletePendingPostCommitStep :: "string \<Rightarrow> durable_store \<Rightarrow> durable_store" where
  "deletePendingPostCommitStep stepId d =
     d\<lparr>ds_pending := filter (\<lambda>p. pe_stepId p \<noteq> stepId) (ds_pending d)\<rparr>"

section \<open>Events\<close>

definition appendEventRow :: "bindings \<Rightarrow> chain_event \<Rightarrow> durable_store \<Rightarrow> durable_store res" where
  "appendEventRow B e d = bindR (appendEvent B e (ds_events d)) (\<lambda>rows. Inr (d\<lparr>ds_events := rows\<rparr>))"

definition appendEventRows :: "bindings \<Rightarrow> chain_event list \<Rightarrow> durable_store \<Rightarrow> durable_store res" where
  "appendEventRows B es d = foldR (\<lambda>x e. appendEventRow B e x) d es"

definition deleteEventRows :: "int \<Rightarrow> int \<Rightarrow> durable_store \<Rightarrow> nat \<times> durable_store" where
  "deleteEventRows chain block d =
     (let (n, rows) = deleteEventsAfterBlock chain block (ds_events d) in (n, d\<lparr>ds_events := rows\<rparr>))"

section \<open>Rebuilding\<close>

record durable_rebuild_input = rebuild_input +
  ri_cursor :: "cursor_input option"

text \<open>
  The events are replayed before the transaction opens. Inside it the rows of the chain are
  replaced, the snapshots, the cursor and the sync state written; an error undoes all of it.
  The scope of the snapshots read later is set once the transaction is through.
\<close>

definition resetFromEvents_durable ::
  "bindings \<Rightarrow> string \<Rightarrow> durable_rebuild_input \<Rightarrow> durable_store \<Rightarrow> (snapshot \<times> durable_store) res" where
  "resetFromEvents_durable B now inp d =
     (let events = filter (\<lambda>e. ri_deploymentBlock inp \<le> blockNumber e) (ri_events inp) in
      bindR (rebuildOrderProjections B events) (\<lambda>orders.
      bindR (rebuildIdentityProjections B events) (\<lambda>identities.
      let sc = (case ri_scope inp of
             Some s \<Rightarrow> s
           | None \<Rightarrow> \<lparr>sc_chainId = (case events of e # _ \<Rightarrow> chainId e | [] \<Rightarrow> sc_chainId (ds_snapshotScope d)),
                 sc_contractAddress = sc_contractAddress (ds_snapshotScope d)\<rparr>);
          sync = syncStateFromRebuildInput ((rebuild_input.truncate inp)\<lparr>ri_scope := Some sc\<rparr>) events now in
      bindR (appendEventRows B events
          (d\<lparr>ds_events := filter (\<lambda>r. er_chainId r \<noteq> sc_chainId sc) (ds_events d)\<rparr>)) (\<lambda>d.
      bindR (saveOrderSnapshot B now sc orders d) (\<lambda>(_, d).
      bindR (saveIdentitySnapshot B now sc identities d) (\<lambda>(_, d).
      bindR (case ri_cursor inp of
          None \<Rightarrow> Inr (None, d)
        | Some c \<Rightarrow> saveCursor B now (c\<lparr>cu_scope := sc\<rparr>) None d) (\<lambda>(_, d).
      bindR (saveSyncRow B now (case ri_syncState inp of
          Some s \<Rightarrow> s\<lparr>sy_scope := sc\<rparr>
        | None \<Rightarrow> sync_base.truncate sync) d) (\<lambda>(_, d).
        Inr (orders, d\<lparr>ds_snapshotScope := sc\<rparr>)))))))))"

end
