(* ===== verification/IndexerState.thy ===== *)
theory IndexerState imports Effects DurableStore begin

text \<open>
  The state and the surroundings of the indexer (\<open>indexer/service.ts\<close>): the store, the cursor
  in memory, the count of refused cursor writes, and the world outside. The event source, the
  processors, the clock, the digest and the redaction of messages are functions of the world
  that may change it and may fail, collected in a record. \<open>ie_queueWrite\<close> says whether the
  database takes the next write of the queue of pending steps. \<open>ix_committed\<close> is the list of the
  stores that a crash may leave: one for every write outside a transaction and for every
  transaction that was through.
\<close>

section \<open>Surroundings\<close>

text \<open>
  What may be thrown: errors of modelled code, the two error classes of the file, a lock that
  was not granted, any other error.
\<close>

datatype ix_error =
    Thrown js_error
  | ReorgCursorMoved
  | FinalityWait string
  | SqliteBusy string
  | OtherError string

type_synonym ('w, 'a) external = "'w \<Rightarrow> (ix_error + 'a) \<times> 'w"

record event_cursor =
  ec_chainId :: int
  ec_deploymentBlock :: int
  ec_nextBlock :: int
  ec_finalizedBlock :: "int option"
  ec_blockHash :: "string option"

record 'w indexer_env =
  ie_bindings :: bindings
  ie_chainId :: int
  ie_deploymentBlock :: int
  ie_finalityConfirmations :: int
  ie_getFinalizedBlock :: "('w, int) external"
  ie_readEvents :: "int \<Rightarrow> int \<Rightarrow> ('w, chain_event list) external"
  ie_getBlockHash :: "(int \<Rightarrow> ('w, string) external) option"
  ie_processSignals :: "(chain_event list \<Rightarrow> ('w, unit) external) option"
  ie_invalidateAbove :: "(int \<Rightarrow> ('w, unit) external) option"
  ie_processProjection :: "(snapshot \<Rightarrow> ('w, unit) external) option"
  ie_queueWrite :: "('w, unit) external"
  ie_now :: "'w \<Rightarrow> string \<times> 'w"
  ie_sleep :: "nat \<Rightarrow> 'w \<Rightarrow> 'w"
  ie_digest :: "string \<Rightarrow> string"
  ie_redact :: "ix_error \<Rightarrow> string"

record 'w indexer =
  ix_store :: durable_store
  ix_cursor :: "event_cursor option"
  ix_casFailures :: nat
  ix_world :: 'w
  ix_committed :: "durable_store list"

type_synonym ('w, 'a) ix = "('w indexer, ix_error, 'a) action"

definition new_indexer :: "durable_store \<Rightarrow> 'w \<Rightarrow> 'w indexer" where
  "new_indexer d w =
     \<lparr>ix_store = d, ix_cursor = None, ix_casFailures = 0, ix_world = w, ix_committed = []\<rparr>"

section \<open>Calls\<close>

definition externalA :: "('w, 'a) external \<Rightarrow> ('w, 'a) ix" where
  "externalA f = (\<lambda>s. let (r, w) = f (ix_world s) in (r, s\<lparr>ix_world := w\<rparr>))"

definition liftA :: "'a res \<Rightarrow> ('w, 'a) ix" where
  "liftA r = (case r of Inl e \<Rightarrow> throwA (Thrown e) | Inr x \<Rightarrow> returnA x)"

definition readA :: "(durable_store \<Rightarrow> 'a res) \<Rightarrow> ('w, 'a) ix" where
  "readA f = bindA (getsA ix_store) (\<lambda>d. liftA (f d))"

definition commit_store :: "durable_store \<Rightarrow> 'w indexer \<Rightarrow> 'w indexer" where
  "commit_store d s = s\<lparr>ix_store := d, ix_committed := ix_committed s @ [d]\<rparr>"

definition writeA :: "(durable_store \<Rightarrow> ('a \<times> durable_store) res) \<Rightarrow> ('w, 'a) ix" where
  "writeA f = bindA (readA f) (\<lambda>(x, d). bindA (modifyA (commit_store d)) (\<lambda>_. returnA x))"

definition updateA :: "(durable_store \<Rightarrow> durable_store) \<Rightarrow> ('w, unit) ix" where
  "updateA f = writeA (\<lambda>d. Inr ((), f d))"

text \<open>
  \<open>withTransaction\<close>: an error restores the store of the beginning, and whatever happened in
  between was never committed on its own.
\<close>

definition transactionA :: "('w, 'a) ix \<Rightarrow> ('w, 'a) ix" where
  "transactionA m = (\<lambda>s. case m s of
       (Inl e, t) \<Rightarrow> (Inl e, t\<lparr>ix_store := ix_store s, ix_committed := ix_committed s\<rparr>)
     | (Inr x, t) \<Rightarrow> (Inr x, commit_store (ix_store t) (t\<lparr>ix_committed := ix_committed s\<rparr>)))"

definition nowA :: "'w indexer_env \<Rightarrow> ('w, string) ix" where
  "nowA E = (\<lambda>s. let (t, w) = ie_now E (ix_world s) in (Inr t, s\<lparr>ix_world := w\<rparr>))"

definition sleepA :: "'w indexer_env \<Rightarrow> nat \<Rightarrow> ('w, unit) ix" where
  "sleepA E ms = modifyA (\<lambda>s. s\<lparr>ix_world := ie_sleep E ms (ix_world s)\<rparr>)"

lemma wp_external [wp_simps]:
  "wp (externalA f) Q Er s = (case f (ix_world s) of
       (Inl e, w) \<Rightarrow> Er e (s\<lparr>ix_world := w\<rparr>) | (Inr x, w) \<Rightarrow> Q x (s\<lparr>ix_world := w\<rparr>))"
  by (simp add: wp_def externalA_def split: prod.split)

lemma wp_now [wp_simps]:
  "wp (nowA E) Q Er s = (case ie_now E (ix_world s) of (t, w) \<Rightarrow> Q t (s\<lparr>ix_world := w\<rparr>))"
  by (simp add: wp_def nowA_def split: prod.split)

lemma wp_sleep [wp_simps]:
  "wp (sleepA E ms) Q Er s = Q () (s\<lparr>ix_world := ie_sleep E ms (ix_world s)\<rparr>)"
  by (simp add: sleepA_def wp_simps)

lemma wp_lift [wp_simps]:
  "wp (liftA r) Q Er s = (case r of Inl e \<Rightarrow> Er (Thrown e) s | Inr x \<Rightarrow> Q x s)"
  by (simp add: liftA_def wp_simps split: sum.split)

lemma wp_read [wp_simps]:
  "wp (readA f) Q Er s = (case f (ix_store s) of Inl e \<Rightarrow> Er (Thrown e) s | Inr x \<Rightarrow> Q x s)"
  by (simp add: readA_def wp_simps)

lemma wp_write [wp_simps]:
  "wp (writeA f) Q Er s = (case f (ix_store s) of
       Inl e \<Rightarrow> Er (Thrown e) s | Inr (x, d) \<Rightarrow> Q x (commit_store d s))"
  by (simp add: writeA_def wp_simps split: sum.split prod.split)

lemma wp_update [wp_simps]: "wp (updateA f) Q Er s = Q () (commit_store (f (ix_store s)) s)"
  by (simp add: updateA_def wp_simps)

lemma wp_transaction [wp_simps]:
  "wp (transactionA m) Q Er s =
     wp m (\<lambda>x t. Q x (commit_store (ix_store t) (t\<lparr>ix_committed := ix_committed s\<rparr>)))
       (\<lambda>e t. Er e (t\<lparr>ix_store := ix_store s, ix_committed := ix_committed s\<rparr>)) s"
  by (simp add: wp_def transactionA_def split: prod.split sum.split)

end
