(* ===== verification/Indexer.thy ===== *)
theory Indexer imports IndexerState begin

text \<open>
  The indexer (\<open>indexer/service.ts\<close>) over the durable store: a full rebuild, the incremental
  refresh with the check of the cursor's block hash, the rollback to a common ancestor, the
  steps after a commit with their queue, and the state reported when something failed. Calls
  run one at a time behind the service's guard. Log lines are left out.
\<close>

section \<open>Small functions\<close>

definition minBlock :: "int \<Rightarrow> int option \<Rightarrow> int" where
  "minBlock l r = (case r of None \<Rightarrow> l | Some b \<Rightarrow> if l \<le> b then l else b)"

definition maxBlockOf :: "int option \<Rightarrow> int option \<Rightarrow> int option" where
  "maxBlockOf l r = (case (l, r) of
       (None, _) \<Rightarrow> r
     | (_, None) \<Rightarrow> l
     | (Some a, Some b) \<Rightarrow> if b \<le> a then l else r)"

definition isSameBlockHash :: "string \<Rightarrow> string \<Rightarrow> bool" where
  "isSameBlockHash l r \<longleftrightarrow> toLowerCase l = toLowerCase r"

definition MAX_REORG_BACKTRACK_BLOCKS :: int where "MAX_REORG_BACKTRACK_BLOCKS = 1000"

definition CURSOR_CAS_FAILURE_LIMIT :: nat where "CURSOR_CAS_FAILURE_LIMIT = 3"

definition POST_COMMIT_STEP_MAX_ATTEMPTS :: nat where "POST_COMMIT_STEP_MAX_ATTEMPTS = 3"

definition PENDING_POST_COMMIT_MAX_SWEEP_ATTEMPTS :: nat where
  "PENDING_POST_COMMIT_MAX_SWEEP_ATTEMPTS = 16"

definition postCommitStepRetryDelayMs :: "nat \<Rightarrow> nat" where
  "postCommitStepRetryDelayMs attempt = min (100 * 2 ^ (attempt - 1)) 2000"

definition kind_text :: "pending_kind \<Rightarrow> string" where
  "kind_text k = (case k of
       Signal_notification \<Rightarrow> ''signal_notification''
     | Projection_automation \<Rightarrow> ''projection_automation'')"

fun join_bar :: "string list \<Rightarrow> string" where
  "join_bar [] = []"
| "join_bar [x] = x"
| "join_bar (x # y # xs) = x @ CHR ''|'' # join_bar (y # xs)"

definition pendingPostCommitStepId :: "'w indexer_env \<Rightarrow> pending_kind \<Rightarrow> chain_event list option \<Rightarrow> string" where
  "pendingPostCommitStepId E kind events =
     (let source = (case events of
          Some (e # es) \<Rightarrow>
            if kind = Signal_notification then
              join_bar (map (\<lambda>x. join_colon [dec_int (chainId x), toLowerCase (contractAddress x),
                dec_int (blockNumber x), toLowerCase (transactionHash x), dec_int (logIndex x)]) (e # es))
            else kind_text kind
        | _ \<Rightarrow> kind_text kind) in
      ''pending_'' @ kind_text kind @ ''_'' @ ie_digest E source)"

definition ix_scope :: "'w indexer_env \<Rightarrow> projection_scope" where
  "ix_scope E = defaultProjectionScope (ie_chainId E)"

record rebuild_summary =
  rs_chainId :: int
  rs_deploymentBlock :: string
  rs_fromBlock :: string
  rs_toBlock :: string
  rs_eventCount :: nat
  rs_activeEventCount :: nat
  rs_removedEventCount :: nat
  rs_removedLogsFiltered :: bool
  rs_projectionRebuilt :: bool
  rs_stateMachineOrderCount :: nat
  rs_identityBindingCount :: nat
  rs_mismatchCount :: int
  rs_syncStatus :: string
  rs_finalizedBlock :: string
  rs_confirmationDepth :: int
  rs_lastEventName :: "string option"

record rebuild_result =
  rr_snapshot :: snapshot
  rr_summary :: rebuild_summary

text \<open>The argument is the summary's input: counts as the caller has them. \<open>rebuildable\<close> is always true.\<close>

definition summaryFromSnapshot ::
  "'w indexer_env \<Rightarrow> int \<Rightarrow> int \<Rightarrow> snapshot \<Rightarrow> nat \<Rightarrow> nat \<Rightarrow> nat \<Rightarrow> nat \<Rightarrow> bool
    \<Rightarrow> sync_base \<Rightarrow> int \<Rightarrow> rebuild_summary" where
  "summaryFromSnapshot E from to snap identities events active gone filtered sync mismatch =
     \<lparr>rs_chainId = ie_chainId E, rs_deploymentBlock = dec_int (ie_deploymentBlock E),
      rs_fromBlock = dec_int from, rs_toBlock = dec_int to,
      rs_eventCount = events, rs_activeEventCount = active, rs_removedEventCount = gone,
      rs_removedLogsFiltered = filtered, rs_projectionRebuilt = True,
      rs_stateMachineOrderCount = length (jvalues (sn_stateMachineOrders snap)),
      rs_identityBindingCount = identities, rs_mismatchCount = mismatch,
      rs_syncStatus = sy_syncStatus sync,
      rs_finalizedBlock = dec_int (case sy_finalizedBlock sync of None \<Rightarrow> to | Some b \<Rightarrow> b),
      rs_confirmationDepth = sy_confirmationDepth sync,
      rs_lastEventName = keep_truthy (sy_lastEventName sync)\<rparr>"

definition no_rebuild :: rebuild_metadata where
  "no_rebuild =
     \<lparr>rm_status = ''idle'', rm_startedAt = None, rm_completedAt = None, rm_deploymentBlock = None,
      rm_fromBlock = None, rm_toBlock = None, rm_eventCount = None, rm_activeEventCount = None,
      rm_removedEventCount = None, rm_removedLogsFiltered = None, rm_projectionRebuilt = None,
      rm_mismatchCount = None\<rparr>"

section \<open>Store access\<close>

definition storedEventsA :: "'w indexer_env \<Rightarrow> ('w, chain_event list) ix" where
  "storedEventsA E = readA (\<lambda>d. listEvents (ie_bindings E) (ie_chainId E) (ds_events d))"

definition storedCursorA :: "'w indexer_env \<Rightarrow> ('w, stored_cursor option) ix" where
  "storedCursorA E = readA (getCursor (ie_bindings E) (ix_scope E))"

definition syncStateA :: "'w indexer_env \<Rightarrow> ('w, sync_state option) ix" where
  "syncStateA E = readA (getSyncRow (ie_bindings E) (ix_scope E))"

definition saveSyncA :: "'w indexer_env \<Rightarrow> sync_base \<Rightarrow> ('w, sync_state) ix" where
  "saveSyncA E base = bindA (nowA E) (\<lambda>now. writeA (saveSyncRow (ie_bindings E) now base))"

definition saveSnapshotsA :: "'w indexer_env \<Rightarrow> snapshot \<Rightarrow> identity_snapshot \<Rightarrow> ('w, unit) ix" where
  "saveSnapshotsA E orders identities =
     bindA (nowA E) (\<lambda>now. bindA (writeA (saveOrderSnapshot (ie_bindings E) now (ix_scope E) orders)) (\<lambda>_.
     bindA (nowA E) (\<lambda>now. writeA (saveIdentitySnapshot (ie_bindings E) now (ix_scope E) identities))))"

definition cursor_input_of :: "'w indexer_env \<Rightarrow> event_cursor \<Rightarrow> cursor_input" where
  "cursor_input_of E c =
     \<lparr>cu_scope = ix_scope E, cu_deploymentBlock = ec_deploymentBlock c, cu_nextBlock = ec_nextBlock c,
      cu_finalizedBlock = ec_finalizedBlock c, cu_blockHash = ec_blockHash c\<rparr>"

definition cursor_of_stored :: "stored_cursor \<Rightarrow> event_cursor" where
  "cursor_of_stored c =
     \<lparr>ec_chainId = sc_chainId (cu_scope c), ec_deploymentBlock = cu_deploymentBlock c,
      ec_nextBlock = cu_nextBlock c, ec_finalizedBlock = cu_finalizedBlock c,
      ec_blockHash = cu_blockHash c\<rparr>"

definition saveCursorA :: "'w indexer_env \<Rightarrow> event_cursor \<Rightarrow> int option \<Rightarrow> ('w, stored_cursor option) ix" where
  "saveCursorA E c expected =
     bindA (nowA E) (\<lambda>now. writeA (saveCursor (ie_bindings E) now (cursor_input_of E c) expected))"

definition set_cursor :: "event_cursor option \<Rightarrow> ('w, unit) ix" where
  "set_cursor c = modifyA (\<lambda>s. s\<lparr>ix_cursor := c\<rparr>)"

definition set_casFailures :: "nat \<Rightarrow> ('w, unit) ix" where
  "set_casFailures n = modifyA (\<lambda>s. s\<lparr>ix_casFailures := n\<rparr>)"

text \<open>One more refused write; at the limit the service gives up.\<close>

definition casFailedA :: "('w, unit) ix" where
  "casFailedA =
     bindA (getsA (\<lambda>s. ix_casFailures s + 1)) (\<lambda>n.
     bindA (set_casFailures n) (\<lambda>_.
     whenA (CURSOR_CAS_FAILURE_LIMIT \<le> n) (throwA (Thrown (ConfigError
       ''durable projection cursor keeps being moved by another writer; run exactly one indexer process per chain scope (single-writer invariant)'')))))"

definition saveCursorAdvancingFrom :: "'w indexer_env \<Rightarrow> event_cursor \<Rightarrow> int \<Rightarrow> ('w, unit) ix" where
  "saveCursorAdvancingFrom E c expected =
     bindA (saveCursorA E c (Some expected)) (\<lambda>saved.
     case saved of
       None \<Rightarrow>
         bindA (storedCursorA E) (\<lambda>current.
         bindA (set_cursor (Some (case current of Some r \<Rightarrow> cursor_of_stored r | None \<Rightarrow> c)))
           (\<lambda>_. casFailedA))
     | Some _ \<Rightarrow> bindA (set_casFailures 0) (\<lambda>_. set_cursor (Some c)))"

definition cursorBlockHash :: "'w indexer_env \<Rightarrow> int \<Rightarrow> ('w, string option) ix" where
  "cursorBlockHash E n = (case ie_getBlockHash E of
       None \<Rightarrow> returnA None
     | Some hash \<Rightarrow> bindA (externalA (hash n)) (\<lambda>h. returnA (keep_truthy (Some h))))"

section \<open>Steps after a commit\<close>

datatype step_status = Delivered | Persisted | Skipped

definition pending_of :: "'w indexer_env \<Rightarrow> pending_kind \<Rightarrow> chain_event list option \<Rightarrow> pending_input" where
  "pending_of E kind events =
     \<lparr>pe_stepId = pendingPostCommitStepId E kind events, pe_chainId = ie_chainId E, pe_kind = kind,
      pe_events = (if kind = Signal_notification then events else None)\<rparr>"

text \<open>
  A write of the queue of pending steps. The database may refuse it: then the store stays as it
  is, and the error is the caller's.
\<close>

definition queueA :: "'w indexer_env \<Rightarrow> (durable_store \<Rightarrow> durable_store) \<Rightarrow> ('w, unit) ix" where
  "queueA E f = bindA (externalA (ie_queueWrite E)) (\<lambda>_. updateA f)"

definition savePendingA :: "'w indexer_env \<Rightarrow> pending_input \<Rightarrow> ('w, unit) ix" where
  "savePendingA E inp = bindA (nowA E) (\<lambda>now. queueA E (savePendingPostCommitStep now inp))"

definition recordAttemptA :: "'w indexer_env \<Rightarrow> string \<Rightarrow> string \<Rightarrow> ('w, unit) ix" where
  "recordAttemptA E stepId err =
     bindA (nowA E) (\<lambda>now. queueA E (recordPendingPostCommitAttempt now stepId err))"

definition persistPendingPostCommitStep ::
  "'w indexer_env \<Rightarrow> pending_kind \<Rightarrow> chain_event list option \<Rightarrow> string \<Rightarrow> ('w, bool) ix" where
  "persistPendingPostCommitStep E kind events err =
     catchA (bindA (savePendingA E (pending_of E kind events)) (\<lambda>_.
         bindA (recordAttemptA E (pendingPostCommitStepId E kind events) err) (\<lambda>_. returnA True)))
       (\<lambda>_. returnA False)"

fun attempt_step ::
  "'w indexer_env \<Rightarrow> pending_kind \<Rightarrow> chain_event list option \<Rightarrow> ('w, unit) ix \<Rightarrow> nat \<Rightarrow> nat
    \<Rightarrow> ('w, step_status) ix" where
  "attempt_step E kind events run attempt 0 = returnA Persisted"
| "attempt_step E kind events run attempt (Suc left) =
     catchA (bindA run (\<lambda>_. returnA Delivered)) (\<lambda>e.
       if attempt = POST_COMMIT_STEP_MAX_ATTEMPTS then
         bindA (persistPendingPostCommitStep E kind events (ie_redact E e)) (\<lambda>persisted. returnA Persisted)
       else
         bindA (sleepA E (postCommitStepRetryDelayMs attempt))
           (\<lambda>_. attempt_step E kind events run (attempt + 1) left))"

definition runPostCommitStepWithBoundedRetry ::
  "'w indexer_env \<Rightarrow> pending_kind \<Rightarrow> chain_event list option \<Rightarrow> ('w, unit) ix \<Rightarrow> ('w, step_status) ix" where
  "runPostCommitStepWithBoundedRetry E kind events run =
     attempt_step E kind events run 1 POST_COMMIT_STEP_MAX_ATTEMPTS"

definition processSignalNotifications :: "'w indexer_env \<Rightarrow> chain_event list \<Rightarrow> ('w, step_status) ix" where
  "processSignalNotifications E events = (case ie_processSignals E of
       None \<Rightarrow> returnA Skipped
     | Some process \<Rightarrow>
         if events = [] then returnA Skipped
         else runPostCommitStepWithBoundedRetry E Signal_notification (Some events)
           (externalA (process events)))"

definition processProjectionAutomation :: "'w indexer_env \<Rightarrow> snapshot \<Rightarrow> ('w, unit) ix" where
  "processProjectionAutomation E snap = (case ie_processProjection E of
       None \<Rightarrow> returnA ()
     | Some process \<Rightarrow>
         bindA (runPostCommitStepWithBoundedRetry E Projection_automation None
           (externalA (process snap))) (\<lambda>_. returnA ()))"

definition prePersistRebuildNotificationStep ::
  "'w indexer_env \<Rightarrow> chain_event list \<Rightarrow> ('w, string option) ix" where
  "prePersistRebuildNotificationStep E events =
     (if ie_processSignals E = None \<or> events = [] then returnA None
      else catchA
        (bindA (savePendingA E (pending_of E Signal_notification (Some events))) (\<lambda>_.
           returnA (Some (pendingPostCommitStepId E Signal_notification (Some events)))))
        (\<lambda>_. returnA None))"

definition dropPendingPostCommitStep :: "'w indexer_env \<Rightarrow> string \<Rightarrow> ('w, unit) ix" where
  "dropPendingPostCommitStep E stepId =
     catchA (queueA E (deletePendingPostCommitStep stepId)) (\<lambda>_. returnA ())"

section \<open>Working off the queue\<close>

record sweep_summary =
  sw_swept :: nat
  sw_delivered :: nat
  sw_failed :: nat
  sw_waitingFinality :: nat

definition max_event_block :: "chain_event list \<Rightarrow> int" where
  "max_event_block events = foldl (\<lambda>m e. if m < blockNumber e then blockNumber e else m) 0 events"

definition deliverPendingPostCommitStep :: "'w indexer_env \<Rightarrow> pending_step \<Rightarrow> ('w, unit) ix" where
  "deliverPendingPostCommitStep E step = (case pe_kind step of
       Signal_notification \<Rightarrow>
         (let events = (case pe_events step of None \<Rightarrow> [] | Some es \<Rightarrow> es);
              unavailable = OtherError (''signal notification processor unavailable for pending step ''
                @ pe_stepId step) in
          case ie_processSignals E of
            None \<Rightarrow> throwA unavailable
          | Some process \<Rightarrow>
              if events = [] then throwA unavailable
              else bindA (syncStateA E) (\<lambda>st.
                case Option.bind st sy_finalizedBlock of
                  None \<Rightarrow> externalA (process events)
                | Some bound \<Rightarrow>
                    if bound < max_event_block events then
                      throwA (FinalityWait (''pending signal notification batch '' @ pe_stepId step
                        @ '' extends to block '' @ dec_int (max_event_block events)
                        @ '' above the finalized bound '' @ dec_int bound
                        @ ''; it stays queued until finalization catches up''))
                    else externalA (process events)))
     | Projection_automation \<Rightarrow>
         (case ie_processProjection E of
            None \<Rightarrow> throwA (OtherError (''projection automation processor unavailable for pending step ''
              @ pe_stepId step))
          | Some process \<Rightarrow>
              bindA (readA (getOrderSnapshot (ie_bindings E))) (\<lambda>snap. externalA (process snap))))"

text \<open>One step of the queue; the wait for finality costs no attempt.\<close>

definition sweep_step :: "'w indexer_env \<Rightarrow> sweep_summary \<Rightarrow> pending_step \<Rightarrow> ('w, sweep_summary) ix" where
  "sweep_step E su step =
     (let su = su\<lparr>sw_swept := sw_swept su + 1\<rparr> in
      catchA
        (bindA (deliverPendingPostCommitStep E step) (\<lambda>_.
         bindA (queueA E (deletePendingPostCommitStep (pe_stepId step))) (\<lambda>_.
           returnA (su\<lparr>sw_delivered := sw_delivered su + 1\<rparr>))))
        (\<lambda>e. case e of
            FinalityWait _ \<Rightarrow> returnA (su\<lparr>sw_waitingFinality := sw_waitingFinality su + 1\<rparr>)
          | _ \<Rightarrow>
              bindA (catchA
                (if PENDING_POST_COMMIT_MAX_SWEEP_ATTEMPTS \<le> pe_attempts step + 1
                 then queueA E (deletePendingPostCommitStep (pe_stepId step))
                 else recordAttemptA E (pe_stepId step) (ie_redact E e)) (\<lambda>_. returnA ())) (\<lambda>_.
              returnA (su\<lparr>sw_failed := sw_failed su + 1\<rparr>))))"

fun sweep_steps :: "'w indexer_env \<Rightarrow> sweep_summary \<Rightarrow> pending_step list \<Rightarrow> ('w, sweep_summary) ix" where
  "sweep_steps E su [] = returnA su"
| "sweep_steps E su (step # steps) = bindA (sweep_step E su step) (\<lambda>su. sweep_steps E su steps)"

definition pendingStepsA :: "'w indexer_env \<Rightarrow> ('w, pending_step list) ix" where
  "pendingStepsA E = getsA (\<lambda>s. listPendingPostCommitSteps (ie_chainId E) (ix_store s))"

definition sweepPendingPostCommitSteps :: "'w indexer_env \<Rightarrow> ('w, sweep_summary) ix" where
  "sweepPendingPostCommitSteps E =
     bindA (pendingStepsA E) (sweep_steps E
       \<lparr>sw_swept = 0, sw_delivered = 0, sw_failed = 0, sw_waitingFinality = 0\<rparr>)"

section \<open>Rolling back a reorganisation\<close>

definition trim_step :: "'w indexer_env \<Rightarrow> int \<Rightarrow> pending_step \<Rightarrow> ('w, unit) ix" where
  "trim_step E ancestor step = (case pe_events step of
       None \<Rightarrow> returnA ()
     | Some events \<Rightarrow>
         (let surviving = filter (\<lambda>e. blockNumber e \<le> ancestor) events in
          if pe_kind step \<noteq> Signal_notification \<or> events = [] \<or> length surviving = length events
          then returnA ()
          else transactionA
            (bindA (queueA E (deletePendingPostCommitStep (pe_stepId step))) (\<lambda>_.
             whenA (surviving \<noteq> []) (savePendingA E
               \<lparr>pe_stepId = pendingPostCommitStepId E Signal_notification (Some surviving),
                pe_chainId = pe_chainId step, pe_kind = pe_kind step, pe_events = Some surviving\<rparr>)))))"

definition trimPass :: "'w indexer_env \<Rightarrow> int \<Rightarrow> ('w, unit) ix" where
  "trimPass E ancestor = bindA (pendingStepsA E) (eachA (trim_step E ancestor))"

definition trimPendingPostCommitStepsAfterReorg :: "'w indexer_env \<Rightarrow> int \<Rightarrow> ('w, unit) ix" where
  "trimPendingPostCommitStepsAfterReorg E ancestor =
     catchA (trimPass E ancestor) (\<lambda>_. catchA (trimPass E ancestor) (\<lambda>_. returnA ()))"

definition invalidateNotificationsAfterReorg :: "'w indexer_env \<Rightarrow> int \<Rightarrow> ('w, unit) ix" where
  "invalidateNotificationsAfterReorg E ancestor = (case ie_invalidateAbove E of
       None \<Rightarrow> returnA ()
     | Some invalidate \<Rightarrow>
         catchA (externalA (invalidate ancestor))
           (\<lambda>_. catchA (externalA (invalidate ancestor)) (\<lambda>_. returnA ())))"

definition at_least :: "int \<Rightarrow> int \<Rightarrow> int" where
  "at_least bound n = (if bound < n then n else bound)"

definition rollback_sync ::
  "'w indexer_env \<Rightarrow> int \<Rightarrow> chain_event list \<Rightarrow> sync_state option \<Rightarrow> sync_base" where
  "rollback_sync E ancestor remaining existing =
     (let n = activeEventCount (buildActiveChainEventReplaySummary remaining) in
      \<lparr>sy_scope = ix_scope E, sy_syncStatus = ''syncing'',
       sy_latestIndexedBlock = (case Option.bind existing sy_latestIndexedBlock of
           Some b \<Rightarrow> if b \<le> ancestor then Some b else None
         | None \<Rightarrow> None),
       sy_finalizedBlock = Some ancestor, sy_confirmationDepth = ie_finalityConfirmations E,
       sy_lastEventName = keep_truthy (Option.bind existing sy_lastEventName), sy_eventCount = n,
       sy_rebuild = Some (no_rebuild\<lparr>rm_deploymentBlock := Some (ie_deploymentBlock E),
         rm_fromBlock := Some (ie_deploymentBlock E), rm_toBlock := Some ancestor,
         rm_eventCount := Some (int n), rm_activeEventCount := Some (int n),
         rm_removedEventCount := Some 0, rm_removedLogsFiltered := Some False,
         rm_projectionRebuilt := Some True,
         rm_mismatchCount := Some (int (countDuplicateActiveEventAnomalies remaining))\<rparr>),
       sy_degradedReason = None\<rparr>)"

definition ancestor_cursor :: "'w indexer_env \<Rightarrow> int \<Rightarrow> string \<Rightarrow> event_cursor" where
  "ancestor_cursor E ancestor hash =
     \<lparr>ec_chainId = ie_chainId E, ec_deploymentBlock = ie_deploymentBlock E,
      ec_nextBlock = at_least (ie_deploymentBlock E) (ancestor + 1),
      ec_finalizedBlock = Some ancestor, ec_blockHash = Some hash\<rparr>"

definition rollback_transaction :: "'w indexer_env \<Rightarrow> int \<Rightarrow> int \<Rightarrow> string \<Rightarrow> ('w, unit) ix" where
  "rollback_transaction E from ancestor hash = transactionA
     (bindA (updateA (\<lambda>d. snd (deleteEventRows (ie_chainId E) ancestor d))) (\<lambda>_.
      bindA (storedEventsA E) (\<lambda>remaining.
      bindA (liftA (rebuildOrderProjections (ie_bindings E) remaining)) (\<lambda>orders.
      bindA (liftA (rebuildIdentityProjections (ie_bindings E) remaining)) (\<lambda>identities.
      bindA (saveSnapshotsA E orders identities) (\<lambda>_.
      bindA (catchA (syncStateA E) (\<lambda>_. returnA None)) (\<lambda>existing.
      bindA (saveSyncA E (rollback_sync E ancestor remaining existing)) (\<lambda>_.
      bindA (saveCursorA E (ancestor_cursor E ancestor hash) (Some from)) (\<lambda>saved.
      whenA (saved = None) (throwA ReorgCursorMoved))))))))))"

definition applyReorgRollback :: "'w indexer_env \<Rightarrow> int \<Rightarrow> int \<Rightarrow> string \<Rightarrow> ('w, int) ix" where
  "applyReorgRollback E from ancestor hash =
     bindA (rollback_transaction E from ancestor hash) (\<lambda>_.
     bindA (set_casFailures 0) (\<lambda>_.
     bindA (set_cursor (Some (ancestor_cursor E ancestor hash))) (\<lambda>_.
     bindA (invalidateNotificationsAfterReorg E ancestor) (\<lambda>_.
     bindA (trimPendingPostCommitStepsAfterReorg E ancestor) (\<lambda>_.
       returnA (at_least (ie_deploymentBlock E) (ancestor + 1)))))))"

text \<open>Newest first; the sort is stable.\<close>

definition newest_first :: "chain_event \<Rightarrow> chain_event \<Rightarrow> int" where
  "newest_first l r =
     (if blockNumber l < blockNumber r then 1 else if blockNumber r < blockNumber l then -1 else 0)"

text \<open>The events with a hash between two heights.\<close>

definition anchors :: "int \<Rightarrow> int \<Rightarrow> chain_event list \<Rightarrow> chain_event list" where
  "anchors lo hi events =
     js_sort newest_first (filter (\<lambda>e. \<not> removed e \<and> blockHash e \<noteq> None
       \<and> lo \<le> blockNumber e \<and> blockNumber e < hi) events)"

text \<open>The first event of each block, as \<open>seenBlocks\<close> leaves them.\<close>

fun first_of_blocks :: "int list \<Rightarrow> chain_event list \<Rightarrow> chain_event list" where
  "first_of_blocks seen [] = []"
| "first_of_blocks seen (e # es) =
     (if blockNumber e \<in> set seen then first_of_blocks seen es
      else e # first_of_blocks (blockNumber e # seen) es)"

text \<open>An anchor whose block is still on the chain, with the hash the chain gives.\<close>

definition check_anchor :: "'w indexer_env \<Rightarrow> chain_event \<Rightarrow> ('w, (int \<times> string) option) ix" where
  "check_anchor E e =
     bindA (cursorBlockHash E (blockNumber e)) (\<lambda>h. returnA (case (h, blockHash e) of
         (Some c, Some b) \<Rightarrow> if isSameBlockHash c b then Some (blockNumber e, c) else None
       | _ \<Rightarrow> None))"

definition backtrack_floor :: "'w indexer_env \<Rightarrow> int \<Rightarrow> int" where
  "backtrack_floor E from =
     (let dep = ie_deploymentBlock E in
      if MAX_REORG_BACKTRACK_BLOCKS < from
      then (if dep < from - MAX_REORG_BACKTRACK_BLOCKS then from - MAX_REORG_BACKTRACK_BLOCKS else dep)
      else dep)"

definition rollbackToCommonAncestor :: "'w indexer_env \<Rightarrow> int \<Rightarrow> ('w, int) ix" where
  "rollbackToCommonAncestor E from =
     bindA (storedEventsA E) (\<lambda>stored.
     let candidates = anchors (backtrack_floor E from) from stored;
         older = anchors (ie_deploymentBlock E) from stored in
     bindA (findA (check_anchor E) (first_of_blocks [] candidates)) (\<lambda>found.
     case found of
       Some (block, hash) \<Rightarrow> applyReorgRollback E from block hash
     | None \<Rightarrow>
         bindA (findA (check_anchor E) older) (\<lambda>found.
         case found of
           Some (block, hash) \<Rightarrow> applyReorgRollback E from block hash
         | None \<Rightarrow>
             if older \<noteq> [] then throwA (Thrown (ConfigError
               ''chain reorg deeper than the stored projection history; full projection rebuild is required''))
             else if \<exists>e \<in> set stored. \<not> removed e then throwA (Thrown (ConfigError
               ''chain reorg detected but stored events carry no block hashes; no common ancestor can be located; full projection rebuild is required''))
             else returnA from)))"

text \<open>The deferral to another writer's cursor.\<close>

definition defer_to_stored :: "'w indexer_env \<Rightarrow> int \<Rightarrow> ('w, int) ix" where
  "defer_to_stored E from =
     bindA (storedCursorA E) (\<lambda>current.
     bindA casFailedA (\<lambda>_.
     case current of
       None \<Rightarrow> returnA from
     | Some c \<Rightarrow>
         (let next = at_least (ie_deploymentBlock E) (cu_nextBlock c) in
          bindA (set_cursor (Some ((cursor_of_stored c)\<lparr>ec_nextBlock := next\<rparr>))) (\<lambda>_.
            returnA next))))"

definition rollbackOnReorg :: "'w indexer_env \<Rightarrow> int \<Rightarrow> ('w, int) ix" where
  "rollbackOnReorg E from =
     bindA (storedCursorA E) (\<lambda>stored.
     case (keep_truthy (Option.bind stored cu_blockHash), ie_getBlockHash E) of
       (Some storedHash, Some hash) \<Rightarrow>
         if from - 1 < ie_deploymentBlock E then returnA from
         else bindA (externalA (hash (from - 1))) (\<lambda>canonical.
           if isSameBlockHash canonical storedHash then returnA from
           else catchA (rollbackToCommonAncestor E from) (\<lambda>e.
             if e = ReorgCursorMoved then defer_to_stored E from else throwA e))
     | _ \<Rightarrow> returnA from)"

end
