(* ===== verification/IndexerRuns.thy ===== *)
theory IndexerRuns imports Indexer begin

text \<open>
  The entry points of the indexer (\<open>indexer/service.ts\<close>): the full rebuild, the incremental
  refresh, the refresh in the background, and the degraded state they report.
\<close>

section \<open>Reporting a failure\<close>

definition storedMismatchCount :: "'w indexer_env \<Rightarrow> ('w, int) ix" where
  "storedMismatchCount E =
     bindA (storedEventsA E) (\<lambda>events. returnA (int (countReplayAnomalies (ie_bindings E) events)))"

definition degraded_sync ::
  "'w indexer_env \<Rightarrow> int \<Rightarrow> int \<Rightarrow> string \<Rightarrow> string \<Rightarrow> sync_state option \<Rightarrow> sync_base" where
  "degraded_sync E finalized mismatch now reason existing =
     (let count = (case existing of None \<Rightarrow> 0 | Some s \<Rightarrow> sy_eventCount s);
          old = Option.bind existing sy_rebuild in
      \<lparr>sy_scope = ix_scope E, sy_syncStatus = ''degraded'',
       sy_latestIndexedBlock = Option.bind existing sy_latestIndexedBlock,
       sy_finalizedBlock = Some finalized, sy_confirmationDepth = ie_finalityConfirmations E,
       sy_lastEventName = keep_truthy (Option.bind existing sy_lastEventName), sy_eventCount = count,
       sy_rebuild = Some (no_rebuild\<lparr>rm_status := ''failed'',
         rm_startedAt := keep_truthy (Option.bind old rm_startedAt), rm_completedAt := Some now,
         rm_deploymentBlock := Some (ie_deploymentBlock E),
         rm_fromBlock := Some (ie_deploymentBlock E), rm_toBlock := Some finalized,
         rm_eventCount := Some (int count), rm_activeEventCount := Some (int count),
         rm_removedEventCount := Some (case Option.bind old rm_removedEventCount of None \<Rightarrow> 0 | Some n \<Rightarrow> n),
         rm_removedLogsFiltered :=
           Some (case Option.bind old rm_removedLogsFiltered of None \<Rightarrow> False | Some b \<Rightarrow> b),
         rm_projectionRebuilt := Some False, rm_mismatchCount := Some mismatch\<rparr>),
       sy_degradedReason = Some reason\<rparr>)"

definition markDegraded ::
  "'w indexer_env \<Rightarrow> int option \<Rightarrow> ix_error \<Rightarrow> int option \<Rightarrow> ('w, unit) ix" where
  "markDegraded E finalized err mismatch =
     bindA (catchA (syncStateA E) (\<lambda>_. returnA None)) (\<lambda>existing.
     bindA (getsA (\<lambda>s. Option.bind (ix_cursor s) ec_finalizedBlock)) (\<lambda>cursorFinalized.
     bindA (case opt_or mismatch (Option.bind (Option.bind existing sy_rebuild) rm_mismatchCount) of
         Some n \<Rightarrow> returnA n | None \<Rightarrow> storedMismatchCount E) (\<lambda>count.
     bindA (nowA E) (\<lambda>now.
     bindA (saveSyncA E (degraded_sync E
         (case opt_or finalized (opt_or (Option.bind existing sy_finalizedBlock) cursorFinalized) of
            Some b \<Rightarrow> b | None \<Rightarrow> ie_deploymentBlock E)
         count now (ie_redact E err) existing)) (\<lambda>_. returnA ())))))"

section \<open>Full rebuild\<close>

definition rebuild_failed ::
  "'w indexer_env \<Rightarrow> int \<Rightarrow> bool \<Rightarrow> string option \<Rightarrow> int \<Rightarrow> ix_error \<Rightarrow> ('w, 'a) ix" where
  "rebuild_failed E finalized committed stepId mismatch err =
     bindA (case stepId of
         Some i \<Rightarrow> whenA (\<not> committed) (dropPendingPostCommitStep E i) | None \<Rightarrow> returnA ()) (\<lambda>_.
     bindA (markDegraded E (Some finalized) err
         (Some (mismatch + (case err of Thrown (ProjectionError _) \<Rightarrow> 1 | _ \<Rightarrow> 0)))) (\<lambda>_.
       throwA err))"

definition empty_range_sync :: "'w indexer_env \<Rightarrow> int \<Rightarrow> sync_base" where
  "empty_range_sync E finalized =
     \<lparr>sy_scope = ix_scope E, sy_syncStatus = ''syncing'', sy_latestIndexedBlock = None,
      sy_finalizedBlock = Some finalized, sy_confirmationDepth = ie_finalityConfirmations E,
      sy_lastEventName = None, sy_eventCount = 0,
      sy_rebuild = Some (no_rebuild\<lparr>rm_deploymentBlock := Some (ie_deploymentBlock E),
        rm_fromBlock := Some finalized, rm_toBlock := Some finalized, rm_eventCount := Some 0,
        rm_activeEventCount := Some 0, rm_removedEventCount := Some 0,
        rm_removedLogsFiltered := Some False, rm_projectionRebuilt := Some True,
        rm_mismatchCount := Some 0\<rparr>),
      sy_degradedReason = None\<rparr>"

text \<open>Nothing of the range is final yet.\<close>

definition rebuild_before_deployment :: "'w indexer_env \<Rightarrow> int \<Rightarrow> ('w, rebuild_result) ix" where
  "rebuild_before_deployment E finalized =
     (let dep = ie_deploymentBlock E in
      bindA (if 0 < dep then cursorBlockHash E (dep - 1) else returnA None) (\<lambda>hash.
      let cursor = \<lparr>ec_chainId = ie_chainId E, ec_deploymentBlock = dep, ec_nextBlock = dep,
            ec_finalizedBlock = Some finalized, ec_blockHash = hash\<rparr> in
      bindA (saveCursorA E cursor None) (\<lambda>_.
      bindA (set_cursor (Some cursor)) (\<lambda>_.
      bindA (saveSyncA E (empty_range_sync E finalized)) (\<lambda>sync.
        returnA \<lparr>rr_snapshot = createEmptyProjectionSnapshot,
          rr_summary = summaryFromSnapshot E finalized finalized createEmptyProjectionSnapshot
            0 0 0 0 False (sync_base.truncate sync) 0\<rparr>)))))"

definition rebuilding_sync :: "'w indexer_env \<Rightarrow> int \<Rightarrow> string \<Rightarrow> event_cursor option \<Rightarrow> sync_base" where
  "rebuilding_sync E finalized startedAt cursor =
     \<lparr>sy_scope = ix_scope E, sy_syncStatus = ''rebuilding'',
      sy_latestIndexedBlock = (case cursor of
          Some c \<Rightarrow> if ec_nextBlock c \<noteq> 0 then Some (ec_nextBlock c - 1) else None | None \<Rightarrow> None),
      sy_finalizedBlock = Some finalized, sy_confirmationDepth = ie_finalityConfirmations E,
      sy_lastEventName = None, sy_eventCount = 0,
      sy_rebuild = Some (no_rebuild\<lparr>rm_status := ''running'', rm_startedAt := Some startedAt,
        rm_deploymentBlock := Some (ie_deploymentBlock E),
        rm_fromBlock := Some (ie_deploymentBlock E), rm_toBlock := Some finalized,
        rm_mismatchCount := Some 0\<rparr>),
      sy_degradedReason = None\<rparr>"

text \<open>The state after events were indexed: the last active event names block and event.\<close>

definition indexed_sync ::
  "'w indexer_env \<Rightarrow> int \<Rightarrow> replay_summary \<Rightarrow> rebuild_metadata \<Rightarrow> sync_base" where
  "indexed_sync E finalized su meta =
     (let lastEvent = last_event (sortChainEvents (activeEvents su)) in
      \<lparr>sy_scope = ix_scope E, sy_syncStatus = ''indexed'',
       sy_latestIndexedBlock = map_option blockNumber lastEvent,
       sy_finalizedBlock = Some finalized, sy_confirmationDepth = ie_finalityConfirmations E,
       sy_lastEventName = map_option eventName lastEvent,
       sy_eventCount = length (activeEvents su), sy_rebuild = Some meta, sy_degradedReason = None\<rparr>)"

definition replay_metadata ::
  "'w indexer_env \<Rightarrow> int \<Rightarrow> int \<Rightarrow> nat \<Rightarrow> replay_summary \<Rightarrow> nat \<Rightarrow> rebuild_metadata" where
  "replay_metadata E from to events su mismatch =
     no_rebuild\<lparr>rm_deploymentBlock := Some (ie_deploymentBlock E), rm_fromBlock := Some from,
       rm_toBlock := Some to, rm_eventCount := Some (int events),
       rm_activeEventCount := Some (int (activeEventCount su)),
       rm_removedEventCount := Some (int (removedEventCount su)),
       rm_removedLogsFiltered := Some (removedLogsFiltered su),
       rm_projectionRebuilt := Some True, rm_mismatchCount := Some (int mismatch)\<rparr>"

definition cursor_at :: "'w indexer_env \<Rightarrow> int \<Rightarrow> int \<Rightarrow> string option \<Rightarrow> event_cursor" where
  "cursor_at E n finalized hash =
     \<lparr>ec_chainId = ie_chainId E, ec_deploymentBlock = ie_deploymentBlock E, ec_nextBlock = n,
      ec_finalizedBlock = Some finalized, ec_blockHash = hash\<rparr>"

text \<open>What follows the commit of a rebuild.\<close>

definition rebuild_committed ::
  "'w indexer_env \<Rightarrow> event_cursor \<Rightarrow> sync_base \<Rightarrow> replay_summary \<Rightarrow> string option
    \<Rightarrow> snapshot \<Rightarrow> ('w, sync_state) ix" where
  "rebuild_committed E cursor base su stepId snap =
     bindA (processSignalNotifications E (activeEvents su)) (\<lambda>status.
     bindA (case stepId of
         Some i \<Rightarrow> whenA (status = Delivered) (dropPendingPostCommitStep E i)
       | None \<Rightarrow> returnA ()) (\<lambda>_.
     bindA (processProjectionAutomation E snap) (\<lambda>_.
     bindA (set_cursor (Some cursor)) (\<lambda>_.
     bindA (syncStateA E) (\<lambda>stored.
       case stored of Some s \<Rightarrow> returnA s | None \<Rightarrow> saveSyncA E base)))))"

definition rebuild_range :: "'w indexer_env \<Rightarrow> int \<Rightarrow> ('w, rebuild_result) ix" where
  "rebuild_range E finalized =
     (let dep = ie_deploymentBlock E; B = ie_bindings E in
      bindA (nowA E) (\<lambda>startedAt.
      bindA (getsA ix_cursor) (\<lambda>old.
      bindA (saveSyncA E (rebuilding_sync E finalized startedAt old)) (\<lambda>_.
      bindA (catchA (externalA (ie_readEvents E dep finalized)) (rebuild_failed E finalized False None 0)) (\<lambda>events.
      let mismatch = countDuplicateActiveEventAnomalies events;
          su = buildActiveChainEventReplaySummary events in
      bindA (catchA
        (bindA (liftA (rebuildIdentityProjections B events)) (\<lambda>identities.
         bindA (nowA E) (\<lambda>completedAt.
         bindA (cursorBlockHash E finalized) (\<lambda>hash.
         bindA (prePersistRebuildNotificationStep E (activeEvents su)) (\<lambda>stepId.
           returnA (identities, completedAt, hash, stepId))))))
        (rebuild_failed E finalized False None (int mismatch))) (\<lambda>(identities, completedAt, hash, stepId).
      let base = indexed_sync E finalized su
            ((replay_metadata E dep finalized (length (activeEvents su)) su mismatch)
              \<lparr>rm_status := ''completed'', rm_startedAt := Some startedAt, rm_completedAt := Some completedAt\<rparr>);
          cursor = cursor_at E (finalized + 1) finalized hash in
      bindA (catchA
        (bindA (nowA E) (\<lambda>now. writeA (resetFromEvents_durable B now
           \<lparr>ri_deploymentBlock = dep, ri_events = events, ri_scope = Some (ix_scope E),
            ri_syncState = Some base, ri_cursor = Some (cursor_input_of E cursor)\<rparr>)))
        (rebuild_failed E finalized False stepId (int mismatch))) (\<lambda>snap.
      bindA (catchA (rebuild_committed E cursor base su stepId snap)
        (rebuild_failed E finalized True stepId (int mismatch))) (\<lambda>sync.
        returnA \<lparr>rr_snapshot = snap,
          rr_summary = summaryFromSnapshot E dep finalized snap (length (jkeys (is_bindings identities)))
            (length (activeEvents su)) (activeEventCount su) (removedEventCount su)
            (removedLogsFiltered su) (sync_base.truncate sync) (int mismatch)\<rparr>))))))))"

definition rebuildFromDeploymentBlock :: "'w indexer_env \<Rightarrow> int option \<Rightarrow> ('w, rebuild_result) ix" where
  "rebuildFromDeploymentBlock E target =
     bindA (externalA (ie_getFinalizedBlock E)) (\<lambda>b.
       let finalized = minBlock b target in
       if finalized < ie_deploymentBlock E then rebuild_before_deployment E finalized
       else rebuild_range E finalized)"

section \<open>Incremental refresh\<close>

definition stored_sync :: "'w indexer_env \<Rightarrow> int \<Rightarrow> int \<Rightarrow> sync_state option \<Rightarrow> sync_base" where
  "stored_sync E from to existing =
     (let count = (case existing of None \<Rightarrow> 0 | Some s \<Rightarrow> sy_eventCount s) in
      \<lparr>sy_scope = ix_scope E, sy_syncStatus = ''indexed'',
       sy_latestIndexedBlock = Option.bind existing sy_latestIndexedBlock,
       sy_finalizedBlock = Some to, sy_confirmationDepth = ie_finalityConfirmations E,
       sy_lastEventName = keep_truthy (Option.bind existing sy_lastEventName), sy_eventCount = count,
       sy_rebuild = Some (no_rebuild\<lparr>rm_deploymentBlock := Some (ie_deploymentBlock E),
         rm_fromBlock := Some from, rm_toBlock := Some to, rm_eventCount := Some 0,
         rm_activeEventCount := Some (int count), rm_removedEventCount := Some 0,
         rm_removedLogsFiltered := Some False, rm_projectionRebuilt := Some True,
         rm_mismatchCount := Some (case Option.bind (Option.bind existing sy_rebuild) rm_mismatchCount of
           None \<Rightarrow> 0 | Some n \<Rightarrow> n)\<rparr>),
       sy_degradedReason = None\<rparr>)"

definition summarizeStoredProjection :: "'w indexer_env \<Rightarrow> int \<Rightarrow> int \<Rightarrow> ('w, rebuild_result) ix" where
  "summarizeStoredProjection E from0 to =
     (let from = (if to < from0 then to else from0) in
      bindA (readA (getOrderSnapshot (ie_bindings E))) (\<lambda>snap.
      bindA (readA (getIdentitySnapshot (ie_bindings E))) (\<lambda>identities.
      bindA (syncStateA E) (\<lambda>existing.
      bindA (saveSyncA E (stored_sync E from to existing)) (\<lambda>sync.
        returnA \<lparr>rr_snapshot = snap,
          rr_summary = summaryFromSnapshot E from to snap (length (jkeys (is_bindings identities)))
            (sy_eventCount sync) (sy_eventCount sync) 0 False (sync_base.truncate sync)
            (case Option.bind (Option.bind existing sy_rebuild) rm_mismatchCount of
               None \<Rightarrow> 0 | Some n \<Rightarrow> n)\<rparr>)))))"

text \<open>
  The transaction of a refresh: rows that a crash left at or above the cursor go first, if
  the cursor still stands there, then the events of the range are appended and all stored
  events replayed.
\<close>

definition refresh_transaction ::
  "'w indexer_env \<Rightarrow> int \<Rightarrow> int \<Rightarrow> int \<Rightarrow> chain_event list \<Rightarrow> nat \<Rightarrow> ('w, rebuild_result) ix" where
  "refresh_transaction E from to reported events new = transactionA
     (bindA (whenA (0 < from)
        (bindA (storedCursorA E) (\<lambda>cursor.
           whenA (map_option cu_nextBlock cursor = Some from)
             (updateA (\<lambda>d. snd (deleteEventRows (ie_chainId E) (from - 1) d)))))) (\<lambda>_.
      bindA (writeA (\<lambda>d. bindR (appendEventRows (ie_bindings E) events d) (\<lambda>d'. Inr ((), d')))) (\<lambda>_.
      bindA (storedEventsA E) (\<lambda>stored.
      let su = buildActiveChainEventReplaySummary stored in
      bindA (liftA (rebuildOrderProjections (ie_bindings E) stored)) (\<lambda>orders.
      bindA (liftA (rebuildIdentityProjections (ie_bindings E) stored)) (\<lambda>identities.
      bindA (saveSnapshotsA E orders identities) (\<lambda>_.
      let mismatch = countDuplicateActiveEventAnomalies stored in
      bindA (saveSyncA E (indexed_sync E reported su (replay_metadata E from to new su mismatch))) (\<lambda>sync.
        returnA \<lparr>rr_snapshot = orders,
          rr_summary = summaryFromSnapshot E from to orders (length (jkeys (is_bindings identities)))
            (length (activeEvents su)) (activeEventCount su) (removedEventCount su)
            (removedLogsFiltered su) (sync_base.truncate sync) (int mismatch)\<rparr>))))))))"

definition refresh_append :: "'w indexer_env \<Rightarrow> int \<Rightarrow> int \<Rightarrow> int \<Rightarrow> ('w, rebuild_result) ix" where
  "refresh_append E from to reported =
     bindA (externalA (ie_readEvents E from to)) (\<lambda>events.
     let active = activeEvents (buildActiveChainEventReplaySummary events) in
     bindA (refresh_transaction E from to reported events (length active)) (\<lambda>result.
     bindA (processSignalNotifications E active) (\<lambda>_.
     bindA (cursorBlockHash E to) (\<lambda>hash.
     bindA (saveCursorAdvancingFrom E (cursor_at E (to + 1) reported hash) from) (\<lambda>_.
     bindA (processProjectionAutomation E (rr_snapshot result)) (\<lambda>_. returnA result))))))"

text \<open>The finality bound lags behind the cursor: nothing to index.\<close>

definition refresh_lagging :: "'w indexer_env \<Rightarrow> int \<Rightarrow> int \<Rightarrow> ('w, rebuild_result) ix" where
  "refresh_lagging E from reported =
     bindA (if 0 < from then cursorBlockHash E (from - 1) else returnA None) (\<lambda>hash.
     bindA (saveCursorAdvancingFrom E (cursor_at E from reported hash) from) (\<lambda>_.
     bindA (summarizeStoredProjection E from reported) (\<lambda>result.
     bindA (processProjectionAutomation E (rr_snapshot result)) (\<lambda>_. returnA result))))"

definition reported_finalized :: "int \<Rightarrow> stored_cursor option \<Rightarrow> event_cursor option \<Rightarrow> int" where
  "reported_finalized finalized stored mem =
     (case maxBlockOf (Option.bind stored cu_finalizedBlock) (Option.bind mem ec_finalizedBlock) of
        None \<Rightarrow> finalized
      | Some prior \<Rightarrow> if finalized < prior then prior else finalized)"

definition refresh_from :: "'w indexer_env \<Rightarrow> int \<Rightarrow> event_cursor \<Rightarrow> ('w, rebuild_result) ix" where
  "refresh_from E finalized cursor =
     bindA (rollbackOnReorg E (at_least (ie_deploymentBlock E) (ec_nextBlock cursor))) (\<lambda>from.
     bindA (sweepPendingPostCommitSteps E) (\<lambda>_.
     bindA (storedCursorA E) (\<lambda>stored.
     bindA (getsA ix_cursor) (\<lambda>mem.
     let reported = reported_finalized finalized stored mem in
     if finalized < from then refresh_lagging E from reported
     else refresh_append E from finalized reported))))"

definition refreshFromCursor :: "'w indexer_env \<Rightarrow> int option \<Rightarrow> ('w, rebuild_result) ix" where
  "refreshFromCursor E target =
     bindA (externalA (ie_getFinalizedBlock E)) (\<lambda>b.
     let finalized = minBlock b target in
     bindA (storedCursorA E) (\<lambda>stored.
     bindA (getsA ix_cursor) (\<lambda>mem.
     case opt_or mem (map_option cursor_of_stored stored) of
       None \<Rightarrow> rebuildFromDeploymentBlock E (map_option (\<lambda>_. finalized) target)
     | Some cursor \<Rightarrow> refresh_from E finalized cursor)))"

section \<open>In the background\<close>

text \<open>One refresh taken from the queue; a lock that was not granted degrades nothing.\<close>

definition background_refresh :: "'w indexer_env \<Rightarrow> ('w, unit) ix" where
  "background_refresh E =
     catchA (bindA (refreshFromCursor E None) (\<lambda>_. returnA ())) (\<lambda>e.
       case e of
         SqliteBusy _ \<Rightarrow> returnA ()
       | _ \<Rightarrow> catchA (markDegraded E None e None) (\<lambda>_. returnA ()))"

end
