(* ===== verification/EventLogFacts.thy ===== *)
theory EventLogFacts imports EventLog Replay Identity begin

text \<open>
  The table of events refines a list of events: on events as a node delivers them, with the
  address, the hashes and the arguments in the form in which they are read back, appending a
  row is appending the event, deleting rows is filtering, and reading the table gives the
  sorted list.
\<close>

section \<open>Recordable events\<close>

definition recordable :: "bindings \<Rightarrow> int \<Rightarrow> chain_event \<Rightarrow> bool" where
  "recordable B chain e \<longleftrightarrow> wf_event e \<and> \<not> removed e \<and> chainId e = chain
     \<and> normalizeAddress B (contractAddress e) ''event.contractAddress'' = Inr (contractAddress e)
     \<and> map_option toLowerCase (blockHash e) = blockHash e \<and> storable (JObj (args e))"

definition row_of :: "chain_event \<Rightarrow> event_row" where
  "row_of e = new_event_row (contractAddress e) (case args_json e of Inl _ \<Rightarrow> [] | Inr t \<Rightarrow> t) e"

lemma recordable_args:
  assumes "recordable B chain e"
  obtains t where "args_json e = Inr t" "parseStorageJson t = Inr (JObj (args e))"
  using stored_value_read_back [of "JObj (args e)"] assms
  by (auto simp: recordable_def args_json_def)

lemma row_of_fields [simp]:
  "er_chainId (row_of e) = chainId e" "er_blockNumber (row_of e) = blockNumber e"
  "er_contractAddress (row_of e) = contractAddress e" "er_removed (row_of e) = removed e"
  "er_transactionHash (row_of e) = toLowerCase (transactionHash e)" "er_logIndex (row_of e) = logIndex e"
  "er_eventId (row_of e) = chainEventKey e"
  by (simp_all add: row_of_def new_event_row_def)

lemma eventRow_row_of:
  assumes "recordable B chain e"
  shows "eventRow B (row_of e) = Inr e"
proof -
  from assms obtain t where "args_json e = Inr t" "parseStorageJson t = Inr (JObj (args e))"
    by (rule recordable_args)
  with assms show ?thesis
    by (cases e) (simp add: eventRow_def row_of_def new_event_row_def recordable_def wf_event_def)
qed

lemma same_position:
  assumes "recordable B chain d" and "recordable B chain e"
  shows "row_position (row_of d) = row_position (row_of e) \<longleftrightarrow> chainEventKey d = chainEventKey e"
  using chainEventKey_inj [of d e] assms by (auto simp: row_position_def recordable_def wf_event_def)

section \<open>The log as a list of events\<close>

definition recorded :: "bindings \<Rightarrow> int \<Rightarrow> chain_event list \<Rightarrow> bool" where
  "recorded B chain es \<longleftrightarrow> (\<forall>e \<in> set es. recordable B chain e) \<and> distinct (map chainEventKey es)"

definition log_holds :: "bindings \<Rightarrow> int \<Rightarrow> event_log \<Rightarrow> chain_event list \<Rightarrow> bool" where
  "log_holds B chain rows es \<longleftrightarrow>
     recorded B chain es \<and> filter (\<lambda>r. er_chainId r = chain) rows = map row_of es"

lemma recorded_same_key:
  "recorded B chain es \<Longrightarrow> d \<in> set es \<Longrightarrow> e \<in> set es \<Longrightarrow> chainEventKey d = chainEventKey e \<Longrightarrow> d = e"
  by (auto simp: recorded_def distinct_map inj_on_def)

lemma recorded_distinct: "recorded B chain es \<Longrightarrow> distinct es"
  by (simp add: recorded_def distinct_map)

lemma recorded_wf: "recorded B chain es \<Longrightarrow> wf_stream es"
  by (auto simp: wf_stream_def same_position_index_def list_all_iff recordable_def recorded_def
    distinct_map inj_on_def)

lemma recorded_filter: "recorded B chain es \<Longrightarrow> recorded B chain (filter P es)"
  by (auto simp: recorded_def distinct_map_filter)

lemma recorded_append:
  "recorded B chain xs \<Longrightarrow> recorded B chain ys \<Longrightarrow>
     chainEventKey ` set xs \<inter> chainEventKey ` set ys = {} \<Longrightarrow> recorded B chain (xs @ ys)"
  by (auto simp: recorded_def)

lemma recorded_sort_unique:
  assumes "recorded B chain es" and "mset ds = mset es"
  shows "sortChainEvents ds = sortChainEvents es"
  unfolding sortChainEvents_def
proof (rule event_order.js_sort_unique)
  show "mset ds = mset es" by (fact assms(2))
  have s: "set ds = set es" using assms(2) mset_eq_setD by blast
  show "\<forall>x \<in> set ds. indexed x"
    unfolding s using assms(1) by (auto simp: recorded_def recordable_def wf_event_def)
  show "x = y" if "x \<in> set ds" "y \<in> set ds" "compareChainEvents x y = 0" for x y
    using that s compareChainEvents_0_key recorded_same_key [OF assms(1)] assms(1)
    by (metis recorded_def recordable_def wf_event_def)
qed

text \<open>Recorded events are all active, and lists of the same events replay alike.\<close>

lemma recorded_active_at:
  assumes "recorded B chain es"
  shows "active_at k es = Some e \<longleftrightarrow> e \<in> set es \<and> chainEventKey e = k"
proof (cases "last_delivery k es")
  case None
  then have "\<forall>e \<in> set es. chainEventKey e \<noteq> k" by (simp add: last_delivery_None)
  with None show ?thesis by (auto simp: active_at_def)
next
  case (Some d)
  then have "d \<in> set es" "chainEventKey d = k" by (auto dest: last_delivery_Some)
  with Some assms show ?thesis
    using recorded_same_key [OF assms] by (auto simp: active_at_def recorded_def recordable_def)
qed

lemma filterActive_recorded: "recorded B chain es \<Longrightarrow> set (filterActiveChainEvents es) = set es"
  using set_filterActive [OF recorded_wf] recorded_active_at by blast

lemma same_events_same_active:
  assumes "recorded B chain xs" and "recorded B chain ys" and "set xs = set ys"
  shows "filterActiveChainEvents xs = filterActiveChainEvents ys"
proof (rule active_events_determined [OF recorded_wf [OF assms(1)] recorded_wf [OF assms(2)]])
  have "active_at k xs = Some e \<longleftrightarrow> active_at k ys = Some e" for k e
    using recorded_active_at [OF assms(1)] recorded_active_at [OF assms(2)] assms(3) by simp
  then show "active_at k xs = active_at k ys" for k
    by (metis not_None_eq)
qed

lemma same_events_same_rebuild:
  assumes "recorded B chain xs" and "recorded B chain ys" and "set xs = set ys"
  shows "rebuildOrderProjections B' xs = rebuildOrderProjections B' ys"
    and "rebuildIdentityProjections B' xs = rebuildIdentityProjections B' ys"
  using same_events_same_active [OF assms] by (simp_all add: rebuildOrderProjections_def rebuildIdentityProjections_def)

section \<open>The operations\<close>

lemma mapR_Inr: "(\<And>x. x \<in> set xs \<Longrightarrow> f x = Inr (g x)) \<Longrightarrow> mapR f xs = Inr (map g xs)"
  by (induction xs) simp_all

lemma listEvents_holds:
  assumes "log_holds B chain rows es"
  shows "listEvents B chain rows = Inr (sortChainEvents es)"
proof -
  let ?g = "\<lambda>r. projr (eventRow B r)"
  have rows: "filter (\<lambda>r. er_chainId r = chain) rows = map row_of es" and rec: "recorded B chain es"
    using assms by (simp_all add: log_holds_def)
  have reads: "eventRow B (row_of e) = Inr e" if "e \<in> set es" for e
    using rec that eventRow_row_of by (auto simp: recorded_def)
  let ?sorted = "js_sort compare_rows (map row_of es)"
  have "mapR (eventRow B) ?sorted = Inr (map ?g ?sorted)"
    by (rule mapR_Inr) (auto simp: reads)
  moreover have "mset (map ?g ?sorted) = mset (map ?g (map row_of es))"
    by (simp only: mset_map mset_js_sort)
  moreover have "map ?g (map row_of es) = es"
    by (simp add: reads comp_def map_idI)
  ultimately have "mset (map ?g ?sorted) = mset es" by (simp only:)
  then have "sortChainEvents (map ?g ?sorted) = sortChainEvents es"
    by (rule recorded_sort_unique [OF rec])
  with \<open>mapR (eventRow B) ?sorted = Inr (map ?g ?sorted)\<close> show ?thesis
    by (simp only: listEvents_def rows bindR_simps)
qed

lemma deleteEvents_holds:
  assumes "log_holds B chain rows es"
  shows "log_holds B chain (snd (deleteEventsAfterBlock chain b rows)) (filter (\<lambda>e. blockNumber e \<le> b) es)"
proof -
  have rows: "filter (\<lambda>r. er_chainId r = chain) rows = map row_of es" and rec: "recorded B chain es"
    using assms by (simp_all add: log_holds_def)
  have "filter (\<lambda>r. er_chainId r = chain) (snd (deleteEventsAfterBlock chain b rows))
      = filter (\<lambda>r. er_blockNumber r \<le> b) (filter (\<lambda>r. er_chainId r = chain) rows)"
    unfolding deleteEventsAfterBlock_def Let_def snd_conv filter_filter by (rule filter_cong) auto
  also have "\<dots> = map row_of (filter (\<lambda>e. blockNumber e \<le> b) es)"
    by (simp add: rows filter_map comp_def)
  finally show ?thesis using recorded_filter [OF rec] by (simp add: log_holds_def)
qed

lemma appendEvent_holds:
  assumes "log_holds B chain rows es" and "recordable B chain e" and "chainEventKey e \<notin> chainEventKey ` set es"
  shows "\<exists>rows'. appendEvent B e rows = Inr rows' \<and> log_holds B chain rows' (es @ [e])"
proof -
  have rows: "filter (\<lambda>r. er_chainId r = chain) rows = map row_of es" and rec: "recorded B chain es"
    using assms by (simp_all add: log_holds_def)
  have e: "chainId e = chain" "\<not> removed e"
    "normalizeAddress B (contractAddress e) ''event.contractAddress'' = Inr (contractAddress e)"
    using assms(2) by (simp_all add: recordable_def)
  have mine: "\<exists>d \<in> set es. r = row_of d" if "r \<in> set rows" "er_chainId r = chain" for r
    using that rows 
  proof -
    have "r \<in> set (filter (\<lambda>r. er_chainId r = chain) rows)" using that by simp
    then show ?thesis unfolding rows by auto
  qed
  have live: "\<not> revived_by (contractAddress e) e r" if r: "r \<in> set rows" for r
  proof
    assume a: "revived_by (contractAddress e) e r"
    then have "er_chainId r = chain" using e by (simp add: revived_by_def)
    with mine [OF r] a rec show False by (auto simp: revived_by_def recorded_def recordable_def)
  qed
  obtain t where t: "args_json e = Inr t" "parseStorageJson t = Inr (JObj (args e))"
    using assms(2) by (rule recordable_args)
  have new: "new_event_row (contractAddress e) t e = row_of e" by (simp add: row_of_def t)
  have fresh: "\<not> (row_position x = row_position (row_of e) \<or> (er_chainId x = er_chainId (row_of e)
      \<and> er_contractAddress x = er_contractAddress (row_of e) \<and> er_eventId x = er_eventId (row_of e)))"
    if x: "x \<in> set rows" for x
  proof
    assume a: "row_position x = row_position (row_of e) \<or> (er_chainId x = er_chainId (row_of e)
      \<and> er_contractAddress x = er_contractAddress (row_of e) \<and> er_eventId x = er_eventId (row_of e))"
    then have "er_chainId x = chain" using e by (auto simp: row_position_def)
    then obtain d where d: "d \<in> set es" "x = row_of d" using mine [OF x] by auto
    then have "recordable B chain d" using rec by (simp add: recorded_def)
    with a d have "chainEventKey d = chainEventKey e" using same_position assms(2) by auto
    with d assms(3) show False by (metis imageI)
  qed
  have "appendEvent B e rows = Inr (rows @ [row_of e])"
    using e live fresh by (auto simp: appendEvent_def t new insert_event_row_def)
  moreover have "log_holds B chain (rows @ [row_of e]) (es @ [e])"
    using rows rec assms(2,3) e by (auto simp: log_holds_def recorded_def)
  ultimately show ?thesis by blast
qed

lemma appendEvents_holds:
  assumes "log_holds B chain rows es" and "recorded B chain (es @ new)"
  shows "\<exists>rows'. appendEvents B rows new = Inr rows' \<and> log_holds B chain rows' (es @ new)"
  using assms
proof (induction new arbitrary: rows es)
  case (Cons e new)
  from Cons.prems(2) have "recordable B chain e" "chainEventKey e \<notin> chainEventKey ` set es"
    by (auto simp: recorded_def)
  from appendEvent_holds [OF Cons.prems(1) this] obtain rows' where
    r: "appendEvent B e rows = Inr rows'" "log_holds B chain rows' (es @ [e])" by blast
  from Cons.IH [OF r(2)] Cons.prems(2) r(1) show ?case by (simp add: appendEvents_def)
qed (simp add: appendEvents_def)

end
