(* ===== verification/ChainViews.thy ===== *)
theory ChainViews imports IndexerRuns EventLogFacts begin

text \<open>
  What a node shows and what a store covers: a view of the chain with its hashes, events and
  finality bound, an environment that shows a view while a round lasts, and the stores that
  hold exactly the events of a view below their cursor. Steps after a commit, and the reports,
  leave coverage alone.
\<close>

section \<open>Views of the chain\<close>

record chain_view =
  cv_finalized :: int
  cv_hash :: "int \<Rightarrow> string"
  cv_events :: "chain_event list"

definition canonical :: "chain_view \<Rightarrow> int \<Rightarrow> int \<Rightarrow> chain_event list" where
  "canonical C lo hi = filter (\<lambda>e. lo \<le> blockNumber e \<and> blockNumber e \<le> hi) (cv_events C)"

text \<open>Events come in the form in which they are read back, under the hash of their block.\<close>

definition sound_view :: "bindings \<Rightarrow> int \<Rightarrow> chain_view \<Rightarrow> bool" where
  "sound_view B chain C \<longleftrightarrow> recorded B chain (cv_events C)
     \<and> (\<forall>e \<in> set (cv_events C). blockHash e = None \<or> blockHash e = Some (cv_hash C (blockNumber e)))
     \<and> (\<forall>b. cv_hash C b \<noteq> [] \<and> toLowerCase (cv_hash C b) = cv_hash C b)"

text \<open>A block hash commits to the chain below it.\<close>

definition common_history :: "chain_view \<Rightarrow> chain_view \<Rightarrow> bool" where
  "common_history C D \<longleftrightarrow> (\<forall>b. cv_hash C b = cv_hash D b \<longrightarrow>
     (\<forall>e. blockNumber e \<le> b \<longrightarrow> e \<in> set (cv_events C) \<longleftrightarrow> e \<in> set (cv_events D)))"

text \<open>
  The answer of an outside call in the worlds of a round, with or without failures, and calls
  that stay in those worlds. Nothing outside throws the class that the file keeps to itself.
\<close>

definition answers :: "bool \<Rightarrow> ('w \<Rightarrow> bool) \<Rightarrow> ('w, 'a) external \<Rightarrow> 'a \<Rightarrow> bool" where
  "answers reliable V f x \<longleftrightarrow> (\<forall>w. V w \<longrightarrow>
     V (snd (f w)) \<and> (fst (f w) = Inr x \<or> \<not> reliable \<and> (\<exists>e. fst (f w) = Inl e \<and> e \<noteq> ReorgCursorMoved)))"

definition stays :: "('w \<Rightarrow> bool) \<Rightarrow> ('w, 'a) external \<Rightarrow> bool" where
  "stays V f \<longleftrightarrow> (\<forall>w. V w \<longrightarrow> V (snd (f w)))"

definition shows_view :: "bool \<Rightarrow> 'w indexer_env \<Rightarrow> chain_view \<Rightarrow> ('w \<Rightarrow> bool) \<Rightarrow> bool" where
  "shows_view reliable E C V \<longleftrightarrow>
     answers reliable V (ie_getFinalizedBlock E) (cv_finalized C)
     \<and> (\<forall>lo hi. answers reliable V (ie_readEvents E lo hi) (canonical C lo hi))
     \<and> (\<exists>hash. ie_getBlockHash E = Some hash \<and> (\<forall>b. answers reliable V (hash b) (cv_hash C b)))
     \<and> (\<forall>f es. ie_processSignals E = Some f \<longrightarrow> stays V (f es))
     \<and> (\<forall>f b. ie_invalidateAbove E = Some f \<longrightarrow> stays V (f b))
     \<and> (\<forall>f snap. ie_processProjection E = Some f \<longrightarrow> stays V (f snap))
     \<and> stays V (ie_queueWrite E)
     \<and> (\<forall>w. V w \<longrightarrow> V (snd (ie_now E w))) \<and> (\<forall>ms w. V w \<longrightarrow> V (ie_sleep E ms w))"

text \<open>The address of the projection scope is one the package function accepts as it is.\<close>

definition sound_env :: "'w indexer_env \<Rightarrow> bool" where
  "sound_env E \<longleftrightarrow> 0 < ie_deploymentBlock E
     \<and> (\<forall>label. normalizeAddress (ie_bindings E) projectionScopeContractAddress label
          = Inr projectionScopeContractAddress)"

lemma scope_key_ix [simp]: "sound_env E \<Longrightarrow> scope_key (ie_bindings E) label (ix_scope E) = Inr (ix_scope E)"
  by (simp add: sound_env_def scope_key_def ix_scope_def defaultProjectionScope_def)

section \<open>Coverage\<close>

definition store_holds :: "'w indexer_env \<Rightarrow> durable_store \<Rightarrow> chain_event list \<Rightarrow> stored_cursor \<Rightarrow> bool" where
  "store_holds E d es cur \<longleftrightarrow>
     log_holds (ie_bindings E) (ie_chainId E) (ds_events d) es
     \<and> (\<forall>e \<in> set es. ie_deploymentBlock E \<le> blockNumber e)
     \<and> jget (ds_cursors d) (ix_scope E) = Some cur \<and> cu_scope cur = ix_scope E
     \<and> ds_snapshotScope d = ix_scope E
     \<and> rebuildOrderProjections (ie_bindings E) es = getOrderSnapshot (ie_bindings E) d
     \<and> rebuildIdentityProjections (ie_bindings E) es = getIdentitySnapshot (ie_bindings E) d"

definition below :: "int \<Rightarrow> chain_event list \<Rightarrow> chain_event set" where
  "below n es = {e \<in> set es. blockNumber e < n}"

definition cursor_fits :: "'w indexer_env \<Rightarrow> chain_view \<Rightarrow> chain_event list \<Rightarrow> stored_cursor \<Rightarrow> bool" where
  "cursor_fits E C es cur \<longleftrightarrow>
     (let dep = ie_deploymentBlock E; n = cu_nextBlock cur in
      dep \<le> n \<and> below n es = set (canonical C dep (n - 1))
      \<and> (dep < n \<longrightarrow> cu_blockHash cur = Some (cv_hash C (n - 1))))"

text \<open>
  A store covers a view if below its cursor it holds exactly the view's events; rows at or
  above the cursor may be left over from a crash. The snapshots are the replay of all rows.
\<close>

definition covers :: "'w indexer_env \<Rightarrow> chain_view \<Rightarrow> durable_store \<Rightarrow> bool" where
  "covers E C d \<longleftrightarrow> (\<exists>es cur. store_holds E d es cur \<and> cursor_fits E C es cur)"

section \<open>What does not touch coverage\<close>

definition core :: "durable_store \<Rightarrow> durable_store" where
  "core d = d\<lparr>ds_pending := [], ds_syncStates := []\<rparr>"

lemma core_updates [simp]:
  "core (d\<lparr>ds_pending := p\<rparr>) = core d" "core (d\<lparr>ds_syncStates := q\<rparr>) = core d"
  by (simp_all add: core_def)

lemma core_fields:
  assumes "core d = core d'"
  shows "ds_events d = ds_events d'" "ds_cursors d = ds_cursors d'" "ds_orders d = ds_orders d'"
    "ds_identities d = ds_identities d'" "ds_snapshotScope d = ds_snapshotScope d'"
  using assms by (cases d, cases d', simp add: core_def)+

lemma store_holds_core:
  assumes "core d = core d'"
  shows "store_holds E d es cur = store_holds E d' es cur"
  using core_fields [OF assms]
  by (simp add: store_holds_def getOrderSnapshot_def getIdentitySnapshot_def)

lemma covers_core: "core d = core d' \<Longrightarrow> covers E C d = covers E C d'"
  by (simp add: covers_def store_holds_core [of d d'])

definition quiet :: "('w \<Rightarrow> bool) \<Rightarrow> 'w indexer \<Rightarrow> 'w indexer \<Rightarrow> bool" where
  "quiet V s t \<longleftrightarrow> V (ix_world t) \<and> core (ix_store t) = core (ix_store s)
     \<and> ix_cursor t = ix_cursor s \<and> ix_casFailures t = ix_casFailures s
     \<and> (\<forall>d \<in> set (ix_committed t). d \<in> set (ix_committed s) \<or> core d = core (ix_store s))"

lemma quiet_refl: "V (ix_world s) \<Longrightarrow> quiet V s s"
  by (simp add: quiet_def)

lemma quiet_commit: "quiet V s t \<Longrightarrow> core d = core (ix_store s) \<Longrightarrow> quiet V s (commit_store d t)"
  by (auto simp: quiet_def commit_store_def)

named_theorems quiet_intros "actions that leave coverage alone"

lemma quiet_update [quiet_intros]:
  "(\<And>d. core (f d) = core d) \<Longrightarrow> keeps (quiet V s) (updateA f)"
  by (simp add: keeps_wp wp_simps quiet_commit quiet_def commit_store_def)

lemma quiet_write [quiet_intros]:
  "(\<And>d x d'. f d = Inr (x, d') \<Longrightarrow> core d' = core d) \<Longrightarrow> keeps (quiet V s) (writeA f)"
  by (auto simp: keeps_wp wp_simps quiet_def commit_store_def split: sum.split prod.split)

lemma quiet_read [quiet_intros]: "keeps (quiet V s) (readA f)"
  by (simp add: keeps_wp wp_simps split: sum.split)

lemma quiet_lift [quiet_intros]: "keeps (quiet V s) (liftA r)"
  by (simp add: keeps_wp wp_simps split: sum.split)

lemma quiet_external [quiet_intros]: "stays V f \<Longrightarrow> keeps (quiet V s) (externalA f)"
  by (auto simp: keeps_wp wp_simps stays_def quiet_def split: sum.split prod.split)

lemma quiet_now [quiet_intros]: "\<forall>w. V w \<longrightarrow> V (snd (ie_now E w)) \<Longrightarrow> keeps (quiet V s) (nowA E)"
  by (auto simp: keeps_wp wp_simps quiet_def split: prod.split)

lemma quiet_sleep [quiet_intros]: "\<forall>ms w. V w \<longrightarrow> V (ie_sleep E ms w) \<Longrightarrow> keeps (quiet V s) (sleepA E ms)"
  by (simp add: keeps_wp wp_simps quiet_def)

lemma quiet_transaction [quiet_intros]:
  assumes "keeps (quiet V s) m"
  shows "keeps (quiet V s) (transactionA m)"
  unfolding keeps_wp wp_transaction
proof (intro allI impI)
  fix u assume u: "quiet V s u"
  from keepsD [OF assms u] show
    "wp m (\<lambda>x t. quiet V s (commit_store (ix_store t) (t\<lparr>ix_committed := ix_committed u\<rparr>)))
       (\<lambda>e t. quiet V s (t\<lparr>ix_store := ix_store u, ix_committed := ix_committed u\<rparr>)) u"
    by (rule wp_mono) (use u in \<open>auto simp: quiet_def commit_store_def\<close>)
qed

lemmas keeps_intros = keeps_return keeps_throw keeps_gets keeps_bind keeps_catch keeps_when
  keeps_each keeps_option keeps_if keeps_find

lemma shows_viewD:
  assumes "shows_view r E C V"
  shows "answers r V (ie_getFinalizedBlock E) (cv_finalized C)"
    and "answers r V (ie_readEvents E lo hi) (canonical C lo hi)"
    and "ie_getBlockHash E = Some hash \<Longrightarrow> answers r V (hash b) (cv_hash C b)"
    and "ie_processSignals E = Some f \<Longrightarrow> stays V (f es)"
    and "ie_invalidateAbove E = Some g \<Longrightarrow> stays V (g b)"
    and "ie_processProjection E = Some h \<Longrightarrow> stays V (h snap)"
    and "\<forall>w. V w \<longrightarrow> V (snd (ie_now E w))" and "\<forall>ms w. V w \<longrightarrow> V (ie_sleep E ms w)"
    and "stays V (ie_queueWrite E)"
  using assms by (auto simp: shows_view_def)

lemma stays_answers: "answers r V f x \<Longrightarrow> stays V f"
  by (simp add: answers_def stays_def)

lemma core_saveSync: "saveSyncRow B now base d = Inr (x, d') \<Longrightarrow> core d' = core d"
  by (auto simp: saveSyncRow_def bindR_Inr_iff Let_def)

lemma core_pending [simp]:
  "core (savePendingPostCommitStep now inp d) = core d"
  "core (recordPendingPostCommitAttempt now i err d) = core d"
  "core (deletePendingPostCommitStep i d) = core d"
  by (simp_all add: savePendingPostCommitStep_def recordPendingPostCommitAttempt_def
    deletePendingPostCommitStep_def)

end
