(* ===== verification/QuietSteps.thy ===== *)
theory QuietSteps imports ChainViews begin

text \<open>
  The steps after a commit, the queue and the reports of the indexer leave the events, the
  cursors and the snapshots alone, whatever the processors do.
\<close>

lemma quiet_saveSync:
  assumes "shows_view r E C V"
  shows "keeps (quiet V s) (saveSyncA E base)"
  unfolding saveSyncA_def
  by (intro keeps_intros quiet_intros shows_viewD [OF assms]) (rule core_saveSync)

lemma quiet_queue:
  assumes "shows_view r E C V" and "\<And>d. core (f d) = core d"
  shows "keeps (quiet V s) (queueA E f)"
  unfolding queueA_def
  by (intro keeps_intros quiet_intros shows_viewD [OF assms(1)] assms(2))

lemma quiet_pending_steps:
  assumes "shows_view r E C V"
  shows "keeps (quiet V s) (savePendingA E inp)"
    and "keeps (quiet V s) (recordAttemptA E i err)"
    and "keeps (quiet V s) (dropPendingPostCommitStep E i)"
  unfolding savePendingA_def recordAttemptA_def dropPendingPostCommitStep_def
  by (intro keeps_intros quiet_intros quiet_queue [OF assms] shows_viewD [OF assms] core_pending)+

lemma quiet_reads:
  "keeps (quiet V s) (storedEventsA E)" "keeps (quiet V s) (storedCursorA E)"
  "keeps (quiet V s) (syncStateA E)" "keeps (quiet V s) (pendingStepsA E)"
  unfolding storedEventsA_def storedCursorA_def syncStateA_def pendingStepsA_def
  by (intro keeps_intros quiet_intros)+

lemma quiet_attempts:
  assumes "shows_view r E C V" and "keeps (quiet V s) run"
  shows "keeps (quiet V s) (attempt_step E kind events run attempt left)"
proof (induction left arbitrary: attempt)
  case 0
  show ?case by (simp add: keeps_return)
next
  case (Suc left)
  show ?case
    unfolding attempt_step.simps persistPendingPostCommitStep_def
    by (intro keeps_intros quiet_intros assms Suc.IH shows_viewD [OF assms(1)]
      quiet_pending_steps [OF assms(1)])
qed

lemma quiet_processing:
  assumes "shows_view r E C V"
  shows "keeps (quiet V s) (processSignalNotifications E events)"
    and "keeps (quiet V s) (processProjectionAutomation E snap)"
    and "keeps (quiet V s) (prePersistRebuildNotificationStep E events)"
    and "keeps (quiet V s) (invalidateNotificationsAfterReorg E b)"
  unfolding processSignalNotifications_def processProjectionAutomation_def
    runPostCommitStepWithBoundedRetry_def prePersistRebuildNotificationStep_def
    invalidateNotificationsAfterReorg_def
  by (auto intro!: keeps_intros quiet_attempts [OF assms] quiet_intros quiet_pending_steps [OF assms]
    dest: shows_viewD(4,5,6) [OF assms] split: option.split)

lemma quiet_delivery:
  assumes "shows_view r E C V"
  shows "keeps (quiet V s) (deliverPendingPostCommitStep E step)"
  unfolding deliverPendingPostCommitStep_def Let_def
  by (auto intro!: keeps_intros quiet_intros quiet_reads dest: shows_viewD(4,5,6) [OF assms]
    split: option.split pending_kind.split)

lemma quiet_sweep:
  assumes "shows_view r E C V"
  shows "keeps (quiet V s) (sweepPendingPostCommitSteps E)"
proof -
  have step: "keeps (quiet V s) (sweep_step E su step)" for su step
    unfolding sweep_step_def Let_def
    by (auto intro!: keeps_intros quiet_delivery [OF assms] quiet_intros quiet_pending_steps [OF assms]
        quiet_queue [OF assms]
      split: ix_error.split)
  have "keeps (quiet V s) (sweep_steps E su steps)" for su steps
    by (induction steps arbitrary: su) (auto intro!: keeps_intros step)
  then show ?thesis
    unfolding sweepPendingPostCommitSteps_def by (intro keeps_bind quiet_reads)
qed

lemma quiet_trim:
  assumes "shows_view r E C V"
  shows "keeps (quiet V s) (trimPendingPostCommitStepsAfterReorg E b)"
proof -
  have "keeps (quiet V s) (trim_step E b step)" for step
    unfolding trim_step_def Let_def
    by (auto intro!: keeps_intros quiet_intros quiet_pending_steps [OF assms] quiet_queue [OF assms]
      split: option.split)
  then show ?thesis
    unfolding trimPendingPostCommitStepsAfterReorg_def trimPass_def
    by (intro keeps_intros quiet_reads)
qed

lemma quiet_reports:
  assumes "shows_view r E C V"
  shows "keeps (quiet V s) (markDegraded E finalized err mismatch)"
    and "keeps (quiet V s) (rebuild_failed E b committed stepId n err)"
    and "keeps (quiet V s) (summarizeStoredProjection E from to)"
proof -
  show d: "keeps (quiet V s) (markDegraded E finalized err mismatch)" for finalized mismatch
    unfolding markDegraded_def storedMismatchCount_def
    by (intro keeps_intros quiet_reads quiet_intros quiet_saveSync [OF assms] shows_viewD [OF assms])
  show "keeps (quiet V s) (rebuild_failed E b committed stepId n err)"
    unfolding rebuild_failed_def
    by (intro keeps_intros d quiet_pending_steps [OF assms])
  show "keeps (quiet V s) (summarizeStoredProjection E from to)"
    unfolding summarizeStoredProjection_def Let_def
    by (intro keeps_intros quiet_reads quiet_intros quiet_saveSync [OF assms])
qed

section \<open>Steps that never throw\<close>

lemma never_throws_update: "never_throws (updateA f)"
  by (simp add: never_throws_def wp_simps)

lemma never_throws_now: "never_throws (nowA E)"
  by (simp add: never_throws_def wp_simps split: prod.split)

lemma never_throws_sleep: "never_throws (sleepA E ms)"
  by (simp add: never_throws_def wp_simps)

lemma never_throws_attempts: "never_throws (attempt_step E kind events run attempt left)"
  by (induction left arbitrary: attempt)
    (auto simp: persistPendingPostCommitStep_def intro!: never_throws_intros never_throws_sleep)

lemma never_throws_processing:
  "never_throws (processSignalNotifications E events)"
  "never_throws (processProjectionAutomation E snap)"
  "never_throws (invalidateNotificationsAfterReorg E b)"
  "never_throws (trimPendingPostCommitStepsAfterReorg E b)"
  "never_throws (prePersistRebuildNotificationStep E events)"
  "never_throws (dropPendingPostCommitStep E i)"
  unfolding processSignalNotifications_def processProjectionAutomation_def
    runPostCommitStepWithBoundedRetry_def invalidateNotificationsAfterReorg_def
    trimPendingPostCommitStepsAfterReorg_def prePersistRebuildNotificationStep_def
    dropPendingPostCommitStep_def
  by (intro never_throws_intros never_throws_attempts)+

lemma never_throws_sweep: "never_throws (sweepPendingPostCommitSteps E)"
proof -
  have "never_throws (sweep_step E su step)" for su step
    by (auto simp: sweep_step_def Let_def intro!: never_throws_intros split: ix_error.split)
  then have "never_throws (sweep_steps E su steps)" for su steps
    by (induction steps arbitrary: su) (auto intro!: never_throws_intros)
  then show ?thesis
    unfolding sweepPendingPostCommitSteps_def pendingStepsA_def
    by (intro never_throws_bind never_throws_gets)
qed

text \<open>Quiet actions in between.\<close>

lemma wp_quiet:
  assumes "keeps (quiet V s) m" and "V (ix_world s)"
    and "\<And>x t. quiet V s t \<Longrightarrow> Q x t" and "\<And>e t. quiet V s t \<Longrightarrow> Er e t"
  shows "wp m Q Er s"
  by (rule wp_mono [OF keepsD [OF assms(1) quiet_refl [of V s, OF assms(2)]]]) (auto intro: assms(3,4))

lemma wp_quiet_never_throws:
  assumes "keeps (quiet V s) m" and "never_throws m" and "V (ix_world s)"
    and "\<And>x t. quiet V s t \<Longrightarrow> Q x t"
  shows "wp m Q Er s"
  using wp_conj [OF wp_quiet [OF assms(1,3), of "\<lambda>_. quiet V s" "\<lambda>_. quiet V s"]
      assms(2) [unfolded never_throws_def, rule_format, of s]]
  by (rule wp_mono) (auto intro: assms(4))

end
