(* ===== verification/StoreSteps.thy ===== *)
theory StoreSteps imports QuietSteps begin

text \<open>
  The writes of the indexer that move coverage: the cursor write with its condition, the
  transaction that rolls back to an ancestor, the transaction of a refresh, and the rebuild.
  Each is described by the list of events the store holds before and after.
\<close>

section \<open>Store operations on a covering store\<close>

lemma getCursor_holds:
  "sound_env E \<Longrightarrow> store_holds E d es cur \<Longrightarrow> getCursor (ie_bindings E) (ix_scope E) d = Inr (Some cur)"
  by (cases cur) (simp add: getCursor_def store_holds_def)

lemma listEvents_store:
  "store_holds E d es cur \<Longrightarrow>
     listEvents (ie_bindings E) (ie_chainId E) (ds_events d) = Inr (sortChainEvents es)"
  by (simp add: store_holds_def listEvents_holds)

lemma saveSyncRow_ok:
  assumes "sound_env E" and "sy_scope base = ix_scope E"
  shows "\<exists>x. saveSyncRow (ie_bindings E) now base d
    = Inr (x, d\<lparr>ds_syncStates := jset (ix_scope E) x (ds_syncStates d)\<rparr>)"
  using assms by (simp add: saveSyncRow_def Let_def)

lemma sortChainEvents_recorded:
  assumes "recorded B chain es"
  shows "recorded B chain (sortChainEvents es)" and "set (sortChainEvents es) = set es"
  using assms by (simp_all add: sortChainEvents_def recorded_def)

lemma rebuild_sorted:
  assumes "recorded B chain es"
  shows "rebuildOrderProjections B' (sortChainEvents es) = rebuildOrderProjections B' es"
    and "rebuildIdentityProjections B' (sortChainEvents es) = rebuildIdentityProjections B' es"
  by (intro same_events_same_rebuild [OF sortChainEvents_recorded(1) [OF assms] assms]
    sortChainEvents_recorded(2) [OF assms])+

lemma store_holdsI:
  assumes "sound_env E"
    and "log_holds (ie_bindings E) (ie_chainId E) (ds_events d) es"
    and "\<forall>e \<in> set es. ie_deploymentBlock E \<le> blockNumber e"
    and "jget (ds_cursors d) (ix_scope E) = Some cur" and "cu_scope cur = ix_scope E"
    and "ds_snapshotScope d = ix_scope E"
    and "map_option ss_snapshot (jget (ds_orders d) (ix_scope E)) = Some orders"
    and "map_option ss_snapshot (jget (ds_identities d) (ix_scope E)) = Some identities"
    and "rebuildOrderProjections (ie_bindings E) es = Inr orders"
    and "rebuildIdentityProjections (ie_bindings E) es = Inr identities"
  shows "store_holds E d es cur"
  using assms by (auto simp: store_holds_def getOrderSnapshot_def getIdentitySnapshot_def)

section \<open>Writing the cursor\<close>

definition row_for :: "'w indexer_env \<Rightarrow> event_cursor \<Rightarrow> stored_cursor \<Rightarrow> bool" where
  "row_for E c row \<longleftrightarrow> cu_scope row = ix_scope E \<and> cu_nextBlock row = ec_nextBlock c
     \<and> cu_finalizedBlock row = ec_finalizedBlock c
     \<and> cu_blockHash row = map_option toLowerCase (ec_blockHash c)"

lemma row_for_cursor_row: "row_for E c (cursor_row (cursor_input_of E c) (ix_scope E) now)"
  by (simp add: row_for_def cursor_row_def cursorResult_def cursor_input_of_def cursor_input.defs)

lemma store_holds_cursor:
  assumes "store_holds E d es cur" and "cu_scope row = ix_scope E"
  shows "store_holds E (d\<lparr>ds_cursors := jset (ix_scope E) row (ds_cursors d)\<rparr>) es row"
  using assms by (simp add: store_holds_def getOrderSnapshot_def getIdentitySnapshot_def)

lemma wp_saveCursor:
  assumes env: "sound_env E" and view: "shows_view r E C V"
    and holds: "store_holds E (ix_store s) es cur" and V: "V (ix_world s)"
    and refused: "\<And>n t. expected = Some n \<Longrightarrow> cu_nextBlock cur \<noteq> n \<Longrightarrow> quiet V s t \<Longrightarrow> Q None t"
    and saved: "\<And>x row t. expected = None \<or> expected = Some (cu_nextBlock cur) \<Longrightarrow> row_for E c row \<Longrightarrow>
      ix_store t = (ix_store s)\<lparr>ds_cursors := jset (ix_scope E) row (ds_cursors (ix_store s))\<rparr> \<Longrightarrow>
      store_holds E (ix_store t) es row \<Longrightarrow> V (ix_world t) \<Longrightarrow>
      ix_cursor t = ix_cursor s \<Longrightarrow> ix_casFailures t = ix_casFailures s \<Longrightarrow>
      ix_committed t = ix_committed s @ [ix_store t] \<Longrightarrow> Q (Some x) t"
  shows "wp (saveCursorA E c expected) Q Er s"
proof -
  obtain now w where now: "ie_now E (ix_world s) = (now, w)" by (cases "ie_now E (ix_world s)")
  with view V have w: "V w" by (metis shows_viewD(7) snd_conv)
  have old: "jget (ds_cursors (ix_store s)) (ix_scope E) = Some cur"
    using holds by (simp add: store_holds_def)
  have row: "row_for E c (cursor_row (cursor_input_of E c) (ix_scope E) now)"
    by (rule row_for_cursor_row)
  have sc: "cu_scope (cursor_input_of E c) = ix_scope E" by (simp add: cursor_input_of_def)
  show ?thesis
  proof (cases "\<exists>n. expected = Some n \<and> cu_nextBlock cur \<noteq> n")
    case True
    then obtain n where n: "expected = Some n" "cu_nextBlock cur \<noteq> n" by blast
    have "Q None (commit_store (ix_store s) (s\<lparr>ix_world := w\<rparr>))"
      by (rule refused [OF n]) (use w in \<open>simp add: quiet_def commit_store_def\<close>)
    then show ?thesis
      using n env by (simp add: saveCursorA_def wp_simps now saveCursor_def sc old)
  next
    case False
    let ?row = "cursor_row (cursor_input_of E c) (ix_scope E) now"
    let ?d = "(ix_store s)\<lparr>ds_cursors := jset (ix_scope E) ?row (ds_cursors (ix_store s))\<rparr>"
    have e: "expected = None \<or> expected = Some (cu_nextBlock cur)" using False by (cases expected) auto
    have "store_holds E ?d es ?row"
      by (rule store_holds_cursor [OF holds]) (use row in \<open>simp add: row_for_def\<close>)
    then have "Q (Some x) (commit_store ?d (s\<lparr>ix_world := w\<rparr>))" for x
      by (intro saved [OF e row]) (use w in \<open>simp_all add: commit_store_def\<close>)
    then show ?thesis
      using False env by (cases expected) (auto simp: saveCursorA_def wp_simps now saveCursor_def sc old)
  qed
qed

section \<open>Replaying what is stored\<close>

lemma wp_saveSnapshots:
  assumes env: "sound_env E" and view: "shows_view r E C V" and V: "V (ix_world s)"
    and ok: "\<And>t t1 t2. V (ix_world t) \<Longrightarrow> ix_cursor t = ix_cursor s \<Longrightarrow>
      ix_casFailures t = ix_casFailures s \<Longrightarrow>
      ix_store t = (ix_store s)\<lparr>
        ds_orders := jset (ix_scope E) \<lparr>ss_snapshot = orders, ss_version = 1, ss_updatedAt = t1\<rparr> (ds_orders (ix_store s)),
        ds_identities := jset (ix_scope E) \<lparr>ss_snapshot = identities, ss_version = 1, ss_updatedAt = t2\<rparr>
          (ds_identities (ix_store s))\<rparr> \<Longrightarrow> Q () t"
  shows "wp (saveSnapshotsA E orders identities) Q Er s"
proof -
  have w1: "V (snd (ie_now E (ix_world s)))" using shows_viewD(7) [OF view] V by blast
  have w2: "V (snd (ie_now E (snd (ie_now E (ix_world s)))))" using shows_viewD(7) [OF view] w1 by blast
  show ?thesis
    unfolding saveSnapshotsA_def wp_simps
    by (simp add: prod.case_eq_if saveOrderSnapshot_def saveIdentitySnapshot_def env commit_store_def)
      (rule ok, use w2 in simp_all)
qed

lemma wp_saveSync:
  assumes env: "sound_env E" and view: "shows_view r E C V" and V: "V (ix_world s)"
    and base: "sy_scope base = ix_scope E"
    and ok: "\<And>t x. V (ix_world t) \<Longrightarrow> ix_cursor t = ix_cursor s \<Longrightarrow> ix_casFailures t = ix_casFailures s \<Longrightarrow>
      ix_store t = (ix_store s)\<lparr>ds_syncStates := jset (ix_scope E) x (ds_syncStates (ix_store s))\<rparr> \<Longrightarrow>
      Q x t"
  shows "wp (saveSyncA E base) Q Er s"
proof -
  have w1: "V (snd (ie_now E (ix_world s)))" using shows_viewD(7) [OF view] V by blast
  show ?thesis
    unfolding saveSyncA_def wp_simps
    by (simp add: prod.case_eq_if saveSyncRow_def env base Let_def commit_store_def)
      (rule ok, use w1 in simp_all)
qed

lemma wp_existing_sync:
  "(\<And>x. Q x s) \<Longrightarrow> wp (catchA (syncStateA E) (\<lambda>_. returnA None)) Q Er s"
  by (simp add: syncStateA_def wp_simps split: sum.split)

lemma wp_replay_stored:
  fixes E :: "'w indexer_env"
  assumes env: "sound_env E" and view: "shows_view r E C V" and V: "V (ix_world s)"
    and log: "log_holds (ie_bindings E) (ie_chainId E) (ds_events (ix_store s)) es"
    and dep: "\<forall>e \<in> set es. ie_deploymentBlock E \<le> blockNumber e"
    and cur: "jget (ds_cursors (ix_store s)) (ix_scope E) = Some cur" "cu_scope cur = ix_scope E"
    and sc: "ds_snapshotScope (ix_store s) = ix_scope E"
    and ok: "\<And>orders identities t. rebuildOrderProjections (ie_bindings E) es = Inr orders \<Longrightarrow>
      rebuildIdentityProjections (ie_bindings E) es = Inr identities \<Longrightarrow> V (ix_world t) \<Longrightarrow>
      ix_cursor t = ix_cursor s \<Longrightarrow> ix_casFailures t = ix_casFailures s \<Longrightarrow>
      store_holds E (ix_store t) es cur \<Longrightarrow> wp (k (sortChainEvents es) orders identities) Q Er t"
    and bad: "\<And>e. (\<exists>x. rebuildOrderProjections (ie_bindings E) es = Inl x)
        \<or> (\<exists>x. rebuildIdentityProjections (ie_bindings E) es = Inl x) \<Longrightarrow> Er (Thrown e) s"
  shows "wp (bindA (storedEventsA E) (\<lambda>stored.
      bindA (liftA (rebuildOrderProjections (ie_bindings E) stored)) (\<lambda>orders.
      bindA (liftA (rebuildIdentityProjections (ie_bindings E) stored)) (\<lambda>identities.
      bindA (saveSnapshotsA E orders identities) (\<lambda>_. k stored orders identities))))) Q Er s"
proof -
  let ?B = "ie_bindings E"
  have rec: "recorded ?B (ie_chainId E) es" using log by (simp add: log_holds_def)
  show ?thesis
  proof (cases "rebuildOrderProjections ?B es")
    case (Inl x)
    then show ?thesis
      by (simp add: wp_simps storedEventsA_def listEvents_holds [OF log] rebuild_sorted [OF rec] bad)
  next
    case (Inr orders)
    note o = this
    show ?thesis
    proof (cases "rebuildIdentityProjections ?B es")
      case (Inl x)
      with o show ?thesis
        by (simp add: wp_simps storedEventsA_def listEvents_holds [OF log] rebuild_sorted [OF rec] bad)
    next
      case (Inr identities)
      have "wp (saveSnapshotsA E orders identities)
          (\<lambda>_. wp (k (sortChainEvents es) orders identities) Q Er) Er s"
      proof (rule wp_saveSnapshots [OF env view V])
        fix t :: "'w indexer" and t1 t2
        assume t: "V (ix_world t)" "ix_cursor t = ix_cursor s" "ix_casFailures t = ix_casFailures s"
          and d: "ix_store t = (ix_store s)\<lparr>
            ds_orders := jset (ix_scope E) \<lparr>ss_snapshot = orders, ss_version = 1, ss_updatedAt = t1\<rparr> (ds_orders (ix_store s)),
            ds_identities := jset (ix_scope E) \<lparr>ss_snapshot = identities, ss_version = 1, ss_updatedAt = t2\<rparr>
              (ds_identities (ix_store s))\<rparr>"
        have "store_holds E (ix_store t) es cur"
          by (rule store_holdsI [OF env _ dep _ cur(2) _ _ _ o Inr]) (simp_all add: d log cur sc)
        with o Inr t show "wp (k (sortChainEvents es) orders identities) Q Er t" by (intro ok)
      qed
      with o Inr show ?thesis
        by (simp add: wp_simps storedEventsA_def listEvents_holds [OF log] rebuild_sorted [OF rec])
    qed
  qed
qed

section \<open>Rolling back\<close>

lemma delete_holds:
  assumes "store_holds E d es cur"
  shows "log_holds (ie_bindings E) (ie_chainId E) (ds_events (snd (deleteEventRows (ie_chainId E) b d)))
      (filter (\<lambda>e. blockNumber e \<le> b) es)"
    and "ds_cursors (snd (deleteEventRows (ie_chainId E) b d)) = ds_cursors d"
    and "ds_snapshotScope (snd (deleteEventRows (ie_chainId E) b d)) = ds_snapshotScope d"
  using assms deleteEvents_holds [of "ie_bindings E" "ie_chainId E" "ds_events d" es b]
  by (simp_all add: store_holds_def deleteEventRows_def split: prod.split) auto

lemma wp_rollback_transaction:
  fixes E :: "'w indexer_env"
  assumes env: "sound_env E" and view: "shows_view r E C V" and V: "V (ix_world s)"
    and holds: "store_holds E (ix_store s) es cur" and n: "cu_nextBlock cur = n"
    and ok: "\<And>t row. V (ix_world t) \<Longrightarrow> row_for E (ancestor_cursor E a h) row \<Longrightarrow>
      store_holds E (ix_store t) (filter (\<lambda>e. blockNumber e \<le> a) es) row \<Longrightarrow>
      ix_committed t = ix_committed s @ [ix_store t] \<Longrightarrow> Q () t"
    and bad: "\<And>e t. (\<exists>x. rebuildOrderProjections (ie_bindings E) (filter (\<lambda>e. blockNumber e \<le> a) es) = Inl x)
        \<or> (\<exists>x. rebuildIdentityProjections (ie_bindings E) (filter (\<lambda>e. blockNumber e \<le> a) es) = Inl x) \<Longrightarrow>
      quiet V s t \<Longrightarrow> Er (Thrown e) t"
  shows "wp (rollback_transaction E n a h) Q Er s"
proof -
  let ?es = "filter (\<lambda>e. blockNumber e \<le> a) es"
  let ?d = "snd (deleteEventRows (ie_chainId E) a (ix_store s))"
  let ?Q = "\<lambda>x t. Q x (commit_store (ix_store t) (t\<lparr>ix_committed := ix_committed s\<rparr>))"
  let ?Er = "\<lambda>e t. Er e (t\<lparr>ix_store := ix_store s, ix_committed := ix_committed s\<rparr>)"
  have old: "jget (ds_cursors (ix_store s)) (ix_scope E) = Some cur" "cu_scope cur = ix_scope E"
    "ds_snapshotScope (ix_store s) = ix_scope E" "\<forall>e \<in> set ?es. ie_deploymentBlock E \<le> blockNumber e"
    using holds by (simp_all add: store_holds_def)
  have "wp (bindA (storedEventsA E) (\<lambda>remaining.
      bindA (liftA (rebuildOrderProjections (ie_bindings E) remaining)) (\<lambda>orders.
      bindA (liftA (rebuildIdentityProjections (ie_bindings E) remaining)) (\<lambda>identities.
      bindA (saveSnapshotsA E orders identities) (\<lambda>_.
      bindA (catchA (syncStateA E) (\<lambda>_. returnA None)) (\<lambda>existing.
      bindA (saveSyncA E (rollback_sync E a remaining existing)) (\<lambda>_.
      bindA (saveCursorA E (ancestor_cursor E a h) (Some n)) (\<lambda>saved.
      whenA (saved = None) (throwA ReorgCursorMoved))))))))) ?Q ?Er (commit_store ?d s)"
  proof (rule wp_replay_stored [OF env view])
    fix orders identities and t :: "'w indexer"
    assume t: "V (ix_world t)" "store_holds E (ix_store t) ?es cur"
    show "wp (bindA (catchA (syncStateA E) (\<lambda>_. returnA None)) (\<lambda>existing.
        bindA (saveSyncA E (rollback_sync E a (sortChainEvents ?es) existing)) (\<lambda>_.
        bindA (saveCursorA E (ancestor_cursor E a h) (Some n)) (\<lambda>saved.
        whenA (saved = None) (throwA ReorgCursorMoved))))) ?Q ?Er t"
      unfolding wp_bind
    proof (intro wp_existing_sync wp_saveSync [OF env view t(1)])
      fix u :: "'w indexer" and x existing
      assume u: "V (ix_world u)"
        and d: "ix_store u = (ix_store t)\<lparr>ds_syncStates := jset (ix_scope E) x (ds_syncStates (ix_store t))\<rparr>"
      have "store_holds E (ix_store u) ?es cur"
        using t(2) store_holds_core [of "ix_store u" "ix_store t" E] d by simp
      then show "wp (saveCursorA E (ancestor_cursor E a h) (Some n))
          (\<lambda>saved. wp (whenA (saved = None) (throwA ReorgCursorMoved)) ?Q ?Er) ?Er u"
        by (rule wp_saveCursor [OF env view _ u])
          (use n in \<open>auto simp: wp_simps commit_store_def intro!: ok\<close>)
    qed (simp add: rollback_sync_def Let_def)
  next
    show "?Er (Thrown e) (commit_store ?d s)"
      if "(\<exists>x. rebuildOrderProjections (ie_bindings E) ?es = Inl x)
        \<or> (\<exists>x. rebuildIdentityProjections (ie_bindings E) ?es = Inl x)" for e
      using bad [OF that, of "(commit_store ?d s)\<lparr>ix_store := ix_store s, ix_committed := ix_committed s\<rparr>"] V
      by (simp add: quiet_def commit_store_def)
  qed (use V old delete_holds [OF holds] in \<open>simp_all add: commit_store_def\<close>)
  then show ?thesis
    by (simp add: rollback_transaction_def wp_transaction wp_bind [of "updateA _"] wp_update)
qed

section \<open>Appending\<close>

lemma different_blocks_different_keys:
  assumes "recordable B chain d" and "recordable B chain e" and "blockNumber d \<noteq> blockNumber e"
  shows "chainEventKey d \<noteq> chainEventKey e"
  using chainEventKey_inj [of d e] assms by (auto simp: recordable_def)

lemma recorded_above:
  assumes "recorded B chain es" and "recorded B chain new" and "\<forall>e \<in> set new. n \<le> blockNumber e"
  shows "recorded B chain (filter (\<lambda>e. blockNumber e \<le> n - 1) es @ new)"
proof (rule recorded_append [OF recorded_filter [OF assms(1)] assms(2)])
  have "chainEventKey d \<noteq> chainEventKey e"
    if "d \<in> set (filter (\<lambda>e. blockNumber e \<le> n - 1) es)" "e \<in> set new" for d e
    using that assms by (intro different_blocks_different_keys [of B chain]) (auto simp: recorded_def)
  then show "chainEventKey ` set (filter (\<lambda>e. blockNumber e \<le> n - 1) es) \<inter> chainEventKey ` set new = {}"
    by blast
qed

lemma appendEventRows_eq:
  "appendEventRows B es d = bindR (appendEvents B (ds_events d) es) (\<lambda>rows. Inr (d\<lparr>ds_events := rows\<rparr>))"
proof (induction es arbitrary: d)
  case (Cons e es)
  then show ?case
    by (cases "appendEvent B e (ds_events d)")
      (auto simp: appendEventRows_def appendEvents_def appendEventRow_def)
qed (simp add: appendEventRows_def appendEvents_def)

lemma wp_refresh_transaction:
  fixes E :: "'w indexer_env"
  assumes env: "sound_env E" and view: "shows_view r E C V" and V: "V (ix_world s)"
    and holds: "store_holds E (ix_store s) es cur" and n: "cu_nextBlock cur = n" "ie_deploymentBlock E \<le> n"
    and new: "recorded (ie_bindings E) (ie_chainId E) new" "\<forall>e \<in> set new. n \<le> blockNumber e"
    and ok: "\<And>t res. V (ix_world t) \<Longrightarrow> ix_cursor t = ix_cursor s \<Longrightarrow> ix_casFailures t = ix_casFailures s \<Longrightarrow>
      rebuildOrderProjections (ie_bindings E) (filter (\<lambda>e. blockNumber e \<le> n - 1) es @ new) = Inr (rr_snapshot res) \<Longrightarrow>
      store_holds E (ix_store t) (filter (\<lambda>e. blockNumber e \<le> n - 1) es @ new) cur \<Longrightarrow>
      ix_committed t = ix_committed s @ [ix_store t] \<Longrightarrow> Q res t"
    and bad: "\<And>e t. (\<exists>x. rebuildOrderProjections (ie_bindings E) (filter (\<lambda>e. blockNumber e \<le> n - 1) es @ new) = Inl x)
        \<or> (\<exists>x. rebuildIdentityProjections (ie_bindings E) (filter (\<lambda>e. blockNumber e \<le> n - 1) es @ new) = Inl x) \<Longrightarrow>
      quiet V s t \<Longrightarrow> Er (Thrown e) t"
  shows "wp (refresh_transaction E n to reported new m) Q Er s"
proof -
  let ?B = "ie_bindings E"
  let ?es = "filter (\<lambda>e. blockNumber e \<le> n - 1) es @ new"
  let ?d = "snd (deleteEventRows (ie_chainId E) (n - 1) (ix_store s))"
  let ?Q = "\<lambda>x t. Q x (commit_store (ix_store t) (t\<lparr>ix_committed := ix_committed s\<rparr>))"
  let ?Er = "\<lambda>e t. Er e (t\<lparr>ix_store := ix_store s, ix_committed := ix_committed s\<rparr>)"
  have old: "jget (ds_cursors (ix_store s)) (ix_scope E) = Some cur" "cu_scope cur = ix_scope E"
    "ds_snapshotScope (ix_store s) = ix_scope E" "\<forall>e \<in> set ?es. ie_deploymentBlock E \<le> blockNumber e"
    using holds new n by (fastforce simp: store_holds_def)+
  have pos: "0 < n" using env n by (simp add: sound_env_def)
  have rec: "recorded ?B (ie_chainId E) ?es"
    using holds by (intro recorded_above new) (simp add: store_holds_def log_holds_def)
  from appendEvents_holds [OF delete_holds(1) [OF holds] rec] obtain rows where
    rows: "appendEvents ?B (ds_events ?d) new = Inr rows" "log_holds ?B (ie_chainId E) rows ?es" by blast
  then have app: "appendEventRows ?B new ?d = Inr (?d\<lparr>ds_events := rows\<rparr>)"
    by (simp add: appendEventRows_eq)
  define k where "k stored orders identities =
     (let su = buildActiveChainEventReplaySummary stored;
          mismatch = countDuplicateActiveEventAnomalies stored in
      bindA (saveSyncA E (indexed_sync E reported su (replay_metadata E n to m su mismatch))) (\<lambda>sync.
        returnA \<lparr>rr_snapshot = orders,
          rr_summary = summaryFromSnapshot E n to orders (length (jkeys (is_bindings identities)))
            (length (activeEvents su)) (activeEventCount su) (removedEventCount su)
            (removedLogsFiltered su) (sync_base.truncate sync) (int mismatch)\<rparr>))"
    for stored orders and identities :: identity_snapshot
  let ?u = "commit_store (?d\<lparr>ds_events := rows\<rparr>) (commit_store ?d s)"
  have replay: "wp (bindA (storedEventsA E) (\<lambda>stored.
      bindA (liftA (rebuildOrderProjections ?B stored)) (\<lambda>orders.
      bindA (liftA (rebuildIdentityProjections ?B stored)) (\<lambda>identities.
      bindA (saveSnapshotsA E orders identities) (\<lambda>_. k stored orders identities))))) ?Q ?Er ?u"
  proof (rule wp_replay_stored [OF env view])
    fix orders identities and t :: "'w indexer"
    assume t: "rebuildOrderProjections ?B ?es = Inr orders" "V (ix_world t)" "ix_cursor t = ix_cursor ?u"
      "ix_casFailures t = ix_casFailures ?u" "store_holds E (ix_store t) ?es cur"
    show "wp (k (sortChainEvents ?es) orders identities) ?Q ?Er t"
      unfolding k_def Let_def wp_bind
    proof (rule wp_saveSync [OF env view t(2)])
      fix u :: "'w indexer" and x
      assume u: "V (ix_world u)" "ix_cursor u = ix_cursor t" "ix_casFailures u = ix_casFailures t"
        and d: "ix_store u = (ix_store t)\<lparr>ds_syncStates := jset (ix_scope E) x (ds_syncStates (ix_store t))\<rparr>"
      have "store_holds E (ix_store u) ?es cur"
        using t(5) store_holds_core [of "ix_store u" "ix_store t" E] d by simp
      with t(1,3,4) u show "wp (returnA \<lparr>rr_snapshot = orders,
          rr_summary = summaryFromSnapshot E n to orders (length (jkeys (is_bindings identities)))
            (length (activeEvents (buildActiveChainEventReplaySummary (sortChainEvents ?es))))
            (activeEventCount (buildActiveChainEventReplaySummary (sortChainEvents ?es)))
            (removedEventCount (buildActiveChainEventReplaySummary (sortChainEvents ?es)))
            (removedLogsFiltered (buildActiveChainEventReplaySummary (sortChainEvents ?es)))
            (sync_base.truncate x) (int (countDuplicateActiveEventAnomalies (sortChainEvents ?es)))\<rparr>) ?Q ?Er u"
        by (auto simp: wp_simps commit_store_def intro!: ok)
    qed (simp add: indexed_sync_def Let_def)
  next
    show "?Er (Thrown e) ?u"
      if "(\<exists>x. rebuildOrderProjections ?B ?es = Inl x) \<or> (\<exists>x. rebuildIdentityProjections ?B ?es = Inl x)" for e
      using bad [OF that, of "?u\<lparr>ix_store := ix_store s, ix_committed := ix_committed s\<rparr>"] V
      by (simp add: quiet_def commit_store_def)
  qed (use V old rows delete_holds [OF holds] in \<open>simp_all add: commit_store_def\<close>)
  have eq: "refresh_transaction E n to reported new m = transactionA
     (bindA (whenA (0 < n)
        (bindA (storedCursorA E) (\<lambda>cursor.
           whenA (map_option cu_nextBlock cursor = Some n)
             (updateA (\<lambda>d. snd (deleteEventRows (ie_chainId E) (n - 1) d)))))) (\<lambda>_.
      bindA (writeA (\<lambda>d. bindR (appendEventRows ?B new d) (\<lambda>d'. Inr ((), d')))) (\<lambda>_.
      bindA (storedEventsA E) (\<lambda>stored.
      bindA (liftA (rebuildOrderProjections ?B stored)) (\<lambda>orders.
      bindA (liftA (rebuildIdentityProjections ?B stored)) (\<lambda>identities.
      bindA (saveSnapshotsA E orders identities) (\<lambda>_. k stored orders identities)))))))"
    by (simp add: refresh_transaction_def k_def Let_def)
  show ?thesis
    unfolding eq wp_transaction
    using replay pos n
    by (simp add: wp_bind [of "whenA _ _"] wp_when wp_bind [of "readA _"] storedCursorA_def wp_read
      getCursor_holds [OF env holds] wp_update wp_bind [of "writeA _"] wp_write app commit_store_def)
qed

end
