(* ===== verification/IndexerFacts.thy ===== *)
theory IndexerFacts imports StoreSteps begin

text \<open>
  What a round of the indexer does to a store that covers one view of the chain when the node
  shows another: it rolls back to a block both views share, appends what the new view has
  above it, and is where a full rebuild would be. Whatever fails on the way, every store that a
  crash could leave still covers one of the two views.
\<close>

section \<open>Rounds\<close>

definition same_history_below :: "'w indexer_env \<Rightarrow> chain_view \<Rightarrow> chain_view \<Rightarrow> int \<Rightarrow> bool" where
  "same_history_below E C D n \<longleftrightarrow>
     n \<le> ie_deploymentBlock E \<or> cv_hash C (n - 1) = cv_hash D (n - 1)"

definition anchored :: "'w indexer_env \<Rightarrow> chain_view \<Rightarrow> chain_view \<Rightarrow> int \<Rightarrow> bool" where
  "anchored E C D n \<longleftrightarrow> same_history_below E C D n
     \<or> (\<exists>e \<in> set (canonical C (ie_deploymentBlock E) (n - 1)).
          blockHash e \<noteq> None \<and> cv_hash C (blockNumber e) = cv_hash D (blockNumber e))"

text \<open>Either something was stored, or nothing was missed.\<close>

definition nothing_missed :: "'w indexer_env \<Rightarrow> chain_view \<Rightarrow> chain_view \<Rightarrow> int \<Rightarrow> bool" where
  "nothing_missed E C D n \<longleftrightarrow>
     canonical C (ie_deploymentBlock E) (n - 1) \<noteq> [] \<or> canonical D (ie_deploymentBlock E) (n - 1) = []"

definition replays :: "'w indexer_env \<Rightarrow> chain_view \<Rightarrow> bool" where
  "replays E C \<longleftrightarrow> (\<forall>b.
     (\<exists>x. rebuildOrderProjections (ie_bindings E) (canonical C (ie_deploymentBlock E) b) = Inr x)
     \<and> (\<exists>x. rebuildIdentityProjections (ie_bindings E) (canonical C (ie_deploymentBlock E) b) = Inr x))"

text \<open>
  A round from the view \<open>C\<close> to the view \<open>D\<close>. If it is called fine, the node answers and the
  events of the new view replay without an error.
\<close>

definition round_between ::
  "bool \<Rightarrow> 'w indexer_env \<Rightarrow> chain_view \<Rightarrow> chain_view \<Rightarrow> ('w \<Rightarrow> bool) \<Rightarrow> bool" where
  "round_between fine E C D V \<longleftrightarrow> sound_env E \<and> sound_view (ie_bindings E) (ie_chainId E) C
     \<and> sound_view (ie_bindings E) (ie_chainId E) D \<and> common_history C D
     \<and> shows_view fine E D V \<and> (fine \<longrightarrow> replays E D)"

definition cursor_block :: "'w indexer_env \<Rightarrow> durable_store \<Rightarrow> int" where
  "cursor_block E d = (case jget (ds_cursors d) (ix_scope E) of None \<Rightarrow> 0 | Some c \<Rightarrow> cu_nextBlock c)"

text \<open>The cursor in memory, if there is one, stands where the stored one does: no other writer.\<close>

definition own_cursor :: "'w indexer_env \<Rightarrow> 'w indexer \<Rightarrow> bool" where
  "own_cursor E s \<longleftrightarrow>
     (\<forall>c. ix_cursor s = Some c \<longrightarrow> ec_nextBlock c = cursor_block E (ix_store s))"

definition stable :: "'w indexer_env \<Rightarrow> chain_view \<Rightarrow> chain_view \<Rightarrow> ('w \<Rightarrow> bool) \<Rightarrow> 'w indexer \<Rightarrow> bool" where
  "stable E C D V s \<longleftrightarrow> V (ix_world s) \<and> own_cursor E s
     \<and> (\<forall>d \<in> insert (ix_store s) (set (ix_committed s)). covers E C d \<or> covers E D d)"

definition ready ::
  "'w indexer_env \<Rightarrow> chain_view \<Rightarrow> chain_view \<Rightarrow> ('w \<Rightarrow> bool) \<Rightarrow> int \<Rightarrow> 'w indexer \<Rightarrow> bool" where
  "ready E C D V n s \<longleftrightarrow> stable E C D V s \<and> ie_deploymentBlock E \<le> n
     \<and> (\<exists>es cur. store_holds E (ix_store s) es cur \<and> cu_nextBlock cur = n
          \<and> below n es = set (canonical D (ie_deploymentBlock E) (n - 1)))"

lemma round_betweenD:
  assumes "round_between fine E C D V"
  shows "sound_env E" "shows_view fine E D V" "common_history C D"
    "sound_view (ie_bindings E) (ie_chainId E) C" "sound_view (ie_bindings E) (ie_chainId E) D"
    "fine \<Longrightarrow> replays E D"
  using assms by (simp_all add: round_between_def)

lemma cursor_block_core: "core d = core d' \<Longrightarrow> cursor_block E d = cursor_block E d'"
  by (drule core_fields(2)) (simp add: cursor_block_def)

lemma cursor_block_holds: "store_holds E d es cur \<Longrightarrow> cursor_block E d = cu_nextBlock cur"
  by (simp add: store_holds_def cursor_block_def)

lemma stable_quiet:
  assumes "stable E C D V s" and "quiet V s t"
  shows "stable E C D V t"
proof -
  have c: "core (ix_store t) = core (ix_store s)" using assms(2) by (simp add: quiet_def)
  have "covers E C d \<or> covers E D d" if "d \<in> insert (ix_store t) (set (ix_committed t))" for d
  proof -
    have "d \<in> set (ix_committed s) \<or> core d = core (ix_store s)"
      using that assms(2) c by (auto simp: quiet_def)
    then show ?thesis
      using assms(1) covers_core [of d "ix_store s" E] by (auto simp: stable_def)
  qed
  then show ?thesis
    using assms cursor_block_core [OF c, of E] by (simp add: stable_def quiet_def own_cursor_def)
qed

lemma ready_quiet:
  assumes "ready E C D V n s" and "quiet V s t"
  shows "ready E C D V n t"
proof -
  have "core (ix_store t) = core (ix_store s)" using assms(2) by (simp add: quiet_def)
  from store_holds_core [OF this, of E] show ?thesis
    using assms stable_quiet by (auto simp: ready_def)
qed

lemma quiet_world: "quiet V s t \<Longrightarrow> V (ix_world t)"
  by (simp add: quiet_def)

lemma ready_stable: "ready E C D V n s \<Longrightarrow> stable E C D V s"
  by (simp add: ready_def)

lemma wp_answer:
  assumes "answers fine V f x" and "V (ix_world s)"
    and "\<And>t. quiet V s t \<Longrightarrow> Q x t"
    and "\<And>e t. \<not> fine \<Longrightarrow> e \<noteq> ReorgCursorMoved \<Longrightarrow> quiet V s t \<Longrightarrow> Er e t"
  shows "wp (externalA f) Q Er s"
proof -
  obtain y w where y: "f (ix_world s) = (y, w)" by (cases "f (ix_world s)")
  have w: "V w" and r: "y = Inr x \<or> \<not> fine \<and> (\<exists>e. y = Inl e \<and> e \<noteq> ReorgCursorMoved)"
    using assms(1,2) y unfolding answers_def by (metis snd_conv, metis fst_conv)
  have "quiet V s (s\<lparr>ix_world := w\<rparr>)" using w by (simp add: quiet_def)
  with r y show ?thesis by (auto simp: wp_simps intro: assms(3,4))
qed

lemma wp_cursorBlockHash:
  assumes "shows_view fine E C V" and "cv_hash C b \<noteq> []" and "V (ix_world s)"
    and "\<And>t. quiet V s t \<Longrightarrow> Q (Some (cv_hash C b)) t"
    and "\<And>e t. \<not> fine \<Longrightarrow> e \<noteq> ReorgCursorMoved \<Longrightarrow> quiet V s t \<Longrightarrow> Er e t"
  shows "wp (cursorBlockHash E b) Q Er s"
proof -
  obtain hash where hash: "ie_getBlockHash E = Some hash" "answers fine V (hash b) (cv_hash C b)"
    using assms(1) by (auto simp: shows_view_def)
  show ?thesis
    unfolding cursorBlockHash_def hash(1) option.case wp_bind
    by (rule wp_answer [OF hash(2) assms(3)])
      (use assms(2) in \<open>auto simp: wp_simps keep_truthy_def truthy_def intro: assms(4,5)\<close>)
qed

section \<open>Views and stores\<close>

lemma set_canonical: "e \<in> set (canonical C lo hi) \<longleftrightarrow> e \<in> set (cv_events C) \<and> lo \<le> blockNumber e \<and> blockNumber e \<le> hi"
  by (auto simp: canonical_def)

lemma canonical_same:
  "common_history C D \<Longrightarrow> cv_hash C b = cv_hash D b \<Longrightarrow> set (canonical C lo b) = set (canonical D lo b)"
  by (auto simp: set_canonical common_history_def)

lemma canonical_recorded: "sound_view B chain C \<Longrightarrow> recorded B chain (canonical C lo hi)"
  by (simp add: sound_view_def canonical_def recorded_filter)

lemma below_filter: "a < n \<Longrightarrow> set (filter (\<lambda>e. blockNumber e \<le> a) es) = {e \<in> below n es. blockNumber e \<le> a}"
  by (auto simp: below_def)

lemma below_all: "\<forall>e \<in> set es. blockNumber e \<le> a \<Longrightarrow> below (a + 1) es = set es"
  by (auto simp: below_def)

lemma replays_recorded:
  assumes "replays E D" and "sound_view (ie_bindings E) (ie_chainId E) D"
    and "recorded (ie_bindings E) (ie_chainId E) es" and "set es = set (canonical D (ie_deploymentBlock E) b)"
  shows "(\<exists>x. rebuildOrderProjections (ie_bindings E) es = Inr x)
    \<and> (\<exists>x. rebuildIdentityProjections (ie_bindings E) es = Inr x)"
  using assms(1) same_events_same_rebuild [OF assms(3) canonical_recorded [OF assms(2)] assms(4)]
  unfolding replays_def by metis

section \<open>Rolling back\<close>

lemma coversI:
  assumes "store_holds E d es cur" and "ie_deploymentBlock E \<le> cu_nextBlock cur"
    and "below (cu_nextBlock cur) es = set (canonical C (ie_deploymentBlock E) (cu_nextBlock cur - 1))"
    and "ie_deploymentBlock E < cu_nextBlock cur \<Longrightarrow> cu_blockHash cur = Some (cv_hash C (cu_nextBlock cur - 1))"
  shows "covers E C d"
  using assms by (auto simp: covers_def cursor_fits_def Let_def)

lemma wp_applyReorgRollback:
  fixes E :: "'w indexer_env"
  assumes rnd: "round_between fine E C D V" and st: "stable E C D V s"
    and holds: "store_holds E (ix_store s) es cur" "cu_nextBlock cur = n"
      "below n es = set (canonical C (ie_deploymentBlock E) (n - 1))"
    and a: "ie_deploymentBlock E \<le> a" "a < n" "cv_hash C a = cv_hash D a"
    and ok: "\<And>t. ready E C D V (a + 1) t \<Longrightarrow> Q (a + 1) t"
    and bad: "\<And>e t. \<not> fine \<Longrightarrow> stable E C D V t \<Longrightarrow> Er (Thrown e) t"
  shows "wp (applyReorgRollback E n a (cv_hash D a)) Q Er s"
proof -
  note R = round_betweenD [OF rnd]
  let ?dep = "ie_deploymentBlock E" and ?es = "filter (\<lambda>e. blockNumber e \<le> a) es"
  have V: "V (ix_world s)" using st by (simp add: stable_def)
  have next_: "at_least ?dep (a + 1) = a + 1" using a(1) by (simp add: at_least_def)
  have es: "set ?es = set (canonical D ?dep a)"
    unfolding below_filter [OF a(2)] holds(3) canonical_same [OF R(3) a(3), symmetric]
    using a(2) by (auto simp: set_canonical)
  have rec: "recorded (ie_bindings E) (ie_chainId E) ?es"
    using holds(1) recorded_filter by (auto simp: store_holds_def log_holds_def)
  show ?thesis
    unfolding applyReorgRollback_def wp_bind
  proof (rule wp_rollback_transaction [OF R(1,2) V holds(1,2)])
    fix t :: "'w indexer" and row
    assume t: "V (ix_world t)" "row_for E (ancestor_cursor E a (cv_hash D a)) row"
      "store_holds E (ix_store t) ?es row" "ix_committed t = ix_committed s @ [ix_store t]"
    have row: "cu_nextBlock row = a + 1" "cu_blockHash row = Some (cv_hash D a)"
      using t(2) R(5) by (simp_all add: row_for_def ancestor_cursor_def next_ sound_view_def)
    have bel: "below (a + 1) ?es = set (canonical D ?dep a)"
      using es by (auto simp: below_def set_canonical)
    have "covers E D (ix_store t)"
      by (rule coversI [OF t(3)]) (use row bel a(1) in simp_all)
    let ?t = "t\<lparr>ix_casFailures := 0\<rparr>\<lparr>ix_cursor := Some (ancestor_cursor E a (cv_hash D a))\<rparr>"
    from \<open>covers E D (ix_store t)\<close> have rd: "ready E C D V (a + 1) ?t"
      using st t row bel a(1) by (auto simp: ready_def stable_def own_cursor_def ancestor_cursor_def next_
        cursor_block_holds [OF t(3)])
    have "wp (invalidateNotificationsAfterReorg E a)
        (\<lambda>_. wp (trimPendingPostCommitStepsAfterReorg E a) (\<lambda>_. Q (a + 1)) Er) Er ?t"
    proof (rule wp_quiet_never_throws [OF quiet_processing(4) [OF R(2)] never_throws_processing(3)])
      fix u assume u: "quiet V ?t u"
      show "wp (trimPendingPostCommitStepsAfterReorg E a) (\<lambda>_. Q (a + 1)) Er u"
        by (rule wp_quiet_never_throws [OF quiet_trim [OF R(2)] never_throws_processing(4)])
          (use u in \<open>simp_all add: quiet_world ok [OF ready_quiet [OF ready_quiet [OF rd u]]]\<close>)
    qed (use t(1) in simp)
    then show "wp (set_casFailures 0) (\<lambda>_. wp (set_cursor (Some (ancestor_cursor E a (cv_hash D a))))
        (\<lambda>_. wp (invalidateNotificationsAfterReorg E a)
        (\<lambda>_. wp (trimPendingPostCommitStepsAfterReorg E a)
        (\<lambda>_. wp (returnA (at_least ?dep (a + 1))) Q Er) Er) Er) Er) Er t"
      by (simp add: set_casFailures_def set_cursor_def wp_modify wp_return_fun next_)
  next
    show "Er (Thrown e) t" if "(\<exists>x. rebuildOrderProjections (ie_bindings E) ?es = Inl x)
        \<or> (\<exists>x. rebuildIdentityProjections (ie_bindings E) ?es = Inl x)" "quiet V s t" for e t
      using bad [of t e] stable_quiet [OF st that(2)] that(1) replays_recorded [OF R(6) R(5) rec es] by fastforce
  qed
qed

section \<open>Looking for a common ancestor\<close>

lemma wp_find:
  assumes "I s"
    and "\<And>x t. x \<in> set xs \<Longrightarrow> I t \<Longrightarrow>
      wp (f x) (\<lambda>r t. I t \<and> (case r of None \<Rightarrow> N x | Some y \<Rightarrow> P x y)) Er t"
  shows "wp (findA f xs)
    (\<lambda>r t. I t \<and> (case r of None \<Rightarrow> \<forall>x \<in> set xs. N x | Some y \<Rightarrow> \<exists>x \<in> set xs. P x y)) Er s"
  using assms
proof (induction xs arbitrary: s)
  case (Cons x xs)
  show ?case
    unfolding findA.simps wp_bind
  proof (rule wp_mono [OF Cons.prems(2) [OF _ Cons.prems(1)]])
    fix r t
    assume t: "I t \<and> (case r of None \<Rightarrow> N x | Some y \<Rightarrow> P x y)"
    show "wp (case r of None \<Rightarrow> findA f xs | Some y \<Rightarrow> returnA (Some y))
        (\<lambda>r t. I t \<and> (case r of None \<Rightarrow> \<forall>x \<in> set (x # xs). N x | Some y \<Rightarrow> \<exists>x \<in> set (x # xs). P x y)) Er t"
    proof (cases r)
      case None
      have "wp (findA f xs)
          (\<lambda>r t. I t \<and> (case r of None \<Rightarrow> \<forall>x \<in> set xs. N x | Some y \<Rightarrow> \<exists>x \<in> set xs. P x y)) Er t"
        using Cons t by auto
      then show ?thesis
        unfolding None option.case by (rule wp_mono) (use t None in \<open>auto split: option.splits\<close>)
    qed (use t in \<open>auto simp: wp_return\<close>)
  qed simp_all
qed (simp add: wp_return)

text \<open>The answer on an anchor: its block, if the chain still has it.\<close>

lemma wp_check_anchor:
  assumes view: "shows_view fine E D V" and "cv_hash D (blockNumber e) \<noteq> []"
    and lower: "toLowerCase (cv_hash D (blockNumber e)) = cv_hash D (blockNumber e)"
    and st: "quiet V s0 s"
    and bad: "\<And>x t. \<not> fine \<Longrightarrow> x \<noteq> ReorgCursorMoved \<Longrightarrow> quiet V s0 t \<Longrightarrow> Er x t"
  shows "wp (check_anchor E e) (\<lambda>r t. quiet V s0 t \<and> (case r of
      None \<Rightarrow> map_option toLowerCase (blockHash e) \<noteq> Some (cv_hash D (blockNumber e))
    | Some (b, h) \<Rightarrow> b = blockNumber e \<and> h = cv_hash D b
        \<and> map_option toLowerCase (blockHash e) = Some (cv_hash D b))) Er s"
proof -
  have trans: "quiet V s0 t" if "quiet V s t" for t
    using st that by (auto simp: quiet_def)
  show ?thesis
    unfolding check_anchor_def wp_bind
    by (rule wp_cursorBlockHash [OF view assms(2) quiet_world [OF st]])
      (use lower in \<open>auto simp: wp_return isSameBlockHash_def split: option.split intro: trans bad\<close>)
qed

lemma set_first_of_blocks: "set (first_of_blocks seen es) \<subseteq> set es"
  by (induction es arbitrary: seen) auto

lemma set_anchors: "e \<in> set (anchors lo hi es) \<longleftrightarrow>
    e \<in> set es \<and> \<not> removed e \<and> blockHash e \<noteq> None \<and> lo \<le> blockNumber e \<and> blockNumber e < hi"
  by (auto simp: anchors_def)

lemma backtrack_floor_ge: "ie_deploymentBlock E \<le> backtrack_floor E n"
  by (simp add: backtrack_floor_def Let_def)

lemma wp_rollbackToCommonAncestor:
  fixes E :: "'w indexer_env"
  assumes rnd: "round_between fine E C D V" and st: "stable E C D V s"
    and holds: "store_holds E (ix_store s) es cur" "cu_nextBlock cur = n"
      "below n es = set (canonical C (ie_deploymentBlock E) (n - 1))" "ie_deploymentBlock E \<le> n"
    and missed: "nothing_missed E C D n"
    and anch: "fine \<Longrightarrow> \<exists>e \<in> set (canonical C (ie_deploymentBlock E) (n - 1)).
      blockHash e \<noteq> None \<and> cv_hash C (blockNumber e) = cv_hash D (blockNumber e)"
    and ok: "\<And>m t. ready E C D V m t \<Longrightarrow> m \<le> n \<Longrightarrow> Q m t"
    and bad: "\<And>e t. \<not> fine \<Longrightarrow> e \<noteq> ReorgCursorMoved \<Longrightarrow> stable E C D V t \<Longrightarrow> Er e t"
  shows "wp (rollbackToCommonAncestor E n) Q Er s"
proof -
  note R = round_betweenD [OF rnd]
  let ?dep = "ie_deploymentBlock E"
  let ?S = "sortChainEvents es"
  let ?older = "anchors ?dep n ?S"
  let ?cands = "first_of_blocks [] (anchors (backtrack_floor E n) n ?S)"
  let ?hit = "\<lambda>e. map_option toLowerCase (blockHash e) = Some (cv_hash D (blockNumber e))"
  have V: "V (ix_world s)" using st by (simp add: stable_def)
  have stored: "listEvents (ie_bindings E) (ie_chainId E) (ds_events (ix_store s)) = Inr ?S"
    using holds(1) by (rule listEvents_store)
  have rec: "recorded (ie_bindings E) (ie_chainId E) es" using holds(1) by (simp add: store_holds_def log_holds_def)
  have older: "e \<in> set ?older \<longleftrightarrow> e \<in> set (canonical C ?dep (n - 1)) \<and> blockHash e \<noteq> None" for e
    using holds(1,3) rec
    by (auto simp: set_anchors sortChainEvents_def below_def recorded_def recordable_def store_holds_def set_canonical)
  have cands: "set ?cands \<subseteq> set ?older"
    using set_first_of_blocks backtrack_floor_ge [of E n] by (fastforce simp: set_anchors)
  have hash: "blockHash e = Some (cv_hash C (blockNumber e))"
    "toLowerCase (cv_hash C (blockNumber e)) = cv_hash C (blockNumber e)" if "e \<in> set ?older" for e
    using that R(4) by (auto simp: older sound_view_def set_canonical)
  have hit: "?hit e \<longleftrightarrow> cv_hash C (blockNumber e) = cv_hash D (blockNumber e)" if "e \<in> set ?older" for e
    using hash [OF that] by simp
  have lower: "cv_hash D b \<noteq> []" "toLowerCase (cv_hash D b) = cv_hash D b" for b
    using R(5) by (simp_all add: sound_view_def)
  have err: "Er x t" if "\<not> fine" "x \<noteq> ReorgCursorMoved" "quiet V s t" for x t
    using bad that stable_quiet [OF st] by blast
  have find: "wp (findA (check_anchor E) xs) (\<lambda>r t. quiet V s t \<and> (case r of None \<Rightarrow> \<forall>e \<in> set xs. \<not> ?hit e
      | Some y \<Rightarrow> \<exists>e \<in> set xs. case y of (b, h) \<Rightarrow> b = blockNumber e \<and> h = cv_hash D b \<and> ?hit e)) Er t"
    if "quiet V s t" for xs t
  proof (rule wp_find [where I = "quiet V s" and N = "\<lambda>e. \<not> ?hit e"
      and P = "\<lambda>e y. case y of (b, h) \<Rightarrow> b = blockNumber e \<and> h = cv_hash D b \<and> ?hit e"])
    show "quiet V s t" by (fact that)
    show "wp (check_anchor E e) (\<lambda>r t. quiet V s t \<and> (case r of None \<Rightarrow> \<not> ?hit e
        | Some y \<Rightarrow> case y of (b, h) \<Rightarrow> b = blockNumber e \<and> h = cv_hash D b \<and> ?hit e)) Er u"
      if "quiet V s u" for e u
      by (rule wp_mono [OF wp_check_anchor [OF R(2) lower that]]) (auto split: option.splits intro: err)
  qed
  have roll: "wp (applyReorgRollback E n b h) Q Er t"
    if "quiet V s t" "e \<in> set ?older" "b = blockNumber e" "h = cv_hash D b" "?hit e" for t b h e
  proof -
    have c: "core (ix_store t) = core (ix_store s)" using that(1) by (simp add: quiet_def)
    have e: "?dep \<le> b" "b < n" "cv_hash C b = cv_hash D b"
      using that(2,3,5) hit [OF that(2)] by (auto simp: set_anchors)
    show ?thesis
      unfolding that(4)
      by (rule wp_applyReorgRollback [OF rnd stable_quiet [OF st that(1)] _ holds(2,3) e])
        (use holds(1) store_holds_core [OF c, of E] e(2) in \<open>auto intro: ok bad\<close>)
  qed
  show ?thesis
    unfolding rollbackToCommonAncestor_def storedEventsA_def wp_bind wp_read stored sum.case Let_def
  proof (rule wp_mono [OF find [OF quiet_refl [of V s, OF V]]])
    fix r t
    assume r: "quiet V s t \<and> (case r of None \<Rightarrow> \<forall>e \<in> set ?cands. \<not> ?hit e
      | Some y \<Rightarrow> \<exists>e \<in> set ?cands. case y of (b, h) \<Rightarrow> b = blockNumber e \<and> h = cv_hash D b \<and> ?hit e)"
    show "wp (case r of
        None \<Rightarrow> bindA (findA (check_anchor E) ?older) (\<lambda>found. case found of
            None \<Rightarrow> if ?older \<noteq> [] then throwA (Thrown (ConfigError
               ''chain reorg deeper than the stored projection history; full projection rebuild is required''))
             else if \<exists>e \<in> set ?S. \<not> removed e then throwA (Thrown (ConfigError
               ''chain reorg detected but stored events carry no block hashes; no common ancestor can be located; full projection rebuild is required''))
             else returnA n
          | Some (block, hash) \<Rightarrow> applyReorgRollback E n block hash)
      | Some (block, hash) \<Rightarrow> applyReorgRollback E n block hash) Q Er t"
    proof (cases r)
      case (Some y)
      with r cands show ?thesis by (auto split: prod.split intro: roll)
    next
      case None
      show ?thesis
        unfolding None option.case wp_bind
      proof (rule wp_mono [OF find])
        fix r u
        assume u: "quiet V s u \<and> (case r of None \<Rightarrow> \<forall>e \<in> set ?older. \<not> ?hit e
          | Some y \<Rightarrow> \<exists>e \<in> set ?older. case y of (b, h) \<Rightarrow> b = blockNumber e \<and> h = cv_hash D b \<and> ?hit e)"
        show "wp (case r of
            None \<Rightarrow> if ?older \<noteq> [] then throwA (Thrown (ConfigError
               ''chain reorg deeper than the stored projection history; full projection rebuild is required''))
             else if \<exists>e \<in> set ?S. \<not> removed e then throwA (Thrown (ConfigError
               ''chain reorg detected but stored events carry no block hashes; no common ancestor can be located; full projection rebuild is required''))
             else returnA n
          | Some (block, hash) \<Rightarrow> applyReorgRollback E n block hash) Q Er u"
        proof (cases r)
          case (Some y)
          with u show ?thesis by (auto split: prod.split intro: roll)
        next
          case None
          with u have miss: "\<forall>e \<in> set ?older. cv_hash C (blockNumber e) \<noteq> cv_hash D (blockNumber e)"
            using hit by auto
          have nf: "\<not> fine" using miss anch older by blast
          have e: "Er (Thrown x) u" for x using nf u err by blast
          have fin: "Q n u" if none: "?older = []" "\<not> (\<exists>e \<in> set ?S. \<not> removed e)"
          proof (rule ok [OF _ order_refl])
            have "es = []" using none(2) rec
              by (cases es) (auto simp: sortChainEvents_def recorded_def recordable_def)
            then have "canonical D ?dep (n - 1) = []"
              using missed holds(3) by (auto simp: nothing_missed_def below_def)
            moreover have "store_holds E (ix_store u) [] cur"
              using holds(1) \<open>es = []\<close> u store_holds_core [of "ix_store u" "ix_store s" E] by (simp add: quiet_def)
            ultimately show "ready E C D V n u"
              unfolding ready_def using holds(2,4) stable_quiet [OF st] u
              by (intro conjI exI [of _ "[]"] exI [of _ cur]) (auto simp: below_def)
          qed
          show ?thesis
            unfolding None option.case using e fin by (simp add: wp_throw wp_return)
        qed
      qed (use r in auto)
    qed
  qed auto
qed

lemma wp_rollbackOnReorg:
  fixes E :: "'w indexer_env"
  assumes rnd: "round_between fine E C D V" and st: "stable E C D V s"
    and cov: "covers E C (ix_store s)" and n: "cursor_block E (ix_store s) = n"
    and missed: "nothing_missed E C D n" and anch: "fine \<Longrightarrow> anchored E C D n"
    and ok: "\<And>m t. ready E C D V m t \<Longrightarrow> m \<le> n \<Longrightarrow> (same_history_below E C D n \<Longrightarrow> m = n) \<Longrightarrow> Q m t"
    and bad: "\<And>e t. \<not> fine \<Longrightarrow> stable E C D V t \<Longrightarrow> Er e t"
  shows "wp (rollbackOnReorg E n) Q Er s"
proof -
  note R = round_betweenD [OF rnd]
  let ?dep = "ie_deploymentBlock E"
  from cov obtain es cur where holds: "store_holds E (ix_store s) es cur" and fits: "cursor_fits E C es cur"
    by (auto simp: covers_def)
  have cn: "cu_nextBlock cur = n" using cursor_block_holds [OF holds] n by simp
  have f: "?dep \<le> n" "below n es = set (canonical C ?dep (n - 1))"
    "?dep < n \<Longrightarrow> cu_blockHash cur = Some (cv_hash C (n - 1))"
    using fits cn by (simp_all add: cursor_fits_def Let_def)
  have V: "V (ix_world s)" using st by (simp add: stable_def)
  have cursor: "getCursor (ie_bindings E) (ix_scope E) (ix_store s) = Inr (Some cur)"
    by (rule getCursor_holds [OF R(1) holds])
  obtain hash where hash: "ie_getBlockHash E = Some hash" "answers fine V (hash (n - 1)) (cv_hash D (n - 1))"
    using R(2) by (auto simp: shows_view_def)
  have keep: "ready E C D V n t" if "quiet V s t" "same_history_below E C D n" for t
  proof -
    have "below n es = set (canonical D ?dep (n - 1))"
    proof (cases "n \<le> ?dep")
      case True
      then show ?thesis unfolding f(2) by (auto simp: set_canonical)
    next
      case False
      then show ?thesis
        unfolding f(2) using that(2) by (intro canonical_same [OF R(3)]) (simp add: same_history_below_def)
    qed
    then have "ready E C D V n s" unfolding ready_def using st holds cn f(1) by blast
    then show ?thesis by (rule ready_quiet [OF _ that(1)])
  qed
  show ?thesis
  proof (cases "?dep < n")
    case False
    then have "same_history_below E C D n" by (simp add: same_history_below_def)
    then have "Q n s" using keep [OF quiet_refl [of V s, OF V]] ok by blast
    then show ?thesis
      using False by (simp add: rollbackOnReorg_def wp_bind storedCursorA_def wp_read cursor hash(1) wp_return
        split: option.split)
  next
    case True
    have stored: "keep_truthy (cu_blockHash cur) = Some (cv_hash C (n - 1))"
      using f(3) [OF True] R(4) by (simp add: sound_view_def keep_truthy_def truthy_def)
    have same: "isSameBlockHash (cv_hash D (n - 1)) (cv_hash C (n - 1)) \<longleftrightarrow> same_history_below E C D n"
      using True R(4,5) by (auto simp: isSameBlockHash_def sound_view_def same_history_below_def)
    have "wp (externalA (hash (n - 1))) (\<lambda>canonical. wp
        (if isSameBlockHash canonical (cv_hash C (n - 1)) then returnA n
         else catchA (rollbackToCommonAncestor E n) (\<lambda>e.
           if e = ReorgCursorMoved then defer_to_stored E n else throwA e)) Q Er) Er s"
    proof (rule wp_answer [OF hash(2) V])
      fix t assume t: "quiet V s t"
      show "wp (if isSameBlockHash (cv_hash D (n - 1)) (cv_hash C (n - 1)) then returnA n
         else catchA (rollbackToCommonAncestor E n) (\<lambda>e.
           if e = ReorgCursorMoved then defer_to_stored E n else throwA e)) Q Er t"
      proof (cases "same_history_below E C D n")
        case True
        then show ?thesis using ok [OF keep [OF t True] order_refl] same by (simp add: wp_return)
      next
        case False
        have h: "store_holds E (ix_store t) es cur"
          using holds t store_holds_core [of "ix_store t" "ix_store s" E] by (simp add: quiet_def)
        have "wp (rollbackToCommonAncestor E n) Q (\<lambda>e. wp (if e = ReorgCursorMoved
            then defer_to_stored E n else throwA e) Q Er) t"
          by (rule wp_rollbackToCommonAncestor [OF rnd stable_quiet [OF st t] h cn f(2,1) missed])
            (use anch False in \<open>auto simp: anchored_def wp_throw intro: ok bad\<close>)
        then show ?thesis using False same by (simp add: wp_catch)
      qed
    next
      show "Er e t" if "\<not> fine" "quiet V s t" for e t
        using bad that stable_quiet [OF st] by blast
    qed
    then show ?thesis
      using True by (simp add: rollbackOnReorg_def wp_bind storedCursorA_def wp_read cursor hash(1) stored)
  qed
qed

end
