(* ===== verification/IndexerRounds.thy ===== *)
theory IndexerRounds imports IndexerFacts begin

text \<open>
  Whole rounds of the indexer: an incremental refresh from a store that covers one view of the
  chain ends, when all goes well, where a full rebuild from the new view ends.
\<close>

section \<open>The end of a round\<close>

text \<open>The store holds exactly the events of a view up to a block, and its cursor is behind it.\<close>

definition complete :: "'w indexer_env \<Rightarrow> chain_view \<Rightarrow> int \<Rightarrow> durable_store \<Rightarrow> bool" where
  "complete E D f d \<longleftrightarrow> (\<exists>es cur. store_holds E d es cur
     \<and> set es = set (canonical D (ie_deploymentBlock E) f)
     \<and> cu_nextBlock cur = f + 1 \<and> cu_blockHash cur = Some (cv_hash D f))"

lemma complete_core: "core d = core d' \<Longrightarrow> complete E D f d = complete E D f d'"
  by (simp add: complete_def store_holds_core [of d d'])

lemma complete_covers:
  assumes "complete E D f d" and "ie_deploymentBlock E \<le> f + 1"
  shows "covers E D d"
proof -
  from assms(1) obtain es cur where c: "store_holds E d es cur"
    "set es = set (canonical D (ie_deploymentBlock E) f)" "cu_nextBlock cur = f + 1"
    "cu_blockHash cur = Some (cv_hash D f)" by (auto simp: complete_def)
  have "below (f + 1) es = set es"
    by (rule below_all) (simp add: c(2) set_canonical)
  then show ?thesis
    by (intro coversI [OF c(1)]) (simp_all add: c(2-4) assms(2))
qed

lemma wp_advance:
  fixes E :: "'w indexer_env"
  assumes rnd: "round_between fine E C D V" and st: "stable E C D V s"
    and holds: "store_holds E (ix_store s) es cur" "cu_nextBlock cur = n"
    and c: "ec_nextBlock c = m" "ec_blockHash c = Some (cv_hash D (m - 1))" "ie_deploymentBlock E \<le> m"
    and bel: "below m es = set (canonical D (ie_deploymentBlock E) (m - 1))"
    and ok: "\<And>t row. stable E C D V t \<Longrightarrow> store_holds E (ix_store t) es row \<Longrightarrow> cu_nextBlock row = m \<Longrightarrow>
      cu_blockHash row = Some (cv_hash D (m - 1)) \<Longrightarrow> covers E D (ix_store t) \<Longrightarrow> Q () t"
  shows "wp (saveCursorAdvancingFrom E c n) Q Er s"
proof -
  note R = round_betweenD [OF rnd]
  have V: "V (ix_world s)" using st by (simp add: stable_def)
  show ?thesis
    unfolding saveCursorAdvancingFrom_def wp_bind
  proof (rule wp_saveCursor [OF R(1,2) holds(1) V])
    fix x row and t :: "'w indexer"
    assume row: "row_for E c row" and t: "store_holds E (ix_store t) es row" "V (ix_world t)"
      "ix_committed t = ix_committed s @ [ix_store t]"
    have r: "cu_nextBlock row = m" "cu_blockHash row = Some (cv_hash D (m - 1))"
      using row c R(5) by (simp_all add: row_for_def sound_view_def)
    have cov: "covers E D (ix_store t)"
      by (rule coversI [OF t(1)]) (simp_all add: r c(3) bel)
    have "stable E C D V (t\<lparr>ix_casFailures := 0, ix_cursor := Some c\<rparr>)"
      using st t cov r c by (auto simp: stable_def own_cursor_def cursor_block_holds [OF t(1)])
    then have "Q () (t\<lparr>ix_casFailures := 0, ix_cursor := Some c\<rparr>)"
      using t r cov by (intro ok) simp_all
    then show "wp (case Some x of None \<Rightarrow> bindA (storedCursorA E) (\<lambda>current.
         bindA (set_cursor (Some (case current of Some r \<Rightarrow> cursor_of_stored r | None \<Rightarrow> c))) (\<lambda>_. casFailedA))
       | Some _ \<Rightarrow> bindA (set_casFailures 0) (\<lambda>_. set_cursor (Some c))) Q Er t"
      by (simp add: wp_bind set_casFailures_def set_cursor_def wp_modify)
  qed (simp_all add: holds(2))
qed

lemma ready_pos: "sound_env E \<Longrightarrow> ie_deploymentBlock E \<le> n \<Longrightarrow> 0 < n"
  by (simp add: sound_env_def)

lemma getSyncRow_ok: "sound_env E \<Longrightarrow> \<exists>x. getSyncRow (ie_bindings E) (ix_scope E) d = Inr x"
  by (simp add: getSyncRow_def split: option.split)

lemma getSnapshots_ok:
  assumes "sound_env E" and "store_holds E d es cur"
  shows "\<exists>x. getOrderSnapshot (ie_bindings E) d = Inr x" and "\<exists>x. getIdentitySnapshot (ie_bindings E) d = Inr x"
  using assms by (simp_all add: store_holds_def getOrderSnapshot_def getIdentitySnapshot_def)

lemma wp_summarize:
  fixes E :: "'w indexer_env"
  assumes env: "sound_env E" and view: "shows_view fine E D V" and V: "V (ix_world s)"
    and holds: "store_holds E (ix_store s) es cur"
    and ok: "\<And>res t. quiet V s t \<Longrightarrow> Q res t"
  shows "wp (summarizeStoredProjection E n m) Q Er s"
proof -
  obtain snap ids sync where reads: "getOrderSnapshot (ie_bindings E) (ix_store s) = Inr snap"
    "getIdentitySnapshot (ie_bindings E) (ix_store s) = Inr ids"
    "getSyncRow (ie_bindings E) (ix_scope E) (ix_store s) = Inr sync"
    using getSnapshots_ok [OF env holds] getSyncRow_ok [OF env] by metis
  have save0: "wp (saveSyncA E base) (\<lambda>x t. quiet V s t) (\<lambda>_ _. False) s" if "sy_scope base = ix_scope E" for base
  proof -
    have q: "wp (saveSyncA E base) (\<lambda>_. quiet V s) (\<lambda>_. quiet V s) s"
      by (rule wp_quiet [OF quiet_saveSync [OF view] V])
    have "wp (saveSyncA E base) (\<lambda>_ _. True) (\<lambda>_ _. False) s"
      by (rule wp_saveSync [OF env view V that]) simp
    from wp_conj [OF q this] show ?thesis by (rule wp_mono) simp_all
  qed
  have save: "wp (saveSyncA E base) (\<lambda>x. wp (returnA (k x)) Q Er) Er s" if "sy_scope base = ix_scope E" for base k
    by (rule wp_mono [OF save0 [OF that]]) (auto simp: wp_return intro: ok)
  show ?thesis
    unfolding summarizeStoredProjection_def Let_def wp_bind syncStateA_def wp_read reads sum.case
    by (rule save) (simp add: stored_sync_def Let_def)
qed

lemma wp_refresh_lagging:
  fixes E :: "'w indexer_env"
  assumes rnd: "round_between fine E C D V" and rd: "ready E C D V n s"
    and ok: "\<And>res t. stable E C D V t \<Longrightarrow> covers E D (ix_store t) \<Longrightarrow> Q res t"
    and bad: "\<And>e t. \<not> fine \<Longrightarrow> stable E C D V t \<Longrightarrow> Er e t"
  shows "wp (refresh_lagging E n reported) Q Er s"
proof -
  note R = round_betweenD [OF rnd]
  from rd have st: "stable E C D V s" and n: "ie_deploymentBlock E \<le> n" by (simp_all add: ready_def)
  have V: "V (ix_world s)" using st by (simp add: stable_def)
  have ne: "cv_hash D b \<noteq> []" for b using R(5) by (simp add: sound_view_def)
  have "wp (cursorBlockHash E (n - 1)) (\<lambda>hash. wp (saveCursorAdvancingFrom E (cursor_at E n reported hash) n)
      (\<lambda>_. wp (summarizeStoredProjection E n reported)
        (\<lambda>result. wp (processProjectionAutomation E (rr_snapshot result)) (\<lambda>_. wp (returnA result) Q Er) Er) Er) Er) Er s"
  proof (rule wp_cursorBlockHash [OF R(2) ne V])
    fix t assume t: "quiet V s t"
    from ready_quiet [OF rd t] obtain es cur where h: "store_holds E (ix_store t) es cur"
      "cu_nextBlock cur = n" "below n es = set (canonical D (ie_deploymentBlock E) (n - 1))"
      by (auto simp: ready_def)
    show "wp (saveCursorAdvancingFrom E (cursor_at E n reported (Some (cv_hash D (n - 1)))) n)
        (\<lambda>_. wp (summarizeStoredProjection E n reported)
          (\<lambda>result. wp (processProjectionAutomation E (rr_snapshot result)) (\<lambda>_. wp (returnA result) Q Er) Er) Er) Er t"
    proof (rule wp_advance [OF rnd stable_quiet [OF st t] h(1,2) _ _ n h(3)])
      fix u :: "'w indexer" and row
      assume u: "stable E C D V u" "store_holds E (ix_store u) es row" "covers E D (ix_store u)"
      have Vu: "V (ix_world u)" using u(1) by (simp add: stable_def)
      show "wp (summarizeStoredProjection E n reported)
          (\<lambda>result. wp (processProjectionAutomation E (rr_snapshot result)) (\<lambda>_. wp (returnA result) Q Er) Er) Er u"
      proof (rule wp_summarize [OF R(1,2) Vu u(2)])
        fix res w assume w: "quiet V u w"
        show "wp (processProjectionAutomation E (rr_snapshot res)) (\<lambda>_. wp (returnA res) Q Er) Er w"
        proof (rule wp_quiet_never_throws [OF quiet_processing(2) [OF R(2)] never_throws_processing(2) quiet_world [OF w]])
          fix x v assume v: "quiet V w v"
          have "covers E D (ix_store v)"
            using u(3) w v covers_core [of "ix_store v" "ix_store u" E D] by (simp add: quiet_def)
          then show "wp (returnA res) Q Er v"
            using stable_quiet [OF stable_quiet [OF u(1) w] v] by (simp add: wp_return ok)
        qed
      qed
    qed (simp_all add: cursor_at_def)
  qed (use bad stable_quiet [OF st] in blast)
  then show ?thesis
    using ready_pos [OF R(1) n] by (simp add: refresh_lagging_def wp_bind_fun)
qed

lemma wp_refresh_append:
  fixes E :: "'w indexer_env"
  assumes rnd: "round_between fine E C D V" and rd: "ready E C D V n s" and f: "n \<le> f"
    and ok: "\<And>res t. stable E C D V t \<Longrightarrow> complete E D f (ix_store t) \<Longrightarrow>
      rebuildOrderProjections (ie_bindings E) (canonical D (ie_deploymentBlock E) f) = Inr (rr_snapshot res) \<Longrightarrow>
      Q res t"
    and bad: "\<And>e t. \<not> fine \<Longrightarrow> stable E C D V t \<Longrightarrow> Er e t"
  shows "wp (refresh_append E n f reported) Q Er s"
proof -
  note R = round_betweenD [OF rnd]
  let ?dep = "ie_deploymentBlock E" and ?B = "ie_bindings E"
  let ?new = "canonical D n f"
  let ?active = "activeEvents (buildActiveChainEventReplaySummary ?new)"
  from rd have st: "stable E C D V s" and n: "?dep \<le> n" by (simp_all add: ready_def)
  have V: "V (ix_world s)" using st by (simp add: stable_def)
  have ne: "cv_hash D b \<noteq> []" for b using R(5) by (simp add: sound_view_def)
  show ?thesis
    unfolding refresh_append_def wp_bind Let_def
  proof (rule wp_answer [OF shows_viewD(2) [OF R(2)] V])
    fix t assume t: "quiet V s t"
    note stt = stable_quiet [OF st t]
    from ready_quiet [OF rd t] obtain es cur where h: "store_holds E (ix_store t) es cur"
      "cu_nextBlock cur = n" "below n es = set (canonical D ?dep (n - 1))"
      by (auto simp: ready_def)
    let ?es = "filter (\<lambda>e. blockNumber e \<le> n - 1) es @ ?new"
    have new: "recorded ?B (ie_chainId E) ?new" "\<forall>e \<in> set ?new. n \<le> blockNumber e"
      using canonical_recorded [OF R(5)] by (auto simp: set_canonical)
    have all: "set ?es = set (canonical D ?dep f)"
      using below_filter [of "n - 1" n es] h(3) n f by (auto simp: set_canonical)
    have rec: "recorded ?B (ie_chainId E) ?es"
      using h(1) by (intro recorded_above new) (simp add: store_holds_def log_holds_def)
    have bel: "below n ?es = below n es" by (auto simp: below_def set_canonical)
    show "wp (refresh_transaction E n f reported ?new (length ?active)) (\<lambda>result.
        wp (processSignalNotifications E ?active) (\<lambda>_. wp (cursorBlockHash E f) (\<lambda>hash.
        wp (saveCursorAdvancingFrom E (cursor_at E (f + 1) reported hash) n)
        (\<lambda>_. wp (processProjectionAutomation E (rr_snapshot result)) (\<lambda>_. wp (returnA result) Q Er) Er) Er) Er) Er) Er t"
    proof (rule wp_refresh_transaction [OF R(1,2) quiet_world [OF t] h(1,2) n new])
      fix u :: "'w indexer" and res :: rebuild_result
      assume u: "V (ix_world u)" "ix_cursor u = ix_cursor t"
        "rebuildOrderProjections ?B ?es = Inr (rr_snapshot res)" "store_holds E (ix_store u) ?es cur"
        "ix_committed u = ix_committed t @ [ix_store u]"
      have snap: "rebuildOrderProjections ?B (canonical D ?dep f) = Inr (rr_snapshot res)"
        using u(3) same_events_same_rebuild(1) [OF rec canonical_recorded [OF R(5)] all] by metis
      have stu: "stable E C D V u"
      proof -
        have "covers E X (ix_store u)" if "covers E X (ix_store t)" for X
        proof -
          from that obtain es' cur' where x: "store_holds E (ix_store t) es' cur'" "cursor_fits E X es' cur'"
            by (auto simp: covers_def)
          have "cur' = cur" using x(1) h(1) by (simp add: store_holds_def)
          moreover have "set es' = set es"
            using x(1) h(1) listEvents_store by (metis Inr_inject set_js_sort sortChainEvents_def)
          ultimately have "cursor_fits E X ?es cur"
            using x(2) h(2) bel by (simp add: cursor_fits_def Let_def below_def)
          with u(4) show ?thesis by (auto simp: covers_def)
        qed
        then show ?thesis
          using stt u by (auto simp: stable_def own_cursor_def cursor_block_holds [OF u(4)] cursor_block_holds [OF h(1)])
      qed
      show "wp (processSignalNotifications E ?active) (\<lambda>_. wp (cursorBlockHash E f) (\<lambda>hash.
        wp (saveCursorAdvancingFrom E (cursor_at E (f + 1) reported hash) n)
        (\<lambda>_. wp (processProjectionAutomation E (rr_snapshot res)) (\<lambda>_. wp (returnA res) Q Er) Er) Er) Er) Er u"
      proof (rule wp_quiet_never_throws [OF quiet_processing(1) [OF R(2)] never_throws_processing(1) u(1)])
        fix v assume v: "quiet V u v"
        show "wp (cursorBlockHash E f) (\<lambda>hash. wp (saveCursorAdvancingFrom E (cursor_at E (f + 1) reported hash) n)
          (\<lambda>_. wp (processProjectionAutomation E (rr_snapshot res)) (\<lambda>_. wp (returnA res) Q Er) Er) Er) Er v"
        proof (rule wp_cursorBlockHash [OF R(2) ne quiet_world [OF v]])
          fix w assume w: "quiet V v w"
          have hw: "store_holds E (ix_store w) ?es cur"
            using u(4) v w store_holds_core [of "ix_store w" "ix_store u" E] by (simp add: quiet_def)
          show "wp (saveCursorAdvancingFrom E (cursor_at E (f + 1) reported (Some (cv_hash D f))) n)
            (\<lambda>_. wp (processProjectionAutomation E (rr_snapshot res)) (\<lambda>_. wp (returnA res) Q Er) Er) Er w"
          proof (rule wp_advance [OF rnd stable_quiet [OF stable_quiet [OF stu v] w] hw h(2)])
            show "below (f + 1) ?es = set (canonical D ?dep (f + 1 - 1))"
            proof -
              have "\<forall>e \<in> set ?es. blockNumber e \<le> f" unfolding all by (simp add: set_canonical)
              then show ?thesis using below_all [of ?es f] all by simp
            qed
            fix x :: "'w indexer" and row
            assume x: "stable E C D V x" "store_holds E (ix_store x) ?es row" "cu_nextBlock row = f + 1"
              "cu_blockHash row = Some (cv_hash D (f + 1 - 1))"
            have comp: "complete E D f (ix_store x)"
              unfolding complete_def using x all by (intro exI [of _ ?es] exI [of _ row]) simp
            have Vx: "V (ix_world x)" using x(1) by (simp add: stable_def)
            show "wp (processProjectionAutomation E (rr_snapshot res)) (\<lambda>_. wp (returnA res) Q Er) Er x"
            proof (rule wp_quiet_never_throws [OF quiet_processing(2) [OF R(2)] never_throws_processing(2) Vx])
              fix y assume y: "quiet V x y"
              have "complete E D f (ix_store y)"
                using comp y complete_core [of "ix_store y" "ix_store x" E D f] by (simp add: quiet_def)
              then show "wp (returnA res) Q Er y"
                using stable_quiet [OF x(1) y] snap by (simp add: wp_return ok)
            qed
          qed (use n f in \<open>simp_all add: cursor_at_def\<close>)
        next
          show "Er e w" if "\<not> fine" "quiet V v w" for e w
            using bad that stable_quiet [OF stable_quiet [OF stu v]] by blast
        qed
      qed
    next
      show "Er (Thrown e) u" if "(\<exists>x. rebuildOrderProjections ?B ?es = Inl x)
          \<or> (\<exists>x. rebuildIdentityProjections ?B ?es = Inl x)" "quiet V t u" for e u
        using bad [of u "Thrown e"] stable_quiet [OF stt that(2)] that(1) replays_recorded [OF R(6) R(5) rec all]
        by fastforce
    qed
  qed (use bad stable_quiet [OF st] in blast)
qed

section \<open>A whole refresh\<close>

definition round_target :: "chain_view \<Rightarrow> int option \<Rightarrow> int" where
  "round_target D target = minBlock (cv_finalized D) target"

lemma wp_refresh_from:
  fixes E :: "'w indexer_env"
  assumes rnd: "round_between fine E C D V" and st: "stable E C D V s"
    and cov: "covers E C (ix_store s)" and n: "cursor_block E (ix_store s) = n" "ec_nextBlock c = n"
    and missed: "nothing_missed E C D n" and anch: "fine \<Longrightarrow> anchored E C D n"
    and ok: "\<And>res t. stable E C D V t \<Longrightarrow> covers E D (ix_store t) \<Longrightarrow>
      (n \<le> f \<Longrightarrow> complete E D f (ix_store t)
        \<and> rebuildOrderProjections (ie_bindings E) (canonical D (ie_deploymentBlock E) f) = Inr (rr_snapshot res)) \<Longrightarrow>
      Q res t"
    and bad: "\<And>e t. \<not> fine \<Longrightarrow> stable E C D V t \<Longrightarrow> Er e t"
  shows "wp (refresh_from E f c) Q Er s"
proof -
  note R = round_betweenD [OF rnd]
  have "ie_deploymentBlock E \<le> n"
    using cov unfolding n(1) [symmetric]
    by (auto simp: covers_def cursor_fits_def Let_def cursor_block_holds)
  then have from_: "at_least (ie_deploymentBlock E) (ec_nextBlock c) = n"
    using n(2) by (simp add: at_least_def)
  show ?thesis
    unfolding refresh_from_def from_ wp_bind
  proof (rule wp_rollbackOnReorg [OF rnd st cov n(1) missed anch])
    fix m and t :: "'w indexer"
    assume m: "ready E C D V m t" "m \<le> n"
    have Vt: "V (ix_world t)" using m(1) by (simp add: ready_def stable_def)
    show "wp (sweepPendingPostCommitSteps E) (\<lambda>_. wp (storedCursorA E) (\<lambda>stored. wp (getsA ix_cursor) (\<lambda>mem.
        wp (let reported = reported_finalized f stored mem
            in if f < m then refresh_lagging E m reported else refresh_append E m f reported) Q Er) Er) Er) Er t"
    proof (rule wp_quiet_never_throws [OF quiet_sweep [OF R(2)] never_throws_sweep Vt])
      fix u assume "quiet V t u"
      then have u: "ready E C D V m u" by (rule ready_quiet [OF m(1)])
      from u obtain es cur where "store_holds E (ix_store u) es cur" by (auto simp: ready_def)
      then have cursor: "getCursor (ie_bindings E) (ix_scope E) (ix_store u) = Inr (Some cur)"
        by (rule getCursor_holds [OF R(1)])
      have "wp (if f < m then refresh_lagging E m reported else refresh_append E m f reported) Q Er u" for reported
      proof (cases "f < m")
        case True
        then have "wp (refresh_lagging E m reported) Q Er u"
          by (intro wp_refresh_lagging [OF rnd u]) (use m(2) in \<open>auto intro: ok bad\<close>)
        with True show ?thesis by simp
      next
        case False
        have dep: "ie_deploymentBlock E \<le> m" using u by (simp add: ready_def)
        then have fm: "m \<le> f" "ie_deploymentBlock E \<le> f + 1" using False by simp_all
        have "wp (refresh_append E m f reported) Q Er u"
          by (rule wp_refresh_append [OF rnd u fm(1)])
            (simp_all add: ok complete_covers [OF _ fm(2)] bad)
        with False show ?thesis by simp
      qed
      then show "wp (storedCursorA E) (\<lambda>stored. wp (getsA ix_cursor) (\<lambda>mem.
        wp (let reported = reported_finalized f stored mem
            in if f < m then refresh_lagging E m reported else refresh_append E m f reported) Q Er) Er) Er u"
        by (simp add: storedCursorA_def wp_read cursor wp_gets Let_def)
    qed
  qed (auto intro: bad)
qed

lemma wp_refreshFromCursor:
  fixes E :: "'w indexer_env"
  assumes rnd: "round_between fine E C D V" and st: "stable E C D V s"
    and cov: "covers E C (ix_store s)" and n: "cursor_block E (ix_store s) = n"
    and missed: "nothing_missed E C D n" and anch: "fine \<Longrightarrow> anchored E C D n"
    and ok: "\<And>res t. stable E C D V t \<Longrightarrow> covers E D (ix_store t) \<Longrightarrow>
      (n \<le> round_target D target \<Longrightarrow> complete E D (round_target D target) (ix_store t)
        \<and> rebuildOrderProjections (ie_bindings E)
            (canonical D (ie_deploymentBlock E) (round_target D target)) = Inr (rr_snapshot res)) \<Longrightarrow>
      Q res t"
    and bad: "\<And>e t. \<not> fine \<Longrightarrow> stable E C D V t \<Longrightarrow> Er e t"
  shows "wp (refreshFromCursor E target) Q Er s"
proof -
  note R = round_betweenD [OF rnd]
  have V: "V (ix_world s)" using st by (simp add: stable_def)
  show ?thesis
    unfolding refreshFromCursor_def wp_bind
  proof (rule wp_answer [OF shows_viewD(1) [OF R(2)] V])
    fix t assume t: "quiet V s t"
    have core: "core (ix_store t) = core (ix_store s)" using t by (simp add: quiet_def)
    have covt: "covers E C (ix_store t)" using cov covers_core [OF core, of E C] by simp
    have nt: "cursor_block E (ix_store t) = n" using n cursor_block_core [OF core, of E] by simp
    have stt: "stable E C D V t" by (rule stable_quiet [OF st t])
    from covt obtain es cur where h: "store_holds E (ix_store t) es cur" by (auto simp: covers_def)
    have cursor: "getCursor (ie_bindings E) (ix_scope E) (ix_store t) = Inr (Some cur)"
      by (rule getCursor_holds [OF R(1) h])
    define c where "c = (case ix_cursor t of Some c \<Rightarrow> c | None \<Rightarrow> cursor_of_stored cur)"
    have pick: "opt_or (ix_cursor t) (map_option cursor_of_stored (Some cur)) = Some c"
      by (simp add: c_def opt_or_def split: option.split)
    have cn: "ec_nextBlock c = n"
      using stt nt cursor_block_holds [OF h]
      by (auto simp: c_def stable_def own_cursor_def cursor_of_stored_def split: option.split)
    have "wp (refresh_from E (round_target D target) c) Q Er t"
      by (rule wp_refresh_from [OF rnd stt covt nt cn missed anch]) (auto intro: ok bad)
    then show "wp (let finalized = minBlock (cv_finalized D) target in
        bindA (storedCursorA E) (\<lambda>stored. bindA (getsA ix_cursor) (\<lambda>mem.
          case opt_or mem (map_option cursor_of_stored stored) of
            None \<Rightarrow> rebuildFromDeploymentBlock E (map_option (\<lambda>_. finalized) target)
          | Some cursor \<Rightarrow> refresh_from E finalized cursor))) Q Er t"
      by (simp only: Let_def wp_bind storedCursorA_def wp_read cursor sum.case wp_gets pick option.case
        round_target_def [symmetric])
  qed (use bad stable_quiet [OF st] in blast)
qed

section \<open>A full rebuild\<close>

lemma own_cursor_set: "ec_nextBlock c = cursor_block E (ix_store s) \<Longrightarrow> own_cursor E (s\<lparr>ix_cursor := Some c\<rparr>)"
  by (simp add: own_cursor_def)

text \<open>The store that the transaction of a rebuild leaves, whatever was in it.\<close>

lemma reset_complete:
  assumes env: "sound_env E" and view: "sound_view (ie_bindings E) (ie_chainId E) D"
    and ev: "ri_events inp = canonical D (ie_deploymentBlock E) f" "ri_deploymentBlock inp = ie_deploymentBlock E"
    and sc: "ri_scope inp = Some (ix_scope E)"
    and cur: "ri_cursor inp = Some (cursor_input_of E (cursor_at E (f + 1) f (Some (cv_hash D f))))"
    and sync: "ri_syncState inp = Some base"
    and orders: "rebuildOrderProjections (ie_bindings E) (canonical D (ie_deploymentBlock E) f) = Inr orders"
    and ids: "rebuildIdentityProjections (ie_bindings E) (canonical D (ie_deploymentBlock E) f) = Inr identities"
  shows "\<exists>d'. resetFromEvents_durable (ie_bindings E) now inp d = Inr (orders, d') \<and> complete E D f d'"
proof -
  let ?B = "ie_bindings E" and ?es = "canonical D (ie_deploymentBlock E) f"
  let ?d = "d\<lparr>ds_events := filter (\<lambda>r. er_chainId r \<noteq> ie_chainId E) (ds_events d)\<rparr>"
  let ?cur = "cursor_row (cursor_input_of E (cursor_at E (f + 1) f (Some (cv_hash D f)))) (ix_scope E) now"
  have scope: "sc_chainId (ix_scope E) = ie_chainId E" by (simp add: ix_scope_def defaultProjectionScope_def)
  have evs: "filter (\<lambda>e. ri_deploymentBlock inp \<le> blockNumber e) (ri_events inp) = ?es"
    unfolding ev by (rule filter_True) (simp add: set_canonical)
  have "log_holds ?B (ie_chainId E) (ds_events ?d) []"
    by (simp add: log_holds_def recorded_def)
  from appendEvents_holds [OF this, of ?es] canonical_recorded [OF view] obtain rows where
    rows: "appendEvents ?B (ds_events ?d) ?es = Inr rows" "log_holds ?B (ie_chainId E) rows ?es" by auto
  have app: "appendEventRows ?B ?es ?d = Inr (?d\<lparr>ds_events := rows\<rparr>)"
    using rows(1) by (simp add: appendEventRows_eq)
  have cs: "cursor_input_of E c\<lparr>cu_scope := ix_scope E\<rparr> = cursor_input_of E c" for c
    by (simp add: cursor_input_of_def)
  obtain x where x: "saveSyncRow ?B now (base\<lparr>sy_scope := ix_scope E\<rparr>) d1
    = Inr (x d1, d1\<lparr>ds_syncStates := jset (ix_scope E) (x d1) (ds_syncStates d1)\<rparr>)" for d1
    using saveSyncRow_ok [OF env, of "base\<lparr>sy_scope := ix_scope E\<rparr>" now]
    by (simp add: saveSyncRow_def Let_def env)
  have row: "cu_scope ?cur = ix_scope E" "cu_nextBlock ?cur = f + 1" "cu_blockHash ?cur = Some (cv_hash D f)"
    using view row_for_cursor_row [of E "cursor_at E (f + 1) f (Some (cv_hash D f))" now]
    by (simp_all add: row_for_def cursor_at_def sound_view_def)
  have reset: "\<exists>d'. resetFromEvents_durable ?B now inp d = Inr (orders, d')
      \<and> ds_events d' = rows \<and> jget (ds_cursors d') (ix_scope E) = Some ?cur \<and> ds_snapshotScope d' = ix_scope E
      \<and> map_option ss_snapshot (jget (ds_orders d') (ix_scope E)) = Some orders
      \<and> map_option ss_snapshot (jget (ds_identities d') (ix_scope E)) = Some identities"
    unfolding resetFromEvents_durable_def Let_def evs sc sync cur option.case scope app orders ids bindR_simps
    by (simp add: saveOrderSnapshot_def saveIdentitySnapshot_def saveCursor_def cs env x row(1)
      cursor_input_of_def)
  then obtain d' where d': "resetFromEvents_durable ?B now inp d = Inr (orders, d')"
    "ds_events d' = rows" "jget (ds_cursors d') (ix_scope E) = Some ?cur" "ds_snapshotScope d' = ix_scope E"
    "map_option ss_snapshot (jget (ds_orders d') (ix_scope E)) = Some orders"
    "map_option ss_snapshot (jget (ds_identities d') (ix_scope E)) = Some identities" by blast
  have "store_holds E d' ?es ?cur"
    by (rule store_holdsI [OF env _ _ d'(3) row(1) d'(4-6) orders ids])
      (simp_all add: d'(2) rows(2) set_canonical)
  then show ?thesis
    using d'(1) row unfolding complete_def by blast
qed

end
