(* ===== verification/QueueFacts.thy ===== *)
theory QueueFacts imports StoreSteps begin

text \<open>
  The queue of steps after a commit: what a pass over it does to every step, and that a batch
  of notifications that could not be delivered is in it unless the database refuses the row.
  The refused cursor write.
\<close>

section \<open>One step\<close>

text \<open>A call of the step's processor that returned.\<close>

definition handed_over :: "'w indexer_env \<Rightarrow> pending_step \<Rightarrow> bool" where
  "handed_over E p = (case pe_kind p of
       Signal_notification \<Rightarrow> (\<exists>f es w w'. ie_processSignals E = Some f \<and> pe_events p = Some es
         \<and> f es w = (Inr (), w'))
     | Projection_automation \<Rightarrow> (\<exists>f snap w w'. ie_processProjection E = Some f \<and> f snap w = (Inr (), w')))"

text \<open>A batch with an event above the finality bound of the sync state.\<close>

definition waits :: "'w indexer_env \<Rightarrow> durable_store \<Rightarrow> pending_step \<Rightarrow> bool" where
  "waits E d p \<longleftrightarrow> pe_kind p = Signal_notification \<and> ie_processSignals E \<noteq> None
     \<and> (\<exists>es st b. pe_events p = Some es \<and> es \<noteq> []
          \<and> getSyncRow (ie_bindings E) (ix_scope E) d = Inr (Some st)
          \<and> sy_finalizedBlock st = Some b \<and> b < max_event_block es)"

definition queue_ids :: "'w indexer \<Rightarrow> string set" where
  "queue_ids s = pe_stepId ` set (ds_pending (ix_store s))"

text \<open>The step of a pass changes rows of its own identifier only.\<close>

definition step_effect :: "'w indexer_env \<Rightarrow> pending_step \<Rightarrow> 'w indexer \<Rightarrow> 'w indexer \<Rightarrow> bool" where
  "step_effect E p s t \<longleftrightarrow>
     ds_syncStates (ix_store t) = ds_syncStates (ix_store s)
     \<and> queue_ids t \<subseteq> queue_ids s
     \<and> (\<forall>q. pe_stepId q \<noteq> pe_stepId p \<longrightarrow>
          q \<in> set (ds_pending (ix_store t)) \<longleftrightarrow> q \<in> set (ds_pending (ix_store s)))
     \<and> (pe_stepId p \<in> queue_ids s \<longrightarrow> pe_stepId p \<in> queue_ids t \<or> handed_over E p
          \<or> PENDING_POST_COMMIT_MAX_SWEEP_ATTEMPTS \<le> pe_attempts p + 1)
     \<and> (waits E (ix_store s) p \<longrightarrow> ds_pending (ix_store t) = ds_pending (ix_store s))"

lemma getSyncRow_cong:
  "ds_syncStates d = ds_syncStates d' \<Longrightarrow> getSyncRow B sc d = getSyncRow B sc d'"
  by (simp add: getSyncRow_def)

lemma waits_cong: "ds_syncStates d = ds_syncStates d' \<Longrightarrow> waits E d p = waits E d' p"
  by (simp add: waits_def getSyncRow_cong [of d d'])

text \<open>A write of the queue is taken, or refused and the store as it was.\<close>

lemma wp_queue [wp_simps]:
  "wp (queueA E f) Q Er s = (case ie_queueWrite E (ix_world s) of
       (Inl e, w) \<Rightarrow> Er e (s\<lparr>ix_world := w\<rparr>)
     | (Inr _, w) \<Rightarrow> Q () (commit_store (f (ix_store s)) (s\<lparr>ix_world := w\<rparr>)))"
  by (simp add: queueA_def wp_simps split: prod.split sum.split)

lemma wp_queueI:
  assumes "\<And>e w. ie_queueWrite E (ix_world s) = (Inl e, w) \<Longrightarrow> Er e (s\<lparr>ix_world := w\<rparr>)"
    and "\<And>w. Q () (commit_store (f (ix_store s)) (s\<lparr>ix_world := w\<rparr>))"
  shows "wp (queueA E f) Q Er s"
  using assms by (auto simp: wp_queue split: prod.split sum.split)

lemma deliver_effect:
  "wp (deliverPendingPostCommitStep E p)
     (\<lambda>_ t. ix_store t = ix_store s \<and> handed_over E p \<and> \<not> waits E (ix_store s) p)
     (\<lambda>e t. ix_store t = ix_store s \<and> (waits E (ix_store s) p \<longrightarrow> (\<exists>m. e = FinalityWait m))) s"
proof (cases "pe_kind p")
  case Projection_automation
  then show ?thesis
    by (cases "ie_processProjection E")
      (auto simp: deliverPendingPostCommitStep_def wp_simps handed_over_def waits_def
        split: sum.split prod.split)
next
  case Signal_notification
  show ?thesis
  proof (cases "ie_processSignals E")
    case None
    with Signal_notification show ?thesis
      by (simp add: deliverPendingPostCommitStep_def wp_simps waits_def)
  next
    case (Some f)
    show ?thesis
    proof (cases "pe_events p")
      case None
      with Some Signal_notification show ?thesis
        by (simp add: deliverPendingPostCommitStep_def wp_simps waits_def)
    next
      case (Some es)
      note es = this
      have ho: "handed_over E p" if "f es w = (Inr u, w')" for w u w'
        using that Signal_notification \<open>ie_processSignals E = Some f\<close> es by (auto simp: handed_over_def)
      show ?thesis
      proof (cases "es = []")
        case True
        with es Signal_notification \<open>ie_processSignals E = Some f\<close> show ?thesis
          by (simp add: deliverPendingPostCommitStep_def wp_simps waits_def)
      next
        case False
        obtain r w where r: "f es (ix_world s) = (r, w)" by (cases "f es (ix_world s)")
        show ?thesis
          using es False Signal_notification \<open>ie_processSignals E = Some f\<close> r ho
          by (auto simp: deliverPendingPostCommitStep_def syncStateA_def wp_simps waits_def Let_def
            split: sum.split option.split)
      qed
    qed
  qed
qed

lemma step_effect_same: "ix_store t = ix_store s \<Longrightarrow> step_effect E p s t"
  by (auto simp: step_effect_def queue_ids_def)

text \<open>The counters of a pass: every step is counted once, under one outcome.\<close>

definition counted :: "sweep_summary \<Rightarrow> sweep_summary \<Rightarrow> bool" where
  "counted su su' \<longleftrightarrow> sw_swept su' = sw_swept su + 1
     \<and> sw_delivered su' + sw_failed su' + sw_waitingFinality su'
         = sw_delivered su + sw_failed su + sw_waitingFinality su + 1"

lemma record_ids: "pe_stepId ` set (ds_pending (recordPendingPostCommitAttempt now i err d)) = pe_stepId ` set (ds_pending d)"
proof -
  have "map pe_stepId (ds_pending (recordPendingPostCommitAttempt now i err d)) = map pe_stepId (ds_pending d)"
    by (simp add: recordPendingPostCommitAttempt_def)
  from arg_cong [OF this, of set] show ?thesis by simp
qed

lemma record_other:
  "pe_stepId q \<noteq> i \<Longrightarrow> q \<in> set (ds_pending (recordPendingPostCommitAttempt now i err d)) \<longleftrightarrow> q \<in> set (ds_pending d)"
  by (auto simp: recordPendingPostCommitAttempt_def)

lemma record_sync: "ds_syncStates (recordPendingPostCommitAttempt now i err d) = ds_syncStates d"
  by (simp add: recordPendingPostCommitAttempt_def)

text \<open>
  What follows a failed delivery, also where the delivery succeeded and the database refused to
  delete the row afterwards.
\<close>

lemma failed_step_effect:
  fixes E :: "'w indexer_env" and su :: sweep_summary
  assumes "ix_store t = ix_store s" and "waits E (ix_store s) p \<Longrightarrow> \<exists>m. e = FinalityWait m"
  defines "giveup \<equiv> catchA
      (if PENDING_POST_COMMIT_MAX_SWEEP_ATTEMPTS \<le> pe_attempts p + 1
       then queueA E (deletePendingPostCommitStep (pe_stepId p))
       else recordAttemptA E (pe_stepId p) (ie_redact E e)) (\<lambda>_. returnA ())"
  shows "wp (case e of FinalityWait _ \<Rightarrow> returnA (su\<lparr>sw_waitingFinality := sw_waitingFinality su + 1\<rparr>)
      | _ \<Rightarrow> bindA giveup (\<lambda>_. returnA (su\<lparr>sw_failed := sw_failed su + 1\<rparr>)))
      (\<lambda>su' t. step_effect E p s t \<and> sw_swept su' = sw_swept su
        \<and> sw_delivered su' + sw_failed su' + sw_waitingFinality su'
            = sw_delivered su + sw_failed su + sw_waitingFinality su + 1) (\<lambda>_ _. False) t"
proof (cases "\<exists>m. e = FinalityWait m")
  case True
  then show ?thesis using assms(1) by (auto simp: wp_return step_effect_same)
next
  case False
  then have "wp giveup (\<lambda>_. step_effect E p s) (\<lambda>_ _. False) t"
    using assms(1,2) unfolding giveup_def
    by (auto simp: wp_simps recordAttemptA_def commit_store_def step_effect_def queue_ids_def
      deletePendingPostCommitStep_def record_ids record_other record_sync split: prod.split sum.split)
  then have "wp (bindA giveup (\<lambda>_. returnA (su\<lparr>sw_failed := sw_failed su + 1\<rparr>)))
      (\<lambda>su' t. step_effect E p s t \<and> sw_swept su' = sw_swept su
        \<and> sw_delivered su' + sw_failed su' + sw_waitingFinality su'
            = sw_delivered su + sw_failed su + sw_waitingFinality su + 1) (\<lambda>_ _. False) t"
    unfolding wp_bind by (rule wp_mono) (simp_all add: wp_return)
  then show ?thesis using False by (cases e) auto
qed

lemma sweep_step_effect:
  fixes E :: "'w indexer_env"
  shows "wp (sweep_step E su p) (\<lambda>su' t. step_effect E p s t \<and> counted su su') (\<lambda>_ _. False) s"
proof -
  let ?su = "su\<lparr>sw_swept := sw_swept su + 1\<rparr>"
  let ?giveup = "\<lambda>e. catchA
      (if PENDING_POST_COMMIT_MAX_SWEEP_ATTEMPTS \<le> pe_attempts p + 1
       then queueA E (deletePendingPostCommitStep (pe_stepId p))
       else recordAttemptA E (pe_stepId p) (ie_redact E e)) (\<lambda>_. returnA ())"
  let ?H = "\<lambda>e. wp (case e of FinalityWait _ \<Rightarrow> returnA (?su\<lparr>sw_waitingFinality := sw_waitingFinality ?su + 1\<rparr>)
      | _ \<Rightarrow> bindA (?giveup e) (\<lambda>_. returnA (?su\<lparr>sw_failed := sw_failed ?su + 1\<rparr>)))
      (\<lambda>su' t. step_effect E p s t \<and> counted su su') (\<lambda>_ _. False)"
  have H: "?H e t" if "ix_store t = ix_store s" "waits E (ix_store s) p \<Longrightarrow> \<exists>m. e = FinalityWait m" for e and t :: "'w indexer"
    by (rule wp_mono [OF failed_step_effect [where su = ?su, OF that]]) (simp_all add: counted_def)
  show ?thesis
    unfolding sweep_step_def Let_def wp_catch wp_bind
  proof (rule wp_mono [OF deliver_effect])
    fix t :: "'w indexer"
    assume t: "ix_store t = ix_store s \<and> handed_over E p \<and> \<not> waits E (ix_store s) p"
    have "step_effect E p s (commit_store (deletePendingPostCommitStep (pe_stepId p) (ix_store t)) (t\<lparr>ix_world := w\<rparr>))" for w
      using t by (auto simp: commit_store_def step_effect_def queue_ids_def deletePendingPostCommitStep_def)
    then show "wp (queueA E (deletePendingPostCommitStep (pe_stepId p)))
        (\<lambda>_. wp (returnA (?su\<lparr>sw_delivered := sw_delivered ?su + 1\<rparr>))
          (\<lambda>su' t. step_effect E p s t \<and> counted su su') ?H) ?H t"
      unfolding wp_return_fun by (intro wp_queueI H conjI) (use t in \<open>simp_all add: counted_def\<close>)
  next
    fix e and t :: "'w indexer"
    assume "ix_store t = ix_store s \<and> (waits E (ix_store s) p \<longrightarrow> (\<exists>m. e = FinalityWait m))"
    then show "?H e t" by (intro H) simp_all
  qed
qed

section \<open>A whole pass\<close>

text \<open>What a pass over the steps \<open>ps\<close> has done.\<close>

definition pass_effect :: "'w indexer_env \<Rightarrow> pending_step list \<Rightarrow> 'w indexer \<Rightarrow> 'w indexer \<Rightarrow> bool" where
  "pass_effect E ps s t \<longleftrightarrow>
     ds_syncStates (ix_store t) = ds_syncStates (ix_store s)
     \<and> (\<forall>q. pe_stepId q \<notin> pe_stepId ` set ps \<longrightarrow>
          q \<in> set (ds_pending (ix_store t)) \<longleftrightarrow> q \<in> set (ds_pending (ix_store s)))
     \<and> (\<forall>p \<in> set ps. p \<in> set (ds_pending (ix_store s)) \<longrightarrow>
          (pe_stepId p \<in> queue_ids t \<or> handed_over E p
            \<or> PENDING_POST_COMMIT_MAX_SWEEP_ATTEMPTS \<le> pe_attempts p + 1)
          \<and> (waits E (ix_store s) p \<longrightarrow> p \<in> set (ds_pending (ix_store t))))"

lemma sweep_steps_effect:
  fixes E :: "'w indexer_env"
  assumes "distinct (map pe_stepId ps)"
  shows "wp (sweep_steps E su ps) (\<lambda>su' t. pass_effect E ps s t \<and> sw_swept su' = sw_swept su + length ps
      \<and> sw_delivered su' + sw_failed su' + sw_waitingFinality su'
          = sw_delivered su + sw_failed su + sw_waitingFinality su + length ps) (\<lambda>_ _. False) s"
  using assms
proof (induction ps arbitrary: su s)
  case (Cons p ps)
  show ?case
    unfolding sweep_steps.simps wp_bind
  proof (rule wp_mono [OF sweep_step_effect])
    fix su' and t :: "'w indexer"
    assume t: "step_effect E p s t \<and> counted su su'"
    show "wp (sweep_steps E su' ps) (\<lambda>su' t. pass_effect E (p # ps) s t
        \<and> sw_swept su' = sw_swept su + length (p # ps)
        \<and> sw_delivered su' + sw_failed su' + sw_waitingFinality su'
            = sw_delivered su + sw_failed su + sw_waitingFinality su + length (p # ps)) (\<lambda>_ _. False) t"
    proof (rule wp_mono [OF Cons.IH])
      fix su'' and u :: "'w indexer"
      assume u: "pass_effect E ps t u \<and> sw_swept su'' = sw_swept su' + length ps
        \<and> sw_delivered su'' + sw_failed su'' + sw_waitingFinality su''
            = sw_delivered su' + sw_failed su' + sw_waitingFinality su' + length ps"
      have w: "waits E (ix_store t) q = waits E (ix_store s) q" for q
        using t by (intro waits_cong) (simp add: step_effect_def)
      have keep: "q \<in> set (ds_pending (ix_store t))" if "q \<in> set ps" "q \<in> set (ds_pending (ix_store s))" for q
      proof -
        have "pe_stepId q \<noteq> pe_stepId p" using that(1) Cons.prems by (metis distinct.simps(2) imageI list.map(2) set_map)
        then show ?thesis using t that(2) by (simp add: step_effect_def)
      qed
      have first: "q \<in> set (ds_pending (ix_store u)) \<longleftrightarrow> q \<in> set (ds_pending (ix_store t))"
        if "pe_stepId q = pe_stepId p" for q
        using u that Cons.prems by (auto simp: pass_effect_def)
      have ids: "pe_stepId p \<in> queue_ids u" if "pe_stepId p \<in> queue_ids t"
        using that first by (auto simp: queue_ids_def)
      have "pass_effect E (p # ps) s u"
        unfolding pass_effect_def
      proof (intro conjI allI ballI impI)
        show "ds_syncStates (ix_store u) = ds_syncStates (ix_store s)"
          using t u by (simp add: step_effect_def pass_effect_def)
        show "q \<in> set (ds_pending (ix_store u)) \<longleftrightarrow> q \<in> set (ds_pending (ix_store s))"
          if "pe_stepId q \<notin> pe_stepId ` set (p # ps)" for q
          using that t u by (auto simp: step_effect_def pass_effect_def)
        fix q assume q: "q \<in> set (p # ps)" "q \<in> set (ds_pending (ix_store s))"
        show "pe_stepId q \<in> queue_ids u \<or> handed_over E q
            \<or> PENDING_POST_COMMIT_MAX_SWEEP_ATTEMPTS \<le> pe_attempts q + 1"
        proof (cases "q = p")
          case True
          then have "pe_stepId p \<in> queue_ids s" using q(2) by (simp add: queue_ids_def)
          with t ids True show ?thesis by (auto simp: step_effect_def)
        qed (use q keep u in \<open>auto simp: pass_effect_def\<close>)
        show "q \<in> set (ds_pending (ix_store u))" if "waits E (ix_store s) q"
        proof (cases "q = p")
          case True
          then show ?thesis using that t q(2) first [of p] by (auto simp: step_effect_def)
        qed (use q keep u that w in \<open>auto simp: pass_effect_def\<close>)
      qed
      then show "pass_effect E (p # ps) s u \<and> sw_swept su'' = sw_swept su + length (p # ps)
        \<and> sw_delivered su'' + sw_failed su'' + sw_waitingFinality su''
            = sw_delivered su + sw_failed su + sw_waitingFinality su + length (p # ps)"
        using t u by (simp add: counted_def)
    qed (use Cons.prems in simp_all)
  qed simp
qed (simp add: wp_return pass_effect_def queue_ids_def)

lemma case_as_wp: "(case m s of (r, t) \<Rightarrow> P r t) = wp m (\<lambda>x. P (Inr x)) (\<lambda>e. P (Inl e)) s"
  by (simp add: wp_def split: prod.split sum.split)

lemma listPending_pending:
  "set (listPendingPostCommitSteps chain d) = {p \<in> set (ds_pending d). pe_chainId p = chain}"
  by (auto simp: listPendingPostCommitSteps_def)

lemma distinct_listPending:
  "distinct (map pe_stepId (ds_pending d)) \<Longrightarrow> distinct (map pe_stepId (listPendingPostCommitSteps chain d))"
  by (simp add: listPendingPostCommitSteps_def distinct_map_filter)

text \<open>
  C9: A pass over the queue ends without an exception and counts every step of the chain once.
  A step leaves the queue only if its processor returned for it or this was its sixteenth
  failure; steps of other chains stay as they are; and a batch with an event above the
  finality bound stays exactly as it is, however often it is passed over: waiting costs no
  attempt.
\<close>

theorem queue_gives_up_only_when_done:
  assumes "distinct (map pe_stepId (ds_pending (ix_store s)))"
  shows "\<exists>su t. sweepPendingPostCommitSteps E s = (Inr su, t)
    \<and> sw_swept su = length (filter (\<lambda>p. pe_chainId p = ie_chainId E) (ds_pending (ix_store s)))
    \<and> sw_delivered su + sw_failed su + sw_waitingFinality su = sw_swept su
    \<and> (\<forall>p \<in> set (ds_pending (ix_store s)).
         (pe_stepId p \<in> queue_ids t \<or> handed_over E p
           \<or> PENDING_POST_COMMIT_MAX_SWEEP_ATTEMPTS \<le> pe_attempts p + 1)
         \<and> (waits E (ix_store s) p \<or> pe_chainId p \<noteq> ie_chainId E \<longrightarrow> p \<in> set (ds_pending (ix_store t))))"
proof -
  let ?ps = "listPendingPostCommitSteps (ie_chainId E) (ix_store s)"
  have d: "distinct (map pe_stepId ?ps)" by (rule distinct_listPending [OF assms])
  have len: "length ?ps = length (filter (\<lambda>p. pe_chainId p = ie_chainId E) (ds_pending (ix_store s)))"
    by (simp add: listPendingPostCommitSteps_def)
  have "wp (sweepPendingPostCommitSteps E) (\<lambda>su t. pass_effect E ?ps s t \<and> sw_swept su = length ?ps
      \<and> sw_delivered su + sw_failed su + sw_waitingFinality su = length ?ps) (\<lambda>_ _. False) s"
    unfolding sweepPendingPostCommitSteps_def pendingStepsA_def wp_bind wp_gets
    by (rule wp_mono [OF sweep_steps_effect [OF d]]) simp_all
  from wp_ends [OF this] obtain su t where t: "sweepPendingPostCommitSteps E s = (Inr su, t)"
    "pass_effect E ?ps s t" "sw_swept su = length ?ps"
    "sw_delivered su + sw_failed su + sw_waitingFinality su = length ?ps" by blast
  have other: "p \<in> set (ds_pending (ix_store t))"
    if "p \<in> set (ds_pending (ix_store s))" "pe_chainId p \<noteq> ie_chainId E" for p
  proof -
    have "pe_stepId p \<noteq> pe_stepId q" if "q \<in> set ?ps" for q
    proof
      assume "pe_stepId p = pe_stepId q"
      then have "p = q"
        using assms that \<open>p \<in> set (ds_pending (ix_store s))\<close>
        by (auto simp: listPending_pending distinct_map inj_on_def)
      with that \<open>pe_chainId p \<noteq> ie_chainId E\<close> show False by (simp add: listPending_pending)
    qed
    then show ?thesis using t(2) that(1) by (auto simp: pass_effect_def)
  qed
  have mine: "(pe_stepId p \<in> queue_ids t \<or> handed_over E p
           \<or> PENDING_POST_COMMIT_MAX_SWEEP_ATTEMPTS \<le> pe_attempts p + 1)
         \<and> (waits E (ix_store s) p \<longrightarrow> p \<in> set (ds_pending (ix_store t)))"
    if "p \<in> set (ds_pending (ix_store s))" "pe_chainId p = ie_chainId E" for p
    using t(2) that by (auto simp: pass_effect_def listPending_pending)
  have "(pe_stepId p \<in> queue_ids t \<or> handed_over E p
           \<or> PENDING_POST_COMMIT_MAX_SWEEP_ATTEMPTS \<le> pe_attempts p + 1)
         \<and> (waits E (ix_store s) p \<or> pe_chainId p \<noteq> ie_chainId E \<longrightarrow> p \<in> set (ds_pending (ix_store t)))"
    if "p \<in> set (ds_pending (ix_store s))" for p
    using mine [OF that] other [OF that] by (auto simp: queue_ids_def)
  then show ?thesis using t(1,3,4) len by auto
qed

section \<open>Notifications\<close>

lemma save_ids: "pe_stepId inp \<in> pe_stepId ` set (ds_pending (savePendingPostCommitStep now inp d))"
  by (force simp: savePendingPostCommitStep_def pending_input.defs)

text \<open>
  The row of a batch: under its identifier, and if the identifier was not in the queue before,
  with the batch itself. A row that is already there is left alone.
\<close>

definition batch_row ::
  "'w indexer_env \<Rightarrow> pending_kind \<Rightarrow> chain_event list option \<Rightarrow> durable_store \<Rightarrow> pending_step \<Rightarrow> bool" where
  "batch_row E kind events d p \<longleftrightarrow> pe_stepId p = pendingPostCommitStepId E kind events
     \<and> (pe_stepId p \<notin> pe_stepId ` set (ds_pending d) \<longrightarrow>
          pe_chainId p = ie_chainId E \<and> pe_kind p = kind
          \<and> pe_events p = (if kind = Signal_notification then events else None))"

definition batch_queued :: "'w indexer_env \<Rightarrow> pending_kind \<Rightarrow> chain_event list option \<Rightarrow> durable_store \<Rightarrow> durable_store \<Rightarrow> bool" where
  "batch_queued E kind events d d' \<longleftrightarrow> (\<exists>p \<in> set (ds_pending d'). batch_row E kind events d p)"

lemma save_queues: "batch_queued E kind events d (savePendingPostCommitStep now (pending_of E kind events) d)"
  by (force simp: batch_queued_def batch_row_def savePendingPostCommitStep_def pending_of_def pending_input.defs)

lemma record_queues:
  assumes "batch_queued E kind events d d'"
  shows "batch_queued E kind events d (recordPendingPostCommitAttempt now i err d')"
proof -
  obtain p where p: "p \<in> set (ds_pending d')" "batch_row E kind events d p"
    using assms by (auto simp: batch_queued_def)
  let ?q = "if pe_stepId p = i then p\<lparr>pe_attempts := pe_attempts p + 1, pe_lastError := Some err, pe_updatedAt := now\<rparr> else p"
  have "batch_row E kind events d ?q" using p(2) by (simp add: batch_row_def)
  moreover have "?q \<in> set (ds_pending (recordPendingPostCommitAttempt now i err d'))"
    using p(1) by (auto simp: recordPendingPostCommitAttempt_def intro: rev_image_eqI)
  ultimately show ?thesis unfolding batch_queued_def by blast
qed

text \<open>The last write of the queue was refused, and nothing was written.\<close>

definition refused :: "'w indexer_env \<Rightarrow> 'w indexer \<Rightarrow> 'w indexer \<Rightarrow> bool" where
  "refused E s t \<longleftrightarrow> ix_store t = ix_store s \<and> (\<exists>w e. ie_queueWrite E w = (Inl e, ix_world t))"

lemma persist_effect:
  fixes E :: "'w indexer_env"
  assumes "ix_store u = ix_store s"
  shows "wp (persistPendingPostCommitStep E kind events err)
      (\<lambda>ok t. batch_queued E kind events (ix_store s) (ix_store t) \<or> \<not> ok \<and> refused E s t) (\<lambda>_ _. False) u"
proof -
  have recorded: "wp (recordAttemptA E i err) (\<lambda>_ t. batch_queued E kind events (ix_store s) (ix_store t))
      (\<lambda>_ t. batch_queued E kind events (ix_store s) (ix_store t)) v"
    if "batch_queued E kind events (ix_store s) (ix_store v)" for i and v :: "'w indexer"
  proof -
    obtain now w where "ie_now E (ix_world v) = (now, w)" by fastforce
    with that show ?thesis
      unfolding recordAttemptA_def wp_bind wp_now
      by simp (rule wp_queueI, simp_all add: commit_store_def record_queues)
  qed
  obtain now w where now: "ie_now E (ix_world u) = (now, w)" by fastforce
  show ?thesis
    unfolding persistPendingPostCommitStep_def savePendingA_def wp_catch wp_bind wp_now now prod.case wp_return_fun
  proof (rule wp_queueI)
    fix x v assume "ie_queueWrite E (ix_world (u\<lparr>ix_world := w\<rparr>)) = (Inl x, v)"
    with assms show "batch_queued E kind events (ix_store s) (ix_store (u\<lparr>ix_world := w, ix_world := v\<rparr>))
        \<or> \<not> False \<and> refused E s (u\<lparr>ix_world := w, ix_world := v\<rparr>)"
      by (auto simp: refused_def)
  next
    fix v
    show "wp (recordAttemptA E (pendingPostCommitStepId E kind events) err)
        (\<lambda>_ t. batch_queued E kind events (ix_store s) (ix_store t) \<or> \<not> True \<and> refused E s t)
        (\<lambda>e t. batch_queued E kind events (ix_store s) (ix_store t) \<or> \<not> False \<and> refused E s t)
        (commit_store (savePendingPostCommitStep now (pending_of E kind events) (ix_store (u\<lparr>ix_world := w\<rparr>)))
          (u\<lparr>ix_world := w, ix_world := v\<rparr>))"
      by (rule wp_mono [OF recorded]) (simp_all add: commit_store_def assms save_queues)
  qed
qed

lemma attempts_effect:
  fixes E :: "'w indexer_env"
  assumes "left + attempt = POST_COMMIT_STEP_MAX_ATTEMPTS + 1" and "left \<noteq> 0"
    and run: "\<And>s. wp run (\<lambda>_ _. R) (\<lambda>_ t. ix_store t = ix_store s) s"
    and same: "ix_store u = ix_store s"
  shows "wp (attempt_step E kind events run attempt left) (\<lambda>st t.
      st = Delivered \<and> R \<or> st = Persisted \<and> (batch_queued E kind events (ix_store s) (ix_store t) \<or> refused E s t))
      (\<lambda>_ _. False) u"
  using assms(1,2) same
proof (induction left arbitrary: attempt u)
  case (Suc left)
  let ?Q = "\<lambda>st t. st = Delivered \<and> R
      \<or> st = Persisted \<and> (batch_queued E kind events (ix_store s) (ix_store t) \<or> refused E s t)"
  show ?case
    unfolding attempt_step.simps wp_catch wp_bind wp_return_fun
  proof (rule wp_mono [OF run])
    fix e and v :: "'w indexer"
    assume v: "ix_store v = ix_store u"
    show "wp (if attempt = POST_COMMIT_STEP_MAX_ATTEMPTS
        then bindA (persistPendingPostCommitStep E kind events (ie_redact E e)) (\<lambda>persisted. returnA Persisted)
        else bindA (sleepA E (postCommitStepRetryDelayMs attempt)) (\<lambda>_. attempt_step E kind events run (attempt + 1) left))
      ?Q (\<lambda>_ _. False) v"
    proof (cases "attempt = POST_COMMIT_STEP_MAX_ATTEMPTS")
      case True
      have "wp (bindA (persistPendingPostCommitStep E kind events (ie_redact E e)) (\<lambda>persisted. returnA Persisted))
          ?Q (\<lambda>_ _. False) v"
        unfolding wp_bind wp_return_fun
        by (rule wp_mono [OF persist_effect [where s = s]]) (use v Suc.prems in auto)
      with True show ?thesis by simp
    next
      case False
      with Suc.prems have "left + (attempt + 1) = POST_COMMIT_STEP_MAX_ATTEMPTS + 1" "left \<noteq> 0" by auto
      from Suc.IH [OF this] False v Suc.prems(3) show ?thesis by (simp add: wp_bind wp_sleep)
    qed
  qed simp
qed simp

text \<open>
  C8: A batch of notifications is delivered or queued unless the database refuses the row. When the
  step after the commit ends, which it does without an exception, either the processor returned
  for the batch; or the queue holds a row under the identifier of the batch, and the batch
  itself if the row is new, from where a pass takes it only as stated above; or the write of
  the row was the last thing that happened, it was refused, and the store is what it was. The
  step answers \<open>persisted\<close> in the last two cases alike.
\<close>

theorem notifications_are_delivered_or_queued:
  assumes "ie_processSignals E = Some f" and "events \<noteq> []"
  shows "\<exists>st t. processSignalNotifications E events s = (Inr st, t)
    \<and> (st = Delivered \<and> (\<exists>w w'. f events w = (Inr (), w'))
      \<or> st = Persisted \<and> (batch_queued E Signal_notification (Some events) (ix_store s) (ix_store t) \<or> refused E s t))"
proof (rule wp_ends)
  have "wp (externalA (f events)) (\<lambda>_ _. \<exists>w w'. f events w = (Inr (), w')) (\<lambda>_ t. ix_store t = ix_store u) u" for u
    by (auto simp: wp_external split: prod.split sum.split)
  then show "wp (processSignalNotifications E events) (\<lambda>st t.
      st = Delivered \<and> (\<exists>w w'. f events w = (Inr (), w'))
      \<or> st = Persisted \<and> (batch_queued E Signal_notification (Some events) (ix_store s) (ix_store t) \<or> refused E s t))
      (\<lambda>_ _. False) s"
    using assms unfolding processSignalNotifications_def runPostCommitStepWithBoundedRetry_def
    by (simp del: attempt_step.simps) (rule attempts_effect, simp_all add: POST_COMMIT_STEP_MAX_ATTEMPTS_def)
qed

section \<open>Another writer\<close>

text \<open>
  C37: A conditional cursor write compares and sets. Where the stored cursor is not at the block
  the writer expects, because another writer has moved it, the write is refused: the store
  stays as it is, the cursor in memory becomes the stored one, and the third refusal in a row
  is an error. Where it is at that block, the new cursor is stored, the one in memory is the
  new one, the count of refusals starts again, and no event, snapshot or cursor of another
  scope changes.
\<close>

theorem cursor_write_compares_and_sets:
  assumes "sound_env E" and "jget (ds_cursors (ix_store s)) (ix_scope E) = Some cur"
    and "cu_scope cur = ix_scope E"
  shows "case saveCursorAdvancingFrom E c n s of (r, t) \<Rightarrow>
      if cu_nextBlock cur \<noteq> n then
        ix_store t = ix_store s \<and> ix_cursor t = Some (cursor_of_stored cur)
        \<and> ix_casFailures t = ix_casFailures s + 1
        \<and> (r = Inr ()) = (ix_casFailures s + 1 < CURSOR_CAS_FAILURE_LIMIT)
      else
        r = Inr () \<and> ix_cursor t = Some c \<and> ix_casFailures t = 0
        \<and> (\<exists>cur'. jget (ds_cursors (ix_store t)) (ix_scope E) = Some cur'
             \<and> cu_scope cur' = ix_scope E \<and> cu_deploymentBlock cur' = ec_deploymentBlock c
             \<and> cu_nextBlock cur' = ec_nextBlock c \<and> cu_finalizedBlock cur' = ec_finalizedBlock c
             \<and> cu_blockHash cur' = map_option toLowerCase (ec_blockHash c))
        \<and> (\<forall>sc. sc \<noteq> ix_scope E \<longrightarrow> jget (ds_cursors (ix_store t)) sc = jget (ds_cursors (ix_store s)) sc)
        \<and> (ix_store t)\<lparr>ds_cursors := ds_cursors (ix_store s)\<rparr> = ix_store s"
proof -
  have stored: "getCursor (ie_bindings E) (ix_scope E) (ix_store s) = Inr (Some cur)"
    using assms(1-3) by (cases cur) (simp add: getCursor_def)
  have attempt: "saveCursor (ie_bindings E) now (cursor_input_of E c) (Some n) (ix_store s)
      = (if cu_nextBlock cur \<noteq> n then Inr (None, ix_store s)
         else Inr (Some (cursorResult (cursor_input_of E c) (ix_scope E) now), (ix_store s)\<lparr>ds_cursors :=
           jset (ix_scope E) (cursor_row (cursor_input_of E c) (ix_scope E) now) (ds_cursors (ix_store s))\<rparr>))"
    for now
    using assms by (simp add: saveCursor_def cursor_input_of_def)
  have row: "let r = cursor_row (cursor_input_of E c) (ix_scope E) now in
      cu_scope r = ix_scope E \<and> cu_deploymentBlock r = ec_deploymentBlock c \<and> cu_nextBlock r = ec_nextBlock c
      \<and> cu_finalizedBlock r = ec_finalizedBlock c \<and> cu_blockHash r = map_option toLowerCase (ec_blockHash c)" for now
    by (simp add: cursor_row_def cursorResult_def cursor_input_of_def cursor_input.defs Let_def)
  note unfold = case_as_wp saveCursorAdvancingFrom_def saveCursorA_def storedCursorA_def casFailedA_def
    set_cursor_def set_casFailures_def
  show ?thesis
  proof (cases "cu_nextBlock cur = n")
    case True
    with row show ?thesis
      unfolding unfold by (simp add: wp_simps commit_store_def attempt Let_def split: prod.split)
  next
    case False
    then show ?thesis
      unfolding unfold by (simp add: wp_simps commit_store_def attempt stored split: prod.split)
  qed
qed


section \<open>A rebuild that fails\<close>

text \<open>
  A rebuild that fails before its commit withdraws the step it had queued. If an earlier refresh
  had queued the same batch, saving it again was no write, and the step that is withdrawn is the
  one of the refresh, which is still owed. This is where the database takes the writes.
\<close>

lemma queued_again_is_no_write:
  "pe_stepId inp \<in> pe_stepId ` set (ds_pending d) \<Longrightarrow> savePendingPostCommitStep now inp d = d"
  by (auto simp: savePendingPostCommitStep_def)

lemma failed_rebuild_withdraws_a_queued_batch:
  assumes taken: "\<And>w. \<exists>w'. ie_queueWrite E w = (Inr (), w')"
  shows "wp (rebuild_failed E finalized False (Some i) mismatch err) (\<lambda>_ _. False) (\<lambda>_ t. i \<notin> queue_ids t) s"
proof -
  let ?P = "\<lambda>t. i \<notin> pe_stepId ` set (ds_pending (ix_store t))"
  have sync: "ds_pending d' = ds_pending d" if "saveSyncRow B now base d = Inr (x, d')" for B now base x d d'
    using that by (auto simp: saveSyncRow_def bindR_Inr_iff Let_def)
  have "keeps ?P (saveSyncA E base)" for base
    by (auto simp: keeps_wp saveSyncA_def wp_simps commit_store_def dest!: sync split: sum.split prod.split)
  then have "keeps ?P (markDegraded E f e n)" for f e n
    unfolding markDegraded_def syncStateA_def storedMismatchCount_def storedEventsA_def
    by (intro keeps_intros) (auto simp: keeps_wp wp_simps split: sum.split prod.split)
  from keepsD [OF this] have degraded: "?P t \<Longrightarrow> wp (markDegraded E f e n) (\<lambda>_. ?P) (\<lambda>_. ?P) t" for t f e n .
  show ?thesis
    unfolding rebuild_failed_def wp_bind option.case if_True
    using taken [of "ix_world s"]
    by (auto simp: wp_simps dropPendingPostCommitStep_def whenA_def commit_store_def deletePendingPostCommitStep_def
      queue_ids_def intro!: wp_mono [OF degraded])
qed

end
