(* ===== verification/IndexerClaims.thy ===== *)
theory IndexerClaims imports IndexerRounds QueueFacts begin

text \<open>
  What the indexer promises about rounds: a refresh ends where a full rebuild ends, and after a
  crash at any write a new process catches up, as long as a common ancestor can be found. What
  the queue and the cursor write promise is in \<open>QueueFacts\<close>.
\<close>

section \<open>A full rebuild ends well\<close>

text \<open>Sequences of actions that do not throw.\<close>

lemma wp_then:
  assumes "wp m P (\<lambda>_ _. False) s" and "\<And>x t. P x t \<Longrightarrow> wp (f x) Q Er t"
  shows "wp (bindA m f) Q Er s"
  unfolding wp_bind by (rule wp_mono [OF assms(1)]) (auto intro: assms(2))

lemma wp_no_catch: "wp m P (\<lambda>_ _. False) s \<Longrightarrow> wp (catchA m h) P (\<lambda>_ _. False) s"
  unfolding wp_catch by (erule wp_mono) auto

lemma wp_rebuild_committed:
  fixes E :: "'w indexer_env"
  assumes env: "sound_env E" and view: "shows_view True E D V" and V: "V (ix_world s)"
    and comp: "complete E D f (ix_store s)" and c: "ec_nextBlock c = f + 1"
    and base: "sy_scope base = ix_scope E"
    and ok: "\<And>x t. V (ix_world t) \<Longrightarrow> complete E D f (ix_store t) \<Longrightarrow> Q x t"
  shows "wp (rebuild_committed E c base su stepId snap) Q Er s"
proof -
  have carry: "complete E D f (ix_store t)" if "quiet V u t" "complete E D f (ix_store u)" for t u
    using that complete_core [of "ix_store t" "ix_store u" E D f] by (simp add: quiet_def)
  show ?thesis
    unfolding rebuild_committed_def wp_bind
  proof (rule wp_quiet_never_throws [OF quiet_processing(1) [OF view] never_throws_processing(1) V])
    fix status t assume t: "quiet V s t"
    let ?drop = "case stepId of Some i \<Rightarrow> whenA (status = Delivered) (dropPendingPostCommitStep E i) | None \<Rightarrow> returnA ()"
    have q: "keeps (quiet V t) ?drop"
      by (intro keeps_intros quiet_pending_steps [OF view])
    have nt: "never_throws ?drop"
      by (intro never_throws_option never_throws_return)
        (auto simp: whenA_def intro: never_throws_return never_throws_processing)
    show "wp ?drop (\<lambda>_. wp (processProjectionAutomation E snap) (\<lambda>_. wp (set_cursor (Some c))
        (\<lambda>_. wp (syncStateA E) (\<lambda>stored. wp (case stored of Some s \<Rightarrow> returnA s | None \<Rightarrow> saveSyncA E base) Q Er) Er) Er) Er) Er t"
    proof (rule wp_quiet_never_throws [OF q nt quiet_world [OF t]])
      fix u assume u: "quiet V t u"
      show "wp (processProjectionAutomation E snap) (\<lambda>_. wp (set_cursor (Some c))
        (\<lambda>_. wp (syncStateA E) (\<lambda>stored. wp (case stored of Some s \<Rightarrow> returnA s | None \<Rightarrow> saveSyncA E base) Q Er) Er) Er) Er u"
      proof (rule wp_quiet_never_throws [OF quiet_processing(2) [OF view] never_throws_processing(2) quiet_world [OF u]])
        fix v assume v: "quiet V u v"
        have comp': "complete E D f (ix_store v)" using carry comp t u v by blast
        obtain x where x: "getSyncRow (ie_bindings E) (ix_scope E) (ix_store v) = Inr x"
          using getSyncRow_ok [OF env] by blast
        have save: "wp (saveSyncA E base) Q Er (v\<lparr>ix_cursor := Some c\<rparr>)"
        proof (rule wp_saveSync [OF env view _ base])
          fix w :: "'w indexer" and y
          assume w: "V (ix_world w)" "ix_store w = (ix_store (v\<lparr>ix_cursor := Some c\<rparr>))
              \<lparr>ds_syncStates := jset (ix_scope E) y (ds_syncStates (ix_store (v\<lparr>ix_cursor := Some c\<rparr>)))\<rparr>"
          then show "Q y w"
            using comp' complete_core [of "ix_store w" "ix_store v" E D f] by (intro ok) simp_all
        qed (use quiet_world [OF v] in simp)
        show "wp (set_cursor (Some c)) (\<lambda>_. wp (syncStateA E)
            (\<lambda>stored. wp (case stored of Some s \<Rightarrow> returnA s | None \<Rightarrow> saveSyncA E base) Q Er) Er) Er v"
          using save ok [of "v\<lparr>ix_cursor := Some c\<rparr>"] comp' quiet_world [OF v]
          by (auto simp: set_cursor_def wp_modify syncStateA_def wp_read x wp_return split: option.split)
      qed
    qed
  qed
qed

lemma wp_rebuild_range:
  fixes E :: "'w indexer_env"
  assumes env: "sound_env E" and snd_view: "sound_view (ie_bindings E) (ie_chainId E) D"
    and view: "shows_view True E D V" and rep: "replays E D" and V: "V (ix_world s)"
  shows "wp (rebuild_range E f) (\<lambda>res t. complete E D f (ix_store t)
      \<and> rebuildOrderProjections (ie_bindings E) (canonical D (ie_deploymentBlock E) f) = Inr (rr_snapshot res))
    (\<lambda>_ _. False) s"
proof -
  let ?dep = "ie_deploymentBlock E" and ?B = "ie_bindings E"
  let ?es = "canonical D ?dep f"
  let ?V = "\<lambda>t :: 'w indexer. V (ix_world t)"
  have now: "wp (nowA E) (\<lambda>_. ?V) (\<lambda>_ _. False) t" if "?V t" for t
    using that shows_viewD(7) [OF view] by (auto simp: wp_now split: prod.split dest: spec [of _ "ix_world t"])
  obtain orders ids where orders: "rebuildOrderProjections ?B ?es = Inr orders"
    and ids: "rebuildIdentityProjections ?B ?es = Inr ids" using rep unfolding replays_def by metis
  have ne: "cv_hash D b \<noteq> []" for b using snd_view by (simp add: sound_view_def)
  have gets: "wp (getsA ix_cursor) (\<lambda>_. ?V) (\<lambda>_ _. False) t" if "?V t" for t
    using that by (simp add: wp_gets)
  have save: "wp (saveSyncA E base) (\<lambda>_. ?V) (\<lambda>_ _. False) t"
    if "?V t" "sy_scope base = ix_scope E" for base t
    by (rule wp_saveSync [OF env view that]) simp
  have events: "wp (catchA (externalA (ie_readEvents E ?dep f)) h) (\<lambda>x t. x = ?es \<and> ?V t) (\<lambda>_ _. False) t"
    if "?V t" for t h
    by (intro wp_no_catch wp_answer [OF shows_viewD(2) [OF view] that]) (auto intro: quiet_world)
  have prepare: "wp (catchA
        (bindA (liftA (rebuildIdentityProjections ?B ?es)) (\<lambda>identities.
         bindA (nowA E) (\<lambda>completedAt.
         bindA (cursorBlockHash E f) (\<lambda>hash.
         bindA (prePersistRebuildNotificationStep E active) (\<lambda>stepId.
           returnA (identities, completedAt, hash, stepId)))))) h)
      (\<lambda>(i, _, hash, _) t. i = ids \<and> hash = Some (cv_hash D f) \<and> ?V t) (\<lambda>_ _. False) t"
    if "?V t" for t h active
  proof (rule wp_no_catch, unfold ids, rule wp_then [where P = "\<lambda>i t. i = ids \<and> ?V t"])
    show "wp (liftA (Inr ids)) (\<lambda>i t. i = ids \<and> ?V t) (\<lambda>_ _. False) t" using that by (simp add: wp_lift)
    fix i and u :: "'w indexer" assume i: "i = ids \<and> ?V u"
    show "wp (bindA (nowA E) (\<lambda>completedAt. bindA (cursorBlockHash E f) (\<lambda>hash.
         bindA (prePersistRebuildNotificationStep E active) (\<lambda>stepId.
           returnA (i, completedAt, hash, stepId)))))
      (\<lambda>(i, _, hash, _) t. i = ids \<and> hash = Some (cv_hash D f) \<and> ?V t) (\<lambda>_ _. False) u"
    proof (rule wp_then [OF now])
      fix completedAt and w :: "'w indexer" assume w: "?V w"
      show "wp (bindA (cursorBlockHash E f) (\<lambda>hash. bindA (prePersistRebuildNotificationStep E active)
          (\<lambda>stepId. returnA (i, completedAt, hash, stepId))))
        (\<lambda>(i, _, hash, _) t. i = ids \<and> hash = Some (cv_hash D f) \<and> ?V t) (\<lambda>_ _. False) w"
        unfolding wp_bind
        by (intro wp_cursorBlockHash [OF view ne w]
            wp_quiet_never_throws [OF quiet_processing(3) [OF view] never_throws_processing(5)])
          (auto simp: wp_return i quiet_world)
    qed (use i in simp)
  qed
  show ?thesis
    unfolding rebuild_range_def Let_def
  proof (rule wp_then [OF now [OF V]], rule wp_then [OF gets], assumption, rule wp_then [OF save],
      assumption, simp add: rebuilding_sync_def, rule wp_then [OF events], assumption, elim conjE, hypsubst,
      rule wp_then [OF prepare], assumption, clarify)
    fix startedAt completedAt stepId and t :: "'w indexer"
    assume t: "?V t"
    let ?su = "buildActiveChainEventReplaySummary ?es"
    let ?base = "indexed_sync E f ?su ((replay_metadata E ?dep f (length (activeEvents ?su)) ?su
        (countDuplicateActiveEventAnomalies ?es))
      \<lparr>rm_status := ''completed'', rm_startedAt := Some startedAt, rm_completedAt := Some completedAt\<rparr>)"
    let ?inp = "\<lparr>ri_deploymentBlock = ?dep, ri_events = ?es, ri_scope = Some (ix_scope E),
      ri_syncState = Some ?base, ri_cursor = Some (cursor_input_of E (cursor_at E (f + 1) f (Some (cv_hash D f))))\<rparr>"
    have reset: "wp (catchA (bindA (nowA E) (\<lambda>now. writeA (resetFromEvents_durable ?B now ?inp))) h)
        (\<lambda>snap t. snap = orders \<and> complete E D f (ix_store t) \<and> ?V t) (\<lambda>_ _. False) t" for h
    proof (rule wp_no_catch, rule wp_then [OF now [OF t]])
      fix now and u :: "'w indexer" assume u: "?V u"
      obtain d' where "resetFromEvents_durable ?B now ?inp (ix_store u) = Inr (orders, d')" "complete E D f d'"
        using reset_complete [OF env snd_view, of ?inp f ?base orders ids now "ix_store u"] orders ids by auto
      then show "wp (writeA (resetFromEvents_durable ?B now ?inp))
          (\<lambda>snap t. snap = orders \<and> complete E D f (ix_store t) \<and> ?V t) (\<lambda>_ _. False) u"
        using u by (simp add: wp_write commit_store_def)
    qed
    have sc: "sy_scope ?base = ix_scope E" by (simp add: indexed_sync_def Let_def)
    have rest: "wp (catchA (rebuild_committed E (cursor_at E (f + 1) f (Some (cv_hash D f))) ?base ?su stepId orders) h)
        (\<lambda>_ t. complete E D f (ix_store t)) (\<lambda>_ _. False) u"
      if u: "complete E D f (ix_store u)" "?V u" for u h
      by (intro wp_no_catch wp_rebuild_committed [OF env view u(2,1) _ sc]) (simp_all add: cursor_at_def)
    show "wp (bindA (catchA (bindA (nowA E) (\<lambda>now. writeA (resetFromEvents_durable ?B now ?inp)))
          (rebuild_failed E f False stepId (int (countDuplicateActiveEventAnomalies ?es))))
        (\<lambda>snap. bindA (catchA
            (rebuild_committed E (cursor_at E (f + 1) f (Some (cv_hash D f))) ?base ?su stepId snap)
            (rebuild_failed E f True stepId (int (countDuplicateActiveEventAnomalies ?es))))
          (\<lambda>sync. returnA \<lparr>rr_snapshot = snap,
            rr_summary = summaryFromSnapshot E ?dep f snap (length (jkeys (is_bindings ids)))
              (length (activeEvents ?su)) (activeEventCount ?su) (removedEventCount ?su)
              (removedLogsFiltered ?su) (sync_base.truncate sync)
              (int (countDuplicateActiveEventAnomalies ?es))\<rparr>)))
      (\<lambda>res t. complete E D f (ix_store t) \<and> rebuildOrderProjections ?B ?es = Inr (rr_snapshot res))
      (\<lambda>_ _. False) t"
      by (rule wp_then [OF reset], elim conjE, hypsubst, rule wp_then [OF rest]) (simp_all add: wp_return orders)
  qed
qed

section \<open>Where a refresh ends\<close>

lemma complete_observed:
  assumes "sound_env E" and "sound_view (ie_bindings E) (ie_chainId E) D" and "complete E D f d"
  shows "getOrderSnapshot (ie_bindings E) d
      = rebuildOrderProjections (ie_bindings E) (canonical D (ie_deploymentBlock E) f)"
    and "getIdentitySnapshot (ie_bindings E) d
      = rebuildIdentityProjections (ie_bindings E) (canonical D (ie_deploymentBlock E) f)"
    and "listEvents (ie_bindings E) (ie_chainId E) (ds_events d)
      = Inr (sortChainEvents (canonical D (ie_deploymentBlock E) f))"
    and "cursor_block E d = f + 1"
proof -
  let ?es = "canonical D (ie_deploymentBlock E) f"
  from assms(3) obtain es cur where h: "store_holds E d es cur" "set es = set ?es" "cu_nextBlock cur = f + 1"
    by (auto simp: complete_def)
  have rec: "recorded (ie_bindings E) (ie_chainId E) es" using h(1) by (simp add: store_holds_def log_holds_def)
  have rec': "recorded (ie_bindings E) (ie_chainId E) ?es" by (rule canonical_recorded [OF assms(2)])
  show "getOrderSnapshot (ie_bindings E) d = rebuildOrderProjections (ie_bindings E) ?es"
    and "getIdentitySnapshot (ie_bindings E) d = rebuildIdentityProjections (ie_bindings E) ?es"
    using h(1) same_events_same_rebuild [OF rec rec' h(2), of "ie_bindings E"] by (simp_all add: store_holds_def)
  have "mset es = mset ?es"
    using h(2) recorded_distinct [OF rec] recorded_distinct [OF rec'] set_eq_iff_mset_eq_distinct by blast
  from recorded_sort_unique [OF rec' this] listEvents_store [OF h(1)]
  show "listEvents (ie_bindings E) (ie_chainId E) (ds_events d) = Inr (sortChainEvents ?es)" by simp
  show "cursor_block E d = f + 1" using cursor_block_holds [OF h(1)] h(3) by simp
qed

lemma start_stable:
  assumes "covers E C (ix_store s)" and "own_cursor E s" and "V (ix_world s)" and "ix_committed s = []"
  shows "stable E C D V s"
  using assms by (simp add: stable_def)

lemma covers_dep: "covers E C d \<Longrightarrow> ie_deploymentBlock E \<le> cursor_block E d"
  by (auto simp: covers_def cursor_fits_def Let_def cursor_block_holds)

lemma rebuild_ends:
  fixes E :: "'w indexer_env"
  assumes rnd: "round_between True E C D V" and V: "V (ix_world s)"
    and dep: "ie_deploymentBlock E \<le> round_target D target"
  shows "\<exists>res t. rebuildFromDeploymentBlock E target s = (Inr res, t)
    \<and> complete E D (round_target D target) (ix_store t)
    \<and> rebuildOrderProjections (ie_bindings E) (canonical D (ie_deploymentBlock E) (round_target D target))
        = Inr (rr_snapshot res)"
proof (rule wp_ends)
  note R = round_betweenD [OF rnd]
  let ?f = "round_target D target"
  show "wp (rebuildFromDeploymentBlock E target) (\<lambda>res t. complete E D ?f (ix_store t)
      \<and> rebuildOrderProjections (ie_bindings E) (canonical D (ie_deploymentBlock E) ?f) = Inr (rr_snapshot res))
    (\<lambda>_ _. False) s"
    unfolding rebuildFromDeploymentBlock_def wp_bind
  proof (rule wp_answer [OF shows_viewD(1) [OF R(2)] V])
    fix t :: "'w indexer" assume "quiet V s t"
    then have "V (ix_world t)" by (rule quiet_world)
    from wp_rebuild_range [OF R(1,5,2) R(6) [OF TrueI] this, of ?f] dep
    show "wp (let finalized = minBlock (cv_finalized D) target in
        if finalized < ie_deploymentBlock E then rebuild_before_deployment E finalized else rebuild_range E finalized)
      (\<lambda>res t. complete E D ?f (ix_store t)
        \<and> rebuildOrderProjections (ie_bindings E) (canonical D (ie_deploymentBlock E) ?f) = Inr (rr_snapshot res))
      (\<lambda>_ _. False) t"
      by (simp add: Let_def round_target_def)
  qed simp
qed

text \<open>
  C5: An incremental refresh ends where a full rebuild ends. Let the store cover the view the
  node showed before, and let the node now show another view, reorganised anywhere above a
  stored event that both views have. Then the refresh rolls back, appends and replays without
  an error, and the snapshots, the stored events and the cursor are those a rebuild from the
  deployment block leaves, from any store, for the same target.
\<close>

theorem refresh_ends_like_a_rebuild:
  assumes rnd: "round_between True E C D V" and V: "V (ix_world s)" "V (ix_world s')"
    and own: "own_cursor E s" and cov: "covers E C (ix_store s)" and fresh: "ix_committed s = []"
    and seen: "nothing_missed E C D (cursor_block E (ix_store s))" "anchored E C D (cursor_block E (ix_store s))"
    and reached: "cursor_block E (ix_store s) \<le> round_target D target"
  shows "\<exists>a t b u. refreshFromCursor E target s = (Inr a, t)
    \<and> rebuildFromDeploymentBlock E target s' = (Inr b, u)
    \<and> rr_snapshot a = rr_snapshot b
    \<and> getOrderSnapshot (ie_bindings E) (ix_store t) = getOrderSnapshot (ie_bindings E) (ix_store u)
    \<and> getIdentitySnapshot (ie_bindings E) (ix_store t) = getIdentitySnapshot (ie_bindings E) (ix_store u)
    \<and> listEvents (ie_bindings E) (ie_chainId E) (ds_events (ix_store t))
        = Inr (sortChainEvents (canonical D (ie_deploymentBlock E) (round_target D target)))
    \<and> listEvents (ie_bindings E) (ie_chainId E) (ds_events (ix_store u))
        = listEvents (ie_bindings E) (ie_chainId E) (ds_events (ix_store t))
    \<and> cursor_block E (ix_store t) = round_target D target + 1
    \<and> cursor_block E (ix_store u) = round_target D target + 1"
proof -
  note R = round_betweenD [OF rnd]
  let ?f = "round_target D target"
  have "wp (refreshFromCursor E target) (\<lambda>res t. complete E D ?f (ix_store t)
      \<and> rebuildOrderProjections (ie_bindings E) (canonical D (ie_deploymentBlock E) ?f) = Inr (rr_snapshot res))
    (\<lambda>_ _. False) s"
    by (rule wp_refreshFromCursor [OF rnd start_stable [where V = V, OF cov own V(1) fresh] cov refl seen(1)])
      (use seen(2) reached in simp_all)
  from wp_ends [OF this] obtain a t where a: "refreshFromCursor E target s = (Inr a, t)"
    "complete E D ?f (ix_store t)"
    "rebuildOrderProjections (ie_bindings E) (canonical D (ie_deploymentBlock E) ?f) = Inr (rr_snapshot a)" by blast
  have "ie_deploymentBlock E \<le> ?f" using covers_dep [OF cov] reached by simp
  from rebuild_ends [OF rnd V(2) this] obtain b u where b: "rebuildFromDeploymentBlock E target s' = (Inr b, u)"
    "complete E D ?f (ix_store u)"
    "rebuildOrderProjections (ie_bindings E) (canonical D (ie_deploymentBlock E) ?f) = Inr (rr_snapshot b)" by blast
  show ?thesis
    using a b complete_observed [OF R(1,5) a(2)] complete_observed [OF R(1,5) b(2)] by simp
qed

section \<open>Crashes\<close>

text \<open>The trace of commits misses nothing: the store between two steps is the last one committed.\<close>

definition logged :: "durable_store \<Rightarrow> 'w indexer \<Rightarrow> bool" where
  "logged d s \<longleftrightarrow> ix_store s = d \<or> ix_store s \<in> set (ix_committed s)"

lemma logged_steps:
  "keeps (logged d) (externalA f)" "keeps (logged d) (nowA E)" "keeps (logged d) (sleepA E ms)"
  "keeps (logged d) (liftA r)" "keeps (logged d) (readA g)" "keeps (logged d) (writeA h)"
  "keeps (logged d) (updateA k)" "keeps (logged d) (set_cursor c)" "keeps (logged d) (set_casFailures n)"
  by (auto simp: keeps_wp wp_simps logged_def commit_store_def set_cursor_def set_casFailures_def
    split: prod.split sum.split)

lemma logged_transaction: "keeps (logged d) (transactionA m)"
  unfolding keeps_wp wp_transaction
  by (auto simp: wp_def logged_def commit_store_def split: prod.split sum.split)

lemma logged_queue: "keeps (logged d) (queueA E f)"
  unfolding queueA_def by (intro keeps_intros logged_steps)

lemmas logged_intros = keeps_intros logged_steps logged_transaction logged_queue

lemma logged_store:
  "keeps (logged d) (storedEventsA E)" "keeps (logged d) (storedCursorA E)" "keeps (logged d) (syncStateA E)"
  "keeps (logged d) (saveSyncA E base)" "keeps (logged d) (saveCursorA E cu expected)"
  "keeps (logged d) casFailedA" "keeps (logged d) (savePendingA E inp)" "keeps (logged d) (recordAttemptA E i err)"
  "keeps (logged d) (cursorBlockHash E n)" "keeps (logged d) (pendingStepsA E)"
  "keeps (logged d) (dropPendingPostCommitStep E i)"
  unfolding storedEventsA_def storedCursorA_def syncStateA_def saveSyncA_def saveCursorA_def casFailedA_def
    savePendingA_def recordAttemptA_def cursorBlockHash_def pendingStepsA_def dropPendingPostCommitStep_def
  by (intro logged_intros)+

lemma logged_processing:
  "keeps (logged d) (processSignalNotifications E events)"
  "keeps (logged d) (processProjectionAutomation E snap)"
  "keeps (logged d) (prePersistRebuildNotificationStep E events)"
  "keeps (logged d) (sweepPendingPostCommitSteps E)"
proof -
  have a: "keeps (logged d) (attempt_step E kind events (externalA f) attempt left)" for kind events f attempt left
    by (induction left arbitrary: attempt)
      (auto simp: persistPendingPostCommitStep_def intro!: logged_intros logged_store)
  show "keeps (logged d) (processSignalNotifications E events)"
    and "keeps (logged d) (processProjectionAutomation E snap)"
    and "keeps (logged d) (prePersistRebuildNotificationStep E events)"
    unfolding processSignalNotifications_def processProjectionAutomation_def prePersistRebuildNotificationStep_def
      runPostCommitStepWithBoundedRetry_def
    by (intro logged_intros a logged_store)+
  have "keeps (logged d) (sweep_step E su p)" for su p
    by (auto simp: sweep_step_def deliverPendingPostCommitStep_def Let_def intro!: logged_intros logged_store
      split: ix_error.split pending_kind.split option.split)
  then have "keeps (logged d) (sweep_steps E su ps)" for su ps
    by (induction ps arbitrary: su) (auto intro!: keeps_intros)
  then show "keeps (logged d) (sweepPendingPostCommitSteps E)"
    unfolding sweepPendingPostCommitSteps_def by (intro keeps_bind logged_store)
qed

lemma logged_rollback: "keeps (logged d) (rollbackOnReorg E n)"
proof -
  have "keeps (logged d) (trim_step E b p)" for b p
    by (auto simp: trim_step_def Let_def intro!: logged_intros split: option.split)
  then have "keeps (logged d) (trimPass E b)" for b
    unfolding trimPass_def by (intro keeps_bind keeps_each logged_store)
  then have "keeps (logged d) (applyReorgRollback E n b h)" for b h
    unfolding applyReorgRollback_def rollback_transaction_def invalidateNotificationsAfterReorg_def
      trimPendingPostCommitStepsAfterReorg_def
    by (intro logged_intros)
  moreover have "keeps (logged d) (check_anchor E e)" for e
    unfolding check_anchor_def by (intro logged_intros logged_store)
  ultimately have "keeps (logged d) (rollbackToCommonAncestor E n)"
    by (auto simp: rollbackToCommonAncestor_def Let_def intro!: logged_intros logged_store split: option.split prod.split)
  moreover have "keeps (logged d) (defer_to_stored E n)"
    by (auto simp: defer_to_stored_def Let_def intro!: logged_intros logged_store split: option.split)
  ultimately show ?thesis
    by (auto simp: rollbackOnReorg_def intro!: logged_intros logged_store split: option.split)
qed

lemma logged_refresh: "keeps (logged d) (refresh_from E f c)"
proof -
  have "keeps (logged d) (saveCursorAdvancingFrom E c n)" for c n
    by (auto simp: saveCursorAdvancingFrom_def intro!: logged_intros logged_store split: option.split)
  then show ?thesis
    by (auto simp: refresh_from_def refresh_lagging_def refresh_append_def refresh_transaction_def
      summarizeStoredProjection_def Let_def
      intro!: logged_intros logged_store logged_processing logged_rollback)
qed

lemma logged_rebuild: "keeps (logged d) (rebuildFromDeploymentBlock E target)"
  by (auto simp: rebuildFromDeploymentBlock_def rebuild_before_deployment_def rebuild_range_def
      rebuild_committed_def rebuild_failed_def markDegraded_def storedMismatchCount_def Let_def
    intro!: logged_intros logged_store logged_processing)

lemma logged_refreshFromCursor: "keeps (logged d) (refreshFromCursor E target)"
  by (auto simp: refreshFromCursor_def Let_def intro!: logged_intros logged_store logged_rebuild logged_refresh
    split: option.split)

text \<open>
  C4: No crash loses events, under stated conditions. The store covers a view of the chain, this
  process is its only writer, and a refresh runs against a node that shows a second view, may
  fail at any call and has processors that do what they like. Take any store the process could
  leave behind when it dies: after any write or transaction. A new process is started on it with
  a node that answers and whose events replay without an error. If that node has finalized the
  block the store's cursor stands at, and if, for each of the two views that the store covers,
  what the node shows now agrees with that view at the block below the cursor or at the block
  of some event stored below it (a common ancestor can be found), and the store holds an event
  below the cursor unless the chain now has none there (which also held between the first two
  views), then the refresh of the new process ends with exactly the events of
  the chain up to the finality bound, and with their snapshots. A reorganisation below a cursor
  with no stored event is outside these conditions: the last section shows what happens then.
\<close>

theorem no_crash_loses_events:
  assumes rnd: "round_between False E C D V" and V: "V (ix_world s)" and own: "own_cursor E s"
    and cov: "covers E C (ix_store s)" and fresh: "ix_committed s = []"
    and missed: "nothing_missed E C D (cursor_block E (ix_store s))"
    and crash: "d \<in> set (ix_committed (snd (refreshFromCursor E target s)))"
    and later: "round_between True E C F W" "round_between True E D F W" "W w"
    and reached: "cursor_block E d \<le> cv_finalized F"
    and seen: "\<forall>X \<in> {C, D}. covers E X d \<longrightarrow>
      nothing_missed E X F (cursor_block E d) \<and> anchored E X F (cursor_block E d)"
  shows "\<exists>a t. refreshFromCursor E None (new_indexer d w) = (Inr a, t)
    \<and> listEvents (ie_bindings E) (ie_chainId E) (ds_events (ix_store t))
        = Inr (sortChainEvents (canonical F (ie_deploymentBlock E) (cv_finalized F)))
    \<and> getOrderSnapshot (ie_bindings E) (ix_store t)
        = rebuildOrderProjections (ie_bindings E) (canonical F (ie_deploymentBlock E) (cv_finalized F))
    \<and> getIdentitySnapshot (ie_bindings E) (ix_store t)
        = rebuildIdentityProjections (ie_bindings E) (canonical F (ie_deploymentBlock E) (cv_finalized F))"
proof -
  note R = round_betweenD [OF later(1)]
  have "wp (refreshFromCursor E target) (\<lambda>_ t. stable E C D V t) (\<lambda>_ t. stable E C D V t) s"
    by (rule wp_refreshFromCursor [OF rnd start_stable [where V = V, OF cov own V fresh] cov refl missed]) simp_all
  then have "stable E C D V (snd (refreshFromCursor E target s))"
    unfolding wp_result by (simp split: sum.splits)
  with crash have d: "covers E C d \<or> covers E D d" by (auto simp: stable_def)
  have f: "round_target F None = cv_finalized F" by (simp add: round_target_def minBlock_def)
  have ends: "\<exists>a t. refreshFromCursor E None (new_indexer d w) = (Inr a, t) \<and> complete E F (cv_finalized F) (ix_store t)"
    if "round_between True E X F W" "covers E X d" "nothing_missed E X F (cursor_block E d)"
      "anchored E X F (cursor_block E d)" for X
  proof (rule wp_ends)
    let ?s = "new_indexer d w"
    have s: "ix_store ?s = d" "ix_world ?s = w" "ix_committed ?s = []" "own_cursor E ?s"
      by (simp_all add: new_indexer_def own_cursor_def)
    show "wp (refreshFromCursor E None) (\<lambda>a t. complete E F (cv_finalized F) (ix_store t)) (\<lambda>_ _. False) ?s"
      by (rule wp_refreshFromCursor [OF that(1) start_stable [where V = W] _ refl, unfolded s f])
        (use that s later(3) reached f in simp_all)
  qed
  have "\<exists>a t. refreshFromCursor E None (new_indexer d w) = (Inr a, t) \<and> complete E F (cv_finalized F) (ix_store t)"
    using d ends [OF later(1)] ends [OF later(2)] seen by blast
  then show ?thesis using complete_observed [OF R(1,5)] by blast
qed


section \<open>A reorganisation with no stored event\<close>

text \<open>
  The deployment block was stored with a hash the node no longer gives, and the table is empty:
  the check notices the reorganisation and returns the old block, so the blocks below it are not
  read again, although the new branch may hold events there. This is the case that
  \<open>nothing_missed\<close> excludes above.
\<close>

lemma reorganisation_without_events_is_ignored:
  assumes "sound_env E" and "jget (ds_cursors (ix_store s)) (ix_scope E) = Some cur"
    and "cu_scope cur = ix_scope E" and "cu_blockHash cur = Some stored" "stored \<noteq> []"
    and "ie_getBlockHash E = Some hash" and "hash (from - 1) (ix_world s) = (Inr c, w)"
    and "\<not> isSameBlockHash c stored" and "ie_deploymentBlock E \<le> from - 1"
    and "listEvents (ie_bindings E) (ie_chainId E) (ds_events (ix_store s)) = Inr []"
  shows "rollbackOnReorg E from s = (Inr from, s\<lparr>ix_world := w\<rparr>)"
proof -
  have cursor: "getCursor (ie_bindings E) (ix_scope E) (ix_store s) = Inr (Some cur)"
    using assms(1-3) by (cases cur) (simp add: getCursor_def)
  have none: "anchors lo hi [] = []" for lo hi by (simp add: anchors_def js_sort_def)
  show ?thesis
    using assms cursor
    by (simp add: rollbackOnReorg_def rollbackToCommonAncestor_def storedCursorA_def storedEventsA_def
      bindA_def catchA_def externalA_def readA_def liftA_def getsA_def returnA_def none keep_truthy_def Let_def)
qed

end
