(* ===== verification/LogKeys.thy ===== *)
theory LogKeys imports EventLog begin

text \<open>
  The keys of the event table. The schema declares two unique keys, the position of a log and
  the event identifier; every write keeps both, whatever the node delivers, tombstones and
  repeated deliveries included, and keeps each row in the form the readers rely on. What the table holds refines a map from positions to cells,
  on which a delivery is one update.
\<close>

definition row_key :: "event_row \<Rightarrow> int \<times> string \<times> string" where
  "row_key r = (er_chainId r, er_contractAddress r, er_eventId r)"

text \<open>Hashes are lower case, the address is one the package returned, the identifier is that of the position.\<close>

definition row_typed :: "bindings \<Rightarrow> event_row \<Rightarrow> bool" where
  "row_typed B r \<longleftrightarrow> toLowerCase (er_transactionHash r) = er_transactionHash r
     \<and> map_option toLowerCase (er_blockHash r) = er_blockHash r
     \<and> (\<exists>v. normalizeAddress B v ''event.contractAddress'' = Inr (er_contractAddress r))
     \<and> er_eventId r = join_colon [dec_int (er_chainId r), toLowerCase (er_contractAddress r),
         dec_int (er_blockNumber r), er_transactionHash r, dec_int (er_logIndex r)]"

definition log_typed :: "bindings \<Rightarrow> event_log \<Rightarrow> bool" where
  "log_typed B rows \<longleftrightarrow> distinct (map row_position rows) \<and> distinct (map row_key rows)
     \<and> list_all (row_typed B) rows"

lemma new_row_typed:
  "normalizeAddress B (contractAddress e) ''event.contractAddress'' = Inr contract \<Longrightarrow>
     row_typed B (new_event_row contract t e)"
  by (cases "blockHash e") (auto simp: row_typed_def new_event_row_def chainEventKey_def)

text \<open>An update in place changes neither key.\<close>

lemma log_typed_map:
  assumes "log_typed B rows"
    and "\<And>r. row_position (f r) = row_position r" and "\<And>r. row_key (f r) = row_key r"
    and "\<And>r. row_typed B r \<Longrightarrow> row_typed B (f r)"
  shows "log_typed B (map f rows)"
  using assms by (simp add: log_typed_def comp_def list_all_iff)

lemma log_typed_insert: "log_typed B rows \<Longrightarrow> row_typed B r \<Longrightarrow> log_typed B (insert_event_row r rows)"
  by (auto simp: log_typed_def insert_event_row_def row_key_def list_all_iff)

lemma log_typed_filter: "log_typed B rows \<Longrightarrow> log_typed B (filter P rows)"
  by (auto simp: log_typed_def distinct_map_filter list_all_iff)

lemma appendEvent_typed:
  assumes "log_typed B rows" and "appendEvent B e rows = Inr rows'"
  shows "log_typed B rows'"
proof -
  have in_place: "log_typed B (map (\<lambda>r. if P r then f r else r) rows)"
    if "\<And>r. row_position (f r) = row_position r" "\<And>r. row_key (f r) = row_key r"
      "\<And>r. row_typed B r \<Longrightarrow> row_typed B (f r)" for P f
    by (rule log_typed_map [OF assms(1)]) (use that in auto)
  have hash: "map_option toLowerCase (opt_or (map_option toLowerCase h) k) = opt_or (map_option toLowerCase h) k"
    if "map_option toLowerCase k = k" for h k
    using that by (cases h) (auto simp: opt_or_def)
  from assms(2) obtain contract where
    "normalizeAddress B (contractAddress e) ''event.contractAddress'' = Inr contract"
    by (auto simp: appendEvent_def bindR_Inr_iff)
  from assms(2) [unfolded appendEvent_def this] new_row_typed [OF this] show ?thesis
    by (auto simp: bindR_Inr_iff split: if_splits intro!: in_place log_typed_insert assms(1))
      (simp_all add: row_position_def row_key_def row_typed_def hash)
qed

section \<open>Any sequence of writes\<close>

datatype log_write = Append chain_event | Delete_after int int

fun write_log :: "bindings \<Rightarrow> event_log \<Rightarrow> log_write \<Rightarrow> event_log res" where
  "write_log B rows (Append e) = appendEvent B e rows"
| "write_log B rows (Delete_after chain block) = Inr (snd (deleteEventsAfterBlock chain block rows))"

text \<open>
  C40: The event table is well typed after any writes. Whatever is appended, tombstones, repeated
  deliveries and events whose rows were deleted before included, no two rows share a position or
  an identifier, each identifier is the one of the row's position, and addresses and hashes are
  in the form in which they are compared.
\<close>

theorem event_table_is_well_typed:
  assumes "foldR (write_log B) [] writes = Inr rows"
  shows "distinct (map row_position rows) \<and> distinct (map row_key rows) \<and> list_all (row_typed B) rows"
proof -
  have "log_typed B rows"
  proof (rule foldR_invariant [where I = "log_typed B", OF assms])
    fix rows w rows' assume "log_typed B rows" "write_log B rows w = Inr rows'"
    then show "log_typed B rows'"
      by (cases w) (auto simp: deleteEventsAfterBlock_def Let_def intro: appendEvent_typed log_typed_filter)
  qed (simp add: log_typed_def)
  then show ?thesis by (simp add: log_typed_def)
qed

section \<open>The table as a map\<close>

text \<open>What the table holds for a position, and the map it stands for.\<close>

record log_cell =
  cl_live :: bool
  cl_name :: string
  cl_args :: string
  cl_blockHash :: "string option"
  cl_index :: "int option"

type_synonym position = "int \<times> string \<times> int \<times> string \<times> int"

definition cell_of :: "event_row \<Rightarrow> log_cell" where
  "cell_of r =
     \<lparr>cl_live = \<not> er_removed r, cl_name = er_eventName r, cl_args = er_argsJson r,
      cl_blockHash = er_blockHash r, cl_index = er_transactionIndex r\<rparr>"

definition log_map :: "event_log \<Rightarrow> position \<rightharpoonup> log_cell" where
  "log_map rows = map_of (map (\<lambda>r. (row_position r, cell_of r)) rows)"

text \<open>
  A delivery at a position. The first one makes the cell, as a tombstone if it says removed. A
  removal buries the cell and keeps what it said; a repeated delivery changes nothing; a
  delivery to a buried cell revives it with its own name and arguments, the old transaction
  index if there was one, and, as a removal does, the hash it brings if it brings one.
\<close>

definition delivered :: "chain_event \<Rightarrow> string \<Rightarrow> log_cell option \<Rightarrow> log_cell" where
  "delivered e text old =
     (let hash = map_option toLowerCase (blockHash e) in
      case old of
        None \<Rightarrow> \<lparr>cl_live = \<not> removed e, cl_name = eventName e, cl_args = text, cl_blockHash = hash,
            cl_index = transactionIndex e\<rparr>
      | Some c \<Rightarrow>
          if removed e then c\<lparr>cl_live := False, cl_blockHash := opt_or hash (cl_blockHash c)\<rparr>
          else if cl_live c then c
          else c\<lparr>cl_live := True, cl_name := eventName e, cl_args := text,
            cl_blockHash := opt_or hash (cl_blockHash c), cl_index := opt_or (cl_index c) (transactionIndex e)\<rparr>)"

definition delivery_position :: "bindings \<Rightarrow> chain_event \<Rightarrow> position option" where
  "delivery_position B e = (case normalizeAddress B (contractAddress e) ''event.contractAddress'' of
       Inl _ \<Rightarrow> None
     | Inr contract \<Rightarrow> Some (chainId e, contract, blockNumber e, toLowerCase (transactionHash e), logIndex e))"

definition delivered_text :: "chain_event \<Rightarrow> string" where
  "delivered_text e = (case args_json e of Inl _ \<Rightarrow> [] | Inr t \<Rightarrow> t)"

fun map_write :: "bindings \<Rightarrow> (position \<rightharpoonup> log_cell) \<Rightarrow> log_write \<Rightarrow> (position \<rightharpoonup> log_cell)" where
  "map_write B m (Append e) = (case delivery_position B e of
       None \<Rightarrow> m
     | Some p \<Rightarrow> m(p \<mapsto> delivered e (delivered_text e) (m p)))"
| "map_write B m (Delete_after chain block) =
     (\<lambda>(c, a, b, h, i). if c = chain \<and> block < b then None else m (c, a, b, h, i))"

lemma log_map_simps [simp]:
  "log_map [] = Map.empty" "log_map (r # rows) = (log_map rows)(row_position r \<mapsto> cell_of r)"
  by (simp_all add: log_map_def)

lemma log_map_None: "log_map rows p = None \<longleftrightarrow> p \<notin> row_position ` set rows"
  by (induction rows) auto

lemma log_map_Some: "distinct (map row_position rows) \<Longrightarrow> r \<in> set rows \<Longrightarrow> log_map rows (row_position r) = Some (cell_of r)"
  by (induction rows) (auto, metis imageI)

lemma log_map_snoc: "log_map rows (row_position r) = None \<Longrightarrow>
    log_map (rows @ [r]) = (log_map rows)(row_position r \<mapsto> cell_of r)"
  by (induction rows) (auto split: if_splits simp: fun_upd_twist)

lemma log_map_filter: "log_map (filter (\<lambda>r. P (row_position r)) rows) = (\<lambda>p. if P p then log_map rows p else None)"
  by (induction rows) auto

text \<open>An update in place of the rows at one position.\<close>

lemma log_map_update:
  assumes "\<And>r. row_position (f r) = row_position r"
    and "\<And>r. r \<in> set rows \<Longrightarrow> cell_of (f r) = (if row_position r = p then g (cell_of r) else cell_of r)"
  shows "log_map (map f rows) = (log_map rows)(p := map_option g (log_map rows p))"
  using assms(2) by (induction rows) (auto simp: assms(1) fun_eq_iff)

text \<open>The identifier decides the position, and the other way round.\<close>

definition log_plain :: "bindings \<Rightarrow> event_log \<Rightarrow> bool" where
  "log_plain B rows \<longleftrightarrow> log_typed B rows \<and> (\<forall>r \<in> set rows. colon_free (er_transactionHash r))"

lemma row_words:
  assumes "bindings_ok B" and "row_typed B r"
  shows "toLowerCase (er_contractAddress r) = er_contractAddress r" "colon_free (er_contractAddress r)"
  using assms normalizeAddress_normal [OF assms(1)] by (auto simp: row_typed_def dest: normal_word_simps)

lemma buried_by_position:
  assumes ok: "bindings_ok B" and contract: "normalizeAddress B (contractAddress e) ''event.contractAddress'' = Inr contract"
    and plain: "log_plain B rows" "colon_free (transactionHash e)" and r: "r \<in> set rows"
  shows "er_chainId r = chainId e \<and> er_contractAddress r = contract
      \<and> er_eventId r = chainEventKey (e\<lparr>contractAddress := contract\<rparr>)
    \<longleftrightarrow> row_position r = (chainId e, contract, blockNumber e, toLowerCase (transactionHash e), logIndex e)"
proof -
  have typed: "row_typed B r" "colon_free (er_transactionHash r)"
    using plain(1) r by (auto simp: log_plain_def log_typed_def list_all_iff)
  have words: "toLowerCase contract = contract" "colon_free contract"
    using normalizeAddress_normal [OF ok contract] by (auto dest: normal_word_simps)
  show ?thesis
  proof
    assume "er_chainId r = chainId e \<and> er_contractAddress r = contract
      \<and> er_eventId r = chainEventKey (e\<lparr>contractAddress := contract\<rparr>)"
    moreover from this typed(1) have "[dec_int (er_chainId r), toLowerCase (er_contractAddress r),
          dec_int (er_blockNumber r), er_transactionHash r, dec_int (er_logIndex r)]
        = [dec_int (chainId e), toLowerCase contract, dec_int (blockNumber e),
          toLowerCase (transactionHash e), dec_int (logIndex e)]"
      by (intro join_colon_inj) (use typed words plain(2) in \<open>auto simp: row_typed_def chainEventKey_def\<close>)
    ultimately show "row_position r = (chainId e, contract, blockNumber e, toLowerCase (transactionHash e), logIndex e)"
      by (simp add: row_position_def)
  qed (use typed(1) in \<open>auto simp: row_position_def row_typed_def chainEventKey_def\<close>)
qed

text \<open>One delivery is one update of the map.\<close>

lemma append_refines:
  assumes ok: "bindings_ok B" and plain: "log_plain B rows" "colon_free (transactionHash e)"
    and step: "appendEvent B e rows = Inr rows'"
  shows "log_map rows' = map_write B (log_map rows) (Append e)"
proof -
  from step obtain contract where contract: "normalizeAddress B (contractAddress e) ''event.contractAddress'' = Inr contract"
    by (auto simp: appendEvent_def bindR_Inr_iff)
  let ?p = "(chainId e, contract, blockNumber e, toLowerCase (transactionHash e), logIndex e)"
  note here = buried_by_position [OF ok contract plain]
  have d: "distinct (map row_position rows)" using plain(1) by (simp add: log_plain_def log_typed_def)
  have at: "delivery_position B e = Some ?p" by (simp add: delivery_position_def contract)
  have buried: "buried_by contract e r \<longleftrightarrow> row_position r = ?p" if "r \<in> set rows" for r
    using here [OF that] by (simp add: buried_by_def)
  have revived: "revived_by contract e r \<longleftrightarrow> row_position r = ?p \<and> er_removed r" for r
    by (auto simp: revived_by_def row_position_def)
  have only: "cell_of r = c" if "log_map rows ?p = Some c" "r \<in> set rows" "row_position r = ?p" for r c
    using log_map_Some [OF d that(2)] that(1,3) by simp
  have some: "(\<exists>r \<in> set rows. row_position r = ?p) \<longleftrightarrow> log_map rows ?p \<noteq> None"
    using log_map_None [of rows ?p] by force
  consider (bury) c where "removed e" "log_map rows ?p = Some c"
    | (revive) c where "\<not> removed e" "log_map rows ?p = Some c" "\<not> cl_live c"
    | (again) c where "\<not> removed e" "log_map rows ?p = Some c" "cl_live c"
    | (new) "log_map rows ?p = None"
    by (cases "log_map rows ?p") blast+
  then show ?thesis
  proof cases
    case bury
    let ?g = "\<lambda>c. c\<lparr>cl_live := False, cl_blockHash := opt_or (map_option toLowerCase (blockHash e)) (cl_blockHash c)\<rparr>"
    have "\<exists>r \<in> set rows. buried_by contract e r" using some bury buried by auto
    with step contract bury have rows': "rows' = map (\<lambda>r. if buried_by contract e r
        then r\<lparr>er_removed := True, er_blockHash := opt_or (map_option toLowerCase (blockHash e)) (er_blockHash r)\<rparr>
        else r) rows"
      by (simp add: appendEvent_def)
    have "log_map rows' = (log_map rows)(?p := map_option ?g (log_map rows ?p))"
      unfolding rows' by (rule log_map_update) (auto simp: buried cell_of_def row_position_def)
    then show ?thesis using bury by (simp add: at delivered_def)
  next
    case revive
    then obtain t where t: "args_json e = Inr t" using step contract by (auto simp: appendEvent_def bindR_Inr_iff)
    let ?g = "\<lambda>c. c\<lparr>cl_live := True, cl_name := eventName e, cl_args := t,
        cl_blockHash := opt_or (map_option toLowerCase (blockHash e)) (cl_blockHash c),
        cl_index := opt_or (cl_index c) (transactionIndex e)\<rparr>"
    have dead: "er_removed r" if "r \<in> set rows" "row_position r = ?p" for r
      using only [OF revive(2) that] revive(3) by (auto simp: cell_of_def)
    have "\<exists>r \<in> set rows. revived_by contract e r" using some revive(2) dead revived by auto
    with step contract revive(1) t have rows': "rows' = map (\<lambda>r. if revived_by contract e r
        then r\<lparr>er_removed := False, er_eventName := eventName e, er_argsJson := t,
          er_blockHash := opt_or (map_option toLowerCase (blockHash e)) (er_blockHash r),
          er_transactionIndex := opt_or (er_transactionIndex r) (transactionIndex e)\<rparr>
        else r) rows"
      by (simp add: appendEvent_def)
    have "log_map rows' = (log_map rows)(?p := map_option ?g (log_map rows ?p))"
      unfolding rows' by (rule log_map_update) (auto simp: revived dead cell_of_def row_position_def)
    then show ?thesis using revive t by (simp add: at delivered_def delivered_text_def)
  next
    case again
    have "\<not> er_removed r" if "r \<in> set rows" "row_position r = ?p" for r
      using only [OF again(2) that] again(3) by (auto simp: cell_of_def)
    then have "\<not> (\<exists>r \<in> set rows. revived_by contract e r)" using revived by blast
    moreover have "\<exists>x \<in> set rows. row_position x = ?p" using some again(2) by simp
    ultimately have "rows' = rows"
      using step contract again(1)
      by (auto simp: appendEvent_def bindR_Inr_iff insert_event_row_def new_event_row_def row_position_def
        split: if_splits)
    then show ?thesis using again by (simp add: at delivered_def fun_upd_idem)
  next
    case new
    then have none: "row_position r \<noteq> ?p" if "r \<in> set rows" for r using some that by auto
    then have "\<not> (\<exists>r \<in> set rows. buried_by contract e r)" "\<not> (\<exists>r \<in> set rows. revived_by contract e r)"
      using buried revived by blast+
    with step contract obtain t where t: "args_json e = Inr t"
      and rows': "rows' = insert_event_row (new_event_row contract t e) rows"
      by (auto simp: appendEvent_def bindR_Inr_iff)
    have p: "row_position (new_event_row contract t e) = ?p" by (simp add: new_event_row_def row_position_def)
    have "rows' = rows @ [new_event_row contract t e]"
      unfolding rows' insert_event_row_def p using none here by (auto simp: new_event_row_def)
    then have "log_map rows' = (log_map rows)(?p \<mapsto> cell_of (new_event_row contract t e))"
      using log_map_snoc [of rows "new_event_row contract t e"] new by (simp add: p)
    then show ?thesis using new t by (simp add: at delivered_def delivered_text_def new_event_row_def cell_of_def Let_def)
  qed
qed

lemma write_refines:
  assumes ok: "bindings_ok B" and plain: "log_plain B rows" and "\<And>e. w = Append e \<Longrightarrow> colon_free (transactionHash e)"
    and step: "write_log B rows w = Inr rows'"
  shows "log_map rows' = map_write B (log_map rows) w \<and> log_plain B rows'"
proof (cases w)
  case (Append e)
  have words: "\<forall>r \<in> set rows'. colon_free (er_transactionHash r)"
    using plain assms(3) [OF Append] step Append
    by (auto simp: log_plain_def appendEvent_def bindR_Inr_iff insert_event_row_def new_event_row_def split: if_splits)
  have "log_plain B rows'" using words plain step Append by (auto simp: log_plain_def intro: appendEvent_typed)
  then show ?thesis using append_refines [OF ok plain assms(3) [OF Append]] step Append by simp
next
  case (Delete_after chain block)
  define P where "P p = (case p of (c, a, b, h, i) \<Rightarrow> \<not> (c = chain \<and> block < b))" for p :: position
  have "rows' = filter (\<lambda>r. P (row_position r)) rows"
    using step Delete_after
    by (auto simp: deleteEventsAfterBlock_def Let_def row_position_def P_def intro!: filter_cong)
  moreover have "map_write B m w = (\<lambda>p. if P p then m p else None)" for m
    using Delete_after by (auto simp: fun_eq_iff P_def)
  ultimately show ?thesis
    using plain by (auto simp: log_map_filter log_plain_def log_typed_filter)
qed

text \<open>The last write that concerned a position, seen from the end.\<close>

definition concerns :: "bindings \<Rightarrow> position \<Rightarrow> log_write \<Rightarrow> bool" where
  "concerns B p w = (case w of
       Append e \<Rightarrow> delivery_position B e = Some p
     | Delete_after chain block \<Rightarrow> (case p of (c, a, b, h, i) \<Rightarrow> c = chain \<and> block < b))"

lemma map_write_at:
  "map_write B m w p = (if concerns B p w then
     (case w of Append e \<Rightarrow> Some (delivered e (delivered_text e) (m p)) | Delete_after _ _ \<Rightarrow> None) else m p)"
  by (cases w; cases p) (auto simp: concerns_def split: option.split)

lemma delivered_live: "cl_live (delivered e t old) \<longleftrightarrow> \<not> removed e"
  by (simp add: delivered_def Let_def split: option.split)

lemma map_write_live:
  "(\<exists>c. foldl (map_write B) Map.empty writes p = Some c \<and> cl_live c)
     \<longleftrightarrow> (case List.find (concerns B p) (rev writes) of Some (Append e) \<Rightarrow> \<not> removed e | _ \<Rightarrow> False)"
proof (induction writes rule: rev_induct)
  case (snoc w writes)
  show ?case
  proof (cases "concerns B p w")
    case True
    then show ?thesis by (cases w) (simp_all add: map_write_at delivered_live)
  next
    case False
    with snoc show ?thesis by (simp add: map_write_at)
  qed
qed simp

text \<open>
  C39: The event table refines a map of log positions. Whatever sequence of deliveries, tombstones
  and rollbacks the table has taken, it holds one row per position of the map that the same
  sequence makes, with the same content, where a delivery is one update at its position and a
  rollback forgets the positions above its block; and a position is live exactly if the last
  write that concerned it was a delivery that was not a removal. Transaction hashes hold no
  colon; the addresses are the package's.
\<close>

theorem event_table_refines_a_map:
  assumes "bindings_ok B" and "foldR (write_log B) [] writes = Inr rows"
    and "\<forall>e. Append e \<in> set writes \<longrightarrow> colon_free (transactionHash e)"
  shows "log_map rows = foldl (map_write B) Map.empty writes
    \<and> (\<forall>r \<in> set rows. log_map rows (row_position r) = Some (cell_of r))
    \<and> (\<forall>p. (\<exists>r \<in> set rows. row_position r = p \<and> \<not> er_removed r)
         \<longleftrightarrow> (case List.find (concerns B p) (rev writes) of Some (Append e) \<Rightarrow> \<not> removed e | _ \<Rightarrow> False))"
proof -
  have "log_plain B rows \<and> log_map rows = foldl (map_write B) Map.empty writes"
    using assms(2,3)
  proof (induction writes arbitrary: rows rule: rev_induct)
    case (snoc w writes)
    from snoc.prems(1) obtain mid where mid: "foldR (write_log B) [] writes = Inr mid" "write_log B mid w = Inr rows"
      by (auto simp: foldR_append bindR_Inr_iff)
    with snoc.IH snoc.prems(2) have "log_plain B mid" "log_map mid = foldl (map_write B) Map.empty writes" by auto
    then show ?case using write_refines [OF assms(1) _ _ mid(2)] snoc.prems(2) by auto
  qed (simp add: log_plain_def log_typed_def)
  then have d: "distinct (map row_position rows)" and m: "log_map rows = foldl (map_write B) Map.empty writes"
    by (simp_all add: log_plain_def log_typed_def)
  have "(\<exists>r \<in> set rows. row_position r = p \<and> \<not> er_removed r) \<longleftrightarrow> (\<exists>c. log_map rows p = Some c \<and> cl_live c)" for p
  proof
    assume "\<exists>c. log_map rows p = Some c \<and> cl_live c"
    then obtain c where c: "log_map rows p = Some c" "cl_live c" by blast
    then have "p \<in> row_position ` set rows" using log_map_None [of rows p] by force
    with c show "\<exists>r \<in> set rows. row_position r = p \<and> \<not> er_removed r"
      using log_map_Some [OF d] by (force simp: cell_of_def)
  qed (use log_map_Some [OF d] in \<open>auto simp: cell_of_def\<close>)
  then show ?thesis using map_write_live [of B writes] m log_map_Some [OF d] by simp
qed

end
