(* ===== verification/IndexerSamples.thy ===== *)
theory IndexerSamples imports IndexerClaims LogKeys begin

text \<open>
  A small chain before and after a reorganisation, an indexer whose world is what its node
  shows, and the properties of the indexer applied to it. The processor of notifications is
  down throughout.
\<close>

section \<open>Two views\<close>

definition note_event :: "int \<Rightarrow> string \<Rightarrow> chain_event" where
  "note_event b h = \<lparr>chainId = 1, contractAddress = ''a'', blockNumber = b, transactionIndex = Some 0,
     transactionHash = ''t'', logIndex = 0, blockHash = Some h, eventName = ''Note'', args = [], removed = False\<rparr>"

definition fork_hash :: "char \<Rightarrow> int \<Rightarrow> string" where
  "fork_hash c b = (if b \<le> 11 then CHR ''s'' else c) # dec_int b"

definition view_before :: chain_view where
  "view_before = \<lparr>cv_finalized = 13, cv_hash = fork_hash CHR ''p'',
     cv_events = [note_event 11 (fork_hash CHR ''p'' 11), note_event 13 (fork_hash CHR ''p'' 13)]\<rparr>"

definition view_after :: chain_view where
  "view_after = \<lparr>cv_finalized = 14, cv_hash = fork_hash CHR ''q'',
     cv_events = [note_event 11 (fork_hash CHR ''q'' 11), note_event 14 (fork_hash CHR ''q'' 14)]\<rparr>"

definition node_env :: "chain_view indexer_env" where
  "node_env = \<lparr>ie_bindings = short_bindings, ie_chainId = 1, ie_deploymentBlock = 10,
     ie_finalityConfirmations = 2, ie_getFinalizedBlock = (\<lambda>C. (Inr (cv_finalized C), C)),
     ie_readEvents = (\<lambda>lo hi C. (Inr (canonical C lo hi), C)),
     ie_getBlockHash = Some (\<lambda>b C. (Inr (cv_hash C b), C)),
     ie_processSignals = Some (\<lambda>es C. (Inl (OtherError ''down''), C)),
     ie_invalidateAbove = None, ie_processProjection = None, ie_queueWrite = (\<lambda>C. (Inr (), C)),
     ie_now = (\<lambda>C. (''now'', C)), ie_sleep = (\<lambda>ms C. C), ie_digest = (\<lambda>s. take 8 s),
     ie_redact = (\<lambda>e. ''error'')\<rparr>"

lemma node_shows: "shows_view r node_env D (\<lambda>w. w = D)"
  by (simp add: shows_view_def answers_def stays_def node_env_def)

lemma node_sound: "sound_env node_env"
  by (simp add: sound_env_def node_env_def normalizeAddress_def short_bindings_def
    projectionScopeContractAddress_def) code_simp

lemma lower_dec_int: "toLowerCase (dec_int i) = dec_int i"
proof -
  have "map lower_char s = s" if "list_all is_digit s" for s
    using that by (induction s) (auto simp: is_digit_def lower_char_def)
  then show ?thesis by (simp add: toLowerCase_def dec_int_def dec_nat_digits lower_char_def)
qed

lemma fork_hash_lower: "c \<in> {CHR ''p'', CHR ''q''} \<Longrightarrow> toLowerCase (fork_hash c b) = fork_hash c b"
  using lower_dec_int [of b] by (auto simp: fork_hash_def toLowerCase_def lower_char_def)

lemma note_recordable:
  "c \<in> {CHR ''p'', CHR ''q''} \<Longrightarrow> recordable short_bindings 1 (note_event b (fork_hash c b))"
  using fork_hash_lower [of c b]
  by (auto simp: recordable_def wf_event_def indexed_def note_event_def normalizeAddress_def short_bindings_def
    isBigIntRecord_def colon_free_def toLowerCase_def lower_char_def)

lemma views_sound: "sound_view short_bindings 1 view_before" "sound_view short_bindings 1 view_after"
proof -
  have "recorded short_bindings 1 [note_event a (fork_hash c a), note_event b (fork_hash c b)]"
    if "c \<in> {CHR ''p'', CHR ''q''}" "a \<noteq> b" for a b c
    using that note_recordable [OF that(1)]
      different_blocks_different_keys [OF note_recordable [OF that(1), of a] note_recordable [OF that(1), of b]]
    by (simp add: recorded_def) (simp add: note_event_def)
  then show "sound_view short_bindings 1 view_before" "sound_view short_bindings 1 view_after"
    using fork_hash_lower
    by (auto simp: sound_view_def view_before_def view_after_def) (simp_all add: note_event_def fork_hash_def)
qed

lemma views_common: "common_history view_before view_after"
  by (auto simp: common_history_def view_before_def view_after_def fork_hash_def note_event_def split: if_splits)

lemma views_replay:
  "replays node_env view_before" "replays node_env view_after"
proof -
  have ok: "(\<exists>x. rebuildOrderProjections short_bindings es = Inr x) \<and> (\<exists>x. rebuildIdentityProjections short_bindings es = Inr x)"
    if "\<not> isl (rebuildOrderProjections short_bindings es) \<and> \<not> isl (rebuildIdentityProjections short_bindings es)" for es
    using that by (metis sum.collapse(2))
  note lists = ok [of "[]"] ok [of "[note_event 11 (fork_hash CHR ''p'' 11)]"]
    ok [of "[note_event 11 (fork_hash CHR ''q'' 11)]"]
    ok [of "[note_event 11 (fork_hash CHR ''p'' 11), note_event 13 (fork_hash CHR ''p'' 13)]"]
    ok [of "[note_event 11 (fork_hash CHR ''q'' 11), note_event 14 (fork_hash CHR ''q'' 14)]"]
  have e: "\<not> isl (rebuildOrderProjections short_bindings []) \<and> \<not> isl (rebuildIdentityProjections short_bindings [])"
    by code_simp
  have p1: "\<not> isl (rebuildOrderProjections short_bindings [note_event 11 (fork_hash CHR ''p'' 11)])
      \<and> \<not> isl (rebuildIdentityProjections short_bindings [note_event 11 (fork_hash CHR ''p'' 11)])" by code_simp
  have q1: "\<not> isl (rebuildOrderProjections short_bindings [note_event 11 (fork_hash CHR ''q'' 11)])
      \<and> \<not> isl (rebuildIdentityProjections short_bindings [note_event 11 (fork_hash CHR ''q'' 11)])" by code_simp
  have p2: "\<not> isl (rebuildOrderProjections short_bindings [note_event 11 (fork_hash CHR ''p'' 11), note_event 13 (fork_hash CHR ''p'' 13)])
      \<and> \<not> isl (rebuildIdentityProjections short_bindings [note_event 11 (fork_hash CHR ''p'' 11), note_event 13 (fork_hash CHR ''p'' 13)])"
    by code_simp
  have q2: "\<not> isl (rebuildOrderProjections short_bindings [note_event 11 (fork_hash CHR ''q'' 11), note_event 14 (fork_hash CHR ''q'' 14)])
      \<and> \<not> isl (rebuildIdentityProjections short_bindings [note_event 11 (fork_hash CHR ''q'' 11), note_event 14 (fork_hash CHR ''q'' 14)])"
    by code_simp
  have "canonical view_before 10 b = (if b < 11 then [] else if b < 13 then [note_event 11 (fork_hash CHR ''p'' 11)]
      else [note_event 11 (fork_hash CHR ''p'' 11), note_event 13 (fork_hash CHR ''p'' 13)])" for b
    by (simp add: canonical_def view_before_def) (simp add: note_event_def)
  then show "replays node_env view_before"
    using lists(1) [OF e] lists(2) [OF p1] lists(4) [OF p2] by (simp add: replays_def node_env_def)
  have "canonical view_after 10 b = (if b < 11 then [] else if b < 14 then [note_event 11 (fork_hash CHR ''q'' 11)]
      else [note_event 11 (fork_hash CHR ''q'' 11), note_event 14 (fork_hash CHR ''q'' 14)])" for b
    by (simp add: canonical_def view_after_def) (simp add: note_event_def)
  then show "replays node_env view_after"
    using lists(1) [OF e] lists(3) [OF q1] lists(5) [OF q2] by (simp add: replays_def node_env_def)
qed

lemma node_fields: "ie_bindings node_env = short_bindings" "ie_chainId node_env = 1" "ie_deploymentBlock node_env = 10"
  by (simp_all add: node_env_def)

lemma node_rounds:
  "round_between r node_env view_before view_after (\<lambda>w. w = view_after)"
  "round_between r node_env view_before view_before (\<lambda>w. w = view_before)"
  using node_sound node_shows views_sound views_common views_replay
  by (simp_all add: round_between_def node_fields) (simp add: common_history_def)

text \<open>The store after a rebuild from the first view.\<close>

definition indexed_store :: durable_store where
  "indexed_store = ix_store (snd (rebuildFromDeploymentBlock node_env None
     (new_indexer (empty_durable_store 1) view_before)))"

lemma indexed_store_complete: "complete node_env view_before 13 indexed_store"
  using rebuild_ends [OF node_rounds(2), of "new_indexer (empty_durable_store 1) view_before" None]
  by (auto simp: indexed_store_def round_target_def minBlock_def view_before_def [of] new_indexer_def node_fields)

lemma indexed_store_covers: "covers node_env view_before indexed_store" "cursor_block node_env indexed_store = 14"
  using complete_covers [OF indexed_store_complete] complete_observed(4) [OF node_sound _ indexed_store_complete]
    views_sound by (simp_all add: node_fields)

lemma sample_seen:
  "nothing_missed node_env view_before view_after 14" "anchored node_env view_before view_after 14"
  by (simp_all add: nothing_missed_def anchored_def same_history_below_def canonical_def node_fields view_before_def
    view_after_def fork_hash_def note_event_def)


section \<open>The refresh after the reorganisation\<close>

abbreviation after_restart :: "chain_view indexer" where
  "after_restart \<equiv> new_indexer indexed_store view_after"

lemma restart_fields: "ix_store after_restart = indexed_store" "ix_world after_restart = view_after"
    "ix_committed after_restart = []" "own_cursor node_env after_restart"
  by (simp_all add: new_indexer_def own_cursor_def)

theorem refresh_ends_like_a_rebuild_witness:
  "\<exists>a t b u. refreshFromCursor node_env None after_restart = (Inr a, t)
    \<and> rebuildFromDeploymentBlock node_env None (new_indexer (empty_durable_store 1) view_after) = (Inr b, u)
    \<and> rr_snapshot a = rr_snapshot b
    \<and> listEvents short_bindings 1 (ds_events (ix_store t))
        = Inr (sortChainEvents [note_event 11 (fork_hash CHR ''q'' 11), note_event 14 (fork_hash CHR ''q'' 14)])
    \<and> cursor_block node_env (ix_store t) = 15"
proof -
  have "canonical view_after 10 14 = [note_event 11 (fork_hash CHR ''q'' 11), note_event 14 (fork_hash CHR ''q'' 14)]"
    by (simp add: canonical_def view_after_def) (simp add: note_event_def)
  moreover have "round_target view_after None = 14"
    by (simp add: round_target_def minBlock_def view_after_def)
  ultimately show ?thesis
    using refresh_ends_like_a_rebuild [OF node_rounds(1) _ _ restart_fields(4) _ restart_fields(3), of
        "new_indexer (empty_durable_store 1) view_after" None] indexed_store_covers sample_seen
    by (fastforce simp: restart_fields node_fields new_indexer_def)
qed

text \<open>The chain has grown by the time of the restart.\<close>

definition view_later :: chain_view where
  "view_later = view_after\<lparr>cv_finalized := 20\<rparr>"

lemma view_later_fields: "cv_events view_later = cv_events view_after" "cv_hash view_later = cv_hash view_after"
    "cv_finalized view_later = 20" "canonical view_later = canonical view_after"
  by (simp_all add: view_later_def canonical_def fun_eq_iff)

lemma later_rounds:
  "round_between True node_env view_before view_later (\<lambda>w. w = view_later)"
  "round_between True node_env view_after view_later (\<lambda>w. w = view_later)"
  using node_sound node_shows [of True view_later] views_sound views_common views_replay(2)
  by (simp_all add: round_between_def node_fields sound_view_def common_history_def replays_def view_later_fields)

lemma later_seen:
  "X \<in> {view_before, view_after} \<Longrightarrow> nothing_missed node_env X view_later 15 \<and> anchored node_env X view_later 15"
  by (auto simp: nothing_missed_def anchored_def same_history_below_def canonical_def node_fields view_before_def
    view_after_def view_later_def fork_hash_def note_event_def)

theorem no_crash_loses_events_witness:
  "\<exists>d \<in> set (ix_committed (snd (refreshFromCursor node_env None after_restart))).
     \<exists>a t. refreshFromCursor node_env None (new_indexer d view_later) = (Inr a, t)
       \<and> listEvents short_bindings 1 (ds_events (ix_store t)) = Inr (sortChainEvents (canonical view_later 10 20))"
proof -
  have c: "covers node_env view_before (ix_store after_restart)" "cursor_block node_env (ix_store after_restart) = 14"
    using indexed_store_covers by (simp_all add: restart_fields)
  have w: "ix_world after_restart = view_after" by (simp add: restart_fields)
  have r: "round_target view_after None = 14"
    by (simp add: round_target_def minBlock_def view_after_def)
  have "wp (refreshFromCursor node_env None) (\<lambda>a t. complete node_env view_after 14 (ix_store t)) (\<lambda>_ _. False)
      after_restart"
    by (rule wp_refreshFromCursor [OF node_rounds(1) [of True]
      start_stable [where V = "\<lambda>w. w = view_after", OF c(1) restart_fields(4) w restart_fields(3)] c])
      (use sample_seen r in simp_all)
  from wp_ends [OF this] obtain a t where t: "refreshFromCursor node_env None after_restart = (Inr a, t)"
    "complete node_env view_after 14 (ix_store t)" by blast
  have b: "cursor_block node_env (ix_store t) = 15"
    using complete_observed(4) [OF node_sound _ t(2)] views_sound by (simp add: node_fields)
  have "logged indexed_store t"
    using keepsD [OF logged_refreshFromCursor, of indexed_store after_restart node_env None] t(1)
    by (simp add: wp_def logged_def restart_fields)
  then have d: "ix_store t \<in> set (ix_committed (snd (refreshFromCursor node_env None after_restart)))"
    using b indexed_store_covers(2) t(1) by (auto simp: logged_def)
  show ?thesis
    by (rule bexI [OF _ d], insert no_crash_loses_events [OF node_rounds(1) [of False] w restart_fields(4) c(1)
        restart_fields(3) _ d later_rounds refl] sample_seen later_seen b c(2))
      (auto simp: node_fields view_later_fields)
qed


section \<open>The queue\<close>

text \<open>
  The processor is down. Of three steps one waits for finality, one fails for the sixteenth
  time, and one belongs to another chain.
\<close>

definition queued :: "string \<Rightarrow> int \<Rightarrow> int \<Rightarrow> nat \<Rightarrow> pending_step" where
  "queued i chain b n = \<lparr>pe_stepId = i, pe_chainId = chain, pe_kind = Signal_notification,
     pe_events = Some [note_event b (fork_hash CHR ''q'' b)], pe_attempts = n, pe_lastError = None,
     pe_createdAt = ''now'', pe_updatedAt = ''now''\<rparr>"

definition queue_state :: "chain_view indexer" where
  "queue_state = new_indexer ((empty_durable_store 1)
     \<lparr>ds_pending := [queued ''waits'' 1 30 3, queued ''last'' 1 11 15, queued ''other'' 2 11 0],
      ds_syncStates := [(ix_scope node_env, sync_base.extend (degraded_sync node_env 14 0 ''now'' ''error'' None)
          (sync_state.fields ''now''))]\<rparr>) view_after"


theorem queue_gives_up_only_when_done_witness:
  "\<exists>su t. sweepPendingPostCommitSteps node_env queue_state = (Inr su, t) \<and> sw_swept su = 2
    \<and> sw_delivered su + sw_failed su + sw_waitingFinality su = 2
    \<and> queued ''waits'' 1 30 3 \<in> set (ds_pending (ix_store t))
    \<and> queued ''other'' 2 11 0 \<in> set (ds_pending (ix_store t))"
proof -
  let ?p = "queued ''waits'' 1 30 3" and ?q = "queued ''last'' 1 11 15" and ?r = "queued ''other'' 2 11 0"
  have steps: "ds_pending (ix_store queue_state) = [?p, ?q, ?r]"
    by (simp add: queue_state_def new_indexer_def)
  have d: "distinct (map pe_stepId (ds_pending (ix_store queue_state)))"
    by (simp add: steps) (simp add: queued_def)
  have "getSyncRow (ie_bindings node_env) (ix_scope node_env) (ix_store queue_state)
      = Inr (Some (sync_base.extend (degraded_sync node_env 14 0 ''now'' ''error'' None) (sync_state.fields ''now'')))"
    using node_sound
    by (simp add: getSyncRow_def queue_state_def new_indexer_def degraded_sync_def Let_def sync_base.defs sync_state.defs)
  then have waiting: "waits node_env (ix_store queue_state) ?p"
    by (simp add: waits_def queued_def node_env_def sync_base.defs sync_state.defs degraded_sync_def Let_def
      max_event_block_def note_event_def)
  have other: "pe_chainId ?r \<noteq> ie_chainId node_env"
      "length (filter (\<lambda>p. pe_chainId p = ie_chainId node_env) (ds_pending (ix_store queue_state))) = 2"
    unfolding steps by (simp_all add: queued_def node_fields)
  have mem: "?p \<in> set (ds_pending (ix_store queue_state))" "?r \<in> set (ds_pending (ix_store queue_state))"
    by (simp_all add: steps)
  from queue_gives_up_only_when_done [OF d, of node_env] other(2) obtain su t where
    t: "sweepPendingPostCommitSteps node_env queue_state = (Inr su, t)" "sw_swept su = 2"
      "sw_delivered su + sw_failed su + sw_waitingFinality su = sw_swept su"
      "\<forall>p \<in> set (ds_pending (ix_store queue_state)).
        waits node_env (ix_store queue_state) p \<or> pe_chainId p \<noteq> ie_chainId node_env \<longrightarrow> p \<in> set (ds_pending (ix_store t))"
    by metis
  from t(4) mem waiting other(1) have "?p \<in> set (ds_pending (ix_store t))" "?r \<in> set (ds_pending (ix_store t))"
    by blast+
  with t(1-3) show ?thesis by force
qed

theorem notifications_are_delivered_or_queued_witness:
  "\<exists>t. processSignalNotifications node_env [note_event 14 (fork_hash CHR ''q'' 14)] after_restart = (Inr Persisted, t)
    \<and> pendingPostCommitStepId node_env Signal_notification (Some [note_event 14 (fork_hash CHR ''q'' 14)]) \<in> queue_ids t"
proof -
  have up: "ie_queueWrite node_env w = (Inr (), w)" for w by (simp add: node_env_def)
  have "ie_processSignals node_env = Some (\<lambda>es C. (Inl (OtherError ''down''), C))" by (simp add: node_env_def)
  from notifications_are_delivered_or_queued [OF this, of "[note_event 14 (fork_hash CHR ''q'' 14)]" after_restart]
  show ?thesis
    by (auto simp: refused_def up batch_queued_def batch_row_def queue_ids_def) (metis imageI)+
qed

theorem cursor_write_compares_and_sets_witness:
  "\<exists>r t. saveCursorAdvancingFrom node_env \<lparr>ec_chainId = 1, ec_deploymentBlock = 10, ec_nextBlock = 16, ec_finalizedBlock = Some 15, ec_blockHash = None\<rparr> 12
      after_restart = (r, t)
    \<and> ix_store t = indexed_store \<and> r = Inr ()"
proof -
  from indexed_store_complete obtain es cur where c: "store_holds node_env indexed_store es cur" "cu_nextBlock cur = 14"
    by (auto simp: complete_def)
  then have "jget (ds_cursors (ix_store after_restart)) (ix_scope node_env) = Some cur" "cu_scope cur = ix_scope node_env"
    by (simp_all add: restart_fields store_holds_def)
  from cursor_write_compares_and_sets [OF node_sound this, where n = 12] c(2) show ?thesis
    by (auto simp: restart_fields new_indexer_def CURSOR_CAS_FAILURE_LIMIT_def split: prod.splits)
qed


section \<open>The event table\<close>

text \<open>A log that is appended, removed, appended again and followed by a block that is rolled back.\<close>

definition sample_writes :: "log_write list" where
  "sample_writes = [Append (note_event 11 ''0xA''), Append ((note_event 11 ''0xA'')\<lparr>removed := True\<rparr>),
     Append (note_event 11 ''0xB''), Append (note_event 13 ''0xC''), Append (note_event 13 ''0xC''), Delete_after 1 12]"

theorem event_table_is_well_typed_witness:
  "\<exists>rows. foldR (write_log short_bindings) [] sample_writes = Inr rows \<and> map er_blockHash rows = [Some ''0xb'']
     \<and> distinct (map row_position rows) \<and> list_all (row_typed short_bindings) rows"
proof -
  have "(case foldR (write_log short_bindings) [] sample_writes of Inr rows \<Rightarrow> map er_blockHash rows = [Some ''0xb'']
      | Inl _ \<Rightarrow> False)"
    by code_simp
  then show ?thesis
    using event_table_is_well_typed [of short_bindings sample_writes] by (auto split: sum.splits)
qed


theorem event_table_refines_a_map_witness:
  "\<exists>rows. foldR (write_log short_bindings) [] sample_writes = Inr rows
     \<and> log_map rows = foldl (map_write short_bindings) Map.empty sample_writes
     \<and> (\<exists>r \<in> set rows. row_position r = (1, ''a'', 11, ''t'', 0) \<and> \<not> er_removed r)
     \<and> \<not> (\<exists>r \<in> set rows. row_position r = (1, ''a'', 13, ''t'', 0) \<and> \<not> er_removed r)"
proof -
  have "\<not> isl (foldR (write_log short_bindings) [] sample_writes)" by code_simp
  then obtain rows where rows: "foldR (write_log short_bindings) [] sample_writes = Inr rows"
    by (metis sum.collapse(2))
  have plain: "\<forall>e. Append e \<in> set sample_writes \<longrightarrow> colon_free (transactionHash e)"
    by (auto simp: sample_writes_def note_event_def colon_free_def)
  have live: "case List.find (concerns short_bindings (1, ''a'', 11, ''t'', 0)) (rev sample_writes) of
      Some (Append e) \<Rightarrow> \<not> removed e | _ \<Rightarrow> False" by code_simp
  have gone: "\<not> (case List.find (concerns short_bindings (1, ''a'', 13, ''t'', 0)) (rev sample_writes) of
      Some (Append e) \<Rightarrow> \<not> removed e | _ \<Rightarrow> False)" by code_simp
  from event_table_refines_a_map [OF short_bindings_ok rows plain] rows live gone show ?thesis by blast
qed


text \<open>
  The block is mined again with its transactions in another order: the row that is revived keeps
  the index its tombstone had.
\<close>

lemma revival_keeps_the_old_index:
  "(case foldR (write_log short_bindings) [] [Append (note_event 11 ''0xA''),
        Append ((note_event 11 ''0xA'')\<lparr>removed := True\<rparr>), Append ((note_event 11 ''0xB'')\<lparr>transactionIndex := Some 7\<rparr>)] of
      Inr rows \<Rightarrow> map er_transactionIndex rows = [Some 0] \<and> map er_blockHash rows = [Some ''0xb'']
    | Inl _ \<Rightarrow> False)"
  by code_simp

end
