(* ===== verification/NotificationProfiles.thy ===== *)
theory NotificationProfiles imports JsValue Sorting begin

text \<open>
  The notification profile of a supplier (\<open>notifications/profile.ts\<close>): how it wants to be
  reached, read from a document somebody posted. Every field is checked; a transport that is
  not well formed is dropped, a profile without transports is none. The constant fields
  \<open>version\<close> and \<open>contentType\<close> are left out of the records.
\<close>

section \<open>Profiles\<close>

datatype transport_target =
    Webhook (endpointRef: string) (headersRef: "string option") (signingKeyRef: "string option")
  | Slack (slackChannelRef: string) (appRef: "string option")
  | Email (mailboxRef: string)
  | Mcp (serverRef: string) (toolName: string) (authRef: "string option")
  | Executor_watch (watchAddress: "string option") (instructionsURI: "string option")
  | Future_transport (future_type: string) (futureChannelRef: string)

record transport =
  tr_priority :: "int option"
  tr_enabled :: "bool option"
  tr_target :: transport_target

record notification_profile =
  np_supplierSubjectId :: "string option"
  np_wallet :: "string option"
  np_transports :: "transport list"
  np_productTaskUrlTemplate :: "string option"
  np_metadata :: "(string \<times> jsval) list option"

definition tr_type :: "transport \<Rightarrow> string" where
  "tr_type t = (case tr_target t of
       Webhook _ _ _ \<Rightarrow> ''webhook'' | Slack _ _ \<Rightarrow> ''slack'' | Email _ \<Rightarrow> ''email'' | Mcp _ _ _ \<Rightarrow> ''mcp''
     | Executor_watch _ _ \<Rightarrow> ''executor-watch'' | Future_transport k _ \<Rightarrow> k)"

definition isPushTransport :: "transport \<Rightarrow> bool" where
  "isPushTransport t \<longleftrightarrow> tr_type t = ''webhook'' \<or> tr_type t = ''slack'' \<or> tr_type t = ''email'' \<or> tr_type t = ''mcp''"

section \<open>Reading a document\<close>

definition SUPPLIER_NOTIFICATION_PROFILE_VERSION :: string where
  "SUPPLIER_NOTIFICATION_PROFILE_VERSION = ''uvp.supplierNotificationProfile.v1''"

definition MAX_SAFE_INTEGER :: int where "MAX_SAFE_INTEGER = 9007199254740991"

text \<open>\<open>typeof v === "string" && v.length > 0\<close>.\<close>

definition nonempty_text :: "jsval \<Rightarrow> string option" where
  "nonempty_text v = (case v of JStr s \<Rightarrow> if s = [] then None else Some s | _ \<Rightarrow> None)"

definition parseTransportControls :: "(string \<times> jsval) list \<Rightarrow> transport_target \<Rightarrow> transport" where
  "parseTransportControls fs target =
     \<lparr>tr_priority = (case jfield fs ''priority'' of
         JNum n \<Rightarrow> if 0 \<le> n \<and> n \<le> MAX_SAFE_INTEGER then Some n else None | _ \<Rightarrow> None),
      tr_enabled = (case jfield fs ''enabled'' of JBool b \<Rightarrow> Some b | _ \<Rightarrow> None),
      tr_target = target\<rparr>"

definition transport_target_of :: "(string \<times> jsval) list \<Rightarrow> transport_target option" where
  "transport_target_of fs =
     (let field = (\<lambda>k. nonempty_text (jfield fs k)) in
      case jfield fs ''type'' of
        JStr k \<Rightarrow>
          if k = ''webhook'' then
            map_option (\<lambda>r. Webhook r (field ''headersRef'') (field ''signingKeyRef'')) (field ''endpointRef'')
          else if k = ''slack'' then map_option (\<lambda>r. Slack r (field ''appRef'')) (field ''channelRef'')
          else if k = ''email'' then map_option Email (field ''mailboxRef'')
          else if k = ''mcp'' then
            Option.bind (field ''serverRef'') (\<lambda>r.
              map_option (\<lambda>t. Mcp r t (field ''authRef'')) (field ''toolName''))
          else if k = ''executor-watch'' then
            Some (Executor_watch (field ''watchAddress'') (field ''instructionsURI''))
          else if k = ''xmtp'' \<or> k = ''push'' \<or> k = ''walletconnect'' then
            map_option (Future_transport k) (field ''channelRef'')
          else None
      | _ \<Rightarrow> None)"

definition parseSupplierNotificationTransport :: "jsval \<Rightarrow> transport option" where
  "parseSupplierNotificationTransport v = (case v of
       JObj fs \<Rightarrow> map_option (parseTransportControls fs) (transport_target_of fs)
     | _ \<Rightarrow> None)"

definition parseSupplierNotificationProfile :: "jsval \<Rightarrow> notification_profile option" where
  "parseSupplierNotificationProfile v = (case v of
       JObj fs \<Rightarrow>
         if jfield fs ''version'' \<noteq> JStr SUPPLIER_NOTIFICATION_PROFILE_VERSION then None
         else (case jfield fs ''transports'' of
             JArr vs \<Rightarrow>
               (let transports = List.map_filter parseSupplierNotificationTransport vs in
                if transports = [] then None
                else Some
                  \<lparr>np_supplierSubjectId = nonempty_text (jfield fs ''supplierSubjectId''),
                   np_wallet = nonempty_text (jfield fs ''wallet''), np_transports = transports,
                   np_productTaskUrlTemplate = nonempty_text (jfield fs ''productTaskUrlTemplate''),
                   np_metadata = (case jfield fs ''metadata'' of JObj m \<Rightarrow> Some m | _ \<Rightarrow> None)\<rparr>)
           | _ \<Rightarrow> None)
     | _ \<Rightarrow> None)"

section \<open>Choosing a transport\<close>

definition compareTransportPreference :: "transport \<times> nat \<Rightarrow> transport \<times> nat \<Rightarrow> int" where
  "compareTransportPreference l r =
     (let p = (\<lambda>t. case tr_priority (fst t) of None \<Rightarrow> MAX_SAFE_INTEGER | Some n \<Rightarrow> n) in
      if p l = p r then int (snd l) - int (snd r) else p l - p r)"

definition enabled_transports :: "notification_profile \<Rightarrow> transport list" where
  "enabled_transports profile = filter (\<lambda>t. tr_enabled t \<noteq> Some False) (np_transports profile)"

text \<open>A transport that can be pushed to, or one that is watched, before one that cannot be served.\<close>

definition chooseTransport :: "notification_profile \<Rightarrow> transport option" where
  "chooseTransport profile =
     (let enabled = js_sort compareTransportPreference
            (filter (\<lambda>(t, _). tr_enabled t \<noteq> Some False)
              (zip (np_transports profile) [0 ..< length (np_transports profile)])) in
      opt_or
        (map_option fst (List.find (\<lambda>(t, _). isPushTransport t \<or> tr_type t = ''executor-watch'') enabled))
        (case enabled of [] \<Rightarrow> None | (t, _) # _ \<Rightarrow> Some t))"

definition chooseTransportForRetry :: "notification_profile \<Rightarrow> string option \<Rightarrow> transport option" where
  "chooseTransportForRetry profile transportType =
     opt_or
       (if truthy transportType
        then List.find (\<lambda>t. Some (tr_type t) = transportType) (enabled_transports profile) else None)
       (chooseTransport profile)"

end
