(* ===== verification/Notifications.thy ===== *)
theory Notifications imports NotificationProfiles Indexer begin

text \<open>
  The delivery of notifications (\<open>notifications/service.ts\<close>): for every finalized signal the
  hooks that wait for it, for every hook its supplier, for every supplier one row of the delivery
  ledger under an identifier made of all of them, and at most one message. Rows whose block was
  rolled back are marked, exhausted ones are given up, operators may retry and reopen.
  \<open>nt_sent\<close> is the trace of the rows handed to the dispatcher.
\<close>

section \<open>Rows\<close>

datatype delivery_status = Del_pending | Del_sent | Del_failed | Del_skipped | Del_dead_letter | Del_invalidated

record notification_proof =
  npf_chainId :: int
  npf_contractAddress :: string
  npf_blockNumber :: string
  npf_transactionIndex :: "int option"
  npf_transactionHash :: string
  npf_logIndex :: int
  npf_blockHash :: "string option"

record notification_payload =
  npl_chainId :: int
  npl_stateMachineAddress :: string
  npl_orderId :: string
  npl_sourceId :: string
  npl_signalId :: string
  npl_payloadHash :: string
  npl_idempotencyKey :: string
  npl_signalSubmitter :: string
  npl_receiverHookId :: string
  npl_receiverStageId :: string
  npl_receiverSupplierSubjectId :: string
  npl_receiverWallet :: string
  npl_proof :: notification_proof

record delivery =
  nd_deliveryId :: string
  nd_status :: delivery_status
  nd_taskId :: "string option"
  nd_orderId :: string
  nd_receiverHookId :: "string option"
  nd_receiverStageId :: "string option"
  nd_sourceId :: "string option"
  nd_signalId :: "string option"
  nd_payloadHash :: "string option"
  nd_idempotencyKey :: "string option"
  nd_chainId :: int
  nd_stateMachineAddress :: string
  nd_submitter :: "string option"
  nd_supplierSubjectId :: "string option"
  nd_supplierWallet :: "string option"
  nd_transportType :: "string option"
  nd_activationStatus :: "string option"
  nd_externalReceiptRef :: "string option"
  nd_reason :: "string option"
  nd_payload :: notification_payload
  nd_attempts :: nat
  nd_lastError :: "string option"
  nd_createdAt :: string
  nd_updatedAt :: string

record delivery_query =
  dq_orderId :: "string option"
  dq_taskId :: "string option"
  dq_supplier :: "string option"
  dq_status :: "delivery_status option"

section \<open>What the service reads\<close>

text \<open>
  Suppliers as their store keeps them. Compiled hooks and plan artifacts come from a package;
  they have the fields the service reads.
\<close>

record supplier_row =
  su_supplierId :: string
  su_supplierSubjectId :: string
  su_displayName :: string
  su_wallet :: "string option"
  su_notificationProfile :: "notification_profile option"
  su_notificationProfileHash :: "string option"
  su_notificationUpdatedAt :: "string option"
  su_capabilityTags :: "string list"
  su_supportedRoleSlotIds :: "string list"
  su_supportedStageIds :: "string list"
  su_registryAddresses :: "string list"
  su_reviewStatus :: string
  su_metadataURI :: "string option"
  su_createdAt :: string
  su_updatedAt :: string

record compiled_hook =
  oh_hookId :: string
  oh_stageId :: string
  oh_hookName :: string
  oh_kind :: string
  oh_dependencies :: "(string \<times> string) list"

record plan_artifact =
  pa_compiledHooks :: "compiled_hook list"
  pa_dependencyIndex :: "(string, string list) jsmap"

record dispatch_result =
  dr_ok :: bool
  dr_activationStatus :: "string option"
  dr_externalReceiptRef :: "string option"
  dr_error :: "string option"

text \<open>
  \<open>ne_schemaArtifact\<close> is the schema look-up with the check of the artifact, \<open>ne_describe\<close>
  the text kept for an error that was thrown.
\<close>

record 'w notification_env =
  ne_keccak :: "string \<Rightarrow> string"
  ne_signalKey :: "string \<Rightarrow> string \<Rightarrow> string"
  ne_planArtifact :: "(order_proj \<Rightarrow> ('w, plan_artifact option) external) option"
  ne_schemaArtifact :: "(string \<Rightarrow> string \<Rightarrow> ('w, plan_artifact option) external) option"
  ne_listSuppliers :: "('w, supplier_row list) external option"
  ne_send :: "(delivery \<Rightarrow> notification_profile \<Rightarrow> transport \<Rightarrow> ('w, dispatch_result) external) option"
  ne_now :: "'w \<Rightarrow> string \<times> 'w"
  ne_redact :: "string \<Rightarrow> string"
  ne_describe :: "ix_error \<Rightarrow> string"

record 'w notifier =
  nt_store :: projection_store
  nt_deliveries :: "(string, delivery) jsmap"
  nt_world :: 'w
  nt_sent :: "delivery list"

type_synonym ('w, 'a) nt = "('w notifier, ix_error, 'a) action"

definition outsideA :: "('w, 'a) external \<Rightarrow> ('w, 'a) nt" where
  "outsideA f = (\<lambda>s. let (r, w) = f (nt_world s) in (r, s\<lparr>nt_world := w\<rparr>))"

definition clockA :: "'w notification_env \<Rightarrow> ('w, string) nt" where
  "clockA E = (\<lambda>s. let (t, w) = ne_now E (nt_world s) in (Inr t, s\<lparr>nt_world := w\<rparr>))"

section \<open>The ledger\<close>

definition getDelivery :: "string \<Rightarrow> ('w, delivery option) nt" where
  "getDelivery i = getsA (\<lambda>s. jget (nt_deliveries s) i)"

definition saveDelivery :: "delivery \<Rightarrow> ('w, delivery) nt" where
  "saveDelivery r =
     bindA (modifyA (\<lambda>s. s\<lparr>nt_deliveries := jset (nd_deliveryId r) r (nt_deliveries s)\<rparr>)) (\<lambda>_. returnA r)"

definition compareDeliveryRecords :: "delivery \<Rightarrow> delivery \<Rightarrow> int" where
  "compareDeliveryRecords l r =
     (if nd_createdAt l \<noteq> nd_createdAt r then localeCompare (nd_createdAt l) (nd_createdAt r)
      else localeCompare (nd_deliveryId l) (nd_deliveryId r))"

definition delivery_passes :: "delivery_query \<Rightarrow> delivery \<Rightarrow> bool" where
  "delivery_passes q r \<longleftrightarrow>
     (case keep_truthy (dq_orderId q) of None \<Rightarrow> True | Some i \<Rightarrow> toLowerCase (nd_orderId r) = toLowerCase i)
     \<and> (case keep_truthy (dq_taskId q) of None \<Rightarrow> True | Some i \<Rightarrow> nd_taskId r = Some i)
     \<and> (case keep_truthy (map_option toLowerCase (dq_supplier q)) of
          None \<Rightarrow> True
        | Some p \<Rightarrow> map_option toLowerCase (nd_supplierWallet r) = Some p
            \<or> map_option toLowerCase (nd_supplierSubjectId r) = Some p)
     \<and> (case dq_status q of None \<Rightarrow> True | Some st \<Rightarrow> nd_status r = st)"

definition listDeliveries :: "delivery_query \<Rightarrow> ('w, delivery list) nt" where
  "listDeliveries q = getsA (\<lambda>s.
     js_sort compareDeliveryRecords (filter (delivery_passes q) (jvalues (nt_deliveries s))))"

definition any_delivery :: delivery_query where
  "any_delivery = \<lparr>dq_orderId = None, dq_taskId = None, dq_supplier = None, dq_status = None\<rparr>"

text \<open>
  From a signal to the rows of the ledger: the receivers, their suppliers, the identifier of a
  delivery and the row a signal gives.
\<close>

section \<open>Receivers\<close>

definition finalizedSignalSubmittedEvents :: "chain_event list \<Rightarrow> int option \<Rightarrow> chain_event list" where
  "finalizedSignalSubmittedEvents events finalizedBlock =
     filter (\<lambda>e. eventName e = ''SignalSubmitted''
         \<and> (case finalizedBlock of None \<Rightarrow> True | Some b \<Rightarrow> blockNumber e \<le> b))
       (filterActiveChainEvents events)"

definition resolvePlanArtifact :: "'w notification_env \<Rightarrow> order_proj \<Rightarrow> ('w, plan_artifact option) nt" where
  "resolvePlanArtifact E order =
     bindA (case ne_planArtifact E of None \<Rightarrow> returnA None | Some f \<Rightarrow> outsideA (f order)) (\<lambda>custom.
       case custom of
         Some a \<Rightarrow> returnA (Some a)
       | None \<Rightarrow>
           (case (ne_schemaArtifact E, keep_truthy (or_planHash order)) of
              (Some f, Some planHash) \<Rightarrow> outsideA (f (or_planId order) planHash)
            | _ \<Rightarrow> returnA None))"

definition receiverHooksForSignal ::
  "'w notification_env \<Rightarrow> plan_artifact \<Rightarrow> signal_proj \<Rightarrow> compiled_hook list" where
  "receiverHooksForSignal E artifact signal =
     (let hookIds = map toLowerCase
            (case jget (pa_dependencyIndex artifact) (ne_signalKey E (sig_sourceId signal) (sig_signalId signal)) of
               None \<Rightarrow> [] | Some ids \<Rightarrow> ids);
          candidates = (if hookIds \<noteq> []
            then filter (\<lambda>h. toLowerCase (oh_hookId h) \<in> set hookIds) (pa_compiledHooks artifact)
            else pa_compiledHooks artifact) in
      filter (\<lambda>h. oh_kind h = ''receive''
        \<and> (\<exists>(src, sig) \<in> set (oh_dependencies h).
             toLowerCase src = toLowerCase (sig_sourceId signal)
             \<and> toLowerCase sig = toLowerCase (sig_signalId signal))) candidates)"

definition compareReceiverHooks :: "compiled_hook \<Rightarrow> compiled_hook \<Rightarrow> int" where
  "compareReceiverHooks l r =
     (let c = localeCompare (oh_stageId l) (oh_stageId r) in
      if c \<noteq> 0 then c else localeCompare (oh_hookId l) (oh_hookId r))"

definition compareSignalAuthorizationsForDelivery :: "authorization_proj \<Rightarrow> authorization_proj \<Rightarrow> int" where
  "compareSignalAuthorizationsForDelivery l r =
     (let position = compareChainPointers (auth_authorizedAt l) (auth_authorizedAt r) in
      if position \<noteq> 0 then position else localeCompare (auth_submitter l) (auth_submitter r))"

text \<open>No submit signals are passed, and stage and name of the hook are not compared.\<close>

definition receiverAuthorizationWallet :: "order_proj \<Rightarrow> compiled_hook \<Rightarrow> string option" where
  "receiverAuthorizationWallet order hook =
     map_option auth_submitter (List.find (\<lambda>a. signalAuthorizationMatchesHook a (oh_hookId hook) [])
       (js_sort compareSignalAuthorizationsForDelivery (jvalues (or_authorizations order))))"

section \<open>Suppliers\<close>

definition compareSupplierMetadataForDelivery :: "supplier_row \<Rightarrow> supplier_row \<Rightarrow> int" where
  "compareSupplierMetadataForDelivery l r =
     (if su_updatedAt l \<noteq> su_updatedAt r then localeCompare (su_updatedAt r) (su_updatedAt l)
      else localeCompare (su_supplierId l) (su_supplierId r))"

text \<open>A supplier, or the reason why there is none; an ambiguous match names no supplier.\<close>

definition sole_supplier ::
  "string \<Rightarrow> string \<Rightarrow> supplier_row list \<Rightarrow> string + supplier_row" where
  "sole_supplier none many matches = (case js_sort compareSupplierMetadataForDelivery matches of
       [] \<Rightarrow> Inl none
     | [x] \<Rightarrow> Inr x
     | _ \<Rightarrow> Inl many)"

definition supplierMetadataByWallet :: "supplier_row list \<Rightarrow> string \<Rightarrow> string + supplier_row" where
  "supplierMetadataByWallet suppliers wallet =
     sole_supplier ''store_supplier_not_found'' ''store_supplier_ambiguous''
       (filter (\<lambda>x. map_option toLowerCase (su_wallet x) = Some (toLowerCase wallet)) suppliers)"

definition supplierMetadataByStage :: "supplier_row list \<Rightarrow> string \<Rightarrow> string + supplier_row" where
  "supplierMetadataByStage suppliers stageId =
     sole_supplier ''receiver_not_found'' ''receiver_ambiguous''
       (filter (\<lambda>x. \<exists>s \<in> set (su_supportedStageIds x). toLowerCase s = toLowerCase stageId) suppliers)"

definition resolveReceiverSupplier ::
  "order_proj \<Rightarrow> compiled_hook \<Rightarrow> supplier_row list \<Rightarrow> string + supplier_row" where
  "resolveReceiverSupplier order hook suppliers =
     (let overlay = jget (or_stageExecutorOverlays order) (toLowerCase (oh_stageId hook));
          wallet = opt_or (map_option eov_activeExecutorWallet overlay) (receiverAuthorizationWallet order hook) in
      case keep_truthy wallet of
        Some w \<Rightarrow> supplierMetadataByWallet suppliers w
      | None \<Rightarrow> supplierMetadataByStage suppliers (oh_stageId hook))"

section \<open>Identifiers\<close>

definition hex_arg :: "nat \<Rightarrow> chain_event \<Rightarrow> string \<Rightarrow> string option" where
  "hex_arg n e name = (case jfield (args e) name of
       JStr s \<Rightarrow> if hex_word n s then Some (toLowerCase s) else None
     | _ \<Rightarrow> None)"

definition bytes32Arg :: "chain_event \<Rightarrow> string \<Rightarrow> string option" where
  "bytes32Arg e name = hex_arg 64 e name"

definition addressArg :: "chain_event \<Rightarrow> string \<Rightarrow> string option" where
  "addressArg e name = hex_arg 40 e name"

definition keep_if :: "('a \<Rightarrow> bool) \<Rightarrow> 'a option \<Rightarrow> 'a option" where
  "keep_if P v = (case v of None \<Rightarrow> None | Some x \<Rightarrow> if P x then Some x else None)"

definition or_text :: "string option \<Rightarrow> string \<Rightarrow> string" where
  "or_text v d = (case v of None \<Rightarrow> d | Some s \<Rightarrow> s)"

definition signalDeliveryIdFor ::
  "'w notification_env \<Rightarrow> chain_event \<Rightarrow> order_proj option \<Rightarrow> signal_proj option \<Rightarrow> compiled_hook option
    \<Rightarrow> supplier_row option \<Rightarrow> string" where
  "signalDeliveryIdFor E e order signal hook supplier =
     ne_keccak E (join_bar
       [''uvp:signal-received-notification-delivery:v1'',
        dec_int (chainId e),
        toLowerCase (or_text (map_option or_contractAddress order) (contractAddress e)),
        or_text (opt_or (map_option or_planId order) (bytes32Arg e ''planId'')) ''unknown-plan'',
        or_text (opt_or (map_option sig_orderId signal) (bytes32Arg e ''orderId'')) ''unknown-order'',
        or_text (opt_or (map_option sig_sourceId signal) (bytes32Arg e ''sourceId'')) ''unknown-source'',
        or_text (opt_or (map_option sig_signalId signal) (bytes32Arg e ''signalId'')) ''unknown-signal'',
        chainEventKey e,
        or_text (map_option oh_hookId hook) ''unresolved-hook'',
        or_text (map_option su_supplierSubjectId supplier) ''unresolved-supplier'',
        or_text (map_option toLowerCase (Option.bind supplier su_wallet)) ''unresolved-wallet''])"

section \<open>Rows\<close>

definition ZERO_ADDRESS_TEXT :: string where
  "ZERO_ADDRESS_TEXT = ''0x0000000000000000000000000000000000000000''"

definition payloadForSignal ::
  "chain_event \<Rightarrow> order_proj option \<Rightarrow> signal_proj option \<Rightarrow> compiled_hook option \<Rightarrow> supplier_row option
    \<Rightarrow> notification_payload" where
  "payloadForSignal e order signal hook supplier =
     (let arg = (\<lambda>f name. or_text (opt_or (map_option f signal) (bytes32Arg e name)) ZERO_BYTES32) in
      \<lparr>npl_chainId = chainId e,
       npl_stateMachineAddress = or_text (map_option or_contractAddress order) (contractAddress e),
       npl_orderId = arg sig_orderId ''orderId'', npl_sourceId = arg sig_sourceId ''sourceId'',
       npl_signalId = arg sig_signalId ''signalId'', npl_payloadHash = arg sig_payloadHash ''payloadHash'',
       npl_idempotencyKey = arg sig_idempotencyKey ''idempotencyKey'',
       npl_signalSubmitter =
         or_text (opt_or (map_option sig_submitter signal) (addressArg e ''submitter'')) ZERO_ADDRESS_TEXT,
       npl_receiverHookId = or_text (map_option oh_hookId hook) ZERO_BYTES32,
       npl_receiverStageId = or_text (map_option oh_stageId hook) ZERO_BYTES32,
       npl_receiverSupplierSubjectId = or_text (map_option su_supplierSubjectId supplier) ZERO_BYTES32,
       npl_receiverWallet = or_text (Option.bind supplier su_wallet) ZERO_ADDRESS_TEXT,
       npl_proof = \<lparr>npf_chainId = chainId e, npf_contractAddress = contractAddress e,
         npf_blockNumber = dec_int (blockNumber e), npf_transactionIndex = transactionIndex e,
         npf_transactionHash = transactionHash e, npf_logIndex = logIndex e,
         npf_blockHash = keep_truthy (blockHash e)\<rparr>\<rparr>)"

definition compareTasksForParticipantNotifications :: "task_proj \<Rightarrow> task_proj \<Rightarrow> int" where
  "compareTasksForParticipantNotifications l r =
     (if blockNumber (tk_updatedAt l) \<noteq> blockNumber (tk_updatedAt r)
      then (if blockNumber (tk_updatedAt r) < blockNumber (tk_updatedAt l) then -1 else 1)
      else localeCompare (tk_taskId l) (tk_taskId r))"

definition taskForReceiverHook :: "order_proj option \<Rightarrow> compiled_hook option \<Rightarrow> task_proj option" where
  "taskForReceiverHook order hook = (case (order, hook) of
       (Some x, Some h) \<Rightarrow>
         List.find (\<lambda>t. toLowerCase (tk_hookId t) = toLowerCase (oh_hookId h)
             \<and> toLowerCase (tk_stageIdentifier t) = toLowerCase (oh_stageId h))
           (js_sort compareTasksForParticipantNotifications (jvalues (or_tasks x)))
     | _ \<Rightarrow> None)"

definition baseSignalDeliveryRecord ::
  "'w notification_env \<Rightarrow> chain_event \<Rightarrow> order_proj option \<Rightarrow> signal_proj option \<Rightarrow> compiled_hook option
    \<Rightarrow> supplier_row option \<Rightarrow> string option \<Rightarrow> string \<Rightarrow> delivery" where
  "baseSignalDeliveryRecord E e order signal hook supplier transportType createdAt =
     (let arg = (\<lambda>f name. keep_truthy (opt_or (map_option f signal) (bytes32Arg e name))) in
      \<lparr>nd_deliveryId = signalDeliveryIdFor E e order signal hook supplier, nd_status = Del_pending,
       nd_taskId = map_option tk_taskId (taskForReceiverHook order hook),
       nd_orderId = or_text (opt_or (map_option sig_orderId signal) (bytes32Arg e ''orderId'')) ZERO_BYTES32,
       nd_receiverHookId = map_option oh_hookId hook, nd_receiverStageId = map_option oh_stageId hook,
       nd_sourceId = arg sig_sourceId ''sourceId'', nd_signalId = arg sig_signalId ''signalId'',
       nd_payloadHash = arg sig_payloadHash ''payloadHash'',
       nd_idempotencyKey = arg sig_idempotencyKey ''idempotencyKey'',
       nd_chainId = chainId e,
       nd_stateMachineAddress = or_text (map_option or_contractAddress order) (contractAddress e),
       nd_submitter = keep_truthy (opt_or (map_option sig_submitter signal) (addressArg e ''submitter'')),
       nd_supplierSubjectId = map_option su_supplierSubjectId supplier,
       nd_supplierWallet = keep_truthy (Option.bind supplier su_wallet),
       nd_transportType = keep_truthy transportType, nd_activationStatus = None,
       nd_externalReceiptRef = None, nd_reason = None,
       nd_payload = payloadForSignal e order signal hook supplier, nd_attempts = 0, nd_lastError = None,
       nd_createdAt = createdAt, nd_updatedAt = createdAt\<rparr>)"

end
