(* ===== verification/NotifyService.thy ===== *)
theory NotifyService imports Notifications begin

text \<open>
  The operations on the ledger: one message for a row, the pass over a batch of signals, and what
  a reorganisation and the operators do to rows.
\<close>

section \<open>One message\<close>

definition activationStatusForResult :: "transport \<Rightarrow> dispatch_result \<Rightarrow> string option" where
  "activationStatusForResult t result =
     (if truthy (dr_activationStatus result) then dr_activationStatus result
      else if tr_type t = ''mcp'' then Some (if dr_ok result then ''accepted'' else ''rejected'')
      else None)"

text \<open>The row after the dispatcher returned, and after it threw.\<close>

definition dispatched_row ::
  "'w notification_env \<Rightarrow> delivery \<Rightarrow> transport \<Rightarrow> dispatch_result \<Rightarrow> string \<Rightarrow> delivery" where
  "dispatched_row E pending t result now =
     pending\<lparr>nd_status := (if dr_ok result then Del_sent else Del_failed),
       nd_attempts := nd_attempts pending + 1,
       nd_activationStatus := opt_or (activationStatusForResult t result) (nd_activationStatus pending),
       nd_externalReceiptRef := opt_or (keep_truthy (dr_externalReceiptRef result)) (nd_externalReceiptRef pending),
       nd_lastError := opt_or (map_option (ne_redact E) (keep_truthy (dr_error result))) (nd_lastError pending),
       nd_updatedAt := now\<rparr>"

definition undispatched_row :: "'w notification_env \<Rightarrow> delivery \<Rightarrow> ix_error \<Rightarrow> string \<Rightarrow> delivery" where
  "undispatched_row E pending e now =
     pending\<lparr>nd_status := Del_failed, nd_attempts := nd_attempts pending + 1,
       nd_lastError := Some (ne_describe E e), nd_updatedAt := now\<rparr>"

definition sendA ::
  "(delivery \<Rightarrow> notification_profile \<Rightarrow> transport \<Rightarrow> ('w, dispatch_result) external)
    \<Rightarrow> delivery \<Rightarrow> notification_profile \<Rightarrow> transport \<Rightarrow> ('w, dispatch_result) nt" where
  "sendA send pending profile t =
     bindA (modifyA (\<lambda>s. s\<lparr>nt_sent := nt_sent s @ [pending]\<rparr>)) (\<lambda>_. outsideA (send pending profile t))"

definition dispatchPreparedDelivery ::
  "'w notification_env \<Rightarrow> delivery \<Rightarrow> notification_profile \<Rightarrow> transport \<Rightarrow> ('w, delivery) nt" where
  "dispatchPreparedDelivery E pending profile t = (case ne_send E of
       None \<Rightarrow>
         bindA (clockA E) (\<lambda>now. saveDelivery (pending\<lparr>nd_status := Del_skipped,
           nd_reason := Some ''transport_adapter_missing'', nd_updatedAt := now\<rparr>))
     | Some send \<Rightarrow>
         catchA
           (bindA (sendA send pending profile t) (\<lambda>result.
            bindA (clockA E) (\<lambda>now. saveDelivery (dispatched_row E pending t result now))))
           (\<lambda>e. bindA (clockA E) (\<lambda>now. saveDelivery (undispatched_row E pending e now))))"

section \<open>The row of a signal\<close>

definition MAX_AUTOMATIC_DELIVERY_ATTEMPTS :: nat where "MAX_AUTOMATIC_DELIVERY_ATTEMPTS = 5"

definition saveSkippedSignalDelivery ::
  "'w notification_env \<Rightarrow> chain_event \<Rightarrow> order_proj option \<Rightarrow> signal_proj option \<Rightarrow> compiled_hook option
    \<Rightarrow> supplier_row option \<Rightarrow> string \<Rightarrow> string option \<Rightarrow> ('w, delivery) nt" where
  "saveSkippedSignalDelivery E e order signal hook supplier reason transportType =
     bindA (getDelivery (signalDeliveryIdFor E e order signal hook supplier)) (\<lambda>existing.
     case keep_if (\<lambda>r. nd_status r \<noteq> Del_pending) existing of
       Some r \<Rightarrow> returnA r
     | None \<Rightarrow>
         bindA (clockA E) (\<lambda>createdAt.
         bindA (clockA E) (\<lambda>updatedAt.
           saveDelivery ((baseSignalDeliveryRecord E e order signal hook supplier transportType createdAt)
             \<lparr>nd_status := Del_skipped, nd_reason := Some reason, nd_updatedAt := updatedAt\<rparr>))))"

definition dispatchSignalTransportDelivery ::
  "'w notification_env \<Rightarrow> chain_event \<Rightarrow> order_proj \<Rightarrow> signal_proj \<Rightarrow> compiled_hook \<Rightarrow> supplier_row
    \<Rightarrow> notification_profile \<Rightarrow> transport \<Rightarrow> ('w, delivery) nt" where
  "dispatchSignalTransportDelivery E e order signal hook supplier profile t =
     bindA (getDelivery (signalDeliveryIdFor E e (Some order) (Some signal) (Some hook) (Some supplier))) (\<lambda>existing.
     case keep_if (\<lambda>r. nd_status r \<noteq> Del_pending \<and> nd_status r \<noteq> Del_failed) existing of
       Some r \<Rightarrow> returnA r
     | None \<Rightarrow>
         (case keep_if (\<lambda>r. nd_status r = Del_failed
             \<and> MAX_AUTOMATIC_DELIVERY_ATTEMPTS \<le> nd_attempts r) existing of
            Some r \<Rightarrow>
              bindA (clockA E) (\<lambda>now. saveDelivery (r\<lparr>nd_status := Del_dead_letter,
                nd_reason := Some ''delivery_attempts_exhausted'', nd_updatedAt := now\<rparr>))
          | None \<Rightarrow>
              bindA (case existing of
                  Some r \<Rightarrow> returnA r
                | None \<Rightarrow> bindA (clockA E) (\<lambda>createdAt. returnA (baseSignalDeliveryRecord E e (Some order)
                    (Some signal) (Some hook) (Some supplier) (Some (tr_type t)) createdAt))) (\<lambda>base.
              bindA (clockA E) (\<lambda>now.
              bindA (saveDelivery (base\<lparr>nd_status := Del_pending, nd_updatedAt := now\<rparr>)) (\<lambda>pending.
                dispatchPreparedDelivery E pending profile t)))))"

section \<open>A batch\<close>

record run_counts =
  rc_signalsProcessed :: nat
  rc_receiverHooksMatched :: nat
  rc_deliveryIntents :: nat
  rc_sent :: nat
  rc_failed :: nat
  rc_skipped :: nat
  rc_existing :: nat

definition no_counts :: run_counts where
  "no_counts = \<lparr>rc_signalsProcessed = 0, rc_receiverHooksMatched = 0, rc_deliveryIntents = 0, rc_sent = 0,
     rc_failed = 0, rc_skipped = 0, rc_existing = 0\<rparr>"

text \<open>The switch has no case for pending and invalidated rows.\<close>

definition updateIntentSummary :: "run_counts \<Rightarrow> delivery \<Rightarrow> run_counts" where
  "updateIntentSummary su r =
     (let su = su\<lparr>rc_deliveryIntents := rc_deliveryIntents su + 1\<rparr> in
      case nd_status r of
        Del_sent \<Rightarrow> su\<lparr>rc_sent := rc_sent su + 1\<rparr>
      | Del_failed \<Rightarrow> su\<lparr>rc_failed := rc_failed su + 1\<rparr>
      | Del_skipped \<Rightarrow> su\<lparr>rc_skipped := rc_skipped su + 1\<rparr>
      | Del_dead_letter \<Rightarrow> su\<lparr>rc_existing := rc_existing su + 1\<rparr>
      | _ \<Rightarrow> su)"

text \<open>What is done for one hook of a signal.\<close>

definition notify_hook ::
  "'w notification_env \<Rightarrow> chain_event \<Rightarrow> order_proj \<Rightarrow> signal_proj \<Rightarrow> supplier_row list \<Rightarrow> compiled_hook
    \<Rightarrow> ('w, delivery) nt" where
  "notify_hook E e order signal suppliers hook =
     (let skip = (\<lambda>supplier. saveSkippedSignalDelivery E e (Some order) (Some signal) (Some hook) supplier) in
      case resolveReceiverSupplier order hook suppliers of
        Inl reason \<Rightarrow> skip None reason None
      | Inr supplier \<Rightarrow>
          (case su_notificationProfile supplier of
             None \<Rightarrow> skip (Some supplier) ''notification_profile_missing'' None
           | Some profile \<Rightarrow>
               (case chooseTransport profile of
                  None \<Rightarrow> skip (Some supplier) ''transport_not_supported'' None
                | Some t \<Rightarrow>
                    if tr_type t = ''executor-watch''
                    then skip (Some supplier) ''executor_watch_self_managed'' (Some (tr_type t))
                    else if \<not> isPushTransport t
                    then skip (Some supplier) ''transport_not_supported'' (Some (tr_type t))
                    else dispatchSignalTransportDelivery E e order signal hook supplier profile t)))"

fun notify_hooks ::
  "'w notification_env \<Rightarrow> chain_event \<Rightarrow> order_proj \<Rightarrow> signal_proj \<Rightarrow> supplier_row list \<Rightarrow> run_counts
    \<Rightarrow> compiled_hook list \<Rightarrow> ('w, run_counts) nt" where
  "notify_hooks E e order signal suppliers su [] = returnA su"
| "notify_hooks E e order signal suppliers su (hook # hooks) =
     bindA (notify_hook E e order signal suppliers hook) (\<lambda>r.
       notify_hooks E e order signal suppliers (updateIntentSummary su r) hooks)"

definition notify_event :: "'w notification_env \<Rightarrow> run_counts \<Rightarrow> chain_event \<Rightarrow> ('w, run_counts) nt" where
  "notify_event E su e =
     (let skip = (\<lambda>su order signal reason.
            bindA (saveSkippedSignalDelivery E e order signal None None reason None)
            (\<lambda>r. returnA (updateIntentSummary su r))) in
      case (bytes32Arg e ''planId'', bytes32Arg e ''orderId'') of
        (Some planId, Some orderId) \<Rightarrow>
          bindA (getsA (\<lambda>s. getStateMachineOrder
            (stateMachineOrderProjectionKey (chainId e) (contractAddress e) planId orderId) None (nt_store s))) (\<lambda>order.
          case order of
            None \<Rightarrow> skip su None None ''order_projection_missing''
          | Some x \<Rightarrow>
              (case (case (bytes32Arg e ''sourceId'', bytes32Arg e ''signalId'') of
                   (Some src, Some sig) \<Rightarrow> jget (or_signals x) (join_colon [src, sig]) | _ \<Rightarrow> None) of
                 None \<Rightarrow> skip su (Some x) None ''signal_projection_missing''
               | Some signal \<Rightarrow>
                   (let su = su\<lparr>rc_signalsProcessed := rc_signalsProcessed su + 1\<rparr> in
                    bindA (case ne_listSuppliers E of None \<Rightarrow> returnA [] | Some f \<Rightarrow> outsideA f) (\<lambda>suppliers.
                    bindA (resolvePlanArtifact E x) (\<lambda>artifact.
                    case artifact of
                      None \<Rightarrow> skip su (Some x) (Some signal) ''artifact_mapping_missing''
                    | Some a \<Rightarrow>
                        (let hooks = js_sort compareReceiverHooks (receiverHooksForSignal E a signal) in
                         notify_hooks E e x signal suppliers
                           (su\<lparr>rc_receiverHooksMatched := rc_receiverHooksMatched su + length hooks\<rparr>) hooks))))))
      | _ \<Rightarrow> skip su None None ''event_scope_ids_missing'')"

fun notify_events :: "'w notification_env \<Rightarrow> run_counts \<Rightarrow> chain_event list \<Rightarrow> ('w, run_counts) nt" where
  "notify_events E su [] = returnA su"
| "notify_events E su (e # es) = bindA (notify_event E su e) (\<lambda>su. notify_events E su es)"

definition processSignalSubmittedEvents ::
  "'w notification_env \<Rightarrow> chain_event list \<Rightarrow> ('w, run_counts) nt" where
  "processSignalSubmittedEvents E events =
     bindA (getsA (\<lambda>s. Option.bind (ps_syncState (nt_store s)) sy_finalizedBlock)) (\<lambda>finalizedBlock.
       notify_events E no_counts (finalizedSignalSubmittedEvents events finalizedBlock))"

section \<open>Operators and reorganisations\<close>

text \<open>Where a retried row goes; a row that names no supplier goes nowhere.\<close>

definition resolveRetryTransport ::
  "'w notification_env \<Rightarrow> delivery \<Rightarrow> ('w, string + notification_profile \<times> transport) nt" where
  "resolveRetryTransport E r =
     (if \<not> truthy (nd_supplierSubjectId r) \<and> \<not> truthy (nd_supplierWallet r)
      then returnA (Inl ''store_supplier_not_found'')
      else bindA (case ne_listSuppliers E of None \<Rightarrow> returnA [] | Some f \<Rightarrow> outsideA f) (\<lambda>suppliers.
        let matches = filter (\<lambda>x.
              (case keep_truthy (nd_supplierSubjectId r) of None \<Rightarrow> True | Some i \<Rightarrow> su_supplierSubjectId x = i)
              \<and> (case keep_truthy (nd_supplierWallet r) of None \<Rightarrow> True
                  | Some w \<Rightarrow> map_option toLowerCase (su_wallet x) = Some (toLowerCase w))) suppliers in
        returnA (case sole_supplier ''store_supplier_not_found'' ''store_supplier_ambiguous'' matches of
            Inl reason \<Rightarrow> Inl reason
          | Inr supplier \<Rightarrow>
              (case su_notificationProfile supplier of
                 None \<Rightarrow> Inl ''notification_profile_missing''
               | Some profile \<Rightarrow>
                   (case chooseTransportForRetry profile (nd_transportType r) of
                      None \<Rightarrow> Inl ''transport_not_supported''
                    | Some t \<Rightarrow>
                        if tr_type t = ''executor-watch'' then Inl ''executor_watch_self_managed''
                        else if \<not> isPushTransport t then Inl ''transport_not_supported''
                        else Inr (profile, t))))))"

text \<open>The part that retrying and reopening share.\<close>

definition redeliver :: "'w notification_env \<Rightarrow> delivery \<Rightarrow> ('w, delivery) nt" where
  "redeliver E existing =
     bindA (clockA E) (\<lambda>now.
     bindA (saveDelivery (existing\<lparr>nd_reason := None, nd_lastError := None, nd_status := Del_pending,
       nd_updatedAt := now\<rparr>)) (\<lambda>pending.
     bindA (resolveRetryTransport E pending) (\<lambda>resolved.
     case resolved of
       Inl reason \<Rightarrow>
         bindA (clockA E) (\<lambda>now. saveDelivery (pending\<lparr>nd_status := Del_skipped, nd_reason := Some reason,
           nd_updatedAt := now\<rparr>))
     | Inr (profile, t) \<Rightarrow> dispatchPreparedDelivery E pending profile t)))"

datatype retry_outcome = Retry_not_found | Retry_terminal delivery | Retried delivery

definition retryDelivery :: "'w notification_env \<Rightarrow> string \<Rightarrow> ('w, retry_outcome) nt" where
  "retryDelivery E i =
     bindA (getDelivery i) (\<lambda>existing. case existing of
       None \<Rightarrow> returnA Retry_not_found
     | Some r \<Rightarrow>
         if nd_status r \<in> {Del_sent, Del_dead_letter, Del_invalidated} then returnA (Retry_terminal r)
         else bindA (redeliver E r) (\<lambda>d. returnA (Retried d)))"

datatype reopen_outcome = Reopen_not_found | Not_dead_letter delivery | Reopened delivery

definition reopenDelivery :: "'w notification_env \<Rightarrow> string \<Rightarrow> ('w, reopen_outcome) nt" where
  "reopenDelivery E i =
     bindA (getDelivery i) (\<lambda>existing. case existing of
       None \<Rightarrow> returnA Reopen_not_found
     | Some r \<Rightarrow>
         if nd_status r \<noteq> Del_dead_letter then returnA (Not_dead_letter r)
         else bindA (redeliver E r) (\<lambda>d. returnA (Reopened d)))"

text \<open>Any row can be given up, also one that was sent.\<close>

definition deadLetterDelivery ::
  "'w notification_env \<Rightarrow> string \<Rightarrow> string option \<Rightarrow> ('w, delivery option) nt" where
  "deadLetterDelivery E i reason =
     bindA (getDelivery i) (\<lambda>existing. case existing of
       None \<Rightarrow> returnA None
     | Some r \<Rightarrow>
         bindA (clockA E) (\<lambda>now.
         bindA (saveDelivery (r\<lparr>nd_status := Del_dead_letter,
           nd_reason := (if truthy reason then reason else nd_reason r), nd_updatedAt := now\<rparr>))
           (\<lambda>d. returnA (Some d))))"

fun invalidate_rows ::
  "'w notification_env \<Rightarrow> int \<Rightarrow> int \<Rightarrow> nat \<Rightarrow> delivery list \<Rightarrow> ('w, nat) nt" where
  "invalidate_rows E chain block n [] = returnA n"
| "invalidate_rows E chain block n (r # rs) =
     (if nd_status r = Del_invalidated \<or> nd_chainId r \<noteq> chain then invalidate_rows E chain block n rs
      else (case parse_bigint (npf_blockNumber (npl_proof (nd_payload r))) of
          None \<Rightarrow> throwA (Thrown (SyntaxError (''Cannot convert '' @ npf_blockNumber (npl_proof (nd_payload r)) @ '' to a BigInt'')))
        | Some b \<Rightarrow>
            if b \<le> block then invalidate_rows E chain block n rs
            else bindA (clockA E) (\<lambda>now.
              bindA (saveDelivery (r\<lparr>nd_status := Del_invalidated, nd_reason := Some ''reorg_rolled_back'',
                nd_updatedAt := now\<rparr>)) (\<lambda>_. invalidate_rows E chain block (n + 1) rs))))"

definition invalidateDeliveriesAboveBlock ::
  "'w notification_env \<Rightarrow> int \<Rightarrow> int \<Rightarrow> ('w, nat) nt" where
  "invalidateDeliveriesAboveBlock E chain block =
     bindA (listDeliveries any_delivery) (invalidate_rows E chain block 0)"

end
