(* ===== verification/NotifyFacts.thy ===== *)
theory NotifyFacts imports NotifyService begin

text \<open>
  The life of a row as a state machine: what a pass over signals may do to the row of one
  identifier, and how many messages it sends meanwhile. Every operation of the service follows
  it row by row, also when it throws.
\<close>

section \<open>Weakest preconditions\<close>

lemma wp_outside [wp_simps]:
  "wp (outsideA f) Q Er s = (case f (nt_world s) of
     (Inl e, w) \<Rightarrow> Er e (s\<lparr>nt_world := w\<rparr>) | (Inr x, w) \<Rightarrow> Q x (s\<lparr>nt_world := w\<rparr>))"
  by (simp add: wp_def outsideA_def split: prod.split sum.split)

lemma wp_clock [wp_simps]:
  "wp (clockA E) Q Er s = (case ne_now E (nt_world s) of (t, w) \<Rightarrow> Q t (s\<lparr>nt_world := w\<rparr>))"
  by (simp add: wp_def clockA_def split: prod.split)

lemma wp_getDelivery [wp_simps]: "wp (getDelivery i) Q Er s = Q (jget (nt_deliveries s) i) s"
  by (simp add: getDelivery_def wp_simps)

lemma wp_saveDelivery [wp_simps]:
  "wp (saveDelivery r) Q Er s = Q r (s\<lparr>nt_deliveries := jset (nd_deliveryId r) r (nt_deliveries s)\<rparr>)"
  by (simp add: saveDelivery_def wp_simps)

lemma wp_send [wp_simps]:
  "wp (sendA send r p t) Q Er s = wp (outsideA (send r p t)) Q Er (s\<lparr>nt_sent := nt_sent s @ [r]\<rparr>)"
  by (simp add: sendA_def wp_simps)

section \<open>The life of a row\<close>

text \<open>A row that a pass may send: absent, pending, or failed with attempts left.\<close>

definition sendable :: "delivery option \<Rightarrow> bool" where
  "sendable v \<longleftrightarrow> (case v of
       None \<Rightarrow> True
     | Some r \<Rightarrow> nd_status r = Del_pending
         \<or> nd_status r = Del_failed \<and> nd_attempts r < MAX_AUTOMATIC_DELIVERY_ATTEMPTS)"

definition attempts_of :: "delivery option \<Rightarrow> nat" where
  "attempts_of v = (case v of None \<Rightarrow> 0 | Some r \<Rightarrow> nd_attempts r)"

inductive row_step :: "delivery option \<Rightarrow> delivery option \<Rightarrow> nat \<Rightarrow> bool" where
  Skip: "v = None \<or> (\<exists>r. v = Some r \<and> nd_status r = Del_pending) \<Longrightarrow> nd_status r' = Del_skipped \<Longrightarrow>
    row_step v (Some r') 0"
| Attempt: "sendable v \<Longrightarrow> nd_status r' \<in> {Del_sent, Del_failed} \<Longrightarrow> nd_attempts r' = attempts_of v + 1 \<Longrightarrow>
    row_step v (Some r') (Suc 0)"
| No_adapter: "sendable v \<Longrightarrow> nd_status r' = Del_skipped \<Longrightarrow> row_step v (Some r') 0"
| Give_up: "nd_status r = Del_failed \<Longrightarrow> nd_status r' = Del_dead_letter \<Longrightarrow> row_step (Some r) (Some r') 0"

inductive row_path :: "delivery option \<Rightarrow> delivery option \<Rightarrow> nat \<Rightarrow> bool" where
  Stay: "row_path v v 0"
| Move: "row_path u v m \<Longrightarrow> row_step v w n \<Longrightarrow> row_path u w (m + n)"

text \<open>The messages a row may still cause without an operator.\<close>

definition budget :: "delivery option \<Rightarrow> nat" where
  "budget v = (case v of
       None \<Rightarrow> MAX_AUTOMATIC_DELIVERY_ATTEMPTS
     | Some r \<Rightarrow> (case nd_status r of
           Del_pending \<Rightarrow> max 1 (MAX_AUTOMATIC_DELIVERY_ATTEMPTS - nd_attempts r)
         | Del_failed \<Rightarrow> MAX_AUTOMATIC_DELIVERY_ATTEMPTS - nd_attempts r
         | _ \<Rightarrow> 0))"

lemma budget_le: "budget v \<le> MAX_AUTOMATIC_DELIVERY_ATTEMPTS"
  by (auto simp: budget_def MAX_AUTOMATIC_DELIVERY_ATTEMPTS_def split: option.split delivery_status.split)

lemma row_step_budget: "row_step v w n \<Longrightarrow> n + budget w \<le> budget v"
  by (induction rule: row_step.induct)
    (auto simp: budget_def sendable_def attempts_of_def MAX_AUTOMATIC_DELIVERY_ATTEMPTS_def split: option.splits)

lemma row_path_budget: "row_path v w n \<Longrightarrow> n + budget w \<le> budget v"
  by (induction rule: row_path.induct) (auto dest: row_step_budget)

definition closed_row :: "delivery \<Rightarrow> bool" where
  "closed_row r \<longleftrightarrow> nd_status r \<in> {Del_sent, Del_skipped, Del_dead_letter, Del_invalidated}"

lemma row_step_settled: "row_step (Some r) w n \<Longrightarrow> \<not> closed_row r"
  by (auto simp: closed_row_def sendable_def elim: row_step.cases)

lemma row_path_settled: "row_path v w n \<Longrightarrow> v = Some r \<Longrightarrow> closed_row r \<Longrightarrow> w = v \<and> n = 0"
  by (induction rule: row_path.induct) (auto dest: row_step_settled)

lemma row_path_present: "row_path v w n \<Longrightarrow> v \<noteq> None \<Longrightarrow> w \<noteq> None"
  by (induction rule: row_path.induct) (auto elim: row_step.cases)

section \<open>The ledger row by row\<close>

definition rows_by_id :: "(string, delivery) jsmap \<Rightarrow> bool" where
  "rows_by_id m \<longleftrightarrow> distinct (jkeys m) \<and> (\<forall>i r. jget m i = Some r \<longrightarrow> nd_deliveryId r = i)"

definition sends :: "string \<Rightarrow> delivery list \<Rightarrow> nat" where
  "sends i log = length (filter (\<lambda>r. nd_deliveryId r = i) log)"

definition follows :: "'w notifier \<Rightarrow> 'w notifier \<Rightarrow> bool" where
  "follows s t \<longleftrightarrow> rows_by_id (nt_deliveries t) \<and> nt_store t = nt_store s
     \<and> (\<exists>log. nt_sent t = nt_sent s @ log
          \<and> (\<forall>i. row_path (jget (nt_deliveries s) i) (jget (nt_deliveries t) i) (sends i log)))"

lemma follows_refl: "rows_by_id (nt_deliveries s) \<Longrightarrow> follows s s"
  by (auto simp: follows_def sends_def intro: row_path.Stay exI [of _ "[]"])

lemma follows_world [simp]: "follows s (t\<lparr>nt_world := w\<rparr>) = follows s t"
  by (simp add: follows_def)

lemma follows_change:
  assumes "follows s t" and "row_step (jget (nt_deliveries t) i) (Some r) (length log)"
    and "nd_deliveryId r = i" and "\<forall>x \<in> set log. nd_deliveryId x = i"
    and "nt_store t' = nt_store t" and "nt_sent t' = nt_sent t @ log" and "distinct (jkeys (nt_deliveries t'))"
    and get: "\<And>j. jget (nt_deliveries t') j = (if j = i then Some r else jget (nt_deliveries t) j)"
  shows "follows s t'"
proof -
  obtain log0 where h: "nt_sent t = nt_sent s @ log0"
    "\<And>j. row_path (jget (nt_deliveries s) j) (jget (nt_deliveries t) j) (sends j log0)"
    using assms(1) by (auto simp: follows_def)
  have i: "sends i log = length log"
    using assms(4) by (simp add: sends_def filter_id_conv [THEN iffD2])
  have j: "sends j log = 0" if "j \<noteq> i" for j
    using assms(4) that by (auto simp: sends_def filter_empty_conv)
  have app: "sends j (log0 @ log) = sends j log0 + sends j log" for j by (simp add: sends_def)
  have "row_path (jget (nt_deliveries s) j) (jget (nt_deliveries t') j) (sends j (log0 @ log))" for j
    using h(2) [of j] assms(2) i j [of j] by (auto simp: app get intro: row_path.Move)
  moreover have "rows_by_id (nt_deliveries t')"
    using assms(1,3,7) by (auto simp: follows_def rows_by_id_def get split: if_splits)
  ultimately show ?thesis using assms(1,5,6) h(1) by (auto simp: follows_def)
qed

section \<open>The operations\<close>

lemma row_ids [simp]:
  "nd_deliveryId (baseSignalDeliveryRecord E e order signal hook supplier tt now)
     = signalDeliveryIdFor E e order signal hook supplier"
  "nd_attempts (baseSignalDeliveryRecord E e order signal hook supplier tt now) = 0"
  "nd_deliveryId (dispatched_row E p t result now) = nd_deliveryId p"
  "nd_attempts (dispatched_row E p t result now) = nd_attempts p + 1"
  "nd_status (dispatched_row E p t result now) = (if dr_ok result then Del_sent else Del_failed)"
  "nd_deliveryId (undispatched_row E p err now) = nd_deliveryId p"
  "nd_attempts (undispatched_row E p err now) = nd_attempts p + 1"
  "nd_status (undispatched_row E p err now) = Del_failed"
  by (simp_all add: baseSignalDeliveryRecord_def Let_def dispatched_row_def undispatched_row_def)

lemma keep_if_None: "keep_if P v = None \<longleftrightarrow> v = None \<or> (\<exists>x. v = Some x \<and> \<not> P x)"
  by (auto simp: keep_if_def split: option.split)

lemma keep_if_Some: "keep_if P v = Some x \<longleftrightarrow> v = Some x \<and> P x"
  by (auto simp: keep_if_def split: option.split)

lemma follows_save:
  assumes "follows s t" and "row_step (jget (nt_deliveries t) i) (Some r) 0" and "nd_deliveryId r = i"
    and "nt_store u = nt_store t" "nt_sent u = nt_sent t" "nt_deliveries u = jset i r (nt_deliveries t)"
  shows "follows s u"
  by (rule follows_change [OF assms(1), of i r "[]"]) (use assms in \<open>auto simp: follows_def rows_by_id_def\<close>)

lemma follows_skip:
  "keeps (follows s) (saveSkippedSignalDelivery E e order signal hook supplier reason tt)"
  unfolding keeps_wp
proof (intro allI impI)
  fix t assume t: "follows s t"
  let ?i = "signalDeliveryIdFor E e order signal hook supplier"
  show "wp (saveSkippedSignalDelivery E e order signal hook supplier reason tt) (\<lambda>_. follows s) (\<lambda>_. follows s) t"
  proof (cases "keep_if (\<lambda>r. nd_status r \<noteq> Del_pending) (jget (nt_deliveries t) ?i)")
    case None
    then have "jget (nt_deliveries t) ?i = None \<or> (\<exists>r. jget (nt_deliveries t) ?i = Some r \<and> nd_status r = Del_pending)"
      by (simp add: keep_if_None)
    then have saved: "follows s u" if "nt_store u = nt_store t" "nt_sent u = nt_sent t"
        "nt_deliveries u = jset ?i r (nt_deliveries t)" "nd_status r = Del_skipped" "nd_deliveryId r = ?i"
      for r and u :: "'a notifier"
      by (intro follows_save [OF t, of ?i r] row_step.Skip that)
    from None show ?thesis
      by (auto simp: saveSkippedSignalDelivery_def wp_simps simp del: follows_world split: prod.split intro!: saved)
  qed (use t in \<open>simp add: saveSkippedSignalDelivery_def wp_simps\<close>)
qed

text \<open>A row about to be sent, under way from the row \<open>v\<close> that was there before.\<close>

definition under_way :: "'w notifier \<Rightarrow> delivery option \<Rightarrow> delivery \<Rightarrow> 'w notifier \<Rightarrow> bool" where
  "under_way t v p u \<longleftrightarrow> sendable v \<and> jget (nt_deliveries t) (nd_deliveryId p) = v
     \<and> nd_status p = Del_pending \<and> nd_attempts p = attempts_of v
     \<and> nt_store u = nt_store t \<and> nt_sent u = nt_sent t
     \<and> nt_deliveries u = jset (nd_deliveryId p) p (nt_deliveries t)"

lemma follows_dispatched:
  assumes t: "follows s t" and u: "under_way t v p u" and w: "nt_store w = nt_store u"
    "nt_deliveries w = jset (nd_deliveryId p) r (nt_deliveries u)" "nt_sent w = nt_sent u @ log"
    and r: "nd_deliveryId r = nd_deliveryId p" "row_step v (Some r) (length log)"
    and log: "\<forall>x \<in> set log. nd_deliveryId x = nd_deliveryId p"
  shows "follows s w"
  by (rule follows_change [OF t, of "nd_deliveryId p" r log])
    (use assms in \<open>auto simp: under_way_def follows_def rows_by_id_def\<close>)

lemma follows_prepared:
  assumes t: "follows s t" and u: "under_way t v p u"
  shows "wp (dispatchPreparedDelivery E p profile tr) (\<lambda>_. follows s) (\<lambda>_. follows s) u"
proof (cases "ne_send E")
  case None
  have "follows s w" if "nt_store w = nt_store u" "nt_sent w = nt_sent u"
      "nt_deliveries w = jset (nd_deliveryId p) r (nt_deliveries u)" "nd_status r = Del_skipped"
      "nd_deliveryId r = nd_deliveryId p" for w r
    by (rule follows_dispatched [OF t u, where r = r and log = "[]"])
      (use that u in \<open>auto simp: under_way_def intro: row_step.No_adapter\<close>)
  with None show ?thesis by (simp add: dispatchPreparedDelivery_def wp_simps split: prod.split)
next
  case (Some send)
  have sent: "follows s w" if "nt_store w = nt_store u" "nt_sent w = nt_sent u @ [p]"
      "nt_deliveries w = jset (nd_deliveryId p) r (nt_deliveries u)" "nd_status r \<in> {Del_sent, Del_failed}"
      "nd_deliveryId r = nd_deliveryId p" "nd_attempts r = nd_attempts p + 1" for w r
    by (rule follows_dispatched [OF t u, where r = r and log = "[p]"])
      (use that u in \<open>auto simp: under_way_def intro: row_step.Attempt\<close>)
  from Some show ?thesis
    by (auto simp: dispatchPreparedDelivery_def wp_simps split: prod.split sum.split intro!: sent)
qed

lemma follows_dispatch:
  "keeps (follows s) (dispatchSignalTransportDelivery E e order signal hook supplier profile tr)"
  unfolding keeps_wp
proof (intro allI impI)
  fix t assume t: "follows s t"
  let ?i = "signalDeliveryIdFor E e (Some order) (Some signal) (Some hook) (Some supplier)"
  let ?v = "jget (nt_deliveries t) ?i"
  show "wp (dispatchSignalTransportDelivery E e order signal hook supplier profile tr) (\<lambda>_. follows s) (\<lambda>_. follows s) t"
  proof (cases "keep_if (\<lambda>r. nd_status r \<noteq> Del_pending \<and> nd_status r \<noteq> Del_failed) ?v")
    case None
    note open_row = this
    show ?thesis
    proof (cases "keep_if (\<lambda>r. nd_status r = Del_failed \<and> MAX_AUTOMATIC_DELIVERY_ATTEMPTS \<le> nd_attempts r) ?v")
      case None
      from open_row None have v: "sendable ?v"
        by (cases ?v) (auto simp: keep_if_def sendable_def split: if_splits)
      have ids: "nd_deliveryId r = ?i" if "?v = Some r" for r
        using that t by (simp add: follows_def rows_by_id_def)
      have "under_way t ?v p u" if "nt_store u = nt_store t" "nt_sent u = nt_sent t"
          "nt_deliveries u = jset ?i p (nt_deliveries t)" "nd_deliveryId p = ?i" "nd_status p = Del_pending"
          "nd_attempts p = attempts_of ?v" for p and u :: "'a notifier"
        using that v by (simp add: under_way_def)
      note go = follows_prepared [OF t this]
      show ?thesis
        unfolding dispatchSignalTransportDelivery_def wp_bind wp_getDelivery open_row None option.case
        by (cases ?v) (auto simp: wp_simps attempts_of_def ids split: prod.split intro!: go)
    next
      case (Some r)
      then have r: "?v = Some r" "nd_status r = Del_failed" by (simp_all add: keep_if_Some)
      then have "nd_deliveryId r = ?i" using t by (simp add: follows_def rows_by_id_def)
      then have saved: "follows s u" if "nt_store u = nt_store t" "nt_sent u = nt_sent t"
          "nt_deliveries u = jset ?i x (nt_deliveries t)" "nd_status x = Del_dead_letter" "nd_deliveryId x = ?i"
        for x and u :: "'a notifier"
        by (intro follows_save [OF t, of ?i x]) (use that r in \<open>auto intro: row_step.Give_up\<close>)
      from Some open_row \<open>nd_deliveryId r = ?i\<close> show ?thesis
        by (auto simp: dispatchSignalTransportDelivery_def wp_simps simp del: follows_world split: prod.split
          intro!: saved)
    qed
  qed (use t in \<open>simp add: dispatchSignalTransportDelivery_def wp_simps\<close>)
qed

lemma follows_outside: "keeps (follows s) (outsideA f)"
  by (auto simp: keeps_wp wp_simps split: prod.split sum.split)

lemmas follows_intros = keeps_return keeps_throw keeps_gets keeps_bind keeps_catch keeps_option keeps_if
  follows_outside follows_skip follows_dispatch

lemma follows_hook: "keeps (follows s) (notify_hook E e order signal suppliers hook)"
  by (auto simp: notify_hook_def Let_def intro!: follows_intros split: sum.split option.split)

lemma follows_hooks: "keeps (follows s) (notify_hooks E e order signal suppliers su hooks)"
  by (induction hooks arbitrary: su) (auto intro!: follows_intros follows_hook)

lemma follows_event: "keeps (follows s) (notify_event E su e)"
  unfolding notify_event_def Let_def resolvePlanArtifact_def
  by (auto intro!: follows_intros follows_hooks split: option.split prod.split)

lemma follows_process: "keeps (follows s) (processSignalSubmittedEvents E events)"
proof -
  have "keeps (follows s) (notify_events E su es)" for su es
    by (induction es arbitrary: su) (auto intro!: follows_intros follows_event)
  then show ?thesis unfolding processSignalSubmittedEvents_def by (intro follows_intros)
qed

end
