(* ===== verification/NotifyClaims.thy ===== *)
theory NotifyClaims imports NotifyFacts begin

text \<open>
  What the ledger promises over any sequence of passes, rollbacks and operator actions: messages
  are bounded, settled rows stay settled, a rollback marks exactly the rows above its block, and
  a signal that cannot be attributed leaves a row.
\<close>

section \<open>Sequences of operations\<close>

datatype ledger_op =
    Process "chain_event list"
  | New_projections projection_store
  | Invalidate int int
  | Retry string
  | Reopen string
  | Give_up_row string "string option"

fun ledger_step :: "'w notification_env \<Rightarrow> 'w notifier \<Rightarrow> ledger_op \<Rightarrow> 'w notifier" where
  "ledger_step E s (Process events) = snd (processSignalSubmittedEvents E events s)"
| "ledger_step E s (New_projections ps) = s\<lparr>nt_store := ps\<rparr>"
| "ledger_step E s (Invalidate chain block) = snd (invalidateDeliveriesAboveBlock E chain block s)"
| "ledger_step E s (Retry i) = snd (retryDelivery E i s)"
| "ledger_step E s (Reopen i) = snd (reopenDelivery E i s)"
| "ledger_step E s (Give_up_row i reason) = snd (deadLetterDelivery E i reason s)"

definition run_ledger :: "'w notification_env \<Rightarrow> ledger_op list \<Rightarrow> 'w notifier \<Rightarrow> 'w notifier" where
  "run_ledger E ops s = foldl (ledger_step E) s ops"

definition operator_sends :: "string \<Rightarrow> ledger_op \<Rightarrow> bool" where
  "operator_sends i act \<longleftrightarrow> act = Retry i \<or> act = Reopen i"

text \<open>One operation: what it may change for an identifier, \<open>m\<close> being the messages allowed to it.\<close>

definition spends :: "(string \<Rightarrow> nat) \<Rightarrow> 'w notifier \<Rightarrow> 'w notifier \<Rightarrow> bool" where
  "spends m s t \<longleftrightarrow> rows_by_id (nt_deliveries t)
     \<and> (\<forall>i. sends i (nt_sent t) + budget (jget (nt_deliveries t) i)
          \<le> sends i (nt_sent s) + budget (jget (nt_deliveries s) i) + m i)"

lemma sends_append [simp]: "sends i (xs @ ys) = sends i xs + sends i ys"
  by (simp add: sends_def)

lemma follows_spends: "follows s t \<Longrightarrow> spends (\<lambda>_. 0) s t"
  by (fastforce simp: follows_def spends_def dest: row_path_budget)

lemma snd_keeps: "keeps I m \<Longrightarrow> I s \<Longrightarrow> I (snd (m s))"
  using keepsD [of I m s] by (simp add: wp_result split: sum.splits)

lemma process_spends:
  "rows_by_id (nt_deliveries s) \<Longrightarrow> spends (\<lambda>_. 0) s (snd (processSignalSubmittedEvents E events s))"
  by (intro follows_spends snd_keeps [OF follows_process] follows_refl)

text \<open>A change of one row that sends nothing and closes it.\<close>

lemma close_spends:
  assumes "spends m s t" and "nd_deliveryId r = i" and "nd_status r \<in> {Del_skipped, Del_dead_letter, Del_invalidated}"
    and "nt_sent u = nt_sent t" and "nt_deliveries u = jset i r (nt_deliveries t)"
  shows "spends m s u"
proof -
  have "budget (Some r) = 0" using assms(3) by (auto simp: budget_def)
  moreover have "sends i (nt_sent t) \<le> sends i (nt_sent s) + budget (jget (nt_deliveries s) i) + m i"
    using assms(1) by (auto simp: spends_def dest: spec [of _ i])
  ultimately show ?thesis using assms by (auto simp: spends_def rows_by_id_def)
qed

lemma spends_refl: "rows_by_id (nt_deliveries s) \<Longrightarrow> spends m s s"
  by (simp add: spends_def)

lemma spends_world [simp]: "spends m s (t\<lparr>nt_world := w\<rparr>) = spends m s t"
  by (simp add: spends_def)

lemma invalidate_spends:
  assumes "rows_by_id (nt_deliveries s)"
  shows "spends (\<lambda>_. 0) s (snd (invalidateDeliveriesAboveBlock E chain block s))"
proof -
  have rows: "keeps (spends (\<lambda>_. 0) s) (invalidate_rows E chain block n rs)" for n rs
  proof (induction rs arbitrary: n)
    case (Cons r rs)
    have closed: "spends (\<lambda>_. 0) s u" if "spends (\<lambda>_. 0) s t" "nt_sent u = nt_sent t"
        "nt_deliveries u = jset (nd_deliveryId x) x (nt_deliveries t)" "nd_status x = Del_invalidated"
      for t u :: "'a notifier" and x
      by (rule close_spends [OF that(1), of x "nd_deliveryId x"]) (use that in auto)
    have save: "keeps (spends (\<lambda>_. 0) s) (saveDelivery x)" if "nd_status x = Del_invalidated" for x
      by (auto simp: keeps_wp wp_simps that intro: closed)
    have clock: "keeps (spends (\<lambda>_. 0) s) (clockA E)"
      by (auto simp: keeps_wp wp_simps split: prod.split)
    show ?case
      unfolding invalidate_rows.simps
      by (intro keeps_if keeps_option keeps_throw keeps_bind Cons.IH save clock) simp_all
  qed (simp add: keeps_return)
  have "keeps (spends (\<lambda>_. 0) s) (invalidateDeliveriesAboveBlock E chain block)"
    unfolding invalidateDeliveriesAboveBlock_def listDeliveries_def by (intro keeps_bind keeps_gets rows)
  from snd_keeps [OF this] spends_refl [OF assms] show ?thesis by blast
qed

lemma dead_letter_spends:
  assumes "rows_by_id (nt_deliveries s)"
  shows "spends (\<lambda>_. 0) s (snd (deadLetterDelivery E i reason s))"
proof (cases "jget (nt_deliveries s) i")
  case (Some r)
  then have "nd_deliveryId r = i" using assms by (simp add: rows_by_id_def)
  then have closed: "spends (\<lambda>_. 0) s u" if "nt_sent u = nt_sent s"
      "nt_deliveries u = jset i x (nt_deliveries s)" "nd_status x = Del_dead_letter" "nd_deliveryId x = i"
    for u :: "'a notifier" and x
    by (intro close_spends [OF spends_refl [OF assms], of x i]) (use that in auto)
  have "wp (deadLetterDelivery E i reason) (\<lambda>_. spends (\<lambda>_. 0) s) (\<lambda>_. spends (\<lambda>_. 0) s) s"
    using Some \<open>nd_deliveryId r = i\<close>
    by (auto simp: deadLetterDelivery_def wp_simps simp del: spends_world split: prod.split intro!: closed)
  then show ?thesis by (simp add: wp_result split: sum.splits)
qed (use assms in \<open>simp add: deadLetterDelivery_def bindA_def getDelivery_def getsA_def returnA_def spends_refl\<close>)

text \<open>A row sent by an operator.\<close>

definition operator_allowance :: "string \<Rightarrow> string \<Rightarrow> nat" where
  "operator_allowance i j = (if j = i then MAX_AUTOMATIC_DELIVERY_ATTEMPTS else 0)"

lemma operator_spends:
  assumes k: "rows_by_id (nt_deliveries s)" and r: "nd_deliveryId r = i" and m: "length log \<le> 1"
    and log: "\<forall>x \<in> set log. nd_deliveryId x = i"
    and b: "log = [] \<or> nd_status r \<in> {Del_sent, Del_skipped} \<or> nd_status r = Del_failed \<and> 1 \<le> nd_attempts r"
    and u: "nt_sent u = nt_sent s @ log" "\<And>j. jget (nt_deliveries u) j = (if j = i then Some r else jget (nt_deliveries s) j)"
      "distinct (jkeys (nt_deliveries u))"
  shows "spends (operator_allowance i) s u"
proof -
  have "rows_by_id (nt_deliveries u)" using k r u(2,3) by (auto simp: rows_by_id_def split: if_splits)
  moreover have "sends i log = length log" using log by (simp add: sends_def filter_id_conv [THEN iffD2])
  moreover have "sends j log = 0" if "j \<noteq> i" for j using log that by (auto simp: sends_def filter_empty_conv)
  moreover have "length log + budget (Some r) \<le> MAX_AUTOMATIC_DELIVERY_ATTEMPTS"
    using b m budget_le [of "Some r"] by (auto simp: budget_def MAX_AUTOMATIC_DELIVERY_ATTEMPTS_def)
  ultimately show ?thesis by (auto simp: spends_def operator_allowance_def u)
qed


lemma redeliver_spends:
  fixes s :: "'w notifier"
  assumes k: "rows_by_id (nt_deliveries s)" and r: "jget (nt_deliveries s) i = Some r"
  shows "wp (redeliver E r) (\<lambda>_. spends (operator_allowance i) s) (\<lambda>_. spends (operator_allowance i) s) s"
proof -
  let ?P = "\<lambda>now. r\<lparr>nd_reason := None, nd_lastError := None, nd_status := Del_pending, nd_updatedAt := now\<rparr>"
  define mid where "mid = (\<lambda>now (u :: 'w notifier). nt_sent u = nt_sent s \<and> nt_deliveries u = jset i (?P now) (nt_deliveries s))"
  have i: "nd_deliveryId r = i" using k r by (simp add: rows_by_id_def)
  have fin: "spends (operator_allowance i) s w"
    if "mid now u" "nt_sent w = nt_sent u @ log" "nd_deliveryId x = i"
      "nt_deliveries w = nt_deliveries u \<and> x = ?P now \<or> nt_deliveries w = jset i x (nt_deliveries u)"
      "log = [] \<or> nd_status x \<in> {Del_sent, Del_skipped} \<or> nd_status x = Del_failed \<and> 1 \<le> nd_attempts x"
      "log = [] \<or> log = [?P now]" for now u w log x
    by (rule operator_spends [OF k, of x i log]) (use that i k in \<open>auto simp: mid_def rows_by_id_def\<close>)
  have prepared: "wp (dispatchPreparedDelivery E (?P now) profile tr)
      (\<lambda>_. spends (operator_allowance i) s) (\<lambda>_. spends (operator_allowance i) s) u"
    if "mid now u" for now profile tr and u :: "'w notifier"
  proof (cases "ne_send E")
    case None
    then show ?thesis
      by (auto simp: dispatchPreparedDelivery_def wp_simps i simp del: spends_world split: prod.split
        intro!: fin [OF that, where log = "[]"])
  next
    case (Some send)
    then show ?thesis
      by (auto simp: dispatchPreparedDelivery_def wp_simps i simp del: spends_world split: prod.split sum.split
        intro!: fin [OF that, where log = "[?P now]"])
  qed
  have resolve: "wp (resolveRetryTransport E (?P now)) (\<lambda>_. mid now) (\<lambda>_. mid now) u"
    if "mid now u" for now and u :: "'w notifier"
    using that by (auto simp: resolveRetryTransport_def Let_def wp_simps mid_def split: prod.split sum.split option.split)
  have skipped: "wp (bindA (clockA E) (\<lambda>t. saveDelivery ((?P now)\<lparr>nd_status := Del_skipped, nd_reason := Some reason,
        nd_updatedAt := t\<rparr>))) (\<lambda>_. spends (operator_allowance i) s) (\<lambda>_. spends (operator_allowance i) s) u"
    if "mid now u" for now reason and u :: "'w notifier"
    by (auto simp: wp_simps i simp del: spends_world split: prod.split intro!: fin [OF that, where log = "[]"])
  have rest: "wp (bindA (resolveRetryTransport E (?P now)) (\<lambda>resolved. case resolved of
       Inl reason \<Rightarrow>
         bindA (clockA E) (\<lambda>t. saveDelivery ((?P now)\<lparr>nd_status := Del_skipped, nd_reason := Some reason, nd_updatedAt := t\<rparr>))
     | Inr (profile, t) \<Rightarrow> dispatchPreparedDelivery E (?P now) profile t))
      (\<lambda>_. spends (operator_allowance i) s) (\<lambda>_. spends (operator_allowance i) s) u" if "mid now u" for now u
    unfolding wp_bind
  proof (rule wp_mono [OF resolve [OF that]])
    fix x w assume "mid now w"
    from skipped [OF this] prepared [OF this]
    show "wp (case x of
         Inl reason \<Rightarrow> bindA (clockA E) (\<lambda>t. saveDelivery ((?P now)\<lparr>nd_status := Del_skipped,
           nd_reason := Some reason, nd_updatedAt := t\<rparr>))
       | Inr (profile, t) \<Rightarrow> dispatchPreparedDelivery E (?P now) profile t)
      (\<lambda>_. spends (operator_allowance i) s) (\<lambda>_. spends (operator_allowance i) s) w"
      by (auto split: sum.split prod.split)
  next
    fix e w assume "mid now w"
    then show "spends (operator_allowance i) s w"
      by (rule fin [where u = w and now = now and log = "[]" and x = "?P now"]) (simp_all add: i)
  qed
  show ?thesis
    unfolding redeliver_def wp_bind wp_clock wp_saveDelivery
    by (auto simp: i split: prod.split intro!: rest [unfolded wp_bind]) (simp add: mid_def)
qed

lemma operator_step_spends:
  assumes "rows_by_id (nt_deliveries s)"
  shows "spends (operator_allowance i) s (snd (retryDelivery E i s))"
    and "spends (operator_allowance i) s (snd (reopenDelivery E i s))"
proof -
  let ?Q = "spends (operator_allowance i) s"
  have go: "wp (bindA (redeliver E r) (\<lambda>d. returnA (f d))) (\<lambda>_. ?Q) (\<lambda>_. ?Q) s"
    if "jget (nt_deliveries s) i = Some r" for r f
    unfolding wp_bind wp_return_fun by (rule redeliver_spends [OF assms that])
  have "wp (retryDelivery E i) (\<lambda>_. ?Q) (\<lambda>_. ?Q) s" "wp (reopenDelivery E i) (\<lambda>_. ?Q) (\<lambda>_. ?Q) s"
    unfolding retryDelivery_def reopenDelivery_def wp_bind [of "getDelivery i"] wp_getDelivery
    by (cases "jget (nt_deliveries s) i"; simp add: wp_return wp_if go spends_refl [OF assms])+
  then show "?Q (snd (retryDelivery E i s))" "?Q (snd (reopenDelivery E i s))"
    by (simp_all add: wp_result split: sum.splits)
qed

text \<open>
  C10: Messages are bounded. Whatever passes, new projections, rollbacks and operator actions
  follow each other, and whether or not they throw, at most five messages are sent for an
  identifier, and five more for each time an operator retries or reopens its row.
\<close>

theorem messages_are_bounded:
  assumes "nt_deliveries s = []" and "nt_sent s = []"
  shows "sends i (nt_sent (run_ledger E ops s))
    \<le> MAX_AUTOMATIC_DELIVERY_ATTEMPTS * (1 + length (filter (operator_sends i) ops))"
proof -
  have "rows_by_id (nt_deliveries (run_ledger E ops s)) \<and>
      sends i (nt_sent (run_ledger E ops s)) + budget (jget (nt_deliveries (run_ledger E ops s)) i)
        \<le> MAX_AUTOMATIC_DELIVERY_ATTEMPTS * (1 + length (filter (operator_sends i) ops))"
  proof (induction ops rule: rev_induct)
    case Nil
    then show ?case by (simp add: run_ledger_def assms rows_by_id_def sends_def budget_def)
  next
    case (snoc act ops)
    let ?t = "run_ledger E ops s"
    have k: "rows_by_id (nt_deliveries ?t)" using snoc by simp
    have "\<exists>m. spends m ?t (ledger_step E ?t act) \<and> m i \<le> (if operator_sends i act then MAX_AUTOMATIC_DELIVERY_ATTEMPTS else 0)"
    proof (cases act)
      case (New_projections ps)
      then show ?thesis using k by (intro exI [of _ "\<lambda>_. 0"]) (simp add: spends_def)
    next
      case (Retry j)
      then show ?thesis using operator_step_spends(1) [OF k, of j E]
        by (intro exI [of _ "operator_allowance j"]) (auto simp: operator_allowance_def operator_sends_def)
    next
      case (Reopen j)
      then show ?thesis using operator_step_spends(2) [OF k, of j E]
        by (intro exI [of _ "operator_allowance j"]) (auto simp: operator_allowance_def operator_sends_def)
    qed (use process_spends [OF k] invalidate_spends [OF k] dead_letter_spends [OF k] in \<open>auto intro!: exI [of _ "\<lambda>_. 0"]\<close>)
    then obtain m where "spends m ?t (ledger_step E ?t act)"
      "m i \<le> (if operator_sends i act then MAX_AUTOMATIC_DELIVERY_ATTEMPTS else 0)" by blast
    with snoc show ?case by (fastforce simp: run_ledger_def spends_def dest: spec [of _ i] split: if_splits)
  qed
  then show ?thesis by simp
qed


section \<open>Settled rows\<close>

text \<open>
  C11: A pass leaves settled rows alone. Whatever batch is processed, again or for the first time,
  and even if the pass throws, a row that was sent, skipped, given up or rolled back stays as it
  is and no message is sent for it; a row that is still open costs at most the attempts it has
  left. So the indexer may hand over a batch twice.
\<close>

theorem settled_rows_are_left_alone:
  assumes "rows_by_id (nt_deliveries s)"
  shows "case processSignalSubmittedEvents E events s of (res, t) \<Rightarrow>
    rows_by_id (nt_deliveries t) \<and> (\<exists>log. nt_sent t = nt_sent s @ log \<and> (\<forall>i.
      sends i log \<le> budget (jget (nt_deliveries s) i)
      \<and> (\<forall>r. jget (nt_deliveries s) i = Some r \<longrightarrow> jget (nt_deliveries t) i \<noteq> None
          \<and> (closed_row r \<longrightarrow> jget (nt_deliveries t) i = Some r \<and> sends i log = 0))))"
proof -
  have "follows s (snd (processSignalSubmittedEvents E events s))"
    by (intro snd_keeps [OF follows_process] follows_refl assms)
  then obtain log where k: "rows_by_id (nt_deliveries (snd (processSignalSubmittedEvents E events s)))"
    and log: "nt_sent (snd (processSignalSubmittedEvents E events s)) = nt_sent s @ log"
    "\<And>i. row_path (jget (nt_deliveries s) i)
      (jget (nt_deliveries (snd (processSignalSubmittedEvents E events s))) i) (sends i log)"
    by (auto simp: follows_def)
  have "sends i log \<le> budget (jget (nt_deliveries s) i)" for i
    using row_path_budget [OF log(2) [of i]] by simp
  with k log(1) row_path_settled [OF log(2)] row_path_present [OF log(2)] show ?thesis
    by (auto split: prod.split)
qed

section \<open>Rollbacks\<close>

definition block_of :: "delivery \<Rightarrow> int option" where
  "block_of r = parse_bigint (npf_blockNumber (npl_proof (nd_payload r)))"

text \<open>The rows that a rollback of a chain to a block concerns.\<close>

definition rolled_back :: "int \<Rightarrow> int \<Rightarrow> delivery \<Rightarrow> bool" where
  "rolled_back chain block r \<longleftrightarrow> nd_status r \<noteq> Del_invalidated \<and> nd_chainId r = chain
     \<and> (\<exists>b. block_of r = Some b \<and> block < b)"

definition marked :: "delivery \<Rightarrow> delivery \<Rightarrow> bool" where
  "marked r r' \<longleftrightarrow> (\<exists>now. r' = r\<lparr>nd_status := Del_invalidated, nd_reason := Some ''reorg_rolled_back'',
     nd_updatedAt := now\<rparr>)"

lemma invalidate_rows_exact:
  fixes s :: "'w notifier"
  assumes "distinct (map nd_deliveryId rs)" and "\<forall>r \<in> set rs. block_of r \<noteq> None"
    and "\<forall>r \<in> set rs. jget (nt_deliveries s) (nd_deliveryId r) = Some r"
  shows "wp (invalidate_rows E chain block n rs) (\<lambda>m t. m = n + length (filter (rolled_back chain block) rs)
      \<and> nt_sent t = nt_sent s \<and> nt_store t = nt_store s
      \<and> (\<forall>i. i \<notin> nd_deliveryId ` set rs \<longrightarrow> jget (nt_deliveries t) i = jget (nt_deliveries s) i)
      \<and> (\<forall>r \<in> set rs. if rolled_back chain block r
           then \<exists>r'. jget (nt_deliveries t) (nd_deliveryId r) = Some r' \<and> marked r r'
           else jget (nt_deliveries t) (nd_deliveryId r) = Some r)) (\<lambda>_ _. False) s"
  using assms
proof (induction rs arbitrary: n s)
  case (Cons r rs)
  obtain b where b: "block_of r = Some b" using Cons.prems(2) by auto
  show ?case
  proof (cases "rolled_back chain block r")
    case False
    with b have "invalidate_rows E chain block n (r # rs) = invalidate_rows E chain block n rs"
      by (auto simp: rolled_back_def block_of_def)
    with Cons.IH [of s n] Cons.prems False show ?thesis
      by (auto elim!: wp_mono)
  next
    case True
    then have step: "invalidate_rows E chain block n (r # rs) = bindA (clockA E) (\<lambda>now.
        bindA (saveDelivery (r\<lparr>nd_status := Del_invalidated, nd_reason := Some ''reorg_rolled_back'', nd_updatedAt := now\<rparr>))
          (\<lambda>_. invalidate_rows E chain block (n + 1) rs))"
      using b by (auto simp: rolled_back_def block_of_def)
    let ?Q = "\<lambda>m t. m = n + length (filter (rolled_back chain block) (r # rs))
      \<and> nt_sent t = nt_sent s \<and> nt_store t = nt_store s
      \<and> (\<forall>i. i \<notin> nd_deliveryId ` set (r # rs) \<longrightarrow> jget (nt_deliveries t) i = jget (nt_deliveries s) i)
      \<and> (\<forall>r \<in> set (r # rs). if rolled_back chain block r
           then \<exists>r'. jget (nt_deliveries t) (nd_deliveryId r) = Some r' \<and> marked r r'
           else jget (nt_deliveries t) (nd_deliveryId r) = Some r)"
    have rest: "wp (invalidate_rows E chain block (n + 1) rs) ?Q (\<lambda>_ _. False) t"
      if "nt_sent t = nt_sent s" "nt_store t = nt_store s"
        "nt_deliveries t = jset (nd_deliveryId r) x (nt_deliveries s)" "marked r x" for t x
    proof (rule wp_mono [OF Cons.IH [of t "n + 1"]])
      show "\<forall>x \<in> set rs. jget (nt_deliveries t) (nd_deliveryId x) = Some x"
        using Cons.prems that(3) by (auto simp: image_iff)
    qed (use Cons.prems True that in auto)
    show ?thesis
      unfolding step wp_bind wp_clock wp_saveDelivery case_prod_beta
      by (rule rest) (auto simp: marked_def)
  qed
qed (simp add: wp_simps)


text \<open>
  C12: A rollback marks exactly the rows above its block. Every row of the chain whose block lies
  above the one given is marked as invalidated, with its reason; the number of these is returned;
  every other row, rows of other chains included, stays as it is, and nothing is sent. Doing it
  again marks nothing.
\<close>

theorem rollback_marks_exactly_the_rows_above:
  assumes "rows_by_id (nt_deliveries s)" and "\<forall>r \<in> set (jvalues (nt_deliveries s)). block_of r \<noteq> None"
  shows "\<exists>t. invalidateDeliveriesAboveBlock E chain block s
      = (Inr (length (filter (rolled_back chain block) (jvalues (nt_deliveries s)))), t)
    \<and> nt_sent t = nt_sent s
    \<and> (\<forall>i. case jget (nt_deliveries s) i of
         None \<Rightarrow> jget (nt_deliveries t) i = None
       | Some r \<Rightarrow> if rolled_back chain block r
           then \<exists>r'. jget (nt_deliveries t) i = Some r' \<and> marked r r' \<and> \<not> rolled_back chain block r'
           else jget (nt_deliveries t) i = Some r)"
proof -
  let ?rows = "jvalues (nt_deliveries s)"
  let ?rs = "js_sort compareDeliveryRecords (filter (delivery_passes any_delivery) ?rows)"
  have all: "filter (delivery_passes any_delivery) ?rows = ?rows"
    by (auto simp: delivery_passes_def any_delivery_def filter_id_conv)
  have ids: "nd_deliveryId r = i" if "(i, r) \<in> set (nt_deliveries s)" for i r
    using assms(1) that by (simp add: rows_by_id_def)
  then have keys: "map (nd_deliveryId \<circ> snd) (nt_deliveries s) = jkeys (nt_deliveries s)" by auto
  then have d: "distinct (map nd_deliveryId ?rs)"
    using assms(1) unfolding all distinct_map_js_sort by (simp add: rows_by_id_def keys)
  have present: "jget (nt_deliveries s) (nd_deliveryId r) = Some r" if "r \<in> set ?rs" for r
    using that ids assms(1) by (auto simp: all rows_by_id_def)
  have n: "length (filter (rolled_back chain block) ?rs) = length (filter (rolled_back chain block) ?rows)"
    unfolding all by (metis mset_filter mset_js_sort size_mset)
  from invalidate_rows_exact [OF d _ ballI [OF present], of E chain block 0] assms(2)
  have "wp (invalidateDeliveriesAboveBlock E chain block) (\<lambda>m t. m = length (filter (rolled_back chain block) ?rs)
      \<and> nt_sent t = nt_sent s \<and> nt_store t = nt_store s
      \<and> (\<forall>i. i \<notin> nd_deliveryId ` set ?rs \<longrightarrow> jget (nt_deliveries t) i = jget (nt_deliveries s) i)
      \<and> (\<forall>r \<in> set ?rs. if rolled_back chain block r
           then \<exists>r'. jget (nt_deliveries t) (nd_deliveryId r) = Some r' \<and> marked r r'
           else jget (nt_deliveries t) (nd_deliveryId r) = Some r)) (\<lambda>_ _. False) s"
    by (simp add: invalidateDeliveriesAboveBlock_def listDeliveries_def wp_bind wp_gets all)
  from wp_ends [OF this] obtain m t where t: "invalidateDeliveriesAboveBlock E chain block s = (Inr m, t)"
    "m = length (filter (rolled_back chain block) ?rs)" "nt_sent t = nt_sent s"
    "\<forall>i. i \<notin> nd_deliveryId ` set ?rs \<longrightarrow> jget (nt_deliveries t) i = jget (nt_deliveries s) i"
    "\<forall>r \<in> set ?rs. if rolled_back chain block r
       then \<exists>r'. jget (nt_deliveries t) (nd_deliveryId r) = Some r' \<and> marked r r'
       else jget (nt_deliveries t) (nd_deliveryId r) = Some r" by blast
  have again: "\<not> rolled_back chain block r'" if "marked r r'" for r r'
    using that by (auto simp: marked_def rolled_back_def)
  have "case jget (nt_deliveries s) i of
         None \<Rightarrow> jget (nt_deliveries t) i = None
       | Some r \<Rightarrow> if rolled_back chain block r
           then \<exists>r'. jget (nt_deliveries t) i = Some r' \<and> marked r r' \<and> \<not> rolled_back chain block r'
           else jget (nt_deliveries t) i = Some r" for i
  proof (cases "jget (nt_deliveries s) i")
    case None
    with present have "i \<notin> nd_deliveryId ` set ?rs" by force
    with t(4) None show ?thesis by simp
  next
    case (Some r)
    then have "nd_deliveryId r = i" "r \<in> set ?rs"
      using assms(1) by (auto simp: all rows_by_id_def image_iff dest: map_of_SomeD intro: bexI [of _ "(i, r)"])
    with bspec [OF t(5) this(2)] Some again show ?thesis by auto
  qed
  with t(1-3) n show ?thesis by auto
qed

section \<open>No signal is dropped silently\<close>

text \<open>The signal of an event in the projected order.\<close>

definition projected_signal :: "chain_event \<Rightarrow> order_proj \<Rightarrow> signal_proj option" where
  "projected_signal e x = (case (bytes32Arg e ''sourceId'', bytes32Arg e ''signalId'') of
     (Some src, Some sig) \<Rightarrow> jget (or_signals x) (join_colon [src, sig]) | _ \<Rightarrow> None)"

text \<open>The identifier under which a signal that cannot be attributed is recorded.\<close>

definition unattributed :: "'w notification_env \<Rightarrow> projection_store \<Rightarrow> chain_event \<Rightarrow> string option" where
  "unattributed E ps e = (case (bytes32Arg e ''planId'', bytes32Arg e ''orderId'') of
       (Some planId, Some orderId) \<Rightarrow>
         (case getStateMachineOrder (stateMachineOrderProjectionKey (chainId e) (contractAddress e) planId orderId) None ps of
            None \<Rightarrow> Some (signalDeliveryIdFor E e None None None None)
          | Some x \<Rightarrow>
              (if projected_signal e x = None then Some (signalDeliveryIdFor E e (Some x) None None None) else None))
     | _ \<Rightarrow> Some (signalDeliveryIdFor E e None None None None))"

lemma skip_leaves_a_row:
  "wp (saveSkippedSignalDelivery E e order signal hook supplier reason tt)
     (\<lambda>_ t. jget (nt_deliveries t) (signalDeliveryIdFor E e order signal hook supplier) \<noteq> None) (\<lambda>_ _. True) s"
  by (auto simp: saveSkippedSignalDelivery_def wp_simps keep_if_Some split: option.split prod.split)

lemma skipped_event_leaves_a_row:
  "wp (bindA (saveSkippedSignalDelivery E e order signal hook supplier reason tt) (\<lambda>r. returnA (f r)))
     (\<lambda>_ t. jget (nt_deliveries t) (signalDeliveryIdFor E e order signal hook supplier) \<noteq> None) (\<lambda>_ _. True) s"
  unfolding wp_bind wp_return_fun by (rule skip_leaves_a_row)

lemma event_leaves_a_row:
  assumes "unattributed E (nt_store s) e = Some i"
  shows "wp (notify_event E su e) (\<lambda>_ t. jget (nt_deliveries t) i \<noteq> None) (\<lambda>_ _. True) s"
proof -
  note skips = skipped_event_leaves_a_row [where hook = None and supplier = None]
  show ?thesis
    using assms skips [of E e]
    by (auto simp: notify_event_def unattributed_def projected_signal_def Let_def wp_bind [of "getsA _"] wp_gets
      split: option.splits if_splits)
qed

text \<open>
  C13: No signal is dropped silently. When a pass returns, every finalized signal of the batch that
  could not be attributed - its identifiers missing or malformed, its order or the signal itself
  not projected - has a row in the ledger, where an operator finds it.
\<close>

theorem unattributed_signals_leave_a_row:
  assumes "rows_by_id (nt_deliveries s)"
    and "processSignalSubmittedEvents E events s = (Inr n, t)"
    and "e \<in> set (finalizedSignalSubmittedEvents events (Option.bind (ps_syncState (nt_store s)) sy_finalizedBlock))"
    and "unattributed E (nt_store s) e = Some i"
  shows "\<exists>r. jget (nt_deliveries t) i = Some r"
proof -
  have kept: "wp (notify_events E su es) (\<lambda>_ t. jget (nt_deliveries t) i \<noteq> None) (\<lambda>_ _. True) u"
    if "rows_by_id (nt_deliveries u)" "jget (nt_deliveries u) i \<noteq> None" for su es and u :: "'a notifier"
  proof -
    have "keeps (follows u) (notify_events E su es)"
      by (induction es arbitrary: su) (auto intro!: follows_intros follows_event)
    from keepsD [OF this follows_refl [OF that(1)]]
    have "wp (notify_events E su es) (\<lambda>_. follows u) (\<lambda>_. follows u) u" .
    then show ?thesis by (rule wp_mono) (use that(2) in \<open>auto simp: follows_def dest!: row_path_present\<close>)
  qed
  have "wp (notify_events E su es) (\<lambda>_ t. jget (nt_deliveries t) i \<noteq> None) (\<lambda>_ _. True) u"
    if "rows_by_id (nt_deliveries u)" "nt_store u = nt_store s" "e \<in> set es" for su es and u :: "'a notifier"
    using that
  proof (induction es arbitrary: su u)
    case (Cons e' es)
    have f: "wp (notify_event E su e') (\<lambda>_. follows u) (\<lambda>_. follows u) u"
      by (rule keepsD [OF follows_event follows_refl [OF Cons.prems(1)]])
    show ?case
    proof (cases "e' = e")
      case True
      have "wp (notify_event E su e') (\<lambda>_ t. jget (nt_deliveries t) i \<noteq> None) (\<lambda>_ _. True) u"
        using event_leaves_a_row assms(4) Cons.prems(2) True by metis
      with f have "wp (notify_event E su e') (\<lambda>_ t. follows u t \<and> jget (nt_deliveries t) i \<noteq> None) (\<lambda>_ _. True) u"
        by (auto simp: wp_result split: sum.splits)
      then show ?thesis
        unfolding notify_events.simps wp_bind by (rule wp_mono) (use kept in \<open>auto simp: follows_def\<close>)
    next
      case False
      from f show ?thesis
        unfolding notify_events.simps wp_bind
        by (rule wp_mono) (use Cons False in \<open>auto simp: follows_def intro!: Cons.IH\<close>)
    qed
  qed simp
  from this [OF assms(1) refl assms(3)]
  have "wp (processSignalSubmittedEvents E events) (\<lambda>_ t. jget (nt_deliveries t) i \<noteq> None) (\<lambda>_ _. True) s"
    by (simp add: processSignalSubmittedEvents_def wp_bind [of "getsA _"] wp_gets)
  with assms(2) show ?thesis by (auto simp: wp_result)
qed

end
