(* ===== verification/NotifySamples.thy ===== *)
theory NotifySamples imports NotifyClaims Samples begin

text \<open>
  The notification theorems on a concrete ledger: one order with one signal, one hook that waits
  for it and one supplier reached by a webhook that never answers. The world counts the messages.
\<close>

definition word_of :: "char \<Rightarrow> string" where
  "word_of c = ''0x'' @ replicate 64 c"

definition hooked_event :: chain_event where
  "hooked_event = sample_event 2 ''SignalSubmitted''
     [(''planId'', JStr (word_of CHR ''1'')), (''orderId'', JStr (word_of CHR ''2'')),
      (''sourceId'', JStr (word_of CHR ''3'')), (''signalId'', JStr (word_of CHR ''4''))]"

definition hooked_order :: order_proj where
  "hooked_order = (newOrder hooked_event (word_of CHR ''2'') (Some (word_of CHR ''1'')) None ''a'')
     \<lparr>or_signals := [(join_colon [word_of CHR ''3'', word_of CHR ''4''], sample_signal)]\<rparr>"

definition hooked_store :: projection_store where
  "hooked_store = empty_projection_store\<lparr>ps_snapshot := createEmptyProjectionSnapshot
     \<lparr>sn_stateMachineOrders := [(stateMachineOrderProjectionKey 1 ''a'' (word_of CHR ''1'') (word_of CHR ''2''),
        hooked_order)]\<rparr>\<rparr>"

definition sample_supplier :: supplier_row where
  "sample_supplier = \<lparr>su_supplierId = ''u'', su_supplierSubjectId = ''u'', su_displayName = ''u'',
     su_wallet = Some ''w'', su_notificationProfile = Some \<lparr>np_supplierSubjectId = None, np_wallet = None,
       np_transports = [\<lparr>tr_priority = None, tr_enabled = None, tr_target = Webhook ''r'' None None\<rparr>],
       np_productTaskUrlTemplate = None, np_metadata = None\<rparr>,
     su_notificationProfileHash = None, su_notificationUpdatedAt = None, su_capabilityTags = [],
     su_supportedRoleSlotIds = [], su_supportedStageIds = [''s''], su_registryAddresses = [],
     su_reviewStatus = ''approved'', su_metadataURI = None, su_createdAt = [], su_updatedAt = []\<rparr>"

definition sample_artifact :: plan_artifact where
  "sample_artifact = \<lparr>pa_compiledHooks = [\<lparr>oh_hookId = ''k'', oh_stageId = ''s'', oh_hookName = ''n'',
     oh_kind = ''receive'', oh_dependencies = [(''h'', ''g'')]\<rparr>], pa_dependencyIndex = []\<rparr>"

definition notice_env :: "nat notification_env" where
  "notice_env = \<lparr>ne_keccak = (\<lambda>_. ''d''), ne_signalKey = (\<lambda>a b. a @ b),
     ne_planArtifact = Some (\<lambda>_ w. (Inr (Some sample_artifact), w)), ne_schemaArtifact = None,
     ne_listSuppliers = Some (\<lambda>w. (Inr [sample_supplier], w)),
     ne_send = Some (\<lambda>_ _ _ w. (Inr \<lparr>dr_ok = False, dr_activationStatus = None,
       dr_externalReceiptRef = None, dr_error = None\<rparr>, Suc w)),
     ne_now = (\<lambda>w. (''t'', w)), ne_redact = (\<lambda>s. s), ne_describe = (\<lambda>_. ''e'')\<rparr>"

definition notice_start :: "nat notifier" where
  "notice_start = \<lparr>nt_store = hooked_store, nt_deliveries = [], nt_world = 0, nt_sent = []\<rparr>"

lemma word_of_hex: "base_digit 16 c \<noteq> None \<Longrightarrow> lower_char c = c \<Longrightarrow>
    hex_word 64 (word_of c) \<and> toLowerCase (word_of c) = word_of c"
  by (simp add: hex_word_def word_of_def toLowerCase_def list_all_iff lower_char_def)

lemma words [simp]:
  "hex_word 64 (word_of CHR ''1'')" "toLowerCase (word_of CHR ''1'') = word_of CHR ''1''"
  "hex_word 64 (word_of CHR ''2'')" "toLowerCase (word_of CHR ''2'') = word_of CHR ''2''"
  "hex_word 64 (word_of CHR ''3'')" "toLowerCase (word_of CHR ''3'') = word_of CHR ''3''"
  "hex_word 64 (word_of CHR ''4'')" "toLowerCase (word_of CHR ''4'') = word_of CHR ''4''"
  using word_of_hex by (simp_all add: base_digit_def lower_char_def)

lemma hooked_args [simp]:
  "bytes32Arg hooked_event ''planId'' = Some (word_of CHR ''1'')"
  "bytes32Arg hooked_event ''orderId'' = Some (word_of CHR ''2'')"
  "bytes32Arg hooked_event ''sourceId'' = Some (word_of CHR ''3'')"
  "bytes32Arg hooked_event ''signalId'' = Some (word_of CHR ''4'')"
  by (simp_all add: bytes32Arg_def hex_arg_def jfield_def hooked_event_def sample_event_def)

lemma hooked_finalized: "finalizedSignalSubmittedEvents [hooked_event] None = [hooked_event]"
  by code_simp

lemma hooked_found:
  "getStateMachineOrder (stateMachineOrderProjectionKey 1 ''a'' (word_of CHR ''1'') (word_of CHR ''2'')) None
     hooked_store = Some hooked_order"
  by (simp add: getStateMachineOrder_def hooked_store_def opt_or_def)

lemma hooked_fields [simp]:
  "chainId hooked_event = 1" "contractAddress hooked_event = ''a''" "blockNumber hooked_event = 2"
  "addressArg hooked_event ''submitter'' = None"
  "or_authorizations hooked_order = []" "or_stageExecutorOverlays hooked_order = []" "or_tasks hooked_order = []"
  "or_signals hooked_order = [(join_colon [word_of CHR ''3'', word_of CHR ''4''], sample_signal)]"
  by (simp_all add: addressArg_def hex_arg_def jfield_def hooked_event_def sample_event_def hooked_order_def newOrder_def)

definition sample_compiled_hook :: compiled_hook where
  "sample_compiled_hook = hd (pa_compiledHooks sample_artifact)"

lemma sample_receivers: "receiverHooksForSignal notice_env sample_artifact sample_signal = [sample_compiled_hook]"
  by code_simp

lemma sample_transport:
  "chooseTransport (the (su_notificationProfile sample_supplier)) =
     Some (hd (np_transports (the (su_notificationProfile sample_supplier))))"
  by code_simp

lemma sample_supplier_found:
  "resolveReceiverSupplier hooked_order sample_compiled_hook [sample_supplier] = Inr sample_supplier"
  by (simp add: resolveReceiverSupplier_def receiverAuthorizationWallet_def Let_def) code_simp

lemma hooked_pass:
  assumes "nt_store s = hooked_store"
  shows "snd (processSignalSubmittedEvents notice_env [hooked_event] s)
    = snd (dispatchSignalTransportDelivery notice_env hooked_event hooked_order sample_signal sample_compiled_hook
        sample_supplier (the (su_notificationProfile sample_supplier))
        (hd (np_transports (the (su_notificationProfile sample_supplier)))) s)"
proof -
  have hook: "notify_hook notice_env hooked_event hooked_order sample_signal [sample_supplier] sample_compiled_hook
      = dispatchSignalTransportDelivery notice_env hooked_event hooked_order sample_signal sample_compiled_hook
        sample_supplier (the (su_notificationProfile sample_supplier))
        (hd (np_transports (the (su_notificationProfile sample_supplier))))"
    using sample_transport
    by (simp add: notify_hook_def sample_supplier_found) (simp add: sample_supplier_def tr_type_def isPushTransport_def)
  have env: "ne_listSuppliers notice_env = Some (\<lambda>w. (Inr [sample_supplier], w))"
    "ne_planArtifact notice_env = Some (\<lambda>_ w. (Inr (Some sample_artifact), w))" by (simp_all add: notice_env_def)
  have sync: "ps_syncState hooked_store = None" by (simp add: hooked_store_def empty_projection_store_def)
  show ?thesis
    by (simp add: processSignalSubmittedEvents_def assms bindA_def getsA_def returnA_def outsideA_def sync
      hooked_finalized notify_event_def hooked_found Let_def env resolvePlanArtifact_def sample_receivers hook
      split: sum.split prod.split)
qed

definition notice_row :: "delivery_status \<Rightarrow> nat \<Rightarrow> delivery" where
  "notice_row st n =
     \<lparr>nd_deliveryId = ''d'', nd_status = st, nd_taskId = None, nd_orderId = ''o'', nd_receiverHookId = Some ''k'',
      nd_receiverStageId = Some ''s'', nd_sourceId = Some ''h'', nd_signalId = Some ''g'', nd_payloadHash = None,
      nd_idempotencyKey = None, nd_chainId = 1, nd_stateMachineAddress = ''a'', nd_submitter = None,
      nd_supplierSubjectId = Some ''u'', nd_supplierWallet = Some ''w'', nd_transportType = Some ''webhook'',
      nd_activationStatus = None, nd_externalReceiptRef = None, nd_reason = None,
      nd_payload = payloadForSignal ready_event None None None None, nd_attempts = n, nd_lastError = None,
      nd_createdAt = ''t'', nd_updatedAt = ''t''\<rparr>"

definition ledger_with :: "delivery \<Rightarrow> nat notifier" where
  "ledger_with r = notice_start\<lparr>nt_deliveries := [(nd_deliveryId r, r)]\<rparr>"

lemma given_up_row_is_sent_again:
  "sends ''d'' (nt_sent (run_ledger notice_env [Give_up_row ''d'' None, Reopen ''d''] (ledger_with (notice_row Del_sent 1)))) = 1"
  "sends ''d'' (nt_sent (run_ledger notice_env [Give_up_row ''d'' None, Reopen ''d''] (ledger_with (notice_row Del_invalidated 1)))) = 1"
  by code_simp+

lemma notice_fields [simp]:
  "ne_keccak notice_env = (\<lambda>_. ''d'')" "ne_now notice_env = (\<lambda>w. (''t'', w))"
  "ne_send notice_env = Some (\<lambda>_ _ _ w. (Inr \<lparr>dr_ok = False, dr_activationStatus = None,
     dr_externalReceiptRef = None, dr_error = None\<rparr>, Suc w))"
  by (simp_all add: notice_env_def)

text \<open>
  A signal that is included again after its row was rolled back has the same identifier, so its
  receiver is not told.
\<close>

lemma reincluded_signal_is_not_notified:
  "nt_sent (snd (processSignalSubmittedEvents notice_env [hooked_event] (ledger_with (notice_row Del_invalidated 1)))) = []"
  by (simp add: hooked_pass ledger_with_def notice_start_def dispatchSignalTransportDelivery_def bindA_def
    getDelivery_def getsA_def returnA_def signalDeliveryIdFor_def notice_row_def keep_if_def)

text \<open>The first pass sends one message, which fails; the row records the attempt.\<close>

lemma first_pass_sends_one:
  "map nd_deliveryId (nt_sent (snd (processSignalSubmittedEvents notice_env [hooked_event] notice_start))) = [''d'']"
  "map (nd_attempts \<circ> snd) (nt_deliveries (snd (processSignalSubmittedEvents notice_env [hooked_event] notice_start))) = [1]"
  by (simp_all add: hooked_pass notice_start_def dispatchSignalTransportDelivery_def dispatchPreparedDelivery_def
    sendA_def catchA_def modifyA_def outsideA_def clockA_def saveDelivery_def bindA_def
    getDelivery_def getsA_def returnA_def signalDeliveryIdFor_def keep_if_def
    baseSignalDeliveryRecord_def dispatched_row_def Let_def)

section \<open>The theorems at these inputs\<close>

lemma notice_rows_by_id: "rows_by_id (nt_deliveries (ledger_with (notice_row st n)))"
  by (simp add: rows_by_id_def ledger_with_def notice_start_def notice_row_def)

theorem messages_are_bounded_witness:
  "sends ''d'' (nt_sent (run_ledger notice_env [Process [hooked_event], Retry ''d''] notice_start)) \<le> 10"
  using messages_are_bounded [of notice_start "''d''" notice_env "[Process [hooked_event], Retry ''d'']"]
  by (simp add: notice_start_def operator_sends_def MAX_AUTOMATIC_DELIVERY_ATTEMPTS_def)

theorem settled_rows_are_left_alone_witness:
  "jget (nt_deliveries (snd (processSignalSubmittedEvents notice_env [hooked_event] (ledger_with (notice_row Del_sent 1))))) ''d''
    = Some (notice_row Del_sent 1)"
proof -
  let ?s = "ledger_with (notice_row Del_sent 1)"
  have "jget (nt_deliveries ?s) ''d'' = Some (notice_row Del_sent 1)" "closed_row (notice_row Del_sent 1)"
    by (simp_all add: ledger_with_def notice_start_def notice_row_def closed_row_def)
  with settled_rows_are_left_alone [OF notice_rows_by_id [of Del_sent 1], of notice_env "[hooked_event]"]
  show ?thesis by (auto split: prod.splits)
qed

theorem rollback_marks_exactly_the_rows_above_witness:
  "fst (invalidateDeliveriesAboveBlock notice_env 1 0 (ledger_with (notice_row Del_sent 1))) = Inr 1"
proof -
  have b: "block_of (notice_row Del_sent 1) = Some 1" by code_simp
  then have "rolled_back 1 0 (notice_row Del_sent 1)" by (simp add: rolled_back_def notice_row_def)
  then show ?thesis
    using rollback_marks_exactly_the_rows_above [OF notice_rows_by_id [of Del_sent 1], of notice_env 1 0] b
    by (auto simp: ledger_with_def notice_start_def)
qed

lemma nothing_projected:
  "getStateMachineOrder i None empty_projection_store = None" "ps_syncState empty_projection_store = None"
  by (simp_all add: getStateMachineOrder_def empty_projection_store_def createEmptyProjectionSnapshot_def
    listStateMachineOrders_def uniqueOrderByBareId_def opt_or_def sole_def)

lemma empty_pass:
  "fst (processSignalSubmittedEvents notice_env [hooked_event] (notice_start\<lparr>nt_store := empty_projection_store\<rparr>))
    = Inr (no_counts\<lparr>rc_deliveryIntents := 1, rc_skipped := 1\<rparr>)"
  by (simp add: processSignalSubmittedEvents_def notice_start_def bindA_def getsA_def returnA_def
    hooked_finalized notify_event_def Let_def nothing_projected saveSkippedSignalDelivery_def getDelivery_def keep_if_def
    signalDeliveryIdFor_def clockA_def saveDelivery_def modifyA_def updateIntentSummary_def no_counts_def)

theorem unattributed_signals_leave_a_row_witness:
  "\<exists>r. jget (nt_deliveries (snd (processSignalSubmittedEvents notice_env [hooked_event]
     (notice_start\<lparr>nt_store := empty_projection_store\<rparr>)))) ''d'' = Some r"
proof (rule unattributed_signals_leave_a_row [where e = hooked_event])
  show "rows_by_id (nt_deliveries (notice_start\<lparr>nt_store := empty_projection_store\<rparr>))"
    by (simp add: notice_start_def rows_by_id_def)
  show "processSignalSubmittedEvents notice_env [hooked_event] (notice_start\<lparr>nt_store := empty_projection_store\<rparr>)
      = (Inr (no_counts\<lparr>rc_deliveryIntents := 1, rc_skipped := 1\<rparr>), snd (processSignalSubmittedEvents notice_env
        [hooked_event] (notice_start\<lparr>nt_store := empty_projection_store\<rparr>)))"
    using empty_pass by (metis prod.collapse)
qed (simp_all add: nothing_projected hooked_finalized unattributed_def signalDeliveryIdFor_def)

end
