(* ===== verification/PatchStore.thy ===== *)
theory PatchStore imports Submissions "HOL-Library.While_Combinator" begin

text \<open>
  The data of stage patches (\<open>stage-patches/types.ts\<close>, \<open>typed-data.ts\<close>): what a selector signs
  to give the executor or a resource of a stage, the prepared patches that are kept, the results
  of a broadcast and the archive records. An executor patch and a resource patch share the fields
  of \<open>prepared_patch\<close>; each adds its own.
\<close>

section \<open>Prepared patches\<close>

datatype executor_mode = Assign | Handoff | Replacement

fun executor_mode_text :: "executor_mode \<Rightarrow> string" where
  "executor_mode_text Assign = ''assign''"
| "executor_mode_text Handoff = ''handoff''"
| "executor_mode_text Replacement = ''replacement''"

text \<open>
  The constant parts of the typed data (its name, version and field lists) come from the protocol
  package; the rest is the domain and the message.
\<close>

record executor_message =
  xm_planId :: string
  xm_orderId :: string
  xm_selectorStageId :: string
  xm_targetStageId :: string
  xm_executor :: string
  xm_role :: string
  xm_executorMetadataHash :: string
  xm_mode :: string
  xm_previousExecutor :: string
  xm_approvalSourceId :: string
  xm_approvalSignalId :: string
  xm_patchHash :: string
  xm_patchNonce :: string
  xm_metadataURI :: string
  xm_selector :: string
  xm_deadline :: string

record resource_message =
  rm_planId :: string
  rm_orderId :: string
  rm_selectorStageId :: string
  rm_targetStageId :: string
  rm_resourceKey :: string
  rm_manifestHash :: string
  rm_policyHash :: string
  rm_patchHash :: string
  rm_patchNonce :: string
  rm_manifestURI :: string
  rm_selector :: string
  rm_deadline :: string

record 'm patch_typed_data =
  pt_chainId :: int
  pt_verifyingContract :: string
  pt_message :: 'm

text \<open>The payloads that are hashed.\<close>

record executor_payload =
  xl_orderId :: string
  xl_selectorStageId :: string
  xl_targetStageId :: string
  xl_executor :: string
  xl_role :: string
  xl_executorMetadataHash :: string
  xl_mode :: string
  xl_previousExecutor :: string
  xl_approvalSourceId :: string
  xl_approvalSignalId :: string
  xl_patchNonce :: string
  xl_metadataURI :: string

record resource_payload =
  rl_orderId :: string
  rl_selectorStageId :: string
  rl_targetStageId :: string
  rl_resourceKey :: string
  rl_manifestHash :: string
  rl_policyHash :: string
  rl_patchNonce :: string
  rl_manifestURI :: string

text \<open>
  The summary shown to the selector repeats fields of the prepared patch and of its typed data
  and is left out, as is the constant \<open>status\<close>.
\<close>

record prepared_patch =
  pp_prepareId :: string
  pp_taskId :: string
  pp_orderId :: string
  pp_onchainOrderId :: string
  pp_stateMachineAddress :: string
  pp_planId :: string
  pp_selectorStageId :: string
  pp_targetStageId :: string
  pp_selectorWallet :: string
  pp_patchHash :: string
  pp_patchNonce :: string
  pp_deadline :: string
  pp_expiresAt :: string
  pp_nonceKey :: string
  pp_usedAt :: "string option"
  pp_submissionId :: "string option"

record executor_patch = prepared_patch +
  xp_executorWallet :: string
  xp_mode :: executor_mode
  xp_modeHash :: string
  xp_previousExecutor :: "string option"
  xp_approvalSourceId :: "string option"
  xp_approvalSignalId :: "string option"
  xp_roleHash :: string
  xp_executorMetadataHash :: string
  xp_metadataURI :: string
  xp_typedData :: "executor_message patch_typed_data"

record resource_patch = prepared_patch +
  rp_resourceKey :: string
  rp_manifestHash :: string
  rp_policyHash :: string
  rp_manifestURI :: string
  rp_typedData :: "resource_message patch_typed_data"

section \<open>Results of a broadcast\<close>

text \<open>
  Of the attempt that a result may carry, the service reads the transaction hash. The cases have
  the transaction hash, the block number and the hash of the attempt; code, message and whether a
  retry may help of a failure; code and reason of a broadcast that was not attempted.
\<close>

datatype patch_result =
    PrBroadcasting "string option" "string option"
  | PrSubmitted string "string option" "string option"
  | PrConfirmed string "string option" "string option"
  | PrNotAttempted string string
  | PrFailed "string option" "string option" string string bool "string option"

section \<open>Archive records\<close>

datatype patch_status =
    Ps_signature_received | Ps_broadcasting | Ps_submitted | Ps_confirmed | Ps_failed | Ps_expired

fun patch_status_text :: "patch_status \<Rightarrow> string" where
  "patch_status_text Ps_signature_received = ''signature_received''"
| "patch_status_text Ps_broadcasting = ''broadcasting''"
| "patch_status_text Ps_submitted = ''submitted''"
| "patch_status_text Ps_confirmed = ''confirmed''"
| "patch_status_text Ps_failed = ''failed''"
| "patch_status_text Ps_expired = ''expired''"

datatype patch_broadcast_status =
    Pb_not_attempted | Pb_broadcasting | Pb_submitted | Pb_confirmed | Pb_failed

datatype signature_status = Sg_not_required | Sg_not_verified | Sg_verified

fun signature_status_text :: "signature_status \<Rightarrow> string" where
  "signature_status_text Sg_not_required = ''not_required''"
| "signature_status_text Sg_not_verified = ''not_verified''"
| "signature_status_text Sg_verified = ''signature_verified''"

text \<open>
  A record repeats the prepared patch it belongs to, which is kept here as a whole; the states of
  the two signatures of an executor patch are absent from the record of a resource patch.
\<close>

record 'p patch_submission =
  px_submissionId :: string
  px_patch :: 'p
  px_status :: patch_status
  px_signatureStatus :: signature_status
  px_selectorSignatureStatus :: "signature_status option"
  px_previousExecutorSignatureStatus :: "signature_status option"
  px_signatureHash :: "string option"
  px_previousExecutorSignatureHash :: "string option"
  px_recoveredSelector :: "string option"
  px_recoveredPreviousExecutor :: "string option"
  px_broadcastStatus :: patch_broadcast_status
  px_txHash :: "string option"
  px_blockNumber :: "string option"
  px_errorCode :: "string option"
  px_errorMessage :: "string option"
  px_retryable :: bool
  px_proofRows :: "(string \<times> string) list"
  px_createdAt :: string
  px_updatedAt :: string

text \<open>
  The store of stage patches (\<open>stage-patches/store.ts\<close>), for patches of either kind: prepared
  patches with a hard limit on their number, archive records and reserved nonces.
\<close>

record 'x patch_store =
  pst_prepared :: "(string, 'x prepared_patch_scheme) jsmap"
  pst_submissions :: "(string, 'x prepared_patch_scheme patch_submission) jsmap"
  pst_nonces :: "(string, string) jsmap"

definition empty_patch_store :: "'x patch_store" where
  "empty_patch_store = \<lparr>pst_prepared = [], pst_submissions = [], pst_nonces = []\<rparr>"

definition MEMORY_PREPARED_PATCH_HARD_LIMIT :: nat where
  "MEMORY_PREPARED_PATCH_HARD_LIMIT = 5000"

section \<open>Prepared patches\<close>

text \<open>\<open>Number(deadline)\<close>; where that is not a number, comparisons are false and a comparator ties.\<close>

definition expired_before :: "string \<Rightarrow> 'x prepared_patch_scheme \<Rightarrow> bool" where
  "expired_before boundary p \<longleftrightarrow>
     (case (js_number_of_string (pp_deadline p), js_number_of_string boundary) of
        (Some d, Some b) \<Rightarrow> d < b
      | _ \<Rightarrow> False)"

definition compare_deadlines :: "'x prepared_patch_scheme \<Rightarrow> 'x prepared_patch_scheme \<Rightarrow> int" where
  "compare_deadlines l r =
     (case (js_number_of_string (pp_deadline l), js_number_of_string (pp_deadline r)) of
        (Some d, Some d') \<Rightarrow> d - d'
      | _ \<Rightarrow> 0)"

definition deleteExpiredPrepared :: "string \<Rightarrow> 'x patch_store \<Rightarrow> nat \<times> 'x patch_store" where
  "deleteExpiredPrepared boundary st =
     (length (filter (expired_before boundary \<circ> snd) (pst_prepared st)),
      st\<lparr>pst_prepared := filter (\<lambda>(i, p). \<not> expired_before boundary p) (pst_prepared st)\<rparr>)"

text \<open>Rows go, the one with the earliest deadline first, until the table is below its limit.\<close>

definition evict_one ::
  "(string, 'x prepared_patch_scheme) jsmap \<Rightarrow> (string, 'x prepared_patch_scheme) jsmap" where
  "evict_one m = (case js_sort compare_deadlines (jvalues m) of
       [] \<Rightarrow> m
     | oldest # _ \<Rightarrow> jdelete (pp_prepareId oldest) m)"

definition evict ::
  "(string, 'x prepared_patch_scheme) jsmap \<Rightarrow> (string, 'x prepared_patch_scheme) jsmap option" where
  "evict m = while_option (\<lambda>m. MEMORY_PREPARED_PATCH_HARD_LIMIT \<le> length m \<and> m \<noteq> []) evict_one m"

text \<open>\<open>None\<close> when the eviction does not end; \<open>now\<close> is the store's own clock.\<close>

definition put_patch :: "int \<Rightarrow> 'x prepared_patch_scheme \<Rightarrow> 'x patch_store \<Rightarrow> 'x patch_store option" where
  "put_patch now p st =
     (if length (pst_prepared st) < MEMORY_PREPARED_PATCH_HARD_LIMIT
      then Some (st\<lparr>pst_prepared := jset (pp_prepareId p) p (pst_prepared st)\<rparr>)
      else let st = snd (deleteExpiredPrepared (dec_int (now div 1000)) st) in
           map_option (\<lambda>m. st\<lparr>pst_prepared := jset (pp_prepareId p) p m\<rparr>) (evict (pst_prepared st)))"

definition get_patch :: "string \<Rightarrow> 'x patch_store \<Rightarrow> 'x prepared_patch_scheme option" where
  "get_patch prepareId st = jget (pst_prepared st) prepareId"

definition mark_patch_used :: "string \<Rightarrow> string \<Rightarrow> string \<Rightarrow> 'x patch_store \<Rightarrow> 'x patch_store" where
  "mark_patch_used prepareId submissionId usedAt st =
     (case jget (pst_prepared st) prepareId of
        None \<Rightarrow> st
      | Some p \<Rightarrow> st\<lparr>pst_prepared := jset prepareId
          (p\<lparr>pp_submissionId := Some submissionId, pp_usedAt := Some usedAt\<rparr>) (pst_prepared st)\<rparr>)"

section \<open>Nonces and records\<close>

definition reserve_patch_nonce ::
  "string \<Rightarrow> string option \<Rightarrow> string \<Rightarrow> 'x patch_store \<Rightarrow> bool \<times> 'x patch_store" where
  "reserve_patch_nonce key staleBefore reservedAt st =
     (let taken = st\<lparr>pst_nonces := jset key reservedAt (pst_nonces st)\<rparr> in
      case jget (pst_nonces st) key of
        Some existing \<Rightarrow>
          (case keep_truthy staleBefore of
             None \<Rightarrow> (False, st)
           | Some limit \<Rightarrow> if \<not> js_less existing limit then (False, st) else (True, taken))
      | None \<Rightarrow> (True, taken))"

definition release_patch_nonce :: "string \<Rightarrow> 'x patch_store \<Rightarrow> 'x patch_store" where
  "release_patch_nonce key st = st\<lparr>pst_nonces := jdelete key (pst_nonces st)\<rparr>"

definition put_patch_submission ::
  "'x prepared_patch_scheme patch_submission \<Rightarrow> 'x patch_store \<Rightarrow> 'x patch_store" where
  "put_patch_submission s st = st\<lparr>pst_submissions := jset (px_submissionId s) s (pst_submissions st)\<rparr>"

definition get_patch_submission ::
  "string \<Rightarrow> 'x patch_store \<Rightarrow> 'x prepared_patch_scheme patch_submission option" where
  "get_patch_submission submissionId st = jget (pst_submissions st) submissionId"

definition patch_nonce_held :: "string \<Rightarrow> 'x patch_store \<Rightarrow> string option" where
  "patch_nonce_held k st = jget (pst_nonces st) k"

text \<open>The store keeps the contract of nonce reservations.\<close>

interpretation patch_nonces: nonce_table patch_nonce_held reserve_patch_nonce release_patch_nonce js_less
proof
  fix k k' :: string and limit now and s :: "'x patch_store"
  show "fst (reserve_patch_nonce k limit now s) \<longleftrightarrow>
      patch_nonce_held k s = None \<or> (\<exists>t l. patch_nonce_held k s = Some t \<and> limit = Some l \<and> js_less t l)"
    by (cases limit) (auto simp: reserve_patch_nonce_def patch_nonce_held_def Let_def split: option.splits if_splits)
  show "patch_nonce_held k' (snd (reserve_patch_nonce k limit now s)) =
      (if k' = k \<and> fst (reserve_patch_nonce k limit now s) then Some now else patch_nonce_held k' s)"
    by (auto simp: reserve_patch_nonce_def patch_nonce_held_def Let_def split: option.splits)
  show "patch_nonce_held k' (release_patch_nonce k s) = (if k' = k then None else patch_nonce_held k' s)"
    by (simp add: release_patch_nonce_def patch_nonce_held_def delete_conv')
qed

end
