(* ===== verification/PatchRules.thy ===== *)
theory PatchRules imports PatchStore begin

text \<open>
  The rules of stage patches (\<open>stage-patches/service.ts\<close>): how far the target stage is, who acted
  in it last, and in which mode its executor may be given to somebody else. The contract decides;
  these checks come before the broadcast.
\<close>

section \<open>Errors and what the service is given\<close>

datatype patch_error =
    ProductStagePatchError int string string
  | PatchThrown js_error
  | PatchExternal thrown_error

definition patch_thrown :: "'a res \<Rightarrow> patch_error + 'a" where
  "patch_thrown m = (case m of Inl e \<Rightarrow> Inl (PatchThrown e) | Inr x \<Rightarrow> Inr x)"

lemma patch_thrown_simps [simp]: "patch_thrown (Inl e) = Inl (PatchThrown e)" "patch_thrown (Inr x) = Inr x"
  by (simp_all add: patch_thrown_def)

definition guardP :: "bool \<Rightarrow> int \<Rightarrow> string \<Rightarrow> string \<Rightarrow> patch_error + unit" where
  "guardP b status code message = (if b then Inr () else Inl (ProductStagePatchError status code message))"

lemma guardP_simps [simp]: "guardP b st c m = Inr x \<longleftrightarrow> b" "guardP True st c m = Inr ()"
  by (auto simp: guardP_def)

definition ZERO_ADDRESS :: string where
  "ZERO_ADDRESS = ''0x0000000000000000000000000000000000000000''"

section \<open>Words and texts\<close>

definition normalizeNonZeroAddress :: "bindings \<Rightarrow> string \<Rightarrow> string \<Rightarrow> patch_error + string" where
  "normalizeNonZeroAddress B value fieldName =
     bindR (patch_thrown (normalizeAddress B value fieldName)) (\<lambda>address.
     bindR (guardP (address \<noteq> ZERO_ADDRESS) 400 ''invalid_body'' (fieldName @ '' must not be zero'')) (\<lambda>_.
       Inr address))"

definition normalizeNonZeroBytes32 :: "bindings \<Rightarrow> string option \<Rightarrow> string \<Rightarrow> patch_error + string" where
  "normalizeNonZeroBytes32 B value fieldName = (case keep_truthy value of
       None \<Rightarrow> Inl (ProductStagePatchError 400 ''invalid_body'' (fieldName @ '' is required''))
     | Some v \<Rightarrow>
         bindR (patch_thrown (normalizeBytes32 B v fieldName)) (\<lambda>hash.
         bindR (guardP (hash \<noteq> ZERO_BYTES32) 400 ''invalid_body'' (fieldName @ '' must not be zero'')) (\<lambda>_.
           Inr hash)))"

definition normalizedMetadataURI :: "string \<Rightarrow> patch_error + string" where
  "normalizedMetadataURI value =
     (if trim value = [] then
        Inl (ProductStagePatchError 400 ''invalid_body'' ''metadataURI must be a non-empty string'')
      else Inr (trim value))"

definition isContentAddressedManifestReference :: "string \<Rightarrow> bool" where
  "isContentAddressedManifestReference value \<longleftrightarrow>
     toLowerCase (take 7 value) = ''ipfs://'' \<or> toLowerCase (take 5 value) = ''ar://''"

definition normalizedManifestURI :: "string \<Rightarrow> string \<Rightarrow> patch_error + string" where
  "normalizedManifestURI value runtimeEnvironment =
     (if trim value = [] then
        Inl (ProductStagePatchError 400 ''invalid_body'' ''manifestURI must be a non-empty string'')
      else if runtimeEnvironment = ''production'' \<and> \<not> isContentAddressedManifestReference (trim value) then
        Inl (ProductStagePatchError 400 ''invalid_manifest_uri''
          ''production resource patches must use encrypted content-addressed manifest references'')
      else Inr (trim value))"

text \<open>\<open>stageId\<close> and \<open>textHash\<close> stand for \<open>onchainStageId\<close> and the hash of a text.\<close>

definition normalizeTargetStage :: "bindings \<Rightarrow> (string \<Rightarrow> string) \<Rightarrow> string \<Rightarrow> patch_error + string" where
  "normalizeTargetStage B stageId value =
     (if is_bytes32 value then patch_thrown (normalizeBytes32 B value ''targetStageId'')
      else if trim value = [] then
        Inl (ProductStagePatchError 400 ''invalid_target_stage''
          ''targetStageId must be a stage identifier or bytes32 id'')
      else patch_thrown (normalizeBytes32 B (stageId value) ''targetStageId''))"

definition normalizeResourceKey :: "bindings \<Rightarrow> (string \<Rightarrow> string) \<Rightarrow> string \<Rightarrow> patch_error + string" where
  "normalizeResourceKey B textHash value =
     (if is_bytes32 value then patch_thrown (normalizeBytes32 B value ''resourceKey'')
      else if trim value = [] then
        Inl (ProductStagePatchError 400 ''invalid_body''
          ''resourceKey must be a non-empty string or bytes32 id'')
      else Inr (textHash (trim value)))"

section \<open>The progress of a stage\<close>

record latest_submitter =
  ls_submitter :: "string option"
  ls_ambiguous :: bool
  ls_tieBlockNumber :: "int option"

record stage_progress =
  sp_signalCount :: nat
  sp_lastSignalSubmitter :: "string option"
  sp_lastSignalAmbiguous :: bool
  sp_lastSignalTieBlockNumber :: "int option"

definition compareSignalSubmissionOrder :: "signal_proj \<Rightarrow> signal_proj \<Rightarrow> int" where
  "compareSignalSubmissionOrder l r = compareChainPointers (sig_submittedAt l) (sig_submittedAt r)"

definition submitters_at :: "int \<Rightarrow> signal_proj list \<Rightarrow> string set" where
  "submitters_at block signals =
     set (map (\<lambda>s. toLowerCase (sig_submitter s)) (filter (\<lambda>s. blockNumber (sig_submittedAt s) = block) signals))"

definition latestSubmitterByChainOrder :: "signal_proj list \<Rightarrow> latest_submitter" where
  "latestSubmitterByChainOrder signals =
     (if signals = [] then \<lparr>ls_submitter = None, ls_ambiguous = False, ls_tieBlockNumber = None\<rparr>
      else let ordered = js_sort compareSignalSubmissionOrder signals;
               newest = last ordered;
               maxBlock = blockNumber (sig_submittedAt newest);
               tied = 1 < card (submitters_at maxBlock ordered) in
           \<lparr>ls_submitter = Some (sig_submitter newest), ls_ambiguous = tied,
            ls_tieBlockNumber = (if tied then Some maxBlock else None)\<rparr>)"

definition patch_signal_key :: "signal_proj \<Rightarrow> string" where
  "patch_signal_key s = signalProjectionKey (sig_sourceId s) (sig_signalId s)"

text \<open>The facts a compiled plan lists for a stage, and the two flows of its signals.\<close>

definition capability_facts :: "string \<Rightarrow> signal_capability list \<Rightarrow> string list" where
  "capability_facts targetStageId capabilities =
     map (\<lambda>c. signalProjectionKey (cap_targetSourceId c) (cap_signalId c))
       (filter (\<lambda>c. toLowerCase (cap_stageId c) = toLowerCase targetStageId
          \<and> cap_targetOrderRelation c = RelCurrent) capabilities)"

definition capability_signals :: "order_proj \<Rightarrow> string \<Rightarrow> signal_capability list \<Rightarrow> signal_proj list" where
  "capability_signals order targetStageId capabilities =
     filter (\<lambda>s. patch_signal_key s \<in> set (capability_facts targetStageId capabilities)) (jvalues (or_signals order))"

definition fallback_signals :: "order_proj \<Rightarrow> string \<Rightarrow> signal_proj list" where
  "fallback_signals order targetStageId =
     filter (\<lambda>s. toLowerCase (sig_sourceId s) = toLowerCase targetStageId) (jvalues (or_signals order))"

definition targetStageProgress :: "order_proj \<Rightarrow> string \<Rightarrow> signal_capability list \<Rightarrow> stage_progress" where
  "targetStageProgress order targetStageId capabilities =
     (let capabilitySignals = capability_signals order targetStageId capabilities;
          fallbackSignals = fallback_signals order targetStageId;
          count = card (set (map patch_signal_key fallbackSignals) \<union> set (map patch_signal_key capabilitySignals));
          c = latestSubmitterByChainOrder capabilitySignals;
          f = latestSubmitterByChainOrder fallbackSignals;
          merged = (\<lambda>ambiguous submitter tie.
            \<lparr>sp_signalCount = count, sp_lastSignalSubmitter = submitter, sp_lastSignalAmbiguous = ambiguous,
             sp_lastSignalTieBlockNumber = (if ambiguous then tie else None)\<rparr>) in
      if count = 0 then merged False None None
      else if capabilitySignals \<noteq> [] \<and> fallbackSignals \<noteq> [] then
        merged (ls_ambiguous c \<or> ls_ambiguous f \<or> ls_submitter c \<noteq> ls_submitter f)
          (opt_or (ls_submitter c) (ls_submitter f)) (opt_or (ls_tieBlockNumber c) (ls_tieBlockNumber f))
      else if capabilitySignals \<noteq> [] then merged (ls_ambiguous c) (ls_submitter c) (ls_tieBlockNumber c)
      else merged False (ls_submitter f) (ls_tieBlockNumber f))"

definition hasSubmittedTargetSignal :: "order_proj \<Rightarrow> string \<Rightarrow> signal_capability list \<Rightarrow> bool" where
  "hasSubmittedTargetSignal order targetStageId capabilities \<longleftrightarrow>
     0 < sp_signalCount (targetStageProgress order targetStageId capabilities)"

definition hasSignal :: "order_proj \<Rightarrow> string \<Rightarrow> string \<Rightarrow> bool" where
  "hasSignal order sourceId signalId \<longleftrightarrow>
     (\<exists>s \<in> set (jvalues (or_signals order)). sig_sourceId s = sourceId \<and> sig_signalId s = signalId)"

section \<open>The mode of an executor patch\<close>

record executor_governance =
  eg_mode :: executor_mode
  eg_modeHash :: string
  eg_previousExecutor :: "string option"
  eg_previousExecutorForPatch :: string
  eg_approvalSourceId :: "string option"
  eg_approvalSignalId :: "string option"
  eg_approvalSourceIdForPatch :: string
  eg_approvalSignalIdForPatch :: string

record governance_input =
  gi_mode :: "string option"
  gi_previousExecutor :: "string option"
  gi_approvalSourceId :: "string option"
  gi_approvalSignalId :: "string option"

fun executorPatchModeHash :: "bindings \<Rightarrow> executor_mode \<Rightarrow> string" where
  "executorPatchModeHash B Assign = EXECUTOR_PATCH_MODE_ASSIGN B"
| "executorPatchModeHash B Handoff = EXECUTOR_PATCH_MODE_HANDOFF B"
| "executorPatchModeHash B Replacement = EXECUTOR_PATCH_MODE_REPLACEMENT B"

definition normalizeExecutorPatchMode :: "string option \<Rightarrow> patch_error + executor_mode" where
  "normalizeExecutorPatchMode value =
     (let normalized = toLowerCase (trim (case value of None \<Rightarrow> ''assign'' | Some v \<Rightarrow> v)) in
      if normalized = ''assign'' then Inr Assign
      else if normalized = ''handoff'' then Inr Handoff
      else if normalized = ''replacement'' then Inr Replacement
      else Inl (ProductStagePatchError 400 ''invalid_executor_patch_mode''
        ''mode must be assign, handoff, or replacement''))"

definition rejectUnexpectedPreviousExecutor ::
  "bindings \<Rightarrow> string option \<Rightarrow> executor_mode \<Rightarrow> patch_error + unit" where
  "rejectUnexpectedPreviousExecutor B value mode = (case keep_truthy value of
       None \<Rightarrow> Inr ()
     | Some v \<Rightarrow>
         bindR (patch_thrown (normalizeAddress B v ''previousExecutor'')) (\<lambda>previousExecutor.
           guardP (previousExecutor = ZERO_ADDRESS) 400 ''previous_executor_not_allowed''
             (''previousExecutor is not used for '' @ executor_mode_text mode @ '' mode'')))"

definition rejectUnexpectedApprovalSignal ::
  "string option \<Rightarrow> string option \<Rightarrow> patch_error + unit" where
  "rejectUnexpectedApprovalSignal approvalSourceId approvalSignalId =
     guardP (\<not> truthy approvalSourceId \<and> \<not> truthy approvalSignalId) 400 ''approval_signal_not_allowed''
       ''approvalSourceId and approvalSignalId are only used for replacement mode''"

definition normalizeRequiredPreviousExecutor ::
  "bindings \<Rightarrow> string option \<Rightarrow> executor_mode \<Rightarrow> patch_error + string" where
  "normalizeRequiredPreviousExecutor B value mode = (case keep_truthy value of
       None \<Rightarrow> Inl (ProductStagePatchError 400 ''previous_executor_required''
         (''previousExecutor is required for '' @ executor_mode_text mode @ '' mode''))
     | Some v \<Rightarrow> normalizeNonZeroAddress B v ''previousExecutor'')"

text \<open>The executor in office, otherwise the last one to have signalled in the stage.\<close>

datatype expected_executor = Resolved "string option" | Ambiguous "int option"

definition expectedPreviousExecutorForPatch ::
  "order_proj \<Rightarrow> string \<Rightarrow> stage_progress \<Rightarrow> expected_executor" where
  "expectedPreviousExecutorForPatch order targetStageId progress =
     (case jget (or_stageExecutorOverlays order) (toLowerCase targetStageId) of
        Some overlay \<Rightarrow> Resolved (Some (eov_activeExecutorWallet overlay))
      | None \<Rightarrow>
          if sp_lastSignalAmbiguous progress then Ambiguous (sp_lastSignalTieBlockNumber progress)
          else Resolved (sp_lastSignalSubmitter progress))"

definition checked_previous_executor ::
  "bindings \<Rightarrow> order_proj \<Rightarrow> string \<Rightarrow> governance_input \<Rightarrow> stage_progress \<Rightarrow> executor_mode
    \<Rightarrow> patch_error + string" where
  "checked_previous_executor B order targetStageId inp progress mode =
     bindR (guardP (sp_signalCount progress \<noteq> 0) 409 ''target_stage_not_started''
       (executor_mode_text mode @ '' mode requires a target-stage signal first'')) (\<lambda>_.
     bindR (normalizeRequiredPreviousExecutor B (gi_previousExecutor inp) mode) (\<lambda>previousExecutor.
     case expectedPreviousExecutorForPatch order targetStageId progress of
       Ambiguous _ \<Rightarrow> Inl (ProductStagePatchError 409 ''previous_executor_ambiguous''
         (''the previous executor cannot be uniquely determined for the target stage: ''
           @ ''signals tied at the same block carry different submitters, or the compiled-plan ''
           @ ''capability facts and the source==stage fallback facts disagree on the latest ''
           @ ''submitter. The chain reverts this shape with StagePreviousExecutorAmbiguous; ''
           @ ''resubmit after the tie is broken on chain.''))
     | Resolved expected \<Rightarrow>
         bindR (guardP (keep_truthy expected \<in> {None, Some previousExecutor}) 409 ''previous_executor_mismatch''
           ''previousExecutor must match the active overlay executor or last target-stage signal submitter'') (\<lambda>_.
           Inr previousExecutor)))"

definition resolveExecutorPatchGovernance ::
  "bindings \<Rightarrow> order_proj \<Rightarrow> string \<Rightarrow> governance_input \<Rightarrow> signal_capability list
    \<Rightarrow> patch_error + executor_governance" where
  "resolveExecutorPatchGovernance B order targetStageId inp capabilities =
     bindR (normalizeExecutorPatchMode (gi_mode inp)) (\<lambda>mode.
     let progress = targetStageProgress order targetStageId capabilities;
         plain = \<lparr>eg_mode = mode, eg_modeHash = executorPatchModeHash B mode, eg_previousExecutor = None,
           eg_previousExecutorForPatch = ZERO_ADDRESS, eg_approvalSourceId = None, eg_approvalSignalId = None,
           eg_approvalSourceIdForPatch = ZERO_BYTES32, eg_approvalSignalIdForPatch = ZERO_BYTES32\<rparr> in
     if mode = Assign then
       bindR (guardP (sp_signalCount progress = 0) 409 ''target_stage_started_assign_rejected''
         ''assign mode is only allowed before the target stage has submitted signals'') (\<lambda>_.
       bindR (rejectUnexpectedPreviousExecutor B (gi_previousExecutor inp) mode) (\<lambda>_.
       bindR (rejectUnexpectedApprovalSignal (gi_approvalSourceId inp) (gi_approvalSignalId inp)) (\<lambda>_.
         Inr plain)))
     else
       bindR (checked_previous_executor B order targetStageId inp progress mode) (\<lambda>previousExecutor.
       let handed = plain\<lparr>eg_previousExecutor := Some previousExecutor,
             eg_previousExecutorForPatch := previousExecutor\<rparr> in
       if mode = Handoff then
         bindR (rejectUnexpectedApprovalSignal (gi_approvalSourceId inp) (gi_approvalSignalId inp)) (\<lambda>_.
           Inr handed)
       else
         bindR (normalizeNonZeroBytes32 B (gi_approvalSourceId inp) ''approvalSourceId'') (\<lambda>approvalSourceId.
         bindR (normalizeNonZeroBytes32 B (gi_approvalSignalId inp) ''approvalSignalId'') (\<lambda>approvalSignalId.
         bindR (guardP (hasSignal order approvalSourceId approvalSignalId) 409 ''approval_signal_missing''
           ''replacement mode requires the referenced approval signal to exist in the projected order'') (\<lambda>_.
           Inr (handed\<lparr>eg_approvalSourceId := Some approvalSourceId, eg_approvalSignalId := Some approvalSignalId,
             eg_approvalSourceIdForPatch := approvalSourceId,
             eg_approvalSignalIdForPatch := approvalSignalId\<rparr>))))))"

section \<open>Nonces\<close>

text \<open>\<open>BigInt(current)\<close> throws on a text that is not a number.\<close>

definition patch_nonce_value :: "string option \<Rightarrow> patch_error + int option" where
  "patch_nonce_value current = (case keep_truthy current of
       None \<Rightarrow> Inr None
     | Some n \<Rightarrow> bindR (patch_thrown (bigint_of n)) (\<lambda>i. Inr (Some i)))"

definition next_patch_nonce :: "string option \<Rightarrow> patch_error + string" where
  "next_patch_nonce current =
     bindR (patch_nonce_value current) (\<lambda>n. Inr (dec_int ((case n of None \<Rightarrow> 0 | Some i \<Rightarrow> i) + 1)))"

definition executor_overlay_nonce :: "order_proj \<Rightarrow> string \<Rightarrow> string option" where
  "executor_overlay_nonce order targetStageId =
     map_option eov_patchNonce (jget (or_stageExecutorOverlays order) (toLowerCase targetStageId))"

definition resource_overlay_nonce :: "order_proj \<Rightarrow> string \<Rightarrow> string \<Rightarrow> string option" where
  "resource_overlay_nonce order targetStageId resourceKey =
     map_option rov_patchNonce (jget (or_stageResourceOverlays order)
       (stageResourceOverlayProjectionKey targetStageId resourceKey))"

definition nextStageExecutorPatchNonce :: "order_proj \<Rightarrow> string \<Rightarrow> patch_error + string" where
  "nextStageExecutorPatchNonce order targetStageId =
     next_patch_nonce (executor_overlay_nonce order targetStageId)"

definition nextStageResourcePatchNonce :: "order_proj \<Rightarrow> string \<Rightarrow> string \<Rightarrow> patch_error + string" where
  "nextStageResourcePatchNonce order targetStageId resourceKey =
     next_patch_nonce (resource_overlay_nonce order targetStageId resourceKey)"

definition patch_nonce_current :: "string option \<Rightarrow> string \<Rightarrow> string \<Rightarrow> string \<Rightarrow> patch_error + unit" where
  "patch_nonce_current current patchNonce code message =
     bindR (patch_nonce_value current) (\<lambda>n. case n of
       None \<Rightarrow> Inr ()
     | Some i \<Rightarrow> bindR (patch_thrown (bigint_of patchNonce)) (\<lambda>j. guardP (i < j) 409 code message))"

definition ensureExecutorPreparedStillCurrent ::
  "bindings \<Rightarrow> order_proj \<Rightarrow> executor_patch \<Rightarrow> signal_capability list \<Rightarrow> patch_error + unit" where
  "ensureExecutorPreparedStillCurrent B order p capabilities =
     bindR (resolveExecutorPatchGovernance B order (pp_targetStageId p)
       \<lparr>gi_mode = Some (executor_mode_text (xp_mode p)),
        gi_previousExecutor = keep_truthy (xp_previousExecutor p),
        gi_approvalSourceId = keep_truthy (xp_approvalSourceId p),
        gi_approvalSignalId = keep_truthy (xp_approvalSignalId p)\<rparr> capabilities) (\<lambda>_.
       patch_nonce_current (executor_overlay_nonce order (pp_targetStageId p)) (pp_patchNonce p)
         ''stale_stage_executor_patch_nonce'' ''prepared stage executor patch nonce is no longer current'')"

definition ensureResourcePreparedStillCurrent ::
  "order_proj \<Rightarrow> resource_patch \<Rightarrow> signal_capability list \<Rightarrow> patch_error + unit" where
  "ensureResourcePreparedStillCurrent order p capabilities =
     bindR (guardP (\<not> hasSubmittedTargetSignal order (pp_targetStageId p) capabilities) 409
       ''target_stage_locked'' ''target stage already has a submitted signal'') (\<lambda>_.
       patch_nonce_current (resource_overlay_nonce order (pp_targetStageId p) (rp_resourceKey p)) (pp_patchNonce p)
         ''stale_stage_resource_patch_nonce'' ''prepared stage resource patch nonce is no longer current'')"

definition stagePatchNonceKey ::
  "string \<Rightarrow> int \<Rightarrow> string \<Rightarrow> string \<Rightarrow> string \<Rightarrow> string option \<Rightarrow> string option \<Rightarrow> string \<Rightarrow> string" where
  "stagePatchNonceKey kind chain stateMachineAddress orderId targetStageId targetSignalId resourceKey patchNonce =
     join_colon [kind, dec_int chain, stateMachineAddress, orderId, targetStageId,
       (case targetSignalId of None \<Rightarrow> [] | Some s \<Rightarrow> s), (case resourceKey of None \<Rightarrow> [] | Some r \<Rightarrow> r), patchNonce]"

end
