(* ===== verification/PatchAccess.thy ===== *)
theory PatchAccess imports PatchRules ProjectionStore begin

text \<open>
  Who may patch a stage (\<open>stage-patches/service.ts\<close>): the task of the selector and its order, the
  wallet the task is assigned to, the stages the plan lets it select, and its authorization on
  the chain. Product schemas and the product store are given to the service; of the schema, a
  type of the package \<open>@uvp-eth/product-dto\<close>, the fields the source reads appear.
\<close>

section \<open>What the service is given\<close>

record patch_participant =
  pn_status :: string
  pn_roleSlotId :: string
  pn_walletAddress :: "string option"

record patch_registration =
  pg_orderId :: string
  pg_planId :: string
  pg_stateMachineAddress :: "string option"
  pg_draftId :: string

record product_port =
  po_registrations :: "patch_registration list"
  po_participants :: "string \<Rightarrow> patch_participant list"

text \<open>
  Permissions are pairs of stage and role slot; a slot has its identifier and the stage lists of
  its capability plugins. The selector bindings are not part of the type and are read unchecked.
\<close>

record product_schema =
  psc_orderPermissionTable :: "(string \<times> string) list"
  psc_roleSlots :: "(string \<times> string list list) list"
  psc_selectorBindings :: "jsval list option"
  psc_selectedStageBindings :: "jsval list option"

record patch_env =
  pe_bindings :: bindings
  pe_onchainStageId :: "string \<Rightarrow> string"
  pe_textHash :: "string \<Rightarrow> string"
  pe_schema :: "(string \<Rightarrow> string \<Rightarrow> product_schema option) option"
  pe_product :: "product_port option"
  pe_chainId :: int
  pe_verifyingContract :: "string option"
  pe_stagePatchModuleAddress :: "string option"
  pe_ttlSeconds :: int
  pe_runtimeEnvironment :: string
  pe_hashExecutor :: "executor_payload \<Rightarrow> string option + string"
  pe_hashResource :: "resource_payload \<Rightarrow> string option + string"
  pe_recoverExecutor :: "executor_message patch_typed_data \<Rightarrow> string \<Rightarrow> string option + string"
  pe_recoverResource :: "resource_message patch_typed_data \<Rightarrow> string \<Rightarrow> string option + string"
  pe_signatureHash :: "string \<Rightarrow> string"
  pe_canonicalJson :: "jsval \<Rightarrow> string"
  pe_executorJson :: "executor_patch \<Rightarrow> string"
  pe_resourceJson :: "resource_patch \<Rightarrow> string"
  pe_executorTypedJson :: "executor_message patch_typed_data \<Rightarrow> string"
  pe_resourceTypedJson :: "resource_message patch_typed_data \<Rightarrow> string"

definition STAGE_EXECUTOR_PATCH_SIGNAL_ID :: string where
  "STAGE_EXECUTOR_PATCH_SIGNAL_ID = ''0xbbb1770c9313f4029a89e03f4719037cdad52864ab4da5f623bc7c8a0c489e97''"

definition STAGE_RESOURCE_PATCH_SIGNAL_ID :: string where
  "STAGE_RESOURCE_PATCH_SIGNAL_ID = ''0x6dff331f2bb7b785cbcd99a911e6d30dc8714f43b3b9ba80c658215445ddd0ba''"

section \<open>The task and its order\<close>

text \<open>The order is looked up by identifier, contract and task, not by plan or chain.\<close>

definition resolveSelectorTaskContext ::
  "projection_store \<Rightarrow> string \<Rightarrow> patch_error + task_proj \<times> order_proj" where
  "resolveSelectorTaskContext ps taskId = (case getStateMachineTask taskId ps of
       None \<Rightarrow> Inl (ProductStagePatchError 404 ''product_task_not_found'' ''product task not found'')
     | Some task \<Rightarrow>
         (case List.find (\<lambda>x. toLowerCase (or_orderId x) = toLowerCase (tk_orderId task)
              \<and> toLowerCase (or_contractAddress x) = toLowerCase (tk_stateMachineAddress task)
              \<and> tk_taskId task \<in> set (jkeys (or_tasks x))) (listStateMachineOrders ps) of
            None \<Rightarrow> Inl (ProductStagePatchError 404 ''product_order_not_found''
              ''state-machine order for task was not found'')
          | Some order \<Rightarrow> Inr (task, order)))"

definition findProjectedPlan :: "projection_store \<Rightarrow> order_proj \<Rightarrow> plan_proj option" where
  "findProjectedPlan ps order =
     List.find (\<lambda>p. pl_planId p = or_planId order
       \<and> toLowerCase (pl_stateMachineAddress p) = toLowerCase (or_contractAddress order))
       (jvalues (sn_stateMachinePlans (ps_snapshot ps)))"

definition plan_capabilities :: "projection_store \<Rightarrow> order_proj \<Rightarrow> signal_capability list" where
  "plan_capabilities ps order =
     (case findProjectedPlan ps order of None \<Rightarrow> [] | Some p \<Rightarrow> pl_signalCapabilities p)"

definition findProductSchema :: "patch_env \<Rightarrow> order_proj \<Rightarrow> plan_proj option \<Rightarrow> product_schema option" where
  "findProductSchema E order plan =
     (case (pe_schema E, keep_truthy (opt_or (or_planHash order) (map_option pl_planHash plan))) of
        (Some f, Some planHash) \<Rightarrow> f (or_planId order) planHash
      | _ \<Rightarrow> None)"

section \<open>The wallet of the selector\<close>

definition schemaStageMatchesProjectedStage :: "patch_env \<Rightarrow> string \<Rightarrow> string \<Rightarrow> bool res" where
  "schemaStageMatchesProjectedStage E schemaStageId projectedStageId =
     (if toLowerCase schemaStageId = toLowerCase projectedStageId then Inr True
      else bindR (normalizeBytes32 (pe_bindings E)
          (if is_bytes32 schemaStageId then schemaStageId else pe_onchainStageId E schemaStageId) ''schema.stageId'')
        (\<lambda>derived. Inr (toLowerCase derived = toLowerCase projectedStageId)))"

text \<open>\<open>some\<close> stops at the first element that passes; an element may throw.\<close>

fun someR :: "('a \<Rightarrow> 'e + bool) \<Rightarrow> 'a list \<Rightarrow> 'e + bool" where
  "someR f [] = Inr False"
| "someR f (x # xs) = bindR (f x) (\<lambda>b. if b then Inr True else someR f xs)"

fun collectR :: "('a \<Rightarrow> 'e + bool) \<Rightarrow> ('a \<Rightarrow> 'b) \<Rightarrow> 'a list \<Rightarrow> 'e + 'b list" where
  "collectR f g [] = Inr []"
| "collectR f g (x # xs) = bindR (f x) (\<lambda>b. bindR (collectR f g xs) (\<lambda>ys. Inr (if b then g x # ys else ys)))"

definition roleSlotIdsForTaskStage :: "patch_env \<Rightarrow> product_schema \<Rightarrow> string \<Rightarrow> string list res" where
  "roleSlotIdsForTaskStage E schema stageIdentifier =
     bindR (collectR (\<lambda>(stageId, slot). schemaStageMatchesProjectedStage E stageId stageIdentifier) snd
       (psc_orderPermissionTable schema)) (\<lambda>permitted.
     bindR (collectR (\<lambda>(slot, plugins).
         someR (someR (\<lambda>stageId. schemaStageMatchesProjectedStage E stageId stageIdentifier)) plugins) fst
       (psc_roleSlots schema)) (\<lambda>capable.
     Inr (permitted @ capable)))"

definition isSelectorWalletAssignedToTask ::
  "patch_env \<Rightarrow> projection_store \<Rightarrow> task_proj \<Rightarrow> order_proj \<Rightarrow> string \<Rightarrow> bool res" where
  "isSelectorWalletAssignedToTask E ps task order selectorWallet =
     (case keep_truthy (tk_assigneeWallet task) of
        Some w \<Rightarrow> Inr (toLowerCase w = toLowerCase selectorWallet)
      | None \<Rightarrow>
          (case (pe_product E, findProductSchema E order (findProjectedPlan ps order)) of
             (Some product, Some schema) \<Rightarrow>
               bindR (roleSlotIdsForTaskStage E schema (tk_stageIdentifier task)) (\<lambda>slots.
               if slots = [] then Inr False
               else (case List.find (\<lambda>g. toLowerCase (pg_orderId g) = toLowerCase (or_orderId order)
                     \<and> toLowerCase (pg_planId g) = toLowerCase (or_planId order)
                     \<and> (case keep_truthy (pg_stateMachineAddress g) of None \<Rightarrow> True
                        | Some a \<Rightarrow> toLowerCase a = toLowerCase (or_contractAddress order)))
                     (po_registrations product) of
                   None \<Rightarrow> Inr False
                 | Some g \<Rightarrow> Inr (\<exists>p \<in> set (po_participants product (pg_draftId g)).
                     pn_status p = ''accepted'' \<and> pn_roleSlotId p \<in> set slots
                     \<and> map_option toLowerCase (pn_walletAddress p) = Some (toLowerCase selectorWallet))))
           | _ \<Rightarrow> Inr False))"

section \<open>The stages it may select\<close>

definition stringField :: "(string \<times> jsval) list \<Rightarrow> string \<Rightarrow> string option" where
  "stringField record_fields field = (case jfield record_fields field of
       JStr s \<Rightarrow> if s = [] then None else Some s | _ \<Rightarrow> None)"

definition binding_stage :: "patch_env \<Rightarrow> string option \<Rightarrow> string option \<Rightarrow> string \<Rightarrow> string res" where
  "binding_stage E stageId stageIdentifier label = (case stageId of
       Some i \<Rightarrow> normalizeBytes32 (pe_bindings E) i (''selectorBinding.'' @ label @ ''StageId'')
     | None \<Rightarrow> normalizeBytes32 (pe_bindings E)
         (pe_onchainStageId E (case stageIdentifier of None \<Rightarrow> [] | Some s \<Rightarrow> s))
         (''selectorBinding.'' @ label @ ''StageIdentifier''))"

definition selectorBindingFromUnknown :: "patch_env \<Rightarrow> jsval \<Rightarrow> selector_binding list res" where
  "selectorBindingFromUnknown E value = (case value of
       JObj fs \<Rightarrow>
         (let field = stringField fs;
              selectorId = field ''selectorStageId''; targetId = field ''targetStageId'';
              selectorName = field ''selectorStageIdentifier''; targetName = field ''targetStageIdentifier'' in
          if selectorId = None \<and> selectorName = None then Inr []
          else if targetId = None \<and> targetName = None then Inr []
          else
            bindR (binding_stage E selectorId selectorName ''selector'') (\<lambda>selector.
            bindR (binding_stage E targetId targetName ''target'') (\<lambda>target.
            bindR (case field ''bindingHash'' of None \<Rightarrow> Inr None
              | Some h \<Rightarrow> bindR (normalizeBytes32 (pe_bindings E) h ''selectorBinding.bindingHash'') (\<lambda>w. Inr (Some w)))
              (\<lambda>bindingHash.
            Inr [\<lparr>sb_selectorStageIdentifier = selectorName, sb_targetStageIdentifier = targetName,
              sb_selectorStageId = selector, sb_targetStageId = target, sb_bindingHash = bindingHash\<rparr>]))))
     | _ \<Rightarrow> Inr [])"

definition selectorBindingsFromProductSchema ::
  "patch_env \<Rightarrow> product_schema option \<Rightarrow> selector_binding list res" where
  "selectorBindingsFromProductSchema E schema = (case schema of
       None \<Rightarrow> Inr []
     | Some s \<Rightarrow>
         (let raw = (case opt_or (psc_selectorBindings s) (psc_selectedStageBindings s) of None \<Rightarrow> [] | Some vs \<Rightarrow> vs) in
          bindR (mapR (selectorBindingFromUnknown E) raw) (\<lambda>bs. Inr (concat bs))))"

definition bindingMatchesTarget :: "selector_binding \<Rightarrow> string \<Rightarrow> string \<Rightarrow> bool" where
  "bindingMatchesTarget b targetStageId targetStageInput \<longleftrightarrow>
     sb_targetStageId b = targetStageId \<or> sb_targetStageIdentifier b = Some targetStageInput
     \<or> sb_targetStageIdentifier b = Some (toLowerCase targetStageInput)"

definition findAllowedSelectorBinding ::
  "patch_env \<Rightarrow> projection_store \<Rightarrow> order_proj \<Rightarrow> string \<Rightarrow> string \<Rightarrow> string \<Rightarrow> selector_binding option res" where
  "findAllowedSelectorBinding E ps order selectorStageId targetStageId targetStageInput =
     (let plan = findProjectedPlan ps order;
          allows = (\<lambda>b. sb_selectorStageId b = selectorStageId \<and> bindingMatchesTarget b targetStageId targetStageInput) in
      case Option.bind plan (\<lambda>p. List.find allows (pl_selectorBindings p)) of
        Some b \<Rightarrow> Inr (Some b)
      | None \<Rightarrow>
          bindR (selectorBindingsFromProductSchema E (findProductSchema E order plan)) (\<lambda>bs.
            Inr (List.find allows bs)))"

definition patch_authorized :: "order_proj \<Rightarrow> string \<Rightarrow> string \<Rightarrow> string \<Rightarrow> bool" where
  "patch_authorized order selectorStageId signalId selectorWallet \<longleftrightarrow>
     (\<exists>a \<in> set (jvalues (or_authorizations order)).
        toLowerCase (auth_sourceId a) = toLowerCase selectorStageId
        \<and> toLowerCase (auth_signalId a) = toLowerCase signalId
        \<and> toLowerCase (auth_submitter a) = toLowerCase selectorWallet)"

definition ensureSelectorPatchSignalAuthorization ::
  "order_proj \<Rightarrow> string \<Rightarrow> string \<Rightarrow> string \<Rightarrow> string \<Rightarrow> patch_error + unit" where
  "ensureSelectorPatchSignalAuthorization order selectorStageId signalId selectorWallet patchLabel =
     guardP (patch_authorized order selectorStageId signalId selectorWallet) 403
       ''order_signal_authorization_missing'' (''selector wallet is not authorized on chain for '' @ patchLabel)"

section \<open>The context of a patch\<close>

record selector_context =
  sc_task :: task_proj
  sc_order :: order_proj
  sc_selectorWallet :: string
  sc_targetStageId :: string
  sc_capabilities :: "signal_capability list"

definition resolveSelectorPatchContext ::
  "patch_env \<Rightarrow> projection_store \<Rightarrow> string \<Rightarrow> string \<Rightarrow> string \<Rightarrow> string \<Rightarrow> string \<Rightarrow> bool
    \<Rightarrow> patch_error + selector_context" where
  "resolveSelectorPatchContext E ps taskId selectorWalletInput targetStageInput patchLabel patchSignalId allowSubmitted =
     bindR (resolveSelectorTaskContext ps taskId) (\<lambda>(task, order).
     bindR (patch_thrown (normalizeAddress (pe_bindings E) selectorWalletInput ''selectorWallet'')) (\<lambda>selectorWallet.
     bindR (guardP (tk_status task = TaskReady) 409 ''executor_patch_task_not_ready''
       (''executor patch task is not ready for '' @ patchLabel)) (\<lambda>_.
     bindR (patch_thrown (isSelectorWalletAssignedToTask E ps task order selectorWallet)) (\<lambda>assigned.
     bindR (guardP assigned 403 ''selector_wallet_not_authorized''
       ''selector wallet is not assigned to this task'') (\<lambda>_.
     bindR (normalizeTargetStage (pe_bindings E) (pe_onchainStageId E) targetStageInput) (\<lambda>target.
     bindR (patch_thrown (findAllowedSelectorBinding E ps order (tk_stageIdentifier task) target targetStageInput))
       (\<lambda>binding.
     bindR (guardP (binding \<noteq> None) 400 ''invalid_target_stage''
       ''target stage is not allowed by plan selector bindings'') (\<lambda>_.
     bindR (ensureSelectorPatchSignalAuthorization order (tk_stageIdentifier task) patchSignalId selectorWallet patchLabel)
       (\<lambda>_.
     bindR (guardP (allowSubmitted \<or> \<not> hasSubmittedTargetSignal order target (plan_capabilities ps order)) 409
       ''target_stage_locked'' ''target stage already has a submitted signal'') (\<lambda>_.
       Inr \<lparr>sc_task = task, sc_order = order, sc_selectorWallet = selectorWallet, sc_targetStageId = target,
         sc_capabilities = plan_capabilities ps order\<rparr>))))))))))"

end
