(* ===== verification/PatchService.thy ===== *)
theory PatchService imports PatchAccess begin

text \<open>
  The stage patch services (\<open>stage-patches/service.ts\<close>): preparing a patch for the selector's
  signature and submitting the signed one. The executor service and the resource service go
  through the same steps; what differs is a \<open>patch_kind\<close>.
\<close>

type_synonym executor_store = "unit executor_patch_ext patch_store"
type_synonym resource_store = "unit resource_patch_ext patch_store"

section \<open>Typed data and signatures\<close>

definition nonZeroHash :: "string \<Rightarrow> string \<Rightarrow> string res" where
  "nonZeroHash value fieldName =
     (if value = ZERO_BYTES32 then Inl (ConfigError (fieldName @ '' must not be zero'')) else Inr value)"

definition hash_payload :: "string \<Rightarrow> string option + string \<Rightarrow> string res" where
  "hash_payload fallback result = (case result of
       Inr h \<Rightarrow> nonZeroHash h ''patchHash''
     | Inl (Some message) \<Rightarrow> Inl (ConfigError message)
     | Inl None \<Rightarrow> Inl (ConfigError fallback))"

definition hashStageExecutorPatchPayload :: "patch_env \<Rightarrow> executor_payload \<Rightarrow> string res" where
  "hashStageExecutorPatchPayload E payload =
     hash_payload ''invalid stage executor patch payload'' (pe_hashExecutor E payload)"

definition hashStageResourcePatchPayload :: "patch_env \<Rightarrow> resource_payload \<Rightarrow> string res" where
  "hashStageResourcePatchPayload E payload =
     hash_payload ''invalid stage resource patch payload'' (pe_hashResource E payload)"

definition buildStageExecutorPatchTypedData ::
  "int \<Rightarrow> string \<Rightarrow> executor_message \<Rightarrow> executor_message patch_typed_data" where
  "buildStageExecutorPatchTypedData chain verifyingContract message =
     \<lparr>pt_chainId = chain, pt_verifyingContract = toLowerCase verifyingContract,
      pt_message = message\<lparr>xm_selector := toLowerCase (xm_selector message)\<rparr>\<rparr>"

definition buildStageResourcePatchTypedData ::
  "int \<Rightarrow> string \<Rightarrow> resource_message \<Rightarrow> resource_message patch_typed_data" where
  "buildStageResourcePatchTypedData chain verifyingContract message =
     \<lparr>pt_chainId = chain, pt_verifyingContract = toLowerCase verifyingContract,
      pt_message = message\<lparr>rm_selector := toLowerCase (rm_selector message)\<rparr>\<rparr>"

definition normalizePatchSignature :: "string \<Rightarrow> string res" where
  "normalizePatchSignature v =
     bindR (assertHex v ''signature'') (\<lambda>_.
       if drop 2 v = [] then Inl (ConfigError ''signature must be a non-empty 0x-prefixed hex string'')
       else Inr (toLowerCase v))"

fun js_message :: "js_error \<Rightarrow> string" where
  "js_message (ProjectionError m) = m"
| "js_message (ConfigError m) = m"
| "js_message (TypeError m) = m"
| "js_message (SyntaxError m) = m"

text \<open>What a caller of the service is told.\<close>

fun normalizeStagePatchServiceError :: "patch_error \<Rightarrow> int \<times> string \<times> string" where
  "normalizeStagePatchServiceError (ProductStagePatchError status code message) = (status, code, message)"
| "normalizeStagePatchServiceError (PatchThrown (ConfigError message)) = (400, ''invalid_body'', message)"
| "normalizeStagePatchServiceError (PatchThrown e) = (500, ''stage_patch_failed'', js_message e)"
| "normalizeStagePatchServiceError (PatchExternal e) = (500, ''stage_patch_failed'', te_text e)"

text \<open>
  Recovery of a signer, for typed data of either kind; whatever is thrown on the way becomes the
  given error.
\<close>

definition recover_signer ::
  "bindings \<Rightarrow> ('m patch_typed_data \<Rightarrow> string \<Rightarrow> string option + string) \<Rightarrow> 'm patch_typed_data \<Rightarrow> string
    \<Rightarrow> string option + string" where
  "recover_signer B recover td signature =
     (case normalizePatchSignature signature of
        Inl e \<Rightarrow> Inl (Some (js_message e))
      | Inr s \<Rightarrow>
          bindR (recover td s) (\<lambda>a. case normalizeAddress B a ''recoveredSelector'' of
              Inl e \<Rightarrow> Inl (Some (js_message e)) | Inr w \<Rightarrow> Inr w))"

definition recovered_as :: "string \<Rightarrow> string \<Rightarrow> string option + string \<Rightarrow> patch_error + string" where
  "recovered_as code fallback result = (case result of
       Inr a \<Rightarrow> Inr a
     | Inl (Some message) \<Rightarrow> Inl (ProductStagePatchError 400 code message)
     | Inl None \<Rightarrow> Inl (ProductStagePatchError 400 code fallback))"

definition recoverExecutorSelector :: "patch_env \<Rightarrow> executor_patch \<Rightarrow> string \<Rightarrow> patch_error + string" where
  "recoverExecutorSelector E p signature =
     recovered_as ''invalid_signature'' ''invalid signature''
       (recover_signer (pe_bindings E) (pe_recoverExecutor E) (xp_typedData p) signature)"

definition recoverExecutorPreviousExecutor :: "patch_env \<Rightarrow> executor_patch \<Rightarrow> string \<Rightarrow> patch_error + string" where
  "recoverExecutorPreviousExecutor E p signature =
     recovered_as ''invalid_previous_executor_signature'' ''invalid previous executor signature''
       (recover_signer (pe_bindings E) (pe_recoverExecutor E) (xp_typedData p) signature)"

definition recoverResourceSelector :: "patch_env \<Rightarrow> resource_patch \<Rightarrow> string \<Rightarrow> patch_error + string" where
  "recoverResourceSelector E p signature =
     recovered_as ''invalid_signature'' ''invalid signature''
       (recover_signer (pe_bindings E) (pe_recoverResource E) (rp_typedData p) signature)"

section \<open>Addresses\<close>

definition stateMachineAddressFor :: "patch_env \<Rightarrow> selector_context \<Rightarrow> patch_error + string" where
  "stateMachineAddressFor E x =
     (let address = (if tk_stateMachineAddress (sc_task x) \<noteq> [] then tk_stateMachineAddress (sc_task x)
        else if or_contractAddress (sc_order x) \<noteq> [] then or_contractAddress (sc_order x)
        else case keep_truthy (pe_verifyingContract E) of Some a \<Rightarrow> a | None \<Rightarrow> ZERO_ADDRESS) in
      bindR (patch_thrown (normalizeAddress (pe_bindings E) address ''stateMachineAddress'')) (\<lambda>a.
      bindR (guardP (a \<noteq> ZERO_ADDRESS) 409 ''state_machine_address_missing''
        ''state machine address is required for stage patch typed data'') (\<lambda>_. Inr a)))"

definition stagePatchModuleAddressFor :: "patch_env \<Rightarrow> patch_error + string" where
  "stagePatchModuleAddressFor E = (case keep_truthy (pe_stagePatchModuleAddress E) of
       None \<Rightarrow> Inl (ProductStagePatchError 409 ''module_address_missing''
         ''stagePatchModuleAddress is required for stage patch typed data'')
     | Some a \<Rightarrow> patch_thrown (normalizeAddress (pe_bindings E) a ''stagePatchModuleAddress''))"

section \<open>Preparing\<close>

record executor_patch_input =
  xi_selectorWallet :: string
  xi_targetStageId :: string
  xi_executorWallet :: string
  xi_mode :: "string option"
  xi_previousExecutorWallet :: "string option"
  xi_approvalSourceId :: "string option"
  xi_approvalSignalId :: "string option"
  xi_roleHash :: "string option"
  xi_executorMetadataHash :: "string option"
  xi_supplierReferenceHash :: "string option"
  xi_metadataURI :: string

record resource_patch_input =
  ri_selectorWallet :: string
  ri_targetStageId :: string
  ri_resourceKey :: string
  ri_manifestHash :: string
  ri_policyHash :: string
  ri_manifestURI :: string

definition executor_message_of ::
  "string \<Rightarrow> executor_payload \<Rightarrow> string \<Rightarrow> string \<Rightarrow> string \<Rightarrow> executor_message" where
  "executor_message_of planId l patchHash selector deadline =
     \<lparr>xm_planId = planId, xm_orderId = xl_orderId l, xm_selectorStageId = xl_selectorStageId l,
      xm_targetStageId = xl_targetStageId l, xm_executor = xl_executor l, xm_role = xl_role l,
      xm_executorMetadataHash = xl_executorMetadataHash l, xm_mode = xl_mode l,
      xm_previousExecutor = xl_previousExecutor l, xm_approvalSourceId = xl_approvalSourceId l,
      xm_approvalSignalId = xl_approvalSignalId l, xm_patchHash = patchHash, xm_patchNonce = xl_patchNonce l,
      xm_metadataURI = xl_metadataURI l, xm_selector = selector, xm_deadline = deadline\<rparr>"

definition resource_message_of ::
  "string \<Rightarrow> resource_payload \<Rightarrow> string \<Rightarrow> string \<Rightarrow> string \<Rightarrow> resource_message" where
  "resource_message_of planId l patchHash selector deadline =
     \<lparr>rm_planId = planId, rm_orderId = rl_orderId l, rm_selectorStageId = rl_selectorStageId l,
      rm_targetStageId = rl_targetStageId l, rm_resourceKey = rl_resourceKey l,
      rm_manifestHash = rl_manifestHash l, rm_policyHash = rl_policyHash l, rm_patchHash = patchHash,
      rm_patchNonce = rl_patchNonce l, rm_manifestURI = rl_manifestURI l, rm_selector = selector,
      rm_deadline = deadline\<rparr>"

text \<open>The patch that is built, at time \<open>t\<close>, from the projections and the request.\<close>

definition build_executor_patch ::
  "patch_env \<Rightarrow> projection_store \<Rightarrow> int \<Rightarrow> string \<Rightarrow> string \<Rightarrow> executor_patch_input \<Rightarrow> patch_error + executor_patch" where
  "build_executor_patch E ps t prepareId taskId inp =
     bindR (resolveSelectorPatchContext E ps taskId (xi_selectorWallet inp) (xi_targetStageId inp)
       ''stage executor patch'' STAGE_EXECUTOR_PATCH_SIGNAL_ID True) (\<lambda>x.
     let order = sc_order x; target = sc_targetStageId x; B = pe_bindings E in
     bindR (resolveExecutorPatchGovernance B order target
       \<lparr>gi_mode = keep_truthy (xi_mode inp), gi_previousExecutor = keep_truthy (xi_previousExecutorWallet inp),
        gi_approvalSourceId = keep_truthy (xi_approvalSourceId inp),
        gi_approvalSignalId = keep_truthy (xi_approvalSignalId inp)\<rparr> (sc_capabilities x)) (\<lambda>g.
     bindR (normalizeNonZeroAddress B (xi_executorWallet inp) ''executorWallet'') (\<lambda>executorWallet.
     bindR (normalizeNonZeroBytes32 B (opt_or (xi_executorMetadataHash inp) (xi_supplierReferenceHash inp))
       ''executorMetadataHash'') (\<lambda>metadataHash.
     bindR (if truthy (xi_roleHash inp) then normalizeNonZeroBytes32 B (xi_roleHash inp) ''roleHash''
       else Inr target) (\<lambda>roleHash.
     bindR (nextStageExecutorPatchNonce order target) (\<lambda>patchNonce.
     bindR (normalizedMetadataURI (xi_metadataURI inp)) (\<lambda>metadataURI.
     let payload = \<lparr>xl_orderId = or_orderId order, xl_selectorStageId = tk_stageIdentifier (sc_task x),
           xl_targetStageId = target, xl_executor = executorWallet, xl_role = roleHash,
           xl_executorMetadataHash = metadataHash, xl_mode = eg_modeHash g,
           xl_previousExecutor = eg_previousExecutorForPatch g,
           xl_approvalSourceId = eg_approvalSourceIdForPatch g,
           xl_approvalSignalId = eg_approvalSignalIdForPatch g,
           xl_patchNonce = patchNonce, xl_metadataURI = metadataURI\<rparr> in
     bindR (patch_thrown (hashStageExecutorPatchPayload E payload)) (\<lambda>patchHash.
     let deadlineSeconds = t div 1000 + pe_ttlSeconds E; deadline = dec_int deadlineSeconds in
     bindR (stateMachineAddressFor E x) (\<lambda>stateMachineAddress.
     bindR (stagePatchModuleAddressFor E) (\<lambda>module.
     Inr \<lparr>pp_prepareId = prepareId, pp_taskId = taskId, pp_orderId = or_orderId order,
       pp_onchainOrderId = or_orderId order, pp_stateMachineAddress = stateMachineAddress,
       pp_planId = or_planId order, pp_selectorStageId = tk_stageIdentifier (sc_task x),
       pp_targetStageId = target, pp_selectorWallet = sc_selectorWallet x, pp_patchHash = patchHash,
       pp_patchNonce = patchNonce, pp_deadline = deadline,
       pp_expiresAt = toISOString (deadlineSeconds * 1000),
       pp_nonceKey = stagePatchNonceKey ''executor'' (pe_chainId E) stateMachineAddress (or_orderId order) target
         None None patchNonce,
       pp_usedAt = None, pp_submissionId = None,
       xp_executorWallet = executorWallet, xp_mode = eg_mode g, xp_modeHash = eg_modeHash g,
       xp_previousExecutor = keep_truthy (eg_previousExecutor g),
       xp_approvalSourceId = keep_truthy (eg_approvalSourceId g),
       xp_approvalSignalId = keep_truthy (eg_approvalSignalId g),
       xp_roleHash = roleHash, xp_executorMetadataHash = metadataHash, xp_metadataURI = metadataURI,
       xp_typedData = buildStageExecutorPatchTypedData (pe_chainId E) module
         (executor_message_of (or_planId order) payload patchHash (sc_selectorWallet x) deadline)\<rparr>))))))))))"

definition build_resource_patch ::
  "patch_env \<Rightarrow> projection_store \<Rightarrow> int \<Rightarrow> string \<Rightarrow> string \<Rightarrow> resource_patch_input \<Rightarrow> patch_error + resource_patch" where
  "build_resource_patch E ps t prepareId taskId inp =
     bindR (resolveSelectorPatchContext E ps taskId (ri_selectorWallet inp) (ri_targetStageId inp)
       ''stage resource patch'' STAGE_RESOURCE_PATCH_SIGNAL_ID False) (\<lambda>x.
     let order = sc_order x; target = sc_targetStageId x; B = pe_bindings E in
     bindR (normalizeResourceKey B (pe_textHash E) (ri_resourceKey inp)) (\<lambda>resourceKey.
     bindR (normalizeNonZeroBytes32 B (Some (ri_manifestHash inp)) ''manifestHash'') (\<lambda>manifestHash.
     bindR (normalizeNonZeroBytes32 B (Some (ri_policyHash inp)) ''policyHash'') (\<lambda>policyHash.
     bindR (normalizedManifestURI (ri_manifestURI inp) (pe_runtimeEnvironment E)) (\<lambda>manifestURI.
     bindR (nextStageResourcePatchNonce order target resourceKey) (\<lambda>patchNonce.
     let payload = \<lparr>rl_orderId = or_orderId order, rl_selectorStageId = tk_stageIdentifier (sc_task x),
           rl_targetStageId = target, rl_resourceKey = resourceKey, rl_manifestHash = manifestHash,
           rl_policyHash = policyHash, rl_patchNonce = patchNonce, rl_manifestURI = manifestURI\<rparr> in
     bindR (patch_thrown (hashStageResourcePatchPayload E payload)) (\<lambda>patchHash.
     let deadlineSeconds = t div 1000 + pe_ttlSeconds E; deadline = dec_int deadlineSeconds in
     bindR (stateMachineAddressFor E x) (\<lambda>stateMachineAddress.
     bindR (stagePatchModuleAddressFor E) (\<lambda>module.
     Inr \<lparr>pp_prepareId = prepareId, pp_taskId = taskId, pp_orderId = or_orderId order,
       pp_onchainOrderId = or_orderId order, pp_stateMachineAddress = stateMachineAddress,
       pp_planId = or_planId order, pp_selectorStageId = tk_stageIdentifier (sc_task x),
       pp_targetStageId = target, pp_selectorWallet = sc_selectorWallet x, pp_patchHash = patchHash,
       pp_patchNonce = patchNonce, pp_deadline = deadline,
       pp_expiresAt = toISOString (deadlineSeconds * 1000),
       pp_nonceKey = stagePatchNonceKey ''resource'' (pe_chainId E) stateMachineAddress (or_orderId order) target
         None (Some resourceKey) patchNonce,
       pp_usedAt = None, pp_submissionId = None,
       rp_resourceKey = resourceKey, rp_manifestHash = manifestHash, rp_policyHash = policyHash,
       rp_manifestURI = manifestURI,
       rp_typedData = buildStageResourcePatchTypedData (pe_chainId E) module
         (resource_message_of (or_planId order) payload patchHash (sc_selectorWallet x) deadline)\<rparr>)))))))))"

text \<open>What leaves the service: the patch without the fields of its record.\<close>

definition dtoFromPrepared :: "'x prepared_patch_scheme \<Rightarrow> 'x prepared_patch_scheme" where
  "dtoFromPrepared p = p\<lparr>pp_nonceKey := [], pp_usedAt := None, pp_submissionId := None\<rparr>"

text \<open>
  Storing a prepared patch: expired ones are swept first. \<open>None\<close> when the store does not return;
  \<open>now\<close> is the time of the sweep and \<open>storeNow\<close> that of the store's own clock.
\<close>

definition store_prepared ::
  "int \<Rightarrow> int \<Rightarrow> patch_error + 'x prepared_patch_scheme \<Rightarrow> 'x patch_store
    \<Rightarrow> ((patch_error + 'x prepared_patch_scheme) \<times> 'x patch_store) option" where
  "store_prepared now storeNow built st = (case built of
       Inl e \<Rightarrow> Some (Inl e, st)
     | Inr p \<Rightarrow> map_option (\<lambda>st'. (Inr (dtoFromPrepared p), st'))
         (put_patch storeNow p (snd (deleteExpiredPrepared (dec_int (now div 1000)) st))))"

definition prepareStageExecutorPatch ::
  "patch_env \<Rightarrow> projection_store \<Rightarrow> (nat \<Rightarrow> int) \<Rightarrow> int \<Rightarrow> string \<Rightarrow> string \<Rightarrow> executor_patch_input
    \<Rightarrow> executor_store \<Rightarrow> ((patch_error + executor_patch) \<times> executor_store) option" where
  "prepareStageExecutorPatch E ps clock storeNow prepareId taskId inp st =
     store_prepared (clock 1) storeNow (build_executor_patch E ps (clock 0) prepareId taskId inp) st"

definition prepareStageResourcePatch ::
  "patch_env \<Rightarrow> projection_store \<Rightarrow> (nat \<Rightarrow> int) \<Rightarrow> int \<Rightarrow> string \<Rightarrow> string \<Rightarrow> resource_patch_input
    \<Rightarrow> resource_store \<Rightarrow> ((patch_error + resource_patch) \<times> resource_store) option" where
  "prepareStageResourcePatch E ps clock storeNow prepareId taskId inp st =
     store_prepared (clock 1) storeNow (build_resource_patch E ps (clock 0) prepareId taskId inp) st"

section \<open>Archive records\<close>

text \<open>
  The rows shown for a record: an executor patch adds its mode, executors, approval and the
  states of its signatures.
\<close>

record patch_rows =
  pw_executor :: "string option"
  pw_mode :: "executor_mode option"
  pw_previousExecutor :: "string option"
  pw_approvalSourceId :: "string option"
  pw_approvalSignalId :: "string option"

definition some_row :: "string \<Rightarrow> string option \<Rightarrow> (string \<times> string) list" where
  "some_row label value = (case keep_truthy value of None \<Rightarrow> [] | Some v \<Rightarrow> [(label, v)])"

definition patch_proof_rows ::
  "string \<Rightarrow> patch_status \<Rightarrow> string \<Rightarrow> patch_rows \<Rightarrow> signature_status option \<Rightarrow> signature_status option
    \<Rightarrow> string \<Rightarrow> string option \<Rightarrow> string option \<Rightarrow> (string \<times> string) list" where
  "patch_proof_rows label status selector w selectorStatus previousStatus patchHash txHash errorCode =
     [(label, patch_status_text status)]
     @ some_row ''Mode'' (map_option executor_mode_text (pw_mode w))
     @ [(''Selector'', selector)]
     @ some_row ''New executor'' (pw_executor w)
     @ some_row ''Previous executor'' (pw_previousExecutor w)
     @ (case (keep_truthy (pw_approvalSourceId w), keep_truthy (pw_approvalSignalId w)) of
          (Some src, Some sig) \<Rightarrow> [(''Approval signal'', join_colon [src, sig])] | _ \<Rightarrow> [])
     @ some_row ''Selector signature'' (map_option signature_status_text selectorStatus)
     @ some_row ''Previous executor signature'' (map_option signature_status_text previousStatus)
     @ [(''Patch hash'', patchHash)]
     @ some_row ''Transaction'' txHash
     @ some_row ''Error'' errorCode"

definition executor_rows :: "executor_patch \<Rightarrow> patch_rows" where
  "executor_rows p =
     \<lparr>pw_executor = Some (xp_executorWallet p), pw_mode = Some (xp_mode p),
      pw_previousExecutor = xp_previousExecutor p, pw_approvalSourceId = xp_approvalSourceId p,
      pw_approvalSignalId = xp_approvalSignalId p\<rparr>"

definition resource_rows :: "resource_patch \<Rightarrow> patch_rows" where
  "resource_rows p = \<lparr>pw_executor = None, pw_mode = None, pw_previousExecutor = None,
     pw_approvalSourceId = None, pw_approvalSignalId = None\<rparr>"

definition previousExecutorSignatureStatus :: "executor_patch \<Rightarrow> bool \<Rightarrow> signature_status" where
  "previousExecutorSignatureStatus p verified =
     (if xp_mode p \<noteq> Handoff then Sg_not_required else if verified then Sg_verified else Sg_not_verified)"

section \<open>What differs between the two kinds\<close>

text \<open>
  Label and code name the kind in messages. Of an executor patch the previous executor may have
  to sign as well; its signature and the address recovered from it are the result of
  \<open>pk_previous\<close>.
\<close>

record 'x patch_kind =
  pk_label :: string
  pk_code :: string
  pk_rowLabel :: string
  pk_patchJson :: "'x prepared_patch_scheme \<Rightarrow> string"
  pk_typedJson :: "'x prepared_patch_scheme \<Rightarrow> string"
  pk_recover :: "'x prepared_patch_scheme \<Rightarrow> string \<Rightarrow> patch_error + string"
  pk_current :: "order_proj \<Rightarrow> 'x prepared_patch_scheme \<Rightarrow> signal_capability list \<Rightarrow> patch_error + unit"
  pk_previous :: "'x prepared_patch_scheme \<Rightarrow> string option \<Rightarrow> patch_error + (string \<times> string) option"
  pk_selectorStatus :: "signature_status \<Rightarrow> signature_status option"
  pk_previousStatus :: "'x prepared_patch_scheme \<Rightarrow> bool \<Rightarrow> signature_status option"
  pk_rows :: "'x prepared_patch_scheme \<Rightarrow> patch_rows"

definition signatureForPreviousExecutor :: "executor_patch \<Rightarrow> string option \<Rightarrow> patch_error + string option" where
  "signatureForPreviousExecutor p signatureInput =
     (if xp_mode p \<noteq> Handoff then Inr None
      else (case keep_truthy signatureInput of
          None \<Rightarrow> Inl (ProductStagePatchError 400 ''previous_executor_signature_required''
            ''handoff mode requires previousExecutorSignature'')
        | Some s \<Rightarrow> bindR (patch_thrown (normalizePatchSignature s)) (\<lambda>n. Inr (Some n))))"

definition executor_previous :: "patch_env \<Rightarrow> executor_patch \<Rightarrow> string option \<Rightarrow> patch_error + (string \<times> string) option" where
  "executor_previous E p signatureInput =
     bindR (signatureForPreviousExecutor p signatureInput) (\<lambda>previousSignature.
     case previousSignature of
       None \<Rightarrow> Inr None
     | Some s \<Rightarrow>
         bindR (recoverExecutorPreviousExecutor E p s) (\<lambda>recovered.
         bindR (guardP (Some recovered = xp_previousExecutor p) 400 ''invalid_previous_executor_signature''
           ''previous executor signature recovery did not match prepared previous executor'') (\<lambda>_.
           Inr (Some (s, recovered)))))"

definition executor_kind :: "patch_env \<Rightarrow> unit executor_patch_ext patch_kind" where
  "executor_kind E =
     \<lparr>pk_label = ''stage executor patch'', pk_code = ''stage_executor_patch'',
      pk_rowLabel = ''Stage executor patch status'',
      pk_patchJson = pe_executorJson E, pk_typedJson = (\<lambda>p. pe_executorTypedJson E (xp_typedData p)),
      pk_recover = recoverExecutorSelector E,
      pk_current = ensureExecutorPreparedStillCurrent (pe_bindings E),
      pk_previous = executor_previous E, pk_selectorStatus = Some,
      pk_previousStatus = (\<lambda>p verified. Some (previousExecutorSignatureStatus p verified)),
      pk_rows = executor_rows\<rparr>"

definition resource_kind :: "patch_env \<Rightarrow> unit resource_patch_ext patch_kind" where
  "resource_kind E =
     \<lparr>pk_label = ''stage resource patch'', pk_code = ''stage_resource_patch'',
      pk_rowLabel = ''Stage resource patch status'',
      pk_patchJson = pe_resourceJson E, pk_typedJson = (\<lambda>p. pe_resourceTypedJson E (rp_typedData p)),
      pk_recover = recoverResourceSelector E, pk_current = ensureResourcePreparedStillCurrent,
      pk_previous = (\<lambda>_ _. Inr None), pk_selectorStatus = (\<lambda>_. None),
      pk_previousStatus = (\<lambda>_ _. None), pk_rows = resource_rows\<rparr>"

end
