(* ===== verification/PatchSubmit.thy ===== *)
theory PatchSubmit imports PatchService begin

text \<open>
  Submitting a signed patch (\<open>stage-patches/service.ts\<close>), cut in two around its broadcast as the
  submission of signals is: everything up to the reservation of the nonce, and what is made of
  the broadcaster's reply. A transaction on the store happens as a whole or, as given by a fault,
  throws and changes nothing.
\<close>

section \<open>Records of an outcome\<close>

record patch_evidence =
  pv_signature :: string
  pv_recovered :: string
  pv_previous :: "(string \<times> string) option"

definition expired_patch_submission ::
  "'x patch_kind \<Rightarrow> 'x prepared_patch_scheme \<Rightarrow> string \<Rightarrow> string \<Rightarrow> 'x prepared_patch_scheme patch_submission" where
  "expired_patch_submission K p submissionId timestamp =
     (let code = pk_code K @ ''_expired''; selectorStatus = pk_selectorStatus K Sg_not_verified;
          previousStatus = pk_previousStatus K p False in
      \<lparr>px_submissionId = submissionId, px_patch = p, px_status = Ps_expired,
       px_signatureStatus = Sg_not_verified, px_selectorSignatureStatus = selectorStatus,
       px_previousExecutorSignatureStatus = previousStatus, px_signatureHash = None,
       px_previousExecutorSignatureHash = None, px_recoveredSelector = None, px_recoveredPreviousExecutor = None,
       px_broadcastStatus = Pb_not_attempted, px_txHash = None, px_blockNumber = None,
       px_errorCode = Some code,
       px_errorMessage = Some (''prepared '' @ pk_label K @ '' deadline has expired''), px_retryable = False,
       px_proofRows = patch_proof_rows (pk_rowLabel K) Ps_expired (pp_selectorWallet p) (pk_rows K p)
         selectorStatus previousStatus (pp_patchHash p) None (Some code),
       px_createdAt = timestamp, px_updatedAt = timestamp\<rparr>)"

text \<open>Status, transaction hash, block, code, message and whether a retry may help.\<close>

fun patch_outcome ::
  "patch_result \<Rightarrow> patch_status \<times> patch_broadcast_status \<times> string option \<times> string option
    \<times> string option \<times> string option \<times> bool" where
  "patch_outcome (PrSubmitted h b _) = (Ps_submitted, Pb_submitted, Some h, keep_truthy b, None, None, False)"
| "patch_outcome (PrConfirmed h b _) = (Ps_confirmed, Pb_confirmed, Some h, keep_truthy b, None, None, False)"
| "patch_outcome (PrBroadcasting h _) = (Ps_broadcasting, Pb_broadcasting, keep_truthy h, None, None, None, False)"
| "patch_outcome (PrFailed h b code message retryable _) =
     (Ps_failed, Pb_failed, keep_truthy h, keep_truthy b, Some code, Some message, retryable)"
| "patch_outcome (PrNotAttempted code reason) =
     (Ps_signature_received, Pb_not_attempted, None, None, Some code, Some reason, False)"

definition submission_from_patch_broadcast ::
  "patch_env \<Rightarrow> 'x patch_kind \<Rightarrow> 'x prepared_patch_scheme \<Rightarrow> patch_evidence \<Rightarrow> string \<Rightarrow> string \<Rightarrow> patch_result
    \<Rightarrow> 'x prepared_patch_scheme patch_submission" where
  "submission_from_patch_broadcast E K p v submissionId timestamp result =
     (let (status, broadcastStatus, txHash, blockNumber, errorCode, errorMessage, retryable) = patch_outcome result;
          signatureHash = keep_truthy (Some (pe_signatureHash E (pv_signature v)));
          previousHash = keep_truthy (map_option (\<lambda>(s, _). pe_signatureHash E s) (pv_previous v));
          selectorStatus = pk_selectorStatus K (if signatureHash \<noteq> None then Sg_verified else Sg_not_verified);
          previousStatus = pk_previousStatus K p (previousHash \<noteq> None) in
      \<lparr>px_submissionId = submissionId, px_patch = p, px_status = status,
       px_signatureStatus = Sg_verified, px_selectorSignatureStatus = selectorStatus,
       px_previousExecutorSignatureStatus = previousStatus,
       px_signatureHash = signatureHash, px_previousExecutorSignatureHash = previousHash,
       px_recoveredSelector = keep_truthy (Some (pv_recovered v)),
       px_recoveredPreviousExecutor = keep_truthy (map_option snd (pv_previous v)),
       px_broadcastStatus = broadcastStatus, px_txHash = txHash, px_blockNumber = blockNumber,
       px_errorCode = errorCode, px_errorMessage = errorMessage, px_retryable = retryable,
       px_proofRows = patch_proof_rows (pk_rowLabel K) status (pp_selectorWallet p) (pk_rows K p)
         selectorStatus previousStatus (pp_patchHash p) txHash errorCode,
       px_createdAt = timestamp, px_updatedAt = timestamp\<rparr>)"

section \<open>Up to the reservation\<close>

record patch_submit_input =
  pti_prepareId :: "string option"
  pti_patchPrepareId :: "string option"
  pti_selectorWallet :: string
  pti_patch :: "jsval option"
  pti_typedData :: "jsval option"
  pti_signature :: string
  pti_previousExecutorSignature :: "string option"

record 'x patch_context =
  pct_patch :: "'x prepared_patch_scheme"
  pct_evidence :: patch_evidence

datatype 'x patch_begun =
    PbArchived "'x prepared_patch_scheme patch_submission"
  | PbReserved "'x patch_context"

definition prepareIdForSubmit :: "patch_submit_input \<Rightarrow> string \<Rightarrow> patch_error + string" where
  "prepareIdForSubmit inp patchLabel =
     (case keep_truthy (map_option trim (pti_prepareId inp)) of
        Some i \<Rightarrow> Inr i
      | None \<Rightarrow>
          (case keep_truthy (map_option trim (pti_patchPrepareId inp)) of
             Some i \<Rightarrow> Inr i
           | None \<Rightarrow> Inl (ProductStagePatchError 400 ''invalid_body''
               (patchLabel @ '' submit requires prepareId or prepared patch''))))"

definition validateSubmittedPreparedEnvelope ::
  "patch_env \<Rightarrow> 'x patch_kind \<Rightarrow> patch_submit_input \<Rightarrow> 'x prepared_patch_scheme \<Rightarrow> patch_error + unit" where
  "validateSubmittedPreparedEnvelope E K inp p =
     bindR (guardP (case pti_patch inp of None \<Rightarrow> True | Some v \<Rightarrow> pe_canonicalJson E v = pk_patchJson K (dtoFromPrepared p))
       400 ''prepared_patch_mismatch''
       (''submitted '' @ pk_label K @ '' does not match the server-prepared patch'')) (\<lambda>_.
     guardP (case pti_typedData inp of None \<Rightarrow> True | Some v \<Rightarrow> pe_canonicalJson E v = pk_typedJson K (dtoFromPrepared p))
       400 ''typed_data_mismatch''
       (''submitted typedData does not match the prepared '' @ pk_label K))"

definition validatePreparedForSubmit ::
  "bindings \<Rightarrow> 'x prepared_patch_scheme \<Rightarrow> string \<Rightarrow> string \<Rightarrow> string \<Rightarrow> patch_error + unit" where
  "validatePreparedForSubmit B p taskId selectorWalletInput patchLabel =
     bindR (guardP (pp_taskId p = taskId) 409 ''prepare_task_mismatch''
       (''prepared '' @ patchLabel @ '' belongs to a different task'')) (\<lambda>_.
     bindR (guardP (\<not> truthy (pp_usedAt p) \<and> \<not> truthy (pp_submissionId p)) 409 ''prepare_already_used''
       (''prepared '' @ patchLabel @ '' has already been used'')) (\<lambda>_.
     bindR (patch_thrown (normalizeAddress B selectorWalletInput ''selectorWallet'')) (\<lambda>selectorWallet.
     guardP (selectorWallet = pp_selectorWallet p) 400 ''wallet_mismatch''
       ''selectorWallet does not match prepared selector'')))"

definition patch_submit_checks ::
  "patch_env \<Rightarrow> 'x patch_kind \<Rightarrow> string \<Rightarrow> patch_submit_input \<Rightarrow> 'x patch_store
    \<Rightarrow> patch_error + 'x prepared_patch_scheme \<times> string \<times> string" where
  "patch_submit_checks E K taskId inp st =
     bindR (prepareIdForSubmit inp (pk_label K)) (\<lambda>prepareId.
     case get_patch prepareId st of
       None \<Rightarrow> Inl (ProductStagePatchError 404 ''prepare_not_found''
         (''prepared '' @ pk_label K @ '' was not found''))
     | Some p \<Rightarrow>
         bindR (validateSubmittedPreparedEnvelope E K inp p) (\<lambda>_.
         bindR (validatePreparedForSubmit (pe_bindings E) p taskId (pti_selectorWallet inp) (pk_label K)) (\<lambda>_.
         bindR (patch_thrown (normalizePatchSignature (pti_signature inp))) (\<lambda>signature.
         bindR (pk_recover K p signature) (\<lambda>recovered.
         bindR (guardP (recovered = pp_selectorWallet p) 400 ''invalid_signature''
           ''signature recovery did not match prepared selector'') (\<lambda>_.
           Inr (p, signature, recovered)))))))"

text \<open>A live patch: the projections must still allow it, and the previous executor agree.\<close>

definition patch_live_checks ::
  "'x patch_kind \<Rightarrow> projection_store \<Rightarrow> string \<Rightarrow> patch_submit_input \<Rightarrow> 'x prepared_patch_scheme
    \<Rightarrow> patch_error + (string \<times> string) option" where
  "patch_live_checks K ps taskId inp p =
     bindR (resolveSelectorTaskContext ps taskId) (\<lambda>(task, order).
     bindR (pk_current K order p (plan_capabilities ps order)) (\<lambda>_.
       pk_previous K p (pti_previousExecutorSignature inp)))"

definition patch_submit_begin ::
  "patch_env \<Rightarrow> 'x patch_kind \<Rightarrow> projection_store \<Rightarrow> (nat \<Rightarrow> int) \<Rightarrow> string \<Rightarrow> string \<Rightarrow> thrown_error option
    \<Rightarrow> string \<Rightarrow> patch_submit_input \<Rightarrow> 'x patch_store \<Rightarrow> (patch_error + 'x patch_begun) \<times> 'x patch_store" where
  "patch_submit_begin E K ps clock reservedAt submissionId fault taskId inp st =
     (case patch_submit_checks E K taskId inp st of
        Inl e \<Rightarrow> (Inl e, st)
      | Inr (p, signature, recovered) \<Rightarrow>
          (case bigint_of (pp_deadline p) of
             Inl e \<Rightarrow> (Inl (PatchThrown e), st)
           | Inr deadline \<Rightarrow>
               if deadline < clock 0 div 1000 then
                 (let expired = expired_patch_submission K p submissionId (toISOString (clock 1)) in
                  case fault of
                    Some e \<Rightarrow> (Inl (PatchExternal e), st)
                  | None \<Rightarrow> (Inr (PbArchived expired),
                      mark_patch_used (pp_prepareId p) submissionId (px_updatedAt expired)
                        (put_patch_submission expired st)))
               else (case patch_live_checks K ps taskId inp p of
                   Inl e \<Rightarrow> (Inl e, st)
                 | Inr previous \<Rightarrow>
                     (let (reserved, st') = reserve_patch_nonce (pp_nonceKey p)
                        (Some (toISOString (clock 1 - pe_ttlSeconds E * 1000))) reservedAt st in
                      if reserved then
                        (Inr (PbReserved \<lparr>pct_patch = p, pct_evidence =
                           \<lparr>pv_signature = signature, pv_recovered = recovered, pv_previous = previous\<rparr>\<rparr>), st')
                      else (Inl (ProductStagePatchError 409 (''duplicate_'' @ pk_code K @ ''_nonce'')
                        (pk_label K @ '' nonce has already been used'')), st')))))"

section \<open>After the broadcast\<close>

text \<open>What the broadcaster is given.\<close>

record 'x patch_request =
  prq_prepared :: "'x prepared_patch_scheme"
  prq_signature :: string
  prq_previousExecutorSignature :: "string option"
  prq_recoveredSelector :: string
  prq_recoveredPreviousExecutor :: "string option"

definition patch_request_of :: "'x patch_context \<Rightarrow> 'x patch_request" where
  "patch_request_of x = (let v = pct_evidence x in
     \<lparr>prq_prepared = dtoFromPrepared (pct_patch x), prq_signature = pv_signature v,
      prq_previousExecutorSignature = keep_truthy (map_option fst (pv_previous v)),
      prq_recoveredSelector = pv_recovered v,
      prq_recoveredPreviousExecutor = keep_truthy (map_option snd (pv_previous v))\<rparr>)"

datatype patch_reply = PatchResult patch_result | PatchThrows thrown_error

text \<open>The hash that counts when the archive fails: of a failure, that of its attempt.\<close>

fun broadcast_tx_hash :: "patch_result \<Rightarrow> string option" where
  "broadcast_tx_hash (PrFailed _ _ _ _ _ attemptHash) = attemptHash"
| "broadcast_tx_hash (PrNotAttempted _ _) = None"
| "broadcast_tx_hash (PrBroadcasting h _) = h"
| "broadcast_tx_hash (PrSubmitted h _ _) = Some h"
| "broadcast_tx_hash (PrConfirmed h _ _) = Some h"

fun not_attempted :: "patch_result \<Rightarrow> bool" where
  "not_attempted (PrNotAttempted _ _) = True"
| "not_attempted _ = False"

fun reopen_for_retry :: "patch_result \<Rightarrow> bool" where
  "reopen_for_retry (PrFailed h _ _ _ retryable _) = (retryable \<and> \<not> truthy h)"
| "reopen_for_retry _ = False"

record patch_faults =
  pf_archive :: "thrown_error option"
  pf_fallback :: bool
  pf_release :: "thrown_error option"

definition patch_persist_failed :: "'x patch_kind \<Rightarrow> string \<Rightarrow> patch_result" where
  "patch_persist_failed K txHash =
     PrFailed (Some txHash) None ''persist_failed''
       (''broadcast succeeded but persisting the '' @ pk_label K
         @ '' failed; the receipt is unknown and the nonce stays consumed'') False None"

definition patch_released ::
  "thrown_error option \<Rightarrow> thrown_error \<Rightarrow> 'x prepared_patch_scheme \<Rightarrow> 'x patch_store
    \<Rightarrow> (patch_error + 'y) \<times> 'x patch_store" where
  "patch_released fault e p st = (case fault of
       Some e' \<Rightarrow> (Inl (PatchExternal e'), st)
     | None \<Rightarrow> (Inl (PatchExternal e), release_patch_nonce (pp_nonceKey p) st))"

definition patch_submit_finish ::
  "patch_env \<Rightarrow> 'x patch_kind \<Rightarrow> (nat \<Rightarrow> int) \<Rightarrow> string \<Rightarrow> patch_faults \<Rightarrow> 'x patch_context \<Rightarrow> patch_reply
    \<Rightarrow> 'x patch_store \<Rightarrow> (patch_error + 'x prepared_patch_scheme patch_submission) \<times> 'x patch_store" where
  "patch_submit_finish E K clock submissionId faults x reply st =
     (let p = pct_patch x; record_of = submission_from_patch_broadcast E K p (pct_evidence x) submissionId in
      case reply of
        PatchThrows e \<Rightarrow> patch_released (pf_release faults) e p st
      | PatchResult r \<Rightarrow>
          (let sub = record_of (toISOString (clock 0)) r in
           case pf_archive faults of
             Some e \<Rightarrow>
               (case keep_truthy (broadcast_tx_hash r) of
                  None \<Rightarrow> patch_released (pf_release faults) e p st
                | Some h \<Rightarrow>
                    if submissionId = [] then patch_released (pf_release faults) e p st
                    else (Inl (PatchExternal e),
                      if pf_fallback faults then st
                      else put_patch_submission
                        (record_of (toISOString (clock 1)) (patch_persist_failed K h)) st))
           | None \<Rightarrow>
               (let st' = put_patch_submission sub st;
                    st'' = (if not_attempted r \<or> reopen_for_retry r
                      then release_patch_nonce (pp_nonceKey p) st'
                      else mark_patch_used (pp_prepareId p) submissionId (px_updatedAt sub) st') in
                (if not_attempted r
                 then Inl (ProductStagePatchError 503 ''broadcast_disabled''
                   (pk_label K @ '' relayer broadcast is not configured; the verified signature was recorded ''
                     @ ''but the prepare and nonce were not consumed''))
                 else Inr sub, st''))))"

section \<open>The services\<close>

definition begin_executor_patch ::
  "patch_env \<Rightarrow> projection_store \<Rightarrow> (nat \<Rightarrow> int) \<Rightarrow> string \<Rightarrow> string \<Rightarrow> thrown_error option
    \<Rightarrow> string \<Rightarrow> patch_submit_input \<Rightarrow> executor_store \<Rightarrow> (patch_error + unit executor_patch_ext patch_begun) \<times> executor_store" where
  "begin_executor_patch E = patch_submit_begin E (executor_kind E)"

definition finish_executor_patch ::
  "patch_env \<Rightarrow> (nat \<Rightarrow> int) \<Rightarrow> string \<Rightarrow> patch_faults \<Rightarrow> unit executor_patch_ext patch_context \<Rightarrow> patch_reply
    \<Rightarrow> executor_store \<Rightarrow> (patch_error + executor_patch patch_submission) \<times> executor_store" where
  "finish_executor_patch E = patch_submit_finish E (executor_kind E)"

definition begin_resource_patch ::
  "patch_env \<Rightarrow> projection_store \<Rightarrow> (nat \<Rightarrow> int) \<Rightarrow> string \<Rightarrow> string \<Rightarrow> thrown_error option
    \<Rightarrow> string \<Rightarrow> patch_submit_input \<Rightarrow> resource_store \<Rightarrow> (patch_error + unit resource_patch_ext patch_begun) \<times> resource_store" where
  "begin_resource_patch E = patch_submit_begin E (resource_kind E)"

definition finish_resource_patch ::
  "patch_env \<Rightarrow> (nat \<Rightarrow> int) \<Rightarrow> string \<Rightarrow> patch_faults \<Rightarrow> unit resource_patch_ext patch_context \<Rightarrow> patch_reply
    \<Rightarrow> resource_store \<Rightarrow> (patch_error + resource_patch patch_submission) \<times> resource_store" where
  "finish_resource_patch E = patch_submit_finish E (resource_kind E)"

end
