(* ===== verification/PatchClaims.thy ===== *)
theory PatchClaims imports PatchSubmit begin

text \<open>
  What holds of stage patches: the table of prepared patches stays small, only patches that were
  signed and are permitted reach the broadcaster, the previous executor is the last one to have
  acted, and a patch that was sent is not sent again.
\<close>

section \<open>The table of prepared patches\<close>

definition by_prepare_id :: "(string, 'x prepared_patch_scheme) jsmap \<Rightarrow> bool" where
  "by_prepare_id m \<longleftrightarrow> distinct (jkeys m) \<and> (\<forall>(i, p) \<in> set m. pp_prepareId p = i)"

definition deadline_of :: "'x prepared_patch_scheme \<Rightarrow> int" where
  "deadline_of p = the (js_number_of_string (pp_deadline p))"

definition deadlines_readable :: "(string, 'x prepared_patch_scheme) jsmap \<Rightarrow> bool" where
  "deadlines_readable m \<longleftrightarrow> (\<forall>p \<in> set (jvalues m). js_number_of_string (pp_deadline p) \<noteq> None)"

interpretation deadline_order: js_comparator compare_deadlines "\<lambda>p. js_number_of_string (pp_deadline p) \<noteq> None"
  by unfold_locales (auto simp: compare_deadlines_def)

lemma by_prepare_id_filter: "by_prepare_id m \<Longrightarrow> by_prepare_id (filter P m)"
  by (auto simp: by_prepare_id_def distinct_map_filter)

lemma by_prepare_id_jdelete: "by_prepare_id m \<Longrightarrow> by_prepare_id (jdelete k m)"
  by (auto simp: by_prepare_id_def)

lemma by_prepare_id_jset: "by_prepare_id m \<Longrightarrow> pp_prepareId p = i \<Longrightarrow> by_prepare_id (jset i p m)"
  by (auto simp: by_prepare_id_def set_jset_distinct)

lemma length_jdelete: "distinct (jkeys m) \<Longrightarrow> k \<in> set (jkeys m) \<Longrightarrow> Suc (length (jdelete k m)) = length m"
proof (induction m)
  case (Cons x m)
  show ?case
  proof (cases "fst x = k")
    case True
    with Cons.prems have "k \<notin> set (jkeys m)" by auto
    then have "jdelete k m = m" by (induction m) (auto split: prod.splits)
    with True show ?thesis by (cases x) simp
  next
    case False
    with Cons show ?thesis by (cases x) auto
  qed
qed simp

lemma length_jset: "length (jset k v m) \<le> Suc (length m)"
  by (induction m) (auto split: prod.splits)

lemma by_prepare_id_value: "by_prepare_id m \<Longrightarrow> q \<in> set (jvalues m) \<longleftrightarrow> jget m (pp_prepareId q) = Some q"
  by (auto simp: by_prepare_id_def image_iff dest: map_of_SomeD) force

lemma by_prepare_id_key: "by_prepare_id m \<Longrightarrow> jget m i = Some q \<Longrightarrow> pp_prepareId q = i"
  by (auto simp: by_prepare_id_def dest: map_of_SomeD)

text \<open>An eviction removes one row, none of whose fellows has an earlier deadline.\<close>

lemma evict_one_removes:
  assumes "by_prepare_id m" and "m \<noteq> []"
  obtains p where "p \<in> set (jvalues m)" and "evict_one m = jdelete (pp_prepareId p) m"
    and "Suc (length (evict_one m)) = length m"
    and "deadlines_readable m \<Longrightarrow> \<forall>q \<in> set (jvalues m). deadline_of p \<le> deadline_of q"
proof -
  obtain p ps where s: "js_sort compare_deadlines (jvalues m) = p # ps"
    using assms(2) by (metis js_sort_Nil_iff list.exhaust map_is_Nil_conv)
  then have p: "p \<in> set (jvalues m)" by (metis list.set_intros(1) set_js_sort)
  have e: "evict_one m = jdelete (pp_prepareId p) m" by (simp add: evict_one_def s)
  have "(pp_prepareId p, p) \<in> set m" using p assms(1) by (auto simp: by_prepare_id_def)
  then have "Suc (length (evict_one m)) = length m"
    using assms(1) unfolding e by_prepare_id_def by (intro length_jdelete) (auto intro: image_eqI [rotated])
  moreover have "\<forall>q \<in> set (jvalues m). deadline_of p \<le> deadline_of q" if d: "deadlines_readable m"
  proof -
    have ok: "js_number_of_string (pp_deadline q) \<noteq> None" if "q \<in> set (jvalues m)" for q
      using d that unfolding deadlines_readable_def by blast
    have "sorted_wrt (\<lambda>x y. compare_deadlines x y \<le> 0) (p # ps)"
      unfolding s [symmetric] using ok by (intro deadline_order.sorted_js_sort) auto
    moreover have same: "set (p # ps) = set (jvalues m)" by (metis s set_js_sort)
    ultimately have "compare_deadlines p q \<le> 0" if "q \<in> set (jvalues m)" for q
      using that deadline_order.refl [OF ok [OF p]] by (metis order_refl set_ConsD sorted_wrt.simps(2))
    then show ?thesis
      using ok [OF p] ok by (fastforce simp: compare_deadlines_def deadline_of_def)
  qed
  ultimately show thesis using that p e by blast
qed

text \<open>What is left after evictions, seen from the table \<open>m0\<close> before.\<close>

definition evicted_from ::
  "(string, 'x prepared_patch_scheme) jsmap \<Rightarrow> (string, 'x prepared_patch_scheme) jsmap \<Rightarrow> bool" where
  "evicted_from m0 m \<longleftrightarrow> by_prepare_id m \<and> set m \<subseteq> set m0
     \<and> (length m < length m0 \<longrightarrow> MEMORY_PREPARED_PATCH_HARD_LIMIT \<le> Suc (length m))
     \<and> (deadlines_readable m0 \<longrightarrow> (\<forall>p \<in> set (jvalues m0) - set (jvalues m). \<forall>q \<in> set (jvalues m).
          deadline_of p \<le> deadline_of q))"

lemma evict_one_evicted:
  assumes "evicted_from m0 m" and "MEMORY_PREPARED_PATCH_HARD_LIMIT \<le> length m" and "m \<noteq> []"
  shows "evicted_from m0 (evict_one m) \<and> length (evict_one m) < length m"
proof -
  have m: "by_prepare_id m" "set m \<subseteq> set m0" using assms(1) by (auto simp: evicted_from_def)
  obtain p where p: "p \<in> set (jvalues m)" "evict_one m = jdelete (pp_prepareId p) m"
    "Suc (length (evict_one m)) = length m"
    "deadlines_readable m \<Longrightarrow> \<forall>q \<in> set (jvalues m). deadline_of p \<le> deadline_of q"
    using evict_one_removes [OF m(1) assms(3)] by blast
  have vals: "set (jvalues (evict_one m)) = set (jvalues m) - {p}"
  proof -
    have e: "by_prepare_id (evict_one m)" using m(1) by (simp add: p(2) by_prepare_id_jdelete)
    have "q \<in> set (jvalues (evict_one m)) \<longleftrightarrow> q \<in> set (jvalues m) \<and> pp_prepareId q \<noteq> pp_prepareId p" for q
      unfolding by_prepare_id_value [OF e] by_prepare_id_value [OF m(1)] by (auto simp: p(2) split: if_splits)
    moreover have "pp_prepareId q = pp_prepareId p \<longleftrightarrow> q = p" if "q \<in> set (jvalues m)" for q
      using that p(1) by (metis by_prepare_id_value [OF m(1)] option.inject)
    ultimately show ?thesis by blast
  qed
  have "deadline_of x \<le> deadline_of q"
    if "deadlines_readable m0" "x \<in> set (jvalues m0) - set (jvalues (evict_one m))" "q \<in> set (jvalues (evict_one m))" for x q
  proof (cases "x = p")
    case True
    have "deadlines_readable m" using that(1) m(2) by (auto simp: deadlines_readable_def)
    then show ?thesis using p(4) that(3) True vals by auto
  next
    case False
    then show ?thesis using assms(1) that vals by (auto simp: evicted_from_def)
  qed
  moreover have "by_prepare_id (evict_one m)" "set (evict_one m) \<subseteq> set m"
    using m(1) by (auto simp: p(2) by_prepare_id_jdelete)
  moreover have "MEMORY_PREPARED_PATCH_HARD_LIMIT \<le> Suc (length (evict_one m))" "length (evict_one m) < length m"
    using p(3) assms(2) by simp_all
  ultimately show ?thesis using m(2) unfolding evicted_from_def by blast
qed

lemma evict_ends:
  assumes "by_prepare_id m"
  shows "\<exists>m'. evict m = Some m' \<and> evicted_from m m' \<and> length m' < MEMORY_PREPARED_PATCH_HARD_LIMIT"
proof -
  let ?b = "\<lambda>m :: (string, 'a prepared_patch_scheme) jsmap. MEMORY_PREPARED_PATCH_HARD_LIMIT \<le> length m \<and> m \<noteq> []"
  have start: "evicted_from m m" using assms by (auto simp: evicted_from_def)
  have "\<exists>t. while_option ?b evict_one m = Some t"
    by (rule measure_while_option_Some [where P = "evicted_from m" and f = length])
      (use start evict_one_evicted in auto)
  then obtain t where t: "while_option ?b evict_one m = Some t" by blast
  have "evicted_from m t"
    by (rule while_option_rule [where P = "evicted_from m", OF _ t start]) (use evict_one_evicted in auto)
  moreover have "\<not> ?b t" by (rule while_option_stop [OF t])
  ultimately show ?thesis using t by (auto simp: evict_def MEMORY_PREPARED_PATCH_HARD_LIMIT_def)
qed

text \<open>
  C28: The table of prepared patches stays within its limit. Storing a patch always returns, with
  the new patch in the table and at most five thousand rows; a row that is gone had expired or
  was sacrificed because the table was full, and then no row that was kept over it has an earlier
  deadline.
\<close>

theorem prepared_patches_are_bounded:
  assumes "by_prepare_id (pst_prepared st)" and "deadlines_readable (pst_prepared st)"
    and "length (pst_prepared st) \<le> MEMORY_PREPARED_PATCH_HARD_LIMIT"
  shows "\<exists>st'. put_patch now p st = Some st' \<and> by_prepare_id (pst_prepared st')
    \<and> length (pst_prepared st') \<le> MEMORY_PREPARED_PATCH_HARD_LIMIT \<and> get_patch (pp_prepareId p) st' = Some p
    \<and> (\<forall>i q. get_patch i st = Some q \<and> get_patch i st' = None \<longrightarrow>
        expired_before (dec_int (now div 1000)) q
        \<or> MEMORY_PREPARED_PATCH_HARD_LIMIT \<le> Suc (length (pst_prepared st'))
          \<and> (\<forall>j r. get_patch j st' = Some r \<and> j \<noteq> pp_prepareId p \<longrightarrow> deadline_of q \<le> deadline_of r))"
proof (cases "length (pst_prepared st) < MEMORY_PREPARED_PATCH_HARD_LIMIT")
  case True
  then show ?thesis using assms length_jset [of "pp_prepareId p" p "pst_prepared st"]
    by (auto simp: put_patch_def get_patch_def by_prepare_id_jset)
next
  case False
  let ?b = "dec_int (now div 1000)"
  let ?m = "pst_prepared (snd (deleteExpiredPrepared ?b st))"
  have m: "by_prepare_id ?m" "set ?m \<subseteq> set (pst_prepared st)"
    using assms(1) by (auto simp: deleteExpiredPrepared_def by_prepare_id_filter)
  obtain m' where m': "evict ?m = Some m'" "evicted_from ?m m'" "length m' < MEMORY_PREPARED_PATCH_HARD_LIMIT"
    using evict_ends [OF m(1)] by blast
  let ?st' = "(snd (deleteExpiredPrepared ?b st))\<lparr>pst_prepared := jset (pp_prepareId p) p m'\<rparr>"
  have put: "put_patch now p st = Some ?st'" using False m'(1) by (simp add: put_patch_def Let_def)
  have b: "by_prepare_id m'" using m'(2) by (simp add: evicted_from_def)
  have gone: "expired_before ?b q \<or> MEMORY_PREPARED_PATCH_HARD_LIMIT \<le> Suc (length (jset (pp_prepareId p) p m'))
      \<and> (\<forall>j r. jget (jset (pp_prepareId p) p m') j = Some r \<and> j \<noteq> pp_prepareId p \<longrightarrow> deadline_of q \<le> deadline_of r)"
    if q: "jget (pst_prepared st) i = Some q" "jget (jset (pp_prepareId p) p m') i = None" for i q
  proof (cases "expired_before ?b q")
    case live: False
    then have in_m: "(i, q) \<in> set ?m" using q(1) by (auto simp: deleteExpiredPrepared_def dest: map_of_SomeD)
    have lost: "i \<notin> set (jkeys m')" using q(2) by (auto simp: jget_None_iff split: if_splits)
    have "pp_prepareId q = i" using in_m m(1) by (auto simp: by_prepare_id_def)
    then have "q \<notin> set (jvalues m')"
      using lost unfolding by_prepare_id_value [OF b] by (simp add: jget_None_iff [THEN iffD2])
    moreover have "deadlines_readable ?m" using assms(2) m(2) by (auto simp: deadlines_readable_def)
    moreover have "q \<in> set (jvalues ?m)" using in_m by (auto intro: image_eqI [of _ _ "(i, q)"])
    ultimately have least: "deadline_of q \<le> deadline_of r" if "r \<in> set (jvalues m')" for r
      using m'(2) that unfolding evicted_from_def by blast
    have "(i, q) \<notin> set m'" using lost by (auto simp: image_iff)
    then have "set m' \<subset> set ?m" using m'(2) in_m unfolding evicted_from_def by blast
    then have "card (set m') < card (set ?m)" by (simp add: psubset_card_mono)
    then have "length m' < length ?m"
      using b card_length [of ?m] distinct_card [of m'] by (simp add: by_prepare_id_def distinct_map)
    then have "MEMORY_PREPARED_PATCH_HARD_LIMIT \<le> Suc (length m')" using m'(2) by (simp add: evicted_from_def)
    moreover have "length m' \<le> length (jset (pp_prepareId p) p m')" by (induction m') auto
    moreover have "deadline_of q \<le> deadline_of r" if "jget m' j = Some r" for j r
      by (rule least) (use jget_Some_in [OF that] in \<open>auto intro: image_eqI [of _ _ "(j, r)"]\<close>)
    ultimately show ?thesis by (auto split: if_splits)
  qed simp
  have now: "pst_prepared ?st' = jset (pp_prepareId p) p m'" by simp
  have "length (jset (pp_prepareId p) p m') \<le> MEMORY_PREPARED_PATCH_HARD_LIMIT"
    using m'(3) length_jset [of "pp_prepareId p" p m'] by simp
  moreover have "\<forall>i q. jget (pst_prepared st) i = Some q \<and> jget (jset (pp_prepareId p) p m') i = None \<longrightarrow>
      expired_before ?b q \<or> MEMORY_PREPARED_PATCH_HARD_LIMIT \<le> Suc (length (jset (pp_prepareId p) p m'))
      \<and> (\<forall>j r. jget (jset (pp_prepareId p) p m') j = Some r \<and> j \<noteq> pp_prepareId p \<longrightarrow> deadline_of q \<le> deadline_of r)"
    using gone by blast
  ultimately show ?thesis
    unfolding put get_patch_def by (intro exI [of _ ?st'], unfold now) (simp add: by_prepare_id_jset b)
qed

text \<open>
  The properties of the stage patch services over the facts above.
\<close>

section \<open>Errors as branches\<close>

lemma keep_truthy_Some: "keep_truthy v = Some x \<longleftrightarrow> v = Some x \<and> x \<noteq> []"
  by (cases v) auto

lemma patch_thrown_Inr [simp]: "patch_thrown m = Inr x \<longleftrightarrow> m = Inr x"
  by (cases m) auto

lemma recovered_as_Inr [simp]: "recovered_as c f r = Inr x \<longleftrightarrow> r = Inr x"
  by (auto simp: recovered_as_def split: sum.splits option.splits)

lemma checked_previous_executor_Inr:
  "checked_previous_executor B order target inp progress mode = Inr a \<longleftrightarrow>
     sp_signalCount progress \<noteq> 0
     \<and> normalizeRequiredPreviousExecutor B (gi_previousExecutor inp) mode = Inr a
     \<and> (\<exists>e. expectedPreviousExecutorForPatch order target progress = Resolved e \<and> keep_truthy e \<in> {None, Some a})"
  by (cases "expectedPreviousExecutorForPatch order target progress")
    (auto simp: checked_previous_executor_def bindR_Inr_iff)

section \<open>Who was there before\<close>

text \<open>What a request for a mode must meet in the projected order.\<close>

definition mode_permitted ::
  "bindings \<Rightarrow> order_proj \<Rightarrow> string \<Rightarrow> signal_capability list \<Rightarrow> executor_mode \<Rightarrow> string option
    \<Rightarrow> string option \<Rightarrow> string option \<Rightarrow> bool" where
  "mode_permitted B order target capabilities mode previous approvalSource approvalSignal \<longleftrightarrow>
     (let progress = targetStageProgress order target capabilities in
      if mode = Assign then sp_signalCount progress = 0
      else 0 < sp_signalCount progress
        \<and> (\<exists>a e. normalizeNonZeroAddress B (the previous) ''previousExecutor'' = Inr a \<and> truthy previous
            \<and> expectedPreviousExecutorForPatch order target progress = Resolved e
            \<and> keep_truthy e \<in> {None, Some a})
        \<and> (mode = Replacement \<longrightarrow> (\<exists>src sig.
            normalizeNonZeroBytes32 B approvalSource ''approvalSourceId'' = Inr src
            \<and> normalizeNonZeroBytes32 B approvalSignal ''approvalSignalId'' = Inr sig
            \<and> hasSignal order src sig)))"

lemma governance_permitted:
  assumes "resolveExecutorPatchGovernance B order target inp capabilities = Inr g"
  shows "mode_permitted B order target capabilities (eg_mode g) (gi_previousExecutor inp)
      (gi_approvalSourceId inp) (gi_approvalSignalId inp)
    \<and> normalizeExecutorPatchMode (gi_mode inp) = Inr (eg_mode g)"
  using assms
  by (auto simp: resolveExecutorPatchGovernance_def bindR_Inr_iff Let_def mode_permitted_def checked_previous_executor_Inr keep_truthy_Some
    normalizeRequiredPreviousExecutor_def split: if_splits option.splits)

interpretation submission_order_of_signals: js_comparator compareSignalSubmissionOrder
    "\<lambda>s. indexed (sig_submittedAt s)"
  unfolding compareSignalSubmissionOrder_def
  by (rule js_comparator_on [OF pointer_order.js_comparator_axioms])

text \<open>The latest signal of a flow.\<close>

definition newest :: "signal_proj list \<Rightarrow> signal_proj \<Rightarrow> bool" where
  "newest signals s \<longleftrightarrow> s \<in> set signals \<and> (\<forall>r \<in> set signals. compareSignalSubmissionOrder r s \<le> 0)"

lemma last_of_sorted:
  assumes "sorted_wrt R xs" and "xs \<noteq> []" and "x \<in> set xs" and "R (last xs) (last xs)"
  shows "R x (last xs)"
  using assms by (induction xs) (auto split: if_splits)

lemma latestSubmitter_newest:
  assumes "signals \<noteq> []" and "\<forall>s \<in> set signals. indexed (sig_submittedAt s)"
  obtains s where "newest signals s" and "ls_submitter (latestSubmitterByChainOrder signals) = Some (sig_submitter s)"
    and "\<not> ls_ambiguous (latestSubmitterByChainOrder signals) \<Longrightarrow> \<forall>r \<in> set signals.
      blockNumber (sig_submittedAt r) = blockNumber (sig_submittedAt s) \<longrightarrow>
      toLowerCase (sig_submitter r) = toLowerCase (sig_submitter s)"
proof -
  let ?xs = "js_sort compareSignalSubmissionOrder signals"
  let ?s = "last ?xs"
  have ne: "?xs \<noteq> []" using assms(1) by simp
  have same: "set ?xs = set signals" by simp
  have s: "?s \<in> set signals" using last_in_set [OF ne] by simp
  have "sorted_wrt (\<lambda>x y. compareSignalSubmissionOrder x y \<le> 0) ?xs"
    by (rule submission_order_of_signals.sorted_js_sort) (use assms(2) in simp)
  from last_of_sorted [OF this ne] submission_order_of_signals.refl [of ?s] assms(2) s
  have new: "newest signals ?s" by (simp add: newest_def)
  have sub: "ls_submitter (latestSubmitterByChainOrder signals) = Some (sig_submitter ?s)"
    using assms(1) by (simp add: latestSubmitterByChainOrder_def Let_def)
  have tie: "toLowerCase (sig_submitter r) = toLowerCase (sig_submitter ?s)"
    if "\<not> ls_ambiguous (latestSubmitterByChainOrder signals)" "r \<in> set signals"
      "blockNumber (sig_submittedAt r) = blockNumber (sig_submittedAt ?s)" for r
  proof -
    let ?A = "submitters_at (blockNumber (sig_submittedAt ?s)) ?xs"
    have "card ?A \<le> 1" using that(1) assms(1) by (simp add: latestSubmitterByChainOrder_def Let_def)
    moreover have "finite ?A" by (simp add: submitters_at_def)
    moreover have "toLowerCase (sig_submitter r) \<in> ?A" "toLowerCase (sig_submitter ?s) \<in> ?A"
      using that s by (auto simp: submitters_at_def)
    ultimately show ?thesis by (metis card_le_Suc0_iff_eq One_nat_def)
  qed
  from that [OF new sub] tie show thesis by blast
qed

lemma progress_counts:
  "sp_signalCount (targetStageProgress order target capabilities) = 0 \<longleftrightarrow>
     capability_signals order target capabilities = [] \<and> fallback_signals order target = []"
  by (auto simp: targetStageProgress_def Let_def)

text \<open>
  C26: The executor to be replaced is the one that acted last. When nobody holds the stage by an
  earlier patch and a handoff or a replacement is let through, the previous executor it names has
  submitted the latest signal in each of the two flows of the stage that has any; and in the flow
  of the plan nobody else submitted in the block of that signal.
\<close>

theorem previous_executor_acted_last:
  assumes "resolveExecutorPatchGovernance B order target inp capabilities = Inr g" and "eg_mode g \<noteq> Assign"
    and "jget (or_stageExecutorOverlays order) (toLowerCase target) = None"
    and "\<forall>s \<in> set (jvalues (or_signals order)). indexed (sig_submittedAt s) \<and> sig_submitter s \<noteq> []"
  shows "\<exists>a. eg_previousExecutor g = Some a
    \<and> (capability_signals order target capabilities \<noteq> [] \<or> fallback_signals order target \<noteq> [])
    \<and> (capability_signals order target capabilities \<noteq> [] \<longrightarrow>
        (\<exists>s. newest (capability_signals order target capabilities) s \<and> sig_submitter s = a
          \<and> (\<forall>r \<in> set (capability_signals order target capabilities).
              blockNumber (sig_submittedAt r) = blockNumber (sig_submittedAt s) \<longrightarrow>
              toLowerCase (sig_submitter r) = toLowerCase a)))
    \<and> (fallback_signals order target \<noteq> [] \<longrightarrow>
        (\<exists>s. newest (fallback_signals order target) s \<and> sig_submitter s = a))"
proof -
  let ?C = "capability_signals order target capabilities" and ?F = "fallback_signals order target"
  let ?p = "targetStageProgress order target capabilities"
  obtain a e where a: "eg_previousExecutor g = Some a" "sp_signalCount ?p \<noteq> 0"
    and e: "expectedPreviousExecutorForPatch order target ?p = Resolved e" "keep_truthy e \<in> {None, Some a}"
    using assms(1,2)
    by (auto simp: resolveExecutorPatchGovernance_def bindR_Inr_iff Let_def checked_previous_executor_Inr split: if_splits)
  have some: "?C \<noteq> [] \<or> ?F \<noteq> []" using a(2) progress_counts by auto
  have calm: "\<not> sp_lastSignalAmbiguous ?p" "e = sp_lastSignalSubmitter ?p"
    using e(1) assms(3) by (auto simp: expectedPreviousExecutorForPatch_def split: if_splits)
  have C: "\<forall>s \<in> set ?C. indexed (sig_submittedAt s)" "\<forall>s \<in> set ?C. sig_submitter s \<noteq> []"
    and F: "\<forall>s \<in> set ?F. indexed (sig_submittedAt s)" "\<forall>s \<in> set ?F. sig_submitter s \<noteq> []"
    using assms(4) by (auto simp: capability_signals_def fallback_signals_def)
  have n: "sp_signalCount ?p \<noteq> 0" by (rule a(2))
  let ?lc = "latestSubmitterByChainOrder ?C" and ?lf = "latestSubmitterByChainOrder ?F"
  have merged: "sp_lastSignalSubmitter ?p = (if ?C \<noteq> [] then ls_submitter ?lc else ls_submitter ?lf)
      \<and> (?C \<noteq> [] \<longrightarrow> \<not> ls_ambiguous ?lc)
      \<and> (?C \<noteq> [] \<and> ?F \<noteq> [] \<longrightarrow> ls_submitter ?lc = ls_submitter ?lf)"
    using calm(1) n
    by (auto simp: targetStageProgress_def Let_def latestSubmitterByChainOrder_def split: if_splits)
  have eq: "x = a" if "e = Some x" "x \<noteq> []" for x using e(2) that by simp
  have cap: "\<exists>s. newest ?C s \<and> sig_submitter s = a \<and> (\<forall>r \<in> set ?C.
      blockNumber (sig_submittedAt r) = blockNumber (sig_submittedAt s) \<longrightarrow>
      toLowerCase (sig_submitter r) = toLowerCase a)" if ne: "?C \<noteq> []"
  proof -
    obtain s where s: "newest ?C s" "ls_submitter ?lc = Some (sig_submitter s)"
      "\<not> ls_ambiguous ?lc \<Longrightarrow> \<forall>r \<in> set ?C. blockNumber (sig_submittedAt r) = blockNumber (sig_submittedAt s) \<longrightarrow>
        toLowerCase (sig_submitter r) = toLowerCase (sig_submitter s)"
      using latestSubmitter_newest [OF ne C(1)] by blast
    then have "sig_submitter s = a" using merged ne calm(2) C(2) by (intro eq) (auto simp: newest_def)
    with s merged ne show ?thesis by auto
  qed
  have fall: "\<exists>s. newest ?F s \<and> sig_submitter s = a" if ne: "?F \<noteq> []"
  proof -
    obtain s where s: "newest ?F s" "ls_submitter ?lf = Some (sig_submitter s)"
      using latestSubmitter_newest [OF ne F(1)] by blast
    then have "sig_submitter s = a" using merged ne calm(2) F(2) by (intro eq) (auto simp: newest_def)
    with s show ?thesis by auto
  qed
  from a(1) some cap fall show ?thesis by blast
qed

section \<open>What reaches the broadcaster\<close>

lemma guardP_Inr: "guardP b st c m = Inr x \<longleftrightarrow> b" by simp

lemma patch_submit_begin_reserved:
  assumes "patch_submit_begin E K ps clock reservedAt sid fault taskId inp st = (Inr (PbReserved x), st')"
  shows "\<exists>deadline. patch_submit_checks E K taskId inp st
        = Inr (pct_patch x, pv_signature (pct_evidence x), pv_recovered (pct_evidence x))
      \<and> bigint_of (pp_deadline (pct_patch x)) = Inr deadline \<and> clock 0 div 1000 \<le> deadline
      \<and> patch_live_checks K ps taskId inp (pct_patch x) = Inr (pv_previous (pct_evidence x))
      \<and> reserve_patch_nonce (pp_nonceKey (pct_patch x))
          (Some (toISOString (clock 1 - pe_ttlSeconds E * 1000))) reservedAt st = (True, st')"
  using assms
  by (auto simp: patch_submit_begin_def Let_def split: sum.splits prod.splits if_splits option.splits)

lemma patch_submit_checks_Inr:
  assumes "patch_submit_checks E K taskId inp st = Inr (p, s, a)"
  shows "(\<exists>i. prepareIdForSubmit inp (pk_label K) = Inr i \<and> get_patch i st = Some p)
    \<and> pp_taskId p = taskId \<and> \<not> truthy (pp_usedAt p) \<and> \<not> truthy (pp_submissionId p)
    \<and> pk_recover K p s = Inr a \<and> a = pp_selectorWallet p"
  using assms
  by (auto simp: patch_submit_checks_def validatePreparedForSubmit_def bindR_Inr_iff split: option.splits)

lemma executor_kind_simps [simp]:
  "pk_recover (executor_kind E) = recoverExecutorSelector E"
  "pk_current (executor_kind E) = ensureExecutorPreparedStillCurrent (pe_bindings E)"
  "pk_previous (executor_kind E) = executor_previous E"
  "pk_label (executor_kind E) = ''stage executor patch''"
  by (simp_all add: executor_kind_def)

lemma mode_texts_normal:
  "normalizeExecutorPatchMode (Some (executor_mode_text Assign)) = Inr Assign"
  "normalizeExecutorPatchMode (Some (executor_mode_text Handoff)) = Inr Handoff"
  "normalizeExecutorPatchMode (Some (executor_mode_text Replacement)) = Inr Replacement"
  by code_simp+

lemma mode_text_normal [simp]:
  "normalizeExecutorPatchMode (Some (executor_mode_text mode)) = Inr mode"
  by (cases mode) (simp_all only: mode_texts_normal)

lemma executor_current_permitted:
  assumes "ensureExecutorPreparedStillCurrent B order p capabilities = Inr u"
  shows "mode_permitted B order (pp_targetStageId p) capabilities (xp_mode p)
    (keep_truthy (xp_previousExecutor p)) (keep_truthy (xp_approvalSourceId p)) (keep_truthy (xp_approvalSignalId p))"
  using assms
  by (auto simp: ensureExecutorPreparedStillCurrent_def bindR_Inr_iff dest!: governance_permitted)

lemma executor_previous_Handoff:
  assumes "executor_previous E p given = Inr v" and "xp_mode p = Handoff"
  shows "\<exists>s a. v = Some (s, a) \<and> recoverExecutorPreviousExecutor E p s = Inr a \<and> xp_previousExecutor p = Some a"
  using assms
  by (auto simp: executor_previous_def signatureForPreviousExecutor_def bindR_Inr_iff split: option.splits)

text \<open>
  C24: Only an authorized executor patch reaches the broadcaster. When a submission gets as far as
  the reservation, its patch was prepared for that task and is unused, its deadline has not
  passed, the selector it was prepared for signed it, the order as it is projected now permits
  its mode, a handoff is signed by the previous executor too, and its nonce, which was free or
  stale, is now held.
\<close>

theorem only_authorized_patches_are_broadcast:
  assumes "begin_executor_patch E ps clock reservedAt sid fault taskId inp st = (Inr (PbReserved x), st')"
  shows "\<exists>p v i deadline task order. pct_patch x = p \<and> pct_evidence x = v
    \<and> prepareIdForSubmit inp ''stage executor patch'' = Inr i \<and> get_patch i st = Some p
    \<and> pp_taskId p = taskId \<and> \<not> truthy (pp_usedAt p) \<and> \<not> truthy (pp_submissionId p)
    \<and> bigint_of (pp_deadline p) = Inr deadline \<and> clock 0 div 1000 \<le> deadline
    \<and> recoverExecutorSelector E p (pv_signature v) = Inr (pp_selectorWallet p)
    \<and> resolveSelectorTaskContext ps taskId = Inr (task, order)
    \<and> mode_permitted (pe_bindings E) order (pp_targetStageId p) (plan_capabilities ps order) (xp_mode p)
        (keep_truthy (xp_previousExecutor p)) (keep_truthy (xp_approvalSourceId p)) (keep_truthy (xp_approvalSignalId p))
    \<and> (xp_mode p = Handoff \<longrightarrow> (\<exists>s a. pv_previous v = Some (s, a)
        \<and> recoverExecutorPreviousExecutor E p s = Inr a \<and> xp_previousExecutor p = Some a))
    \<and> patch_nonce_held (pp_nonceKey p) st' = Some reservedAt
    \<and> (\<forall>since. patch_nonce_held (pp_nonceKey p) st = Some since \<longrightarrow>
        js_less since (toISOString (clock 1 - pe_ttlSeconds E * 1000)))"
proof -
  let ?p = "pct_patch x" and ?v = "pct_evidence x" and ?k = "pp_nonceKey (pct_patch x)"
  let ?limit = "toISOString (clock 1 - pe_ttlSeconds E * 1000)"
  from patch_submit_begin_reserved [OF assms [unfolded begin_executor_patch_def]] obtain deadline where
    checks: "patch_submit_checks E (executor_kind E) taskId inp st = Inr (?p, pv_signature ?v, pv_recovered ?v)"
    and due: "bigint_of (pp_deadline ?p) = Inr deadline" "clock 0 div 1000 \<le> deadline"
    and live: "patch_live_checks (executor_kind E) ps taskId inp ?p = Inr (pv_previous ?v)"
    and res: "reserve_patch_nonce ?k (Some ?limit) reservedAt st = (True, st')" by blast
  from live obtain task order u where order: "resolveSelectorTaskContext ps taskId = Inr (task, order)"
    and current: "ensureExecutorPreparedStillCurrent (pe_bindings E) order ?p (plan_capabilities ps order) = Inr u"
    and previous: "executor_previous E ?p (pti_previousExecutorSignature inp) = Inr (pv_previous ?v)"
    by (auto simp: patch_live_checks_def bindR_Inr_iff)
  have held: "patch_nonce_held ?k st' = Some reservedAt"
    using patch_nonces.held_reserve [of ?k ?k "Some ?limit" reservedAt st] res by simp
  have free: "js_less since ?limit" if "patch_nonce_held ?k st = Some since" for since
    using patch_nonces.granted [of ?k "Some ?limit" reservedAt st] res that by simp
  from patch_submit_checks_Inr [OF checks] due order executor_current_permitted [OF current]
    executor_previous_Handoff [OF previous] held free
  show ?thesis by simp
qed

lemma carries_hash_consumed:
  "px_txHash (submission_from_patch_broadcast E K p v sid t r) \<noteq> None \<Longrightarrow> \<not> (not_attempted r \<or> reopen_for_retry r)"
  by (cases r) (auto simp: submission_from_patch_broadcast_def Let_def keep_truthy_Some)

text \<open>
  What may happen to the table of prepared patches later on, as far as the patch \<open>i\<close> goes: patches
  are prepared under other identifiers, which are random, submissions of any patch begin and
  end, with identifiers that are not empty, and expired patches are swept.
\<close>

inductive patch_later :: "patch_env \<Rightarrow> 'x patch_kind \<Rightarrow> string \<Rightarrow> 'x patch_store \<Rightarrow> 'x patch_store \<Rightarrow> bool"
  for E K i st where
  here: "patch_later E K i st st"
| prepares: "\<lbrakk>patch_later E K i st u; put_patch now p u = Some v; pp_prepareId p \<noteq> i\<rbrakk> \<Longrightarrow> patch_later E K i st v"
| begins: "\<lbrakk>patch_later E K i st u;
     patch_submit_begin E K ps clock reservedAt sid fault taskId inp u = (res, v); sid \<noteq> []\<rbrakk>
     \<Longrightarrow> patch_later E K i st v"
| finishes: "\<lbrakk>patch_later E K i st u; patch_submit_finish E K clock sid faults x reply u = (out, v); sid \<noteq> []\<rbrakk>
     \<Longrightarrow> patch_later E K i st v"
| sweeps: "patch_later E K i st u \<Longrightarrow> patch_later E K i st (snd (deleteExpiredPrepared boundary u))"

definition spent :: "string \<Rightarrow> 'x patch_store \<Rightarrow> bool" where
  "spent i st \<longleftrightarrow> (\<forall>p. (i, p) \<in> set (pst_prepared st) \<longrightarrow> truthy (pp_usedAt p) \<or> truthy (pp_submissionId p))"

lemma spent_subset:
  "spent i st \<Longrightarrow> set (pst_prepared st') \<subseteq> insert (j, p) (set (pst_prepared st)) \<Longrightarrow> j \<noteq> i \<Longrightarrow> spent i st'"
  "spent i st \<Longrightarrow> set (pst_prepared st') \<subseteq> set (pst_prepared st) \<Longrightarrow> spent i st'"
  by (auto simp: spent_def)

lemma spent_mark: "spent i st \<Longrightarrow> sid \<noteq> [] \<Longrightarrow> spent i (mark_patch_used j sid at st)"
  using set_jset_subset [of j _ "pst_prepared st"]
  by (fastforce simp: spent_def mark_patch_used_def truthy_def split: option.split)

lemma spent_others [simp]:
  "spent i (put_patch_submission s st) = spent i st" "spent i (release_patch_nonce k st) = spent i st"
  "spent i (snd (reserve_patch_nonce k limit now st)) = spent i st"
  by (simp_all add: spent_def put_patch_submission_def release_patch_nonce_def reserve_patch_nonce_def Let_def
    split: option.split)

lemma evict_rows:
  assumes "evict m = Some m'"
  shows "set m' \<subseteq> set m"
proof (rule while_option_rule [where P = "\<lambda>m'. set m' \<subseteq> set m", OF _ assms [unfolded evict_def]])
  fix m' assume "set m' \<subseteq> set m"
  then show "set (evict_one m') \<subseteq> set m" by (auto simp: evict_one_def split: list.split)
qed simp

lemma spent_put:
  assumes "put_patch now p st = Some st'" and "spent i st" and "pp_prepareId p \<noteq> i"
  shows "spent i st'"
  using assms(1) set_jset_subset [of "pp_prepareId p" p]
  by (intro spent_subset(1) [OF assms(2) _ assms(3), where p = p])
    (auto simp: put_patch_def Let_def deleteExpiredPrepared_def dest!: evict_rows split: if_splits,
      fastforce+)

lemma spent_reserve: "reserve_patch_nonce k limit now st = (b, v) \<Longrightarrow> spent i st \<Longrightarrow> spent i v"
  using spent_others(3) [of i k limit now st] by simp

lemma spent_begin:
  assumes u: "spent i u" and "sid \<noteq> []"
  shows "spent i (snd (patch_submit_begin E K ps clock reservedAt sid fault taskId inp u))"
proof (cases "patch_submit_checks E K taskId inp u")
  case (Inr z)
  obtain p s a where z: "z = (p, s, a)" by (cases z)
  show ?thesis
    unfolding patch_submit_begin_def Inr z sum.case prod.case Let_def
    by (simp add: u spent_mark [OF _ assms(2)] spent_reserve [OF _ u] split: sum.split option.split prod.split)
qed (simp add: patch_submit_begin_def u)

lemma spent_finish:
  assumes u: "spent i u" and "sid \<noteq> []"
  shows "spent i (snd (patch_submit_finish E K clock sid faults x reply u))"
  by (simp add: patch_submit_finish_def patch_released_def Let_def u spent_mark [OF _ assms(2)]
    split: patch_reply.split option.split)

lemma spent_later:
  assumes "patch_later E K i st u" and "spent i st"
  shows "spent i u"
  using assms
proof induction
  case here
  then show ?case .
next
  case prepares
  then show ?case by (blast intro: spent_put)
next
  case begins
  then show ?case by (metis spent_begin snd_conv)
next
  case finishes
  then show ?case by (metis spent_finish snd_conv)
next
  case (sweeps u boundary)
  then have "spent i u" by simp
  then show ?case by (rule spent_subset(2)) (auto simp: deleteExpiredPrepared_def)
qed

lemma spent_refused:
  assumes "spent i st" and "prepareIdForSubmit inp (pk_label K) = Inr i"
  shows "\<exists>e. patch_submit_begin E K ps clock reservedAt sid fault taskId inp st = (Inl e, st)"
proof (cases "patch_submit_checks E K taskId inp st")
  case (Inr y)
  then obtain q s a where "patch_submit_checks E K taskId inp st = Inr (q, s, a)" by (cases y) auto
  from patch_submit_checks_Inr [OF this] assms have False
    by (auto simp: spent_def get_patch_def dest: jget_Some_in)
  then show ?thesis ..
qed (simp add: patch_submit_begin_def)

text \<open>
  C27: A patch that was sent is not sent again. Once a submission has been archived with a
  transaction hash, every later submission of the same prepared patch is refused and changes
  nothing, whatever it signs and whatever has been prepared, submitted and swept in between.
  Where the archive was lost after the broadcast gave a hash, nonce and patch stay as they were,
  and no submission of the patch reaches the broadcaster while the reservation is not stale.
\<close>

theorem sent_patch_is_not_sent_again:
  assumes finish: "patch_submit_finish E K clock sid faults x reply st = (out, st')" and "sid \<noteq> []"
    and "distinct (jkeys (pst_prepared st))"
    and i: "i = pp_prepareId (pct_patch x)" and row: "get_patch i st = Some p"
    and asked: "prepareIdForSubmit inp (pk_label K) = Inr i"
  shows "(\<forall>sub u. out = Inr sub \<and> px_txHash sub \<noteq> None \<and> patch_later E K i st' u \<longrightarrow>
      (\<exists>e. patch_submit_begin E K ps clock' reservedAt sid' fault taskId inp u = (Inl e, u)))
    \<and> (\<forall>r h e. reply = PatchResult r \<and> keep_truthy (broadcast_tx_hash r) = Some h \<and> pf_archive faults = Some e \<longrightarrow>
      out = Inl (PatchExternal e) \<and> get_patch i st' = Some p
      \<and> patch_nonce_held (pp_nonceKey p) st' = patch_nonce_held (pp_nonceKey p) st
      \<and> (\<forall>since. patch_nonce_held (pp_nonceKey p) st = Some since
          \<and> \<not> js_less since (toISOString (clock' 1 - pe_ttlSeconds E * 1000)) \<longrightarrow>
          (\<forall>y. fst (patch_submit_begin E K ps clock' reservedAt sid' fault taskId inp st') \<noteq> Inr (PbReserved y))))"
proof (intro conjI allI impI)
  fix sub u
  assume sent: "out = Inr sub \<and> px_txHash sub \<noteq> None \<and> patch_later E K i st' u"
  obtain r t where r: "reply = PatchResult r"
    and sub: "sub = submission_from_patch_broadcast E K (pct_patch x) (pct_evidence x) sid t r"
    and st': "st' = (if not_attempted r \<or> reopen_for_retry r
        then release_patch_nonce (pp_nonceKey (pct_patch x)) (put_patch_submission sub st)
        else mark_patch_used i sid (px_updatedAt sub) (put_patch_submission sub st))"
    using finish sent i
    by (auto simp: patch_submit_finish_def patch_released_def Let_def split: patch_reply.splits option.splits if_splits)
  have st': "st' = mark_patch_used i sid (px_updatedAt sub) (put_patch_submission sub st)"
    using st' carries_hash_consumed sent sub by metis
  have "spent i st'"
    using row assms(2) set_jset_distinct [OF assms(3), of i]
    by (auto simp: spent_def st' mark_patch_used_def put_patch_submission_def get_patch_def truthy_def)
  with sent have "spent i u" by (blast intro: spent_later)
  from spent_refused [OF this asked]
  show "\<exists>e. patch_submit_begin E K ps clock' reservedAt sid' fault taskId inp u = (Inl e, u)" .
next
  fix r h e
  assume lost: "reply = PatchResult r \<and> keep_truthy (broadcast_tx_hash r) = Some h \<and> pf_archive faults = Some e"
  then show out: "out = Inl (PatchExternal e)"
    using finish assms(2) by (auto simp: patch_submit_finish_def Let_def)
  from lost show kept: "get_patch i st' = Some p"
    and nonce: "patch_nonce_held (pp_nonceKey p) st' = patch_nonce_held (pp_nonceKey p) st"
    using finish assms(2) row
    by (auto simp: patch_submit_finish_def Let_def get_patch_def patch_nonce_held_def put_patch_submission_def)
  fix since y
  assume fresh: "patch_nonce_held (pp_nonceKey p) st = Some since
      \<and> \<not> js_less since (toISOString (clock' 1 - pe_ttlSeconds E * 1000))"
  show "fst (patch_submit_begin E K ps clock' reservedAt sid' fault taskId inp st') \<noteq> Inr (PbReserved y)"
  proof
    assume "fst (patch_submit_begin E K ps clock' reservedAt sid' fault taskId inp st') = Inr (PbReserved y)"
    then obtain st'' where "patch_submit_begin E K ps clock' reservedAt sid' fault taskId inp st' = (Inr (PbReserved y), st'')"
      by (metis prod.collapse)
    from patch_submit_begin_reserved [OF this] patch_submit_checks_Inr [of E K taskId inp st' "pct_patch y"] asked kept
    have "fst (reserve_patch_nonce (pp_nonceKey p) (Some (toISOString (clock' 1 - pe_ttlSeconds E * 1000))) reservedAt st')"
      by fastforce
    with fresh nonce show False by (simp add: patch_nonces.granted)
  qed
qed

end
