(* ===== verification/PatchBroadcast.thy ===== *)
theory PatchBroadcast imports PatchClaims BroadcastAdapter begin

text \<open>
  The adapter that sends a signed patch to the module of the state machine
  (\<open>stage-patches/broadcast-adapter.ts\<close>), for patches of either kind: its guards, the
  classification of errors and its reading of the receipt. Clients of the chain, the wallet and
  the shared broadcast kit are parameters, as for the adapter of submissions.
\<close>

section \<open>Calls and labels\<close>

text \<open>The arguments of the contract have the fields of the message that was signed.\<close>

record 'm patch_call =
  pcl_module :: string
  pcl_chainId :: int
  pcl_message :: 'm
  pcl_signature :: string
  pcl_previousExecutorSignature :: "string option"

record ('x, 'm) patch_labels =
  pl_label :: string
  pl_invalidSignatureError :: string
  pl_staleNonceError :: string
  pl_genericFailureError :: string
  pl_verifyingContract :: "'x prepared_patch_scheme \<Rightarrow> string"
  pl_buildCall :: "string \<Rightarrow> int \<Rightarrow> 'x patch_request \<Rightarrow> 'm patch_call"

definition executor_call :: "string \<Rightarrow> int \<Rightarrow> unit executor_patch_ext patch_request \<Rightarrow> executor_message patch_call" where
  "executor_call module chain q =
     (let p = prq_prepared q in
      \<lparr>pcl_module = module, pcl_chainId = chain, pcl_message =
         \<lparr>xm_planId = pp_planId p, xm_orderId = pp_onchainOrderId p, xm_selectorStageId = pp_selectorStageId p,
          xm_targetStageId = pp_targetStageId p, xm_executor = xp_executorWallet p, xm_role = xp_roleHash p,
          xm_executorMetadataHash = xp_executorMetadataHash p, xm_mode = xp_modeHash p,
          xm_previousExecutor = or_default (xp_previousExecutor p) ZERO_ADDRESS,
          xm_approvalSourceId = or_default (xp_approvalSourceId p) ZERO_BYTES32,
          xm_approvalSignalId = or_default (xp_approvalSignalId p) ZERO_BYTES32,
          xm_patchHash = pp_patchHash p, xm_patchNonce = pp_patchNonce p, xm_metadataURI = xp_metadataURI p,
          xm_selector = pp_selectorWallet p, xm_deadline = pp_deadline p\<rparr>,
       pcl_signature = prq_signature q,
       pcl_previousExecutorSignature = Some (or_default (prq_previousExecutorSignature q) ''0x'')\<rparr>)"

definition resource_call :: "string \<Rightarrow> int \<Rightarrow> unit resource_patch_ext patch_request \<Rightarrow> resource_message patch_call" where
  "resource_call module chain q =
     (let p = prq_prepared q in
      \<lparr>pcl_module = module, pcl_chainId = chain, pcl_message =
         \<lparr>rm_planId = pp_planId p, rm_orderId = pp_onchainOrderId p, rm_selectorStageId = pp_selectorStageId p,
          rm_targetStageId = pp_targetStageId p, rm_resourceKey = rp_resourceKey p,
          rm_manifestHash = rp_manifestHash p, rm_policyHash = rp_policyHash p, rm_patchHash = pp_patchHash p,
          rm_patchNonce = pp_patchNonce p, rm_manifestURI = rp_manifestURI p, rm_selector = pp_selectorWallet p,
          rm_deadline = pp_deadline p\<rparr>,
       pcl_signature = prq_signature q, pcl_previousExecutorSignature = None\<rparr>)"

definition STAGE_EXECUTOR_PATCH_BROADCAST_LABELS :: "(unit executor_patch_ext, executor_message) patch_labels" where
  "STAGE_EXECUTOR_PATCH_BROADCAST_LABELS =
     \<lparr>pl_label = ''stage executor patch'', pl_invalidSignatureError = ''invalid_stage_executor_patch_signature'',
      pl_staleNonceError = ''stale_stage_executor_patch_nonce'',
      pl_genericFailureError = ''stage_executor_patch_broadcast_failed'',
      pl_verifyingContract = (\<lambda>p. pt_verifyingContract (xp_typedData p)), pl_buildCall = executor_call\<rparr>"

definition STAGE_RESOURCE_PATCH_BROADCAST_LABELS :: "(unit resource_patch_ext, resource_message) patch_labels" where
  "STAGE_RESOURCE_PATCH_BROADCAST_LABELS =
     \<lparr>pl_label = ''stage resource patch'', pl_invalidSignatureError = ''invalid_stage_resource_patch_signature'',
      pl_staleNonceError = ''stale_stage_resource_patch_nonce'',
      pl_genericFailureError = ''stage_resource_patch_broadcast_failed'',
      pl_verifyingContract = (\<lambda>p. pt_verifyingContract (rp_typedData p)), pl_buildCall = resource_call\<rparr>"

text \<open>\<open>replace(/^invalid_/, "")\<close> on the label of an invalid signature.\<close>

definition expired_error :: "('x, 'm) patch_labels \<Rightarrow> string" where
  "expired_error L = ''expired_'' @
     (let s = pl_invalidSignatureError L in if take 8 s = ''invalid_'' then drop 8 s else s)"

section \<open>Errors\<close>

definition classifyStagePatchBroadcastError ::
  "('x, 'm) patch_labels \<Rightarrow> thrown_error \<Rightarrow> string \<times> string \<times> bool" where
  "classifyStagePatchBroadcastError L e =
     (let haystack = or_default (te_name e) [] @ '' '' @ te_text e; has = js_includes haystack; label = pl_label L in
      if has ''ExpiredStageExecutorPatchSignature'' \<or> has ''ExpiredStageResourcePatchSignature'' then
        (expired_error L, label @ '' signature deadline has expired on chain'', False)
      else if has ''InvalidStageExecutorPatchSignature'' \<or> has ''InvalidStageResourcePatchSignature''
        \<or> has ''InvalidStageExecutorPatchSignatureLength'' \<or> has ''InvalidStageResourcePatchSignatureLength'' then
        (pl_invalidSignatureError L, ''wallet signature does not match the '' @ label @ '' payload'', False)
      else if has ''StageExecutorPatchNonceNotIncreasing'' \<or> has ''StageResourcePatchNonceNotIncreasing'' then
        (pl_staleNonceError L, label @ '' nonce has already been used'', False)
      else if has ''UnauthorizedStageExecutorPatchSelector'' \<or> has ''UnauthorizedStageResourcePatchSelector'' then
        (''selector_not_authorized'', ''selector wallet is not authorized to patch this stage'', False)
      else if has ''UnknownOrder'' then
        (''unknown_order'', ''order is not registered on the state machine'', True)
      else if matches_any haystack
          [''nonce too low'', ''replacement transaction underpriced'', ''already known''] then
        (''duplicate_transaction'',
          ''broadcaster reported a duplicate or already-used transaction nonce for the '' @ label, False)
      else if matches_any haystack
          [''timeout'', ''timed out'', ''etimedout'', ''aborterror'', ''econnreset''] then
        (''rpc_timeout'', ''RPC request timed out while broadcasting the '' @ label, True)
      else if matches_any haystack [''execution reverted'', ''transaction reverted'', ''reverted''] then
        (''transaction_reverted'', ''state-machine transaction reverted before the '' @ label @ '' was accepted'', False)
      else (pl_genericFailureError L, label @ '' broadcast failed'', True))"

section \<open>The broadcast\<close>

text \<open>\<open>pb_errorOf\<close> is what the kit reads of an error of the normaliser.\<close>

record 'm patch_chain =
  pb_broadcastFailureCore :: "failure_core \<Rightarrow> broadcast_failure"
  pb_getChainId :: "thrown_error + int option"
  pb_writeContract :: "'m patch_call \<Rightarrow> thrown_error + string"
  pb_resolveDuplicate :: "thrown_error \<Rightarrow> duplicate_outcome"
  pb_waitForReceipt :: "string \<Rightarrow> thrown_error + receipt option"
  pb_bindings :: bindings
  pb_errorOf :: "js_error \<Rightarrow> thrown_error"

record patch_adapter =
  pa_chainId :: int
  pa_waitForReceipt :: bool
  pa_confirmOnReceipt :: bool
  pa_rejectGasPayerAsSelector :: bool
  pa_gasPayer :: string

definition patch_failed ::
  "'m patch_chain \<Rightarrow> patch_adapter \<Rightarrow> string \<times> string \<times> bool \<Rightarrow> string option \<Rightarrow> string option \<Rightarrow> patch_result" where
  "patch_failed N cfg e txHash block =
     (let (errorCode, message, retryable) = e;
          core = pb_broadcastFailureCore N
            \<lparr>fc_errorCode = errorCode, fc_message = message, fc_retryable = retryable,
             fc_gasPayer = pa_gasPayer cfg, fc_txHash = keep_truthy txHash, fc_blockNumber = keep_truthy block\<rparr> in
      PrFailed (bf_txHash core) (bf_blockNumber core) (bf_errorCode core) (bf_message core) (bf_retryable core)
        (Option.bind (bf_attempt core) ba_txHash))"

definition patch_done :: "patch_adapter \<Rightarrow> string \<Rightarrow> string option \<Rightarrow> patch_result" where
  "patch_done cfg txHash block =
     (if pa_confirmOnReceipt cfg then PrConfirmed txHash block (Some txHash) else PrSubmitted txHash block (Some txHash))"

definition patch_write_failed ::
  "('x, 'm) patch_labels \<Rightarrow> 'm patch_chain \<Rightarrow> patch_adapter \<Rightarrow> thrown_error \<Rightarrow> patch_result" where
  "patch_write_failed L N cfg e =
     (let c = classifyStagePatchBroadcastError L e in
      if fst c = ''duplicate_transaction'' then
        (case pb_resolveDuplicate N e of
           DupSubmitted h b \<Rightarrow> patch_done cfg h b
         | DupReceiptFailed h b \<Rightarrow> patch_failed N cfg (''transaction_reverted'',
             ''the duplicate transaction was mined and reverted on chain'', False) (Some h) b
         | DupReceiptUnknown h \<Rightarrow> patch_failed N cfg (''transaction_receipt_unknown'',
             ''broadcaster reported a duplicate transaction but no receipt is available yet; ''
               @ ''the candidate hash is retained for the next probe'', True) (Some h) None
         | DupNonceRace \<Rightarrow> patch_failed N cfg (''duplicate_transaction'',
             ''broadcaster reported a nonce race without an attributable transaction hash; the '' @ pl_label L
               @ '' can be re-assembled with a fresh gas nonce'', True) None None)
      else patch_failed N cfg c None None)"

definition patch_receipt ::
  "('x, 'm) patch_labels \<Rightarrow> 'm patch_chain \<Rightarrow> patch_adapter \<Rightarrow> string \<Rightarrow> patch_result" where
  "patch_receipt L N cfg txHash =
     (if \<not> pa_waitForReceipt cfg then PrSubmitted txHash None (Some txHash)
      else
        (case pb_waitForReceipt N txHash of
           Inl e \<Rightarrow> patch_failed N cfg (classifyStagePatchBroadcastError L e) (Some txHash) None
         | Inr r \<Rightarrow>
             (let status = Option.bind r rc_status in
              if status = Some ''reverted'' \<or> status = Some ''failed'' then
                patch_failed N cfg (''transaction_reverted'', ''transaction reverted'', False)
                  (Some txHash) (receipt_block r)
              else if status \<noteq> Some ''success'' then
                patch_failed N cfg (''transaction_receipt_unknown'',
                  ''transaction receipt is missing or has an unknown status'', True) (Some txHash) (receipt_block r)
              else patch_done cfg txHash (receipt_block r))))"

definition patch_send ::
  "('x, 'm) patch_labels \<Rightarrow> 'm patch_chain \<Rightarrow> patch_adapter \<Rightarrow> 'x patch_request \<Rightarrow> patch_result" where
  "patch_send L N cfg q =
     (case pb_getChainId N of
        Inl e \<Rightarrow> patch_failed N cfg (classifyStagePatchBroadcastError L e) None None
      | Inr rpcChainId \<Rightarrow>
          if rpcChainId \<noteq> None \<and> rpcChainId \<noteq> Some (pa_chainId cfg) then
            patch_failed N cfg (''chain_id_mismatch'',
              ''configured chainId '' @ dec_int (pa_chainId cfg) @ '' does not match RPC chainId ''
                @ dec_int (or_default rpcChainId 0), False) None None
          else
            (case (case normalizeAddress (pb_bindings N) (pl_verifyingContract L (prq_prepared q))
                  ''prepared.typedData.domain.verifyingContract'' of
                Inl e \<Rightarrow> Inl (pb_errorOf N e)
              | Inr module \<Rightarrow> pb_writeContract N (pl_buildCall L module (pa_chainId cfg) q)) of
               Inl e \<Rightarrow> patch_write_failed L N cfg e
             | Inr txHash \<Rightarrow> patch_receipt L N cfg txHash))"

text \<open>\<open>t\<close> is the time of the call; a deadline that is no integer throws.\<close>

definition patch_broadcast ::
  "('x, 'm) patch_labels \<Rightarrow> 'm patch_chain \<Rightarrow> patch_adapter \<Rightarrow> int \<Rightarrow> 'x patch_request \<Rightarrow> patch_result res" where
  "patch_broadcast L N cfg t q =
     (let p = prq_prepared q in
      bindR (bigint_of (pp_deadline p)) (\<lambda>deadline.
        Inr (if deadline < t div 1000 then
          patch_failed N cfg (expired_error L, pl_label L @ '' signature deadline has expired'', False) None None
        else if prq_recoveredSelector q \<noteq> pp_selectorWallet p then
          patch_failed N cfg (pl_invalidSignatureError L,
            ''wallet signature does not match the prepared selector'', False) None None
        else if pa_rejectGasPayerAsSelector cfg \<and> pa_gasPayer cfg = pp_selectorWallet p then
          patch_failed N cfg (''relayer_business_signer_reuse'',
            ''relayer gas payer must not be the selector business signer'', False) None None
        else if pp_planId p = [] \<or> pp_planId p = ZERO_BYTES32 then
          patch_failed N cfg (''order_plan_unresolved'',
            ''prepared stage patch has no non-zero planId for the plan-scoped patch ABI'', False) None None
        else patch_send L N cfg q)))"

text \<open>Without a relayer nothing is sent.\<close>

definition notSupportedStageExecutorPatchBroadcastAdapter :: patch_result where
  "notSupportedStageExecutorPatchBroadcastAdapter = PrNotAttempted ''broadcast_disabled''
     (''UVPStateMachine stage executor patch relayer broadcast is not configured; ''
       @ ''the selector signature was verified but no chain transaction was sent'')"

definition notSupportedStageResourcePatchBroadcastAdapter :: patch_result where
  "notSupportedStageResourcePatchBroadcastAdapter = PrNotAttempted ''broadcast_disabled''
     (''UVPStateMachine stage resource patch relayer broadcast is not configured; ''
       @ ''the selector signature was verified but no chain transaction was sent'')"

section \<open>What is signed is what is sent\<close>

lemma governance_fields:
  assumes "resolveExecutorPatchGovernance B order target inp capabilities = Inr g"
  shows "eg_previousExecutorForPatch g = or_default (eg_previousExecutor g) ZERO_ADDRESS
    \<and> eg_approvalSourceIdForPatch g = or_default (eg_approvalSourceId g) ZERO_BYTES32
    \<and> eg_approvalSignalIdForPatch g = or_default (eg_approvalSignalId g) ZERO_BYTES32"
  using assms by (auto simp: resolveExecutorPatchGovernance_def bindR_Inr_iff Let_def or_default_def split: if_splits)

lemma nonZeroAddress_nonempty:
  assumes "bindings_ok B" and "normalizeNonZeroAddress B v f = Inr a"
  shows "a \<noteq> []"
  using assms by (auto simp: normalizeNonZeroAddress_def bindR_Inr_iff dest!: normalizeAddress_normal normal_word_simps(3))

lemma nonZeroBytes32_nonempty:
  assumes "bindings_ok B" and "normalizeNonZeroBytes32 B v f = Inr a"
  shows "a \<noteq> []"
  using assms by (auto simp: normalizeNonZeroBytes32_def bindR_Inr_iff split: option.splits dest!: normalizeBytes32_normal normal_word_simps(3))

lemma governance_nonempty:
  assumes "bindings_ok B" and "resolveExecutorPatchGovernance B order target inp capabilities = Inr g"
  shows "keep_truthy (eg_previousExecutor g) = eg_previousExecutor g
    \<and> keep_truthy (eg_approvalSourceId g) = eg_approvalSourceId g
    \<and> keep_truthy (eg_approvalSignalId g) = eg_approvalSignalId g"
proof -
  have [simp]: "normalizeNonZeroAddress B v f \<noteq> Inr []" "normalizeNonZeroBytes32 B w f \<noteq> Inr []" for v w f
    using nonZeroAddress_nonempty [OF assms(1)] nonZeroBytes32_nonempty [OF assms(1)] by blast+
  show ?thesis
    using assms(2)
    by (auto simp: resolveExecutorPatchGovernance_def bindR_Inr_iff Let_def checked_previous_executor_Inr
      normalizeRequiredPreviousExecutor_def split: if_splits option.splits)
qed

lemma patch_context_selector:
  assumes "bindings_ok (pe_bindings E)"
    and "resolveSelectorPatchContext E ps taskId wallet target label signal allow = Inr x"
  shows "toLowerCase (sc_selectorWallet x) = sc_selectorWallet x"
  using assms
  by (auto simp: resolveSelectorPatchContext_def bindR_Inr_iff normal_word_simps dest!: normalizeAddress_normal
    split: prod.splits)

lemma built_executor_message:
  assumes "bindings_ok (pe_bindings E)" and "build_executor_patch E ps t i taskId inp = Inr p" and "prq_prepared q = dtoFromPrepared p"
  shows "pcl_message (executor_call module chain q) = pt_message (xp_typedData p)"
proof -
  obtain x g where x: "resolveSelectorPatchContext E ps taskId (xi_selectorWallet inp) (xi_targetStageId inp)
      ''stage executor patch'' STAGE_EXECUTOR_PATCH_SIGNAL_ID True = Inr x"
    and g: "resolveExecutorPatchGovernance (pe_bindings E) (sc_order x) (sc_targetStageId x)
      \<lparr>gi_mode = keep_truthy (xi_mode inp), gi_previousExecutor = keep_truthy (xi_previousExecutorWallet inp),
        gi_approvalSourceId = keep_truthy (xi_approvalSourceId inp),
        gi_approvalSignalId = keep_truthy (xi_approvalSignalId inp)\<rparr> (sc_capabilities x) = Inr g"
    using assms(2) by (auto simp: build_executor_patch_def bindR_Inr_iff Let_def)
  show ?thesis
    using assms(2,3) x g patch_context_selector [OF assms(1) x] governance_fields [OF g] governance_nonempty [OF assms(1) g]
    by (auto simp: build_executor_patch_def bindR_Inr_iff Let_def executor_call_def dtoFromPrepared_def
      buildStageExecutorPatchTypedData_def executor_message_of_def)
qed

lemma built_resource_message:
  assumes "bindings_ok (pe_bindings E)" and "build_resource_patch E ps t i taskId inp = Inr p" and "prq_prepared q = dtoFromPrepared p"
  shows "pcl_message (resource_call module chain q) = pt_message (rp_typedData p)"
proof -
  obtain x where x: "resolveSelectorPatchContext E ps taskId (ri_selectorWallet inp) (ri_targetStageId inp)
      ''stage resource patch'' STAGE_RESOURCE_PATCH_SIGNAL_ID False = Inr x"
    using assms(2) by (auto simp: build_resource_patch_def bindR_Inr_iff Let_def)
  show ?thesis
    using assms(2,3) x patch_context_selector [OF assms(1) x]
    by (auto simp: build_resource_patch_def bindR_Inr_iff Let_def resource_call_def dtoFromPrepared_def
      buildStageResourcePatchTypedData_def resource_message_of_def)
qed

lemma request_prepared [simp]: "prq_prepared (patch_request_of x) = dtoFromPrepared (pct_patch x)"
  by (simp add: patch_request_of_def Let_def)

text \<open>The result of a broadcast depends on the write at one call only: the one it makes.\<close>

lemma other_calls [simp]:
  "patch_failed (N\<lparr>pb_writeContract := w\<rparr>) = patch_failed N"
  "patch_write_failed L (N\<lparr>pb_writeContract := w\<rparr>) = patch_write_failed L N"
  "patch_receipt L (N\<lparr>pb_writeContract := w\<rparr>) = patch_receipt L N"
proof -
  show a: "patch_failed (N\<lparr>pb_writeContract := w\<rparr>) = patch_failed N"
    by (intro ext) (simp add: patch_failed_def)
  have duplicates: "pb_resolveDuplicate (N\<lparr>pb_writeContract := w\<rparr>) = pb_resolveDuplicate N"
    and receipts: "pb_waitForReceipt (N\<lparr>pb_writeContract := w\<rparr>) = pb_waitForReceipt N" by simp_all
  show "patch_write_failed L (N\<lparr>pb_writeContract := w\<rparr>) = patch_write_failed L N"
    by (intro ext) (unfold patch_write_failed_def a duplicates, rule refl)
  show "patch_receipt L (N\<lparr>pb_writeContract := w\<rparr>) = patch_receipt L N"
    by (intro ext) (unfold patch_receipt_def a receipts, rule refl)
qed

lemma one_call_is_made:
  assumes "\<And>m. normalizeAddress (pb_bindings N) (pl_verifyingContract L (prq_prepared q))
      ''prepared.typedData.domain.verifyingContract'' = Inr m \<Longrightarrow>
      w (pl_buildCall L m (pa_chainId cfg) q) = pb_writeContract N (pl_buildCall L m (pa_chainId cfg) q)"
  shows "patch_broadcast L (N\<lparr>pb_writeContract := w\<rparr>) cfg now q = patch_broadcast L N cfg now q"
proof -
  have send: "patch_send L (N\<lparr>pb_writeContract := w\<rparr>) cfg q = patch_send L N cfg q"
    using assms
    by (cases "normalizeAddress (pb_bindings N) (pl_verifyingContract L (prq_prepared q))
        ''prepared.typedData.domain.verifyingContract''") (simp_all add: patch_send_def split: sum.split)
  show ?thesis unfolding patch_broadcast_def other_calls send ..
qed

text \<open>The signature of the previous executor that the service verified; \<open>0x\<close> where none was asked for.\<close>

definition verified_previous_signature :: "patch_evidence \<Rightarrow> string" where
  "verified_previous_signature v = (case pv_previous v of Some (s, a) \<Rightarrow> if s = [] then ''0x'' else s | None \<Rightarrow> ''0x'')"

text \<open>
  C25: The contract is called with what was signed. For a patch of either kind that the service
  built, the broadcaster writes to the contract with one call at most, which is to the contract
  named in the typed data that was signed, in the form the package gives it, on the chain the
  broadcaster is configured for. Every argument of the call is the field of the same name in the
  typed data; the signature is the one the service verified as the selector's; and an executor
  patch carries the signature it verified as the previous executor's, or none if none was asked
  for.
\<close>

theorem patch_is_sent_as_signed:
  assumes "bindings_ok (pe_bindings E)"
  shows "(build_executor_patch E ps t i taskId inp = Inr p \<and> pct_patch x = p \<longrightarrow>
      (\<exists>call. (\<forall>m. pcl_module (call m) = m \<and> pcl_chainId (call m) = pa_chainId cfg
          \<and> pcl_message (call m) = pt_message (xp_typedData p)
          \<and> pcl_signature (call m) = pv_signature (pct_evidence x)
          \<and> pcl_previousExecutorSignature (call m) = Some (verified_previous_signature (pct_evidence x)))
        \<and> (\<forall>w. (\<forall>m. normalizeAddress (pb_bindings N) (pt_verifyingContract (xp_typedData p))
                ''prepared.typedData.domain.verifyingContract'' = Inr m \<longrightarrow> w (call m) = pb_writeContract N (call m)) \<longrightarrow>
            patch_broadcast STAGE_EXECUTOR_PATCH_BROADCAST_LABELS (N\<lparr>pb_writeContract := w\<rparr>) cfg now (patch_request_of x)
              = patch_broadcast STAGE_EXECUTOR_PATCH_BROADCAST_LABELS N cfg now (patch_request_of x))))
    \<and> (build_resource_patch E ps t i taskId inp' = Inr p' \<and> pct_patch x' = p' \<longrightarrow>
      (\<exists>call. (\<forall>m. pcl_module (call m) = m \<and> pcl_chainId (call m) = pa_chainId cfg
          \<and> pcl_message (call m) = pt_message (rp_typedData p')
          \<and> pcl_signature (call m) = pv_signature (pct_evidence x')
          \<and> pcl_previousExecutorSignature (call m) = None)
        \<and> (\<forall>w. (\<forall>m. normalizeAddress (pb_bindings N') (pt_verifyingContract (rp_typedData p'))
                ''prepared.typedData.domain.verifyingContract'' = Inr m \<longrightarrow> w (call m) = pb_writeContract N' (call m)) \<longrightarrow>
            patch_broadcast STAGE_RESOURCE_PATCH_BROADCAST_LABELS (N'\<lparr>pb_writeContract := w\<rparr>) cfg now (patch_request_of x')
              = patch_broadcast STAGE_RESOURCE_PATCH_BROADCAST_LABELS N' cfg now (patch_request_of x'))))"
proof (intro conjI impI)
  assume p: "build_executor_patch E ps t i taskId inp = Inr p \<and> pct_patch x = p"
  let ?call = "\<lambda>m. executor_call m (pa_chainId cfg) (patch_request_of x)"
  have message: "pcl_message (?call m) = pt_message (xp_typedData p)" for m
    using p by (intro built_executor_message [OF assms, of ps t i taskId inp p]) simp_all
  show "\<exists>call. (\<forall>m. pcl_module (call m) = m \<and> pcl_chainId (call m) = pa_chainId cfg
          \<and> pcl_message (call m) = pt_message (xp_typedData p)
          \<and> pcl_signature (call m) = pv_signature (pct_evidence x)
          \<and> pcl_previousExecutorSignature (call m) = Some (verified_previous_signature (pct_evidence x)))
        \<and> (\<forall>w. (\<forall>m. normalizeAddress (pb_bindings N) (pt_verifyingContract (xp_typedData p))
                ''prepared.typedData.domain.verifyingContract'' = Inr m \<longrightarrow> w (call m) = pb_writeContract N (call m)) \<longrightarrow>
            patch_broadcast STAGE_EXECUTOR_PATCH_BROADCAST_LABELS (N\<lparr>pb_writeContract := w\<rparr>) cfg now (patch_request_of x)
              = patch_broadcast STAGE_EXECUTOR_PATCH_BROADCAST_LABELS N cfg now (patch_request_of x))"
    by (rule exI [of _ ?call], intro conjI allI impI message one_call_is_made)
      (use p in \<open>auto simp: executor_call_def patch_request_of_def Let_def verified_previous_signature_def or_default_def
        STAGE_EXECUTOR_PATCH_BROADCAST_LABELS_def dtoFromPrepared_def keep_truthy_def split: option.splits\<close>)
next
  assume p: "build_resource_patch E ps t i taskId inp' = Inr p' \<and> pct_patch x' = p'"
  let ?call = "\<lambda>m. resource_call m (pa_chainId cfg) (patch_request_of x')"
  have message: "pcl_message (?call m) = pt_message (rp_typedData p')" for m
    using p by (intro built_resource_message [OF assms, of ps t i taskId inp' p']) simp_all
  show "\<exists>call. (\<forall>m. pcl_module (call m) = m \<and> pcl_chainId (call m) = pa_chainId cfg
          \<and> pcl_message (call m) = pt_message (rp_typedData p')
          \<and> pcl_signature (call m) = pv_signature (pct_evidence x')
          \<and> pcl_previousExecutorSignature (call m) = None)
        \<and> (\<forall>w. (\<forall>m. normalizeAddress (pb_bindings N') (pt_verifyingContract (rp_typedData p'))
                ''prepared.typedData.domain.verifyingContract'' = Inr m \<longrightarrow> w (call m) = pb_writeContract N' (call m)) \<longrightarrow>
            patch_broadcast STAGE_RESOURCE_PATCH_BROADCAST_LABELS (N'\<lparr>pb_writeContract := w\<rparr>) cfg now (patch_request_of x')
              = patch_broadcast STAGE_RESOURCE_PATCH_BROADCAST_LABELS N' cfg now (patch_request_of x'))"
    by (rule exI [of _ ?call], intro conjI allI impI message one_call_is_made)
      (use p in \<open>auto simp: resource_call_def patch_request_of_def Let_def
        STAGE_RESOURCE_PATCH_BROADCAST_LABELS_def dtoFromPrepared_def\<close>)
qed

end
