(* ===== verification/PatchSamples.thy ===== *)
theory PatchSamples imports PatchBroadcast Samples begin

text \<open>
  The stage patch theorems on a small world: one order with one signal of \<open>w\<close>, who holds the task
  of the selector and hands the stage over. Two faults of the service are shown on it as well.
\<close>

section \<open>An order and a patch\<close>

definition patched_order :: order_proj where
  "patched_order = ready_order\<lparr>or_signals := [(''h:g'', sample_signal)]\<rparr>"

definition patched_projections :: projection_store where
  "patched_projections = empty_projection_store\<lparr>ps_snapshot := createEmptyProjectionSnapshot
     \<lparr>sn_stateMachineOrders := [(''1:a:p:o'', patched_order)],
      sn_stateMachineTasks := [(''1:a:p:o:h'', sample_task)]\<rparr>\<rparr>"

definition handoff_message :: executor_message where
  "handoff_message =
     \<lparr>xm_planId = ''p'', xm_orderId = ''o'', xm_selectorStageId = ''s'', xm_targetStageId = ''h'',
      xm_executor = ''x'', xm_role = ''h'', xm_executorMetadataHash = ''d'', xm_mode = ''m'',
      xm_previousExecutor = ''w'', xm_approvalSourceId = ''z'', xm_approvalSignalId = ''z'',
      xm_patchHash = ''f'', xm_patchNonce = ''1'', xm_metadataURI = ''u'', xm_selector = ''w'',
      xm_deadline = ''900''\<rparr>"

definition handoff_patch :: executor_patch where
  "handoff_patch =
     \<lparr>pp_prepareId = ''i'', pp_taskId = ''1:a:p:o:h'', pp_orderId = ''o'', pp_onchainOrderId = ''o'',
      pp_stateMachineAddress = ''a'', pp_planId = ''p'', pp_selectorStageId = ''s'',
      pp_targetStageId = ''h'', pp_selectorWallet = ''w'', pp_patchHash = ''f'', pp_patchNonce = ''1'',
      pp_deadline = ''900'', pp_expiresAt = ''t'',
      pp_nonceKey = stagePatchNonceKey ''executor'' 1 ''a'' ''o'' ''h'' None None ''1'',
      pp_usedAt = None, pp_submissionId = None, xp_executorWallet = ''x'', xp_mode = Handoff,
      xp_modeHash = ''m'', xp_previousExecutor = Some ''w'', xp_approvalSourceId = None,
      xp_approvalSignalId = None, xp_roleHash = ''h'', xp_executorMetadataHash = ''d'',
      xp_metadataURI = ''u'',
      xp_typedData = \<lparr>pt_chainId = 1, pt_verifyingContract = ''b'', pt_message = handoff_message\<rparr>\<rparr>"

definition patch_world :: patch_env where
  "patch_world =
     \<lparr>pe_bindings = short_bindings, pe_onchainStageId = id, pe_textHash = id, pe_schema = None,
      pe_product = None, pe_chainId = 1, pe_verifyingContract = None,
      pe_stagePatchModuleAddress = Some ''b'', pe_ttlSeconds = 900, pe_runtimeEnvironment = ''test'',
      pe_hashExecutor = (\<lambda>_. Inr ''f''), pe_hashResource = (\<lambda>_. Inr ''f''),
      pe_recoverExecutor = (\<lambda>td _. Inr (xm_selector (pt_message td))),
      pe_recoverResource = (\<lambda>td _. Inr (rm_selector (pt_message td))),
      pe_signatureHash = id, pe_canonicalJson = (\<lambda>_. []), pe_executorJson = (\<lambda>_. []),
      pe_resourceJson = (\<lambda>_. []), pe_executorTypedJson = (\<lambda>_. []), pe_resourceTypedJson = (\<lambda>_. [])\<rparr>"

definition patch_table :: executor_store where
  "patch_table = \<lparr>pst_prepared = [(''i'', handoff_patch)], pst_submissions = [], pst_nonces = []\<rparr>"

definition signed_handoff :: patch_submit_input where
  "signed_handoff =
     \<lparr>pti_prepareId = Some ''i'', pti_patchPrepareId = None, pti_selectorWallet = ''w'',
      pti_patch = None, pti_typedData = None, pti_signature = ''0xaa'',
      pti_previousExecutorSignature = Some ''0xaa''\<rparr>"

definition handoff_context :: "unit executor_patch_ext patch_context" where
  "handoff_context = \<lparr>pct_patch = handoff_patch, pct_evidence =
     \<lparr>pv_signature = ''0xaa'', pv_recovered = ''w'', pv_previous = Some (''0xaa'', ''w'')\<rparr>\<rparr>"

section \<open>The table\<close>

lemma handoff_deadline: "js_number_of_string (pp_deadline handoff_patch) = Some 900" "bigint_of ''900'' = Inr 900"
  by code_simp+

lemma prepared_patches_are_bounded_witness:
  "\<exists>st'. put_patch 0 (handoff_patch\<lparr>pp_prepareId := ''j''\<rparr>) patch_table = Some st'
    \<and> length (pst_prepared st') \<le> 5000 \<and> get_patch ''j'' st' = Some (handoff_patch\<lparr>pp_prepareId := ''j''\<rparr>)"
proof -
  have "by_prepare_id (pst_prepared patch_table)" "deadlines_readable (pst_prepared patch_table)"
    "length (pst_prepared patch_table) \<le> MEMORY_PREPARED_PATCH_HARD_LIMIT"
    using handoff_deadline(1)
    by (simp_all add: by_prepare_id_def deadlines_readable_def patch_table_def MEMORY_PREPARED_PATCH_HARD_LIMIT_def
      handoff_patch_def)
  from prepared_patches_are_bounded [OF this, of 0 "handoff_patch\<lparr>pp_prepareId := ''j''\<rparr>"] show ?thesis
    by (auto simp: MEMORY_PREPARED_PATCH_HARD_LIMIT_def)
qed

section \<open>The handoff\<close>

lemma patched_order_simps [simp]:
  "or_signals patched_order = [(''h:g'', sample_signal)]" "or_stageExecutorOverlays patched_order = []"
  "or_orderId patched_order = ''o''" "or_contractAddress patched_order = ''a''" "or_planId patched_order = ''p''"
  "or_tasks patched_order = [(''a:o:h'', sample_task)]"
  by (simp_all add: patched_order_def ready_order_def newOrder_def)

lemma fallback_of_h: "fallback_signals patched_order ''h'' = [sample_signal]"
  by (simp add: fallback_signals_def sample_signal_def)

lemma capability_of_h: "capability_signals patched_order ''h'' [] = []"
  by (simp add: capability_signals_def capability_facts_def)

lemma progress_of_h:
  "targetStageProgress patched_order ''h'' [] =
     \<lparr>sp_signalCount = 1, sp_lastSignalSubmitter = Some ''w'', sp_lastSignalAmbiguous = False,
      sp_lastSignalTieBlockNumber = None\<rparr>"
  by (simp add: targetStageProgress_def fallback_of_h capability_of_h latestSubmitterByChainOrder_def
    submitters_at_def Let_def) (simp add: sample_signal_def)

definition handoff_request :: governance_input where
  "handoff_request = \<lparr>gi_mode = Some ''handoff'', gi_previousExecutor = Some ''w'', gi_approvalSourceId = None,
     gi_approvalSignalId = None\<rparr>"

definition handoff_governance :: executor_governance where
  "handoff_governance =
     \<lparr>eg_mode = Handoff, eg_modeHash = executorPatchModeHash short_bindings Handoff, eg_previousExecutor = Some ''w'',
      eg_previousExecutorForPatch = ''w'', eg_approvalSourceId = None, eg_approvalSignalId = None,
      eg_approvalSourceIdForPatch = ZERO_BYTES32, eg_approvalSignalIdForPatch = ZERO_BYTES32\<rparr>"

lemma low_w: "toLowerCase ''w'' = ''w''" by code_simp

lemma w_is_an_address: "normalizeNonZeroAddress short_bindings ''w'' f = Inr ''w''"
  "normalizeAddress short_bindings ''w'' f = Inr ''w''"
proof -
  show n: "normalizeAddress short_bindings ''w'' f = Inr ''w''"
    using low_w by (simp add: normalizeAddress_def short_bindings_def colon_free_def)
  show "normalizeNonZeroAddress short_bindings ''w'' f = Inr ''w''"
    by (simp add: normalizeNonZeroAddress_def n ZERO_ADDRESS_def)
qed

lemma handoff_permitted:
  "resolveExecutorPatchGovernance short_bindings patched_order ''h'' handoff_request [] = Inr handoff_governance"
  using mode_texts_normal(2)
  by (simp add: resolveExecutorPatchGovernance_def handoff_request_def progress_of_h Let_def
    rejectUnexpectedApprovalSignal_def checked_previous_executor_def normalizeRequiredPreviousExecutor_def
    w_is_an_address expectedPreviousExecutorForPatch_def handoff_governance_def)

lemma previous_executor_acted_last_witness:
  "\<exists>s. newest (fallback_signals patched_order ''h'') s \<and> sig_submitter s = ''w''"
proof -
  have a: "eg_mode handoff_governance \<noteq> Assign" by (simp add: handoff_governance_def)
  have n: "jget (or_stageExecutorOverlays patched_order) (toLowerCase ''h'') = None" by simp
  have s: "\<forall>s \<in> set (jvalues (or_signals patched_order)). indexed (sig_submittedAt s) \<and> sig_submitter s \<noteq> []"
    by (simp add: sample_signal_def indexed_def signal_event_def sample_event_def provenanceOf_def)
  from previous_executor_acted_last [OF handoff_permitted a n s] show ?thesis
    by (auto simp: fallback_of_h handoff_governance_def)
qed

section \<open>The submission\<close>

lemma handoff_fields [simp]:
  "pp_prepareId handoff_patch = ''i''" "pp_taskId handoff_patch = ''1:a:p:o:h''"
  "pp_selectorWallet handoff_patch = ''w''" "pp_targetStageId handoff_patch = ''h''"
  "pp_deadline handoff_patch = ''900''" "pp_usedAt handoff_patch = None" "pp_submissionId handoff_patch = None"
  "xp_mode handoff_patch = Handoff" "xp_previousExecutor handoff_patch = Some ''w''"
  "xp_approvalSourceId handoff_patch = None" "xp_approvalSignalId handoff_patch = None"
  by (simp_all add: handoff_patch_def)

lemma sample_signature: "normalizePatchSignature ''0xaa'' = Inr ''0xaa''"
  by (simp add: normalizePatchSignature_def assertHex_def base_digit_def lower_char_def toLowerCase_def)

lemma trim_i: "trim ''i'' = ''i''" by code_simp

lemma w_recovered:
  "recoverExecutorSelector patch_world handoff_patch ''0xaa'' = Inr ''w''"
  "recoverExecutorPreviousExecutor patch_world handoff_patch ''0xaa'' = Inr ''w''"
  by (simp_all add: recoverExecutorSelector_def recoverExecutorPreviousExecutor_def recover_signer_def sample_signature
    patch_world_def w_is_an_address recovered_as_def handoff_patch_def handoff_message_def)

lemma lower_key: "toLowerCase ''1:a:p:o:h'' = ''1:a:p:o:h''" "toLowerCase ''1:a:q:o:h'' = ''1:a:q:o:h''"
  by code_simp+

lemma handoff_task: "resolveSelectorTaskContext patched_projections ''1:a:p:o:h'' = Inr (sample_task, patched_order)"
proof -
  have "getStateMachineTask ''1:a:p:o:h'' patched_projections = Some sample_task"
    using lower_key by (simp add: getStateMachineTask_def patched_projections_def Let_def opt_or_def)
  then show ?thesis
    by (simp add: resolveSelectorTaskContext_def listStateMachineOrders_def patched_projections_def sample_task_def)
qed

lemma no_capabilities: "plan_capabilities patched_projections patched_order = []"
  by (simp add: plan_capabilities_def findProjectedPlan_def patched_projections_def createEmptyProjectionSnapshot_def)

lemma handoff_id: "prepareIdForSubmit signed_handoff l = Inr ''i''"
  using trim_i by (simp add: prepareIdForSubmit_def signed_handoff_def)

lemma handoff_checks:
  "patch_submit_checks patch_world (executor_kind patch_world) ''1:a:p:o:h'' signed_handoff patch_table
     = Inr (handoff_patch, ''0xaa'', ''w'')"
  by (simp add: patch_submit_checks_def handoff_id get_patch_def patch_table_def validateSubmittedPreparedEnvelope_def
    validatePreparedForSubmit_def)
    (simp add: signed_handoff_def patch_world_def w_is_an_address sample_signature w_recovered [unfolded patch_world_def])

lemma handoff_live:
  "patch_live_checks (executor_kind patch_world) patched_projections ''1:a:p:o:h'' signed_handoff handoff_patch
     = Inr (Some (''0xaa'', ''w''))"
  using handoff_permitted
  by (simp add: patch_live_checks_def handoff_task no_capabilities ensureExecutorPreparedStillCurrent_def
    executor_mode_text.simps handoff_request_def patch_nonce_current_def patch_nonce_value_def executor_overlay_nonce_def
    executor_previous_def signatureForPreviousExecutor_def signed_handoff_def sample_signature w_recovered)
    (simp add: patch_world_def)

lemma handoff_begins:
  "begin_executor_patch patch_world patched_projections (\<lambda>_. 500000) ''r'' ''b'' None ''1:a:p:o:h'' signed_handoff
     patch_table
   = (Inr (PbReserved handoff_context), patch_table\<lparr>pst_nonces := [(pp_nonceKey handoff_patch, ''r'')]\<rparr>)"
  by (simp add: begin_executor_patch_def patch_submit_begin_def handoff_checks handoff_live handoff_deadline
    reserve_patch_nonce_def Let_def handoff_context_def) (simp add: patch_table_def)

lemma only_authorized_patches_are_broadcast_witness:
  "recoverExecutorSelector patch_world handoff_patch ''0xaa'' = Inr ''w''
    \<and> patch_nonce_held (pp_nonceKey handoff_patch)
        (patch_table\<lparr>pst_nonces := [(pp_nonceKey handoff_patch, ''r'')]\<rparr>) = Some ''r''"
  using only_authorized_patches_are_broadcast [OF handoff_begins] by (auto simp: handoff_context_def)

section \<open>The outcome\<close>

definition handoff_sent :: patch_result where
  "handoff_sent = PrSubmitted ''h'' None None"

lemma handoff_finishes:
  "\<exists>sub st'. finish_executor_patch patch_world (\<lambda>_. 0) ''b'' \<lparr>pf_archive = None, pf_fallback = False, pf_release = None\<rparr>
     handoff_context (PatchResult handoff_sent) patch_table = (Inr sub, st') \<and> px_txHash sub \<noteq> None"
  by (simp add: finish_executor_patch_def patch_submit_finish_def handoff_sent_def Let_def
    submission_from_patch_broadcast_def)

text \<open>The patch is sent, expired patches are swept, and it is submitted again; or its archive is lost.\<close>

lemma sent_patch_is_not_sent_again_witness:
  "(\<exists>st' e. begin_executor_patch patch_world patched_projections (\<lambda>_. 500000) ''r'' ''c'' None ''1:a:p:o:h''
     signed_handoff (snd (deleteExpiredPrepared ''0'' st')) = (Inl e, snd (deleteExpiredPrepared ''0'' st')))
   \<and> (\<exists>st'. patch_submit_finish patch_world (executor_kind patch_world) (\<lambda>_. 0) ''b''
      \<lparr>pf_archive = Some \<lparr>te_name = None, te_text = ''down''\<rparr>, pf_fallback = True, pf_release = None\<rparr>
      handoff_context (PatchResult handoff_sent) patch_table = (Inl (PatchExternal \<lparr>te_name = None, te_text = ''down''\<rparr>), st')
      \<and> get_patch (pp_prepareId (pct_patch handoff_context)) st' = Some handoff_patch)"
proof
  have p: "get_patch (pp_prepareId (pct_patch handoff_context)) patch_table = Some handoff_patch"
    by (simp add: handoff_context_def get_patch_def patch_table_def)
  have i: "prepareIdForSubmit signed_handoff (pk_label (executor_kind patch_world))
      = Inr (pp_prepareId (pct_patch handoff_context))" by (simp add: handoff_id handoff_context_def)
  have d: "distinct (jkeys (pst_prepared patch_table))" by (simp add: patch_table_def)
  have n: "''b'' \<noteq> ([] :: string)" by simp
  obtain sub st' where f: "patch_submit_finish patch_world (executor_kind patch_world) (\<lambda>_. 0) ''b''
      \<lparr>pf_archive = None, pf_fallback = False, pf_release = None\<rparr> handoff_context (PatchResult handoff_sent) patch_table
      = (Inr sub, st')" "px_txHash sub \<noteq> None"
    using handoff_finishes by (auto simp: finish_executor_patch_def)
  have "patch_later patch_world (executor_kind patch_world) (pp_prepareId (pct_patch handoff_context)) st'
      (snd (deleteExpiredPrepared ''0'' st'))"
    by (intro patch_later.sweeps patch_later.here)
  with sent_patch_is_not_sent_again [OF f(1) n d refl p i, THEN conjunct1] f(2)
  show "\<exists>st' e. begin_executor_patch patch_world patched_projections (\<lambda>_. 500000) ''r'' ''c'' None ''1:a:p:o:h''
     signed_handoff (snd (deleteExpiredPrepared ''0'' st')) = (Inl e, snd (deleteExpiredPrepared ''0'' st'))"
    unfolding begin_executor_patch_def by blast
  let ?lost = "patch_submit_finish patch_world (executor_kind patch_world) (\<lambda>_. 0) ''b''
      \<lparr>pf_archive = Some \<lparr>te_name = None, te_text = ''down''\<rparr>, pf_fallback = True, pf_release = None\<rparr>
      handoff_context (PatchResult handoff_sent) patch_table"
  have l: "?lost = (fst ?lost, snd ?lost)" by simp
  obtain h where h: "keep_truthy (broadcast_tx_hash handoff_sent) = Some h" by (simp add: handoff_sent_def)
  have "fst ?lost = Inl (PatchExternal \<lparr>te_name = None, te_text = ''down''\<rparr>)
      \<and> get_patch (pp_prepareId (pct_patch handoff_context)) (snd ?lost) = Some handoff_patch"
    using sent_patch_is_not_sent_again [OF l n d refl p i, THEN conjunct2, rule_format, OF conjI [OF refl conjI [OF h]]]
    by simp
  then show "\<exists>st'. ?lost = (Inl (PatchExternal \<lparr>te_name = None, te_text = ''down''\<rparr>), st')
      \<and> get_patch (pp_prepareId (pct_patch handoff_context)) st' = Some handoff_patch"
    by (metis prod.collapse)
qed

section \<open>From the request to the call\<close>

text \<open>Stage \<open>q\<close> has not begun; \<open>w\<close> holds the task and is authorized to give out its executor and its resources.\<close>

definition patch_permit :: "string \<Rightarrow> authorization_proj" where
  "patch_permit signal =
     \<lparr>auth_orderId = ''o'', auth_sourceId = ''s'', auth_signalId = signal, auth_submitter = ''w'',
      auth_role = ''r'', auth_metadataHash = ''d'', auth_authorizedAt = provenanceOf ready_event,
      auth_proof = sample_proof ready_event sample_metadata\<rparr>"

definition open_order :: order_proj where
  "open_order = ready_order\<lparr>or_planHash := Some ''f'',
     or_authorizations := [(''1'', patch_permit STAGE_EXECUTOR_PATCH_SIGNAL_ID),
       (''2'', patch_permit STAGE_RESOURCE_PATCH_SIGNAL_ID)]\<rparr>"

definition open_task :: task_proj where
  "open_task = sample_task\<lparr>tk_assigneeWallet := Some ''w''\<rparr>"

definition open_projections :: projection_store where
  "open_projections = empty_projection_store\<lparr>ps_snapshot := createEmptyProjectionSnapshot
     \<lparr>sn_stateMachineOrders := [(''1:a:p:o'', open_order)],
      sn_stateMachineTasks := [(''1:a:p:o:h'', open_task)]\<rparr>\<rparr>"

definition open_schema :: product_schema where
  "open_schema = \<lparr>psc_orderPermissionTable = [], psc_roleSlots = [], psc_selectorBindings =
     Some [JObj [(''selectorStageId'', JStr ''s''), (''targetStageId'', JStr ''q'')]],
     psc_selectedStageBindings = None\<rparr>"

definition open_world :: patch_env where
  "open_world = patch_world\<lparr>pe_schema := Some (\<lambda>_ _. Some open_schema)\<rparr>"

definition assign_request :: executor_patch_input where
  "assign_request =
     \<lparr>xi_selectorWallet = ''w'', xi_targetStageId = ''q'', xi_executorWallet = ''w'', xi_mode = None,
      xi_previousExecutorWallet = None, xi_approvalSourceId = None, xi_approvalSignalId = None,
      xi_roleHash = None, xi_executorMetadataHash = Some ''f'', xi_supplierReferenceHash = None,
      xi_metadataURI = ''u''\<rparr>"

definition resource_request :: resource_patch_input where
  "resource_request =
     \<lparr>ri_selectorWallet = ''w'', ri_targetStageId = ''q'', ri_resourceKey = ''q'', ri_manifestHash = ''f'',
      ri_policyHash = ''f'', ri_manifestURI = ''u''\<rparr>"

lemma open_texts:
  "toLowerCase ''q'' = ''q''" "toLowerCase ''f'' = ''f''" "toLowerCase ''s'' = ''s''" "toLowerCase ''a'' = ''a''"
  "toLowerCase ''b'' = ''b''" "trim ''q'' = ''q''" "trim ''u'' = ''u''" "trim ''assign'' = ''assign''"
  "toLowerCase ''assign'' = ''assign''" "is_bytes32 ''q'' = False"
  by code_simp+

lemma short_words:
  "v \<noteq> [] \<Longrightarrow> colon_free v \<Longrightarrow> normalizeBytes32 short_bindings v f = Inr (toLowerCase v)"
  "v \<noteq> [] \<Longrightarrow> colon_free v \<Longrightarrow> normalizeAddress short_bindings v f = Inr (toLowerCase v)"
  by (simp_all add: normalizeBytes32_def normalizeAddress_def short_bindings_def)

lemma open_colon_free: "colon_free ''q''" "colon_free ''f''" "colon_free ''s''" "colon_free ''a''" "colon_free ''b''" "colon_free ''w''"
  by (simp_all add: colon_free_def)

lemma open_order_simps [simp]:
  "or_signals open_order = []" "or_stageExecutorOverlays open_order = []" "or_stageResourceOverlays open_order = []"
  "or_orderId open_order = ''o''" "or_contractAddress open_order = ''a''" "or_planId open_order = ''p''"
  "or_planHash open_order = Some ''f''"
  "or_tasks open_order = [(''a:o:h'', sample_task)]"
  "jvalues (or_authorizations open_order) =
     [patch_permit STAGE_EXECUTOR_PATCH_SIGNAL_ID, patch_permit STAGE_RESOURCE_PATCH_SIGNAL_ID]"
  by (simp_all add: open_order_def ready_order_def newOrder_def)

lemma open_found: "resolveSelectorTaskContext open_projections ''1:a:p:o:h'' = Inr (open_task, open_order)"
proof -
  have "getStateMachineTask ''1:a:p:o:h'' open_projections = Some open_task"
    using lower_key by (simp add: getStateMachineTask_def open_projections_def Let_def opt_or_def)
  then show ?thesis
    by (simp add: resolveSelectorTaskContext_def listStateMachineOrders_def open_projections_def)
      (simp add: open_task_def sample_task_def)
qed

lemma open_binding:
  "findAllowedSelectorBinding open_world open_projections open_order ''s'' ''q'' ''q''
     = Inr (Some \<lparr>sb_selectorStageIdentifier = None, sb_targetStageIdentifier = None, sb_selectorStageId = ''s'',
         sb_targetStageId = ''q'', sb_bindingHash = None\<rparr>)"
  by (simp add: findAllowedSelectorBinding_def findProjectedPlan_def open_projections_def createEmptyProjectionSnapshot_def
    Let_def findProductSchema_def open_world_def selectorBindingsFromProductSchema_def open_schema_def opt_or_def
    selectorBindingFromUnknown_def stringField_def jfield_def binding_stage_def bindingMatchesTarget_def)
    (simp add: patch_world_def short_words open_colon_free open_texts)

lemma open_context:
  assumes "signal \<in> {STAGE_EXECUTOR_PATCH_SIGNAL_ID, STAGE_RESOURCE_PATCH_SIGNAL_ID}"
  shows "resolveSelectorPatchContext open_world open_projections ''1:a:p:o:h'' ''w'' ''q'' l signal allow
     = Inr \<lparr>sc_task = open_task, sc_order = open_order, sc_selectorWallet = ''w'', sc_targetStageId = ''q'',
         sc_capabilities = []\<rparr>"
proof -
  have t: "tk_status open_task = TaskReady" "tk_assigneeWallet open_task = Some ''w''" "tk_stageIdentifier open_task = ''s''"
    by (simp_all add: open_task_def sample_task_def)
  have e: "pe_bindings open_world = short_bindings" "pe_onchainStageId open_world = id"
    by (simp_all add: open_world_def patch_world_def)
  have c: "plan_capabilities open_projections open_order = []"
    by (simp add: plan_capabilities_def findProjectedPlan_def open_projections_def createEmptyProjectionSnapshot_def)
  have a: "patch_authorized open_order ''s'' signal ''w''"
    using assms by (auto simp: patch_authorized_def patch_permit_def)
  have p: "\<not> hasSubmittedTargetSignal open_order ''q'' []"
    by (simp add: hasSubmittedTargetSignal_def targetStageProgress_def capability_signals_def fallback_signals_def Let_def)
  show ?thesis
    by (simp add: resolveSelectorPatchContext_def open_found e w_is_an_address t isSelectorWalletAssignedToTask_def
      normalizeTargetStage_def open_texts short_words open_colon_free open_binding c a p
      ensureSelectorPatchSignalAuthorization_def)
qed

lemma open_simps:
  "pe_bindings open_world = short_bindings" "pe_textHash open_world = id" "pe_chainId open_world = 1"
  "pe_runtimeEnvironment open_world = ''test''" "pe_stagePatchModuleAddress open_world = Some ''b''"
  "pe_hashExecutor open_world = (\<lambda>_. Inr ''f'')" "pe_hashResource open_world = (\<lambda>_. Inr ''f'')"
  "tk_stateMachineAddress open_task = ''a''" "''f'' \<noteq> ZERO_BYTES32" "''a'' \<noteq> ZERO_ADDRESS" "''b'' \<noteq> ZERO_ADDRESS"
  by (simp_all add: open_world_def patch_world_def open_task_def sample_task_def ZERO_BYTES32_def ZERO_ADDRESS_def)

lemma open_governance:
  "\<exists>g. resolveExecutorPatchGovernance short_bindings open_order ''q''
     \<lparr>gi_mode = None, gi_previousExecutor = None, gi_approvalSourceId = None, gi_approvalSignalId = None\<rparr> [] = Inr g"
  by (simp add: resolveExecutorPatchGovernance_def normalizeExecutorPatchMode_def open_texts targetStageProgress_def
    capability_signals_def fallback_signals_def rejectUnexpectedPreviousExecutor_def
    rejectUnexpectedApprovalSignal_def Let_def)

lemma open_builds:
  "\<exists>p. build_executor_patch open_world open_projections t i ''1:a:p:o:h'' assign_request = Inr p"
  "\<exists>p. build_resource_patch open_world open_projections t i ''1:a:p:o:h'' resource_request = Inr p"
proof -
  obtain g where "resolveExecutorPatchGovernance short_bindings open_order ''q''
     \<lparr>gi_mode = None, gi_previousExecutor = None, gi_approvalSourceId = None, gi_approvalSignalId = None\<rparr> [] = Inr g"
    using open_governance by blast
  then show "\<exists>p. build_executor_patch open_world open_projections t i ''1:a:p:o:h'' assign_request = Inr p"
    by (simp add: build_executor_patch_def open_context assign_request_def open_simps Let_def w_is_an_address opt_or_def
      normalizeNonZeroBytes32_def short_words open_colon_free open_texts nextStageExecutorPatchNonce_def next_patch_nonce_def
      patch_nonce_value_def executor_overlay_nonce_def normalizedMetadataURI_def hashStageExecutorPatchPayload_def
      hash_payload_def nonZeroHash_def stateMachineAddressFor_def stagePatchModuleAddressFor_def)
  show "\<exists>p. build_resource_patch open_world open_projections t i ''1:a:p:o:h'' resource_request = Inr p"
    by (simp add: build_resource_patch_def open_context resource_request_def open_simps Let_def
      normalizeNonZeroBytes32_def short_words open_colon_free open_texts normalizeResourceKey_def
      normalizedManifestURI_def nextStageResourcePatchNonce_def next_patch_nonce_def
      patch_nonce_value_def resource_overlay_nonce_def hashStageResourcePatchPayload_def
      hash_payload_def nonZeroHash_def stateMachineAddressFor_def stagePatchModuleAddressFor_def)
qed

definition patch_node :: "'m patch_chain" where
  "patch_node =
     \<lparr>pb_broadcastFailureCore = (\<lambda>c. failedBroadcastResult (fc_errorCode c) (fc_message c) (fc_retryable c) 0 None None),
      pb_getChainId = Inr (Some 1), pb_writeContract = (\<lambda>_. Inr ''0xff''),
      pb_resolveDuplicate = (\<lambda>_. DupNonceRace), pb_waitForReceipt = (\<lambda>_. Inr None),
      pb_bindings = short_bindings, pb_errorOf = (\<lambda>_. \<lparr>te_name = None, te_text = ''bad''\<rparr>)\<rparr>"

definition patch_relayer :: patch_adapter where
  "patch_relayer = \<lparr>pa_chainId = 1, pa_waitForReceipt = False, pa_confirmOnReceipt = False,
     pa_rejectGasPayerAsSelector = True, pa_gasPayer = ''g''\<rparr>"

lemma whatever_the_module:
  fixes P :: "(string \<Rightarrow> 'c) \<Rightarrow> string \<Rightarrow> bool"
  assumes "\<exists>call. (\<forall>m. P call m) \<and> (\<forall>w. (\<forall>m. A m \<longrightarrow> w (call m) = W (call m)) \<longrightarrow> R w)"
    and "\<And>call m. P call m \<Longrightarrow> Q (call m)"
  shows "\<exists>call :: string \<Rightarrow> 'c. (\<forall>m. Q (call m)) \<and> (\<forall>w. (\<forall>m. w (call m) = W (call m)) \<longrightarrow> R w)"
proof -
  from assms(1) obtain call where
    c: "(\<forall>m. P call m) \<and> (\<forall>w. (\<forall>m. A m \<longrightarrow> w (call m) = W (call m)) \<longrightarrow> R w)" ..
  from c assms(2) have "\<forall>m. Q (call m)" by simp
  moreover from c have "\<forall>w. (\<forall>m. w (call m) = W (call m)) \<longrightarrow> R w" by simp
  ultimately show ?thesis by (intro exI [of _ call] conjI)
qed

text \<open>A node that takes one call only gives the same result.\<close>

lemma patch_is_sent_as_signed_witness:
  "(\<exists>p call. build_executor_patch open_world open_projections 0 ''i'' ''1:a:p:o:h'' assign_request = Inr p
      \<and> pcl_message (call ''b'') = pt_message (xp_typedData p)
      \<and> pcl_previousExecutorSignature (call ''b'') = Some ''0xaa''
      \<and> patch_broadcast STAGE_EXECUTOR_PATCH_BROADCAST_LABELS
          (patch_node\<lparr>pb_writeContract := \<lambda>c. if c \<in> range call then Inr ''0xff'' else Inr []\<rparr>) patch_relayer 0
          (patch_request_of \<lparr>pct_patch = p, pct_evidence = pct_evidence handoff_context\<rparr>)
        = patch_broadcast STAGE_EXECUTOR_PATCH_BROADCAST_LABELS patch_node patch_relayer 0
          (patch_request_of \<lparr>pct_patch = p, pct_evidence = pct_evidence handoff_context\<rparr>))
   \<and> (\<exists>p call. build_resource_patch open_world open_projections 0 ''i'' ''1:a:p:o:h'' resource_request = Inr p
      \<and> pcl_message (call ''b'' :: resource_message patch_call) = pt_message (rp_typedData p)
      \<and> pcl_previousExecutorSignature (call ''b'') = None)"
proof -
  obtain p p' where b: "build_executor_patch open_world open_projections 0 ''i'' ''1:a:p:o:h'' assign_request = Inr p"
    "build_resource_patch open_world open_projections 0 ''i'' ''1:a:p:o:h'' resource_request = Inr p'"
    using open_builds by metis
  let ?x = "\<lparr>pct_patch = p, pct_evidence = pct_evidence handoff_context\<rparr>"
  let ?y = "\<lparr>pct_patch = p', pct_evidence = pct_evidence handoff_context\<rparr>"
  have "bindings_ok (pe_bindings open_world)" by (simp add: open_simps short_bindings_ok)
  note facts = patch_is_sent_as_signed [OF this, where ps = open_projections and t = 0 and i = "''i''"
    and taskId = "''1:a:p:o:h''" and inp = assign_request and p = p and x = ?x and cfg = patch_relayer
    and N = patch_node and now = 0 and inp' = resource_request and p' = p' and x' = ?y and N' = patch_node]
  have written: "pb_writeContract patch_node c = Inr ''0xff''" for c :: "'a patch_call"
    by (simp add: patch_node_def)
  have previous: "verified_previous_signature (pct_evidence handoff_context) = ''0xaa''"
    by (simp add: verified_previous_signature_def handoff_context_def)
  have x: "pct_patch ?x = p" by simp
  have "\<exists>call :: string \<Rightarrow> _. (\<forall>m. pcl_message (call m) = pt_message (xp_typedData p) \<and> pcl_previousExecutorSignature (call m) = Some ''0xaa'')
      \<and> (\<forall>w. (\<forall>m. w (call m) = pb_writeContract patch_node (call m)) \<longrightarrow>
      patch_broadcast STAGE_EXECUTOR_PATCH_BROADCAST_LABELS (patch_node\<lparr>pb_writeContract := w\<rparr>) patch_relayer 0 (patch_request_of ?x)
        = patch_broadcast STAGE_EXECUTOR_PATCH_BROADCAST_LABELS patch_node patch_relayer 0 (patch_request_of ?x))"
    by (rule whatever_the_module [OF facts [THEN conjunct1, rule_format, OF conjI [OF b(1) x]]]) (simp add: previous)
  then obtain call :: "string \<Rightarrow> executor_message patch_call" where call:
    "(\<forall>m. pcl_message (call m) = pt_message (xp_typedData p) \<and> pcl_previousExecutorSignature (call m) = Some ''0xaa'')
      \<and> (\<forall>w. (\<forall>m. w (call m) = pb_writeContract patch_node (call m)) \<longrightarrow>
      patch_broadcast STAGE_EXECUTOR_PATCH_BROADCAST_LABELS (patch_node\<lparr>pb_writeContract := w\<rparr>) patch_relayer 0 (patch_request_of ?x)
        = patch_broadcast STAGE_EXECUTOR_PATCH_BROADCAST_LABELS patch_node patch_relayer 0 (patch_request_of ?x))" ..
  have y: "pct_patch ?y = p'" by simp
  have "\<exists>call :: string \<Rightarrow> _. (\<forall>m. pcl_message (call m) = pt_message (rp_typedData p') \<and> pcl_previousExecutorSignature (call m) = None)
      \<and> (\<forall>w. (\<forall>m. w (call m) = pb_writeContract patch_node (call m)) \<longrightarrow>
      patch_broadcast STAGE_RESOURCE_PATCH_BROADCAST_LABELS (patch_node\<lparr>pb_writeContract := w\<rparr>) patch_relayer 0 (patch_request_of ?y)
        = patch_broadcast STAGE_RESOURCE_PATCH_BROADCAST_LABELS patch_node patch_relayer 0 (patch_request_of ?y))"
    by (rule whatever_the_module [OF facts [THEN conjunct2, rule_format, OF conjI [OF b(2) y]]]) simp
  then obtain call' :: "string \<Rightarrow> resource_message patch_call" where call':
    "(\<forall>m. pcl_message (call' m) = pt_message (rp_typedData p') \<and> pcl_previousExecutorSignature (call' m) = None)
      \<and> (\<forall>w. (\<forall>m. w (call' m) = pb_writeContract patch_node (call' m)) \<longrightarrow>
      patch_broadcast STAGE_RESOURCE_PATCH_BROADCAST_LABELS (patch_node\<lparr>pb_writeContract := w\<rparr>) patch_relayer 0 (patch_request_of ?y)
        = patch_broadcast STAGE_RESOURCE_PATCH_BROADCAST_LABELS patch_node patch_relayer 0 (patch_request_of ?y))" ..
  show ?thesis
    by (intro conjI exI [of _ p] exI [of _ call] exI [of _ p'] exI [of _ call'])
      (use b call call' in \<open>simp_all add: written\<close>)
qed

section \<open>Orders of two plans\<close>

text \<open>
  The same state machine holds an order \<open>o\<close> of plan \<open>p\<close> and one of plan \<open>q\<close>. The task of the
  second one, asked for by the key that names its plan, comes with the order of the first.
\<close>

definition twin_projections :: projection_store where
  "twin_projections = empty_projection_store\<lparr>ps_snapshot := createEmptyProjectionSnapshot
     \<lparr>sn_stateMachineOrders := [(''1:a:p:o'', patched_order),
        (''1:a:q:o'', patched_order\<lparr>or_planId := ''q'', or_tasks := [(''a:o:h'', sample_task\<lparr>tk_planId := Some ''q''\<rparr>)]\<rparr>)],
      sn_stateMachineTasks := [(''1:a:p:o:h'', sample_task), (''1:a:q:o:h'', sample_task\<lparr>tk_planId := Some ''q''\<rparr>)]\<rparr>\<rparr>"

lemma task_of_a_plan_meets_the_order_of_another:
  "\<exists>task order. resolveSelectorTaskContext twin_projections ''1:a:q:o:h'' = Inr (task, order)
    \<and> tk_planId task = Some ''q'' \<and> or_planId order = ''p''"
proof -
  have "getStateMachineTask ''1:a:q:o:h'' twin_projections = Some (sample_task\<lparr>tk_planId := Some ''q''\<rparr>)"
    using lower_key by (simp add: getStateMachineTask_def twin_projections_def Let_def opt_or_def)
  then show ?thesis
    by (simp add: resolveSelectorTaskContext_def listStateMachineOrders_def twin_projections_def) (simp add: sample_task_def)
qed

text \<open>Nor does the key of a nonce name the plan: patches for such orders hold each other up.\<close>

lemma nonce_of_a_plan_blocks_another:
  assumes "build_executor_patch E ps t i task inp = Inr p" and "build_executor_patch E ps' t' i' task' inp' = Inr p'"
    and "pp_stateMachineAddress p = pp_stateMachineAddress p'" and "pp_orderId p = pp_orderId p'"
    and "pp_targetStageId p = pp_targetStageId p'" and "pp_patchNonce p = pp_patchNonce p'"
  shows "pp_nonceKey p = pp_nonceKey p'"
  using assms by (auto simp: build_executor_patch_def bindR_Inr_iff Let_def)

end
