(* ===== verification/Spec2Isabelle.thy ===== *)
theory Spec2Isabelle imports Isolation IdentityFacts ReconcileSamples BroadcastAdapter IndexerSamples NotifySamples PatchSamples begin

text \<open>
  A verification development for the chain services (\<open>service/src\<close>): a service that reads the
  events of a state machine from a chain, projects them into orders, tasks and identities, and
  relays signed submissions back. What it keeps is a cache: the chain is the source of truth, so
  most properties below say that what the service shows or sends is determined by the chain,
  whatever the order of deliveries, failures and restarts.

  \<^bold>\<open>Parts and how they interact.\<close> The indexer reads a range of events from the node, appends
  them to a durable event table, replays the active events of the table into snapshots (orders
  with their stages, hooks, tasks, signals and docks; deployments; identity bindings), and moves
  a cursor, all in one transaction; then it hands signals to the notification service and, if
  that fails, queues them. A reorganisation rolls the table back to a common ancestor. The
  submission service and the stage patch services prepare typed data from the projections, check
  the signature and the present projection, reserve a nonce in their store, call a broadcast
  adapter and archive its outcome; the adapter of submissions is wrapped by one that limits,
  retries and de-duplicates. The reconcile worker pages through what is open in the stores and
  settles it by receipts and projections.

  \<^bold>\<open>Foundations.\<close> \<open>Prelude\<close>: results of throwing code, JavaScript maps as association lists in
  insertion order. \<open>Strings\<close>, \<open>Dates\<close>: decimal numbers, lower casing, composite keys,
  \<open>localeCompare\<close>, ISO times; texts of times are ordered as the times are in the years 0 to
  9999. \<open>Sorting\<close>: \<open>Array.prototype.sort\<close> and the contract of comparators as a locale,
  interpreted on every comparator of the code. \<open>JsValue\<close>: decoded event arguments and the
  conversions applied to them. \<open>Effects\<close>: asynchronous actions that change state and may throw,
  with weakest preconditions. \<open>KeysetScan\<close>: paged scans behind a cursor, also where the store is
  written meanwhile, as locales interpreted on the stores.

  \<^bold>\<open>Projections\<close> (\<open>indexer/events.ts\<close>, \<open>replay.ts\<close>, \<open>projections/*.ts\<close>,
  \<open>identity-projections.ts\<close>). \<open>ChainEvents\<close>, \<open>ActiveEvents\<close>: positions, the sort, the pass over
  tombstones. \<open>ProofFacts\<close>, \<open>ProjectionState\<close>, \<open>Deployments\<close>, \<open>Orders\<close>, \<open>Tasks\<close>, \<open>Plans\<close>,
  \<open>Signals\<close>, \<open>Stages\<close>, \<open>Docking\<close>: one theory per file of \<open>projections/\<close>, a definition per
  function under its name. \<open>Replay\<close>, \<open>Identity\<close>: the loops. \<open>Buckets\<close>, \<open>Steps\<close>, \<open>Refinement\<close>:
  every handler is a sequence of atomic changes of orders; this abstraction only serves to prove
  invariants once, in the locales of \<open>Invariants\<close>, from which \<open>Trails\<close>, \<open>TaskFacts\<close>,
  \<open>Evolution\<close> follow. \<open>Streams\<close>, \<open>Snapshots\<close>, \<open>Histories\<close>, \<open>Registry\<close>, \<open>Isolation\<close>,
  \<open>IdentityFacts\<close>: what holds of streams, snapshots, time, registries, orders side by side and
  identities. \<open>ProjectionStore\<close> is the in-memory store of snapshots
  (\<open>storage/projection-store.ts\<close>).

  \<^bold>\<open>Indexer\<close> (\<open>indexer/service.ts\<close>, \<open>storage/sqlite-projection-store.ts\<close>, \<open>storage/json.ts\<close>).
  \<open>StorageJson\<close>: the text of stored values and its round trip. \<open>EventLog\<close>, \<open>EventLogFacts\<close>,
  \<open>LogKeys\<close>: the event table, its refinement of a list of deliveries and of a map of log
  positions. \<open>DurableStore\<close>: the other tables. \<open>IndexerState\<close>, \<open>Indexer\<close>, \<open>IndexerRuns\<close>: the
  service as actions; the state is the store, the cursor in memory, the count of refused cursor
  writes and the world outside, and every write outside a transaction and every transaction adds
  the store to the list of those a crash may leave. \<open>ChainViews\<close>, \<open>QuietSteps\<close>, \<open>StoreSteps\<close>,
  \<open>IndexerFacts\<close>, \<open>IndexerRounds\<close>: what a node shows, what a store covers, what each write does
  to coverage. \<open>QueueFacts\<close>, \<open>IndexerClaims\<close>: the queue, the cursor, refreshes, crashes. Writes of
  the queue may be refused by the database (\<open>ie_queueWrite\<close>); the other writes succeed, or the
  transaction they are in is abandoned where a call of the node or a processor throws.

  \<^bold>\<open>Notifications\<close> (\<open>notifications/service.ts\<close>, \<open>profile.ts\<close>). \<open>NotificationProfiles\<close>,
  \<open>Notifications\<close>, \<open>NotifyService\<close>: profiles, the ledger of deliveries, the operations;
  \<open>NotifyFacts\<close>, \<open>NotifyClaims\<close>: the life of a row as a state machine, messages bounded, rows
  marked by a rollback.

  \<^bold>\<open>Submissions\<close> (\<open>submissions/*.ts\<close>). \<open>SubmissionTypes\<close>, \<open>SubmissionStore\<close>: data and in-memory
  store, with the contract of nonce tables as a locale. \<open>SecureBroadcast\<close>, \<open>BroadcastSafety\<close>:
  the wrapper, cut at its awaits into segments that interleave with those of other calls.
  \<open>BroadcastAdapter\<close>: the adapter. \<open>Submissions\<close>, \<open>SubmissionFacts\<close>: the service; a submission is
  cut in two at the broadcast, and the two parts of different submissions interleave. The part
  up to the reservation is one step: what it awaits before are reads, and the reservation is
  decided by the store alone in one operation, so that interleaving these reads cannot make two
  submissions hold a nonce.

  \<^bold>\<open>Stage patches\<close> (\<open>stage-patches/*.ts\<close>). \<open>PatchStore\<close>, \<open>PatchRules\<close>, \<open>PatchAccess\<close>,
  \<open>PatchService\<close>, \<open>PatchSubmit\<close>, \<open>PatchBroadcast\<close>: data and store, the rules of the modes
  (assign, handoff, replacement), who may select, preparing, submitting in two parts, sending.
  \<open>PatchClaims\<close>: what reaches the broadcaster, bounds, no second sending.

  \<^bold>\<open>Reconciliation\<close> (\<open>reconcile/worker.ts\<close>, \<open>product/query/bff/store.ts\<close>,
  \<open>governance/store.ts\<close>). \<open>ProductStore\<close>, \<open>GovernanceStore\<close>, \<open>Reconcile\<close>: the stores, the
  outcome of a record, the pass; \<open>ReconcileScans\<close>, \<open>ReconcileFacts\<close>: that the pass ends although
  it writes to what it scans, and that nothing is confirmed without an event.

  \<^bold>\<open>Samples.\<close> \<open>Samples\<close>, \<open>SubmissionSamples\<close>, \<open>ReconcileSamples\<close>, \<open>IndexerSamples\<close>, \<open>NotifySamples\<close>,
  \<open>PatchSamples\<close> apply the properties to concrete streams, services, nodes and ledgers. Some
  lemmas there and elsewhere show faults of the code on an example: a plan registered on one
  chain changes orders of another, a reorganisation below a cursor without stored events is
  ignored, a failed rebuild withdraws a queued batch, a task of one plan meets the order of
  another.

  \<^bold>\<open>Bounds and fuel.\<close> Loops over lists are structural recursion. A notification step has three
  attempts, the recursion depth of \<open>attempt_step\<close> is that number. \<open>JSON.parse\<close> is a reader whose
  depth is bounded by twice the length of the text; the round trip shows that this suffices for what
  was written. The walks of the reconcile worker are partial
  functions and the eviction of prepared patches is a \<open>while_option\<close>; both are shown to return. A
  step leaves the queue when it is delivered or at its sixteenth failed pass, an identifier gets
  five messages unless an operator asks for more, the third refused cursor write in a row is an
  error, the table of prepared patches holds five thousand
  rows. Numbers of the chain are big integers in the code and integers here.

  \<^bold>\<open>Parameters.\<close> Code that is not in the repository is an argument of the definitions that use it:
  the canonical forms of addresses and words and typed data of \<open>@uvp-eth/protocol-bindings\<close>
  (\<open>bindings\<close>, with \<open>bindings_ok\<close> for the documented form of their results), hashes and signature
  recovery of viem, the RPC clients, the shared broadcast kit, the compiled plans, the product
  schemas; likewise clocks, random identifiers, message redaction.

  \<^bold>\<open>Left out.\<close> HTTP, configuration, audit records, log lines, opening and migrating databases, the
  PostgreSQL variants of stores (SQL over the interfaces modelled here), evidence storage, the
  product application and its queries, the merchant console, the decoding of logs with viem,
  governance transactions, dock automation.
\<close>

end
